(* ===== verification/Prelude.thy ===== *)
theory Prelude
  imports Main "HOL-Library.Word"
begin

text \<open>
  Shared vocabulary of the development: the C integer types as words, the error codes of
  qdma_access_errors.h, the two results an access function returns, and generic lemmas on
  words, options and lists that the component theories use.
  The collection field_simps gathers the rewrite rules for packed register fields,
  rm_simps the unfolding rules of the resource manager, io_simps those of register I/O.
\<close>

unbundle bit_operations_syntax

named_theorems field_simps "rewrite rules for packed register fields"
named_theorems io_simps "register input and output, unfolded one step"
named_theorems rm_simps "resource manager operations, unfolded one step"

section \<open>C integer types\<close>

type_synonym u8 = "8 word"
type_synonym u16 = "16 word"
type_synonym u32 = "32 word"
type_synonym u64 = "64 word"

section \<open>Error codes\<close>

text \<open>
  The library returns 0 or the negated code as an int. The names and the order are those
  of enum qdma_access_error_codes.
\<close>

datatype qdma_access_error =
    QDMA_SUCCESS | QDMA_ERR_INV_PARAM | QDMA_ERR_NO_MEM | QDMA_ERR_HWACC_BUSY_TIMEOUT
  | QDMA_ERR_HWACC_INV_CONFIG_BAR | QDMA_ERR_HWACC_NO_PEND_LEGCY_INTR
  | QDMA_ERR_HWACC_BAR_NOT_FOUND | QDMA_ERR_HWACC_FEATURE_NOT_SUPPORTED
  | QDMA_ERR_RM_RES_EXISTS | QDMA_ERR_RM_RES_NOT_EXISTS | QDMA_ERR_RM_DEV_EXISTS
  | QDMA_ERR_RM_DEV_NOT_EXISTS | QDMA_ERR_RM_NO_QUEUES_LEFT | QDMA_ERR_RM_QMAX_CONF_REJECTED
  | QDMA_ERR_MBOX_FMAP_WR_FAILED | QDMA_ERR_MBOX_NUM_QUEUES | QDMA_ERR_MBOX_INV_QID
  | QDMA_ERR_MBOX_INV_RINGSZ | QDMA_ERR_MBOX_INV_BUFSZ | QDMA_ERR_MBOX_INV_CNTR_TH
  | QDMA_ERR_MBOX_INV_TMR_TH | QDMA_ERR_MBOX_INV_MSG | QDMA_ERR_MBOX_SEND_BUSY
  | QDMA_ERR_MBOX_NO_MSG_IN | QDMA_ERR_MBOX_REG_READ_FAILED | QDMA_ERR_MBOX_ALL_ZERO_MSG

primrec err_code :: "qdma_access_error \<Rightarrow> int" where
  "err_code QDMA_SUCCESS = 0"
| "err_code QDMA_ERR_INV_PARAM = 1"
| "err_code QDMA_ERR_NO_MEM = 2"
| "err_code QDMA_ERR_HWACC_BUSY_TIMEOUT = 3"
| "err_code QDMA_ERR_HWACC_INV_CONFIG_BAR = 4"
| "err_code QDMA_ERR_HWACC_NO_PEND_LEGCY_INTR = 5"
| "err_code QDMA_ERR_HWACC_BAR_NOT_FOUND = 6"
| "err_code QDMA_ERR_HWACC_FEATURE_NOT_SUPPORTED = 7"
| "err_code QDMA_ERR_RM_RES_EXISTS = 8"
| "err_code QDMA_ERR_RM_RES_NOT_EXISTS = 9"
| "err_code QDMA_ERR_RM_DEV_EXISTS = 10"
| "err_code QDMA_ERR_RM_DEV_NOT_EXISTS = 11"
| "err_code QDMA_ERR_RM_NO_QUEUES_LEFT = 12"
| "err_code QDMA_ERR_RM_QMAX_CONF_REJECTED = 13"
| "err_code QDMA_ERR_MBOX_FMAP_WR_FAILED = 14"
| "err_code QDMA_ERR_MBOX_NUM_QUEUES = 15"
| "err_code QDMA_ERR_MBOX_INV_QID = 16"
| "err_code QDMA_ERR_MBOX_INV_RINGSZ = 17"
| "err_code QDMA_ERR_MBOX_INV_BUFSZ = 18"
| "err_code QDMA_ERR_MBOX_INV_CNTR_TH = 19"
| "err_code QDMA_ERR_MBOX_INV_TMR_TH = 20"
| "err_code QDMA_ERR_MBOX_INV_MSG = 21"
| "err_code QDMA_ERR_MBOX_SEND_BUSY = 22"
| "err_code QDMA_ERR_MBOX_NO_MSG_IN = 23"
| "err_code QDMA_ERR_MBOX_REG_READ_FAILED = 24"
| "err_code QDMA_ERR_MBOX_ALL_ZERO_MSG = 25"

text \<open>The value \<open>-QDMA_ERR_X\<close> a function returns for an error.\<close>

abbreviation neg_err :: "qdma_access_error \<Rightarrow> int" where
  "neg_err e \<equiv> - err_code e"

lemma err_code_nonneg [simp]: "0 \<le> err_code e"
  by (cases e) simp_all

lemma err_code_eq_0 [simp]: "err_code e = 0 \<longleftrightarrow> e = QDMA_SUCCESS"
  by (cases e) simp_all

lemma err_code_inject: "err_code a = err_code b \<Longrightarrow> a = b"
  by (cases a; cases b; simp)

section \<open>Words\<close>

lemma ucast_take_ucast [field_simps]:
  "LENGTH('a) \<le> LENGTH('b) \<Longrightarrow>
   ucast (take_bit n (ucast (v :: 'a::len word) :: 'b::len word)) = (take_bit n v :: 'a word)"
  by (intro bit_word_eqI) (auto simp: bit_simps)

lemma take_bit_word_full [field_simps]:
  "LENGTH('a) \<le> n \<Longrightarrow> take_bit n (v :: 'a::len word) = v"
  by (intro bit_word_eqI) (auto simp: bit_simps dest: bit_imp_le_length)

lemma ucast_mod_2 [field_simps]:
  "LENGTH('a) \<le> LENGTH('b) \<Longrightarrow>
   ucast ((ucast (v :: 'a::len word) :: 'b::len word) mod 2) = (v mod 2 :: 'a word)"
  using ucast_take_ucast [of 1 v, where 'b = 'b] by simp

lemma bit_word_mod_2 [field_simps]: "v mod 2 = (v :: 1 word)"
  using take_bit_word_full [of 1 v] by simp

lemma ucast_zero_word [field_simps]: "ucast (0 :: 'a::len word) = (0 :: 'b::len word)"
  by simp

section \<open>Lists\<close>

lemma list_eq_nth_upt: "length xs = n \<Longrightarrow> map ((!) xs) [0..<n] = xs"
  using map_nth [of xs] by simp

end
