(* ===== verification/QdmaField.thy ===== *)
theory QdmaField
  imports Prelude
begin

text \<open>
  The register field macros of qdma_access_common.h and the register headers: GENMASK and
  BIT build a mask, FIELD_SHIFT finds its lowest set bit with get_trailing_zeros,
  FIELD_SET moves a value under a mask and FIELD_GET reads it back. The C macros are
  untyped: the same text is used at 32 bits and, with the ULL masks, at 64 bits, so the
  definitions are polymorphic in the word length. A C shift of a promoted int is the
  shift on the unsigned word: only the bits under the mask are kept.
\<close>

section \<open>The macros\<close>

text \<open>One test of the binary search: if no bit of m is set, skip k bits.\<close>

definition ctz_step :: "u64 \<Rightarrow> nat \<Rightarrow> u32 \<times> u64 \<Rightarrow> u32 \<times> u64" where
  "ctz_step m k = (\<lambda>(pos, value).
     if value AND m = 0 then (pos + of_nat k, drop_bit k value) else (pos, value))"

definition get_trailing_zeros :: "u64 \<Rightarrow> u32" where
  "get_trailing_zeros value0 =
     (let (pos, value) = ctz_step 0x3 2 (ctz_step 0xf 4 (ctz_step 0xff 8
                           (ctz_step 0xffff 16 (ctz_step 0xffffffff 32 (0, value0)))))
      in if value AND 0x1 = 0 then pos + 1 else pos)"

text \<open>
  The variant compiled under GCC_COMPILER. The builtin returns one plus the index of the
  least significant set bit, and zero for zero; the result is stored in a uint32_t.
\<close>

definition builtin_ffsll :: "u64 \<Rightarrow> nat" where
  "builtin_ffsll x =
     (if x = 0 then 0 else Suc (length (takeWhile (\<lambda>n. \<not> bit x n) [0..<64])))"

definition get_trailing_zeros_gcc :: "u64 \<Rightarrow> u32" where
  "get_trailing_zeros_gcc x = of_nat (builtin_ffsll x) - 1"

definition GENMASK :: "nat \<Rightarrow> nat \<Rightarrow> 'a::len word" where
  "GENMASK h l = push_bit l (NOT 0) AND drop_bit (LENGTH('a) - 1 - h) (NOT 0)"

definition BIT :: "nat \<Rightarrow> u32" where
  "BIT n = push_bit n 1"

definition FIELD_SHIFT :: "'a::len word \<Rightarrow> nat" where
  "FIELD_SHIFT m = unat (get_trailing_zeros (ucast m))"

definition FIELD_SET :: "'a::len word \<Rightarrow> 'a word \<Rightarrow> 'a word" where
  "FIELD_SET m v = push_bit (FIELD_SHIFT m) v AND m"

definition FIELD_GET :: "'a::len word \<Rightarrow> 'a word \<Rightarrow> 'a word" where
  "FIELD_GET m r = drop_bit (FIELD_SHIFT m) (r AND m)"

section \<open>The lowest set bit\<close>

definition lowest_bit :: "'a::len word \<Rightarrow> nat \<Rightarrow> bool" where
  "lowest_bit x t \<longleftrightarrow> bit x t \<and> (\<forall>n<t. \<not> bit x n)"

lemma and_mask_eq_0: "x AND mask k = 0 \<longleftrightarrow> (\<forall>n<k. \<not> bit x n)" for x :: "'a::len word"
  by (auto simp: bit_eq_iff bit_simps) (meson bit_imp_le_length le_less_trans not_le)

lemma ctz_step_lowest:
  assumes "lowest_bit v t" "t < 2 * k" "m = mask k" "t \<le> n"
  shows "\<exists>v' t'. ctz_step m k (of_nat (n - t), v) = (of_nat (n - t'), v') \<and>
    lowest_bit v' t' \<and> t' \<le> n \<and> t' < k"
proof (cases "v AND m = 0")
  case True
  then have "k \<le> t"
    using assms by (auto simp: and_mask_eq_0 lowest_bit_def) (meson not_le)
  moreover from this have "of_nat (n - t) + of_nat k = (of_nat (n - (t - k)) :: u32)"
    using assms by (simp flip: of_nat_add)
  ultimately show ?thesis
    using True assms
    by (intro exI [of _ "drop_bit k v"] exI [of _ "t - k"])
       (auto simp: ctz_step_def lowest_bit_def bit_simps)
next
  case False
  then have "t < k"
    using assms by (auto simp: and_mask_eq_0 lowest_bit_def) (metis linorder_neqE_nat order_less_trans)
  with False assms show ?thesis
    by (intro exI [of _ v] exI [of _ t]) (auto simp: ctz_step_def)
qed

lemma ctz_masks:
  "0x3 = (mask 2 :: u64)" "0xf = (mask 4 :: u64)" "0xff = (mask 8 :: u64)"
  "0xffff = (mask 16 :: u64)" "0xffffffff = (mask 32 :: u64)"
  by (simp_all add: mask_eq_exp_minus_1)

lemma get_trailing_zeros_lowest:
  assumes "lowest_bit x t"
  shows "get_trailing_zeros x = of_nat t"
proof -
  have t: "t < 2 * 32"
    using assms bit_imp_le_length by (fastforce simp: lowest_bit_def)
  obtain v1 t1 where 1: "ctz_step 0xffffffff 32 (of_nat (t - t), x) = (of_nat (t - t1), v1)"
    "lowest_bit v1 t1" "t1 \<le> t" "t1 < 2 * 16"
    using ctz_step_lowest [OF assms t ctz_masks(5) order_refl] by auto
  obtain v2 t2 where 2: "ctz_step 0xffff 16 (of_nat (t - t1), v1) = (of_nat (t - t2), v2)"
    "lowest_bit v2 t2" "t2 \<le> t" "t2 < 2 * 8"
    using ctz_step_lowest [OF 1(2,4) ctz_masks(4) 1(3)] by auto
  obtain v3 t3 where 3: "ctz_step 0xff 8 (of_nat (t - t2), v2) = (of_nat (t - t3), v3)"
    "lowest_bit v3 t3" "t3 \<le> t" "t3 < 2 * 4"
    using ctz_step_lowest [OF 2(2,4) ctz_masks(3) 2(3)] by auto
  obtain v4 t4 where 4: "ctz_step 0xf 4 (of_nat (t - t3), v3) = (of_nat (t - t4), v4)"
    "lowest_bit v4 t4" "t4 \<le> t" "t4 < 2 * 2"
    using ctz_step_lowest [OF 3(2,4) ctz_masks(2) 3(3)] by auto
  obtain v5 t5 where 5: "ctz_step 0x3 2 (of_nat (t - t4), v4) = (of_nat (t - t5), v5)"
    "lowest_bit v5 t5" "t5 \<le> t" "t5 < 2"
    using ctz_step_lowest [OF 4(2,4) ctz_masks(1) 4(3)] by auto
  have steps: "ctz_step 0x3 2 (ctz_step 0xf 4 (ctz_step 0xff 8 (ctz_step 0xffff 16
      (ctz_step 0xffffffff 32 (0, x))))) = (of_nat (t - t5), v5)"
    using 1(1) 2(1) 3(1) 4(1) 5(1) by simp
  have "v5 AND 1 = 0 \<longleftrightarrow> t5 = 1"
    using 5 and_mask_eq_0 [of v5 1] by (cases t5) (auto simp: lowest_bit_def less_Suc_eq)
  moreover have "t5 = 1 \<Longrightarrow> of_nat (t - t5) + 1 = (of_nat t :: u32)"
    using 5(3) by (cases t) (simp_all add: add.commute)
  moreover have "t5 = 0 \<or> t5 = 1" using 5 by auto
  ultimately show ?thesis
    by (auto simp: get_trailing_zeros_def steps)
qed

lemma lowest_bit_exists: "x \<noteq> 0 \<Longrightarrow> \<exists>t. lowest_bit x t"
  unfolding lowest_bit_def using exists_least_iff [of "bit x"] by (auto simp: bit_eq_iff)

lemma lowest_bit_length: "lowest_bit x t \<Longrightarrow> t < LENGTH('a)" for x :: "'a::len word"
  by (auto simp: lowest_bit_def dest: bit_imp_le_length)

lemma takeWhile_upt_least:
  assumes "t < n" "P t" "\<forall>i<t. \<not> P i"
  shows "length (takeWhile (\<lambda>i. \<not> P i) [0..<n]) = t"
proof -
  have "[0..<n] = [0..<t] @ t # [Suc t..<n]"
    using assms(1) by (metis le_add_diff_inverse less_imp_le upt_add_eq_append upt_conv_Cons le0)
  moreover have "takeWhile (\<lambda>i. \<not> P i) ([0..<t] @ t # [Suc t..<n]) = [0..<t]"
    using assms by (subst takeWhile_append2) auto
  ultimately show ?thesis by simp
qed

lemma builtin_ffsll_lowest: "lowest_bit x t \<Longrightarrow> builtin_ffsll x = Suc t"
  using lowest_bit_length [of x t] takeWhile_upt_least [of t 64 "bit x"]
  by (auto simp: builtin_ffsll_def lowest_bit_def)

section \<open>Masks, set and get\<close>

lemma bit_GENMASK:
  assumes "h < LENGTH('a)"
  shows "bit (GENMASK h l :: 'a::len word) n \<longleftrightarrow> l \<le> n \<and> n \<le> h \<and> n < LENGTH('a)"
  using assms by (auto simp: GENMASK_def bit_simps)

lemma BIT_GENMASK [field_simps]: "n < 32 \<Longrightarrow> BIT n = GENMASK n n"
  by (intro bit_word_eqI) (auto simp: BIT_def bit_GENMASK bit_simps)

lemma FIELD_SHIFT_GENMASK:
  assumes "l \<le> h" "h < LENGTH('a::len)" "LENGTH('a) \<le> 64"
  shows "FIELD_SHIFT (GENMASK h l :: 'a word) = l"
proof -
  have "lowest_bit (ucast (GENMASK h l :: 'a word) :: u64) l"
    using assms by (auto simp: lowest_bit_def bit_simps bit_GENMASK)
  with assms show ?thesis
    by (simp add: FIELD_SHIFT_def get_trailing_zeros_lowest unat_of_nat)
qed

lemma FIELD_SET_GENMASK:
  assumes "l \<le> h" "h < LENGTH('a::len)" "LENGTH('a) \<le> 64"
  shows "FIELD_SET (GENMASK h l :: 'a word) v = push_bit l (take_bit (Suc h - l) v)"
  using assms by (intro bit_word_eqI)
    (auto simp: FIELD_SET_def FIELD_SHIFT_GENMASK bit_simps bit_GENMASK)

lemma FIELD_GET_GENMASK:
  assumes "l \<le> h" "h < LENGTH('a::len)" "LENGTH('a) \<le> 64"
  shows "FIELD_GET (GENMASK h l :: 'a word) r = take_bit (Suc h - l) (drop_bit l r)"
  using assms by (intro bit_word_eqI)
    (auto simp: FIELD_GET_def FIELD_SHIFT_GENMASK bit_simps bit_GENMASK)

lemma FIELD_GET_or [field_simps]: "FIELD_GET m (a OR b) = FIELD_GET m a OR FIELD_GET m b"
  by (intro bit_word_eqI) (auto simp: FIELD_GET_def bit_simps)

lemma FIELD_GET_SET_same [field_simps]:
  assumes "l \<le> h" "h < LENGTH('a::len)" "LENGTH('a) \<le> 64"
  shows "FIELD_GET (GENMASK h l :: 'a word) (FIELD_SET (GENMASK h l) v) = take_bit (Suc h - l) v"
  using assms by (intro bit_word_eqI) (auto simp: FIELD_GET_GENMASK FIELD_SET_GENMASK bit_simps)

lemma FIELD_GET_SET_other [field_simps]:
  assumes "h < l' \<or> h' < l" "l \<le> h" "h < LENGTH('a::len)" "l' \<le> h'" "h' < LENGTH('a)"
    "LENGTH('a) \<le> 64"
  shows "FIELD_GET (GENMASK h l :: 'a word) (FIELD_SET (GENMASK h' l') v) = 0"
  using assms by (intro bit_word_eqI) (auto simp: FIELD_GET_GENMASK FIELD_SET_GENMASK bit_simps)

text \<open>A value cut into parts by several masks and reassembled keeps the bits of the masks.\<close>

lemma FIELD_SET_GET_part:
  assumes "l \<le> h" "h < LENGTH('a::len)" "LENGTH('a) \<le> 64"
  shows "FIELD_SET (GENMASK h l :: 'a word) (FIELD_GET (GENMASK h l) v) = v AND GENMASK h l"
  using assms
  by (intro bit_word_eqI) (auto simp: FIELD_GET_GENMASK FIELD_SET_GENMASK bit_GENMASK bit_simps)

lemma take_bit_FIELD_GET:
  assumes "Suc h - l \<le> w" "l \<le> h" "h < LENGTH('a::len)" "LENGTH('a) \<le> 64"
  shows "take_bit w (FIELD_GET (GENMASK h l :: 'a word) v) = FIELD_GET (GENMASK h l) v"
  using assms by (intro bit_word_eqI) (auto simp: FIELD_GET_GENMASK bit_simps)

text \<open>A part of a 64-bit value on its way through a 32-bit local and a register field.\<close>

lemma part_64_32:
  assumes "Suc h - l \<le> w" "w \<le> 32" "l \<le> h" "h < 64"
  shows "ucast (take_bit w (ucast (FIELD_GET (GENMASK h l :: u64) v) :: u32)) =
    FIELD_GET (GENMASK h l :: u64) v"
  using assms by (intro bit_word_eqI) (auto simp: FIELD_GET_GENMASK bit_simps)

lemma part_32_64:
  assumes "l \<le> h" "h < 32"
  shows "FIELD_SET (ucast (GENMASK h l :: u32) :: u64) (ucast (FIELD_GET (GENMASK h l :: u32) v)) =
    ucast (v AND GENMASK h l)"
proof -
  have "(ucast (GENMASK h l :: u32) :: u64) = GENMASK h l"
    using assms by (intro bit_word_eqI) (auto simp: bit_simps bit_GENMASK)
  with assms show ?thesis
    by (intro bit_word_eqI) (auto simp: FIELD_SET_GENMASK FIELD_GET_GENMASK bit_GENMASK bit_simps)
qed

lemma AND_GENMASK_join:
  assumes "l' = Suc h" "l \<le> l'" "h < h'" "h' < LENGTH('a::len)"
  shows "(v AND GENMASK h l) OR (v AND GENMASK h' l') = (v AND GENMASK h' l :: 'a word)"
    "(v AND GENMASK h' l') OR (v AND GENMASK h l) = (v AND GENMASK h' l :: 'a word)"
  using assms by (auto intro!: bit_word_eqI simp: bit_simps bit_GENMASK)

lemma AND_GENMASK_join3:
  assumes "l2 = Suc h1" "l1 = Suc h3" "l3 \<le> h3" "l1 \<le> h1" "l2 \<le> h2" "h2 < LENGTH('a::len)"
  shows "(v AND GENMASK h1 l1) OR ((v AND GENMASK h2 l2) OR (v AND GENMASK h3 l3)) =
    (v AND GENMASK h2 l3 :: 'a word)"
  using assms by (auto intro!: bit_word_eqI simp: bit_simps bit_GENMASK)

lemma AND_GENMASK_low:
  "h < LENGTH('a::len) \<Longrightarrow> v AND GENMASK h 0 = (take_bit (Suc h) v :: 'a word)"
  by (intro bit_word_eqI) (auto simp: bit_simps bit_GENMASK dest: bit_imp_le_length)

lemma part_64_32_full:
  assumes "Suc h - l \<le> 32" "l \<le> h" "h < 64"
  shows "ucast (ucast (FIELD_GET (GENMASK h l :: u64) v) :: u32) = FIELD_GET (GENMASK h l :: u64) v"
  using assms by (intro bit_word_eqI) (auto simp: FIELD_GET_GENMASK bit_simps)

lemma ucast_or_64_32: "ucast ((ucast a :: u64) OR ucast b) = (a OR b :: u32)"
  by (intro bit_word_eqI) (auto simp: bit_simps)

lemma halves_mask_32:
  "push_bit 32 (ucast (ucast (drop_bit 32 x AND mask 32 :: u64) :: u32)) OR
     ucast (ucast (x AND mask 32) :: u32) = (x :: u64)"
  by (rule bit_word_eqI) (auto simp: bit_simps)

lemmas halves_32 = halves_mask_32 [unfolded ctz_masks [symmetric]]

lemmas field_parts = FIELD_SET_GET_part take_bit_FIELD_GET part_64_32 part_64_32_full part_32_64
  AND_GENMASK_join AND_GENMASK_join3 ucast_or_64_32 halves_32

lemma take_bit_less: "unat v < 2 ^ n \<Longrightarrow> take_bit n v = (v :: 'a::len word)"
  by (simp add: word_unat_eq_iff unsigned_take_bit_eq take_bit_nat_eq_self)

lemma take_bit_push_drop: "take_bit n v OR push_bit n (drop_bit n v) = (v :: 'a::len word)"
proof (rule bit_word_eqI)
  fix m assume "m < LENGTH('a)"
  then show "bit (take_bit n v OR push_bit n (drop_bit n v)) m \<longleftrightarrow> bit v m"
    by (cases "m < n") (auto simp: bit_simps)
qed

section \<open>Properties\<close>

text \<open>get_trailing_zeros finds the lowest set bit of a 64-bit value, and so does the variant
  compiled for GCC; for zero the two disagree, the portable one giving 63 and the other
  wrapping around to 2 ^ 32 - 1.\<close>

theorem get_trailing_zeros_spec:
  "if x = 0 then get_trailing_zeros x = 63 \<and> get_trailing_zeros_gcc x = 0xFFFFFFFF
   else bit x (unat (get_trailing_zeros x)) \<and>
     take_bit (unat (get_trailing_zeros x)) x = 0 \<and>
     get_trailing_zeros_gcc x = get_trailing_zeros x"
proof (cases "x = 0")
  case True
  then show ?thesis
    by (simp add: get_trailing_zeros_def ctz_step_def get_trailing_zeros_gcc_def builtin_ffsll_def)
next
  case False
  then obtain t where t: "lowest_bit x t" using lowest_bit_exists by blast
  then have "t < 64" using lowest_bit_length [of x t] by simp
  then have "unat (get_trailing_zeros x) = t"
    by (simp add: get_trailing_zeros_lowest [OF t] unat_of_nat)
  moreover have "get_trailing_zeros_gcc x = get_trailing_zeros x"
    by (simp add: get_trailing_zeros_gcc_def builtin_ffsll_lowest [OF t] get_trailing_zeros_lowest [OF t])
  moreover have "take_bit t x = 0"
    using t by (intro bit_word_eqI) (auto simp: lowest_bit_def bit_simps)
  ultimately show ?thesis using False t by (simp add: lowest_bit_def)
qed

text \<open>A field written under a contiguous mask into a register that holds other fields is
  read back cut to the width of the mask, and a field under a disjoint mask is not disturbed.\<close>

theorem FIELD_SET_GET_laws:
  assumes "l \<le> h" "h < l'" "l' \<le> h'" "h' < LENGTH('a::len)" "LENGTH('a) \<le> 64"
  shows "FIELD_GET (GENMASK h l :: 'a word) (FIELD_SET (GENMASK h l) v OR (r AND NOT (GENMASK h l))) =
      take_bit (Suc h - l) v \<and>
    FIELD_GET (GENMASK h' l' :: 'a word) (FIELD_SET (GENMASK h l) v OR (r AND NOT (GENMASK h l))) =
      FIELD_GET (GENMASK h' l') r \<and>
    FIELD_GET (GENMASK h l :: 'a word) (FIELD_SET (GENMASK h' l') v OR (r AND NOT (GENMASK h' l'))) =
      FIELD_GET (GENMASK h l) r"
proof -
  have h: "h < LENGTH('a)" "l' \<le> h'" using assms by linarith+
  show ?thesis
    using assms h
    by (intro conjI; intro bit_word_eqI;
        auto simp: FIELD_GET_GENMASK FIELD_SET_GENMASK bit_GENMASK bit_simps)
qed

theorem FIELD_SET_GET_laws_witness:
  "FIELD_GET (GENMASK 7 5 :: u32) (FIELD_SET (GENMASK 7 5) 13 OR (0xFFFFFFFF AND NOT (GENMASK 7 5))) =
     take_bit 3 13"
proof -
  have "Suc 7 - 5 = (3 :: nat)" by simp
  with FIELD_SET_GET_laws [of 5 7 8 15, where 'a = 32 and v = 13 and r = "0xFFFFFFFF"]
  show ?thesis by simp
qed

end
