(* ===== verification/RegIo.thy ===== *)
theory RegIo
  imports QdmaField
begin

text \<open>
  Register input and output: the device handle with its register-programming lock
  (qdma_platform.c), the polling loop hw_monitor_reg and the CSR block transfers of
  qdma_access_common.c.
  The memory-mapped device itself is hardware: it is the parameter 'd with the operations of
  the record mmio (readl, writel and the passing of time in udelay), over which every
  function here is defined.
\<close>

section \<open>The device handle\<close>

record 'd mmio =
  readl :: "'d \<Rightarrow> u32 \<Rightarrow> u32 \<times> 'd"
  writel :: "'d \<Rightarrow> u32 \<Rightarrow> u32 \<Rightarrow> 'd"
  udelay :: "'d \<Rightarrow> u32 \<Rightarrow> 'd"

record 'd xdev =
  xregs :: 'd
  hw_prg_lock :: bool

definition qdma_reg_read :: "'d mmio \<Rightarrow> 'd xdev \<Rightarrow> u32 \<Rightarrow> u32 \<times> 'd xdev" where
  "qdma_reg_read io d off = (let (v, r) = readl io (xregs d) off in (v, d\<lparr>xregs := r\<rparr>))"

definition qdma_reg_write :: "'d mmio \<Rightarrow> 'd xdev \<Rightarrow> u32 \<Rightarrow> u32 \<Rightarrow> 'd xdev" where
  "qdma_reg_write io d off val = d\<lparr>xregs := writel io (xregs d) off val\<rparr>"

definition qdma_udelay :: "'d mmio \<Rightarrow> 'd xdev \<Rightarrow> u32 \<Rightarrow> 'd xdev" where
  "qdma_udelay io d us = d\<lparr>xregs := udelay io (xregs d) us\<rparr>"

definition qdma_reg_access_lock :: "'d xdev \<Rightarrow> 'd xdev" where
  "qdma_reg_access_lock d = d\<lparr>hw_prg_lock := True\<rparr>"

definition qdma_reg_access_release :: "'d xdev \<Rightarrow> 'd xdev" where
  "qdma_reg_access_release d = d\<lparr>hw_prg_lock := False\<rparr>"

lemma lock_reg_read [simp]: "hw_prg_lock (snd (qdma_reg_read io d a)) = hw_prg_lock d"
  by (simp add: qdma_reg_read_def split: prod.split)

lemma lock_reg_write [simp]: "hw_prg_lock (qdma_reg_write io d a v) = hw_prg_lock d"
  by (simp add: qdma_reg_write_def)

lemma lock_udelay [simp]: "hw_prg_lock (qdma_udelay io d us) = hw_prg_lock d"
  by (simp add: qdma_udelay_def)

lemma lock_release [simp]: "hw_prg_lock (qdma_reg_access_release d) = False"
  by (simp add: qdma_reg_access_release_def)

section \<open>Polling a register\<close>

definition QDMA_REG_POLL_DFLT_INTERVAL_US :: u32 where
  "QDMA_REG_POLL_DFLT_INTERVAL_US = 10"

definition QDMA_REG_POLL_DFLT_TIMEOUT_US :: u32 where
  "QDMA_REG_POLL_DFLT_TIMEOUT_US = 500 * 1000"

lemma unat_minus_two: "count \<noteq> (1 :: u32) \<Longrightarrow> unat (count - 2) = unat (count - 1) - 1"
  using unat_minus_one [of "count - 1"] by (simp add: diff_diff_eq)

lemma unat_minus_one_pos: "count \<noteq> (1 :: u32) \<Longrightarrow> 0 < unat (count - 1)"
  using unat_eq_zero [of "count - 1"] by simp

text \<open>
  The do-while loop: read, compare, delay, and go on while the decremented counter is not
  zero. The counter is a 32-bit int that wraps around.
\<close>

function hw_monitor_loop ::
  "'d mmio \<Rightarrow> u32 \<Rightarrow> u32 \<Rightarrow> u32 \<Rightarrow> u32 \<Rightarrow> u32 \<Rightarrow> 'd xdev \<Rightarrow> bool \<times> 'd xdev" where
  "hw_monitor_loop io reg m val interval_us count d =
     (let (v, d1) = qdma_reg_read io d reg in
      if v AND m = val then (True, d1)
      else let d2 = qdma_udelay io d1 interval_us in
           if count - 1 \<noteq> 0 then hw_monitor_loop io reg m val interval_us (count - 1) d2
           else (False, d2))"
  by pat_completeness auto
termination
  by (relation "measure (\<lambda>(io, reg, m, val, iv, count, d). unat (count - 1))")
     (auto simp: unat_minus_two unat_minus_one_pos)

declare hw_monitor_loop.simps [simp del]

definition hw_monitor_reg ::
  "'d mmio \<Rightarrow> 'd xdev \<Rightarrow> u32 \<Rightarrow> u32 \<Rightarrow> u32 \<Rightarrow> u32 \<Rightarrow> u32 \<Rightarrow> int \<times> 'd xdev" where
  "hw_monitor_reg io d reg m val interval_us0 timeout_us0 =
     (let interval_us = (if interval_us0 = 0 then QDMA_REG_POLL_DFLT_INTERVAL_US else interval_us0);
          timeout_us = (if timeout_us0 = 0 then QDMA_REG_POLL_DFLT_TIMEOUT_US else timeout_us0);
          count = timeout_us div interval_us;
          (hit, d1) = hw_monitor_loop io reg m val interval_us count d
      in if hit then (err_code QDMA_SUCCESS, d1)
         else let (v, d2) = qdma_reg_read io d1 reg in
              if v AND m = val then (err_code QDMA_SUCCESS, d2)
              else (neg_err QDMA_ERR_HWACC_BUSY_TIMEOUT, d2))"

text \<open>The device after k polls that did not match, and whether the next read matches.\<close>

definition poll_state :: "'d mmio \<Rightarrow> u32 \<Rightarrow> u32 \<Rightarrow> nat \<Rightarrow> 'd xdev \<Rightarrow> 'd xdev" where
  "poll_state io reg iv k = (\<lambda>d. qdma_udelay io (snd (qdma_reg_read io d reg)) iv) ^^ k"

definition poll_hit :: "'d mmio \<Rightarrow> u32 \<Rightarrow> u32 \<Rightarrow> u32 \<Rightarrow> 'd xdev \<Rightarrow> bool" where
  "poll_hit io reg m val d \<longleftrightarrow> fst (qdma_reg_read io d reg) AND m = val"

lemma poll_state_0 [simp]: "poll_state io reg iv 0 d = d"
  by (simp add: poll_state_def)

lemma poll_state_Suc:
  "poll_state io reg iv (Suc k) d =
     poll_state io reg iv k (qdma_udelay io (snd (qdma_reg_read io d reg)) iv)"
  by (simp only: poll_state_def funpow_Suc_right o_apply)

lemma lock_poll_state [simp]: "hw_prg_lock (poll_state io reg iv k d) = hw_prg_lock d"
  by (induction k arbitrary: d) (simp_all add: poll_state_Suc)

text \<open>The loop, by the number of iterations its counter allows.\<close>

lemma hw_monitor_loop_unfold:
  "hw_monitor_loop io reg m val iv count d =
     (if poll_hit io reg m val d then (True, snd (qdma_reg_read io d reg))
      else if count - 1 \<noteq> 0
      then hw_monitor_loop io reg m val iv (count - 1) (poll_state io reg iv (Suc 0) d)
      else (False, poll_state io reg iv (Suc 0) d))"
  by (subst hw_monitor_loop.simps) (simp add: poll_hit_def poll_state_Suc split: prod.split)

lemma hw_monitor_loop_hit:
  assumes "k \<le> unat (count - 1)" "poll_hit io reg m val (poll_state io reg iv k d)"
    "\<forall>j<k. \<not> poll_hit io reg m val (poll_state io reg iv j d)"
  shows "hw_monitor_loop io reg m val iv count d =
    (True, snd (qdma_reg_read io (poll_state io reg iv k d) reg))"
  using assms
proof (induction k arbitrary: count d)
  case 0
  then show ?case by (simp add: hw_monitor_loop_unfold)
next
  case (Suc k)
  from Suc.prems(1) have c: "count \<noteq> 1" by auto
  with Suc.prems(1) have k: "k \<le> unat (count - 1 - 1)"
    by (simp add: unat_minus_two diff_diff_eq)
  have "\<not> poll_hit io reg m val d" using Suc.prems(3) by force
  moreover have "hw_monitor_loop io reg m val iv (count - 1) (poll_state io reg iv (Suc 0) d) =
      (True, snd (qdma_reg_read io (poll_state io reg iv (Suc k) d) reg))"
    using Suc.prems(2,3) Suc.IH [OF k, of "poll_state io reg iv (Suc 0) d"]
    by (simp add: poll_state_Suc flip: poll_state_Suc [of _ _ _ 0]) (metis Suc_mono poll_state_Suc)
  ultimately show ?case
    using c by (subst hw_monitor_loop_unfold) simp
qed

lemma hw_monitor_loop_miss:
  assumes "\<forall>j\<le>unat (count - 1). \<not> poll_hit io reg m val (poll_state io reg iv j d)"
  shows "hw_monitor_loop io reg m val iv count d =
    (False, poll_state io reg iv (Suc (unat (count - 1))) d)"
  using assms
proof (induction "unat (count - 1)" arbitrary: count d)
  case 0
  then show ?case by (simp add: hw_monitor_loop_unfold unat_eq_zero)
next
  case (Suc n)
  then have c1: "count \<noteq> 1" by auto
  with Suc.hyps(2) have c: "n = unat (count - 1 - 1)"
    by (simp add: unat_minus_two diff_diff_eq)
  have "\<forall>j\<le>n. \<not> poll_hit io reg m val (poll_state io reg iv j (poll_state io reg iv (Suc 0) d))"
    using Suc.prems Suc.hyps(2) by (metis Suc_le_mono poll_state_0 poll_state_Suc)
  moreover have "\<not> poll_hit io reg m val d" using Suc.prems by force
  ultimately show ?case
    using Suc.hyps(1) [OF c, of "poll_state io reg iv (Suc 0) d"] c1
    by (subst hw_monitor_loop_unfold)
       (simp add: poll_state_Suc diff_diff_eq flip: Suc.hyps(2) c [unfolded diff_diff_eq one_add_one])
qed

text \<open>
  The number of reads hw_monitor_reg makes at most is one more than the iterations of its
  loop. A quotient of zero wraps around: the loop then runs 2 ^ 32 times.
\<close>

definition poll_interval :: "u32 \<Rightarrow> u32" where
  "poll_interval iv = (if iv = 0 then 10 else iv)"

definition poll_iterations :: "u32 \<Rightarrow> u32 \<Rightarrow> nat" where
  "poll_iterations iv tmo =
     (let q = unat (if tmo = 0 then 500000 else tmo) div unat (poll_interval iv)
      in if q = 0 then 2 ^ 32 else q)"

definition poll_count :: "u32 \<Rightarrow> u32 \<Rightarrow> u32" where
  "poll_count iv tmo = (if tmo = 0 then QDMA_REG_POLL_DFLT_TIMEOUT_US else tmo) div
     (if iv = 0 then QDMA_REG_POLL_DFLT_INTERVAL_US else iv)"

lemma unat_pred_u32: "(if unat q = 0 then 2 ^ 32 else unat q) = Suc (unat (q - 1))" for q :: u32
proof (cases "q = 0")
  case True
  then show ?thesis by (simp add: unsigned_minus_1_eq_mask mask_eq_exp_minus_1)
next
  case False
  then show ?thesis using unat_minus_one [OF False] unat_eq_zero [of q] by simp
qed

lemma poll_iterations_count: "poll_iterations iv tmo = Suc (unat (poll_count iv tmo - 1))"
proof -
  have "unat (poll_count iv tmo) =
    unat (if tmo = 0 then 500000 else tmo) div unat (poll_interval iv)"
    by (simp add: poll_count_def poll_interval_def unat_div
        QDMA_REG_POLL_DFLT_TIMEOUT_US_def QDMA_REG_POLL_DFLT_INTERVAL_US_def)
  then show ?thesis
    using unat_pred_u32 [of "poll_count iv tmo"] by (simp only: poll_iterations_def Let_def)
qed

lemma hw_monitor_reg_loop:
  "hw_monitor_reg io d reg m val iv tmo =
     (let (hit, d1) = hw_monitor_loop io reg m val (poll_interval iv) (poll_count iv tmo) d
      in if hit then (0, d1)
         else (if poll_hit io reg m val d1 then 0 else -3, snd (qdma_reg_read io d1 reg)))"
  by (simp add: hw_monitor_reg_def poll_count_def poll_interval_def poll_hit_def Let_def
      QDMA_REG_POLL_DFLT_INTERVAL_US_def split: prod.split)

lemma hw_monitor_reg_hit:
  assumes "k \<le> poll_iterations iv tmo"
    "poll_hit io reg m val (poll_state io reg (poll_interval iv) k d)"
    "\<forall>j<k. \<not> poll_hit io reg m val (poll_state io reg (poll_interval iv) j d)"
  shows "hw_monitor_reg io d reg m val iv tmo =
    (0, snd (qdma_reg_read io (poll_state io reg (poll_interval iv) k d) reg))"
proof (cases "k = poll_iterations iv tmo")
  case True
  then have "hw_monitor_loop io reg m val (poll_interval iv) (poll_count iv tmo) d =
    (False, poll_state io reg (poll_interval iv) k d)"
    using assms(3) hw_monitor_loop_miss [of "poll_count iv tmo"]
    by (simp only: poll_iterations_count less_Suc_eq_le)
  then show ?thesis using assms(2) by (simp only: hw_monitor_reg_loop Let_def split) simp
next
  case False
  then have "hw_monitor_loop io reg m val (poll_interval iv) (poll_count iv tmo) d =
    (True, snd (qdma_reg_read io (poll_state io reg (poll_interval iv) k d) reg))"
    using assms by (intro hw_monitor_loop_hit) (simp_all add: poll_iterations_count)
  then show ?thesis by (simp only: hw_monitor_reg_loop Let_def split if_True)
qed

lemma hw_monitor_reg_miss:
  assumes "\<forall>j\<le>poll_iterations iv tmo.
    \<not> poll_hit io reg m val (poll_state io reg (poll_interval iv) j d)"
  shows "hw_monitor_reg io d reg m val iv tmo =
    (-3, snd (qdma_reg_read io (poll_state io reg (poll_interval iv) (poll_iterations iv tmo) d) reg))"
proof -
  have "hw_monitor_loop io reg m val (poll_interval iv) (poll_count iv tmo) d =
    (False, poll_state io reg (poll_interval iv) (poll_iterations iv tmo) d)"
    using assms unfolding poll_iterations_count by (intro hw_monitor_loop_miss) simp
  with assms show ?thesis by (simp only: hw_monitor_reg_loop Let_def split) simp
qed

lemma hw_monitor_reg_cases:
  obtains k where "k \<le> poll_iterations iv tmo"
    "poll_hit io reg m val (poll_state io reg (poll_interval iv) k d)"
    "\<forall>j<k. \<not> poll_hit io reg m val (poll_state io reg (poll_interval iv) j d)"
    "hw_monitor_reg io d reg m val iv tmo =
      (0, snd (qdma_reg_read io (poll_state io reg (poll_interval iv) k d) reg))"
  | "\<forall>j\<le>poll_iterations iv tmo.
      \<not> poll_hit io reg m val (poll_state io reg (poll_interval iv) j d)"
    "hw_monitor_reg io d reg m val iv tmo =
      (-3, snd (qdma_reg_read io
         (poll_state io reg (poll_interval iv) (poll_iterations iv tmo) d) reg))"
proof (cases "\<exists>k\<le>poll_iterations iv tmo.
    poll_hit io reg m val (poll_state io reg (poll_interval iv) k d)")
  case True
  then obtain k where k: "k \<le> poll_iterations iv tmo"
      "poll_hit io reg m val (poll_state io reg (poll_interval iv) k d)"
      "\<forall>j<k. \<not> (j \<le> poll_iterations iv tmo \<and>
         poll_hit io reg m val (poll_state io reg (poll_interval iv) j d))"
    by (subst (asm) exists_least_iff) blast
  then have "\<forall>j<k. \<not> poll_hit io reg m val (poll_state io reg (poll_interval iv) j d)"
    by (meson less_imp_le order_trans)
  with k(1,2) that(1) show ?thesis using hw_monitor_reg_hit by blast
next
  case False
  then show ?thesis using that(2) hw_monitor_reg_miss by blast
qed

lemma lock_hw_monitor_reg [simp]:
  "hw_prg_lock (snd (hw_monitor_reg io d reg m val iv tmo)) = hw_prg_lock d"
  by (rule hw_monitor_reg_cases [of iv tmo io reg m val d]) simp_all

section \<open>CSR block transfers\<close>

text \<open>
  The loop of qdma_write_csr_values runs while the index is below the 32-bit sum idx + cnt,
  so a sum that wraps around writes nothing.
\<close>

definition qdma_write_csr_values ::
  "'d mmio \<Rightarrow> 'd xdev \<Rightarrow> u32 \<Rightarrow> u32 \<Rightarrow> u32 \<Rightarrow> u32 list \<Rightarrow> 'd xdev" where
  "qdma_write_csr_values io d reg_offst idx cnt values =
     fold (\<lambda>index d. qdma_reg_write io d (reg_offst + of_nat index * 4) (values ! (index - unat idx)))
       [unat idx..<unat (idx + cnt)] d"

definition qdma_read_csr_values ::
  "'d mmio \<Rightarrow> 'd xdev \<Rightarrow> u32 \<Rightarrow> u32 \<Rightarrow> u32 \<Rightarrow> u32 list \<times> 'd xdev" where
  "qdma_read_csr_values io d reg_offst idx cnt =
     fold (\<lambda>index (vs, d).
         let (v, d) = qdma_reg_read io d (reg_offst + idx * 4 + of_nat index * 4) in (vs @ [v], d))
       [0..<unat cnt] ([], d)"

section \<open>Properties\<close>

lemma find_upt:
  "k < n \<Longrightarrow> P k \<Longrightarrow> \<forall>j<k. \<not> P j \<Longrightarrow> find P [0..<n] = Some k"
  by (auto simp: find_Some_iff)

lemma find_upt_None: "\<forall>j<n. \<not> P j \<Longrightarrow> find P [0..<n] = None"
  by (auto simp: find_None_iff)

text \<open>hw_monitor_reg polls the register at most poll_iterations + 1 times, an interval
  apart, and stops at the first read that matches under the mask: then it returns 0 and the
  device just after that read; if no read matches it returns -QDMA_ERR_HWACC_BUSY_TIMEOUT.
  The register lock stays as it was. The number of iterations is timeout / interval, and
  2 ^ 32 when that quotient is 0.\<close>

theorem hw_monitor_reg_spec:
  "hw_monitor_reg io d reg m val iv tmo =
     (case find (\<lambda>k. poll_hit io reg m val (poll_state io reg (poll_interval iv) k d))
             [0..<Suc (poll_iterations iv tmo)] of
        Some k \<Rightarrow> (0, snd (qdma_reg_read io (poll_state io reg (poll_interval iv) k d) reg))
      | None \<Rightarrow> (neg_err QDMA_ERR_HWACC_BUSY_TIMEOUT, snd (qdma_reg_read io
          (poll_state io reg (poll_interval iv) (poll_iterations iv tmo) d) reg))) \<and>
   hw_prg_lock (snd (hw_monitor_reg io d reg m val iv tmo)) = hw_prg_lock d"
proof (rule hw_monitor_reg_cases [of iv tmo io reg m val d], goal_cases)
  case (1 k)
  then show ?thesis by (simp only: find_upt [of k] less_Suc_eq_le) simp
next
  case 2
  then show ?thesis by (simp only: find_upt_None less_Suc_eq_le) simp
qed

end
