(* ===== verification/QdmaContexts.thy ===== *)
theory QdmaContexts
  imports RegIo
begin

text \<open>
  The context structures of qdma_access_common.h as records of words with the widths of the
  C fields, the enumerations of the context commands, and the interface of a context codec:
  an encoder from a structure to the data words of the indirect register block and a decoder
  that overwrites the fields of a caller's structure from such words.
  The bit fields of the completion context (lower_dword and higher_dword) have the exact
  widths of their declarations.
\<close>

section \<open>Context structures\<close>

text \<open>Function map entry.\<close>

record qdma_fmap_cfg =
  fm_qbase :: u16
  fm_qmax :: u16

text \<open>Software descriptor context.\<close>

record qdma_descq_sw_ctxt =
  sw_ring_bs_addr :: u64
  sw_vec :: u16
  sw_pidx :: u16
  sw_irq_arm :: u8
  sw_fnc_id :: u8
  sw_qen :: u8
  sw_frcd_en :: u8
  sw_wbi_chk :: u8
  sw_wbi_intvl_en :: u8
  sw_at :: u8
  sw_fetch_max :: u8
  sw_rngsz_idx :: u8
  sw_desc_sz :: u8
  sw_bypass :: u8
  sw_mm_chn :: u8
  sw_wbk_en :: u8
  sw_irq_en :: u8
  sw_port_id :: u8
  sw_irq_no_last :: u8
  sw_err :: u8
  sw_err_wb_sent :: u8
  sw_irq_req :: u8
  sw_mrkr_dis :: u8
  sw_is_mm :: u8
  sw_intr_aggr :: u8
  sw_pasid_en :: u8
  sw_dis_intr_on_vf :: u8
  sw_virtio_en :: u8
  sw_pack_byp_out :: u8
  sw_irq_byp :: u8
  sw_host_id :: u8
  sw_pasid :: u32
  sw_virtio_dsc_base :: u64

text \<open>Hardware descriptor context (read only).\<close>

record qdma_descq_hw_ctxt =
  hw_cidx :: u16
  hw_crd_use :: u16
  hw_dsc_pend :: u8
  hw_idl_stp_b :: u8
  hw_evt_pnd :: u8
  hw_fetch_pnd :: u8

text \<open>Credit context (read only).\<close>

record qdma_descq_credit_ctxt =
  cr_credit :: u32

text \<open>Prefetch context.\<close>

record qdma_descq_prefetch_ctxt =
  pf_sw_crdt :: u16
  pf_bypass :: u8
  pf_bufsz_idx :: u8
  pf_port_id :: u8
  pf_var_desc :: u8
  pf_num_pftch :: u16
  pf_err :: u8
  pf_pfch_en :: u8
  pf_pfch :: u8
  pf_valid :: u8

text \<open>Completion context.\<close>

record qdma_descq_cmpt_ctxt =
  cm_en_stat_desc :: "1 word"
  cm_en_int :: "1 word"
  cm_trig_mode :: "3 word"
  cm_fnc_id :: u8
  cm_counter_idx :: "4 word"
  cm_timer_idx :: "4 word"
  cm_in_st :: "2 word"
  cm_color :: "1 word"
  cm_ringsz_idx :: "4 word"
  cm_bs_addr :: u64
  cm_pidx :: u16
  cm_cidx :: u16
  cm_desc_sz :: "2 word"
  cm_valid :: "1 word"
  cm_err :: "2 word"
  cm_user_trig_pend :: "1 word"
  cm_timer_running :: "1 word"
  cm_full_upd :: "1 word"
  cm_ovf_chk_dis :: "1 word"
  cm_at :: "1 word"
  cm_vec :: "11 word"
  cm_int_aggr :: "1 word"
  cm_dis_intr_on_vf :: "1 word"
  cm_dir_c2h :: "1 word"
  cm_host_id :: "3 word"
  cm_pasid :: u32
  cm_vio :: u8
  cm_pasid_en :: u8
  cm_vio_eop :: u8
  cm_sh_cmpt :: u8

text \<open>Indirect interrupt aggregation context.\<close>

record qdma_indirect_intr_ctxt =
  it_baddr_4k :: u64
  it_vec :: u16
  it_pidx :: u16
  it_valid :: u8
  it_int_st :: u8
  it_color :: u8
  it_page_size :: u8
  it_at :: u8
  it_host_id :: u8
  it_pasid :: u32
  it_pasid_en :: u8
  it_func_id :: u16

text \<open>The map from a queue to its vectors, which CPM4 keeps apart.\<close>

record qdma_qid2vec =
  qv_c2h_vector :: u8
  qv_c2h_en_coal :: u8
  qv_h2c_vector :: u8
  qv_h2c_en_coal :: u8

text \<open>The structures as memset leaves them.\<close>

definition fm_zeroed :: qdma_fmap_cfg where
  "fm_zeroed = \<lparr>fm_qbase = 0, fm_qmax = 0\<rparr>"

definition sw_zeroed :: qdma_descq_sw_ctxt where
  "sw_zeroed = \<lparr>sw_ring_bs_addr = 0, sw_vec = 0, sw_pidx = 0, sw_irq_arm = 0, sw_fnc_id = 0, sw_qen = 0, sw_frcd_en = 0, sw_wbi_chk = 0, sw_wbi_intvl_en = 0, sw_at = 0, sw_fetch_max = 0, sw_rngsz_idx = 0, sw_desc_sz = 0, sw_bypass = 0, sw_mm_chn = 0, sw_wbk_en = 0, sw_irq_en = 0, sw_port_id = 0, sw_irq_no_last = 0, sw_err = 0, sw_err_wb_sent = 0, sw_irq_req = 0, sw_mrkr_dis = 0, sw_is_mm = 0, sw_intr_aggr = 0, sw_pasid_en = 0, sw_dis_intr_on_vf = 0, sw_virtio_en = 0, sw_pack_byp_out = 0, sw_irq_byp = 0, sw_host_id = 0, sw_pasid = 0, sw_virtio_dsc_base = 0\<rparr>"

definition hw_zeroed :: qdma_descq_hw_ctxt where
  "hw_zeroed = \<lparr>hw_cidx = 0, hw_crd_use = 0, hw_dsc_pend = 0, hw_idl_stp_b = 0, hw_evt_pnd = 0, hw_fetch_pnd = 0\<rparr>"

definition cr_zeroed :: qdma_descq_credit_ctxt where
  "cr_zeroed = \<lparr>cr_credit = 0\<rparr>"

definition pf_zeroed :: qdma_descq_prefetch_ctxt where
  "pf_zeroed = \<lparr>pf_sw_crdt = 0, pf_bypass = 0, pf_bufsz_idx = 0, pf_port_id = 0, pf_var_desc = 0, pf_num_pftch = 0, pf_err = 0, pf_pfch_en = 0, pf_pfch = 0, pf_valid = 0\<rparr>"

definition cm_zeroed :: qdma_descq_cmpt_ctxt where
  "cm_zeroed = \<lparr>cm_en_stat_desc = 0, cm_en_int = 0, cm_trig_mode = 0, cm_fnc_id = 0, cm_counter_idx = 0, cm_timer_idx = 0, cm_in_st = 0, cm_color = 0, cm_ringsz_idx = 0, cm_bs_addr = 0, cm_pidx = 0, cm_cidx = 0, cm_desc_sz = 0, cm_valid = 0, cm_err = 0, cm_user_trig_pend = 0, cm_timer_running = 0, cm_full_upd = 0, cm_ovf_chk_dis = 0, cm_at = 0, cm_vec = 0, cm_int_aggr = 0, cm_dis_intr_on_vf = 0, cm_dir_c2h = 0, cm_host_id = 0, cm_pasid = 0, cm_vio = 0, cm_pasid_en = 0, cm_vio_eop = 0, cm_sh_cmpt = 0\<rparr>"

definition qv_zeroed :: qdma_qid2vec where
  "qv_zeroed = \<lparr>qv_c2h_vector = 0, qv_c2h_en_coal = 0, qv_h2c_vector = 0, qv_h2c_en_coal = 0\<rparr>"

definition it_zeroed :: qdma_indirect_intr_ctxt where
  "it_zeroed = \<lparr>it_baddr_4k = 0, it_vec = 0, it_pidx = 0, it_valid = 0, it_int_st = 0, it_color = 0, it_page_size = 0, it_at = 0, it_host_id = 0, it_pasid = 0, it_pasid_en = 0, it_func_id = 0\<rparr>"

section \<open>Enumerations\<close>

datatype ind_ctxt_cmd_op = QDMA_CTXT_CMD_CLR | QDMA_CTXT_CMD_WR | QDMA_CTXT_CMD_RD | QDMA_CTXT_CMD_INV

primrec cmd_op_code :: "ind_ctxt_cmd_op \<Rightarrow> u32" where
  "cmd_op_code QDMA_CTXT_CMD_CLR = 0"
| "cmd_op_code QDMA_CTXT_CMD_WR = 1"
| "cmd_op_code QDMA_CTXT_CMD_RD = 2"
| "cmd_op_code QDMA_CTXT_CMD_INV = 3"

datatype ind_ctxt_cmd_sel =
    QDMA_CTXT_SEL_SW_C2H | QDMA_CTXT_SEL_SW_H2C | QDMA_CTXT_SEL_HW_C2H | QDMA_CTXT_SEL_HW_H2C
  | QDMA_CTXT_SEL_CR_C2H | QDMA_CTXT_SEL_CR_H2C | QDMA_CTXT_SEL_CMPT | QDMA_CTXT_SEL_PFTCH
  | QDMA_CTXT_SEL_INT_COAL | QDMA_CTXT_SEL_PASID_RAM_LOW | QDMA_CTXT_SEL_PASID_RAM_HIGH
  | QDMA_CTXT_SEL_TIMER | QDMA_CTXT_SEL_FMAP

primrec cmd_sel_code :: "ind_ctxt_cmd_sel \<Rightarrow> u32" where
  "cmd_sel_code QDMA_CTXT_SEL_SW_C2H = 0"
| "cmd_sel_code QDMA_CTXT_SEL_SW_H2C = 1"
| "cmd_sel_code QDMA_CTXT_SEL_HW_C2H = 2"
| "cmd_sel_code QDMA_CTXT_SEL_HW_H2C = 3"
| "cmd_sel_code QDMA_CTXT_SEL_CR_C2H = 4"
| "cmd_sel_code QDMA_CTXT_SEL_CR_H2C = 5"
| "cmd_sel_code QDMA_CTXT_SEL_CMPT = 6"
| "cmd_sel_code QDMA_CTXT_SEL_PFTCH = 7"
| "cmd_sel_code QDMA_CTXT_SEL_INT_COAL = 8"
| "cmd_sel_code QDMA_CTXT_SEL_PASID_RAM_LOW = 9"
| "cmd_sel_code QDMA_CTXT_SEL_PASID_RAM_HIGH = 10"
| "cmd_sel_code QDMA_CTXT_SEL_TIMER = 11"
| "cmd_sel_code QDMA_CTXT_SEL_FMAP = 12"

datatype qdma_hw_access_type =
    QDMA_HW_ACCESS_READ | QDMA_HW_ACCESS_WRITE | QDMA_HW_ACCESS_CLEAR
  | QDMA_HW_ACCESS_INVALIDATE | QDMA_HW_ACCESS_MAX

lemma cmd_sel_code_less: "cmd_sel_code s < 13"
  by (cases s) simp_all

lemma cmd_sel_code_inject [simp]: "cmd_sel_code s = cmd_sel_code t \<longleftrightarrow> s = t"
  by (cases s; cases t; simp)

section \<open>Masks of qdma_access_common.h\<close>

abbreviation QDMA_PFTCH_CTXT_SW_CRDT_GET_L_MASK :: u32 where "QDMA_PFTCH_CTXT_SW_CRDT_GET_L_MASK \<equiv> GENMASK 2 0"
abbreviation QDMA_PFTCH_CTXT_SW_CRDT_GET_H_MASK :: u32 where "QDMA_PFTCH_CTXT_SW_CRDT_GET_H_MASK \<equiv> GENMASK 15 3"
abbreviation QDMA_COMPL_CTXT_PIDX_GET_L_MASK :: u32 where "QDMA_COMPL_CTXT_PIDX_GET_L_MASK \<equiv> GENMASK 3 0"
abbreviation QDMA_COMPL_CTXT_PIDX_GET_H_MASK :: u32 where "QDMA_COMPL_CTXT_PIDX_GET_H_MASK \<equiv> GENMASK 15 4"
abbreviation QDMA_INTR_CTXT_BADDR_GET_L_MASK :: u64 where "QDMA_INTR_CTXT_BADDR_GET_L_MASK \<equiv> GENMASK 28 12"
abbreviation QDMA_INTR_CTXT_BADDR_GET_M_MASK :: u64 where "QDMA_INTR_CTXT_BADDR_GET_M_MASK \<equiv> GENMASK 60 29"
abbreviation QDMA_INTR_CTXT_BADDR_GET_H_MASK :: u64 where "QDMA_INTR_CTXT_BADDR_GET_H_MASK \<equiv> GENMASK 63 61"
abbreviation QDMA_COMPL_CTXT_BADDR_GET_L_MASK :: u64 where "QDMA_COMPL_CTXT_BADDR_GET_L_MASK \<equiv> GENMASK 37 12"
abbreviation QDMA_COMPL_CTXT_BADDR_GET_H_MASK :: u64 where "QDMA_COMPL_CTXT_BADDR_GET_H_MASK \<equiv> GENMASK 63 38"

abbreviation QDMA_CMPT_UPDATE_TRIG_MODE_TMR_CNTR :: "3 word" where
  "QDMA_CMPT_UPDATE_TRIG_MODE_TMR_CNTR \<equiv> 5"

section \<open>The interface of a context codec\<close>

text \<open>
  enc gives the data words of a structure; dec overwrites a structure from data words;
  stored is the structure that survives: each field cut to the width of its register field,
  and the fields that dec does not set taken from the structure it overwrites.
\<close>

locale ctxt_codec =
  fixes enc :: "'c \<Rightarrow> u32 list"
    and dec :: "u32 list \<Rightarrow> 'c \<Rightarrow> 'c"
    and stored :: "'c \<Rightarrow> 'c \<Rightarrow> 'c"
    and n :: nat
  assumes length_enc: "length (enc c) = n"
    and fits_regs: "n \<le> 8"
    and dec_enc: "dec (enc c) c0 = stored c c0"
    and dec_take: "dec (take n ws) c0 = dec ws c0"
begin

lemma dec_padded: "dec (enc c @ pad) c0 = stored c c0"
  using dec_take [of "enc c @ pad" c0] dec_enc [of c c0] length_enc [of c] by simp

lemma enc_stored: "enc c = enc c' \<Longrightarrow> stored c c0 = stored c' c0"
  by (metis dec_enc)

end

end
