(* ===== verification/CsrConf.thy ===== *)
theory CsrConf
  imports QdmaContexts
begin

text \<open>
  Global configuration through plain registers, which every variant of the access library has
  in the same shape: the capability registers (*_get_device_attributes), the arrays of ring
  sizes, timer counts, counter thresholds and buffer sizes (*_global_csr_conf), the writeback
  interval and the memory-mapped channel control. The shapes csr_write, csr_read,
  wb_interval_write, wb_interval_read and mm_channel_write take the feature check and the
  register address, and each function of the code is one of them with those of its file.
  A null pointer is None.
\<close>

section \<open>Device attributes\<close>

record qdma_dev_attributes =
  da_num_pfs :: u8
  da_num_qs :: u16
  da_flr_present :: "1 word"
  da_st_en :: "1 word"
  da_mm_en :: "1 word"
  da_mm_cmpt_en :: "1 word"
  da_mailbox_en :: "1 word"
  da_debug_mode :: "1 word"
  da_desc_eng_mode :: "2 word"
  da_mm_channel_max :: u8
  da_qid2vec_ctx :: "1 word"
  da_cmpt_ovf_chk_dis :: "1 word"
  da_mailbox_intr :: "1 word"
  da_sw_desc_64b :: "1 word"
  da_cmpt_desc_64b :: "1 word"
  da_dynamic_bar :: "1 word"
  da_legacy_intr :: "1 word"
  da_cmpt_trig_count_timer :: "1 word"

text \<open>
  A structure the code leaves uninitialised; the attribute functions set every field.
\<close>

definition da_zeroed :: qdma_dev_attributes where
  "da_zeroed = \<lparr>da_num_pfs = 0, da_num_qs = 0, da_flr_present = 0, da_st_en = 0, da_mm_en = 0,
     da_mm_cmpt_en = 0, da_mailbox_en = 0, da_debug_mode = 0, da_desc_eng_mode = 0,
     da_mm_channel_max = 0, da_qid2vec_ctx = 0, da_cmpt_ovf_chk_dis = 0, da_mailbox_intr = 0,
     da_sw_desc_64b = 0, da_cmpt_desc_64b = 0, da_dynamic_bar = 0, da_legacy_intr = 0,
     da_cmpt_trig_count_timer = 0\<rparr>"

abbreviation QDMA_OFFSET_GLBL2_PF_BARLITE_INT :: u32 where "QDMA_OFFSET_GLBL2_PF_BARLITE_INT \<equiv> 0x104"
abbreviation GLBL2_CHANNEL_MDMA_ADDR :: u32 where "GLBL2_CHANNEL_MDMA_ADDR \<equiv> 0x118"
abbreviation GLBL2_CHANNEL_CAP_ADDR :: u32 where "GLBL2_CHANNEL_CAP_ADDR \<equiv> 0x120"
abbreviation GLBL2_MISC_CAP_ADDR :: u32 where "GLBL2_MISC_CAP_ADDR \<equiv> 0x134"
abbreviation QDMA_GLBL2_PF3_BAR_MAP_MASK :: u32 where "QDMA_GLBL2_PF3_BAR_MAP_MASK \<equiv> GENMASK 23 18"
abbreviation QDMA_GLBL2_PF2_BAR_MAP_MASK :: u32 where "QDMA_GLBL2_PF2_BAR_MAP_MASK \<equiv> GENMASK 17 12"
abbreviation QDMA_GLBL2_PF1_BAR_MAP_MASK :: u32 where "QDMA_GLBL2_PF1_BAR_MAP_MASK \<equiv> GENMASK 11 6"
abbreviation QDMA_GLBL2_PF0_BAR_MAP_MASK :: u32 where "QDMA_GLBL2_PF0_BAR_MAP_MASK \<equiv> GENMASK 5 0"
abbreviation GLBL2_CHANNEL_CAP_MULTIQ_MAX_MASK :: u32 where "GLBL2_CHANNEL_CAP_MULTIQ_MAX_MASK \<equiv> GENMASK 11 0"
abbreviation QDMA_GLBL2_MM_CMPT_EN_MASK :: u32 where "QDMA_GLBL2_MM_CMPT_EN_MASK \<equiv> BIT 2"
abbreviation QDMA_GLBL2_FLR_PRESENT_MASK :: u32 where "QDMA_GLBL2_FLR_PRESENT_MASK \<equiv> BIT 1"
abbreviation QDMA_GLBL2_MAILBOX_EN_MASK :: u32 where "QDMA_GLBL2_MAILBOX_EN_MASK \<equiv> BIT 0"
abbreviation EQDMA_GLBL2_DBG_MODE_EN_MASK :: u32 where "EQDMA_GLBL2_DBG_MODE_EN_MASK \<equiv> BIT 4"
abbreviation EQDMA_GLBL2_DESC_ENG_MODE_MASK :: u32 where "EQDMA_GLBL2_DESC_ENG_MODE_MASK \<equiv> GENMASK 3 2"
abbreviation QDMA_GLBL2_ST_C2H_MASK :: u32 where "QDMA_GLBL2_ST_C2H_MASK \<equiv> BIT 17"
abbreviation QDMA_GLBL2_ST_H2C_MASK :: u32 where "QDMA_GLBL2_ST_H2C_MASK \<equiv> BIT 16"
abbreviation QDMA_GLBL2_MM_C2H_MASK :: u32 where "QDMA_GLBL2_MM_C2H_MASK \<equiv> BIT 8"
abbreviation QDMA_GLBL2_MM_H2C_MASK :: u32 where "QDMA_GLBL2_MM_H2C_MASK \<equiv> BIT 0"
abbreviation GLBL2_CHANNEL_MDMA_C2H_ENG_MASK :: u32 where "GLBL2_CHANNEL_MDMA_C2H_ENG_MASK \<equiv> GENMASK 11 8"
abbreviation GLBL2_CHANNEL_MDMA_H2C_ENG_MASK :: u32 where "GLBL2_CHANNEL_MDMA_H2C_ENG_MASK \<equiv> GENMASK 3 0"

text \<open>How many of the four physical functions have a BAR, from the BAR map register.\<close>

definition pf_count :: "u32 \<Rightarrow> u8" where
  "pf_count reg_val =
     sum_list (map (\<lambda>m. if FIELD_GET m reg_val \<noteq> 0 then 1 else 0)
       [QDMA_GLBL2_PF0_BAR_MAP_MASK, QDMA_GLBL2_PF1_BAR_MAP_MASK,
        QDMA_GLBL2_PF2_BAR_MAP_MASK, QDMA_GLBL2_PF3_BAR_MAP_MASK])"

definition both_set :: "u32 \<Rightarrow> u32 \<Rightarrow> u32 \<Rightarrow> 1 word" where
  "both_set m1 m2 reg_val = (if FIELD_GET m1 reg_val \<noteq> 0 \<and> FIELD_GET m2 reg_val \<noteq> 0 then 1 else 0)"

text \<open>
  The four capability registers in the order in which every variant reads them: BAR map,
  channel capability, miscellaneous capability, channel map.
\<close>

definition read_capabilities :: "'d mmio \<Rightarrow> 'd xdev \<Rightarrow> (u32 \<times> u32 \<times> u32 \<times> u32) \<times> 'd xdev" where
  "read_capabilities io d =
     (let (bar, d) = qdma_reg_read io d QDMA_OFFSET_GLBL2_PF_BARLITE_INT;
          (cap, d) = qdma_reg_read io d GLBL2_CHANNEL_CAP_ADDR;
          (misc, d) = qdma_reg_read io d GLBL2_MISC_CAP_ADDR;
          (mdma, d) = qdma_reg_read io d GLBL2_CHANNEL_MDMA_ADDR
      in ((bar, cap, misc, mdma), d))"

definition qdma_attributes :: "u32 \<times> u32 \<times> u32 \<times> u32 \<Rightarrow> qdma_dev_attributes" where
  "qdma_attributes = (\<lambda>(bar, cap, misc, mdma).
     \<lparr>da_num_pfs = pf_count bar,
      da_num_qs = ucast (FIELD_GET GLBL2_CHANNEL_CAP_MULTIQ_MAX_MASK cap),
      da_flr_present = ucast (FIELD_GET QDMA_GLBL2_FLR_PRESENT_MASK misc),
      da_st_en = both_set QDMA_GLBL2_ST_C2H_MASK QDMA_GLBL2_ST_H2C_MASK mdma,
      da_mm_en = both_set QDMA_GLBL2_MM_C2H_MASK QDMA_GLBL2_MM_H2C_MASK mdma,
      da_mm_cmpt_en = ucast (FIELD_GET QDMA_GLBL2_MM_CMPT_EN_MASK misc),
      da_mailbox_en = ucast (FIELD_GET QDMA_GLBL2_MAILBOX_EN_MASK misc),
      da_debug_mode = 0, da_desc_eng_mode = 0, da_mm_channel_max = 1, da_qid2vec_ctx = 0,
      da_cmpt_ovf_chk_dis = 1, da_mailbox_intr = 1, da_sw_desc_64b = 1, da_cmpt_desc_64b = 1,
      da_dynamic_bar = 1, da_legacy_intr = 1, da_cmpt_trig_count_timer = 1\<rparr>)"

definition eqdma_attributes :: "u32 \<times> u32 \<times> u32 \<times> u32 \<Rightarrow> qdma_dev_attributes" where
  "eqdma_attributes = (\<lambda>(bar, cap, misc, mdma).
     \<lparr>da_num_pfs = pf_count bar,
      da_num_qs = ucast (FIELD_GET GLBL2_CHANNEL_CAP_MULTIQ_MAX_MASK cap),
      da_flr_present = ucast (FIELD_GET QDMA_GLBL2_FLR_PRESENT_MASK misc),
      da_st_en = both_set QDMA_GLBL2_ST_C2H_MASK QDMA_GLBL2_ST_H2C_MASK mdma,
      da_mm_en = both_set GLBL2_CHANNEL_MDMA_C2H_ENG_MASK GLBL2_CHANNEL_MDMA_H2C_ENG_MASK mdma,
      da_mm_cmpt_en = 0,
      da_mailbox_en = ucast (FIELD_GET QDMA_GLBL2_MAILBOX_EN_MASK misc),
      da_debug_mode = ucast (FIELD_GET EQDMA_GLBL2_DBG_MODE_EN_MASK misc),
      da_desc_eng_mode = ucast (FIELD_GET EQDMA_GLBL2_DESC_ENG_MODE_MASK misc),
      da_mm_channel_max = 1, da_qid2vec_ctx = 0,
      da_cmpt_ovf_chk_dis = 1, da_mailbox_intr = 1, da_sw_desc_64b = 1, da_cmpt_desc_64b = 1,
      da_dynamic_bar = 1, da_legacy_intr = 1, da_cmpt_trig_count_timer = 1\<rparr>)"

text \<open>
  CPM5 takes the first field of the BAR map itself as the number of functions, and counts a queue
  capability of 0xFFF as 4096.
\<close>

definition eqdma_cpm5_attributes :: "u32 \<times> u32 \<times> u32 \<times> u32 \<Rightarrow> qdma_dev_attributes" where
  "eqdma_cpm5_attributes = (\<lambda>(bar, cap, misc, mdma).
     let num_qs = ucast (FIELD_GET GLBL2_CHANNEL_CAP_MULTIQ_MAX_MASK cap) in
     \<lparr>da_num_pfs = ucast (FIELD_GET QDMA_GLBL2_PF0_BAR_MAP_MASK bar),
      da_num_qs = (if num_qs = 0xFFF then num_qs + 1 else num_qs),
      da_flr_present = ucast (FIELD_GET QDMA_GLBL2_FLR_PRESENT_MASK misc),
      da_st_en = both_set QDMA_GLBL2_ST_C2H_MASK QDMA_GLBL2_ST_H2C_MASK mdma,
      da_mm_en = both_set GLBL2_CHANNEL_MDMA_C2H_ENG_MASK GLBL2_CHANNEL_MDMA_H2C_ENG_MASK mdma,
      da_mm_cmpt_en = 0,
      da_mailbox_en = ucast (FIELD_GET QDMA_GLBL2_MAILBOX_EN_MASK misc),
      da_debug_mode = ucast (FIELD_GET EQDMA_GLBL2_DBG_MODE_EN_MASK misc),
      da_desc_eng_mode = ucast (FIELD_GET EQDMA_GLBL2_DESC_ENG_MODE_MASK misc),
      da_mm_channel_max = 2, da_qid2vec_ctx = 0,
      da_cmpt_ovf_chk_dis = 1, da_mailbox_intr = 1, da_sw_desc_64b = 1, da_cmpt_desc_64b = 1,
      da_dynamic_bar = 1, da_legacy_intr = 1, da_cmpt_trig_count_timer = 1\<rparr>)"

definition qdma_cpm4_attributes :: "u32 \<times> u32 \<times> u32 \<times> u32 \<Rightarrow> qdma_dev_attributes" where
  "qdma_cpm4_attributes = (\<lambda>(bar, cap, misc, mdma).
     \<lparr>da_num_pfs = pf_count bar,
      da_num_qs = ucast (FIELD_GET GLBL2_CHANNEL_CAP_MULTIQ_MAX_MASK cap),
      da_flr_present = ucast (FIELD_GET QDMA_GLBL2_FLR_PRESENT_MASK misc),
      da_st_en = both_set QDMA_GLBL2_ST_C2H_MASK QDMA_GLBL2_ST_H2C_MASK mdma,
      da_mm_en = both_set QDMA_GLBL2_MM_C2H_MASK QDMA_GLBL2_MM_H2C_MASK mdma,
      da_mm_cmpt_en = 0,
      da_mailbox_en = ucast (FIELD_GET QDMA_GLBL2_MAILBOX_EN_MASK misc),
      da_debug_mode = 0, da_desc_eng_mode = 0, da_mm_channel_max = 2, da_qid2vec_ctx = 1,
      da_cmpt_ovf_chk_dis = 0, da_mailbox_intr = 0, da_sw_desc_64b = 0, da_cmpt_desc_64b = 0,
      da_dynamic_bar = 0, da_legacy_intr = 0, da_cmpt_trig_count_timer = 0\<rparr>)"

definition get_attributes ::
  "(u32 \<times> u32 \<times> u32 \<times> u32 \<Rightarrow> qdma_dev_attributes) \<Rightarrow> 'd mmio \<Rightarrow> 'd xdev option \<Rightarrow>
   qdma_dev_attributes option \<Rightarrow> int \<times> qdma_dev_attributes option \<times> 'd xdev option" where
  "get_attributes attributes io dev dev_info =
     (case (dev, dev_info) of
        (Some d, Some _) \<Rightarrow>
          let (regs, d) = read_capabilities io d in (err_code QDMA_SUCCESS, Some (attributes regs), Some d)
      | _ \<Rightarrow> (neg_err QDMA_ERR_INV_PARAM, dev_info, dev))"

definition qdma_get_device_attributes ::
  "'d mmio \<Rightarrow> 'd xdev option \<Rightarrow> qdma_dev_attributes option \<Rightarrow>
   int \<times> qdma_dev_attributes option \<times> 'd xdev option" where
  "qdma_get_device_attributes = get_attributes qdma_attributes"

definition eqdma_get_device_attributes ::
  "'d mmio \<Rightarrow> 'd xdev option \<Rightarrow> qdma_dev_attributes option \<Rightarrow>
   int \<times> qdma_dev_attributes option \<times> 'd xdev option" where
  "eqdma_get_device_attributes = get_attributes eqdma_attributes"

definition eqdma_cpm5_get_device_attributes ::
  "'d mmio \<Rightarrow> 'd xdev option \<Rightarrow> qdma_dev_attributes option \<Rightarrow>
   int \<times> qdma_dev_attributes option \<times> 'd xdev option" where
  "eqdma_cpm5_get_device_attributes = get_attributes eqdma_cpm5_attributes"

definition qdma_cpm4_get_device_attributes ::
  "'d mmio \<Rightarrow> 'd xdev option \<Rightarrow> qdma_dev_attributes option \<Rightarrow>
   int \<times> qdma_dev_attributes option \<times> 'd xdev option" where
  "qdma_cpm4_get_device_attributes = get_attributes qdma_cpm4_attributes"

section \<open>CSR arrays\<close>

datatype qdma_global_csr_type =
    QDMA_CSR_RING_SZ | QDMA_CSR_TIMER_CNT | QDMA_CSR_CNT_TH | QDMA_CSR_BUF_SZ | QDMA_CSR_MAX

text \<open>
  QDMA_NUM_RING_SIZES, QDMA_NUM_C2H_TIMERS, QDMA_NUM_C2H_COUNTERS and QDMA_NUM_C2H_BUFFER_SIZES
  have one value.
\<close>

definition QDMA_GLOBAL_CSR_ARRAY_SZ :: nat where
  "QDMA_GLOBAL_CSR_ARRAY_SZ = 16"

text \<open>The feature checks on attributes read from the device, and none for the ring sizes.\<close>

definition csr_feature ::
  "('d xdev option \<Rightarrow> qdma_dev_attributes option \<Rightarrow> int \<times> qdma_dev_attributes option \<times> 'd xdev option) \<Rightarrow>
   (qdma_dev_attributes \<Rightarrow> bool) \<Rightarrow> 'd xdev \<Rightarrow> bool \<times> 'd xdev" where
  "csr_feature get_attrs enabled d =
     (let (rv, dev_cap, dev) = get_attrs (Some d) (Some da_zeroed)
      in (enabled (the dev_cap), the dev))"

definition csr_always :: "'d xdev \<Rightarrow> bool \<times> 'd xdev" where
  "csr_always d = (True, d)"

definition has_st :: "qdma_dev_attributes \<Rightarrow> bool" where
  "has_st cap \<longleftrightarrow> da_st_en cap \<noteq> 0"

definition has_st_or_cmpt :: "qdma_dev_attributes \<Rightarrow> bool" where
  "has_st_or_cmpt cap \<longleftrightarrow> da_st_en cap \<noteq> 0 \<or> da_mm_cmpt_en cap \<noteq> 0"

definition csr_write ::
  "('d xdev \<Rightarrow> bool \<times> 'd xdev) \<Rightarrow> 'd mmio \<Rightarrow> u32 \<Rightarrow> 'd xdev option \<Rightarrow> u8 \<Rightarrow> u8 \<Rightarrow> u32 list option \<Rightarrow>
   int \<times> u32 list option \<times> 'd xdev option" where
  "csr_write feature io reg dev index count vals =
     (case (dev, vals) of
        (Some d, Some vs) \<Rightarrow>
          if count = 0 then (neg_err QDMA_ERR_INV_PARAM, vals, dev)
          else if unat index + unat count > QDMA_GLOBAL_CSR_ARRAY_SZ
          then (neg_err QDMA_ERR_INV_PARAM, vals, dev)
          else let (enabled, d) = feature d in
            if enabled
            then (err_code QDMA_SUCCESS, vals,
                  Some (qdma_write_csr_values io d reg (ucast index) (ucast count) vs))
            else (neg_err QDMA_ERR_HWACC_FEATURE_NOT_SUPPORTED, vals, Some d)
      | _ \<Rightarrow> (neg_err QDMA_ERR_INV_PARAM, vals, dev))"

text \<open>The read fills the first count elements of the caller's array.\<close>

definition csr_read ::
  "('d xdev \<Rightarrow> bool \<times> 'd xdev) \<Rightarrow> 'd mmio \<Rightarrow> u32 \<Rightarrow> 'd xdev option \<Rightarrow> u8 \<Rightarrow> u8 \<Rightarrow> u32 list option \<Rightarrow>
   int \<times> u32 list option \<times> 'd xdev option" where
  "csr_read feature io reg dev index count vals =
     (case (dev, vals) of
        (Some d, Some vs) \<Rightarrow>
          if count = 0 then (neg_err QDMA_ERR_INV_PARAM, vals, dev)
          else if unat index + unat count > QDMA_GLOBAL_CSR_ARRAY_SZ
          then (neg_err QDMA_ERR_INV_PARAM, vals, dev)
          else let (enabled, d) = feature d in
            if enabled
            then let (rs, d) = qdma_read_csr_values io d reg (ucast index) (ucast count)
                 in (err_code QDMA_SUCCESS, Some (rs @ drop (unat count) vs), Some d)
            else (neg_err QDMA_ERR_HWACC_FEATURE_NOT_SUPPORTED, vals, Some d)
      | _ \<Rightarrow> (neg_err QDMA_ERR_INV_PARAM, vals, dev))"

section \<open>Writeback interval and channel control\<close>

text \<open>enum qdma_wrb_interval has the eight intervals 0 to 7 and then their number.\<close>

abbreviation GLBL_DSC_CFG_WB_ACC_INT_MASK :: u32 where "GLBL_DSC_CFG_WB_ACC_INT_MASK \<equiv> GENMASK 2 0"

definition QDMA_NUM_WRB_INTERVALS :: u32 where
  "QDMA_NUM_WRB_INTERVALS = 8"

definition wb_interval_write ::
  "('d xdev option \<Rightarrow> qdma_dev_attributes option \<Rightarrow> int \<times> qdma_dev_attributes option \<times> 'd xdev option) \<Rightarrow>
   'd mmio \<Rightarrow> u32 \<Rightarrow> 'd xdev option \<Rightarrow> u32 \<Rightarrow> int \<times> 'd xdev option" where
  "wb_interval_write get_attrs io reg dev wb_int =
     (case dev of
        None \<Rightarrow> (neg_err QDMA_ERR_INV_PARAM, dev)
      | Some d \<Rightarrow>
          if wb_int \<ge> QDMA_NUM_WRB_INTERVALS then (neg_err QDMA_ERR_INV_PARAM, dev)
          else let (enabled, d) = csr_feature get_attrs has_st_or_cmpt d in
            if enabled
            then let (reg_val, d) = qdma_reg_read io d reg
                 in (err_code QDMA_SUCCESS,
                     Some (qdma_reg_write io d reg
                       (reg_val OR FIELD_SET GLBL_DSC_CFG_WB_ACC_INT_MASK wb_int)))
            else (neg_err QDMA_ERR_HWACC_FEATURE_NOT_SUPPORTED, Some d))"

definition wb_interval_read ::
  "('d xdev option \<Rightarrow> qdma_dev_attributes option \<Rightarrow> int \<times> qdma_dev_attributes option \<times> 'd xdev option) \<Rightarrow>
   'd mmio \<Rightarrow> u32 \<Rightarrow> 'd xdev option \<Rightarrow> u32 option \<Rightarrow> int \<times> u32 option \<times> 'd xdev option" where
  "wb_interval_read get_attrs io reg dev wb_int =
     (case (dev, wb_int) of
        (Some d, Some _) \<Rightarrow>
          let (enabled, d) = csr_feature get_attrs has_st_or_cmpt d in
          if enabled
          then let (reg_val, d) = qdma_reg_read io d reg
               in (err_code QDMA_SUCCESS, Some (FIELD_GET GLBL_DSC_CFG_WB_ACC_INT_MASK reg_val), Some d)
          else (neg_err QDMA_ERR_HWACC_FEATURE_NOT_SUPPORTED, wb_int, Some d)
      | _ \<Rightarrow> (neg_err QDMA_ERR_INV_PARAM, wb_int, dev))"

abbreviation QDMA_MM_CONTROL_STEP :: u32 where "QDMA_MM_CONTROL_STEP \<equiv> 0x100"

definition mm_channel_write ::
  "('d xdev option \<Rightarrow> qdma_dev_attributes option \<Rightarrow> int \<times> qdma_dev_attributes option \<times> 'd xdev option) \<Rightarrow>
   'd mmio \<Rightarrow> u32 \<Rightarrow> 'd xdev option \<Rightarrow> u8 \<Rightarrow> u8 \<Rightarrow> int \<times> 'd xdev option" where
  "mm_channel_write get_attrs io reg_addr dev channel enable =
     (case dev of
        None \<Rightarrow> (neg_err QDMA_ERR_INV_PARAM, dev)
      | Some d \<Rightarrow>
          let (enabled, d) = csr_feature get_attrs (\<lambda>cap. da_mm_en cap \<noteq> 0) d in
          (err_code QDMA_SUCCESS,
           Some (if enabled
             then qdma_reg_write io d (reg_addr + ucast channel * QDMA_MM_CONTROL_STEP) (ucast enable)
             else d)))"

section \<open>The functions of each variant\<close>

text \<open>CSR configuration of the soft IP, qdma_soft_access.c.\<close>

abbreviation QDMA_OFFSET_GLBL_RNG_SZ :: u32 where "QDMA_OFFSET_GLBL_RNG_SZ \<equiv> 0x204"
abbreviation QDMA_OFFSET_C2H_TIMER_CNT :: u32 where "QDMA_OFFSET_C2H_TIMER_CNT \<equiv> 0xA00"
abbreviation QDMA_OFFSET_C2H_CNT_TH :: u32 where "QDMA_OFFSET_C2H_CNT_TH \<equiv> 0xA40"
abbreviation QDMA_OFFSET_C2H_BUF_SZ :: u32 where "QDMA_OFFSET_C2H_BUF_SZ \<equiv> 0xAB0"
abbreviation QDMA_OFFSET_GLBL_DSC_CFG :: u32 where "QDMA_OFFSET_GLBL_DSC_CFG \<equiv> 0x250"
abbreviation QDMA_OFFSET_C2H_MM_CONTROL :: u32 where "QDMA_OFFSET_C2H_MM_CONTROL \<equiv> 0x1004"
abbreviation QDMA_OFFSET_H2C_MM_CONTROL :: u32 where "QDMA_OFFSET_H2C_MM_CONTROL \<equiv> 0x1204"

definition qdma_write_global_ring_sizes ::
  "'d mmio \<Rightarrow> 'd xdev option \<Rightarrow> u8 \<Rightarrow> u8 \<Rightarrow> u32 list option \<Rightarrow>
   int \<times> u32 list option \<times> 'd xdev option" where
  "qdma_write_global_ring_sizes io = csr_write csr_always io QDMA_OFFSET_GLBL_RNG_SZ"

definition qdma_read_global_ring_sizes ::
  "'d mmio \<Rightarrow> 'd xdev option \<Rightarrow> u8 \<Rightarrow> u8 \<Rightarrow> u32 list option \<Rightarrow>
   int \<times> u32 list option \<times> 'd xdev option" where
  "qdma_read_global_ring_sizes io = csr_read csr_always io QDMA_OFFSET_GLBL_RNG_SZ"

definition qdma_write_global_timer_count ::
  "'d mmio \<Rightarrow> 'd xdev option \<Rightarrow> u8 \<Rightarrow> u8 \<Rightarrow> u32 list option \<Rightarrow>
   int \<times> u32 list option \<times> 'd xdev option" where
  "qdma_write_global_timer_count io = csr_write (csr_feature (qdma_get_device_attributes io) has_st_or_cmpt) io QDMA_OFFSET_C2H_TIMER_CNT"

definition qdma_read_global_timer_count ::
  "'d mmio \<Rightarrow> 'd xdev option \<Rightarrow> u8 \<Rightarrow> u8 \<Rightarrow> u32 list option \<Rightarrow>
   int \<times> u32 list option \<times> 'd xdev option" where
  "qdma_read_global_timer_count io = csr_read (csr_feature (qdma_get_device_attributes io) has_st_or_cmpt) io QDMA_OFFSET_C2H_TIMER_CNT"

definition qdma_write_global_counter_threshold ::
  "'d mmio \<Rightarrow> 'd xdev option \<Rightarrow> u8 \<Rightarrow> u8 \<Rightarrow> u32 list option \<Rightarrow>
   int \<times> u32 list option \<times> 'd xdev option" where
  "qdma_write_global_counter_threshold io = csr_write (csr_feature (qdma_get_device_attributes io) has_st_or_cmpt) io QDMA_OFFSET_C2H_CNT_TH"

definition qdma_read_global_counter_threshold ::
  "'d mmio \<Rightarrow> 'd xdev option \<Rightarrow> u8 \<Rightarrow> u8 \<Rightarrow> u32 list option \<Rightarrow>
   int \<times> u32 list option \<times> 'd xdev option" where
  "qdma_read_global_counter_threshold io = csr_read (csr_feature (qdma_get_device_attributes io) has_st_or_cmpt) io QDMA_OFFSET_C2H_CNT_TH"

definition qdma_write_global_buffer_sizes ::
  "'d mmio \<Rightarrow> 'd xdev option \<Rightarrow> u8 \<Rightarrow> u8 \<Rightarrow> u32 list option \<Rightarrow>
   int \<times> u32 list option \<times> 'd xdev option" where
  "qdma_write_global_buffer_sizes io = csr_write (csr_feature (qdma_get_device_attributes io) has_st) io QDMA_OFFSET_C2H_BUF_SZ"

definition qdma_read_global_buffer_sizes ::
  "'d mmio \<Rightarrow> 'd xdev option \<Rightarrow> u8 \<Rightarrow> u8 \<Rightarrow> u32 list option \<Rightarrow>
   int \<times> u32 list option \<times> 'd xdev option" where
  "qdma_read_global_buffer_sizes io = csr_read (csr_feature (qdma_get_device_attributes io) has_st) io QDMA_OFFSET_C2H_BUF_SZ"

definition qdma_global_csr_conf ::
  "'d mmio \<Rightarrow> 'd xdev option \<Rightarrow> u8 \<Rightarrow> u8 \<Rightarrow> u32 list option \<Rightarrow> qdma_global_csr_type \<Rightarrow>
   qdma_hw_access_type \<Rightarrow> int \<times> u32 list option \<times> 'd xdev option" where
  "qdma_global_csr_conf io dev index count csr_val csr_type access_type =
     (case csr_type of
        QDMA_CSR_RING_SZ \<Rightarrow>
          (case access_type of
             QDMA_HW_ACCESS_READ \<Rightarrow> qdma_read_global_ring_sizes io dev index count csr_val
           | QDMA_HW_ACCESS_WRITE \<Rightarrow> qdma_write_global_ring_sizes io dev index count csr_val
           | _ \<Rightarrow> (neg_err QDMA_ERR_INV_PARAM, csr_val, dev))
      | QDMA_CSR_TIMER_CNT \<Rightarrow>
          (case access_type of
             QDMA_HW_ACCESS_READ \<Rightarrow> qdma_read_global_timer_count io dev index count csr_val
           | QDMA_HW_ACCESS_WRITE \<Rightarrow> qdma_write_global_timer_count io dev index count csr_val
           | _ \<Rightarrow> (neg_err QDMA_ERR_INV_PARAM, csr_val, dev))
      | QDMA_CSR_CNT_TH \<Rightarrow>
          (case access_type of
             QDMA_HW_ACCESS_READ \<Rightarrow> qdma_read_global_counter_threshold io dev index count csr_val
           | QDMA_HW_ACCESS_WRITE \<Rightarrow> qdma_write_global_counter_threshold io dev index count csr_val
           | _ \<Rightarrow> (neg_err QDMA_ERR_INV_PARAM, csr_val, dev))
      | QDMA_CSR_BUF_SZ \<Rightarrow>
          (case access_type of
             QDMA_HW_ACCESS_READ \<Rightarrow> qdma_read_global_buffer_sizes io dev index count csr_val
           | QDMA_HW_ACCESS_WRITE \<Rightarrow> qdma_write_global_buffer_sizes io dev index count csr_val
           | _ \<Rightarrow> (neg_err QDMA_ERR_INV_PARAM, csr_val, dev))
      | QDMA_CSR_MAX \<Rightarrow> (neg_err QDMA_ERR_INV_PARAM, csr_val, dev))"

definition qdma_global_writeback_interval_write :: "'d mmio \<Rightarrow> 'd xdev option \<Rightarrow> u32 \<Rightarrow> int \<times> 'd xdev option" where
  "qdma_global_writeback_interval_write io = wb_interval_write (qdma_get_device_attributes io) io QDMA_OFFSET_GLBL_DSC_CFG"

definition qdma_global_writeback_interval_read ::
  "'d mmio \<Rightarrow> 'd xdev option \<Rightarrow> u32 option \<Rightarrow> int \<times> u32 option \<times> 'd xdev option" where
  "qdma_global_writeback_interval_read io = wb_interval_read (qdma_get_device_attributes io) io QDMA_OFFSET_GLBL_DSC_CFG"

definition qdma_global_writeback_interval_conf ::
  "'d mmio \<Rightarrow> 'd xdev option \<Rightarrow> u32 option \<Rightarrow> qdma_hw_access_type \<Rightarrow>
   int \<times> u32 option \<times> 'd xdev option" where
  "qdma_global_writeback_interval_conf io dev wb_int access_type =
     (case access_type of
        QDMA_HW_ACCESS_READ \<Rightarrow> qdma_global_writeback_interval_read io dev wb_int
      | QDMA_HW_ACCESS_WRITE \<Rightarrow>
          let (rv, dev) = qdma_global_writeback_interval_write io dev (the wb_int) in (rv, wb_int, dev)
      | _ \<Rightarrow> (neg_err QDMA_ERR_INV_PARAM, wb_int, dev))"

definition qdma_mm_channel_conf :: "'d mmio \<Rightarrow> 'd xdev option \<Rightarrow> u8 \<Rightarrow> u8 \<Rightarrow> u8 \<Rightarrow> int \<times> 'd xdev option" where
  "qdma_mm_channel_conf io dev channel is_c2h enable =
     mm_channel_write (qdma_get_device_attributes io) io
       (if is_c2h \<noteq> 0 then QDMA_OFFSET_C2H_MM_CONTROL else QDMA_OFFSET_H2C_MM_CONTROL) dev channel enable"

text \<open>CSR configuration of the enhanced soft IP, eqdma_soft_access.c.\<close>

abbreviation EQDMA_GLBL_RNG_SZ_1_ADDR :: u32 where "EQDMA_GLBL_RNG_SZ_1_ADDR \<equiv> 0x204"
abbreviation EQDMA_C2H_TIMER_CNT_ADDR :: u32 where "EQDMA_C2H_TIMER_CNT_ADDR \<equiv> 0xA00"
abbreviation EQDMA_C2H_CNT_TH_ADDR :: u32 where "EQDMA_C2H_CNT_TH_ADDR \<equiv> 0xA40"
abbreviation EQDMA_C2H_BUF_SZ_ADDR :: u32 where "EQDMA_C2H_BUF_SZ_ADDR \<equiv> 0xAB0"
abbreviation EQDMA_GLBL_DSC_CFG_ADDR :: u32 where "EQDMA_GLBL_DSC_CFG_ADDR \<equiv> 0x250"
abbreviation EQDMA_C2H_MM_CTL_ADDR :: u32 where "EQDMA_C2H_MM_CTL_ADDR \<equiv> 0x1004"
abbreviation EQDMA_H2C_MM_CTL_ADDR :: u32 where "EQDMA_H2C_MM_CTL_ADDR \<equiv> 0x1204"

definition eqdma_write_global_ring_sizes ::
  "'d mmio \<Rightarrow> 'd xdev option \<Rightarrow> u8 \<Rightarrow> u8 \<Rightarrow> u32 list option \<Rightarrow>
   int \<times> u32 list option \<times> 'd xdev option" where
  "eqdma_write_global_ring_sizes io = csr_write csr_always io EQDMA_GLBL_RNG_SZ_1_ADDR"

definition eqdma_read_global_ring_sizes ::
  "'d mmio \<Rightarrow> 'd xdev option \<Rightarrow> u8 \<Rightarrow> u8 \<Rightarrow> u32 list option \<Rightarrow>
   int \<times> u32 list option \<times> 'd xdev option" where
  "eqdma_read_global_ring_sizes io = csr_read csr_always io EQDMA_GLBL_RNG_SZ_1_ADDR"

definition eqdma_write_global_timer_count ::
  "'d mmio \<Rightarrow> 'd xdev option \<Rightarrow> u8 \<Rightarrow> u8 \<Rightarrow> u32 list option \<Rightarrow>
   int \<times> u32 list option \<times> 'd xdev option" where
  "eqdma_write_global_timer_count io = csr_write (csr_feature (eqdma_get_device_attributes io) has_st_or_cmpt) io EQDMA_C2H_TIMER_CNT_ADDR"

definition eqdma_read_global_timer_count ::
  "'d mmio \<Rightarrow> 'd xdev option \<Rightarrow> u8 \<Rightarrow> u8 \<Rightarrow> u32 list option \<Rightarrow>
   int \<times> u32 list option \<times> 'd xdev option" where
  "eqdma_read_global_timer_count io = csr_read (csr_feature (eqdma_get_device_attributes io) has_st_or_cmpt) io EQDMA_C2H_TIMER_CNT_ADDR"

definition eqdma_write_global_counter_threshold ::
  "'d mmio \<Rightarrow> 'd xdev option \<Rightarrow> u8 \<Rightarrow> u8 \<Rightarrow> u32 list option \<Rightarrow>
   int \<times> u32 list option \<times> 'd xdev option" where
  "eqdma_write_global_counter_threshold io = csr_write (csr_feature (eqdma_get_device_attributes io) has_st_or_cmpt) io EQDMA_C2H_CNT_TH_ADDR"

definition eqdma_read_global_counter_threshold ::
  "'d mmio \<Rightarrow> 'd xdev option \<Rightarrow> u8 \<Rightarrow> u8 \<Rightarrow> u32 list option \<Rightarrow>
   int \<times> u32 list option \<times> 'd xdev option" where
  "eqdma_read_global_counter_threshold io = csr_read (csr_feature (eqdma_get_device_attributes io) has_st_or_cmpt) io EQDMA_C2H_CNT_TH_ADDR"

definition eqdma_write_global_buffer_sizes ::
  "'d mmio \<Rightarrow> 'd xdev option \<Rightarrow> u8 \<Rightarrow> u8 \<Rightarrow> u32 list option \<Rightarrow>
   int \<times> u32 list option \<times> 'd xdev option" where
  "eqdma_write_global_buffer_sizes io = csr_write (csr_feature (eqdma_get_device_attributes io) has_st) io EQDMA_C2H_BUF_SZ_ADDR"

definition eqdma_read_global_buffer_sizes ::
  "'d mmio \<Rightarrow> 'd xdev option \<Rightarrow> u8 \<Rightarrow> u8 \<Rightarrow> u32 list option \<Rightarrow>
   int \<times> u32 list option \<times> 'd xdev option" where
  "eqdma_read_global_buffer_sizes io = csr_read (csr_feature (eqdma_get_device_attributes io) has_st) io EQDMA_C2H_BUF_SZ_ADDR"

definition eqdma_global_csr_conf ::
  "'d mmio \<Rightarrow> 'd xdev option \<Rightarrow> u8 \<Rightarrow> u8 \<Rightarrow> u32 list option \<Rightarrow> qdma_global_csr_type \<Rightarrow>
   qdma_hw_access_type \<Rightarrow> int \<times> u32 list option \<times> 'd xdev option" where
  "eqdma_global_csr_conf io dev index count csr_val csr_type access_type =
     (case csr_type of
        QDMA_CSR_RING_SZ \<Rightarrow>
          (case access_type of
             QDMA_HW_ACCESS_READ \<Rightarrow> eqdma_read_global_ring_sizes io dev index count csr_val
           | QDMA_HW_ACCESS_WRITE \<Rightarrow> eqdma_write_global_ring_sizes io dev index count csr_val
           | _ \<Rightarrow> (neg_err QDMA_ERR_INV_PARAM, csr_val, dev))
      | QDMA_CSR_TIMER_CNT \<Rightarrow>
          (case access_type of
             QDMA_HW_ACCESS_READ \<Rightarrow> eqdma_read_global_timer_count io dev index count csr_val
           | QDMA_HW_ACCESS_WRITE \<Rightarrow> eqdma_write_global_timer_count io dev index count csr_val
           | _ \<Rightarrow> (neg_err QDMA_ERR_INV_PARAM, csr_val, dev))
      | QDMA_CSR_CNT_TH \<Rightarrow>
          (case access_type of
             QDMA_HW_ACCESS_READ \<Rightarrow> eqdma_read_global_counter_threshold io dev index count csr_val
           | QDMA_HW_ACCESS_WRITE \<Rightarrow> eqdma_write_global_counter_threshold io dev index count csr_val
           | _ \<Rightarrow> (neg_err QDMA_ERR_INV_PARAM, csr_val, dev))
      | QDMA_CSR_BUF_SZ \<Rightarrow>
          (case access_type of
             QDMA_HW_ACCESS_READ \<Rightarrow> eqdma_read_global_buffer_sizes io dev index count csr_val
           | QDMA_HW_ACCESS_WRITE \<Rightarrow> eqdma_write_global_buffer_sizes io dev index count csr_val
           | _ \<Rightarrow> (neg_err QDMA_ERR_INV_PARAM, csr_val, dev))
      | QDMA_CSR_MAX \<Rightarrow> (neg_err QDMA_ERR_INV_PARAM, csr_val, dev))"

definition eqdma_global_writeback_interval_write :: "'d mmio \<Rightarrow> 'd xdev option \<Rightarrow> u32 \<Rightarrow> int \<times> 'd xdev option" where
  "eqdma_global_writeback_interval_write io = wb_interval_write (eqdma_get_device_attributes io) io EQDMA_GLBL_DSC_CFG_ADDR"

definition eqdma_global_writeback_interval_read ::
  "'d mmio \<Rightarrow> 'd xdev option \<Rightarrow> u32 option \<Rightarrow> int \<times> u32 option \<times> 'd xdev option" where
  "eqdma_global_writeback_interval_read io = wb_interval_read (eqdma_get_device_attributes io) io EQDMA_GLBL_DSC_CFG_ADDR"

definition eqdma_global_writeback_interval_conf ::
  "'d mmio \<Rightarrow> 'd xdev option \<Rightarrow> u32 option \<Rightarrow> qdma_hw_access_type \<Rightarrow>
   int \<times> u32 option \<times> 'd xdev option" where
  "eqdma_global_writeback_interval_conf io dev wb_int access_type =
     (case access_type of
        QDMA_HW_ACCESS_READ \<Rightarrow> eqdma_global_writeback_interval_read io dev wb_int
      | QDMA_HW_ACCESS_WRITE \<Rightarrow>
          let (rv, dev) = eqdma_global_writeback_interval_write io dev (the wb_int) in (rv, wb_int, dev)
      | _ \<Rightarrow> (neg_err QDMA_ERR_INV_PARAM, wb_int, dev))"

definition eqdma_mm_channel_conf :: "'d mmio \<Rightarrow> 'd xdev option \<Rightarrow> u8 \<Rightarrow> u8 \<Rightarrow> u8 \<Rightarrow> int \<times> 'd xdev option" where
  "eqdma_mm_channel_conf io dev channel is_c2h enable =
     mm_channel_write (eqdma_get_device_attributes io) io
       (if is_c2h \<noteq> 0 then EQDMA_C2H_MM_CTL_ADDR else EQDMA_H2C_MM_CTL_ADDR) dev channel enable"

text \<open>CSR configuration of CPM5, eqdma_cpm5_access.c.\<close>

abbreviation EQDMA_CPM5_GLBL_RNG_SZ_1_ADDR :: u32 where "EQDMA_CPM5_GLBL_RNG_SZ_1_ADDR \<equiv> 0x204"
abbreviation EQDMA_CPM5_C2H_TIMER_CNT_ADDR :: u32 where "EQDMA_CPM5_C2H_TIMER_CNT_ADDR \<equiv> 0xA00"
abbreviation EQDMA_CPM5_C2H_CNT_TH_ADDR :: u32 where "EQDMA_CPM5_C2H_CNT_TH_ADDR \<equiv> 0xA40"
abbreviation EQDMA_CPM5_C2H_BUF_SZ_ADDR :: u32 where "EQDMA_CPM5_C2H_BUF_SZ_ADDR \<equiv> 0xAB0"
abbreviation EQDMA_CPM5_GLBL_DSC_CFG_ADDR :: u32 where "EQDMA_CPM5_GLBL_DSC_CFG_ADDR \<equiv> 0x250"
abbreviation EQDMA_CPM5_C2H_MM_CTL_ADDR :: u32 where "EQDMA_CPM5_C2H_MM_CTL_ADDR \<equiv> 0x1004"
abbreviation EQDMA_CPM5_H2C_MM_CTL_ADDR :: u32 where "EQDMA_CPM5_H2C_MM_CTL_ADDR \<equiv> 0x1204"

definition eqdma_cpm5_write_global_ring_sizes ::
  "'d mmio \<Rightarrow> 'd xdev option \<Rightarrow> u8 \<Rightarrow> u8 \<Rightarrow> u32 list option \<Rightarrow>
   int \<times> u32 list option \<times> 'd xdev option" where
  "eqdma_cpm5_write_global_ring_sizes io = csr_write csr_always io EQDMA_CPM5_GLBL_RNG_SZ_1_ADDR"

definition eqdma_cpm5_read_global_ring_sizes ::
  "'d mmio \<Rightarrow> 'd xdev option \<Rightarrow> u8 \<Rightarrow> u8 \<Rightarrow> u32 list option \<Rightarrow>
   int \<times> u32 list option \<times> 'd xdev option" where
  "eqdma_cpm5_read_global_ring_sizes io = csr_read csr_always io EQDMA_CPM5_GLBL_RNG_SZ_1_ADDR"

definition eqdma_cpm5_write_global_timer_count ::
  "'d mmio \<Rightarrow> 'd xdev option \<Rightarrow> u8 \<Rightarrow> u8 \<Rightarrow> u32 list option \<Rightarrow>
   int \<times> u32 list option \<times> 'd xdev option" where
  "eqdma_cpm5_write_global_timer_count io = csr_write (csr_feature (eqdma_cpm5_get_device_attributes io) has_st_or_cmpt) io EQDMA_CPM5_C2H_TIMER_CNT_ADDR"

definition eqdma_cpm5_read_global_timer_count ::
  "'d mmio \<Rightarrow> 'd xdev option \<Rightarrow> u8 \<Rightarrow> u8 \<Rightarrow> u32 list option \<Rightarrow>
   int \<times> u32 list option \<times> 'd xdev option" where
  "eqdma_cpm5_read_global_timer_count io = csr_read (csr_feature (eqdma_cpm5_get_device_attributes io) has_st_or_cmpt) io EQDMA_CPM5_C2H_TIMER_CNT_ADDR"

definition eqdma_cpm5_write_global_counter_threshold ::
  "'d mmio \<Rightarrow> 'd xdev option \<Rightarrow> u8 \<Rightarrow> u8 \<Rightarrow> u32 list option \<Rightarrow>
   int \<times> u32 list option \<times> 'd xdev option" where
  "eqdma_cpm5_write_global_counter_threshold io = csr_write (csr_feature (eqdma_cpm5_get_device_attributes io) has_st_or_cmpt) io EQDMA_CPM5_C2H_CNT_TH_ADDR"

definition eqdma_cpm5_read_global_counter_threshold ::
  "'d mmio \<Rightarrow> 'd xdev option \<Rightarrow> u8 \<Rightarrow> u8 \<Rightarrow> u32 list option \<Rightarrow>
   int \<times> u32 list option \<times> 'd xdev option" where
  "eqdma_cpm5_read_global_counter_threshold io = csr_read (csr_feature (eqdma_cpm5_get_device_attributes io) has_st_or_cmpt) io EQDMA_CPM5_C2H_CNT_TH_ADDR"

definition eqdma_cpm5_write_global_buffer_sizes ::
  "'d mmio \<Rightarrow> 'd xdev option \<Rightarrow> u8 \<Rightarrow> u8 \<Rightarrow> u32 list option \<Rightarrow>
   int \<times> u32 list option \<times> 'd xdev option" where
  "eqdma_cpm5_write_global_buffer_sizes io = csr_write (csr_feature (eqdma_cpm5_get_device_attributes io) has_st) io EQDMA_CPM5_C2H_BUF_SZ_ADDR"

definition eqdma_cpm5_read_global_buffer_sizes ::
  "'d mmio \<Rightarrow> 'd xdev option \<Rightarrow> u8 \<Rightarrow> u8 \<Rightarrow> u32 list option \<Rightarrow>
   int \<times> u32 list option \<times> 'd xdev option" where
  "eqdma_cpm5_read_global_buffer_sizes io = csr_read (csr_feature (eqdma_cpm5_get_device_attributes io) has_st) io EQDMA_CPM5_C2H_BUF_SZ_ADDR"

definition eqdma_cpm5_global_csr_conf ::
  "'d mmio \<Rightarrow> 'd xdev option \<Rightarrow> u8 \<Rightarrow> u8 \<Rightarrow> u32 list option \<Rightarrow> qdma_global_csr_type \<Rightarrow>
   qdma_hw_access_type \<Rightarrow> int \<times> u32 list option \<times> 'd xdev option" where
  "eqdma_cpm5_global_csr_conf io dev index count csr_val csr_type access_type =
     (case csr_type of
        QDMA_CSR_RING_SZ \<Rightarrow>
          (case access_type of
             QDMA_HW_ACCESS_READ \<Rightarrow> eqdma_cpm5_read_global_ring_sizes io dev index count csr_val
           | QDMA_HW_ACCESS_WRITE \<Rightarrow> eqdma_cpm5_write_global_ring_sizes io dev index count csr_val
           | _ \<Rightarrow> (neg_err QDMA_ERR_INV_PARAM, csr_val, dev))
      | QDMA_CSR_TIMER_CNT \<Rightarrow>
          (case access_type of
             QDMA_HW_ACCESS_READ \<Rightarrow> eqdma_cpm5_read_global_timer_count io dev index count csr_val
           | QDMA_HW_ACCESS_WRITE \<Rightarrow> eqdma_cpm5_write_global_timer_count io dev index count csr_val
           | _ \<Rightarrow> (neg_err QDMA_ERR_INV_PARAM, csr_val, dev))
      | QDMA_CSR_CNT_TH \<Rightarrow>
          (case access_type of
             QDMA_HW_ACCESS_READ \<Rightarrow> eqdma_cpm5_read_global_counter_threshold io dev index count csr_val
           | QDMA_HW_ACCESS_WRITE \<Rightarrow> eqdma_cpm5_write_global_counter_threshold io dev index count csr_val
           | _ \<Rightarrow> (neg_err QDMA_ERR_INV_PARAM, csr_val, dev))
      | QDMA_CSR_BUF_SZ \<Rightarrow>
          (case access_type of
             QDMA_HW_ACCESS_READ \<Rightarrow> eqdma_cpm5_read_global_buffer_sizes io dev index count csr_val
           | QDMA_HW_ACCESS_WRITE \<Rightarrow> eqdma_cpm5_write_global_buffer_sizes io dev index count csr_val
           | _ \<Rightarrow> (neg_err QDMA_ERR_INV_PARAM, csr_val, dev))
      | QDMA_CSR_MAX \<Rightarrow> (neg_err QDMA_ERR_INV_PARAM, csr_val, dev))"

definition eqdma_cpm5_global_writeback_interval_write :: "'d mmio \<Rightarrow> 'd xdev option \<Rightarrow> u32 \<Rightarrow> int \<times> 'd xdev option" where
  "eqdma_cpm5_global_writeback_interval_write io = wb_interval_write (eqdma_cpm5_get_device_attributes io) io EQDMA_CPM5_GLBL_DSC_CFG_ADDR"

definition eqdma_cpm5_global_writeback_interval_read ::
  "'d mmio \<Rightarrow> 'd xdev option \<Rightarrow> u32 option \<Rightarrow> int \<times> u32 option \<times> 'd xdev option" where
  "eqdma_cpm5_global_writeback_interval_read io = wb_interval_read (eqdma_cpm5_get_device_attributes io) io EQDMA_CPM5_GLBL_DSC_CFG_ADDR"

definition eqdma_cpm5_global_writeback_interval_conf ::
  "'d mmio \<Rightarrow> 'd xdev option \<Rightarrow> u32 option \<Rightarrow> qdma_hw_access_type \<Rightarrow>
   int \<times> u32 option \<times> 'd xdev option" where
  "eqdma_cpm5_global_writeback_interval_conf io dev wb_int access_type =
     (case access_type of
        QDMA_HW_ACCESS_READ \<Rightarrow> eqdma_cpm5_global_writeback_interval_read io dev wb_int
      | QDMA_HW_ACCESS_WRITE \<Rightarrow>
          let (rv, dev) = eqdma_cpm5_global_writeback_interval_write io dev (the wb_int) in (rv, wb_int, dev)
      | _ \<Rightarrow> (neg_err QDMA_ERR_INV_PARAM, wb_int, dev))"

definition eqdma_cpm5_mm_channel_conf :: "'d mmio \<Rightarrow> 'd xdev option \<Rightarrow> u8 \<Rightarrow> u8 \<Rightarrow> u8 \<Rightarrow> int \<times> 'd xdev option" where
  "eqdma_cpm5_mm_channel_conf io dev channel is_c2h enable =
     mm_channel_write (eqdma_cpm5_get_device_attributes io) io
       (if is_c2h \<noteq> 0 then EQDMA_CPM5_C2H_MM_CTL_ADDR else EQDMA_CPM5_H2C_MM_CTL_ADDR) dev channel enable"

text \<open>CSR configuration of CPM4, qdma_cpm4_access.c.\<close>

abbreviation QDMA_CPM4_GLBL_RNG_SZ_1_ADDR :: u32 where "QDMA_CPM4_GLBL_RNG_SZ_1_ADDR \<equiv> 0x204"
abbreviation QDMA_CPM4_C2H_TIMER_CNT_1_ADDR :: u32 where "QDMA_CPM4_C2H_TIMER_CNT_1_ADDR \<equiv> 0xA00"
abbreviation QDMA_CPM4_C2H_CNT_TH_1_ADDR :: u32 where "QDMA_CPM4_C2H_CNT_TH_1_ADDR \<equiv> 0xA40"
abbreviation QDMA_CPM4_C2H_BUF_SZ_0_ADDR :: u32 where "QDMA_CPM4_C2H_BUF_SZ_0_ADDR \<equiv> 0xAB0"
abbreviation QDMA_CPM4_GLBL_DSC_CFG_ADDR :: u32 where "QDMA_CPM4_GLBL_DSC_CFG_ADDR \<equiv> 0x250"
abbreviation QDMA_CPM4_C2H_CHANNEL_CTL_ADDR :: u32 where "QDMA_CPM4_C2H_CHANNEL_CTL_ADDR \<equiv> 0x1004"
abbreviation QDMA_CPM4_H2C_CHANNEL_CTL_ADDR :: u32 where "QDMA_CPM4_H2C_CHANNEL_CTL_ADDR \<equiv> 0x1204"

definition qdma_cpm4_write_global_ring_sizes ::
  "'d mmio \<Rightarrow> 'd xdev option \<Rightarrow> u8 \<Rightarrow> u8 \<Rightarrow> u32 list option \<Rightarrow>
   int \<times> u32 list option \<times> 'd xdev option" where
  "qdma_cpm4_write_global_ring_sizes io = csr_write csr_always io QDMA_CPM4_GLBL_RNG_SZ_1_ADDR"

definition qdma_cpm4_read_global_ring_sizes ::
  "'d mmio \<Rightarrow> 'd xdev option \<Rightarrow> u8 \<Rightarrow> u8 \<Rightarrow> u32 list option \<Rightarrow>
   int \<times> u32 list option \<times> 'd xdev option" where
  "qdma_cpm4_read_global_ring_sizes io = csr_read csr_always io QDMA_CPM4_GLBL_RNG_SZ_1_ADDR"

definition qdma_cpm4_write_global_timer_count ::
  "'d mmio \<Rightarrow> 'd xdev option \<Rightarrow> u8 \<Rightarrow> u8 \<Rightarrow> u32 list option \<Rightarrow>
   int \<times> u32 list option \<times> 'd xdev option" where
  "qdma_cpm4_write_global_timer_count io = csr_write (csr_feature (qdma_cpm4_get_device_attributes io) has_st_or_cmpt) io QDMA_CPM4_C2H_TIMER_CNT_1_ADDR"

definition qdma_cpm4_read_global_timer_count ::
  "'d mmio \<Rightarrow> 'd xdev option \<Rightarrow> u8 \<Rightarrow> u8 \<Rightarrow> u32 list option \<Rightarrow>
   int \<times> u32 list option \<times> 'd xdev option" where
  "qdma_cpm4_read_global_timer_count io = csr_read (csr_feature (qdma_cpm4_get_device_attributes io) has_st_or_cmpt) io QDMA_CPM4_C2H_TIMER_CNT_1_ADDR"

definition qdma_cpm4_write_global_counter_threshold ::
  "'d mmio \<Rightarrow> 'd xdev option \<Rightarrow> u8 \<Rightarrow> u8 \<Rightarrow> u32 list option \<Rightarrow>
   int \<times> u32 list option \<times> 'd xdev option" where
  "qdma_cpm4_write_global_counter_threshold io = csr_write (csr_feature (qdma_cpm4_get_device_attributes io) has_st_or_cmpt) io QDMA_CPM4_C2H_CNT_TH_1_ADDR"

definition qdma_cpm4_read_global_counter_threshold ::
  "'d mmio \<Rightarrow> 'd xdev option \<Rightarrow> u8 \<Rightarrow> u8 \<Rightarrow> u32 list option \<Rightarrow>
   int \<times> u32 list option \<times> 'd xdev option" where
  "qdma_cpm4_read_global_counter_threshold io = csr_read (csr_feature (qdma_cpm4_get_device_attributes io) has_st_or_cmpt) io QDMA_CPM4_C2H_CNT_TH_1_ADDR"

definition qdma_cpm4_write_global_buffer_sizes ::
  "'d mmio \<Rightarrow> 'd xdev option \<Rightarrow> u8 \<Rightarrow> u8 \<Rightarrow> u32 list option \<Rightarrow>
   int \<times> u32 list option \<times> 'd xdev option" where
  "qdma_cpm4_write_global_buffer_sizes io = csr_write (csr_feature (qdma_cpm4_get_device_attributes io) has_st) io QDMA_CPM4_C2H_BUF_SZ_0_ADDR"

definition qdma_cpm4_read_global_buffer_sizes ::
  "'d mmio \<Rightarrow> 'd xdev option \<Rightarrow> u8 \<Rightarrow> u8 \<Rightarrow> u32 list option \<Rightarrow>
   int \<times> u32 list option \<times> 'd xdev option" where
  "qdma_cpm4_read_global_buffer_sizes io = csr_read (csr_feature (qdma_cpm4_get_device_attributes io) has_st) io QDMA_CPM4_C2H_BUF_SZ_0_ADDR"

definition qdma_cpm4_global_csr_conf ::
  "'d mmio \<Rightarrow> 'd xdev option \<Rightarrow> u8 \<Rightarrow> u8 \<Rightarrow> u32 list option \<Rightarrow> qdma_global_csr_type \<Rightarrow>
   qdma_hw_access_type \<Rightarrow> int \<times> u32 list option \<times> 'd xdev option" where
  "qdma_cpm4_global_csr_conf io dev index count csr_val csr_type access_type =
     (case csr_type of
        QDMA_CSR_RING_SZ \<Rightarrow>
          (case access_type of
             QDMA_HW_ACCESS_READ \<Rightarrow> qdma_cpm4_read_global_ring_sizes io dev index count csr_val
           | QDMA_HW_ACCESS_WRITE \<Rightarrow> qdma_cpm4_write_global_ring_sizes io dev index count csr_val
           | _ \<Rightarrow> (neg_err QDMA_ERR_INV_PARAM, csr_val, dev))
      | QDMA_CSR_TIMER_CNT \<Rightarrow>
          (case access_type of
             QDMA_HW_ACCESS_READ \<Rightarrow> qdma_cpm4_read_global_timer_count io dev index count csr_val
           | QDMA_HW_ACCESS_WRITE \<Rightarrow> qdma_cpm4_write_global_timer_count io dev index count csr_val
           | _ \<Rightarrow> (neg_err QDMA_ERR_INV_PARAM, csr_val, dev))
      | QDMA_CSR_CNT_TH \<Rightarrow>
          (case access_type of
             QDMA_HW_ACCESS_READ \<Rightarrow> qdma_cpm4_read_global_counter_threshold io dev index count csr_val
           | QDMA_HW_ACCESS_WRITE \<Rightarrow> qdma_cpm4_write_global_counter_threshold io dev index count csr_val
           | _ \<Rightarrow> (neg_err QDMA_ERR_INV_PARAM, csr_val, dev))
      | QDMA_CSR_BUF_SZ \<Rightarrow>
          (case access_type of
             QDMA_HW_ACCESS_READ \<Rightarrow> qdma_cpm4_read_global_buffer_sizes io dev index count csr_val
           | QDMA_HW_ACCESS_WRITE \<Rightarrow> qdma_cpm4_write_global_buffer_sizes io dev index count csr_val
           | _ \<Rightarrow> (neg_err QDMA_ERR_INV_PARAM, csr_val, dev))
      | QDMA_CSR_MAX \<Rightarrow> (neg_err QDMA_ERR_INV_PARAM, csr_val, dev))"

definition qdma_cpm4_global_writeback_interval_write :: "'d mmio \<Rightarrow> 'd xdev option \<Rightarrow> u32 \<Rightarrow> int \<times> 'd xdev option" where
  "qdma_cpm4_global_writeback_interval_write io = wb_interval_write (qdma_cpm4_get_device_attributes io) io QDMA_CPM4_GLBL_DSC_CFG_ADDR"

definition qdma_cpm4_global_writeback_interval_read ::
  "'d mmio \<Rightarrow> 'd xdev option \<Rightarrow> u32 option \<Rightarrow> int \<times> u32 option \<times> 'd xdev option" where
  "qdma_cpm4_global_writeback_interval_read io = wb_interval_read (qdma_cpm4_get_device_attributes io) io QDMA_CPM4_GLBL_DSC_CFG_ADDR"

definition qdma_cpm4_global_writeback_interval_conf ::
  "'d mmio \<Rightarrow> 'd xdev option \<Rightarrow> u32 option \<Rightarrow> qdma_hw_access_type \<Rightarrow>
   int \<times> u32 option \<times> 'd xdev option" where
  "qdma_cpm4_global_writeback_interval_conf io dev wb_int access_type =
     (case access_type of
        QDMA_HW_ACCESS_READ \<Rightarrow> qdma_cpm4_global_writeback_interval_read io dev wb_int
      | QDMA_HW_ACCESS_WRITE \<Rightarrow>
          let (rv, dev) = qdma_cpm4_global_writeback_interval_write io dev (the wb_int) in (rv, wb_int, dev)
      | _ \<Rightarrow> (neg_err QDMA_ERR_INV_PARAM, wb_int, dev))"

definition qdma_cpm4_mm_channel_conf :: "'d mmio \<Rightarrow> 'd xdev option \<Rightarrow> u8 \<Rightarrow> u8 \<Rightarrow> u8 \<Rightarrow> int \<times> 'd xdev option" where
  "qdma_cpm4_mm_channel_conf io dev channel is_c2h enable =
     mm_channel_write (qdma_cpm4_get_device_attributes io) io
       (if is_c2h \<noteq> 0 then QDMA_CPM4_C2H_CHANNEL_CTL_ADDR else QDMA_CPM4_H2C_CHANNEL_CTL_ADDR) dev channel enable"
section \<open>Registers that keep what is written\<close>

text \<open>
  The documented behaviour of the registers used here: reading one has no effect on these
  registers, and a write to a CSR or to the descriptor configuration stores the bits that the
  register implements (wm), and changes no other.
\<close>

definition capability_register :: "u32 \<Rightarrow> bool" where
  "capability_register a \<longleftrightarrow> a = 0x104 \<or> a = 0x118 \<or> a = 0x120 \<or> a = 0x134"

definition csr_register :: "u32 \<Rightarrow> bool" where
  "csr_register a \<longleftrightarrow> 0x204 \<le> a \<and> a < 0x244 \<or> a = 0x250 \<or> 0xA00 \<le> a \<and> a < 0xAF0"

definition csr_hardware :: "'d mmio \<Rightarrow> ('d \<Rightarrow> u32 \<Rightarrow> u32) \<Rightarrow> (u32 \<Rightarrow> u32) \<Rightarrow> bool" where
  "csr_hardware io rd wm \<longleftrightarrow>
     (\<forall>r a. capability_register a \<or> csr_register a \<longrightarrow>
        fst (readl io r a) = rd r a \<and>
        (\<forall>b. capability_register b \<or> csr_register b \<longrightarrow> rd (snd (readl io r a)) b = rd r b)) \<and>
     (\<forall>r a v b. csr_register a \<longrightarrow> capability_register b \<or> csr_register b \<longrightarrow>
        rd (writel io r a v) b = (if b = a then v AND wm a else rd r b))"

definition same_registers :: "('d \<Rightarrow> u32 \<Rightarrow> u32) \<Rightarrow> 'd xdev \<Rightarrow> 'd xdev \<Rightarrow> bool" where
  "same_registers rd d d' \<longleftrightarrow>
     (\<forall>b. capability_register b \<or> csr_register b \<longrightarrow> rd (xregs d') b = rd (xregs d) b)"

lemma same_registers_refl [simp]: "same_registers rd d d"
  by (simp add: same_registers_def)

lemma same_registers_trans:
  "same_registers rd d d' \<Longrightarrow> same_registers rd d' d'' \<Longrightarrow> same_registers rd d d''"
  by (simp add: same_registers_def)

lemma csr_hw_read:
  assumes "csr_hardware io rd wm" "capability_register a \<or> csr_register a"
  shows "fst (qdma_reg_read io d a) = rd (xregs d) a"
    "same_registers rd d (snd (qdma_reg_read io d a))"
  using assms by (auto simp: csr_hardware_def qdma_reg_read_def same_registers_def split_beta)

lemma csr_hw_write:
  assumes "csr_hardware io rd wm" "csr_register a" "capability_register b \<or> csr_register b"
  shows "rd (xregs (qdma_reg_write io d a v)) b = (if b = a then v AND wm a else rd (xregs d) b)"
  using assms by (auto simp: csr_hardware_def qdma_reg_write_def)

definition capabilities :: "('d \<Rightarrow> u32 \<Rightarrow> u32) \<Rightarrow> 'd xdev \<Rightarrow> u32 \<times> u32 \<times> u32 \<times> u32" where
  "capabilities rd d =
     (rd (xregs d) 0x104, rd (xregs d) 0x120, rd (xregs d) 0x134, rd (xregs d) 0x118)"

lemma same_capabilities: "same_registers rd d d' \<Longrightarrow> capabilities rd d' = capabilities rd d"
  by (simp add: same_registers_def capabilities_def capability_register_def)

lemma read_capabilities_hw:
  assumes hw: "csr_hardware io rd wm"
  shows "\<exists>d'. read_capabilities io d = (capabilities rd d, d') \<and> same_registers rd d d'"
proof -
  define s1 where "s1 = snd (qdma_reg_read io d 0x104)"
  define s2 where "s2 = snd (qdma_reg_read io s1 0x120)"
  define s3 where "s3 = snd (qdma_reg_read io s2 0x134)"
  define s4 where "s4 = snd (qdma_reg_read io s3 0x118)"
  have c: "capability_register 0x104" "capability_register 0x120" "capability_register 0x134"
    "capability_register 0x118"
    by (simp_all add: capability_register_def)
  note r = csr_hw_read [OF hw disjI1]
  have "same_registers rd d s1" "same_registers rd s1 s2" "same_registers rd s2 s3" "same_registers rd s3 s4"
    unfolding s1_def s2_def s3_def s4_def by (rule r(2), rule c)+
  then have s: "same_registers rd d s1" "same_registers rd d s2" "same_registers rd d s3"
    "same_registers rd d s4"
    by (metis same_registers_trans)+
  then have v: "rd (xregs s1) 0x120 = rd (xregs d) 0x120" "rd (xregs s2) 0x134 = rd (xregs d) 0x134"
    "rd (xregs s3) 0x118 = rd (xregs d) 0x118"
    using c by (simp_all add: same_registers_def)
  have "read_capabilities io d = (capabilities rd d, s4)"
    using r(1) [OF c(1), of d] r(1) [OF c(2), of s1] r(1) [OF c(3), of s2] r(1) [OF c(4), of s3] v
    by (simp add: read_capabilities_def capabilities_def split_beta s1_def s2_def s3_def s4_def)
  then show ?thesis using s(4) by blast
qed

lemma get_attributes_hw:
  assumes "csr_hardware io rd wm"
  shows "\<exists>d'. get_attributes att io (Some d) (Some a) = (0, Some (att (capabilities rd d)), Some d') \<and>
    same_registers rd d d'"
  using read_capabilities_hw [OF assms, of d] by (auto simp: get_attributes_def)

lemma csr_feature_hw:
  assumes "csr_hardware io rd wm"
  shows "\<exists>d'. csr_feature (get_attributes att io) p d = (p (att (capabilities rd d)), d') \<and>
    same_registers rd d d'"
  using get_attributes_hw [OF assms, of att d da_zeroed] by (auto simp: csr_feature_def)

section \<open>Addresses of the arrays\<close>

definition csr_base :: "qdma_global_csr_type \<Rightarrow> u32" where
  "csr_base t =
     (case t of QDMA_CSR_RING_SZ \<Rightarrow> 0x204 | QDMA_CSR_TIMER_CNT \<Rightarrow> 0xA00 | QDMA_CSR_CNT_TH \<Rightarrow> 0xA40
      | QDMA_CSR_BUF_SZ \<Rightarrow> 0xAB0 | QDMA_CSR_MAX \<Rightarrow> 0)"

definition csr_addr :: "qdma_global_csr_type \<Rightarrow> nat \<Rightarrow> u32" where
  "csr_addr t j = csr_base t + of_nat j * 4"

definition csr_base_nat :: "qdma_global_csr_type \<Rightarrow> nat" where
  "csr_base_nat t = unat (csr_base t)"

lemma csr_base_nat_simps:
  "csr_base_nat QDMA_CSR_RING_SZ = 0x204" "csr_base_nat QDMA_CSR_TIMER_CNT = 0xA00"
  "csr_base_nat QDMA_CSR_CNT_TH = 0xA40" "csr_base_nat QDMA_CSR_BUF_SZ = 0xAB0"
  "csr_base_nat QDMA_CSR_MAX = 0"
  by (simp_all add: csr_base_nat_def csr_base_def)

lemma unat_csr_addr: "j < 16 \<Longrightarrow> unat (csr_addr t j) = csr_base_nat t + 4 * j"
proof -
  assume j: "j < 16"
  have "csr_base_nat t \<le> 0xAB0" by (cases t) (simp_all add: csr_base_nat_simps)
  moreover have "csr_addr t j = of_nat (csr_base_nat t + 4 * j)"
    by (simp add: csr_addr_def csr_base_nat_def mult.commute)
  ultimately show ?thesis using j by (simp only: unat_of_nat) (simp add: take_bit_nat_eq_self)
qed

lemma csr_addr_inject: "i < 16 \<Longrightarrow> j < 16 \<Longrightarrow> csr_addr t i = csr_addr t j \<longleftrightarrow> i = j"
  by (metis unat_csr_addr add_left_cancel mult_left_cancel zero_neq_numeral)

lemma csr_addr_register: "j < 16 \<Longrightarrow> t \<noteq> QDMA_CSR_MAX \<Longrightarrow> csr_register (csr_addr t j)"
  using unat_csr_addr [of j t]
  by (cases t) (auto simp: csr_register_def csr_base_nat_simps word_le_nat_alt word_less_nat_alt)

section \<open>Block transfers\<close>

lemma find_append:
  "find P (xs @ ys) = (case find P xs of Some x \<Rightarrow> Some x | None \<Rightarrow> find P ys)"
  by (induction xs) simp_all

lemma write_csr_fold:
  assumes hw: "csr_hardware io rd wm" and t: "t \<noteq> QDMA_CSR_MAX" and "k + n \<le> 16"
    and b: "capability_register b \<or> csr_register b"
  shows "rd (xregs (fold (\<lambda>j d. qdma_reg_write io d (csr_addr t j) (f j)) [k..<k + n] d)) b =
    (case find (\<lambda>j. csr_addr t j = b) [k..<k + n] of
       Some j \<Rightarrow> f j AND wm b | None \<Rightarrow> rd (xregs d) b)"
  using assms(3)
proof (induction n)
  case (Suc n)
  let ?d = "fold (\<lambda>j d. qdma_reg_write io d (csr_addr t j) (f j)) [k..<k + n] d"
  have r: "csr_register (csr_addr t (k + n))" using Suc.prems t by (intro csr_addr_register) auto
  have other: "find (\<lambda>j. csr_addr t j = csr_addr t (k + n)) [k..<k + n] = None"
    using Suc.prems by (auto simp: find_None_iff csr_addr_inject)
  show ?case
    using csr_hw_write [OF hw r b, of ?d "f (k + n)"] Suc.IH Suc.prems other
    by (auto simp: find_append split: option.splits)
qed simp

lemma read_csr_fold:
  assumes hw: "csr_hardware io rd wm" and t: "t \<noteq> QDMA_CSR_MAX" and "k + n \<le> 16"
  shows "\<exists>d'. fold (\<lambda>j (vs, d). let (v, d) = qdma_reg_read io d (csr_addr t (k + j)) in (vs @ [v], d))
      [0..<n] ([], d) = (map (\<lambda>j. rd (xregs d) (csr_addr t (k + j))) [0..<n], d') \<and>
    same_registers rd d d'"
  using assms(3)
proof (induction n)
  case (Suc n)
  then obtain d' where IH: "fold (\<lambda>j (vs, d). let (v, d) = qdma_reg_read io d (csr_addr t (k + j))
      in (vs @ [v], d)) [0..<n] ([], d) = (map (\<lambda>j. rd (xregs d) (csr_addr t (k + j))) [0..<n], d')"
    "same_registers rd d d'" by auto
  have r: "csr_register (csr_addr t (k + n))" using Suc.prems t by (intro csr_addr_register) auto
  have "rd (xregs d') (csr_addr t (k + n)) = rd (xregs d) (csr_addr t (k + n))"
    using IH(2) r by (simp add: same_registers_def)
  moreover obtain v d'' where rd: "qdma_reg_read io d' (csr_addr t (k + n)) = (v, d'')" by fastforce
  moreover note csr_hw_read [OF hw disjI2 [OF r], of d', unfolded rd]
  ultimately show ?case using IH same_registers_trans [OF IH(2), of d''] by simp
qed simp

lemma unat_u8: "unat (i :: u8) < 256"
  using unsigned_less [of i, where 'a = nat] by simp

lemma csr_index: "unat (ucast index + ucast count :: u32) = unat index + unat count"
  "unat (ucast index :: u32) = unat index" for index count :: u8
proof -
  show u: "unat (ucast i :: u32) = unat i" for i :: u8
    using unat_u8 [of i] by (simp add: unsigned_ucast_eq take_bit_nat_eq_self)
  show "unat (ucast index + ucast count :: u32) = unat index + unat count"
    using unat_u8 [of index] unat_u8 [of count]
    by (subst unat_add_lem [THEN iffD1]) (simp_all add: u)
qed

lemma of_nat_unat_u8: "of_nat (unat i) = (ucast i :: u32)" for i :: u8
  by simp

lemma write_csr_values_hw:
  assumes hw: "csr_hardware io rd wm" and t: "t \<noteq> QDMA_CSR_MAX"
    and n: "unat index + unat count \<le> 16"
    and b: "capability_register b \<or> csr_register b"
  shows "rd (xregs (qdma_write_csr_values io d (csr_base t) (ucast (index :: u8)) (ucast (count :: u8)) vs)) b =
    (case find (\<lambda>j. csr_addr t j = b) [unat index..<unat index + unat count] of
       Some j \<Rightarrow> vs ! (j - unat index) AND wm b | None \<Rightarrow> rd (xregs d) b)"
  using write_csr_fold [OF hw t n b, of "\<lambda>j. vs ! (j - unat index)" d]
  by (simp add: qdma_write_csr_values_def csr_index csr_addr_def)

lemma read_csr_values_hw:
  assumes hw: "csr_hardware io rd wm" and t: "t \<noteq> QDMA_CSR_MAX"
    and n: "unat index + unat count \<le> 16"
  shows "\<exists>d'. qdma_read_csr_values io d (csr_base t) (ucast (index :: u8)) (ucast (count :: u8)) =
      (map (\<lambda>j. rd (xregs d) (csr_addr t (unat index + j))) [0..<unat count], d') \<and>
    same_registers rd d d'"
proof -
  have "csr_addr t (unat index + j) = csr_base t + ucast index * 4 + of_nat j * 4" for j
    by (simp add: csr_addr_def of_nat_unat_u8 distrib_right)
  then show ?thesis
    using read_csr_fold [OF hw t n, of d] by (simp add: qdma_read_csr_values_def csr_index)
qed

lemma find_addr: "k \<in> set [a..<b] \<Longrightarrow> (\<And>j. a \<le> j \<Longrightarrow> j < b \<Longrightarrow> P j \<longleftrightarrow> j = k) \<Longrightarrow> find P [a..<b] = Some k"
  by (auto simp: find_Some_iff intro!: exI [of _ "k - a"])

lemma capability_not_csr: "capability_register b \<Longrightarrow> \<not> csr_register b"
  by (auto simp: capability_register_def csr_register_def)

section \<open>The contract of CSR configuration\<close>

text \<open>What the attributes must say for an access to an array.\<close>

definition csr_supported :: "qdma_global_csr_type \<Rightarrow> qdma_dev_attributes \<Rightarrow> bool" where
  "csr_supported t cap =
     (case t of QDMA_CSR_RING_SZ \<Rightarrow> True | QDMA_CSR_TIMER_CNT \<Rightarrow> has_st_or_cmpt cap
      | QDMA_CSR_CNT_TH \<Rightarrow> has_st_or_cmpt cap | QDMA_CSR_BUF_SZ \<Rightarrow> has_st cap | QDMA_CSR_MAX \<Rightarrow> False)"

lemma csr_supported_simps:
  "csr_supported QDMA_CSR_TIMER_CNT = has_st_or_cmpt" "csr_supported QDMA_CSR_CNT_TH = has_st_or_cmpt"
  "csr_supported QDMA_CSR_BUF_SZ = has_st"
  by (simp_all add: csr_supported_def fun_eq_iff)

definition csr_check ::
  "(u32 \<times> u32 \<times> u32 \<times> u32 \<Rightarrow> qdma_dev_attributes) \<Rightarrow> 'd mmio \<Rightarrow> qdma_global_csr_type \<Rightarrow>
   'd xdev \<Rightarrow> bool \<times> 'd xdev" where
  "csr_check attributes io t =
     (if t = QDMA_CSR_RING_SZ then csr_always
      else csr_feature (get_attributes attributes io) (csr_supported t))"

lemma csr_check_hw:
  assumes "csr_hardware io rd wm" and "t \<noteq> QDMA_CSR_MAX"
  shows "\<exists>d'. csr_check att io t d = (csr_supported t (att (capabilities rd d)), d') \<and>
    same_registers rd d d'"
  using csr_feature_hw [OF assms(1), of att "csr_supported t" d]
  by (auto simp: csr_check_def csr_always_def csr_supported_def)

text \<open>
  The interface of a *_global_csr_conf function with the attributes its checks go by. Every
  variant provides it; the clients (the driver, and the physical function when a virtual one
  asks for the values) rely on the laws below.
\<close>

locale csr_config =
  fixes io :: "'d mmio"
    and attributes :: "u32 \<times> u32 \<times> u32 \<times> u32 \<Rightarrow> qdma_dev_attributes"
    and conf :: "'d xdev option \<Rightarrow> u8 \<Rightarrow> u8 \<Rightarrow> u32 list option \<Rightarrow> qdma_global_csr_type \<Rightarrow>
      qdma_hw_access_type \<Rightarrow> int \<times> u32 list option \<times> 'd xdev option"
  assumes conf_write: "t \<noteq> QDMA_CSR_MAX \<Longrightarrow> conf dev i n vs t QDMA_HW_ACCESS_WRITE =
      csr_write (csr_check attributes io t) io (csr_base t) dev i n vs"
    and conf_read: "t \<noteq> QDMA_CSR_MAX \<Longrightarrow> conf dev i n vs t QDMA_HW_ACCESS_READ =
      csr_read (csr_check attributes io t) io (csr_base t) dev i n vs"
    and conf_refused: "t = QDMA_CSR_MAX \<or> access \<noteq> QDMA_HW_ACCESS_WRITE \<and> access \<noteq> QDMA_HW_ACCESS_READ \<Longrightarrow>
      conf dev i n vs t access = (neg_err QDMA_ERR_INV_PARAM, vs, dev)"

context csr_config
begin

lemma read_values:
  assumes hw: "csr_hardware io rd wm" and t: "t \<noteq> QDMA_CSR_MAX"
    and c: "csr_supported t (attributes (capabilities rd d))"
    and n: "n \<noteq> 0" "unat i + unat n \<le> 16"
  shows "\<exists>d'. conf (Some d) i n (Some buf) t QDMA_HW_ACCESS_READ =
      (0, Some (map (\<lambda>j. rd (xregs d) (csr_addr t (unat i + j))) [0..<unat n] @ drop (unat n) buf), Some d') \<and>
    same_registers rd d d'"
proof -
  obtain d1 where d1: "csr_check attributes io t d = (True, d1)" "same_registers rd d d1"
    using csr_check_hw [OF hw t, of attributes d] c by auto
  obtain d2 where d2: "qdma_read_csr_values io d1 (csr_base t) (ucast i) (ucast n) =
      (map (\<lambda>j. rd (xregs d1) (csr_addr t (unat i + j))) [0..<unat n], d2)" "same_registers rd d1 d2"
    using read_csr_values_hw [OF hw t n(2), of d1] by blast
  have "map (\<lambda>j. rd (xregs d1) (csr_addr t (unat i + j))) [0..<unat n] =
      map (\<lambda>j. rd (xregs d) (csr_addr t (unat i + j))) [0..<unat n]"
    using d1(2) n(2) csr_addr_register [OF _ t] by (intro map_cong) (auto simp: same_registers_def)
  then show ?thesis
    using d1 d2 n same_registers_trans [OF d1(2) d2(2)]
    by (simp add: conf_read [OF t] csr_read_def QDMA_GLOBAL_CSR_ARRAY_SZ_def)
qed

lemma write_values:
  assumes hw: "csr_hardware io rd wm" and t: "t \<noteq> QDMA_CSR_MAX"
    and c: "csr_supported t (attributes (capabilities rd d))"
    and n: "n \<noteq> 0" "unat i + unat n \<le> 16"
  shows "\<exists>d'. conf (Some d) i n (Some vs) t QDMA_HW_ACCESS_WRITE = (0, Some vs, Some d') \<and>
    (\<forall>b. capability_register b \<or> csr_register b \<longrightarrow> rd (xregs d') b =
       (case find (\<lambda>j. csr_addr t j = b) [unat i..<unat i + unat n] of
          Some j \<Rightarrow> vs ! (j - unat i) AND wm b | None \<Rightarrow> rd (xregs d) b))"
proof -
  obtain d1 where d1: "csr_check attributes io t d = (True, d1)" "same_registers rd d d1"
    using csr_check_hw [OF hw t, of attributes d] c by auto
  show ?thesis
    using d1 n write_csr_values_hw [OF hw t n(2), of _ d1 vs]
    by (auto simp: conf_write [OF t] csr_write_def QDMA_GLOBAL_CSR_ARRAY_SZ_def same_registers_def
        split: option.split)
qed

lemma write_read:
  assumes hw: "csr_hardware io rd wm" and t: "t \<noteq> QDMA_CSR_MAX"
    and c: "csr_supported t (attributes (capabilities rd d))"
    and n: "n \<noteq> 0" "unat i + unat n \<le> 16" and buf: "length buf = unat n"
  shows "\<exists>d1 d2. conf (Some d) i n (Some vs) t QDMA_HW_ACCESS_WRITE = (0, Some vs, Some d1) \<and>
    conf (Some d1) i n (Some buf) t QDMA_HW_ACCESS_READ =
      (0, Some (map (\<lambda>j. vs ! j AND wm (csr_addr t (unat i + j))) [0..<unat n]), Some d2) \<and>
    (\<forall>b. csr_register b \<and> (\<forall>j<unat n. b \<noteq> csr_addr t (unat i + j)) \<longrightarrow>
       rd (xregs d1) b = rd (xregs d) b)"
proof -
  obtain d1 where d1: "conf (Some d) i n (Some vs) t QDMA_HW_ACCESS_WRITE = (0, Some vs, Some d1)"
    and w: "\<And>b. capability_register b \<or> csr_register b \<Longrightarrow> rd (xregs d1) b =
       (case find (\<lambda>j. csr_addr t j = b) [unat i..<unat i + unat n] of
          Some j \<Rightarrow> vs ! (j - unat i) AND wm b | None \<Rightarrow> rd (xregs d) b)"
    using write_values [OF hw t c n, of vs] by blast
  have other: "rd (xregs d1) b = rd (xregs d) b"
    if b: "csr_register b" "\<And>j. j < unat n \<Longrightarrow> b \<noteq> csr_addr t (unat i + j)" for b
  proof -
    have "find (\<lambda>j. csr_addr t j = b) [unat i..<unat i + unat n] = None"
      unfolding find_None_iff using b(2) by (metis atLeastLessThan_iff le_add_diff_inverse
        nat_add_left_cancel_less set_upt)
    then show ?thesis using w [OF disjI2 [OF b(1)]] by simp
  qed
  have val: "rd (xregs d1) (csr_addr t (unat i + j)) = vs ! j AND wm (csr_addr t (unat i + j))"
    if j: "j < unat n" for j
  proof -
    have "find (\<lambda>k. csr_addr t k = csr_addr t (unat i + j)) [unat i..<unat i + unat n] = Some (unat i + j)"
      using j n(2) by (intro find_addr) (auto simp: csr_addr_inject)
    then show ?thesis
      using w [OF disjI2 [OF csr_addr_register [OF _ t]], of "unat i + j"] j n(2) by simp
  qed
  have cap: "capabilities rd d1 = capabilities rd d"
  proof -
    have "rd (xregs d1) b = rd (xregs d) b" if b: "capability_register b" for b
    proof -
      have "csr_addr t j \<noteq> b" if "j < 16" for j
        using csr_addr_register [OF that t] b capability_not_csr by metis
      then have "find (\<lambda>j. csr_addr t j = b) [unat i..<unat i + unat n] = None"
        unfolding find_None_iff using n(2) by (metis atLeastLessThan_iff less_le_trans set_upt)
      then show ?thesis using w [OF disjI1 [OF b]] by simp
    qed
    then show ?thesis by (simp add: capabilities_def capability_register_def)
  qed
  obtain d2 where "conf (Some d1) i n (Some buf) t QDMA_HW_ACCESS_READ =
      (0, Some (map (\<lambda>j. rd (xregs d1) (csr_addr t (unat i + j))) [0..<unat n] @ drop (unat n) buf), Some d2)"
    using read_values [OF hw t _ n, of d1 buf] c cap by auto
  moreover have "map (\<lambda>j. rd (xregs d1) (csr_addr t (unat i + j))) [0..<unat n] =
      map (\<lambda>j. vs ! j AND wm (csr_addr t (unat i + j))) [0..<unat n]"
    using val by (intro map_cong) auto
  ultimately show ?thesis using d1 other buf by auto
qed

lemma unsupported:
  assumes hw: "csr_hardware io rd wm" and t: "t \<noteq> QDMA_CSR_MAX"
    and c: "\<not> csr_supported t (attributes (capabilities rd d))"
    and n: "n \<noteq> 0" "unat i + unat n \<le> 16" and a: "a = QDMA_HW_ACCESS_READ \<or> a = QDMA_HW_ACCESS_WRITE"
  shows "\<exists>d'. conf (Some d) i n (Some vs) t a =
      (neg_err QDMA_ERR_HWACC_FEATURE_NOT_SUPPORTED, Some vs, Some d') \<and> same_registers rd d d'"
proof -
  obtain d1 where "csr_check attributes io t d = (False, d1)" "same_registers rd d d1"
    using csr_check_hw [OF hw t, of attributes d] c by auto
  then show ?thesis
    using a n by (auto simp: conf_write [OF t] conf_read [OF t] csr_write_def csr_read_def
        QDMA_GLOBAL_CSR_ARRAY_SZ_def)
qed

lemma refused:
  assumes "dev = None \<or> vs = None \<or> n = 0 \<or> 16 < unat i + unat n"
  shows "conf dev i n vs t a = (neg_err QDMA_ERR_INV_PARAM, vs, dev)"
proof (cases "t = QDMA_CSR_MAX \<or> a \<noteq> QDMA_HW_ACCESS_WRITE \<and> a \<noteq> QDMA_HW_ACCESS_READ")
  case False
  then show ?thesis
    using assms by (auto simp: conf_write conf_read csr_write_def csr_read_def
        QDMA_GLOBAL_CSR_ARRAY_SZ_def split: option.split)
qed (rule conf_refused)

end

lemmas qdma_csr_defs = qdma_global_csr_conf_def
  qdma_write_global_ring_sizes_def qdma_write_global_timer_count_def qdma_write_global_counter_threshold_def qdma_write_global_buffer_sizes_def qdma_read_global_ring_sizes_def qdma_read_global_timer_count_def qdma_read_global_counter_threshold_def qdma_read_global_buffer_sizes_def
  qdma_get_device_attributes_def

interpretation qdma_csr: csr_config io qdma_attributes "qdma_global_csr_conf io" for io
proof (unfold_locales, goal_cases)
  case (1 t dev i n vs)
  then show ?case
    by (cases t) (simp_all add: qdma_csr_defs csr_check_def csr_base_def csr_supported_simps)
next
  case (2 t dev i n vs)
  then show ?case
    by (cases t) (simp_all add: qdma_csr_defs csr_check_def csr_base_def csr_supported_simps)
next
  case (3 t access dev i n vs)
  then show ?case
    by (cases t; cases access) (simp_all add: qdma_csr_defs)
qed

lemmas eqdma_csr_defs = eqdma_global_csr_conf_def
  eqdma_write_global_ring_sizes_def eqdma_write_global_timer_count_def eqdma_write_global_counter_threshold_def eqdma_write_global_buffer_sizes_def eqdma_read_global_ring_sizes_def eqdma_read_global_timer_count_def eqdma_read_global_counter_threshold_def eqdma_read_global_buffer_sizes_def
  eqdma_get_device_attributes_def

interpretation eqdma_csr: csr_config io eqdma_attributes "eqdma_global_csr_conf io" for io
proof (unfold_locales, goal_cases)
  case (1 t dev i n vs)
  then show ?case
    by (cases t) (simp_all add: eqdma_csr_defs csr_check_def csr_base_def csr_supported_simps)
next
  case (2 t dev i n vs)
  then show ?case
    by (cases t) (simp_all add: eqdma_csr_defs csr_check_def csr_base_def csr_supported_simps)
next
  case (3 t access dev i n vs)
  then show ?case
    by (cases t; cases access) (simp_all add: eqdma_csr_defs)
qed

lemmas eqdma_cpm5_csr_defs = eqdma_cpm5_global_csr_conf_def
  eqdma_cpm5_write_global_ring_sizes_def eqdma_cpm5_write_global_timer_count_def eqdma_cpm5_write_global_counter_threshold_def eqdma_cpm5_write_global_buffer_sizes_def eqdma_cpm5_read_global_ring_sizes_def eqdma_cpm5_read_global_timer_count_def eqdma_cpm5_read_global_counter_threshold_def eqdma_cpm5_read_global_buffer_sizes_def
  eqdma_cpm5_get_device_attributes_def

interpretation eqdma_cpm5_csr: csr_config io eqdma_cpm5_attributes "eqdma_cpm5_global_csr_conf io" for io
proof (unfold_locales, goal_cases)
  case (1 t dev i n vs)
  then show ?case
    by (cases t) (simp_all add: eqdma_cpm5_csr_defs csr_check_def csr_base_def csr_supported_simps)
next
  case (2 t dev i n vs)
  then show ?case
    by (cases t) (simp_all add: eqdma_cpm5_csr_defs csr_check_def csr_base_def csr_supported_simps)
next
  case (3 t access dev i n vs)
  then show ?case
    by (cases t; cases access) (simp_all add: eqdma_cpm5_csr_defs)
qed

lemmas qdma_cpm4_csr_defs = qdma_cpm4_global_csr_conf_def
  qdma_cpm4_write_global_ring_sizes_def qdma_cpm4_write_global_timer_count_def qdma_cpm4_write_global_counter_threshold_def qdma_cpm4_write_global_buffer_sizes_def qdma_cpm4_read_global_ring_sizes_def qdma_cpm4_read_global_timer_count_def qdma_cpm4_read_global_counter_threshold_def qdma_cpm4_read_global_buffer_sizes_def
  qdma_cpm4_get_device_attributes_def

interpretation qdma_cpm4_csr: csr_config io qdma_cpm4_attributes "qdma_cpm4_global_csr_conf io" for io
proof (unfold_locales, goal_cases)
  case (1 t dev i n vs)
  then show ?case
    by (cases t) (simp_all add: qdma_cpm4_csr_defs csr_check_def csr_base_def csr_supported_simps)
next
  case (2 t dev i n vs)
  then show ?case
    by (cases t) (simp_all add: qdma_cpm4_csr_defs csr_check_def csr_base_def csr_supported_simps)
next
  case (3 t access dev i n vs)
  then show ?case
    by (cases t; cases access) (simp_all add: qdma_cpm4_csr_defs)
qed

section \<open>The writeback interval\<close>

lemma low_three_bits: "w < 8 \<Longrightarrow> take_bit 3 w = w" for w :: u32
  by (simp add: take_bit_eq_mod word_arith_nat_mod word_less_nat_alt)

lemma low_bits_or:
  fixes w m v :: u32
  assumes "w < 8" "m AND 7 = 7"
  shows "take_bit 3 ((v OR w) AND m) = take_bit 3 v OR w"
proof -
  have "take_bit 3 m = mask 3" using assms(2) by (simp add: take_bit_eq_mask mask_numeral)
  moreover have "(take_bit 3 v OR w) AND mask 3 = take_bit 3 (take_bit 3 v OR w)"
    by (rule take_bit_eq_mask [symmetric])
  ultimately show ?thesis using low_three_bits [OF assms(1)] by (simp add: take_bit_and take_bit_or)
qed

lemma wb_interval_hw:
  assumes hw: "csr_hardware io rd wm"
    and c: "has_st_or_cmpt (attributes (capabilities rd d))"
  shows "\<exists>d1. wb_interval_read (get_attributes attributes io) io 0x250 (Some d) (Some w0) =
      (0, Some (take_bit 3 (rd (xregs d) 0x250)), Some d1) \<and> same_registers rd d d1"
    and "w < 8 \<Longrightarrow> \<exists>d1. wb_interval_write (get_attributes attributes io) io 0x250 (Some d) w = (0, Some d1) \<and>
      (\<forall>b. capability_register b \<or> csr_register b \<longrightarrow> rd (xregs d1) b =
        (if b = 0x250 then (rd (xregs d) b OR w) AND wm b else rd (xregs d) b))"
proof -
  have r: "csr_register 0x250" by (simp add: csr_register_def)
  obtain d1 where d1: "csr_feature (get_attributes attributes io) has_st_or_cmpt d = (True, d1)"
    "same_registers rd d d1"
    using csr_feature_hw [OF hw, of attributes has_st_or_cmpt d] c by auto
  obtain v d2 where d2: "qdma_reg_read io d1 0x250 = (v, d2)" by fastforce
  have v: "v = rd (xregs d) 0x250" and s: "same_registers rd d d2"
    using csr_hw_read [OF hw disjI2 [OF r], of d1] d1(2) d2 r same_registers_trans [OF d1(2)]
    by (simp_all add: same_registers_def)
  show "\<exists>d1. wb_interval_read (get_attributes attributes io) io 0x250 (Some d) (Some w0) =
      (0, Some (take_bit 3 (rd (xregs d) 0x250)), Some d1) \<and> same_registers rd d d1"
    using d1 d2 v s by (simp add: wb_interval_read_def FIELD_GET_GENMASK)
  assume "w < 8"
  then have w: "take_bit 3 w = w" by (rule low_three_bits)
  show "\<exists>d1. wb_interval_write (get_attributes attributes io) io 0x250 (Some d) w = (0, Some d1) \<and>
      (\<forall>b. capability_register b \<or> csr_register b \<longrightarrow> rd (xregs d1) b =
        (if b = 0x250 then (rd (xregs d) b OR w) AND wm b else rd (xregs d) b))"
    using d1 d2 v s \<open>w < 8\<close> csr_hw_write [OF hw r, of _ d2]
    by (auto simp: wb_interval_write_def FIELD_SET_GENMASK w QDMA_NUM_WRB_INTERVALS_def
        not_le same_registers_def)
qed

section \<open>A register file for examples\<close>

definition plain_io :: "(u32 \<Rightarrow> u32) mmio" where
  "plain_io = \<lparr>readl = \<lambda>r a. (r a, r), writel = \<lambda>r a v. r(a := v), udelay = \<lambda>r us. r\<rparr>"

definition plain_dev :: "(u32 \<Rightarrow> u32) xdev" where
  "plain_dev = \<lparr>xregs = (\<lambda>_. 0)(0x118 := 0x30000, 0x250 := 5), hw_prg_lock = False\<rparr>"

lemma plain_hardware: "csr_hardware plain_io (\<lambda>r. r) (\<lambda>_. -1)"
  by (simp add: csr_hardware_def plain_io_def)

lemma plain_supported: "has_st (qdma_attributes (capabilities (\<lambda>r. r) plain_dev))"
  by (simp add: has_st_def qdma_attributes_def capabilities_def plain_dev_def both_set_def
      FIELD_GET_GENMASK BIT_GENMASK take_bit_eq_mod)

section \<open>Properties\<close>

text \<open>C39. On registers that keep what is written, values written to a range of a CSR array
  through the configuration function of any variant are read back, cut to the bits the registers
  implement, and no other CSR changes; whatever the array, the index and the count, as
  long as they fit and the device has the feature.\<close>

theorem global_csr_write_read:
  assumes "csr_hardware io rd wm"
    and "(attributes, conf) \<in> {(qdma_attributes, qdma_global_csr_conf io),
      (eqdma_attributes, eqdma_global_csr_conf io),
      (eqdma_cpm5_attributes, eqdma_cpm5_global_csr_conf io),
      (qdma_cpm4_attributes, qdma_cpm4_global_csr_conf io)}"
    and "t \<noteq> QDMA_CSR_MAX" and "csr_supported t (attributes (capabilities rd d))"
    and "n \<noteq> 0" and "unat i + unat n \<le> 16" and "length buf = unat n"
  shows "\<exists>d1 d2. conf (Some d) i n (Some vs) t QDMA_HW_ACCESS_WRITE = (0, Some vs, Some d1) \<and>
    conf (Some d1) i n (Some buf) t QDMA_HW_ACCESS_READ =
      (0, Some (map (\<lambda>j. vs ! j AND wm (csr_addr t (unat i + j))) [0..<unat n]), Some d2) \<and>
    (\<forall>b. csr_register b \<and> (\<forall>j<unat n. b \<noteq> csr_addr t (unat i + j)) \<longrightarrow>
       rd (xregs d1) b = rd (xregs d) b)"
proof -
  note a = assms(1,3-7)
  note wr = qdma_csr.write_read [OF a(1,2) _ a(4-6), of d vs] eqdma_csr.write_read [OF a(1,2) _ a(4-6), of d vs]
    eqdma_cpm5_csr.write_read [OF a(1,2) _ a(4-6), of d vs]
    qdma_cpm4_csr.write_read [OF a(1,2) _ a(4-6), of d vs]
  show ?thesis using assms(2) a(3) wr by (elim insertE emptyE) simp_all
qed

theorem global_csr_write_read_witness:
  "\<exists>d1 d2. qdma_global_csr_conf plain_io (Some plain_dev) 14 2 (Some [64, 128]) QDMA_CSR_CNT_TH
      QDMA_HW_ACCESS_WRITE = (0, Some [64, 128], Some d1) \<and>
    qdma_global_csr_conf plain_io (Some d1) 14 2 (Some [0, 0]) QDMA_CSR_CNT_TH QDMA_HW_ACCESS_READ =
      (0, Some [64, 128], Some d2)"
proof -
  have "csr_supported QDMA_CSR_CNT_TH (qdma_attributes (capabilities (\<lambda>r. r) plain_dev))"
    using plain_supported by (simp add: csr_supported_def has_st_or_cmpt_def has_st_def)
  then show ?thesis
    using global_csr_write_read [OF plain_hardware, of qdma_attributes "qdma_global_csr_conf plain_io"
      QDMA_CSR_CNT_TH plain_dev 2 14 "[0, 0]" "[64, 128]"]
    by (auto simp: upt_rec)
qed

text \<open>Setting the writeback interval does not clear the old one: what is read back is the
  bitwise or of the two, so the new interval takes effect only when it has every bit of the old
  one; from the reset value on, the interval can only grow.\<close>

theorem writeback_interval_accumulates:
  assumes hw: "csr_hardware io rd wm" and "has_st_or_cmpt (qdma_attributes (capabilities rd d))"
    and "w < 8" and "wm 0x250 AND 7 = 7"
  shows "\<exists>d1 d2. qdma_global_writeback_interval_conf io (Some d) (Some w) QDMA_HW_ACCESS_WRITE =
      (0, Some w, Some d1) \<and>
    qdma_global_writeback_interval_conf io (Some d1) (Some w0) QDMA_HW_ACCESS_READ =
      (0, Some (take_bit 3 (rd (xregs d) 0x250) OR w), Some d2)"
proof -
  obtain d1 where d1: "wb_interval_write (get_attributes qdma_attributes io) io 0x250 (Some d) w = (0, Some d1)"
    "\<And>b. capability_register b \<or> csr_register b \<Longrightarrow> rd (xregs d1) b =
        (if b = 0x250 then (rd (xregs d) b OR w) AND wm b else rd (xregs d) b)"
    using wb_interval_hw(2) [where attributes = qdma_attributes, OF hw assms(2,3)] by blast
  then have "capabilities rd d1 = capabilities rd d"
    by (simp add: capabilities_def capability_register_def)
  then obtain d2 where "wb_interval_read (get_attributes qdma_attributes io) io 0x250 (Some d1) (Some w0) =
      (0, Some (take_bit 3 (rd (xregs d1) 0x250)), Some d2)"
    using wb_interval_hw(1) [OF hw, of qdma_attributes d1 w0] assms(2) by auto
  moreover have "take_bit 3 (rd (xregs d1) 0x250) = take_bit 3 (rd (xregs d) 0x250) OR w"
    using d1(2) [of "0x250"] low_bits_or [OF assms(3,4)] by (simp add: csr_register_def)
  ultimately show ?thesis
    using d1(1) by (simp add: qdma_global_writeback_interval_conf_def
        qdma_global_writeback_interval_write_def qdma_global_writeback_interval_read_def
        qdma_get_device_attributes_def)
qed

theorem writeback_interval_accumulates_witness:
  "\<exists>d1 d2. qdma_global_writeback_interval_conf plain_io (Some plain_dev) (Some 2) QDMA_HW_ACCESS_WRITE =
      (0, Some 2, Some d1) \<and>
    qdma_global_writeback_interval_conf plain_io (Some d1) (Some 0) QDMA_HW_ACCESS_READ =
      (0, Some 7, Some d2)"
proof -
  have "has_st_or_cmpt (qdma_attributes (capabilities (\<lambda>r. r) plain_dev))"
    using plain_supported by (simp add: has_st_or_cmpt_def has_st_def)
  then show ?thesis
    using writeback_interval_accumulates [OF plain_hardware, of plain_dev 2 0]
    by (simp add: plain_dev_def take_bit_eq_mod)
qed
end
