(* ===== verification/QueueRegs.thy ===== *)
theory QueueRegs
  imports CsrConf
begin

text \<open>
  The registers of a queue in the user space of the device, which the data path writes: producer
  and consumer index doorbells, the completion doorbell with its moderation settings, and the
  doorbell of an interrupt ring (*_queue_pidx_update, *_queue_cmpt_cidx_update and _read,
  *_queue_intr_cidx_update); further the search for the user BAR and the legacy interrupt. The
  enhanced soft IP and CPM5 have no copies of the doorbell functions: the table of access functions
  gives them those of the soft IP. CPM4 has its own bases and the soft IP layout of the words.
  The write barrier before a doorbell orders memory and has no place in this model.
\<close>

section \<open>Doorbells\<close>

record qdma_q_pidx_reg_info =
  qp_pidx :: u16
  qp_irq_en :: u8

record qdma_intr_cidx_reg_info =
  qi_sw_cidx :: u16
  qi_rng_idx :: u8

record qdma_q_cmpt_cidx_reg_info =
  qc_wrb_cidx :: u16
  qc_counter_idx :: u8
  qc_timer_idx :: u8
  qc_trig_mode :: u8
  qc_wrb_en :: u8
  qc_irq_en :: u8

abbreviation QDMA_DMA_SEL_DESC_PIDX_MASK :: u32 where "QDMA_DMA_SEL_DESC_PIDX_MASK \<equiv> GENMASK 15 0"
abbreviation QDMA_DMA_SEL_IRQ_EN_MASK :: u32 where "QDMA_DMA_SEL_IRQ_EN_MASK \<equiv> BIT 16"
abbreviation QDMA_DMA_SEL_INT_SW_CIDX_MASK :: u32 where "QDMA_DMA_SEL_INT_SW_CIDX_MASK \<equiv> GENMASK 15 0"
abbreviation QDMA_DMA_SEL_INT_RING_IDX_MASK :: u32 where "QDMA_DMA_SEL_INT_RING_IDX_MASK \<equiv> GENMASK 23 16"
abbreviation QDMA_DMAP_SEL_CMPT_WRB_CIDX_MASK :: u32 where "QDMA_DMAP_SEL_CMPT_WRB_CIDX_MASK \<equiv> GENMASK 15 0"
abbreviation QDMA_DMAP_SEL_CMPT_CNT_THRESH_MASK :: u32 where "QDMA_DMAP_SEL_CMPT_CNT_THRESH_MASK \<equiv> GENMASK 19 16"
abbreviation QDMA_DMAP_SEL_CMPT_TMR_CNT_MASK :: u32 where "QDMA_DMAP_SEL_CMPT_TMR_CNT_MASK \<equiv> GENMASK 23 20"
abbreviation QDMA_DMAP_SEL_CMPT_TRG_MODE_MASK :: u32 where "QDMA_DMAP_SEL_CMPT_TRG_MODE_MASK \<equiv> GENMASK 26 24"
abbreviation QDMA_DMAP_SEL_CMPT_STS_DESC_EN_MASK :: u32 where "QDMA_DMAP_SEL_CMPT_STS_DESC_EN_MASK \<equiv> BIT 27"
abbreviation QDMA_DMAP_SEL_CMPT_IRQ_EN_MASK :: u32 where "QDMA_DMAP_SEL_CMPT_IRQ_EN_MASK \<equiv> BIT 28"

definition pidx_word :: "qdma_q_pidx_reg_info \<Rightarrow> u32" where
  "pidx_word reg_info =
     FIELD_SET QDMA_DMA_SEL_DESC_PIDX_MASK (ucast (qp_pidx reg_info)) OR
     FIELD_SET QDMA_DMA_SEL_IRQ_EN_MASK (ucast (qp_irq_en reg_info))"

definition cmpt_cidx_word :: "qdma_q_cmpt_cidx_reg_info \<Rightarrow> u32" where
  "cmpt_cidx_word reg_info =
     FIELD_SET QDMA_DMAP_SEL_CMPT_WRB_CIDX_MASK (ucast (qc_wrb_cidx reg_info)) OR
     FIELD_SET QDMA_DMAP_SEL_CMPT_CNT_THRESH_MASK (ucast (qc_counter_idx reg_info)) OR
     FIELD_SET QDMA_DMAP_SEL_CMPT_TMR_CNT_MASK (ucast (qc_timer_idx reg_info)) OR
     FIELD_SET QDMA_DMAP_SEL_CMPT_TRG_MODE_MASK (ucast (qc_trig_mode reg_info)) OR
     FIELD_SET QDMA_DMAP_SEL_CMPT_STS_DESC_EN_MASK (ucast (qc_wrb_en reg_info)) OR
     FIELD_SET QDMA_DMAP_SEL_CMPT_IRQ_EN_MASK (ucast (qc_irq_en reg_info))"

definition cmpt_cidx_fields :: "u32 \<Rightarrow> qdma_q_cmpt_cidx_reg_info" where
  "cmpt_cidx_fields reg_val =
     \<lparr>qc_wrb_cidx = ucast (FIELD_GET QDMA_DMAP_SEL_CMPT_WRB_CIDX_MASK reg_val),
      qc_counter_idx = ucast (FIELD_GET QDMA_DMAP_SEL_CMPT_CNT_THRESH_MASK reg_val),
      qc_timer_idx = ucast (FIELD_GET QDMA_DMAP_SEL_CMPT_TMR_CNT_MASK reg_val),
      qc_trig_mode = ucast (FIELD_GET QDMA_DMAP_SEL_CMPT_TRG_MODE_MASK reg_val),
      qc_wrb_en = ucast (FIELD_GET QDMA_DMAP_SEL_CMPT_STS_DESC_EN_MASK reg_val),
      qc_irq_en = ucast (FIELD_GET QDMA_DMAP_SEL_CMPT_IRQ_EN_MASK reg_val)\<rparr>"

definition intr_cidx_word :: "qdma_intr_cidx_reg_info \<Rightarrow> u32" where
  "intr_cidx_word reg_info =
     FIELD_SET QDMA_DMA_SEL_INT_SW_CIDX_MASK (ucast (qi_sw_cidx reg_info)) OR
     FIELD_SET QDMA_DMA_SEL_INT_RING_IDX_MASK (ucast (qi_rng_idx reg_info))"

text \<open>Every kind of doorbell is an array with a step of 0x10 (QDMA_PIDX_STEP, QDMA_CMPT_CIDX_STEP
  and QDMA_INT_CIDX_STEP), at one base for physical and another for virtual functions.\<close>

definition doorbell :: "u32 \<Rightarrow> u16 \<Rightarrow> u32" where
  "doorbell base qid = base + ucast qid * 0x10"

definition write_doorbell ::
  "'d mmio \<Rightarrow> 'd xdev option \<Rightarrow> u32 \<Rightarrow> ('i \<Rightarrow> u32) \<Rightarrow> 'i option \<Rightarrow> int \<times> 'd xdev option" where
  "write_doorbell io dev reg_addr word reg_info =
     (case (dev, reg_info) of
        (Some d, Some i) \<Rightarrow> (err_code QDMA_SUCCESS, Some (qdma_reg_write io d reg_addr (word i)))
      | _ \<Rightarrow> (neg_err QDMA_ERR_INV_PARAM, dev))"

abbreviation QDMA_OFFSET_DMAP_SEL_INT_CIDX :: u32 where "QDMA_OFFSET_DMAP_SEL_INT_CIDX \<equiv> 0x18000"
abbreviation QDMA_OFFSET_DMAP_SEL_H2C_DSC_PIDX :: u32 where "QDMA_OFFSET_DMAP_SEL_H2C_DSC_PIDX \<equiv> 0x18004"
abbreviation QDMA_OFFSET_DMAP_SEL_C2H_DSC_PIDX :: u32 where "QDMA_OFFSET_DMAP_SEL_C2H_DSC_PIDX \<equiv> 0x18008"
abbreviation QDMA_OFFSET_DMAP_SEL_CMPT_CIDX :: u32 where "QDMA_OFFSET_DMAP_SEL_CMPT_CIDX \<equiv> 0x1800C"
abbreviation QDMA_OFFSET_VF_DMAP_SEL_INT_CIDX :: u32 where "QDMA_OFFSET_VF_DMAP_SEL_INT_CIDX \<equiv> 0x3000"
abbreviation QDMA_OFFSET_VF_DMAP_SEL_H2C_DSC_PIDX :: u32 where "QDMA_OFFSET_VF_DMAP_SEL_H2C_DSC_PIDX \<equiv> 0x3004"
abbreviation QDMA_OFFSET_VF_DMAP_SEL_C2H_DSC_PIDX :: u32 where "QDMA_OFFSET_VF_DMAP_SEL_C2H_DSC_PIDX \<equiv> 0x3008"
abbreviation QDMA_OFFSET_VF_DMAP_SEL_CMPT_CIDX :: u32 where "QDMA_OFFSET_VF_DMAP_SEL_CMPT_CIDX \<equiv> 0x300C"

definition qdma_queue_pidx_update ::
  "'d mmio \<Rightarrow> 'd xdev option \<Rightarrow> u8 \<Rightarrow> u16 \<Rightarrow> u8 \<Rightarrow> qdma_q_pidx_reg_info option \<Rightarrow> int \<times> 'd xdev option" where
  "qdma_queue_pidx_update io dev is_vf qid is_c2h reg_info =
     (let reg_addr =
        if is_vf = 0 then
          (if is_c2h \<noteq> 0 then QDMA_OFFSET_DMAP_SEL_C2H_DSC_PIDX else QDMA_OFFSET_DMAP_SEL_H2C_DSC_PIDX)
        else
          (if is_c2h \<noteq> 0 then QDMA_OFFSET_VF_DMAP_SEL_C2H_DSC_PIDX else QDMA_OFFSET_VF_DMAP_SEL_H2C_DSC_PIDX)
      in write_doorbell io dev (doorbell reg_addr qid) pidx_word reg_info)"

definition qdma_queue_cmpt_cidx_update ::
  "'d mmio \<Rightarrow> 'd xdev option \<Rightarrow> u8 \<Rightarrow> u16 \<Rightarrow> qdma_q_cmpt_cidx_reg_info option \<Rightarrow> int \<times> 'd xdev option" where
  "qdma_queue_cmpt_cidx_update io dev is_vf qid reg_info =
     (let reg_addr = if is_vf \<noteq> 0 then QDMA_OFFSET_VF_DMAP_SEL_CMPT_CIDX else QDMA_OFFSET_DMAP_SEL_CMPT_CIDX
      in write_doorbell io dev (doorbell reg_addr qid) cmpt_cidx_word reg_info)"

definition qdma_queue_intr_cidx_update ::
  "'d mmio \<Rightarrow> 'd xdev option \<Rightarrow> u8 \<Rightarrow> u16 \<Rightarrow> qdma_intr_cidx_reg_info option \<Rightarrow> int \<times> 'd xdev option" where
  "qdma_queue_intr_cidx_update io dev is_vf qid reg_info =
     (let reg_addr = if is_vf \<noteq> 0 then QDMA_OFFSET_VF_DMAP_SEL_INT_CIDX else QDMA_OFFSET_DMAP_SEL_INT_CIDX
      in write_doorbell io dev (doorbell reg_addr qid) intr_cidx_word reg_info)"

text \<open>qdma_queue_cmpt_cidx_read of qdma_access_common.c, the only copy.\<close>

definition qdma_queue_cmpt_cidx_read ::
  "'d mmio \<Rightarrow> 'd xdev option \<Rightarrow> u8 \<Rightarrow> u16 \<Rightarrow> qdma_q_cmpt_cidx_reg_info option \<Rightarrow>
   int \<times> qdma_q_cmpt_cidx_reg_info option \<times> 'd xdev option" where
  "qdma_queue_cmpt_cidx_read io dev is_vf qid reg_info =
     (let reg_addr = if is_vf \<noteq> 0 then QDMA_OFFSET_VF_DMAP_SEL_CMPT_CIDX else QDMA_OFFSET_DMAP_SEL_CMPT_CIDX
      in case (dev, reg_info) of
           (Some d, Some _) \<Rightarrow>
             let (reg_val, d) = qdma_reg_read io d (doorbell reg_addr qid)
             in (err_code QDMA_SUCCESS, Some (cmpt_cidx_fields reg_val), Some d)
         | _ \<Rightarrow> (neg_err QDMA_ERR_INV_PARAM, reg_info, dev))"

text \<open>CPM4.\<close>

abbreviation QDMA_CPM4_OFFSET_DMAP_SEL_INT_CIDX :: u32 where "QDMA_CPM4_OFFSET_DMAP_SEL_INT_CIDX \<equiv> 0x6400"
abbreviation QDMA_CPM4_OFFSET_DMAP_SEL_H2C_DSC_PIDX :: u32 where "QDMA_CPM4_OFFSET_DMAP_SEL_H2C_DSC_PIDX \<equiv> 0x6404"
abbreviation QDMA_CPM4_OFFSET_DMAP_SEL_C2H_DSC_PIDX :: u32 where "QDMA_CPM4_OFFSET_DMAP_SEL_C2H_DSC_PIDX \<equiv> 0x6408"
abbreviation QDMA_CPM4_OFFSET_DMAP_SEL_CMPT_CIDX :: u32 where "QDMA_CPM4_OFFSET_DMAP_SEL_CMPT_CIDX \<equiv> 0x640C"

definition qdma_cpm4_queue_pidx_update ::
  "'d mmio \<Rightarrow> 'd xdev option \<Rightarrow> u8 \<Rightarrow> u16 \<Rightarrow> u8 \<Rightarrow> qdma_q_pidx_reg_info option \<Rightarrow> int \<times> 'd xdev option" where
  "qdma_cpm4_queue_pidx_update io dev is_vf qid is_c2h reg_info =
     (let reg_addr =
        if is_vf = 0 then
          (if is_c2h \<noteq> 0 then QDMA_CPM4_OFFSET_DMAP_SEL_C2H_DSC_PIDX else QDMA_CPM4_OFFSET_DMAP_SEL_H2C_DSC_PIDX)
        else
          (if is_c2h \<noteq> 0 then QDMA_OFFSET_VF_DMAP_SEL_C2H_DSC_PIDX else QDMA_OFFSET_VF_DMAP_SEL_H2C_DSC_PIDX)
      in write_doorbell io dev (doorbell reg_addr qid) pidx_word reg_info)"

definition qdma_cpm4_queue_cmpt_cidx_update ::
  "'d mmio \<Rightarrow> 'd xdev option \<Rightarrow> u8 \<Rightarrow> u16 \<Rightarrow> qdma_q_cmpt_cidx_reg_info option \<Rightarrow> int \<times> 'd xdev option" where
  "qdma_cpm4_queue_cmpt_cidx_update io dev is_vf qid reg_info =
     (let reg_addr = if is_vf \<noteq> 0 then QDMA_OFFSET_VF_DMAP_SEL_CMPT_CIDX else QDMA_CPM4_OFFSET_DMAP_SEL_CMPT_CIDX
      in write_doorbell io dev (doorbell reg_addr qid) cmpt_cidx_word reg_info)"

definition qdma_cpm4_queue_intr_cidx_update ::
  "'d mmio \<Rightarrow> 'd xdev option \<Rightarrow> u8 \<Rightarrow> u16 \<Rightarrow> qdma_intr_cidx_reg_info option \<Rightarrow> int \<times> 'd xdev option" where
  "qdma_cpm4_queue_intr_cidx_update io dev is_vf qid reg_info =
     (let reg_addr = if is_vf \<noteq> 0 then QDMA_OFFSET_VF_DMAP_SEL_INT_CIDX else QDMA_CPM4_OFFSET_DMAP_SEL_INT_CIDX
      in write_doorbell io dev (doorbell reg_addr qid) intr_cidx_word reg_info)"

section \<open>The user BAR\<close>

text \<open>The first of the six BARs whose bit is set, QDMA_BAR_NUM being 6. The shift by
  6 * func_id is one of a 32-bit word; it is defined in C for a func_id of at most 5, and the
  device has at most four physical functions.\<close>

definition first_bar :: "u32 \<Rightarrow> u8 option" where
  "first_bar user_bar_id =
     map_option of_nat (find (\<lambda>bar_idx. user_bar_id AND push_bit bar_idx 1 \<noteq> 0) [0..<6])"

definition bars_of_function :: "u32 \<Rightarrow> u16 \<Rightarrow> u32" where
  "bars_of_function user_bar_id func_id = drop_bit (6 * unat func_id) user_bar_id AND 0x3F"

definition qdma_get_user_bar ::
  "'d mmio \<Rightarrow> 'd xdev option \<Rightarrow> u8 \<Rightarrow> u16 \<Rightarrow> u8 option \<Rightarrow> int \<times> u8 option \<times> 'd xdev option" where
  "qdma_get_user_bar io dev is_vf func_id user_bar =
     (case (dev, user_bar) of
        (Some d, Some _) \<Rightarrow>
          let (user_bar_id, d) = qdma_reg_read io d (if is_vf \<noteq> 0 then 0x1018 else 0x10C);
              user_bar_id = (if is_vf = 0 then bars_of_function user_bar_id func_id else user_bar_id AND 0x3F)
          in (case first_bar user_bar_id of
                Some bar \<Rightarrow> (err_code QDMA_SUCCESS, Some bar, Some d)
              | None \<Rightarrow> (neg_err QDMA_ERR_HWACC_BAR_NOT_FOUND, Some 0, Some d))
      | _ \<Rightarrow> (neg_err QDMA_ERR_INV_PARAM, user_bar, dev))"

definition eqdma_get_user_bar ::
  "'d mmio \<Rightarrow> 'd xdev option \<Rightarrow> u8 \<Rightarrow> u16 \<Rightarrow> u8 option \<Rightarrow> int \<times> u8 option \<times> 'd xdev option" where
  "eqdma_get_user_bar io dev is_vf func_id user_bar =
     (case (dev, user_bar) of
        (Some d, Some _) \<Rightarrow>
          let (user_bar_id, d) = qdma_reg_read io d (if is_vf \<noteq> 0 then 0x5018 else 0x10C)
          in (case first_bar (bars_of_function user_bar_id func_id) of
                Some bar \<Rightarrow> (err_code QDMA_SUCCESS, Some bar, Some d)
              | None \<Rightarrow> (err_code QDMA_SUCCESS, Some 0, Some d))
      | _ \<Rightarrow> (neg_err QDMA_ERR_INV_PARAM, user_bar, dev))"

text \<open>CPM5 writes through the pointer without a check; the model has no value for a null one.\<close>

definition eqdma_cpm5_get_user_bar ::
  "'d mmio \<Rightarrow> 'd xdev option \<Rightarrow> u8 \<Rightarrow> u16 \<Rightarrow> u8 option \<Rightarrow> int \<times> u8 option \<times> 'd xdev option" where
  "eqdma_cpm5_get_user_bar io dev is_vf func_id user_bar =
     (case dev of
        None \<Rightarrow> (neg_err QDMA_ERR_INV_PARAM, user_bar, None)
      | Some d \<Rightarrow> (err_code QDMA_SUCCESS, Some 2, Some d))"

abbreviation QDMA_CPM4_VF_USER_BAR_ID :: u8 where "QDMA_CPM4_VF_USER_BAR_ID \<equiv> 2"

definition qdma_cmp_get_user_bar ::
  "'d mmio \<Rightarrow> 'd xdev option \<Rightarrow> u8 \<Rightarrow> u16 \<Rightarrow> u8 option \<Rightarrow> int \<times> u8 option \<times> 'd xdev option" where
  "qdma_cmp_get_user_bar io dev is_vf func_id user_bar =
     (case (dev, user_bar) of
        (Some d, Some _) \<Rightarrow>
          if is_vf \<noteq> 0 then (err_code QDMA_SUCCESS, Some QDMA_CPM4_VF_USER_BAR_ID, Some d)
          else
            let (user_bar_id, d) = qdma_reg_read io d 0x10C
            in (case first_bar (bars_of_function user_bar_id func_id) of
                  Some bar \<Rightarrow> (err_code QDMA_SUCCESS, Some bar, Some d)
                | None \<Rightarrow> (neg_err QDMA_ERR_HWACC_BAR_NOT_FOUND, Some 0, Some d))
      | _ \<Rightarrow> (neg_err QDMA_ERR_INV_PARAM, user_bar, dev))"

section \<open>The legacy interrupt\<close>

abbreviation QDMA_OFFSET_GLBL_INTERRUPT_CFG :: u32 where "QDMA_OFFSET_GLBL_INTERRUPT_CFG \<equiv> 0x2C4"
abbreviation QDMA_GLBL_INTR_CFG_EN_LGCY_INTR_MASK :: u32 where "QDMA_GLBL_INTR_CFG_EN_LGCY_INTR_MASK \<equiv> BIT 0"
abbreviation QDMA_GLBL_INTR_LGCY_INTR_PEND_MASK :: u32 where "QDMA_GLBL_INTR_LGCY_INTR_PEND_MASK \<equiv> BIT 1"

definition qdma_is_legacy_intr_pend :: "'d mmio \<Rightarrow> 'd xdev option \<Rightarrow> int \<times> 'd xdev option" where
  "qdma_is_legacy_intr_pend io dev =
     (case dev of
        None \<Rightarrow> (neg_err QDMA_ERR_INV_PARAM, None)
      | Some d \<Rightarrow>
          let (reg_val, d) = qdma_reg_read io d QDMA_OFFSET_GLBL_INTERRUPT_CFG
          in if FIELD_GET QDMA_GLBL_INTR_LGCY_INTR_PEND_MASK reg_val \<noteq> 0
             then (err_code QDMA_SUCCESS, Some d)
             else (neg_err QDMA_ERR_HWACC_NO_PEND_LEGCY_INTR, Some d))"

definition qdma_clear_pend_legacy_intr :: "'d mmio \<Rightarrow> 'd xdev option \<Rightarrow> int \<times> 'd xdev option" where
  "qdma_clear_pend_legacy_intr io dev =
     (case dev of
        None \<Rightarrow> (neg_err QDMA_ERR_INV_PARAM, None)
      | Some d \<Rightarrow>
          let (reg_val, d) = qdma_reg_read io d QDMA_OFFSET_GLBL_INTERRUPT_CFG
          in (err_code QDMA_SUCCESS, Some (qdma_reg_write io d QDMA_OFFSET_GLBL_INTERRUPT_CFG
                (reg_val OR FIELD_SET QDMA_GLBL_INTR_LGCY_INTR_PEND_MASK 1))))"

text \<open>enable is DISABLE (0) or ENABLE (1) of enum status_type.\<close>

definition qdma_legacy_intr_conf :: "'d mmio \<Rightarrow> 'd xdev option \<Rightarrow> bool \<Rightarrow> int \<times> 'd xdev option" where
  "qdma_legacy_intr_conf io dev enable =
     (case dev of
        None \<Rightarrow> (neg_err QDMA_ERR_INV_PARAM, None)
      | Some d \<Rightarrow>
          let (reg_val, d) = qdma_reg_read io d QDMA_OFFSET_GLBL_INTERRUPT_CFG
          in (err_code QDMA_SUCCESS, Some (qdma_reg_write io d QDMA_OFFSET_GLBL_INTERRUPT_CFG
                (reg_val OR FIELD_SET QDMA_GLBL_INTR_CFG_EN_LGCY_INTR_MASK (of_bool enable)))))"

section \<open>Where the doorbells are\<close>

definition pf_doorbells :: "u32 list" where
  "pf_doorbells = [QDMA_OFFSET_DMAP_SEL_INT_CIDX, QDMA_OFFSET_DMAP_SEL_H2C_DSC_PIDX,
     QDMA_OFFSET_DMAP_SEL_C2H_DSC_PIDX, QDMA_OFFSET_DMAP_SEL_CMPT_CIDX]"

definition vf_doorbells :: "u32 list" where
  "vf_doorbells = [QDMA_OFFSET_VF_DMAP_SEL_INT_CIDX, QDMA_OFFSET_VF_DMAP_SEL_H2C_DSC_PIDX,
     QDMA_OFFSET_VF_DMAP_SEL_C2H_DSC_PIDX, QDMA_OFFSET_VF_DMAP_SEL_CMPT_CIDX]"

definition cpm4_doorbells :: "u32 list" where
  "cpm4_doorbells = [QDMA_CPM4_OFFSET_DMAP_SEL_INT_CIDX, QDMA_CPM4_OFFSET_DMAP_SEL_H2C_DSC_PIDX,
     QDMA_CPM4_OFFSET_DMAP_SEL_C2H_DSC_PIDX, QDMA_CPM4_OFFSET_DMAP_SEL_CMPT_CIDX]"

lemma unat_u16_less: "unat q < 65536" for q :: u16
  using unsigned_less [of q, where 'a = nat] by simp

lemma unat_doorbell:
  assumes "unat base < 2 ^ 31"
  shows "unat (doorbell base q) = unat base + 16 * unat q"
proof -
  have "unat (ucast q :: u32) = unat q"
    using unat_u16_less [of q] by (simp add: unsigned_ucast_eq take_bit_nat_eq_self)
  then show ?thesis
    using assms unat_u16_less [of q] by (simp add: doorbell_def unat_word_ariths)
qed

lemma doorbell_inject:
  assumes "base \<in> set bs" "base' \<in> set bs" "bs \<in> {pf_doorbells, vf_doorbells, cpm4_doorbells}"
  shows "doorbell base q = doorbell base' q' \<longleftrightarrow> base = base' \<and> q = q'"
proof
  assume "doorbell base q = doorbell base' q'"
  then have "unat (doorbell base q) = unat (doorbell base' q')" by simp
  moreover have "unat base < 2 ^ 31" "unat base' < 2 ^ 31"
    using assms by (auto simp: pf_doorbells_def vf_doorbells_def cpm4_doorbells_def)
  ultimately have e: "unat base + 16 * unat q = unat base' + 16 * unat q'"
    by (simp add: unat_doorbell)
  then have "(unat base + 16 * unat q) mod 16 = (unat base' + 16 * unat q') mod 16" by (rule arg_cong)
  then have "unat base mod 16 = unat base' mod 16" by (simp only: mod_mult_self2)
  moreover have "unat base mod 16 = unat base' mod 16 \<longrightarrow> base = base'"
    using assms by (auto simp: pf_doorbells_def vf_doorbells_def cpm4_doorbells_def)
  ultimately show "base = base' \<and> q = q'" using e by (auto simp: word_unat_eq_iff [of q q'])
qed simp

section \<open>Register files\<close>

text \<open>A device whose registers are read without effect and keep, of a value written, the bits they
  implement.\<close>

definition register_file :: "'d mmio \<Rightarrow> ('d \<Rightarrow> u32 \<Rightarrow> u32) \<Rightarrow> (u32 \<Rightarrow> u32) \<Rightarrow> bool" where
  "register_file io rd wm \<longleftrightarrow>
     (\<forall>r a. readl io r a = (rd r a, snd (readl io r a)) \<and> rd (snd (readl io r a)) = rd r) \<and>
     (\<forall>r a v. rd (writel io r a v) = (rd r)(a := v AND wm a))"

lemma register_file_read:
  assumes "register_file io rd wm"
  shows "fst (qdma_reg_read io d a) = rd (xregs d) a" "rd (xregs (snd (qdma_reg_read io d a))) = rd (xregs d)"
  using assms unfolding register_file_def qdma_reg_read_def
  by (simp_all add: split_beta) (metis fst_conv)

lemma register_file_write:
  "register_file io rd wm \<Longrightarrow> rd (xregs (qdma_reg_write io d a v)) = (rd (xregs d))(a := v AND wm a)"
  by (simp add: register_file_def qdma_reg_write_def)

lemma register_file_csr: "register_file io rd wm \<Longrightarrow> csr_hardware io rd wm"
  unfolding register_file_def csr_hardware_def by (metis fst_conv fun_upd_apply)

lemma plain_register_file: "register_file plain_io (\<lambda>r. r) (\<lambda>_. -1)"
  by (simp add: register_file_def plain_io_def)

text \<open>The part of a completion doorbell that the register has room for.\<close>

definition cmpt_cidx_stored :: "qdma_q_cmpt_cidx_reg_info \<Rightarrow> qdma_q_cmpt_cidx_reg_info" where
  "cmpt_cidx_stored i = i
     \<lparr>qc_counter_idx := take_bit 4 (qc_counter_idx i), qc_timer_idx := take_bit 4 (qc_timer_idx i),
      qc_trig_mode := take_bit 3 (qc_trig_mode i), qc_wrb_en := take_bit 1 (qc_wrb_en i),
      qc_irq_en := take_bit 1 (qc_irq_en i)\<rparr>"

lemma cmpt_cidx_fields_word: "cmpt_cidx_fields (cmpt_cidx_word i) = cmpt_cidx_stored i"
  by (simp add: cmpt_cidx_fields_def cmpt_cidx_word_def cmpt_cidx_stored_def field_simps field_parts)

section \<open>Properties\<close>

text \<open>What an update of one doorbell does to the registers.\<close>

lemma write_doorbell_effect:
  assumes "register_file io rd wm"
  shows "\<exists>d'. write_doorbell io (Some d) a word (Some i) = (0, Some d') \<and>
    rd (xregs d') = (rd (xregs d))(a := word i AND wm a)"
  by (simp add: write_doorbell_def register_file_write [OF assms])

lemma pf_cmpt_doorbell: "unat (doorbell QDMA_OFFSET_DMAP_SEL_CMPT_CIDX q) = 0x1800C + 16 * unat q"
  "unat (doorbell QDMA_CPM4_OFFSET_DMAP_SEL_CMPT_CIDX q) = 0x640C + 16 * unat q"
  by (simp_all add: unat_doorbell)

text \<open>C28. What is written to the completion doorbell of a queue reads back through
  qdma_queue_cmpt_cidx_read cut to the widths of the fields, for physical and virtual functions.
  On CPM4 the access table has the reader of the soft IP beside the writer of CPM4: that is right
  for virtual functions, but what a physical function reads after a write, for whatever queue,
  is what it would have read before it.\<close>

theorem cmpt_cidx_update_read:
  assumes "register_file io rd (\<lambda>_. -1)" and "unat q < 2048" and "unat q' < 2048"
  shows "(\<exists>d1 d2. qdma_queue_cmpt_cidx_update io (Some d) is_vf q (Some i) = (0, Some d1) \<and>
      qdma_queue_cmpt_cidx_read io (Some d1) is_vf q (Some i0) = (0, Some (cmpt_cidx_stored i), Some d2)) \<and>
    (\<exists>d1 d2 d3 read. qdma_cpm4_queue_cmpt_cidx_update io (Some d) is_vf q (Some i) = (0, Some d1) \<and>
      qdma_queue_cmpt_cidx_read io (Some d1) is_vf q' (Some i0) = (0, Some read, Some d2) \<and>
      (if is_vf \<noteq> 0 then q = q' \<longrightarrow> read = cmpt_cidx_stored i
       else qdma_queue_cmpt_cidx_read io (Some d) is_vf q' (Some i0) = (0, Some read, Some d3)))"
proof -
  have "doorbell QDMA_CPM4_OFFSET_DMAP_SEL_CMPT_CIDX q \<noteq> doorbell QDMA_OFFSET_DMAP_SEL_CMPT_CIDX q'"
    using pf_cmpt_doorbell(1) [of q'] pf_cmpt_doorbell(2) [of q] assms(2,3) by fastforce
  then show ?thesis
    by (auto simp: qdma_queue_cmpt_cidx_update_def qdma_cpm4_queue_cmpt_cidx_update_def write_doorbell_def
        qdma_queue_cmpt_cidx_read_def split_beta register_file_read [OF assms(1)]
        register_file_write [OF assms(1)] cmpt_cidx_fields_word)
qed

theorem cmpt_cidx_update_read_witness:
  "\<exists>d1 d2. qdma_queue_cmpt_cidx_update plain_io (Some plain_dev) 0 5
      (Some \<lparr>qc_wrb_cidx = 7, qc_counter_idx = 17, qc_timer_idx = 3, qc_trig_mode = 5, qc_wrb_en = 1,
        qc_irq_en = 1\<rparr>) = (0, Some d1) \<and>
    qdma_queue_cmpt_cidx_read plain_io (Some d1) 0 5 (Some (cmpt_cidx_fields 0)) =
      (0, Some \<lparr>qc_wrb_cidx = 7, qc_counter_idx = 1, qc_timer_idx = 3, qc_trig_mode = 5, qc_wrb_en = 1,
        qc_irq_en = 1\<rparr>, Some d2)"
proof -
  let ?i = "\<lparr>qc_wrb_cidx = 7, qc_counter_idx = 17, qc_timer_idx = 3, qc_trig_mode = 5, qc_wrb_en = 1,
    qc_irq_en = 1\<rparr>"
  have "cmpt_cidx_stored ?i = ?i\<lparr>qc_counter_idx := 1\<rparr>"
    by (simp add: cmpt_cidx_stored_def take_bit_word_eq_self take_bit_eq_mod)
  then show ?thesis
    using cmpt_cidx_update_read [OF plain_register_file, of 5 5 plain_dev 0 ?i "cmpt_cidx_fields 0"] by auto
qed

text \<open>Doorbells are apart: within the register space of physical functions, of virtual
  functions and of CPM4, a producer or consumer index update changes the doorbell of its kind and
  queue and no other register of that space, for every queue number of 16 bits; and the doorbells
  of a physical function of the soft IP lie above all configuration registers.\<close>

theorem doorbells_apart:
  assumes "register_file io rd wm" and "spaces \<in> {pf_doorbells, vf_doorbells, cpm4_doorbells}"
    and "base \<in> set spaces" and "base' \<in> set spaces"
    and "write_doorbell io (Some d) (doorbell base q) word (Some i) = (rv, Some d')"
  shows "rv = 0 \<and> rd (xregs d') (doorbell base q) = word i AND wm (doorbell base q) \<and>
    (base' \<noteq> base \<or> q' \<noteq> q \<longrightarrow>
      rd (xregs d') (doorbell base' q') = rd (xregs d) (doorbell base' q')) \<and>
    (spaces = pf_doorbells \<longrightarrow> 0x18000 \<le> doorbell base q)"
proof -
  have "0x18000 \<le> doorbell base q" if "spaces = pf_doorbells"
  proof -
    have "unat base < 2 ^ 31" "0x18000 \<le> unat base"
      using that assms(3) by (auto simp: pf_doorbells_def)
    then show ?thesis by (simp add: word_le_nat_alt unat_doorbell)
  qed
  then show ?thesis
    using write_doorbell_effect [OF assms(1), of d "doorbell base q" word i] assms(2-5)
      doorbell_inject [OF assms(3,4,2)] doorbell_inject [OF assms(4,3,2)]
    by auto
qed

theorem doorbells_apart_witness:
  "\<exists>d'. qdma_queue_pidx_update plain_io (Some plain_dev) 0 3 1 (Some \<lparr>qp_pidx = 9, qp_irq_en = 1\<rparr>) = (0, Some d') \<and>
    xregs d' (doorbell 0x18008 3) = 0x10009 \<and> xregs d' (doorbell 0x18008 4) = 0 \<and> xregs d' (doorbell 0x18004 3) = 0"
proof -
  have m: "0x18008 \<in> set pf_doorbells" "0x18004 \<in> set pf_doorbells"
    "pf_doorbells \<in> {pf_doorbells, vf_doorbells, cpm4_doorbells}"
    by (simp_all add: pf_doorbells_def)
  let ?i = "\<lparr>qp_pidx = 9, qp_irq_en = 1\<rparr>"
  obtain d' where d': "write_doorbell plain_io (Some plain_dev) (doorbell 0x18008 3) pidx_word (Some ?i) = (0, Some d')"
    using write_doorbell_effect [OF plain_register_file, of plain_dev "doorbell 0x18008 3" pidx_word ?i] by blast
  note apart = doorbells_apart [OF plain_register_file m(3,1) _ d']
  have "pidx_word ?i = 0x10009"
    by (simp add: pidx_word_def FIELD_SET_GENMASK BIT_GENMASK take_bit_eq_mod)
  moreover have "xregs plain_dev (doorbell 0x18008 4) = 0" "xregs plain_dev (doorbell 0x18004 3) = 0"
    by (simp_all add: plain_dev_def doorbell_def)
  ultimately show ?thesis
    using apart [OF m(1), of 4] apart [OF m(2), of 3] d' by (simp add: qdma_queue_pidx_update_def)
qed

text \<open>Two details for the callers. The legacy interrupt can be enabled but not disabled: the bit is
  only ever set. And a function of the enhanced soft IP without a user BAR is told that it has
  BAR 0, where the soft IP reports an error.\<close>

lemma legacy_intr_stays_enabled:
  assumes "register_file io rd (\<lambda>_. -1)" "bit (rd (xregs d) QDMA_OFFSET_GLBL_INTERRUPT_CFG) 0"
  shows "\<exists>d'. qdma_legacy_intr_conf io (Some d) enable = (0, Some d') \<and>
    bit (rd (xregs d') QDMA_OFFSET_GLBL_INTERRUPT_CFG) 0"
  using assms(2) register_file_read [OF assms(1)] register_file_write [OF assms(1)]
  by (simp add: qdma_legacy_intr_conf_def split_beta bit_simps)

lemma no_user_bar:
  assumes "register_file io rd wm" "rd (xregs d) 0x10C = 0"
  shows "\<exists>d1 d2. qdma_get_user_bar io (Some d) 0 f (Some b) = (neg_err QDMA_ERR_HWACC_BAR_NOT_FOUND, Some 0, Some d1) \<and>
    eqdma_get_user_bar io (Some d) 0 f (Some b) = (0, Some 0, Some d2)"
proof -
  have "first_bar (bars_of_function 0 f) = None"
    by (simp add: first_bar_def bars_of_function_def find_None_iff)
  then show ?thesis
    using assms(2) register_file_read [OF assms(1)]
    by (simp add: qdma_get_user_bar_def eqdma_get_user_bar_def split_beta)
qed

end
