(* ===== verification/RegList.thy ===== *)
theory RegList
  imports CsrConf
begin

text \<open>
  The register lists a virtual function may ask for: the tables *_config_regs of each variant
  (address, repeat count, debug flag, mode and reader of every entry; the names and bit fields of
  the entries serve text output only and are left out) and the functions *_read_reg_list that
  walk a table from the first address of a register group.
\<close>

section \<open>Tables\<close>

datatype qdma_reg_read_type =
    QDMA_REG_READ_PF_ONLY | QDMA_REG_READ_VF_ONLY | QDMA_REG_READ_PF_VF | QDMA_REG_READ_MAX

record xreg_info =
  xr_addr :: u32
  xr_repeat :: u32
  xr_is_debug_reg :: u8
  xr_mode :: u8
  xr_read_type :: qdma_reg_read_type

definition xreg :: "u32 \<Rightarrow> u32 \<Rightarrow> u8 \<Rightarrow> u8 \<Rightarrow> qdma_reg_read_type \<Rightarrow> xreg_info" where
  "xreg addr repeat dbg mode read_type =
     \<lparr>xr_addr = addr, xr_repeat = repeat, xr_is_debug_reg = dbg, xr_mode = mode,
      xr_read_type = read_type\<rparr>"

definition qdma_config_regs_1 :: "xreg_info list" where
  "qdma_config_regs_1 =
    [xreg 0x0 1 0 7 QDMA_REG_READ_PF_ONLY,
     xreg 0x4 1 0 7 QDMA_REG_READ_PF_ONLY,
     xreg 0x8 1 0 7 QDMA_REG_READ_PF_ONLY,
     xreg 0xC 1 0 7 QDMA_REG_READ_PF_ONLY,
     xreg 0x10 1 0 7 QDMA_REG_READ_PF_ONLY,
     xreg 0x14 1 0 7 QDMA_REG_READ_PF_ONLY,
     xreg 0x18 1 0 7 QDMA_REG_READ_PF_ONLY,
     xreg 0x1C 1 0 7 QDMA_REG_READ_PF_ONLY,
     xreg 0x40 1 0 7 QDMA_REG_READ_PF_ONLY,
     xreg 0x44 1 0 7 QDMA_REG_READ_PF_ONLY,
     xreg 0x4C 1 0 7 QDMA_REG_READ_PF_ONLY,
     xreg 0x80 8 0 7 QDMA_REG_READ_PF_ONLY,
     xreg 0xF0 1 0 7 QDMA_REG_READ_PF_ONLY,
     xreg 0xF4 1 0 7 QDMA_REG_READ_PF_ONLY,
     xreg 0xF8 1 0 7 QDMA_REG_READ_PF_ONLY,
     xreg 0xFC 1 0 7 QDMA_REG_READ_PF_ONLY,
     xreg 0x100 1 0 7 QDMA_REG_READ_PF_ONLY,
     xreg 0x104 1 0 7 QDMA_REG_READ_PF_ONLY,
     xreg 0x108 1 0 7 QDMA_REG_READ_PF_ONLY,
     xreg 0x10C 1 0 7 QDMA_REG_READ_PF_ONLY,
     xreg 0x110 1 0 7 QDMA_REG_READ_PF_ONLY,
     xreg 0x114 1 0 7 QDMA_REG_READ_PF_ONLY,
     xreg 0x118 1 0 7 QDMA_REG_READ_PF_ONLY,
     xreg 0x11C 1 0 7 QDMA_REG_READ_PF_ONLY,
     xreg 0x120 1 0 7 QDMA_REG_READ_PF_ONLY,
     xreg 0x128 1 0 7 QDMA_REG_READ_PF_ONLY,
     xreg 0x12C 1 0 7 QDMA_REG_READ_PF_ONLY,
     xreg 0x130 1 0 7 QDMA_REG_READ_PF_ONLY,
     xreg 0x134 1 0 7 QDMA_REG_READ_PF_ONLY,
     xreg 0x1B8 2 0 7 QDMA_REG_READ_PF_ONLY,
     xreg 0x1C0 2 0 7 QDMA_REG_READ_PF_ONLY,
     xreg 0x1C8 2 0 7 QDMA_REG_READ_PF_ONLY,
     xreg 0x204 16 0 7 QDMA_REG_READ_PF_ONLY,
     xreg 0x248 1 0 7 QDMA_REG_READ_PF_VF,
     xreg 0x24C 1 0 7 QDMA_REG_READ_PF_VF,
     xreg 0x250 1 0 7 QDMA_REG_READ_PF_VF,
     xreg 0x254 1 0 7 QDMA_REG_READ_PF_VF,
     xreg 0x258 1 0 7 QDMA_REG_READ_PF_VF,
     xreg 0x25C 2 0 7 QDMA_REG_READ_PF_VF,
     xreg 0x264 1 0 7 QDMA_REG_READ_PF_VF,
     xreg 0x268 1 0 7 QDMA_REG_READ_PF_VF,
     xreg 0x26C 1 0 7 QDMA_REG_READ_PF_VF,
     xreg 0x270 2 0 7 QDMA_REG_READ_PF_VF,
     xreg 0x27C 1 0 7 QDMA_REG_READ_PF_VF,
     xreg 0x288 1 0 7 QDMA_REG_READ_PF_VF,
     xreg 0x400 4 0 7 QDMA_REG_READ_PF_ONLY,
     xreg 0x804 8 0 7 QDMA_REG_READ_PF_ONLY]"

definition qdma_config_regs_2 :: "xreg_info list" where
  "qdma_config_regs_2 =
    [xreg 0x824 8 0 7 QDMA_REG_READ_PF_ONLY,
     xreg 0x844 1 0 7 QDMA_REG_READ_PF_ONLY,
     xreg 0xA00 16 0 2 QDMA_REG_READ_PF_ONLY,
     xreg 0xA40 16 0 2 QDMA_REG_READ_PF_ONLY,
     xreg 0xA88 1 0 4 QDMA_REG_READ_PF_VF,
     xreg 0xA8C 1 0 4 QDMA_REG_READ_PF_VF,
     xreg 0xA90 1 0 4 QDMA_REG_READ_PF_VF,
     xreg 0xA94 1 0 4 QDMA_REG_READ_PF_VF,
     xreg 0xA98 1 0 4 QDMA_REG_READ_PF_VF,
     xreg 0xA9C 1 0 4 QDMA_REG_READ_PF_ONLY,
     xreg 0xAA0 1 0 4 QDMA_REG_READ_PF_ONLY,
     xreg 0xAA4 1 0 4 QDMA_REG_READ_PF_ONLY,
     xreg 0xAA8 1 0 4 QDMA_REG_READ_PF_ONLY,
     xreg 0xAAC 1 0 4 QDMA_REG_READ_PF_ONLY,
     xreg 0xAB0 16 0 4 QDMA_REG_READ_PF_ONLY,
     xreg 0xAF0 1 0 4 QDMA_REG_READ_PF_VF,
     xreg 0xAF4 1 0 4 QDMA_REG_READ_PF_VF,
     xreg 0xAF8 1 0 4 QDMA_REG_READ_PF_VF,
     xreg 0xAFC 1 0 4 QDMA_REG_READ_PF_VF,
     xreg 0xB00 1 0 4 QDMA_REG_READ_PF_VF,
     xreg 0xB04 1 0 4 QDMA_REG_READ_PF_VF,
     xreg 0xB08 1 0 4 QDMA_REG_READ_PF_ONLY,
     xreg 0xB0C 1 0 4 QDMA_REG_READ_PF_ONLY,
     xreg 0xB10 1 0 4 QDMA_REG_READ_PF_VF,
     xreg 0xB14 1 0 4 QDMA_REG_READ_PF_VF,
     xreg 0xB18 1 0 4 QDMA_REG_READ_PF_ONLY,
     xreg 0xB1C 4 0 4 QDMA_REG_READ_PF_ONLY,
     xreg 0xB2C 1 0 4 QDMA_REG_READ_PF_ONLY,
     xreg 0xB30 1 0 4 QDMA_REG_READ_PF_VF,
     xreg 0xB34 1 0 4 QDMA_REG_READ_PF_ONLY,
     xreg 0xB38 1 0 4 QDMA_REG_READ_PF_ONLY,
     xreg 0xB3C 1 0 4 QDMA_REG_READ_PF_ONLY,
     xreg 0xB40 1 0 4 QDMA_REG_READ_PF_ONLY,
     xreg 0xB44 1 0 4 QDMA_REG_READ_PF_ONLY,
     xreg 0xB48 1 0 4 QDMA_REG_READ_PF_ONLY,
     xreg 0xB4C 1 0 4 QDMA_REG_READ_PF_ONLY,
     xreg 0xB50 1 0 4 QDMA_REG_READ_PF_ONLY,
     xreg 0xB54 1 0 4 QDMA_REG_READ_PF_VF,
     xreg 0xB58 1 0 4 QDMA_REG_READ_PF_VF,
     xreg 0xB5C 1 0 4 QDMA_REG_READ_PF_VF,
     xreg 0xB60 1 0 4 QDMA_REG_READ_PF_VF,
     xreg 0xB64 1 0 4 QDMA_REG_READ_PF_ONLY,
     xreg 0xB68 1 0 4 QDMA_REG_READ_PF_ONLY,
     xreg 0xB6C 1 0 4 QDMA_REG_READ_PF_ONLY,
     xreg 0xB70 1 0 4 QDMA_REG_READ_PF_ONLY,
     xreg 0xB74 1 0 4 QDMA_REG_READ_PF_VF,
     xreg 0xB78 1 0 4 QDMA_REG_READ_PF_VF,
     xreg 0xB7C 1 0 4 QDMA_REG_READ_PF_ONLY,
     xreg 0xB80 1 0 4 QDMA_REG_READ_PF_ONLY]"

definition qdma_config_regs_3 :: "xreg_info list" where
  "qdma_config_regs_3 =
    [xreg 0xB84 1 0 4 QDMA_REG_READ_PF_ONLY,
     xreg 0xB88 1 0 4 QDMA_REG_READ_PF_ONLY,
     xreg 0xB8C 1 0 4 QDMA_REG_READ_PF_ONLY,
     xreg 0xB90 1 0 4 QDMA_REG_READ_PF_ONLY,
     xreg 0xB94 1 0 4 QDMA_REG_READ_PF_ONLY,
     xreg 0xB98 1 0 4 QDMA_REG_READ_PF_ONLY,
     xreg 0xB9C 1 0 4 QDMA_REG_READ_PF_ONLY,
     xreg 0xBA0 1 0 4 QDMA_REG_READ_PF_ONLY,
     xreg 0xBA4 1 0 4 QDMA_REG_READ_PF_ONLY,
     xreg 0xBA8 1 0 4 QDMA_REG_READ_PF_ONLY,
     xreg 0xBAC 1 0 4 QDMA_REG_READ_PF_ONLY,
     xreg 0xBB0 1 0 4 QDMA_REG_READ_PF_ONLY,
     xreg 0xBB4 1 0 4 QDMA_REG_READ_PF_ONLY,
     xreg 0xBB8 1 0 4 QDMA_REG_READ_PF_ONLY,
     xreg 0xBBC 1 0 4 QDMA_REG_READ_PF_ONLY,
     xreg 0xBC0 1 0 4 QDMA_REG_READ_PF_ONLY,
     xreg 0xBC4 7 0 4 QDMA_REG_READ_PF_ONLY,
     xreg 0xBE0 1 0 4 QDMA_REG_READ_PF_ONLY,
     xreg 0xBE4 1 0 4 QDMA_REG_READ_PF_ONLY,
     xreg 0xBE8 1 0 4 QDMA_REG_READ_PF_ONLY,
     xreg 0xE00 1 0 4 QDMA_REG_READ_PF_VF,
     xreg 0xE04 1 0 4 QDMA_REG_READ_PF_VF,
     xreg 0xE08 1 0 4 QDMA_REG_READ_PF_VF,
     xreg 0xE0C 5 0 4 QDMA_REG_READ_PF_ONLY,
     xreg 0xE20 1 0 4 QDMA_REG_READ_PF_ONLY,
     xreg 0xE24 1 0 4 QDMA_REG_READ_PF_ONLY,
     xreg 0xE28 1 0 4 QDMA_REG_READ_PF_ONLY,
     xreg 0x1004 3 0 1 QDMA_REG_READ_PF_ONLY,
     xreg 0x1040 2 0 1 QDMA_REG_READ_PF_ONLY,
     xreg 0x1048 1 0 1 QDMA_REG_READ_PF_ONLY,
     xreg 0x1054 1 0 1 QDMA_REG_READ_PF_ONLY,
     xreg 0x1058 1 0 1 QDMA_REG_READ_PF_ONLY,
     xreg 0x105C 1 0 1 QDMA_REG_READ_PF_ONLY,
     xreg 0x10C0 1 0 1 QDMA_REG_READ_PF_ONLY,
     xreg 0x10C4 2 0 1 QDMA_REG_READ_PF_ONLY,
     xreg 0x10CC 2 0 1 QDMA_REG_READ_PF_ONLY,
     xreg 0x10E8 2 0 1 QDMA_REG_READ_PF_ONLY,
     xreg 0x1204 3 0 1 QDMA_REG_READ_PF_ONLY,
     xreg 0x1240 1 0 1 QDMA_REG_READ_PF_ONLY,
     xreg 0x1248 1 0 1 QDMA_REG_READ_PF_ONLY,
     xreg 0x1254 1 0 1 QDMA_REG_READ_PF_ONLY,
     xreg 0x1258 1 0 1 QDMA_REG_READ_PF_ONLY,
     xreg 0x125C 1 0 1 QDMA_REG_READ_PF_ONLY,
     xreg 0x12C0 1 0 1 QDMA_REG_READ_PF_ONLY,
     xreg 0x12C4 2 0 1 QDMA_REG_READ_PF_ONLY,
     xreg 0x12CC 2 0 1 QDMA_REG_READ_PF_ONLY,
     xreg 0x12E8 1 0 1 QDMA_REG_READ_PF_ONLY,
     xreg 0x12EC 1 0 1 QDMA_REG_READ_PF_ONLY]"

definition qdma_config_regs_4 :: "xreg_info list" where
  "qdma_config_regs_4 =
    [xreg 0x2400 1 0 8 QDMA_REG_READ_PF_ONLY,
     xreg 0x2404 1 0 8 QDMA_REG_READ_PF_ONLY,
     xreg 0x2408 1 0 8 QDMA_REG_READ_PF_ONLY,
     xreg 0x240C 1 0 8 QDMA_REG_READ_PF_ONLY,
     xreg 0x2410 1 0 8 QDMA_REG_READ_PF_ONLY,
     xreg 0x2420 8 0 8 QDMA_REG_READ_PF_ONLY,
     xreg 0x2500 1 0 8 QDMA_REG_READ_PF_ONLY,
     xreg 0x2800 32 0 8 QDMA_REG_READ_PF_ONLY,
     xreg 0x2C00 32 0 8 QDMA_REG_READ_PF_ONLY,
     xreg 0x0 0 0 0 QDMA_REG_READ_PF_ONLY]"

definition qdma_config_regs :: "xreg_info list" where
  "qdma_config_regs =
     qdma_config_regs_1 @
     qdma_config_regs_2 @
     qdma_config_regs_3 @
     qdma_config_regs_4"

definition eqdma_config_regs_1 :: "xreg_info list" where
  "eqdma_config_regs_1 =
    [xreg 0x0 1 0 7 QDMA_REG_READ_PF_ONLY,
     xreg 0x8 1 0 7 QDMA_REG_READ_PF_ONLY,
     xreg 0xC 1 0 7 QDMA_REG_READ_PF_ONLY,
     xreg 0x10 1 0 7 QDMA_REG_READ_PF_ONLY,
     xreg 0x14 1 0 7 QDMA_REG_READ_PF_ONLY,
     xreg 0x18 1 0 7 QDMA_REG_READ_PF_ONLY,
     xreg 0x1C 1 0 7 QDMA_REG_READ_PF_ONLY,
     xreg 0x20 1 0 7 QDMA_REG_READ_PF_ONLY,
     xreg 0x40 1 0 7 QDMA_REG_READ_PF_ONLY,
     xreg 0x44 1 0 7 QDMA_REG_READ_PF_ONLY,
     xreg 0x4C 1 0 7 QDMA_REG_READ_PF_ONLY,
     xreg 0x68 1 0 7 QDMA_REG_READ_PF_ONLY,
     xreg 0x80 1 0 7 QDMA_REG_READ_PF_ONLY,
     xreg 0xA0 1 0 7 QDMA_REG_READ_PF_ONLY,
     xreg 0xE0 1 0 7 QDMA_REG_READ_PF_ONLY,
     xreg 0xE4 1 0 7 QDMA_REG_READ_PF_ONLY,
     xreg 0xE8 1 0 7 QDMA_REG_READ_PF_ONLY,
     xreg 0xEC 1 0 7 QDMA_REG_READ_PF_ONLY,
     xreg 0xF0 1 0 7 QDMA_REG_READ_PF_ONLY,
     xreg 0xF4 1 0 7 QDMA_REG_READ_PF_ONLY,
     xreg 0xF8 1 0 7 QDMA_REG_READ_PF_ONLY,
     xreg 0xFC 1 0 7 QDMA_REG_READ_PF_ONLY,
     xreg 0x100 1 0 7 QDMA_REG_READ_PF_ONLY,
     xreg 0x114 1 0 7 QDMA_REG_READ_PF_ONLY,
     xreg 0x118 1 0 7 QDMA_REG_READ_PF_ONLY]"

definition eqdma_config_regs_2 :: "xreg_info list" where
  "eqdma_config_regs_2 =
    [xreg 0x11C 1 0 7 QDMA_REG_READ_PF_ONLY,
     xreg 0x120 1 0 7 QDMA_REG_READ_PF_ONLY,
     xreg 0x128 1 0 7 QDMA_REG_READ_PF_ONLY,
     xreg 0x130 1 0 7 QDMA_REG_READ_PF_ONLY,
     xreg 0x134 1 0 7 QDMA_REG_READ_PF_ONLY,
     xreg 0x158 1 0 7 QDMA_REG_READ_PF_ONLY,
     xreg 0x15C 1 0 7 QDMA_REG_READ_PF_ONLY,
     xreg 0x160 1 0 7 QDMA_REG_READ_PF_ONLY,
     xreg 0x164 1 0 7 QDMA_REG_READ_PF_ONLY,
     xreg 0x168 1 0 7 QDMA_REG_READ_PF_ONLY,
     xreg 0x16C 1 0 7 QDMA_REG_READ_PF_ONLY,
     xreg 0x170 1 0 7 QDMA_REG_READ_PF_ONLY,
     xreg 0x1B8 1 0 7 QDMA_REG_READ_PF_ONLY,
     xreg 0x1BC 1 0 7 QDMA_REG_READ_PF_ONLY,
     xreg 0x1C0 1 0 7 QDMA_REG_READ_PF_ONLY,
     xreg 0x1C4 1 0 7 QDMA_REG_READ_PF_ONLY,
     xreg 0x1C8 1 0 7 QDMA_REG_READ_PF_ONLY,
     xreg 0x1CC 1 0 7 QDMA_REG_READ_PF_ONLY,
     xreg 0x1D0 1 0 7 QDMA_REG_READ_PF_ONLY,
     xreg 0x1D4 1 0 7 QDMA_REG_READ_PF_ONLY,
     xreg 0x1F4 1 0 7 QDMA_REG_READ_PF_ONLY,
     xreg 0x1F8 1 0 7 QDMA_REG_READ_PF_ONLY,
     xreg 0x1FC 1 0 7 QDMA_REG_READ_PF_ONLY,
     xreg 0x204 1 0 7 QDMA_REG_READ_PF_VF,
     xreg 0x208 1 0 7 QDMA_REG_READ_PF_VF]"

definition eqdma_config_regs_3 :: "xreg_info list" where
  "eqdma_config_regs_3 =
    [xreg 0x20C 1 0 7 QDMA_REG_READ_PF_VF,
     xreg 0x210 1 0 7 QDMA_REG_READ_PF_VF,
     xreg 0x214 1 0 7 QDMA_REG_READ_PF_VF,
     xreg 0x218 1 0 7 QDMA_REG_READ_PF_VF,
     xreg 0x21C 1 0 7 QDMA_REG_READ_PF_VF,
     xreg 0x220 1 0 7 QDMA_REG_READ_PF_VF,
     xreg 0x224 1 0 7 QDMA_REG_READ_PF_VF,
     xreg 0x228 1 0 7 QDMA_REG_READ_PF_VF,
     xreg 0x22C 1 0 7 QDMA_REG_READ_PF_VF,
     xreg 0x230 1 0 7 QDMA_REG_READ_PF_VF,
     xreg 0x234 1 0 7 QDMA_REG_READ_PF_VF,
     xreg 0x238 1 0 7 QDMA_REG_READ_PF_VF,
     xreg 0x23C 1 0 7 QDMA_REG_READ_PF_VF,
     xreg 0x240 1 0 7 QDMA_REG_READ_PF_VF,
     xreg 0x248 1 0 7 QDMA_REG_READ_PF_VF,
     xreg 0x24C 1 0 7 QDMA_REG_READ_PF_VF,
     xreg 0x250 1 0 7 QDMA_REG_READ_PF_VF,
     xreg 0x254 1 0 7 QDMA_REG_READ_PF_VF,
     xreg 0x258 1 0 7 QDMA_REG_READ_PF_VF,
     xreg 0x25C 1 0 7 QDMA_REG_READ_PF_VF,
     xreg 0x260 1 0 7 QDMA_REG_READ_PF_VF,
     xreg 0x264 1 0 7 QDMA_REG_READ_PF_VF,
     xreg 0x268 1 0 7 QDMA_REG_READ_PF_VF,
     xreg 0x26C 1 0 7 QDMA_REG_READ_PF_VF,
     xreg 0x270 1 0 7 QDMA_REG_READ_PF_VF]"

definition eqdma_config_regs_4 :: "xreg_info list" where
  "eqdma_config_regs_4 =
    [xreg 0x274 1 0 7 QDMA_REG_READ_PF_VF,
     xreg 0x278 1 0 7 QDMA_REG_READ_PF_VF,
     xreg 0x27C 1 0 7 QDMA_REG_READ_PF_VF,
     xreg 0x2C4 1 0 7 QDMA_REG_READ_PF_VF,
     xreg 0x2C8 1 0 7 QDMA_REG_READ_PF_VF,
     xreg 0x308 1 0 7 QDMA_REG_READ_PF_VF,
     xreg 0x30C 1 0 7 QDMA_REG_READ_PF_VF,
     xreg 0x314 1 0 7 QDMA_REG_READ_PF_VF,
     xreg 0x318 1 0 7 QDMA_REG_READ_PF_ONLY,
     xreg 0x31C 1 0 7 QDMA_REG_READ_PF_ONLY,
     xreg 0x320 1 0 7 QDMA_REG_READ_PF_ONLY,
     xreg 0x324 1 0 7 QDMA_REG_READ_PF_ONLY,
     xreg 0x328 1 0 7 QDMA_REG_READ_PF_ONLY,
     xreg 0x32C 1 0 7 QDMA_REG_READ_PF_ONLY,
     xreg 0x330 1 0 7 QDMA_REG_READ_PF_ONLY,
     xreg 0x334 1 0 7 QDMA_REG_READ_PF_ONLY,
     xreg 0x338 1 0 7 QDMA_REG_READ_PF_ONLY,
     xreg 0x33C 1 0 7 QDMA_REG_READ_PF_ONLY,
     xreg 0x340 1 0 7 QDMA_REG_READ_PF_ONLY,
     xreg 0x344 1 0 7 QDMA_REG_READ_PF_ONLY,
     xreg 0x348 1 0 7 QDMA_REG_READ_PF_ONLY,
     xreg 0x34C 1 0 7 QDMA_REG_READ_PF_ONLY,
     xreg 0x350 1 0 7 QDMA_REG_READ_PF_ONLY,
     xreg 0x354 1 0 7 QDMA_REG_READ_PF_ONLY,
     xreg 0x358 1 0 7 QDMA_REG_READ_PF_ONLY]"

definition eqdma_config_regs_5 :: "xreg_info list" where
  "eqdma_config_regs_5 =
    [xreg 0x35C 1 0 7 QDMA_REG_READ_PF_ONLY,
     xreg 0x360 1 0 7 QDMA_REG_READ_PF_ONLY,
     xreg 0x364 1 0 7 QDMA_REG_READ_PF_ONLY,
     xreg 0x368 1 0 7 QDMA_REG_READ_PF_ONLY,
     xreg 0x36C 1 0 7 QDMA_REG_READ_PF_ONLY,
     xreg 0x370 1 0 7 QDMA_REG_READ_PF_ONLY,
     xreg 0x374 1 0 7 QDMA_REG_READ_PF_ONLY,
     xreg 0x378 1 0 7 QDMA_REG_READ_PF_ONLY,
     xreg 0x37C 1 0 7 QDMA_REG_READ_PF_ONLY,
     xreg 0x380 1 0 7 QDMA_REG_READ_PF_ONLY,
     xreg 0x384 1 0 7 QDMA_REG_READ_PF_ONLY,
     xreg 0x388 1 0 7 QDMA_REG_READ_PF_ONLY,
     xreg 0x38C 1 0 7 QDMA_REG_READ_PF_ONLY,
     xreg 0x390 1 0 7 QDMA_REG_READ_PF_ONLY,
     xreg 0x394 1 0 7 QDMA_REG_READ_PF_ONLY,
     xreg 0x398 1 0 7 QDMA_REG_READ_PF_ONLY,
     xreg 0x39C 1 0 7 QDMA_REG_READ_PF_ONLY,
     xreg 0x3A0 1 0 7 QDMA_REG_READ_PF_ONLY,
     xreg 0x3A4 1 0 7 QDMA_REG_READ_PF_ONLY,
     xreg 0x3A8 1 0 7 QDMA_REG_READ_PF_ONLY,
     xreg 0x3AC 1 0 7 QDMA_REG_READ_PF_ONLY,
     xreg 0x3B0 1 0 7 QDMA_REG_READ_PF_ONLY,
     xreg 0x3B4 1 0 7 QDMA_REG_READ_PF_ONLY,
     xreg 0x3B8 1 0 7 QDMA_REG_READ_PF_ONLY,
     xreg 0x3BC 1 0 7 QDMA_REG_READ_PF_ONLY]"

definition eqdma_config_regs_6 :: "xreg_info list" where
  "eqdma_config_regs_6 =
    [xreg 0x3C0 1 0 7 QDMA_REG_READ_PF_ONLY,
     xreg 0x3C4 1 0 7 QDMA_REG_READ_PF_ONLY,
     xreg 0x3C8 1 0 7 QDMA_REG_READ_PF_ONLY,
     xreg 0x3CC 1 0 7 QDMA_REG_READ_PF_ONLY,
     xreg 0x3D0 1 0 7 QDMA_REG_READ_PF_ONLY,
     xreg 0x3D4 1 0 7 QDMA_REG_READ_PF_ONLY,
     xreg 0x3D8 1 0 7 QDMA_REG_READ_PF_ONLY,
     xreg 0x3DC 1 0 7 QDMA_REG_READ_PF_ONLY,
     xreg 0x3E0 1 0 7 QDMA_REG_READ_PF_ONLY,
     xreg 0x3E4 1 0 7 QDMA_REG_READ_PF_ONLY,
     xreg 0x3E8 1 0 7 QDMA_REG_READ_PF_ONLY,
     xreg 0x3EC 1 0 7 QDMA_REG_READ_PF_ONLY,
     xreg 0x3F0 1 0 7 QDMA_REG_READ_PF_ONLY,
     xreg 0x3F4 1 0 7 QDMA_REG_READ_PF_ONLY,
     xreg 0x3F8 1 0 7 QDMA_REG_READ_PF_ONLY,
     xreg 0x3FC 1 0 7 QDMA_REG_READ_PF_ONLY,
     xreg 0x400 1 0 7 QDMA_REG_READ_PF_ONLY,
     xreg 0x404 1 0 7 QDMA_REG_READ_PF_ONLY,
     xreg 0x408 1 0 7 QDMA_REG_READ_PF_ONLY,
     xreg 0x40C 1 0 7 QDMA_REG_READ_PF_ONLY,
     xreg 0x410 1 0 7 QDMA_REG_READ_PF_ONLY,
     xreg 0x414 1 0 7 QDMA_REG_READ_PF_ONLY,
     xreg 0x418 1 0 7 QDMA_REG_READ_PF_ONLY,
     xreg 0x41C 1 0 7 QDMA_REG_READ_PF_ONLY,
     xreg 0x420 1 0 7 QDMA_REG_READ_PF_ONLY]"

definition eqdma_config_regs_7 :: "xreg_info list" where
  "eqdma_config_regs_7 =
    [xreg 0x424 1 0 7 QDMA_REG_READ_PF_ONLY,
     xreg 0x428 1 0 7 QDMA_REG_READ_PF_ONLY,
     xreg 0x42C 1 0 7 QDMA_REG_READ_PF_ONLY,
     xreg 0x430 1 0 7 QDMA_REG_READ_PF_ONLY,
     xreg 0x434 1 0 7 QDMA_REG_READ_PF_ONLY,
     xreg 0x438 1 0 7 QDMA_REG_READ_PF_ONLY,
     xreg 0x43C 1 0 7 QDMA_REG_READ_PF_ONLY,
     xreg 0x440 1 0 7 QDMA_REG_READ_PF_ONLY,
     xreg 0x444 1 0 7 QDMA_REG_READ_PF_ONLY,
     xreg 0x448 1 0 7 QDMA_REG_READ_PF_ONLY,
     xreg 0x44C 1 0 7 QDMA_REG_READ_PF_ONLY,
     xreg 0x804 1 0 7 QDMA_REG_READ_PF_ONLY,
     xreg 0x824 1 0 7 QDMA_REG_READ_PF_ONLY,
     xreg 0x844 1 0 7 QDMA_REG_READ_PF_ONLY,
     xreg 0xA00 1 0 2 QDMA_REG_READ_PF_ONLY,
     xreg 0xA40 1 0 2 QDMA_REG_READ_PF_ONLY,
     xreg 0xA80 1 0 4 QDMA_REG_READ_PF_VF,
     xreg 0xA84 1 0 4 QDMA_REG_READ_PF_VF,
     xreg 0xA88 1 1 4 QDMA_REG_READ_PF_VF,
     xreg 0xA8C 1 1 4 QDMA_REG_READ_PF_VF,
     xreg 0xA90 1 1 4 QDMA_REG_READ_PF_VF,
     xreg 0xA94 1 1 4 QDMA_REG_READ_PF_VF,
     xreg 0xA98 1 1 4 QDMA_REG_READ_PF_ONLY,
     xreg 0xA9C 1 1 4 QDMA_REG_READ_PF_ONLY,
     xreg 0xAA0 1 1 4 QDMA_REG_READ_PF_ONLY]"

definition eqdma_config_regs_8 :: "xreg_info list" where
  "eqdma_config_regs_8 =
    [xreg 0xAA4 1 1 4 QDMA_REG_READ_PF_ONLY,
     xreg 0xAA8 1 1 4 QDMA_REG_READ_PF_ONLY,
     xreg 0xAAC 1 1 4 QDMA_REG_READ_PF_ONLY,
     xreg 0xAB0 1 0 4 QDMA_REG_READ_PF_ONLY,
     xreg 0xAF0 1 0 4 QDMA_REG_READ_PF_VF,
     xreg 0xAF4 1 0 4 QDMA_REG_READ_PF_VF,
     xreg 0xAF8 1 0 4 QDMA_REG_READ_PF_VF,
     xreg 0xAFC 1 0 4 QDMA_REG_READ_PF_VF,
     xreg 0xB00 1 0 4 QDMA_REG_READ_PF_VF,
     xreg 0xB04 1 0 4 QDMA_REG_READ_PF_VF,
     xreg 0xB08 1 0 4 QDMA_REG_READ_PF_ONLY,
     xreg 0xB0C 1 0 4 QDMA_REG_READ_PF_ONLY,
     xreg 0xB10 1 1 4 QDMA_REG_READ_PF_VF,
     xreg 0xB14 1 1 4 QDMA_REG_READ_PF_VF,
     xreg 0xB18 1 1 4 QDMA_REG_READ_PF_ONLY,
     xreg 0xB1C 1 1 4 QDMA_REG_READ_PF_ONLY,
     xreg 0xB20 1 1 4 QDMA_REG_READ_PF_ONLY,
     xreg 0xB24 1 1 4 QDMA_REG_READ_PF_ONLY,
     xreg 0xB28 1 1 4 QDMA_REG_READ_PF_ONLY,
     xreg 0xB2C 1 0 4 QDMA_REG_READ_PF_ONLY,
     xreg 0xB30 1 0 4 QDMA_REG_READ_PF_VF,
     xreg 0xB34 1 1 4 QDMA_REG_READ_PF_ONLY,
     xreg 0xB38 1 1 4 QDMA_REG_READ_PF_ONLY,
     xreg 0xB3C 1 1 4 QDMA_REG_READ_PF_ONLY,
     xreg 0xB40 1 1 4 QDMA_REG_READ_PF_ONLY]"

definition eqdma_config_regs_9 :: "xreg_info list" where
  "eqdma_config_regs_9 =
    [xreg 0xB44 1 0 4 QDMA_REG_READ_PF_ONLY,
     xreg 0xB48 1 0 4 QDMA_REG_READ_PF_ONLY,
     xreg 0xB4C 1 0 4 QDMA_REG_READ_PF_ONLY,
     xreg 0xB50 1 0 4 QDMA_REG_READ_PF_ONLY,
     xreg 0xB54 1 0 4 QDMA_REG_READ_PF_VF,
     xreg 0xB58 1 0 4 QDMA_REG_READ_PF_VF,
     xreg 0xB5C 1 0 4 QDMA_REG_READ_PF_VF,
     xreg 0xB60 1 0 4 QDMA_REG_READ_PF_VF,
     xreg 0xB64 1 0 4 QDMA_REG_READ_PF_ONLY,
     xreg 0xB68 1 0 4 QDMA_REG_READ_PF_ONLY,
     xreg 0xB6C 1 0 4 QDMA_REG_READ_PF_ONLY,
     xreg 0xB70 1 0 4 QDMA_REG_READ_PF_ONLY,
     xreg 0xB74 1 0 4 QDMA_REG_READ_PF_VF,
     xreg 0xB78 1 0 4 QDMA_REG_READ_PF_VF,
     xreg 0xB7C 1 0 4 QDMA_REG_READ_PF_ONLY,
     xreg 0xB80 1 0 4 QDMA_REG_READ_PF_ONLY,
     xreg 0xB84 1 0 4 QDMA_REG_READ_PF_ONLY,
     xreg 0xB88 1 0 4 QDMA_REG_READ_PF_ONLY,
     xreg 0xB8C 1 0 4 QDMA_REG_READ_PF_ONLY,
     xreg 0xB90 1 0 4 QDMA_REG_READ_PF_ONLY,
     xreg 0xB94 1 0 4 QDMA_REG_READ_PF_ONLY,
     xreg 0xB98 1 0 4 QDMA_REG_READ_PF_ONLY,
     xreg 0xB9C 1 0 4 QDMA_REG_READ_PF_ONLY,
     xreg 0xBA0 1 0 4 QDMA_REG_READ_PF_ONLY,
     xreg 0xBA4 1 0 4 QDMA_REG_READ_PF_ONLY]"

definition eqdma_config_regs_10 :: "xreg_info list" where
  "eqdma_config_regs_10 =
    [xreg 0xBA8 1 0 4 QDMA_REG_READ_PF_ONLY,
     xreg 0xBAC 1 0 4 QDMA_REG_READ_PF_ONLY,
     xreg 0xBB0 1 0 4 QDMA_REG_READ_PF_ONLY,
     xreg 0xBB4 1 0 4 QDMA_REG_READ_PF_ONLY,
     xreg 0xBB8 1 0 4 QDMA_REG_READ_PF_ONLY,
     xreg 0xBBC 1 0 4 QDMA_REG_READ_PF_ONLY,
     xreg 0xBC0 1 0 4 QDMA_REG_READ_PF_ONLY,
     xreg 0xBC4 1 0 4 QDMA_REG_READ_PF_ONLY,
     xreg 0xBC8 1 0 4 QDMA_REG_READ_PF_ONLY,
     xreg 0xBCC 1 0 4 QDMA_REG_READ_PF_ONLY,
     xreg 0xBD0 1 0 4 QDMA_REG_READ_PF_ONLY,
     xreg 0xBD4 1 0 4 QDMA_REG_READ_PF_ONLY,
     xreg 0xBD8 1 0 4 QDMA_REG_READ_PF_ONLY,
     xreg 0xBDC 1 0 4 QDMA_REG_READ_PF_ONLY,
     xreg 0xBE0 1 0 4 QDMA_REG_READ_PF_ONLY,
     xreg 0xBE4 1 0 4 QDMA_REG_READ_PF_ONLY,
     xreg 0xBE8 1 0 4 QDMA_REG_READ_PF_ONLY,
     xreg 0xBEC 1 1 4 QDMA_REG_READ_PF_ONLY,
     xreg 0xBF0 1 1 4 QDMA_REG_READ_PF_ONLY,
     xreg 0xBF4 1 0 4 QDMA_REG_READ_PF_ONLY,
     xreg 0xBF8 1 0 4 QDMA_REG_READ_PF_ONLY,
     xreg 0xBFC 1 0 4 QDMA_REG_READ_PF_ONLY,
     xreg 0xE00 1 0 4 QDMA_REG_READ_PF_VF,
     xreg 0xE04 1 0 4 QDMA_REG_READ_PF_VF,
     xreg 0xE08 1 0 4 QDMA_REG_READ_PF_VF]"

definition eqdma_config_regs_11 :: "xreg_info list" where
  "eqdma_config_regs_11 =
    [xreg 0xE0C 1 1 4 QDMA_REG_READ_PF_ONLY,
     xreg 0xE10 1 1 4 QDMA_REG_READ_PF_ONLY,
     xreg 0xE14 1 1 4 QDMA_REG_READ_PF_ONLY,
     xreg 0xE18 1 1 4 QDMA_REG_READ_PF_ONLY,
     xreg 0xE1C 1 1 4 QDMA_REG_READ_PF_ONLY,
     xreg 0xE20 1 0 4 QDMA_REG_READ_PF_VF,
     xreg 0xE24 1 0 4 QDMA_REG_READ_PF_ONLY,
     xreg 0xE28 1 1 4 QDMA_REG_READ_PF_ONLY,
     xreg 0xE2C 1 0 4 QDMA_REG_READ_PF_ONLY,
     xreg 0x1004 1 0 1 QDMA_REG_READ_PF_ONLY,
     xreg 0x1040 1 0 1 QDMA_REG_READ_PF_ONLY,
     xreg 0x1048 1 0 1 QDMA_REG_READ_PF_ONLY,
     xreg 0x1054 1 0 1 QDMA_REG_READ_PF_ONLY,
     xreg 0x1058 1 0 1 QDMA_REG_READ_PF_ONLY,
     xreg 0x105C 1 0 1 QDMA_REG_READ_PF_ONLY,
     xreg 0x10C0 1 0 1 QDMA_REG_READ_PF_ONLY,
     xreg 0x10C4 1 0 1 QDMA_REG_READ_PF_ONLY,
     xreg 0x10C8 1 0 1 QDMA_REG_READ_PF_ONLY,
     xreg 0x10CC 1 0 1 QDMA_REG_READ_PF_ONLY,
     xreg 0x10D0 1 0 1 QDMA_REG_READ_PF_ONLY,
     xreg 0x10E8 1 0 1 QDMA_REG_READ_PF_ONLY,
     xreg 0x1204 1 0 1 QDMA_REG_READ_PF_ONLY,
     xreg 0x1240 1 0 1 QDMA_REG_READ_PF_ONLY,
     xreg 0x1248 1 0 1 QDMA_REG_READ_PF_ONLY,
     xreg 0x1254 1 0 1 QDMA_REG_READ_PF_ONLY]"

definition eqdma_config_regs_12 :: "xreg_info list" where
  "eqdma_config_regs_12 =
    [xreg 0x1258 1 0 1 QDMA_REG_READ_PF_ONLY,
     xreg 0x125C 1 0 1 QDMA_REG_READ_PF_ONLY,
     xreg 0x12C0 1 0 1 QDMA_REG_READ_PF_ONLY,
     xreg 0x12C4 1 0 1 QDMA_REG_READ_PF_ONLY,
     xreg 0x12C8 1 0 1 QDMA_REG_READ_PF_ONLY,
     xreg 0x12CC 1 0 1 QDMA_REG_READ_PF_ONLY,
     xreg 0x12D0 1 0 1 QDMA_REG_READ_PF_ONLY,
     xreg 0x12E8 1 0 1 QDMA_REG_READ_PF_ONLY,
     xreg 0x12EC 1 0 1 QDMA_REG_READ_PF_ONLY,
     xreg 0x1400 1 0 4 QDMA_REG_READ_PF_ONLY,
     xreg 0x1404 1 0 4 QDMA_REG_READ_PF_ONLY,
     xreg 0x1408 1 0 4 QDMA_REG_READ_PF_ONLY,
     xreg 0x140C 1 0 4 QDMA_REG_READ_PF_ONLY,
     xreg 0x1410 1 0 4 QDMA_REG_READ_PF_ONLY,
     xreg 0x1450 1 0 4 QDMA_REG_READ_PF_ONLY,
     xreg 0x1454 1 0 4 QDMA_REG_READ_PF_ONLY,
     xreg 0x1458 1 0 4 QDMA_REG_READ_PF_ONLY,
     xreg 0x145C 1 0 4 QDMA_REG_READ_PF_ONLY,
     xreg 0x1460 1 0 4 QDMA_REG_READ_PF_ONLY,
     xreg 0x1464 1 0 4 QDMA_REG_READ_PF_ONLY,
     xreg 0x1468 1 0 4 QDMA_REG_READ_PF_ONLY,
     xreg 0x146C 1 0 4 QDMA_REG_READ_PF_ONLY,
     xreg 0x1470 1 0 4 QDMA_REG_READ_PF_ONLY,
     xreg 0x1474 1 0 4 QDMA_REG_READ_PF_ONLY,
     xreg 0x1478 1 0 4 QDMA_REG_READ_PF_ONLY]"

definition eqdma_config_regs_13 :: "xreg_info list" where
  "eqdma_config_regs_13 =
    [xreg 0x147C 1 0 4 QDMA_REG_READ_PF_ONLY,
     xreg 0x1480 1 0 4 QDMA_REG_READ_PF_ONLY,
     xreg 0x1484 1 0 4 QDMA_REG_READ_PF_ONLY]"

definition eqdma_config_regs :: "xreg_info list" where
  "eqdma_config_regs =
     eqdma_config_regs_1 @
     eqdma_config_regs_2 @
     eqdma_config_regs_3 @
     eqdma_config_regs_4 @
     eqdma_config_regs_5 @
     eqdma_config_regs_6 @
     eqdma_config_regs_7 @
     eqdma_config_regs_8 @
     eqdma_config_regs_9 @
     eqdma_config_regs_10 @
     eqdma_config_regs_11 @
     eqdma_config_regs_12 @
     eqdma_config_regs_13"

definition eqdma_cpm5_config_regs_1 :: "xreg_info list" where
  "eqdma_cpm5_config_regs_1 =
    [xreg 0x0 1 0 7 QDMA_REG_READ_PF_ONLY,
     xreg 0x8 1 0 7 QDMA_REG_READ_PF_ONLY,
     xreg 0xC 1 0 7 QDMA_REG_READ_PF_ONLY,
     xreg 0x10 1 0 7 QDMA_REG_READ_PF_ONLY,
     xreg 0x14 1 0 7 QDMA_REG_READ_PF_ONLY,
     xreg 0x18 1 0 7 QDMA_REG_READ_PF_ONLY,
     xreg 0x1C 1 0 7 QDMA_REG_READ_PF_ONLY,
     xreg 0x20 1 0 7 QDMA_REG_READ_PF_ONLY,
     xreg 0x40 1 0 7 QDMA_REG_READ_PF_ONLY,
     xreg 0x44 1 0 7 QDMA_REG_READ_PF_ONLY,
     xreg 0x4C 1 0 7 QDMA_REG_READ_PF_ONLY,
     xreg 0x68 1 0 7 QDMA_REG_READ_PF_ONLY,
     xreg 0x80 1 0 7 QDMA_REG_READ_PF_ONLY,
     xreg 0xA0 1 0 7 QDMA_REG_READ_PF_ONLY,
     xreg 0xE0 1 0 7 QDMA_REG_READ_PF_ONLY,
     xreg 0xE4 1 0 7 QDMA_REG_READ_PF_ONLY,
     xreg 0xE8 1 0 7 QDMA_REG_READ_PF_ONLY,
     xreg 0xEC 1 0 7 QDMA_REG_READ_PF_ONLY,
     xreg 0xF0 1 0 7 QDMA_REG_READ_PF_ONLY,
     xreg 0xF4 1 0 7 QDMA_REG_READ_PF_ONLY,
     xreg 0xF8 1 0 7 QDMA_REG_READ_PF_ONLY,
     xreg 0xFC 1 0 7 QDMA_REG_READ_PF_ONLY,
     xreg 0x100 1 0 7 QDMA_REG_READ_PF_ONLY,
     xreg 0x114 1 0 7 QDMA_REG_READ_PF_ONLY,
     xreg 0x118 1 0 7 QDMA_REG_READ_PF_ONLY]"

definition eqdma_cpm5_config_regs_2 :: "xreg_info list" where
  "eqdma_cpm5_config_regs_2 =
    [xreg 0x11C 1 0 7 QDMA_REG_READ_PF_ONLY,
     xreg 0x120 1 0 7 QDMA_REG_READ_PF_ONLY,
     xreg 0x128 1 0 7 QDMA_REG_READ_PF_ONLY,
     xreg 0x130 1 0 7 QDMA_REG_READ_PF_ONLY,
     xreg 0x134 1 0 7 QDMA_REG_READ_PF_ONLY,
     xreg 0x1B8 1 0 7 QDMA_REG_READ_PF_ONLY,
     xreg 0x1BC 1 0 7 QDMA_REG_READ_PF_ONLY,
     xreg 0x1C0 1 0 7 QDMA_REG_READ_PF_ONLY,
     xreg 0x1C4 1 0 7 QDMA_REG_READ_PF_ONLY,
     xreg 0x1C8 1 0 7 QDMA_REG_READ_PF_ONLY,
     xreg 0x1CC 1 0 7 QDMA_REG_READ_PF_ONLY,
     xreg 0x1D0 1 0 7 QDMA_REG_READ_PF_ONLY,
     xreg 0x1D4 1 0 7 QDMA_REG_READ_PF_ONLY,
     xreg 0x1F4 1 0 7 QDMA_REG_READ_PF_ONLY,
     xreg 0x1F8 1 0 7 QDMA_REG_READ_PF_ONLY,
     xreg 0x1FC 1 0 7 QDMA_REG_READ_PF_ONLY,
     xreg 0x204 1 0 7 QDMA_REG_READ_PF_VF,
     xreg 0x208 1 0 7 QDMA_REG_READ_PF_VF,
     xreg 0x20C 1 0 7 QDMA_REG_READ_PF_VF,
     xreg 0x210 1 0 7 QDMA_REG_READ_PF_VF,
     xreg 0x214 1 0 7 QDMA_REG_READ_PF_VF,
     xreg 0x218 1 0 7 QDMA_REG_READ_PF_VF,
     xreg 0x21C 1 0 7 QDMA_REG_READ_PF_VF,
     xreg 0x220 1 0 7 QDMA_REG_READ_PF_VF,
     xreg 0x224 1 0 7 QDMA_REG_READ_PF_VF]"

definition eqdma_cpm5_config_regs_3 :: "xreg_info list" where
  "eqdma_cpm5_config_regs_3 =
    [xreg 0x228 1 0 7 QDMA_REG_READ_PF_VF,
     xreg 0x22C 1 0 7 QDMA_REG_READ_PF_VF,
     xreg 0x230 1 0 7 QDMA_REG_READ_PF_VF,
     xreg 0x234 1 0 7 QDMA_REG_READ_PF_VF,
     xreg 0x238 1 0 7 QDMA_REG_READ_PF_VF,
     xreg 0x23C 1 0 7 QDMA_REG_READ_PF_VF,
     xreg 0x240 1 0 7 QDMA_REG_READ_PF_VF,
     xreg 0x248 1 0 7 QDMA_REG_READ_PF_VF,
     xreg 0x24C 1 0 7 QDMA_REG_READ_PF_VF,
     xreg 0x250 1 0 7 QDMA_REG_READ_PF_VF,
     xreg 0x254 1 0 7 QDMA_REG_READ_PF_VF,
     xreg 0x258 1 0 7 QDMA_REG_READ_PF_VF,
     xreg 0x25C 1 0 7 QDMA_REG_READ_PF_VF,
     xreg 0x260 1 0 7 QDMA_REG_READ_PF_VF,
     xreg 0x264 1 0 7 QDMA_REG_READ_PF_VF,
     xreg 0x268 1 0 7 QDMA_REG_READ_PF_VF,
     xreg 0x26C 1 0 7 QDMA_REG_READ_PF_VF,
     xreg 0x270 1 0 7 QDMA_REG_READ_PF_VF,
     xreg 0x274 1 0 7 QDMA_REG_READ_PF_VF,
     xreg 0x278 1 0 7 QDMA_REG_READ_PF_VF,
     xreg 0x27C 1 0 7 QDMA_REG_READ_PF_VF,
     xreg 0x2C4 1 0 7 QDMA_REG_READ_PF_VF,
     xreg 0x2C8 1 0 7 QDMA_REG_READ_PF_VF,
     xreg 0x308 1 0 7 QDMA_REG_READ_PF_VF,
     xreg 0x30C 1 0 7 QDMA_REG_READ_PF_VF]"

definition eqdma_cpm5_config_regs_4 :: "xreg_info list" where
  "eqdma_cpm5_config_regs_4 =
    [xreg 0x314 1 0 7 QDMA_REG_READ_PF_VF,
     xreg 0x804 1 0 7 QDMA_REG_READ_PF_ONLY,
     xreg 0x824 1 0 7 QDMA_REG_READ_PF_ONLY,
     xreg 0x844 1 0 7 QDMA_REG_READ_PF_ONLY,
     xreg 0xA00 1 0 2 QDMA_REG_READ_PF_ONLY,
     xreg 0xA40 1 0 2 QDMA_REG_READ_PF_ONLY,
     xreg 0xA88 1 0 4 QDMA_REG_READ_PF_VF,
     xreg 0xA8C 1 0 4 QDMA_REG_READ_PF_VF,
     xreg 0xA90 1 0 4 QDMA_REG_READ_PF_VF,
     xreg 0xA94 1 0 4 QDMA_REG_READ_PF_VF,
     xreg 0xA98 1 0 4 QDMA_REG_READ_PF_ONLY,
     xreg 0xA9C 1 0 4 QDMA_REG_READ_PF_ONLY,
     xreg 0xAA0 1 0 4 QDMA_REG_READ_PF_ONLY,
     xreg 0xAA4 1 0 4 QDMA_REG_READ_PF_ONLY,
     xreg 0xAA8 1 0 4 QDMA_REG_READ_PF_ONLY,
     xreg 0xAAC 1 0 4 QDMA_REG_READ_PF_ONLY,
     xreg 0xAB0 1 0 4 QDMA_REG_READ_PF_ONLY,
     xreg 0xAF0 1 0 4 QDMA_REG_READ_PF_VF,
     xreg 0xAF4 1 0 4 QDMA_REG_READ_PF_VF,
     xreg 0xAF8 1 0 4 QDMA_REG_READ_PF_VF,
     xreg 0xAFC 1 0 4 QDMA_REG_READ_PF_VF,
     xreg 0xB00 1 0 4 QDMA_REG_READ_PF_VF,
     xreg 0xB04 1 0 4 QDMA_REG_READ_PF_VF,
     xreg 0xB08 1 0 4 QDMA_REG_READ_PF_ONLY,
     xreg 0xA80 1 0 4 QDMA_REG_READ_PF_VF]"

definition eqdma_cpm5_config_regs_5 :: "xreg_info list" where
  "eqdma_cpm5_config_regs_5 =
    [xreg 0xA84 1 0 4 QDMA_REG_READ_PF_VF,
     xreg 0xB0C 1 0 4 QDMA_REG_READ_PF_ONLY,
     xreg 0xB10 1 0 4 QDMA_REG_READ_PF_VF,
     xreg 0xB14 1 0 4 QDMA_REG_READ_PF_VF,
     xreg 0xB18 1 0 4 QDMA_REG_READ_PF_ONLY,
     xreg 0xB1C 1 0 4 QDMA_REG_READ_PF_ONLY,
     xreg 0xB20 1 0 4 QDMA_REG_READ_PF_ONLY,
     xreg 0xB24 1 0 4 QDMA_REG_READ_PF_ONLY,
     xreg 0xB28 1 0 4 QDMA_REG_READ_PF_ONLY,
     xreg 0xB2C 1 0 4 QDMA_REG_READ_PF_ONLY,
     xreg 0xB30 1 0 4 QDMA_REG_READ_PF_VF,
     xreg 0xB34 1 0 4 QDMA_REG_READ_PF_ONLY,
     xreg 0xB38 1 0 4 QDMA_REG_READ_PF_ONLY,
     xreg 0xB3C 1 0 4 QDMA_REG_READ_PF_ONLY,
     xreg 0xB40 1 0 4 QDMA_REG_READ_PF_ONLY,
     xreg 0xB44 1 0 4 QDMA_REG_READ_PF_ONLY,
     xreg 0xB48 1 0 4 QDMA_REG_READ_PF_ONLY,
     xreg 0xB4C 1 0 4 QDMA_REG_READ_PF_ONLY,
     xreg 0xB50 1 0 4 QDMA_REG_READ_PF_ONLY,
     xreg 0xB54 1 0 4 QDMA_REG_READ_PF_VF,
     xreg 0xB58 1 0 4 QDMA_REG_READ_PF_VF,
     xreg 0xB5C 1 0 4 QDMA_REG_READ_PF_VF,
     xreg 0xB60 1 0 4 QDMA_REG_READ_PF_VF,
     xreg 0xB64 1 0 4 QDMA_REG_READ_PF_ONLY,
     xreg 0xB68 1 0 4 QDMA_REG_READ_PF_ONLY]"

definition eqdma_cpm5_config_regs_6 :: "xreg_info list" where
  "eqdma_cpm5_config_regs_6 =
    [xreg 0xB6C 1 0 4 QDMA_REG_READ_PF_ONLY,
     xreg 0xB70 1 0 4 QDMA_REG_READ_PF_ONLY,
     xreg 0xB74 1 0 4 QDMA_REG_READ_PF_VF,
     xreg 0xB78 1 0 4 QDMA_REG_READ_PF_VF,
     xreg 0xB7C 1 0 4 QDMA_REG_READ_PF_ONLY,
     xreg 0xB80 1 0 4 QDMA_REG_READ_PF_ONLY,
     xreg 0xB84 1 0 4 QDMA_REG_READ_PF_ONLY,
     xreg 0xB88 1 0 4 QDMA_REG_READ_PF_ONLY,
     xreg 0xB8C 1 0 4 QDMA_REG_READ_PF_ONLY,
     xreg 0xB90 1 0 4 QDMA_REG_READ_PF_ONLY,
     xreg 0xB94 1 0 4 QDMA_REG_READ_PF_ONLY,
     xreg 0xB98 1 0 4 QDMA_REG_READ_PF_ONLY,
     xreg 0xB9C 1 0 4 QDMA_REG_READ_PF_ONLY,
     xreg 0xBA0 1 0 4 QDMA_REG_READ_PF_ONLY,
     xreg 0xBA4 1 0 4 QDMA_REG_READ_PF_ONLY,
     xreg 0xBA8 1 0 4 QDMA_REG_READ_PF_ONLY,
     xreg 0xBAC 1 0 4 QDMA_REG_READ_PF_ONLY,
     xreg 0xBB0 1 0 4 QDMA_REG_READ_PF_ONLY,
     xreg 0xBB4 1 0 4 QDMA_REG_READ_PF_ONLY,
     xreg 0xBB8 1 0 4 QDMA_REG_READ_PF_ONLY,
     xreg 0xBBC 1 0 4 QDMA_REG_READ_PF_ONLY,
     xreg 0xBC0 1 0 4 QDMA_REG_READ_PF_ONLY,
     xreg 0xBC4 1 0 4 QDMA_REG_READ_PF_ONLY,
     xreg 0xBC8 1 0 4 QDMA_REG_READ_PF_ONLY,
     xreg 0xBCC 1 0 4 QDMA_REG_READ_PF_ONLY]"

definition eqdma_cpm5_config_regs_7 :: "xreg_info list" where
  "eqdma_cpm5_config_regs_7 =
    [xreg 0xBD0 1 0 4 QDMA_REG_READ_PF_ONLY,
     xreg 0xBD4 1 0 4 QDMA_REG_READ_PF_ONLY,
     xreg 0xBD8 1 0 4 QDMA_REG_READ_PF_ONLY,
     xreg 0xBDC 1 0 4 QDMA_REG_READ_PF_ONLY,
     xreg 0xBE0 1 0 4 QDMA_REG_READ_PF_ONLY,
     xreg 0xBE4 1 0 4 QDMA_REG_READ_PF_ONLY,
     xreg 0xBE8 1 0 4 QDMA_REG_READ_PF_ONLY,
     xreg 0xBEC 1 0 4 QDMA_REG_READ_PF_ONLY,
     xreg 0xBF0 1 0 4 QDMA_REG_READ_PF_ONLY,
     xreg 0xBF4 1 0 4 QDMA_REG_READ_PF_ONLY,
     xreg 0xBF8 1 0 4 QDMA_REG_READ_PF_ONLY,
     xreg 0xBFC 1 0 4 QDMA_REG_READ_PF_ONLY,
     xreg 0xE00 1 0 4 QDMA_REG_READ_PF_VF,
     xreg 0xE04 1 0 4 QDMA_REG_READ_PF_VF,
     xreg 0xE08 1 0 4 QDMA_REG_READ_PF_VF,
     xreg 0xE0C 1 0 4 QDMA_REG_READ_PF_ONLY,
     xreg 0xE10 1 0 4 QDMA_REG_READ_PF_ONLY,
     xreg 0xE14 1 0 4 QDMA_REG_READ_PF_ONLY,
     xreg 0xE18 1 0 4 QDMA_REG_READ_PF_ONLY,
     xreg 0xE1C 1 0 4 QDMA_REG_READ_PF_ONLY,
     xreg 0xE20 1 0 4 QDMA_REG_READ_PF_VF,
     xreg 0xE24 1 0 4 QDMA_REG_READ_PF_ONLY,
     xreg 0xE28 1 0 4 QDMA_REG_READ_PF_ONLY,
     xreg 0xE2C 1 0 4 QDMA_REG_READ_PF_ONLY,
     xreg 0x1004 1 0 1 QDMA_REG_READ_PF_ONLY]"

definition eqdma_cpm5_config_regs_8 :: "xreg_info list" where
  "eqdma_cpm5_config_regs_8 =
    [xreg 0x1040 1 0 1 QDMA_REG_READ_PF_ONLY,
     xreg 0x1048 1 0 1 QDMA_REG_READ_PF_ONLY,
     xreg 0x1054 1 0 1 QDMA_REG_READ_PF_ONLY,
     xreg 0x1058 1 0 1 QDMA_REG_READ_PF_ONLY,
     xreg 0x105C 1 0 1 QDMA_REG_READ_PF_ONLY,
     xreg 0x10C0 1 0 1 QDMA_REG_READ_PF_ONLY,
     xreg 0x10C4 1 0 1 QDMA_REG_READ_PF_ONLY,
     xreg 0x10C8 1 0 1 QDMA_REG_READ_PF_ONLY,
     xreg 0x10CC 1 0 1 QDMA_REG_READ_PF_ONLY,
     xreg 0x10D0 1 0 1 QDMA_REG_READ_PF_ONLY,
     xreg 0x10E8 1 0 1 QDMA_REG_READ_PF_ONLY,
     xreg 0x1204 1 0 1 QDMA_REG_READ_PF_ONLY,
     xreg 0x1240 1 0 1 QDMA_REG_READ_PF_ONLY,
     xreg 0x1248 1 0 1 QDMA_REG_READ_PF_ONLY,
     xreg 0x1254 1 0 1 QDMA_REG_READ_PF_ONLY,
     xreg 0x1258 1 0 1 QDMA_REG_READ_PF_ONLY,
     xreg 0x125C 1 0 1 QDMA_REG_READ_PF_ONLY,
     xreg 0x12C0 1 0 1 QDMA_REG_READ_PF_ONLY,
     xreg 0x12C4 1 0 1 QDMA_REG_READ_PF_ONLY,
     xreg 0x12C8 1 0 1 QDMA_REG_READ_PF_ONLY,
     xreg 0x12CC 1 0 1 QDMA_REG_READ_PF_ONLY,
     xreg 0x12D0 1 0 1 QDMA_REG_READ_PF_ONLY,
     xreg 0x12E8 1 0 1 QDMA_REG_READ_PF_ONLY,
     xreg 0x1400 1 0 4 QDMA_REG_READ_PF_ONLY,
     xreg 0x1404 1 0 4 QDMA_REG_READ_PF_ONLY]"

definition eqdma_cpm5_config_regs_9 :: "xreg_info list" where
  "eqdma_cpm5_config_regs_9 =
    [xreg 0x1408 1 0 4 QDMA_REG_READ_PF_ONLY,
     xreg 0x140C 1 0 4 QDMA_REG_READ_PF_ONLY,
     xreg 0x1500 1 0 4 QDMA_REG_READ_PF_ONLY,
     xreg 0x1800 1 0 4 QDMA_REG_READ_PF_ONLY,
     xreg 0x1804 1 0 4 QDMA_REG_READ_PF_ONLY,
     xreg 0x1808 1 0 4 QDMA_REG_READ_PF_ONLY,
     xreg 0x180C 1 0 4 QDMA_REG_READ_PF_ONLY,
     xreg 0x1810 1 0 4 QDMA_REG_READ_PF_ONLY,
     xreg 0x1814 1 0 4 QDMA_REG_READ_PF_ONLY,
     xreg 0x1818 1 0 4 QDMA_REG_READ_PF_ONLY]"

definition eqdma_cpm5_config_regs :: "xreg_info list" where
  "eqdma_cpm5_config_regs =
     eqdma_cpm5_config_regs_1 @
     eqdma_cpm5_config_regs_2 @
     eqdma_cpm5_config_regs_3 @
     eqdma_cpm5_config_regs_4 @
     eqdma_cpm5_config_regs_5 @
     eqdma_cpm5_config_regs_6 @
     eqdma_cpm5_config_regs_7 @
     eqdma_cpm5_config_regs_8 @
     eqdma_cpm5_config_regs_9"

definition qdma_cpm4_config_regs_1 :: "xreg_info list" where
  "qdma_cpm4_config_regs_1 =
    [xreg 0x0 1 0 7 QDMA_REG_READ_PF_ONLY,
     xreg 0x4 1 0 7 QDMA_REG_READ_PF_ONLY,
     xreg 0x8 1 0 7 QDMA_REG_READ_PF_ONLY,
     xreg 0xC 1 0 7 QDMA_REG_READ_PF_ONLY,
     xreg 0x10 1 0 7 QDMA_REG_READ_PF_ONLY,
     xreg 0x14 1 0 7 QDMA_REG_READ_PF_ONLY,
     xreg 0x18 1 0 7 QDMA_REG_READ_PF_ONLY,
     xreg 0x1C 1 0 7 QDMA_REG_READ_PF_ONLY,
     xreg 0x40 1 0 7 QDMA_REG_READ_PF_ONLY,
     xreg 0x44 1 0 7 QDMA_REG_READ_PF_ONLY,
     xreg 0x4C 1 0 7 QDMA_REG_READ_PF_ONLY,
     xreg 0x80 1 0 7 QDMA_REG_READ_PF_ONLY,
     xreg 0x84 1 0 7 QDMA_REG_READ_PF_ONLY,
     xreg 0x88 1 0 7 QDMA_REG_READ_PF_ONLY,
     xreg 0x8C 1 0 7 QDMA_REG_READ_PF_ONLY,
     xreg 0x90 1 0 7 QDMA_REG_READ_PF_ONLY,
     xreg 0x94 1 0 7 QDMA_REG_READ_PF_ONLY,
     xreg 0x98 1 0 7 QDMA_REG_READ_PF_ONLY,
     xreg 0x9C 1 0 7 QDMA_REG_READ_PF_ONLY,
     xreg 0xF0 1 0 7 QDMA_REG_READ_PF_ONLY,
     xreg 0xF4 1 0 7 QDMA_REG_READ_PF_ONLY,
     xreg 0xF8 1 0 7 QDMA_REG_READ_PF_ONLY,
     xreg 0xFC 1 0 7 QDMA_REG_READ_PF_ONLY,
     xreg 0x100 1 0 7 QDMA_REG_READ_PF_ONLY,
     xreg 0x104 1 0 7 QDMA_REG_READ_PF_ONLY]"

definition qdma_cpm4_config_regs_2 :: "xreg_info list" where
  "qdma_cpm4_config_regs_2 =
    [xreg 0x108 1 0 7 QDMA_REG_READ_PF_ONLY,
     xreg 0x10C 1 0 7 QDMA_REG_READ_PF_ONLY,
     xreg 0x110 1 0 7 QDMA_REG_READ_PF_ONLY,
     xreg 0x114 1 0 7 QDMA_REG_READ_PF_ONLY,
     xreg 0x118 1 0 7 QDMA_REG_READ_PF_ONLY,
     xreg 0x11C 1 0 7 QDMA_REG_READ_PF_ONLY,
     xreg 0x120 1 0 7 QDMA_REG_READ_PF_ONLY,
     xreg 0x128 1 0 7 QDMA_REG_READ_PF_ONLY,
     xreg 0x12C 1 0 7 QDMA_REG_READ_PF_ONLY,
     xreg 0x130 1 0 7 QDMA_REG_READ_PF_ONLY,
     xreg 0x134 1 0 7 QDMA_REG_READ_PF_ONLY,
     xreg 0x1B8 1 0 7 QDMA_REG_READ_PF_ONLY,
     xreg 0x1BC 1 0 7 QDMA_REG_READ_PF_ONLY,
     xreg 0x1C0 1 0 7 QDMA_REG_READ_PF_ONLY,
     xreg 0x1C4 1 0 7 QDMA_REG_READ_PF_ONLY,
     xreg 0x1C8 1 0 7 QDMA_REG_READ_PF_ONLY,
     xreg 0x1CC 1 0 7 QDMA_REG_READ_PF_ONLY,
     xreg 0x204 1 0 7 QDMA_REG_READ_PF_VF,
     xreg 0x208 1 0 7 QDMA_REG_READ_PF_VF,
     xreg 0x20C 1 0 7 QDMA_REG_READ_PF_VF,
     xreg 0x210 1 0 7 QDMA_REG_READ_PF_VF,
     xreg 0x214 1 0 7 QDMA_REG_READ_PF_VF,
     xreg 0x218 1 0 7 QDMA_REG_READ_PF_VF,
     xreg 0x21C 1 0 7 QDMA_REG_READ_PF_VF,
     xreg 0x220 1 0 7 QDMA_REG_READ_PF_VF]"

definition qdma_cpm4_config_regs_3 :: "xreg_info list" where
  "qdma_cpm4_config_regs_3 =
    [xreg 0x224 1 0 7 QDMA_REG_READ_PF_VF,
     xreg 0x228 1 0 7 QDMA_REG_READ_PF_VF,
     xreg 0x22C 1 0 7 QDMA_REG_READ_PF_VF,
     xreg 0x230 1 0 7 QDMA_REG_READ_PF_VF,
     xreg 0x234 1 0 7 QDMA_REG_READ_PF_VF,
     xreg 0x238 1 0 7 QDMA_REG_READ_PF_VF,
     xreg 0x23C 1 0 7 QDMA_REG_READ_PF_VF,
     xreg 0x240 1 0 7 QDMA_REG_READ_PF_VF,
     xreg 0x248 1 0 7 QDMA_REG_READ_PF_VF,
     xreg 0x24C 1 0 7 QDMA_REG_READ_PF_VF,
     xreg 0x250 1 0 7 QDMA_REG_READ_PF_VF,
     xreg 0x254 1 0 7 QDMA_REG_READ_PF_VF,
     xreg 0x258 1 0 7 QDMA_REG_READ_PF_VF,
     xreg 0x25C 1 0 7 QDMA_REG_READ_PF_VF,
     xreg 0x260 1 0 7 QDMA_REG_READ_PF_VF,
     xreg 0x264 1 0 7 QDMA_REG_READ_PF_VF,
     xreg 0x268 1 0 7 QDMA_REG_READ_PF_VF,
     xreg 0x26C 1 0 7 QDMA_REG_READ_PF_VF,
     xreg 0x270 1 0 7 QDMA_REG_READ_PF_VF,
     xreg 0x274 1 0 7 QDMA_REG_READ_PF_VF,
     xreg 0x400 1 0 7 QDMA_REG_READ_PF_ONLY,
     xreg 0x404 1 0 7 QDMA_REG_READ_PF_ONLY,
     xreg 0x408 1 0 7 QDMA_REG_READ_PF_ONLY,
     xreg 0x40C 1 0 7 QDMA_REG_READ_PF_ONLY,
     xreg 0x410 1 0 7 QDMA_REG_READ_PF_ONLY]"

definition qdma_cpm4_config_regs_4 :: "xreg_info list" where
  "qdma_cpm4_config_regs_4 =
    [xreg 0x414 1 0 7 QDMA_REG_READ_PF_ONLY,
     xreg 0x418 1 0 7 QDMA_REG_READ_PF_ONLY,
     xreg 0x41C 1 0 7 QDMA_REG_READ_PF_ONLY,
     xreg 0x420 1 0 7 QDMA_REG_READ_PF_ONLY,
     xreg 0x424 1 0 7 QDMA_REG_READ_PF_ONLY,
     xreg 0x428 1 0 7 QDMA_REG_READ_PF_ONLY,
     xreg 0x42C 1 0 7 QDMA_REG_READ_PF_ONLY,
     xreg 0x430 1 0 7 QDMA_REG_READ_PF_ONLY,
     xreg 0x434 1 0 7 QDMA_REG_READ_PF_ONLY,
     xreg 0x438 1 0 7 QDMA_REG_READ_PF_ONLY,
     xreg 0x43C 1 0 7 QDMA_REG_READ_PF_ONLY,
     xreg 0x440 1 0 7 QDMA_REG_READ_PF_ONLY,
     xreg 0x444 1 0 7 QDMA_REG_READ_PF_ONLY,
     xreg 0x448 1 0 7 QDMA_REG_READ_PF_ONLY,
     xreg 0x44C 1 0 7 QDMA_REG_READ_PF_ONLY,
     xreg 0x450 1 0 7 QDMA_REG_READ_PF_ONLY,
     xreg 0x454 1 0 7 QDMA_REG_READ_PF_ONLY,
     xreg 0x458 1 0 7 QDMA_REG_READ_PF_ONLY,
     xreg 0x45C 1 0 7 QDMA_REG_READ_PF_ONLY,
     xreg 0x460 1 0 7 QDMA_REG_READ_PF_ONLY,
     xreg 0x464 1 0 7 QDMA_REG_READ_PF_ONLY,
     xreg 0x468 1 0 7 QDMA_REG_READ_PF_ONLY,
     xreg 0x46C 1 0 7 QDMA_REG_READ_PF_ONLY,
     xreg 0x470 1 0 7 QDMA_REG_READ_PF_ONLY,
     xreg 0x474 1 0 7 QDMA_REG_READ_PF_ONLY]"

definition qdma_cpm4_config_regs_5 :: "xreg_info list" where
  "qdma_cpm4_config_regs_5 =
    [xreg 0x478 1 0 7 QDMA_REG_READ_PF_ONLY,
     xreg 0x47C 1 0 7 QDMA_REG_READ_PF_ONLY,
     xreg 0x480 1 0 7 QDMA_REG_READ_PF_ONLY,
     xreg 0x484 1 0 7 QDMA_REG_READ_PF_ONLY,
     xreg 0x488 1 0 7 QDMA_REG_READ_PF_ONLY,
     xreg 0x48C 1 0 7 QDMA_REG_READ_PF_ONLY,
     xreg 0x490 1 0 7 QDMA_REG_READ_PF_ONLY,
     xreg 0x494 1 0 7 QDMA_REG_READ_PF_ONLY,
     xreg 0x498 1 0 7 QDMA_REG_READ_PF_ONLY,
     xreg 0x49C 1 0 7 QDMA_REG_READ_PF_ONLY,
     xreg 0x4A0 1 0 7 QDMA_REG_READ_PF_ONLY,
     xreg 0x4A4 1 0 7 QDMA_REG_READ_PF_ONLY,
     xreg 0x4A8 1 0 7 QDMA_REG_READ_PF_ONLY,
     xreg 0x4AC 1 0 7 QDMA_REG_READ_PF_ONLY,
     xreg 0x4B0 1 0 7 QDMA_REG_READ_PF_ONLY,
     xreg 0x4B4 1 0 7 QDMA_REG_READ_PF_ONLY,
     xreg 0x4B8 1 0 7 QDMA_REG_READ_PF_ONLY,
     xreg 0x4BC 1 0 7 QDMA_REG_READ_PF_ONLY,
     xreg 0x4D0 1 0 7 QDMA_REG_READ_PF_ONLY,
     xreg 0x4D4 1 0 7 QDMA_REG_READ_PF_ONLY,
     xreg 0x4D8 1 0 7 QDMA_REG_READ_PF_ONLY,
     xreg 0x4DC 1 0 7 QDMA_REG_READ_PF_ONLY,
     xreg 0x4E0 1 0 7 QDMA_REG_READ_PF_ONLY,
     xreg 0x4E4 1 0 7 QDMA_REG_READ_PF_ONLY,
     xreg 0x4E8 1 0 7 QDMA_REG_READ_PF_ONLY]"

definition qdma_cpm4_config_regs_6 :: "xreg_info list" where
  "qdma_cpm4_config_regs_6 =
    [xreg 0x4EC 1 0 7 QDMA_REG_READ_PF_ONLY,
     xreg 0x4F0 1 0 7 QDMA_REG_READ_PF_ONLY,
     xreg 0x4F4 1 0 7 QDMA_REG_READ_PF_ONLY,
     xreg 0x4F8 1 0 7 QDMA_REG_READ_PF_ONLY,
     xreg 0x4FC 1 0 7 QDMA_REG_READ_PF_ONLY,
     xreg 0x500 1 0 7 QDMA_REG_READ_PF_ONLY,
     xreg 0x504 1 0 7 QDMA_REG_READ_PF_ONLY,
     xreg 0x508 1 0 7 QDMA_REG_READ_PF_ONLY,
     xreg 0x50C 1 0 7 QDMA_REG_READ_PF_ONLY,
     xreg 0x510 1 0 7 QDMA_REG_READ_PF_ONLY,
     xreg 0x514 1 0 7 QDMA_REG_READ_PF_ONLY,
     xreg 0x518 1 0 7 QDMA_REG_READ_PF_ONLY,
     xreg 0x51C 1 0 7 QDMA_REG_READ_PF_ONLY,
     xreg 0x520 1 0 7 QDMA_REG_READ_PF_ONLY,
     xreg 0x524 1 0 7 QDMA_REG_READ_PF_ONLY,
     xreg 0x528 1 0 7 QDMA_REG_READ_PF_ONLY,
     xreg 0x52C 1 0 7 QDMA_REG_READ_PF_ONLY,
     xreg 0x530 1 0 7 QDMA_REG_READ_PF_ONLY,
     xreg 0x534 1 0 7 QDMA_REG_READ_PF_ONLY,
     xreg 0x538 1 0 7 QDMA_REG_READ_PF_ONLY,
     xreg 0x53C 1 0 7 QDMA_REG_READ_PF_ONLY,
     xreg 0x540 1 0 7 QDMA_REG_READ_PF_ONLY,
     xreg 0x544 1 0 7 QDMA_REG_READ_PF_ONLY,
     xreg 0x548 1 0 7 QDMA_REG_READ_PF_ONLY,
     xreg 0x54C 1 0 7 QDMA_REG_READ_PF_ONLY]"

definition qdma_cpm4_config_regs_7 :: "xreg_info list" where
  "qdma_cpm4_config_regs_7 =
    [xreg 0x550 1 0 7 QDMA_REG_READ_PF_ONLY,
     xreg 0x554 1 0 7 QDMA_REG_READ_PF_ONLY,
     xreg 0x558 1 0 7 QDMA_REG_READ_PF_ONLY,
     xreg 0x55C 1 0 7 QDMA_REG_READ_PF_ONLY,
     xreg 0x560 1 0 7 QDMA_REG_READ_PF_ONLY,
     xreg 0x564 1 0 7 QDMA_REG_READ_PF_ONLY,
     xreg 0x568 1 0 7 QDMA_REG_READ_PF_ONLY,
     xreg 0x56C 1 0 7 QDMA_REG_READ_PF_ONLY,
     xreg 0x570 1 0 7 QDMA_REG_READ_PF_ONLY,
     xreg 0x574 1 0 7 QDMA_REG_READ_PF_ONLY,
     xreg 0x578 1 0 7 QDMA_REG_READ_PF_ONLY,
     xreg 0x57C 1 0 7 QDMA_REG_READ_PF_ONLY,
     xreg 0x580 1 0 7 QDMA_REG_READ_PF_ONLY,
     xreg 0x584 1 0 7 QDMA_REG_READ_PF_ONLY,
     xreg 0x588 1 0 7 QDMA_REG_READ_PF_ONLY,
     xreg 0x58C 1 0 7 QDMA_REG_READ_PF_ONLY,
     xreg 0x590 1 0 7 QDMA_REG_READ_PF_ONLY,
     xreg 0x594 1 0 7 QDMA_REG_READ_PF_ONLY,
     xreg 0x598 1 0 7 QDMA_REG_READ_PF_ONLY,
     xreg 0x59C 1 0 7 QDMA_REG_READ_PF_ONLY,
     xreg 0x5A0 1 0 7 QDMA_REG_READ_PF_ONLY,
     xreg 0x5A4 1 0 7 QDMA_REG_READ_PF_ONLY,
     xreg 0x5A8 1 0 7 QDMA_REG_READ_PF_ONLY,
     xreg 0x5AC 1 0 7 QDMA_REG_READ_PF_ONLY,
     xreg 0x5B0 1 0 7 QDMA_REG_READ_PF_ONLY]"

definition qdma_cpm4_config_regs_8 :: "xreg_info list" where
  "qdma_cpm4_config_regs_8 =
    [xreg 0x5B4 1 0 7 QDMA_REG_READ_PF_ONLY,
     xreg 0x5B8 1 0 7 QDMA_REG_READ_PF_ONLY,
     xreg 0x5BC 1 0 7 QDMA_REG_READ_PF_ONLY,
     xreg 0x5C0 1 0 7 QDMA_REG_READ_PF_ONLY,
     xreg 0x5C4 1 0 7 QDMA_REG_READ_PF_ONLY,
     xreg 0x5C8 1 0 7 QDMA_REG_READ_PF_ONLY,
     xreg 0x5CC 1 0 7 QDMA_REG_READ_PF_ONLY,
     xreg 0x5D0 1 0 7 QDMA_REG_READ_PF_ONLY,
     xreg 0x5D4 1 0 7 QDMA_REG_READ_PF_ONLY,
     xreg 0x5D8 1 0 7 QDMA_REG_READ_PF_ONLY,
     xreg 0x5DC 1 0 7 QDMA_REG_READ_PF_ONLY,
     xreg 0x5E0 1 0 7 QDMA_REG_READ_PF_ONLY,
     xreg 0x5E4 1 0 7 QDMA_REG_READ_PF_ONLY,
     xreg 0x5E8 1 0 7 QDMA_REG_READ_PF_ONLY,
     xreg 0x5EC 1 0 7 QDMA_REG_READ_PF_ONLY,
     xreg 0x5F0 1 0 7 QDMA_REG_READ_PF_ONLY,
     xreg 0x5F4 1 0 7 QDMA_REG_READ_PF_ONLY,
     xreg 0x5F8 1 0 7 QDMA_REG_READ_PF_ONLY,
     xreg 0x5FC 1 0 7 QDMA_REG_READ_PF_ONLY,
     xreg 0x600 1 0 7 QDMA_REG_READ_PF_ONLY,
     xreg 0x604 1 0 7 QDMA_REG_READ_PF_ONLY,
     xreg 0x608 1 0 7 QDMA_REG_READ_PF_ONLY,
     xreg 0x60C 1 0 7 QDMA_REG_READ_PF_ONLY,
     xreg 0x610 1 0 7 QDMA_REG_READ_PF_ONLY,
     xreg 0x614 1 0 7 QDMA_REG_READ_PF_ONLY]"

definition qdma_cpm4_config_regs_9 :: "xreg_info list" where
  "qdma_cpm4_config_regs_9 =
    [xreg 0x618 1 0 7 QDMA_REG_READ_PF_ONLY,
     xreg 0x61C 1 0 7 QDMA_REG_READ_PF_ONLY,
     xreg 0x620 1 0 7 QDMA_REG_READ_PF_ONLY,
     xreg 0x624 1 0 7 QDMA_REG_READ_PF_ONLY,
     xreg 0x628 1 0 7 QDMA_REG_READ_PF_ONLY,
     xreg 0x62C 1 0 7 QDMA_REG_READ_PF_ONLY,
     xreg 0x630 1 0 7 QDMA_REG_READ_PF_ONLY,
     xreg 0x634 1 0 7 QDMA_REG_READ_PF_ONLY,
     xreg 0x638 1 0 7 QDMA_REG_READ_PF_ONLY,
     xreg 0x63C 1 0 7 QDMA_REG_READ_PF_ONLY,
     xreg 0x640 1 0 7 QDMA_REG_READ_PF_ONLY,
     xreg 0x644 1 0 7 QDMA_REG_READ_PF_ONLY,
     xreg 0x648 1 0 7 QDMA_REG_READ_PF_ONLY,
     xreg 0x64C 1 0 7 QDMA_REG_READ_PF_ONLY,
     xreg 0x650 1 0 7 QDMA_REG_READ_PF_ONLY,
     xreg 0x654 1 0 7 QDMA_REG_READ_PF_ONLY,
     xreg 0x658 1 0 7 QDMA_REG_READ_PF_ONLY,
     xreg 0x65C 1 0 7 QDMA_REG_READ_PF_ONLY,
     xreg 0x660 1 0 7 QDMA_REG_READ_PF_ONLY,
     xreg 0x664 1 0 7 QDMA_REG_READ_PF_ONLY,
     xreg 0x668 1 0 7 QDMA_REG_READ_PF_ONLY,
     xreg 0x66C 1 0 7 QDMA_REG_READ_PF_ONLY,
     xreg 0x670 1 0 7 QDMA_REG_READ_PF_ONLY,
     xreg 0x674 1 0 7 QDMA_REG_READ_PF_ONLY,
     xreg 0x678 1 0 7 QDMA_REG_READ_PF_ONLY]"

definition qdma_cpm4_config_regs_10 :: "xreg_info list" where
  "qdma_cpm4_config_regs_10 =
    [xreg 0x67C 1 0 7 QDMA_REG_READ_PF_ONLY,
     xreg 0x680 1 0 7 QDMA_REG_READ_PF_ONLY,
     xreg 0x684 1 0 7 QDMA_REG_READ_PF_ONLY,
     xreg 0x688 1 0 7 QDMA_REG_READ_PF_ONLY,
     xreg 0x68C 1 0 7 QDMA_REG_READ_PF_ONLY,
     xreg 0x690 1 0 7 QDMA_REG_READ_PF_ONLY,
     xreg 0x694 1 0 7 QDMA_REG_READ_PF_ONLY,
     xreg 0x698 1 0 7 QDMA_REG_READ_PF_ONLY,
     xreg 0x69C 1 0 7 QDMA_REG_READ_PF_ONLY,
     xreg 0x6A0 1 0 7 QDMA_REG_READ_PF_ONLY,
     xreg 0x6A4 1 0 7 QDMA_REG_READ_PF_ONLY,
     xreg 0x6A8 1 0 7 QDMA_REG_READ_PF_ONLY,
     xreg 0x6AC 1 0 7 QDMA_REG_READ_PF_ONLY,
     xreg 0x6B0 1 0 7 QDMA_REG_READ_PF_ONLY,
     xreg 0x6B4 1 0 7 QDMA_REG_READ_PF_ONLY,
     xreg 0x6B8 1 0 7 QDMA_REG_READ_PF_ONLY,
     xreg 0x6BC 1 0 7 QDMA_REG_READ_PF_ONLY,
     xreg 0x6D0 1 0 7 QDMA_REG_READ_PF_ONLY,
     xreg 0x6D4 1 0 7 QDMA_REG_READ_PF_ONLY,
     xreg 0x6D8 1 0 7 QDMA_REG_READ_PF_ONLY,
     xreg 0x6DC 1 0 7 QDMA_REG_READ_PF_ONLY,
     xreg 0x6E0 1 0 7 QDMA_REG_READ_PF_ONLY,
     xreg 0x6E4 1 0 7 QDMA_REG_READ_PF_ONLY,
     xreg 0x6E8 1 0 7 QDMA_REG_READ_PF_ONLY,
     xreg 0x6EC 1 0 7 QDMA_REG_READ_PF_ONLY]"

definition qdma_cpm4_config_regs_11 :: "xreg_info list" where
  "qdma_cpm4_config_regs_11 =
    [xreg 0x6F0 1 0 7 QDMA_REG_READ_PF_ONLY,
     xreg 0x6F4 1 0 7 QDMA_REG_READ_PF_ONLY,
     xreg 0x6F8 1 0 7 QDMA_REG_READ_PF_ONLY,
     xreg 0x6FC 1 0 7 QDMA_REG_READ_PF_ONLY,
     xreg 0x700 1 0 7 QDMA_REG_READ_PF_ONLY,
     xreg 0x704 1 0 7 QDMA_REG_READ_PF_ONLY,
     xreg 0x708 1 0 7 QDMA_REG_READ_PF_ONLY,
     xreg 0x70C 1 0 7 QDMA_REG_READ_PF_ONLY,
     xreg 0x710 1 0 7 QDMA_REG_READ_PF_ONLY,
     xreg 0x714 1 0 7 QDMA_REG_READ_PF_ONLY,
     xreg 0x718 1 0 7 QDMA_REG_READ_PF_ONLY,
     xreg 0x71C 1 0 7 QDMA_REG_READ_PF_ONLY,
     xreg 0x720 1 0 7 QDMA_REG_READ_PF_ONLY,
     xreg 0x734 1 0 7 QDMA_REG_READ_PF_ONLY,
     xreg 0x748 1 0 7 QDMA_REG_READ_PF_ONLY,
     xreg 0x74C 1 0 7 QDMA_REG_READ_PF_ONLY,
     xreg 0x750 1 0 7 QDMA_REG_READ_PF_ONLY,
     xreg 0x754 1 0 7 QDMA_REG_READ_PF_ONLY,
     xreg 0x758 1 0 7 QDMA_REG_READ_PF_ONLY,
     xreg 0x75C 1 0 7 QDMA_REG_READ_PF_ONLY,
     xreg 0x760 1 0 7 QDMA_REG_READ_PF_ONLY,
     xreg 0x764 1 0 7 QDMA_REG_READ_PF_ONLY,
     xreg 0x768 1 0 7 QDMA_REG_READ_PF_ONLY,
     xreg 0x76C 1 0 7 QDMA_REG_READ_PF_ONLY,
     xreg 0x770 1 0 7 QDMA_REG_READ_PF_ONLY]"

definition qdma_cpm4_config_regs_12 :: "xreg_info list" where
  "qdma_cpm4_config_regs_12 =
    [xreg 0x774 1 0 7 QDMA_REG_READ_PF_ONLY,
     xreg 0x778 1 0 7 QDMA_REG_READ_PF_ONLY,
     xreg 0x77C 1 0 7 QDMA_REG_READ_PF_ONLY,
     xreg 0x780 1 0 7 QDMA_REG_READ_PF_ONLY,
     xreg 0x784 1 0 7 QDMA_REG_READ_PF_ONLY,
     xreg 0x788 1 0 7 QDMA_REG_READ_PF_ONLY,
     xreg 0x78C 1 0 7 QDMA_REG_READ_PF_ONLY,
     xreg 0x790 1 0 7 QDMA_REG_READ_PF_ONLY,
     xreg 0x794 1 0 7 QDMA_REG_READ_PF_ONLY,
     xreg 0x798 1 0 7 QDMA_REG_READ_PF_ONLY,
     xreg 0x79C 1 0 7 QDMA_REG_READ_PF_ONLY,
     xreg 0x7A0 1 0 7 QDMA_REG_READ_PF_ONLY,
     xreg 0x7A4 1 0 7 QDMA_REG_READ_PF_ONLY,
     xreg 0x7A8 1 0 7 QDMA_REG_READ_PF_ONLY,
     xreg 0x7AC 1 0 7 QDMA_REG_READ_PF_ONLY,
     xreg 0x7B0 1 0 7 QDMA_REG_READ_PF_ONLY,
     xreg 0x7B4 1 0 7 QDMA_REG_READ_PF_ONLY,
     xreg 0x7B8 1 0 7 QDMA_REG_READ_PF_ONLY,
     xreg 0x7BC 1 0 7 QDMA_REG_READ_PF_ONLY,
     xreg 0x7C0 1 0 7 QDMA_REG_READ_PF_ONLY,
     xreg 0x7C4 1 0 7 QDMA_REG_READ_PF_ONLY,
     xreg 0x7C8 1 0 7 QDMA_REG_READ_PF_ONLY,
     xreg 0x7CC 1 0 7 QDMA_REG_READ_PF_ONLY,
     xreg 0x7D0 1 0 7 QDMA_REG_READ_PF_ONLY,
     xreg 0x7D4 1 0 7 QDMA_REG_READ_PF_ONLY]"

definition qdma_cpm4_config_regs_13 :: "xreg_info list" where
  "qdma_cpm4_config_regs_13 =
    [xreg 0x7D8 1 0 7 QDMA_REG_READ_PF_ONLY,
     xreg 0x7DC 1 0 7 QDMA_REG_READ_PF_ONLY,
     xreg 0x7E0 1 0 7 QDMA_REG_READ_PF_ONLY,
     xreg 0x7E4 1 0 7 QDMA_REG_READ_PF_ONLY,
     xreg 0x7E8 1 0 7 QDMA_REG_READ_PF_ONLY,
     xreg 0x7EC 1 0 7 QDMA_REG_READ_PF_ONLY,
     xreg 0x7F0 1 0 7 QDMA_REG_READ_PF_ONLY,
     xreg 0x7F4 1 0 7 QDMA_REG_READ_PF_ONLY,
     xreg 0x7F8 1 0 7 QDMA_REG_READ_PF_ONLY,
     xreg 0x7FC 1 0 7 QDMA_REG_READ_PF_ONLY,
     xreg 0x804 1 0 7 QDMA_REG_READ_PF_ONLY,
     xreg 0x808 1 0 7 QDMA_REG_READ_PF_ONLY,
     xreg 0x80C 1 0 7 QDMA_REG_READ_PF_ONLY,
     xreg 0x810 1 0 7 QDMA_REG_READ_PF_ONLY,
     xreg 0x814 1 0 7 QDMA_REG_READ_PF_ONLY,
     xreg 0x818 1 0 7 QDMA_REG_READ_PF_ONLY,
     xreg 0x81C 1 0 7 QDMA_REG_READ_PF_ONLY,
     xreg 0x820 1 0 7 QDMA_REG_READ_PF_ONLY,
     xreg 0x824 1 0 7 QDMA_REG_READ_PF_ONLY,
     xreg 0xA00 1 0 2 QDMA_REG_READ_PF_ONLY,
     xreg 0xA04 1 0 2 QDMA_REG_READ_PF_ONLY,
     xreg 0xA08 1 0 2 QDMA_REG_READ_PF_ONLY,
     xreg 0xA0C 1 0 2 QDMA_REG_READ_PF_ONLY,
     xreg 0xA10 1 0 2 QDMA_REG_READ_PF_ONLY,
     xreg 0xA14 1 0 2 QDMA_REG_READ_PF_ONLY]"

definition qdma_cpm4_config_regs_14 :: "xreg_info list" where
  "qdma_cpm4_config_regs_14 =
    [xreg 0xA18 1 0 2 QDMA_REG_READ_PF_ONLY,
     xreg 0xA1C 1 0 2 QDMA_REG_READ_PF_ONLY,
     xreg 0xA20 1 0 2 QDMA_REG_READ_PF_ONLY,
     xreg 0xA24 1 0 2 QDMA_REG_READ_PF_ONLY,
     xreg 0xA28 1 0 2 QDMA_REG_READ_PF_ONLY,
     xreg 0xA2C 1 0 2 QDMA_REG_READ_PF_ONLY,
     xreg 0xA30 1 0 2 QDMA_REG_READ_PF_ONLY,
     xreg 0xA34 1 0 2 QDMA_REG_READ_PF_ONLY,
     xreg 0xA38 1 0 2 QDMA_REG_READ_PF_ONLY,
     xreg 0xA3C 1 0 2 QDMA_REG_READ_PF_ONLY,
     xreg 0xA40 1 0 2 QDMA_REG_READ_PF_ONLY,
     xreg 0xA44 1 0 2 QDMA_REG_READ_PF_ONLY,
     xreg 0xA48 1 0 2 QDMA_REG_READ_PF_ONLY,
     xreg 0xA4C 1 0 2 QDMA_REG_READ_PF_ONLY,
     xreg 0xA50 1 0 2 QDMA_REG_READ_PF_ONLY,
     xreg 0xA54 1 0 2 QDMA_REG_READ_PF_ONLY,
     xreg 0xA58 1 0 2 QDMA_REG_READ_PF_ONLY,
     xreg 0xA5C 1 0 2 QDMA_REG_READ_PF_ONLY,
     xreg 0xA60 1 0 2 QDMA_REG_READ_PF_ONLY,
     xreg 0xA64 1 0 2 QDMA_REG_READ_PF_ONLY,
     xreg 0xA68 1 0 2 QDMA_REG_READ_PF_ONLY,
     xreg 0xA6C 1 0 2 QDMA_REG_READ_PF_ONLY,
     xreg 0xA70 1 0 2 QDMA_REG_READ_PF_ONLY,
     xreg 0xA74 1 0 2 QDMA_REG_READ_PF_ONLY,
     xreg 0xA78 1 0 2 QDMA_REG_READ_PF_ONLY]"

definition qdma_cpm4_config_regs_15 :: "xreg_info list" where
  "qdma_cpm4_config_regs_15 =
    [xreg 0xA7C 1 0 2 QDMA_REG_READ_PF_ONLY,
     xreg 0xA80 1 0 7 QDMA_REG_READ_PF_ONLY,
     xreg 0xA84 1 0 7 QDMA_REG_READ_PF_ONLY,
     xreg 0xA88 1 0 4 QDMA_REG_READ_PF_VF,
     xreg 0xA8C 1 0 4 QDMA_REG_READ_PF_VF,
     xreg 0xA90 1 0 4 QDMA_REG_READ_PF_VF,
     xreg 0xA94 1 0 4 QDMA_REG_READ_PF_VF,
     xreg 0xA98 1 0 4 QDMA_REG_READ_PF_ONLY,
     xreg 0xA9C 1 0 4 QDMA_REG_READ_PF_ONLY,
     xreg 0xAA0 1 0 4 QDMA_REG_READ_PF_ONLY,
     xreg 0xAA4 1 0 4 QDMA_REG_READ_PF_ONLY,
     xreg 0xAA8 1 0 4 QDMA_REG_READ_PF_ONLY,
     xreg 0xAAC 1 0 4 QDMA_REG_READ_PF_ONLY,
     xreg 0xAB0 1 0 4 QDMA_REG_READ_PF_ONLY,
     xreg 0xAB4 1 0 4 QDMA_REG_READ_PF_ONLY,
     xreg 0xAB8 1 0 4 QDMA_REG_READ_PF_ONLY,
     xreg 0xABC 1 0 4 QDMA_REG_READ_PF_ONLY,
     xreg 0xAC0 1 0 4 QDMA_REG_READ_PF_ONLY,
     xreg 0xAC4 1 0 4 QDMA_REG_READ_PF_ONLY,
     xreg 0xAC8 1 0 4 QDMA_REG_READ_PF_ONLY,
     xreg 0xACC 1 0 4 QDMA_REG_READ_PF_ONLY,
     xreg 0xAD0 1 0 4 QDMA_REG_READ_PF_ONLY,
     xreg 0xAD4 1 0 4 QDMA_REG_READ_PF_ONLY,
     xreg 0xAD8 1 0 4 QDMA_REG_READ_PF_ONLY,
     xreg 0xAE0 1 0 4 QDMA_REG_READ_PF_ONLY]"

definition qdma_cpm4_config_regs_16 :: "xreg_info list" where
  "qdma_cpm4_config_regs_16 =
    [xreg 0xAE4 1 0 4 QDMA_REG_READ_PF_ONLY,
     xreg 0xAE8 1 0 4 QDMA_REG_READ_PF_ONLY,
     xreg 0xAEC 1 0 4 QDMA_REG_READ_PF_ONLY,
     xreg 0xAF0 1 0 4 QDMA_REG_READ_PF_VF,
     xreg 0xAF4 1 0 4 QDMA_REG_READ_PF_VF,
     xreg 0xAF8 1 0 4 QDMA_REG_READ_PF_VF,
     xreg 0xAFC 1 0 4 QDMA_REG_READ_PF_VF,
     xreg 0xB00 1 0 4 QDMA_REG_READ_PF_VF,
     xreg 0xB04 1 0 4 QDMA_REG_READ_PF_VF,
     xreg 0xB08 1 0 4 QDMA_REG_READ_PF_ONLY,
     xreg 0xB0C 1 0 4 QDMA_REG_READ_PF_ONLY,
     xreg 0xB10 1 0 4 QDMA_REG_READ_PF_VF,
     xreg 0xB14 1 0 4 QDMA_REG_READ_PF_VF,
     xreg 0xB18 1 0 4 QDMA_REG_READ_PF_ONLY,
     xreg 0xB1C 1 0 4 QDMA_REG_READ_PF_ONLY,
     xreg 0xB20 1 0 4 QDMA_REG_READ_PF_ONLY,
     xreg 0xB24 1 0 4 QDMA_REG_READ_PF_ONLY,
     xreg 0xB28 1 0 4 QDMA_REG_READ_PF_ONLY,
     xreg 0xB2C 1 0 4 QDMA_REG_READ_PF_ONLY,
     xreg 0xB30 1 0 4 QDMA_REG_READ_PF_VF,
     xreg 0xB34 1 0 4 QDMA_REG_READ_PF_ONLY,
     xreg 0xB38 1 0 4 QDMA_REG_READ_PF_ONLY,
     xreg 0xB3C 1 0 4 QDMA_REG_READ_PF_ONLY,
     xreg 0xB40 1 0 4 QDMA_REG_READ_PF_ONLY,
     xreg 0xB44 1 0 4 QDMA_REG_READ_PF_ONLY]"

definition qdma_cpm4_config_regs_17 :: "xreg_info list" where
  "qdma_cpm4_config_regs_17 =
    [xreg 0xB48 1 0 4 QDMA_REG_READ_PF_ONLY,
     xreg 0xB4C 1 0 4 QDMA_REG_READ_PF_ONLY,
     xreg 0xB50 1 0 4 QDMA_REG_READ_PF_ONLY,
     xreg 0xB54 1 0 4 QDMA_REG_READ_PF_VF,
     xreg 0xB58 1 0 4 QDMA_REG_READ_PF_VF,
     xreg 0xB5C 1 0 4 QDMA_REG_READ_PF_VF,
     xreg 0xB60 1 0 4 QDMA_REG_READ_PF_VF,
     xreg 0xB64 1 0 4 QDMA_REG_READ_PF_ONLY,
     xreg 0xB68 1 0 4 QDMA_REG_READ_PF_ONLY,
     xreg 0xB6C 1 0 4 QDMA_REG_READ_PF_ONLY,
     xreg 0xB70 1 0 4 QDMA_REG_READ_PF_ONLY,
     xreg 0xB74 1 0 4 QDMA_REG_READ_PF_VF,
     xreg 0xB78 1 0 4 QDMA_REG_READ_PF_VF,
     xreg 0xB7C 1 0 4 QDMA_REG_READ_PF_ONLY,
     xreg 0xB80 1 0 4 QDMA_REG_READ_PF_ONLY,
     xreg 0xB84 1 0 4 QDMA_REG_READ_PF_ONLY,
     xreg 0xB88 1 0 4 QDMA_REG_READ_PF_ONLY,
     xreg 0xB8C 1 0 4 QDMA_REG_READ_PF_ONLY,
     xreg 0xB90 1 0 4 QDMA_REG_READ_PF_ONLY,
     xreg 0xB94 1 0 4 QDMA_REG_READ_PF_ONLY,
     xreg 0xB98 1 0 4 QDMA_REG_READ_PF_ONLY,
     xreg 0xB9C 1 0 4 QDMA_REG_READ_PF_ONLY,
     xreg 0xBA0 1 0 4 QDMA_REG_READ_PF_ONLY,
     xreg 0xBA4 1 0 4 QDMA_REG_READ_PF_ONLY,
     xreg 0xBA8 1 0 4 QDMA_REG_READ_PF_ONLY]"

definition qdma_cpm4_config_regs_18 :: "xreg_info list" where
  "qdma_cpm4_config_regs_18 =
    [xreg 0xE00 1 0 4 QDMA_REG_READ_PF_VF,
     xreg 0xE04 1 0 4 QDMA_REG_READ_PF_VF,
     xreg 0xE08 1 0 4 QDMA_REG_READ_PF_VF,
     xreg 0xE0C 1 0 4 QDMA_REG_READ_PF_ONLY,
     xreg 0xE10 1 0 4 QDMA_REG_READ_PF_ONLY,
     xreg 0xE14 1 0 4 QDMA_REG_READ_PF_ONLY,
     xreg 0xE18 1 0 4 QDMA_REG_READ_PF_ONLY,
     xreg 0xE1C 1 0 4 QDMA_REG_READ_PF_ONLY,
     xreg 0xE20 1 0 4 QDMA_REG_READ_PF_VF,
     xreg 0x1004 1 0 1 QDMA_REG_READ_PF_ONLY,
     xreg 0x1008 1 0 1 QDMA_REG_READ_PF_ONLY,
     xreg 0x1040 1 0 1 QDMA_REG_READ_PF_ONLY,
     xreg 0x1048 1 0 1 QDMA_REG_READ_PF_ONLY,
     xreg 0x1054 1 0 1 QDMA_REG_READ_PF_ONLY,
     xreg 0x1058 1 0 1 QDMA_REG_READ_PF_ONLY,
     xreg 0x105C 1 0 1 QDMA_REG_READ_PF_ONLY,
     xreg 0x10C0 1 0 1 QDMA_REG_READ_PF_ONLY,
     xreg 0x10C4 1 0 1 QDMA_REG_READ_PF_ONLY,
     xreg 0x10C8 1 0 1 QDMA_REG_READ_PF_ONLY,
     xreg 0x10CC 1 0 1 QDMA_REG_READ_PF_ONLY,
     xreg 0x10D0 1 0 1 QDMA_REG_READ_PF_ONLY,
     xreg 0x10E8 1 0 1 QDMA_REG_READ_PF_ONLY,
     xreg 0x1204 1 0 1 QDMA_REG_READ_PF_ONLY,
     xreg 0x1208 1 0 1 QDMA_REG_READ_PF_ONLY,
     xreg 0x120C 1 0 1 QDMA_REG_READ_PF_ONLY]"

definition qdma_cpm4_config_regs_19 :: "xreg_info list" where
  "qdma_cpm4_config_regs_19 =
    [xreg 0x1240 1 0 1 QDMA_REG_READ_PF_ONLY,
     xreg 0x1248 1 0 1 QDMA_REG_READ_PF_ONLY,
     xreg 0x1254 1 0 1 QDMA_REG_READ_PF_ONLY,
     xreg 0x1258 1 0 1 QDMA_REG_READ_PF_ONLY,
     xreg 0x125C 1 0 1 QDMA_REG_READ_PF_ONLY,
     xreg 0x12C0 1 0 1 QDMA_REG_READ_PF_ONLY,
     xreg 0x12C4 1 0 1 QDMA_REG_READ_PF_ONLY,
     xreg 0x12C8 1 0 1 QDMA_REG_READ_PF_ONLY,
     xreg 0x12CC 1 0 1 QDMA_REG_READ_PF_ONLY,
     xreg 0x12D0 1 0 1 QDMA_REG_READ_PF_ONLY,
     xreg 0x12E8 1 0 1 QDMA_REG_READ_PF_ONLY,
     xreg 0x2400 1 0 8 QDMA_REG_READ_PF_ONLY,
     xreg 0x2404 1 0 8 QDMA_REG_READ_PF_ONLY,
     xreg 0x2408 1 0 8 QDMA_REG_READ_PF_ONLY,
     xreg 0x240C 1 0 8 QDMA_REG_READ_PF_ONLY,
     xreg 0x2410 1 0 8 QDMA_REG_READ_PF_ONLY]"

definition qdma_cpm4_config_regs :: "xreg_info list" where
  "qdma_cpm4_config_regs =
     qdma_cpm4_config_regs_1 @
     qdma_cpm4_config_regs_2 @
     qdma_cpm4_config_regs_3 @
     qdma_cpm4_config_regs_4 @
     qdma_cpm4_config_regs_5 @
     qdma_cpm4_config_regs_6 @
     qdma_cpm4_config_regs_7 @
     qdma_cpm4_config_regs_8 @
     qdma_cpm4_config_regs_9 @
     qdma_cpm4_config_regs_10 @
     qdma_cpm4_config_regs_11 @
     qdma_cpm4_config_regs_12 @
     qdma_cpm4_config_regs_13 @
     qdma_cpm4_config_regs_14 @
     qdma_cpm4_config_regs_15 @
     qdma_cpm4_config_regs_16 @
     qdma_cpm4_config_regs_17 @
     qdma_cpm4_config_regs_18 @
     qdma_cpm4_config_regs_19"
section \<open>Reading a group\<close>

definition QDMA_MAX_REGISTER_DUMP :: nat where
  "QDMA_MAX_REGISTER_DUMP = 14"

definition GET_CAPABILITY_MASK :: "qdma_dev_attributes \<Rightarrow> u8" where
  "GET_CAPABILITY_MASK cap =
     ucast (da_mm_en cap) OR push_bit 1 (ucast (da_mm_cmpt_en cap OR da_st_en cap)) OR
     push_bit 2 (ucast (da_st_en cap)) OR push_bit 3 (ucast (da_mailbox_en cap))"

text \<open>The search stops before the last entry of the table.\<close>

fun find_entry :: "u32 \<Rightarrow> nat \<Rightarrow> xreg_info list \<Rightarrow> nat option" where
  "find_entry addr i [] = None"
| "find_entry addr i [e] = None"
| "find_entry addr i (e # e' # es) =
     (if xr_addr e = addr then Some i else find_entry addr (Suc i) (e' # es))"

definition get_reg_entry :: "xreg_info list \<Rightarrow> u32 \<Rightarrow> nat option" where
  "get_reg_entry config_regs addr = find_entry addr 0 config_regs"

definition vf_may_read :: "bool \<Rightarrow> qdma_dev_attributes \<Rightarrow> xreg_info \<Rightarrow> bool" where
  "vf_may_read check_debug cap e \<longleftrightarrow>
     GET_CAPABILITY_MASK cap AND xr_mode e \<noteq> 0 \<and> xr_read_type e \<noteq> QDMA_REG_READ_PF_ONLY \<and>
     \<not> (check_debug \<and> da_debug_mode cap = 0 \<and> xr_is_debug_reg e = 1)"

definition read_entry :: "'d mmio \<Rightarrow> xreg_info \<Rightarrow> (u32 \<times> u32) list \<times> 'd xdev \<Rightarrow> (u32 \<times> u32) list \<times> 'd xdev" where
  "read_entry io e =
     fold (\<lambda>j (regs, d).
         if length regs < QDMA_MAX_REGISTER_DUMP
         then let addr = xr_addr e + of_nat j * 4; (v, d) = qdma_reg_read io d addr
              in (regs @ [(addr, v)], d)
         else (regs, d))
       [0..<unat (xr_repeat e)]"

definition read_entries ::
  "'d mmio \<Rightarrow> bool \<Rightarrow> qdma_dev_attributes \<Rightarrow> xreg_info list \<Rightarrow> 'd xdev \<Rightarrow> (u32 \<times> u32) list \<times> 'd xdev" where
  "read_entries io check_debug cap entries d =
     fold (\<lambda>e (regs, d).
         if length regs < QDMA_MAX_REGISTER_DUMP \<and> vf_may_read check_debug cap e
         then read_entry io e (regs, d) else (regs, d))
       entries ([], d)"

text \<open>
  The groups are the values 0 to 3 of enum qdma_reg_read_groups. The result: the status, the
  values written through total_regs and reg_list (the arguments on an error), the device. The
  argument entries selects the part of the table that the loop of a variant walks over, from the
  table and the index that the search found.
\<close>

definition read_reg_list ::
  "(u32 \<times> u32 \<times> u32 \<times> u32 \<Rightarrow> qdma_dev_attributes) \<Rightarrow> bool \<Rightarrow> (nat \<Rightarrow> xreg_info list \<Rightarrow> xreg_info list) \<Rightarrow>
   u32 list \<Rightarrow> xreg_info list \<Rightarrow> 'd mmio \<Rightarrow> 'd xdev option \<Rightarrow> u8 \<Rightarrow> u16 \<Rightarrow> u16 \<Rightarrow> (u32 \<times> u32) list option \<Rightarrow>
   int \<times> u16 \<times> (u32 \<times> u32) list option \<times> 'd xdev option" where
  "read_reg_list attributes check_debug entries groups config_regs io dev is_vf reg_rd_group total_regs reg_list =
     (if is_vf = 0 then (neg_err QDMA_ERR_HWACC_FEATURE_NOT_SUPPORTED, total_regs, reg_list, dev)
      else case (dev, reg_list) of
        (Some d, Some old) \<Rightarrow>
          let (rv, dev_cap, dev) = get_attributes attributes io (Some d) (Some da_zeroed) in
          if unat reg_rd_group \<ge> length groups
          then (neg_err QDMA_ERR_INV_PARAM, total_regs, reg_list, dev)
          else (case get_reg_entry config_regs (groups ! unat reg_rd_group) of
              None \<Rightarrow> (neg_err QDMA_ERR_INV_PARAM, total_regs, reg_list, dev)
            | Some reg_index \<Rightarrow>
                let (regs, d) = read_entries io check_debug (the dev_cap)
                      (entries reg_index config_regs) (the dev)
                in (err_code QDMA_SUCCESS, of_nat (length regs),
                    Some (regs @ drop (length regs) old), Some d))
      | _ \<Rightarrow> (neg_err QDMA_ERR_INV_PARAM, total_regs, reg_list, dev))"

definition from_index :: "nat \<Rightarrow> xreg_info list \<Rightarrow> xreg_info list" where
  "from_index i config_regs = drop i (butlast config_regs)"

text \<open>CPM4 shortens the walk by the index but starts it at the first entry of the table.\<close>

definition from_start :: "nat \<Rightarrow> xreg_info list \<Rightarrow> xreg_info list" where
  "from_start i config_regs = take (length config_regs - 1 - i) config_regs"

definition qdma_read_reg_list where
  "qdma_read_reg_list =
     read_reg_list qdma_attributes False from_index [0x000, 0x400, 0xB00, 0x1014] qdma_config_regs"

definition eqdma_read_reg_list where
  "eqdma_read_reg_list =
     read_reg_list eqdma_attributes True from_index [0x000, 0x804, 0xB00, 0x5014] eqdma_config_regs"

definition eqdma_cpm5_read_reg_list where
  "eqdma_cpm5_read_reg_list =
     read_reg_list eqdma_cpm5_attributes True from_index [0x000, 0x804, 0xB00, 0x5014] eqdma_cpm5_config_regs"

definition qdma_cpm4_read_reg_list where
  "qdma_cpm4_read_reg_list =
     read_reg_list qdma_cpm4_attributes False from_start [0x000, 0x400, 0xB00, 0x1014] qdma_cpm4_config_regs"

section \<open>What a group read returns\<close>

text \<open>The addresses of a walk, as one list: the first fourteen of the readable entries.\<close>

definition entry_addresses :: "xreg_info \<Rightarrow> u32 list" where
  "entry_addresses e = map (\<lambda>j. xr_addr e + of_nat j * 4) [0..<unat (xr_repeat e)]"

definition vf_addresses :: "bool \<Rightarrow> qdma_dev_attributes \<Rightarrow> xreg_info list \<Rightarrow> u32 list" where
  "vf_addresses check_debug cap entries =
     take QDMA_MAX_REGISTER_DUMP (concat (map entry_addresses (filter (vf_may_read check_debug cap) entries)))"

lemma fold_read:
  "map fst (fst (fold (\<lambda>a (regs, d). if length regs < k
         then let (v, d) = qdma_reg_read io d a in (regs @ [(a, v)], d) else (regs, d)) as (regs, d))) =
     map fst regs @ take (k - length regs) as"
proof (induction "as" arbitrary: regs d)
  case (Cons a "as")
  obtain v d' where "qdma_reg_read io d a = (v, d')" by fastforce
  then show ?case using Cons by (cases "length regs < k") (simp_all flip: Suc_diff_Suc)
qed simp

lemma read_entry_fold:
  "read_entry io e = fold (\<lambda>a (regs, d). if length regs < QDMA_MAX_REGISTER_DUMP
     then let (v, d) = qdma_reg_read io d a in (regs @ [(a, v)], d) else (regs, d)) (entry_addresses e)"
  by (simp add: read_entry_def entry_addresses_def fold_map o_def Let_def cong: if_cong)

lemma read_entry_addresses:
  "map fst (fst (read_entry io e (regs, d))) =
     map fst regs @ take (QDMA_MAX_REGISTER_DUMP - length regs) (entry_addresses e)"
  unfolding read_entry_fold by (rule fold_read)

lemma read_entries_addresses:
  "map fst (fst (fold (\<lambda>e (regs, d). if length regs < QDMA_MAX_REGISTER_DUMP \<and> vf_may_read cb cap e
         then read_entry io e (regs, d) else (regs, d)) entries (regs, d))) =
     map fst regs @ take (QDMA_MAX_REGISTER_DUMP - length regs)
       (concat (map entry_addresses (filter (vf_may_read cb cap) entries)))"
proof (induction entries arbitrary: regs d)
  case (Cons e entries)
  show ?case
  proof (cases "length regs < QDMA_MAX_REGISTER_DUMP \<and> vf_may_read cb cap e")
    case True
    obtain regs' d' where r: "read_entry io e (regs, d) = (regs', d')" by fastforce
    then have m: "map fst regs' = map fst regs @ take (QDMA_MAX_REGISTER_DUMP - length regs) (entry_addresses e)"
      using read_entry_addresses [of io e regs d] by simp
    have "length regs' = length (map fst regs')" by simp
    then have "length regs' = length regs + min (length (entry_addresses e)) (QDMA_MAX_REGISTER_DUMP - length regs)"
      unfolding m by simp
    then show ?thesis using True r m Cons [of regs' d'] by (simp add: min_def)
  next
    case False
    then show ?thesis using Cons by auto
  qed
qed simp

lemma read_entries_spec:
  "map fst (fst (read_entries io cb cap entries d)) = vf_addresses cb cap entries"
  unfolding read_entries_def vf_addresses_def using read_entries_addresses [of cb cap io entries "[]" d] by simp

lemma vf_addresses_bound: "length (vf_addresses cb cap entries) \<le> QDMA_MAX_REGISTER_DUMP"
  by (simp add: vf_addresses_def)

lemma read_reg_list_found:
  assumes "csr_hardware io rd wm" and "is_vf \<noteq> 0" and "unat g < length groups"
    and i: "get_reg_entry regs (groups ! unat g) = Some i"
  shows "\<exists>vals d'. read_reg_list att cb ent groups regs io (Some d) is_vf g n (Some old) =
      (0, of_nat (length vals), Some (vals @ drop (length vals) old), Some d') \<and>
    map fst vals = vf_addresses cb (att (capabilities rd d)) (ent i regs)"
proof -
  obtain d1 where "get_attributes att io (Some d) (Some da_zeroed) = (0, Some (att (capabilities rd d)), Some d1)"
    using get_attributes_hw [OF assms(1), of att d da_zeroed] by auto
  moreover obtain vals d2 where r: "read_entries io cb (att (capabilities rd d)) (ent i regs) d1 = (vals, d2)"
    by fastforce
  moreover have "map fst vals = vf_addresses cb (att (capabilities rd d)) (ent i regs)"
    using read_entries_spec [of io cb "att (capabilities rd d)" "ent i regs" d1] r by simp
  ultimately show ?thesis using assms(2-4) by (intro exI [of _ vals]) (simp add: read_reg_list_def)
qed

lemma read_reg_list_missing:
  assumes "get_reg_entry regs (groups ! unat g) = None"
  shows "\<exists>d'. read_reg_list att cb ent groups regs io (Some d) 1 g n (Some old) =
      (neg_err QDMA_ERR_INV_PARAM, n, Some old, Some d')"
  using assms by (auto simp: read_reg_list_def get_attributes_def split_beta)

lemmas reg_list_defs = qdma_read_reg_list_def eqdma_read_reg_list_def eqdma_cpm5_read_reg_list_def
  qdma_cpm4_read_reg_list_def

section \<open>The tables of the variants\<close>

lemma group_entries:
  "get_reg_entry qdma_config_regs 0x1014 = None"
  "get_reg_entry eqdma_config_regs 0x5014 = None"
  "get_reg_entry eqdma_cpm5_config_regs 0x5014 = None"
  "get_reg_entry qdma_cpm4_config_regs 0x1014 = None"
  "get_reg_entry qdma_cpm4_config_regs 0x000 = Some 0"
  "get_reg_entry qdma_cpm4_config_regs 0x400 = Some 70"
  "get_reg_entry qdma_cpm4_config_regs 0xB00 = Some 382"
  by code_simp+

definition cpm4_first_group :: "u32 list" where
  "cpm4_first_group = map (\<lambda>j. 0x204 + of_nat j * 4) [0..<14]"

lemma cpm4_prefix:
  "list_all (\<lambda>e. xr_read_type e \<noteq> QDMA_REG_READ_PF_ONLY \<longrightarrow> xr_mode e = 7) (take 83 qdma_cpm4_config_regs)"
  "take 14 (concat (map entry_addresses
     (filter (\<lambda>e. xr_read_type e \<noteq> QDMA_REG_READ_PF_ONLY) (take 83 qdma_cpm4_config_regs)))) = cpm4_first_group"
  "length qdma_cpm4_config_regs = 466"
  by code_simp+

lemma cpm4_reg_addresses:
  assumes "GET_CAPABILITY_MASK cap AND 7 \<noteq> 0" and "i \<le> 382"
  shows "vf_addresses False cap (from_start i qdma_cpm4_config_regs) = cpm4_first_group"
proof -
  let ?T = qdma_cpm4_config_regs
  let ?A = "\<lambda>es. concat (map entry_addresses es)"
  have f: "filter (vf_may_read False cap) (take 83 ?T) =
      filter (\<lambda>e. xr_read_type e \<noteq> QDMA_REG_READ_PF_ONLY) (take 83 ?T)"
    using cpm4_prefix(1) assms(1) by (intro filter_cong) (auto simp: list_all_iff vf_may_read_def)
  have "from_start i ?T = take 83 ?T @ take (465 - i - 83) (drop 83 ?T)"
    using assms(2) take_add [of 83 "465 - i - 83" ?T] by (simp add: from_start_def cpm4_prefix(3))
  then have "vf_addresses False cap (from_start i ?T) =
      take 14 (?A (filter (vf_may_read False cap) (take 83 ?T)) @
        ?A (filter (vf_may_read False cap) (take (465 - i - 83) (drop 83 ?T))))"
    by (simp add: vf_addresses_def QDMA_MAX_REGISTER_DUMP_def)
  moreover have "14 \<le> length (?A (filter (vf_may_read False cap) (take 83 ?T)))"
    using arg_cong [OF cpm4_prefix(2), of length] unfolding f by (simp add: cpm4_first_group_def)
  ultimately show ?thesis using cpm4_prefix(2) unfolding f by simp
qed

section \<open>Properties\<close>

text \<open>Registers that a read leaves as they are.\<close>

definition steady_reads :: "'d mmio \<Rightarrow> ('d \<Rightarrow> u32 \<Rightarrow> u32) \<Rightarrow> bool" where
  "steady_reads io rd \<longleftrightarrow> (\<forall>r a. fst (readl io r a) = rd r a \<and> rd (snd (readl io r a)) = rd r)"

lemma steady_read:
  assumes "steady_reads io rd"
  obtains d' where "qdma_reg_read io d a = (rd (xregs d) a, d')" "rd (xregs d') = rd (xregs d)"
proof
  show "qdma_reg_read io d a = (rd (xregs d) a, snd (qdma_reg_read io d a))"
    using assms by (simp add: steady_reads_def qdma_reg_read_def split_beta)
  show "rd (xregs (snd (qdma_reg_read io d a))) = rd (xregs d)"
    using assms by (simp add: steady_reads_def qdma_reg_read_def split_beta)
qed

lemma fold_read_values:
  assumes "steady_reads io rd" "rd (xregs d) = v"
  shows "\<exists>d'. fold (\<lambda>a (regs, d). if length regs < k
         then let (v, d) = qdma_reg_read io d a in (regs @ [(a, v)], d) else (regs, d)) as (regs, d) =
     (regs @ map (\<lambda>a. (a, v a)) (take (k - length regs) as), d') \<and> rd (xregs d') = v"
  using assms(2)
proof (induction "as" arbitrary: regs d)
  case (Cons a "as")
  obtain d1 where d1: "qdma_reg_read io d a = (rd (xregs d) a, d1)" "rd (xregs d1) = rd (xregs d)"
    using steady_read [OF assms(1)] by blast
  show ?case
  proof (cases "length regs < k")
    case True
    have "rd (xregs d1) = v" using d1(2) Cons.prems by simp
    from Cons.IH [OF this, of "regs @ [(a, v a)]"] show ?thesis
      using True d1 Cons.prems by (simp flip: Suc_diff_Suc)
  next
    case False
    then show ?thesis using Cons.IH [OF Cons.prems, of regs] by simp
  qed
qed simp

lemma read_entries_values:
  assumes "steady_reads io rd" "rd (xregs d) = v"
  shows "\<exists>d'. fold (\<lambda>e (regs, d). if length regs < QDMA_MAX_REGISTER_DUMP \<and> vf_may_read cb cap e
         then read_entry io e (regs, d) else (regs, d)) entries (regs, d) =
     (regs @ map (\<lambda>a. (a, v a)) (take (QDMA_MAX_REGISTER_DUMP - length regs)
       (concat (map entry_addresses (filter (vf_may_read cb cap) entries)))), d') \<and> rd (xregs d') = v"
  using assms(2)
proof (induction entries arbitrary: regs d)
  case (Cons e entries)
  show ?case
  proof (cases "length regs < QDMA_MAX_REGISTER_DUMP \<and> vf_may_read cb cap e")
    case True
    let ?as = "take (QDMA_MAX_REGISTER_DUMP - length regs) (entry_addresses e)"
    obtain d1 where d1: "read_entry io e (regs, d) = (regs @ map (\<lambda>a. (a, v a)) ?as, d1)" "rd (xregs d1) = v"
      using fold_read_values [OF assms(1) Cons.prems] unfolding read_entry_fold by blast
    have "QDMA_MAX_REGISTER_DUMP - length (regs @ map (\<lambda>a. (a, v a)) ?as) =
        QDMA_MAX_REGISTER_DUMP - length regs - length (entry_addresses e)" by simp
    then show ?thesis
      using Cons.IH [OF d1(2), of "regs @ map (\<lambda>a. (a, v a)) ?as"] True d1(1)
      by (simp del: length_append length_map length_take)
  next
    case False
    show ?thesis
    proof (cases "vf_may_read cb cap e")
      case True
      then show ?thesis using Cons.IH [OF Cons.prems, of regs] False by simp
    next
      case no: False
      then show ?thesis using Cons.IH [OF Cons.prems, of regs] by simp
    qed
  qed
qed simp

lemma steady_attributes:
  assumes "steady_reads io rd"
  shows "\<exists>d'. get_attributes att io (Some d) (Some da_zeroed) = (0, Some (att (capabilities rd d)), Some d') \<and>
    rd (xregs d') = rd (xregs d)"
  using assms
  by (simp add: get_attributes_def read_capabilities_def capabilities_def steady_reads_def qdma_reg_read_def split_beta)

text \<open>
  The function of each variant with its attributes, whether it looks at the debug flag, the part
  of the table it walks over, the first addresses of the groups and the table.
\<close>

definition reg_list_variants :: "'d mmio \<Rightarrow> (('d xdev option \<Rightarrow> u8 \<Rightarrow> u16 \<Rightarrow> u16 \<Rightarrow> (u32 \<times> u32) list option \<Rightarrow>
    int \<times> u16 \<times> (u32 \<times> u32) list option \<times> 'd xdev option) \<times>
  (u32 \<times> u32 \<times> u32 \<times> u32 \<Rightarrow> qdma_dev_attributes) \<times> bool \<times> (nat \<Rightarrow> xreg_info list \<Rightarrow> xreg_info list) \<times>
  u32 list \<times> xreg_info list) set" where
  "reg_list_variants io =
     {(qdma_read_reg_list io, qdma_attributes, False, \<lambda>i regs. drop i (butlast regs),
        [0x000, 0x400, 0xB00, 0x1014], qdma_config_regs),
      (eqdma_read_reg_list io, eqdma_attributes, True, \<lambda>i regs. drop i (butlast regs),
        [0x000, 0x804, 0xB00, 0x5014], eqdma_config_regs),
      (eqdma_cpm5_read_reg_list io, eqdma_cpm5_attributes, True, \<lambda>i regs. drop i (butlast regs),
        [0x000, 0x804, 0xB00, 0x5014], eqdma_cpm5_config_regs),
      (qdma_cpm4_read_reg_list io, qdma_cpm4_attributes, False, \<lambda>i regs. take (length regs - 1 - i) regs,
        [0x000, 0x400, 0xB00, 0x1014], qdma_cpm4_config_regs)}"

text \<open>C40. On every variant, on registers that a read leaves as they are, a virtual function that asks
  for a register group gets an error and nothing written where the number of the group is not
  one of the four or the table has no entry, before its last one, at the group's first address. Else it
  gets the first fourteen registers, each with the value it holds, of the table entries that the
  device has, that virtual functions may read and, on the enhanced soft IP and CPM5, that are no
  debug registers unless the device is in debug mode; in table order, from the entry with the
  group's first address up to the last entry but one (the last one ends the table of the soft IP and
  is for physical functions only on the others). CPM4 is the exception: it walks over as many
  entries from the start of the table.\<close>

theorem read_reg_list_spec:
  assumes "steady_reads io rd"
    and "(f, att, check_debug, part, groups, regs) \<in> reg_list_variants io"
  shows "\<exists>d'. rd (xregs d') = rd (xregs d) \<and> f (Some d) 1 g n (Some old) =
    (case (if unat g < 4 then get_reg_entry regs (groups ! unat g) else None) of
       None \<Rightarrow> (neg_err QDMA_ERR_INV_PARAM, n, Some old, Some d')
     | Some i \<Rightarrow>
         let vals = map (\<lambda>a. (a, rd (xregs d) a)) (take 14 (concat (map entry_addresses
               (filter (vf_may_read check_debug (att (capabilities rd d))) (part i regs)))))
         in (0, of_nat (length vals), Some (vals @ drop (length vals) old), Some d'))"
proof -
  let ?cap = "att (capabilities rd d)"
  have f: "f = read_reg_list att check_debug part groups regs io" "length groups = 4"
    using assms(2) by (auto simp: reg_list_variants_def reg_list_defs from_index_def [abs_def] from_start_def [abs_def])
  obtain d1 where d1: "get_attributes att io (Some d) (Some da_zeroed) = (0, Some ?cap, Some d1)"
    "rd (xregs d1) = rd (xregs d)" using steady_attributes [OF assms(1)] by blast
  have r: "\<exists>d2. read_entries io check_debug ?cap es d1 =
      (map (\<lambda>a. (a, rd (xregs d) a)) (take 14 (concat (map entry_addresses (filter (vf_may_read check_debug ?cap) es)))), d2) \<and>
      rd (xregs d2) = rd (xregs d)" for es
    using read_entries_values [OF assms(1) d1(2), of check_debug ?cap es "[]"]
    by (simp add: read_entries_def QDMA_MAX_REGISTER_DUMP_def)
  show ?thesis
  proof (cases "if unat g < 4 then get_reg_entry regs (groups ! unat g) else None")
    case None
    then show ?thesis using d1 f by (intro exI [of _ d1]) (auto simp: read_reg_list_def split: if_splits)
  next
    case (Some i)
    obtain d2 where "read_entries io check_debug ?cap (part i regs) d1 =
        (map (\<lambda>a. (a, rd (xregs d) a)) (take 14 (concat (map entry_addresses
          (filter (vf_may_read check_debug ?cap) (part i regs))))), d2)" "rd (xregs d2) = rd (xregs d)"
      using r by blast
    then show ?thesis using d1 f Some
      by (intro exI [of _ d2]) (auto simp: read_reg_list_def Let_def split: if_splits)
  qed
qed

lemma qdma_first_group: "get_reg_entry qdma_config_regs 0 = Some 0"
  by code_simp

lemma plain_steady: "steady_reads plain_io (\<lambda>r. r)"
  by (simp add: steady_reads_def plain_io_def)

text \<open>The first group of the soft IP, and the group that is missing.\<close>

theorem read_reg_list_spec_witness:
  "(\<exists>vals d'. qdma_read_reg_list plain_io (Some plain_dev) 1 0 0 (Some []) = (0, of_nat (length vals), Some vals, Some d') \<and>
      length vals \<le> 14 \<and> (\<forall>(a, v)\<in>set vals. v = xregs plain_dev a)) \<and>
   (\<exists>d'. qdma_read_reg_list plain_io (Some plain_dev) 1 3 0 (Some []) = (neg_err QDMA_ERR_INV_PARAM, 0, Some [], Some d'))"
proof -
  have v: "(qdma_read_reg_list plain_io, qdma_attributes, False, \<lambda>i regs. drop i (butlast regs),
        [0x000, 0x400, 0xB00, 0x1014], qdma_config_regs) \<in> reg_list_variants plain_io"
    by (simp add: reg_list_variants_def)
  show ?thesis
    using read_reg_list_spec [OF plain_steady v, of plain_dev 0 0 "[]"]
      read_reg_list_spec [OF plain_steady v, of plain_dev 3 0 "[]"] qdma_first_group group_entries(1)
    by (auto simp: Let_def)
qed

text \<open>Two register groups do not work as documented: the mailbox group is refused by every
  variant, because no table has an entry at its first address; and CPM4 answers every other
  group with the ring size registers of the first one, because it starts its walk at the
  first entry of the table whatever the group.\<close>

theorem register_groups_missing:
  assumes "csr_hardware io rd wm"
    and "GET_CAPABILITY_MASK (qdma_cpm4_attributes (capabilities rd d)) AND 7 \<noteq> 0"
    and "g \<in> {0, 1, 2}"
    and "f \<in> {qdma_read_reg_list, eqdma_read_reg_list, eqdma_cpm5_read_reg_list, qdma_cpm4_read_reg_list}"
  shows "(\<exists>d'. f io (Some d) 1 3 n (Some old) = (neg_err QDMA_ERR_INV_PARAM, n, Some old, Some d')) \<and>
    (\<exists>vals d'. qdma_cpm4_read_reg_list io (Some d) 1 g n (Some old) =
        (0, 14, Some (vals @ drop 14 old), Some d') \<and>
      map fst vals = map (\<lambda>j. 0x204 + of_nat j * 4) [0..<14])"
proof
  show "\<exists>d'. f io (Some d) 1 3 n (Some old) = (neg_err QDMA_ERR_INV_PARAM, n, Some old, Some d')"
    using assms(4) group_entries(1-4)
    by (elim insertE emptyE) (simp only: reg_list_defs, rule read_reg_list_missing, simp)+
next
  let ?cap = "qdma_cpm4_attributes (capabilities rd d)"
  obtain i where i: "get_reg_entry qdma_cpm4_config_regs ([0x000, 0x400, 0xB00, 0x1014] ! unat g) = Some i"
    "i \<le> 382"
    using assms(3) group_entries(5-7) by auto
  moreover have "unat g < 4" using assms(3) by auto
  ultimately obtain vals d' where "qdma_cpm4_read_reg_list io (Some d) 1 g n (Some old) =
      (0, of_nat (length vals), Some (vals @ drop (length vals) old), Some d')"
    "map fst vals = vf_addresses False ?cap (from_start i qdma_cpm4_config_regs)"
    using read_reg_list_found [OF assms(1) _ _ i(1), of 1 qdma_cpm4_attributes False from_start d n old]
    unfolding reg_list_defs by auto
  moreover from this(2) have m: "map fst vals = cpm4_first_group"
    using cpm4_reg_addresses [OF assms(2) i(2)] by simp
  moreover have "length vals = 14"
    using arg_cong [OF m, of length] by (simp add: cpm4_first_group_def)
  ultimately show "\<exists>vals d'. qdma_cpm4_read_reg_list io (Some d) 1 g n (Some old) =
        (0, 14, Some (vals @ drop 14 old), Some d') \<and>
      map fst vals = map (\<lambda>j. 0x204 + of_nat j * 4) [0..<14]"
    by (intro exI [of _ vals]) (simp add: cpm4_first_group_def)
qed

lemma plain_capability: "GET_CAPABILITY_MASK (qdma_cpm4_attributes (capabilities (\<lambda>r. r) plain_dev)) AND 7 \<noteq> 0"
  by (simp add: GET_CAPABILITY_MASK_def qdma_cpm4_attributes_def capabilities_def plain_dev_def both_set_def
      FIELD_GET_GENMASK BIT_GENMASK take_bit_eq_mod)

theorem register_groups_missing_witness:
  "\<exists>vals d'. qdma_cpm4_read_reg_list plain_io (Some plain_dev) 1 2 0 (Some []) = (0, 14, Some vals, Some d') \<and>
    map fst vals = map (\<lambda>j. 0x204 + of_nat j * 4) [0..<14]"
  using register_groups_missing [OF plain_hardware plain_capability, of 2 qdma_read_reg_list 0 "[]"]
  by simp
end
