(* ===== verification/IndirectCtxt.thy ===== *)
theory IndirectCtxt
  imports QdmaContexts
begin

text \<open>
  The indirect context registers: the command word (union qdma_ind_ctxt_cmd), the write,
  read, clear and invalidate sequences that every access variant has its own copy of
  (eqdma_indirect_reg_write and so on), and what they do on a device that follows the
  register specification. The copies differ in the names of their register macros only:
  the sequences take the data address, the command address and the busy mask, and each
  variant instantiates them with its own.
\<close>

section \<open>The command word\<close>

text \<open>Bit fields of the union: busy 1, sel 4, op 2, qid 12 bits, from bit 0 on.\<close>

definition ind_ctxt_cmd_word :: "ind_ctxt_cmd_op \<Rightarrow> ind_ctxt_cmd_sel \<Rightarrow> u16 \<Rightarrow> u32" where
  "ind_ctxt_cmd_word op sel hw_qid =
     push_bit 7 (take_bit 12 (ucast hw_qid)) OR
     push_bit 5 (take_bit 2 (cmd_op_code op)) OR
     push_bit 1 (take_bit 4 (cmd_sel_code sel))"

section \<open>Sequences\<close>

definition QDMA_IND_CTXT_DATA_NUM_REGS :: nat where
  "QDMA_IND_CTXT_DATA_NUM_REGS = 8"

primrec reg_write_block :: "'d mmio \<Rightarrow> 'd xdev \<Rightarrow> u32 \<Rightarrow> u32 list \<Rightarrow> 'd xdev" where
  "reg_write_block io d reg_addr [] = d"
| "reg_write_block io d reg_addr (w # ws) =
     reg_write_block io (qdma_reg_write io d reg_addr w) (reg_addr + 4) ws"

primrec reg_read_block :: "'d mmio \<Rightarrow> 'd xdev \<Rightarrow> u32 \<Rightarrow> nat \<Rightarrow> u32 list \<times> 'd xdev" where
  "reg_read_block io d reg_addr 0 = ([], d)"
| "reg_read_block io d reg_addr (Suc n) =
     (let (v, d1) = qdma_reg_read io d reg_addr;
          (vs, d2) = reg_read_block io d1 (reg_addr + 4) n in (v # vs, d2))"

definition indirect_reg_cmd ::
  "'d mmio \<Rightarrow> u32 \<Rightarrow> u32 \<Rightarrow> ind_ctxt_cmd_op \<Rightarrow> 'd xdev \<Rightarrow> ind_ctxt_cmd_sel \<Rightarrow> u16 \<Rightarrow> int \<times> 'd xdev"
where
  "indirect_reg_cmd io cmd_addr busy op dev sel hw_qid =
     (let d = qdma_reg_access_lock dev;
          d = qdma_reg_write io d cmd_addr (ind_ctxt_cmd_word op sel hw_qid);
          (rv, d) = hw_monitor_reg io d cmd_addr busy 0
            QDMA_REG_POLL_DFLT_INTERVAL_US QDMA_REG_POLL_DFLT_TIMEOUT_US
      in if rv \<noteq> 0 then (neg_err QDMA_ERR_HWACC_BUSY_TIMEOUT, qdma_reg_access_release d)
         else (err_code QDMA_SUCCESS, qdma_reg_access_release d))"

text \<open>The read: data is left as it was (the empty list here) on a timeout.\<close>

definition indirect_reg_read ::
  "'d mmio \<Rightarrow> u32 \<Rightarrow> u32 \<Rightarrow> u32 \<Rightarrow> 'd xdev \<Rightarrow> ind_ctxt_cmd_sel \<Rightarrow> u16 \<Rightarrow> nat \<Rightarrow>
   int \<times> u32 list \<times> 'd xdev"
where
  "indirect_reg_read io data_addr cmd_addr busy dev sel hw_qid cnt =
     (let d = qdma_reg_access_lock dev;
          d = qdma_reg_write io d cmd_addr (ind_ctxt_cmd_word QDMA_CTXT_CMD_RD sel hw_qid);
          (rv, d) = hw_monitor_reg io d cmd_addr busy 0
            QDMA_REG_POLL_DFLT_INTERVAL_US QDMA_REG_POLL_DFLT_TIMEOUT_US
      in if rv \<noteq> 0 then (neg_err QDMA_ERR_HWACC_BUSY_TIMEOUT, [], qdma_reg_access_release d)
         else let (data, d) = reg_read_block io d data_addr cnt
              in (err_code QDMA_SUCCESS, data, qdma_reg_access_release d))"

definition indirect_reg_write ::
  "'d mmio \<Rightarrow> u32 \<Rightarrow> u32 \<Rightarrow> u32 \<Rightarrow> 'd xdev \<Rightarrow> ind_ctxt_cmd_sel \<Rightarrow> u16 \<Rightarrow> u32 list \<Rightarrow>
   int \<times> 'd xdev"
where
  "indirect_reg_write io data_addr cmd_addr busy dev sel hw_qid data =
     (let d = qdma_reg_access_lock dev;
          ctxt_data = map (\<lambda>index. if index < length data then data ! index else 0)
            [0..<QDMA_IND_CTXT_DATA_NUM_REGS];
          ctxt_mask = replicate QDMA_IND_CTXT_DATA_NUM_REGS 0xFFFFFFFF;
          cmd = ind_ctxt_cmd_word QDMA_CTXT_CMD_WR sel hw_qid;
          d = reg_write_block io d data_addr (ctxt_data @ ctxt_mask @ [cmd]);
          (rv, d) = hw_monitor_reg io d cmd_addr busy 0
            QDMA_REG_POLL_DFLT_INTERVAL_US QDMA_REG_POLL_DFLT_TIMEOUT_US
      in if rv \<noteq> 0 then (neg_err QDMA_ERR_HWACC_BUSY_TIMEOUT, qdma_reg_access_release d)
         else (err_code QDMA_SUCCESS, qdma_reg_access_release d))"

section \<open>The copies of the access variants\<close>

definition eqdma_indirect_reg_invalidate ::
  "'d mmio \<Rightarrow> 'd xdev \<Rightarrow> ind_ctxt_cmd_sel \<Rightarrow> u16 \<Rightarrow> int \<times> 'd xdev" where
  "eqdma_indirect_reg_invalidate io = indirect_reg_cmd io 0x844 (BIT 0) QDMA_CTXT_CMD_INV"

definition eqdma_indirect_reg_clear ::
  "'d mmio \<Rightarrow> 'd xdev \<Rightarrow> ind_ctxt_cmd_sel \<Rightarrow> u16 \<Rightarrow> int \<times> 'd xdev" where
  "eqdma_indirect_reg_clear io = indirect_reg_cmd io 0x844 (BIT 0) QDMA_CTXT_CMD_CLR"

definition eqdma_indirect_reg_read ::
  "'d mmio \<Rightarrow> 'd xdev \<Rightarrow> ind_ctxt_cmd_sel \<Rightarrow> u16 \<Rightarrow> nat \<Rightarrow> int \<times> u32 list \<times> 'd xdev" where
  "eqdma_indirect_reg_read io = indirect_reg_read io 0x804 0x844 (BIT 0)"

definition eqdma_indirect_reg_write ::
  "'d mmio \<Rightarrow> 'd xdev \<Rightarrow> ind_ctxt_cmd_sel \<Rightarrow> u16 \<Rightarrow> u32 list \<Rightarrow> int \<times> 'd xdev" where
  "eqdma_indirect_reg_write io = indirect_reg_write io 0x804 0x844 (BIT 0)"

definition qdma_indirect_reg_invalidate ::
  "'d mmio \<Rightarrow> 'd xdev \<Rightarrow> ind_ctxt_cmd_sel \<Rightarrow> u16 \<Rightarrow> int \<times> 'd xdev" where
  "qdma_indirect_reg_invalidate io = indirect_reg_cmd io 0x844 0x1 QDMA_CTXT_CMD_INV"

definition qdma_indirect_reg_clear ::
  "'d mmio \<Rightarrow> 'd xdev \<Rightarrow> ind_ctxt_cmd_sel \<Rightarrow> u16 \<Rightarrow> int \<times> 'd xdev" where
  "qdma_indirect_reg_clear io = indirect_reg_cmd io 0x844 0x1 QDMA_CTXT_CMD_CLR"

definition qdma_indirect_reg_read ::
  "'d mmio \<Rightarrow> 'd xdev \<Rightarrow> ind_ctxt_cmd_sel \<Rightarrow> u16 \<Rightarrow> nat \<Rightarrow> int \<times> u32 list \<times> 'd xdev" where
  "qdma_indirect_reg_read io = indirect_reg_read io 0x804 0x844 0x1"

definition qdma_indirect_reg_write ::
  "'d mmio \<Rightarrow> 'd xdev \<Rightarrow> ind_ctxt_cmd_sel \<Rightarrow> u16 \<Rightarrow> u32 list \<Rightarrow> int \<times> 'd xdev" where
  "qdma_indirect_reg_write io = indirect_reg_write io 0x804 0x844 0x1"

definition eqdma_cpm5_indirect_reg_invalidate ::
  "'d mmio \<Rightarrow> 'd xdev \<Rightarrow> ind_ctxt_cmd_sel \<Rightarrow> u16 \<Rightarrow> int \<times> 'd xdev" where
  "eqdma_cpm5_indirect_reg_invalidate io = indirect_reg_cmd io 0x844 (BIT 0) QDMA_CTXT_CMD_INV"

definition eqdma_cpm5_indirect_reg_clear ::
  "'d mmio \<Rightarrow> 'd xdev \<Rightarrow> ind_ctxt_cmd_sel \<Rightarrow> u16 \<Rightarrow> int \<times> 'd xdev" where
  "eqdma_cpm5_indirect_reg_clear io = indirect_reg_cmd io 0x844 (BIT 0) QDMA_CTXT_CMD_CLR"

definition eqdma_cpm5_indirect_reg_read ::
  "'d mmio \<Rightarrow> 'd xdev \<Rightarrow> ind_ctxt_cmd_sel \<Rightarrow> u16 \<Rightarrow> nat \<Rightarrow> int \<times> u32 list \<times> 'd xdev" where
  "eqdma_cpm5_indirect_reg_read io = indirect_reg_read io 0x804 0x844 (BIT 0)"

definition eqdma_cpm5_indirect_reg_write ::
  "'d mmio \<Rightarrow> 'd xdev \<Rightarrow> ind_ctxt_cmd_sel \<Rightarrow> u16 \<Rightarrow> u32 list \<Rightarrow> int \<times> 'd xdev" where
  "eqdma_cpm5_indirect_reg_write io = indirect_reg_write io 0x804 0x844 (BIT 0)"

lemma BIT_0: "BIT 0 = 1"
  by (simp add: BIT_def)

lemmas indirect_copies =
  eqdma_indirect_reg_invalidate_def eqdma_indirect_reg_clear_def
  eqdma_indirect_reg_read_def eqdma_indirect_reg_write_def
  qdma_indirect_reg_invalidate_def qdma_indirect_reg_clear_def
  qdma_indirect_reg_read_def qdma_indirect_reg_write_def
  eqdma_cpm5_indirect_reg_invalidate_def eqdma_cpm5_indirect_reg_clear_def
  eqdma_cpm5_indirect_reg_read_def eqdma_cpm5_indirect_reg_write_def BIT_0

text \<open>The copies do the same.\<close>

lemma indirect_copies_agree:
  "qdma_indirect_reg_write io d sel q data = eqdma_indirect_reg_write io d sel q data \<and>
   qdma_indirect_reg_read io d sel q cnt = eqdma_indirect_reg_read io d sel q cnt \<and>
   qdma_indirect_reg_clear io d sel q = eqdma_indirect_reg_clear io d sel q \<and>
   qdma_indirect_reg_invalidate io d sel q = eqdma_indirect_reg_invalidate io d sel q"
  by (simp add: indirect_copies)

section \<open>The lock and the result\<close>

lemma lock_write_block [simp]: "hw_prg_lock (reg_write_block io d a ws) = hw_prg_lock d"
  by (induction ws arbitrary: d a) simp_all

lemma lock_read_block [simp]: "hw_prg_lock (snd (reg_read_block io d a n)) = hw_prg_lock d"
proof (induction n arbitrary: d a)
  case (Suc n)
  then show ?case
    using Suc.IH [of "snd (qdma_reg_read io d a)"] by (simp add: split_beta)
qed simp

lemma length_read_block [simp]: "length (fst (reg_read_block io d a n)) = n"
  by (induction n arbitrary: d a) (simp_all add: split_beta)

lemma indirect_cmd_outcome:
  "fst (indirect_reg_cmd io c b op d sel q) \<in> {0, -3} \<and>
   \<not> hw_prg_lock (snd (indirect_reg_cmd io c b op d sel q))"
  by (simp add: indirect_reg_cmd_def split_beta Let_def)

lemma indirect_write_outcome:
  "fst (indirect_reg_write io a c b d sel q ws) \<in> {0, -3} \<and>
   \<not> hw_prg_lock (snd (indirect_reg_write io a c b d sel q ws))"
  by (simp add: indirect_reg_write_def split_beta Let_def)

lemma indirect_read_outcome:
  "(case indirect_reg_read io a c b d sel q n of
      (rv, ws, d') \<Rightarrow> (rv = 0 \<and> length ws = n \<or> rv = -3 \<and> ws = []) \<and> \<not> hw_prg_lock d')"
  by (simp add: indirect_reg_read_def split_beta Let_def)

section \<open>A device that follows the register specification\<close>

text \<open>
  The hardware side of the indirect registers, as the register specification describes it:
  sixteen words of data and mask registers from 0x804 on that read back what was written,
  and a context memory indexed by the selector and queue bits of the command word. A
  command write completes within the polling budget: some poll finds the busy bit clear,
  and then the command has had its effect. What CMD_INV leaves in the memory is not
  documented, so nothing is said of it.
\<close>

type_synonym ctxt_window = "u32 \<Rightarrow> u32"
type_synonym ctxt_memory = "u32 \<Rightarrow> u32 list"

definition in_window :: "u32 \<Rightarrow> bool" where
  "in_window a \<longleftrightarrow> 0x804 \<le> a \<and> a < 0x844"

definition cmd_key :: "u32 \<Rightarrow> u32" where
  "cmd_key cmd = cmd AND 0xFFF9E"

definition cmd_op_bits :: "u32 \<Rightarrow> u32" where
  "cmd_op_bits cmd = take_bit 2 (drop_bit 5 cmd)"

definition write_merge :: "ctxt_window \<Rightarrow> u32 list \<Rightarrow> u32 list" where
  "write_merge w old = map (\<lambda>i. (old ! i AND NOT (w (0x824 + of_nat i * 4))) OR
     (w (0x804 + of_nat i * 4) AND w (0x824 + of_nat i * 4))) [0..<8]"

definition cmd_effect ::
  "u32 \<Rightarrow> ctxt_window \<times> ctxt_memory \<Rightarrow> ctxt_window \<times> ctxt_memory \<Rightarrow> bool" where
  "cmd_effect cmd = (\<lambda>(w, m) (w', m').
     (cmd_op_bits cmd = 0 \<longrightarrow> m' = m(cmd_key cmd := replicate 8 0)) \<and>
     (cmd_op_bits cmd = 1 \<longrightarrow> m' = m(cmd_key cmd := write_merge w (m (cmd_key cmd)))) \<and>
     (cmd_op_bits cmd = 2 \<longrightarrow>
        m' = m \<and> (\<forall>i<8. w' (0x804 + of_nat i * 4) = m (cmd_key cmd) ! i)))"

definition ctxt_hardware ::
  "'d mmio \<Rightarrow> ('d \<Rightarrow> ctxt_window) \<Rightarrow> ('d \<Rightarrow> ctxt_memory) \<Rightarrow> bool" where
  "ctxt_hardware io win mem \<longleftrightarrow>
     (\<forall>r a v. in_window a \<longrightarrow> win (writel io r a v) = (win r)(a := v) \<and> mem (writel io r a v) = mem r) \<and>
     (\<forall>r a. in_window a \<longrightarrow> fst (readl io r a) = win r a \<and>
        win (snd (readl io r a)) = win r \<and> mem (snd (readl io r a)) = mem r) \<and>
     (\<forall>d cmd. \<exists>k\<le>50000.
        let d0 = qdma_reg_write io d 0x844 cmd;
            dk = poll_state io 0x844 10 k d0;
            d1 = xregs (snd (qdma_reg_read io dk 0x844))
        in poll_hit io 0x844 1 0 dk \<and> (\<forall>j<k. \<not> poll_hit io 0x844 1 0 (poll_state io 0x844 10 j d0)) \<and>
           cmd_effect cmd (win (xregs d), mem (xregs d)) (win d1, mem d1))"

lemma hw_window_write:
  assumes "ctxt_hardware io win mem" "in_window a"
  shows "win (xregs (qdma_reg_write io d a v)) = (win (xregs d))(a := v)"
    "mem (xregs (qdma_reg_write io d a v)) = mem (xregs d)"
  using assms by (simp_all add: ctxt_hardware_def qdma_reg_write_def)

lemma hw_window_read:
  assumes "ctxt_hardware io win mem" "in_window a"
  shows "fst (qdma_reg_read io d a) = win (xregs d) a"
    "win (xregs (snd (qdma_reg_read io d a))) = win (xregs d)"
    "mem (xregs (snd (qdma_reg_read io d a))) = mem (xregs d)"
  using assms by (simp_all add: ctxt_hardware_def qdma_reg_read_def split_beta)

lemma poll_iterations_default:
  "poll_iterations QDMA_REG_POLL_DFLT_INTERVAL_US QDMA_REG_POLL_DFLT_TIMEOUT_US = 50000"
  "poll_interval QDMA_REG_POLL_DFLT_INTERVAL_US = 10"
  by (simp_all add: poll_iterations_def poll_interval_def QDMA_REG_POLL_DFLT_INTERVAL_US_def
      QDMA_REG_POLL_DFLT_TIMEOUT_US_def)

text \<open>A command write followed by the wait for the busy bit.\<close>

lemma hw_command:
  assumes "ctxt_hardware io win mem"
  shows "\<exists>d'. hw_monitor_reg io (qdma_reg_write io d 0x844 cmd) 0x844 1 0
      QDMA_REG_POLL_DFLT_INTERVAL_US QDMA_REG_POLL_DFLT_TIMEOUT_US = (0, d') \<and>
    cmd_effect cmd (win (xregs d), mem (xregs d)) (win (xregs d'), mem (xregs d'))"
proof -
  from assms obtain k where "k \<le> 50000"
    "poll_hit io 0x844 1 0 (poll_state io 0x844 10 k (qdma_reg_write io d 0x844 cmd))"
    "\<forall>j<k. \<not> poll_hit io 0x844 1 0 (poll_state io 0x844 10 j (qdma_reg_write io d 0x844 cmd))"
    "cmd_effect cmd (win (xregs d), mem (xregs d))
       (win (xregs (snd (qdma_reg_read io (poll_state io 0x844 10 k
          (qdma_reg_write io d 0x844 cmd)) 0x844))),
        mem (xregs (snd (qdma_reg_read io (poll_state io 0x844 10 k
          (qdma_reg_write io d 0x844 cmd)) 0x844))))"
    unfolding ctxt_hardware_def Let_def by blast
  then show ?thesis
    using hw_monitor_reg_hit [of k QDMA_REG_POLL_DFLT_INTERVAL_US QDMA_REG_POLL_DFLT_TIMEOUT_US]
    unfolding poll_iterations_default by blast
qed

lemma xregs_lock [simp]:
  "xregs (qdma_reg_access_lock d) = xregs d" "xregs (qdma_reg_access_release d) = xregs d"
  by (simp_all add: qdma_reg_access_lock_def qdma_reg_access_release_def)

section \<open>The bits of the command word\<close>

lemmas cmd_bit_simps = bit_take_bit_iff bit_drop_bit_eq o_apply bit_or_iff bit_push_bit_iff
  bit_and_iff possible_bit_word

lemma cmd_word_op: "take_bit 2 (drop_bit 5 (push_bit 7 (take_bit 12 a) OR
    push_bit 5 (take_bit 2 b) OR push_bit 1 (take_bit 4 c))) = take_bit 2 (b :: u32)"
  by (rule bit_word_eqI, simp only: cmd_bit_simps, auto)

lemma cmd_word_sel: "take_bit 4 (drop_bit 1 (push_bit 7 (take_bit 12 a) OR
    push_bit 5 (take_bit 2 b) OR push_bit 1 (take_bit 4 c))) = take_bit 4 (c :: u32)"
  by (rule bit_word_eqI, simp only: cmd_bit_simps, auto)

lemma cmd_word_qid: "take_bit 12 (drop_bit 7 (push_bit 7 (take_bit 12 a) OR
    push_bit 5 (take_bit 2 b) OR push_bit 1 (take_bit 4 c))) = take_bit 12 (a :: u32)"
  by (rule bit_word_eqI, simp only: cmd_bit_simps, auto)

lemma cmd_op_bits_word [simp]: "cmd_op_bits (ind_ctxt_cmd_word op sel q) = cmd_op_code op"
  unfolding cmd_op_bits_def ind_ctxt_cmd_word_def cmd_word_op by (cases op) simp_all

lemma take_bit_sel_code: "take_bit 4 (cmd_sel_code s) = cmd_sel_code s"
  by (cases s) simp_all

lemma cmd_key_mask: "(0xFFF9E :: u32) = push_bit 7 (mask 13) OR push_bit 1 (mask 4)"
  by (simp add: mask_eq_exp_minus_1)

lemma cmd_key_word:
  "cmd_key (ind_ctxt_cmd_word op sel q) =
     push_bit 7 (take_bit 12 (ucast q)) OR push_bit 1 (take_bit 4 (cmd_sel_code sel))"
  unfolding cmd_key_def ind_ctxt_cmd_word_def cmd_key_mask
  by (rule bit_word_eqI, simp only: cmd_bit_simps bit_mask_iff, auto)

lemma cmd_key_eq_iff:
  "cmd_key (ind_ctxt_cmd_word op sel q) = cmd_key (ind_ctxt_cmd_word op' sel' q') \<longleftrightarrow>
     sel = sel' \<and> take_bit 12 q = take_bit 12 q'"
proof
  assume eq: "cmd_key (ind_ctxt_cmd_word op sel q) = cmd_key (ind_ctxt_cmd_word op' sel' q')"
  have key: "take_bit 4 (drop_bit 1 (cmd_key (ind_ctxt_cmd_word op sel q))) = cmd_sel_code sel"
    "take_bit 12 (drop_bit 7 (cmd_key (ind_ctxt_cmd_word op sel q))) = take_bit 12 (ucast q)"
    for op sel q
    using cmd_word_sel [of "ucast q" 0 "cmd_sel_code sel"]
      cmd_word_qid [of "ucast q" 0 "cmd_sel_code sel"]
    by (simp_all add: cmd_key_word take_bit_sel_code)
  have "take_bit 12 (ucast q :: u32) = take_bit 12 (ucast q')"
    using key(2) [of op sel q] key(2) [of op' sel' q'] eq by metis
  then have "take_bit 12 q = take_bit 12 q'"
    by (simp add: bit_eq_iff bit_simps)
  moreover have "cmd_sel_code sel = cmd_sel_code sel'"
    using key(1) [of op sel q] key(1) [of op' sel' q'] eq by metis
  ultimately show "sel = sel' \<and> take_bit 12 q = take_bit 12 q'" by simp
next
  assume "sel = sel' \<and> take_bit 12 q = take_bit 12 q'"
  moreover from this have "take_bit 12 (ucast q :: u32) = take_bit 12 (ucast q')"
    by (metis unsigned_take_bit_eq)
  ultimately show "cmd_key (ind_ctxt_cmd_word op sel q) = cmd_key (ind_ctxt_cmd_word op' sel' q')"
    by (simp add: cmd_key_word)
qed

section \<open>Effect of the sequences\<close>

lemma block_addresses:
  "in_window 0x804" "in_window 0x808" "in_window 0x80C" "in_window 0x810" "in_window 0x814"
  "in_window 0x818" "in_window 0x81C" "in_window 0x820" "in_window 0x824" "in_window 0x828"
  "in_window 0x82C" "in_window 0x830" "in_window 0x834" "in_window 0x838" "in_window 0x83C"
  "in_window 0x840"
  by (simp_all add: in_window_def)

lemma upt_8: "[0..<8] = [0, 1, 2, 3, 4, 5, 6, 7 :: nat]"
  by (simp add: upt_rec)

lemma replicate_8: "replicate 8 x = [x, x, x, x, x, x, x, x]"
  by (simp add: eval_nat_numeral)

lemma all_lt_8: "(\<forall>i<8. P i) \<longleftrightarrow> P 0 \<and> P 1 \<and> P 2 \<and> P 3 \<and> P 4 \<and> P 5 \<and> P 6 \<and> P (7 :: nat)"
proof -
  have "(\<forall>i<8. P i) \<longleftrightarrow> list_all P [0..<8]" by (auto simp: list_all_iff)
  then show ?thesis by (simp only: upt_8 list.pred_inject) simp
qed

lemma merge_all_ones: "old AND - 4294967296 OR a AND 4294967295 = (a :: u32)"
proof -
  have "(- 4294967296 :: u32) = 0" "(4294967295 :: u32) = - 1" by simp_all
  then show ?thesis by (simp only:) simp
qed

lemma hw_write_window:
  assumes hw: "ctxt_hardware io win mem"
    and d': "d' = reg_write_block io d 0x804 ([a0, a1, a2, a3, a4, a5, a6, a7] @
      [0xFFFFFFFF, 0xFFFFFFFF, 0xFFFFFFFF, 0xFFFFFFFF,
       0xFFFFFFFF, 0xFFFFFFFF, 0xFFFFFFFF, 0xFFFFFFFF])"
  shows "mem (xregs d') = mem (xregs d)"
    "write_merge (win (xregs d')) old = [a0, a1, a2, a3, a4, a5, a6, a7]"
  unfolding d'
  by (simp_all add: hw_window_write [OF hw] block_addresses write_merge_def upt_8 merge_all_ones)

lemma reg_write_block_append:
  "reg_write_block io d a (ws @ ws') =
     reg_write_block io (reg_write_block io d a ws) (a + of_nat (length ws) * 4) ws'"
  by (induction ws arbitrary: d a) (simp_all add: algebra_simps)

definition ctxt_pad :: "u32 list \<Rightarrow> u32 list" where
  "ctxt_pad ws = map (\<lambda>i. if i < length ws then ws ! i else 0) [0..<8]"

lemma ctxt_pad_append: "length ws \<le> 8 \<Longrightarrow> ctxt_pad ws = ws @ replicate (8 - length ws) 0"
  by (rule nth_equalityI) (auto simp: ctxt_pad_def nth_append)

lemma length_ctxt_pad [simp]: "length (ctxt_pad ws) = 8"
  by (simp add: ctxt_pad_def)

text \<open>The write stores the padded words at the key of the selector and queue, and nothing else.\<close>

lemma indirect_write_effect:
  assumes hw: "ctxt_hardware io win mem"
  shows "\<exists>d'. indirect_reg_write io 0x804 0x844 1 d sel q ws = (0, d') \<and>
    mem (xregs d') = (mem (xregs d))(cmd_key (ind_ctxt_cmd_word QDMA_CTXT_CMD_RD sel q) := ctxt_pad ws)"
proof -
  let ?cmd = "ind_ctxt_cmd_word QDMA_CTXT_CMD_WR sel q"
  define d1 where "d1 = reg_write_block io (qdma_reg_access_lock d) 0x804
    (ctxt_pad ws @ replicate 8 0xFFFFFFFF)"
  obtain a0 a1 a2 a3 a4 a5 a6 a7 where pad: "ctxt_pad ws = [a0, a1, a2, a3, a4, a5, a6, a7]"
    by (simp add: ctxt_pad_def upt_8)
  have d1: "mem (xregs d1) = mem (xregs d)" "write_merge (win (xregs d1)) old = ctxt_pad ws" for old
    using hw_write_window [OF hw d1_def [unfolded pad replicate_8]] unfolding pad by simp_all
  obtain d2 where d2: "hw_monitor_reg io (qdma_reg_write io d1 0x844 ?cmd) 0x844 1 0
      QDMA_REG_POLL_DFLT_INTERVAL_US QDMA_REG_POLL_DFLT_TIMEOUT_US = (0, d2)"
    "cmd_effect ?cmd (win (xregs d1), mem (xregs d1)) (win (xregs d2), mem (xregs d2))"
    using hw_command [OF hw] by blast
  have "mem (xregs d2) = (mem (xregs d))(cmd_key ?cmd := ctxt_pad ws)"
    using d2(2) d1 by (simp add: cmd_effect_def)
  moreover have "cmd_key ?cmd = cmd_key (ind_ctxt_cmd_word QDMA_CTXT_CMD_RD sel q)"
    by (simp add: cmd_key_eq_iff)
  moreover have "indirect_reg_write io 0x804 0x844 1 d sel q ws = (0, qdma_reg_access_release d2)"
    using d2(1) unfolding indirect_reg_write_def Let_def QDMA_IND_CTXT_DATA_NUM_REGS_def
      append_assoc [symmetric] ctxt_pad_def [symmetric] reg_write_block_append d1_def
    by simp
  ultimately show ?thesis by (intro exI [of _ "qdma_reg_access_release d2"]) simp
qed

lemma hw_read_block:
  assumes hw: "ctxt_hardware io win mem" and "\<forall>i<n. in_window (a + of_nat i * 4)"
  shows "fst (reg_read_block io d a n) = map (\<lambda>i. win (xregs d) (a + of_nat i * 4)) [0..<n] \<and>
    win (xregs (snd (reg_read_block io d a n))) = win (xregs d) \<and>
    mem (xregs (snd (reg_read_block io d a n))) = mem (xregs d)"
  using assms(2)
proof (induction n arbitrary: d a)
  case (Suc n)
  have "in_window a" using Suc.prems by force
  note r = hw_window_read [OF hw this, of d]
  have "\<forall>i<n. in_window (a + 4 + of_nat i * 4)"
    using Suc.prems by (force simp: algebra_simps)
  note IH = Suc.IH [OF this, of "snd (qdma_reg_read io d a)"]
  have "map (\<lambda>i. win (xregs d) (a + of_nat i * 4)) [0..<Suc n] =
    win (xregs d) a # map (\<lambda>i. win (xregs d) (a + 4 + of_nat i * 4)) [0..<n]"
    by (simp add: upt_conv_Cons map_Suc_upt [symmetric] algebra_simps del: upt_Suc)
  then show ?case
    using r IH by (simp add: split_beta del: upt_Suc)
qed simp

lemma data_in_window: "i < 8 \<Longrightarrow> in_window (0x804 + of_nat i * 4)"
proof -
  have "\<forall>i<8. in_window (0x804 + of_nat i * 4)"
    by (simp add: all_lt_8 in_window_def)
  then show "i < 8 \<Longrightarrow> in_window (0x804 + of_nat i * 4)" by blast
qed

text \<open>The read returns the words stored at the key and leaves the context memory as it is.\<close>

lemma indirect_read_effect:
  assumes hw: "ctxt_hardware io win mem" and n: "n \<le> 8"
  shows "\<exists>d'. indirect_reg_read io 0x804 0x844 1 d sel q n =
      (0, map (\<lambda>i. mem (xregs d) (cmd_key (ind_ctxt_cmd_word QDMA_CTXT_CMD_RD sel q)) ! i) [0..<n], d') \<and>
    mem (xregs d') = mem (xregs d)"
proof -
  let ?cmd = "ind_ctxt_cmd_word QDMA_CTXT_CMD_RD sel q"
  obtain d2 where d2: "hw_monitor_reg io (qdma_reg_write io (qdma_reg_access_lock d) 0x844 ?cmd) 0x844 1 0
      QDMA_REG_POLL_DFLT_INTERVAL_US QDMA_REG_POLL_DFLT_TIMEOUT_US = (0, d2)"
    "cmd_effect ?cmd (win (xregs d), mem (xregs d)) (win (xregs d2), mem (xregs d2))"
    using hw_command [OF hw, of "qdma_reg_access_lock d" ?cmd] by auto
  then have m: "mem (xregs d2) = mem (xregs d)"
    "\<forall>i<8. win (xregs d2) (0x804 + of_nat i * 4) = mem (xregs d) (cmd_key ?cmd) ! i"
    by (simp_all add: cmd_effect_def)
  have "\<forall>i<n. in_window (0x804 + of_nat i * 4)"
    using n data_in_window less_le_trans by blast
  note blk = hw_read_block [OF hw this, of d2]
  have "map (\<lambda>i. win (xregs d2) (0x804 + of_nat i * 4)) [0..<n] =
    map (\<lambda>i. mem (xregs d) (cmd_key ?cmd) ! i) [0..<n]"
    using m(2) n by (intro map_cong) auto
  then show ?thesis
    using d2(1) blk m(1)
    by (intro exI [of _ "qdma_reg_access_release (snd (reg_read_block io d2 0x804 n))"])
       (simp add: indirect_reg_read_def Let_def split_beta)
qed

lemma indirect_clear_effect:
  assumes hw: "ctxt_hardware io win mem"
  shows "\<exists>d'. indirect_reg_cmd io 0x844 1 QDMA_CTXT_CMD_CLR d sel q = (0, d') \<and>
    mem (xregs d') =
      (mem (xregs d))(cmd_key (ind_ctxt_cmd_word QDMA_CTXT_CMD_RD sel q) := replicate 8 0)"
proof -
  let ?cmd = "ind_ctxt_cmd_word QDMA_CTXT_CMD_CLR sel q"
  obtain d2 where d2: "hw_monitor_reg io (qdma_reg_write io (qdma_reg_access_lock d) 0x844 ?cmd) 0x844 1 0
      QDMA_REG_POLL_DFLT_INTERVAL_US QDMA_REG_POLL_DFLT_TIMEOUT_US = (0, d2)"
    "cmd_effect ?cmd (win (xregs d), mem (xregs d)) (win (xregs d2), mem (xregs d2))"
    using hw_command [OF hw, of "qdma_reg_access_lock d" ?cmd] by auto
  moreover have "cmd_key ?cmd = cmd_key (ind_ctxt_cmd_word QDMA_CTXT_CMD_RD sel q)"
    by (simp add: cmd_key_eq_iff)
  ultimately show ?thesis
    by (intro exI [of _ "qdma_reg_access_release d2"])
       (simp add: indirect_reg_cmd_def Let_def cmd_effect_def)
qed

section \<open>The shape of a context function\<close>

text \<open>
  Every context function checks its pointers (a null pointer is None here) and then runs one
  sequence: write gets the data words of the structure, read overwrites the caller's
  structure with dec when the sequence succeeds, clear and invalidate take the device only.
\<close>

definition context_write ::
  "('d xdev \<Rightarrow> ind_ctxt_cmd_sel \<Rightarrow> u16 \<Rightarrow> u32 list \<Rightarrow> int \<times> 'd xdev) \<Rightarrow> ('c \<Rightarrow> u32 list) \<Rightarrow>
   'd xdev option \<Rightarrow> ind_ctxt_cmd_sel \<Rightarrow> u16 \<Rightarrow> 'c option \<Rightarrow> int \<times> 'd xdev option"
where
  "context_write wr enc dev sel hw_qid ctxt =
     (case (dev, ctxt) of
        (Some d, Some c) \<Rightarrow> let (rv, d') = wr d sel hw_qid (enc c) in (rv, Some d')
      | _ \<Rightarrow> (neg_err QDMA_ERR_INV_PARAM, dev))"

definition context_read ::
  "('d xdev \<Rightarrow> ind_ctxt_cmd_sel \<Rightarrow> u16 \<Rightarrow> nat \<Rightarrow> int \<times> u32 list \<times> 'd xdev) \<Rightarrow> nat \<Rightarrow>
   (u32 list \<Rightarrow> 'c \<Rightarrow> 'c) \<Rightarrow> 'd xdev option \<Rightarrow> ind_ctxt_cmd_sel \<Rightarrow> u16 \<Rightarrow> 'c option \<Rightarrow>
   int \<times> 'c option \<times> 'd xdev option"
where
  "context_read rd num_words dec dev sel hw_qid ctxt =
     (case (dev, ctxt) of
        (Some d, Some c) \<Rightarrow>
          let (rv, ctxt_data, d') = rd d sel hw_qid num_words
          in if rv < 0 then (rv, ctxt, Some d')
             else (err_code QDMA_SUCCESS, Some (dec ctxt_data c), Some d')
      | _ \<Rightarrow> (neg_err QDMA_ERR_INV_PARAM, ctxt, dev))"

definition context_cmd ::
  "('d xdev \<Rightarrow> ind_ctxt_cmd_sel \<Rightarrow> u16 \<Rightarrow> int \<times> 'd xdev) \<Rightarrow>
   'd xdev option \<Rightarrow> ind_ctxt_cmd_sel \<Rightarrow> u16 \<Rightarrow> int \<times> 'd xdev option"
where
  "context_cmd cmd dev sel hw_qid =
     (case dev of
        Some d \<Rightarrow> let (rv, d') = cmd d sel hw_qid in (rv, Some d')
      | None \<Rightarrow> (neg_err QDMA_ERR_INV_PARAM, dev))"

text \<open>A function without a structure to fill leaves the caller's as it is.\<close>

definition keep_ctxt :: "'c option \<Rightarrow> int \<times> 'd xdev option \<Rightarrow> int \<times> 'c option \<times> 'd xdev option" where
  "keep_ctxt ctxt = (\<lambda>(rv, dev). (rv, ctxt, dev))"

lemma context_null [simp]:
  "context_write wr enc None sel q c = (-1, None)"
  "context_write wr enc dev sel q None = (-1, dev)"
  "context_read rd n dec None sel q c = (-1, c, None)"
  "context_read rd n dec dev sel q None = (-1, None, dev)"
  "context_cmd cmd None sel q = (-1, None)"
  by (simp_all add: context_write_def context_read_def context_cmd_def split: option.split)

section \<open>Codecs over the hardware\<close>

text \<open>
  What a codec gives on such a device: a structure written at a selector and queue is read
  back as its stored form, whatever is written at other keys in between.
\<close>

context ctxt_codec
begin

lemma write_read:
  assumes "ctxt_hardware io win mem"
  shows "\<exists>d1 ws d2. indirect_reg_write io 0x804 0x844 1 d sel q (enc c) = (0, d1) \<and>
    indirect_reg_read io 0x804 0x844 1 d1 sel q n = (0, ws, d2) \<and> dec ws c0 = stored c c0"
proof -
  let ?k = "cmd_key (ind_ctxt_cmd_word QDMA_CTXT_CMD_RD sel q)"
  obtain d1 where d1: "indirect_reg_write io 0x804 0x844 1 d sel q (enc c) = (0, d1)"
    "mem (xregs d1) ?k = ctxt_pad (enc c)"
    using indirect_write_effect [OF assms, of d sel q "enc c"] by fastforce
  obtain d2 where "indirect_reg_read io 0x804 0x844 1 d1 sel q n =
      (0, map (\<lambda>i. mem (xregs d1) ?k ! i) [0..<n], d2)"
    using indirect_read_effect [OF assms fits_regs, of d1 sel q] by blast
  moreover have "map (\<lambda>i. mem (xregs d1) ?k ! i) [0..<n] = enc c"
    using fits_regs by (intro nth_equalityI) (simp_all add: d1(2) length_enc ctxt_pad_def)
  ultimately show ?thesis using d1(1) dec_enc by auto
qed

lemma context_write_read:
  assumes "ctxt_hardware io win mem"
  shows "\<exists>d1 d2.
    context_write (indirect_reg_write io 0x804 0x844 1) enc (Some d) sel q (Some c) = (0, Some d1) \<and>
    context_read (indirect_reg_read io 0x804 0x844 1) n dec (Some d1) sel q (Some c0) =
      (0, Some (stored c c0), Some d2)"
  using write_read [OF assms, of d sel q c c0]
  by (auto simp: context_write_def context_read_def)

lemma context_clear_read:
  assumes "ctxt_hardware io win mem"
  shows "\<exists>d1 d2.
    context_cmd (indirect_reg_cmd io 0x844 1 QDMA_CTXT_CMD_CLR) (Some d) sel q = (0, Some d1) \<and>
    context_read (indirect_reg_read io 0x804 0x844 1) n dec (Some d1) sel q (Some c0) =
      (0, Some (dec (replicate 8 0) c0), Some d2)"
proof -
  let ?k = "cmd_key (ind_ctxt_cmd_word QDMA_CTXT_CMD_RD sel q)"
  obtain d1 where d1: "indirect_reg_cmd io 0x844 1 QDMA_CTXT_CMD_CLR d sel q = (0, d1)"
    "mem (xregs d1) ?k = replicate 8 0"
    using indirect_clear_effect [OF assms, of d sel q] by auto
  obtain d2 where "indirect_reg_read io 0x804 0x844 1 d1 sel q n =
      (0, map (\<lambda>i. mem (xregs d1) ?k ! i) [0..<n], d2)"
    using indirect_read_effect [OF assms fits_regs, of d1 sel q] by blast
  moreover have "map (\<lambda>i. mem (xregs d1) ?k ! i) [0..<n] = take n (replicate 8 0)"
    using fits_regs by (intro nth_equalityI) (simp_all add: d1(2))
  moreover have "dec (take n (replicate 8 0)) c0 = dec (replicate 8 0) c0"
    by (rule dec_take)
  ultimately show ?thesis
    using d1(1) by (auto simp: context_cmd_def context_read_def)
qed

end

section \<open>A register file that obeys the specification\<close>

text \<open>
  The smallest device of this kind: commands complete at once. It shows that the
  hypothesis on the hardware can be met and is the device of the witnesses below.
\<close>

definition sim_cmd :: "u32 \<Rightarrow> ctxt_window \<times> ctxt_memory \<Rightarrow> ctxt_window \<times> ctxt_memory" where
  "sim_cmd cmd = (\<lambda>(w, m).
     if cmd_op_bits cmd = 0 then (w, m(cmd_key cmd := replicate 8 0))
     else if cmd_op_bits cmd = 1 then (w, m(cmd_key cmd := write_merge w (m (cmd_key cmd))))
     else if cmd_op_bits cmd = 2 then
       (\<lambda>a. if in_window a \<and> a < 0x824 then m (cmd_key cmd) ! unat ((a - 0x804) div 4) else w a, m)
     else (w, m))"

definition sim_io :: "(ctxt_window \<times> ctxt_memory) mmio" where
  "sim_io = \<lparr>
     readl = (\<lambda>r a. (if a = 0x844 then 0 else fst r a, r)),
     writel = (\<lambda>r a v. if a = 0x844 then sim_cmd v r else ((fst r)(a := v), snd r)),
     udelay = (\<lambda>r us. r)\<rparr>"

definition sim_dev :: "(ctxt_window \<times> ctxt_memory) xdev" where
  "sim_dev = \<lparr>xregs = (\<lambda>_. 0, \<lambda>_. replicate 8 0), hw_prg_lock = False\<rparr>"

lemma sim_cmd_effect: "cmd_effect cmd r (sim_cmd cmd r)"
  by (simp add: cmd_effect_def sim_cmd_def split_beta all_lt_8 in_window_def)

lemma sim_io_simps [simp]:
  "readl sim_io r a = (if a = 0x844 then 0 else fst r a, r)"
  "writel sim_io r a v = (if a = 0x844 then sim_cmd v r else ((fst r)(a := v), snd r))"
  "udelay sim_io r us = r"
  by (simp_all add: sim_io_def)

lemma sim_hardware: "ctxt_hardware sim_io fst snd"
proof -
  have "poll_hit sim_io 0x844 1 0 d" for d
    by (simp add: poll_hit_def qdma_reg_read_def)
  moreover have "xregs (snd (qdma_reg_read sim_io (qdma_reg_write sim_io d 0x844 cmd) 0x844)) =
      sim_cmd cmd (xregs d)" for d cmd
    by (simp add: qdma_reg_read_def qdma_reg_write_def)
  moreover have "a \<noteq> 0x844" if "in_window a" for a
    using that by (auto simp: in_window_def)
  ultimately show ?thesis
    by (auto simp: ctxt_hardware_def Let_def sim_cmd_effect intro!: exI [of _ 0])
qed

section \<open>Properties\<close>

text \<open>Every indirect operation releases the register lock on every path and returns 0 or
  -QDMA_ERR_HWACC_BUSY_TIMEOUT; a read that succeeds gives exactly the number of words asked
  for, and one that times out none.\<close>

theorem eqdma_indirect_outcome:
  "fst (eqdma_indirect_reg_invalidate io d sel q) \<in> {0, neg_err QDMA_ERR_HWACC_BUSY_TIMEOUT} \<and>
   fst (eqdma_indirect_reg_clear io d sel q) \<in> {0, neg_err QDMA_ERR_HWACC_BUSY_TIMEOUT} \<and>
   fst (eqdma_indirect_reg_write io d sel q data) \<in> {0, neg_err QDMA_ERR_HWACC_BUSY_TIMEOUT} \<and>
   \<not> hw_prg_lock (snd (eqdma_indirect_reg_invalidate io d sel q)) \<and>
   \<not> hw_prg_lock (snd (eqdma_indirect_reg_clear io d sel q)) \<and>
   \<not> hw_prg_lock (snd (eqdma_indirect_reg_write io d sel q data)) \<and>
   (case eqdma_indirect_reg_read io d sel q cnt of
      (rv, ws, d') \<Rightarrow> \<not> hw_prg_lock d' \<and>
        (rv, length ws) \<in> {(0, cnt), (neg_err QDMA_ERR_HWACC_BUSY_TIMEOUT, 0)})"
  using indirect_read_outcome [of cnt io "0x804" "0x844" 1 d sel q]
    indirect_cmd_outcome [of io "0x844" 1 QDMA_CTXT_CMD_INV d sel q]
    indirect_cmd_outcome [of io "0x844" 1 QDMA_CTXT_CMD_CLR d sel q]
    indirect_write_outcome [of io "0x804" "0x844" 1 d sel q data]
  by (auto simp: indirect_copies split: prod.splits)

text \<open>On a device that follows the register specification, a context written at a selector
  and queue with the soft IP's sequence is what the read sequence returns there, and every other
  selector or queue (modulo 4096) reads what it read before.\<close>

theorem eqdma_indirect_write_read:
  assumes "ctxt_hardware io win mem"
  shows "fst (eqdma_indirect_reg_write io d sel q data) = 0 \<and>
    (case eqdma_indirect_reg_read io (snd (eqdma_indirect_reg_write io d sel q data)) sel' q' 8 of
       (rv, ws, _) \<Rightarrow> rv = 0 \<and>
         ws = (if sel' = sel \<and> take_bit 12 q' = take_bit 12 q then ctxt_pad data
               else fst (snd (eqdma_indirect_reg_read io d sel' q' 8))))"
proof -
  obtain d1 where d1: "indirect_reg_write io 0x804 0x844 1 d sel q data = (0, d1)"
    "mem (xregs d1) = (mem (xregs d))
       (cmd_key (ind_ctxt_cmd_word QDMA_CTXT_CMD_RD sel q) := ctxt_pad data)"
    using indirect_write_effect [OF assms] by blast
  obtain d2 d3 where
    "indirect_reg_read io 0x804 0x844 1 d1 sel' q' 8 = (0, map (\<lambda>i. mem (xregs d1)
       (cmd_key (ind_ctxt_cmd_word QDMA_CTXT_CMD_RD sel' q')) ! i) [0..<8], d2)"
    "indirect_reg_read io 0x804 0x844 1 d sel' q' 8 = (0, map (\<lambda>i. mem (xregs d)
       (cmd_key (ind_ctxt_cmd_word QDMA_CTXT_CMD_RD sel' q')) ! i) [0..<8], d3)"
    using indirect_read_effect [OF assms order_refl] by metis
  then show ?thesis
    by (auto simp: indirect_copies d1 cmd_key_eq_iff list_eq_nth_upt)
qed

theorem eqdma_indirect_write_read_witness:
  "fst (eqdma_indirect_reg_write sim_io sim_dev QDMA_CTXT_SEL_CMPT 5 [7, 9]) = 0 \<and>
   (case eqdma_indirect_reg_read sim_io
       (snd (eqdma_indirect_reg_write sim_io sim_dev QDMA_CTXT_SEL_CMPT 5 [7, 9]))
       QDMA_CTXT_SEL_CMPT 5 8 of (rv, ws, _) \<Rightarrow> rv = 0 \<and> ws = [7, 9, 0, 0, 0, 0, 0, 0])"
  using eqdma_indirect_write_read [OF sim_hardware, of sim_dev QDMA_CTXT_SEL_CMPT 5 "[7, 9]"
      QDMA_CTXT_SEL_CMPT 5]
  by (simp add: ctxt_pad_def upt_8 split: prod.splits)

end
