(* ===== verification/EqdmaCtxt.thy ===== *)
theory EqdmaCtxt
  imports IndirectCtxt
begin

text \<open>
  The context functions of the enhanced soft IP, eqdma_soft_access.c: for every context its
  encoder (the words the write function assembles), its decoder (what the read function does
  with the words), the read, write, clear and invalidate functions over the indirect
  registers, and the function of the access table that dispatches on the access type.
  The masks are those of eqdma_soft_reg.h and eqdma_soft_access.h.
\<close>

section \<open>Register fields\<close>

abbreviation EQDMA_SW_CTXT_PASID_GET_L_MASK :: u32 where "EQDMA_SW_CTXT_PASID_GET_L_MASK \<equiv> GENMASK 11 0"
abbreviation EQDMA_SW_CTXT_PASID_GET_H_MASK :: u32 where "EQDMA_SW_CTXT_PASID_GET_H_MASK \<equiv> GENMASK 21 12"
abbreviation EQDMA_SW_CTXT_VIRTIO_DSC_BASE_GET_L_MASK :: u64 where "EQDMA_SW_CTXT_VIRTIO_DSC_BASE_GET_L_MASK \<equiv> GENMASK 20 0"
abbreviation EQDMA_SW_CTXT_VIRTIO_DSC_BASE_GET_M_MASK :: u64 where "EQDMA_SW_CTXT_VIRTIO_DSC_BASE_GET_M_MASK \<equiv> GENMASK 52 21"
abbreviation EQDMA_SW_CTXT_VIRTIO_DSC_BASE_GET_H_MASK :: u64 where "EQDMA_SW_CTXT_VIRTIO_DSC_BASE_GET_H_MASK \<equiv> GENMASK 63 53"
abbreviation SW_IND_CTXT_DATA_W0_PIDX_MASK :: u32 where "SW_IND_CTXT_DATA_W0_PIDX_MASK \<equiv> GENMASK 15 0"
abbreviation SW_IND_CTXT_DATA_W0_IRQ_ARM_MASK :: u32 where "SW_IND_CTXT_DATA_W0_IRQ_ARM_MASK \<equiv> BIT 16"
abbreviation SW_IND_CTXT_DATA_W0_FNC_MASK :: u32 where "SW_IND_CTXT_DATA_W0_FNC_MASK \<equiv> GENMASK 28 17"
abbreviation SW_IND_CTXT_DATA_W1_QEN_MASK :: u32 where "SW_IND_CTXT_DATA_W1_QEN_MASK \<equiv> BIT 0"
abbreviation SW_IND_CTXT_DATA_W1_FCRD_EN_MASK :: u32 where "SW_IND_CTXT_DATA_W1_FCRD_EN_MASK \<equiv> BIT 1"
abbreviation SW_IND_CTXT_DATA_W1_WBI_CHK_MASK :: u32 where "SW_IND_CTXT_DATA_W1_WBI_CHK_MASK \<equiv> BIT 2"
abbreviation SW_IND_CTXT_DATA_W1_WBI_INTVL_EN_MASK :: u32 where "SW_IND_CTXT_DATA_W1_WBI_INTVL_EN_MASK \<equiv> BIT 3"
abbreviation SW_IND_CTXT_DATA_W1_AT_MASK :: u32 where "SW_IND_CTXT_DATA_W1_AT_MASK \<equiv> BIT 4"
abbreviation SW_IND_CTXT_DATA_W1_FETCH_MAX_MASK :: u32 where "SW_IND_CTXT_DATA_W1_FETCH_MAX_MASK \<equiv> GENMASK 8 5"
abbreviation SW_IND_CTXT_DATA_W1_RNG_SZ_MASK :: u32 where "SW_IND_CTXT_DATA_W1_RNG_SZ_MASK \<equiv> GENMASK 15 12"
abbreviation SW_IND_CTXT_DATA_W1_DSC_SZ_MASK :: u32 where "SW_IND_CTXT_DATA_W1_DSC_SZ_MASK \<equiv> GENMASK 17 16"
abbreviation SW_IND_CTXT_DATA_W1_BYPASS_MASK :: u32 where "SW_IND_CTXT_DATA_W1_BYPASS_MASK \<equiv> BIT 18"
abbreviation SW_IND_CTXT_DATA_W1_MM_CHN_MASK :: u32 where "SW_IND_CTXT_DATA_W1_MM_CHN_MASK \<equiv> BIT 19"
abbreviation SW_IND_CTXT_DATA_W1_WBK_EN_MASK :: u32 where "SW_IND_CTXT_DATA_W1_WBK_EN_MASK \<equiv> BIT 20"
abbreviation SW_IND_CTXT_DATA_W1_IRQ_EN_MASK :: u32 where "SW_IND_CTXT_DATA_W1_IRQ_EN_MASK \<equiv> BIT 21"
abbreviation SW_IND_CTXT_DATA_W1_PORT_ID_MASK :: u32 where "SW_IND_CTXT_DATA_W1_PORT_ID_MASK \<equiv> GENMASK 24 22"
abbreviation SW_IND_CTXT_DATA_W1_IRQ_NO_LAST_MASK :: u32 where "SW_IND_CTXT_DATA_W1_IRQ_NO_LAST_MASK \<equiv> BIT 25"
abbreviation SW_IND_CTXT_DATA_W1_ERR_MASK :: u32 where "SW_IND_CTXT_DATA_W1_ERR_MASK \<equiv> GENMASK 27 26"
abbreviation SW_IND_CTXT_DATA_W1_ERR_WB_SENT_MASK :: u32 where "SW_IND_CTXT_DATA_W1_ERR_WB_SENT_MASK \<equiv> BIT 28"
abbreviation SW_IND_CTXT_DATA_W1_IRQ_REQ_MASK :: u32 where "SW_IND_CTXT_DATA_W1_IRQ_REQ_MASK \<equiv> BIT 29"
abbreviation SW_IND_CTXT_DATA_W1_MRKR_DIS_MASK :: u32 where "SW_IND_CTXT_DATA_W1_MRKR_DIS_MASK \<equiv> BIT 30"
abbreviation SW_IND_CTXT_DATA_W1_IS_MM_MASK :: u32 where "SW_IND_CTXT_DATA_W1_IS_MM_MASK \<equiv> BIT 31"
abbreviation SW_IND_CTXT_DATA_W4_VEC_MASK :: u32 where "SW_IND_CTXT_DATA_W4_VEC_MASK \<equiv> GENMASK 10 0"
abbreviation SW_IND_CTXT_DATA_W4_INT_AGGR_MASK :: u32 where "SW_IND_CTXT_DATA_W4_INT_AGGR_MASK \<equiv> BIT 11"
abbreviation SW_IND_CTXT_DATA_W4_DIS_INTR_ON_VF_MASK :: u32 where "SW_IND_CTXT_DATA_W4_DIS_INTR_ON_VF_MASK \<equiv> BIT 12"
abbreviation SW_IND_CTXT_DATA_W4_VIRTIO_EN_MASK :: u32 where "SW_IND_CTXT_DATA_W4_VIRTIO_EN_MASK \<equiv> BIT 13"
abbreviation SW_IND_CTXT_DATA_W4_PACK_BYP_OUT_MASK :: u32 where "SW_IND_CTXT_DATA_W4_PACK_BYP_OUT_MASK \<equiv> BIT 14"
abbreviation SW_IND_CTXT_DATA_W4_IRQ_BYP_MASK :: u32 where "SW_IND_CTXT_DATA_W4_IRQ_BYP_MASK \<equiv> BIT 15"
abbreviation SW_IND_CTXT_DATA_W4_HOST_ID_MASK :: u32 where "SW_IND_CTXT_DATA_W4_HOST_ID_MASK \<equiv> GENMASK 19 16"
abbreviation SW_IND_CTXT_DATA_W4_PASID_L_MASK :: u32 where "SW_IND_CTXT_DATA_W4_PASID_L_MASK \<equiv> GENMASK 31 20"
abbreviation SW_IND_CTXT_DATA_W5_PASID_H_MASK :: u32 where "SW_IND_CTXT_DATA_W5_PASID_H_MASK \<equiv> GENMASK 9 0"
abbreviation SW_IND_CTXT_DATA_W5_PASID_EN_MASK :: u32 where "SW_IND_CTXT_DATA_W5_PASID_EN_MASK \<equiv> BIT 10"
abbreviation SW_IND_CTXT_DATA_W5_VIRTIO_DSC_BASE_L_MASK :: u32 where "SW_IND_CTXT_DATA_W5_VIRTIO_DSC_BASE_L_MASK \<equiv> GENMASK 31 11"
abbreviation SW_IND_CTXT_DATA_W6_VIRTIO_DSC_BASE_M_MASK :: u32 where "SW_IND_CTXT_DATA_W6_VIRTIO_DSC_BASE_M_MASK \<equiv> GENMASK 31 0"
abbreviation SW_IND_CTXT_DATA_W7_VIRTIO_DSC_BASE_H_MASK :: u32 where "SW_IND_CTXT_DATA_W7_VIRTIO_DSC_BASE_H_MASK \<equiv> GENMASK 10 0"
abbreviation PREFETCH_CTXT_DATA_W0_BYPASS_MASK :: u32 where "PREFETCH_CTXT_DATA_W0_BYPASS_MASK \<equiv> BIT 0"
abbreviation PREFETCH_CTXT_DATA_W0_BUF_SZ_IDX_MASK :: u32 where "PREFETCH_CTXT_DATA_W0_BUF_SZ_IDX_MASK \<equiv> GENMASK 4 1"
abbreviation PREFETCH_CTXT_DATA_W0_PORT_ID_MASK :: u32 where "PREFETCH_CTXT_DATA_W0_PORT_ID_MASK \<equiv> GENMASK 7 5"
abbreviation PREFETCH_CTXT_DATA_W0_NUM_PFCH_MASK :: u32 where "PREFETCH_CTXT_DATA_W0_NUM_PFCH_MASK \<equiv> GENMASK 15 10"
abbreviation PREFETCH_CTXT_DATA_W0_VAR_DESC_MASK :: u32 where "PREFETCH_CTXT_DATA_W0_VAR_DESC_MASK \<equiv> BIT 8"
abbreviation PREFETCH_CTXT_DATA_W0_ERR_MASK :: u32 where "PREFETCH_CTXT_DATA_W0_ERR_MASK \<equiv> BIT 26"
abbreviation PREFETCH_CTXT_DATA_W0_PFCH_EN_MASK :: u32 where "PREFETCH_CTXT_DATA_W0_PFCH_EN_MASK \<equiv> BIT 27"
abbreviation PREFETCH_CTXT_DATA_W0_PFCH_MASK :: u32 where "PREFETCH_CTXT_DATA_W0_PFCH_MASK \<equiv> BIT 28"
abbreviation PREFETCH_CTXT_DATA_W0_SW_CRDT_L_MASK :: u32 where "PREFETCH_CTXT_DATA_W0_SW_CRDT_L_MASK \<equiv> GENMASK 31 29"
abbreviation PREFETCH_CTXT_DATA_W1_SW_CRDT_H_MASK :: u32 where "PREFETCH_CTXT_DATA_W1_SW_CRDT_H_MASK \<equiv> GENMASK 12 0"
abbreviation PREFETCH_CTXT_DATA_W1_VALID_MASK :: u32 where "PREFETCH_CTXT_DATA_W1_VALID_MASK \<equiv> BIT 13"
abbreviation EQDMA_COMPL_CTXT_BADDR_HIGH_L_MASK :: u64 where "EQDMA_COMPL_CTXT_BADDR_HIGH_L_MASK \<equiv> GENMASK 37 6"
abbreviation EQDMA_COMPL_CTXT_BADDR_HIGH_H_MASK :: u64 where "EQDMA_COMPL_CTXT_BADDR_HIGH_H_MASK \<equiv> GENMASK 63 38"
abbreviation EQDMA_COMPL_CTXT_BADDR_LOW_MASK :: u64 where "EQDMA_COMPL_CTXT_BADDR_LOW_MASK \<equiv> GENMASK 5 2"
abbreviation EQDMA_CMPL_CTXT_PASID_GET_L_MASK :: u32 where "EQDMA_CMPL_CTXT_PASID_GET_L_MASK \<equiv> GENMASK 8 0"
abbreviation EQDMA_CMPL_CTXT_PASID_GET_H_MASK :: u32 where "EQDMA_CMPL_CTXT_PASID_GET_H_MASK \<equiv> GENMASK 21 9"
abbreviation CMPL_CTXT_DATA_W0_EN_STAT_DESC_MASK :: u32 where "CMPL_CTXT_DATA_W0_EN_STAT_DESC_MASK \<equiv> BIT 0"
abbreviation CMPL_CTXT_DATA_W0_EN_INT_MASK :: u32 where "CMPL_CTXT_DATA_W0_EN_INT_MASK \<equiv> BIT 1"
abbreviation CMPL_CTXT_DATA_W0_TRIG_MODE_MASK :: u32 where "CMPL_CTXT_DATA_W0_TRIG_MODE_MASK \<equiv> GENMASK 4 2"
abbreviation CMPL_CTXT_DATA_W0_FNC_ID_MASK :: u32 where "CMPL_CTXT_DATA_W0_FNC_ID_MASK \<equiv> GENMASK 16 5"
abbreviation CMPL_CTXT_DATA_W0_CNTER_IX_MASK :: u32 where "CMPL_CTXT_DATA_W0_CNTER_IX_MASK \<equiv> GENMASK 20 17"
abbreviation CMPL_CTXT_DATA_W0_TIMER_IX_MASK :: u32 where "CMPL_CTXT_DATA_W0_TIMER_IX_MASK \<equiv> GENMASK 24 21"
abbreviation CMPL_CTXT_DATA_W0_INT_ST_MASK :: u32 where "CMPL_CTXT_DATA_W0_INT_ST_MASK \<equiv> GENMASK 26 25"
abbreviation CMPL_CTXT_DATA_W0_COLOR_MASK :: u32 where "CMPL_CTXT_DATA_W0_COLOR_MASK \<equiv> BIT 27"
abbreviation CMPL_CTXT_DATA_W0_QSIZE_IX_MASK :: u32 where "CMPL_CTXT_DATA_W0_QSIZE_IX_MASK \<equiv> GENMASK 31 28"
abbreviation CMPL_CTXT_DATA_W1_BADDR4_HIGH_L_MASK :: u32 where "CMPL_CTXT_DATA_W1_BADDR4_HIGH_L_MASK \<equiv> GENMASK 31 0"
abbreviation CMPL_CTXT_DATA_W2_BADDR4_HIGH_H_MASK :: u32 where "CMPL_CTXT_DATA_W2_BADDR4_HIGH_H_MASK \<equiv> GENMASK 25 0"
abbreviation CMPL_CTXT_DATA_W2_DESC_SIZE_MASK :: u32 where "CMPL_CTXT_DATA_W2_DESC_SIZE_MASK \<equiv> GENMASK 27 26"
abbreviation CMPL_CTXT_DATA_W2_PIDX_L_MASK :: u32 where "CMPL_CTXT_DATA_W2_PIDX_L_MASK \<equiv> GENMASK 31 28"
abbreviation CMPL_CTXT_DATA_W3_PIDX_H_MASK :: u32 where "CMPL_CTXT_DATA_W3_PIDX_H_MASK \<equiv> GENMASK 11 0"
abbreviation CMPL_CTXT_DATA_W3_CIDX_MASK :: u32 where "CMPL_CTXT_DATA_W3_CIDX_MASK \<equiv> GENMASK 27 12"
abbreviation CMPL_CTXT_DATA_W3_VALID_MASK :: u32 where "CMPL_CTXT_DATA_W3_VALID_MASK \<equiv> BIT 28"
abbreviation CMPL_CTXT_DATA_W3_ERR_MASK :: u32 where "CMPL_CTXT_DATA_W3_ERR_MASK \<equiv> GENMASK 30 29"
abbreviation CMPL_CTXT_DATA_W3_USER_TRIG_PEND_MASK :: u32 where "CMPL_CTXT_DATA_W3_USER_TRIG_PEND_MASK \<equiv> BIT 31"
abbreviation CMPL_CTXT_DATA_W4_TIMER_RUNNING_MASK :: u32 where "CMPL_CTXT_DATA_W4_TIMER_RUNNING_MASK \<equiv> BIT 0"
abbreviation CMPL_CTXT_DATA_W4_FULL_UPD_MASK :: u32 where "CMPL_CTXT_DATA_W4_FULL_UPD_MASK \<equiv> BIT 1"
abbreviation CMPL_CTXT_DATA_W4_OVF_CHK_DIS_MASK :: u32 where "CMPL_CTXT_DATA_W4_OVF_CHK_DIS_MASK \<equiv> BIT 2"
abbreviation CMPL_CTXT_DATA_W4_AT_MASK :: u32 where "CMPL_CTXT_DATA_W4_AT_MASK \<equiv> BIT 3"
abbreviation CMPL_CTXT_DATA_W4_VEC_MASK :: u32 where "CMPL_CTXT_DATA_W4_VEC_MASK \<equiv> GENMASK 14 4"
abbreviation CMPL_CTXT_DATA_W4_INT_AGGR_MASK :: u32 where "CMPL_CTXT_DATA_W4_INT_AGGR_MASK \<equiv> BIT 15"
abbreviation CMPL_CTXT_DATA_W4_DIS_INTR_ON_VF_MASK :: u32 where "CMPL_CTXT_DATA_W4_DIS_INTR_ON_VF_MASK \<equiv> BIT 16"
abbreviation CMPL_CTXT_DATA_W4_VIO_MASK :: u32 where "CMPL_CTXT_DATA_W4_VIO_MASK \<equiv> BIT 17"
abbreviation CMPL_CTXT_DATA_W4_DIR_C2H_MASK :: u32 where "CMPL_CTXT_DATA_W4_DIR_C2H_MASK \<equiv> BIT 18"
abbreviation CMPL_CTXT_DATA_W4_HOST_ID_MASK :: u32 where "CMPL_CTXT_DATA_W4_HOST_ID_MASK \<equiv> GENMASK 22 19"
abbreviation CMPL_CTXT_DATA_W4_PASID_L_MASK :: u32 where "CMPL_CTXT_DATA_W4_PASID_L_MASK \<equiv> GENMASK 31 23"
abbreviation CMPL_CTXT_DATA_W5_PASID_H_MASK :: u32 where "CMPL_CTXT_DATA_W5_PASID_H_MASK \<equiv> GENMASK 12 0"
abbreviation CMPL_CTXT_DATA_W5_PASID_EN_MASK :: u32 where "CMPL_CTXT_DATA_W5_PASID_EN_MASK \<equiv> BIT 13"
abbreviation CMPL_CTXT_DATA_W5_BADDR4_LOW_MASK :: u32 where "CMPL_CTXT_DATA_W5_BADDR4_LOW_MASK \<equiv> GENMASK 17 14"
abbreviation CMPL_CTXT_DATA_W5_VIO_EOP_MASK :: u32 where "CMPL_CTXT_DATA_W5_VIO_EOP_MASK \<equiv> BIT 18"
abbreviation CMPL_CTXT_DATA_W5_SH_CMPT_MASK :: u32 where "CMPL_CTXT_DATA_W5_SH_CMPT_MASK \<equiv> BIT 19"
abbreviation HW_IND_CTXT_DATA_W0_CIDX_MASK :: u32 where "HW_IND_CTXT_DATA_W0_CIDX_MASK \<equiv> GENMASK 15 0"
abbreviation HW_IND_CTXT_DATA_W0_CRD_USE_MASK :: u32 where "HW_IND_CTXT_DATA_W0_CRD_USE_MASK \<equiv> GENMASK 31 16"
abbreviation HW_IND_CTXT_DATA_W1_DSC_PND_MASK :: u32 where "HW_IND_CTXT_DATA_W1_DSC_PND_MASK \<equiv> BIT 8"
abbreviation HW_IND_CTXT_DATA_W1_IDL_STP_B_MASK :: u32 where "HW_IND_CTXT_DATA_W1_IDL_STP_B_MASK \<equiv> BIT 9"
abbreviation HW_IND_CTXT_DATA_W1_EVT_PND_MASK :: u32 where "HW_IND_CTXT_DATA_W1_EVT_PND_MASK \<equiv> BIT 10"
abbreviation CRED_CTXT_DATA_W0_CREDT_MASK :: u32 where "CRED_CTXT_DATA_W0_CREDT_MASK \<equiv> GENMASK 15 0"
abbreviation EQDMA_FMAP_CTXT_W0_QID_MASK :: u32 where "EQDMA_FMAP_CTXT_W0_QID_MASK \<equiv> GENMASK 10 0"
abbreviation EQDMA_FMAP_CTXT_W1_QID_MAX_MASK :: u32 where "EQDMA_FMAP_CTXT_W1_QID_MAX_MASK \<equiv> GENMASK 11 0"
abbreviation EQDMA_INTR_CTXT_PASID_GET_L_MASK :: u32 where "EQDMA_INTR_CTXT_PASID_GET_L_MASK \<equiv> GENMASK 8 0"
abbreviation EQDMA_INTR_CTXT_PASID_GET_H_MASK :: u32 where "EQDMA_INTR_CTXT_PASID_GET_H_MASK \<equiv> GENMASK 21 9"
abbreviation INTR_CTXT_DATA_W0_VALID_MASK :: u32 where "INTR_CTXT_DATA_W0_VALID_MASK \<equiv> BIT 0"
abbreviation INTR_CTXT_DATA_W0_VEC_MASK :: u32 where "INTR_CTXT_DATA_W0_VEC_MASK \<equiv> GENMASK 11 1"
abbreviation INTR_CTXT_DATA_W0_INT_ST_MASK :: u32 where "INTR_CTXT_DATA_W0_INT_ST_MASK \<equiv> BIT 13"
abbreviation INTR_CTXT_DATA_W0_COLOR_MASK :: u32 where "INTR_CTXT_DATA_W0_COLOR_MASK \<equiv> BIT 14"
abbreviation INTR_CTXT_DATA_W0_BADDR_4K_L_MASK :: u32 where "INTR_CTXT_DATA_W0_BADDR_4K_L_MASK \<equiv> GENMASK 31 15"
abbreviation INTR_CTXT_DATA_W1_BADDR_4K_M_MASK :: u32 where "INTR_CTXT_DATA_W1_BADDR_4K_M_MASK \<equiv> GENMASK 31 0"
abbreviation INTR_CTXT_DATA_W2_BADDR_4K_H_MASK :: u32 where "INTR_CTXT_DATA_W2_BADDR_4K_H_MASK \<equiv> GENMASK 2 0"
abbreviation INTR_CTXT_DATA_W2_PAGE_SIZE_MASK :: u32 where "INTR_CTXT_DATA_W2_PAGE_SIZE_MASK \<equiv> GENMASK 5 3"
abbreviation INTR_CTXT_DATA_W2_PIDX_MASK :: u32 where "INTR_CTXT_DATA_W2_PIDX_MASK \<equiv> GENMASK 17 6"
abbreviation INTR_CTXT_DATA_W2_AT_MASK :: u32 where "INTR_CTXT_DATA_W2_AT_MASK \<equiv> BIT 18"
abbreviation INTR_CTXT_DATA_W2_HOST_ID_MASK :: u32 where "INTR_CTXT_DATA_W2_HOST_ID_MASK \<equiv> GENMASK 22 19"
abbreviation INTR_CTXT_DATA_W2_PASID_L_MASK :: u32 where "INTR_CTXT_DATA_W2_PASID_L_MASK \<equiv> GENMASK 31 23"
abbreviation INTR_CTXT_DATA_W3_PASID_H_MASK :: u32 where "INTR_CTXT_DATA_W3_PASID_H_MASK \<equiv> GENMASK 12 0"
abbreviation INTR_CTXT_DATA_W3_PASID_EN_MASK :: u32 where "INTR_CTXT_DATA_W3_PASID_EN_MASK \<equiv> BIT 13"
abbreviation INTR_CTXT_DATA_W3_FUNC_MASK :: u32 where "INTR_CTXT_DATA_W3_FUNC_MASK \<equiv> GENMASK 29 18"

text \<open>The parts of a value that do not come back in their place, or that pass through a cast.\<close>

lemma virtio_parts:
  "FIELD_SET (GENMASK 63 53 :: u64) (ucast (FIELD_GET (GENMASK 10 0)
       (FIELD_SET (GENMASK 31 0 :: u32) (ucast (FIELD_GET (GENMASK 52 21) v))))) =
     push_bit 53 (take_bit 11 (drop_bit 21 v))"
  "(v AND GENMASK 20 0) OR ((v AND GENMASK 52 21) OR x) = take_bit 53 v OR x"
  by (intro bit_word_eqI; auto simp: FIELD_SET_GENMASK FIELD_GET_GENMASK bit_GENMASK bit_simps)+

lemma cmpt_low_part:
  "FIELD_SET (GENMASK 5 2 :: u64) (ucast (ucast (ucast (take_bit 4
     (ucast (FIELD_GET (GENMASK 5 2) v) :: u32)) :: u8) :: u32)) = v AND GENMASK 5 2"
  by (intro bit_word_eqI)
     (auto simp: FIELD_SET_GENMASK FIELD_GET_GENMASK bit_simps bit_GENMASK
       simp del: add_2_eq_Suc add_2_eq_Suc')

lemma intr_pasid_part:
  "FIELD_SET (ucast (GENMASK 8 0 :: u32) :: u64) (ucast (ucast (FIELD_GET (GENMASK 8 0 :: u32) v) :: u8)) =
     ucast (take_bit 8 v)"
proof -
  have "(ucast (GENMASK 8 0 :: u32) :: u64) = GENMASK 8 0"
    by (intro bit_word_eqI) (auto simp: bit_simps bit_GENMASK)
  then show ?thesis
    by (intro bit_word_eqI) (auto simp: FIELD_SET_GENMASK FIELD_GET_GENMASK bit_simps)
qed

lemmas ctxt_parts = virtio_parts intr_pasid_part cmpt_low_part

section \<open>Software context\<close>

definition eqdma_sw_words :: "qdma_descq_sw_ctxt \<Rightarrow> u32 list" where
  "eqdma_sw_words ctxt =
    (let pasid_l = FIELD_GET EQDMA_SW_CTXT_PASID_GET_L_MASK (sw_pasid ctxt);
         pasid_h = FIELD_GET EQDMA_SW_CTXT_PASID_GET_H_MASK (sw_pasid ctxt);
         virtio_desc_base_l = (ucast (FIELD_GET EQDMA_SW_CTXT_VIRTIO_DSC_BASE_GET_L_MASK (sw_virtio_dsc_base ctxt)) :: u32);
         virtio_desc_base_m = (ucast (FIELD_GET EQDMA_SW_CTXT_VIRTIO_DSC_BASE_GET_M_MASK (sw_virtio_dsc_base ctxt)) :: u32);
         virtio_desc_base_h = (ucast (FIELD_GET EQDMA_SW_CTXT_VIRTIO_DSC_BASE_GET_H_MASK (sw_virtio_dsc_base ctxt)) :: u32) in
     [FIELD_SET SW_IND_CTXT_DATA_W0_PIDX_MASK (ucast (sw_pidx ctxt)) OR
       FIELD_SET SW_IND_CTXT_DATA_W0_IRQ_ARM_MASK (ucast (sw_irq_arm ctxt)) OR
       FIELD_SET SW_IND_CTXT_DATA_W0_FNC_MASK (ucast (sw_fnc_id ctxt)),
      FIELD_SET SW_IND_CTXT_DATA_W1_QEN_MASK (ucast (sw_qen ctxt)) OR
       FIELD_SET SW_IND_CTXT_DATA_W1_FCRD_EN_MASK (ucast (sw_frcd_en ctxt)) OR
       FIELD_SET SW_IND_CTXT_DATA_W1_WBI_CHK_MASK (ucast (sw_wbi_chk ctxt)) OR
       FIELD_SET SW_IND_CTXT_DATA_W1_WBI_INTVL_EN_MASK (ucast (sw_wbi_intvl_en ctxt)) OR
       FIELD_SET SW_IND_CTXT_DATA_W1_AT_MASK (ucast (sw_at ctxt)) OR
       FIELD_SET SW_IND_CTXT_DATA_W1_FETCH_MAX_MASK (ucast (sw_fetch_max ctxt)) OR
       FIELD_SET SW_IND_CTXT_DATA_W1_RNG_SZ_MASK (ucast (sw_rngsz_idx ctxt)) OR
       FIELD_SET SW_IND_CTXT_DATA_W1_DSC_SZ_MASK (ucast (sw_desc_sz ctxt)) OR
       FIELD_SET SW_IND_CTXT_DATA_W1_BYPASS_MASK (ucast (sw_bypass ctxt)) OR
       FIELD_SET SW_IND_CTXT_DATA_W1_MM_CHN_MASK (ucast (sw_mm_chn ctxt)) OR
       FIELD_SET SW_IND_CTXT_DATA_W1_WBK_EN_MASK (ucast (sw_wbk_en ctxt)) OR
       FIELD_SET SW_IND_CTXT_DATA_W1_IRQ_EN_MASK (ucast (sw_irq_en ctxt)) OR
       FIELD_SET SW_IND_CTXT_DATA_W1_PORT_ID_MASK (ucast (sw_port_id ctxt)) OR
       FIELD_SET SW_IND_CTXT_DATA_W1_IRQ_NO_LAST_MASK (ucast (sw_irq_no_last ctxt)) OR
       FIELD_SET SW_IND_CTXT_DATA_W1_ERR_MASK (ucast (sw_err ctxt)) OR
       FIELD_SET SW_IND_CTXT_DATA_W1_ERR_WB_SENT_MASK (ucast (sw_err_wb_sent ctxt)) OR
       FIELD_SET SW_IND_CTXT_DATA_W1_IRQ_REQ_MASK (ucast (sw_irq_req ctxt)) OR
       FIELD_SET SW_IND_CTXT_DATA_W1_MRKR_DIS_MASK (ucast (sw_mrkr_dis ctxt)) OR
       FIELD_SET SW_IND_CTXT_DATA_W1_IS_MM_MASK (ucast (sw_is_mm ctxt)),
      ucast (sw_ring_bs_addr ctxt AND 0xffffffff),
      ucast (drop_bit 32 (sw_ring_bs_addr ctxt) AND 0xffffffff),
      FIELD_SET SW_IND_CTXT_DATA_W4_VEC_MASK (ucast (sw_vec ctxt)) OR
       FIELD_SET SW_IND_CTXT_DATA_W4_INT_AGGR_MASK (ucast (sw_intr_aggr ctxt)) OR
       FIELD_SET SW_IND_CTXT_DATA_W4_DIS_INTR_ON_VF_MASK (ucast (sw_dis_intr_on_vf ctxt)) OR
       FIELD_SET SW_IND_CTXT_DATA_W4_VIRTIO_EN_MASK (ucast (sw_virtio_en ctxt)) OR
       FIELD_SET SW_IND_CTXT_DATA_W4_PACK_BYP_OUT_MASK (ucast (sw_pack_byp_out ctxt)) OR
       FIELD_SET SW_IND_CTXT_DATA_W4_IRQ_BYP_MASK (ucast (sw_irq_byp ctxt)) OR
       FIELD_SET SW_IND_CTXT_DATA_W4_HOST_ID_MASK (ucast (sw_host_id ctxt)) OR
       FIELD_SET SW_IND_CTXT_DATA_W4_PASID_L_MASK pasid_l,
      FIELD_SET SW_IND_CTXT_DATA_W5_PASID_H_MASK pasid_h OR
       FIELD_SET SW_IND_CTXT_DATA_W5_PASID_EN_MASK (ucast (sw_pasid_en ctxt)) OR
       FIELD_SET SW_IND_CTXT_DATA_W5_VIRTIO_DSC_BASE_L_MASK virtio_desc_base_l,
      FIELD_SET SW_IND_CTXT_DATA_W6_VIRTIO_DSC_BASE_M_MASK virtio_desc_base_m,
      FIELD_SET SW_IND_CTXT_DATA_W7_VIRTIO_DSC_BASE_H_MASK virtio_desc_base_h])"

definition eqdma_sw_fields :: "u32 list \<Rightarrow> qdma_descq_sw_ctxt \<Rightarrow> qdma_descq_sw_ctxt" where
  "eqdma_sw_fields ctxt_data ctxt =
    (let pasid_l = FIELD_GET SW_IND_CTXT_DATA_W4_PASID_L_MASK (ctxt_data ! 4);
         pasid_h = FIELD_GET SW_IND_CTXT_DATA_W5_PASID_H_MASK (ctxt_data ! 5);
         virtio_desc_base_l = FIELD_GET SW_IND_CTXT_DATA_W5_VIRTIO_DSC_BASE_L_MASK (ctxt_data ! 5);
         virtio_desc_base_m = FIELD_GET SW_IND_CTXT_DATA_W6_VIRTIO_DSC_BASE_M_MASK (ctxt_data ! 6);
         virtio_desc_base_h = FIELD_GET SW_IND_CTXT_DATA_W7_VIRTIO_DSC_BASE_H_MASK (ctxt_data ! 6) in
     ctxt\<lparr>sw_pidx := ucast (FIELD_GET SW_IND_CTXT_DATA_W0_PIDX_MASK (ctxt_data ! 0)),
       sw_irq_arm := ucast (FIELD_GET SW_IND_CTXT_DATA_W0_IRQ_ARM_MASK (ctxt_data ! 0)),
       sw_fnc_id := ucast (FIELD_GET SW_IND_CTXT_DATA_W0_FNC_MASK (ctxt_data ! 0)),
       sw_qen := ucast (FIELD_GET SW_IND_CTXT_DATA_W1_QEN_MASK (ctxt_data ! 1)),
       sw_frcd_en := ucast (FIELD_GET SW_IND_CTXT_DATA_W1_FCRD_EN_MASK (ctxt_data ! 1)),
       sw_wbi_chk := ucast (FIELD_GET SW_IND_CTXT_DATA_W1_WBI_CHK_MASK (ctxt_data ! 1)),
       sw_wbi_intvl_en := ucast (FIELD_GET SW_IND_CTXT_DATA_W1_WBI_INTVL_EN_MASK (ctxt_data ! 1)),
       sw_at := ucast (FIELD_GET SW_IND_CTXT_DATA_W1_AT_MASK (ctxt_data ! 1)),
       sw_fetch_max := ucast (FIELD_GET SW_IND_CTXT_DATA_W1_FETCH_MAX_MASK (ctxt_data ! 1)),
       sw_rngsz_idx := ucast (FIELD_GET SW_IND_CTXT_DATA_W1_RNG_SZ_MASK (ctxt_data ! 1)),
       sw_desc_sz := ucast (FIELD_GET SW_IND_CTXT_DATA_W1_DSC_SZ_MASK (ctxt_data ! 1)),
       sw_bypass := ucast (FIELD_GET SW_IND_CTXT_DATA_W1_BYPASS_MASK (ctxt_data ! 1)),
       sw_mm_chn := ucast (FIELD_GET SW_IND_CTXT_DATA_W1_MM_CHN_MASK (ctxt_data ! 1)),
       sw_wbk_en := ucast (FIELD_GET SW_IND_CTXT_DATA_W1_WBK_EN_MASK (ctxt_data ! 1)),
       sw_irq_en := ucast (FIELD_GET SW_IND_CTXT_DATA_W1_IRQ_EN_MASK (ctxt_data ! 1)),
       sw_port_id := ucast (FIELD_GET SW_IND_CTXT_DATA_W1_PORT_ID_MASK (ctxt_data ! 1)),
       sw_irq_no_last := ucast (FIELD_GET SW_IND_CTXT_DATA_W1_IRQ_NO_LAST_MASK (ctxt_data ! 1)),
       sw_err := ucast (FIELD_GET SW_IND_CTXT_DATA_W1_ERR_MASK (ctxt_data ! 1)),
       sw_err_wb_sent := ucast (FIELD_GET SW_IND_CTXT_DATA_W1_ERR_WB_SENT_MASK (ctxt_data ! 1)),
       sw_irq_req := ucast (FIELD_GET SW_IND_CTXT_DATA_W1_IRQ_REQ_MASK (ctxt_data ! 1)),
       sw_mrkr_dis := ucast (FIELD_GET SW_IND_CTXT_DATA_W1_MRKR_DIS_MASK (ctxt_data ! 1)),
       sw_is_mm := ucast (FIELD_GET SW_IND_CTXT_DATA_W1_IS_MM_MASK (ctxt_data ! 1)),
       sw_ring_bs_addr := push_bit 32 (ucast (ctxt_data ! 3)) OR ucast (ctxt_data ! 2),
       sw_vec := ucast (FIELD_GET SW_IND_CTXT_DATA_W4_VEC_MASK (ctxt_data ! 4)),
       sw_intr_aggr := ucast (FIELD_GET SW_IND_CTXT_DATA_W4_INT_AGGR_MASK (ctxt_data ! 4)),
       sw_dis_intr_on_vf := ucast (FIELD_GET SW_IND_CTXT_DATA_W4_DIS_INTR_ON_VF_MASK (ctxt_data ! 4)),
       sw_virtio_en := ucast (FIELD_GET SW_IND_CTXT_DATA_W4_VIRTIO_EN_MASK (ctxt_data ! 4)),
       sw_pack_byp_out := ucast (FIELD_GET SW_IND_CTXT_DATA_W4_PACK_BYP_OUT_MASK (ctxt_data ! 4)),
       sw_irq_byp := ucast (FIELD_GET SW_IND_CTXT_DATA_W4_IRQ_BYP_MASK (ctxt_data ! 4)),
       sw_host_id := ucast (FIELD_GET SW_IND_CTXT_DATA_W4_HOST_ID_MASK (ctxt_data ! 4)),
       sw_pasid_en := ucast (FIELD_GET SW_IND_CTXT_DATA_W5_PASID_EN_MASK (ctxt_data ! 5)),
       sw_pasid := FIELD_SET EQDMA_SW_CTXT_PASID_GET_L_MASK pasid_l OR
         FIELD_SET EQDMA_SW_CTXT_PASID_GET_H_MASK pasid_h,
       sw_virtio_dsc_base := FIELD_SET EQDMA_SW_CTXT_VIRTIO_DSC_BASE_GET_L_MASK (ucast virtio_desc_base_l) OR
         FIELD_SET EQDMA_SW_CTXT_VIRTIO_DSC_BASE_GET_M_MASK (ucast virtio_desc_base_m) OR
         FIELD_SET EQDMA_SW_CTXT_VIRTIO_DSC_BASE_GET_H_MASK (ucast virtio_desc_base_h)\<rparr>)"

definition eqdma_sw_context_write ::
  "'d mmio \<Rightarrow> 'd xdev option \<Rightarrow> u8 \<Rightarrow> u16 \<Rightarrow> qdma_descq_sw_ctxt option \<Rightarrow> int \<times> 'd xdev option" where
  "eqdma_sw_context_write io dev c2h hw_qid ctxt =
     context_write (eqdma_indirect_reg_write io) eqdma_sw_words dev
       (if c2h \<noteq> 0 then QDMA_CTXT_SEL_SW_C2H else QDMA_CTXT_SEL_SW_H2C) hw_qid ctxt"

definition eqdma_sw_context_read ::
  "'d mmio \<Rightarrow> 'd xdev option \<Rightarrow> u8 \<Rightarrow> u16 \<Rightarrow> qdma_descq_sw_ctxt option \<Rightarrow> int \<times> qdma_descq_sw_ctxt option \<times> 'd xdev option" where
  "eqdma_sw_context_read io dev c2h hw_qid ctxt =
     context_read (eqdma_indirect_reg_read io) 8 eqdma_sw_fields dev
       (if c2h \<noteq> 0 then QDMA_CTXT_SEL_SW_C2H else QDMA_CTXT_SEL_SW_H2C) hw_qid ctxt"

definition eqdma_sw_context_clear ::
  "'d mmio \<Rightarrow> 'd xdev option \<Rightarrow> u8 \<Rightarrow> u16 \<Rightarrow> int \<times> 'd xdev option" where
  "eqdma_sw_context_clear io dev c2h hw_qid =
     context_cmd (eqdma_indirect_reg_clear io) dev
       (if c2h \<noteq> 0 then QDMA_CTXT_SEL_SW_C2H else QDMA_CTXT_SEL_SW_H2C) hw_qid"

definition eqdma_sw_context_invalidate ::
  "'d mmio \<Rightarrow> 'd xdev option \<Rightarrow> u8 \<Rightarrow> u16 \<Rightarrow> int \<times> 'd xdev option" where
  "eqdma_sw_context_invalidate io dev c2h hw_qid =
     context_cmd (eqdma_indirect_reg_invalidate io) dev
       (if c2h \<noteq> 0 then QDMA_CTXT_SEL_SW_C2H else QDMA_CTXT_SEL_SW_H2C) hw_qid"

definition eqdma_sw_ctx_conf ::
  "'d mmio \<Rightarrow> 'd xdev option \<Rightarrow> u8 \<Rightarrow> u16 \<Rightarrow> qdma_descq_sw_ctxt option \<Rightarrow> qdma_hw_access_type \<Rightarrow>
   int \<times> qdma_descq_sw_ctxt option \<times> 'd xdev option" where
  "eqdma_sw_ctx_conf io dev c2h hw_qid ctxt access_type =
     (case access_type of
        QDMA_HW_ACCESS_READ \<Rightarrow> eqdma_sw_context_read io dev c2h hw_qid ctxt
      | QDMA_HW_ACCESS_WRITE \<Rightarrow> keep_ctxt ctxt (eqdma_sw_context_write io dev c2h hw_qid ctxt)
      | QDMA_HW_ACCESS_CLEAR \<Rightarrow> keep_ctxt ctxt (eqdma_sw_context_clear io dev c2h hw_qid)
      | QDMA_HW_ACCESS_INVALIDATE \<Rightarrow> keep_ctxt ctxt (eqdma_sw_context_invalidate io dev c2h hw_qid)
      | _ \<Rightarrow> (neg_err QDMA_ERR_INV_PARAM, ctxt, dev))"

text \<open>What a software context keeps on its way through the registers.\<close>

definition eqdma_sw_stored :: "qdma_descq_sw_ctxt \<Rightarrow> qdma_descq_sw_ctxt \<Rightarrow> qdma_descq_sw_ctxt" where
  "eqdma_sw_stored c c0 =
     c0\<lparr>sw_pidx := sw_pidx c,
       sw_irq_arm := take_bit 1 (sw_irq_arm c),
       sw_fnc_id := sw_fnc_id c,
       sw_qen := take_bit 1 (sw_qen c),
       sw_frcd_en := take_bit 1 (sw_frcd_en c),
       sw_wbi_chk := take_bit 1 (sw_wbi_chk c),
       sw_wbi_intvl_en := take_bit 1 (sw_wbi_intvl_en c),
       sw_at := take_bit 1 (sw_at c),
       sw_fetch_max := take_bit 4 (sw_fetch_max c),
       sw_rngsz_idx := take_bit 4 (sw_rngsz_idx c),
       sw_desc_sz := take_bit 2 (sw_desc_sz c),
       sw_bypass := take_bit 1 (sw_bypass c),
       sw_mm_chn := take_bit 1 (sw_mm_chn c),
       sw_wbk_en := take_bit 1 (sw_wbk_en c),
       sw_irq_en := take_bit 1 (sw_irq_en c),
       sw_port_id := take_bit 3 (sw_port_id c),
       sw_irq_no_last := take_bit 1 (sw_irq_no_last c),
       sw_err := take_bit 2 (sw_err c),
       sw_err_wb_sent := take_bit 1 (sw_err_wb_sent c),
       sw_irq_req := take_bit 1 (sw_irq_req c),
       sw_mrkr_dis := take_bit 1 (sw_mrkr_dis c),
       sw_is_mm := take_bit 1 (sw_is_mm c),
       sw_ring_bs_addr := sw_ring_bs_addr c,
       sw_vec := take_bit 11 (sw_vec c),
       sw_intr_aggr := take_bit 1 (sw_intr_aggr c),
       sw_dis_intr_on_vf := take_bit 1 (sw_dis_intr_on_vf c),
       sw_virtio_en := take_bit 1 (sw_virtio_en c),
       sw_pack_byp_out := take_bit 1 (sw_pack_byp_out c),
       sw_irq_byp := take_bit 1 (sw_irq_byp c),
       sw_host_id := take_bit 4 (sw_host_id c),
       sw_pasid_en := take_bit 1 (sw_pasid_en c),
       sw_pasid := take_bit 22 (sw_pasid c),
       sw_virtio_dsc_base := take_bit 53 (sw_virtio_dsc_base c) OR
         push_bit 53 (take_bit 11 (drop_bit 21 (sw_virtio_dsc_base c)))\<rparr>"

lemma eqdma_sw_dec_enc: "eqdma_sw_fields (eqdma_sw_words c) c0 = eqdma_sw_stored c c0"
  by (simp add: eqdma_sw_fields_def eqdma_sw_words_def eqdma_sw_stored_def field_simps field_parts ctxt_parts;
      (simp add: AND_GENMASK_low field_simps)?)

interpretation eqdma_sw: ctxt_codec eqdma_sw_words eqdma_sw_fields eqdma_sw_stored 8
  by unfold_locales
     (simp_all only: eqdma_sw_dec_enc, simp_all add: eqdma_sw_words_def eqdma_sw_fields_def)

section \<open>Prefetch context\<close>

definition eqdma_pfetch_words :: "qdma_descq_prefetch_ctxt \<Rightarrow> u32 list" where
  "eqdma_pfetch_words ctxt =
    (let sw_crdt_l = FIELD_GET QDMA_PFTCH_CTXT_SW_CRDT_GET_L_MASK (ucast (pf_sw_crdt ctxt));
         sw_crdt_h = FIELD_GET QDMA_PFTCH_CTXT_SW_CRDT_GET_H_MASK (ucast (pf_sw_crdt ctxt)) in
     [FIELD_SET PREFETCH_CTXT_DATA_W0_BYPASS_MASK (ucast (pf_bypass ctxt)) OR
       FIELD_SET PREFETCH_CTXT_DATA_W0_BUF_SZ_IDX_MASK (ucast (pf_bufsz_idx ctxt)) OR
       FIELD_SET PREFETCH_CTXT_DATA_W0_PORT_ID_MASK (ucast (pf_port_id ctxt)) OR
       FIELD_SET PREFETCH_CTXT_DATA_W0_NUM_PFCH_MASK (ucast (pf_num_pftch ctxt)) OR
       FIELD_SET PREFETCH_CTXT_DATA_W0_VAR_DESC_MASK (ucast (pf_var_desc ctxt)) OR
       FIELD_SET PREFETCH_CTXT_DATA_W0_ERR_MASK (ucast (pf_err ctxt)) OR
       FIELD_SET PREFETCH_CTXT_DATA_W0_PFCH_EN_MASK (ucast (pf_pfch_en ctxt)) OR
       FIELD_SET PREFETCH_CTXT_DATA_W0_PFCH_MASK (ucast (pf_pfch ctxt)) OR
       FIELD_SET PREFETCH_CTXT_DATA_W0_SW_CRDT_L_MASK sw_crdt_l,
      FIELD_SET PREFETCH_CTXT_DATA_W1_SW_CRDT_H_MASK sw_crdt_h OR
       FIELD_SET PREFETCH_CTXT_DATA_W1_VALID_MASK (ucast (pf_valid ctxt))])"

definition eqdma_pfetch_fields :: "u32 list \<Rightarrow> qdma_descq_prefetch_ctxt \<Rightarrow> qdma_descq_prefetch_ctxt" where
  "eqdma_pfetch_fields ctxt_data ctxt =
    (let sw_crdt_l = FIELD_GET PREFETCH_CTXT_DATA_W0_SW_CRDT_L_MASK (ctxt_data ! 0);
         sw_crdt_h = FIELD_GET PREFETCH_CTXT_DATA_W1_SW_CRDT_H_MASK (ctxt_data ! 1) in
     ctxt\<lparr>pf_bypass := ucast (FIELD_GET PREFETCH_CTXT_DATA_W0_BYPASS_MASK (ctxt_data ! 0)),
       pf_bufsz_idx := ucast (FIELD_GET PREFETCH_CTXT_DATA_W0_BUF_SZ_IDX_MASK (ctxt_data ! 0)),
       pf_num_pftch := ucast (FIELD_GET PREFETCH_CTXT_DATA_W0_NUM_PFCH_MASK (ctxt_data ! 0)),
       pf_port_id := ucast (FIELD_GET PREFETCH_CTXT_DATA_W0_PORT_ID_MASK (ctxt_data ! 0)),
       pf_var_desc := ucast (FIELD_GET PREFETCH_CTXT_DATA_W0_VAR_DESC_MASK (ctxt_data ! 0)),
       pf_err := ucast (FIELD_GET PREFETCH_CTXT_DATA_W0_ERR_MASK (ctxt_data ! 0)),
       pf_pfch_en := ucast (FIELD_GET PREFETCH_CTXT_DATA_W0_PFCH_EN_MASK (ctxt_data ! 0)),
       pf_pfch := ucast (FIELD_GET PREFETCH_CTXT_DATA_W0_PFCH_MASK (ctxt_data ! 0)),
       pf_valid := ucast (FIELD_GET PREFETCH_CTXT_DATA_W1_VALID_MASK (ctxt_data ! 1)),
       pf_sw_crdt := ucast (FIELD_SET QDMA_PFTCH_CTXT_SW_CRDT_GET_L_MASK sw_crdt_l OR
         FIELD_SET QDMA_PFTCH_CTXT_SW_CRDT_GET_H_MASK sw_crdt_h)\<rparr>)"

definition eqdma_pfetch_context_write ::
  "'d mmio \<Rightarrow> 'd xdev option \<Rightarrow> u16 \<Rightarrow> qdma_descq_prefetch_ctxt option \<Rightarrow> int \<times> 'd xdev option" where
  "eqdma_pfetch_context_write io dev hw_qid ctxt =
     context_write (eqdma_indirect_reg_write io) eqdma_pfetch_words dev
       QDMA_CTXT_SEL_PFTCH hw_qid ctxt"

definition eqdma_pfetch_context_read ::
  "'d mmio \<Rightarrow> 'd xdev option \<Rightarrow> u16 \<Rightarrow> qdma_descq_prefetch_ctxt option \<Rightarrow> int \<times> qdma_descq_prefetch_ctxt option \<times> 'd xdev option" where
  "eqdma_pfetch_context_read io dev hw_qid ctxt =
     context_read (eqdma_indirect_reg_read io) 2 eqdma_pfetch_fields dev
       QDMA_CTXT_SEL_PFTCH hw_qid ctxt"

definition eqdma_pfetch_context_clear ::
  "'d mmio \<Rightarrow> 'd xdev option \<Rightarrow> u16 \<Rightarrow> int \<times> 'd xdev option" where
  "eqdma_pfetch_context_clear io dev hw_qid =
     context_cmd (eqdma_indirect_reg_clear io) dev
       QDMA_CTXT_SEL_PFTCH hw_qid"

definition eqdma_pfetch_context_invalidate ::
  "'d mmio \<Rightarrow> 'd xdev option \<Rightarrow> u16 \<Rightarrow> int \<times> 'd xdev option" where
  "eqdma_pfetch_context_invalidate io dev hw_qid =
     context_cmd (eqdma_indirect_reg_invalidate io) dev
       QDMA_CTXT_SEL_PFTCH hw_qid"

definition eqdma_pfetch_ctx_conf ::
  "'d mmio \<Rightarrow> 'd xdev option \<Rightarrow> u16 \<Rightarrow> qdma_descq_prefetch_ctxt option \<Rightarrow> qdma_hw_access_type \<Rightarrow>
   int \<times> qdma_descq_prefetch_ctxt option \<times> 'd xdev option" where
  "eqdma_pfetch_ctx_conf io dev hw_qid ctxt access_type =
     (case access_type of
        QDMA_HW_ACCESS_READ \<Rightarrow> eqdma_pfetch_context_read io dev hw_qid ctxt
      | QDMA_HW_ACCESS_WRITE \<Rightarrow> keep_ctxt ctxt (eqdma_pfetch_context_write io dev hw_qid ctxt)
      | QDMA_HW_ACCESS_CLEAR \<Rightarrow> keep_ctxt ctxt (eqdma_pfetch_context_clear io dev hw_qid)
      | QDMA_HW_ACCESS_INVALIDATE \<Rightarrow> keep_ctxt ctxt (eqdma_pfetch_context_invalidate io dev hw_qid)
      | _ \<Rightarrow> (neg_err QDMA_ERR_INV_PARAM, ctxt, dev))"

text \<open>What a prefetch context keeps on its way through the registers.\<close>

definition eqdma_pfetch_stored :: "qdma_descq_prefetch_ctxt \<Rightarrow> qdma_descq_prefetch_ctxt \<Rightarrow> qdma_descq_prefetch_ctxt" where
  "eqdma_pfetch_stored c c0 =
     c0\<lparr>pf_bypass := take_bit 1 (pf_bypass c),
       pf_bufsz_idx := take_bit 4 (pf_bufsz_idx c),
       pf_num_pftch := take_bit 6 (pf_num_pftch c),
       pf_port_id := take_bit 3 (pf_port_id c),
       pf_var_desc := take_bit 1 (pf_var_desc c),
       pf_err := take_bit 1 (pf_err c),
       pf_pfch_en := take_bit 1 (pf_pfch_en c),
       pf_pfch := take_bit 1 (pf_pfch c),
       pf_valid := take_bit 1 (pf_valid c),
       pf_sw_crdt := pf_sw_crdt c\<rparr>"

lemma eqdma_pfetch_dec_enc: "eqdma_pfetch_fields (eqdma_pfetch_words c) c0 = eqdma_pfetch_stored c c0"
  by (simp add: eqdma_pfetch_fields_def eqdma_pfetch_words_def eqdma_pfetch_stored_def field_simps field_parts ctxt_parts;
      (simp add: AND_GENMASK_low field_simps)?)

interpretation eqdma_pfetch: ctxt_codec eqdma_pfetch_words eqdma_pfetch_fields eqdma_pfetch_stored 2
  by unfold_locales
     (simp_all only: eqdma_pfetch_dec_enc, simp_all add: eqdma_pfetch_words_def eqdma_pfetch_fields_def)

section \<open>Completion context\<close>

definition eqdma_cmpt_words :: "qdma_descq_cmpt_ctxt \<Rightarrow> u32 list" where
  "eqdma_cmpt_words ctxt =
    (let baddr4_high_l = (ucast (FIELD_GET EQDMA_COMPL_CTXT_BADDR_HIGH_L_MASK (cm_bs_addr ctxt)) :: u32);
         baddr4_high_h = (ucast (FIELD_GET EQDMA_COMPL_CTXT_BADDR_HIGH_H_MASK (cm_bs_addr ctxt)) :: u32);
         baddr4_low = (ucast (FIELD_GET EQDMA_COMPL_CTXT_BADDR_LOW_MASK (cm_bs_addr ctxt)) :: u32);
         pidx_l = FIELD_GET QDMA_COMPL_CTXT_PIDX_GET_L_MASK (ucast (cm_pidx ctxt));
         pidx_h = FIELD_GET QDMA_COMPL_CTXT_PIDX_GET_H_MASK (ucast (cm_pidx ctxt));
         pasid_l = FIELD_GET EQDMA_CMPL_CTXT_PASID_GET_L_MASK (cm_pasid ctxt);
         pasid_h = FIELD_GET EQDMA_CMPL_CTXT_PASID_GET_H_MASK (cm_pasid ctxt) in
     [FIELD_SET CMPL_CTXT_DATA_W0_EN_STAT_DESC_MASK (ucast (cm_en_stat_desc ctxt)) OR
       FIELD_SET CMPL_CTXT_DATA_W0_EN_INT_MASK (ucast (cm_en_int ctxt)) OR
       FIELD_SET CMPL_CTXT_DATA_W0_TRIG_MODE_MASK (ucast (cm_trig_mode ctxt)) OR
       FIELD_SET CMPL_CTXT_DATA_W0_FNC_ID_MASK (ucast (cm_fnc_id ctxt)) OR
       FIELD_SET CMPL_CTXT_DATA_W0_CNTER_IX_MASK (ucast (cm_counter_idx ctxt)) OR
       FIELD_SET CMPL_CTXT_DATA_W0_TIMER_IX_MASK (ucast (cm_timer_idx ctxt)) OR
       FIELD_SET CMPL_CTXT_DATA_W0_INT_ST_MASK (ucast (cm_in_st ctxt)) OR
       FIELD_SET CMPL_CTXT_DATA_W0_COLOR_MASK (ucast (cm_color ctxt)) OR
       FIELD_SET CMPL_CTXT_DATA_W0_QSIZE_IX_MASK (ucast (cm_ringsz_idx ctxt)),
      FIELD_SET CMPL_CTXT_DATA_W1_BADDR4_HIGH_L_MASK baddr4_high_l,
      FIELD_SET CMPL_CTXT_DATA_W2_BADDR4_HIGH_H_MASK baddr4_high_h OR
       FIELD_SET CMPL_CTXT_DATA_W2_DESC_SIZE_MASK (ucast (cm_desc_sz ctxt)) OR
       FIELD_SET CMPL_CTXT_DATA_W2_PIDX_L_MASK pidx_l,
      FIELD_SET CMPL_CTXT_DATA_W3_PIDX_H_MASK pidx_h OR
       FIELD_SET CMPL_CTXT_DATA_W3_CIDX_MASK (ucast (cm_cidx ctxt)) OR
       FIELD_SET CMPL_CTXT_DATA_W3_VALID_MASK (ucast (cm_valid ctxt)) OR
       FIELD_SET CMPL_CTXT_DATA_W3_ERR_MASK (ucast (cm_err ctxt)) OR
       FIELD_SET CMPL_CTXT_DATA_W3_USER_TRIG_PEND_MASK (ucast (cm_user_trig_pend ctxt)),
      FIELD_SET CMPL_CTXT_DATA_W4_TIMER_RUNNING_MASK (ucast (cm_timer_running ctxt)) OR
       FIELD_SET CMPL_CTXT_DATA_W4_FULL_UPD_MASK (ucast (cm_full_upd ctxt)) OR
       FIELD_SET CMPL_CTXT_DATA_W4_OVF_CHK_DIS_MASK (ucast (cm_ovf_chk_dis ctxt)) OR
       FIELD_SET CMPL_CTXT_DATA_W4_AT_MASK (ucast (cm_at ctxt)) OR
       FIELD_SET CMPL_CTXT_DATA_W4_VEC_MASK (ucast (cm_vec ctxt)) OR
       FIELD_SET CMPL_CTXT_DATA_W4_INT_AGGR_MASK (ucast (cm_int_aggr ctxt)) OR
       FIELD_SET CMPL_CTXT_DATA_W4_DIS_INTR_ON_VF_MASK (ucast (cm_dis_intr_on_vf ctxt)) OR
       FIELD_SET CMPL_CTXT_DATA_W4_VIO_MASK (ucast (cm_vio ctxt)) OR
       FIELD_SET CMPL_CTXT_DATA_W4_DIR_C2H_MASK (ucast (cm_dir_c2h ctxt)) OR
       FIELD_SET CMPL_CTXT_DATA_W4_HOST_ID_MASK (ucast (cm_host_id ctxt)) OR
       FIELD_SET CMPL_CTXT_DATA_W4_PASID_L_MASK pasid_l,
      FIELD_SET CMPL_CTXT_DATA_W5_PASID_H_MASK pasid_h OR
       FIELD_SET CMPL_CTXT_DATA_W5_PASID_EN_MASK (ucast (cm_pasid_en ctxt)) OR
       FIELD_SET CMPL_CTXT_DATA_W5_BADDR4_LOW_MASK baddr4_low OR
       FIELD_SET CMPL_CTXT_DATA_W5_VIO_EOP_MASK (ucast (cm_vio_eop ctxt)) OR
       FIELD_SET CMPL_CTXT_DATA_W5_SH_CMPT_MASK (ucast (cm_sh_cmpt ctxt))])"

definition eqdma_cmpt_fields :: "u32 list \<Rightarrow> qdma_descq_cmpt_ctxt \<Rightarrow> qdma_descq_cmpt_ctxt" where
  "eqdma_cmpt_fields ctxt_data ctxt =
    (let baddr4_high_l = FIELD_GET CMPL_CTXT_DATA_W1_BADDR4_HIGH_L_MASK (ctxt_data ! 1);
         baddr4_high_h = FIELD_GET CMPL_CTXT_DATA_W2_BADDR4_HIGH_H_MASK (ctxt_data ! 2);
         pidx_l = FIELD_GET CMPL_CTXT_DATA_W2_PIDX_L_MASK (ctxt_data ! 2);
         pidx_h = FIELD_GET CMPL_CTXT_DATA_W3_PIDX_H_MASK (ctxt_data ! 3);
         pasid_l = FIELD_GET CMPL_CTXT_DATA_W4_PASID_L_MASK (ctxt_data ! 4);
         pasid_h = FIELD_GET CMPL_CTXT_DATA_W5_PASID_H_MASK (ctxt_data ! 5);
         baddr4_low = (ucast (ucast (FIELD_GET CMPL_CTXT_DATA_W5_BADDR4_LOW_MASK (ctxt_data ! 5)) :: 8 word) :: 32 word) in
     ctxt\<lparr>cm_en_stat_desc := ucast (FIELD_GET CMPL_CTXT_DATA_W0_EN_STAT_DESC_MASK (ctxt_data ! 0)),
       cm_en_int := ucast (FIELD_GET CMPL_CTXT_DATA_W0_EN_INT_MASK (ctxt_data ! 0)),
       cm_trig_mode := ucast (FIELD_GET CMPL_CTXT_DATA_W0_TRIG_MODE_MASK (ctxt_data ! 0)),
       cm_fnc_id := ucast (FIELD_GET CMPL_CTXT_DATA_W0_FNC_ID_MASK (ctxt_data ! 0)),
       cm_counter_idx := ucast (FIELD_GET CMPL_CTXT_DATA_W0_CNTER_IX_MASK (ctxt_data ! 0)),
       cm_timer_idx := ucast (FIELD_GET CMPL_CTXT_DATA_W0_TIMER_IX_MASK (ctxt_data ! 0)),
       cm_in_st := ucast (FIELD_GET CMPL_CTXT_DATA_W0_INT_ST_MASK (ctxt_data ! 0)),
       cm_color := ucast (FIELD_GET CMPL_CTXT_DATA_W0_COLOR_MASK (ctxt_data ! 0)),
       cm_ringsz_idx := ucast (FIELD_GET CMPL_CTXT_DATA_W0_QSIZE_IX_MASK (ctxt_data ! 0)),
       cm_desc_sz := ucast (FIELD_GET CMPL_CTXT_DATA_W2_DESC_SIZE_MASK (ctxt_data ! 2)),
       cm_cidx := ucast (FIELD_GET CMPL_CTXT_DATA_W3_CIDX_MASK (ctxt_data ! 3)),
       cm_valid := ucast (FIELD_GET CMPL_CTXT_DATA_W3_VALID_MASK (ctxt_data ! 3)),
       cm_err := ucast (FIELD_GET CMPL_CTXT_DATA_W3_ERR_MASK (ctxt_data ! 3)),
       cm_user_trig_pend := ucast (FIELD_GET CMPL_CTXT_DATA_W3_USER_TRIG_PEND_MASK (ctxt_data ! 3)),
       cm_timer_running := ucast (FIELD_GET CMPL_CTXT_DATA_W4_TIMER_RUNNING_MASK (ctxt_data ! 4)),
       cm_full_upd := ucast (FIELD_GET CMPL_CTXT_DATA_W4_FULL_UPD_MASK (ctxt_data ! 4)),
       cm_ovf_chk_dis := ucast (FIELD_GET CMPL_CTXT_DATA_W4_OVF_CHK_DIS_MASK (ctxt_data ! 4)),
       cm_at := ucast (FIELD_GET CMPL_CTXT_DATA_W4_AT_MASK (ctxt_data ! 4)),
       cm_vec := ucast (FIELD_GET CMPL_CTXT_DATA_W4_VEC_MASK (ctxt_data ! 4)),
       cm_int_aggr := ucast (FIELD_GET CMPL_CTXT_DATA_W4_INT_AGGR_MASK (ctxt_data ! 4)),
       cm_dis_intr_on_vf := ucast (FIELD_GET CMPL_CTXT_DATA_W4_DIS_INTR_ON_VF_MASK (ctxt_data ! 4)),
       cm_vio := ucast (FIELD_GET CMPL_CTXT_DATA_W4_VIO_MASK (ctxt_data ! 4)),
       cm_dir_c2h := ucast (FIELD_GET CMPL_CTXT_DATA_W4_DIR_C2H_MASK (ctxt_data ! 4)),
       cm_host_id := ucast (FIELD_GET CMPL_CTXT_DATA_W4_HOST_ID_MASK (ctxt_data ! 4)),
       cm_pasid_en := ucast (FIELD_GET CMPL_CTXT_DATA_W5_PASID_EN_MASK (ctxt_data ! 5)),
       cm_vio_eop := ucast (FIELD_GET CMPL_CTXT_DATA_W5_VIO_EOP_MASK (ctxt_data ! 5)),
       cm_sh_cmpt := ucast (FIELD_GET CMPL_CTXT_DATA_W5_SH_CMPT_MASK (ctxt_data ! 5)),
       cm_bs_addr := FIELD_SET EQDMA_COMPL_CTXT_BADDR_HIGH_L_MASK (ucast baddr4_high_l) OR
         FIELD_SET EQDMA_COMPL_CTXT_BADDR_HIGH_H_MASK (ucast baddr4_high_h) OR
         FIELD_SET EQDMA_COMPL_CTXT_BADDR_LOW_MASK (ucast baddr4_low),
       cm_pasid := ucast (ucast (FIELD_SET EQDMA_CMPL_CTXT_PASID_GET_L_MASK pasid_l) OR
         FIELD_SET (ucast EQDMA_CMPL_CTXT_PASID_GET_H_MASK :: u64) (ucast pasid_h)),
       cm_pidx := ucast (FIELD_SET QDMA_COMPL_CTXT_PIDX_GET_L_MASK pidx_l OR
         FIELD_SET QDMA_COMPL_CTXT_PIDX_GET_H_MASK pidx_h)\<rparr>)"

definition eqdma_cmpt_context_write ::
  "'d mmio \<Rightarrow> 'd xdev option \<Rightarrow> u16 \<Rightarrow> qdma_descq_cmpt_ctxt option \<Rightarrow> int \<times> 'd xdev option" where
  "eqdma_cmpt_context_write io dev hw_qid ctxt =
     (case (dev, ctxt) of
        (Some d, Some c) \<Rightarrow>
          if cm_trig_mode c > QDMA_CMPT_UPDATE_TRIG_MODE_TMR_CNTR
          then (neg_err QDMA_ERR_INV_PARAM, dev)
          else context_write (eqdma_indirect_reg_write io) eqdma_cmpt_words dev QDMA_CTXT_SEL_CMPT hw_qid ctxt
      | _ \<Rightarrow> (neg_err QDMA_ERR_INV_PARAM, dev))"

definition eqdma_cmpt_context_read ::
  "'d mmio \<Rightarrow> 'd xdev option \<Rightarrow> u16 \<Rightarrow> qdma_descq_cmpt_ctxt option \<Rightarrow> int \<times> qdma_descq_cmpt_ctxt option \<times> 'd xdev option" where
  "eqdma_cmpt_context_read io dev hw_qid ctxt =
     context_read (eqdma_indirect_reg_read io) 6 eqdma_cmpt_fields dev
       QDMA_CTXT_SEL_CMPT hw_qid ctxt"

definition eqdma_cmpt_context_clear ::
  "'d mmio \<Rightarrow> 'd xdev option \<Rightarrow> u16 \<Rightarrow> int \<times> 'd xdev option" where
  "eqdma_cmpt_context_clear io dev hw_qid =
     context_cmd (eqdma_indirect_reg_clear io) dev
       QDMA_CTXT_SEL_CMPT hw_qid"

definition eqdma_cmpt_context_invalidate ::
  "'d mmio \<Rightarrow> 'd xdev option \<Rightarrow> u16 \<Rightarrow> int \<times> 'd xdev option" where
  "eqdma_cmpt_context_invalidate io dev hw_qid =
     context_cmd (eqdma_indirect_reg_invalidate io) dev
       QDMA_CTXT_SEL_CMPT hw_qid"

definition eqdma_cmpt_ctx_conf ::
  "'d mmio \<Rightarrow> 'd xdev option \<Rightarrow> u16 \<Rightarrow> qdma_descq_cmpt_ctxt option \<Rightarrow> qdma_hw_access_type \<Rightarrow>
   int \<times> qdma_descq_cmpt_ctxt option \<times> 'd xdev option" where
  "eqdma_cmpt_ctx_conf io dev hw_qid ctxt access_type =
     (case access_type of
        QDMA_HW_ACCESS_READ \<Rightarrow> eqdma_cmpt_context_read io dev hw_qid ctxt
      | QDMA_HW_ACCESS_WRITE \<Rightarrow> keep_ctxt ctxt (eqdma_cmpt_context_write io dev hw_qid ctxt)
      | QDMA_HW_ACCESS_CLEAR \<Rightarrow> keep_ctxt ctxt (eqdma_cmpt_context_clear io dev hw_qid)
      | QDMA_HW_ACCESS_INVALIDATE \<Rightarrow> keep_ctxt ctxt (eqdma_cmpt_context_invalidate io dev hw_qid)
      | _ \<Rightarrow> (neg_err QDMA_ERR_INV_PARAM, ctxt, dev))"

text \<open>What a completion context keeps on its way through the registers.\<close>

definition eqdma_cmpt_stored :: "qdma_descq_cmpt_ctxt \<Rightarrow> qdma_descq_cmpt_ctxt \<Rightarrow> qdma_descq_cmpt_ctxt" where
  "eqdma_cmpt_stored c c0 =
     c0\<lparr>cm_en_stat_desc := cm_en_stat_desc c,
       cm_en_int := cm_en_int c,
       cm_trig_mode := cm_trig_mode c,
       cm_fnc_id := cm_fnc_id c,
       cm_counter_idx := cm_counter_idx c,
       cm_timer_idx := cm_timer_idx c,
       cm_in_st := cm_in_st c,
       cm_color := cm_color c,
       cm_ringsz_idx := cm_ringsz_idx c,
       cm_desc_sz := cm_desc_sz c,
       cm_cidx := cm_cidx c,
       cm_valid := cm_valid c,
       cm_err := cm_err c,
       cm_user_trig_pend := cm_user_trig_pend c,
       cm_timer_running := cm_timer_running c,
       cm_full_upd := cm_full_upd c,
       cm_ovf_chk_dis := cm_ovf_chk_dis c,
       cm_at := cm_at c,
       cm_vec := cm_vec c,
       cm_int_aggr := cm_int_aggr c,
       cm_dis_intr_on_vf := cm_dis_intr_on_vf c,
       cm_vio := take_bit 1 (cm_vio c),
       cm_dir_c2h := cm_dir_c2h c,
       cm_host_id := cm_host_id c,
       cm_pasid_en := take_bit 1 (cm_pasid_en c),
       cm_vio_eop := take_bit 1 (cm_vio_eop c),
       cm_sh_cmpt := take_bit 1 (cm_sh_cmpt c),
       cm_bs_addr := cm_bs_addr c AND GENMASK 63 2,
       cm_pasid := take_bit 22 (cm_pasid c),
       cm_pidx := cm_pidx c\<rparr>"

lemma eqdma_cmpt_dec_enc: "eqdma_cmpt_fields (eqdma_cmpt_words c) c0 = eqdma_cmpt_stored c c0"
  by (simp add: eqdma_cmpt_fields_def eqdma_cmpt_words_def eqdma_cmpt_stored_def field_simps field_parts ctxt_parts;
      (simp add: AND_GENMASK_low field_simps)?)

interpretation eqdma_cmpt: ctxt_codec eqdma_cmpt_words eqdma_cmpt_fields eqdma_cmpt_stored 6
  by unfold_locales
     (simp_all only: eqdma_cmpt_dec_enc, simp_all add: eqdma_cmpt_words_def eqdma_cmpt_fields_def)

section \<open>Hardware context\<close>

definition eqdma_hw_fields :: "u32 list \<Rightarrow> qdma_descq_hw_ctxt \<Rightarrow> qdma_descq_hw_ctxt" where
  "eqdma_hw_fields ctxt_data ctxt =
     ctxt\<lparr>hw_cidx := ucast (FIELD_GET HW_IND_CTXT_DATA_W0_CIDX_MASK (ctxt_data ! 0)),
       hw_crd_use := ucast (FIELD_GET HW_IND_CTXT_DATA_W0_CRD_USE_MASK (ctxt_data ! 0)),
       hw_dsc_pend := ucast (FIELD_GET HW_IND_CTXT_DATA_W1_DSC_PND_MASK (ctxt_data ! 1)),
       hw_idl_stp_b := ucast (FIELD_GET HW_IND_CTXT_DATA_W1_IDL_STP_B_MASK (ctxt_data ! 1)),
       hw_evt_pnd := ucast (FIELD_GET HW_IND_CTXT_DATA_W1_EVT_PND_MASK (ctxt_data ! 1)),
       hw_fetch_pnd := ucast (FIELD_GET HW_IND_CTXT_DATA_W1_DSC_PND_MASK (ctxt_data ! 1))\<rparr>"

definition eqdma_hw_context_read ::
  "'d mmio \<Rightarrow> 'd xdev option \<Rightarrow> u8 \<Rightarrow> u16 \<Rightarrow> qdma_descq_hw_ctxt option \<Rightarrow> int \<times> qdma_descq_hw_ctxt option \<times> 'd xdev option" where
  "eqdma_hw_context_read io dev c2h hw_qid ctxt =
     context_read (eqdma_indirect_reg_read io) 2 eqdma_hw_fields dev
       (if c2h \<noteq> 0 then QDMA_CTXT_SEL_HW_C2H else QDMA_CTXT_SEL_HW_H2C) hw_qid ctxt"

definition eqdma_hw_context_clear ::
  "'d mmio \<Rightarrow> 'd xdev option \<Rightarrow> u8 \<Rightarrow> u16 \<Rightarrow> int \<times> 'd xdev option" where
  "eqdma_hw_context_clear io dev c2h hw_qid =
     context_cmd (eqdma_indirect_reg_clear io) dev
       (if c2h \<noteq> 0 then QDMA_CTXT_SEL_HW_C2H else QDMA_CTXT_SEL_HW_H2C) hw_qid"

definition eqdma_hw_context_invalidate ::
  "'d mmio \<Rightarrow> 'd xdev option \<Rightarrow> u8 \<Rightarrow> u16 \<Rightarrow> int \<times> 'd xdev option" where
  "eqdma_hw_context_invalidate io dev c2h hw_qid =
     context_cmd (eqdma_indirect_reg_invalidate io) dev
       (if c2h \<noteq> 0 then QDMA_CTXT_SEL_HW_C2H else QDMA_CTXT_SEL_HW_H2C) hw_qid"

definition eqdma_hw_ctx_conf ::
  "'d mmio \<Rightarrow> 'd xdev option \<Rightarrow> u8 \<Rightarrow> u16 \<Rightarrow> qdma_descq_hw_ctxt option \<Rightarrow> qdma_hw_access_type \<Rightarrow>
   int \<times> qdma_descq_hw_ctxt option \<times> 'd xdev option" where
  "eqdma_hw_ctx_conf io dev c2h hw_qid ctxt access_type =
     (if c2h > 1 then (neg_err QDMA_ERR_INV_PARAM, ctxt, dev) else
      case access_type of
        QDMA_HW_ACCESS_READ \<Rightarrow> eqdma_hw_context_read io dev c2h hw_qid ctxt
      | QDMA_HW_ACCESS_CLEAR \<Rightarrow> keep_ctxt ctxt (eqdma_hw_context_clear io dev c2h hw_qid)
      | QDMA_HW_ACCESS_INVALIDATE \<Rightarrow> keep_ctxt ctxt (eqdma_hw_context_invalidate io dev c2h hw_qid)
      | _ \<Rightarrow> (neg_err QDMA_ERR_INV_PARAM, ctxt, dev))"

section \<open>Credit context\<close>

definition eqdma_credit_fields :: "u32 list \<Rightarrow> qdma_descq_credit_ctxt \<Rightarrow> qdma_descq_credit_ctxt" where
  "eqdma_credit_fields ctxt_data ctxt =
     ctxt\<lparr>cr_credit := FIELD_GET CRED_CTXT_DATA_W0_CREDT_MASK (ctxt_data ! 0)\<rparr>"

definition eqdma_credit_context_read ::
  "'d mmio \<Rightarrow> 'd xdev option \<Rightarrow> u8 \<Rightarrow> u16 \<Rightarrow> qdma_descq_credit_ctxt option \<Rightarrow> int \<times> qdma_descq_credit_ctxt option \<times> 'd xdev option" where
  "eqdma_credit_context_read io dev c2h hw_qid ctxt =
     context_read (eqdma_indirect_reg_read io) 1 eqdma_credit_fields dev
       (if c2h \<noteq> 0 then QDMA_CTXT_SEL_CR_C2H else QDMA_CTXT_SEL_CR_H2C) hw_qid ctxt"

definition eqdma_credit_context_clear ::
  "'d mmio \<Rightarrow> 'd xdev option \<Rightarrow> u8 \<Rightarrow> u16 \<Rightarrow> int \<times> 'd xdev option" where
  "eqdma_credit_context_clear io dev c2h hw_qid =
     context_cmd (eqdma_indirect_reg_clear io) dev
       (if c2h \<noteq> 0 then QDMA_CTXT_SEL_CR_C2H else QDMA_CTXT_SEL_CR_H2C) hw_qid"

definition eqdma_credit_context_invalidate ::
  "'d mmio \<Rightarrow> 'd xdev option \<Rightarrow> u8 \<Rightarrow> u16 \<Rightarrow> int \<times> 'd xdev option" where
  "eqdma_credit_context_invalidate io dev c2h hw_qid =
     context_cmd (eqdma_indirect_reg_invalidate io) dev
       (if c2h \<noteq> 0 then QDMA_CTXT_SEL_CR_C2H else QDMA_CTXT_SEL_CR_H2C) hw_qid"

definition eqdma_credit_ctx_conf ::
  "'d mmio \<Rightarrow> 'd xdev option \<Rightarrow> u8 \<Rightarrow> u16 \<Rightarrow> qdma_descq_credit_ctxt option \<Rightarrow> qdma_hw_access_type \<Rightarrow>
   int \<times> qdma_descq_credit_ctxt option \<times> 'd xdev option" where
  "eqdma_credit_ctx_conf io dev c2h hw_qid ctxt access_type =
     (if c2h > 1 then (neg_err QDMA_ERR_INV_PARAM, ctxt, dev) else
      case access_type of
        QDMA_HW_ACCESS_READ \<Rightarrow> eqdma_credit_context_read io dev c2h hw_qid ctxt
      | QDMA_HW_ACCESS_CLEAR \<Rightarrow> keep_ctxt ctxt (eqdma_credit_context_clear io dev c2h hw_qid)
      | QDMA_HW_ACCESS_INVALIDATE \<Rightarrow> keep_ctxt ctxt (eqdma_credit_context_invalidate io dev c2h hw_qid)
      | _ \<Rightarrow> (neg_err QDMA_ERR_INV_PARAM, ctxt, dev))"

section \<open>Function map\<close>

definition eqdma_fmap_words :: "qdma_fmap_cfg \<Rightarrow> u32 list" where
  "eqdma_fmap_words ctxt =
     [FIELD_SET EQDMA_FMAP_CTXT_W0_QID_MASK (ucast (fm_qbase ctxt)),
      FIELD_SET EQDMA_FMAP_CTXT_W1_QID_MAX_MASK (ucast (fm_qmax ctxt))]"

definition eqdma_fmap_fields :: "u32 list \<Rightarrow> qdma_fmap_cfg \<Rightarrow> qdma_fmap_cfg" where
  "eqdma_fmap_fields ctxt_data ctxt =
     ctxt\<lparr>fm_qbase := ucast (FIELD_GET EQDMA_FMAP_CTXT_W0_QID_MASK (ctxt_data ! 0)),
       fm_qmax := ucast (FIELD_GET EQDMA_FMAP_CTXT_W1_QID_MAX_MASK (ctxt_data ! 1))\<rparr>"

definition eqdma_fmap_context_write ::
  "'d mmio \<Rightarrow> 'd xdev option \<Rightarrow> u16 \<Rightarrow> qdma_fmap_cfg option \<Rightarrow> int \<times> 'd xdev option" where
  "eqdma_fmap_context_write io dev hw_qid ctxt =
     context_write (eqdma_indirect_reg_write io) eqdma_fmap_words dev
       QDMA_CTXT_SEL_FMAP hw_qid ctxt"

definition eqdma_fmap_context_read ::
  "'d mmio \<Rightarrow> 'd xdev option \<Rightarrow> u16 \<Rightarrow> qdma_fmap_cfg option \<Rightarrow> int \<times> qdma_fmap_cfg option \<times> 'd xdev option" where
  "eqdma_fmap_context_read io dev hw_qid ctxt =
     context_read (eqdma_indirect_reg_read io) 2 eqdma_fmap_fields dev
       QDMA_CTXT_SEL_FMAP hw_qid ctxt"

definition eqdma_fmap_context_clear ::
  "'d mmio \<Rightarrow> 'd xdev option \<Rightarrow> u16 \<Rightarrow> int \<times> 'd xdev option" where
  "eqdma_fmap_context_clear io dev hw_qid =
     context_cmd (eqdma_indirect_reg_clear io) dev
       QDMA_CTXT_SEL_FMAP hw_qid"

definition eqdma_fmap_conf ::
  "'d mmio \<Rightarrow> 'd xdev option \<Rightarrow> u16 \<Rightarrow> qdma_fmap_cfg option \<Rightarrow> qdma_hw_access_type \<Rightarrow>
   int \<times> qdma_fmap_cfg option \<times> 'd xdev option" where
  "eqdma_fmap_conf io dev hw_qid ctxt access_type =
     (case access_type of
        QDMA_HW_ACCESS_READ \<Rightarrow> eqdma_fmap_context_read io dev hw_qid ctxt
      | QDMA_HW_ACCESS_WRITE \<Rightarrow> keep_ctxt ctxt (eqdma_fmap_context_write io dev hw_qid ctxt)
      | QDMA_HW_ACCESS_CLEAR \<Rightarrow> keep_ctxt ctxt (eqdma_fmap_context_clear io dev hw_qid)
      | _ \<Rightarrow> (neg_err QDMA_ERR_INV_PARAM, ctxt, dev))"

text \<open>What a function map keeps on its way through the registers.\<close>

definition eqdma_fmap_stored :: "qdma_fmap_cfg \<Rightarrow> qdma_fmap_cfg \<Rightarrow> qdma_fmap_cfg" where
  "eqdma_fmap_stored c c0 =
     c0\<lparr>fm_qbase := take_bit 11 (fm_qbase c),
       fm_qmax := take_bit 12 (fm_qmax c)\<rparr>"

lemma eqdma_fmap_dec_enc: "eqdma_fmap_fields (eqdma_fmap_words c) c0 = eqdma_fmap_stored c c0"
  by (simp add: eqdma_fmap_fields_def eqdma_fmap_words_def eqdma_fmap_stored_def field_simps field_parts ctxt_parts;
      (simp add: AND_GENMASK_low field_simps)?)

interpretation eqdma_fmap: ctxt_codec eqdma_fmap_words eqdma_fmap_fields eqdma_fmap_stored 2
  by unfold_locales
     (simp_all only: eqdma_fmap_dec_enc, simp_all add: eqdma_fmap_words_def eqdma_fmap_fields_def)

section \<open>Indirect interrupt context\<close>

definition eqdma_indirect_intr_words :: "qdma_indirect_intr_ctxt \<Rightarrow> u32 list" where
  "eqdma_indirect_intr_words ctxt =
    (let baddr_l = (ucast (FIELD_GET QDMA_INTR_CTXT_BADDR_GET_L_MASK (it_baddr_4k ctxt)) :: u32);
         baddr_m = (ucast (FIELD_GET QDMA_INTR_CTXT_BADDR_GET_M_MASK (it_baddr_4k ctxt)) :: u32);
         baddr_h = (ucast (FIELD_GET QDMA_INTR_CTXT_BADDR_GET_H_MASK (it_baddr_4k ctxt)) :: u32);
         pasid_l = FIELD_GET EQDMA_INTR_CTXT_PASID_GET_L_MASK (it_pasid ctxt);
         pasid_h = FIELD_GET EQDMA_INTR_CTXT_PASID_GET_H_MASK (it_pasid ctxt) in
     [FIELD_SET INTR_CTXT_DATA_W0_VALID_MASK (ucast (it_valid ctxt)) OR
       FIELD_SET INTR_CTXT_DATA_W0_VEC_MASK (ucast (it_vec ctxt)) OR
       FIELD_SET INTR_CTXT_DATA_W0_INT_ST_MASK (ucast (it_int_st ctxt)) OR
       FIELD_SET INTR_CTXT_DATA_W0_COLOR_MASK (ucast (it_color ctxt)) OR
       FIELD_SET INTR_CTXT_DATA_W0_BADDR_4K_L_MASK baddr_l,
      FIELD_SET INTR_CTXT_DATA_W1_BADDR_4K_M_MASK baddr_m,
      FIELD_SET INTR_CTXT_DATA_W2_BADDR_4K_H_MASK baddr_h OR
       FIELD_SET INTR_CTXT_DATA_W2_PAGE_SIZE_MASK (ucast (it_page_size ctxt)) OR
       FIELD_SET INTR_CTXT_DATA_W2_PIDX_MASK (ucast (it_pidx ctxt)) OR
       FIELD_SET INTR_CTXT_DATA_W2_AT_MASK (ucast (it_at ctxt)) OR
       FIELD_SET INTR_CTXT_DATA_W2_HOST_ID_MASK (ucast (it_host_id ctxt)) OR
       FIELD_SET INTR_CTXT_DATA_W2_PASID_L_MASK pasid_l,
      FIELD_SET INTR_CTXT_DATA_W3_PASID_H_MASK pasid_h OR
       FIELD_SET INTR_CTXT_DATA_W3_PASID_EN_MASK (ucast (it_pasid_en ctxt)) OR
       FIELD_SET INTR_CTXT_DATA_W3_FUNC_MASK (ucast (it_func_id ctxt))])"

definition eqdma_indirect_intr_fields :: "u32 list \<Rightarrow> qdma_indirect_intr_ctxt \<Rightarrow> qdma_indirect_intr_ctxt" where
  "eqdma_indirect_intr_fields ctxt_data ctxt =
    (let baddr_l = (ucast (FIELD_GET INTR_CTXT_DATA_W0_BADDR_4K_L_MASK (ctxt_data ! 0)) :: 64 word);
         baddr_m = (ucast (FIELD_GET INTR_CTXT_DATA_W1_BADDR_4K_M_MASK (ctxt_data ! 1)) :: 64 word);
         baddr_h = (ucast (FIELD_GET INTR_CTXT_DATA_W2_BADDR_4K_H_MASK (ctxt_data ! 2)) :: 64 word);
         pasid_l = (ucast (ucast (FIELD_GET INTR_CTXT_DATA_W2_PASID_L_MASK (ctxt_data ! 2)) :: 8 word) :: 64 word);
         pasid_h = (ucast (FIELD_GET INTR_CTXT_DATA_W3_PASID_H_MASK (ctxt_data ! 3)) :: 64 word) in
     ctxt\<lparr>it_valid := ucast (FIELD_GET INTR_CTXT_DATA_W0_VALID_MASK (ctxt_data ! 0)),
       it_vec := ucast (FIELD_GET INTR_CTXT_DATA_W0_VEC_MASK (ctxt_data ! 0)),
       it_int_st := ucast (FIELD_GET INTR_CTXT_DATA_W0_INT_ST_MASK (ctxt_data ! 0)),
       it_color := ucast (FIELD_GET INTR_CTXT_DATA_W0_COLOR_MASK (ctxt_data ! 0)),
       it_page_size := ucast (FIELD_GET INTR_CTXT_DATA_W2_PAGE_SIZE_MASK (ctxt_data ! 2)),
       it_pidx := ucast (FIELD_GET INTR_CTXT_DATA_W2_PIDX_MASK (ctxt_data ! 2)),
       it_at := ucast (FIELD_GET INTR_CTXT_DATA_W2_AT_MASK (ctxt_data ! 2)),
       it_host_id := ucast (FIELD_GET INTR_CTXT_DATA_W2_HOST_ID_MASK (ctxt_data ! 2)),
       it_pasid_en := ucast (FIELD_GET INTR_CTXT_DATA_W3_PASID_EN_MASK (ctxt_data ! 3)),
       it_func_id := ucast (FIELD_GET INTR_CTXT_DATA_W3_FUNC_MASK (ctxt_data ! 3)),
       it_baddr_4k := FIELD_SET QDMA_INTR_CTXT_BADDR_GET_L_MASK baddr_l OR
         FIELD_SET QDMA_INTR_CTXT_BADDR_GET_M_MASK baddr_m OR
         FIELD_SET QDMA_INTR_CTXT_BADDR_GET_H_MASK baddr_h,
       it_pasid := ucast (FIELD_SET (ucast EQDMA_INTR_CTXT_PASID_GET_L_MASK :: u64) pasid_l OR
         FIELD_SET (ucast EQDMA_INTR_CTXT_PASID_GET_H_MASK :: u64) pasid_h)\<rparr>)"

definition eqdma_indirect_intr_context_write ::
  "'d mmio \<Rightarrow> 'd xdev option \<Rightarrow> u16 \<Rightarrow> qdma_indirect_intr_ctxt option \<Rightarrow> int \<times> 'd xdev option" where
  "eqdma_indirect_intr_context_write io dev hw_qid ctxt =
     context_write (eqdma_indirect_reg_write io) eqdma_indirect_intr_words dev
       QDMA_CTXT_SEL_INT_COAL hw_qid ctxt"

definition eqdma_indirect_intr_context_read ::
  "'d mmio \<Rightarrow> 'd xdev option \<Rightarrow> u16 \<Rightarrow> qdma_indirect_intr_ctxt option \<Rightarrow> int \<times> qdma_indirect_intr_ctxt option \<times> 'd xdev option" where
  "eqdma_indirect_intr_context_read io dev hw_qid ctxt =
     context_read (eqdma_indirect_reg_read io) 4 eqdma_indirect_intr_fields dev
       QDMA_CTXT_SEL_INT_COAL hw_qid ctxt"

definition eqdma_indirect_intr_context_clear ::
  "'d mmio \<Rightarrow> 'd xdev option \<Rightarrow> u16 \<Rightarrow> int \<times> 'd xdev option" where
  "eqdma_indirect_intr_context_clear io dev hw_qid =
     context_cmd (eqdma_indirect_reg_clear io) dev
       QDMA_CTXT_SEL_INT_COAL hw_qid"

definition eqdma_indirect_intr_context_invalidate ::
  "'d mmio \<Rightarrow> 'd xdev option \<Rightarrow> u16 \<Rightarrow> int \<times> 'd xdev option" where
  "eqdma_indirect_intr_context_invalidate io dev hw_qid =
     context_cmd (eqdma_indirect_reg_invalidate io) dev
       QDMA_CTXT_SEL_INT_COAL hw_qid"

definition eqdma_indirect_intr_ctx_conf ::
  "'d mmio \<Rightarrow> 'd xdev option \<Rightarrow> u16 \<Rightarrow> qdma_indirect_intr_ctxt option \<Rightarrow> qdma_hw_access_type \<Rightarrow>
   int \<times> qdma_indirect_intr_ctxt option \<times> 'd xdev option" where
  "eqdma_indirect_intr_ctx_conf io dev hw_qid ctxt access_type =
     (case access_type of
        QDMA_HW_ACCESS_READ \<Rightarrow> eqdma_indirect_intr_context_read io dev hw_qid ctxt
      | QDMA_HW_ACCESS_WRITE \<Rightarrow> keep_ctxt ctxt (eqdma_indirect_intr_context_write io dev hw_qid ctxt)
      | QDMA_HW_ACCESS_CLEAR \<Rightarrow> keep_ctxt ctxt (eqdma_indirect_intr_context_clear io dev hw_qid)
      | QDMA_HW_ACCESS_INVALIDATE \<Rightarrow> keep_ctxt ctxt (eqdma_indirect_intr_context_invalidate io dev hw_qid)
      | _ \<Rightarrow> (neg_err QDMA_ERR_INV_PARAM, ctxt, dev))"

text \<open>What a indirect interrupt context keeps on its way through the registers.\<close>

definition eqdma_indirect_intr_stored :: "qdma_indirect_intr_ctxt \<Rightarrow> qdma_indirect_intr_ctxt \<Rightarrow> qdma_indirect_intr_ctxt" where
  "eqdma_indirect_intr_stored c c0 =
     c0\<lparr>it_valid := take_bit 1 (it_valid c),
       it_vec := take_bit 11 (it_vec c),
       it_int_st := take_bit 1 (it_int_st c),
       it_color := take_bit 1 (it_color c),
       it_page_size := take_bit 3 (it_page_size c),
       it_pidx := take_bit 12 (it_pidx c),
       it_at := take_bit 1 (it_at c),
       it_host_id := take_bit 4 (it_host_id c),
       it_pasid_en := take_bit 1 (it_pasid_en c),
       it_func_id := take_bit 12 (it_func_id c),
       it_baddr_4k := it_baddr_4k c AND GENMASK 63 12,
       it_pasid := take_bit 8 (it_pasid c) OR (it_pasid c AND GENMASK 21 9)\<rparr>"

lemma eqdma_indirect_intr_dec_enc: "eqdma_indirect_intr_fields (eqdma_indirect_intr_words c) c0 = eqdma_indirect_intr_stored c c0"
  by (simp add: eqdma_indirect_intr_fields_def eqdma_indirect_intr_words_def eqdma_indirect_intr_stored_def field_simps field_parts ctxt_parts;
      (simp add: AND_GENMASK_low field_simps)?)

interpretation eqdma_indirect_intr: ctxt_codec eqdma_indirect_intr_words eqdma_indirect_intr_fields eqdma_indirect_intr_stored 4
  by unfold_locales
     (simp_all only: eqdma_indirect_intr_dec_enc, simp_all add: eqdma_indirect_intr_words_def eqdma_indirect_intr_fields_def)

section \<open>Properties\<close>

text \<open>The dispatch functions over the sequences, for the proofs below.\<close>

lemmas eqdma_conf_simps = keep_ctxt_def
  eqdma_sw_ctx_conf_def eqdma_sw_context_write_def eqdma_sw_context_read_def
  eqdma_sw_context_clear_def eqdma_sw_context_invalidate_def
  eqdma_pfetch_ctx_conf_def eqdma_pfetch_context_write_def eqdma_pfetch_context_read_def
  eqdma_cmpt_ctx_conf_def eqdma_cmpt_context_write_def eqdma_cmpt_context_read_def
  eqdma_hw_ctx_conf_def eqdma_credit_ctx_conf_def
  eqdma_fmap_conf_def eqdma_fmap_context_write_def eqdma_fmap_context_read_def
  eqdma_indirect_intr_ctx_conf_def eqdma_indirect_intr_context_write_def
  eqdma_indirect_intr_context_read_def

text \<open>On a device that follows the register specification, a software context that
  eqdma_sw_ctx_conf writes for a queue and direction is read back by eqdma_sw_ctx_conf as its
  stored form: every field cut to its register width, the PASID to 22 bits, and the upper 11
  bits of virtio_dsc_base replaced by bits 21 to 31.\<close>

theorem eqdma_sw_write_read:
  assumes "ctxt_hardware io win mem"
  shows "\<exists>d1 d2.
    eqdma_sw_ctx_conf io (Some d) c2h q (Some c) QDMA_HW_ACCESS_WRITE = (0, Some c, Some d1) \<and>
    eqdma_sw_ctx_conf io (Some d1) c2h q (Some c0) QDMA_HW_ACCESS_READ =
      (0, Some (eqdma_sw_stored c c0), Some d2)"
proof -
  define sel where "sel = (if c2h \<noteq> 0 then QDMA_CTXT_SEL_SW_C2H else QDMA_CTXT_SEL_SW_H2C)"
  show ?thesis
    using eqdma_sw.context_write_read [OF assms, of d sel q c c0]
    by (auto simp: eqdma_conf_simps indirect_copies simp flip: sel_def)
qed

definition sample_sw :: qdma_descq_sw_ctxt where
  "sample_sw = eqdma_sw_fields [0x10005, 0x80000001, 0xABCDE000, 0x12, 7, 0x400, 9, 3]
     sw_zeroed"

theorem eqdma_sw_write_read_witness:
  "\<exists>d1 d2.
    eqdma_sw_ctx_conf sim_io (Some sim_dev) 1 3 (Some sample_sw) QDMA_HW_ACCESS_WRITE =
      (0, Some sample_sw, Some d1) \<and>
    eqdma_sw_ctx_conf sim_io (Some d1) 1 3 (Some sample_sw) QDMA_HW_ACCESS_READ =
      (0, Some (eqdma_sw_stored sample_sw sample_sw), Some d2)"
  by (rule eqdma_sw_write_read [OF sim_hardware])

text \<open>The software context's decoder takes the upper part of virtio_dsc_base from word 6
  instead of word 7: the address comes back exactly when its bits 53 to 63 equal its bits 21 to 31.\<close>

theorem eqdma_sw_virtio_base:
  "sw_virtio_dsc_base (eqdma_sw_fields (eqdma_sw_words c) c0) = sw_virtio_dsc_base c \<longleftrightarrow>
     drop_bit 53 (sw_virtio_dsc_base c) = take_bit 11 (drop_bit 21 (sw_virtio_dsc_base c))"
proof -
  let ?v = "sw_virtio_dsc_base c" and ?m = "take_bit 11 (drop_bit 21 (sw_virtio_dsc_base c))"
  have v: "?v = take_bit 53 ?v OR push_bit 53 (drop_bit 53 ?v)"
    by (simp only: take_bit_push_drop)
  have "drop_bit 53 (take_bit 53 ?v OR push_bit 53 ?m) = ?m"
    by (intro bit_word_eqI) (auto simp: bit_simps)
  then have "take_bit 53 ?v OR push_bit 53 ?m = ?v \<longleftrightarrow> drop_bit 53 ?v = ?m"
    using v by metis
  then show ?thesis
    by (simp add: eqdma_sw_dec_enc eqdma_sw_stored_def)
qed

text \<open>The completion, prefetch, function map and interrupt contexts survive encoding and
  decoding in their stored form, with any words after those of the context, as when the
  register block is padded: the completion ring address keeps bits 2 to 63, the interrupt ring
  address bits 12 to 63, and the PASID of the interrupt context loses bit 8.\<close>

theorem eqdma_codecs_roundtrip:
  "eqdma_cmpt_fields (eqdma_cmpt_words cm @ pad) cm0 = eqdma_cmpt_stored cm cm0 \<and>
   eqdma_pfetch_fields (eqdma_pfetch_words pf @ pad) pf0 = eqdma_pfetch_stored pf pf0 \<and>
   eqdma_fmap_fields (eqdma_fmap_words fm @ pad) fm0 = eqdma_fmap_stored fm fm0 \<and>
   eqdma_indirect_intr_fields (eqdma_indirect_intr_words it @ pad) it0 =
     eqdma_indirect_intr_stored it it0"
  using eqdma_cmpt.dec_padded eqdma_pfetch.dec_padded eqdma_fmap.dec_padded
    eqdma_indirect_intr.dec_padded by blast

lemma pasid_parts_eq:
  "take_bit 8 v OR (v AND GENMASK 21 9) = v \<longleftrightarrow> take_bit 22 v = v \<and> \<not> bit v 8" for v :: u32
proof
  assume v: "take_bit 8 v OR (v AND GENMASK 21 9) = v"
  have *: "n < 8 \<or> 9 \<le> n \<and> n \<le> 21" if "bit v n" for n
  proof -
    from that have "bit (take_bit 8 v OR (v AND GENMASK 21 9)) n" by (simp only: v)
    then show ?thesis by (auto simp: bit_simps bit_GENMASK)
  qed
  then have "take_bit 22 v = v"
    by (intro bit_word_eqI) (force simp: bit_simps)
  with * show "take_bit 22 v = v \<and> \<not> bit v 8" by force
next
  assume a: "take_bit 22 v = v \<and> \<not> bit v 8"
  then have "bit v n \<Longrightarrow> n < 22 \<and> n \<noteq> 8" for n
    by (metis bit_take_bit_iff)
  then have "bit v n \<Longrightarrow> n < 8 \<or> 9 \<le> n \<and> n \<le> 21" for n by force
  then show "take_bit 8 v OR (v AND GENMASK 21 9) = v"
    by (intro bit_word_eqI) (auto simp: bit_simps bit_GENMASK)
qed

text \<open>The interrupt context's PASID is read back unchanged exactly when it fits 22 bits and
  its bit 8 is clear: the decoder casts the 9-bit low part to uint8_t.\<close>

theorem eqdma_intr_pasid:
  "it_pasid (eqdma_indirect_intr_fields (eqdma_indirect_intr_words c) c0) = it_pasid c \<longleftrightarrow>
     take_bit 22 (it_pasid c) = it_pasid c \<and> \<not> bit (it_pasid c) 8"
  by (simp add: eqdma_indirect_intr_dec_enc eqdma_indirect_intr_stored_def pasid_parts_eq)

text \<open>A function map whose base fits 11 bits and whose count fits 12 bits is read back
  exactly as it was written.\<close>

theorem eqdma_fmap_write_read:
  assumes "ctxt_hardware io win mem" "fm_qbase c < 2048" "fm_qmax c < 4096"
  shows "\<exists>d1 d2.
    eqdma_fmap_conf io (Some d) func (Some c) QDMA_HW_ACCESS_WRITE = (0, Some c, Some d1) \<and>
    eqdma_fmap_conf io (Some d1) func (Some c0) QDMA_HW_ACCESS_READ = (0, Some c, Some d2)"
proof -
  have "take_bit 11 (fm_qbase c) = fm_qbase c" "take_bit 12 (fm_qmax c) = fm_qmax c"
    using assms(2,3) take_bit_less [of "fm_qbase c" 11] take_bit_less [of "fm_qmax c" 12]
    by (simp_all add: word_less_nat_alt)
  then have "eqdma_fmap_stored c c0 = c"
    by (simp add: eqdma_fmap_stored_def)
  with eqdma_fmap.context_write_read [OF assms(1), of d QDMA_CTXT_SEL_FMAP func c c0]
  show ?thesis by (auto simp: eqdma_conf_simps indirect_copies)
qed

theorem eqdma_fmap_write_read_witness:
  "\<exists>d1 d2.
    eqdma_fmap_conf sim_io (Some sim_dev) 2 (Some \<lparr>fm_qbase = 512, fm_qmax = 256\<rparr>)
      QDMA_HW_ACCESS_WRITE = (0, Some \<lparr>fm_qbase = 512, fm_qmax = 256\<rparr>, Some d1) \<and>
    eqdma_fmap_conf sim_io (Some d1) 2 (Some \<lparr>fm_qbase = 0, fm_qmax = 0\<rparr>)
      QDMA_HW_ACCESS_READ = (0, Some \<lparr>fm_qbase = 512, fm_qmax = 256\<rparr>, Some d2)"
  by (rule eqdma_fmap_write_read [OF sim_hardware]) simp_all

text \<open>Clearing a software context and reading it gives a queue that is disabled, in
  descriptor fetch by no credits, with a zero ring address and producer index.\<close>

theorem eqdma_sw_clear_read:
  assumes "ctxt_hardware io win mem"
  shows "\<exists>d1 d2 c.
    eqdma_sw_ctx_conf io (Some d) c2h q None QDMA_HW_ACCESS_CLEAR = (0, None, Some d1) \<and>
    eqdma_sw_ctx_conf io (Some d1) c2h q (Some c0) QDMA_HW_ACCESS_READ = (0, Some c, Some d2) \<and>
    sw_qen c = 0 \<and> sw_frcd_en c = 0 \<and> sw_pidx c = 0 \<and> sw_ring_bs_addr c = 0 \<and> sw_fnc_id c = 0"
proof -
  define sel where "sel = (if c2h \<noteq> 0 then QDMA_CTXT_SEL_SW_C2H else QDMA_CTXT_SEL_SW_H2C)"
  define c where "c = eqdma_sw_fields (replicate 8 0) c0"
  have "sw_qen c = 0 \<and> sw_frcd_en c = 0 \<and> sw_pidx c = 0 \<and> sw_ring_bs_addr c = 0 \<and> sw_fnc_id c = 0"
    by (simp add: c_def eqdma_sw_fields_def FIELD_GET_def replicate_8 Let_def)
  with eqdma_sw.context_clear_read [OF assms, of d sel q c0] show ?thesis
    by (auto simp: eqdma_conf_simps indirect_copies simp flip: sel_def c_def)
qed

theorem eqdma_sw_clear_read_witness:
  "\<exists>d1 d2 c.
    eqdma_sw_ctx_conf sim_io (Some sim_dev) 0 7 None QDMA_HW_ACCESS_CLEAR = (0, None, Some d1) \<and>
    eqdma_sw_ctx_conf sim_io (Some d1) 0 7 (Some sample_sw) QDMA_HW_ACCESS_READ = (0, Some c, Some d2) \<and>
    sw_qen c = 0 \<and> sw_frcd_en c = 0 \<and> sw_pidx c = 0 \<and> sw_ring_bs_addr c = 0 \<and> sw_fnc_id c = 0"
  by (rule eqdma_sw_clear_read [OF sim_hardware])

text \<open>A call that is refused touches neither the device nor the caller's structure and
  returns -QDMA_ERR_INV_PARAM: a null device, a null structure, an unknown access type, a write
  of a hardware or credit context, the invalidation of a function map, and a completion context
  with an undefined trigger mode.\<close>

theorem eqdma_conf_refused:
  assumes "cm_trig_mode cm > 5"
  shows "eqdma_sw_ctx_conf io None c2h q sw QDMA_HW_ACCESS_WRITE = (-1, sw, None) \<and>
    eqdma_sw_ctx_conf io dev c2h q None QDMA_HW_ACCESS_READ = (-1, None, dev) \<and>
    eqdma_sw_ctx_conf io dev c2h q sw QDMA_HW_ACCESS_MAX = (-1, sw, dev) \<and>
    eqdma_hw_ctx_conf io dev c2h q hw QDMA_HW_ACCESS_WRITE = (-1, hw, dev) \<and>
    eqdma_credit_ctx_conf io dev c2h q cr QDMA_HW_ACCESS_WRITE = (-1, cr, dev) \<and>
    eqdma_fmap_conf io dev func fm QDMA_HW_ACCESS_INVALIDATE = (-1, fm, dev) \<and>
    eqdma_indirect_intr_ctx_conf io dev ring None QDMA_HW_ACCESS_WRITE = (-1, None, dev) \<and>
    eqdma_cmpt_ctx_conf io dev q (Some cm) QDMA_HW_ACCESS_WRITE = (-1, Some cm, dev)"
  using assms by (auto simp: eqdma_conf_simps split: option.split)

definition bad_trigger :: qdma_descq_cmpt_ctxt where
  "bad_trigger = eqdma_cmpt_fields [0x18, 0, 0, 0, 0, 0] cm_zeroed"

theorem eqdma_conf_refused_witness:
  "eqdma_cmpt_ctx_conf sim_io (Some sim_dev) 5 (Some bad_trigger) QDMA_HW_ACCESS_WRITE =
     (-1, Some bad_trigger, Some sim_dev)"
proof -
  have "cm_trig_mode bad_trigger > 5"
    by (simp add: bad_trigger_def eqdma_cmpt_fields_def Let_def FIELD_GET_GENMASK BIT_GENMASK)
  from eqdma_conf_refused [OF this] show ?thesis by blast
qed

text \<open>The hardware context's decoder gives dsc_pend for fetch_pnd: both are bit 8 of word 1,
  whatever the fetch-pending bits of the register hold.\<close>

theorem eqdma_hw_fetch_pending:
  "hw_fetch_pnd (eqdma_hw_fields ws c) = hw_dsc_pend (eqdma_hw_fields ws c) \<and>
   hw_dsc_pend (eqdma_hw_fields ws c) = ucast (take_bit 1 (drop_bit 8 (ws ! 1)))"
  by (simp add: eqdma_hw_fields_def BIT_GENMASK FIELD_GET_GENMASK)

end
