(* ===== verification/Cpm5Ctxt.thy ===== *)
theory Cpm5Ctxt
  imports EqdmaCtxt
begin

text \<open>
  The context functions of the CPM5 hard IP, eqdma_cpm5_access.c, which the code repeats with names
  of its own: encoder, decoder, register functions and dispatch of every context. Masks with the
  name and value of eqdma_soft_reg.h are those of EqdmaCtxt. The definitions follow the CPM5
  file; that they agree with those of the enhanced soft IP, and where they do not, is proved.
\<close>

section \<open>Register fields\<close>

abbreviation EQDMA_CPM5_SW_CTXT_PASID_GET_L_MASK :: u32 where "EQDMA_CPM5_SW_CTXT_PASID_GET_L_MASK \<equiv> GENMASK 11 0"
abbreviation EQDMA_CPM5_SW_CTXT_PASID_GET_H_MASK :: u32 where "EQDMA_CPM5_SW_CTXT_PASID_GET_H_MASK \<equiv> GENMASK 21 12"
abbreviation EQDMA_CPM5_SW_CTXT_VIRTIO_DSC_BASE_GET_L_MASK :: u64 where "EQDMA_CPM5_SW_CTXT_VIRTIO_DSC_BASE_GET_L_MASK \<equiv> GENMASK 20 0"
abbreviation EQDMA_CPM5_SW_CTXT_VIRTIO_DSC_BASE_GET_M_MASK :: u64 where "EQDMA_CPM5_SW_CTXT_VIRTIO_DSC_BASE_GET_M_MASK \<equiv> GENMASK 52 21"
abbreviation EQDMA_CPM5_SW_CTXT_VIRTIO_DSC_BASE_GET_H_MASK :: u64 where "EQDMA_CPM5_SW_CTXT_VIRTIO_DSC_BASE_GET_H_MASK \<equiv> GENMASK 63 53"
abbreviation EQDMA_CPM5_COMPL_CTXT_BADDR_HIGH_L_MASK :: u64 where "EQDMA_CPM5_COMPL_CTXT_BADDR_HIGH_L_MASK \<equiv> GENMASK 37 6"
abbreviation EQDMA_CPM5_COMPL_CTXT_BADDR_HIGH_H_MASK :: u64 where "EQDMA_CPM5_COMPL_CTXT_BADDR_HIGH_H_MASK \<equiv> GENMASK 63 38"
abbreviation EQDMA_CPM5_COMPL_CTXT_BADDR_LOW_MASK :: u64 where "EQDMA_CPM5_COMPL_CTXT_BADDR_LOW_MASK \<equiv> GENMASK 5 2"
abbreviation EQDMA_CPM5_CMPL_CTXT_PASID_GET_L_MASK :: u32 where "EQDMA_CPM5_CMPL_CTXT_PASID_GET_L_MASK \<equiv> GENMASK 8 0"
abbreviation EQDMA_CPM5_CMPL_CTXT_PASID_GET_H_MASK :: u32 where "EQDMA_CPM5_CMPL_CTXT_PASID_GET_H_MASK \<equiv> GENMASK 21 9"
abbreviation EQDMA_CPM5_FMAP_CTXT_W0_QID_MASK :: u32 where "EQDMA_CPM5_FMAP_CTXT_W0_QID_MASK \<equiv> GENMASK 11 0"
abbreviation EQDMA_CPM5_FMAP_CTXT_W1_QID_MAX_MASK :: u32 where "EQDMA_CPM5_FMAP_CTXT_W1_QID_MAX_MASK \<equiv> GENMASK 12 0"
abbreviation EQDMA_CPM5_INTR_CTXT_PASID_GET_L_MASK :: u32 where "EQDMA_CPM5_INTR_CTXT_PASID_GET_L_MASK \<equiv> GENMASK 8 0"
abbreviation EQDMA_CPM5_INTR_CTXT_PASID_GET_H_MASK :: u32 where "EQDMA_CPM5_INTR_CTXT_PASID_GET_H_MASK \<equiv> GENMASK 21 9"

section \<open>Software context\<close>

definition eqdma_cpm5_sw_words :: "qdma_descq_sw_ctxt \<Rightarrow> u32 list" where
  "eqdma_cpm5_sw_words ctxt =
    (let pasid_l = FIELD_GET EQDMA_CPM5_SW_CTXT_PASID_GET_L_MASK (sw_pasid ctxt);
         pasid_h = FIELD_GET EQDMA_CPM5_SW_CTXT_PASID_GET_H_MASK (sw_pasid ctxt);
         virtio_desc_base_l = (ucast (FIELD_GET EQDMA_CPM5_SW_CTXT_VIRTIO_DSC_BASE_GET_L_MASK (sw_virtio_dsc_base ctxt)) :: u32);
         virtio_desc_base_m = (ucast (FIELD_GET EQDMA_CPM5_SW_CTXT_VIRTIO_DSC_BASE_GET_M_MASK (sw_virtio_dsc_base ctxt)) :: u32);
         virtio_desc_base_h = (ucast (FIELD_GET EQDMA_CPM5_SW_CTXT_VIRTIO_DSC_BASE_GET_H_MASK (sw_virtio_dsc_base ctxt)) :: u32) in
     [FIELD_SET SW_IND_CTXT_DATA_W0_PIDX_MASK (ucast (sw_pidx ctxt)) OR
       FIELD_SET SW_IND_CTXT_DATA_W0_IRQ_ARM_MASK (ucast (sw_irq_arm ctxt)) OR
       FIELD_SET SW_IND_CTXT_DATA_W0_FNC_MASK (ucast (sw_fnc_id ctxt)),
      FIELD_SET SW_IND_CTXT_DATA_W1_QEN_MASK (ucast (sw_qen ctxt)) OR
       FIELD_SET SW_IND_CTXT_DATA_W1_FCRD_EN_MASK (ucast (sw_frcd_en ctxt)) OR
       FIELD_SET SW_IND_CTXT_DATA_W1_WBI_CHK_MASK (ucast (sw_wbi_chk ctxt)) OR
       FIELD_SET SW_IND_CTXT_DATA_W1_WBI_INTVL_EN_MASK (ucast (sw_wbi_intvl_en ctxt)) OR
       FIELD_SET SW_IND_CTXT_DATA_W1_AT_MASK (ucast (sw_at ctxt)) OR
       FIELD_SET SW_IND_CTXT_DATA_W1_FETCH_MAX_MASK (ucast (sw_fetch_max ctxt)) OR
       FIELD_SET SW_IND_CTXT_DATA_W1_RNG_SZ_MASK (ucast (sw_rngsz_idx ctxt)) OR
       FIELD_SET SW_IND_CTXT_DATA_W1_DSC_SZ_MASK (ucast (sw_desc_sz ctxt)) OR
       FIELD_SET SW_IND_CTXT_DATA_W1_BYPASS_MASK (ucast (sw_bypass ctxt)) OR
       FIELD_SET SW_IND_CTXT_DATA_W1_MM_CHN_MASK (ucast (sw_mm_chn ctxt)) OR
       FIELD_SET SW_IND_CTXT_DATA_W1_WBK_EN_MASK (ucast (sw_wbk_en ctxt)) OR
       FIELD_SET SW_IND_CTXT_DATA_W1_IRQ_EN_MASK (ucast (sw_irq_en ctxt)) OR
       FIELD_SET SW_IND_CTXT_DATA_W1_PORT_ID_MASK (ucast (sw_port_id ctxt)) OR
       FIELD_SET SW_IND_CTXT_DATA_W1_IRQ_NO_LAST_MASK (ucast (sw_irq_no_last ctxt)) OR
       FIELD_SET SW_IND_CTXT_DATA_W1_ERR_MASK (ucast (sw_err ctxt)) OR
       FIELD_SET SW_IND_CTXT_DATA_W1_ERR_WB_SENT_MASK (ucast (sw_err_wb_sent ctxt)) OR
       FIELD_SET SW_IND_CTXT_DATA_W1_IRQ_REQ_MASK (ucast (sw_irq_req ctxt)) OR
       FIELD_SET SW_IND_CTXT_DATA_W1_MRKR_DIS_MASK (ucast (sw_mrkr_dis ctxt)) OR
       FIELD_SET SW_IND_CTXT_DATA_W1_IS_MM_MASK (ucast (sw_is_mm ctxt)),
      ucast (sw_ring_bs_addr ctxt AND 0xffffffff),
      ucast (drop_bit 32 (sw_ring_bs_addr ctxt) AND 0xffffffff),
      FIELD_SET SW_IND_CTXT_DATA_W4_VEC_MASK (ucast (sw_vec ctxt)) OR
       FIELD_SET SW_IND_CTXT_DATA_W4_INT_AGGR_MASK (ucast (sw_intr_aggr ctxt)) OR
       FIELD_SET SW_IND_CTXT_DATA_W4_DIS_INTR_ON_VF_MASK (ucast (sw_dis_intr_on_vf ctxt)) OR
       FIELD_SET SW_IND_CTXT_DATA_W4_VIRTIO_EN_MASK (ucast (sw_virtio_en ctxt)) OR
       FIELD_SET SW_IND_CTXT_DATA_W4_PACK_BYP_OUT_MASK (ucast (sw_pack_byp_out ctxt)) OR
       FIELD_SET SW_IND_CTXT_DATA_W4_IRQ_BYP_MASK (ucast (sw_irq_byp ctxt)) OR
       FIELD_SET SW_IND_CTXT_DATA_W4_HOST_ID_MASK (ucast (sw_host_id ctxt)) OR
       FIELD_SET SW_IND_CTXT_DATA_W4_PASID_L_MASK pasid_l,
      FIELD_SET SW_IND_CTXT_DATA_W5_PASID_H_MASK pasid_h OR
       FIELD_SET SW_IND_CTXT_DATA_W5_PASID_EN_MASK (ucast (sw_pasid_en ctxt)) OR
       FIELD_SET SW_IND_CTXT_DATA_W5_VIRTIO_DSC_BASE_L_MASK virtio_desc_base_l,
      FIELD_SET SW_IND_CTXT_DATA_W6_VIRTIO_DSC_BASE_M_MASK virtio_desc_base_m,
      FIELD_SET SW_IND_CTXT_DATA_W7_VIRTIO_DSC_BASE_H_MASK virtio_desc_base_h])"

definition eqdma_cpm5_sw_fields :: "u32 list \<Rightarrow> qdma_descq_sw_ctxt \<Rightarrow> qdma_descq_sw_ctxt" where
  "eqdma_cpm5_sw_fields ctxt_data ctxt =
    (let pasid_l = FIELD_GET SW_IND_CTXT_DATA_W4_PASID_L_MASK (ctxt_data ! 4);
         pasid_h = FIELD_GET SW_IND_CTXT_DATA_W5_PASID_H_MASK (ctxt_data ! 5);
         virtio_desc_base_l = FIELD_GET SW_IND_CTXT_DATA_W5_VIRTIO_DSC_BASE_L_MASK (ctxt_data ! 5);
         virtio_desc_base_m = FIELD_GET SW_IND_CTXT_DATA_W6_VIRTIO_DSC_BASE_M_MASK (ctxt_data ! 6);
         virtio_desc_base_h = FIELD_GET SW_IND_CTXT_DATA_W7_VIRTIO_DSC_BASE_H_MASK (ctxt_data ! 6) in
     ctxt\<lparr>sw_pidx := ucast (FIELD_GET SW_IND_CTXT_DATA_W0_PIDX_MASK (ctxt_data ! 0)),
       sw_irq_arm := ucast (FIELD_GET SW_IND_CTXT_DATA_W0_IRQ_ARM_MASK (ctxt_data ! 0)),
       sw_fnc_id := ucast (FIELD_GET SW_IND_CTXT_DATA_W0_FNC_MASK (ctxt_data ! 0)),
       sw_qen := ucast (FIELD_GET SW_IND_CTXT_DATA_W1_QEN_MASK (ctxt_data ! 1)),
       sw_frcd_en := ucast (FIELD_GET SW_IND_CTXT_DATA_W1_FCRD_EN_MASK (ctxt_data ! 1)),
       sw_wbi_chk := ucast (FIELD_GET SW_IND_CTXT_DATA_W1_WBI_CHK_MASK (ctxt_data ! 1)),
       sw_wbi_intvl_en := ucast (FIELD_GET SW_IND_CTXT_DATA_W1_WBI_INTVL_EN_MASK (ctxt_data ! 1)),
       sw_at := ucast (FIELD_GET SW_IND_CTXT_DATA_W1_AT_MASK (ctxt_data ! 1)),
       sw_fetch_max := ucast (FIELD_GET SW_IND_CTXT_DATA_W1_FETCH_MAX_MASK (ctxt_data ! 1)),
       sw_rngsz_idx := ucast (FIELD_GET SW_IND_CTXT_DATA_W1_RNG_SZ_MASK (ctxt_data ! 1)),
       sw_desc_sz := ucast (FIELD_GET SW_IND_CTXT_DATA_W1_DSC_SZ_MASK (ctxt_data ! 1)),
       sw_bypass := ucast (FIELD_GET SW_IND_CTXT_DATA_W1_BYPASS_MASK (ctxt_data ! 1)),
       sw_mm_chn := ucast (FIELD_GET SW_IND_CTXT_DATA_W1_MM_CHN_MASK (ctxt_data ! 1)),
       sw_wbk_en := ucast (FIELD_GET SW_IND_CTXT_DATA_W1_WBK_EN_MASK (ctxt_data ! 1)),
       sw_irq_en := ucast (FIELD_GET SW_IND_CTXT_DATA_W1_IRQ_EN_MASK (ctxt_data ! 1)),
       sw_port_id := ucast (FIELD_GET SW_IND_CTXT_DATA_W1_PORT_ID_MASK (ctxt_data ! 1)),
       sw_irq_no_last := ucast (FIELD_GET SW_IND_CTXT_DATA_W1_IRQ_NO_LAST_MASK (ctxt_data ! 1)),
       sw_err := ucast (FIELD_GET SW_IND_CTXT_DATA_W1_ERR_MASK (ctxt_data ! 1)),
       sw_err_wb_sent := ucast (FIELD_GET SW_IND_CTXT_DATA_W1_ERR_WB_SENT_MASK (ctxt_data ! 1)),
       sw_irq_req := ucast (FIELD_GET SW_IND_CTXT_DATA_W1_IRQ_REQ_MASK (ctxt_data ! 1)),
       sw_mrkr_dis := ucast (FIELD_GET SW_IND_CTXT_DATA_W1_MRKR_DIS_MASK (ctxt_data ! 1)),
       sw_is_mm := ucast (FIELD_GET SW_IND_CTXT_DATA_W1_IS_MM_MASK (ctxt_data ! 1)),
       sw_ring_bs_addr := push_bit 32 (ucast (ctxt_data ! 3)) OR ucast (ctxt_data ! 2),
       sw_vec := ucast (FIELD_GET SW_IND_CTXT_DATA_W4_VEC_MASK (ctxt_data ! 4)),
       sw_intr_aggr := ucast (FIELD_GET SW_IND_CTXT_DATA_W4_INT_AGGR_MASK (ctxt_data ! 4)),
       sw_dis_intr_on_vf := ucast (FIELD_GET SW_IND_CTXT_DATA_W4_DIS_INTR_ON_VF_MASK (ctxt_data ! 4)),
       sw_virtio_en := ucast (FIELD_GET SW_IND_CTXT_DATA_W4_VIRTIO_EN_MASK (ctxt_data ! 4)),
       sw_pack_byp_out := ucast (FIELD_GET SW_IND_CTXT_DATA_W4_PACK_BYP_OUT_MASK (ctxt_data ! 4)),
       sw_irq_byp := ucast (FIELD_GET SW_IND_CTXT_DATA_W4_IRQ_BYP_MASK (ctxt_data ! 4)),
       sw_host_id := ucast (FIELD_GET SW_IND_CTXT_DATA_W4_HOST_ID_MASK (ctxt_data ! 4)),
       sw_pasid_en := ucast (FIELD_GET SW_IND_CTXT_DATA_W5_PASID_EN_MASK (ctxt_data ! 5)),
       sw_pasid := FIELD_SET EQDMA_CPM5_SW_CTXT_PASID_GET_L_MASK pasid_l OR
         FIELD_SET EQDMA_CPM5_SW_CTXT_PASID_GET_H_MASK pasid_h,
       sw_virtio_dsc_base := FIELD_SET EQDMA_CPM5_SW_CTXT_VIRTIO_DSC_BASE_GET_L_MASK (ucast virtio_desc_base_l) OR
         FIELD_SET EQDMA_CPM5_SW_CTXT_VIRTIO_DSC_BASE_GET_M_MASK (ucast virtio_desc_base_m) OR
         FIELD_SET EQDMA_CPM5_SW_CTXT_VIRTIO_DSC_BASE_GET_H_MASK (ucast virtio_desc_base_h)\<rparr>)"

definition eqdma_cpm5_sw_context_write ::
  "'d mmio \<Rightarrow> 'd xdev option \<Rightarrow> u8 \<Rightarrow> u16 \<Rightarrow> qdma_descq_sw_ctxt option \<Rightarrow> int \<times> 'd xdev option" where
  "eqdma_cpm5_sw_context_write io dev c2h hw_qid ctxt =
     context_write (eqdma_cpm5_indirect_reg_write io) eqdma_cpm5_sw_words dev
       (if c2h \<noteq> 0 then QDMA_CTXT_SEL_SW_C2H else QDMA_CTXT_SEL_SW_H2C) hw_qid ctxt"

definition eqdma_cpm5_sw_context_read ::
  "'d mmio \<Rightarrow> 'd xdev option \<Rightarrow> u8 \<Rightarrow> u16 \<Rightarrow> qdma_descq_sw_ctxt option \<Rightarrow> int \<times> qdma_descq_sw_ctxt option \<times> 'd xdev option" where
  "eqdma_cpm5_sw_context_read io dev c2h hw_qid ctxt =
     context_read (eqdma_cpm5_indirect_reg_read io) 8 eqdma_cpm5_sw_fields dev
       (if c2h \<noteq> 0 then QDMA_CTXT_SEL_SW_C2H else QDMA_CTXT_SEL_SW_H2C) hw_qid ctxt"

definition eqdma_cpm5_sw_context_clear ::
  "'d mmio \<Rightarrow> 'd xdev option \<Rightarrow> u8 \<Rightarrow> u16 \<Rightarrow> int \<times> 'd xdev option" where
  "eqdma_cpm5_sw_context_clear io dev c2h hw_qid =
     context_cmd (eqdma_cpm5_indirect_reg_clear io) dev
       (if c2h \<noteq> 0 then QDMA_CTXT_SEL_SW_C2H else QDMA_CTXT_SEL_SW_H2C) hw_qid"

definition eqdma_cpm5_sw_context_invalidate ::
  "'d mmio \<Rightarrow> 'd xdev option \<Rightarrow> u8 \<Rightarrow> u16 \<Rightarrow> int \<times> 'd xdev option" where
  "eqdma_cpm5_sw_context_invalidate io dev c2h hw_qid =
     context_cmd (eqdma_cpm5_indirect_reg_invalidate io) dev
       (if c2h \<noteq> 0 then QDMA_CTXT_SEL_SW_C2H else QDMA_CTXT_SEL_SW_H2C) hw_qid"

definition eqdma_cpm5_sw_ctx_conf ::
  "'d mmio \<Rightarrow> 'd xdev option \<Rightarrow> u8 \<Rightarrow> u16 \<Rightarrow> qdma_descq_sw_ctxt option \<Rightarrow> qdma_hw_access_type \<Rightarrow>
   int \<times> qdma_descq_sw_ctxt option \<times> 'd xdev option" where
  "eqdma_cpm5_sw_ctx_conf io dev c2h hw_qid ctxt access_type =
     (case access_type of
        QDMA_HW_ACCESS_READ \<Rightarrow> eqdma_cpm5_sw_context_read io dev c2h hw_qid ctxt
      | QDMA_HW_ACCESS_WRITE \<Rightarrow> keep_ctxt ctxt (eqdma_cpm5_sw_context_write io dev c2h hw_qid ctxt)
      | QDMA_HW_ACCESS_CLEAR \<Rightarrow> keep_ctxt ctxt (eqdma_cpm5_sw_context_clear io dev c2h hw_qid)
      | QDMA_HW_ACCESS_INVALIDATE \<Rightarrow> keep_ctxt ctxt (eqdma_cpm5_sw_context_invalidate io dev c2h hw_qid)
      | _ \<Rightarrow> (neg_err QDMA_ERR_INV_PARAM, ctxt, dev))"

section \<open>Prefetch context\<close>

definition eqdma_cpm5_pfetch_words :: "qdma_descq_prefetch_ctxt \<Rightarrow> u32 list" where
  "eqdma_cpm5_pfetch_words ctxt =
    (let sw_crdt_l = FIELD_GET QDMA_PFTCH_CTXT_SW_CRDT_GET_L_MASK (ucast (pf_sw_crdt ctxt));
         sw_crdt_h = FIELD_GET QDMA_PFTCH_CTXT_SW_CRDT_GET_H_MASK (ucast (pf_sw_crdt ctxt)) in
     [FIELD_SET PREFETCH_CTXT_DATA_W0_BYPASS_MASK (ucast (pf_bypass ctxt)) OR
       FIELD_SET PREFETCH_CTXT_DATA_W0_BUF_SZ_IDX_MASK (ucast (pf_bufsz_idx ctxt)) OR
       FIELD_SET PREFETCH_CTXT_DATA_W0_PORT_ID_MASK (ucast (pf_port_id ctxt)) OR
       FIELD_SET PREFETCH_CTXT_DATA_W0_NUM_PFCH_MASK (ucast (pf_num_pftch ctxt)) OR
       FIELD_SET PREFETCH_CTXT_DATA_W0_VAR_DESC_MASK (ucast (pf_var_desc ctxt)) OR
       FIELD_SET PREFETCH_CTXT_DATA_W0_ERR_MASK (ucast (pf_err ctxt)) OR
       FIELD_SET PREFETCH_CTXT_DATA_W0_PFCH_EN_MASK (ucast (pf_pfch_en ctxt)) OR
       FIELD_SET PREFETCH_CTXT_DATA_W0_PFCH_MASK (ucast (pf_pfch ctxt)) OR
       FIELD_SET PREFETCH_CTXT_DATA_W0_SW_CRDT_L_MASK sw_crdt_l,
      FIELD_SET PREFETCH_CTXT_DATA_W1_SW_CRDT_H_MASK sw_crdt_h OR
       FIELD_SET PREFETCH_CTXT_DATA_W1_VALID_MASK (ucast (pf_valid ctxt))])"

definition eqdma_cpm5_pfetch_fields :: "u32 list \<Rightarrow> qdma_descq_prefetch_ctxt \<Rightarrow> qdma_descq_prefetch_ctxt" where
  "eqdma_cpm5_pfetch_fields ctxt_data ctxt =
    (let sw_crdt_l = FIELD_GET PREFETCH_CTXT_DATA_W0_SW_CRDT_L_MASK (ctxt_data ! 0);
         sw_crdt_h = FIELD_GET PREFETCH_CTXT_DATA_W1_SW_CRDT_H_MASK (ctxt_data ! 1) in
     ctxt\<lparr>pf_bypass := ucast (FIELD_GET PREFETCH_CTXT_DATA_W0_BYPASS_MASK (ctxt_data ! 0)),
       pf_bufsz_idx := ucast (FIELD_GET PREFETCH_CTXT_DATA_W0_BUF_SZ_IDX_MASK (ctxt_data ! 0)),
       pf_num_pftch := ucast (FIELD_GET PREFETCH_CTXT_DATA_W0_NUM_PFCH_MASK (ctxt_data ! 0)),
       pf_port_id := ucast (FIELD_GET PREFETCH_CTXT_DATA_W0_PORT_ID_MASK (ctxt_data ! 0)),
       pf_var_desc := ucast (FIELD_GET PREFETCH_CTXT_DATA_W0_VAR_DESC_MASK (ctxt_data ! 0)),
       pf_err := ucast (FIELD_GET PREFETCH_CTXT_DATA_W0_ERR_MASK (ctxt_data ! 0)),
       pf_pfch_en := ucast (FIELD_GET PREFETCH_CTXT_DATA_W0_PFCH_EN_MASK (ctxt_data ! 0)),
       pf_pfch := ucast (FIELD_GET PREFETCH_CTXT_DATA_W0_PFCH_MASK (ctxt_data ! 0)),
       pf_valid := ucast (FIELD_GET PREFETCH_CTXT_DATA_W1_VALID_MASK (ctxt_data ! 1)),
       pf_sw_crdt := ucast (FIELD_SET QDMA_PFTCH_CTXT_SW_CRDT_GET_L_MASK sw_crdt_l OR
         FIELD_SET QDMA_PFTCH_CTXT_SW_CRDT_GET_H_MASK sw_crdt_h)\<rparr>)"

definition eqdma_cpm5_pfetch_context_write ::
  "'d mmio \<Rightarrow> 'd xdev option \<Rightarrow> u16 \<Rightarrow> qdma_descq_prefetch_ctxt option \<Rightarrow> int \<times> 'd xdev option" where
  "eqdma_cpm5_pfetch_context_write io dev hw_qid ctxt =
     context_write (eqdma_cpm5_indirect_reg_write io) eqdma_cpm5_pfetch_words dev
       QDMA_CTXT_SEL_PFTCH hw_qid ctxt"

definition eqdma_cpm5_pfetch_context_read ::
  "'d mmio \<Rightarrow> 'd xdev option \<Rightarrow> u16 \<Rightarrow> qdma_descq_prefetch_ctxt option \<Rightarrow> int \<times> qdma_descq_prefetch_ctxt option \<times> 'd xdev option" where
  "eqdma_cpm5_pfetch_context_read io dev hw_qid ctxt =
     context_read (eqdma_cpm5_indirect_reg_read io) 2 eqdma_cpm5_pfetch_fields dev
       QDMA_CTXT_SEL_PFTCH hw_qid ctxt"

definition eqdma_cpm5_pfetch_context_clear ::
  "'d mmio \<Rightarrow> 'd xdev option \<Rightarrow> u16 \<Rightarrow> int \<times> 'd xdev option" where
  "eqdma_cpm5_pfetch_context_clear io dev hw_qid =
     context_cmd (eqdma_cpm5_indirect_reg_clear io) dev
       QDMA_CTXT_SEL_PFTCH hw_qid"

definition eqdma_cpm5_pfetch_context_invalidate ::
  "'d mmio \<Rightarrow> 'd xdev option \<Rightarrow> u16 \<Rightarrow> int \<times> 'd xdev option" where
  "eqdma_cpm5_pfetch_context_invalidate io dev hw_qid =
     context_cmd (eqdma_cpm5_indirect_reg_invalidate io) dev
       QDMA_CTXT_SEL_PFTCH hw_qid"

definition eqdma_cpm5_pfetch_ctx_conf ::
  "'d mmio \<Rightarrow> 'd xdev option \<Rightarrow> u16 \<Rightarrow> qdma_descq_prefetch_ctxt option \<Rightarrow> qdma_hw_access_type \<Rightarrow>
   int \<times> qdma_descq_prefetch_ctxt option \<times> 'd xdev option" where
  "eqdma_cpm5_pfetch_ctx_conf io dev hw_qid ctxt access_type =
     (case access_type of
        QDMA_HW_ACCESS_READ \<Rightarrow> eqdma_cpm5_pfetch_context_read io dev hw_qid ctxt
      | QDMA_HW_ACCESS_WRITE \<Rightarrow> keep_ctxt ctxt (eqdma_cpm5_pfetch_context_write io dev hw_qid ctxt)
      | QDMA_HW_ACCESS_CLEAR \<Rightarrow> keep_ctxt ctxt (eqdma_cpm5_pfetch_context_clear io dev hw_qid)
      | QDMA_HW_ACCESS_INVALIDATE \<Rightarrow> keep_ctxt ctxt (eqdma_cpm5_pfetch_context_invalidate io dev hw_qid)
      | _ \<Rightarrow> (neg_err QDMA_ERR_INV_PARAM, ctxt, dev))"

section \<open>Completion context\<close>

definition eqdma_cpm5_cmpt_words :: "qdma_descq_cmpt_ctxt \<Rightarrow> u32 list" where
  "eqdma_cpm5_cmpt_words ctxt =
    (let baddr4_high_l = (ucast (FIELD_GET EQDMA_CPM5_COMPL_CTXT_BADDR_HIGH_L_MASK (cm_bs_addr ctxt)) :: u32);
         baddr4_high_h = (ucast (FIELD_GET EQDMA_CPM5_COMPL_CTXT_BADDR_HIGH_H_MASK (cm_bs_addr ctxt)) :: u32);
         baddr4_low = (ucast (FIELD_GET EQDMA_CPM5_COMPL_CTXT_BADDR_LOW_MASK (cm_bs_addr ctxt)) :: u32);
         pidx_l = FIELD_GET QDMA_COMPL_CTXT_PIDX_GET_L_MASK (ucast (cm_pidx ctxt));
         pidx_h = FIELD_GET QDMA_COMPL_CTXT_PIDX_GET_H_MASK (ucast (cm_pidx ctxt));
         pasid_l = FIELD_GET EQDMA_CPM5_CMPL_CTXT_PASID_GET_L_MASK (cm_pasid ctxt);
         pasid_h = FIELD_GET EQDMA_CPM5_CMPL_CTXT_PASID_GET_H_MASK (cm_pasid ctxt) in
     [FIELD_SET CMPL_CTXT_DATA_W0_EN_STAT_DESC_MASK (ucast (cm_en_stat_desc ctxt)) OR
       FIELD_SET CMPL_CTXT_DATA_W0_EN_INT_MASK (ucast (cm_en_int ctxt)) OR
       FIELD_SET CMPL_CTXT_DATA_W0_TRIG_MODE_MASK (ucast (cm_trig_mode ctxt)) OR
       FIELD_SET CMPL_CTXT_DATA_W0_FNC_ID_MASK (ucast (cm_fnc_id ctxt)) OR
       FIELD_SET CMPL_CTXT_DATA_W0_CNTER_IX_MASK (ucast (cm_counter_idx ctxt)) OR
       FIELD_SET CMPL_CTXT_DATA_W0_TIMER_IX_MASK (ucast (cm_timer_idx ctxt)) OR
       FIELD_SET CMPL_CTXT_DATA_W0_INT_ST_MASK (ucast (cm_in_st ctxt)) OR
       FIELD_SET CMPL_CTXT_DATA_W0_COLOR_MASK (ucast (cm_color ctxt)) OR
       FIELD_SET CMPL_CTXT_DATA_W0_QSIZE_IX_MASK (ucast (cm_ringsz_idx ctxt)),
      FIELD_SET CMPL_CTXT_DATA_W1_BADDR4_HIGH_L_MASK baddr4_high_l,
      FIELD_SET CMPL_CTXT_DATA_W2_BADDR4_HIGH_H_MASK baddr4_high_h OR
       FIELD_SET CMPL_CTXT_DATA_W2_DESC_SIZE_MASK (ucast (cm_desc_sz ctxt)) OR
       FIELD_SET CMPL_CTXT_DATA_W2_PIDX_L_MASK pidx_l,
      FIELD_SET CMPL_CTXT_DATA_W3_PIDX_H_MASK pidx_h OR
       FIELD_SET CMPL_CTXT_DATA_W3_CIDX_MASK (ucast (cm_cidx ctxt)) OR
       FIELD_SET CMPL_CTXT_DATA_W3_VALID_MASK (ucast (cm_valid ctxt)) OR
       FIELD_SET CMPL_CTXT_DATA_W3_ERR_MASK (ucast (cm_err ctxt)) OR
       FIELD_SET CMPL_CTXT_DATA_W3_USER_TRIG_PEND_MASK (ucast (cm_user_trig_pend ctxt)),
      FIELD_SET CMPL_CTXT_DATA_W4_TIMER_RUNNING_MASK (ucast (cm_timer_running ctxt)) OR
       FIELD_SET CMPL_CTXT_DATA_W4_FULL_UPD_MASK (ucast (cm_full_upd ctxt)) OR
       FIELD_SET CMPL_CTXT_DATA_W4_OVF_CHK_DIS_MASK (ucast (cm_ovf_chk_dis ctxt)) OR
       FIELD_SET CMPL_CTXT_DATA_W4_AT_MASK (ucast (cm_at ctxt)) OR
       FIELD_SET CMPL_CTXT_DATA_W4_VEC_MASK (ucast (cm_vec ctxt)) OR
       FIELD_SET CMPL_CTXT_DATA_W4_INT_AGGR_MASK (ucast (cm_int_aggr ctxt)) OR
       FIELD_SET CMPL_CTXT_DATA_W4_DIS_INTR_ON_VF_MASK (ucast (cm_dis_intr_on_vf ctxt)) OR
       FIELD_SET CMPL_CTXT_DATA_W4_VIO_MASK (ucast (cm_vio ctxt)) OR
       FIELD_SET CMPL_CTXT_DATA_W4_DIR_C2H_MASK (ucast (cm_dir_c2h ctxt)) OR
       FIELD_SET CMPL_CTXT_DATA_W4_HOST_ID_MASK (ucast (cm_host_id ctxt)) OR
       FIELD_SET CMPL_CTXT_DATA_W4_PASID_L_MASK pasid_l,
      FIELD_SET CMPL_CTXT_DATA_W5_PASID_H_MASK pasid_h OR
       FIELD_SET CMPL_CTXT_DATA_W5_PASID_EN_MASK (ucast (cm_pasid_en ctxt)) OR
       FIELD_SET CMPL_CTXT_DATA_W5_BADDR4_LOW_MASK baddr4_low OR
       FIELD_SET CMPL_CTXT_DATA_W5_VIO_EOP_MASK (ucast (cm_vio_eop ctxt)) OR
       FIELD_SET CMPL_CTXT_DATA_W5_SH_CMPT_MASK (ucast (cm_sh_cmpt ctxt))])"

definition eqdma_cpm5_cmpt_fields :: "u32 list \<Rightarrow> qdma_descq_cmpt_ctxt \<Rightarrow> qdma_descq_cmpt_ctxt" where
  "eqdma_cpm5_cmpt_fields ctxt_data ctxt =
    (let baddr4_high_l = FIELD_GET CMPL_CTXT_DATA_W1_BADDR4_HIGH_L_MASK (ctxt_data ! 1);
         baddr4_high_h = FIELD_GET CMPL_CTXT_DATA_W2_BADDR4_HIGH_H_MASK (ctxt_data ! 2);
         pidx_l = FIELD_GET CMPL_CTXT_DATA_W2_PIDX_L_MASK (ctxt_data ! 2);
         pidx_h = FIELD_GET CMPL_CTXT_DATA_W3_PIDX_H_MASK (ctxt_data ! 3);
         pasid_l = FIELD_GET CMPL_CTXT_DATA_W4_PASID_L_MASK (ctxt_data ! 4);
         pasid_h = FIELD_GET CMPL_CTXT_DATA_W5_PASID_H_MASK (ctxt_data ! 5);
         baddr4_low = (ucast (ucast (FIELD_GET CMPL_CTXT_DATA_W5_BADDR4_LOW_MASK (ctxt_data ! 5)) :: 8 word) :: 32 word) in
     ctxt\<lparr>cm_en_stat_desc := ucast (FIELD_GET CMPL_CTXT_DATA_W0_EN_STAT_DESC_MASK (ctxt_data ! 0)),
       cm_en_int := ucast (FIELD_GET CMPL_CTXT_DATA_W0_EN_INT_MASK (ctxt_data ! 0)),
       cm_trig_mode := ucast (FIELD_GET CMPL_CTXT_DATA_W0_TRIG_MODE_MASK (ctxt_data ! 0)),
       cm_fnc_id := ucast (FIELD_GET CMPL_CTXT_DATA_W0_FNC_ID_MASK (ctxt_data ! 0)),
       cm_counter_idx := ucast (FIELD_GET CMPL_CTXT_DATA_W0_CNTER_IX_MASK (ctxt_data ! 0)),
       cm_timer_idx := ucast (FIELD_GET CMPL_CTXT_DATA_W0_TIMER_IX_MASK (ctxt_data ! 0)),
       cm_in_st := ucast (FIELD_GET CMPL_CTXT_DATA_W0_INT_ST_MASK (ctxt_data ! 0)),
       cm_color := ucast (FIELD_GET CMPL_CTXT_DATA_W0_COLOR_MASK (ctxt_data ! 0)),
       cm_ringsz_idx := ucast (FIELD_GET CMPL_CTXT_DATA_W0_QSIZE_IX_MASK (ctxt_data ! 0)),
       cm_desc_sz := ucast (FIELD_GET CMPL_CTXT_DATA_W2_DESC_SIZE_MASK (ctxt_data ! 2)),
       cm_cidx := ucast (FIELD_GET CMPL_CTXT_DATA_W3_CIDX_MASK (ctxt_data ! 3)),
       cm_valid := ucast (FIELD_GET CMPL_CTXT_DATA_W3_VALID_MASK (ctxt_data ! 3)),
       cm_err := ucast (FIELD_GET CMPL_CTXT_DATA_W3_ERR_MASK (ctxt_data ! 3)),
       cm_user_trig_pend := ucast (FIELD_GET CMPL_CTXT_DATA_W3_USER_TRIG_PEND_MASK (ctxt_data ! 3)),
       cm_timer_running := ucast (FIELD_GET CMPL_CTXT_DATA_W4_TIMER_RUNNING_MASK (ctxt_data ! 4)),
       cm_full_upd := ucast (FIELD_GET CMPL_CTXT_DATA_W4_FULL_UPD_MASK (ctxt_data ! 4)),
       cm_ovf_chk_dis := ucast (FIELD_GET CMPL_CTXT_DATA_W4_OVF_CHK_DIS_MASK (ctxt_data ! 4)),
       cm_at := ucast (FIELD_GET CMPL_CTXT_DATA_W4_AT_MASK (ctxt_data ! 4)),
       cm_vec := ucast (FIELD_GET CMPL_CTXT_DATA_W4_VEC_MASK (ctxt_data ! 4)),
       cm_int_aggr := ucast (FIELD_GET CMPL_CTXT_DATA_W4_INT_AGGR_MASK (ctxt_data ! 4)),
       cm_dis_intr_on_vf := ucast (FIELD_GET CMPL_CTXT_DATA_W4_DIS_INTR_ON_VF_MASK (ctxt_data ! 4)),
       cm_vio := ucast (FIELD_GET CMPL_CTXT_DATA_W4_VIO_MASK (ctxt_data ! 4)),
       cm_dir_c2h := ucast (FIELD_GET CMPL_CTXT_DATA_W4_DIR_C2H_MASK (ctxt_data ! 4)),
       cm_host_id := ucast (FIELD_GET CMPL_CTXT_DATA_W4_HOST_ID_MASK (ctxt_data ! 4)),
       cm_pasid_en := ucast (FIELD_GET CMPL_CTXT_DATA_W5_PASID_EN_MASK (ctxt_data ! 5)),
       cm_vio_eop := ucast (FIELD_GET CMPL_CTXT_DATA_W5_VIO_EOP_MASK (ctxt_data ! 5)),
       cm_sh_cmpt := ucast (FIELD_GET CMPL_CTXT_DATA_W5_SH_CMPT_MASK (ctxt_data ! 5)),
       cm_bs_addr := FIELD_SET EQDMA_CPM5_COMPL_CTXT_BADDR_HIGH_L_MASK (ucast baddr4_high_l) OR
         FIELD_SET EQDMA_CPM5_COMPL_CTXT_BADDR_HIGH_H_MASK (ucast baddr4_high_h) OR
         FIELD_SET EQDMA_CPM5_COMPL_CTXT_BADDR_LOW_MASK (ucast baddr4_low),
       cm_pasid := ucast (ucast (FIELD_SET EQDMA_CPM5_CMPL_CTXT_PASID_GET_L_MASK pasid_l) OR
         FIELD_SET (ucast EQDMA_CPM5_CMPL_CTXT_PASID_GET_H_MASK :: u64) (ucast pasid_h)),
       cm_pidx := ucast (FIELD_SET QDMA_COMPL_CTXT_PIDX_GET_L_MASK pidx_l OR
         FIELD_SET QDMA_COMPL_CTXT_PIDX_GET_H_MASK pidx_h)\<rparr>)"

definition eqdma_cpm5_cmpt_context_write ::
  "'d mmio \<Rightarrow> 'd xdev option \<Rightarrow> u16 \<Rightarrow> qdma_descq_cmpt_ctxt option \<Rightarrow> int \<times> 'd xdev option" where
  "eqdma_cpm5_cmpt_context_write io dev hw_qid ctxt =
     (case (dev, ctxt) of
        (Some d, Some c) \<Rightarrow>
          if cm_trig_mode c > QDMA_CMPT_UPDATE_TRIG_MODE_TMR_CNTR
          then (neg_err QDMA_ERR_INV_PARAM, dev)
          else context_write (eqdma_cpm5_indirect_reg_write io) eqdma_cpm5_cmpt_words dev QDMA_CTXT_SEL_CMPT hw_qid ctxt
      | _ \<Rightarrow> (neg_err QDMA_ERR_INV_PARAM, dev))"

definition eqdma_cpm5_cmpt_context_read ::
  "'d mmio \<Rightarrow> 'd xdev option \<Rightarrow> u16 \<Rightarrow> qdma_descq_cmpt_ctxt option \<Rightarrow> int \<times> qdma_descq_cmpt_ctxt option \<times> 'd xdev option" where
  "eqdma_cpm5_cmpt_context_read io dev hw_qid ctxt =
     context_read (eqdma_cpm5_indirect_reg_read io) 6 eqdma_cpm5_cmpt_fields dev
       QDMA_CTXT_SEL_CMPT hw_qid ctxt"

definition eqdma_cpm5_cmpt_context_clear ::
  "'d mmio \<Rightarrow> 'd xdev option \<Rightarrow> u16 \<Rightarrow> int \<times> 'd xdev option" where
  "eqdma_cpm5_cmpt_context_clear io dev hw_qid =
     context_cmd (eqdma_cpm5_indirect_reg_clear io) dev
       QDMA_CTXT_SEL_CMPT hw_qid"

definition eqdma_cpm5_cmpt_context_invalidate ::
  "'d mmio \<Rightarrow> 'd xdev option \<Rightarrow> u16 \<Rightarrow> int \<times> 'd xdev option" where
  "eqdma_cpm5_cmpt_context_invalidate io dev hw_qid =
     context_cmd (eqdma_cpm5_indirect_reg_invalidate io) dev
       QDMA_CTXT_SEL_CMPT hw_qid"

definition eqdma_cpm5_cmpt_ctx_conf ::
  "'d mmio \<Rightarrow> 'd xdev option \<Rightarrow> u16 \<Rightarrow> qdma_descq_cmpt_ctxt option \<Rightarrow> qdma_hw_access_type \<Rightarrow>
   int \<times> qdma_descq_cmpt_ctxt option \<times> 'd xdev option" where
  "eqdma_cpm5_cmpt_ctx_conf io dev hw_qid ctxt access_type =
     (case access_type of
        QDMA_HW_ACCESS_READ \<Rightarrow> eqdma_cpm5_cmpt_context_read io dev hw_qid ctxt
      | QDMA_HW_ACCESS_WRITE \<Rightarrow> keep_ctxt ctxt (eqdma_cpm5_cmpt_context_write io dev hw_qid ctxt)
      | QDMA_HW_ACCESS_CLEAR \<Rightarrow> keep_ctxt ctxt (eqdma_cpm5_cmpt_context_clear io dev hw_qid)
      | QDMA_HW_ACCESS_INVALIDATE \<Rightarrow> keep_ctxt ctxt (eqdma_cpm5_cmpt_context_invalidate io dev hw_qid)
      | _ \<Rightarrow> (neg_err QDMA_ERR_INV_PARAM, ctxt, dev))"

section \<open>Hardware context\<close>

definition eqdma_cpm5_hw_fields :: "u32 list \<Rightarrow> qdma_descq_hw_ctxt \<Rightarrow> qdma_descq_hw_ctxt" where
  "eqdma_cpm5_hw_fields ctxt_data ctxt =
     ctxt\<lparr>hw_cidx := ucast (FIELD_GET HW_IND_CTXT_DATA_W0_CIDX_MASK (ctxt_data ! 0)),
       hw_crd_use := ucast (FIELD_GET HW_IND_CTXT_DATA_W0_CRD_USE_MASK (ctxt_data ! 0)),
       hw_dsc_pend := ucast (FIELD_GET HW_IND_CTXT_DATA_W1_DSC_PND_MASK (ctxt_data ! 1)),
       hw_idl_stp_b := ucast (FIELD_GET HW_IND_CTXT_DATA_W1_IDL_STP_B_MASK (ctxt_data ! 1)),
       hw_evt_pnd := ucast (FIELD_GET HW_IND_CTXT_DATA_W1_EVT_PND_MASK (ctxt_data ! 1)),
       hw_fetch_pnd := ucast (FIELD_GET HW_IND_CTXT_DATA_W1_DSC_PND_MASK (ctxt_data ! 1))\<rparr>"

definition eqdma_cpm5_hw_context_read ::
  "'d mmio \<Rightarrow> 'd xdev option \<Rightarrow> u8 \<Rightarrow> u16 \<Rightarrow> qdma_descq_hw_ctxt option \<Rightarrow> int \<times> qdma_descq_hw_ctxt option \<times> 'd xdev option" where
  "eqdma_cpm5_hw_context_read io dev c2h hw_qid ctxt =
     context_read (eqdma_cpm5_indirect_reg_read io) 2 eqdma_cpm5_hw_fields dev
       (if c2h \<noteq> 0 then QDMA_CTXT_SEL_HW_C2H else QDMA_CTXT_SEL_HW_H2C) hw_qid ctxt"

definition eqdma_cpm5_hw_context_clear ::
  "'d mmio \<Rightarrow> 'd xdev option \<Rightarrow> u8 \<Rightarrow> u16 \<Rightarrow> int \<times> 'd xdev option" where
  "eqdma_cpm5_hw_context_clear io dev c2h hw_qid =
     context_cmd (eqdma_cpm5_indirect_reg_clear io) dev
       (if c2h \<noteq> 0 then QDMA_CTXT_SEL_HW_C2H else QDMA_CTXT_SEL_HW_H2C) hw_qid"

definition eqdma_cpm5_hw_context_invalidate ::
  "'d mmio \<Rightarrow> 'd xdev option \<Rightarrow> u8 \<Rightarrow> u16 \<Rightarrow> int \<times> 'd xdev option" where
  "eqdma_cpm5_hw_context_invalidate io dev c2h hw_qid =
     context_cmd (eqdma_cpm5_indirect_reg_invalidate io) dev
       (if c2h \<noteq> 0 then QDMA_CTXT_SEL_HW_C2H else QDMA_CTXT_SEL_HW_H2C) hw_qid"

definition eqdma_cpm5_hw_ctx_conf ::
  "'d mmio \<Rightarrow> 'd xdev option \<Rightarrow> u8 \<Rightarrow> u16 \<Rightarrow> qdma_descq_hw_ctxt option \<Rightarrow> qdma_hw_access_type \<Rightarrow>
   int \<times> qdma_descq_hw_ctxt option \<times> 'd xdev option" where
  "eqdma_cpm5_hw_ctx_conf io dev c2h hw_qid ctxt access_type =
     (if c2h > 1 then (neg_err QDMA_ERR_INV_PARAM, ctxt, dev) else
      case access_type of
        QDMA_HW_ACCESS_READ \<Rightarrow> eqdma_cpm5_hw_context_read io dev c2h hw_qid ctxt
      | QDMA_HW_ACCESS_CLEAR \<Rightarrow> keep_ctxt ctxt (eqdma_cpm5_hw_context_clear io dev c2h hw_qid)
      | QDMA_HW_ACCESS_INVALIDATE \<Rightarrow> keep_ctxt ctxt (eqdma_cpm5_hw_context_invalidate io dev c2h hw_qid)
      | _ \<Rightarrow> (neg_err QDMA_ERR_INV_PARAM, ctxt, dev))"

section \<open>Credit context\<close>

definition eqdma_cpm5_credit_fields :: "u32 list \<Rightarrow> qdma_descq_credit_ctxt \<Rightarrow> qdma_descq_credit_ctxt" where
  "eqdma_cpm5_credit_fields ctxt_data ctxt =
     ctxt\<lparr>cr_credit := FIELD_GET CRED_CTXT_DATA_W0_CREDT_MASK (ctxt_data ! 0)\<rparr>"

definition eqdma_cpm5_credit_context_read ::
  "'d mmio \<Rightarrow> 'd xdev option \<Rightarrow> u8 \<Rightarrow> u16 \<Rightarrow> qdma_descq_credit_ctxt option \<Rightarrow> int \<times> qdma_descq_credit_ctxt option \<times> 'd xdev option" where
  "eqdma_cpm5_credit_context_read io dev c2h hw_qid ctxt =
     context_read (eqdma_cpm5_indirect_reg_read io) 1 eqdma_cpm5_credit_fields dev
       (if c2h \<noteq> 0 then QDMA_CTXT_SEL_CR_C2H else QDMA_CTXT_SEL_CR_H2C) hw_qid ctxt"

definition eqdma_cpm5_credit_context_clear ::
  "'d mmio \<Rightarrow> 'd xdev option \<Rightarrow> u8 \<Rightarrow> u16 \<Rightarrow> int \<times> 'd xdev option" where
  "eqdma_cpm5_credit_context_clear io dev c2h hw_qid =
     context_cmd (eqdma_cpm5_indirect_reg_clear io) dev
       (if c2h \<noteq> 0 then QDMA_CTXT_SEL_CR_C2H else QDMA_CTXT_SEL_CR_H2C) hw_qid"

definition eqdma_cpm5_credit_context_invalidate ::
  "'d mmio \<Rightarrow> 'd xdev option \<Rightarrow> u8 \<Rightarrow> u16 \<Rightarrow> int \<times> 'd xdev option" where
  "eqdma_cpm5_credit_context_invalidate io dev c2h hw_qid =
     context_cmd (eqdma_cpm5_indirect_reg_invalidate io) dev
       (if c2h \<noteq> 0 then QDMA_CTXT_SEL_CR_C2H else QDMA_CTXT_SEL_CR_H2C) hw_qid"

definition eqdma_cpm5_credit_ctx_conf ::
  "'d mmio \<Rightarrow> 'd xdev option \<Rightarrow> u8 \<Rightarrow> u16 \<Rightarrow> qdma_descq_credit_ctxt option \<Rightarrow> qdma_hw_access_type \<Rightarrow>
   int \<times> qdma_descq_credit_ctxt option \<times> 'd xdev option" where
  "eqdma_cpm5_credit_ctx_conf io dev c2h hw_qid ctxt access_type =
     (if c2h > 1 then (neg_err QDMA_ERR_INV_PARAM, ctxt, dev) else
      case access_type of
        QDMA_HW_ACCESS_READ \<Rightarrow> eqdma_cpm5_credit_context_read io dev c2h hw_qid ctxt
      | QDMA_HW_ACCESS_CLEAR \<Rightarrow> keep_ctxt ctxt (eqdma_cpm5_credit_context_clear io dev c2h hw_qid)
      | QDMA_HW_ACCESS_INVALIDATE \<Rightarrow> keep_ctxt ctxt (eqdma_cpm5_credit_context_invalidate io dev c2h hw_qid)
      | _ \<Rightarrow> (neg_err QDMA_ERR_INV_PARAM, ctxt, dev))"

section \<open>Function map\<close>

definition eqdma_cpm5_fmap_words :: "qdma_fmap_cfg \<Rightarrow> u32 list" where
  "eqdma_cpm5_fmap_words ctxt =
     [FIELD_SET EQDMA_CPM5_FMAP_CTXT_W0_QID_MASK (ucast (fm_qbase ctxt)),
      FIELD_SET EQDMA_CPM5_FMAP_CTXT_W1_QID_MAX_MASK (ucast (fm_qmax ctxt))]"

definition eqdma_cpm5_fmap_fields :: "u32 list \<Rightarrow> qdma_fmap_cfg \<Rightarrow> qdma_fmap_cfg" where
  "eqdma_cpm5_fmap_fields ctxt_data ctxt =
     ctxt\<lparr>fm_qbase := ucast (FIELD_GET EQDMA_CPM5_FMAP_CTXT_W0_QID_MASK (ctxt_data ! 0)),
       fm_qmax := ucast (FIELD_GET EQDMA_CPM5_FMAP_CTXT_W1_QID_MAX_MASK (ctxt_data ! 1))\<rparr>"

definition eqdma_cpm5_fmap_context_write ::
  "'d mmio \<Rightarrow> 'd xdev option \<Rightarrow> u16 \<Rightarrow> qdma_fmap_cfg option \<Rightarrow> int \<times> 'd xdev option" where
  "eqdma_cpm5_fmap_context_write io dev hw_qid ctxt =
     context_write (eqdma_cpm5_indirect_reg_write io) eqdma_cpm5_fmap_words dev
       QDMA_CTXT_SEL_FMAP hw_qid ctxt"

definition eqdma_cpm5_fmap_context_read ::
  "'d mmio \<Rightarrow> 'd xdev option \<Rightarrow> u16 \<Rightarrow> qdma_fmap_cfg option \<Rightarrow> int \<times> qdma_fmap_cfg option \<times> 'd xdev option" where
  "eqdma_cpm5_fmap_context_read io dev hw_qid ctxt =
     context_read (eqdma_cpm5_indirect_reg_read io) 2 eqdma_cpm5_fmap_fields dev
       QDMA_CTXT_SEL_FMAP hw_qid ctxt"

definition eqdma_cpm5_fmap_context_clear ::
  "'d mmio \<Rightarrow> 'd xdev option \<Rightarrow> u16 \<Rightarrow> int \<times> 'd xdev option" where
  "eqdma_cpm5_fmap_context_clear io dev hw_qid =
     context_cmd (eqdma_cpm5_indirect_reg_clear io) dev
       QDMA_CTXT_SEL_FMAP hw_qid"

definition eqdma_cpm5_fmap_conf ::
  "'d mmio \<Rightarrow> 'd xdev option \<Rightarrow> u16 \<Rightarrow> qdma_fmap_cfg option \<Rightarrow> qdma_hw_access_type \<Rightarrow>
   int \<times> qdma_fmap_cfg option \<times> 'd xdev option" where
  "eqdma_cpm5_fmap_conf io dev hw_qid ctxt access_type =
     (case access_type of
        QDMA_HW_ACCESS_READ \<Rightarrow> eqdma_cpm5_fmap_context_read io dev hw_qid ctxt
      | QDMA_HW_ACCESS_WRITE \<Rightarrow> keep_ctxt ctxt (eqdma_cpm5_fmap_context_write io dev hw_qid ctxt)
      | QDMA_HW_ACCESS_CLEAR \<Rightarrow> keep_ctxt ctxt (eqdma_cpm5_fmap_context_clear io dev hw_qid)
      | _ \<Rightarrow> (neg_err QDMA_ERR_INV_PARAM, ctxt, dev))"

text \<open>What a function map keeps on its way through the registers.\<close>

definition eqdma_cpm5_fmap_stored :: "qdma_fmap_cfg \<Rightarrow> qdma_fmap_cfg \<Rightarrow> qdma_fmap_cfg" where
  "eqdma_cpm5_fmap_stored c c0 =
     c0\<lparr>fm_qbase := take_bit 12 (fm_qbase c),
       fm_qmax := take_bit 13 (fm_qmax c)\<rparr>"

lemma eqdma_cpm5_fmap_dec_enc: "eqdma_cpm5_fmap_fields (eqdma_cpm5_fmap_words c) c0 = eqdma_cpm5_fmap_stored c c0"
  by (simp add: eqdma_cpm5_fmap_fields_def eqdma_cpm5_fmap_words_def eqdma_cpm5_fmap_stored_def field_simps field_parts)

interpretation eqdma_cpm5_fmap: ctxt_codec eqdma_cpm5_fmap_words eqdma_cpm5_fmap_fields eqdma_cpm5_fmap_stored 2
  by unfold_locales
     (simp_all only: eqdma_cpm5_fmap_dec_enc, simp_all add: eqdma_cpm5_fmap_words_def eqdma_cpm5_fmap_fields_def)

section \<open>Indirect interrupt context\<close>

definition eqdma_cpm5_indirect_intr_words :: "qdma_indirect_intr_ctxt \<Rightarrow> u32 list" where
  "eqdma_cpm5_indirect_intr_words ctxt =
    (let baddr_l = (ucast (FIELD_GET QDMA_INTR_CTXT_BADDR_GET_L_MASK (it_baddr_4k ctxt)) :: u32);
         baddr_m = (ucast (FIELD_GET QDMA_INTR_CTXT_BADDR_GET_M_MASK (it_baddr_4k ctxt)) :: u32);
         baddr_h = (ucast (FIELD_GET QDMA_INTR_CTXT_BADDR_GET_H_MASK (it_baddr_4k ctxt)) :: u32);
         pasid_l = FIELD_GET EQDMA_CPM5_INTR_CTXT_PASID_GET_L_MASK (it_pasid ctxt);
         pasid_h = FIELD_GET EQDMA_CPM5_INTR_CTXT_PASID_GET_H_MASK (it_pasid ctxt) in
     [FIELD_SET INTR_CTXT_DATA_W0_VALID_MASK (ucast (it_valid ctxt)) OR
       FIELD_SET INTR_CTXT_DATA_W0_VEC_MASK (ucast (it_vec ctxt)) OR
       FIELD_SET INTR_CTXT_DATA_W0_INT_ST_MASK (ucast (it_int_st ctxt)) OR
       FIELD_SET INTR_CTXT_DATA_W0_COLOR_MASK (ucast (it_color ctxt)) OR
       FIELD_SET INTR_CTXT_DATA_W0_BADDR_4K_L_MASK baddr_l,
      FIELD_SET INTR_CTXT_DATA_W1_BADDR_4K_M_MASK baddr_m,
      FIELD_SET INTR_CTXT_DATA_W2_BADDR_4K_H_MASK baddr_h OR
       FIELD_SET INTR_CTXT_DATA_W2_PAGE_SIZE_MASK (ucast (it_page_size ctxt)) OR
       FIELD_SET INTR_CTXT_DATA_W2_PIDX_MASK (ucast (it_pidx ctxt)) OR
       FIELD_SET INTR_CTXT_DATA_W2_AT_MASK (ucast (it_at ctxt)) OR
       FIELD_SET INTR_CTXT_DATA_W2_HOST_ID_MASK (ucast (it_host_id ctxt)) OR
       FIELD_SET INTR_CTXT_DATA_W2_PASID_L_MASK pasid_l,
      FIELD_SET INTR_CTXT_DATA_W3_PASID_H_MASK pasid_h OR
       FIELD_SET INTR_CTXT_DATA_W3_PASID_EN_MASK (ucast (it_pasid_en ctxt)) OR
       FIELD_SET INTR_CTXT_DATA_W3_FUNC_MASK (ucast (it_func_id ctxt))])"

definition eqdma_cpm5_indirect_intr_fields :: "u32 list \<Rightarrow> qdma_indirect_intr_ctxt \<Rightarrow> qdma_indirect_intr_ctxt" where
  "eqdma_cpm5_indirect_intr_fields ctxt_data ctxt =
    (let baddr_l = (ucast (FIELD_GET INTR_CTXT_DATA_W0_BADDR_4K_L_MASK (ctxt_data ! 0)) :: 64 word);
         baddr_m = (ucast (FIELD_GET INTR_CTXT_DATA_W1_BADDR_4K_M_MASK (ctxt_data ! 1)) :: 64 word);
         baddr_h = (ucast (FIELD_GET INTR_CTXT_DATA_W2_BADDR_4K_H_MASK (ctxt_data ! 2)) :: 64 word);
         pasid_l = (ucast (ucast (FIELD_GET INTR_CTXT_DATA_W2_PASID_L_MASK (ctxt_data ! 2)) :: 8 word) :: 64 word);
         pasid_h = (ucast (FIELD_GET INTR_CTXT_DATA_W3_PASID_H_MASK (ctxt_data ! 3)) :: 64 word) in
     ctxt\<lparr>it_valid := ucast (FIELD_GET INTR_CTXT_DATA_W0_VALID_MASK (ctxt_data ! 0)),
       it_vec := ucast (FIELD_GET INTR_CTXT_DATA_W0_VEC_MASK (ctxt_data ! 0)),
       it_int_st := ucast (FIELD_GET INTR_CTXT_DATA_W0_INT_ST_MASK (ctxt_data ! 0)),
       it_color := ucast (FIELD_GET INTR_CTXT_DATA_W0_COLOR_MASK (ctxt_data ! 0)),
       it_page_size := ucast (FIELD_GET INTR_CTXT_DATA_W2_PAGE_SIZE_MASK (ctxt_data ! 2)),
       it_pidx := ucast (FIELD_GET INTR_CTXT_DATA_W2_PIDX_MASK (ctxt_data ! 2)),
       it_at := ucast (FIELD_GET INTR_CTXT_DATA_W2_AT_MASK (ctxt_data ! 2)),
       it_host_id := ucast (FIELD_GET INTR_CTXT_DATA_W2_HOST_ID_MASK (ctxt_data ! 2)),
       it_pasid_en := ucast (FIELD_GET INTR_CTXT_DATA_W3_PASID_EN_MASK (ctxt_data ! 3)),
       it_func_id := ucast (FIELD_GET INTR_CTXT_DATA_W3_FUNC_MASK (ctxt_data ! 3)),
       it_baddr_4k := FIELD_SET QDMA_INTR_CTXT_BADDR_GET_L_MASK baddr_l OR
         FIELD_SET QDMA_INTR_CTXT_BADDR_GET_M_MASK baddr_m OR
         FIELD_SET QDMA_INTR_CTXT_BADDR_GET_H_MASK baddr_h,
       it_pasid := ucast (FIELD_SET (ucast EQDMA_CPM5_INTR_CTXT_PASID_GET_L_MASK :: u64) pasid_l OR
         FIELD_SET (ucast EQDMA_CPM5_INTR_CTXT_PASID_GET_H_MASK :: u64) pasid_h)\<rparr>)"

definition eqdma_cpm5_indirect_intr_context_write ::
  "'d mmio \<Rightarrow> 'd xdev option \<Rightarrow> u16 \<Rightarrow> qdma_indirect_intr_ctxt option \<Rightarrow> int \<times> 'd xdev option" where
  "eqdma_cpm5_indirect_intr_context_write io dev hw_qid ctxt =
     context_write (eqdma_cpm5_indirect_reg_write io) eqdma_cpm5_indirect_intr_words dev
       QDMA_CTXT_SEL_INT_COAL hw_qid ctxt"

definition eqdma_cpm5_indirect_intr_context_read ::
  "'d mmio \<Rightarrow> 'd xdev option \<Rightarrow> u16 \<Rightarrow> qdma_indirect_intr_ctxt option \<Rightarrow> int \<times> qdma_indirect_intr_ctxt option \<times> 'd xdev option" where
  "eqdma_cpm5_indirect_intr_context_read io dev hw_qid ctxt =
     context_read (eqdma_cpm5_indirect_reg_read io) 4 eqdma_cpm5_indirect_intr_fields dev
       QDMA_CTXT_SEL_INT_COAL hw_qid ctxt"

definition eqdma_cpm5_indirect_intr_context_clear ::
  "'d mmio \<Rightarrow> 'd xdev option \<Rightarrow> u16 \<Rightarrow> int \<times> 'd xdev option" where
  "eqdma_cpm5_indirect_intr_context_clear io dev hw_qid =
     context_cmd (eqdma_cpm5_indirect_reg_clear io) dev
       QDMA_CTXT_SEL_INT_COAL hw_qid"

definition eqdma_cpm5_indirect_intr_context_invalidate ::
  "'d mmio \<Rightarrow> 'd xdev option \<Rightarrow> u16 \<Rightarrow> int \<times> 'd xdev option" where
  "eqdma_cpm5_indirect_intr_context_invalidate io dev hw_qid =
     context_cmd (eqdma_cpm5_indirect_reg_invalidate io) dev
       QDMA_CTXT_SEL_INT_COAL hw_qid"

definition eqdma_cpm5_indirect_intr_ctx_conf ::
  "'d mmio \<Rightarrow> 'd xdev option \<Rightarrow> u16 \<Rightarrow> qdma_indirect_intr_ctxt option \<Rightarrow> qdma_hw_access_type \<Rightarrow>
   int \<times> qdma_indirect_intr_ctxt option \<times> 'd xdev option" where
  "eqdma_cpm5_indirect_intr_ctx_conf io dev hw_qid ctxt access_type =
     (case access_type of
        QDMA_HW_ACCESS_READ \<Rightarrow> eqdma_cpm5_indirect_intr_context_read io dev hw_qid ctxt
      | QDMA_HW_ACCESS_WRITE \<Rightarrow> keep_ctxt ctxt (eqdma_cpm5_indirect_intr_context_write io dev hw_qid ctxt)
      | QDMA_HW_ACCESS_CLEAR \<Rightarrow> keep_ctxt ctxt (eqdma_cpm5_indirect_intr_context_clear io dev hw_qid)
      | QDMA_HW_ACCESS_INVALIDATE \<Rightarrow> keep_ctxt ctxt (eqdma_cpm5_indirect_intr_context_invalidate io dev hw_qid)
      | _ \<Rightarrow> (neg_err QDMA_ERR_INV_PARAM, ctxt, dev))"

section \<open>The copies\<close>

lemma cpm5_registers:
  "eqdma_cpm5_indirect_reg_write io = eqdma_indirect_reg_write io"
  "eqdma_cpm5_indirect_reg_read io = eqdma_indirect_reg_read io"
  "eqdma_cpm5_indirect_reg_clear io = eqdma_indirect_reg_clear io"
  "eqdma_cpm5_indirect_reg_invalidate io = eqdma_indirect_reg_invalidate io"
  by (simp_all add: indirect_copies)

lemma cpm5_codecs:
  "eqdma_cpm5_sw_words = eqdma_sw_words" "eqdma_cpm5_sw_fields = eqdma_sw_fields"
  "eqdma_cpm5_pfetch_words = eqdma_pfetch_words" "eqdma_cpm5_pfetch_fields = eqdma_pfetch_fields"
  "eqdma_cpm5_cmpt_words = eqdma_cmpt_words" "eqdma_cpm5_cmpt_fields = eqdma_cmpt_fields"
  "eqdma_cpm5_hw_fields = eqdma_hw_fields" "eqdma_cpm5_credit_fields = eqdma_credit_fields"
  "eqdma_cpm5_indirect_intr_words = eqdma_indirect_intr_words"
  "eqdma_cpm5_indirect_intr_fields = eqdma_indirect_intr_fields"
  unfolding eqdma_cpm5_sw_words_def eqdma_sw_words_def eqdma_cpm5_sw_fields_def
      eqdma_sw_fields_def eqdma_cpm5_pfetch_words_def eqdma_pfetch_words_def
      eqdma_cpm5_pfetch_fields_def eqdma_pfetch_fields_def eqdma_cpm5_cmpt_words_def
      eqdma_cmpt_words_def eqdma_cpm5_cmpt_fields_def eqdma_cmpt_fields_def
      eqdma_cpm5_hw_fields_def eqdma_hw_fields_def eqdma_cpm5_credit_fields_def
      eqdma_credit_fields_def eqdma_cpm5_indirect_intr_words_def eqdma_indirect_intr_words_def
      eqdma_cpm5_indirect_intr_fields_def eqdma_indirect_intr_fields_def
  by (rule refl)+

lemmas cpm5_functions =
  eqdma_cpm5_sw_ctx_conf_def eqdma_sw_ctx_conf_def
  eqdma_cpm5_sw_context_write_def eqdma_sw_context_write_def
  eqdma_cpm5_sw_context_read_def eqdma_sw_context_read_def
  eqdma_cpm5_sw_context_clear_def eqdma_sw_context_clear_def
  eqdma_cpm5_sw_context_invalidate_def eqdma_sw_context_invalidate_def
  eqdma_cpm5_pfetch_ctx_conf_def eqdma_pfetch_ctx_conf_def
  eqdma_cpm5_pfetch_context_write_def eqdma_pfetch_context_write_def
  eqdma_cpm5_pfetch_context_read_def eqdma_pfetch_context_read_def
  eqdma_cpm5_pfetch_context_clear_def eqdma_pfetch_context_clear_def
  eqdma_cpm5_pfetch_context_invalidate_def eqdma_pfetch_context_invalidate_def
  eqdma_cpm5_cmpt_ctx_conf_def eqdma_cmpt_ctx_conf_def
  eqdma_cpm5_cmpt_context_write_def eqdma_cmpt_context_write_def
  eqdma_cpm5_cmpt_context_read_def eqdma_cmpt_context_read_def
  eqdma_cpm5_cmpt_context_clear_def eqdma_cmpt_context_clear_def
  eqdma_cpm5_cmpt_context_invalidate_def eqdma_cmpt_context_invalidate_def
  eqdma_cpm5_hw_ctx_conf_def eqdma_hw_ctx_conf_def
  eqdma_cpm5_hw_context_read_def eqdma_hw_context_read_def
  eqdma_cpm5_hw_context_clear_def eqdma_hw_context_clear_def
  eqdma_cpm5_hw_context_invalidate_def eqdma_hw_context_invalidate_def
  eqdma_cpm5_credit_ctx_conf_def eqdma_credit_ctx_conf_def
  eqdma_cpm5_credit_context_read_def eqdma_credit_context_read_def
  eqdma_cpm5_credit_context_clear_def eqdma_credit_context_clear_def
  eqdma_cpm5_credit_context_invalidate_def eqdma_credit_context_invalidate_def
  eqdma_cpm5_indirect_intr_ctx_conf_def eqdma_indirect_intr_ctx_conf_def
  eqdma_cpm5_indirect_intr_context_write_def eqdma_indirect_intr_context_write_def
  eqdma_cpm5_indirect_intr_context_read_def eqdma_indirect_intr_context_read_def
  eqdma_cpm5_indirect_intr_context_clear_def eqdma_indirect_intr_context_clear_def
  eqdma_cpm5_indirect_intr_context_invalidate_def eqdma_indirect_intr_context_invalidate_def

section \<open>Properties\<close>

text \<open>The CPM5 access functions for software, prefetch, completion, hardware, credit and
  interrupt contexts do the same as those of the enhanced soft IP, on every device, argument and
  access type, the wrong word for the virtio base, the cut PASID and the wrong fetch-pending
  bit included; the function map differs, by one bit more for base and number of queues.\<close>

theorem cpm5_agrees:
  "eqdma_cpm5_sw_ctx_conf io = eqdma_sw_ctx_conf io \<and>
   eqdma_cpm5_pfetch_ctx_conf io = eqdma_pfetch_ctx_conf io \<and>
   eqdma_cpm5_cmpt_ctx_conf io = eqdma_cmpt_ctx_conf io \<and>
   eqdma_cpm5_hw_ctx_conf io = eqdma_hw_ctx_conf io \<and>
   eqdma_cpm5_credit_ctx_conf io = eqdma_credit_ctx_conf io \<and>
   eqdma_cpm5_indirect_intr_ctx_conf io = eqdma_indirect_intr_ctx_conf io \<and>
   eqdma_cpm5_fmap_fields (eqdma_cpm5_fmap_words f) f0 =
     \<lparr>fm_qbase = take_bit 12 (fm_qbase f), fm_qmax = take_bit 13 (fm_qmax f)\<rparr> \<and>
   eqdma_fmap_fields (eqdma_fmap_words f) f0 =
     \<lparr>fm_qbase = take_bit 11 (fm_qbase f), fm_qmax = take_bit 12 (fm_qmax f)\<rparr>"
proof (intro conjI)
  show "eqdma_cpm5_fmap_fields (eqdma_cpm5_fmap_words f) f0 =
     \<lparr>fm_qbase = take_bit 12 (fm_qbase f), fm_qmax = take_bit 13 (fm_qmax f)\<rparr>"
    by (simp add: eqdma_cpm5_fmap_dec_enc eqdma_cpm5_fmap_stored_def)
  show "eqdma_fmap_fields (eqdma_fmap_words f) f0 =
     \<lparr>fm_qbase = take_bit 11 (fm_qbase f), fm_qmax = take_bit 12 (fm_qmax f)\<rparr>"
    by (simp add: eqdma_fmap_dec_enc eqdma_fmap_stored_def)
qed (intro ext, simp only: cpm5_functions cpm5_registers cpm5_codecs)+

end
