(* ===== verification/ErrProc.thy ===== *)
theory ErrProc
  imports RegList EqdmaCtxt Cpm5Ctxt
begin

text \<open>
  Error handling of the access variants: the table of hardware errors (struct *_hw_err_info), the
  handlers that read the debug registers of an error group, *_hw_error_process, which finds,
  reports and clears the errors a device has raised, and *_hw_error_enable. The four variants
  have textual copies; what they have of their own (table, aggregators, handlers, capability
  read) is the record err_variant, and the functions are defined once over it.
  The log is the only output of the search: here it is the list of the reported errors.
\<close>

section \<open>Tables\<close>

text \<open>The handlers that a table entry can name.\<close>

datatype hw_err_handler =
    desc_err_process | trq_err_process | st_c2h_err_process | st_h2c_err_process
  | ram_sbe_err_process | ram_dbe_err_process | mm_c2h0_err_process | mm_h2c0_err_process

text \<open>An enumerator of the error index is its number; the names are a table of their own.\<close>

record hw_err_info =
  he_idx :: nat
  he_mask_reg_addr :: u32
  he_stat_reg_addr :: u32
  he_leaf_err_mask :: u32
  he_global_err_mask :: u32
  he_handler :: hw_err_handler

definition hw_err :: "nat \<Rightarrow> u32 \<Rightarrow> u32 \<Rightarrow> u32 \<Rightarrow> u32 \<Rightarrow> hw_err_handler \<Rightarrow> hw_err_info" where
  "hw_err idx m s leaf glbl handler =
     \<lparr>he_idx = idx, he_mask_reg_addr = m, he_stat_reg_addr = s, he_leaf_err_mask = leaf,
      he_global_err_mask = glbl, he_handler = handler\<rparr>"

lemma hw_err_sel [simp]:
  "he_idx (hw_err i m s l g h) = i" "he_mask_reg_addr (hw_err i m s l g h) = m"
  "he_stat_reg_addr (hw_err i m s l g h) = s" "he_leaf_err_mask (hw_err i m s l g h) = l"
  "he_global_err_mask (hw_err i m s l g h) = g" "he_handler (hw_err i m s l g h) = h"
  by (simp_all add: hw_err_def)

text \<open>What a variant has of its own. ev_position and ev_all hold the first and the last entry of
  each group of errors (hw_err_position and all_*_hw_errs); the last entry of a group stands
  for all its errors. ev_st_position and ev_st_all are those of the three streaming groups.\<close>

record 'd err_variant =
  ev_info :: "hw_err_info list"
  ev_all :: "nat list"
  ev_position :: "nat list"
  ev_st_position :: "nat list"
  ev_st_all :: "nat list"
  ev_attributes :: "'d mmio \<Rightarrow> 'd xdev option \<Rightarrow> qdma_dev_attributes option \<Rightarrow>
    int \<times> qdma_dev_attributes option \<times> 'd xdev option"
  ev_handler :: "'d mmio \<Rightarrow> hw_err_handler \<Rightarrow> 'd xdev \<Rightarrow> 'd xdev"

section \<open>Handlers\<close>

text \<open>
  *_dump_reg_info with a null buffer, the only way the handlers call it: the registers are
  read and logged. The search goes through the whole table; a register that is not in it is
  an error.
\<close>

fun find_addr :: "u32 \<Rightarrow> nat \<Rightarrow> xreg_info list \<Rightarrow> nat option" where
  "find_addr addr i [] = None"
| "find_addr addr i (e # es) = (if addr = xr_addr e then Some i else find_addr addr (Suc i) es)"

definition dump_reg_info ::
  "xreg_info list \<Rightarrow> 'd mmio \<Rightarrow> 'd xdev \<Rightarrow> u32 \<Rightarrow> nat \<Rightarrow> int \<times> 'd xdev" where
  "dump_reg_info config_regs io d reg_addr num_regs =
     (case find_addr reg_addr 0 config_regs of
        None \<Rightarrow> (neg_err QDMA_ERR_INV_PARAM, d)
      | Some j \<Rightarrow>
          (0, foldl (\<lambda>d e. snd (qdma_reg_read io d (xr_addr e))) d (take num_regs (drop j config_regs))))"

definition qdma_dump_reg_info :: "'d mmio \<Rightarrow> 'd xdev \<Rightarrow> u32 \<Rightarrow> nat \<Rightarrow> int \<times> 'd xdev" where
  "qdma_dump_reg_info = dump_reg_info qdma_config_regs"

definition qdma_cpm4_dump_reg_info :: "'d mmio \<Rightarrow> 'd xdev \<Rightarrow> u32 \<Rightarrow> nat \<Rightarrow> int \<times> 'd xdev" where
  "qdma_cpm4_dump_reg_info = dump_reg_info qdma_cpm4_config_regs"

text \<open>The two newer variants read the capabilities first, for the debug mode.\<close>

definition after_attributes ::
  "('d mmio \<Rightarrow> 'd xdev option \<Rightarrow> qdma_dev_attributes option \<Rightarrow>
    int \<times> qdma_dev_attributes option \<times> 'd xdev option) \<Rightarrow> 'd mmio \<Rightarrow> 'd xdev \<Rightarrow>
   qdma_dev_attributes \<times> 'd xdev" where
  "after_attributes attributes io d =
     (let (_, cap, dev) = attributes io (Some d) (Some da_zeroed) in (the cap, the dev))"

definition eqdma_dump_reg_info :: "'d mmio \<Rightarrow> 'd xdev \<Rightarrow> u32 \<Rightarrow> nat \<Rightarrow> int \<times> 'd xdev" where
  "eqdma_dump_reg_info io d =
     dump_reg_info eqdma_config_regs io (snd (after_attributes eqdma_get_device_attributes io d))"

definition eqdma_cpm5_dump_reg_info :: "'d mmio \<Rightarrow> 'd xdev \<Rightarrow> u32 \<Rightarrow> nat \<Rightarrow> int \<times> 'd xdev" where
  "eqdma_cpm5_dump_reg_info io d =
     dump_reg_info eqdma_cpm5_config_regs io
       (snd (after_attributes eqdma_cpm5_get_device_attributes io d))"

definition dump_each :: "('d xdev \<Rightarrow> u32 \<Rightarrow> nat \<Rightarrow> int \<times> 'd xdev) \<Rightarrow> u32 list \<Rightarrow> 'd xdev \<Rightarrow> 'd xdev" where
  "dump_each dump regs d = foldl (\<lambda>d a. snd (dump d a 1)) d regs"

text \<open>The lists of debug registers, the same in all variants except for the last descriptor log.\<close>

definition desc_err_reg_list :: "u32 list" where
  "desc_err_reg_list = [0x254, 0x25C, 0x260, 0x270, 0x274]"

definition trq_err_reg_list :: "u32 list" where
  "trq_err_reg_list = [0x264, 0x26C]"

definition st_h2c_err_reg_list :: "u32 list" where
  "st_h2c_err_reg_list = [0xE00, 0xE08, 0xE0C, 0xE10, 0xE14, 0xE18, 0xE1C]"

definition st_c2h_err_reg_list :: "u32 list" where
  "st_c2h_err_reg_list = [0xAF0, 0xAF8, 0xB30, 0xA88, 0xA8C, 0xA90, 0xA94, 0xB1C, 0xB20, 0xB24,
     0xB28, 0xB10, 0xB14]"

definition mm_c2h_err_reg_list :: "u32 list" where
  "mm_c2h_err_reg_list = [0x1040, 0x1048, 0x1058, 0x105C, 0x10E8]"

definition mm_h2c_err_reg_list :: "u32 list" where
  "mm_h2c_err_reg_list = [0x1240, 0x1248, 0x1258, 0x125C, 0x12E8]"

primrec qdma_hw_err_handler :: "'d mmio \<Rightarrow> hw_err_handler \<Rightarrow> 'd xdev \<Rightarrow> 'd xdev" where
  "qdma_hw_err_handler io desc_err_process =
     dump_each (qdma_dump_reg_info io) (desc_err_reg_list @ [0x27C])"
| "qdma_hw_err_handler io trq_err_process = dump_each (qdma_dump_reg_info io) trq_err_reg_list"
| "qdma_hw_err_handler io st_c2h_err_process = dump_each (qdma_dump_reg_info io) st_c2h_err_reg_list"
| "qdma_hw_err_handler io st_h2c_err_process = dump_each (qdma_dump_reg_info io) st_h2c_err_reg_list"
| "qdma_hw_err_handler io ram_sbe_err_process = dump_each (qdma_dump_reg_info io) [0xF4]"
| "qdma_hw_err_handler io ram_dbe_err_process = dump_each (qdma_dump_reg_info io) [0xFC]"
| "qdma_hw_err_handler io mm_c2h0_err_process = id"
| "qdma_hw_err_handler io mm_h2c0_err_process = id"

primrec qdma_cpm4_hw_err_handler :: "'d mmio \<Rightarrow> hw_err_handler \<Rightarrow> 'd xdev \<Rightarrow> 'd xdev" where
  "qdma_cpm4_hw_err_handler io desc_err_process =
     dump_each (qdma_cpm4_dump_reg_info io) desc_err_reg_list"
| "qdma_cpm4_hw_err_handler io trq_err_process =
     dump_each (qdma_cpm4_dump_reg_info io) trq_err_reg_list"
| "qdma_cpm4_hw_err_handler io st_c2h_err_process =
     dump_each (qdma_cpm4_dump_reg_info io) st_c2h_err_reg_list"
| "qdma_cpm4_hw_err_handler io st_h2c_err_process =
     dump_each (qdma_cpm4_dump_reg_info io) st_h2c_err_reg_list"
| "qdma_cpm4_hw_err_handler io ram_sbe_err_process = dump_each (qdma_cpm4_dump_reg_info io) [0xF4]"
| "qdma_cpm4_hw_err_handler io ram_dbe_err_process = dump_each (qdma_cpm4_dump_reg_info io) [0xFC]"
| "qdma_cpm4_hw_err_handler io mm_c2h0_err_process = id"
| "qdma_cpm4_hw_err_handler io mm_h2c0_err_process = id"

text \<open>*_hw_err_dump_ctxt_info: the contexts of the queue that failed first, for the log. The
  structures are uninitialised locals; what is read into them only goes to the log.\<close>

definition eqdma_hw_err_dump_ctxt_info ::
  "'d mmio \<Rightarrow> u32 \<Rightarrow> u8 \<Rightarrow> u8 \<Rightarrow> 'd xdev \<Rightarrow> 'd xdev" where
  "eqdma_hw_err_dump_ctxt_info io first_err_qid_reg en_st c2h d =
     (let (v, d) = qdma_reg_read io d first_err_qid_reg;
          first_err_qid = ucast v;
          (_, _, dev) = eqdma_sw_context_read io (Some d) c2h first_err_qid (Some sw_zeroed);
          (_, _, dev) = eqdma_hw_context_read io dev c2h first_err_qid (Some hw_zeroed)
      in if en_st \<noteq> 0 \<and> c2h \<noteq> 0
         then the (snd (snd (eqdma_cmpt_context_read io dev first_err_qid (Some cm_zeroed))))
         else the dev)"

definition eqdma_cpm5_hw_err_dump_ctxt_info ::
  "'d mmio \<Rightarrow> u32 \<Rightarrow> u8 \<Rightarrow> u8 \<Rightarrow> 'd xdev \<Rightarrow> 'd xdev" where
  "eqdma_cpm5_hw_err_dump_ctxt_info io first_err_qid_reg en_st c2h d =
     (let (v, d) = qdma_reg_read io d first_err_qid_reg;
          first_err_qid = ucast v;
          (_, _, dev) = eqdma_cpm5_sw_context_read io (Some d) c2h first_err_qid (Some sw_zeroed);
          (_, _, dev) = eqdma_cpm5_hw_context_read io dev c2h first_err_qid (Some hw_zeroed)
      in if en_st \<noteq> 0 \<and> c2h \<noteq> 0
         then the (snd (snd (eqdma_cpm5_cmpt_context_read io dev first_err_qid (Some cm_zeroed))))
         else the dev)"

primrec eqdma_hw_err_handler :: "'d mmio \<Rightarrow> hw_err_handler \<Rightarrow> 'd xdev \<Rightarrow> 'd xdev" where
  "eqdma_hw_err_handler io desc_err_process =
     dump_each (eqdma_dump_reg_info io) (desc_err_reg_list @ [0x27C])"
| "eqdma_hw_err_handler io trq_err_process = dump_each (eqdma_dump_reg_info io) trq_err_reg_list"
| "eqdma_hw_err_handler io st_c2h_err_process =
     eqdma_hw_err_dump_ctxt_info io 0xB30 1 1 \<circ> dump_each (eqdma_dump_reg_info io) st_c2h_err_reg_list"
| "eqdma_hw_err_handler io st_h2c_err_process =
     eqdma_hw_err_dump_ctxt_info io 0xE08 1 0 \<circ> dump_each (eqdma_dump_reg_info io) st_h2c_err_reg_list"
| "eqdma_hw_err_handler io ram_sbe_err_process = dump_each (eqdma_dump_reg_info io) [0xF4, 0xE4]"
| "eqdma_hw_err_handler io ram_dbe_err_process = dump_each (eqdma_dump_reg_info io) [0xFC, 0xEC]"
| "eqdma_hw_err_handler io mm_c2h0_err_process =
     eqdma_hw_err_dump_ctxt_info io 0x105C 0 1 \<circ> dump_each (eqdma_dump_reg_info io) mm_c2h_err_reg_list"
| "eqdma_hw_err_handler io mm_h2c0_err_process =
     eqdma_hw_err_dump_ctxt_info io 0x125C 0 1 \<circ> dump_each (eqdma_dump_reg_info io) mm_h2c_err_reg_list"

primrec eqdma_cpm5_hw_err_handler :: "'d mmio \<Rightarrow> hw_err_handler \<Rightarrow> 'd xdev \<Rightarrow> 'd xdev" where
  "eqdma_cpm5_hw_err_handler io desc_err_process =
     dump_each (eqdma_cpm5_dump_reg_info io) (desc_err_reg_list @ [0x27C])"
| "eqdma_cpm5_hw_err_handler io trq_err_process =
     dump_each (eqdma_cpm5_dump_reg_info io) trq_err_reg_list"
| "eqdma_cpm5_hw_err_handler io st_c2h_err_process =
     eqdma_cpm5_hw_err_dump_ctxt_info io 0xB30 1 1 \<circ>
     dump_each (eqdma_cpm5_dump_reg_info io) st_c2h_err_reg_list"
| "eqdma_cpm5_hw_err_handler io st_h2c_err_process =
     eqdma_cpm5_hw_err_dump_ctxt_info io 0xE08 1 1 \<circ>
     dump_each (eqdma_cpm5_dump_reg_info io) st_h2c_err_reg_list"
| "eqdma_cpm5_hw_err_handler io ram_sbe_err_process =
     dump_each (eqdma_cpm5_dump_reg_info io) [0xF4, 0xE4]"
| "eqdma_cpm5_hw_err_handler io ram_dbe_err_process =
     dump_each (eqdma_cpm5_dump_reg_info io) [0xFC, 0xEC]"
| "eqdma_cpm5_hw_err_handler io mm_c2h0_err_process =
     eqdma_cpm5_hw_err_dump_ctxt_info io 0x105C 0 1 \<circ>
     dump_each (eqdma_cpm5_dump_reg_info io) mm_c2h_err_reg_list"
| "eqdma_cpm5_hw_err_handler io mm_h2c0_err_process =
     eqdma_cpm5_hw_err_dump_ctxt_info io 0x125C 0 1 \<circ>
     dump_each (eqdma_cpm5_dump_reg_info io) mm_h2c_err_reg_list"

section \<open>Processing\<close>

abbreviation GLBL_ERR_STAT_ADDR :: u32 where "GLBL_ERR_STAT_ADDR \<equiv> 0x248"
abbreviation GLBL_ERR_MASK_ADDR :: u32 where "GLBL_ERR_MASK_ADDR \<equiv> 0x24C"
abbreviation QDMA_HW_ERR_NOT_DETECTED :: int where "QDMA_HW_ERR_NOT_DETECTED \<equiv> 1"

text \<open>One group of errors: bit is its first entry and last the entry that stands for all.\<close>

definition hw_error_group ::
  "'d err_variant \<Rightarrow> 'd mmio \<Rightarrow> qdma_dev_attributes \<Rightarrow> nat \<times> nat \<Rightarrow> nat list \<times> 'd xdev \<Rightarrow>
   nat list \<times> 'd xdev" where
  "hw_error_group v io dev_cap = (\<lambda>(bit, last) (reported, d).
     if da_st_en dev_cap = 0 \<and> bit \<in> set (ev_st_position v) then (reported, d)
     else
       let (err_stat, d) = qdma_reg_read io d (he_stat_reg_addr (ev_info v ! bit))
       in if err_stat \<noteq> 0 then
            let d = ev_handler v io (he_handler (ev_info v ! bit)) d;
                found = filter (\<lambda>idx. err_stat AND he_leaf_err_mask (ev_info v ! idx) \<noteq> 0) [bit..<last]
            in (reported @ found, qdma_reg_write io d (he_stat_reg_addr (ev_info v ! bit)) err_stat)
          else (reported, d))"

definition hw_error_process ::
  "'d err_variant \<Rightarrow> 'd mmio \<Rightarrow> 'd xdev option \<Rightarrow> int \<times> nat list \<times> 'd xdev option" where
  "hw_error_process v io dev =
     (case dev of
        None \<Rightarrow> (neg_err QDMA_ERR_INV_PARAM, [], None)
      | Some d \<Rightarrow>
          let (dev_cap, d) = after_attributes (ev_attributes v) io d;
              (glbl_err_stat, d) = qdma_reg_read io d GLBL_ERR_STAT_ADDR
          in if glbl_err_stat = 0 then (QDMA_HW_ERR_NOT_DETECTED, [], Some d)
             else
               let (reported, d) =
                 fold (hw_error_group v io dev_cap) (zip (ev_position v) (ev_all v)) ([], d)
               in (err_code QDMA_SUCCESS, reported,
                   Some (qdma_reg_write io d GLBL_ERR_STAT_ADDR glbl_err_stat)))"

section \<open>Enabling\<close>

text \<open>QDMA_ERRS_ALL is the number of entries of the table.\<close>

abbreviation errs_all :: "'d err_variant \<Rightarrow> nat" where
  "errs_all v \<equiv> length (ev_info v)"

definition or_reg :: "'d mmio \<Rightarrow> 'd xdev \<Rightarrow> u32 \<Rightarrow> u32 \<Rightarrow> 'd xdev" where
  "or_reg io d addr bits =
     (let (reg_val, d) = qdma_reg_read io d addr in qdma_reg_write io d addr (reg_val OR bits))"

definition enable_group ::
  "'d err_variant \<Rightarrow> 'd mmio \<Rightarrow> qdma_dev_attributes \<Rightarrow> nat \<Rightarrow> 'd xdev \<Rightarrow> 'd xdev" where
  "enable_group v io dev_cap idx d =
     (if da_st_en dev_cap = 0 \<and> idx \<in> set (ev_st_all v) then d
      else
        let d = qdma_reg_write io d (he_mask_reg_addr (ev_info v ! idx))
              (he_leaf_err_mask (ev_info v ! idx))
        in or_reg io d GLBL_ERR_MASK_ADDR (FIELD_SET (he_global_err_mask (ev_info v ! idx)) 1))"

definition hw_error_enable ::
  "'d err_variant \<Rightarrow> 'd mmio \<Rightarrow> 'd xdev option \<Rightarrow> u32 \<Rightarrow> int \<times> 'd xdev option" where
  "hw_error_enable v io dev err_idx =
     (case dev of
        None \<Rightarrow> (neg_err QDMA_ERR_INV_PARAM, None)
      | Some d \<Rightarrow>
          if unat err_idx > errs_all v then (neg_err QDMA_ERR_INV_PARAM, dev)
          else
            let (dev_cap, d) = after_attributes (ev_attributes v) io d;
                idx = unat err_idx
            in if idx = errs_all v
               then (err_code QDMA_SUCCESS, Some (fold (enable_group v io dev_cap) (ev_all v) d))
               else if da_st_en dev_cap = 0 \<and> hd (ev_st_position v) \<le> idx \<and> idx \<le> last (ev_st_all v)
               then (err_code QDMA_SUCCESS, Some d)
               else
                 let d = or_reg io d (he_mask_reg_addr (ev_info v ! idx))
                       (FIELD_SET (he_leaf_err_mask (ev_info v ! idx)) 1);
                     d = or_reg io d GLBL_ERR_MASK_ADDR
                       (FIELD_SET (he_global_err_mask (ev_info v ! idx)) 1)
                 in (err_code QDMA_SUCCESS, Some d))"

definition hw_get_error_name :: "string list \<Rightarrow> u32 \<Rightarrow> string option" where
  "hw_get_error_name names err_idx =
     (if unat err_idx \<ge> length names then None else Some (names ! unat err_idx))"

end
