(* ===== verification/SoftCtxt.thy ===== *)
theory SoftCtxt
  imports IndirectCtxt
begin

text \<open>
  The context functions of the soft IP, qdma_soft_access.c, in the same form as those of the
  enhanced one: encoder, decoder, register functions and dispatch of every context, with
  the masks of qdma_soft_reg.h.
\<close>

section \<open>Register fields\<close>

abbreviation QDMA_SW_CTXT_W0_PIDX :: u32 where "QDMA_SW_CTXT_W0_PIDX \<equiv> GENMASK 15 0"
abbreviation QDMA_SW_CTXT_W0_IRQ_ARM_MASK :: u32 where "QDMA_SW_CTXT_W0_IRQ_ARM_MASK \<equiv> BIT 16"
abbreviation QDMA_SW_CTXT_W0_FUNC_ID_MASK :: u32 where "QDMA_SW_CTXT_W0_FUNC_ID_MASK \<equiv> GENMASK 24 17"
abbreviation QDMA_SW_CTXT_W1_QEN_MASK :: u32 where "QDMA_SW_CTXT_W1_QEN_MASK \<equiv> BIT 0"
abbreviation QDMA_SW_CTXT_W1_FCRD_EN_MASK :: u32 where "QDMA_SW_CTXT_W1_FCRD_EN_MASK \<equiv> BIT 1"
abbreviation QDMA_SW_CTXT_W1_WBI_CHK_MASK :: u32 where "QDMA_SW_CTXT_W1_WBI_CHK_MASK \<equiv> BIT 2"
abbreviation QDMA_SW_CTXT_W1_WB_INT_EN_MASK :: u32 where "QDMA_SW_CTXT_W1_WB_INT_EN_MASK \<equiv> BIT 3"
abbreviation QDMA_SW_CTXT_W1_AT_MASK :: u32 where "QDMA_SW_CTXT_W1_AT_MASK \<equiv> BIT 4"
abbreviation QDMA_SW_CTXT_W1_FETCH_MAX_MASK :: u32 where "QDMA_SW_CTXT_W1_FETCH_MAX_MASK \<equiv> GENMASK 7 5"
abbreviation QDMA_SW_CTXT_W1_RNG_SZ_MASK :: u32 where "QDMA_SW_CTXT_W1_RNG_SZ_MASK \<equiv> GENMASK 15 12"
abbreviation QDMA_SW_CTXT_W1_DSC_SZ_MASK :: u32 where "QDMA_SW_CTXT_W1_DSC_SZ_MASK \<equiv> GENMASK 17 16"
abbreviation QDMA_SW_CTXT_W1_BYP_MASK :: u32 where "QDMA_SW_CTXT_W1_BYP_MASK \<equiv> BIT 18"
abbreviation QDMA_SW_CTXT_W1_MM_CHN_MASK :: u32 where "QDMA_SW_CTXT_W1_MM_CHN_MASK \<equiv> BIT 19"
abbreviation QDMA_SW_CTXT_W1_WBK_EN_MASK :: u32 where "QDMA_SW_CTXT_W1_WBK_EN_MASK \<equiv> BIT 20"
abbreviation QDMA_SW_CTXT_W1_IRQ_EN_MASK :: u32 where "QDMA_SW_CTXT_W1_IRQ_EN_MASK \<equiv> BIT 21"
abbreviation QDMA_SW_CTXT_W1_PORT_ID_MASK :: u32 where "QDMA_SW_CTXT_W1_PORT_ID_MASK \<equiv> GENMASK 24 22"
abbreviation QDMA_SW_CTXT_W1_IRQ_NO_LAST_MASK :: u32 where "QDMA_SW_CTXT_W1_IRQ_NO_LAST_MASK \<equiv> BIT 25"
abbreviation QDMA_SW_CTXT_W1_ERR_MASK :: u32 where "QDMA_SW_CTXT_W1_ERR_MASK \<equiv> GENMASK 27 26"
abbreviation QDMA_SW_CTXT_W1_ERR_WB_SENT_MASK :: u32 where "QDMA_SW_CTXT_W1_ERR_WB_SENT_MASK \<equiv> BIT 28"
abbreviation QDMA_SW_CTXT_W1_IRQ_REQ_MASK :: u32 where "QDMA_SW_CTXT_W1_IRQ_REQ_MASK \<equiv> BIT 29"
abbreviation QDMA_SW_CTXT_W1_MRKR_DIS_MASK :: u32 where "QDMA_SW_CTXT_W1_MRKR_DIS_MASK \<equiv> BIT 30"
abbreviation QDMA_SW_CTXT_W1_IS_MM_MASK :: u32 where "QDMA_SW_CTXT_W1_IS_MM_MASK \<equiv> BIT 31"
abbreviation QDMA_SW_CTXT_W4_VEC_MASK :: u32 where "QDMA_SW_CTXT_W4_VEC_MASK \<equiv> GENMASK 10 0"
abbreviation QDMA_SW_CTXT_W4_INTR_AGGR_MASK :: u32 where "QDMA_SW_CTXT_W4_INTR_AGGR_MASK \<equiv> BIT 11"
abbreviation QDMA_PFTCH_CTXT_W0_BYPASS_MASK :: u32 where "QDMA_PFTCH_CTXT_W0_BYPASS_MASK \<equiv> BIT 0"
abbreviation QDMA_PFTCH_CTXT_W0_BUF_SIZE_IDX_MASK :: u32 where "QDMA_PFTCH_CTXT_W0_BUF_SIZE_IDX_MASK \<equiv> GENMASK 4 1"
abbreviation QDMA_PFTCH_CTXT_W0_PORT_ID_MASK :: u32 where "QDMA_PFTCH_CTXT_W0_PORT_ID_MASK \<equiv> GENMASK 7 5"
abbreviation QDMA_PFTCH_CTXT_W0_ERR_MASK :: u32 where "QDMA_PFTCH_CTXT_W0_ERR_MASK \<equiv> BIT 26"
abbreviation QDMA_PFTCH_CTXT_W0_PFETCH_EN_MASK :: u32 where "QDMA_PFTCH_CTXT_W0_PFETCH_EN_MASK \<equiv> BIT 27"
abbreviation QDMA_PFTCH_CTXT_W0_Q_IN_PFETCH_MASK :: u32 where "QDMA_PFTCH_CTXT_W0_Q_IN_PFETCH_MASK \<equiv> BIT 28"
abbreviation QDMA_PFTCH_CTXT_W0_SW_CRDT_L_MASK :: u32 where "QDMA_PFTCH_CTXT_W0_SW_CRDT_L_MASK \<equiv> GENMASK 31 29"
abbreviation QDMA_PFTCH_CTXT_W1_SW_CRDT_H_MASK :: u32 where "QDMA_PFTCH_CTXT_W1_SW_CRDT_H_MASK \<equiv> GENMASK 12 0"
abbreviation QDMA_PFTCH_CTXT_W1_VALID_MASK :: u32 where "QDMA_PFTCH_CTXT_W1_VALID_MASK \<equiv> BIT 13"
abbreviation QDMA_COMPL_CTXT_W0_EN_STAT_DESC_MASK :: u32 where "QDMA_COMPL_CTXT_W0_EN_STAT_DESC_MASK \<equiv> BIT 0"
abbreviation QDMA_COMPL_CTXT_W0_EN_INT_MASK :: u32 where "QDMA_COMPL_CTXT_W0_EN_INT_MASK \<equiv> BIT 1"
abbreviation QDMA_COMPL_CTXT_W0_TRIG_MODE_MASK :: u32 where "QDMA_COMPL_CTXT_W0_TRIG_MODE_MASK \<equiv> GENMASK 4 2"
abbreviation QDMA_COMPL_CTXT_W0_FNC_ID_MASK :: u32 where "QDMA_COMPL_CTXT_W0_FNC_ID_MASK \<equiv> GENMASK 12 5"
abbreviation QDMA_COMPL_CTXT_W0_COUNTER_IDX_MASK :: u32 where "QDMA_COMPL_CTXT_W0_COUNTER_IDX_MASK \<equiv> GENMASK 20 17"
abbreviation QDMA_COMPL_CTXT_W0_TIMER_IDX_MASK :: u32 where "QDMA_COMPL_CTXT_W0_TIMER_IDX_MASK \<equiv> GENMASK 24 21"
abbreviation QDMA_COMPL_CTXT_W0_INT_ST_MASK :: u32 where "QDMA_COMPL_CTXT_W0_INT_ST_MASK \<equiv> GENMASK 26 25"
abbreviation QDMA_COMPL_CTXT_W0_COLOR_MASK :: u32 where "QDMA_COMPL_CTXT_W0_COLOR_MASK \<equiv> BIT 27"
abbreviation QDMA_COMPL_CTXT_W0_RING_SZ_MASK :: u32 where "QDMA_COMPL_CTXT_W0_RING_SZ_MASK \<equiv> GENMASK 31 28"
abbreviation QDMA_COMPL_CTXT_W1_BADDR_64_L_MASK :: u32 where "QDMA_COMPL_CTXT_W1_BADDR_64_L_MASK \<equiv> GENMASK 31 6"
abbreviation QDMA_COMPL_CTXT_W2_BADDR_64_H_MASK :: u32 where "QDMA_COMPL_CTXT_W2_BADDR_64_H_MASK \<equiv> GENMASK 25 0"
abbreviation QDMA_COMPL_CTXT_W2_DESC_SIZE_MASK :: u32 where "QDMA_COMPL_CTXT_W2_DESC_SIZE_MASK \<equiv> GENMASK 27 26"
abbreviation QDMA_COMPL_CTXT_W2_PIDX_L_MASK :: u32 where "QDMA_COMPL_CTXT_W2_PIDX_L_MASK \<equiv> GENMASK 31 28"
abbreviation QDMA_COMPL_CTXT_W3_PIDX_H_MASK :: u32 where "QDMA_COMPL_CTXT_W3_PIDX_H_MASK \<equiv> GENMASK 11 0"
abbreviation QDMA_COMPL_CTXT_W3_CIDX_MASK :: u32 where "QDMA_COMPL_CTXT_W3_CIDX_MASK \<equiv> GENMASK 27 12"
abbreviation QDMA_COMPL_CTXT_W3_VALID_MASK :: u32 where "QDMA_COMPL_CTXT_W3_VALID_MASK \<equiv> BIT 28"
abbreviation QDMA_COMPL_CTXT_W3_ERR_MASK :: u32 where "QDMA_COMPL_CTXT_W3_ERR_MASK \<equiv> GENMASK 30 29"
abbreviation QDMA_COMPL_CTXT_W3_USR_TRG_PND_MASK :: u32 where "QDMA_COMPL_CTXT_W3_USR_TRG_PND_MASK \<equiv> BIT 31"
abbreviation QDMA_COMPL_CTXT_W4_TMR_RUN_MASK :: u32 where "QDMA_COMPL_CTXT_W4_TMR_RUN_MASK \<equiv> BIT 0"
abbreviation QDMA_COMPL_CTXT_W4_FULL_UPDT_MASK :: u32 where "QDMA_COMPL_CTXT_W4_FULL_UPDT_MASK \<equiv> BIT 1"
abbreviation QDMA_COMPL_CTXT_W4_OVF_CHK_DIS_MASK :: u32 where "QDMA_COMPL_CTXT_W4_OVF_CHK_DIS_MASK \<equiv> BIT 2"
abbreviation QDMA_COMPL_CTXT_W4_AT_MASK :: u32 where "QDMA_COMPL_CTXT_W4_AT_MASK \<equiv> BIT 3"
abbreviation QDMA_COMPL_CTXT_W4_INTR_VEC_MASK :: u32 where "QDMA_COMPL_CTXT_W4_INTR_VEC_MASK \<equiv> GENMASK 14 4"
abbreviation QDMA_COMPL_CTXT_W4_INTR_AGGR_MASK :: u32 where "QDMA_COMPL_CTXT_W4_INTR_AGGR_MASK \<equiv> BIT 15"
abbreviation QDMA_HW_CTXT_W0_CIDX_MASK :: u32 where "QDMA_HW_CTXT_W0_CIDX_MASK \<equiv> GENMASK 15 0"
abbreviation QDMA_HW_CTXT_W0_CRD_USE_MASK :: u32 where "QDMA_HW_CTXT_W0_CRD_USE_MASK \<equiv> GENMASK 31 16"
abbreviation QDMA_HW_CTXT_W1_DSC_PND_MASK :: u32 where "QDMA_HW_CTXT_W1_DSC_PND_MASK \<equiv> BIT 8"
abbreviation QDMA_HW_CTXT_W1_IDL_STP_B_MASK :: u32 where "QDMA_HW_CTXT_W1_IDL_STP_B_MASK \<equiv> BIT 9"
abbreviation QDMA_HW_CTXT_W1_EVENT_PEND_MASK :: u32 where "QDMA_HW_CTXT_W1_EVENT_PEND_MASK \<equiv> BIT 10"
abbreviation QDMA_HW_CTXT_W1_FETCH_PEND_MASK :: u32 where "QDMA_HW_CTXT_W1_FETCH_PEND_MASK \<equiv> GENMASK 14 11"
abbreviation QDMA_CR_CTXT_W0_CREDT_MASK :: u32 where "QDMA_CR_CTXT_W0_CREDT_MASK \<equiv> GENMASK 15 0"
abbreviation QDMA_FMAP_CTXT_W0_QID_MASK :: u32 where "QDMA_FMAP_CTXT_W0_QID_MASK \<equiv> GENMASK 10 0"
abbreviation QDMA_FMAP_CTXT_W1_QID_MAX_MASK :: u32 where "QDMA_FMAP_CTXT_W1_QID_MAX_MASK \<equiv> GENMASK 11 0"
abbreviation QDMA_INTR_CTXT_W0_VALID_MASK :: u32 where "QDMA_INTR_CTXT_W0_VALID_MASK \<equiv> BIT 0"
abbreviation QDMA_INTR_CTXT_W0_VEC_ID_MASK :: u32 where "QDMA_INTR_CTXT_W0_VEC_ID_MASK \<equiv> GENMASK 11 1"
abbreviation QDMA_INTR_CTXT_W0_INT_ST_MASK :: u32 where "QDMA_INTR_CTXT_W0_INT_ST_MASK \<equiv> BIT 13"
abbreviation QDMA_INTR_CTXT_W0_COLOR_MASK :: u32 where "QDMA_INTR_CTXT_W0_COLOR_MASK \<equiv> BIT 14"
abbreviation QDMA_INTR_CTXT_W0_BADDR_64_MASK :: u32 where "QDMA_INTR_CTXT_W0_BADDR_64_MASK \<equiv> GENMASK 31 15"
abbreviation QDMA_INTR_CTXT_W1_BADDR_64_MASK :: u32 where "QDMA_INTR_CTXT_W1_BADDR_64_MASK \<equiv> GENMASK 31 0"
abbreviation QDMA_INTR_CTXT_W2_BADDR_64_MASK :: u32 where "QDMA_INTR_CTXT_W2_BADDR_64_MASK \<equiv> GENMASK 2 0"
abbreviation QDMA_INTR_CTXT_W2_PAGE_SIZE_MASK :: u32 where "QDMA_INTR_CTXT_W2_PAGE_SIZE_MASK \<equiv> GENMASK 5 3"
abbreviation QDMA_INTR_CTXT_W2_PIDX_MASK :: u32 where "QDMA_INTR_CTXT_W2_PIDX_MASK \<equiv> GENMASK 17 6"
abbreviation QDMA_INTR_CTXT_W2_AT_MASK :: u32 where "QDMA_INTR_CTXT_W2_AT_MASK \<equiv> BIT 18"

section \<open>Software context\<close>

definition qdma_sw_words :: "qdma_descq_sw_ctxt \<Rightarrow> u32 list" where
  "qdma_sw_words ctxt =
     [FIELD_SET QDMA_SW_CTXT_W0_PIDX (ucast (sw_pidx ctxt)) OR
       FIELD_SET QDMA_SW_CTXT_W0_IRQ_ARM_MASK (ucast (sw_irq_arm ctxt)) OR
       FIELD_SET QDMA_SW_CTXT_W0_FUNC_ID_MASK (ucast (sw_fnc_id ctxt)),
      FIELD_SET QDMA_SW_CTXT_W1_QEN_MASK (ucast (sw_qen ctxt)) OR
       FIELD_SET QDMA_SW_CTXT_W1_FCRD_EN_MASK (ucast (sw_frcd_en ctxt)) OR
       FIELD_SET QDMA_SW_CTXT_W1_WBI_CHK_MASK (ucast (sw_wbi_chk ctxt)) OR
       FIELD_SET QDMA_SW_CTXT_W1_WB_INT_EN_MASK (ucast (sw_wbi_intvl_en ctxt)) OR
       FIELD_SET QDMA_SW_CTXT_W1_AT_MASK (ucast (sw_at ctxt)) OR
       FIELD_SET QDMA_SW_CTXT_W1_FETCH_MAX_MASK (ucast (sw_fetch_max ctxt)) OR
       FIELD_SET QDMA_SW_CTXT_W1_RNG_SZ_MASK (ucast (sw_rngsz_idx ctxt)) OR
       FIELD_SET QDMA_SW_CTXT_W1_DSC_SZ_MASK (ucast (sw_desc_sz ctxt)) OR
       FIELD_SET QDMA_SW_CTXT_W1_BYP_MASK (ucast (sw_bypass ctxt)) OR
       FIELD_SET QDMA_SW_CTXT_W1_MM_CHN_MASK (ucast (sw_mm_chn ctxt)) OR
       FIELD_SET QDMA_SW_CTXT_W1_WBK_EN_MASK (ucast (sw_wbk_en ctxt)) OR
       FIELD_SET QDMA_SW_CTXT_W1_IRQ_EN_MASK (ucast (sw_irq_en ctxt)) OR
       FIELD_SET QDMA_SW_CTXT_W1_PORT_ID_MASK (ucast (sw_port_id ctxt)) OR
       FIELD_SET QDMA_SW_CTXT_W1_IRQ_NO_LAST_MASK (ucast (sw_irq_no_last ctxt)) OR
       FIELD_SET QDMA_SW_CTXT_W1_ERR_MASK (ucast (sw_err ctxt)) OR
       FIELD_SET QDMA_SW_CTXT_W1_ERR_WB_SENT_MASK (ucast (sw_err_wb_sent ctxt)) OR
       FIELD_SET QDMA_SW_CTXT_W1_IRQ_REQ_MASK (ucast (sw_irq_req ctxt)) OR
       FIELD_SET QDMA_SW_CTXT_W1_MRKR_DIS_MASK (ucast (sw_mrkr_dis ctxt)) OR
       FIELD_SET QDMA_SW_CTXT_W1_IS_MM_MASK (ucast (sw_is_mm ctxt)),
      ucast (sw_ring_bs_addr ctxt AND 0xffffffff),
      ucast (drop_bit 32 (sw_ring_bs_addr ctxt) AND 0xffffffff),
      FIELD_SET QDMA_SW_CTXT_W4_VEC_MASK (ucast (sw_vec ctxt)) OR
       FIELD_SET QDMA_SW_CTXT_W4_INTR_AGGR_MASK (ucast (sw_intr_aggr ctxt))]"

definition qdma_sw_fields :: "u32 list \<Rightarrow> qdma_descq_sw_ctxt \<Rightarrow> qdma_descq_sw_ctxt" where
  "qdma_sw_fields ctxt_data ctxt =
     ctxt\<lparr>sw_pidx := ucast (FIELD_GET QDMA_SW_CTXT_W0_PIDX (ctxt_data ! 0)),
       sw_irq_arm := ucast (FIELD_GET QDMA_SW_CTXT_W0_IRQ_ARM_MASK (ctxt_data ! 0)),
       sw_fnc_id := ucast (FIELD_GET QDMA_SW_CTXT_W0_FUNC_ID_MASK (ctxt_data ! 0)),
       sw_qen := ucast (FIELD_GET QDMA_SW_CTXT_W1_QEN_MASK (ctxt_data ! 1)),
       sw_frcd_en := ucast (FIELD_GET QDMA_SW_CTXT_W1_FCRD_EN_MASK (ctxt_data ! 1)),
       sw_wbi_chk := ucast (FIELD_GET QDMA_SW_CTXT_W1_WBI_CHK_MASK (ctxt_data ! 1)),
       sw_wbi_intvl_en := ucast (FIELD_GET QDMA_SW_CTXT_W1_WB_INT_EN_MASK (ctxt_data ! 1)),
       sw_at := ucast (FIELD_GET QDMA_SW_CTXT_W1_AT_MASK (ctxt_data ! 1)),
       sw_fetch_max := ucast (FIELD_GET QDMA_SW_CTXT_W1_FETCH_MAX_MASK (ctxt_data ! 1)),
       sw_rngsz_idx := ucast (FIELD_GET QDMA_SW_CTXT_W1_RNG_SZ_MASK (ctxt_data ! 1)),
       sw_desc_sz := ucast (FIELD_GET QDMA_SW_CTXT_W1_DSC_SZ_MASK (ctxt_data ! 1)),
       sw_bypass := ucast (FIELD_GET QDMA_SW_CTXT_W1_BYP_MASK (ctxt_data ! 1)),
       sw_mm_chn := ucast (FIELD_GET QDMA_SW_CTXT_W1_MM_CHN_MASK (ctxt_data ! 1)),
       sw_wbk_en := ucast (FIELD_GET QDMA_SW_CTXT_W1_WBK_EN_MASK (ctxt_data ! 1)),
       sw_irq_en := ucast (FIELD_GET QDMA_SW_CTXT_W1_IRQ_EN_MASK (ctxt_data ! 1)),
       sw_port_id := ucast (FIELD_GET QDMA_SW_CTXT_W1_PORT_ID_MASK (ctxt_data ! 1)),
       sw_irq_no_last := ucast (FIELD_GET QDMA_SW_CTXT_W1_IRQ_NO_LAST_MASK (ctxt_data ! 1)),
       sw_err := ucast (FIELD_GET QDMA_SW_CTXT_W1_ERR_MASK (ctxt_data ! 1)),
       sw_err_wb_sent := ucast (FIELD_GET QDMA_SW_CTXT_W1_ERR_WB_SENT_MASK (ctxt_data ! 1)),
       sw_irq_req := ucast (FIELD_GET QDMA_SW_CTXT_W1_IRQ_REQ_MASK (ctxt_data ! 1)),
       sw_mrkr_dis := ucast (FIELD_GET QDMA_SW_CTXT_W1_MRKR_DIS_MASK (ctxt_data ! 1)),
       sw_is_mm := ucast (FIELD_GET QDMA_SW_CTXT_W1_IS_MM_MASK (ctxt_data ! 1)),
       sw_ring_bs_addr := push_bit 32 (ucast (ctxt_data ! 3)) OR ucast (ctxt_data ! 2),
       sw_vec := ucast (FIELD_GET QDMA_SW_CTXT_W4_VEC_MASK (ctxt_data ! 4)),
       sw_intr_aggr := ucast (FIELD_GET QDMA_SW_CTXT_W4_INTR_AGGR_MASK (ctxt_data ! 4))\<rparr>"

definition qdma_sw_context_write ::
  "'d mmio \<Rightarrow> 'd xdev option \<Rightarrow> u8 \<Rightarrow> u16 \<Rightarrow> qdma_descq_sw_ctxt option \<Rightarrow> int \<times> 'd xdev option" where
  "qdma_sw_context_write io dev c2h hw_qid ctxt =
     context_write (qdma_indirect_reg_write io) qdma_sw_words dev
       (if c2h \<noteq> 0 then QDMA_CTXT_SEL_SW_C2H else QDMA_CTXT_SEL_SW_H2C) hw_qid ctxt"

definition qdma_sw_context_read ::
  "'d mmio \<Rightarrow> 'd xdev option \<Rightarrow> u8 \<Rightarrow> u16 \<Rightarrow> qdma_descq_sw_ctxt option \<Rightarrow> int \<times> qdma_descq_sw_ctxt option \<times> 'd xdev option" where
  "qdma_sw_context_read io dev c2h hw_qid ctxt =
     context_read (qdma_indirect_reg_read io) 5 qdma_sw_fields dev
       (if c2h \<noteq> 0 then QDMA_CTXT_SEL_SW_C2H else QDMA_CTXT_SEL_SW_H2C) hw_qid ctxt"

definition qdma_sw_context_clear ::
  "'d mmio \<Rightarrow> 'd xdev option \<Rightarrow> u8 \<Rightarrow> u16 \<Rightarrow> int \<times> 'd xdev option" where
  "qdma_sw_context_clear io dev c2h hw_qid =
     context_cmd (qdma_indirect_reg_clear io) dev
       (if c2h \<noteq> 0 then QDMA_CTXT_SEL_SW_C2H else QDMA_CTXT_SEL_SW_H2C) hw_qid"

definition qdma_sw_context_invalidate ::
  "'d mmio \<Rightarrow> 'd xdev option \<Rightarrow> u8 \<Rightarrow> u16 \<Rightarrow> int \<times> 'd xdev option" where
  "qdma_sw_context_invalidate io dev c2h hw_qid =
     context_cmd (qdma_indirect_reg_invalidate io) dev
       (if c2h \<noteq> 0 then QDMA_CTXT_SEL_SW_C2H else QDMA_CTXT_SEL_SW_H2C) hw_qid"

definition qdma_sw_ctx_conf ::
  "'d mmio \<Rightarrow> 'd xdev option \<Rightarrow> u8 \<Rightarrow> u16 \<Rightarrow> qdma_descq_sw_ctxt option \<Rightarrow> qdma_hw_access_type \<Rightarrow>
   int \<times> qdma_descq_sw_ctxt option \<times> 'd xdev option" where
  "qdma_sw_ctx_conf io dev c2h hw_qid ctxt access_type =
     (if c2h > 1 then (neg_err QDMA_ERR_INV_PARAM, ctxt, dev) else
      case access_type of
        QDMA_HW_ACCESS_READ \<Rightarrow> qdma_sw_context_read io dev c2h hw_qid ctxt
      | QDMA_HW_ACCESS_WRITE \<Rightarrow> keep_ctxt ctxt (qdma_sw_context_write io dev c2h hw_qid ctxt)
      | QDMA_HW_ACCESS_CLEAR \<Rightarrow> keep_ctxt ctxt (qdma_sw_context_clear io dev c2h hw_qid)
      | QDMA_HW_ACCESS_INVALIDATE \<Rightarrow> keep_ctxt ctxt (qdma_sw_context_invalidate io dev c2h hw_qid)
      | _ \<Rightarrow> (neg_err QDMA_ERR_INV_PARAM, ctxt, dev))"

text \<open>What a software context keeps on its way through the registers.\<close>

definition qdma_sw_stored :: "qdma_descq_sw_ctxt \<Rightarrow> qdma_descq_sw_ctxt \<Rightarrow> qdma_descq_sw_ctxt" where
  "qdma_sw_stored c c0 =
     c0\<lparr>sw_pidx := sw_pidx c,
       sw_irq_arm := take_bit 1 (sw_irq_arm c),
       sw_fnc_id := sw_fnc_id c,
       sw_qen := take_bit 1 (sw_qen c),
       sw_frcd_en := take_bit 1 (sw_frcd_en c),
       sw_wbi_chk := take_bit 1 (sw_wbi_chk c),
       sw_wbi_intvl_en := take_bit 1 (sw_wbi_intvl_en c),
       sw_at := take_bit 1 (sw_at c),
       sw_fetch_max := take_bit 3 (sw_fetch_max c),
       sw_rngsz_idx := take_bit 4 (sw_rngsz_idx c),
       sw_desc_sz := take_bit 2 (sw_desc_sz c),
       sw_bypass := take_bit 1 (sw_bypass c),
       sw_mm_chn := take_bit 1 (sw_mm_chn c),
       sw_wbk_en := take_bit 1 (sw_wbk_en c),
       sw_irq_en := take_bit 1 (sw_irq_en c),
       sw_port_id := take_bit 3 (sw_port_id c),
       sw_irq_no_last := take_bit 1 (sw_irq_no_last c),
       sw_err := take_bit 2 (sw_err c),
       sw_err_wb_sent := take_bit 1 (sw_err_wb_sent c),
       sw_irq_req := take_bit 1 (sw_irq_req c),
       sw_mrkr_dis := take_bit 1 (sw_mrkr_dis c),
       sw_is_mm := take_bit 1 (sw_is_mm c),
       sw_ring_bs_addr := sw_ring_bs_addr c,
       sw_vec := take_bit 11 (sw_vec c),
       sw_intr_aggr := take_bit 1 (sw_intr_aggr c)\<rparr>"

lemma qdma_sw_dec_enc: "qdma_sw_fields (qdma_sw_words c) c0 = qdma_sw_stored c c0"
  by (simp add: qdma_sw_fields_def qdma_sw_words_def qdma_sw_stored_def field_simps field_parts;
      (simp add: AND_GENMASK_low field_simps)?)

interpretation qdma_sw: ctxt_codec qdma_sw_words qdma_sw_fields qdma_sw_stored 5
  by unfold_locales
     (simp_all only: qdma_sw_dec_enc, simp_all add: qdma_sw_words_def qdma_sw_fields_def)

section \<open>Prefetch context\<close>

definition qdma_pfetch_words :: "qdma_descq_prefetch_ctxt \<Rightarrow> u32 list" where
  "qdma_pfetch_words ctxt =
    (let sw_crdt_l = FIELD_GET QDMA_PFTCH_CTXT_SW_CRDT_GET_L_MASK (ucast (pf_sw_crdt ctxt));
         sw_crdt_h = FIELD_GET QDMA_PFTCH_CTXT_SW_CRDT_GET_H_MASK (ucast (pf_sw_crdt ctxt)) in
     [FIELD_SET QDMA_PFTCH_CTXT_W0_BYPASS_MASK (ucast (pf_bypass ctxt)) OR
       FIELD_SET QDMA_PFTCH_CTXT_W0_BUF_SIZE_IDX_MASK (ucast (pf_bufsz_idx ctxt)) OR
       FIELD_SET QDMA_PFTCH_CTXT_W0_PORT_ID_MASK (ucast (pf_port_id ctxt)) OR
       FIELD_SET QDMA_PFTCH_CTXT_W0_ERR_MASK (ucast (pf_err ctxt)) OR
       FIELD_SET QDMA_PFTCH_CTXT_W0_PFETCH_EN_MASK (ucast (pf_pfch_en ctxt)) OR
       FIELD_SET QDMA_PFTCH_CTXT_W0_Q_IN_PFETCH_MASK (ucast (pf_pfch ctxt)) OR
       FIELD_SET QDMA_PFTCH_CTXT_W0_SW_CRDT_L_MASK sw_crdt_l,
      FIELD_SET QDMA_PFTCH_CTXT_W1_SW_CRDT_H_MASK sw_crdt_h OR
       FIELD_SET QDMA_PFTCH_CTXT_W1_VALID_MASK (ucast (pf_valid ctxt))])"

definition qdma_pfetch_fields :: "u32 list \<Rightarrow> qdma_descq_prefetch_ctxt \<Rightarrow> qdma_descq_prefetch_ctxt" where
  "qdma_pfetch_fields ctxt_data ctxt =
    (let sw_crdt_l = FIELD_GET QDMA_PFTCH_CTXT_W0_SW_CRDT_L_MASK (ctxt_data ! 0);
         sw_crdt_h = FIELD_GET QDMA_PFTCH_CTXT_W1_SW_CRDT_H_MASK (ctxt_data ! 1) in
     ctxt\<lparr>pf_bypass := ucast (FIELD_GET QDMA_PFTCH_CTXT_W0_BYPASS_MASK (ctxt_data ! 0)),
       pf_bufsz_idx := ucast (FIELD_GET QDMA_PFTCH_CTXT_W0_BUF_SIZE_IDX_MASK (ctxt_data ! 0)),
       pf_port_id := ucast (FIELD_GET QDMA_PFTCH_CTXT_W0_PORT_ID_MASK (ctxt_data ! 0)),
       pf_err := ucast (FIELD_GET QDMA_PFTCH_CTXT_W0_ERR_MASK (ctxt_data ! 0)),
       pf_pfch_en := ucast (FIELD_GET QDMA_PFTCH_CTXT_W0_PFETCH_EN_MASK (ctxt_data ! 0)),
       pf_pfch := ucast (FIELD_GET QDMA_PFTCH_CTXT_W0_Q_IN_PFETCH_MASK (ctxt_data ! 0)),
       pf_valid := ucast (FIELD_GET QDMA_PFTCH_CTXT_W1_VALID_MASK (ctxt_data ! 1)),
       pf_sw_crdt := ucast (FIELD_SET QDMA_PFTCH_CTXT_SW_CRDT_GET_L_MASK sw_crdt_l OR
         FIELD_SET QDMA_PFTCH_CTXT_SW_CRDT_GET_H_MASK sw_crdt_h)\<rparr>)"

definition qdma_pfetch_context_write ::
  "'d mmio \<Rightarrow> 'd xdev option \<Rightarrow> u16 \<Rightarrow> qdma_descq_prefetch_ctxt option \<Rightarrow> int \<times> 'd xdev option" where
  "qdma_pfetch_context_write io dev hw_qid ctxt =
     context_write (qdma_indirect_reg_write io) qdma_pfetch_words dev
       QDMA_CTXT_SEL_PFTCH hw_qid ctxt"

definition qdma_pfetch_context_read ::
  "'d mmio \<Rightarrow> 'd xdev option \<Rightarrow> u16 \<Rightarrow> qdma_descq_prefetch_ctxt option \<Rightarrow> int \<times> qdma_descq_prefetch_ctxt option \<times> 'd xdev option" where
  "qdma_pfetch_context_read io dev hw_qid ctxt =
     context_read (qdma_indirect_reg_read io) 2 qdma_pfetch_fields dev
       QDMA_CTXT_SEL_PFTCH hw_qid ctxt"

definition qdma_pfetch_context_clear ::
  "'d mmio \<Rightarrow> 'd xdev option \<Rightarrow> u16 \<Rightarrow> int \<times> 'd xdev option" where
  "qdma_pfetch_context_clear io dev hw_qid =
     context_cmd (qdma_indirect_reg_clear io) dev
       QDMA_CTXT_SEL_PFTCH hw_qid"

definition qdma_pfetch_context_invalidate ::
  "'d mmio \<Rightarrow> 'd xdev option \<Rightarrow> u16 \<Rightarrow> int \<times> 'd xdev option" where
  "qdma_pfetch_context_invalidate io dev hw_qid =
     context_cmd (qdma_indirect_reg_invalidate io) dev
       QDMA_CTXT_SEL_PFTCH hw_qid"

definition qdma_pfetch_ctx_conf ::
  "'d mmio \<Rightarrow> 'd xdev option \<Rightarrow> u16 \<Rightarrow> qdma_descq_prefetch_ctxt option \<Rightarrow> qdma_hw_access_type \<Rightarrow>
   int \<times> qdma_descq_prefetch_ctxt option \<times> 'd xdev option" where
  "qdma_pfetch_ctx_conf io dev hw_qid ctxt access_type =
     (case access_type of
        QDMA_HW_ACCESS_READ \<Rightarrow> qdma_pfetch_context_read io dev hw_qid ctxt
      | QDMA_HW_ACCESS_WRITE \<Rightarrow> keep_ctxt ctxt (qdma_pfetch_context_write io dev hw_qid ctxt)
      | QDMA_HW_ACCESS_CLEAR \<Rightarrow> keep_ctxt ctxt (qdma_pfetch_context_clear io dev hw_qid)
      | QDMA_HW_ACCESS_INVALIDATE \<Rightarrow> keep_ctxt ctxt (qdma_pfetch_context_invalidate io dev hw_qid)
      | _ \<Rightarrow> (neg_err QDMA_ERR_INV_PARAM, ctxt, dev))"

text \<open>What a prefetch context keeps on its way through the registers.\<close>

definition qdma_pfetch_stored :: "qdma_descq_prefetch_ctxt \<Rightarrow> qdma_descq_prefetch_ctxt \<Rightarrow> qdma_descq_prefetch_ctxt" where
  "qdma_pfetch_stored c c0 =
     c0\<lparr>pf_bypass := take_bit 1 (pf_bypass c),
       pf_bufsz_idx := take_bit 4 (pf_bufsz_idx c),
       pf_port_id := take_bit 3 (pf_port_id c),
       pf_err := take_bit 1 (pf_err c),
       pf_pfch_en := take_bit 1 (pf_pfch_en c),
       pf_pfch := take_bit 1 (pf_pfch c),
       pf_valid := take_bit 1 (pf_valid c),
       pf_sw_crdt := pf_sw_crdt c\<rparr>"

lemma qdma_pfetch_dec_enc: "qdma_pfetch_fields (qdma_pfetch_words c) c0 = qdma_pfetch_stored c c0"
  by (simp add: qdma_pfetch_fields_def qdma_pfetch_words_def qdma_pfetch_stored_def field_simps field_parts;
      (simp add: AND_GENMASK_low field_simps)?)

interpretation qdma_pfetch: ctxt_codec qdma_pfetch_words qdma_pfetch_fields qdma_pfetch_stored 2
  by unfold_locales
     (simp_all only: qdma_pfetch_dec_enc, simp_all add: qdma_pfetch_words_def qdma_pfetch_fields_def)

section \<open>Completion context\<close>

definition qdma_cmpt_words :: "qdma_descq_cmpt_ctxt \<Rightarrow> u32 list" where
  "qdma_cmpt_words ctxt =
    (let baddr_l = (ucast (FIELD_GET QDMA_COMPL_CTXT_BADDR_GET_L_MASK (cm_bs_addr ctxt)) :: u32);
         baddr_h = (ucast (FIELD_GET QDMA_COMPL_CTXT_BADDR_GET_H_MASK (cm_bs_addr ctxt)) :: u32);
         pidx_l = FIELD_GET QDMA_COMPL_CTXT_PIDX_GET_L_MASK (ucast (cm_pidx ctxt));
         pidx_h = FIELD_GET QDMA_COMPL_CTXT_PIDX_GET_H_MASK (ucast (cm_pidx ctxt)) in
     [FIELD_SET QDMA_COMPL_CTXT_W0_EN_STAT_DESC_MASK (ucast (cm_en_stat_desc ctxt)) OR
       FIELD_SET QDMA_COMPL_CTXT_W0_EN_INT_MASK (ucast (cm_en_int ctxt)) OR
       FIELD_SET QDMA_COMPL_CTXT_W0_TRIG_MODE_MASK (ucast (cm_trig_mode ctxt)) OR
       FIELD_SET QDMA_COMPL_CTXT_W0_FNC_ID_MASK (ucast (cm_fnc_id ctxt)) OR
       FIELD_SET QDMA_COMPL_CTXT_W0_COUNTER_IDX_MASK (ucast (cm_counter_idx ctxt)) OR
       FIELD_SET QDMA_COMPL_CTXT_W0_TIMER_IDX_MASK (ucast (cm_timer_idx ctxt)) OR
       FIELD_SET QDMA_COMPL_CTXT_W0_INT_ST_MASK (ucast (cm_in_st ctxt)) OR
       FIELD_SET QDMA_COMPL_CTXT_W0_COLOR_MASK (ucast (cm_color ctxt)) OR
       FIELD_SET QDMA_COMPL_CTXT_W0_RING_SZ_MASK (ucast (cm_ringsz_idx ctxt)),
      FIELD_SET QDMA_COMPL_CTXT_W1_BADDR_64_L_MASK baddr_l,
      FIELD_SET QDMA_COMPL_CTXT_W2_BADDR_64_H_MASK baddr_h OR
       FIELD_SET QDMA_COMPL_CTXT_W2_DESC_SIZE_MASK (ucast (cm_desc_sz ctxt)) OR
       FIELD_SET QDMA_COMPL_CTXT_W2_PIDX_L_MASK pidx_l,
      FIELD_SET QDMA_COMPL_CTXT_W3_PIDX_H_MASK pidx_h OR
       FIELD_SET QDMA_COMPL_CTXT_W3_CIDX_MASK (ucast (cm_cidx ctxt)) OR
       FIELD_SET QDMA_COMPL_CTXT_W3_VALID_MASK (ucast (cm_valid ctxt)) OR
       FIELD_SET QDMA_COMPL_CTXT_W3_ERR_MASK (ucast (cm_err ctxt)) OR
       FIELD_SET QDMA_COMPL_CTXT_W3_USR_TRG_PND_MASK (ucast (cm_user_trig_pend ctxt)),
      FIELD_SET QDMA_COMPL_CTXT_W4_TMR_RUN_MASK (ucast (cm_timer_running ctxt)) OR
       FIELD_SET QDMA_COMPL_CTXT_W4_FULL_UPDT_MASK (ucast (cm_full_upd ctxt)) OR
       FIELD_SET QDMA_COMPL_CTXT_W4_OVF_CHK_DIS_MASK (ucast (cm_ovf_chk_dis ctxt)) OR
       FIELD_SET QDMA_COMPL_CTXT_W4_AT_MASK (ucast (cm_at ctxt)) OR
       FIELD_SET QDMA_COMPL_CTXT_W4_INTR_VEC_MASK (ucast (cm_vec ctxt)) OR
       FIELD_SET QDMA_COMPL_CTXT_W4_INTR_AGGR_MASK (ucast (cm_int_aggr ctxt))])"

definition qdma_cmpt_fields :: "u32 list \<Rightarrow> qdma_descq_cmpt_ctxt \<Rightarrow> qdma_descq_cmpt_ctxt" where
  "qdma_cmpt_fields ctxt_data ctxt =
    (let baddr_l = FIELD_GET QDMA_COMPL_CTXT_W1_BADDR_64_L_MASK (ctxt_data ! 1);
         baddr_h = FIELD_GET QDMA_COMPL_CTXT_W2_BADDR_64_H_MASK (ctxt_data ! 2);
         pidx_l = FIELD_GET QDMA_COMPL_CTXT_W2_PIDX_L_MASK (ctxt_data ! 2);
         pidx_h = FIELD_GET QDMA_COMPL_CTXT_W3_PIDX_H_MASK (ctxt_data ! 3) in
     ctxt\<lparr>cm_en_stat_desc := ucast (FIELD_GET QDMA_COMPL_CTXT_W0_EN_STAT_DESC_MASK (ctxt_data ! 0)),
       cm_en_int := ucast (FIELD_GET QDMA_COMPL_CTXT_W0_EN_INT_MASK (ctxt_data ! 0)),
       cm_trig_mode := ucast (FIELD_GET QDMA_COMPL_CTXT_W0_TRIG_MODE_MASK (ctxt_data ! 0)),
       cm_fnc_id := ucast (FIELD_GET QDMA_COMPL_CTXT_W0_FNC_ID_MASK (ctxt_data ! 0)),
       cm_counter_idx := ucast (FIELD_GET QDMA_COMPL_CTXT_W0_COUNTER_IDX_MASK (ctxt_data ! 0)),
       cm_timer_idx := ucast (FIELD_GET QDMA_COMPL_CTXT_W0_TIMER_IDX_MASK (ctxt_data ! 0)),
       cm_in_st := ucast (FIELD_GET QDMA_COMPL_CTXT_W0_INT_ST_MASK (ctxt_data ! 0)),
       cm_color := ucast (FIELD_GET QDMA_COMPL_CTXT_W0_COLOR_MASK (ctxt_data ! 0)),
       cm_ringsz_idx := ucast (FIELD_GET QDMA_COMPL_CTXT_W0_RING_SZ_MASK (ctxt_data ! 0)),
       cm_desc_sz := ucast (FIELD_GET QDMA_COMPL_CTXT_W2_DESC_SIZE_MASK (ctxt_data ! 2)),
       cm_cidx := ucast (FIELD_GET QDMA_COMPL_CTXT_W3_CIDX_MASK (ctxt_data ! 3)),
       cm_valid := ucast (FIELD_GET QDMA_COMPL_CTXT_W3_VALID_MASK (ctxt_data ! 3)),
       cm_err := ucast (FIELD_GET QDMA_COMPL_CTXT_W3_ERR_MASK (ctxt_data ! 3)),
       cm_user_trig_pend := ucast (FIELD_GET QDMA_COMPL_CTXT_W3_USR_TRG_PND_MASK (ctxt_data ! 3)),
       cm_timer_running := ucast (FIELD_GET QDMA_COMPL_CTXT_W4_TMR_RUN_MASK (ctxt_data ! 4)),
       cm_full_upd := ucast (FIELD_GET QDMA_COMPL_CTXT_W4_FULL_UPDT_MASK (ctxt_data ! 4)),
       cm_ovf_chk_dis := ucast (FIELD_GET QDMA_COMPL_CTXT_W4_OVF_CHK_DIS_MASK (ctxt_data ! 4)),
       cm_at := ucast (FIELD_GET QDMA_COMPL_CTXT_W4_AT_MASK (ctxt_data ! 4)),
       cm_vec := ucast (FIELD_GET QDMA_COMPL_CTXT_W4_INTR_VEC_MASK (ctxt_data ! 4)),
       cm_int_aggr := ucast (FIELD_GET QDMA_COMPL_CTXT_W4_INTR_AGGR_MASK (ctxt_data ! 4)),
       cm_bs_addr := FIELD_SET QDMA_COMPL_CTXT_BADDR_GET_L_MASK (ucast baddr_l) OR
         FIELD_SET QDMA_COMPL_CTXT_BADDR_GET_H_MASK (ucast baddr_h),
       cm_pidx := ucast (FIELD_SET QDMA_COMPL_CTXT_PIDX_GET_L_MASK pidx_l OR
         FIELD_SET QDMA_COMPL_CTXT_PIDX_GET_H_MASK pidx_h)\<rparr>)"

definition qdma_cmpt_context_write ::
  "'d mmio \<Rightarrow> 'd xdev option \<Rightarrow> u16 \<Rightarrow> qdma_descq_cmpt_ctxt option \<Rightarrow> int \<times> 'd xdev option" where
  "qdma_cmpt_context_write io dev hw_qid ctxt =
     (case (dev, ctxt) of
        (Some d, Some c) \<Rightarrow>
          if cm_trig_mode c > QDMA_CMPT_UPDATE_TRIG_MODE_TMR_CNTR
          then (neg_err QDMA_ERR_INV_PARAM, dev)
          else context_write (qdma_indirect_reg_write io) qdma_cmpt_words dev QDMA_CTXT_SEL_CMPT hw_qid ctxt
      | _ \<Rightarrow> (neg_err QDMA_ERR_INV_PARAM, dev))"

definition qdma_cmpt_context_read ::
  "'d mmio \<Rightarrow> 'd xdev option \<Rightarrow> u16 \<Rightarrow> qdma_descq_cmpt_ctxt option \<Rightarrow> int \<times> qdma_descq_cmpt_ctxt option \<times> 'd xdev option" where
  "qdma_cmpt_context_read io dev hw_qid ctxt =
     context_read (qdma_indirect_reg_read io) 5 qdma_cmpt_fields dev
       QDMA_CTXT_SEL_CMPT hw_qid ctxt"

definition qdma_cmpt_context_clear ::
  "'d mmio \<Rightarrow> 'd xdev option \<Rightarrow> u16 \<Rightarrow> int \<times> 'd xdev option" where
  "qdma_cmpt_context_clear io dev hw_qid =
     context_cmd (qdma_indirect_reg_clear io) dev
       QDMA_CTXT_SEL_CMPT hw_qid"

definition qdma_cmpt_context_invalidate ::
  "'d mmio \<Rightarrow> 'd xdev option \<Rightarrow> u16 \<Rightarrow> int \<times> 'd xdev option" where
  "qdma_cmpt_context_invalidate io dev hw_qid =
     context_cmd (qdma_indirect_reg_invalidate io) dev
       QDMA_CTXT_SEL_CMPT hw_qid"

definition qdma_cmpt_ctx_conf ::
  "'d mmio \<Rightarrow> 'd xdev option \<Rightarrow> u16 \<Rightarrow> qdma_descq_cmpt_ctxt option \<Rightarrow> qdma_hw_access_type \<Rightarrow>
   int \<times> qdma_descq_cmpt_ctxt option \<times> 'd xdev option" where
  "qdma_cmpt_ctx_conf io dev hw_qid ctxt access_type =
     (case access_type of
        QDMA_HW_ACCESS_READ \<Rightarrow> qdma_cmpt_context_read io dev hw_qid ctxt
      | QDMA_HW_ACCESS_WRITE \<Rightarrow> keep_ctxt ctxt (qdma_cmpt_context_write io dev hw_qid ctxt)
      | QDMA_HW_ACCESS_CLEAR \<Rightarrow> keep_ctxt ctxt (qdma_cmpt_context_clear io dev hw_qid)
      | QDMA_HW_ACCESS_INVALIDATE \<Rightarrow> keep_ctxt ctxt (qdma_cmpt_context_invalidate io dev hw_qid)
      | _ \<Rightarrow> (neg_err QDMA_ERR_INV_PARAM, ctxt, dev))"

text \<open>What a completion context keeps on its way through the registers.\<close>

definition qdma_cmpt_stored :: "qdma_descq_cmpt_ctxt \<Rightarrow> qdma_descq_cmpt_ctxt \<Rightarrow> qdma_descq_cmpt_ctxt" where
  "qdma_cmpt_stored c c0 =
     c0\<lparr>cm_en_stat_desc := cm_en_stat_desc c,
       cm_en_int := cm_en_int c,
       cm_trig_mode := cm_trig_mode c,
       cm_fnc_id := cm_fnc_id c,
       cm_counter_idx := cm_counter_idx c,
       cm_timer_idx := cm_timer_idx c,
       cm_in_st := cm_in_st c,
       cm_color := cm_color c,
       cm_ringsz_idx := cm_ringsz_idx c,
       cm_desc_sz := cm_desc_sz c,
       cm_cidx := cm_cidx c,
       cm_valid := cm_valid c,
       cm_err := cm_err c,
       cm_user_trig_pend := cm_user_trig_pend c,
       cm_timer_running := cm_timer_running c,
       cm_full_upd := cm_full_upd c,
       cm_ovf_chk_dis := cm_ovf_chk_dis c,
       cm_at := cm_at c,
       cm_vec := cm_vec c,
       cm_int_aggr := cm_int_aggr c,
       cm_bs_addr := cm_bs_addr c AND GENMASK 63 12,
       cm_pidx := cm_pidx c\<rparr>"

lemma qdma_cmpt_dec_enc: "qdma_cmpt_fields (qdma_cmpt_words c) c0 = qdma_cmpt_stored c c0"
  by (simp add: qdma_cmpt_fields_def qdma_cmpt_words_def qdma_cmpt_stored_def field_simps field_parts;
      (simp add: AND_GENMASK_low field_simps)?)

interpretation qdma_cmpt: ctxt_codec qdma_cmpt_words qdma_cmpt_fields qdma_cmpt_stored 5
  by unfold_locales
     (simp_all only: qdma_cmpt_dec_enc, simp_all add: qdma_cmpt_words_def qdma_cmpt_fields_def)

section \<open>Hardware context\<close>

definition qdma_hw_fields :: "u32 list \<Rightarrow> qdma_descq_hw_ctxt \<Rightarrow> qdma_descq_hw_ctxt" where
  "qdma_hw_fields ctxt_data ctxt =
     ctxt\<lparr>hw_cidx := ucast (FIELD_GET QDMA_HW_CTXT_W0_CIDX_MASK (ctxt_data ! 0)),
       hw_crd_use := ucast (FIELD_GET QDMA_HW_CTXT_W0_CRD_USE_MASK (ctxt_data ! 0)),
       hw_dsc_pend := ucast (FIELD_GET QDMA_HW_CTXT_W1_DSC_PND_MASK (ctxt_data ! 1)),
       hw_idl_stp_b := ucast (FIELD_GET QDMA_HW_CTXT_W1_IDL_STP_B_MASK (ctxt_data ! 1)),
       hw_evt_pnd := ucast (FIELD_GET QDMA_HW_CTXT_W1_EVENT_PEND_MASK (ctxt_data ! 1)),
       hw_fetch_pnd := ucast (FIELD_GET QDMA_HW_CTXT_W1_FETCH_PEND_MASK (ctxt_data ! 1))\<rparr>"

definition qdma_hw_context_read ::
  "'d mmio \<Rightarrow> 'd xdev option \<Rightarrow> u8 \<Rightarrow> u16 \<Rightarrow> qdma_descq_hw_ctxt option \<Rightarrow> int \<times> qdma_descq_hw_ctxt option \<times> 'd xdev option" where
  "qdma_hw_context_read io dev c2h hw_qid ctxt =
     context_read (qdma_indirect_reg_read io) 2 qdma_hw_fields dev
       (if c2h \<noteq> 0 then QDMA_CTXT_SEL_HW_C2H else QDMA_CTXT_SEL_HW_H2C) hw_qid ctxt"

definition qdma_hw_context_clear ::
  "'d mmio \<Rightarrow> 'd xdev option \<Rightarrow> u8 \<Rightarrow> u16 \<Rightarrow> int \<times> 'd xdev option" where
  "qdma_hw_context_clear io dev c2h hw_qid =
     context_cmd (qdma_indirect_reg_clear io) dev
       (if c2h \<noteq> 0 then QDMA_CTXT_SEL_HW_C2H else QDMA_CTXT_SEL_HW_H2C) hw_qid"

definition qdma_hw_context_invalidate ::
  "'d mmio \<Rightarrow> 'd xdev option \<Rightarrow> u8 \<Rightarrow> u16 \<Rightarrow> int \<times> 'd xdev option" where
  "qdma_hw_context_invalidate io dev c2h hw_qid =
     context_cmd (qdma_indirect_reg_invalidate io) dev
       (if c2h \<noteq> 0 then QDMA_CTXT_SEL_HW_C2H else QDMA_CTXT_SEL_HW_H2C) hw_qid"

definition qdma_hw_ctx_conf ::
  "'d mmio \<Rightarrow> 'd xdev option \<Rightarrow> u8 \<Rightarrow> u16 \<Rightarrow> qdma_descq_hw_ctxt option \<Rightarrow> qdma_hw_access_type \<Rightarrow>
   int \<times> qdma_descq_hw_ctxt option \<times> 'd xdev option" where
  "qdma_hw_ctx_conf io dev c2h hw_qid ctxt access_type =
     (if c2h > 1 then (neg_err QDMA_ERR_INV_PARAM, ctxt, dev) else
      case access_type of
        QDMA_HW_ACCESS_READ \<Rightarrow> qdma_hw_context_read io dev c2h hw_qid ctxt
      | QDMA_HW_ACCESS_CLEAR \<Rightarrow> keep_ctxt ctxt (qdma_hw_context_clear io dev c2h hw_qid)
      | QDMA_HW_ACCESS_INVALIDATE \<Rightarrow> keep_ctxt ctxt (qdma_hw_context_invalidate io dev c2h hw_qid)
      | _ \<Rightarrow> (neg_err QDMA_ERR_INV_PARAM, ctxt, dev))"

section \<open>Credit context\<close>

definition qdma_credit_fields :: "u32 list \<Rightarrow> qdma_descq_credit_ctxt \<Rightarrow> qdma_descq_credit_ctxt" where
  "qdma_credit_fields ctxt_data ctxt =
     ctxt\<lparr>cr_credit := FIELD_GET QDMA_CR_CTXT_W0_CREDT_MASK (ctxt_data ! 0)\<rparr>"

definition qdma_credit_context_read ::
  "'d mmio \<Rightarrow> 'd xdev option \<Rightarrow> u8 \<Rightarrow> u16 \<Rightarrow> qdma_descq_credit_ctxt option \<Rightarrow> int \<times> qdma_descq_credit_ctxt option \<times> 'd xdev option" where
  "qdma_credit_context_read io dev c2h hw_qid ctxt =
     context_read (qdma_indirect_reg_read io) 1 qdma_credit_fields dev
       (if c2h \<noteq> 0 then QDMA_CTXT_SEL_CR_C2H else QDMA_CTXT_SEL_CR_H2C) hw_qid ctxt"

definition qdma_credit_context_clear ::
  "'d mmio \<Rightarrow> 'd xdev option \<Rightarrow> u8 \<Rightarrow> u16 \<Rightarrow> int \<times> 'd xdev option" where
  "qdma_credit_context_clear io dev c2h hw_qid =
     context_cmd (qdma_indirect_reg_clear io) dev
       (if c2h \<noteq> 0 then QDMA_CTXT_SEL_CR_C2H else QDMA_CTXT_SEL_CR_H2C) hw_qid"

definition qdma_credit_context_invalidate ::
  "'d mmio \<Rightarrow> 'd xdev option \<Rightarrow> u8 \<Rightarrow> u16 \<Rightarrow> int \<times> 'd xdev option" where
  "qdma_credit_context_invalidate io dev c2h hw_qid =
     context_cmd (qdma_indirect_reg_invalidate io) dev
       (if c2h \<noteq> 0 then QDMA_CTXT_SEL_CR_C2H else QDMA_CTXT_SEL_CR_H2C) hw_qid"

definition qdma_credit_ctx_conf ::
  "'d mmio \<Rightarrow> 'd xdev option \<Rightarrow> u8 \<Rightarrow> u16 \<Rightarrow> qdma_descq_credit_ctxt option \<Rightarrow> qdma_hw_access_type \<Rightarrow>
   int \<times> qdma_descq_credit_ctxt option \<times> 'd xdev option" where
  "qdma_credit_ctx_conf io dev c2h hw_qid ctxt access_type =
     (if c2h > 1 then (neg_err QDMA_ERR_INV_PARAM, ctxt, dev) else
      case access_type of
        QDMA_HW_ACCESS_READ \<Rightarrow> qdma_credit_context_read io dev c2h hw_qid ctxt
      | QDMA_HW_ACCESS_CLEAR \<Rightarrow> keep_ctxt ctxt (qdma_credit_context_clear io dev c2h hw_qid)
      | QDMA_HW_ACCESS_INVALIDATE \<Rightarrow> keep_ctxt ctxt (qdma_credit_context_invalidate io dev c2h hw_qid)
      | _ \<Rightarrow> (neg_err QDMA_ERR_INV_PARAM, ctxt, dev))"

section \<open>Function map\<close>

definition qdma_fmap_words :: "qdma_fmap_cfg \<Rightarrow> u32 list" where
  "qdma_fmap_words ctxt =
     [FIELD_SET QDMA_FMAP_CTXT_W0_QID_MASK (ucast (fm_qbase ctxt)),
      FIELD_SET QDMA_FMAP_CTXT_W1_QID_MAX_MASK (ucast (fm_qmax ctxt))]"

definition qdma_fmap_fields :: "u32 list \<Rightarrow> qdma_fmap_cfg \<Rightarrow> qdma_fmap_cfg" where
  "qdma_fmap_fields ctxt_data ctxt =
     ctxt\<lparr>fm_qbase := ucast (FIELD_GET QDMA_FMAP_CTXT_W0_QID_MASK (ctxt_data ! 0)),
       fm_qmax := ucast (FIELD_GET QDMA_FMAP_CTXT_W1_QID_MAX_MASK (ctxt_data ! 1))\<rparr>"

definition qdma_fmap_write ::
  "'d mmio \<Rightarrow> 'd xdev option \<Rightarrow> u16 \<Rightarrow> qdma_fmap_cfg option \<Rightarrow> int \<times> 'd xdev option" where
  "qdma_fmap_write io dev hw_qid ctxt =
     context_write (qdma_indirect_reg_write io) qdma_fmap_words dev
       QDMA_CTXT_SEL_FMAP hw_qid ctxt"

definition qdma_fmap_read ::
  "'d mmio \<Rightarrow> 'd xdev option \<Rightarrow> u16 \<Rightarrow> qdma_fmap_cfg option \<Rightarrow> int \<times> qdma_fmap_cfg option \<times> 'd xdev option" where
  "qdma_fmap_read io dev hw_qid ctxt =
     context_read (qdma_indirect_reg_read io) 2 qdma_fmap_fields dev
       QDMA_CTXT_SEL_FMAP hw_qid ctxt"

definition qdma_fmap_clear ::
  "'d mmio \<Rightarrow> 'd xdev option \<Rightarrow> u16 \<Rightarrow> int \<times> 'd xdev option" where
  "qdma_fmap_clear io dev hw_qid =
     context_cmd (qdma_indirect_reg_clear io) dev
       QDMA_CTXT_SEL_FMAP hw_qid"

definition qdma_fmap_conf ::
  "'d mmio \<Rightarrow> 'd xdev option \<Rightarrow> u16 \<Rightarrow> qdma_fmap_cfg option \<Rightarrow> qdma_hw_access_type \<Rightarrow>
   int \<times> qdma_fmap_cfg option \<times> 'd xdev option" where
  "qdma_fmap_conf io dev hw_qid ctxt access_type =
     (case access_type of
        QDMA_HW_ACCESS_READ \<Rightarrow> qdma_fmap_read io dev hw_qid ctxt
      | QDMA_HW_ACCESS_WRITE \<Rightarrow> keep_ctxt ctxt (qdma_fmap_write io dev hw_qid ctxt)
      | QDMA_HW_ACCESS_CLEAR \<Rightarrow> keep_ctxt ctxt (qdma_fmap_clear io dev hw_qid)
      | _ \<Rightarrow> (neg_err QDMA_ERR_INV_PARAM, ctxt, dev))"

text \<open>What a function map keeps on its way through the registers.\<close>

definition qdma_fmap_stored :: "qdma_fmap_cfg \<Rightarrow> qdma_fmap_cfg \<Rightarrow> qdma_fmap_cfg" where
  "qdma_fmap_stored c c0 =
     c0\<lparr>fm_qbase := take_bit 11 (fm_qbase c),
       fm_qmax := take_bit 12 (fm_qmax c)\<rparr>"

lemma qdma_fmap_dec_enc: "qdma_fmap_fields (qdma_fmap_words c) c0 = qdma_fmap_stored c c0"
  by (simp add: qdma_fmap_fields_def qdma_fmap_words_def qdma_fmap_stored_def field_simps field_parts;
      (simp add: AND_GENMASK_low field_simps)?)

interpretation qdma_fmap: ctxt_codec qdma_fmap_words qdma_fmap_fields qdma_fmap_stored 2
  by unfold_locales
     (simp_all only: qdma_fmap_dec_enc, simp_all add: qdma_fmap_words_def qdma_fmap_fields_def)

section \<open>Indirect interrupt context\<close>

definition qdma_indirect_intr_words :: "qdma_indirect_intr_ctxt \<Rightarrow> u32 list" where
  "qdma_indirect_intr_words ctxt =
    (let baddr_l = (ucast (FIELD_GET QDMA_INTR_CTXT_BADDR_GET_L_MASK (it_baddr_4k ctxt)) :: u32);
         baddr_m = (ucast (FIELD_GET QDMA_INTR_CTXT_BADDR_GET_M_MASK (it_baddr_4k ctxt)) :: u32);
         baddr_h = (ucast (FIELD_GET QDMA_INTR_CTXT_BADDR_GET_H_MASK (it_baddr_4k ctxt)) :: u32) in
     [FIELD_SET QDMA_INTR_CTXT_W0_VALID_MASK (ucast (it_valid ctxt)) OR
       FIELD_SET QDMA_INTR_CTXT_W0_VEC_ID_MASK (ucast (it_vec ctxt)) OR
       FIELD_SET QDMA_INTR_CTXT_W0_INT_ST_MASK (ucast (it_int_st ctxt)) OR
       FIELD_SET QDMA_INTR_CTXT_W0_COLOR_MASK (ucast (it_color ctxt)) OR
       FIELD_SET QDMA_INTR_CTXT_W0_BADDR_64_MASK baddr_l,
      FIELD_SET QDMA_INTR_CTXT_W1_BADDR_64_MASK baddr_m,
      FIELD_SET QDMA_INTR_CTXT_W2_BADDR_64_MASK baddr_h OR
       FIELD_SET QDMA_INTR_CTXT_W2_PAGE_SIZE_MASK (ucast (it_page_size ctxt)) OR
       FIELD_SET QDMA_INTR_CTXT_W2_PIDX_MASK (ucast (it_pidx ctxt)) OR
       FIELD_SET QDMA_INTR_CTXT_W2_AT_MASK (ucast (it_at ctxt))])"

definition qdma_indirect_intr_fields :: "u32 list \<Rightarrow> qdma_indirect_intr_ctxt \<Rightarrow> qdma_indirect_intr_ctxt" where
  "qdma_indirect_intr_fields ctxt_data ctxt =
    (let baddr_l = (ucast (FIELD_GET QDMA_INTR_CTXT_W0_BADDR_64_MASK (ctxt_data ! 0)) :: 64 word);
         baddr_m = (ucast (FIELD_GET QDMA_INTR_CTXT_W1_BADDR_64_MASK (ctxt_data ! 1)) :: 64 word);
         baddr_h = (ucast (FIELD_GET QDMA_INTR_CTXT_W2_BADDR_64_MASK (ctxt_data ! 2)) :: 64 word) in
     ctxt\<lparr>it_valid := ucast (FIELD_GET QDMA_INTR_CTXT_W0_VALID_MASK (ctxt_data ! 0)),
       it_vec := ucast (FIELD_GET QDMA_INTR_CTXT_W0_VEC_ID_MASK (ctxt_data ! 0)),
       it_int_st := ucast (FIELD_GET QDMA_INTR_CTXT_W0_INT_ST_MASK (ctxt_data ! 0)),
       it_color := ucast (FIELD_GET QDMA_INTR_CTXT_W0_COLOR_MASK (ctxt_data ! 0)),
       it_page_size := ucast (FIELD_GET QDMA_INTR_CTXT_W2_PAGE_SIZE_MASK (ctxt_data ! 2)),
       it_pidx := ucast (FIELD_GET QDMA_INTR_CTXT_W2_PIDX_MASK (ctxt_data ! 2)),
       it_at := ucast (FIELD_GET QDMA_INTR_CTXT_W2_AT_MASK (ctxt_data ! 2)),
       it_baddr_4k := FIELD_SET QDMA_INTR_CTXT_BADDR_GET_L_MASK baddr_l OR
         FIELD_SET QDMA_INTR_CTXT_BADDR_GET_M_MASK baddr_m OR
         FIELD_SET QDMA_INTR_CTXT_BADDR_GET_H_MASK baddr_h\<rparr>)"

definition qdma_indirect_intr_context_write ::
  "'d mmio \<Rightarrow> 'd xdev option \<Rightarrow> u16 \<Rightarrow> qdma_indirect_intr_ctxt option \<Rightarrow> int \<times> 'd xdev option" where
  "qdma_indirect_intr_context_write io dev hw_qid ctxt =
     context_write (qdma_indirect_reg_write io) qdma_indirect_intr_words dev
       QDMA_CTXT_SEL_INT_COAL hw_qid ctxt"

definition qdma_indirect_intr_context_read ::
  "'d mmio \<Rightarrow> 'd xdev option \<Rightarrow> u16 \<Rightarrow> qdma_indirect_intr_ctxt option \<Rightarrow> int \<times> qdma_indirect_intr_ctxt option \<times> 'd xdev option" where
  "qdma_indirect_intr_context_read io dev hw_qid ctxt =
     context_read (qdma_indirect_reg_read io) 3 qdma_indirect_intr_fields dev
       QDMA_CTXT_SEL_INT_COAL hw_qid ctxt"

definition qdma_indirect_intr_context_clear ::
  "'d mmio \<Rightarrow> 'd xdev option \<Rightarrow> u16 \<Rightarrow> int \<times> 'd xdev option" where
  "qdma_indirect_intr_context_clear io dev hw_qid =
     context_cmd (qdma_indirect_reg_clear io) dev
       QDMA_CTXT_SEL_INT_COAL hw_qid"

definition qdma_indirect_intr_context_invalidate ::
  "'d mmio \<Rightarrow> 'd xdev option \<Rightarrow> u16 \<Rightarrow> int \<times> 'd xdev option" where
  "qdma_indirect_intr_context_invalidate io dev hw_qid =
     context_cmd (qdma_indirect_reg_invalidate io) dev
       QDMA_CTXT_SEL_INT_COAL hw_qid"

definition qdma_indirect_intr_ctx_conf ::
  "'d mmio \<Rightarrow> 'd xdev option \<Rightarrow> u16 \<Rightarrow> qdma_indirect_intr_ctxt option \<Rightarrow> qdma_hw_access_type \<Rightarrow>
   int \<times> qdma_indirect_intr_ctxt option \<times> 'd xdev option" where
  "qdma_indirect_intr_ctx_conf io dev hw_qid ctxt access_type =
     (case access_type of
        QDMA_HW_ACCESS_READ \<Rightarrow> qdma_indirect_intr_context_read io dev hw_qid ctxt
      | QDMA_HW_ACCESS_WRITE \<Rightarrow> keep_ctxt ctxt (qdma_indirect_intr_context_write io dev hw_qid ctxt)
      | QDMA_HW_ACCESS_CLEAR \<Rightarrow> keep_ctxt ctxt (qdma_indirect_intr_context_clear io dev hw_qid)
      | QDMA_HW_ACCESS_INVALIDATE \<Rightarrow> keep_ctxt ctxt (qdma_indirect_intr_context_invalidate io dev hw_qid)
      | _ \<Rightarrow> (neg_err QDMA_ERR_INV_PARAM, ctxt, dev))"

text \<open>What a indirect interrupt context keeps on its way through the registers.\<close>

definition qdma_indirect_intr_stored :: "qdma_indirect_intr_ctxt \<Rightarrow> qdma_indirect_intr_ctxt \<Rightarrow> qdma_indirect_intr_ctxt" where
  "qdma_indirect_intr_stored c c0 =
     c0\<lparr>it_valid := take_bit 1 (it_valid c),
       it_vec := take_bit 11 (it_vec c),
       it_int_st := take_bit 1 (it_int_st c),
       it_color := take_bit 1 (it_color c),
       it_page_size := take_bit 3 (it_page_size c),
       it_pidx := take_bit 12 (it_pidx c),
       it_at := take_bit 1 (it_at c),
       it_baddr_4k := it_baddr_4k c AND GENMASK 63 12\<rparr>"

lemma qdma_indirect_intr_dec_enc: "qdma_indirect_intr_fields (qdma_indirect_intr_words c) c0 = qdma_indirect_intr_stored c c0"
  by (simp add: qdma_indirect_intr_fields_def qdma_indirect_intr_words_def qdma_indirect_intr_stored_def field_simps field_parts;
      (simp add: AND_GENMASK_low field_simps)?)

interpretation qdma_indirect_intr: ctxt_codec qdma_indirect_intr_words qdma_indirect_intr_fields qdma_indirect_intr_stored 3
  by unfold_locales
     (simp_all only: qdma_indirect_intr_dec_enc, simp_all add: qdma_indirect_intr_words_def qdma_indirect_intr_fields_def)

section \<open>Properties\<close>

lemmas qdma_conf_simps = keep_ctxt_def
  qdma_sw_ctx_conf_def qdma_sw_context_write_def qdma_sw_context_read_def
  qdma_sw_context_clear_def qdma_sw_context_invalidate_def
  qdma_cmpt_ctx_conf_def qdma_cmpt_context_write_def qdma_cmpt_context_read_def
  qdma_hw_ctx_conf_def qdma_credit_ctx_conf_def qdma_fmap_conf_def
  qdma_fmap_write_def qdma_fmap_read_def

text \<open>The soft IP's software context: on a device that follows the register specification a
  context written by qdma_sw_ctx_conf for direction 0 or 1 is read back in its stored form, the
  fields cut to their register widths and the fields of the enhanced IP left as the caller had
  them; any other direction is refused before the device is touched.\<close>

theorem qdma_sw_write_read:
  assumes "ctxt_hardware io win mem"
  shows "\<exists>d1 d2. \<forall>k.
    qdma_sw_ctx_conf io (Some d) (of_bool h) q (Some c) QDMA_HW_ACCESS_WRITE = (0, Some c, Some d1) \<and>
    qdma_sw_ctx_conf io (Some d1) (of_bool h) q (Some c0) QDMA_HW_ACCESS_READ =
      (0, Some (qdma_sw_stored c c0), Some d2) \<and>
    qdma_sw_ctx_conf io (Some d) 2 q (Some c) k = (neg_err QDMA_ERR_INV_PARAM, Some c, Some d)"
proof -
  define sel where "sel = (if h then QDMA_CTXT_SEL_SW_C2H else QDMA_CTXT_SEL_SW_H2C)"
  obtain d1 d2 where
    "context_write (indirect_reg_write io 0x804 0x844 1) qdma_sw_words (Some d) sel q (Some c) =
       (0, Some d1)"
    "context_read (indirect_reg_read io 0x804 0x844 1) 5 qdma_sw_fields (Some d1) sel q (Some c0) =
       (0, Some (qdma_sw_stored c c0), Some d2)"
    using qdma_sw.context_write_read [OF assms, of d sel q c c0] by blast
  then show ?thesis
    by (cases h) (auto simp: qdma_conf_simps indirect_copies sel_def)
qed

theorem qdma_sw_write_read_witness:
  "\<exists>d1 d2. \<forall>k.
    qdma_sw_ctx_conf sim_io (Some sim_dev) (of_bool True) 9 (Some (sw_zeroed\<lparr>sw_qen := 1\<rparr>))
      QDMA_HW_ACCESS_WRITE = (0, Some (sw_zeroed\<lparr>sw_qen := 1\<rparr>), Some d1) \<and>
    qdma_sw_ctx_conf sim_io (Some d1) (of_bool True) 9 (Some sw_zeroed) QDMA_HW_ACCESS_READ =
      (0, Some (qdma_sw_stored (sw_zeroed\<lparr>sw_qen := 1\<rparr>) sw_zeroed), Some d2) \<and>
    qdma_sw_ctx_conf sim_io (Some sim_dev) 2 9 (Some (sw_zeroed\<lparr>sw_qen := 1\<rparr>)) k =
      (neg_err QDMA_ERR_INV_PARAM, Some (sw_zeroed\<lparr>sw_qen := 1\<rparr>), Some sim_dev)"
  by (rule qdma_sw_write_read [OF sim_hardware])

text \<open>The soft IP's completion, prefetch, function map and interrupt contexts survive
  encoding and decoding in their stored form, also when the words are padded to the register
  block; both ring addresses keep bits 12 to 63.\<close>

theorem qdma_codecs_roundtrip:
  "qdma_cmpt_fields (qdma_cmpt_words cm @ pad) cm0 = qdma_cmpt_stored cm cm0 \<and>
   qdma_pfetch_fields (qdma_pfetch_words pf @ pad) pf0 = qdma_pfetch_stored pf pf0 \<and>
   qdma_fmap_fields (qdma_fmap_words fm @ pad) fm0 = qdma_fmap_stored fm fm0 \<and>
   qdma_indirect_intr_fields (qdma_indirect_intr_words it @ pad) it0 =
     qdma_indirect_intr_stored it it0"
  using qdma_cmpt.dec_padded qdma_pfetch.dec_padded qdma_fmap.dec_padded
    qdma_indirect_intr.dec_padded by blast

text \<open>The soft IP's hardware context: every field of the structure is the bit range of the two
  data words that its mask names, fetch_pnd included.\<close>

theorem qdma_hw_fields_bits:
  "hw_cidx (qdma_hw_fields ws c) = ucast (ws ! 0) \<and>
   hw_crd_use (qdma_hw_fields ws c) = ucast (drop_bit 16 (ws ! 0)) \<and>
   hw_dsc_pend (qdma_hw_fields ws c) = of_bool (bit (ws ! 1) 8) \<and>
   hw_idl_stp_b (qdma_hw_fields ws c) = of_bool (bit (ws ! 1) 9) \<and>
   hw_evt_pnd (qdma_hw_fields ws c) = of_bool (bit (ws ! 1) 10) \<and>
   hw_fetch_pnd (qdma_hw_fields ws c) = ucast (take_bit 4 (drop_bit 11 (ws ! 1)))"
proof -
  have 1: "ucast (take_bit 16 w) = (ucast w :: u16)" for w :: u32
    by (intro bit_word_eqI) (auto simp: bit_simps)
  have 2: "ucast (take_bit 1 (drop_bit n w)) = (of_bool (bit w n) :: u8)" for n and w :: u32
    by (intro bit_word_eqI) (auto simp: bit_simps simp flip: bit_iff_odd_drop_bit)
  have "take_bit 16 (drop_bit 16 w) = drop_bit 16 w" for w :: u32
    by (intro bit_word_eqI) (auto simp: bit_simps dest: bit_imp_le_length)
  with 1 2 show ?thesis
    by (simp add: qdma_hw_fields_def BIT_GENMASK FIELD_GET_GENMASK del: take_bit_of_1)
qed

end
