(* ===== verification/AccessTable.thy ===== *)
theory AccessTable
  imports EqdmaCtxt SoftCtxt Cpm5Ctxt RegList
begin

text \<open>
  The table of access functions, struct qdma_hw_access, with the members that the mailbox
  protocol calls through it, and its contents after qdma_hw_access_init for the soft IP, the
  enhanced soft IP and CPM5. The initialisation fills the table with the soft IP functions and
  replaces some for the other variants; the CSR configuration is never replaced, so every
  variant keeps the one of the soft IP.
  The locale context_table states what the clients of the table rely on: each context function
  works on the contexts of the queue it is given and of no other.
\<close>

record 'd qdma_hw_access =
  ha_fmap_conf :: "'d xdev option \<Rightarrow> u16 \<Rightarrow> qdma_fmap_cfg option \<Rightarrow> qdma_hw_access_type \<Rightarrow>
    int \<times> qdma_fmap_cfg option \<times> 'd xdev option"
  ha_sw_ctx_conf :: "'d xdev option \<Rightarrow> u8 \<Rightarrow> u16 \<Rightarrow> qdma_descq_sw_ctxt option \<Rightarrow> qdma_hw_access_type \<Rightarrow>
    int \<times> qdma_descq_sw_ctxt option \<times> 'd xdev option"
  ha_pfetch_ctx_conf :: "'d xdev option \<Rightarrow> u16 \<Rightarrow> qdma_descq_prefetch_ctxt option \<Rightarrow> qdma_hw_access_type \<Rightarrow>
    int \<times> qdma_descq_prefetch_ctxt option \<times> 'd xdev option"
  ha_cmpt_ctx_conf :: "'d xdev option \<Rightarrow> u16 \<Rightarrow> qdma_descq_cmpt_ctxt option \<Rightarrow> qdma_hw_access_type \<Rightarrow>
    int \<times> qdma_descq_cmpt_ctxt option \<times> 'd xdev option"
  ha_hw_ctx_conf :: "'d xdev option \<Rightarrow> u8 \<Rightarrow> u16 \<Rightarrow> qdma_descq_hw_ctxt option \<Rightarrow> qdma_hw_access_type \<Rightarrow>
    int \<times> qdma_descq_hw_ctxt option \<times> 'd xdev option"
  ha_credit_ctx_conf :: "'d xdev option \<Rightarrow> u8 \<Rightarrow> u16 \<Rightarrow> qdma_descq_credit_ctxt option \<Rightarrow> qdma_hw_access_type \<Rightarrow>
    int \<times> qdma_descq_credit_ctxt option \<times> 'd xdev option"
  ha_indirect_intr_ctx_conf :: "'d xdev option \<Rightarrow> u16 \<Rightarrow> qdma_indirect_intr_ctxt option \<Rightarrow> qdma_hw_access_type \<Rightarrow>
    int \<times> qdma_indirect_intr_ctxt option \<times> 'd xdev option"
  ha_global_csr_conf :: "'d xdev option \<Rightarrow> u8 \<Rightarrow> u8 \<Rightarrow> u32 list option \<Rightarrow> qdma_global_csr_type \<Rightarrow>
    qdma_hw_access_type \<Rightarrow> int \<times> u32 list option \<times> 'd xdev option"
  ha_get_device_attributes :: "'d xdev option \<Rightarrow> qdma_dev_attributes option \<Rightarrow>
    int \<times> qdma_dev_attributes option \<times> 'd xdev option"
  ha_read_reg_list :: "'d xdev option \<Rightarrow> u8 \<Rightarrow> u16 \<Rightarrow> u16 \<Rightarrow> (u32 \<times> u32) list option \<Rightarrow>
    int \<times> u16 \<times> (u32 \<times> u32) list option \<times> 'd xdev option"
  ha_mbox_base_vf :: u32
  ha_mbox_base_pf :: u32

definition soft_hw_access :: "'d mmio \<Rightarrow> 'd qdma_hw_access" where
  "soft_hw_access io =
     \<lparr>ha_fmap_conf = qdma_fmap_conf io,
      ha_sw_ctx_conf = qdma_sw_ctx_conf io,
      ha_pfetch_ctx_conf = qdma_pfetch_ctx_conf io,
      ha_cmpt_ctx_conf = qdma_cmpt_ctx_conf io,
      ha_hw_ctx_conf = qdma_hw_ctx_conf io,
      ha_credit_ctx_conf = qdma_credit_ctx_conf io,
      ha_indirect_intr_ctx_conf = qdma_indirect_intr_ctx_conf io,
      ha_global_csr_conf = qdma_global_csr_conf io,
      ha_get_device_attributes = qdma_get_device_attributes io,
      ha_read_reg_list = qdma_read_reg_list io,
      ha_mbox_base_vf = 0x1000,
      ha_mbox_base_pf = 0x2400\<rparr>"

definition eqdma_hw_access :: "'d mmio \<Rightarrow> 'd qdma_hw_access" where
  "eqdma_hw_access io = (soft_hw_access io)
     \<lparr>ha_sw_ctx_conf := eqdma_sw_ctx_conf io,
      ha_fmap_conf := eqdma_fmap_conf io,
      ha_pfetch_ctx_conf := eqdma_pfetch_ctx_conf io,
      ha_cmpt_ctx_conf := eqdma_cmpt_ctx_conf io,
      ha_indirect_intr_ctx_conf := eqdma_indirect_intr_ctx_conf io,
      ha_hw_ctx_conf := eqdma_hw_ctx_conf io,
      ha_credit_ctx_conf := eqdma_credit_ctx_conf io,
      ha_get_device_attributes := eqdma_get_device_attributes io,
      ha_read_reg_list := eqdma_read_reg_list io,
      ha_mbox_base_vf := 0x5000,
      ha_mbox_base_pf := 0x22400\<rparr>"

text \<open>The mailbox bases of CPM5 without the build option for more than 256 queues.\<close>

definition cpm5_hw_access :: "'d mmio \<Rightarrow> 'd qdma_hw_access" where
  "cpm5_hw_access io = (soft_hw_access io)
     \<lparr>ha_sw_ctx_conf := eqdma_cpm5_sw_ctx_conf io,
      ha_fmap_conf := eqdma_cpm5_fmap_conf io,
      ha_pfetch_ctx_conf := eqdma_cpm5_pfetch_ctx_conf io,
      ha_cmpt_ctx_conf := eqdma_cpm5_cmpt_ctx_conf io,
      ha_indirect_intr_ctx_conf := eqdma_cpm5_indirect_intr_ctx_conf io,
      ha_hw_ctx_conf := eqdma_cpm5_hw_ctx_conf io,
      ha_credit_ctx_conf := eqdma_cpm5_credit_ctx_conf io,
      ha_get_device_attributes := eqdma_cpm5_get_device_attributes io,
      ha_read_reg_list := eqdma_cpm5_read_reg_list io,
      ha_mbox_base_vf := 0x5000,
      ha_mbox_base_pf := 0x42400\<rparr>"

section \<open>Working on the contexts of one queue\<close>

text \<open>
  The rest of the register specification that matters here: reading a register other than
  the command register leaves the contexts alone, and when the wait for an invalidation has
  ended no context but the addressed one has changed.
\<close>

definition contexts_kept :: "'d mmio \<Rightarrow> ('d \<Rightarrow> ctxt_memory) \<Rightarrow> bool" where
  "contexts_kept io mem \<longleftrightarrow>
     (\<forall>r a. a \<noteq> 0x844 \<longrightarrow> mem (snd (readl io r a)) = mem r) \<and>
     (\<forall>d cmd k. cmd_op_bits cmd = 3 \<longrightarrow> k \<noteq> cmd_key cmd \<longrightarrow>
        mem (xregs (snd (hw_monitor_reg io (qdma_reg_write io d 0x844 cmd) 0x844 1 0
          QDMA_REG_POLL_DFLT_INTERVAL_US QDMA_REG_POLL_DFLT_TIMEOUT_US))) k = mem (xregs d) k)"

definition ctxt_key :: "ind_ctxt_cmd_sel \<Rightarrow> u16 \<Rightarrow> u32" where
  "ctxt_key sel q = cmd_key (ind_ctxt_cmd_word QDMA_CTXT_CMD_RD sel q)"

lemma ctxt_key_eq_iff: "ctxt_key s q = ctxt_key s' q' \<longleftrightarrow> s = s' \<and> take_bit 12 q = take_bit 12 q'"
  by (simp add: ctxt_key_def cmd_key_eq_iff)

text \<open>A device whose contexts differ at most at the given selectors of the given queue.\<close>

definition touches ::
  "('d \<Rightarrow> ctxt_memory) \<Rightarrow> ind_ctxt_cmd_sel set \<Rightarrow> u16 \<Rightarrow> 'd xdev \<Rightarrow> 'd xdev option \<Rightarrow> bool" where
  "touches mem S q d dev' \<longleftrightarrow>
     (\<exists>d'. dev' = Some d' \<and> (\<forall>k. k \<notin> (\<lambda>s. ctxt_key s q) ` S \<longrightarrow> mem (xregs d') k = mem (xregs d) k))"

lemma touches_refl [simp]: "touches mem S q d (Some d)"
  by (simp add: touches_def)

lemma touches_mono: "touches mem S q d dev' \<Longrightarrow> S \<subseteq> T \<Longrightarrow> touches mem T q d dev'"
  unfolding touches_def by blast

lemma touches_write:
  assumes "ctxt_hardware io win mem" and "sel \<in> S"
  shows "touches mem S q d (snd (context_write (indirect_reg_write io 0x804 0x844 1) enc (Some d) sel q c))"
proof (cases c)
  case (Some c')
  obtain d' where "indirect_reg_write io 0x804 0x844 1 d sel q (enc c') = (0, d')"
    "mem (xregs d') = (mem (xregs d))(ctxt_key sel q := ctxt_pad (enc c'))"
    using indirect_write_effect [OF assms(1), of d sel q "enc c'"] unfolding ctxt_key_def by blast
  then show ?thesis using Some assms(2) by (auto simp: context_write_def touches_def)
qed simp

lemma touches_read:
  assumes "ctxt_hardware io win mem" and "n \<le> 8"
  shows "touches mem S q d (snd (snd (context_read (indirect_reg_read io 0x804 0x844 1) n dec (Some d) sel q c)))"
proof (cases c)
  case (Some c')
  obtain d' ws where "indirect_reg_read io 0x804 0x844 1 d sel q n = (0, ws, d')"
    "mem (xregs d') = mem (xregs d)"
    using indirect_read_effect [OF assms, of d sel q] by blast
  then show ?thesis using Some by (auto simp: context_read_def touches_def)
qed simp

lemma touches_clear:
  assumes "ctxt_hardware io win mem" and "sel \<in> S"
  shows "touches mem S q d (snd (context_cmd (indirect_reg_cmd io 0x844 1 QDMA_CTXT_CMD_CLR) (Some d) sel q))"
proof -
  obtain d' where "indirect_reg_cmd io 0x844 1 QDMA_CTXT_CMD_CLR d sel q = (0, d')"
    "mem (xregs d') = (mem (xregs d))(ctxt_key sel q := replicate 8 0)"
    using indirect_clear_effect [OF assms(1), of d sel q] unfolding ctxt_key_def by blast
  then show ?thesis using assms(2) by (auto simp: context_cmd_def touches_def)
qed

lemma touches_invalidate:
  assumes "contexts_kept io mem" and "sel \<in> S"
  shows "touches mem S q d (snd (context_cmd (indirect_reg_cmd io 0x844 1 QDMA_CTXT_CMD_INV) (Some d) sel q))"
proof -
  let ?cmd = "ind_ctxt_cmd_word QDMA_CTXT_CMD_INV sel q"
  obtain rv d' where m: "hw_monitor_reg io (qdma_reg_write io (qdma_reg_access_lock d) 0x844 ?cmd) 0x844 1 0
      QDMA_REG_POLL_DFLT_INTERVAL_US QDMA_REG_POLL_DFLT_TIMEOUT_US = (rv, d')" by fastforce
  have "cmd_op_bits ?cmd = 3" "cmd_key ?cmd = ctxt_key sel q"
    by (simp_all add: ctxt_key_def cmd_key_eq_iff)
  then have "mem (xregs d') k = mem (xregs d) k" if "k \<noteq> ctxt_key sel q" for k
    using assms(1) that m unfolding contexts_kept_def by (metis snd_conv xregs_lock(1))
  then show ?thesis
    using m assms(2) by (auto simp: context_cmd_def indirect_reg_cmd_def Let_def touches_def)
qed

lemma keep_ctxt_dev [simp]: "snd (snd (keep_ctxt c r)) = snd r"
  by (simp add: keep_ctxt_def split_beta)

lemmas touches_intros = touches_write touches_read touches_clear touches_invalidate

section \<open>Functions that touch no context\<close>

definition same_contexts :: "('d \<Rightarrow> ctxt_memory) \<Rightarrow> 'd xdev \<Rightarrow> 'd xdev \<Rightarrow> bool" where
  "same_contexts mem d d' \<longleftrightarrow> mem (xregs d') = mem (xregs d)"

lemma same_contexts_simps [simp]: "same_contexts mem d d"
  by (simp add: same_contexts_def)

lemma same_contexts_trans:
  "same_contexts mem d d' \<Longrightarrow> same_contexts mem d' d'' \<Longrightarrow> same_contexts mem d d''"
  by (simp add: same_contexts_def)

lemma same_contexts_touches: "same_contexts mem d d' \<Longrightarrow> touches mem S q d (Some d')"
  by (simp add: same_contexts_def touches_def)

lemma same_contexts_read:
  "contexts_kept io mem \<Longrightarrow> a \<noteq> 0x844 \<Longrightarrow> same_contexts mem d (snd (qdma_reg_read io d a))"
  by (simp add: contexts_kept_def same_contexts_def qdma_reg_read_def split_beta)

lemma same_contexts_fold:
  assumes "\<And>x st. x \<in> set xs \<Longrightarrow> same_contexts mem (snd st) (snd (f x st))"
  shows "same_contexts mem (snd st) (snd (fold f xs st))"
  using assms
proof (induction xs arbitrary: st)
  case (Cons x xs)
  have "same_contexts mem (snd st) (snd (f x st))" using Cons.prems by simp
  moreover have "same_contexts mem (snd (f x st)) (snd (fold f xs (f x st)))"
    using Cons.prems by (intro Cons.IH) simp
  ultimately show ?case using same_contexts_trans by simp
qed simp

lemma same_contexts_attributes:
  assumes "contexts_kept io mem"
  shows "\<exists>d'. get_attributes att io (Some d) (Some a) =
      (0, Some (att (fst (read_capabilities io d))), Some d') \<and> same_contexts mem d d'"
proof -
  define s1 where "s1 = snd (qdma_reg_read io d 0x104)"
  define s2 where "s2 = snd (qdma_reg_read io s1 0x120)"
  define s3 where "s3 = snd (qdma_reg_read io s2 0x134)"
  define s4 where "s4 = snd (qdma_reg_read io s3 0x118)"
  have "same_contexts mem d s1" "same_contexts mem s1 s2" "same_contexts mem s2 s3" "same_contexts mem s3 s4"
    unfolding s1_def s2_def s3_def s4_def by (simp_all add: same_contexts_read [OF assms])
  then have "same_contexts mem d s4" by (meson same_contexts_trans)
  moreover have "snd (read_capabilities io d) = s4"
    by (simp add: read_capabilities_def split_beta s1_def s2_def s3_def s4_def)
  ultimately show ?thesis by (auto simp: get_attributes_def split_beta)
qed

lemma same_contexts_check:
  assumes "contexts_kept io mem"
  shows "same_contexts mem d (snd (csr_check att io t d))"
  using same_contexts_attributes [OF assms, of att d da_zeroed]
  by (auto simp: csr_check_def csr_always_def csr_feature_def)

lemma csr_addr_not_cmd: "j < 16 \<Longrightarrow> csr_addr t j \<noteq> 0x844"
  using csr_addr_register [of j t] unat_csr_addr [of j t]
  by (cases t) (auto simp: csr_register_def csr_base_nat_simps)

lemma same_contexts_csr_read:
  assumes kept: "contexts_kept io mem" and t: "t \<noteq> QDMA_CSR_MAX"
  shows "\<exists>d'. snd (snd (csr_read (csr_check att io t) io (csr_base t) (Some d) i n vs)) = Some d' \<and>
    same_contexts mem d d'"
proof (cases "vs = None \<or> n = 0 \<or> 16 < unat i + unat n")
  case True
  then show ?thesis by (auto simp: csr_read_def QDMA_GLOBAL_CSR_ARRAY_SZ_def split: option.split)
next
  case False
  obtain e d1 where c: "csr_check att io t d = (e, d1)" "same_contexts mem d d1"
    using same_contexts_check [OF kept, of d att t] by (cases "csr_check att io t d") auto
  have "csr_base t + ucast i * 4 + of_nat j * 4 \<noteq> 0x844" if "j < unat n" for j
    using that False csr_addr_not_cmd [of "unat i + j" t]
    by (simp add: csr_addr_def of_nat_unat_u8 distrib_right add.assoc)
  then have "same_contexts mem d1 (snd (qdma_read_csr_values io d1 (csr_base t) (ucast i) (ucast n)))"
    unfolding qdma_read_csr_values_def csr_index
    by (intro same_contexts_fold [where st = "([], d1)", simplified])
       (auto simp: split_beta csr_index intro!: same_contexts_read [OF kept])
  then show ?thesis
    using c False same_contexts_trans [OF c(2)]
    by (auto simp: csr_read_def QDMA_GLOBAL_CSR_ARRAY_SZ_def split_beta split: option.split)
qed

text \<open>The register file of the witnesses is of this kind.\<close>

lemma sim_contexts_kept: "contexts_kept sim_io snd"
proof -
  have "xregs (snd (hw_monitor_reg sim_io d 0x844 1 0 iv tmo)) = xregs d" for d iv tmo
    by (simp add: hw_monitor_reg_def hw_monitor_loop_unfold poll_hit_def qdma_reg_read_def Let_def)
  then show ?thesis
    by (auto simp: contexts_kept_def qdma_reg_write_def sim_cmd_def split_beta)
qed

lemmas hw_access_defs = soft_hw_access_def eqdma_hw_access_def cpm5_hw_access_def

definition vf_safe :: "xreg_info \<Rightarrow> bool" where
  "vf_safe e \<longleftrightarrow> xr_read_type e \<noteq> QDMA_REG_READ_PF_ONLY \<longrightarrow> list_all (\<lambda>a. a \<noteq> 0x844) (entry_addresses e)"

lemma same_contexts_entries:
  assumes kept: "contexts_kept io mem" and safe: "list_all vf_safe entries"
  shows "same_contexts mem d (snd (read_entries io cb cap entries d))"
  unfolding read_entries_def
proof (rule same_contexts_fold [where st = "([], d)", simplified], clarsimp)
  fix e regs d'
  assume e: "e \<in> set entries" and v: "vf_may_read cb cap e"
  then have "\<forall>a\<in>set (entry_addresses e). a \<noteq> 0x844"
    using safe by (auto simp: list_all_iff vf_safe_def vf_may_read_def)
  then show "same_contexts mem d' (snd (read_entry io e (regs, d')))"
    unfolding read_entry_fold
    by (intro same_contexts_fold [where st = "(regs, d')", simplified])
       (auto simp: split_beta Let_def intro!: same_contexts_read [OF kept])
qed

lemma same_contexts_reg_list:
  assumes kept: "contexts_kept io mem" and safe: "list_all vf_safe regs"
  shows "\<exists>d'. snd (snd (snd (read_reg_list att cb from_index groups regs io (Some d) is_vf g n l))) = Some d' \<and>
    same_contexts mem d d'"
proof (cases "is_vf = 0 \<or> l = None")
  case True
  then show ?thesis by (auto simp: read_reg_list_def split: option.split)
next
  case False
  obtain cap d1 where a: "get_attributes att io (Some d) (Some da_zeroed) = (0, Some cap, Some d1)"
    "same_contexts mem d d1"
    using same_contexts_attributes [OF kept, of att d da_zeroed] by auto
  have "list_all vf_safe (from_index i regs)" for i
    using safe by (auto simp: list_all_iff from_index_def dest!: in_set_dropD in_set_butlastD)
  note same_contexts_entries [OF kept this, of d1 cb cap]
  then show ?thesis
    using a False same_contexts_trans [OF a(2)]
    by (auto simp: read_reg_list_def split_beta split: option.split)
qed

lemma tables_safe:
  "list_all vf_safe qdma_config_regs" "list_all vf_safe eqdma_config_regs"
  "list_all vf_safe eqdma_cpm5_config_regs"
  by code_simp+

section \<open>The contract of the table\<close>

text \<open>A read changes no context.\<close>

definition changed :: "qdma_hw_access_type \<Rightarrow> ind_ctxt_cmd_sel set \<Rightarrow> ind_ctxt_cmd_sel set" where
  "changed access S = (if access = QDMA_HW_ACCESS_READ then {} else S)"

lemma changed_simps [simp]:
  "changed QDMA_HW_ACCESS_READ S = {}" "changed QDMA_HW_ACCESS_WRITE S = S"
  "changed QDMA_HW_ACCESS_CLEAR S = S" "changed QDMA_HW_ACCESS_INVALIDATE S = S"
  by (simp_all add: changed_def)

locale context_table =
  fixes tab :: "'d mmio \<Rightarrow> 'd qdma_hw_access"
  assumes fmap: "ctxt_hardware io win mem \<Longrightarrow> contexts_kept io mem \<Longrightarrow>
      touches mem (changed a {QDMA_CTXT_SEL_FMAP}) q d (snd (snd (ha_fmap_conf (tab io) (Some d) q cf a)))"
    and sw: "ctxt_hardware io win mem \<Longrightarrow> contexts_kept io mem \<Longrightarrow>
      touches mem (changed a {QDMA_CTXT_SEL_SW_C2H, QDMA_CTXT_SEL_SW_H2C}) q d
        (snd (snd (ha_sw_ctx_conf (tab io) (Some d) c2h q cs a)))"
    and hw: "ctxt_hardware io win mem \<Longrightarrow> contexts_kept io mem \<Longrightarrow>
      touches mem (changed a {QDMA_CTXT_SEL_HW_C2H, QDMA_CTXT_SEL_HW_H2C}) q d
        (snd (snd (ha_hw_ctx_conf (tab io) (Some d) c2h q ch a)))"
    and credit: "ctxt_hardware io win mem \<Longrightarrow> contexts_kept io mem \<Longrightarrow>
      touches mem (changed a {QDMA_CTXT_SEL_CR_C2H, QDMA_CTXT_SEL_CR_H2C}) q d
        (snd (snd (ha_credit_ctx_conf (tab io) (Some d) c2h q cc a)))"
    and pfetch: "ctxt_hardware io win mem \<Longrightarrow> contexts_kept io mem \<Longrightarrow>
      touches mem (changed a {QDMA_CTXT_SEL_PFTCH}) q d (snd (snd (ha_pfetch_ctx_conf (tab io) (Some d) q cp a)))"
    and cmpt: "ctxt_hardware io win mem \<Longrightarrow> contexts_kept io mem \<Longrightarrow>
      touches mem (changed a {QDMA_CTXT_SEL_CMPT}) q d (snd (snd (ha_cmpt_ctx_conf (tab io) (Some d) q cm a)))"
    and intr: "ctxt_hardware io win mem \<Longrightarrow> contexts_kept io mem \<Longrightarrow>
      touches mem (changed a {QDMA_CTXT_SEL_INT_COAL}) q d
        (snd (snd (ha_indirect_intr_ctx_conf (tab io) (Some d) q ci a)))"
    and csr: "contexts_kept io mem \<Longrightarrow>
      touches mem {} q d (snd (snd (ha_global_csr_conf (tab io) (Some d) i n vs t QDMA_HW_ACCESS_READ)))"
    and attributes: "contexts_kept io mem \<Longrightarrow>
      touches mem {} q d (snd (snd (ha_get_device_attributes (tab io) (Some d) att)))"
    and reg_list: "contexts_kept io mem \<Longrightarrow>
      touches mem {} q d (snd (snd (snd (ha_read_reg_list (tab io) (Some d) v g m l))))"

lemma csr_touches:
  assumes "contexts_kept io mem"
  shows "touches mem {} q d (snd (snd (qdma_global_csr_conf io (Some d) i n vs t QDMA_HW_ACCESS_READ)))"
proof (cases "t = QDMA_CSR_MAX")
  case False
  then show ?thesis
    using same_contexts_csr_read [where att = qdma_attributes, OF assms False, where d = d and i = i and n = n and vs = vs]
    by (auto simp: qdma_csr.conf_read intro: same_contexts_touches)
qed (simp add: qdma_csr.conf_refused)

lemma attributes_touches:
  assumes "contexts_kept io mem"
  shows "touches mem {} q d (snd (snd (get_attributes att io (Some d) a)))"
  using same_contexts_attributes [OF assms, of att d]
  by (cases a) (auto simp: get_attributes_def split_beta intro!: same_contexts_touches)

lemma reg_list_touches:
  assumes "contexts_kept io mem" and "list_all vf_safe regs"
  shows "touches mem {} q d (snd (snd (snd (read_reg_list att cb from_index groups regs io (Some d) v g m l))))"
  using same_contexts_reg_list [where att = att and cb = cb and groups = groups and d = d and is_vf = v
      and g = g and n = m and l = l, OF assms]
  by (auto intro: same_contexts_touches)

lemmas soft_context_functions =
  qdma_sw_ctx_conf_def qdma_sw_context_write_def qdma_sw_context_read_def
  qdma_sw_context_clear_def qdma_sw_context_invalidate_def qdma_pfetch_ctx_conf_def
  qdma_pfetch_context_write_def qdma_pfetch_context_read_def qdma_pfetch_context_clear_def
  qdma_pfetch_context_invalidate_def qdma_cmpt_ctx_conf_def qdma_cmpt_context_write_def
  qdma_cmpt_context_read_def qdma_cmpt_context_clear_def qdma_cmpt_context_invalidate_def
  qdma_hw_ctx_conf_def qdma_hw_context_read_def qdma_hw_context_clear_def
  qdma_hw_context_invalidate_def qdma_credit_ctx_conf_def qdma_credit_context_read_def
  qdma_credit_context_clear_def qdma_credit_context_invalidate_def qdma_fmap_conf_def
  qdma_fmap_write_def qdma_fmap_read_def qdma_fmap_clear_def
  qdma_indirect_intr_ctx_conf_def qdma_indirect_intr_context_write_def qdma_indirect_intr_context_read_def
  qdma_indirect_intr_context_clear_def qdma_indirect_intr_context_invalidate_def

interpretation soft_table: context_table soft_hw_access
proof (unfold_locales, goal_cases)
  case 8 then show ?case by (simp add: hw_access_defs csr_touches)
next
  case 9 then show ?case
    by (simp add: hw_access_defs qdma_get_device_attributes_def attributes_touches)
next
  case 10 then show ?case
    by (simp add: hw_access_defs qdma_read_reg_list_def reg_list_touches tables_safe)
qed (simp add: hw_access_defs soft_context_functions touches_intros indirect_copies
      split: qdma_hw_access_type.split option.split)+

lemmas eqdma_context_functions =
  eqdma_sw_ctx_conf_def eqdma_sw_context_write_def eqdma_sw_context_read_def
  eqdma_sw_context_clear_def eqdma_sw_context_invalidate_def eqdma_pfetch_ctx_conf_def
  eqdma_pfetch_context_write_def eqdma_pfetch_context_read_def eqdma_pfetch_context_clear_def
  eqdma_pfetch_context_invalidate_def eqdma_cmpt_ctx_conf_def eqdma_cmpt_context_write_def
  eqdma_cmpt_context_read_def eqdma_cmpt_context_clear_def eqdma_cmpt_context_invalidate_def
  eqdma_hw_ctx_conf_def eqdma_hw_context_read_def eqdma_hw_context_clear_def
  eqdma_hw_context_invalidate_def eqdma_credit_ctx_conf_def eqdma_credit_context_read_def
  eqdma_credit_context_clear_def eqdma_credit_context_invalidate_def eqdma_fmap_conf_def
  eqdma_fmap_context_write_def eqdma_fmap_context_read_def eqdma_fmap_context_clear_def
  eqdma_indirect_intr_ctx_conf_def eqdma_indirect_intr_context_write_def eqdma_indirect_intr_context_read_def
  eqdma_indirect_intr_context_clear_def eqdma_indirect_intr_context_invalidate_def

interpretation eqdma_table: context_table eqdma_hw_access
proof (unfold_locales, goal_cases)
  case 8 then show ?case by (simp add: hw_access_defs csr_touches)
next
  case 9 then show ?case
    by (simp add: hw_access_defs eqdma_get_device_attributes_def attributes_touches)
next
  case 10 then show ?case
    by (simp add: hw_access_defs eqdma_read_reg_list_def reg_list_touches tables_safe)
qed (simp add: hw_access_defs eqdma_context_functions touches_intros indirect_copies
      split: qdma_hw_access_type.split option.split)+

lemmas cpm5_context_functions =
  eqdma_cpm5_sw_ctx_conf_def eqdma_cpm5_sw_context_write_def eqdma_cpm5_sw_context_read_def
  eqdma_cpm5_sw_context_clear_def eqdma_cpm5_sw_context_invalidate_def eqdma_cpm5_pfetch_ctx_conf_def
  eqdma_cpm5_pfetch_context_write_def eqdma_cpm5_pfetch_context_read_def eqdma_cpm5_pfetch_context_clear_def
  eqdma_cpm5_pfetch_context_invalidate_def eqdma_cpm5_cmpt_ctx_conf_def eqdma_cpm5_cmpt_context_write_def
  eqdma_cpm5_cmpt_context_read_def eqdma_cpm5_cmpt_context_clear_def eqdma_cpm5_cmpt_context_invalidate_def
  eqdma_cpm5_hw_ctx_conf_def eqdma_cpm5_hw_context_read_def eqdma_cpm5_hw_context_clear_def
  eqdma_cpm5_hw_context_invalidate_def eqdma_cpm5_credit_ctx_conf_def eqdma_cpm5_credit_context_read_def
  eqdma_cpm5_credit_context_clear_def eqdma_cpm5_credit_context_invalidate_def eqdma_cpm5_fmap_conf_def
  eqdma_cpm5_fmap_context_write_def eqdma_cpm5_fmap_context_read_def eqdma_cpm5_fmap_context_clear_def
  eqdma_cpm5_indirect_intr_ctx_conf_def eqdma_cpm5_indirect_intr_context_write_def eqdma_cpm5_indirect_intr_context_read_def
  eqdma_cpm5_indirect_intr_context_clear_def eqdma_cpm5_indirect_intr_context_invalidate_def

interpretation cpm5_table: context_table cpm5_hw_access
proof (unfold_locales, goal_cases)
  case 8 then show ?case by (simp add: hw_access_defs csr_touches)
next
  case 9 then show ?case
    by (simp add: hw_access_defs eqdma_cpm5_get_device_attributes_def attributes_touches)
next
  case 10 then show ?case
    by (simp add: hw_access_defs eqdma_cpm5_read_reg_list_def reg_list_touches tables_safe)
qed (simp add: hw_access_defs cpm5_context_functions touches_intros indirect_copies
      split: qdma_hw_access_type.split option.split)+

end
