(* ===== verification/Cpm4Indirect.thy ===== *)
theory Cpm4Indirect
  imports IndirectCtxt
begin

text \<open>
  The indirect context registers of the CPM4 hard IP, qdma_cpm4_access.c: four data and four
  mask registers from 0x804 on, the command register at 0x824 and a queue field of eleven bits
  in the command word. The four register sequences, the device they are written for, and what
  they do there. A codec that fits the four registers extends the interface ctxt_codec.
\<close>

section \<open>The command word\<close>

text \<open>union qdma_cpm4_ind_ctxt_cmd: busy 1, sel 4, op 2, qid 11 bits, from bit 0 on.\<close>

definition qdma_cpm4_ind_ctxt_cmd :: "ind_ctxt_cmd_op \<Rightarrow> ind_ctxt_cmd_sel \<Rightarrow> u16 \<Rightarrow> u32" where
  "qdma_cpm4_ind_ctxt_cmd op sel hw_qid =
     push_bit 7 (take_bit 11 (ucast hw_qid)) OR
     push_bit 5 (take_bit 2 (cmd_op_code op)) OR
     push_bit 1 (take_bit 4 (cmd_sel_code sel))"

lemma cpm4_cmd_word:
  "qdma_cpm4_ind_ctxt_cmd op sel q = ind_ctxt_cmd_word op sel (take_bit 11 q)"
proof -
  have "take_bit 11 (ucast q :: u32) = take_bit 12 (ucast (take_bit 11 q))"
    by (rule bit_word_eqI) (auto simp: bit_simps)
  then show ?thesis by (simp only: qdma_cpm4_ind_ctxt_cmd_def ind_ctxt_cmd_word_def)
qed

section \<open>Sequences\<close>

definition QDMA_CPM4_IND_CTXT_DATA_NUM_REGS :: nat where
  "QDMA_CPM4_IND_CTXT_DATA_NUM_REGS = 4"

abbreviation QDMA_CPM4_IND_CTXT_DATA_3_ADDR :: u32 where "QDMA_CPM4_IND_CTXT_DATA_3_ADDR \<equiv> 0x804"
abbreviation QDMA_CPM4_IND_CTXT_CMD_ADDR :: u32 where "QDMA_CPM4_IND_CTXT_CMD_ADDR \<equiv> 0x824"
abbreviation IND_CTXT_CMD_BUSY_MASK :: u32 where "IND_CTXT_CMD_BUSY_MASK \<equiv> BIT 0"

definition qdma_cpm4_indirect_reg_invalidate ::
  "'d mmio \<Rightarrow> 'd xdev \<Rightarrow> ind_ctxt_cmd_sel \<Rightarrow> u16 \<Rightarrow> int \<times> 'd xdev" where
  "qdma_cpm4_indirect_reg_invalidate io dev sel hw_qid =
     (let d = qdma_reg_access_lock dev;
          d = qdma_reg_write io d QDMA_CPM4_IND_CTXT_CMD_ADDR
            (qdma_cpm4_ind_ctxt_cmd QDMA_CTXT_CMD_INV sel hw_qid);
          (rv, d) = hw_monitor_reg io d QDMA_CPM4_IND_CTXT_CMD_ADDR IND_CTXT_CMD_BUSY_MASK 0
            QDMA_REG_POLL_DFLT_INTERVAL_US QDMA_REG_POLL_DFLT_TIMEOUT_US
      in if rv \<noteq> 0 then (neg_err QDMA_ERR_HWACC_BUSY_TIMEOUT, qdma_reg_access_release d)
         else (err_code QDMA_SUCCESS, qdma_reg_access_release d))"

definition qdma_cpm4_indirect_reg_clear ::
  "'d mmio \<Rightarrow> 'd xdev \<Rightarrow> ind_ctxt_cmd_sel \<Rightarrow> u16 \<Rightarrow> int \<times> 'd xdev" where
  "qdma_cpm4_indirect_reg_clear io dev sel hw_qid =
     (let d = qdma_reg_access_lock dev;
          d = qdma_reg_write io d QDMA_CPM4_IND_CTXT_CMD_ADDR
            (qdma_cpm4_ind_ctxt_cmd QDMA_CTXT_CMD_CLR sel hw_qid);
          (rv, d) = hw_monitor_reg io d QDMA_CPM4_IND_CTXT_CMD_ADDR IND_CTXT_CMD_BUSY_MASK 0
            QDMA_REG_POLL_DFLT_INTERVAL_US QDMA_REG_POLL_DFLT_TIMEOUT_US
      in if rv \<noteq> 0 then (neg_err QDMA_ERR_HWACC_BUSY_TIMEOUT, qdma_reg_access_release d)
         else (err_code QDMA_SUCCESS, qdma_reg_access_release d))"

definition qdma_cpm4_indirect_reg_read ::
  "'d mmio \<Rightarrow> 'd xdev \<Rightarrow> ind_ctxt_cmd_sel \<Rightarrow> u16 \<Rightarrow> nat \<Rightarrow> int \<times> u32 list \<times> 'd xdev" where
  "qdma_cpm4_indirect_reg_read io dev sel hw_qid cnt =
     (let d = qdma_reg_access_lock dev;
          d = qdma_reg_write io d QDMA_CPM4_IND_CTXT_CMD_ADDR
            (qdma_cpm4_ind_ctxt_cmd QDMA_CTXT_CMD_RD sel hw_qid);
          (rv, d) = hw_monitor_reg io d QDMA_CPM4_IND_CTXT_CMD_ADDR IND_CTXT_CMD_BUSY_MASK 0
            QDMA_REG_POLL_DFLT_INTERVAL_US QDMA_REG_POLL_DFLT_TIMEOUT_US
      in if rv \<noteq> 0 then (neg_err QDMA_ERR_HWACC_BUSY_TIMEOUT, [], qdma_reg_access_release d)
         else let (data, d) = reg_read_block io d QDMA_CPM4_IND_CTXT_DATA_3_ADDR cnt
              in (err_code QDMA_SUCCESS, data, qdma_reg_access_release d))"

definition qdma_cpm4_indirect_reg_write ::
  "'d mmio \<Rightarrow> 'd xdev \<Rightarrow> ind_ctxt_cmd_sel \<Rightarrow> u16 \<Rightarrow> u32 list \<Rightarrow> int \<times> 'd xdev" where
  "qdma_cpm4_indirect_reg_write io dev sel hw_qid data =
     (let d = qdma_reg_access_lock dev;
          ctxt_data = map (\<lambda>index. if index < length data then data ! index else 0)
            [0..<QDMA_CPM4_IND_CTXT_DATA_NUM_REGS];
          ctxt_mask = replicate QDMA_CPM4_IND_CTXT_DATA_NUM_REGS 0xFFFFFFFF;
          cmd = qdma_cpm4_ind_ctxt_cmd QDMA_CTXT_CMD_WR sel hw_qid;
          d = reg_write_block io d QDMA_CPM4_IND_CTXT_DATA_3_ADDR (ctxt_data @ ctxt_mask @ [cmd]);
          (rv, d) = hw_monitor_reg io d QDMA_CPM4_IND_CTXT_CMD_ADDR IND_CTXT_CMD_BUSY_MASK 0
            QDMA_REG_POLL_DFLT_INTERVAL_US QDMA_REG_POLL_DFLT_TIMEOUT_US
      in if rv \<noteq> 0 then (neg_err QDMA_ERR_HWACC_BUSY_TIMEOUT, qdma_reg_access_release d)
         else (err_code QDMA_SUCCESS, qdma_reg_access_release d))"

text \<open>The sequences without a data transfer are those of the soft IP at another address.\<close>

lemma cpm4_as_indirect:
  "qdma_cpm4_indirect_reg_invalidate io d sel q =
     indirect_reg_cmd io 0x824 1 QDMA_CTXT_CMD_INV d sel (take_bit 11 q)"
  "qdma_cpm4_indirect_reg_clear io d sel q =
     indirect_reg_cmd io 0x824 1 QDMA_CTXT_CMD_CLR d sel (take_bit 11 q)"
  "qdma_cpm4_indirect_reg_read io d sel q n =
     indirect_reg_read io 0x804 0x824 1 d sel (take_bit 11 q) n"
  by (simp_all add: qdma_cpm4_indirect_reg_invalidate_def qdma_cpm4_indirect_reg_clear_def
      qdma_cpm4_indirect_reg_read_def indirect_reg_cmd_def indirect_reg_read_def cpm4_cmd_word BIT_0)

lemma cpm4_write_outcome:
  "fst (qdma_cpm4_indirect_reg_write io d sel q ws) \<in> {0, -3} \<and>
   \<not> hw_prg_lock (snd (qdma_cpm4_indirect_reg_write io d sel q ws))"
  by (simp add: qdma_cpm4_indirect_reg_write_def split_beta Let_def)

lemma cpm4_read_outcome:
  "(case qdma_cpm4_indirect_reg_read io d sel q n of
      (rv, ws, d') \<Rightarrow> (rv = 0 \<and> length ws = n \<or> rv = -3 \<and> ws = []) \<and> \<not> hw_prg_lock d')"
  unfolding cpm4_as_indirect by (rule indirect_read_outcome)

section \<open>A device that follows the register specification\<close>

text \<open>
  As for the soft IP: eight words of data and mask registers that read back what was written,
  a context memory of four words for each selector and queue, and commands that complete
  within the polling budget.
\<close>

definition cpm4_in_window :: "u32 \<Rightarrow> bool" where
  "cpm4_in_window a \<longleftrightarrow> 0x804 \<le> a \<and> a < 0x824"

definition cpm4_write_merge :: "ctxt_window \<Rightarrow> u32 list \<Rightarrow> u32 list" where
  "cpm4_write_merge w old = map (\<lambda>i. (old ! i AND NOT (w (0x814 + of_nat i * 4))) OR
     (w (0x804 + of_nat i * 4) AND w (0x814 + of_nat i * 4))) [0..<4]"

definition cpm4_effect ::
  "u32 \<Rightarrow> ctxt_window \<times> ctxt_memory \<Rightarrow> ctxt_window \<times> ctxt_memory \<Rightarrow> bool" where
  "cpm4_effect cmd = (\<lambda>(w, m) (w', m').
     (cmd_op_bits cmd = 0 \<longrightarrow> m' = m(cmd_key cmd := replicate 4 0)) \<and>
     (cmd_op_bits cmd = 1 \<longrightarrow> m' = m(cmd_key cmd := cpm4_write_merge w (m (cmd_key cmd)))) \<and>
     (cmd_op_bits cmd = 2 \<longrightarrow>
        m' = m \<and> (\<forall>i<4. w' (0x804 + of_nat i * 4) = m (cmd_key cmd) ! i)))"

definition cpm4_hardware ::
  "'d mmio \<Rightarrow> ('d \<Rightarrow> ctxt_window) \<Rightarrow> ('d \<Rightarrow> ctxt_memory) \<Rightarrow> bool" where
  "cpm4_hardware io win mem \<longleftrightarrow>
     (\<forall>r a v. cpm4_in_window a \<longrightarrow>
        win (writel io r a v) = (win r)(a := v) \<and> mem (writel io r a v) = mem r) \<and>
     (\<forall>r a. cpm4_in_window a \<longrightarrow> fst (readl io r a) = win r a \<and>
        win (snd (readl io r a)) = win r \<and> mem (snd (readl io r a)) = mem r) \<and>
     (\<forall>d cmd. \<exists>k\<le>50000.
        let d0 = qdma_reg_write io d 0x824 cmd;
            dk = poll_state io 0x824 10 k d0;
            d1 = xregs (snd (qdma_reg_read io dk 0x824))
        in poll_hit io 0x824 1 0 dk \<and> (\<forall>j<k. \<not> poll_hit io 0x824 1 0 (poll_state io 0x824 10 j d0)) \<and>
           cpm4_effect cmd (win (xregs d), mem (xregs d)) (win d1, mem d1))"

lemma cpm4_window_write:
  assumes "cpm4_hardware io win mem" "cpm4_in_window a"
  shows "win (xregs (qdma_reg_write io d a v)) = (win (xregs d))(a := v)"
    "mem (xregs (qdma_reg_write io d a v)) = mem (xregs d)"
  using assms by (simp_all add: cpm4_hardware_def qdma_reg_write_def)

lemma cpm4_window_read:
  assumes "cpm4_hardware io win mem" "cpm4_in_window a"
  shows "fst (qdma_reg_read io d a) = win (xregs d) a"
    "win (xregs (snd (qdma_reg_read io d a))) = win (xregs d)"
    "mem (xregs (snd (qdma_reg_read io d a))) = mem (xregs d)"
  using assms by (simp_all add: cpm4_hardware_def qdma_reg_read_def split_beta)

lemma cpm4_command:
  assumes "cpm4_hardware io win mem"
  shows "\<exists>d'. hw_monitor_reg io (qdma_reg_write io d 0x824 cmd) 0x824 1 0
      QDMA_REG_POLL_DFLT_INTERVAL_US QDMA_REG_POLL_DFLT_TIMEOUT_US = (0, d') \<and>
    cpm4_effect cmd (win (xregs d), mem (xregs d)) (win (xregs d'), mem (xregs d'))"
proof -
  from assms obtain k where "k \<le> 50000"
    "poll_hit io 0x824 1 0 (poll_state io 0x824 10 k (qdma_reg_write io d 0x824 cmd))"
    "\<forall>j<k. \<not> poll_hit io 0x824 1 0 (poll_state io 0x824 10 j (qdma_reg_write io d 0x824 cmd))"
    "cpm4_effect cmd (win (xregs d), mem (xregs d))
       (win (xregs (snd (qdma_reg_read io (poll_state io 0x824 10 k
          (qdma_reg_write io d 0x824 cmd)) 0x824))),
        mem (xregs (snd (qdma_reg_read io (poll_state io 0x824 10 k
          (qdma_reg_write io d 0x824 cmd)) 0x824))))"
    unfolding cpm4_hardware_def Let_def by blast
  then show ?thesis
    using hw_monitor_reg_hit [of k QDMA_REG_POLL_DFLT_INTERVAL_US QDMA_REG_POLL_DFLT_TIMEOUT_US]
    unfolding poll_iterations_default by blast
qed

section \<open>Effect of the sequences\<close>

text \<open>The place of a context: selector and eleven bits of the queue.\<close>

definition cpm4_key :: "ind_ctxt_cmd_sel \<Rightarrow> u16 \<Rightarrow> u32" where
  "cpm4_key sel q = cmd_key (ind_ctxt_cmd_word QDMA_CTXT_CMD_RD sel (take_bit 11 q))"

lemma cpm4_key_op: "cmd_key (qdma_cpm4_ind_ctxt_cmd op sel q) = cpm4_key sel q"
  by (simp add: cpm4_key_def cpm4_cmd_word cmd_key_eq_iff)

lemma cpm4_key_eq_iff [simp]:
  "cpm4_key sel q = cpm4_key sel' q' \<longleftrightarrow> sel = sel' \<and> take_bit 11 q = take_bit 11 q'"
  by (simp add: cpm4_key_def cmd_key_eq_iff)

lemma cpm4_op [simp]: "cmd_op_bits (qdma_cpm4_ind_ctxt_cmd op sel q) = cmd_op_code op"
  by (simp add: cpm4_cmd_word)

lemma cpm4_addresses:
  "cpm4_in_window 0x804" "cpm4_in_window 0x808" "cpm4_in_window 0x80C" "cpm4_in_window 0x810"
  "cpm4_in_window 0x814" "cpm4_in_window 0x818" "cpm4_in_window 0x81C" "cpm4_in_window 0x820"
  by (simp_all add: cpm4_in_window_def)

lemma upt_4: "[0..<4] = [0, 1, 2, 3 :: nat]"
  by (simp add: upt_rec)

lemma all_lt_4: "(\<forall>i<4. P i) \<longleftrightarrow> P 0 \<and> P 1 \<and> P 2 \<and> P (3 :: nat)"
proof -
  have "(\<forall>i<4. P i) \<longleftrightarrow> list_all P [0..<4]" by (auto simp: list_all_iff)
  then show ?thesis by (simp only: upt_4 list.pred_inject) simp
qed

definition cpm4_pad :: "u32 list \<Rightarrow> u32 list" where
  "cpm4_pad ws = map (\<lambda>i. if i < length ws then ws ! i else 0) [0..<4]"

lemma length_cpm4_pad [simp]: "length (cpm4_pad ws) = 4"
  by (simp add: cpm4_pad_def)

lemma cpm4_pad_take: "length ws \<le> 4 \<Longrightarrow> take (length ws) (cpm4_pad ws) = ws"
  by (rule nth_equalityI) (auto simp: cpm4_pad_def)

lemma cpm4_write_window:
  assumes hw: "cpm4_hardware io win mem"
    and d': "d' = reg_write_block io d 0x804 ([a0, a1, a2, a3] @
      [0xFFFFFFFF, 0xFFFFFFFF, 0xFFFFFFFF, 0xFFFFFFFF])"
  shows "mem (xregs d') = mem (xregs d)"
    "cpm4_write_merge (win (xregs d')) old = [a0, a1, a2, a3]"
  unfolding d'
  by (simp_all add: cpm4_window_write [OF hw] cpm4_addresses cpm4_write_merge_def upt_4 merge_all_ones)

lemma cpm4_write_effect:
  assumes hw: "cpm4_hardware io win mem"
  shows "\<exists>d'. qdma_cpm4_indirect_reg_write io d sel q ws = (0, d') \<and>
    mem (xregs d') = (mem (xregs d))(cpm4_key sel q := cpm4_pad ws)"
proof -
  let ?cmd = "qdma_cpm4_ind_ctxt_cmd QDMA_CTXT_CMD_WR sel q"
  define d1 where "d1 = reg_write_block io (qdma_reg_access_lock d) 0x804
    (cpm4_pad ws @ replicate 4 0xFFFFFFFF)"
  have four: "replicate 4 x = [x, x, x, x]" for x :: u32
    by (simp add: eval_nat_numeral)
  obtain a0 a1 a2 a3 where pad: "cpm4_pad ws = [a0, a1, a2, a3]"
    by (simp add: cpm4_pad_def upt_4)
  have d1: "mem (xregs d1) = mem (xregs d)" "cpm4_write_merge (win (xregs d1)) old = cpm4_pad ws" for old
    using cpm4_write_window [OF hw d1_def [unfolded pad four]] unfolding pad by simp_all
  obtain d2 where d2: "hw_monitor_reg io (qdma_reg_write io d1 0x824 ?cmd) 0x824 1 0
      QDMA_REG_POLL_DFLT_INTERVAL_US QDMA_REG_POLL_DFLT_TIMEOUT_US = (0, d2)"
    "cpm4_effect ?cmd (win (xregs d1), mem (xregs d1)) (win (xregs d2), mem (xregs d2))"
    using cpm4_command [OF hw] by blast
  have "mem (xregs d2) = (mem (xregs d))(cpm4_key sel q := cpm4_pad ws)"
    using d2(2) d1 by (simp add: cpm4_effect_def cpm4_key_op)
  moreover have "qdma_cpm4_indirect_reg_write io d sel q ws = (0, qdma_reg_access_release d2)"
    using d2(1) unfolding qdma_cpm4_indirect_reg_write_def Let_def
      QDMA_CPM4_IND_CTXT_DATA_NUM_REGS_def BIT_0
      append_assoc [symmetric] cpm4_pad_def [symmetric] reg_write_block_append d1_def
    by simp
  ultimately show ?thesis by (intro exI [of _ "qdma_reg_access_release d2"]) simp
qed

lemma cpm4_read_block:
  assumes hw: "cpm4_hardware io win mem" and "\<forall>i<n. cpm4_in_window (a + of_nat i * 4)"
  shows "fst (reg_read_block io d a n) = map (\<lambda>i. win (xregs d) (a + of_nat i * 4)) [0..<n] \<and>
    mem (xregs (snd (reg_read_block io d a n))) = mem (xregs d)"
  using assms(2)
proof (induction n arbitrary: d a)
  case (Suc n)
  have "cpm4_in_window a" using Suc.prems by force
  note r = cpm4_window_read [OF hw this, of d]
  have "\<forall>i<n. cpm4_in_window (a + 4 + of_nat i * 4)"
    using Suc.prems by (force simp: algebra_simps)
  note IH = Suc.IH [OF this, of "snd (qdma_reg_read io d a)"]
  have "map (\<lambda>i. win (xregs d) (a + of_nat i * 4)) [0..<Suc n] =
    win (xregs d) a # map (\<lambda>i. win (xregs d) (a + 4 + of_nat i * 4)) [0..<n]"
    by (simp add: upt_conv_Cons map_Suc_upt [symmetric] algebra_simps del: upt_Suc)
  then show ?case
    using r IH by (simp add: split_beta del: upt_Suc)
qed simp

lemma cpm4_data_in_window: "i < 4 \<Longrightarrow> cpm4_in_window (0x804 + of_nat i * 4)"
proof -
  have "\<forall>i<4. cpm4_in_window (0x804 + of_nat i * 4)"
    by (simp add: all_lt_4 cpm4_in_window_def)
  then show "i < 4 \<Longrightarrow> cpm4_in_window (0x804 + of_nat i * 4)" by blast
qed

lemma cpm4_read_effect:
  assumes hw: "cpm4_hardware io win mem" and n: "n \<le> 4"
  shows "\<exists>d'. qdma_cpm4_indirect_reg_read io d sel q n =
      (0, map (\<lambda>i. mem (xregs d) (cpm4_key sel q) ! i) [0..<n], d') \<and>
    mem (xregs d') = mem (xregs d)"
proof -
  let ?cmd = "qdma_cpm4_ind_ctxt_cmd QDMA_CTXT_CMD_RD sel q"
  obtain d2 where d2: "hw_monitor_reg io (qdma_reg_write io (qdma_reg_access_lock d) 0x824 ?cmd) 0x824 1 0
      QDMA_REG_POLL_DFLT_INTERVAL_US QDMA_REG_POLL_DFLT_TIMEOUT_US = (0, d2)"
    "cpm4_effect ?cmd (win (xregs d), mem (xregs d)) (win (xregs d2), mem (xregs d2))"
    using cpm4_command [OF hw, of "qdma_reg_access_lock d" ?cmd] by auto
  then have m: "mem (xregs d2) = mem (xregs d)"
    "\<forall>i<4. win (xregs d2) (0x804 + of_nat i * 4) = mem (xregs d) (cpm4_key sel q) ! i"
    by (simp_all add: cpm4_effect_def cpm4_key_op)
  have "\<forall>i<n. cpm4_in_window (0x804 + of_nat i * 4)"
    using n cpm4_data_in_window less_le_trans by blast
  note blk = cpm4_read_block [OF hw this, of d2]
  have "map (\<lambda>i. win (xregs d2) (0x804 + of_nat i * 4)) [0..<n] =
    map (\<lambda>i. mem (xregs d) (cpm4_key sel q) ! i) [0..<n]"
    using m(2) n by (intro map_cong) auto
  then show ?thesis
    using d2(1) blk m(1)
    by (intro exI [of _ "qdma_reg_access_release (snd (reg_read_block io d2 0x804 n))"])
       (simp add: qdma_cpm4_indirect_reg_read_def Let_def split_beta BIT_0)
qed

lemma cpm4_clear_effect:
  assumes hw: "cpm4_hardware io win mem"
  shows "\<exists>d'. qdma_cpm4_indirect_reg_clear io d sel q = (0, d') \<and>
    mem (xregs d') = (mem (xregs d))(cpm4_key sel q := replicate 4 0)"
proof -
  let ?cmd = "qdma_cpm4_ind_ctxt_cmd QDMA_CTXT_CMD_CLR sel q"
  obtain d2 where d2: "hw_monitor_reg io (qdma_reg_write io (qdma_reg_access_lock d) 0x824 ?cmd) 0x824 1 0
      QDMA_REG_POLL_DFLT_INTERVAL_US QDMA_REG_POLL_DFLT_TIMEOUT_US = (0, d2)"
    "cpm4_effect ?cmd (win (xregs d), mem (xregs d)) (win (xregs d2), mem (xregs d2))"
    using cpm4_command [OF hw, of "qdma_reg_access_lock d" ?cmd] by auto
  then show ?thesis
    by (intro exI [of _ "qdma_reg_access_release d2"])
       (simp add: qdma_cpm4_indirect_reg_clear_def Let_def cpm4_effect_def cpm4_key_op BIT_0)
qed

section \<open>Codecs of at most four words\<close>

locale cpm4_codec = ctxt_codec +
  assumes fits_cpm4: "n \<le> 4"
begin

lemma pad_read: "map (\<lambda>i. cpm4_pad (enc c) ! i) [0..<n] = enc c"
  using fits_cpm4 by (intro nth_equalityI) (simp_all add: length_enc cpm4_pad_def)

text \<open>A write stores the padded words at its key; a read of a key that holds them decodes them.\<close>

lemma cpm4_stores:
  assumes "cpm4_hardware io win mem"
  shows "\<exists>d1. context_write (qdma_cpm4_indirect_reg_write io) enc (Some d) sel q (Some c) =
      (0, Some d1) \<and> mem (xregs d1) = (mem (xregs d))(cpm4_key sel q := cpm4_pad (enc c))"
  using cpm4_write_effect [OF assms, of d sel q "enc c"] by (auto simp: context_write_def)

lemma cpm4_loads:
  assumes "cpm4_hardware io win mem" "mem (xregs d) (cpm4_key sel q) = cpm4_pad (enc c)"
  shows "\<exists>d1. context_read (qdma_cpm4_indirect_reg_read io) n dec (Some d) sel q (Some c0) =
      (0, Some (stored c c0), Some d1) \<and> mem (xregs d1) = mem (xregs d)"
  using cpm4_read_effect [OF assms(1) fits_cpm4, of d sel q]
  by (auto simp: context_read_def assms(2) pad_read dec_enc)

lemma cpm4_write_read:
  assumes "cpm4_hardware io win mem"
  shows "\<exists>d1 d2.
    context_write (qdma_cpm4_indirect_reg_write io) enc (Some d) sel q (Some c) = (0, Some d1) \<and>
    context_read (qdma_cpm4_indirect_reg_read io) n dec (Some d1) sel q (Some c0) =
      (0, Some (stored c c0), Some d2)"
proof -
  obtain d1 where
    "context_write (qdma_cpm4_indirect_reg_write io) enc (Some d) sel q (Some c) = (0, Some d1)"
    "mem (xregs d1) = (mem (xregs d))(cpm4_key sel q := cpm4_pad (enc c))"
    using cpm4_stores [OF assms] by blast
  then show ?thesis
    using cpm4_loads [OF assms, of d1 sel q c c0] by auto
qed

end

section \<open>A register file that obeys the specification\<close>

definition cpm4_sim_cmd :: "u32 \<Rightarrow> ctxt_window \<times> ctxt_memory \<Rightarrow> ctxt_window \<times> ctxt_memory" where
  "cpm4_sim_cmd cmd = (\<lambda>(w, m).
     if cmd_op_bits cmd = 0 then (w, m(cmd_key cmd := replicate 4 0))
     else if cmd_op_bits cmd = 1 then (w, m(cmd_key cmd := cpm4_write_merge w (m (cmd_key cmd))))
     else if cmd_op_bits cmd = 2 then
       (\<lambda>a. if cpm4_in_window a \<and> a < 0x814 then m (cmd_key cmd) ! unat ((a - 0x804) div 4) else w a, m)
     else (w, m))"

definition cpm4_sim_io :: "(ctxt_window \<times> ctxt_memory) mmio" where
  "cpm4_sim_io = \<lparr>
     readl = (\<lambda>r a. (if a = 0x824 then 0 else fst r a, r)),
     writel = (\<lambda>r a v. if a = 0x824 then cpm4_sim_cmd v r else ((fst r)(a := v), snd r)),
     udelay = (\<lambda>r us. r)\<rparr>"

definition cpm4_sim_dev :: "(ctxt_window \<times> ctxt_memory) xdev" where
  "cpm4_sim_dev = \<lparr>xregs = (\<lambda>_. 0, \<lambda>_. replicate 4 0), hw_prg_lock = False\<rparr>"

lemma cpm4_sim_effect: "cpm4_effect cmd r (cpm4_sim_cmd cmd r)"
  by (simp add: cpm4_effect_def cpm4_sim_cmd_def split_beta all_lt_4 cpm4_in_window_def)

lemma cpm4_sim_simps [simp]:
  "readl cpm4_sim_io r a = (if a = 0x824 then 0 else fst r a, r)"
  "writel cpm4_sim_io r a v = (if a = 0x824 then cpm4_sim_cmd v r else ((fst r)(a := v), snd r))"
  "udelay cpm4_sim_io r us = r"
  by (simp_all add: cpm4_sim_io_def)

lemma cpm4_sim_hardware: "cpm4_hardware cpm4_sim_io fst snd"
proof -
  have "poll_hit cpm4_sim_io 0x824 1 0 d" for d
    by (simp add: poll_hit_def qdma_reg_read_def)
  moreover have "xregs (snd (qdma_reg_read cpm4_sim_io (qdma_reg_write cpm4_sim_io d 0x824 cmd) 0x824)) =
      cpm4_sim_cmd cmd (xregs d)" for d cmd
    by (simp add: qdma_reg_read_def qdma_reg_write_def)
  moreover have "a \<noteq> 0x824" if "cpm4_in_window a" for a
    using that by (auto simp: cpm4_in_window_def)
  ultimately show ?thesis
    by (auto simp: cpm4_hardware_def Let_def cpm4_sim_effect intro!: exI [of _ 0])
qed

end
