(* ===== verification/Cpm4Ctxt.thy ===== *)
theory Cpm4Ctxt
  imports Cpm4Indirect
begin

text \<open>
  The context functions of the CPM4 hard IP, qdma_cpm4_access.c: the register words of every
  context, its decoder, the register functions and the dispatch on the access type. What differs
  from the soft IP: the interrupt vector of a queue is in a context of its own (queue to vector
  map, one word for both directions), the function map is a register for each function, and the
  writes check some fields of the structure first.
\<close>

section \<open>Register fields\<close>

abbreviation SW_IND_CTXT_DATA_W0_PIDX_MASK :: u32 where "SW_IND_CTXT_DATA_W0_PIDX_MASK \<equiv> GENMASK 15 0"
abbreviation SW_IND_CTXT_DATA_W0_IRQ_ARM_MASK :: u32 where "SW_IND_CTXT_DATA_W0_IRQ_ARM_MASK \<equiv> BIT 16"
abbreviation SW_IND_CTXT_DATA_W1_QEN_MASK :: u32 where "SW_IND_CTXT_DATA_W1_QEN_MASK \<equiv> BIT 0"
abbreviation SW_IND_CTXT_DATA_W1_FCRD_EN_MASK :: u32 where "SW_IND_CTXT_DATA_W1_FCRD_EN_MASK \<equiv> BIT 1"
abbreviation SW_IND_CTXT_DATA_W1_WBI_CHK_MASK :: u32 where "SW_IND_CTXT_DATA_W1_WBI_CHK_MASK \<equiv> BIT 2"
abbreviation SW_IND_CTXT_DATA_W1_WBI_INTVL_EN_MASK :: u32 where "SW_IND_CTXT_DATA_W1_WBI_INTVL_EN_MASK \<equiv> BIT 3"
abbreviation SW_IND_CTXT_DATA_W1_FNC_ID_MASK :: u32 where "SW_IND_CTXT_DATA_W1_FNC_ID_MASK \<equiv> GENMASK 11 4"
abbreviation SW_IND_CTXT_DATA_W1_RNG_SZ_MASK :: u32 where "SW_IND_CTXT_DATA_W1_RNG_SZ_MASK \<equiv> GENMASK 15 12"
abbreviation SW_IND_CTXT_DATA_W1_DSC_SZ_MASK :: u32 where "SW_IND_CTXT_DATA_W1_DSC_SZ_MASK \<equiv> GENMASK 17 16"
abbreviation SW_IND_CTXT_DATA_W1_BYPASS_MASK :: u32 where "SW_IND_CTXT_DATA_W1_BYPASS_MASK \<equiv> BIT 18"
abbreviation SW_IND_CTXT_DATA_W1_MM_CHN_MASK :: u32 where "SW_IND_CTXT_DATA_W1_MM_CHN_MASK \<equiv> BIT 19"
abbreviation SW_IND_CTXT_DATA_W1_WBK_EN_MASK :: u32 where "SW_IND_CTXT_DATA_W1_WBK_EN_MASK \<equiv> BIT 20"
abbreviation SW_IND_CTXT_DATA_W1_IRQ_EN_MASK :: u32 where "SW_IND_CTXT_DATA_W1_IRQ_EN_MASK \<equiv> BIT 21"
abbreviation SW_IND_CTXT_DATA_W1_PORT_ID_MASK :: u32 where "SW_IND_CTXT_DATA_W1_PORT_ID_MASK \<equiv> GENMASK 24 22"
abbreviation SW_IND_CTXT_DATA_W1_IRQ_NO_LAST_MASK :: u32 where "SW_IND_CTXT_DATA_W1_IRQ_NO_LAST_MASK \<equiv> BIT 25"
abbreviation SW_IND_CTXT_DATA_W1_ERR_MASK :: u32 where "SW_IND_CTXT_DATA_W1_ERR_MASK \<equiv> GENMASK 27 26"
abbreviation SW_IND_CTXT_DATA_W1_ERR_WB_SENT_MASK :: u32 where "SW_IND_CTXT_DATA_W1_ERR_WB_SENT_MASK \<equiv> BIT 28"
abbreviation SW_IND_CTXT_DATA_W1_IRQ_REQ_MASK :: u32 where "SW_IND_CTXT_DATA_W1_IRQ_REQ_MASK \<equiv> BIT 29"
abbreviation SW_IND_CTXT_DATA_W1_MRKR_DIS_MASK :: u32 where "SW_IND_CTXT_DATA_W1_MRKR_DIS_MASK \<equiv> BIT 30"
abbreviation SW_IND_CTXT_DATA_W1_IS_MM_MASK :: u32 where "SW_IND_CTXT_DATA_W1_IS_MM_MASK \<equiv> BIT 31"
abbreviation PREFETCH_CTXT_DATA_W0_BYPASS_MASK :: u32 where "PREFETCH_CTXT_DATA_W0_BYPASS_MASK \<equiv> BIT 0"
abbreviation PREFETCH_CTXT_DATA_W0_BUF_SIZE_IDX_MASK :: u32 where "PREFETCH_CTXT_DATA_W0_BUF_SIZE_IDX_MASK \<equiv> GENMASK 4 1"
abbreviation PREFETCH_CTXT_DATA_W0_PORT_ID_MASK :: u32 where "PREFETCH_CTXT_DATA_W0_PORT_ID_MASK \<equiv> GENMASK 7 5"
abbreviation PREFETCH_CTXT_DATA_W0_ERR_MASK :: u32 where "PREFETCH_CTXT_DATA_W0_ERR_MASK \<equiv> BIT 26"
abbreviation PREFETCH_CTXT_DATA_W0_PFCH_EN_MASK :: u32 where "PREFETCH_CTXT_DATA_W0_PFCH_EN_MASK \<equiv> BIT 27"
abbreviation PREFETCH_CTXT_DATA_W0_PFCH_MASK :: u32 where "PREFETCH_CTXT_DATA_W0_PFCH_MASK \<equiv> BIT 28"
abbreviation PREFETCH_CTXT_DATA_W0_SW_CRDT_L_MASK :: u32 where "PREFETCH_CTXT_DATA_W0_SW_CRDT_L_MASK \<equiv> GENMASK 31 29"
abbreviation PREFETCH_CTXT_DATA_W1_SW_CRDT_H_MASK :: u32 where "PREFETCH_CTXT_DATA_W1_SW_CRDT_H_MASK \<equiv> GENMASK 12 0"
abbreviation PREFETCH_CTXT_DATA_W1_VALID_MASK :: u32 where "PREFETCH_CTXT_DATA_W1_VALID_MASK \<equiv> BIT 13"
abbreviation QDMA_CPM4_COMPL_CTXT_BADDR_GET_L_MASK :: u64 where "QDMA_CPM4_COMPL_CTXT_BADDR_GET_L_MASK \<equiv> GENMASK 9 6"
abbreviation QDMA_CPM4_COMPL_CTXT_BADDR_GET_M_MASK :: u64 where "QDMA_CPM4_COMPL_CTXT_BADDR_GET_M_MASK \<equiv> GENMASK 41 10"
abbreviation QDMA_CPM4_COMPL_CTXT_BADDR_GET_H_MASK :: u64 where "QDMA_CPM4_COMPL_CTXT_BADDR_GET_H_MASK \<equiv> GENMASK 63 42"
abbreviation QDMA_CPM4_COMPL_CTXT_PIDX_GET_L_MASK :: u32 where "QDMA_CPM4_COMPL_CTXT_PIDX_GET_L_MASK \<equiv> GENMASK 7 0"
abbreviation QDMA_CPM4_COMPL_CTXT_PIDX_GET_H_MASK :: u32 where "QDMA_CPM4_COMPL_CTXT_PIDX_GET_H_MASK \<equiv> GENMASK 15 8"
abbreviation CMPL_CTXT_DATA_W0_EN_STAT_DESC_MASK :: u32 where "CMPL_CTXT_DATA_W0_EN_STAT_DESC_MASK \<equiv> BIT 0"
abbreviation CMPL_CTXT_DATA_W0_EN_INT_MASK :: u32 where "CMPL_CTXT_DATA_W0_EN_INT_MASK \<equiv> BIT 1"
abbreviation CMPL_CTXT_DATA_W0_TRIG_MODE_MASK :: u32 where "CMPL_CTXT_DATA_W0_TRIG_MODE_MASK \<equiv> GENMASK 4 2"
abbreviation CMPL_CTXT_DATA_W0_FNC_ID_MASK :: u32 where "CMPL_CTXT_DATA_W0_FNC_ID_MASK \<equiv> GENMASK 12 5"
abbreviation CMPL_CTXT_DATA_W0_CNTER_IDX_MASK :: u32 where "CMPL_CTXT_DATA_W0_CNTER_IDX_MASK \<equiv> GENMASK 16 13"
abbreviation CMPL_CTXT_DATA_W0_TIMER_IDX_MASK :: u32 where "CMPL_CTXT_DATA_W0_TIMER_IDX_MASK \<equiv> GENMASK 20 17"
abbreviation CMPL_CTXT_DATA_W0_INT_ST_MASK :: u32 where "CMPL_CTXT_DATA_W0_INT_ST_MASK \<equiv> GENMASK 22 21"
abbreviation CMPL_CTXT_DATA_W0_COLOR_MASK :: u32 where "CMPL_CTXT_DATA_W0_COLOR_MASK \<equiv> BIT 23"
abbreviation CMPL_CTXT_DATA_W0_QSIZE_IDX_MASK :: u32 where "CMPL_CTXT_DATA_W0_QSIZE_IDX_MASK \<equiv> GENMASK 27 24"
abbreviation CMPL_CTXT_DATA_W0_BADDR_64_L_MASK :: u32 where "CMPL_CTXT_DATA_W0_BADDR_64_L_MASK \<equiv> GENMASK 31 28"
abbreviation CMPL_CTXT_DATA_W1_BADDR_64_M_MASK :: u32 where "CMPL_CTXT_DATA_W1_BADDR_64_M_MASK \<equiv> GENMASK 31 0"
abbreviation CMPL_CTXT_DATA_W2_BADDR_64_H_MASK :: u32 where "CMPL_CTXT_DATA_W2_BADDR_64_H_MASK \<equiv> GENMASK 21 0"
abbreviation CMPL_CTXT_DATA_W2_DESC_SIZE_MASK :: u32 where "CMPL_CTXT_DATA_W2_DESC_SIZE_MASK \<equiv> GENMASK 23 22"
abbreviation CMPL_CTXT_DATA_W2_PIDX_L_MASK :: u32 where "CMPL_CTXT_DATA_W2_PIDX_L_MASK \<equiv> GENMASK 31 24"
abbreviation CMPL_CTXT_DATA_W3_PIDX_H_MASK :: u32 where "CMPL_CTXT_DATA_W3_PIDX_H_MASK \<equiv> GENMASK 7 0"
abbreviation CMPL_CTXT_DATA_W3_CIDX_MASK :: u32 where "CMPL_CTXT_DATA_W3_CIDX_MASK \<equiv> GENMASK 23 8"
abbreviation CMPL_CTXT_DATA_W3_VALID_MASK :: u32 where "CMPL_CTXT_DATA_W3_VALID_MASK \<equiv> BIT 24"
abbreviation CMPL_CTXT_DATA_W3_ERR_MASK :: u32 where "CMPL_CTXT_DATA_W3_ERR_MASK \<equiv> GENMASK 26 25"
abbreviation CMPL_CTXT_DATA_W3_USER_TRIG_PEND_MASK :: u32 where "CMPL_CTXT_DATA_W3_USER_TRIG_PEND_MASK \<equiv> BIT 27"
abbreviation CMPL_CTXT_DATA_W3_TIMER_RUNNING_MASK :: u32 where "CMPL_CTXT_DATA_W3_TIMER_RUNNING_MASK \<equiv> BIT 28"
abbreviation CMPL_CTXT_DATA_W3_FULL_UPD_MASK :: u32 where "CMPL_CTXT_DATA_W3_FULL_UPD_MASK \<equiv> BIT 29"
abbreviation HW_IND_CTXT_DATA_W0_CIDX_MASK :: u32 where "HW_IND_CTXT_DATA_W0_CIDX_MASK \<equiv> GENMASK 15 0"
abbreviation HW_IND_CTXT_DATA_W0_CRD_USE_MASK :: u32 where "HW_IND_CTXT_DATA_W0_CRD_USE_MASK \<equiv> GENMASK 31 16"
abbreviation HW_IND_CTXT_DATA_W1_DSC_PND_MASK :: u32 where "HW_IND_CTXT_DATA_W1_DSC_PND_MASK \<equiv> BIT 8"
abbreviation HW_IND_CTXT_DATA_W1_IDL_STP_B_MASK :: u32 where "HW_IND_CTXT_DATA_W1_IDL_STP_B_MASK \<equiv> BIT 9"
abbreviation HW_IND_CTXT_DATA_W1_FETCH_PND_MASK :: u32 where "HW_IND_CTXT_DATA_W1_FETCH_PND_MASK \<equiv> BIT 10"
abbreviation CRED_CTXT_DATA_W0_CREDT_MASK :: u32 where "CRED_CTXT_DATA_W0_CREDT_MASK \<equiv> GENMASK 15 0"
abbreviation QDMA_CPM4_INTR_CTXT_BADDR_GET_L_MASK :: u64 where "QDMA_CPM4_INTR_CTXT_BADDR_GET_L_MASK \<equiv> GENMASK 34 12"
abbreviation QDMA_CPM4_INTR_CTXT_BADDR_GET_H_MASK :: u64 where "QDMA_CPM4_INTR_CTXT_BADDR_GET_H_MASK \<equiv> GENMASK 63 35"
abbreviation INTR_CTXT_DATA_W0_VALID_MASK :: u32 where "INTR_CTXT_DATA_W0_VALID_MASK \<equiv> BIT 0"
abbreviation INTR_CTXT_DATA_W0_VEC_MASK :: u32 where "INTR_CTXT_DATA_W0_VEC_MASK \<equiv> GENMASK 5 1"
abbreviation INTR_CTXT_DATA_W0_INT_ST_MASK :: u32 where "INTR_CTXT_DATA_W0_INT_ST_MASK \<equiv> BIT 7"
abbreviation INTR_CTXT_DATA_W0_COLOR_MASK :: u32 where "INTR_CTXT_DATA_W0_COLOR_MASK \<equiv> BIT 8"
abbreviation INTR_CTXT_DATA_W0_BADDR_4K_L_MASK :: u32 where "INTR_CTXT_DATA_W0_BADDR_4K_L_MASK \<equiv> GENMASK 31 9"
abbreviation INTR_CTXT_DATA_W1_BADDR_4K_H_MASK :: u32 where "INTR_CTXT_DATA_W1_BADDR_4K_H_MASK \<equiv> GENMASK 28 0"
abbreviation INTR_CTXT_DATA_W1_PAGE_SIZE_MASK :: u32 where "INTR_CTXT_DATA_W1_PAGE_SIZE_MASK \<equiv> GENMASK 31 29"
abbreviation INTR_CTXT_DATA_W2_PIDX_MASK :: u32 where "INTR_CTXT_DATA_W2_PIDX_MASK \<equiv> GENMASK 11 0"
abbreviation QDMA_CPM4_QID2VEC_H2C_VECTOR :: u32 where "QDMA_CPM4_QID2VEC_H2C_VECTOR \<equiv> GENMASK 16 9"
abbreviation QDMA_CPM4_QID2VEC_H2C_COAL_EN :: u32 where "QDMA_CPM4_QID2VEC_H2C_COAL_EN \<equiv> BIT 17"
abbreviation C2H_QID2VEC_MAP_C2H_VECTOR_MASK :: u32 where "C2H_QID2VEC_MAP_C2H_VECTOR_MASK \<equiv> GENMASK 7 0"
abbreviation C2H_QID2VEC_MAP_C2H_EN_COAL_MASK :: u32 where "C2H_QID2VEC_MAP_C2H_EN_COAL_MASK \<equiv> BIT 8"
abbreviation TRQ_SEL_FMAP_0_QID_MAX_MASK :: u32 where "TRQ_SEL_FMAP_0_QID_MAX_MASK \<equiv> GENMASK 22 11"
abbreviation TRQ_SEL_FMAP_0_QID_BASE_MASK :: u32 where "TRQ_SEL_FMAP_0_QID_BASE_MASK \<equiv> GENMASK 10 0"
abbreviation QDMA_CPM4_TRQ_SEL_FMAP_0_ADDR :: u32 where "QDMA_CPM4_TRQ_SEL_FMAP_0_ADDR \<equiv> 0x400"
abbreviation QDMA_CPM4_REG_TRQ_SEL_FMAP_STEP :: u32 where "QDMA_CPM4_REG_TRQ_SEL_FMAP_STEP \<equiv> 4"

abbreviation QDMA_DESC_SIZE_64B :: u8 where "QDMA_DESC_SIZE_64B \<equiv> 3"
abbreviation QDMA_DESC_SIZE_32B :: "2 word" where "QDMA_DESC_SIZE_32B \<equiv> 2"
abbreviation QDMA_NUM_RING_SIZES :: "'a::len word" where "QDMA_NUM_RING_SIZES \<equiv> 16"
abbreviation QDMA_NUM_C2H_COUNTERS :: u32 where "QDMA_NUM_C2H_COUNTERS \<equiv> 16"
abbreviation QDMA_NUM_C2H_TIMERS :: u32 where "QDMA_NUM_C2H_TIMERS \<equiv> 16"
abbreviation QDMA_INDIRECT_INTR_RING_SIZE_32KB :: u8 where "QDMA_INDIRECT_INTR_RING_SIZE_32KB \<equiv> 7"

section \<open>Queue to vector map\<close>

text \<open>One word holds vector and aggregation bit of both directions: a write of one direction
  reads the word, keeps the bits of the other and writes it back.\<close>

definition qid2vec_merge :: "u8 \<Rightarrow> u32 \<Rightarrow> qdma_qid2vec \<Rightarrow> u32" where
  "qid2vec_merge c2h qid2vec ctxt =
     (if c2h \<noteq> 0 then
        (qid2vec AND (QDMA_CPM4_QID2VEC_H2C_VECTOR OR QDMA_CPM4_QID2VEC_H2C_COAL_EN)) OR
        (FIELD_SET C2H_QID2VEC_MAP_C2H_VECTOR_MASK (ucast (qv_c2h_vector ctxt)) OR
         FIELD_SET C2H_QID2VEC_MAP_C2H_EN_COAL_MASK (ucast (qv_c2h_en_coal ctxt)))
      else
        (qid2vec AND (C2H_QID2VEC_MAP_C2H_VECTOR_MASK OR C2H_QID2VEC_MAP_C2H_EN_COAL_MASK)) OR
        (FIELD_SET QDMA_CPM4_QID2VEC_H2C_VECTOR (ucast (qv_h2c_vector ctxt)) OR
         FIELD_SET QDMA_CPM4_QID2VEC_H2C_COAL_EN (ucast (qv_h2c_en_coal ctxt))))"

definition qdma_cpm4_qid2vec_write ::
  "'d mmio \<Rightarrow> 'd xdev option \<Rightarrow> u8 \<Rightarrow> u16 \<Rightarrow> qdma_qid2vec option \<Rightarrow> int \<times> 'd xdev option" where
  "qdma_cpm4_qid2vec_write io dev c2h hw_qid ctxt =
     (case (dev, ctxt) of
        (Some d, Some c) \<Rightarrow>
          let (rv, qid2vec, d') = qdma_cpm4_indirect_reg_read io d QDMA_CTXT_SEL_FMAP hw_qid 1
          in if rv < 0 then (rv, Some d')
             else let (rv, d'') = qdma_cpm4_indirect_reg_write io d' QDMA_CTXT_SEL_FMAP hw_qid
                    [qid2vec_merge c2h (qid2vec ! 0) c]
                  in (rv, Some d'')
      | _ \<Rightarrow> (neg_err QDMA_ERR_INV_PARAM, dev))"

definition qid2vec_fields :: "u8 \<Rightarrow> u32 list \<Rightarrow> qdma_qid2vec \<Rightarrow> qdma_qid2vec" where
  "qid2vec_fields c2h qid2vec ctxt =
     (if c2h \<noteq> 0 then
        ctxt\<lparr>qv_c2h_vector := ucast (FIELD_GET C2H_QID2VEC_MAP_C2H_VECTOR_MASK (qid2vec ! 0)),
          qv_c2h_en_coal := ucast (FIELD_GET C2H_QID2VEC_MAP_C2H_EN_COAL_MASK (qid2vec ! 0))\<rparr>
      else
        ctxt\<lparr>qv_h2c_vector := ucast (FIELD_GET QDMA_CPM4_QID2VEC_H2C_VECTOR (qid2vec ! 0)),
          qv_h2c_en_coal := ucast (FIELD_GET QDMA_CPM4_QID2VEC_H2C_COAL_EN (qid2vec ! 0))\<rparr>)"

definition qdma_cpm4_qid2vec_read ::
  "'d mmio \<Rightarrow> 'd xdev option \<Rightarrow> u8 \<Rightarrow> u16 \<Rightarrow> qdma_qid2vec option \<Rightarrow>
   int \<times> qdma_qid2vec option \<times> 'd xdev option" where
  "qdma_cpm4_qid2vec_read io dev c2h hw_qid ctxt =
     context_read (qdma_cpm4_indirect_reg_read io) 1 (qid2vec_fields c2h) dev
       QDMA_CTXT_SEL_FMAP hw_qid ctxt"

definition qdma_cpm4_qid2vec_clear ::
  "'d mmio \<Rightarrow> 'd xdev option \<Rightarrow> u16 \<Rightarrow> int \<times> 'd xdev option" where
  "qdma_cpm4_qid2vec_clear io dev hw_qid =
     context_cmd (qdma_cpm4_indirect_reg_clear io) dev QDMA_CTXT_SEL_FMAP hw_qid"

definition qdma_cpm4_qid2vec_invalidate ::
  "'d mmio \<Rightarrow> 'd xdev option \<Rightarrow> u16 \<Rightarrow> int \<times> 'd xdev option" where
  "qdma_cpm4_qid2vec_invalidate io dev hw_qid =
     context_cmd (qdma_cpm4_indirect_reg_invalidate io) dev QDMA_CTXT_SEL_FMAP hw_qid"

definition qdma_cpm4_qid2vec_conf ::
  "'d mmio \<Rightarrow> 'd xdev option \<Rightarrow> u8 \<Rightarrow> u16 \<Rightarrow> qdma_qid2vec option \<Rightarrow> qdma_hw_access_type \<Rightarrow>
   int \<times> qdma_qid2vec option \<times> 'd xdev option" where
  "qdma_cpm4_qid2vec_conf io dev c2h hw_qid ctxt access_type =
     (case access_type of
        QDMA_HW_ACCESS_READ \<Rightarrow> qdma_cpm4_qid2vec_read io dev c2h hw_qid ctxt
      | QDMA_HW_ACCESS_WRITE \<Rightarrow> keep_ctxt ctxt (qdma_cpm4_qid2vec_write io dev c2h hw_qid ctxt)
      | QDMA_HW_ACCESS_CLEAR \<Rightarrow> keep_ctxt ctxt (qdma_cpm4_qid2vec_clear io dev hw_qid)
      | QDMA_HW_ACCESS_INVALIDATE \<Rightarrow> keep_ctxt ctxt (qdma_cpm4_qid2vec_invalidate io dev hw_qid)
      | _ \<Rightarrow> (neg_err QDMA_ERR_INV_PARAM, ctxt, dev))"

section \<open>Function map\<close>

definition cpm4_fmap_addr :: "u16 \<Rightarrow> u32" where
  "cpm4_fmap_addr func_id =
     QDMA_CPM4_TRQ_SEL_FMAP_0_ADDR + ucast func_id * QDMA_CPM4_REG_TRQ_SEL_FMAP_STEP"

definition cpm4_fmap_word :: "qdma_fmap_cfg \<Rightarrow> u32" where
  "cpm4_fmap_word config =
     FIELD_SET TRQ_SEL_FMAP_0_QID_BASE_MASK (ucast (fm_qbase config)) OR
     FIELD_SET TRQ_SEL_FMAP_0_QID_MAX_MASK (ucast (fm_qmax config))"

definition cpm4_fmap_fields :: "u32 \<Rightarrow> qdma_fmap_cfg \<Rightarrow> qdma_fmap_cfg" where
  "cpm4_fmap_fields fmap config =
     config\<lparr>fm_qbase := ucast (FIELD_GET TRQ_SEL_FMAP_0_QID_BASE_MASK fmap),
       fm_qmax := ucast (FIELD_GET TRQ_SEL_FMAP_0_QID_MAX_MASK fmap)\<rparr>"

definition qdma_cpm4_fmap_write ::
  "'d mmio \<Rightarrow> 'd xdev option \<Rightarrow> u16 \<Rightarrow> qdma_fmap_cfg option \<Rightarrow> int \<times> 'd xdev option" where
  "qdma_cpm4_fmap_write io dev func_id config =
     (case (dev, config) of
        (Some d, Some c) \<Rightarrow>
          (err_code QDMA_SUCCESS,
           Some (qdma_reg_write io d (cpm4_fmap_addr func_id) (cpm4_fmap_word c)))
      | _ \<Rightarrow> (neg_err QDMA_ERR_INV_PARAM, dev))"

definition qdma_cpm4_fmap_read ::
  "'d mmio \<Rightarrow> 'd xdev option \<Rightarrow> u16 \<Rightarrow> qdma_fmap_cfg option \<Rightarrow>
   int \<times> qdma_fmap_cfg option \<times> 'd xdev option" where
  "qdma_cpm4_fmap_read io dev func_id config =
     (case (dev, config) of
        (Some d, Some c) \<Rightarrow>
          let (fmap, d') = qdma_reg_read io d (cpm4_fmap_addr func_id)
          in (err_code QDMA_SUCCESS, Some (cpm4_fmap_fields fmap c), Some d')
      | _ \<Rightarrow> (neg_err QDMA_ERR_INV_PARAM, config, dev))"

definition qdma_cpm4_fmap_clear :: "'d mmio \<Rightarrow> 'd xdev option \<Rightarrow> u16 \<Rightarrow> int \<times> 'd xdev option" where
  "qdma_cpm4_fmap_clear io dev func_id =
     (case dev of
        Some d \<Rightarrow>
          (err_code QDMA_SUCCESS, Some (qdma_reg_write io d (cpm4_fmap_addr func_id) 0))
      | None \<Rightarrow> (neg_err QDMA_ERR_INV_PARAM, dev))"

definition qdma_cpm4_fmap_conf ::
  "'d mmio \<Rightarrow> 'd xdev option \<Rightarrow> u16 \<Rightarrow> qdma_fmap_cfg option \<Rightarrow> qdma_hw_access_type \<Rightarrow>
   int \<times> qdma_fmap_cfg option \<times> 'd xdev option" where
  "qdma_cpm4_fmap_conf io dev func_id config access_type =
     (case access_type of
        QDMA_HW_ACCESS_READ \<Rightarrow> qdma_cpm4_fmap_read io dev func_id config
      | QDMA_HW_ACCESS_WRITE \<Rightarrow> keep_ctxt config (qdma_cpm4_fmap_write io dev func_id config)
      | QDMA_HW_ACCESS_CLEAR \<Rightarrow> keep_ctxt config (qdma_cpm4_fmap_clear io dev func_id)
      | _ \<Rightarrow> (neg_err QDMA_ERR_INV_PARAM, config, dev))"

section \<open>Software context\<close>

definition qdma_cpm4_sw_words :: "qdma_descq_sw_ctxt \<Rightarrow> u32 list" where
  "qdma_cpm4_sw_words ctxt =
     [FIELD_SET SW_IND_CTXT_DATA_W0_PIDX_MASK (ucast (sw_pidx ctxt)) OR
       FIELD_SET SW_IND_CTXT_DATA_W0_IRQ_ARM_MASK (ucast (sw_irq_arm ctxt)),
      FIELD_SET SW_IND_CTXT_DATA_W1_QEN_MASK (ucast (sw_qen ctxt)) OR
       FIELD_SET SW_IND_CTXT_DATA_W1_FCRD_EN_MASK (ucast (sw_frcd_en ctxt)) OR
       FIELD_SET SW_IND_CTXT_DATA_W1_WBI_CHK_MASK (ucast (sw_wbi_chk ctxt)) OR
       FIELD_SET SW_IND_CTXT_DATA_W1_WBI_INTVL_EN_MASK (ucast (sw_wbi_intvl_en ctxt)) OR
       FIELD_SET SW_IND_CTXT_DATA_W1_FNC_ID_MASK (ucast (sw_fnc_id ctxt)) OR
       FIELD_SET SW_IND_CTXT_DATA_W1_RNG_SZ_MASK (ucast (sw_rngsz_idx ctxt)) OR
       FIELD_SET SW_IND_CTXT_DATA_W1_DSC_SZ_MASK (ucast (sw_desc_sz ctxt)) OR
       FIELD_SET SW_IND_CTXT_DATA_W1_BYPASS_MASK (ucast (sw_bypass ctxt)) OR
       FIELD_SET SW_IND_CTXT_DATA_W1_MM_CHN_MASK (ucast (sw_mm_chn ctxt)) OR
       FIELD_SET SW_IND_CTXT_DATA_W1_WBK_EN_MASK (ucast (sw_wbk_en ctxt)) OR
       FIELD_SET SW_IND_CTXT_DATA_W1_IRQ_EN_MASK (ucast (sw_irq_en ctxt)) OR
       FIELD_SET SW_IND_CTXT_DATA_W1_PORT_ID_MASK (ucast (sw_port_id ctxt)) OR
       FIELD_SET SW_IND_CTXT_DATA_W1_IRQ_NO_LAST_MASK (ucast (sw_irq_no_last ctxt)) OR
       FIELD_SET SW_IND_CTXT_DATA_W1_ERR_MASK (ucast (sw_err ctxt)) OR
       FIELD_SET SW_IND_CTXT_DATA_W1_ERR_WB_SENT_MASK (ucast (sw_err_wb_sent ctxt)) OR
       FIELD_SET SW_IND_CTXT_DATA_W1_IRQ_REQ_MASK (ucast (sw_irq_req ctxt)) OR
       FIELD_SET SW_IND_CTXT_DATA_W1_MRKR_DIS_MASK (ucast (sw_mrkr_dis ctxt)) OR
       FIELD_SET SW_IND_CTXT_DATA_W1_IS_MM_MASK (ucast (sw_is_mm ctxt)),
      ucast (sw_ring_bs_addr ctxt AND 0xffffffff),
      ucast (drop_bit 32 (sw_ring_bs_addr ctxt) AND 0xffffffff)]"

definition qdma_cpm4_sw_fields :: "u32 list \<Rightarrow> qdma_descq_sw_ctxt \<Rightarrow> qdma_descq_sw_ctxt" where
  "qdma_cpm4_sw_fields ctxt_data ctxt =
     ctxt\<lparr>sw_pidx := ucast (FIELD_GET SW_IND_CTXT_DATA_W0_PIDX_MASK (ctxt_data ! 0)),
       sw_irq_arm := ucast (FIELD_GET SW_IND_CTXT_DATA_W0_IRQ_ARM_MASK (ctxt_data ! 0)),
       sw_qen := ucast (FIELD_GET SW_IND_CTXT_DATA_W1_QEN_MASK (ctxt_data ! 1)),
       sw_frcd_en := ucast (FIELD_GET SW_IND_CTXT_DATA_W1_FCRD_EN_MASK (ctxt_data ! 1)),
       sw_wbi_chk := ucast (FIELD_GET SW_IND_CTXT_DATA_W1_WBI_CHK_MASK (ctxt_data ! 1)),
       sw_wbi_intvl_en := ucast (FIELD_GET SW_IND_CTXT_DATA_W1_WBI_INTVL_EN_MASK (ctxt_data ! 1)),
       sw_fnc_id := ucast (FIELD_GET SW_IND_CTXT_DATA_W1_FNC_ID_MASK (ctxt_data ! 1)),
       sw_rngsz_idx := ucast (FIELD_GET SW_IND_CTXT_DATA_W1_RNG_SZ_MASK (ctxt_data ! 1)),
       sw_desc_sz := ucast (FIELD_GET SW_IND_CTXT_DATA_W1_DSC_SZ_MASK (ctxt_data ! 1)),
       sw_bypass := ucast (FIELD_GET SW_IND_CTXT_DATA_W1_BYPASS_MASK (ctxt_data ! 1)),
       sw_mm_chn := ucast (FIELD_GET SW_IND_CTXT_DATA_W1_MM_CHN_MASK (ctxt_data ! 1)),
       sw_wbk_en := ucast (FIELD_GET SW_IND_CTXT_DATA_W1_WBK_EN_MASK (ctxt_data ! 1)),
       sw_irq_en := ucast (FIELD_GET SW_IND_CTXT_DATA_W1_IRQ_EN_MASK (ctxt_data ! 1)),
       sw_port_id := ucast (FIELD_GET SW_IND_CTXT_DATA_W1_PORT_ID_MASK (ctxt_data ! 1)),
       sw_irq_no_last := ucast (FIELD_GET SW_IND_CTXT_DATA_W1_IRQ_NO_LAST_MASK (ctxt_data ! 1)),
       sw_err := ucast (FIELD_GET SW_IND_CTXT_DATA_W1_ERR_MASK (ctxt_data ! 1)),
       sw_err_wb_sent := ucast (FIELD_GET SW_IND_CTXT_DATA_W1_ERR_WB_SENT_MASK (ctxt_data ! 1)),
       sw_irq_req := ucast (FIELD_GET SW_IND_CTXT_DATA_W1_IRQ_REQ_MASK (ctxt_data ! 1)),
       sw_mrkr_dis := ucast (FIELD_GET SW_IND_CTXT_DATA_W1_MRKR_DIS_MASK (ctxt_data ! 1)),
       sw_is_mm := ucast (FIELD_GET SW_IND_CTXT_DATA_W1_IS_MM_MASK (ctxt_data ! 1)),
       sw_ring_bs_addr := push_bit 32 (ucast (ctxt_data ! 3)) OR ucast (ctxt_data ! 2)\<rparr>"

definition qdma_cpm4_sw_context_write ::
  "'d mmio \<Rightarrow> 'd xdev option \<Rightarrow> u8 \<Rightarrow> u16 \<Rightarrow> qdma_descq_sw_ctxt option \<Rightarrow> int \<times> 'd xdev option" where
  "qdma_cpm4_sw_context_write io dev c2h hw_qid ctxt =
     (case (dev, ctxt) of
        (Some d, Some c) \<Rightarrow>
          if sw_desc_sz c > QDMA_DESC_SIZE_64B \<or> sw_rngsz_idx c \<ge> QDMA_NUM_RING_SIZES
          then (neg_err QDMA_ERR_INV_PARAM, dev)
          else context_write (qdma_cpm4_indirect_reg_write io) qdma_cpm4_sw_words dev
            (if c2h \<noteq> 0 then QDMA_CTXT_SEL_SW_C2H else QDMA_CTXT_SEL_SW_H2C) hw_qid ctxt
      | _ \<Rightarrow> (neg_err QDMA_ERR_INV_PARAM, dev))"

definition qdma_cpm4_sw_context_read ::
  "'d mmio \<Rightarrow> 'd xdev option \<Rightarrow> u8 \<Rightarrow> u16 \<Rightarrow> qdma_descq_sw_ctxt option \<Rightarrow> int \<times> qdma_descq_sw_ctxt option \<times> 'd xdev option" where
  "qdma_cpm4_sw_context_read io dev c2h hw_qid ctxt =
     (case context_read (qdma_cpm4_indirect_reg_read io) 4 qdma_cpm4_sw_fields dev
         (if c2h \<noteq> 0 then QDMA_CTXT_SEL_SW_C2H else QDMA_CTXT_SEL_SW_H2C) hw_qid ctxt of
        (rv, Some c, dev') \<Rightarrow>
          if rv < 0 then (rv, Some c, dev')
          else (case qdma_cpm4_qid2vec_read io dev' c2h hw_qid (Some qv_zeroed) of
              (rv, Some v, dev'') \<Rightarrow>
                if rv < 0 then (rv, Some c, dev'')
                else (err_code QDMA_SUCCESS,
                  Some (if c2h \<noteq> 0
                    then c\<lparr>sw_vec := ucast (qv_c2h_vector v), sw_intr_aggr := qv_c2h_en_coal v\<rparr>
                    else c\<lparr>sw_vec := ucast (qv_h2c_vector v), sw_intr_aggr := qv_h2c_en_coal v\<rparr>),
                  dev'')
            | (rv, None, dev'') \<Rightarrow> (rv, Some c, dev''))
      | (rv, None, dev') \<Rightarrow> (rv, None, dev'))"

definition qdma_cpm4_sw_context_clear ::
  "'d mmio \<Rightarrow> 'd xdev option \<Rightarrow> u8 \<Rightarrow> u16 \<Rightarrow> int \<times> 'd xdev option" where
  "qdma_cpm4_sw_context_clear io dev c2h hw_qid =
     context_cmd (qdma_cpm4_indirect_reg_clear io) dev
       (if c2h \<noteq> 0 then QDMA_CTXT_SEL_SW_C2H else QDMA_CTXT_SEL_SW_H2C) hw_qid"

definition qdma_cpm4_sw_context_invalidate ::
  "'d mmio \<Rightarrow> 'd xdev option \<Rightarrow> u8 \<Rightarrow> u16 \<Rightarrow> int \<times> 'd xdev option" where
  "qdma_cpm4_sw_context_invalidate io dev c2h hw_qid =
     context_cmd (qdma_cpm4_indirect_reg_invalidate io) dev
       (if c2h \<noteq> 0 then QDMA_CTXT_SEL_SW_C2H else QDMA_CTXT_SEL_SW_H2C) hw_qid"

definition qdma_cpm4_sw_ctx_conf ::
  "'d mmio \<Rightarrow> 'd xdev option \<Rightarrow> u8 \<Rightarrow> u16 \<Rightarrow> qdma_descq_sw_ctxt option \<Rightarrow> qdma_hw_access_type \<Rightarrow>
   int \<times> qdma_descq_sw_ctxt option \<times> 'd xdev option" where
  "qdma_cpm4_sw_ctx_conf io dev c2h hw_qid ctxt access_type =
     (case access_type of
        QDMA_HW_ACCESS_READ \<Rightarrow> qdma_cpm4_sw_context_read io dev c2h hw_qid ctxt
      | QDMA_HW_ACCESS_WRITE \<Rightarrow> keep_ctxt ctxt (qdma_cpm4_sw_context_write io dev c2h hw_qid ctxt)
      | QDMA_HW_ACCESS_CLEAR \<Rightarrow> keep_ctxt ctxt (qdma_cpm4_sw_context_clear io dev c2h hw_qid)
      | QDMA_HW_ACCESS_INVALIDATE \<Rightarrow> keep_ctxt ctxt (qdma_cpm4_sw_context_invalidate io dev c2h hw_qid)
      | _ \<Rightarrow> (neg_err QDMA_ERR_INV_PARAM, ctxt, dev))"

text \<open>What a software context keeps on its way through the registers.\<close>

definition qdma_cpm4_sw_stored :: "qdma_descq_sw_ctxt \<Rightarrow> qdma_descq_sw_ctxt \<Rightarrow> qdma_descq_sw_ctxt" where
  "qdma_cpm4_sw_stored c c0 =
     c0\<lparr>sw_pidx := sw_pidx c,
       sw_irq_arm := take_bit 1 (sw_irq_arm c),
       sw_qen := take_bit 1 (sw_qen c),
       sw_frcd_en := take_bit 1 (sw_frcd_en c),
       sw_wbi_chk := take_bit 1 (sw_wbi_chk c),
       sw_wbi_intvl_en := take_bit 1 (sw_wbi_intvl_en c),
       sw_fnc_id := sw_fnc_id c,
       sw_rngsz_idx := take_bit 4 (sw_rngsz_idx c),
       sw_desc_sz := take_bit 2 (sw_desc_sz c),
       sw_bypass := take_bit 1 (sw_bypass c),
       sw_mm_chn := take_bit 1 (sw_mm_chn c),
       sw_wbk_en := take_bit 1 (sw_wbk_en c),
       sw_irq_en := take_bit 1 (sw_irq_en c),
       sw_port_id := take_bit 3 (sw_port_id c),
       sw_irq_no_last := take_bit 1 (sw_irq_no_last c),
       sw_err := take_bit 2 (sw_err c),
       sw_err_wb_sent := take_bit 1 (sw_err_wb_sent c),
       sw_irq_req := take_bit 1 (sw_irq_req c),
       sw_mrkr_dis := take_bit 1 (sw_mrkr_dis c),
       sw_is_mm := take_bit 1 (sw_is_mm c),
       sw_ring_bs_addr := sw_ring_bs_addr c\<rparr>"

lemma qdma_cpm4_sw_dec_enc: "qdma_cpm4_sw_fields (qdma_cpm4_sw_words c) c0 = qdma_cpm4_sw_stored c c0"
  by (simp add: qdma_cpm4_sw_fields_def qdma_cpm4_sw_words_def qdma_cpm4_sw_stored_def field_simps field_parts;
      (simp add: AND_GENMASK_low field_simps)?)

interpretation qdma_cpm4_sw: cpm4_codec qdma_cpm4_sw_words qdma_cpm4_sw_fields qdma_cpm4_sw_stored 4
  by unfold_locales
     (simp_all only: qdma_cpm4_sw_dec_enc, simp_all add: qdma_cpm4_sw_words_def qdma_cpm4_sw_fields_def)

section \<open>Prefetch context\<close>

definition qdma_cpm4_pfetch_words :: "qdma_descq_prefetch_ctxt \<Rightarrow> u32 list" where
  "qdma_cpm4_pfetch_words ctxt =
    (let sw_crdt_l = FIELD_GET QDMA_PFTCH_CTXT_SW_CRDT_GET_L_MASK (ucast (pf_sw_crdt ctxt));
         sw_crdt_h = FIELD_GET QDMA_PFTCH_CTXT_SW_CRDT_GET_H_MASK (ucast (pf_sw_crdt ctxt)) in
     [FIELD_SET PREFETCH_CTXT_DATA_W0_BYPASS_MASK (ucast (pf_bypass ctxt)) OR
       FIELD_SET PREFETCH_CTXT_DATA_W0_BUF_SIZE_IDX_MASK (ucast (pf_bufsz_idx ctxt)) OR
       FIELD_SET PREFETCH_CTXT_DATA_W0_PORT_ID_MASK (ucast (pf_port_id ctxt)) OR
       FIELD_SET PREFETCH_CTXT_DATA_W0_ERR_MASK (ucast (pf_err ctxt)) OR
       FIELD_SET PREFETCH_CTXT_DATA_W0_PFCH_EN_MASK (ucast (pf_pfch_en ctxt)) OR
       FIELD_SET PREFETCH_CTXT_DATA_W0_PFCH_MASK (ucast (pf_pfch ctxt)) OR
       FIELD_SET PREFETCH_CTXT_DATA_W0_SW_CRDT_L_MASK sw_crdt_l,
      FIELD_SET PREFETCH_CTXT_DATA_W1_SW_CRDT_H_MASK sw_crdt_h OR
       FIELD_SET PREFETCH_CTXT_DATA_W1_VALID_MASK (ucast (pf_valid ctxt))])"

definition qdma_cpm4_pfetch_fields :: "u32 list \<Rightarrow> qdma_descq_prefetch_ctxt \<Rightarrow> qdma_descq_prefetch_ctxt" where
  "qdma_cpm4_pfetch_fields ctxt_data ctxt =
    (let sw_crdt_l = FIELD_GET PREFETCH_CTXT_DATA_W0_SW_CRDT_L_MASK (ctxt_data ! 0);
         sw_crdt_h = FIELD_GET PREFETCH_CTXT_DATA_W1_SW_CRDT_H_MASK (ctxt_data ! 1) in
     ctxt\<lparr>pf_bypass := ucast (FIELD_GET PREFETCH_CTXT_DATA_W0_BYPASS_MASK (ctxt_data ! 0)),
       pf_bufsz_idx := ucast (FIELD_GET PREFETCH_CTXT_DATA_W0_BUF_SIZE_IDX_MASK (ctxt_data ! 0)),
       pf_port_id := ucast (FIELD_GET PREFETCH_CTXT_DATA_W0_PORT_ID_MASK (ctxt_data ! 0)),
       pf_err := ucast (FIELD_GET PREFETCH_CTXT_DATA_W0_ERR_MASK (ctxt_data ! 0)),
       pf_pfch_en := ucast (FIELD_GET PREFETCH_CTXT_DATA_W0_PFCH_EN_MASK (ctxt_data ! 0)),
       pf_pfch := ucast (FIELD_GET PREFETCH_CTXT_DATA_W0_PFCH_MASK (ctxt_data ! 0)),
       pf_valid := ucast (FIELD_GET PREFETCH_CTXT_DATA_W1_VALID_MASK (ctxt_data ! 1)),
       pf_sw_crdt := ucast (FIELD_SET QDMA_PFTCH_CTXT_SW_CRDT_GET_L_MASK sw_crdt_l OR
         FIELD_SET QDMA_PFTCH_CTXT_SW_CRDT_GET_H_MASK sw_crdt_h)\<rparr>)"

definition qdma_cpm4_pfetch_context_write ::
  "'d mmio \<Rightarrow> 'd xdev option \<Rightarrow> u16 \<Rightarrow> qdma_descq_prefetch_ctxt option \<Rightarrow> int \<times> 'd xdev option" where
  "qdma_cpm4_pfetch_context_write io dev hw_qid ctxt =
     context_write (qdma_cpm4_indirect_reg_write io) qdma_cpm4_pfetch_words dev
       QDMA_CTXT_SEL_PFTCH hw_qid ctxt"

definition qdma_cpm4_pfetch_context_read ::
  "'d mmio \<Rightarrow> 'd xdev option \<Rightarrow> u16 \<Rightarrow> qdma_descq_prefetch_ctxt option \<Rightarrow> int \<times> qdma_descq_prefetch_ctxt option \<times> 'd xdev option" where
  "qdma_cpm4_pfetch_context_read io dev hw_qid ctxt =
     context_read (qdma_cpm4_indirect_reg_read io) 2 qdma_cpm4_pfetch_fields dev
       QDMA_CTXT_SEL_PFTCH hw_qid ctxt"

definition qdma_cpm4_pfetch_context_clear ::
  "'d mmio \<Rightarrow> 'd xdev option \<Rightarrow> u16 \<Rightarrow> int \<times> 'd xdev option" where
  "qdma_cpm4_pfetch_context_clear io dev hw_qid =
     context_cmd (qdma_cpm4_indirect_reg_clear io) dev
       QDMA_CTXT_SEL_PFTCH hw_qid"

definition qdma_cpm4_pfetch_context_invalidate ::
  "'d mmio \<Rightarrow> 'd xdev option \<Rightarrow> u16 \<Rightarrow> int \<times> 'd xdev option" where
  "qdma_cpm4_pfetch_context_invalidate io dev hw_qid =
     context_cmd (qdma_cpm4_indirect_reg_invalidate io) dev
       QDMA_CTXT_SEL_PFTCH hw_qid"

definition qdma_cpm4_pfetch_ctx_conf ::
  "'d mmio \<Rightarrow> 'd xdev option \<Rightarrow> u16 \<Rightarrow> qdma_descq_prefetch_ctxt option \<Rightarrow> qdma_hw_access_type \<Rightarrow>
   int \<times> qdma_descq_prefetch_ctxt option \<times> 'd xdev option" where
  "qdma_cpm4_pfetch_ctx_conf io dev hw_qid ctxt access_type =
     (case access_type of
        QDMA_HW_ACCESS_READ \<Rightarrow> qdma_cpm4_pfetch_context_read io dev hw_qid ctxt
      | QDMA_HW_ACCESS_WRITE \<Rightarrow> keep_ctxt ctxt (qdma_cpm4_pfetch_context_write io dev hw_qid ctxt)
      | QDMA_HW_ACCESS_CLEAR \<Rightarrow> keep_ctxt ctxt (qdma_cpm4_pfetch_context_clear io dev hw_qid)
      | QDMA_HW_ACCESS_INVALIDATE \<Rightarrow> keep_ctxt ctxt (qdma_cpm4_pfetch_context_invalidate io dev hw_qid)
      | _ \<Rightarrow> (neg_err QDMA_ERR_INV_PARAM, ctxt, dev))"

text \<open>What a prefetch context keeps on its way through the registers.\<close>

definition qdma_cpm4_pfetch_stored :: "qdma_descq_prefetch_ctxt \<Rightarrow> qdma_descq_prefetch_ctxt \<Rightarrow> qdma_descq_prefetch_ctxt" where
  "qdma_cpm4_pfetch_stored c c0 =
     c0\<lparr>pf_bypass := take_bit 1 (pf_bypass c),
       pf_bufsz_idx := take_bit 4 (pf_bufsz_idx c),
       pf_port_id := take_bit 3 (pf_port_id c),
       pf_err := take_bit 1 (pf_err c),
       pf_pfch_en := take_bit 1 (pf_pfch_en c),
       pf_pfch := take_bit 1 (pf_pfch c),
       pf_valid := take_bit 1 (pf_valid c),
       pf_sw_crdt := pf_sw_crdt c\<rparr>"

lemma qdma_cpm4_pfetch_dec_enc: "qdma_cpm4_pfetch_fields (qdma_cpm4_pfetch_words c) c0 = qdma_cpm4_pfetch_stored c c0"
  by (simp add: qdma_cpm4_pfetch_fields_def qdma_cpm4_pfetch_words_def qdma_cpm4_pfetch_stored_def field_simps field_parts;
      (simp add: AND_GENMASK_low field_simps)?)

interpretation qdma_cpm4_pfetch: cpm4_codec qdma_cpm4_pfetch_words qdma_cpm4_pfetch_fields qdma_cpm4_pfetch_stored 2
  by unfold_locales
     (simp_all only: qdma_cpm4_pfetch_dec_enc, simp_all add: qdma_cpm4_pfetch_words_def qdma_cpm4_pfetch_fields_def)

section \<open>Completion context\<close>

definition qdma_cpm4_cmpt_words :: "qdma_descq_cmpt_ctxt \<Rightarrow> u32 list" where
  "qdma_cpm4_cmpt_words ctxt =
    (let baddr_l = (ucast (FIELD_GET QDMA_CPM4_COMPL_CTXT_BADDR_GET_L_MASK (cm_bs_addr ctxt)) :: u32);
         baddr_m = (ucast (FIELD_GET QDMA_CPM4_COMPL_CTXT_BADDR_GET_M_MASK (cm_bs_addr ctxt)) :: u32);
         baddr_h = (ucast (FIELD_GET QDMA_CPM4_COMPL_CTXT_BADDR_GET_H_MASK (cm_bs_addr ctxt)) :: u32);
         pidx_l = FIELD_GET QDMA_CPM4_COMPL_CTXT_PIDX_GET_L_MASK (ucast (cm_pidx ctxt));
         pidx_h = FIELD_GET QDMA_CPM4_COMPL_CTXT_PIDX_GET_H_MASK (ucast (cm_pidx ctxt)) in
     [FIELD_SET CMPL_CTXT_DATA_W0_EN_STAT_DESC_MASK (ucast (cm_en_stat_desc ctxt)) OR
       FIELD_SET CMPL_CTXT_DATA_W0_EN_INT_MASK (ucast (cm_en_int ctxt)) OR
       FIELD_SET CMPL_CTXT_DATA_W0_TRIG_MODE_MASK (ucast (cm_trig_mode ctxt)) OR
       FIELD_SET CMPL_CTXT_DATA_W0_FNC_ID_MASK (ucast (cm_fnc_id ctxt)) OR
       FIELD_SET CMPL_CTXT_DATA_W0_CNTER_IDX_MASK (ucast (cm_counter_idx ctxt)) OR
       FIELD_SET CMPL_CTXT_DATA_W0_TIMER_IDX_MASK (ucast (cm_timer_idx ctxt)) OR
       FIELD_SET CMPL_CTXT_DATA_W0_INT_ST_MASK (ucast (cm_in_st ctxt)) OR
       FIELD_SET CMPL_CTXT_DATA_W0_COLOR_MASK (ucast (cm_color ctxt)) OR
       FIELD_SET CMPL_CTXT_DATA_W0_QSIZE_IDX_MASK (ucast (cm_ringsz_idx ctxt)) OR
       FIELD_SET CMPL_CTXT_DATA_W0_BADDR_64_L_MASK baddr_l,
      FIELD_SET CMPL_CTXT_DATA_W1_BADDR_64_M_MASK baddr_m,
      FIELD_SET CMPL_CTXT_DATA_W2_BADDR_64_H_MASK baddr_h OR
       FIELD_SET CMPL_CTXT_DATA_W2_DESC_SIZE_MASK (ucast (cm_desc_sz ctxt)) OR
       FIELD_SET CMPL_CTXT_DATA_W2_PIDX_L_MASK pidx_l,
      FIELD_SET CMPL_CTXT_DATA_W3_PIDX_H_MASK pidx_h OR
       FIELD_SET CMPL_CTXT_DATA_W3_CIDX_MASK (ucast (cm_cidx ctxt)) OR
       FIELD_SET CMPL_CTXT_DATA_W3_VALID_MASK (ucast (cm_valid ctxt)) OR
       FIELD_SET CMPL_CTXT_DATA_W3_ERR_MASK (ucast (cm_err ctxt)) OR
       FIELD_SET CMPL_CTXT_DATA_W3_USER_TRIG_PEND_MASK (ucast (cm_user_trig_pend ctxt)) OR
       FIELD_SET CMPL_CTXT_DATA_W3_TIMER_RUNNING_MASK (ucast (cm_timer_running ctxt)) OR
       FIELD_SET CMPL_CTXT_DATA_W3_FULL_UPD_MASK (ucast (cm_full_upd ctxt))])"

definition qdma_cpm4_cmpt_fields :: "u32 list \<Rightarrow> qdma_descq_cmpt_ctxt \<Rightarrow> qdma_descq_cmpt_ctxt" where
  "qdma_cpm4_cmpt_fields ctxt_data ctxt =
    (let baddr_l = FIELD_GET CMPL_CTXT_DATA_W0_BADDR_64_L_MASK (ctxt_data ! 0);
         baddr_m = FIELD_GET CMPL_CTXT_DATA_W1_BADDR_64_M_MASK (ctxt_data ! 1);
         baddr_h = FIELD_GET CMPL_CTXT_DATA_W2_BADDR_64_H_MASK (ctxt_data ! 2);
         pidx_l = FIELD_GET CMPL_CTXT_DATA_W2_PIDX_L_MASK (ctxt_data ! 2);
         pidx_h = FIELD_GET CMPL_CTXT_DATA_W3_PIDX_H_MASK (ctxt_data ! 3) in
     ctxt\<lparr>cm_en_stat_desc := ucast (FIELD_GET CMPL_CTXT_DATA_W0_EN_STAT_DESC_MASK (ctxt_data ! 0)),
       cm_en_int := ucast (FIELD_GET CMPL_CTXT_DATA_W0_EN_INT_MASK (ctxt_data ! 0)),
       cm_trig_mode := ucast (FIELD_GET CMPL_CTXT_DATA_W0_TRIG_MODE_MASK (ctxt_data ! 0)),
       cm_fnc_id := ucast (FIELD_GET CMPL_CTXT_DATA_W0_FNC_ID_MASK (ctxt_data ! 0)),
       cm_counter_idx := ucast (FIELD_GET CMPL_CTXT_DATA_W0_CNTER_IDX_MASK (ctxt_data ! 0)),
       cm_timer_idx := ucast (FIELD_GET CMPL_CTXT_DATA_W0_TIMER_IDX_MASK (ctxt_data ! 0)),
       cm_in_st := ucast (FIELD_GET CMPL_CTXT_DATA_W0_INT_ST_MASK (ctxt_data ! 0)),
       cm_color := ucast (FIELD_GET CMPL_CTXT_DATA_W0_COLOR_MASK (ctxt_data ! 0)),
       cm_ringsz_idx := ucast (FIELD_GET CMPL_CTXT_DATA_W0_QSIZE_IDX_MASK (ctxt_data ! 0)),
       cm_desc_sz := ucast (FIELD_GET CMPL_CTXT_DATA_W2_DESC_SIZE_MASK (ctxt_data ! 2)),
       cm_cidx := ucast (FIELD_GET CMPL_CTXT_DATA_W3_CIDX_MASK (ctxt_data ! 3)),
       cm_valid := ucast (FIELD_GET CMPL_CTXT_DATA_W3_VALID_MASK (ctxt_data ! 3)),
       cm_err := ucast (FIELD_GET CMPL_CTXT_DATA_W3_ERR_MASK (ctxt_data ! 3)),
       cm_user_trig_pend := ucast (FIELD_GET CMPL_CTXT_DATA_W3_USER_TRIG_PEND_MASK (ctxt_data ! 3)),
       cm_timer_running := ucast (FIELD_GET CMPL_CTXT_DATA_W3_TIMER_RUNNING_MASK (ctxt_data ! 3)),
       cm_full_upd := ucast (FIELD_GET CMPL_CTXT_DATA_W3_FULL_UPD_MASK (ctxt_data ! 3)),
       cm_bs_addr := FIELD_SET QDMA_CPM4_COMPL_CTXT_BADDR_GET_L_MASK (ucast baddr_l) OR
         FIELD_SET QDMA_CPM4_COMPL_CTXT_BADDR_GET_M_MASK (ucast baddr_m) OR
         FIELD_SET QDMA_CPM4_COMPL_CTXT_BADDR_GET_H_MASK (ucast baddr_h),
       cm_pidx := ucast (FIELD_SET QDMA_CPM4_COMPL_CTXT_PIDX_GET_L_MASK pidx_l OR
         FIELD_SET QDMA_CPM4_COMPL_CTXT_PIDX_GET_H_MASK pidx_h)\<rparr>)"

definition qdma_cpm4_cmpt_context_write ::
  "'d mmio \<Rightarrow> 'd xdev option \<Rightarrow> u16 \<Rightarrow> qdma_descq_cmpt_ctxt option \<Rightarrow> int \<times> 'd xdev option" where
  "qdma_cpm4_cmpt_context_write io dev hw_qid ctxt =
     (case (dev, ctxt) of
        (Some d, Some c) \<Rightarrow>
          if cm_desc_sz c > QDMA_DESC_SIZE_32B \<or>
            FIELD_GET CMPL_CTXT_DATA_W0_QSIZE_IDX_MASK (ucast (cm_ringsz_idx c)) \<ge> QDMA_NUM_RING_SIZES \<or>
            FIELD_GET CMPL_CTXT_DATA_W0_CNTER_IDX_MASK (ucast (cm_counter_idx c)) \<ge> QDMA_NUM_C2H_COUNTERS \<or>
            FIELD_GET CMPL_CTXT_DATA_W0_TIMER_IDX_MASK (ucast (cm_timer_idx c)) \<ge> QDMA_NUM_C2H_TIMERS \<or>
            cm_trig_mode c > QDMA_CMPT_UPDATE_TRIG_MODE_TMR_CNTR
          then (neg_err QDMA_ERR_INV_PARAM, dev)
          else context_write (qdma_cpm4_indirect_reg_write io) qdma_cpm4_cmpt_words dev QDMA_CTXT_SEL_CMPT hw_qid ctxt
      | _ \<Rightarrow> (neg_err QDMA_ERR_INV_PARAM, dev))"

definition qdma_cpm4_cmpt_context_read ::
  "'d mmio \<Rightarrow> 'd xdev option \<Rightarrow> u16 \<Rightarrow> qdma_descq_cmpt_ctxt option \<Rightarrow> int \<times> qdma_descq_cmpt_ctxt option \<times> 'd xdev option" where
  "qdma_cpm4_cmpt_context_read io dev hw_qid ctxt =
     context_read (qdma_cpm4_indirect_reg_read io) 4 qdma_cpm4_cmpt_fields dev
       QDMA_CTXT_SEL_CMPT hw_qid ctxt"

definition qdma_cpm4_cmpt_context_clear ::
  "'d mmio \<Rightarrow> 'd xdev option \<Rightarrow> u16 \<Rightarrow> int \<times> 'd xdev option" where
  "qdma_cpm4_cmpt_context_clear io dev hw_qid =
     context_cmd (qdma_cpm4_indirect_reg_clear io) dev
       QDMA_CTXT_SEL_CMPT hw_qid"

definition qdma_cpm4_cmpt_context_invalidate ::
  "'d mmio \<Rightarrow> 'd xdev option \<Rightarrow> u16 \<Rightarrow> int \<times> 'd xdev option" where
  "qdma_cpm4_cmpt_context_invalidate io dev hw_qid =
     context_cmd (qdma_cpm4_indirect_reg_invalidate io) dev
       QDMA_CTXT_SEL_CMPT hw_qid"

definition qdma_cpm4_cmpt_ctx_conf ::
  "'d mmio \<Rightarrow> 'd xdev option \<Rightarrow> u16 \<Rightarrow> qdma_descq_cmpt_ctxt option \<Rightarrow> qdma_hw_access_type \<Rightarrow>
   int \<times> qdma_descq_cmpt_ctxt option \<times> 'd xdev option" where
  "qdma_cpm4_cmpt_ctx_conf io dev hw_qid ctxt access_type =
     (case access_type of
        QDMA_HW_ACCESS_READ \<Rightarrow> qdma_cpm4_cmpt_context_read io dev hw_qid ctxt
      | QDMA_HW_ACCESS_WRITE \<Rightarrow> keep_ctxt ctxt (qdma_cpm4_cmpt_context_write io dev hw_qid ctxt)
      | QDMA_HW_ACCESS_CLEAR \<Rightarrow> keep_ctxt ctxt (qdma_cpm4_cmpt_context_clear io dev hw_qid)
      | QDMA_HW_ACCESS_INVALIDATE \<Rightarrow> keep_ctxt ctxt (qdma_cpm4_cmpt_context_invalidate io dev hw_qid)
      | _ \<Rightarrow> (neg_err QDMA_ERR_INV_PARAM, ctxt, dev))"

text \<open>What a completion context keeps on its way through the registers.\<close>

definition qdma_cpm4_cmpt_stored :: "qdma_descq_cmpt_ctxt \<Rightarrow> qdma_descq_cmpt_ctxt \<Rightarrow> qdma_descq_cmpt_ctxt" where
  "qdma_cpm4_cmpt_stored c c0 =
     c0\<lparr>cm_en_stat_desc := cm_en_stat_desc c,
       cm_en_int := cm_en_int c,
       cm_trig_mode := cm_trig_mode c,
       cm_fnc_id := cm_fnc_id c,
       cm_counter_idx := cm_counter_idx c,
       cm_timer_idx := cm_timer_idx c,
       cm_in_st := cm_in_st c,
       cm_color := cm_color c,
       cm_ringsz_idx := cm_ringsz_idx c,
       cm_desc_sz := cm_desc_sz c,
       cm_cidx := cm_cidx c,
       cm_valid := cm_valid c,
       cm_err := cm_err c,
       cm_user_trig_pend := cm_user_trig_pend c,
       cm_timer_running := cm_timer_running c,
       cm_full_upd := cm_full_upd c,
       cm_bs_addr := cm_bs_addr c AND GENMASK 63 6,
       cm_pidx := cm_pidx c\<rparr>"

lemma qdma_cpm4_cmpt_dec_enc: "qdma_cpm4_cmpt_fields (qdma_cpm4_cmpt_words c) c0 = qdma_cpm4_cmpt_stored c c0"
  by (simp add: qdma_cpm4_cmpt_fields_def qdma_cpm4_cmpt_words_def qdma_cpm4_cmpt_stored_def field_simps field_parts;
      (simp add: AND_GENMASK_low field_simps)?)

interpretation qdma_cpm4_cmpt: cpm4_codec qdma_cpm4_cmpt_words qdma_cpm4_cmpt_fields qdma_cpm4_cmpt_stored 4
  by unfold_locales
     (simp_all only: qdma_cpm4_cmpt_dec_enc, simp_all add: qdma_cpm4_cmpt_words_def qdma_cpm4_cmpt_fields_def)

section \<open>Hardware context\<close>

definition qdma_cpm4_hw_fields :: "u32 list \<Rightarrow> qdma_descq_hw_ctxt \<Rightarrow> qdma_descq_hw_ctxt" where
  "qdma_cpm4_hw_fields ctxt_data ctxt =
     ctxt\<lparr>hw_cidx := ucast (FIELD_GET HW_IND_CTXT_DATA_W0_CIDX_MASK (ctxt_data ! 0)),
       hw_crd_use := ucast (FIELD_GET HW_IND_CTXT_DATA_W0_CRD_USE_MASK (ctxt_data ! 0)),
       hw_dsc_pend := ucast (FIELD_GET HW_IND_CTXT_DATA_W1_DSC_PND_MASK (ctxt_data ! 1)),
       hw_idl_stp_b := ucast (FIELD_GET HW_IND_CTXT_DATA_W1_IDL_STP_B_MASK (ctxt_data ! 1)),
       hw_fetch_pnd := ucast (FIELD_GET HW_IND_CTXT_DATA_W1_FETCH_PND_MASK (ctxt_data ! 1))\<rparr>"

definition qdma_cpm4_hw_context_read ::
  "'d mmio \<Rightarrow> 'd xdev option \<Rightarrow> u8 \<Rightarrow> u16 \<Rightarrow> qdma_descq_hw_ctxt option \<Rightarrow> int \<times> qdma_descq_hw_ctxt option \<times> 'd xdev option" where
  "qdma_cpm4_hw_context_read io dev c2h hw_qid ctxt =
     context_read (qdma_cpm4_indirect_reg_read io) 2 qdma_cpm4_hw_fields dev
       (if c2h \<noteq> 0 then QDMA_CTXT_SEL_HW_C2H else QDMA_CTXT_SEL_HW_H2C) hw_qid ctxt"

definition qdma_cpm4_hw_context_clear ::
  "'d mmio \<Rightarrow> 'd xdev option \<Rightarrow> u8 \<Rightarrow> u16 \<Rightarrow> int \<times> 'd xdev option" where
  "qdma_cpm4_hw_context_clear io dev c2h hw_qid =
     context_cmd (qdma_cpm4_indirect_reg_clear io) dev
       (if c2h \<noteq> 0 then QDMA_CTXT_SEL_HW_C2H else QDMA_CTXT_SEL_HW_H2C) hw_qid"

definition qdma_cpm4_hw_context_invalidate ::
  "'d mmio \<Rightarrow> 'd xdev option \<Rightarrow> u8 \<Rightarrow> u16 \<Rightarrow> int \<times> 'd xdev option" where
  "qdma_cpm4_hw_context_invalidate io dev c2h hw_qid =
     context_cmd (qdma_cpm4_indirect_reg_invalidate io) dev
       (if c2h \<noteq> 0 then QDMA_CTXT_SEL_HW_C2H else QDMA_CTXT_SEL_HW_H2C) hw_qid"

definition qdma_cpm4_hw_ctx_conf ::
  "'d mmio \<Rightarrow> 'd xdev option \<Rightarrow> u8 \<Rightarrow> u16 \<Rightarrow> qdma_descq_hw_ctxt option \<Rightarrow> qdma_hw_access_type \<Rightarrow>
   int \<times> qdma_descq_hw_ctxt option \<times> 'd xdev option" where
  "qdma_cpm4_hw_ctx_conf io dev c2h hw_qid ctxt access_type =
     (case access_type of
        QDMA_HW_ACCESS_READ \<Rightarrow> qdma_cpm4_hw_context_read io dev c2h hw_qid ctxt
      | QDMA_HW_ACCESS_CLEAR \<Rightarrow> keep_ctxt ctxt (qdma_cpm4_hw_context_clear io dev c2h hw_qid)
      | QDMA_HW_ACCESS_INVALIDATE \<Rightarrow> keep_ctxt ctxt (qdma_cpm4_hw_context_invalidate io dev c2h hw_qid)
      | _ \<Rightarrow> (neg_err QDMA_ERR_INV_PARAM, ctxt, dev))"

section \<open>Credit context\<close>

definition qdma_cpm4_credit_fields :: "u32 list \<Rightarrow> qdma_descq_credit_ctxt \<Rightarrow> qdma_descq_credit_ctxt" where
  "qdma_cpm4_credit_fields ctxt_data ctxt =
     ctxt\<lparr>cr_credit := FIELD_GET CRED_CTXT_DATA_W0_CREDT_MASK (ctxt_data ! 0)\<rparr>"

definition qdma_cpm4_credit_context_read ::
  "'d mmio \<Rightarrow> 'd xdev option \<Rightarrow> u8 \<Rightarrow> u16 \<Rightarrow> qdma_descq_credit_ctxt option \<Rightarrow> int \<times> qdma_descq_credit_ctxt option \<times> 'd xdev option" where
  "qdma_cpm4_credit_context_read io dev c2h hw_qid ctxt =
     context_read (qdma_cpm4_indirect_reg_read io) 1 qdma_cpm4_credit_fields dev
       (if c2h \<noteq> 0 then QDMA_CTXT_SEL_CR_C2H else QDMA_CTXT_SEL_CR_H2C) hw_qid ctxt"

definition qdma_cpm4_credit_context_clear ::
  "'d mmio \<Rightarrow> 'd xdev option \<Rightarrow> u8 \<Rightarrow> u16 \<Rightarrow> int \<times> 'd xdev option" where
  "qdma_cpm4_credit_context_clear io dev c2h hw_qid =
     context_cmd (qdma_cpm4_indirect_reg_clear io) dev
       (if c2h \<noteq> 0 then QDMA_CTXT_SEL_CR_C2H else QDMA_CTXT_SEL_CR_H2C) hw_qid"

definition qdma_cpm4_credit_context_invalidate ::
  "'d mmio \<Rightarrow> 'd xdev option \<Rightarrow> u8 \<Rightarrow> u16 \<Rightarrow> int \<times> 'd xdev option" where
  "qdma_cpm4_credit_context_invalidate io dev c2h hw_qid =
     context_cmd (qdma_cpm4_indirect_reg_invalidate io) dev
       (if c2h \<noteq> 0 then QDMA_CTXT_SEL_CR_C2H else QDMA_CTXT_SEL_CR_H2C) hw_qid"

definition qdma_cpm4_credit_ctx_conf ::
  "'d mmio \<Rightarrow> 'd xdev option \<Rightarrow> u8 \<Rightarrow> u16 \<Rightarrow> qdma_descq_credit_ctxt option \<Rightarrow> qdma_hw_access_type \<Rightarrow>
   int \<times> qdma_descq_credit_ctxt option \<times> 'd xdev option" where
  "qdma_cpm4_credit_ctx_conf io dev c2h hw_qid ctxt access_type =
     (case access_type of
        QDMA_HW_ACCESS_READ \<Rightarrow> qdma_cpm4_credit_context_read io dev c2h hw_qid ctxt
      | QDMA_HW_ACCESS_CLEAR \<Rightarrow> keep_ctxt ctxt (qdma_cpm4_credit_context_clear io dev c2h hw_qid)
      | QDMA_HW_ACCESS_INVALIDATE \<Rightarrow> keep_ctxt ctxt (qdma_cpm4_credit_context_invalidate io dev c2h hw_qid)
      | _ \<Rightarrow> (neg_err QDMA_ERR_INV_PARAM, ctxt, dev))"

section \<open>Indirect interrupt context\<close>

definition qdma_cpm4_indirect_intr_words :: "qdma_indirect_intr_ctxt \<Rightarrow> u32 list" where
  "qdma_cpm4_indirect_intr_words ctxt =
    (let baddr_l = (ucast (FIELD_GET QDMA_CPM4_INTR_CTXT_BADDR_GET_L_MASK (it_baddr_4k ctxt)) :: u32);
         baddr_h = (ucast (FIELD_GET QDMA_CPM4_INTR_CTXT_BADDR_GET_H_MASK (it_baddr_4k ctxt)) :: u32) in
     [FIELD_SET INTR_CTXT_DATA_W0_VALID_MASK (ucast (it_valid ctxt)) OR
       FIELD_SET INTR_CTXT_DATA_W0_VEC_MASK (ucast (it_vec ctxt)) OR
       FIELD_SET INTR_CTXT_DATA_W0_INT_ST_MASK (ucast (it_int_st ctxt)) OR
       FIELD_SET INTR_CTXT_DATA_W0_COLOR_MASK (ucast (it_color ctxt)) OR
       FIELD_SET INTR_CTXT_DATA_W0_BADDR_4K_L_MASK baddr_l,
      FIELD_SET INTR_CTXT_DATA_W1_BADDR_4K_H_MASK baddr_h OR
       FIELD_SET INTR_CTXT_DATA_W1_PAGE_SIZE_MASK (ucast (it_page_size ctxt)),
      FIELD_SET INTR_CTXT_DATA_W2_PIDX_MASK (ucast (it_pidx ctxt))])"

definition qdma_cpm4_indirect_intr_fields :: "u32 list \<Rightarrow> qdma_indirect_intr_ctxt \<Rightarrow> qdma_indirect_intr_ctxt" where
  "qdma_cpm4_indirect_intr_fields ctxt_data ctxt =
    (let baddr_l = (ucast (FIELD_GET INTR_CTXT_DATA_W0_BADDR_4K_L_MASK (ctxt_data ! 0)) :: 64 word);
         baddr_h = (ucast (FIELD_GET INTR_CTXT_DATA_W1_BADDR_4K_H_MASK (ctxt_data ! 1)) :: 64 word) in
     ctxt\<lparr>it_valid := ucast (FIELD_GET INTR_CTXT_DATA_W0_VALID_MASK (ctxt_data ! 0)),
       it_vec := ucast (FIELD_GET INTR_CTXT_DATA_W0_VEC_MASK (ctxt_data ! 0)),
       it_int_st := ucast (FIELD_GET INTR_CTXT_DATA_W0_INT_ST_MASK (ctxt_data ! 0)),
       it_color := ucast (FIELD_GET INTR_CTXT_DATA_W0_COLOR_MASK (ctxt_data ! 0)),
       it_page_size := ucast (FIELD_GET INTR_CTXT_DATA_W1_PAGE_SIZE_MASK (ctxt_data ! 1)),
       it_pidx := ucast (FIELD_GET INTR_CTXT_DATA_W2_PIDX_MASK (ctxt_data ! 2)),
       it_baddr_4k := FIELD_SET QDMA_CPM4_INTR_CTXT_BADDR_GET_L_MASK baddr_l OR
         FIELD_SET QDMA_CPM4_INTR_CTXT_BADDR_GET_H_MASK baddr_h\<rparr>)"

definition qdma_cpm4_indirect_intr_context_write ::
  "'d mmio \<Rightarrow> 'd xdev option \<Rightarrow> u16 \<Rightarrow> qdma_indirect_intr_ctxt option \<Rightarrow> int \<times> 'd xdev option" where
  "qdma_cpm4_indirect_intr_context_write io dev hw_qid ctxt =
     (case (dev, ctxt) of
        (Some d, Some c) \<Rightarrow>
          if it_page_size c > QDMA_INDIRECT_INTR_RING_SIZE_32KB
          then (neg_err QDMA_ERR_INV_PARAM, dev)
          else context_write (qdma_cpm4_indirect_reg_write io) qdma_cpm4_indirect_intr_words dev
            QDMA_CTXT_SEL_INT_COAL hw_qid ctxt
      | _ \<Rightarrow> (neg_err QDMA_ERR_INV_PARAM, dev))"

definition qdma_cpm4_indirect_intr_context_read ::
  "'d mmio \<Rightarrow> 'd xdev option \<Rightarrow> u16 \<Rightarrow> qdma_indirect_intr_ctxt option \<Rightarrow> int \<times> qdma_indirect_intr_ctxt option \<times> 'd xdev option" where
  "qdma_cpm4_indirect_intr_context_read io dev hw_qid ctxt =
     context_read (qdma_cpm4_indirect_reg_read io) 3 qdma_cpm4_indirect_intr_fields dev
       QDMA_CTXT_SEL_INT_COAL hw_qid ctxt"

definition qdma_cpm4_indirect_intr_context_clear ::
  "'d mmio \<Rightarrow> 'd xdev option \<Rightarrow> u16 \<Rightarrow> int \<times> 'd xdev option" where
  "qdma_cpm4_indirect_intr_context_clear io dev hw_qid =
     context_cmd (qdma_cpm4_indirect_reg_clear io) dev
       QDMA_CTXT_SEL_INT_COAL hw_qid"

definition qdma_cpm4_indirect_intr_context_invalidate ::
  "'d mmio \<Rightarrow> 'd xdev option \<Rightarrow> u16 \<Rightarrow> int \<times> 'd xdev option" where
  "qdma_cpm4_indirect_intr_context_invalidate io dev hw_qid =
     context_cmd (qdma_cpm4_indirect_reg_invalidate io) dev
       QDMA_CTXT_SEL_INT_COAL hw_qid"

definition qdma_cpm4_indirect_intr_ctx_conf ::
  "'d mmio \<Rightarrow> 'd xdev option \<Rightarrow> u16 \<Rightarrow> qdma_indirect_intr_ctxt option \<Rightarrow> qdma_hw_access_type \<Rightarrow>
   int \<times> qdma_indirect_intr_ctxt option \<times> 'd xdev option" where
  "qdma_cpm4_indirect_intr_ctx_conf io dev hw_qid ctxt access_type =
     (case access_type of
        QDMA_HW_ACCESS_READ \<Rightarrow> qdma_cpm4_indirect_intr_context_read io dev hw_qid ctxt
      | QDMA_HW_ACCESS_WRITE \<Rightarrow> keep_ctxt ctxt (qdma_cpm4_indirect_intr_context_write io dev hw_qid ctxt)
      | QDMA_HW_ACCESS_CLEAR \<Rightarrow> keep_ctxt ctxt (qdma_cpm4_indirect_intr_context_clear io dev hw_qid)
      | QDMA_HW_ACCESS_INVALIDATE \<Rightarrow> keep_ctxt ctxt (qdma_cpm4_indirect_intr_context_invalidate io dev hw_qid)
      | _ \<Rightarrow> (neg_err QDMA_ERR_INV_PARAM, ctxt, dev))"

text \<open>What an indirect interrupt context keeps on its way through the registers.\<close>

definition qdma_cpm4_indirect_intr_stored :: "qdma_indirect_intr_ctxt \<Rightarrow> qdma_indirect_intr_ctxt \<Rightarrow> qdma_indirect_intr_ctxt" where
  "qdma_cpm4_indirect_intr_stored c c0 =
     c0\<lparr>it_valid := take_bit 1 (it_valid c),
       it_vec := take_bit 5 (it_vec c),
       it_int_st := take_bit 1 (it_int_st c),
       it_color := take_bit 1 (it_color c),
       it_page_size := take_bit 3 (it_page_size c),
       it_pidx := take_bit 12 (it_pidx c),
       it_baddr_4k := it_baddr_4k c AND GENMASK 63 12\<rparr>"

lemma qdma_cpm4_indirect_intr_dec_enc: "qdma_cpm4_indirect_intr_fields (qdma_cpm4_indirect_intr_words c) c0 = qdma_cpm4_indirect_intr_stored c c0"
  by (simp add: qdma_cpm4_indirect_intr_fields_def qdma_cpm4_indirect_intr_words_def qdma_cpm4_indirect_intr_stored_def field_simps field_parts;
      (simp add: AND_GENMASK_low field_simps)?)

interpretation qdma_cpm4_indirect_intr: cpm4_codec qdma_cpm4_indirect_intr_words qdma_cpm4_indirect_intr_fields qdma_cpm4_indirect_intr_stored 3
  by unfold_locales
     (simp_all only: qdma_cpm4_indirect_intr_dec_enc, simp_all add: qdma_cpm4_indirect_intr_words_def qdma_cpm4_indirect_intr_fields_def)

section \<open>Writes and reads on the device\<close>

text \<open>The two directions of a queue to vector word do not disturb each other.\<close>

lemma FIELD_GET_keep:
  assumes "l \<le> h" "h < 32"
  shows "FIELD_GET (GENMASK h l) (w AND (GENMASK h l OR m)) = FIELD_GET (GENMASK h l :: u32) w"
    "FIELD_GET (GENMASK h l) (w AND (m OR GENMASK h l)) = FIELD_GET (GENMASK h l :: u32) w"
  using assms by (auto intro!: bit_word_eqI simp: FIELD_GET_GENMASK bit_simps bit_GENMASK)

lemma FIELD_GET_drop:
  assumes "l \<le> h" "h < 32" "h1 < 32" "h2 < 32" "h1 < l \<or> h < l1" "h2 < l \<or> h < l2"
  shows "FIELD_GET (GENMASK h l) (w AND (GENMASK h1 l1 OR GENMASK h2 l2)) = (0 :: u32)"
  using assms by (auto intro!: bit_word_eqI simp: FIELD_GET_GENMASK bit_simps bit_GENMASK)

lemma qid2vec_merge_same:
  "qid2vec_fields c2h [qid2vec_merge c2h w v] v0 =
     (if c2h \<noteq> 0 then v0\<lparr>qv_c2h_vector := qv_c2h_vector v, qv_c2h_en_coal := take_bit 1 (qv_c2h_en_coal v)\<rparr>
      else v0\<lparr>qv_h2c_vector := qv_h2c_vector v, qv_h2c_en_coal := take_bit 1 (qv_h2c_en_coal v)\<rparr>)"
  by (simp add: qid2vec_fields_def qid2vec_merge_def field_simps FIELD_GET_drop)

lemma qid2vec_merge_other:
  "(c2h = 0) \<noteq> (c2h' = 0) \<Longrightarrow>
     qid2vec_fields c2h' [qid2vec_merge c2h w v] v0 = qid2vec_fields c2h' [w] v0"
  by (auto simp: qid2vec_fields_def qid2vec_merge_def field_simps FIELD_GET_keep FIELD_GET_drop)

lemma qid2vec_write_effect:
  assumes "cpm4_hardware io win mem"
  shows "\<exists>d'. qdma_cpm4_qid2vec_write io (Some d) c2h q (Some v) = (0, Some d') \<and>
    mem (xregs d') = (mem (xregs d))(cpm4_key QDMA_CTXT_SEL_FMAP q :=
      cpm4_pad [qid2vec_merge c2h (mem (xregs d) (cpm4_key QDMA_CTXT_SEL_FMAP q) ! 0) v])"
proof -
  obtain d1 where "qdma_cpm4_indirect_reg_read io d QDMA_CTXT_SEL_FMAP q 1 =
      (0, [mem (xregs d) (cpm4_key QDMA_CTXT_SEL_FMAP q) ! 0], d1)" "mem (xregs d1) = mem (xregs d)"
    using cpm4_read_effect [OF assms, of 1 d QDMA_CTXT_SEL_FMAP q] by auto
  then show ?thesis
    using cpm4_write_effect [OF assms, of d1 QDMA_CTXT_SEL_FMAP q
      "[qid2vec_merge c2h (mem (xregs d) (cpm4_key QDMA_CTXT_SEL_FMAP q) ! 0) v]"]
    by (auto simp: qdma_cpm4_qid2vec_write_def)
qed

lemma qid2vec_read_effect:
  assumes "cpm4_hardware io win mem"
  shows "\<exists>d'. qdma_cpm4_qid2vec_read io (Some d) c2h q (Some v0) =
      (0, Some (qid2vec_fields c2h [mem (xregs d) (cpm4_key QDMA_CTXT_SEL_FMAP q) ! 0] v0), Some d') \<and>
    mem (xregs d') = mem (xregs d)"
  using cpm4_read_effect [OF assms, of 1 d QDMA_CTXT_SEL_FMAP q]
  by (auto simp: qdma_cpm4_qid2vec_read_def context_read_def)

text \<open>A software context read on a device whose words are an encoded context.\<close>

definition sw_with_vector :: "u8 \<Rightarrow> qdma_qid2vec \<Rightarrow> qdma_descq_sw_ctxt \<Rightarrow> qdma_descq_sw_ctxt" where
  "sw_with_vector c2h v c =
     (if c2h \<noteq> 0 then c\<lparr>sw_vec := ucast (qv_c2h_vector v), sw_intr_aggr := take_bit 1 (qv_c2h_en_coal v)\<rparr>
      else c\<lparr>sw_vec := ucast (qv_h2c_vector v), sw_intr_aggr := take_bit 1 (qv_h2c_en_coal v)\<rparr>)"

lemma cpm4_sw_read_effect:
  assumes hw: "cpm4_hardware io win mem"
    and sw: "mem (xregs d) (cpm4_key (if c2h \<noteq> 0 then QDMA_CTXT_SEL_SW_C2H else QDMA_CTXT_SEL_SW_H2C) q) =
      cpm4_pad (qdma_cpm4_sw_words c)"
    and fm: "mem (xregs d) (cpm4_key QDMA_CTXT_SEL_FMAP q) ! 0 = qid2vec_merge c2h w v"
  shows "\<exists>d'. qdma_cpm4_sw_context_read io (Some d) c2h q (Some c0) =
    (0, Some (sw_with_vector c2h v (qdma_cpm4_sw_stored c c0)), Some d')"
proof -
  obtain d1 where d1: "context_read (qdma_cpm4_indirect_reg_read io) 4 qdma_cpm4_sw_fields (Some d)
      (if c2h \<noteq> 0 then QDMA_CTXT_SEL_SW_C2H else QDMA_CTXT_SEL_SW_H2C) q (Some c0) =
      (0, Some (qdma_cpm4_sw_stored c c0), Some d1)" "mem (xregs d1) = mem (xregs d)"
    using qdma_cpm4_sw.cpm4_loads [OF hw sw] by blast
  then show ?thesis
    using qid2vec_read_effect [OF hw, of d1 c2h q qv_zeroed] fm
    by (auto simp: qdma_cpm4_sw_context_read_def qid2vec_merge_same sw_with_vector_def)
qed

lemma cpm4_sw_write_effect:
  assumes "cpm4_hardware io win mem" "sw_desc_sz c \<le> QDMA_DESC_SIZE_64B" "sw_rngsz_idx c < QDMA_NUM_RING_SIZES"
  shows "\<exists>d1. qdma_cpm4_sw_context_write io (Some d) c2h q (Some c) = (0, Some d1) \<and>
    mem (xregs d1) = (mem (xregs d))
      (cpm4_key (if c2h \<noteq> 0 then QDMA_CTXT_SEL_SW_C2H else QDMA_CTXT_SEL_SW_H2C) q :=
         cpm4_pad (qdma_cpm4_sw_words c))"
  using qdma_cpm4_sw.cpm4_stores [OF assms(1)] assms(2,3)
  by (simp add: qdma_cpm4_sw_context_write_def not_less not_le)

lemma cpm4_pad_hd [simp]: "cpm4_pad [x] ! 0 = x"
  by (simp add: cpm4_pad_def upt_4)

text \<open>The function map registers of different functions are different, and up to 256 functions
  they end below the indirect context registers.\<close>

lemma cpm4_fmap_addr_inj: "cpm4_fmap_addr f = cpm4_fmap_addr g \<longleftrightarrow> f = g"
proof -
  have a: "unat (cpm4_fmap_addr h) = 0x400 + 4 * unat h" for h
  proof -
    have "unat h < 65536" using unsigned_less [of h, where 'a = nat] by simp
    then show ?thesis
      by (simp add: cpm4_fmap_addr_def unat_word_ariths unsigned_ucast_eq take_bit_nat_eq_self)
  qed
  show ?thesis
    by (metis a add_left_cancel mult_left_cancel unsigned_word_eqI zero_neq_numeral)
qed

lemma cpm4_fmap_addr_window: "f < 256 \<Longrightarrow> cpm4_fmap_addr f < 0x804"
proof -
  assume "f < 256"
  then have "unat f < 256" by (simp add: word_less_nat_alt)
  then show ?thesis
    by (simp add: cpm4_fmap_addr_def word_less_nat_alt unat_word_ariths unsigned_ucast_eq
        take_bit_nat_eq_self)
qed

lemma cpm4_fmap_roundtrip:
  "cpm4_fmap_fields (cpm4_fmap_word c) c0 =
     c0\<lparr>fm_qbase := take_bit 11 (fm_qbase c), fm_qmax := take_bit 12 (fm_qmax c)\<rparr>"
  by (simp add: cpm4_fmap_fields_def cpm4_fmap_word_def field_simps)

section \<open>Properties\<close>

text \<open>C38. On a CPM4 device a queue programmed the way the driver does it - vector map of one
  direction, then software context - reads back as the stored context with that vector and
  aggregation bit, and the vector map of the other direction reads what it read before.\<close>

theorem cpm4_queue_write_read:
  assumes "cpm4_hardware io win mem"
    and "sw_desc_sz c \<le> QDMA_DESC_SIZE_64B" "sw_rngsz_idx c < QDMA_NUM_RING_SIZES"
    and "(c2h = 0) \<noteq> (c2h' = 0)"
  shows "\<exists>d1 d2 d3.
    qdma_cpm4_qid2vec_conf io (Some d) c2h q (Some v) QDMA_HW_ACCESS_WRITE = (0, Some v, Some d1) \<and>
    qdma_cpm4_sw_ctx_conf io (Some d1) c2h q (Some c) QDMA_HW_ACCESS_WRITE = (0, Some c, Some d2) \<and>
    qdma_cpm4_sw_ctx_conf io (Some d2) c2h q (Some c0) QDMA_HW_ACCESS_READ =
      (0, Some (sw_with_vector c2h v (qdma_cpm4_sw_stored c c0)), Some d3) \<and>
    fst (snd (qdma_cpm4_qid2vec_conf io (Some d2) c2h' q (Some v0) QDMA_HW_ACCESS_READ)) =
      fst (snd (qdma_cpm4_qid2vec_conf io (Some d) c2h' q (Some v0) QDMA_HW_ACCESS_READ))"
proof -
  obtain d1 where d1: "qdma_cpm4_qid2vec_write io (Some d) c2h q (Some v) = (0, Some d1)"
    "mem (xregs d1) = (mem (xregs d))(cpm4_key QDMA_CTXT_SEL_FMAP q :=
      cpm4_pad [qid2vec_merge c2h (mem (xregs d) (cpm4_key QDMA_CTXT_SEL_FMAP q) ! 0) v])"
    using qid2vec_write_effect [OF assms(1)] by blast
  obtain d2 where d2: "qdma_cpm4_sw_context_write io (Some d1) c2h q (Some c) = (0, Some d2)"
    "mem (xregs d2) = (mem (xregs d1))
      (cpm4_key (if c2h \<noteq> 0 then QDMA_CTXT_SEL_SW_C2H else QDMA_CTXT_SEL_SW_H2C) q :=
         cpm4_pad (qdma_cpm4_sw_words c))"
    using cpm4_sw_write_effect [OF assms(1-3)] by blast
  have fm: "mem (xregs d2) (cpm4_key QDMA_CTXT_SEL_FMAP q) ! 0 =
      qid2vec_merge c2h (mem (xregs d) (cpm4_key QDMA_CTXT_SEL_FMAP q) ! 0) v"
    using d1(2) d2(2) by simp
  obtain d3 where d3: "qdma_cpm4_sw_context_read io (Some d2) c2h q (Some c0) =
    (0, Some (sw_with_vector c2h v (qdma_cpm4_sw_stored c c0)), Some d3)"
    using cpm4_sw_read_effect [OF assms(1) _ fm] d2(2) by fastforce
  have "fst (snd (qdma_cpm4_qid2vec_read io (Some d2) c2h' q (Some v0))) =
      fst (snd (qdma_cpm4_qid2vec_read io (Some d) c2h' q (Some v0)))"
    using qid2vec_read_effect [OF assms(1), of d2 c2h' q v0]
      qid2vec_read_effect [OF assms(1), of d c2h' q v0] qid2vec_merge_other [OF assms(4)]
    by (auto simp: fm)
  with d1(1) d2(1) d3 show ?thesis
    by (auto simp: qdma_cpm4_qid2vec_conf_def qdma_cpm4_sw_ctx_conf_def keep_ctxt_def)
qed

theorem cpm4_queue_write_read_witness:
  "\<exists>d1 d2 d3.
    qdma_cpm4_qid2vec_conf cpm4_sim_io (Some cpm4_sim_dev) 1 7
      (Some (qv_zeroed\<lparr>qv_c2h_vector := 9\<rparr>)) QDMA_HW_ACCESS_WRITE =
      (0, Some (qv_zeroed\<lparr>qv_c2h_vector := 9\<rparr>), Some d1) \<and>
    qdma_cpm4_sw_ctx_conf cpm4_sim_io (Some d1) 1 7 (Some (sw_zeroed\<lparr>sw_qen := 1\<rparr>))
      QDMA_HW_ACCESS_WRITE = (0, Some (sw_zeroed\<lparr>sw_qen := 1\<rparr>), Some d2) \<and>
    qdma_cpm4_sw_ctx_conf cpm4_sim_io (Some d2) 1 7 (Some sw_zeroed) QDMA_HW_ACCESS_READ =
      (0, Some (sw_zeroed\<lparr>sw_qen := 1, sw_vec := 9\<rparr>), Some d3)"
proof -
  have "sw_with_vector 1 (qv_zeroed\<lparr>qv_c2h_vector := 9\<rparr>)
      (qdma_cpm4_sw_stored (sw_zeroed\<lparr>sw_qen := 1\<rparr>) sw_zeroed) = sw_zeroed\<lparr>sw_qen := 1, sw_vec := 9\<rparr>"
    by (simp add: sw_with_vector_def qdma_cpm4_sw_stored_def sw_zeroed_def qv_zeroed_def)
  moreover have "sw_desc_sz (sw_zeroed\<lparr>sw_qen := 1\<rparr>) \<le> QDMA_DESC_SIZE_64B"
    "sw_rngsz_idx (sw_zeroed\<lparr>sw_qen := 1\<rparr>) < QDMA_NUM_RING_SIZES" "((1 :: u8) = 0) \<noteq> ((0 :: u8) = 0)"
    by (simp_all add: sw_zeroed_def)
  ultimately show ?thesis
    using cpm4_queue_write_read [OF cpm4_sim_hardware, of "sw_zeroed\<lparr>sw_qen := 1\<rparr>" 1 0 cpm4_sim_dev 7
      "qv_zeroed\<lparr>qv_c2h_vector := 9\<rparr>" sw_zeroed qv_zeroed] by metis
qed

text \<open>The CPM4 write of a completion context fails with -QDMA_ERR_INV_PARAM, without a register
  access, exactly on a null pointer, a 64-byte entry size or a trigger mode above timer and counter: the
  three index checks compare the wrong part of the index (FIELD_GET of the register mask, always
  0) and never fire. Every other write is the four-word sequence.\<close>

theorem cpm4_cmpt_write_guard:
  "qdma_cpm4_cmpt_context_write io (Some d) q (Some c) =
     (if cm_desc_sz c = 3 \<or> cm_trig_mode c > QDMA_CMPT_UPDATE_TRIG_MODE_TMR_CNTR
      then (neg_err QDMA_ERR_INV_PARAM, Some d)
      else map_prod id Some (qdma_cpm4_indirect_reg_write io d QDMA_CTXT_SEL_CMPT q (qdma_cpm4_cmpt_words c)))"
proof -
  have nib: "FIELD_GET (GENMASK h l :: u32) (ucast n) = 0" if "4 \<le> l" "l \<le> h" "h < 32" for h l and n :: "4 word"
  proof -
    have "\<not> bit n (l + m)" for m
      using bit_imp_le_length [of n "l + m"] that by auto
    then show ?thesis
      using that by (auto intro!: bit_word_eqI simp: FIELD_GET_GENMASK bit_simps)
  qed
  have "cm_desc_sz c > QDMA_DESC_SIZE_32B \<longleftrightarrow> cm_desc_sz c = 3"
  proof -
    have "unat (cm_desc_sz c) < 4" using unsigned_less [of "cm_desc_sz c", where 'a = nat] by simp
    then show ?thesis by (auto simp: word_less_nat_alt word_unat_eq_iff)
  qed
  then show ?thesis
    by (simp add: qdma_cpm4_cmpt_context_write_def nib context_write_def split_beta map_prod_def)
qed

end
