(* ===== verification/DefaultCsr.thy ===== *)
theory DefaultCsr
  imports QueueRegs ErrProc AccessTable Cpm4Ctxt
begin

text \<open>
  The default configuration of the global registers (*_set_default_global_csr) with the
  settings for performance of the two newer variants (*_set_perf_opt), and the clearing of the
  context memory at start-up (*_init_ctxt_memory). Masks, addresses and values have the names of the
  code; where CPM5 or CPM4 have another value under the same name, theirs has a prefix. Build
  options are taken as off. A register that is read back only for the log is read back here too.
\<close>

section \<open>Default registers\<close>

abbreviation QDMA_NUM_RING_SIZES :: u32 where "QDMA_NUM_RING_SIZES \<equiv> 16"
abbreviation QDMA_NUM_C2H_TIMERS :: u32 where "QDMA_NUM_C2H_TIMERS \<equiv> 16"
abbreviation QDMA_NUM_C2H_COUNTERS :: u32 where "QDMA_NUM_C2H_COUNTERS \<equiv> 16"
abbreviation QDMA_NUM_C2H_BUFFER_SIZES :: u32 where "QDMA_NUM_C2H_BUFFER_SIZES \<equiv> 16"

definition set_reg :: "'d mmio \<Rightarrow> u32 \<Rightarrow> u32 \<Rightarrow> 'd xdev \<Rightarrow> 'd xdev" where
  "set_reg io reg_addr reg_val d = snd (qdma_reg_read io (qdma_reg_write io d reg_addr reg_val) reg_addr)"

text \<open>eqdma_get_ip_version with a device and a place for the result.\<close>

abbreviation EQDMA_IP_VERSION_4 :: u32 where "EQDMA_IP_VERSION_4 \<equiv> 1"
abbreviation EQDMA_IP_VERSION_5 :: u32 where "EQDMA_IP_VERSION_5 \<equiv> 2"
abbreviation EQDMA_GLBL2_IP_VERSION_MASK :: u32 where "EQDMA_GLBL2_IP_VERSION_MASK \<equiv> GENMASK 23 20"
abbreviation EQDMA_GLBL2_VF_IP_VERSION_MASK :: u32 where "EQDMA_GLBL2_VF_IP_VERSION_MASK \<equiv> GENMASK 7 4"
abbreviation EQDMA_OFFSET_VF_VERSION :: u32 where "EQDMA_OFFSET_VF_VERSION \<equiv> 0x5014"

definition eqdma_read_ip_version :: "'d mmio \<Rightarrow> u8 \<Rightarrow> 'd xdev \<Rightarrow> u32 \<times> 'd xdev" where
  "eqdma_read_ip_version io is_vf d =
     (let (ver_reg_val, d) = qdma_reg_read io d (if is_vf \<noteq> 0 then EQDMA_OFFSET_VF_VERSION else GLBL2_MISC_CAP_ADDR)
      in (if is_vf = 0 then FIELD_GET EQDMA_GLBL2_IP_VERSION_MASK ver_reg_val
          else FIELD_GET EQDMA_GLBL2_VF_IP_VERSION_MASK ver_reg_val, d))"

definition default_rng_sz :: "u32 list" where
  "default_rng_sz = [2049, 65, 129, 193, 257, 385, 513, 769, 1025, 1537, 3073, 4097, 6145, 8193, 12289, 16385]"

definition default_tmr_cnt :: "u32 list" where
  "default_tmr_cnt = [1, 2, 4, 5, 8, 10, 15, 20, 25, 30, 50, 75, 100, 125, 150, 200]"

definition default_cnt_th :: "u32 list" where
  "default_cnt_th = [2, 4, 8, 16, 24, 32, 48, 64, 80, 96, 112, 128, 144, 160, 176, 192]"

definition default_buf_sz :: "u32 list" where
  "default_buf_sz = [4096, 256, 512, 1024, 2048, 3968, 4096, 4096, 4096, 4096, 4096, 4096, 4096, 8192, 9018, 16384]"

abbreviation QDMA_OFFSET_GLBL_RNG_SZ :: u32 where "QDMA_OFFSET_GLBL_RNG_SZ \<equiv> 0x204"
abbreviation QDMA_OFFSET_C2H_CNT_TH :: u32 where "QDMA_OFFSET_C2H_CNT_TH \<equiv> 0xA40"
abbreviation QDMA_OFFSET_C2H_TIMER_CNT :: u32 where "QDMA_OFFSET_C2H_TIMER_CNT \<equiv> 0xA00"
abbreviation QDMA_GLBL_DSC_CFG_MAX_DSC_FETCH_MASK :: u32 where "QDMA_GLBL_DSC_CFG_MAX_DSC_FETCH_MASK \<equiv> GENMASK 5 3"
abbreviation DEFAULT_MAX_DSC_FETCH :: u32 where "DEFAULT_MAX_DSC_FETCH \<equiv> 6"
abbreviation QDMA_GLBL_DSC_CFG_WB_ACC_INT_MASK :: u32 where "QDMA_GLBL_DSC_CFG_WB_ACC_INT_MASK \<equiv> GENMASK 2 0"
abbreviation DEFAULT_WRB_INT :: u32 where "DEFAULT_WRB_INT \<equiv> 5"
abbreviation QDMA_OFFSET_GLBL_DSC_CFG :: u32 where "QDMA_OFFSET_GLBL_DSC_CFG \<equiv> 0x250"
abbreviation QDMA_OFFSET_C2H_BUF_SZ :: u32 where "QDMA_OFFSET_C2H_BUF_SZ \<equiv> 0xAB0"
abbreviation QDMA_OFFSET_C2H_PFETCH_CACHE_DEPTH :: u32 where "QDMA_OFFSET_C2H_PFETCH_CACHE_DEPTH \<equiv> 0xBE0"
abbreviation QDMA_C2H_PFCH_FL_TH_MASK :: u32 where "QDMA_C2H_PFCH_FL_TH_MASK \<equiv> GENMASK 8 0"
abbreviation QDMA_DEFAULT_PFCH_STOP_THRESH :: u32 where "QDMA_DEFAULT_PFCH_STOP_THRESH \<equiv> 256"
abbreviation QDMA_C2H_NUM_PFCH_MASK :: u32 where "QDMA_C2H_NUM_PFCH_MASK \<equiv> GENMASK 17 9"
abbreviation DEFAULT_PFCH_NUM_ENTRIES_PER_Q :: u32 where "DEFAULT_PFCH_NUM_ENTRIES_PER_Q \<equiv> 8"
abbreviation QDMA_C2H_PFCH_QCNT_MASK :: u32 where "QDMA_C2H_PFCH_QCNT_MASK \<equiv> GENMASK 24 18"
abbreviation QDMA_C2H_EVT_QCNT_TH_MASK :: u32 where "QDMA_C2H_EVT_QCNT_TH_MASK \<equiv> GENMASK 31 25"
abbreviation QDMA_OFFSET_C2H_PFETCH_CFG :: u32 where "QDMA_OFFSET_C2H_PFETCH_CFG \<equiv> 0xB08"
abbreviation QDMA_OFFSET_C2H_INT_TIMER_TICK :: u32 where "QDMA_OFFSET_C2H_INT_TIMER_TICK \<equiv> 0xB0C"
abbreviation DEFAULT_C2H_INTR_TIMER_TICK :: u32 where "DEFAULT_C2H_INTR_TIMER_TICK \<equiv> 25"
abbreviation QDMA_OFFSET_C2H_CMPT_COAL_BUF_DEPTH :: u32 where "QDMA_OFFSET_C2H_CMPT_COAL_BUF_DEPTH \<equiv> 0xBE4"
abbreviation QDMA_C2H_TICK_CNT_MASK :: u32 where "QDMA_C2H_TICK_CNT_MASK \<equiv> GENMASK 13 2"
abbreviation DEFAULT_CMPT_COAL_TIMER_CNT :: u32 where "DEFAULT_CMPT_COAL_TIMER_CNT \<equiv> 5"
abbreviation QDMA_C2H_TICK_VAL_MASK :: u32 where "QDMA_C2H_TICK_VAL_MASK \<equiv> GENMASK 25 14"
abbreviation DEFAULT_CMPT_COAL_TIMER_TICK :: u32 where "DEFAULT_CMPT_COAL_TIMER_TICK \<equiv> 25"
abbreviation QDMA_C2H_MAX_BUF_SZ_MASK :: u32 where "QDMA_C2H_MAX_BUF_SZ_MASK \<equiv> GENMASK 31 26"
abbreviation QDMA_OFFSET_C2H_WRB_COAL_CFG :: u32 where "QDMA_OFFSET_C2H_WRB_COAL_CFG \<equiv> 0xB50"
abbreviation QDMA_H2C_DATA_THRESH_MASK :: u32 where "QDMA_H2C_DATA_THRESH_MASK \<equiv> GENMASK 15 0"
abbreviation QDMA_H2C_THROT_DATA_THRESH :: u32 where "QDMA_H2C_THROT_DATA_THRESH \<equiv> 0x4000"
abbreviation QDMA_H2C_REQ_THROT_EN_DATA_MASK :: u32 where "QDMA_H2C_REQ_THROT_EN_DATA_MASK \<equiv> BIT 16"
abbreviation QDMA_THROT_EN_DATA :: u32 where "QDMA_THROT_EN_DATA \<equiv> 1"
abbreviation QDMA_H2C_REQ_THRESH_MASK :: u32 where "QDMA_H2C_REQ_THRESH_MASK \<equiv> GENMASK 25 17"
abbreviation QDMA_H2C_THROT_REQ_THRESH :: u32 where "QDMA_H2C_THROT_REQ_THRESH \<equiv> 0x60"
abbreviation QDMA_H2C_REQ_THROT_EN_REQ_MASK :: u32 where "QDMA_H2C_REQ_THROT_EN_REQ_MASK \<equiv> BIT 31"
abbreviation QDMA_THROT_EN_REQ :: u32 where "QDMA_THROT_EN_REQ \<equiv> 0"
abbreviation QDMA_OFFSET_H2C_REQ_THROT :: u32 where "QDMA_OFFSET_H2C_REQ_THROT \<equiv> 0xE24"

definition qdma_set_default_global_csr :: "'d mmio \<Rightarrow> 'd xdev option \<Rightarrow> int \<times> 'd xdev option" where
  "qdma_set_default_global_csr io dev =
    (case dev of
       None \<Rightarrow> (neg_err QDMA_ERR_INV_PARAM, None)
     | Some d \<Rightarrow>
       let (dev_cap, d) = after_attributes qdma_get_device_attributes io d;
           d = qdma_write_csr_values io d QDMA_OFFSET_GLBL_RNG_SZ 0 QDMA_NUM_RING_SIZES default_rng_sz;
           d = (if da_st_en dev_cap \<noteq> 0 \<or> da_mm_cmpt_en dev_cap \<noteq> 0
               then
                 let d = qdma_write_csr_values io d QDMA_OFFSET_C2H_CNT_TH 0 QDMA_NUM_C2H_COUNTERS default_cnt_th;
                     d = qdma_write_csr_values io d QDMA_OFFSET_C2H_TIMER_CNT 0 QDMA_NUM_C2H_TIMERS default_tmr_cnt;
                     reg_val =
                       FIELD_SET QDMA_GLBL_DSC_CFG_MAX_DSC_FETCH_MASK DEFAULT_MAX_DSC_FETCH OR
                       FIELD_SET QDMA_GLBL_DSC_CFG_WB_ACC_INT_MASK DEFAULT_WRB_INT;
                     d = qdma_reg_write io d QDMA_OFFSET_GLBL_DSC_CFG reg_val
                 in d
               else d);
           d = (if da_st_en dev_cap \<noteq> 0
               then
                 let d = qdma_write_csr_values io d QDMA_OFFSET_C2H_BUF_SZ 0 QDMA_NUM_C2H_BUFFER_SIZES default_buf_sz;
                     (cfg_val, d) = qdma_reg_read io d QDMA_OFFSET_C2H_PFETCH_CACHE_DEPTH;
                     reg_val =
                       FIELD_SET QDMA_C2H_PFCH_FL_TH_MASK QDMA_DEFAULT_PFCH_STOP_THRESH OR
                       FIELD_SET QDMA_C2H_NUM_PFCH_MASK DEFAULT_PFCH_NUM_ENTRIES_PER_Q OR
                       FIELD_SET QDMA_C2H_PFCH_QCNT_MASK (drop_bit 1 cfg_val) OR
                       FIELD_SET QDMA_C2H_EVT_QCNT_TH_MASK (drop_bit 1 cfg_val - 2);
                     d = qdma_reg_write io d QDMA_OFFSET_C2H_PFETCH_CFG reg_val;
                     d = qdma_reg_write io d QDMA_OFFSET_C2H_INT_TIMER_TICK DEFAULT_C2H_INTR_TIMER_TICK;
                     (cfg_val, d) = qdma_reg_read io d QDMA_OFFSET_C2H_CMPT_COAL_BUF_DEPTH;
                     reg_val =
                       FIELD_SET QDMA_C2H_TICK_CNT_MASK DEFAULT_CMPT_COAL_TIMER_CNT OR
                       FIELD_SET QDMA_C2H_TICK_VAL_MASK DEFAULT_CMPT_COAL_TIMER_TICK OR
                       FIELD_SET QDMA_C2H_MAX_BUF_SZ_MASK cfg_val;
                     d = qdma_reg_write io d QDMA_OFFSET_C2H_WRB_COAL_CFG reg_val;
                     reg_val =
                       FIELD_SET QDMA_H2C_DATA_THRESH_MASK QDMA_H2C_THROT_DATA_THRESH OR
                       FIELD_SET QDMA_H2C_REQ_THROT_EN_DATA_MASK QDMA_THROT_EN_DATA OR
                       FIELD_SET QDMA_H2C_REQ_THRESH_MASK QDMA_H2C_THROT_REQ_THRESH OR
                       FIELD_SET QDMA_H2C_REQ_THROT_EN_REQ_MASK QDMA_THROT_EN_REQ;
                     d = qdma_reg_write io d QDMA_OFFSET_H2C_REQ_THROT reg_val
                 in d
               else d)
       in (err_code QDMA_SUCCESS, Some d))"

abbreviation GLBL_DSC_CFG_RSVD_1_MASK :: u32 where "GLBL_DSC_CFG_RSVD_1_MASK \<equiv> GENMASK 31 30"
abbreviation GLBL_DSC_CFG_RSVD_1_DFLT :: u32 where "GLBL_DSC_CFG_RSVD_1_DFLT \<equiv> 0"
abbreviation GLBL_DSC_CFG_C2H_UODSC_LIMIT_MASK :: u32 where "GLBL_DSC_CFG_C2H_UODSC_LIMIT_MASK \<equiv> GENMASK 29 20"
abbreviation EQDMA_GLBL_DSC_CFG_C2H_UODSC_LIMIT :: u32 where "EQDMA_GLBL_DSC_CFG_C2H_UODSC_LIMIT \<equiv> 5"
abbreviation GLBL_DSC_CFG_H2C_UODSC_LIMIT_MASK :: u32 where "GLBL_DSC_CFG_H2C_UODSC_LIMIT_MASK \<equiv> GENMASK 19 10"
abbreviation EQDMA_GLBL_DSC_CFG_H2C_UODSC_LIMIT :: u32 where "EQDMA_GLBL_DSC_CFG_H2C_UODSC_LIMIT \<equiv> 8"
abbreviation GLBL_DSC_CFG_UNC_OVR_COR_MASK :: u32 where "GLBL_DSC_CFG_UNC_OVR_COR_MASK \<equiv> BIT 9"
abbreviation GLBL_DSC_CFG_UNC_OVR_COR_DFLT :: u32 where "GLBL_DSC_CFG_UNC_OVR_COR_DFLT \<equiv> 0"
abbreviation GLBL_DSC_CFG_CTXT_FER_DIS_MASK :: u32 where "GLBL_DSC_CFG_CTXT_FER_DIS_MASK \<equiv> BIT 8"
abbreviation GLBL_DSC_CFG_CTXT_FER_DIS_DFLT :: u32 where "GLBL_DSC_CFG_CTXT_FER_DIS_DFLT \<equiv> 0"
abbreviation GLBL_DSC_CFG_RSVD_2_MASK :: u32 where "GLBL_DSC_CFG_RSVD_2_MASK \<equiv> GENMASK 7 6"
abbreviation GLBL_DSC_CFG_RSVD_2_DFLT :: u32 where "GLBL_DSC_CFG_RSVD_2_DFLT \<equiv> 0"
abbreviation GLBL_DSC_CFG_MAXFETCH_MASK :: u32 where "GLBL_DSC_CFG_MAXFETCH_MASK \<equiv> GENMASK 5 3"
abbreviation EQDMA_GLBL_DSC_CFG_MAXFETCH :: u32 where "EQDMA_GLBL_DSC_CFG_MAXFETCH \<equiv> 2"
abbreviation GLBL_DSC_CFG_WB_ACC_INT_MASK :: u32 where "GLBL_DSC_CFG_WB_ACC_INT_MASK \<equiv> GENMASK 2 0"
abbreviation EQDMA_GLBL_DSC_CFG_WB_ACC_INT :: u32 where "EQDMA_GLBL_DSC_CFG_WB_ACC_INT \<equiv> 5"
abbreviation EQDMA_GLBL_DSC_CFG_ADDR :: u32 where "EQDMA_GLBL_DSC_CFG_ADDR \<equiv> 0x250"
abbreviation CFG_BLK_MISC_CTL_RSVD_1_MASK :: u32 where "CFG_BLK_MISC_CTL_RSVD_1_MASK \<equiv> GENMASK 31 24"
abbreviation CFG_BLK_MISC_CTL_RSVD_1_DFLT :: u32 where "CFG_BLK_MISC_CTL_RSVD_1_DFLT \<equiv> 0"
abbreviation CFG_BLK_MISC_CTL_10B_TAG_EN_MASK :: u32 where "CFG_BLK_MISC_CTL_10B_TAG_EN_MASK \<equiv> BIT 23"
abbreviation CFG_BLK_MISC_CTL_10B_TAG_DFLT :: u32 where "CFG_BLK_MISC_CTL_10B_TAG_DFLT \<equiv> 0"
abbreviation CFG_BLK_MISC_CTL_RSVD_2_MASK :: u32 where "CFG_BLK_MISC_CTL_RSVD_2_MASK \<equiv> BIT 22"
abbreviation CFG_BLK_MISC_CTL_RSVD_2_DFLT :: u32 where "CFG_BLK_MISC_CTL_RSVD_2_DFLT \<equiv> 0"
abbreviation CFG_BLK_MISC_CTL_AXI_WBK_MASK :: u32 where "CFG_BLK_MISC_CTL_AXI_WBK_MASK \<equiv> BIT 21"
abbreviation CFG_BLK_MISC_CTL_AXI_WBK_DFLT :: u32 where "CFG_BLK_MISC_CTL_AXI_WBK_DFLT \<equiv> 0"
abbreviation CFG_BLK_MISC_CTL_AXI_DSC_MASK :: u32 where "CFG_BLK_MISC_CTL_AXI_DSC_MASK \<equiv> BIT 20"
abbreviation CFG_BLK_MISC_CTL_AXI_DSC_DFLT :: u32 where "CFG_BLK_MISC_CTL_AXI_DSC_DFLT \<equiv> 0"
abbreviation CFG_BLK_MISC_CTL_NUM_TAG_MASK :: u32 where "CFG_BLK_MISC_CTL_NUM_TAG_MASK \<equiv> GENMASK 19 8"
abbreviation CFG_BLK_MISC_CTL_NUM_TAG_DFLT :: u32 where "CFG_BLK_MISC_CTL_NUM_TAG_DFLT \<equiv> 256"
abbreviation CFG_BLK_MISC_CTL_RSVD_3_MASK :: u32 where "CFG_BLK_MISC_CTL_RSVD_3_MASK \<equiv> GENMASK 7 5"
abbreviation CFG_BLK_MISC_CTL_RSVD_3_DFLT :: u32 where "CFG_BLK_MISC_CTL_RSVD_3_DFLT \<equiv> 0"
abbreviation CFG_BLK_MISC_CTL_RQ_METERING_MULTIPLIER_MASK :: u32 where "CFG_BLK_MISC_CTL_RQ_METERING_MULTIPLIER_MASK \<equiv> GENMASK 4 0"
abbreviation EQDMA_CFG_BLK_MISC_CTL_RQ_METERING_MUL :: u32 where "EQDMA_CFG_BLK_MISC_CTL_RQ_METERING_MUL \<equiv> 9"
abbreviation EQDMA_CFG_BLK_MISC_CTL_ADDR :: u32 where "EQDMA_CFG_BLK_MISC_CTL_ADDR \<equiv> 0x4C"
abbreviation C2H_PFCH_CFG_EVTFL_TH_MASK :: u32 where "C2H_PFCH_CFG_EVTFL_TH_MASK \<equiv> GENMASK 31 16"
abbreviation EQDMA_PFTCH_CFG_EVT_PFTH_FL_TH :: u32 where "EQDMA_PFTCH_CFG_EVT_PFTH_FL_TH \<equiv> 256"
abbreviation C2H_PFCH_CFG_FL_TH_MASK :: u32 where "C2H_PFCH_CFG_FL_TH_MASK \<equiv> GENMASK 15 0"
abbreviation C2H_PFCH_CFG_FL_TH_DFLT :: u32 where "C2H_PFCH_CFG_FL_TH_DFLT \<equiv> 256"
abbreviation EQDMA_C2H_PFCH_CFG_ADDR :: u32 where "EQDMA_C2H_PFCH_CFG_ADDR \<equiv> 0xB08"
abbreviation EQDMA_C2H_PFCH_CACHE_DEPTH_ADDR :: u32 where "EQDMA_C2H_PFCH_CACHE_DEPTH_ADDR \<equiv> 0xBE0"
abbreviation C2H_PFCH_CFG_1_EVT_QCNT_TH_MASK :: u32 where "C2H_PFCH_CFG_1_EVT_QCNT_TH_MASK \<equiv> GENMASK 31 16"
abbreviation C2H_PFCH_CFG_1_QCNT_MASK :: u32 where "C2H_PFCH_CFG_1_QCNT_MASK \<equiv> GENMASK 15 0"
abbreviation EQDMA_C2H_PFCH_CFG_1_ADDR :: u32 where "EQDMA_C2H_PFCH_CFG_1_ADDR \<equiv> 0xA80"
abbreviation C2H_PFCH_CFG_2_FENCE_MASK :: u32 where "C2H_PFCH_CFG_2_FENCE_MASK \<equiv> BIT 31"
abbreviation EQDMA_C2H_PFCH_CFG_2_FENCE_EN :: u32 where "EQDMA_C2H_PFCH_CFG_2_FENCE_EN \<equiv> 1"
abbreviation C2H_PFCH_CFG_2_RSVD_MASK :: u32 where "C2H_PFCH_CFG_2_RSVD_MASK \<equiv> GENMASK 30 29"
abbreviation C2H_PFCH_CFG_2_RSVD_DFLT :: u32 where "C2H_PFCH_CFG_2_RSVD_DFLT \<equiv> 0"
abbreviation C2H_PFCH_CFG_2_VAR_DESC_NO_DROP_MASK :: u32 where "C2H_PFCH_CFG_2_VAR_DESC_NO_DROP_MASK \<equiv> BIT 28"
abbreviation C2H_PFCH_CFG_2_VAR_DESC_NO_DROP_DFLT :: u32 where "C2H_PFCH_CFG_2_VAR_DESC_NO_DROP_DFLT \<equiv> 0"
abbreviation C2H_PFCH_CFG_2_LL_SZ_TH_MASK :: u32 where "C2H_PFCH_CFG_2_LL_SZ_TH_MASK \<equiv> GENMASK 27 12"
abbreviation C2H_PFCH_CFG_2_LL_SZ_TH_DFLT :: u32 where "C2H_PFCH_CFG_2_LL_SZ_TH_DFLT \<equiv> 1024"
abbreviation C2H_PFCH_CFG_2_VAR_DESC_NUM_MASK :: u32 where "C2H_PFCH_CFG_2_VAR_DESC_NUM_MASK \<equiv> GENMASK 11 6"
abbreviation C2H_PFCH_CFG_2_VAR_DESC_NUM :: u32 where "C2H_PFCH_CFG_2_VAR_DESC_NUM \<equiv> 15"
abbreviation C2H_PFCH_CFG_2_NUM_MASK :: u32 where "C2H_PFCH_CFG_2_NUM_MASK \<equiv> GENMASK 5 0"
abbreviation C2H_PFCH_CFG_2_NUM_DFLT :: u32 where "C2H_PFCH_CFG_2_NUM_DFLT \<equiv> 8"
abbreviation EQDMA_C2H_PFCH_CFG_2_ADDR :: u32 where "EQDMA_C2H_PFCH_CFG_2_ADDR \<equiv> 0xA84"
abbreviation PFCH_CFG_3_RSVD_MASK :: u32 where "PFCH_CFG_3_RSVD_MASK \<equiv> GENMASK 31 16"
abbreviation PFCH_CFG_3_RSVD_DFLT :: u32 where "PFCH_CFG_3_RSVD_DFLT \<equiv> 0"
abbreviation PFCH_CFG_3_VAR_DESC_FL_FREE_CNT_TH_MASK :: u32 where "PFCH_CFG_3_VAR_DESC_FL_FREE_CNT_TH_MASK \<equiv> GENMASK 15 7"
abbreviation PFCH_CFG_3_VAR_DESC_FL_FREE_CNT_TH_DFLT :: u32 where "PFCH_CFG_3_VAR_DESC_FL_FREE_CNT_TH_DFLT \<equiv> 256"
abbreviation PFCH_CFG_3_VAR_DESC_LG_PKT_CAM_CN_TH_MASK :: u32 where "PFCH_CFG_3_VAR_DESC_LG_PKT_CAM_CN_TH_MASK \<equiv> GENMASK 6 0"
abbreviation PFCH_CFG_3_VAR_DESC_LG_PKT_CAM_CN_TH_DFLT :: u32 where "PFCH_CFG_3_VAR_DESC_LG_PKT_CAM_CN_TH_DFLT \<equiv> 0"
abbreviation EQDMA_PFCH_CFG_3_ADDR :: u32 where "EQDMA_PFCH_CFG_3_ADDR \<equiv> 0x147C"
abbreviation PFCH_CFG_4_GLB_EVT_TIMER_TICK_MASK :: u32 where "PFCH_CFG_4_GLB_EVT_TIMER_TICK_MASK \<equiv> GENMASK 31 17"
abbreviation EQDMA_PFCH_CFG_4_GLB_EVT_TIMER_TICK :: u32 where "EQDMA_PFCH_CFG_4_GLB_EVT_TIMER_TICK \<equiv> 64"
abbreviation PFCH_CFG_4_DISABLE_GLB_EVT_TIMER_MASK :: u32 where "PFCH_CFG_4_DISABLE_GLB_EVT_TIMER_MASK \<equiv> BIT 16"
abbreviation PFCH_CFG_4_DISABLE_GLB_EVT_TIMER_DFLT :: u32 where "PFCH_CFG_4_DISABLE_GLB_EVT_TIMER_DFLT \<equiv> 0"
abbreviation PFCH_CFG_4_EVT_TIMER_TICK_MASK :: u32 where "PFCH_CFG_4_EVT_TIMER_TICK_MASK \<equiv> GENMASK 15 1"
abbreviation EQDMA_PFCH_CFG_4_EVT_TIMER_TICK :: u32 where "EQDMA_PFCH_CFG_4_EVT_TIMER_TICK \<equiv> 400"
abbreviation PFCH_CFG_4_DISABLE_EVT_TIMER_MASK :: u32 where "PFCH_CFG_4_DISABLE_EVT_TIMER_MASK \<equiv> BIT 0"
abbreviation PFCH_CFG_4_DISABLE_EVT_TIMER_DFLT :: u32 where "PFCH_CFG_4_DISABLE_EVT_TIMER_DFLT \<equiv> 0"
abbreviation EQDMA_PFCH_CFG_4_ADDR :: u32 where "EQDMA_PFCH_CFG_4_ADDR \<equiv> 0x1484"
abbreviation C2H_CRDT_COAL_CFG_1_RSVD_1_MASK :: u32 where "C2H_CRDT_COAL_CFG_1_RSVD_1_MASK \<equiv> GENMASK 31 18"
abbreviation C2H_CRDT_COAL_CFG_1_RSVD_1_DFLT :: u32 where "C2H_CRDT_COAL_CFG_1_RSVD_1_DFLT \<equiv> 0"
abbreviation C2H_CRDT_COAL_CFG_1_PLD_FIFO_TH_MASK :: u32 where "C2H_CRDT_COAL_CFG_1_PLD_FIFO_TH_MASK \<equiv> GENMASK 17 10"
abbreviation C2H_CRDT_COAL_CFG_1_PLD_FIFO_TH_DFLT :: u32 where "C2H_CRDT_COAL_CFG_1_PLD_FIFO_TH_DFLT \<equiv> 16"
abbreviation C2H_CRDT_COAL_CFG_1_TIMER_TH_MASK :: u32 where "C2H_CRDT_COAL_CFG_1_TIMER_TH_MASK \<equiv> GENMASK 9 0"
abbreviation EQDMA_C2H_CRDT_COAL_CFG_1_TIMER_TH :: u32 where "EQDMA_C2H_CRDT_COAL_CFG_1_TIMER_TH \<equiv> 16"
abbreviation EQDMA_C2H_CRDT_COAL_CFG_1_ADDR :: u32 where "EQDMA_C2H_CRDT_COAL_CFG_1_ADDR \<equiv> 0x1400"
abbreviation C2H_CRDT_COAL_CFG_2_RSVD_1_MASK :: u32 where "C2H_CRDT_COAL_CFG_2_RSVD_1_MASK \<equiv> GENMASK 31 24"
abbreviation C2H_CRDT_COAL_CFG_2_RSVD_1_DFLT :: u32 where "C2H_CRDT_COAL_CFG_2_RSVD_1_DFLT \<equiv> 0"
abbreviation C2H_CRDT_COAL_CFG_2_FIFO_TH_MASK :: u32 where "C2H_CRDT_COAL_CFG_2_FIFO_TH_MASK \<equiv> GENMASK 23 16"
abbreviation C2H_CRDT_COAL_CFG_2_RESERVED1_MASK :: u32 where "C2H_CRDT_COAL_CFG_2_RESERVED1_MASK \<equiv> GENMASK 15 11"
abbreviation C2H_CRDT_COAL_CFG_2_RESERVED1_DFLT :: u32 where "C2H_CRDT_COAL_CFG_2_RESERVED1_DFLT \<equiv> 0"
abbreviation C2H_CRDT_COAL_CFG_2_NT_TH_MASK :: u32 where "C2H_CRDT_COAL_CFG_2_NT_TH_MASK \<equiv> GENMASK 10 0"
abbreviation EQDMA_C2H_CRDT_COAL_CFG_2_CRDT_TH :: u32 where "EQDMA_C2H_CRDT_COAL_CFG_2_CRDT_TH \<equiv> 96"
abbreviation EQDMA_C2H_CRDT_COAL_CFG_2_ADDR :: u32 where "EQDMA_C2H_CRDT_COAL_CFG_2_ADDR \<equiv> 0x1404"
abbreviation GLBL2_RRQ_PCIE_THROT_REQ_EN_MASK :: u32 where "GLBL2_RRQ_PCIE_THROT_REQ_EN_MASK \<equiv> BIT 31"
abbreviation EQDMA_GLBL2_RRQ_PCIE_THROT_REQ_EN :: u32 where "EQDMA_GLBL2_RRQ_PCIE_THROT_REQ_EN \<equiv> 0"
abbreviation GLBL2_RRQ_PCIE_THROT_REQ_MASK :: u32 where "GLBL2_RRQ_PCIE_THROT_REQ_MASK \<equiv> GENMASK 30 19"
abbreviation GLBL2_RRQ_PCIE_THROT_REQ_DFLT :: u32 where "GLBL2_RRQ_PCIE_THROT_REQ_DFLT \<equiv> 192"
abbreviation GLBL2_RRQ_PCIE_THROT_DAT_EN_MASK :: u32 where "GLBL2_RRQ_PCIE_THROT_DAT_EN_MASK \<equiv> BIT 18"
abbreviation GLBL2_RRQ_PCIE_THROT_DAT_EN_DFLT :: u32 where "GLBL2_RRQ_PCIE_THROT_DAT_EN_DFLT \<equiv> 1"
abbreviation GLBL2_RRQ_PCIE_THROT_DAT_MASK :: u32 where "GLBL2_RRQ_PCIE_THROT_DAT_MASK \<equiv> GENMASK 17 0"
abbreviation GLBL2_RRQ_PCIE_THROT_DAT_DFLT :: u32 where "GLBL2_RRQ_PCIE_THROT_DAT_DFLT \<equiv> 20480"
abbreviation EQDMA_GLBL2_RRQ_PCIE_THROT_ADDR :: u32 where "EQDMA_GLBL2_RRQ_PCIE_THROT_ADDR \<equiv> 0x15C"
abbreviation GLBL2_RRQ_AXIMM_THROT_REQ_EN_MASK :: u32 where "GLBL2_RRQ_AXIMM_THROT_REQ_EN_MASK \<equiv> BIT 31"
abbreviation GLBL2_RRQ_AXIMM_THROT_REQ_EN_DFLT :: u32 where "GLBL2_RRQ_AXIMM_THROT_REQ_EN_DFLT \<equiv> 0"
abbreviation GLBL2_RRQ_AXIMM_THROT_REQ_MASK :: u32 where "GLBL2_RRQ_AXIMM_THROT_REQ_MASK \<equiv> GENMASK 30 19"
abbreviation GLBL2_RRQ_AXIMM_THROT_REQ_DFLT :: u32 where "GLBL2_RRQ_AXIMM_THROT_REQ_DFLT \<equiv> 0"
abbreviation GLBL2_RRQ_AXIMM_THROT_DAT_EN_MASK :: u32 where "GLBL2_RRQ_AXIMM_THROT_DAT_EN_MASK \<equiv> BIT 18"
abbreviation GLBL2_RRQ_AXIMM_THROT_DAT_EN_DFLT :: u32 where "GLBL2_RRQ_AXIMM_THROT_DAT_EN_DFLT \<equiv> 0"
abbreviation GLBL2_RRQ_AXIMM_THROT_DAT_MASK :: u32 where "GLBL2_RRQ_AXIMM_THROT_DAT_MASK \<equiv> GENMASK 17 0"
abbreviation GLBL2_RRQ_AXIMM_THROT_DAT_DFLT :: u32 where "GLBL2_RRQ_AXIMM_THROT_DAT_DFLT \<equiv> 0"
abbreviation EQDMA_GLBL2_RRQ_AXIMM_THROT_ADDR :: u32 where "EQDMA_GLBL2_RRQ_AXIMM_THROT_ADDR \<equiv> 0x160"
abbreviation GLBL2_RRQ_BRG_THROT_REQ_EN_MASK :: u32 where "GLBL2_RRQ_BRG_THROT_REQ_EN_MASK \<equiv> BIT 31"
abbreviation GLBL2_RRQ_BRG_THROT_REQ_EN_DFLT :: u32 where "GLBL2_RRQ_BRG_THROT_REQ_EN_DFLT \<equiv> 1"
abbreviation GLBL2_RRQ_BRG_THROT_REQ_MASK :: u32 where "GLBL2_RRQ_BRG_THROT_REQ_MASK \<equiv> GENMASK 30 19"
abbreviation GLBL2_RRQ_BRG_THROT_REQ_DFLT :: u32 where "GLBL2_RRQ_BRG_THROT_REQ_DFLT \<equiv> 192"
abbreviation GLBL2_RRQ_BRG_THROT_DAT_EN_MASK :: u32 where "GLBL2_RRQ_BRG_THROT_DAT_EN_MASK \<equiv> BIT 18"
abbreviation GLBL2_RRQ_BRG_THROT_DAT_EN_DFLT :: u32 where "GLBL2_RRQ_BRG_THROT_DAT_EN_DFLT \<equiv> 1"
abbreviation GLBL2_RRQ_BRG_THROT_DAT_MASK :: u32 where "GLBL2_RRQ_BRG_THROT_DAT_MASK \<equiv> GENMASK 17 0"
abbreviation EQDMA_GLBL2_RRQ_BRG_THROT_ADDR :: u32 where "EQDMA_GLBL2_RRQ_BRG_THROT_ADDR \<equiv> 0x158"
abbreviation H2C_REQ_THROT_PCIE_EN_REQ_MASK :: u32 where "H2C_REQ_THROT_PCIE_EN_REQ_MASK \<equiv> BIT 31"
abbreviation EQDMA_H2C_REQ_THROT_PCIE_EN_REQ :: u32 where "EQDMA_H2C_REQ_THROT_PCIE_EN_REQ \<equiv> 1"
abbreviation H2C_REQ_THROT_PCIE_MASK :: u32 where "H2C_REQ_THROT_PCIE_MASK \<equiv> GENMASK 30 19"
abbreviation EQDMA_H2C_REQ_THROT_PCIE_REQ_TH :: u32 where "EQDMA_H2C_REQ_THROT_PCIE_REQ_TH \<equiv> 192"
abbreviation H2C_REQ_THROT_PCIE_EN_DATA_MASK :: u32 where "H2C_REQ_THROT_PCIE_EN_DATA_MASK \<equiv> BIT 18"
abbreviation EQDMA_H2C_REQ_THROT_PCIE_EN_DATA :: u32 where "EQDMA_H2C_REQ_THROT_PCIE_EN_DATA \<equiv> 1"
abbreviation H2C_REQ_THROT_PCIE_DATA_THRESH_MASK :: u32 where "H2C_REQ_THROT_PCIE_DATA_THRESH_MASK \<equiv> GENMASK 17 0"
abbreviation EQDMA_H2C_REQ_THROT_PCIE_DATA_TH :: u32 where "EQDMA_H2C_REQ_THROT_PCIE_DATA_TH \<equiv> 24576"
abbreviation EQDMA_H2C_REQ_THROT_PCIE_ADDR :: u32 where "EQDMA_H2C_REQ_THROT_PCIE_ADDR \<equiv> 0xE24"
abbreviation H2C_REQ_THROT_AXIMM_EN_REQ_MASK :: u32 where "H2C_REQ_THROT_AXIMM_EN_REQ_MASK \<equiv> BIT 31"
abbreviation EQDMA_H2C_REQ_THROT_AXIMM_EN_REQ :: u32 where "EQDMA_H2C_REQ_THROT_AXIMM_EN_REQ \<equiv> 1"
abbreviation H2C_REQ_THROT_AXIMM_MASK :: u32 where "H2C_REQ_THROT_AXIMM_MASK \<equiv> GENMASK 30 19"
abbreviation EQDMA_H2C_REQ_THROT_AXIMM_REQ_TH :: u32 where "EQDMA_H2C_REQ_THROT_AXIMM_REQ_TH \<equiv> 64"
abbreviation H2C_REQ_THROT_AXIMM_EN_DATA_MASK :: u32 where "H2C_REQ_THROT_AXIMM_EN_DATA_MASK \<equiv> BIT 18"
abbreviation EQDMA_H2C_REQ_THROT_AXIMM_EN_DATA :: u32 where "EQDMA_H2C_REQ_THROT_AXIMM_EN_DATA \<equiv> 1"
abbreviation H2C_REQ_THROT_AXIMM_DATA_THRESH_MASK :: u32 where "H2C_REQ_THROT_AXIMM_DATA_THRESH_MASK \<equiv> GENMASK 17 0"
abbreviation EQDMA_H2C_REQ_THROT_AXIMM_DATA_TH :: u32 where "EQDMA_H2C_REQ_THROT_AXIMM_DATA_TH \<equiv> 16384"
abbreviation EQDMA_H2C_REQ_THROT_AXIMM_ADDR :: u32 where "EQDMA_H2C_REQ_THROT_AXIMM_ADDR \<equiv> 0xE2C"
abbreviation H2C_MM_DATA_THROTTLE_RSVD_1_MASK :: u32 where "H2C_MM_DATA_THROTTLE_RSVD_1_MASK \<equiv> GENMASK 31 17"
abbreviation H2C_MM_DATA_THROTTLE_RSVD_1_DFLT :: u32 where "H2C_MM_DATA_THROTTLE_RSVD_1_DFLT \<equiv> 0"
abbreviation H2C_MM_DATA_THROTTLE_DAT_EN_MASK :: u32 where "H2C_MM_DATA_THROTTLE_DAT_EN_MASK \<equiv> BIT 16"
abbreviation EQDMA_H2C_MM_DATA_TH_EN :: u32 where "EQDMA_H2C_MM_DATA_TH_EN \<equiv> 1"
abbreviation H2C_MM_DATA_THROTTLE_DAT_MASK :: u32 where "H2C_MM_DATA_THROTTLE_DAT_MASK \<equiv> GENMASK 15 0"
abbreviation EQDMA_H2C_MM_DATA_TH :: u32 where "EQDMA_H2C_MM_DATA_TH \<equiv> 20480"
abbreviation EQDMA_H2C_MM_DATA_THROTTLE_ADDR :: u32 where "EQDMA_H2C_MM_DATA_THROTTLE_ADDR \<equiv> 0x12EC"

definition eqdma_set_perf_opt :: "'d mmio \<Rightarrow> 'd xdev \<Rightarrow> 'd xdev" where
  "eqdma_set_perf_opt io d =
    (let reg_val =
               FIELD_SET GLBL_DSC_CFG_RSVD_1_MASK GLBL_DSC_CFG_RSVD_1_DFLT OR
               FIELD_SET GLBL_DSC_CFG_C2H_UODSC_LIMIT_MASK EQDMA_GLBL_DSC_CFG_C2H_UODSC_LIMIT OR
               FIELD_SET GLBL_DSC_CFG_H2C_UODSC_LIMIT_MASK EQDMA_GLBL_DSC_CFG_H2C_UODSC_LIMIT OR
               FIELD_SET GLBL_DSC_CFG_UNC_OVR_COR_MASK GLBL_DSC_CFG_UNC_OVR_COR_DFLT OR
               FIELD_SET GLBL_DSC_CFG_CTXT_FER_DIS_MASK GLBL_DSC_CFG_CTXT_FER_DIS_DFLT OR
               FIELD_SET GLBL_DSC_CFG_RSVD_2_MASK GLBL_DSC_CFG_RSVD_2_DFLT OR
               FIELD_SET GLBL_DSC_CFG_MAXFETCH_MASK EQDMA_GLBL_DSC_CFG_MAXFETCH OR
               FIELD_SET GLBL_DSC_CFG_WB_ACC_INT_MASK EQDMA_GLBL_DSC_CFG_WB_ACC_INT;
         d = set_reg io EQDMA_GLBL_DSC_CFG_ADDR reg_val d;
         reg_val =
               FIELD_SET CFG_BLK_MISC_CTL_RSVD_1_MASK CFG_BLK_MISC_CTL_RSVD_1_DFLT OR
               FIELD_SET CFG_BLK_MISC_CTL_10B_TAG_EN_MASK CFG_BLK_MISC_CTL_10B_TAG_DFLT OR
               FIELD_SET CFG_BLK_MISC_CTL_RSVD_2_MASK CFG_BLK_MISC_CTL_RSVD_2_DFLT OR
               FIELD_SET CFG_BLK_MISC_CTL_AXI_WBK_MASK CFG_BLK_MISC_CTL_AXI_WBK_DFLT OR
               FIELD_SET CFG_BLK_MISC_CTL_AXI_DSC_MASK CFG_BLK_MISC_CTL_AXI_DSC_DFLT OR
               FIELD_SET CFG_BLK_MISC_CTL_NUM_TAG_MASK CFG_BLK_MISC_CTL_NUM_TAG_DFLT OR
               FIELD_SET CFG_BLK_MISC_CTL_RSVD_3_MASK CFG_BLK_MISC_CTL_RSVD_3_DFLT OR
               FIELD_SET CFG_BLK_MISC_CTL_RQ_METERING_MULTIPLIER_MASK EQDMA_CFG_BLK_MISC_CTL_RQ_METERING_MUL;
         d = set_reg io EQDMA_CFG_BLK_MISC_CTL_ADDR reg_val d;
         reg_val =
               FIELD_SET C2H_PFCH_CFG_EVTFL_TH_MASK EQDMA_PFTCH_CFG_EVT_PFTH_FL_TH OR
               FIELD_SET C2H_PFCH_CFG_FL_TH_MASK C2H_PFCH_CFG_FL_TH_DFLT;
         d = set_reg io EQDMA_C2H_PFCH_CFG_ADDR reg_val d;
         (pfch_cache_dpth, d) = qdma_reg_read io d EQDMA_C2H_PFCH_CACHE_DEPTH_ADDR;
         reg_val =
               FIELD_SET C2H_PFCH_CFG_1_EVT_QCNT_TH_MASK (pfch_cache_dpth - 4) OR
               FIELD_SET C2H_PFCH_CFG_1_QCNT_MASK (pfch_cache_dpth - 4);
         d = set_reg io EQDMA_C2H_PFCH_CFG_1_ADDR reg_val d;
         reg_val =
               FIELD_SET C2H_PFCH_CFG_2_FENCE_MASK EQDMA_C2H_PFCH_CFG_2_FENCE_EN OR
               FIELD_SET C2H_PFCH_CFG_2_RSVD_MASK C2H_PFCH_CFG_2_RSVD_DFLT OR
               FIELD_SET C2H_PFCH_CFG_2_VAR_DESC_NO_DROP_MASK C2H_PFCH_CFG_2_VAR_DESC_NO_DROP_DFLT OR
               FIELD_SET C2H_PFCH_CFG_2_LL_SZ_TH_MASK C2H_PFCH_CFG_2_LL_SZ_TH_DFLT OR
               FIELD_SET C2H_PFCH_CFG_2_VAR_DESC_NUM_MASK C2H_PFCH_CFG_2_VAR_DESC_NUM OR
               FIELD_SET C2H_PFCH_CFG_2_NUM_MASK C2H_PFCH_CFG_2_NUM_DFLT;
         d = set_reg io EQDMA_C2H_PFCH_CFG_2_ADDR reg_val d;
         reg_val =
               FIELD_SET PFCH_CFG_3_RSVD_MASK PFCH_CFG_3_RSVD_DFLT OR
               FIELD_SET PFCH_CFG_3_VAR_DESC_FL_FREE_CNT_TH_MASK PFCH_CFG_3_VAR_DESC_FL_FREE_CNT_TH_DFLT OR
               FIELD_SET PFCH_CFG_3_VAR_DESC_LG_PKT_CAM_CN_TH_MASK PFCH_CFG_3_VAR_DESC_LG_PKT_CAM_CN_TH_DFLT;
         d = set_reg io EQDMA_PFCH_CFG_3_ADDR reg_val d;
         reg_val =
               FIELD_SET PFCH_CFG_4_GLB_EVT_TIMER_TICK_MASK EQDMA_PFCH_CFG_4_GLB_EVT_TIMER_TICK OR
               FIELD_SET PFCH_CFG_4_DISABLE_GLB_EVT_TIMER_MASK PFCH_CFG_4_DISABLE_GLB_EVT_TIMER_DFLT OR
               FIELD_SET PFCH_CFG_4_EVT_TIMER_TICK_MASK EQDMA_PFCH_CFG_4_EVT_TIMER_TICK OR
               FIELD_SET PFCH_CFG_4_DISABLE_EVT_TIMER_MASK PFCH_CFG_4_DISABLE_EVT_TIMER_DFLT;
         d = set_reg io EQDMA_PFCH_CFG_4_ADDR reg_val d;
         reg_val =
               FIELD_SET C2H_CRDT_COAL_CFG_1_RSVD_1_MASK C2H_CRDT_COAL_CFG_1_RSVD_1_DFLT OR
               FIELD_SET C2H_CRDT_COAL_CFG_1_PLD_FIFO_TH_MASK C2H_CRDT_COAL_CFG_1_PLD_FIFO_TH_DFLT OR
               FIELD_SET C2H_CRDT_COAL_CFG_1_TIMER_TH_MASK EQDMA_C2H_CRDT_COAL_CFG_1_TIMER_TH;
         d = set_reg io EQDMA_C2H_CRDT_COAL_CFG_1_ADDR reg_val d;
         reg_val =
               FIELD_SET C2H_CRDT_COAL_CFG_2_RSVD_1_MASK C2H_CRDT_COAL_CFG_2_RSVD_1_DFLT OR
               FIELD_SET C2H_CRDT_COAL_CFG_2_FIFO_TH_MASK (pfch_cache_dpth - 8) OR
               FIELD_SET C2H_CRDT_COAL_CFG_2_RESERVED1_MASK C2H_CRDT_COAL_CFG_2_RESERVED1_DFLT OR
               FIELD_SET C2H_CRDT_COAL_CFG_2_NT_TH_MASK EQDMA_C2H_CRDT_COAL_CFG_2_CRDT_TH;
         d = set_reg io EQDMA_C2H_CRDT_COAL_CFG_2_ADDR reg_val d;
         reg_val =
               FIELD_SET GLBL2_RRQ_PCIE_THROT_REQ_EN_MASK EQDMA_GLBL2_RRQ_PCIE_THROT_REQ_EN OR
               FIELD_SET GLBL2_RRQ_PCIE_THROT_REQ_MASK GLBL2_RRQ_PCIE_THROT_REQ_DFLT OR
               FIELD_SET GLBL2_RRQ_PCIE_THROT_DAT_EN_MASK GLBL2_RRQ_PCIE_THROT_DAT_EN_DFLT OR
               FIELD_SET GLBL2_RRQ_PCIE_THROT_DAT_MASK GLBL2_RRQ_PCIE_THROT_DAT_DFLT;
         d = set_reg io EQDMA_GLBL2_RRQ_PCIE_THROT_ADDR reg_val d;
         reg_val =
               FIELD_SET GLBL2_RRQ_AXIMM_THROT_REQ_EN_MASK GLBL2_RRQ_AXIMM_THROT_REQ_EN_DFLT OR
               FIELD_SET GLBL2_RRQ_AXIMM_THROT_REQ_MASK GLBL2_RRQ_AXIMM_THROT_REQ_DFLT OR
               FIELD_SET GLBL2_RRQ_AXIMM_THROT_DAT_EN_MASK GLBL2_RRQ_AXIMM_THROT_DAT_EN_DFLT OR
               FIELD_SET GLBL2_RRQ_AXIMM_THROT_DAT_MASK GLBL2_RRQ_AXIMM_THROT_DAT_DFLT;
         d = set_reg io EQDMA_GLBL2_RRQ_AXIMM_THROT_ADDR reg_val d;
         (reg_val, d) = qdma_reg_read io d EQDMA_GLBL2_RRQ_PCIE_THROT_ADDR;
         data_th = FIELD_GET GLBL2_RRQ_PCIE_THROT_DAT_MASK reg_val;
         reg_val =
               FIELD_SET GLBL2_RRQ_BRG_THROT_REQ_EN_MASK GLBL2_RRQ_BRG_THROT_REQ_EN_DFLT OR
               FIELD_SET GLBL2_RRQ_BRG_THROT_REQ_MASK GLBL2_RRQ_BRG_THROT_REQ_DFLT OR
               FIELD_SET GLBL2_RRQ_BRG_THROT_DAT_EN_MASK GLBL2_RRQ_BRG_THROT_DAT_EN_DFLT OR
               FIELD_SET GLBL2_RRQ_BRG_THROT_DAT_MASK data_th;
         d = set_reg io EQDMA_GLBL2_RRQ_BRG_THROT_ADDR reg_val d;
         reg_val =
               FIELD_SET H2C_REQ_THROT_PCIE_EN_REQ_MASK EQDMA_H2C_REQ_THROT_PCIE_EN_REQ OR
               FIELD_SET H2C_REQ_THROT_PCIE_MASK EQDMA_H2C_REQ_THROT_PCIE_REQ_TH OR
               FIELD_SET H2C_REQ_THROT_PCIE_EN_DATA_MASK EQDMA_H2C_REQ_THROT_PCIE_EN_DATA OR
               FIELD_SET H2C_REQ_THROT_PCIE_DATA_THRESH_MASK EQDMA_H2C_REQ_THROT_PCIE_DATA_TH;
         d = set_reg io EQDMA_H2C_REQ_THROT_PCIE_ADDR reg_val d;
         reg_val =
               FIELD_SET H2C_REQ_THROT_AXIMM_EN_REQ_MASK EQDMA_H2C_REQ_THROT_AXIMM_EN_REQ OR
               FIELD_SET H2C_REQ_THROT_AXIMM_MASK EQDMA_H2C_REQ_THROT_AXIMM_REQ_TH OR
               FIELD_SET H2C_REQ_THROT_AXIMM_EN_DATA_MASK EQDMA_H2C_REQ_THROT_AXIMM_EN_DATA OR
               FIELD_SET H2C_REQ_THROT_AXIMM_DATA_THRESH_MASK EQDMA_H2C_REQ_THROT_AXIMM_DATA_TH;
         d = set_reg io EQDMA_H2C_REQ_THROT_AXIMM_ADDR reg_val d;
         reg_val =
               FIELD_SET H2C_MM_DATA_THROTTLE_RSVD_1_MASK H2C_MM_DATA_THROTTLE_RSVD_1_DFLT OR
               FIELD_SET H2C_MM_DATA_THROTTLE_DAT_EN_MASK EQDMA_H2C_MM_DATA_TH_EN OR
               FIELD_SET H2C_MM_DATA_THROTTLE_DAT_MASK EQDMA_H2C_MM_DATA_TH;
         d = set_reg io EQDMA_H2C_MM_DATA_THROTTLE_ADDR reg_val d
     in d)"

abbreviation EQDMA_GLBL_RNG_SZ_1_ADDR :: u32 where "EQDMA_GLBL_RNG_SZ_1_ADDR \<equiv> 0x204"
abbreviation EQDMA_C2H_CNT_TH_ADDR :: u32 where "EQDMA_C2H_CNT_TH_ADDR \<equiv> 0xA40"
abbreviation EQDMA_C2H_TIMER_CNT_ADDR :: u32 where "EQDMA_C2H_TIMER_CNT_ADDR \<equiv> 0xA00"
abbreviation EQDMA_C2H_BUF_SZ_ADDR :: u32 where "EQDMA_C2H_BUF_SZ_ADDR \<equiv> 0xAB0"
abbreviation C2H_PFCH_CACHE_DEPTH_MASK :: u32 where "C2H_PFCH_CACHE_DEPTH_MASK \<equiv> GENMASK 7 0"
abbreviation EQDMA_C2H_INT_TIMER_TICK_ADDR :: u32 where "EQDMA_C2H_INT_TIMER_TICK_ADDR \<equiv> 0xB0C"
abbreviation EQDMA_C2H_WRB_COAL_BUF_DEPTH_ADDR :: u32 where "EQDMA_C2H_WRB_COAL_BUF_DEPTH_ADDR \<equiv> 0xBE4"
abbreviation C2H_WRB_COAL_CFG_TICK_CNT_MASK :: u32 where "C2H_WRB_COAL_CFG_TICK_CNT_MASK \<equiv> GENMASK 13 2"
abbreviation C2H_WRB_COAL_CFG_TICK_VAL_MASK :: u32 where "C2H_WRB_COAL_CFG_TICK_VAL_MASK \<equiv> GENMASK 25 14"
abbreviation C2H_WRB_COAL_CFG_MAX_BUF_SZ_MASK :: u32 where "C2H_WRB_COAL_CFG_MAX_BUF_SZ_MASK \<equiv> GENMASK 31 26"
abbreviation EQDMA_C2H_WRB_COAL_CFG_ADDR :: u32 where "EQDMA_C2H_WRB_COAL_CFG_ADDR \<equiv> 0xB50"
abbreviation EQDMA_H2C_THROT_DATA_THRESH :: u32 where "EQDMA_H2C_THROT_DATA_THRESH \<equiv> 0x5000"
abbreviation EQDMA_THROT_EN_DATA :: u32 where "EQDMA_THROT_EN_DATA \<equiv> 1"
abbreviation EQDMA_H2C_THROT_REQ_THRESH :: u32 where "EQDMA_H2C_THROT_REQ_THRESH \<equiv> 0xC0"
abbreviation EQDMA_THROT_EN_REQ :: u32 where "EQDMA_THROT_EN_REQ \<equiv> 0"

definition eqdma_set_default_global_csr :: "'d mmio \<Rightarrow> 'd xdev option \<Rightarrow> int \<times> 'd xdev option" where
  "eqdma_set_default_global_csr io dev =
    (case dev of
       None \<Rightarrow> (neg_err QDMA_ERR_INV_PARAM, None)
     | Some d \<Rightarrow>
       let (dev_cap, d) = after_attributes eqdma_get_device_attributes io d;
           (eqdma_ip_version, d) = eqdma_read_ip_version io 0 d;
           d = qdma_write_csr_values io d EQDMA_GLBL_RNG_SZ_1_ADDR 0 QDMA_NUM_RING_SIZES default_rng_sz;
           d = (if da_st_en dev_cap \<noteq> 0 \<or> da_mm_cmpt_en dev_cap \<noteq> 0
               then
                 let d = qdma_write_csr_values io d EQDMA_C2H_CNT_TH_ADDR 0 QDMA_NUM_C2H_COUNTERS default_cnt_th;
                     d = qdma_write_csr_values io d EQDMA_C2H_TIMER_CNT_ADDR 0 QDMA_NUM_C2H_TIMERS default_tmr_cnt;
                     d = (if eqdma_ip_version = EQDMA_IP_VERSION_4
                       then
                         let reg_val =
                               FIELD_SET GLBL_DSC_CFG_MAXFETCH_MASK DEFAULT_MAX_DSC_FETCH OR
                               FIELD_SET GLBL_DSC_CFG_WB_ACC_INT_MASK DEFAULT_WRB_INT;
                             d = qdma_reg_write io d EQDMA_GLBL_DSC_CFG_ADDR reg_val
                         in d
                       else d)
                 in d
               else d);
           d = (if da_st_en dev_cap \<noteq> 0
               then
                 let d = qdma_write_csr_values io d EQDMA_C2H_BUF_SZ_ADDR 0 QDMA_NUM_C2H_BUFFER_SIZES default_buf_sz;
                     d = (if eqdma_ip_version = EQDMA_IP_VERSION_4
                       then
                         let (reg_val, d) = qdma_reg_read io d EQDMA_C2H_PFCH_CACHE_DEPTH_ADDR;
                             cfg_val = FIELD_GET C2H_PFCH_CACHE_DEPTH_MASK reg_val;
                             reg_val =
                               FIELD_SET C2H_PFCH_CFG_1_QCNT_MASK (drop_bit 2 cfg_val) OR
                               FIELD_SET C2H_PFCH_CFG_1_EVT_QCNT_TH_MASK (drop_bit 2 cfg_val - 4);
                             d = qdma_reg_write io d EQDMA_C2H_PFCH_CFG_1_ADDR reg_val;
                             (reg_val, d) = qdma_reg_read io d EQDMA_C2H_PFCH_CFG_2_ADDR;
                             reg_val = reg_val OR FIELD_SET C2H_PFCH_CFG_2_FENCE_MASK 1;
                             d = qdma_reg_write io d EQDMA_C2H_PFCH_CFG_2_ADDR reg_val
                         in d
                       else d);
                     d = qdma_reg_write io d EQDMA_C2H_INT_TIMER_TICK_ADDR DEFAULT_C2H_INTR_TIMER_TICK;
                     (cfg_val, d) = qdma_reg_read io d EQDMA_C2H_WRB_COAL_BUF_DEPTH_ADDR;
                     reg_val =
                       FIELD_SET C2H_WRB_COAL_CFG_TICK_CNT_MASK DEFAULT_CMPT_COAL_TIMER_CNT OR
                       FIELD_SET C2H_WRB_COAL_CFG_TICK_VAL_MASK DEFAULT_CMPT_COAL_TIMER_TICK OR
                       FIELD_SET C2H_WRB_COAL_CFG_MAX_BUF_SZ_MASK cfg_val;
                     d = qdma_reg_write io d EQDMA_C2H_WRB_COAL_CFG_ADDR reg_val;
                     d = (if eqdma_ip_version = EQDMA_IP_VERSION_4
                       then
                         let reg_val =
                               FIELD_SET H2C_REQ_THROT_PCIE_DATA_THRESH_MASK EQDMA_H2C_THROT_DATA_THRESH OR
                               FIELD_SET H2C_REQ_THROT_PCIE_EN_DATA_MASK EQDMA_THROT_EN_DATA OR
                               FIELD_SET H2C_REQ_THROT_PCIE_MASK EQDMA_H2C_THROT_REQ_THRESH OR
                               FIELD_SET H2C_REQ_THROT_PCIE_EN_REQ_MASK EQDMA_THROT_EN_REQ;
                             d = qdma_reg_write io d EQDMA_H2C_REQ_THROT_PCIE_ADDR reg_val
                         in d
                       else d)
                 in d
               else d);
           d = (if eqdma_ip_version = EQDMA_IP_VERSION_5 then eqdma_set_perf_opt io d else d)
       in (err_code QDMA_SUCCESS, Some d))"

abbreviation EQDMA_CPM5_C2H_INT_TIMER_TICK_ADDR :: u32 where "EQDMA_CPM5_C2H_INT_TIMER_TICK_ADDR \<equiv> 0xB0C"
abbreviation EQDMA_CPM5_DEFAULT_C2H_INTR_TIMER_TICK :: u32 where "EQDMA_CPM5_DEFAULT_C2H_INTR_TIMER_TICK \<equiv> 50"
abbreviation EQDMA_CPM5_C2H_PFCH_CACHE_DEPTH_ADDR :: u32 where "EQDMA_CPM5_C2H_PFCH_CACHE_DEPTH_ADDR \<equiv> 0xBE0"
abbreviation CPM5_GLBL_DSC_CFG_RSVD_1_MASK :: u32 where "CPM5_GLBL_DSC_CFG_RSVD_1_MASK \<equiv> GENMASK 31 10"
abbreviation GLBL_DSC_CFG_MAXFETCH :: u32 where "GLBL_DSC_CFG_MAXFETCH \<equiv> 2"
abbreviation GLBL_DSC_CFG_WB_ACC_INT :: u32 where "GLBL_DSC_CFG_WB_ACC_INT \<equiv> 5"
abbreviation EQDMA_CPM5_GLBL_DSC_CFG_ADDR :: u32 where "EQDMA_CPM5_GLBL_DSC_CFG_ADDR \<equiv> 0x250"
abbreviation CPM5_EQDMA_CFG_BLK_MISC_CTL_RQ_METERING_MUL :: u32 where "CPM5_EQDMA_CFG_BLK_MISC_CTL_RQ_METERING_MUL \<equiv> 31"
abbreviation EQDMA_CPM5_CFG_BLK_MISC_CTL_ADDR :: u32 where "EQDMA_CPM5_CFG_BLK_MISC_CTL_ADDR \<equiv> 0x4C"
abbreviation EQDMA_CPM5_C2H_PFCH_CFG_ADDR :: u32 where "EQDMA_CPM5_C2H_PFCH_CFG_ADDR \<equiv> 0xB08"
abbreviation PREFETCH_QUEUE_COUNT_STEP :: u32 where "PREFETCH_QUEUE_COUNT_STEP \<equiv> 4"
abbreviation EQDMA_CPM5_C2H_PFCH_CFG_1_ADDR :: u32 where "EQDMA_CPM5_C2H_PFCH_CFG_1_ADDR \<equiv> 0xA80"
abbreviation C2H_PFCH_CFG_2_FENCE_EN :: u32 where "C2H_PFCH_CFG_2_FENCE_EN \<equiv> 1"
abbreviation C2H_PFCH_CFG_2_NUM_PFCH_DFLT :: u32 where "C2H_PFCH_CFG_2_NUM_PFCH_DFLT \<equiv> 16"
abbreviation EQDMA_CPM5_C2H_PFCH_CFG_2_ADDR :: u32 where "EQDMA_CPM5_C2H_PFCH_CFG_2_ADDR \<equiv> 0xA84"
abbreviation C2H_CRDT_COAL_CFG_1_TIMER_TH :: u32 where "C2H_CRDT_COAL_CFG_1_TIMER_TH \<equiv> 16"
abbreviation EQDMA_CPM5_C2H_CRDT_COAL_CFG_1_ADDR :: u32 where "EQDMA_CPM5_C2H_CRDT_COAL_CFG_1_ADDR \<equiv> 0x1400"
abbreviation C2H_CRDT_COAL_CFG_2_CRDT_CNT_TH_DFLT :: u32 where "C2H_CRDT_COAL_CFG_2_CRDT_CNT_TH_DFLT \<equiv> 156"
abbreviation EQDMA_CPM5_C2H_CRDT_COAL_CFG_2_ADDR :: u32 where "EQDMA_CPM5_C2H_CRDT_COAL_CFG_2_ADDR \<equiv> 0x1404"
abbreviation H2C_REQ_THROT_PCIE_EN_REQ :: u32 where "H2C_REQ_THROT_PCIE_EN_REQ \<equiv> 1"
abbreviation H2C_REQ_THROT_PCIE_REQ_TH :: u32 where "H2C_REQ_THROT_PCIE_REQ_TH \<equiv> 192"
abbreviation H2C_REQ_THROT_PCIE_EN_DATA :: u32 where "H2C_REQ_THROT_PCIE_EN_DATA \<equiv> 1"
abbreviation H2C_REQ_THROT_PCIE_DATA_TH :: u32 where "H2C_REQ_THROT_PCIE_DATA_TH \<equiv> 57344"
abbreviation EQDMA_CPM5_H2C_REQ_THROT_PCIE_ADDR :: u32 where "EQDMA_CPM5_H2C_REQ_THROT_PCIE_ADDR \<equiv> 0xE24"
abbreviation H2C_REQ_THROT_AXIMM_EN_REQ :: u32 where "H2C_REQ_THROT_AXIMM_EN_REQ \<equiv> 0"
abbreviation H2C_REQ_THROT_AXIMM_REQ_TH :: u32 where "H2C_REQ_THROT_AXIMM_REQ_TH \<equiv> 192"
abbreviation H2C_REQ_THROT_AXIMM_EN_DATA :: u32 where "H2C_REQ_THROT_AXIMM_EN_DATA \<equiv> 0"
abbreviation H2C_REQ_THROT_AXIMM_DATA_TH :: u32 where "H2C_REQ_THROT_AXIMM_DATA_TH \<equiv> 65536"
abbreviation EQDMA_CPM5_H2C_REQ_THROT_AXIMM_ADDR :: u32 where "EQDMA_CPM5_H2C_REQ_THROT_AXIMM_ADDR \<equiv> 0xE2C"
abbreviation H2C_MM_DATA_TH_EN :: u32 where "H2C_MM_DATA_TH_EN \<equiv> 1"
abbreviation H2C_MM_DATA_TH :: u32 where "H2C_MM_DATA_TH \<equiv> 57344"
abbreviation EQDMA_CPM5_H2C_MM_DATA_THROTTLE_ADDR :: u32 where "EQDMA_CPM5_H2C_MM_DATA_THROTTLE_ADDR \<equiv> 0x12EC"

definition eqdma_cpm5_set_perf_opt :: "'d mmio \<Rightarrow> 'd xdev \<Rightarrow> 'd xdev" where
  "eqdma_cpm5_set_perf_opt io d =
    (let d = qdma_reg_write io d EQDMA_CPM5_C2H_INT_TIMER_TICK_ADDR EQDMA_CPM5_DEFAULT_C2H_INTR_TIMER_TICK;
         (reg_val, d) = qdma_reg_read io d EQDMA_CPM5_C2H_PFCH_CACHE_DEPTH_ADDR;
         pftch_cache_depth = FIELD_GET C2H_PFCH_CACHE_DEPTH_MASK reg_val;
         reg_val =
               FIELD_SET CPM5_GLBL_DSC_CFG_RSVD_1_MASK GLBL_DSC_CFG_RSVD_1_DFLT OR
               FIELD_SET GLBL_DSC_CFG_UNC_OVR_COR_MASK GLBL_DSC_CFG_UNC_OVR_COR_DFLT OR
               FIELD_SET GLBL_DSC_CFG_CTXT_FER_DIS_MASK GLBL_DSC_CFG_CTXT_FER_DIS_DFLT OR
               FIELD_SET GLBL_DSC_CFG_RSVD_2_MASK GLBL_DSC_CFG_RSVD_2_DFLT OR
               FIELD_SET GLBL_DSC_CFG_MAXFETCH_MASK GLBL_DSC_CFG_MAXFETCH OR
               FIELD_SET GLBL_DSC_CFG_WB_ACC_INT_MASK GLBL_DSC_CFG_WB_ACC_INT;
         d = set_reg io EQDMA_CPM5_GLBL_DSC_CFG_ADDR reg_val d;
         reg_val =
               FIELD_SET CFG_BLK_MISC_CTL_RSVD_1_MASK CFG_BLK_MISC_CTL_RSVD_1_DFLT OR
               FIELD_SET CFG_BLK_MISC_CTL_10B_TAG_EN_MASK CFG_BLK_MISC_CTL_10B_TAG_DFLT OR
               FIELD_SET CFG_BLK_MISC_CTL_RSVD_2_MASK CFG_BLK_MISC_CTL_RSVD_2_DFLT OR
               FIELD_SET CFG_BLK_MISC_CTL_AXI_WBK_MASK CFG_BLK_MISC_CTL_AXI_WBK_DFLT OR
               FIELD_SET CFG_BLK_MISC_CTL_AXI_DSC_MASK CFG_BLK_MISC_CTL_AXI_DSC_DFLT OR
               FIELD_SET CFG_BLK_MISC_CTL_NUM_TAG_MASK CFG_BLK_MISC_CTL_NUM_TAG_DFLT OR
               FIELD_SET CFG_BLK_MISC_CTL_RSVD_3_MASK CFG_BLK_MISC_CTL_RSVD_3_DFLT OR
               FIELD_SET CFG_BLK_MISC_CTL_RQ_METERING_MULTIPLIER_MASK CPM5_EQDMA_CFG_BLK_MISC_CTL_RQ_METERING_MUL;
         d = set_reg io EQDMA_CPM5_CFG_BLK_MISC_CTL_ADDR reg_val d;
         reg_val =
               FIELD_SET C2H_PFCH_CFG_EVTFL_TH_MASK EQDMA_PFTCH_CFG_EVT_PFTH_FL_TH OR
               FIELD_SET C2H_PFCH_CFG_FL_TH_MASK C2H_PFCH_CFG_FL_TH_DFLT;
         d = set_reg io EQDMA_CPM5_C2H_PFCH_CFG_ADDR reg_val d;
         pftch_qcnt = pftch_cache_depth - PREFETCH_QUEUE_COUNT_STEP;
         pftch_evnt_qcnt_th = pftch_qcnt - PREFETCH_QUEUE_COUNT_STEP;
         reg_val =
               FIELD_SET C2H_PFCH_CFG_1_EVT_QCNT_TH_MASK pftch_evnt_qcnt_th OR
               FIELD_SET C2H_PFCH_CFG_1_QCNT_MASK pftch_qcnt;
         d = set_reg io EQDMA_CPM5_C2H_PFCH_CFG_1_ADDR reg_val d;
         reg_val =
               FIELD_SET C2H_PFCH_CFG_2_FENCE_MASK C2H_PFCH_CFG_2_FENCE_EN OR
               FIELD_SET C2H_PFCH_CFG_2_RSVD_MASK C2H_PFCH_CFG_2_RSVD_DFLT OR
               FIELD_SET C2H_PFCH_CFG_2_VAR_DESC_NO_DROP_MASK C2H_PFCH_CFG_2_VAR_DESC_NO_DROP_DFLT OR
               FIELD_SET C2H_PFCH_CFG_2_LL_SZ_TH_MASK C2H_PFCH_CFG_2_LL_SZ_TH_DFLT OR
               FIELD_SET C2H_PFCH_CFG_2_VAR_DESC_NUM_MASK C2H_PFCH_CFG_2_VAR_DESC_NUM OR
               FIELD_SET C2H_PFCH_CFG_2_NUM_MASK C2H_PFCH_CFG_2_NUM_PFCH_DFLT;
         d = set_reg io EQDMA_CPM5_C2H_PFCH_CFG_2_ADDR reg_val d;
         reg_val =
               FIELD_SET C2H_CRDT_COAL_CFG_1_RSVD_1_MASK C2H_CRDT_COAL_CFG_1_RSVD_1_DFLT OR
               FIELD_SET C2H_CRDT_COAL_CFG_1_PLD_FIFO_TH_MASK C2H_CRDT_COAL_CFG_1_PLD_FIFO_TH_DFLT OR
               FIELD_SET C2H_CRDT_COAL_CFG_1_TIMER_TH_MASK C2H_CRDT_COAL_CFG_1_TIMER_TH;
         d = set_reg io EQDMA_CPM5_C2H_CRDT_COAL_CFG_1_ADDR reg_val d;
         crdt_coal_fifo_th = pftch_cache_depth - 8;
         crdt_coal_crdt_th = C2H_CRDT_COAL_CFG_2_CRDT_CNT_TH_DFLT;
         reg_val =
               FIELD_SET C2H_CRDT_COAL_CFG_2_RSVD_1_MASK C2H_CRDT_COAL_CFG_2_RSVD_1_DFLT OR
               FIELD_SET C2H_CRDT_COAL_CFG_2_FIFO_TH_MASK crdt_coal_fifo_th OR
               FIELD_SET C2H_CRDT_COAL_CFG_2_RESERVED1_MASK C2H_CRDT_COAL_CFG_2_RESERVED1_DFLT OR
               FIELD_SET C2H_CRDT_COAL_CFG_2_NT_TH_MASK crdt_coal_crdt_th;
         d = set_reg io EQDMA_CPM5_C2H_CRDT_COAL_CFG_2_ADDR reg_val d;
         reg_val =
               FIELD_SET H2C_REQ_THROT_PCIE_EN_REQ_MASK H2C_REQ_THROT_PCIE_EN_REQ OR
               FIELD_SET H2C_REQ_THROT_PCIE_MASK H2C_REQ_THROT_PCIE_REQ_TH OR
               FIELD_SET H2C_REQ_THROT_PCIE_EN_DATA_MASK H2C_REQ_THROT_PCIE_EN_DATA OR
               FIELD_SET H2C_REQ_THROT_PCIE_DATA_THRESH_MASK H2C_REQ_THROT_PCIE_DATA_TH;
         d = set_reg io EQDMA_CPM5_H2C_REQ_THROT_PCIE_ADDR reg_val d;
         reg_val =
               FIELD_SET H2C_REQ_THROT_AXIMM_EN_REQ_MASK H2C_REQ_THROT_AXIMM_EN_REQ OR
               FIELD_SET H2C_REQ_THROT_AXIMM_MASK H2C_REQ_THROT_AXIMM_REQ_TH OR
               FIELD_SET H2C_REQ_THROT_AXIMM_EN_DATA_MASK H2C_REQ_THROT_AXIMM_EN_DATA OR
               FIELD_SET H2C_REQ_THROT_AXIMM_DATA_THRESH_MASK H2C_REQ_THROT_AXIMM_DATA_TH;
         d = set_reg io EQDMA_CPM5_H2C_REQ_THROT_AXIMM_ADDR reg_val d;
         reg_val =
               FIELD_SET H2C_MM_DATA_THROTTLE_RSVD_1_MASK H2C_MM_DATA_THROTTLE_RSVD_1_DFLT OR
               FIELD_SET H2C_MM_DATA_THROTTLE_DAT_EN_MASK H2C_MM_DATA_TH_EN OR
               FIELD_SET H2C_MM_DATA_THROTTLE_DAT_MASK H2C_MM_DATA_TH;
         d = set_reg io EQDMA_CPM5_H2C_MM_DATA_THROTTLE_ADDR reg_val d
     in d)"

abbreviation EQDMA_CPM5_GLBL_RNG_SZ_1_ADDR :: u32 where "EQDMA_CPM5_GLBL_RNG_SZ_1_ADDR \<equiv> 0x204"
abbreviation EQDMA_CPM5_C2H_CNT_TH_ADDR :: u32 where "EQDMA_CPM5_C2H_CNT_TH_ADDR \<equiv> 0xA40"
abbreviation EQDMA_CPM5_C2H_TIMER_CNT_ADDR :: u32 where "EQDMA_CPM5_C2H_TIMER_CNT_ADDR \<equiv> 0xA00"
abbreviation EQDMA_CPM5_C2H_BUF_SZ_ADDR :: u32 where "EQDMA_CPM5_C2H_BUF_SZ_ADDR \<equiv> 0xAB0"
abbreviation EQDMA_CPM5_DEFAULT_CMPT_COAL_MAX_BUF_SZ :: u32 where "EQDMA_CPM5_DEFAULT_CMPT_COAL_MAX_BUF_SZ \<equiv> 0x3F"
abbreviation EQDMA_CPM5_C2H_WRB_COAL_CFG_ADDR :: u32 where "EQDMA_CPM5_C2H_WRB_COAL_CFG_ADDR \<equiv> 0xB50"

definition eqdma_cpm5_set_default_global_csr :: "'d mmio \<Rightarrow> 'd xdev option \<Rightarrow> int \<times> 'd xdev option" where
  "eqdma_cpm5_set_default_global_csr io dev =
    (case dev of
       None \<Rightarrow> (neg_err QDMA_ERR_INV_PARAM, None)
     | Some d \<Rightarrow>
       let (dev_cap, d) = after_attributes eqdma_cpm5_get_device_attributes io d;
           d = qdma_write_csr_values io d EQDMA_CPM5_GLBL_RNG_SZ_1_ADDR 0 QDMA_NUM_RING_SIZES default_rng_sz;
           d = (if da_st_en dev_cap \<noteq> 0 \<or> da_mm_cmpt_en dev_cap \<noteq> 0
               then
                 let d = qdma_write_csr_values io d EQDMA_CPM5_C2H_CNT_TH_ADDR 0 QDMA_NUM_C2H_COUNTERS default_cnt_th;
                     d = qdma_write_csr_values io d EQDMA_CPM5_C2H_TIMER_CNT_ADDR 0 QDMA_NUM_C2H_TIMERS default_tmr_cnt;
                     reg_val =
                       FIELD_SET GLBL_DSC_CFG_MAXFETCH_MASK DEFAULT_MAX_DSC_FETCH OR
                       FIELD_SET GLBL_DSC_CFG_WB_ACC_INT_MASK DEFAULT_WRB_INT;
                     d = qdma_reg_write io d EQDMA_CPM5_GLBL_DSC_CFG_ADDR reg_val
                 in d
               else d);
           d = (if da_st_en dev_cap \<noteq> 0
               then
                 let d = qdma_write_csr_values io d EQDMA_CPM5_C2H_BUF_SZ_ADDR 0 QDMA_NUM_C2H_BUFFER_SIZES default_buf_sz;
                     reg_val =
                       FIELD_SET C2H_WRB_COAL_CFG_TICK_CNT_MASK DEFAULT_CMPT_COAL_TIMER_CNT OR
                       FIELD_SET C2H_WRB_COAL_CFG_TICK_VAL_MASK DEFAULT_CMPT_COAL_TIMER_TICK OR
                       FIELD_SET C2H_WRB_COAL_CFG_MAX_BUF_SZ_MASK EQDMA_CPM5_DEFAULT_CMPT_COAL_MAX_BUF_SZ;
                     d = qdma_reg_write io d EQDMA_CPM5_C2H_WRB_COAL_CFG_ADDR reg_val
                 in d
               else d);
           d = eqdma_cpm5_set_perf_opt io d
       in (err_code QDMA_SUCCESS, Some d))"

abbreviation QDMA_CPM4_GLBL_RNG_SZ_1_ADDR :: u32 where "QDMA_CPM4_GLBL_RNG_SZ_1_ADDR \<equiv> 0x204"
abbreviation QDMA_CPM4_C2H_CNT_TH_1_ADDR :: u32 where "QDMA_CPM4_C2H_CNT_TH_1_ADDR \<equiv> 0xA40"
abbreviation QDMA_CPM4_C2H_TIMER_CNT_1_ADDR :: u32 where "QDMA_CPM4_C2H_TIMER_CNT_1_ADDR \<equiv> 0xA00"
abbreviation QDMA_CPM4_GLBL_DSC_CFG_ADDR :: u32 where "QDMA_CPM4_GLBL_DSC_CFG_ADDR \<equiv> 0x250"
abbreviation QDMA_CPM4_C2H_BUF_SZ_0_ADDR :: u32 where "QDMA_CPM4_C2H_BUF_SZ_0_ADDR \<equiv> 0xAB0"
abbreviation CPM4_C2H_PFCH_CFG_FL_TH_MASK :: u32 where "CPM4_C2H_PFCH_CFG_FL_TH_MASK \<equiv> GENMASK 7 0"
abbreviation QDMA_CPM4_DEFAULT_PFCH_STOP_THRESH :: u32 where "QDMA_CPM4_DEFAULT_PFCH_STOP_THRESH \<equiv> 256"
abbreviation C2H_PFCH_CFG_NUM_MASK :: u32 where "C2H_PFCH_CFG_NUM_MASK \<equiv> GENMASK 15 8"
abbreviation C2H_PFCH_CFG_QCNT_MASK :: u32 where "C2H_PFCH_CFG_QCNT_MASK \<equiv> GENMASK 24 16"
abbreviation DEFAULT_PFCH_MAX_Q_CNT :: u32 where "DEFAULT_PFCH_MAX_Q_CNT \<equiv> 16"
abbreviation C2H_PFCH_CFG_EVT_QCNT_TH_MASK :: u32 where "C2H_PFCH_CFG_EVT_QCNT_TH_MASK \<equiv> GENMASK 31 25"
abbreviation QDMA_CPM4_C2H_PFCH_CFG_ADDR :: u32 where "QDMA_CPM4_C2H_PFCH_CFG_ADDR \<equiv> 0xB08"
abbreviation QDMA_CPM4_C2H_INT_TIMER_TICK_ADDR :: u32 where "QDMA_CPM4_C2H_INT_TIMER_TICK_ADDR \<equiv> 0xB0C"
abbreviation DEFAULT_CMPT_COAL_MAX_BUF_SZ :: u32 where "DEFAULT_CMPT_COAL_MAX_BUF_SZ \<equiv> 32"
abbreviation QDMA_CPM4_C2H_WRB_COAL_CFG_ADDR :: u32 where "QDMA_CPM4_C2H_WRB_COAL_CFG_ADDR \<equiv> 0xB50"

definition qdma_cpm4_set_default_global_csr :: "'d mmio \<Rightarrow> 'd xdev option \<Rightarrow> int \<times> 'd xdev option" where
  "qdma_cpm4_set_default_global_csr io dev =
    (case dev of
       None \<Rightarrow> (neg_err QDMA_ERR_INV_PARAM, None)
     | Some d \<Rightarrow>
       let (dev_cap, d) = after_attributes qdma_cpm4_get_device_attributes io d;
           d = qdma_write_csr_values io d QDMA_CPM4_GLBL_RNG_SZ_1_ADDR 0 QDMA_NUM_RING_SIZES default_rng_sz;
           d = (if da_st_en dev_cap \<noteq> 0 \<or> da_mm_cmpt_en dev_cap \<noteq> 0
               then
                 let d = qdma_write_csr_values io d QDMA_CPM4_C2H_CNT_TH_1_ADDR 0 QDMA_NUM_C2H_COUNTERS default_cnt_th;
                     d = qdma_write_csr_values io d QDMA_CPM4_C2H_TIMER_CNT_1_ADDR 0 QDMA_NUM_C2H_TIMERS default_tmr_cnt;
                     reg_val =
                       FIELD_SET GLBL_DSC_CFG_MAXFETCH_MASK DEFAULT_MAX_DSC_FETCH OR
                       FIELD_SET GLBL_DSC_CFG_WB_ACC_INT_MASK DEFAULT_WRB_INT;
                     d = qdma_reg_write io d QDMA_CPM4_GLBL_DSC_CFG_ADDR reg_val
                 in d
               else d);
           d = (if da_st_en dev_cap \<noteq> 0
               then
                 let d = qdma_write_csr_values io d QDMA_CPM4_C2H_BUF_SZ_0_ADDR 0 QDMA_NUM_C2H_BUFFER_SIZES default_buf_sz;
                     reg_val =
                       FIELD_SET CPM4_C2H_PFCH_CFG_FL_TH_MASK QDMA_CPM4_DEFAULT_PFCH_STOP_THRESH OR
                       FIELD_SET C2H_PFCH_CFG_NUM_MASK DEFAULT_PFCH_NUM_ENTRIES_PER_Q OR
                       FIELD_SET C2H_PFCH_CFG_QCNT_MASK DEFAULT_PFCH_MAX_Q_CNT OR
                       FIELD_SET C2H_PFCH_CFG_EVT_QCNT_TH_MASK DEFAULT_C2H_INTR_TIMER_TICK;
                     d = qdma_reg_write io d QDMA_CPM4_C2H_PFCH_CFG_ADDR reg_val;
                     d = qdma_reg_write io d QDMA_CPM4_C2H_INT_TIMER_TICK_ADDR DEFAULT_C2H_INTR_TIMER_TICK;
                     reg_val =
                       FIELD_SET C2H_WRB_COAL_CFG_TICK_CNT_MASK DEFAULT_CMPT_COAL_TIMER_CNT OR
                       FIELD_SET C2H_WRB_COAL_CFG_TICK_VAL_MASK DEFAULT_CMPT_COAL_TIMER_TICK OR
                       FIELD_SET C2H_WRB_COAL_CFG_MAX_BUF_SZ_MASK DEFAULT_CMPT_COAL_MAX_BUF_SZ;
                     d = qdma_reg_write io d QDMA_CPM4_C2H_WRB_COAL_CFG_ADDR reg_val
                 in d
               else d)
       in (err_code QDMA_SUCCESS, Some d))"

section \<open>Context memory\<close>

text \<open>The loops of *_init_ctxt_memory: over the queues of the device and, for each, over the
  selectors from QDMA_CTXT_SEL_SW_C2H to QDMA_CTXT_SEL_PFTCH.\<close>

abbreviation queue_selectors :: "ind_ctxt_cmd_sel list" where
  "queue_selectors \<equiv> [QDMA_CTXT_SEL_SW_C2H, QDMA_CTXT_SEL_SW_H2C, QDMA_CTXT_SEL_HW_C2H, QDMA_CTXT_SEL_HW_H2C,
     QDMA_CTXT_SEL_CR_C2H, QDMA_CTXT_SEL_CR_H2C, QDMA_CTXT_SEL_CMPT, QDMA_CTXT_SEL_PFTCH]"

fun clear_selectors ::
  "('d xdev \<Rightarrow> ind_ctxt_cmd_sel \<Rightarrow> u16 \<Rightarrow> int \<times> 'd xdev) \<Rightarrow> 1 word \<Rightarrow> u16 \<Rightarrow> ind_ctxt_cmd_sel list \<Rightarrow>
   'd xdev \<Rightarrow> int \<times> 'd xdev" where
  "clear_selectors clear st_en i [] d = (0, d)"
| "clear_selectors clear st_en i (sel # sels) d =
     (if st_en = 0 \<and> (sel = QDMA_CTXT_SEL_PFTCH \<or> sel = QDMA_CTXT_SEL_CMPT)
      then clear_selectors clear st_en i sels d
      else
        let (rv, d) = clear d sel i
        in if rv < 0 then (rv, d) else clear_selectors clear st_en i sels d)"

fun clear_queues ::
  "('d xdev \<Rightarrow> ind_ctxt_cmd_sel \<Rightarrow> u16 \<Rightarrow> int \<times> 'd xdev) \<Rightarrow> 1 word \<Rightarrow> u16 list \<Rightarrow> 'd xdev \<Rightarrow> int \<times> 'd xdev" where
  "clear_queues clear st_en [] d = (0, d)"
| "clear_queues clear st_en (i # is) d =
     (let (rv, d) = clear_selectors clear st_en i queue_selectors d
      in if rv < 0 then (rv, d) else clear_queues clear st_en is d)"

definition init_ctxt_memory ::
  "('d mmio \<Rightarrow> 'd xdev option \<Rightarrow> qdma_dev_attributes option \<Rightarrow>
    int \<times> qdma_dev_attributes option \<times> 'd xdev option) \<Rightarrow>
   ('d xdev \<Rightarrow> ind_ctxt_cmd_sel \<Rightarrow> u16 \<Rightarrow> int \<times> 'd xdev) \<Rightarrow> ('d xdev \<Rightarrow> u16 \<Rightarrow> 'd xdev) \<Rightarrow>
   'd mmio \<Rightarrow> 'd xdev option \<Rightarrow> int \<times> 'd xdev option" where
  "init_ctxt_memory attributes clear fmap_clear io dev =
     (case dev of
        None \<Rightarrow> (neg_err QDMA_ERR_INV_PARAM, None)
      | Some d \<Rightarrow>
          let (dev_info, d) = after_attributes attributes io d;
              (rv, d) = clear_queues clear (da_st_en dev_info) (map of_nat [0..<unat (da_num_qs dev_info)]) d
          in if rv < 0 then (rv, Some d)
             else (err_code QDMA_SUCCESS,
               Some (foldl fmap_clear d (map of_nat [0..<unat (da_num_pfs dev_info)]))))"

definition qdma_init_ctxt_memory :: "'d mmio \<Rightarrow> 'd xdev option \<Rightarrow> int \<times> 'd xdev option" where
  "qdma_init_ctxt_memory io =
     init_ctxt_memory qdma_get_device_attributes (qdma_indirect_reg_clear io)
       (\<lambda>d i. snd (qdma_indirect_reg_clear io d QDMA_CTXT_SEL_FMAP i)) io"

definition eqdma_init_ctxt_memory :: "'d mmio \<Rightarrow> 'd xdev option \<Rightarrow> int \<times> 'd xdev option" where
  "eqdma_init_ctxt_memory io =
     init_ctxt_memory eqdma_get_device_attributes (eqdma_indirect_reg_clear io)
       (\<lambda>d i. snd (eqdma_indirect_reg_clear io d QDMA_CTXT_SEL_FMAP i)) io"

definition eqdma_cpm5_init_ctxt_memory :: "'d mmio \<Rightarrow> 'd xdev option \<Rightarrow> int \<times> 'd xdev option" where
  "eqdma_cpm5_init_ctxt_memory io =
     init_ctxt_memory eqdma_cpm5_get_device_attributes (eqdma_cpm5_indirect_reg_clear io)
       (\<lambda>d i. snd (eqdma_cpm5_indirect_reg_clear io d QDMA_CTXT_SEL_FMAP i)) io"

definition qdma_cpm4_init_ctxt_memory :: "'d mmio \<Rightarrow> 'd xdev option \<Rightarrow> int \<times> 'd xdev option" where
  "qdma_cpm4_init_ctxt_memory io =
     init_ctxt_memory qdma_cpm4_get_device_attributes (qdma_cpm4_indirect_reg_clear io)
       (\<lambda>d i. the (snd (qdma_cpm4_fmap_clear io (Some d) i))) io"

text \<open>The keys that are cleared for one queue.\<close>

definition cleared_keys :: "1 word \<Rightarrow> u16 \<Rightarrow> ind_ctxt_cmd_sel list \<Rightarrow> u32 set" where
  "cleared_keys st_en i sels = (\<lambda>sel. ctxt_key sel i) `
     {sel \<in> set sels. st_en = 0 \<longrightarrow> sel \<noteq> QDMA_CTXT_SEL_PFTCH \<and> sel \<noteq> QDMA_CTXT_SEL_CMPT}"

lemma in_cleared_keys:
  "k \<in> cleared_keys st_en i sels \<longleftrightarrow> (\<exists>sel\<in>set sels. k = ctxt_key sel i \<and>
     (st_en = 0 \<longrightarrow> sel \<noteq> QDMA_CTXT_SEL_PFTCH \<and> sel \<noteq> QDMA_CTXT_SEL_CMPT))"
  by (auto simp: cleared_keys_def)

locale context_clear =
  fixes clear :: "'d mmio \<Rightarrow> 'd xdev \<Rightarrow> ind_ctxt_cmd_sel \<Rightarrow> u16 \<Rightarrow> int \<times> 'd xdev"
  assumes clear_effect: "ctxt_hardware io win mem \<Longrightarrow> \<exists>d'. clear io d sel q = (0, d') \<and>
    mem (xregs d') = (mem (xregs d))(ctxt_key sel q := replicate 8 0)"
begin

lemma clear_selectors_effect:
  assumes "ctxt_hardware io win mem"
  shows "\<exists>d'. clear_selectors (clear io) st_en i sels d = (0, d') \<and>
     mem (xregs d') = (\<lambda>k. if k \<in> cleared_keys st_en i sels then replicate 8 0 else mem (xregs d) k)"
proof (induction sels arbitrary: d)
  case (Cons sel sels)
  obtain d1 where d1: "clear io d sel i = (0, d1)" "mem (xregs d1) = (mem (xregs d))(ctxt_key sel i := replicate 8 0)"
    using clear_effect [OF assms] by blast
  show ?case
    using Cons.IH [of d] Cons.IH [of d1] d1 by (auto simp: cleared_keys_def fun_eq_iff)
qed (simp add: cleared_keys_def)

lemma clear_queues_effect:
  assumes "ctxt_hardware io win mem"
  shows "\<exists>d'. clear_queues (clear io) st_en is d = (0, d') \<and>
     mem (xregs d') = (\<lambda>k. if k \<in> (\<Union>i\<in>set is. cleared_keys st_en i queue_selectors) then replicate 8 0
       else mem (xregs d) k)"
proof (induction "is" arbitrary: d)
  case (Cons i "is")
  obtain d1 where d1: "clear_selectors (clear io) st_en i queue_selectors d = (0, d1)"
    "mem (xregs d1) = (\<lambda>k. if k \<in> cleared_keys st_en i queue_selectors then replicate 8 0 else mem (xregs d) k)"
    using clear_selectors_effect [OF assms] by blast
  show ?case
    using Cons.IH [of d1] d1 by (auto simp: fun_eq_iff)
qed simp

lemma fmap_clear_effect:
  assumes "ctxt_hardware io win mem"
  shows "mem (xregs (foldl (\<lambda>d i. snd (clear io d QDMA_CTXT_SEL_FMAP i)) d is)) =
     (\<lambda>k. if k \<in> ctxt_key QDMA_CTXT_SEL_FMAP ` set is then replicate 8 0 else mem (xregs d) k)"
proof (induction "is" arbitrary: d)
  case (Cons i "is")
  obtain d1 where "clear io d QDMA_CTXT_SEL_FMAP i = (0, d1)"
    "mem (xregs d1) = (mem (xregs d))(ctxt_key QDMA_CTXT_SEL_FMAP i := replicate 8 0)"
    using clear_effect [OF assms] by blast
  then show ?case by (simp add: Cons.IH fun_eq_iff)
qed simp

lemma init_effect:
  assumes hw: "ctxt_hardware io win mem"
    and "after_attributes attributes io d = (cap, d0)" "mem (xregs d0) = mem (xregs d)"
  shows "\<exists>d'. init_ctxt_memory attributes (clear io) (\<lambda>d i. snd (clear io d QDMA_CTXT_SEL_FMAP i)) io (Some d) = (0, Some d') \<and>
    mem (xregs d') = (\<lambda>k.
      if (\<exists>i<unat (da_num_qs cap). k \<in> cleared_keys (da_st_en cap) (of_nat i) queue_selectors) \<or>
         (\<exists>i<unat (da_num_pfs cap). k = ctxt_key QDMA_CTXT_SEL_FMAP (of_nat i))
      then replicate 8 0 else mem (xregs d) k)"
proof -
  obtain d1 where "clear_queues (clear io) (da_st_en cap) (map of_nat [0..<unat (da_num_qs cap)]) d0 = (0, d1)"
    "mem (xregs d1) = (\<lambda>k. if k \<in> (\<Union>i\<in>set (map of_nat [0..<unat (da_num_qs cap)]).
       cleared_keys (da_st_en cap) i queue_selectors) then replicate 8 0 else mem (xregs d0) k)"
    using clear_queues_effect [OF hw] by blast
  then show ?thesis
    using assms by (auto simp: init_ctxt_memory_def fmap_clear_effect [OF hw] fun_eq_iff)
qed

end

lemma clear_command:
  "ctxt_hardware io win mem \<Longrightarrow> \<exists>d'. indirect_reg_cmd io 0x844 1 QDMA_CTXT_CMD_CLR d sel q = (0, d') \<and>
     mem (xregs d') = (mem (xregs d))(ctxt_key sel q := replicate 8 0)"
  using indirect_clear_effect unfolding ctxt_key_def by blast

interpretation soft_clear: context_clear qdma_indirect_reg_clear
  by unfold_locales (simp add: qdma_indirect_reg_clear_def clear_command)

interpretation eqdma_clear: context_clear eqdma_indirect_reg_clear
  by unfold_locales (simp add: eqdma_indirect_reg_clear_def BIT_0 clear_command)

interpretation cpm5_clear: context_clear eqdma_cpm5_indirect_reg_clear
  by unfold_locales (simp add: eqdma_cpm5_indirect_reg_clear_def BIT_0 clear_command)

text \<open>C27. At start-up, on a device that follows the register specification, *_init_ctxt_memory of
  the soft IP, EQDMA and CPM5 succeeds; afterwards every context of every queue of the device
  (completion and prefetch contexts only where there is a streaming engine) and the function map of
  every physical function is zero, and all other contexts are as before.\<close>

theorem init_ctxt_memory_clears:
  assumes "ctxt_hardware io win mem" and "\<forall>r a. a \<noteq> 0x844 \<longrightarrow> mem (snd (readl io r a)) = mem r"
    and "(init, attributes) \<in> {(qdma_init_ctxt_memory, qdma_get_device_attributes),
      (eqdma_init_ctxt_memory, eqdma_get_device_attributes),
      (eqdma_cpm5_init_ctxt_memory, eqdma_cpm5_get_device_attributes)}"
    and "cap = fst (after_attributes attributes io d)"
  shows "\<exists>d'. init io (Some d) = (0, Some d') \<and>
    (\<forall>k. mem (xregs d') k =
      (if (\<exists>i<unat (da_num_qs cap). \<exists>sel\<in>set queue_selectors. k = ctxt_key sel (of_nat i) \<and>
             (da_st_en cap = 0 \<longrightarrow> sel \<noteq> QDMA_CTXT_SEL_PFTCH \<and> sel \<noteq> QDMA_CTXT_SEL_CMPT)) \<or>
          (\<exists>i<unat (da_num_pfs cap). k = ctxt_key QDMA_CTXT_SEL_FMAP (of_nat i))
       then replicate 8 0 else mem (xregs d) k))"
proof -
  obtain d0 where d0: "after_attributes attributes io d = (cap, d0)"
    using assms(4) by (metis prod.collapse)
  have "mem (xregs (snd (qdma_reg_read io d a))) = mem (xregs d)" if "a \<noteq> 0x844" for d a
    using assms(2) that by (simp add: qdma_reg_read_def split_beta)
  then have "mem (xregs (snd (after_attributes attributes io d))) = mem (xregs d)"
    using assms(3)
    by (auto simp: after_attributes_def qdma_get_device_attributes_def eqdma_get_device_attributes_def
        eqdma_cpm5_get_device_attributes_def get_attributes_def read_capabilities_def split_beta)
  then have m: "mem (xregs d0) = mem (xregs d)" by (simp add: d0)
  note effects = soft_clear.init_effect [OF assms(1) d0 m] eqdma_clear.init_effect [OF assms(1) d0 m]
    cpm5_clear.init_effect [OF assms(1) d0 m]
  consider "init = qdma_init_ctxt_memory" "attributes = qdma_get_device_attributes"
    | "init = eqdma_init_ctxt_memory" "attributes = eqdma_get_device_attributes"
    | "init = eqdma_cpm5_init_ctxt_memory" "attributes = eqdma_cpm5_get_device_attributes"
    using assms(3) by blast
  then show ?thesis
    using effects
    by cases (simp_all only: qdma_init_ctxt_memory_def eqdma_init_ctxt_memory_def
        eqdma_cpm5_init_ctxt_memory_def in_cleared_keys fun_eq_iff)
qed

text \<open>A device with two queues and no streaming, whose contexts all hold ones.\<close>

definition used_dev :: "(ctxt_window \<times> ctxt_memory) xdev" where
  "used_dev = \<lparr>xregs = ((\<lambda>_. 0)(0x120 := 2), \<lambda>_. replicate 8 1), hw_prg_lock = False\<rparr>"

theorem init_ctxt_memory_clears_witness:
  "\<exists>d'. qdma_init_ctxt_memory sim_io (Some used_dev) = (0, Some d') \<and>
    snd (xregs d') (ctxt_key QDMA_CTXT_SEL_HW_H2C 1) = replicate 8 0 \<and>
    snd (xregs d') (ctxt_key QDMA_CTXT_SEL_HW_H2C 2) = replicate 8 1"
proof -
  let ?cap = "fst (after_attributes qdma_get_device_attributes sim_io used_dev)"
  have "FIELD_GET m 0 = 0" for m :: u32 by (simp add: FIELD_GET_def)
  then have cap: "da_num_qs ?cap = 2" "da_num_pfs ?cap = 0" "da_st_en ?cap = 0"
    by (simp_all add: after_attributes_def qdma_get_device_attributes_def get_attributes_def
        read_capabilities_def qdma_attributes_def qdma_reg_read_def used_dev_def pf_count_def both_set_def
        FIELD_GET_GENMASK take_bit_eq_mod)
  have kept: "\<forall>r a. a \<noteq> 0x844 \<longrightarrow> snd (snd (readl sim_io r a)) = snd r" by simp
  have two: "(\<exists>i<2. P i) \<longleftrightarrow> P 0 \<or> P 1" for P :: "nat \<Rightarrow> bool"
    by (auto simp: less_2_cases_iff)
  have m: "(qdma_init_ctxt_memory, qdma_get_device_attributes) \<in>
      {(qdma_init_ctxt_memory, qdma_get_device_attributes), (eqdma_init_ctxt_memory, eqdma_get_device_attributes),
       (eqdma_cpm5_init_ctxt_memory, eqdma_cpm5_get_device_attributes)}" by simp
  show ?thesis
    using init_ctxt_memory_clears [OF sim_hardware kept m refl, of used_dev, unfolded cap]
    by (elim ex_forward) (simp add: two ctxt_key_eq_iff take_bit_eq_mod used_dev_def)
qed

end

