(* ===== verification/DefaultCsrProps.thy ===== *)
theory DefaultCsrProps
  imports DefaultCsr
begin

text \<open>
  The arrays that clients of the access library see after the default configuration: every write of
  *_set_default_global_csr goes either to the start of one of the four CSR arrays or to
  a register that is none of them.
\<close>

section \<open>The arrays after the default configuration\<close>

text \<open>What clients see of the configuration: the four arrays and the capability registers.\<close>

definition csr_array :: "('d \<Rightarrow> u32 \<Rightarrow> u32) \<Rightarrow> 'd xdev \<Rightarrow> qdma_global_csr_type \<Rightarrow> u32 list" where
  "csr_array rd d t = map (\<lambda>j. rd (xregs d) (csr_addr t j)) [0..<16]"

definition csr_seen :: "('d \<Rightarrow> u32 \<Rightarrow> u32) \<Rightarrow> 'd xdev \<Rightarrow>
  (qdma_global_csr_type \<Rightarrow> u32 list) \<times> (u32 \<times> u32 \<times> u32 \<times> u32)" where
  "csr_seen rd d = (\<lambda>t. if t = QDMA_CSR_MAX then [] else csr_array rd d t, capabilities rd d)"

definition not_seen :: "u32 \<Rightarrow> bool" where
  "not_seen a \<longleftrightarrow> \<not> capability_register a \<and>
     \<not> (0x204 \<le> a \<and> a < 0x244) \<and> \<not> (0xA00 \<le> a \<and> a < 0xA80) \<and> \<not> (0xAB0 \<le> a \<and> a < 0xAF0)"

lemma csr_addr_seen:
  assumes "t \<noteq> QDMA_CSR_MAX" "j < 16"
  shows "\<not> not_seen (csr_addr t j)"
  using unat_csr_addr [of j t] assms
  by (cases t) (auto simp: not_seen_def csr_base_nat_simps word_le_nat_alt word_less_nat_alt)

lemma capability_not_seen: "capability_register a \<Longrightarrow> \<not> not_seen a"
  by (simp add: not_seen_def)

lemma seen_write:
  assumes "register_file io rd wm" "not_seen a"
  shows "csr_seen rd (qdma_reg_write io d a v) = csr_seen rd d"
proof -
  have "csr_addr t j \<noteq> a" if "t \<noteq> QDMA_CSR_MAX" "j < 16" for t j
    using csr_addr_seen [OF that] assms(2) by auto
  then have "csr_array rd (qdma_reg_write io d a v) t = csr_array rd d t" if "t \<noteq> QDMA_CSR_MAX" for t
    using that by (simp add: csr_array_def register_file_write [OF assms(1)])
  moreover have "capabilities rd (qdma_reg_write io d a v) = capabilities rd d"
    using assms(2) by (auto simp: capabilities_def register_file_write [OF assms(1)] not_seen_def capability_register_def)
  ultimately show ?thesis by (simp add: csr_seen_def fun_eq_iff)
qed

lemma seen_read:
  assumes "register_file io rd wm"
  shows "csr_seen rd (snd (qdma_reg_read io d a)) = csr_seen rd d"
  by (simp add: csr_seen_def csr_array_def capabilities_def register_file_read [OF assms] fun_eq_iff)

lemma seen_set_reg:
  "register_file io rd wm \<Longrightarrow> not_seen a \<Longrightarrow> csr_seen rd (set_reg io a v d) = csr_seen rd d"
  by (simp add: set_reg_def seen_read seen_write)

lemma csr_addr_apart:
  assumes "t \<noteq> t'" "t \<noteq> QDMA_CSR_MAX" "t' \<noteq> QDMA_CSR_MAX" "i < 16" "j < 16"
  shows "csr_addr t i \<noteq> csr_addr t' j"
proof
  assume "csr_addr t i = csr_addr t' j"
  then have "csr_base_nat t + 4 * i = csr_base_nat t' + 4 * j"
    using unat_csr_addr [of i t] unat_csr_addr [of j t'] assms(4,5) by simp
  then show False using assms by (cases t; cases t') (simp_all add: csr_base_nat_simps)
qed

lemma seen_array:
  assumes "register_file io rd (\<lambda>_. -1)" "t \<noteq> QDMA_CSR_MAX" "length vs = 16"
  shows "csr_seen rd (qdma_write_csr_values io d (csr_base t) 0 16 vs) =
    ((fst (csr_seen rd d))(t := vs), snd (csr_seen rd d))"
proof -
  note hw = register_file_csr [OF assms(1)]
  let ?d = "qdma_write_csr_values io d (csr_base t) 0 16 vs"
  have w: "rd (xregs ?d) b = (case find (\<lambda>j. csr_addr t j = b) [0..<16] of
      Some j \<Rightarrow> vs ! j AND -1 | None \<Rightarrow> rd (xregs d) b)" if "capability_register b \<or> csr_register b" for b
    using write_csr_values_hw [OF hw assms(2), of 0 16 b d vs] that by (simp split: option.split)
  have "rd (xregs ?d) (csr_addr t' j) = (if t' = t then vs ! j else rd (xregs d) (csr_addr t' j))"
    if t: "t' \<noteq> QDMA_CSR_MAX" "j < 16" for t' j
  proof (cases "t' = t")
    case True
    have "find (\<lambda>i. csr_addr t i = csr_addr t j) [0..<16] = find (\<lambda>i. i = j) [0..<16]"
      using t True by (intro find_cong) (auto simp: csr_addr_inject)
    also have "\<dots> = Some j" using t find_upt [of j 16 "\<lambda>i. i = j"] by auto
    finally show ?thesis using True t csr_addr_register [of j t] w by simp
  next
    case False
    have "find (\<lambda>i. csr_addr t i = csr_addr t' j) [0..<16] = None"
      using t False assms(2) csr_addr_apart by (auto simp: find_None_iff)
    then show ?thesis using False t csr_addr_register [of j t'] w by simp
  qed
  moreover have cap: "rd (xregs ?d) b = rd (xregs d) b" if "capability_register b" for b
  proof -
    have "\<not> csr_register b"
      using that by (auto simp: capability_register_def csr_register_def)
    then have "find (\<lambda>j. csr_addr t j = b) [0..<16] = None"
      using csr_addr_register [OF _ assms(2)] by (auto simp: find_None_iff)
    then show ?thesis using w that by simp
  qed
  ultimately have "csr_array rd ?d t' = (if t' = t then vs else csr_array rd d t')" if "t' \<noteq> QDMA_CSR_MAX" for t'
    using that assms(3) by (auto simp: csr_array_def intro!: nth_equalityI)
  moreover have "capabilities rd ?d = capabilities rd d"
    using cap by (simp add: capabilities_def capability_register_def)
  ultimately show ?thesis
    using assms(2) by (auto simp: csr_seen_def fun_eq_iff)
qed

definition default_csr :: "qdma_global_csr_type \<Rightarrow> u32 list" where
  "default_csr t =
     (case t of QDMA_CSR_RING_SZ \<Rightarrow> default_rng_sz | QDMA_CSR_TIMER_CNT \<Rightarrow> default_tmr_cnt
      | QDMA_CSR_CNT_TH \<Rightarrow> default_cnt_th | QDMA_CSR_BUF_SZ \<Rightarrow> default_buf_sz | QDMA_CSR_MAX \<Rightarrow> [])"

lemma seen_arrays:
  assumes "register_file io rd (\<lambda>_. -1)"
  shows "csr_seen rd (qdma_write_csr_values io d 0x204 0 16 default_rng_sz) =
      ((fst (csr_seen rd d))(QDMA_CSR_RING_SZ := default_rng_sz), snd (csr_seen rd d))"
    "csr_seen rd (qdma_write_csr_values io d 0xA00 0 16 default_tmr_cnt) =
      ((fst (csr_seen rd d))(QDMA_CSR_TIMER_CNT := default_tmr_cnt), snd (csr_seen rd d))"
    "csr_seen rd (qdma_write_csr_values io d 0xA40 0 16 default_cnt_th) =
      ((fst (csr_seen rd d))(QDMA_CSR_CNT_TH := default_cnt_th), snd (csr_seen rd d))"
    "csr_seen rd (qdma_write_csr_values io d 0xAB0 0 16 default_buf_sz) =
      ((fst (csr_seen rd d))(QDMA_CSR_BUF_SZ := default_buf_sz), snd (csr_seen rd d))"
  using seen_array [OF assms, of QDMA_CSR_RING_SZ default_rng_sz d]
    seen_array [OF assms, of QDMA_CSR_TIMER_CNT default_tmr_cnt d]
    seen_array [OF assms, of QDMA_CSR_CNT_TH default_cnt_th d]
    seen_array [OF assms, of QDMA_CSR_BUF_SZ default_buf_sz d]
  by (simp_all add: csr_base_def default_rng_sz_def default_tmr_cnt_def default_cnt_th_def default_buf_sz_def)

lemma seen_if: "csr_seen rd (if c then d else e) = (if c then csr_seen rd d else csr_seen rd e)"
  by simp

lemma not_seen_numerals:
  "not_seen 0x4C" "not_seen 0x158" "not_seen 0x15C" "not_seen 0x160" "not_seen 0x250"
  "not_seen 0xA80" "not_seen 0xA84" "not_seen 0xB08" "not_seen 0xB0C" "not_seen 0xB50"
  "not_seen 0xBE0" "not_seen 0xBE4" "not_seen 0xE24" "not_seen 0xE2C" "not_seen 0x12EC"
  "not_seen 0x1400" "not_seen 0x1404" "not_seen 0x147C" "not_seen 0x1484"
  by (simp_all add: not_seen_def capability_register_def)

lemma seen_perf_opt:
  assumes "register_file io rd wm"
  shows "csr_seen rd (eqdma_set_perf_opt io d) = csr_seen rd d"
    "csr_seen rd (eqdma_cpm5_set_perf_opt io d) = csr_seen rd d"
  by (simp_all add: eqdma_set_perf_opt_def eqdma_cpm5_set_perf_opt_def Let_def split_beta
      seen_set_reg [OF assms] seen_read [OF assms] seen_write [OF assms] not_seen_numerals)

lemma seen_attributes:
  assumes "register_file io rd wm"
  shows "csr_seen rd (snd (after_attributes (get_attributes attributes) io d)) = csr_seen rd d"
    "fst (after_attributes (get_attributes attributes) io d) = attributes (capabilities rd d)"
  by (simp_all add: after_attributes_def get_attributes_def read_capabilities_def split_beta Let_def
      seen_read [OF assms] register_file_read [OF assms] capabilities_def)

text \<open>The default configurations, each with the attributes of its variant that its tests read.\<close>

definition default_csr_variants :: "'d mmio \<Rightarrow>
  (('d xdev option \<Rightarrow> int \<times> 'd xdev option) \<times> (u32 \<times> u32 \<times> u32 \<times> u32 \<Rightarrow> qdma_dev_attributes)) set" where
  "default_csr_variants io =
     {(qdma_set_default_global_csr io, qdma_attributes), (eqdma_set_default_global_csr io, eqdma_attributes),
      (eqdma_cpm5_set_default_global_csr io, eqdma_cpm5_attributes),
      (qdma_cpm4_set_default_global_csr io, qdma_cpm4_attributes)}"

text \<open>The arrays of a device with these attributes after the configuration: the others are kept.\<close>

definition default_arrays :: "qdma_dev_attributes \<Rightarrow> (qdma_global_csr_type \<Rightarrow> u32 list) \<Rightarrow>
  qdma_global_csr_type \<Rightarrow> u32 list" where
  "default_arrays att arrays t = (if csr_supported t att then default_csr t else arrays t)"

lemma default_arrays_eq:
  "default_arrays att arrays =
     (if has_st att then arrays(QDMA_CSR_RING_SZ := default_rng_sz, QDMA_CSR_CNT_TH := default_cnt_th,
        QDMA_CSR_TIMER_CNT := default_tmr_cnt, QDMA_CSR_BUF_SZ := default_buf_sz)
      else if da_mm_cmpt_en att \<noteq> 0 then arrays(QDMA_CSR_RING_SZ := default_rng_sz,
        QDMA_CSR_CNT_TH := default_cnt_th, QDMA_CSR_TIMER_CNT := default_tmr_cnt)
      else arrays(QDMA_CSR_RING_SZ := default_rng_sz))"
  by (rule ext) (auto simp: default_arrays_def csr_supported_def default_csr_def has_st_def has_st_or_cmpt_def
      split: qdma_global_csr_type.split)

lemma default_csr_seen:
  assumes rf: "register_file io rd (\<lambda>_. -1)" and "(init, attributes) \<in> default_csr_variants io"
  shows "\<exists>d'. init (Some d) = (0, Some d') \<and>
    csr_seen rd d' = (default_arrays (attributes (capabilities rd d)) (fst (csr_seen rd d)), capabilities rd d)"
proof -
  note seen = seen_read [OF rf] seen_write [OF rf] seen_arrays [OF rf] seen_attributes [OF rf]
    seen_perf_opt [OF rf] seen_if not_seen_numerals
  note defs = qdma_set_default_global_csr_def eqdma_set_default_global_csr_def
    eqdma_cpm5_set_default_global_csr_def qdma_cpm4_set_default_global_csr_def
    qdma_get_device_attributes_def eqdma_get_device_attributes_def eqdma_cpm5_get_device_attributes_def
    qdma_cpm4_get_device_attributes_def eqdma_read_ip_version_def Let_def split_beta default_arrays_eq has_st_def
  have kept: "snd (csr_seen rd d) = capabilities rd d" by (simp add: csr_seen_def)
  consider "init = qdma_set_default_global_csr io" "attributes = qdma_attributes"
    | "init = eqdma_set_default_global_csr io" "attributes = eqdma_attributes"
    | "init = eqdma_cpm5_set_default_global_csr io" "attributes = eqdma_cpm5_attributes"
    | "init = qdma_cpm4_set_default_global_csr io" "attributes = qdma_cpm4_attributes"
    using assms(2) by (auto simp: default_csr_variants_def)
  then show ?thesis
    by cases (simp_all add: defs seen kept)
qed

text \<open>C26. Default configuration and configuration interface fit together on every variant: on
  registers that keep what is written, *_set_default_global_csr of the variant succeeds, and a CSR
  array read afterwards, through the function that the access table has for all variants, holds
  the default values where the variant's attributes of the device have what the array needs: always
  for the ring sizes, with a streaming engine or MM completion for timers and thresholds, with a
  streaming engine for the buffer sizes. An array that the configuration leaves out has its old
  values, or the read is refused as an unsupported feature when the attributes of the soft IP,
  which the function for reading goes by, do not have it either; so on a device without streaming
  the buffer sizes are neither set nor read. The settings for performance and the other registers
  written do not disturb the arrays.\<close>

theorem default_csr_read_back:
  assumes rf: "register_file io rd (\<lambda>_. -1)" and "(init, attributes) \<in> default_csr_variants io"
    and t: "t \<noteq> QDMA_CSR_MAX" and buf: "length buf = 16"
  shows "\<exists>d1 d2. init (Some d) = (0, Some d1) \<and>
    qdma_global_csr_conf io (Some d1) 0 16 (Some buf) t QDMA_HW_ACCESS_READ =
      (if \<not> csr_supported t (qdma_attributes (capabilities rd d))
       then (neg_err QDMA_ERR_HWACC_FEATURE_NOT_SUPPORTED, Some buf, Some d2)
       else (0, Some (if csr_supported t (attributes (capabilities rd d)) then default_csr t
                      else csr_array rd d t), Some d2))"
proof -
  obtain d1 where d1: "init (Some d) = (0, Some d1)"
    "csr_seen rd d1 = (default_arrays (attributes (capabilities rd d)) (fst (csr_seen rd d)), capabilities rd d)"
    using default_csr_seen [OF rf assms(2)] by blast
  then have cap: "capabilities rd d1 = capabilities rd d" by (simp add: csr_seen_def)
  have "csr_array rd d1 t = fst (csr_seen rd d1) t" using t by (simp add: csr_seen_def)
  also have "\<dots> = (if csr_supported t (attributes (capabilities rd d)) then default_csr t else csr_array rd d t)"
    unfolding d1(2) using t by (simp add: default_arrays_def csr_seen_def)
  finally have arr: "csr_array rd d1 t = \<dots>" .
  show ?thesis
  proof (cases "csr_supported t (qdma_attributes (capabilities rd d))")
    case True
    then show ?thesis
      using qdma_csr.read_values [OF register_file_csr [OF rf] t, of d1 16 0 buf] cap d1(1) arr [symmetric] buf
      by (auto simp: csr_array_def)
  next
    case False
    then show ?thesis
      using qdma_csr.unsupported [OF register_file_csr [OF rf] t, of d1 16 0 QDMA_HW_ACCESS_READ buf] cap d1(1)
      by auto
  qed
qed

text \<open>
  A register file whose capability register shows both streaming engines, and one without any,
  on which the buffer sizes are refused.
\<close>

definition plain_mm_dev :: "(u32 \<Rightarrow> u32) xdev" where
  "plain_mm_dev = \<lparr>xregs = \<lambda>_. 0, hw_prg_lock = False\<rparr>"

theorem default_csr_read_back_witness:
  "(\<exists>d1 d2. eqdma_set_default_global_csr plain_io (Some plain_dev) = (0, Some d1) \<and>
    qdma_global_csr_conf plain_io (Some d1) 0 16 (Some (replicate 16 0)) QDMA_CSR_RING_SZ QDMA_HW_ACCESS_READ =
      (0, Some [2049, 65, 129, 193, 257, 385, 513, 769, 1025, 1537, 3073, 4097, 6145, 8193, 12289, 16385], Some d2)) \<and>
   (\<exists>d1 d2. eqdma_set_default_global_csr plain_io (Some plain_mm_dev) = (0, Some d1) \<and>
    qdma_global_csr_conf plain_io (Some d1) 0 16 (Some (replicate 16 0)) QDMA_CSR_BUF_SZ QDMA_HW_ACCESS_READ =
      (neg_err QDMA_ERR_HWACC_FEATURE_NOT_SUPPORTED, Some (replicate 16 0), Some d2))"
proof -
  have v: "(eqdma_set_default_global_csr plain_io, eqdma_attributes) \<in> default_csr_variants plain_io"
    by (simp add: default_csr_variants_def)
  have "\<not> csr_supported QDMA_CSR_BUF_SZ (qdma_attributes (capabilities (\<lambda>r. r) plain_mm_dev))"
    by (simp add: csr_supported_def has_st_def qdma_attributes_def capabilities_def plain_mm_dev_def
        both_set_def FIELD_GET_def)
  then show ?thesis
    using default_csr_read_back [OF plain_register_file v, of QDMA_CSR_RING_SZ "replicate 16 0" plain_dev]
      default_csr_read_back [OF plain_register_file v, of QDMA_CSR_BUF_SZ "replicate 16 0" plain_mm_dev]
    by (simp add: default_csr_def default_rng_sz_def csr_supported_def)
qed

end
