(* ===== verification/ErrTables.thy ===== *)
theory ErrTables
  imports ErrProc
begin

text \<open>
  The error tables of the four variants, *_err_info, in groups and in the order of the error
  index; single bits of a mask are written BIT n, masks of several bits as numbers. The last
  entry of a group stands for the whole group. Then the names of the errors and what
  each variant puts into the shared functions of ErrProc.
\<close>

section \<open>Soft IP\<close>

text \<open>0 to 14: QDMA_DSC_ERR_POISON to QDMA_DSC_ERR_ALL.\<close>

definition qdma_err_info_dsc :: "hw_err_info list" where
  "qdma_err_info_dsc =
    [hw_err 0 0x258 0x254 (BIT 0) (BIT 2) desc_err_process,
     hw_err 1 0x258 0x254 (BIT 1) (BIT 2) desc_err_process,
     hw_err 2 0x258 0x254 (BIT 2) (BIT 2) desc_err_process,
     hw_err 3 0x258 0x254 (BIT 3) (BIT 2) desc_err_process,
     hw_err 4 0x258 0x254 (BIT 4) (BIT 2) desc_err_process,
     hw_err 5 0x258 0x254 (BIT 5) (BIT 2) desc_err_process,
     hw_err 6 0x258 0x254 (BIT 9) (BIT 2) desc_err_process,
     hw_err 7 0x258 0x254 (BIT 16) (BIT 2) desc_err_process,
     hw_err 8 0x258 0x254 (BIT 19) (BIT 2) desc_err_process,
     hw_err 9 0x258 0x254 (BIT 20) (BIT 2) desc_err_process,
     hw_err 10 0x258 0x254 (BIT 21) (BIT 2) desc_err_process,
     hw_err 11 0x258 0x254 (BIT 22) (BIT 2) desc_err_process,
     hw_err 12 0x258 0x254 (BIT 23) (BIT 2) desc_err_process,
     hw_err 13 0x258 0x254 (BIT 24) (BIT 2) desc_err_process,
     hw_err 14 0x258 0x254 0x1F9023F (BIT 2) desc_err_process]"

text \<open>15 to 19: QDMA_TRQ_ERR_UNMAPPED to QDMA_TRQ_ERR_ALL.\<close>

definition qdma_err_info_trq :: "hw_err_info list" where
  "qdma_err_info_trq =
    [hw_err 15 0x268 0x264 (BIT 0) (BIT 3) trq_err_process,
     hw_err 16 0x268 0x264 (BIT 1) (BIT 3) trq_err_process,
     hw_err 17 0x268 0x264 (BIT 2) (BIT 3) trq_err_process,
     hw_err 18 0x268 0x264 (BIT 3) (BIT 3) trq_err_process,
     hw_err 19 0x268 0x264 0xF (BIT 3) trq_err_process]"

text \<open>20 to 33: QDMA_ST_C2H_ERR_MTY_MISMATCH to QDMA_ST_C2H_ERR_ALL.\<close>

definition qdma_err_info_st_c2h :: "hw_err_info list" where
  "qdma_err_info_st_c2h =
    [hw_err 20 0xAF4 0xAF0 (BIT 0) (BIT 8) st_c2h_err_process,
     hw_err 21 0xAF4 0xAF0 (BIT 1) (BIT 8) st_c2h_err_process,
     hw_err 22 0xAF4 0xAF0 (BIT 3) (BIT 8) st_c2h_err_process,
     hw_err 23 0xAF4 0xAF0 (BIT 4) (BIT 8) st_c2h_err_process,
     hw_err 24 0xAF4 0xAF0 (BIT 6) (BIT 8) st_c2h_err_process,
     hw_err 25 0xAF4 0xAF0 (BIT 7) (BIT 8) st_c2h_err_process,
     hw_err 26 0xAF4 0xAF0 (BIT 9) (BIT 8) st_c2h_err_process,
     hw_err 27 0xAF4 0xAF0 (BIT 10) (BIT 8) st_c2h_err_process,
     hw_err 28 0xAF4 0xAF0 (BIT 11) (BIT 8) st_c2h_err_process,
     hw_err 29 0xAF4 0xAF0 (BIT 12) (BIT 8) st_c2h_err_process,
     hw_err 30 0xAF4 0xAF0 (BIT 13) (BIT 8) st_c2h_err_process,
     hw_err 31 0xAF4 0xAF0 (BIT 14) (BIT 8) st_c2h_err_process,
     hw_err 32 0xAF4 0xAF0 (BIT 15) (BIT 8) st_c2h_err_process,
     hw_err 33 0xAF4 0xAF0 0xFEDB (BIT 8) st_c2h_err_process]"

text \<open>34 to 48: QDMA_ST_FATAL_ERR_MTY_MISMATCH to QDMA_ST_FATAL_ERR_ALL.\<close>

definition qdma_err_info_st_fatal :: "hw_err_info list" where
  "qdma_err_info_st_fatal =
    [hw_err 34 0xAFC 0xAF8 (BIT 0) (BIT 8) st_c2h_err_process,
     hw_err 35 0xAFC 0xAF8 (BIT 1) (BIT 8) st_c2h_err_process,
     hw_err 36 0xAFC 0xAF8 (BIT 3) (BIT 8) st_c2h_err_process,
     hw_err 37 0xAFC 0xAF8 (BIT 4) (BIT 8) st_c2h_err_process,
     hw_err 38 0xAFC 0xAF8 (BIT 8) (BIT 8) st_c2h_err_process,
     hw_err 39 0xAFC 0xAF8 (BIT 9) (BIT 8) st_c2h_err_process,
     hw_err 40 0xAFC 0xAF8 (BIT 10) (BIT 8) st_c2h_err_process,
     hw_err 41 0xAFC 0xAF8 (BIT 11) (BIT 8) st_c2h_err_process,
     hw_err 42 0xAFC 0xAF8 (BIT 12) (BIT 8) st_c2h_err_process,
     hw_err 43 0xAFC 0xAF8 (BIT 14) (BIT 8) st_c2h_err_process,
     hw_err 44 0xAFC 0xAF8 (BIT 15) (BIT 8) st_c2h_err_process,
     hw_err 45 0xAFC 0xAF8 (BIT 16) (BIT 8) st_c2h_err_process,
     hw_err 46 0xAFC 0xAF8 (BIT 17) (BIT 8) st_c2h_err_process,
     hw_err 47 0xAFC 0xAF8 (BIT 18) (BIT 8) st_c2h_err_process,
     hw_err 48 0xAFC 0xAF8 0x7DF1B (BIT 8) st_c2h_err_process]"

text \<open>49 to 54: QDMA_ST_H2C_ERR_ZERO_LEN_DESC to QDMA_ST_H2C_ERR_ALL.\<close>

definition qdma_err_info_st_h2c :: "hw_err_info list" where
  "qdma_err_info_st_h2c =
    [hw_err 49 0xE04 0xE00 (BIT 0) (BIT 11) st_h2c_err_process,
     hw_err 50 0xE04 0xE00 (BIT 1) (BIT 11) st_h2c_err_process,
     hw_err 51 0xE04 0xE00 (BIT 2) (BIT 11) st_h2c_err_process,
     hw_err 52 0xE04 0xE00 (BIT 3) (BIT 11) st_h2c_err_process,
     hw_err 53 0xE04 0xE00 (BIT 4) (BIT 11) st_h2c_err_process,
     hw_err 54 0xE04 0xE00 0x1F (BIT 11) st_h2c_err_process]"

text \<open>55 to 67: QDMA_SBE_ERR_MI_H2C0_DAT to QDMA_SBE_ERR_PASID_CTXT_RAM.\<close>

definition qdma_err_info_sbe_part1 :: "hw_err_info list" where
  "qdma_err_info_sbe_part1 =
    [hw_err 55 0xF0 0xF4 (BIT 0) (BIT 0) ram_sbe_err_process,
     hw_err 56 0xF0 0xF4 (BIT 4) (BIT 0) ram_sbe_err_process,
     hw_err 57 0xF0 0xF4 (BIT 9) (BIT 0) ram_sbe_err_process,
     hw_err 58 0xF0 0xF4 (BIT 10) (BIT 0) ram_sbe_err_process,
     hw_err 59 0xF0 0xF4 (BIT 11) (BIT 0) ram_sbe_err_process,
     hw_err 60 0xF0 0xF4 (BIT 12) (BIT 0) ram_sbe_err_process,
     hw_err 61 0xF0 0xF4 (BIT 13) (BIT 0) ram_sbe_err_process,
     hw_err 62 0xF0 0xF4 (BIT 14) (BIT 0) ram_sbe_err_process,
     hw_err 63 0xF0 0xF4 (BIT 15) (BIT 0) ram_sbe_err_process,
     hw_err 64 0xF0 0xF4 (BIT 16) (BIT 0) ram_sbe_err_process,
     hw_err 65 0xF0 0xF4 (BIT 17) (BIT 0) ram_sbe_err_process,
     hw_err 66 0xF0 0xF4 (BIT 18) (BIT 0) ram_sbe_err_process,
     hw_err 67 0xF0 0xF4 (BIT 19) (BIT 0) ram_sbe_err_process]"

text \<open>68 to 80: QDMA_SBE_ERR_TIMER_FIFO_RAM to QDMA_SBE_ERR_ALL.\<close>

definition qdma_err_info_sbe_part2 :: "hw_err_info list" where
  "qdma_err_info_sbe_part2 =
    [hw_err 68 0xF0 0xF4 (BIT 20) (BIT 0) ram_sbe_err_process,
     hw_err 69 0xF0 0xF4 (BIT 21) (BIT 0) ram_sbe_err_process,
     hw_err 70 0xF0 0xF4 (BIT 22) (BIT 0) ram_sbe_err_process,
     hw_err 71 0xF0 0xF4 (BIT 23) (BIT 0) ram_sbe_err_process,
     hw_err 72 0xF0 0xF4 (BIT 24) (BIT 0) ram_sbe_err_process,
     hw_err 73 0xF0 0xF4 (BIT 25) (BIT 0) ram_sbe_err_process,
     hw_err 74 0xF0 0xF4 (BIT 26) (BIT 0) ram_sbe_err_process,
     hw_err 75 0xF0 0xF4 (BIT 27) (BIT 0) ram_sbe_err_process,
     hw_err 76 0xF0 0xF4 (BIT 28) (BIT 0) ram_sbe_err_process,
     hw_err 77 0xF0 0xF4 (BIT 29) (BIT 0) ram_sbe_err_process,
     hw_err 78 0xF0 0xF4 (BIT 30) (BIT 0) ram_sbe_err_process,
     hw_err 79 0xF0 0xF4 (BIT 31) (BIT 0) ram_sbe_err_process,
     hw_err 80 0xF0 0xF4 0xFFFFFF11 (BIT 0) ram_sbe_err_process]"

text \<open>81 to 93: QDMA_DBE_ERR_MI_H2C0_DAT to QDMA_DBE_ERR_PASID_CTXT_RAM.\<close>

definition qdma_err_info_dbe_part1 :: "hw_err_info list" where
  "qdma_err_info_dbe_part1 =
    [hw_err 81 0xF8 0xFC (BIT 0) (BIT 1) ram_dbe_err_process,
     hw_err 82 0xF8 0xFC (BIT 4) (BIT 1) ram_dbe_err_process,
     hw_err 83 0xF8 0xFC (BIT 9) (BIT 1) ram_dbe_err_process,
     hw_err 84 0xF8 0xFC (BIT 10) (BIT 1) ram_dbe_err_process,
     hw_err 85 0xF8 0xFC (BIT 11) (BIT 1) ram_dbe_err_process,
     hw_err 86 0xF8 0xFC (BIT 12) (BIT 1) ram_dbe_err_process,
     hw_err 87 0xF8 0xFC (BIT 13) (BIT 1) ram_dbe_err_process,
     hw_err 88 0xF8 0xFC (BIT 14) (BIT 1) ram_dbe_err_process,
     hw_err 89 0xF8 0xFC (BIT 15) (BIT 1) ram_dbe_err_process,
     hw_err 90 0xF8 0xFC (BIT 16) (BIT 1) ram_dbe_err_process,
     hw_err 91 0xF8 0xFC (BIT 17) (BIT 1) ram_dbe_err_process,
     hw_err 92 0xF8 0xFC (BIT 18) (BIT 1) ram_dbe_err_process,
     hw_err 93 0xF8 0xFC (BIT 19) (BIT 1) ram_dbe_err_process]"

text \<open>94 to 106: QDMA_DBE_ERR_TIMER_FIFO_RAM to QDMA_DBE_ERR_ALL.\<close>

definition qdma_err_info_dbe_part2 :: "hw_err_info list" where
  "qdma_err_info_dbe_part2 =
    [hw_err 94 0xF8 0xFC (BIT 20) (BIT 1) ram_dbe_err_process,
     hw_err 95 0xF8 0xFC (BIT 21) (BIT 1) ram_dbe_err_process,
     hw_err 96 0xF8 0xFC (BIT 22) (BIT 1) ram_dbe_err_process,
     hw_err 97 0xF8 0xFC (BIT 23) (BIT 1) ram_dbe_err_process,
     hw_err 98 0xF8 0xFC (BIT 24) (BIT 1) ram_dbe_err_process,
     hw_err 99 0xF8 0xFC (BIT 25) (BIT 1) ram_dbe_err_process,
     hw_err 100 0xF8 0xFC (BIT 26) (BIT 1) ram_dbe_err_process,
     hw_err 101 0xF8 0xFC (BIT 27) (BIT 1) ram_dbe_err_process,
     hw_err 102 0xF8 0xFC (BIT 28) (BIT 1) ram_dbe_err_process,
     hw_err 103 0xF8 0xFC (BIT 29) (BIT 1) ram_dbe_err_process,
     hw_err 104 0xF8 0xFC (BIT 30) (BIT 1) ram_dbe_err_process,
     hw_err 105 0xF8 0xFC (BIT 31) (BIT 1) ram_dbe_err_process,
     hw_err 106 0xF8 0xFC 0xFFFFFF11 (BIT 1) ram_dbe_err_process]"

definition qdma_err_info :: "hw_err_info list" where
  "qdma_err_info =
     qdma_err_info_dsc @
     qdma_err_info_trq @
     qdma_err_info_st_c2h @
     qdma_err_info_st_fatal @
     qdma_err_info_st_h2c @
     qdma_err_info_sbe_part1 @
     qdma_err_info_sbe_part2 @
     qdma_err_info_dbe_part1 @
     qdma_err_info_dbe_part2"

definition all_qdma_hw_errs :: "nat list" where
  "all_qdma_hw_errs = [14, 19, 33, 48, 54, 80, 106]"

definition qdma_hw_err_position :: "nat list" where
  "qdma_hw_err_position = [0, 15, 20, 34, 49, 55, 81]"

definition qdma_err_names :: "string list" where
  "qdma_err_names =
    [''Poison error'',
     ''Unsupported request or completer aborted error'',
     ''Parameter mismatch error'',
     ''Address mismatch error'',
     ''Unexpected tag error'',
     ''FLR error'',
     ''Timed out error'',
     ''Poison data error'',
     ''Descriptor fetch cancelled due to FLR error'',
     ''DMA engine error'',
     ''Invalid PIDX update error'',
     ''Descriptor fetch cancelled due to disable register status error'',
     ''UNC_ERR_RAM_DBE error'',
     ''UNC_ERR_RAM_SBE error'',
     ''All Descriptor errors'',
     ''Access targeted unmapped register space error'',
     ''Qid range error'',
     ''Invalid VF access error'',
     ''Timeout on request error'',
     ''All TRQ errors'',
     ''MTY mismatch error'',
     ''Packet length mismatch error'',
     ''Qid mismatch error'',
     ''Descriptor error bit set'',
     ''Data parity error'',
     ''MSI got a fail response error'',
     ''Descriptor count error'',
     ''Port id in packet and pfetch ctxt mismatch error'',
     ''Port id in packet and bypass interface mismatch error'',
     ''Writeback on invalid queue error'',
     ''Completion queue gets full error'',
     ''Bad CIDX update by the software error'',
     ''C2H completion Parity error'',
     ''All C2h errors'',
     ''Fatal MTY mismatch error'',
     ''Fatal Len mismatch error'',
     ''Fatal Qid mismatch error'',
     ''RAM double bit fatal error'',
     ''RAM double bit fatal error'',
     ''RAM double bit fatal error'',
     ''RAM double bit fatal error'',
     ''RAM double bit fatal error'',
     ''RAM double bit fatal error'',
     ''RAM double bit fatal error'',
     ''RAM double bit fatal error'',
     ''RAM double bit fatal error'',
     ''RAM double bit fatal error'',
     ''RAM double bit fatal error'',
     ''All fatal errors'',
     ''Zero length descriptor error'',
     ''Non EOP descriptor received error'',
     ''No DMA descriptor received error'',
     ''Single bit error detected on H2C-ST data error'',
     ''Double bit error detected on H2C-ST data error'',
     ''All H2C errors'',
     ''H2C MM data buffer single bit ECC error'',
     ''C2H MM data buffer single bit ECC error'',
     ''Bridge master read single bit ECC error'',
     ''Bridge master write single bit ECC error'',
     ''Bridge slave read data buffer single bit ECC error'',
     ''Bridge slave write data buffer single bit ECC error'',
     ''Function map RAM single bit ECC error'',
     ''Descriptor engine hardware context RAM single bit ECC error'',
     ''Descriptor engine receive credit context RAM single bit ECC error'',
     ''Descriptor engine software context RAM single bit ECC error'',
     ''Descriptor engine fetch completion information RAM single bit ECC error'',
     ''Descriptor engine fetch completion data RAM single bit ECC error'',
     ''PASID configuration RAM single bit ECC error'',
     ''Timer fifo RAM single bit ECC error'',
     ''C2H ST payload RAM single bit ECC error'',
     ''C2H ST QID FIFO RAM single bit ECC error'',
     ''C2H ST TUSER RAM single bit ECC error'',
     ''Completion Coalescing RAM single bit ECC error'',
     ''Interrupt QID2VEC RAM single bit ECC error'',
     ''Interrupt context RAM single bit ECC error'',
     ''C2H ST descriptor request RAM single bit ECC error'',
     ''C2H ST prefetch RAM single bit ECC error'',
     ''C2H ST completion context RAM single bit ECC error'',
     ''C2H ST prefetch list RAM single bit ECC error'',
     ''H2C ST pending fifo RAM single bit ECC error'',
     ''All SBE errors'',
     ''H2C MM data buffer double bit ECC error'',
     ''C2H MM data buffer double bit ECC error'',
     ''Bridge master read double bit ECC error'',
     ''Bridge master write double bit ECC error'',
     ''Bridge slave read data buffer double bit ECC error'',
     ''Bridge slave write data buffer double bit ECC error'',
     ''Function map RAM double bit ECC error'',
     ''Descriptor engine hardware context RAM double bit ECC error'',
     ''Descriptor engine receive credit context RAM double bit ECC error'',
     ''Descriptor engine software context RAM double bit ECC error'',
     ''Descriptor engine fetch completion information RAM double bit ECC error'',
     ''Descriptor engine fetch completion data RAM double bit ECC error'',
     ''PASID configuration RAM double bit ECC error'',
     ''Timer fifo RAM double bit ECC error'',
     ''C2H ST payload RAM double bit ECC error'',
     ''C2H ST QID FIFO RAM double bit ECC error'',
     ''C2H ST TUSER RAM double bit ECC error'',
     ''Completion Coalescing RAM double bit ECC error'',
     ''Interrupt QID2VEC RAM double bit ECC error'',
     ''Interrupt context RAM double bit ECC error'',
     ''C2H ST descriptor request RAM double bit ECC error'',
     ''C2H ST prefetch RAM double bit ECC error'',
     ''C2H ST completion context RAM double bit ECC error'',
     ''C2H ST prefetch list RAM double bit ECC error'',
     ''H2C pending fifo RAM double bit ECC error'',
     ''All DBE errors'']"

definition qdma_errs :: "'d err_variant" where
  "qdma_errs =
     \<lparr>ev_info = qdma_err_info, ev_all = all_qdma_hw_errs, ev_position = qdma_hw_err_position,
      ev_st_position = [20, 34, 49], ev_st_all = [33, 48, 54],
      ev_attributes = qdma_get_device_attributes, ev_handler = qdma_hw_err_handler\<rparr>"

definition qdma_hw_error_process :: "'d mmio \<Rightarrow> 'd xdev option \<Rightarrow> int \<times> nat list \<times> 'd xdev option" where
  "qdma_hw_error_process = hw_error_process qdma_errs"

definition qdma_hw_error_enable :: "'d mmio \<Rightarrow> 'd xdev option \<Rightarrow> u32 \<Rightarrow> int \<times> 'd xdev option" where
  "qdma_hw_error_enable = hw_error_enable qdma_errs"

definition qdma_hw_get_error_name :: "u32 \<Rightarrow> string option" where
  "qdma_hw_get_error_name = hw_get_error_name qdma_err_names"

section \<open>Enhanced soft IP\<close>

text \<open>0 to 8: EQDMA_DSC_ERR_POISON to EQDMA_DSC_ERR_DAT_POISON.\<close>

definition eqdma_err_info_dsc_part1 :: "hw_err_info list" where
  "eqdma_err_info_dsc_part1 =
    [hw_err 0 0x258 0x254 (BIT 1) (BIT 2) desc_err_process,
     hw_err 1 0x258 0x254 (BIT 2) (BIT 2) desc_err_process,
     hw_err 2 0x258 0x254 (BIT 3) (BIT 2) desc_err_process,
     hw_err 3 0x258 0x254 (BIT 4) (BIT 2) desc_err_process,
     hw_err 4 0x258 0x254 (BIT 5) (BIT 2) desc_err_process,
     hw_err 5 0x258 0x254 (BIT 6) (BIT 2) desc_err_process,
     hw_err 6 0x258 0x254 (BIT 8) (BIT 2) desc_err_process,
     hw_err 7 0x258 0x254 (BIT 9) (BIT 2) desc_err_process,
     hw_err 8 0x258 0x254 (BIT 16) (BIT 2) desc_err_process]"

text \<open>9 to 16: EQDMA_DSC_ERR_FLR_CANCEL to EQDMA_DSC_ERR_ALL.\<close>

definition eqdma_err_info_dsc_part2 :: "hw_err_info list" where
  "eqdma_err_info_dsc_part2 =
    [hw_err 9 0x258 0x254 (BIT 19) (BIT 2) desc_err_process,
     hw_err 10 0x258 0x254 (BIT 20) (BIT 2) desc_err_process,
     hw_err 11 0x258 0x254 (BIT 21) (BIT 2) desc_err_process,
     hw_err 12 0x258 0x254 (BIT 22) (BIT 2) desc_err_process,
     hw_err 13 0x258 0x254 (BIT 23) (BIT 2) desc_err_process,
     hw_err 14 0x258 0x254 (BIT 24) (BIT 2) desc_err_process,
     hw_err 15 0x258 0x254 (BIT 25) (BIT 2) desc_err_process,
     hw_err 16 0x258 0x254 0x1F9037E (BIT 2) desc_err_process]"

text \<open>17 to 23: EQDMA_TRQ_ERR_CSR_UNMAPPED to EQDMA_TRQ_ERR_ALL.\<close>

definition eqdma_err_info_trq :: "hw_err_info list" where
  "eqdma_err_info_trq =
    [hw_err 17 0x268 0x264 (BIT 0) (BIT 3) trq_err_process,
     hw_err 18 0x268 0x264 (BIT 1) (BIT 3) trq_err_process,
     hw_err 19 0x268 0x264 (BIT 3) (BIT 3) trq_err_process,
     hw_err 20 0x268 0x264 (BIT 4) (BIT 3) trq_err_process,
     hw_err 21 0x268 0x264 (BIT 5) (BIT 3) trq_err_process,
     hw_err 22 0x268 0x264 (BIT 7) (BIT 3) trq_err_process,
     hw_err 23 0x268 0x264 0xB3 (BIT 3) trq_err_process]"

text \<open>24 to 32: EQDMA_ST_C2H_ERR_MTY_MISMATCH to EQDMA_ST_C2H_ERR_PORTID_CTXT_MISMATCH.\<close>

definition eqdma_err_info_st_c2h_part1 :: "hw_err_info list" where
  "eqdma_err_info_st_c2h_part1 =
    [hw_err 24 0xAF4 0xAF0 (BIT 0) (BIT 8) st_c2h_err_process,
     hw_err 25 0xAF4 0xAF0 (BIT 1) (BIT 8) st_c2h_err_process,
     hw_err 26 0xAF4 0xAF0 (BIT 2) (BIT 8) st_c2h_err_process,
     hw_err 27 0xAF4 0xAF0 (BIT 3) (BIT 8) st_c2h_err_process,
     hw_err 28 0xAF4 0xAF0 (BIT 4) (BIT 8) st_c2h_err_process,
     hw_err 29 0xAF4 0xAF0 (BIT 6) (BIT 8) st_c2h_err_process,
     hw_err 30 0xAF4 0xAF0 (BIT 7) (BIT 8) st_c2h_err_process,
     hw_err 31 0xAF4 0xAF0 (BIT 9) (BIT 8) st_c2h_err_process,
     hw_err 32 0xAF4 0xAF0 (BIT 10) (BIT 8) st_c2h_err_process]"

text \<open>33 to 41: EQDMA_ST_C2H_ERR_CMPT_INV_Q_ERR to EQDMA_ST_C2H_ERR_ALL.\<close>

definition eqdma_err_info_st_c2h_part2 :: "hw_err_info list" where
  "eqdma_err_info_st_c2h_part2 =
    [hw_err 33 0xAF4 0xAF0 (BIT 12) (BIT 8) st_c2h_err_process,
     hw_err 34 0xAF4 0xAF0 (BIT 13) (BIT 8) st_c2h_err_process,
     hw_err 35 0xAF4 0xAF0 (BIT 14) (BIT 8) st_c2h_err_process,
     hw_err 36 0xAF4 0xAF0 (BIT 15) (BIT 8) st_c2h_err_process,
     hw_err 37 0xAF4 0xAF0 (BIT 16) (BIT 8) st_c2h_err_process,
     hw_err 38 0xAF4 0xAF0 (BIT 17) (BIT 8) st_c2h_err_process,
     hw_err 39 0xAF4 0xAF0 (BIT 18) (BIT 8) st_c2h_err_process,
     hw_err 40 0xAF4 0xAF0 (BIT 20) (BIT 8) st_c2h_err_process,
     hw_err 41 0xAF4 0xAF0 0x3F6DF (BIT 8) st_c2h_err_process]"

text \<open>42 to 50: EQDMA_ST_FATAL_ERR_MTY_MISMATCH to EQDMA_ST_FATAL_ERR_INT_CTXT_RAM_RDBE.\<close>

definition eqdma_err_info_st_fatal_part1 :: "hw_err_info list" where
  "eqdma_err_info_st_fatal_part1 =
    [hw_err 42 0xAFC 0xAF8 (BIT 0) (BIT 8) st_c2h_err_process,
     hw_err 43 0xAFC 0xAF8 (BIT 1) (BIT 8) st_c2h_err_process,
     hw_err 44 0xAFC 0xAF8 (BIT 3) (BIT 8) st_c2h_err_process,
     hw_err 45 0xAFC 0xAF8 0xF0 (BIT 8) st_c2h_err_process,
     hw_err 46 0xAFC 0xAF8 (BIT 8) (BIT 8) st_c2h_err_process,
     hw_err 47 0xAFC 0xAF8 (BIT 9) (BIT 8) st_c2h_err_process,
     hw_err 48 0xAFC 0xAF8 (BIT 10) (BIT 8) st_c2h_err_process,
     hw_err 49 0xAFC 0xAF8 (BIT 11) (BIT 8) st_c2h_err_process,
     hw_err 50 0xAFC 0xAF8 (BIT 12) (BIT 8) st_c2h_err_process]"

text \<open>51 to 58: EQDMA_ST_FATAL_ERR_CMPT_COAL_DATA_RAM_RDBE to EQDMA_ST_FATAL_ERR_ALL.\<close>

definition eqdma_err_info_st_fatal_part2 :: "hw_err_info list" where
  "eqdma_err_info_st_fatal_part2 =
    [hw_err 51 0xAFC 0xAF8 (BIT 14) (BIT 8) st_c2h_err_process,
     hw_err 52 0xAFC 0xAF8 (BIT 15) (BIT 8) st_c2h_err_process,
     hw_err 53 0xAFC 0xAF8 (BIT 16) (BIT 8) st_c2h_err_process,
     hw_err 54 0xAFC 0xAF8 (BIT 17) (BIT 8) st_c2h_err_process,
     hw_err 55 0xAFC 0xAF8 (BIT 18) (BIT 8) st_c2h_err_process,
     hw_err 56 0xAFC 0xAF8 (BIT 19) (BIT 8) st_c2h_err_process,
     hw_err 57 0xAFC 0xAF8 (BIT 20) (BIT 8) st_c2h_err_process,
     hw_err 58 0xAFC 0xAF8 0x1FDF1B (BIT 8) st_c2h_err_process]"

text \<open>59 to 65: EQDMA_ST_H2C_ERR_ZERO_LEN_DESC to EQDMA_ST_H2C_ERR_ALL.\<close>

definition eqdma_err_info_st_h2c :: "hw_err_info list" where
  "eqdma_err_info_st_h2c =
    [hw_err 59 0xE04 0xE00 (BIT 0) (BIT 16) st_h2c_err_process,
     hw_err 60 0xE04 0xE00 (BIT 1) (BIT 16) st_h2c_err_process,
     hw_err 61 0xE04 0xE00 (BIT 2) (BIT 16) st_h2c_err_process,
     hw_err 62 0xE04 0xE00 (BIT 4) (BIT 16) st_h2c_err_process,
     hw_err 63 0xE04 0xE00 (BIT 3) (BIT 16) st_h2c_err_process,
     hw_err 64 0xE04 0xE00 (BIT 5) (BIT 16) st_h2c_err_process,
     hw_err 65 0xE04 0xE00 0x3F (BIT 16) st_h2c_err_process]"

text \<open>66 to 71: EQDMA_SBE_1_ERR_RC_RRQ_EVEN_RAM to EQDMA_SBE_1_ERR_ALL.\<close>

definition eqdma_err_info_sbe_1 :: "hw_err_info list" where
  "eqdma_err_info_sbe_1 =
    [hw_err 66 0xE0 0xE4 (BIT 0) (BIT 0) ram_sbe_err_process,
     hw_err 67 0xE0 0xE4 (BIT 1) (BIT 0) ram_sbe_err_process,
     hw_err 68 0xE0 0xE4 (BIT 2) (BIT 0) ram_sbe_err_process,
     hw_err 69 0xE0 0xE4 (BIT 3) (BIT 0) ram_sbe_err_process,
     hw_err 70 0xE0 0xE4 (BIT 4) (BIT 0) ram_sbe_err_process,
     hw_err 71 0xE0 0xE4 0xFFFFFFFF (BIT 0) ram_sbe_err_process]"

text \<open>72 to 86: EQDMA_SBE_ERR_MI_H2C0_DAT to EQDMA_SBE_ERR_DSC_CRD_RCV.\<close>

definition eqdma_err_info_sbe_part1 :: "hw_err_info list" where
  "eqdma_err_info_sbe_part1 =
    [hw_err 72 0xF0 0xF4 (BIT 0) (BIT 0) ram_sbe_err_process,
     hw_err 73 0xF0 0xF4 (BIT 1) (BIT 0) ram_sbe_err_process,
     hw_err 74 0xF0 0xF4 (BIT 2) (BIT 0) ram_sbe_err_process,
     hw_err 75 0xF0 0xF4 (BIT 3) (BIT 0) ram_sbe_err_process,
     hw_err 76 0xF0 0xF4 (BIT 4) (BIT 0) ram_sbe_err_process,
     hw_err 77 0xF0 0xF4 (BIT 5) (BIT 0) ram_sbe_err_process,
     hw_err 78 0xF0 0xF4 (BIT 6) (BIT 0) ram_sbe_err_process,
     hw_err 79 0xF0 0xF4 (BIT 7) (BIT 0) ram_sbe_err_process,
     hw_err 80 0xF0 0xF4 (BIT 8) (BIT 0) ram_sbe_err_process,
     hw_err 81 0xF0 0xF4 (BIT 9) (BIT 0) ram_sbe_err_process,
     hw_err 82 0xF0 0xF4 (BIT 10) (BIT 0) ram_sbe_err_process,
     hw_err 83 0xF0 0xF4 (BIT 11) (BIT 0) ram_sbe_err_process,
     hw_err 84 0xF0 0xF4 (BIT 12) (BIT 0) ram_sbe_err_process,
     hw_err 85 0xF0 0xF4 (BIT 13) (BIT 0) ram_sbe_err_process,
     hw_err 86 0xF0 0xF4 (BIT 14) (BIT 0) ram_sbe_err_process]"

text \<open>87 to 101: EQDMA_SBE_ERR_DSC_SW_CTXT to EQDMA_SBE_ERR_ALL.\<close>

definition eqdma_err_info_sbe_part2 :: "hw_err_info list" where
  "eqdma_err_info_sbe_part2 =
    [hw_err 87 0xF0 0xF4 (BIT 15) (BIT 0) ram_sbe_err_process,
     hw_err 88 0xF0 0xF4 (BIT 16) (BIT 0) ram_sbe_err_process,
     hw_err 89 0xF0 0xF4 (BIT 17) (BIT 0) ram_sbe_err_process,
     hw_err 90 0xF0 0xF4 (BIT 18) (BIT 0) ram_sbe_err_process,
     hw_err 91 0xF0 0xF4 0x780000 (BIT 0) ram_sbe_err_process,
     hw_err 92 0xF0 0xF4 (BIT 23) (BIT 0) ram_sbe_err_process,
     hw_err 93 0xF0 0xF4 (BIT 24) (BIT 0) ram_sbe_err_process,
     hw_err 94 0xF0 0xF4 (BIT 25) (BIT 0) ram_sbe_err_process,
     hw_err 95 0xF0 0xF4 (BIT 26) (BIT 0) ram_sbe_err_process,
     hw_err 96 0xF0 0xF4 (BIT 27) (BIT 0) ram_sbe_err_process,
     hw_err 97 0xF0 0xF4 (BIT 28) (BIT 0) ram_sbe_err_process,
     hw_err 98 0xF0 0xF4 (BIT 29) (BIT 0) ram_sbe_err_process,
     hw_err 99 0xF0 0xF4 (BIT 30) (BIT 0) ram_sbe_err_process,
     hw_err 100 0xF0 0xF4 (BIT 31) (BIT 0) ram_sbe_err_process,
     hw_err 101 0xF0 0xF4 0xFFFFFFFF (BIT 0) ram_sbe_err_process]"

text \<open>102 to 107: EQDMA_DBE_1_ERR_RC_RRQ_EVEN_RAM to EQDMA_DBE_1_ERR_ALL.\<close>

definition eqdma_err_info_dbe_1 :: "hw_err_info list" where
  "eqdma_err_info_dbe_1 =
    [hw_err 102 0xE8 0xEC (BIT 0) (BIT 1) ram_dbe_err_process,
     hw_err 103 0xE8 0xEC (BIT 1) (BIT 1) ram_dbe_err_process,
     hw_err 104 0xE8 0xEC (BIT 2) (BIT 1) ram_dbe_err_process,
     hw_err 105 0xE8 0xEC (BIT 3) (BIT 1) ram_dbe_err_process,
     hw_err 106 0xE8 0xEC (BIT 3) (BIT 1) ram_dbe_err_process,
     hw_err 107 0xE8 0xEC 0xFFFFFFFF (BIT 1) ram_dbe_err_process]"

text \<open>108 to 122: EQDMA_DBE_ERR_MI_H2C0_DAT to EQDMA_DBE_ERR_DSC_CRD_RCV.\<close>

definition eqdma_err_info_dbe_part1 :: "hw_err_info list" where
  "eqdma_err_info_dbe_part1 =
    [hw_err 108 0xF8 0xFC (BIT 0) (BIT 1) ram_dbe_err_process,
     hw_err 109 0xF8 0xFC (BIT 1) (BIT 1) ram_dbe_err_process,
     hw_err 110 0xF8 0xFC (BIT 2) (BIT 1) ram_dbe_err_process,
     hw_err 111 0xF8 0xFC (BIT 3) (BIT 1) ram_dbe_err_process,
     hw_err 112 0xF8 0xFC (BIT 4) (BIT 1) ram_dbe_err_process,
     hw_err 113 0xF8 0xFC (BIT 5) (BIT 1) ram_dbe_err_process,
     hw_err 114 0xF8 0xFC (BIT 6) (BIT 1) ram_dbe_err_process,
     hw_err 115 0xF8 0xFC (BIT 7) (BIT 1) ram_dbe_err_process,
     hw_err 116 0xF8 0xFC (BIT 8) (BIT 1) ram_dbe_err_process,
     hw_err 117 0xF8 0xFC (BIT 9) (BIT 1) ram_dbe_err_process,
     hw_err 118 0xF8 0xFC (BIT 10) (BIT 1) ram_dbe_err_process,
     hw_err 119 0xF8 0xFC (BIT 11) (BIT 1) ram_dbe_err_process,
     hw_err 120 0xF8 0xFC (BIT 12) (BIT 1) ram_dbe_err_process,
     hw_err 121 0xF8 0xFC (BIT 13) (BIT 1) ram_dbe_err_process,
     hw_err 122 0xF8 0xFC (BIT 14) (BIT 1) ram_dbe_err_process]"

text \<open>123 to 137: EQDMA_DBE_ERR_DSC_SW_CTXT to EQDMA_DBE_ERR_ALL.\<close>

definition eqdma_err_info_dbe_part2 :: "hw_err_info list" where
  "eqdma_err_info_dbe_part2 =
    [hw_err 123 0xF8 0xFC (BIT 15) (BIT 1) ram_dbe_err_process,
     hw_err 124 0xF8 0xFC (BIT 16) (BIT 1) ram_dbe_err_process,
     hw_err 125 0xF8 0xFC (BIT 17) (BIT 1) ram_dbe_err_process,
     hw_err 126 0xF8 0xFC (BIT 18) (BIT 1) ram_dbe_err_process,
     hw_err 127 0xF8 0xFC 0x780000 (BIT 1) ram_dbe_err_process,
     hw_err 128 0xF8 0xFC (BIT 23) (BIT 1) ram_dbe_err_process,
     hw_err 129 0xF8 0xFC (BIT 24) (BIT 1) ram_dbe_err_process,
     hw_err 130 0xF8 0xFC (BIT 25) (BIT 1) ram_dbe_err_process,
     hw_err 131 0xF8 0xFC (BIT 26) (BIT 1) ram_dbe_err_process,
     hw_err 132 0xF8 0xFC (BIT 27) (BIT 1) ram_dbe_err_process,
     hw_err 133 0xF8 0xFC (BIT 28) (BIT 1) ram_dbe_err_process,
     hw_err 134 0xF8 0xFC (BIT 29) (BIT 1) ram_dbe_err_process,
     hw_err 135 0xF8 0xFC (BIT 30) (BIT 1) ram_dbe_err_process,
     hw_err 136 0xF8 0xFC (BIT 31) (BIT 1) ram_dbe_err_process,
     hw_err 137 0xF8 0xFC 0xFFFFFFFF (BIT 1) ram_dbe_err_process]"

text \<open>138 to 143: EQDMA_MM_C2H_WR_SLR_ERR to EQDMA_MM_C2H_ERR_ALL.\<close>

definition eqdma_err_info_mm_c2h :: "hw_err_info list" where
  "eqdma_err_info_mm_c2h =
    [hw_err 138 0x1054 0x1040 (BIT 0) (BIT 6) mm_c2h0_err_process,
     hw_err 139 0x1054 0x1040 (BIT 1) (BIT 6) mm_c2h0_err_process,
     hw_err 140 0x1054 0x1040 (BIT 28) (BIT 6) mm_c2h0_err_process,
     hw_err 141 0x1054 0x1040 (BIT 29) (BIT 6) mm_c2h0_err_process,
     hw_err 142 0x1054 0x1040 (BIT 30) (BIT 6) mm_c2h0_err_process,
     hw_err 143 0x1054 0x1040 0x70000003 (BIT 6) mm_c2h0_err_process]"

text \<open>144 to 154: EQDMA_MM_H2C0_RD_HDR_POISON_ERR to EQDMA_MM_H2C0_ERR_ALL.\<close>

definition eqdma_err_info_mm_h2c0 :: "hw_err_info list" where
  "eqdma_err_info_mm_h2c0 =
    [hw_err 144 0x1254 0x1240 (BIT 1) (BIT 4) mm_h2c0_err_process,
     hw_err 145 0x1254 0x1240 (BIT 2) (BIT 4) mm_h2c0_err_process,
     hw_err 146 0x1254 0x1240 (BIT 3) (BIT 4) mm_h2c0_err_process,
     hw_err 147 0x1254 0x1240 (BIT 4) (BIT 4) mm_h2c0_err_process,
     hw_err 148 0x1254 0x1240 (BIT 5) (BIT 4) mm_h2c0_err_process,
     hw_err 149 0x1254 0x1240 (BIT 8) (BIT 4) mm_h2c0_err_process,
     hw_err 150 0x1254 0x1240 (BIT 16) (BIT 4) mm_h2c0_err_process,
     hw_err 151 0x1254 0x1240 (BIT 22) (BIT 4) mm_h2c0_err_process,
     hw_err 152 0x1254 0x1240 (BIT 28) (BIT 4) mm_h2c0_err_process,
     hw_err 153 0x1254 0x1240 (BIT 29) (BIT 4) mm_h2c0_err_process,
     hw_err 154 0x1254 0x1240 0x3041013E (BIT 4) mm_h2c0_err_process]"

definition eqdma_err_info :: "hw_err_info list" where
  "eqdma_err_info =
     eqdma_err_info_dsc_part1 @
     eqdma_err_info_dsc_part2 @
     eqdma_err_info_trq @
     eqdma_err_info_st_c2h_part1 @
     eqdma_err_info_st_c2h_part2 @
     eqdma_err_info_st_fatal_part1 @
     eqdma_err_info_st_fatal_part2 @
     eqdma_err_info_st_h2c @
     eqdma_err_info_sbe_1 @
     eqdma_err_info_sbe_part1 @
     eqdma_err_info_sbe_part2 @
     eqdma_err_info_dbe_1 @
     eqdma_err_info_dbe_part1 @
     eqdma_err_info_dbe_part2 @
     eqdma_err_info_mm_c2h @
     eqdma_err_info_mm_h2c0"

definition all_eqdma_hw_errs :: "nat list" where
  "all_eqdma_hw_errs = [16, 23, 41, 58, 65, 71, 101, 107, 137, 143, 154]"

definition eqdma_hw_err_position :: "nat list" where
  "eqdma_hw_err_position = [0, 17, 24, 42, 59, 66, 72, 102, 108, 138, 144]"

definition eqdma_err_names :: "string list" where
  "eqdma_err_names =
    [''Poison error'',
     ''Unsupported request or completer aborted error'',
     ''Unexpected Byte count in completion error'',
     ''Parameter mismatch error'',
     ''Address mismatch error'',
     ''Unexpected tag error'',
     ''FLR error'',
     ''Timed out error'',
     ''Poison data error'',
     ''Descriptor fetch cancelled due to FLR error'',
     ''DMA engine error'',
     ''Invalid PIDX update error'',
     ''Descriptor fetch cancelled due to disable register status error'',
     ''UNC_ERR_RAM_DBE error'',
     ''UNC_ERR_RAM_SBE error'',
     ''Port ID Error'',
     ''All Descriptor errors'',
     ''Access targeted unmapped register space via CSR pathway error'',
     ''VF attempted to access Global register space or Function map'',
     ''Timeout on request to dma internal csr register'',
     ''Access targeted unmapped register via queue space pathway'',
     ''Qid range error'',
     ''Timeout on request to dma internal queue space register'',
     ''All TRQ errors'',
     ''MTY mismatch error'',
     ''Packet length mismatch error'',
     ''A Shared CMPT queue has encountered a descriptor error'',
     ''Qid mismatch error'',
     ''Descriptor error bit set'',
     ''Data parity error'',
     ''MSI got a fail response error'',
     ''Descriptor count error'',
     ''Port id in packet and pfetch ctxt mismatch error'',
     ''Writeback on invalid queue error'',
     ''Completion queue gets full error'',
     ''Bad CIDX update by the software error'',
     ''C2H completion Parity error'',
     ''Available ring fetch returns descriptor with error'',
     ''multi-bit ecc error on c2h packet header'',
     ''single-bit ecc error on c2h packet header'',
     ''Port ID error'',
     ''All C2h errors'',
     ''Fatal MTY mismatch error'',
     ''Fatal Len mismatch error'',
     ''Fatal Qid mismatch error'',
     ''RAM double bit fatal error'',
     ''RAM double bit fatal error'',
     ''RAM double bit fatal error'',
     ''RAM double bit fatal error'',
     ''RAM double bit fatal error'',
     ''RAM double bit fatal error'',
     ''RAM double bit fatal error'',
     ''RAM double bit fatal error'',
     ''RAM double bit fatal error'',
     ''RAM double bit fatal error'',
     ''RAM double bit fatal error'',
     ''RAM double bit fatal error'',
     ''RAM double bit fatal error'',
     ''All fatal errors'',
     ''Zero length descriptor error'',
     ''A non-EOP descriptor received'',
     ''No DMA descriptor received error'',
     ''Single bit error detected on H2C-ST data error'',
     ''Double bit error detected on H2C-ST data error'',
     ''Internal data parity error'',
     ''All H2C errors'',
     ''RC RRQ Even RAM single bit ECC error.'',
     ''Tag Odd Ram single bit ECC error.'',
     ''Tag Even Ram single bit ECC error.'',
     ''Pfch Ctxt CAM RAM 0 single bit ECC error.'',
     ''Pfch Ctxt CAM RAM 1 single bit ECC error.'',
     ''All SBE Errors.'',
     ''H2C MM data buffer single bit ECC error'',
     ''H2C MM data buffer single bit ECC error'',
     ''H2C MM data buffer single bit ECC error'',
     ''H2C MM data buffer single bit ECC error'',
     ''C2H MM data buffer single bit ECC error'',
     ''C2H MM data buffer single bit ECC error'',
     ''C2H MM data buffer single bit ECC error'',
     ''C2H MM data buffer single bit ECC error'',
     ''Bridge master read single bit ECC error'',
     ''Bridge master write single bit ECC error'',
     ''Bridge slave read data buffer single bit ECC error'',
     ''Bridge slave write data buffer single bit ECC error'',
     ''Function map RAM single bit ECC error'',
     ''Descriptor engine hardware context RAM single bit ECC error'',
     ''Descriptor engine receive credit context RAM single bit ECC error'',
     ''Descriptor engine software context RAM single bit ECC error'',
     ''Descriptor engine fetch completion information RAM single bit ECC error'',
     ''Descriptor engine fetch completion data RAM single bit ECC error'',
     ''TL Slavle FIFO RAM single bit ECC error'',
     ''Timer fifo RAM single bit ECC error'',
     ''C2H ST QID FIFO RAM single bit ECC error'',
     ''Writeback Coalescing RAM single bit ECC error'',
     ''Interrupt context RAM single bit ECC error'',
     ''C2H ST descriptor request RAM single bit ECC error'',
     ''C2H ST prefetch RAM single bit ECC error'',
     ''C2H ST completion context RAM single bit ECC error'',
     ''C2H ST prefetch list RAM single bit ECC error'',
     ''Pend FIFO RAM single bit ECC error'',
     ''RC RRQ Odd RAM single bit ECC error.'',
     ''All SBE errors'',
     ''RC RRQ Odd RAM double bit ECC error.'',
     ''Tag Odd Ram double bit ECC error.'',
     ''Tag Even Ram double bit ECC error.'',
     ''Pfch Ctxt CAM RAM 0 double bit ECC error.'',
     ''Pfch Ctxt CAM RAM double bit ECC error.'',
     ''All DBE errors'',
     ''H2C MM data buffer double bit ECC error'',
     ''H2C MM data buffer double bit ECC error'',
     ''H2C MM data buffer double bit ECC error'',
     ''H2C MM data buffer double bit ECC error'',
     ''C2H MM data buffer double bit ECC error'',
     ''C2H MM data buffer double bit ECC error'',
     ''C2H MM data buffer double bit ECC error'',
     ''C2H MM data buffer double bit ECC error'',
     ''Bridge master read double bit ECC error'',
     ''Bridge master write double bit ECC error'',
     ''Bridge slave read data buffer double bit ECC error'',
     ''Bridge slave write data buffer double bit ECC error'',
     ''Function map RAM double bit ECC error'',
     ''Descriptor engine hardware context RAM double bit ECC error'',
     ''Descriptor engine receive credit context RAM double bit ECC error'',
     ''Descriptor engine software context RAM double bit ECC error'',
     ''Descriptor engine fetch completion information RAM double bit ECC error'',
     ''Descriptor engine fetch completion data RAM double bit ECC error'',
     ''TL Slave FIFO RAM double bit ECC error'',
     ''Timer fifo RAM double bit ECC error'',
     ''C2H ST QID FIFO RAM double bit ECC error'',
     ''Writeback Coalescing RAM double bit ECC error'',
     ''Interrupt context RAM double bit ECC error'',
     ''C2H ST descriptor request RAM double bit ECC error'',
     ''C2H ST prefetch RAM double bit ECC error'',
     ''C2H ST completion context RAM double bit ECC error'',
     ''C2H ST prefetch list RAM double bit ECC error'',
     ''Pend FIFO RAM double bit ECC error'',
     ''RC RRQ Odd RAM double bit ECC error.'',
     ''All DBE errors'',
     ''MM C2H0 WR SLV Error'',
     ''MM C2H0 RD SLV Error'',
     ''MM C2H0 WR FLR Error'',
     ''MM C2H0 Unsupported Request Error'',
     ''MM C2H0 Write Uncorrectable RAM Error'',
     ''All MM C2H Errors'',
     ''MM H2C0 Read cmpt header pison Error'',
     ''MM H2C0 Read cmpt unsupported request Error'',
     ''MM H2C0 Read cmpt hdr byte cnt Error'',
     ''MM H2C0 Read cmpt hdr param mismatch Error'',
     ''MM H2C0 Read cmpt hdr address mismatch Error'',
     ''MM H2C0 Read flr Error'',
     ''MM H2C0 Read data poison Error'',
     ''MM H2C0 Read request disable Error'',
     ''MM H2C0 Write desc Error'',
     ''MM H2C0 Write slv Error'',
     ''All MM H2C Errors'']"

definition eqdma_errs :: "'d err_variant" where
  "eqdma_errs =
     \<lparr>ev_info = eqdma_err_info, ev_all = all_eqdma_hw_errs, ev_position = eqdma_hw_err_position,
      ev_st_position = [24, 42, 59], ev_st_all = [41, 58, 65],
      ev_attributes = eqdma_get_device_attributes, ev_handler = eqdma_hw_err_handler\<rparr>"

definition eqdma_hw_error_process :: "'d mmio \<Rightarrow> 'd xdev option \<Rightarrow> int \<times> nat list \<times> 'd xdev option" where
  "eqdma_hw_error_process = hw_error_process eqdma_errs"

definition eqdma_hw_error_enable :: "'d mmio \<Rightarrow> 'd xdev option \<Rightarrow> u32 \<Rightarrow> int \<times> 'd xdev option" where
  "eqdma_hw_error_enable = hw_error_enable eqdma_errs"

definition eqdma_hw_get_error_name :: "u32 \<Rightarrow> string option" where
  "eqdma_hw_get_error_name = hw_get_error_name eqdma_err_names"

section \<open>CPM5\<close>

text \<open>0 to 8: EQDMA_CPM5_DSC_ERR_POISON to EQDMA_CPM5_DSC_ERR_DAT_POISON.\<close>

definition eqdma_cpm5_err_info_dsc_part1 :: "hw_err_info list" where
  "eqdma_cpm5_err_info_dsc_part1 =
    [hw_err 0 0x258 0x254 (BIT 1) (BIT 2) desc_err_process,
     hw_err 1 0x258 0x254 (BIT 2) (BIT 2) desc_err_process,
     hw_err 2 0x258 0x254 (BIT 3) (BIT 2) desc_err_process,
     hw_err 3 0x258 0x254 (BIT 4) (BIT 2) desc_err_process,
     hw_err 4 0x258 0x254 (BIT 5) (BIT 2) desc_err_process,
     hw_err 5 0x258 0x254 (BIT 6) (BIT 2) desc_err_process,
     hw_err 6 0x258 0x254 (BIT 8) (BIT 2) desc_err_process,
     hw_err 7 0x258 0x254 (BIT 9) (BIT 2) desc_err_process,
     hw_err 8 0x258 0x254 (BIT 16) (BIT 2) desc_err_process]"

text \<open>9 to 16: EQDMA_CPM5_DSC_ERR_FLR_CANCEL to EQDMA_CPM5_DSC_ERR_ALL.\<close>

definition eqdma_cpm5_err_info_dsc_part2 :: "hw_err_info list" where
  "eqdma_cpm5_err_info_dsc_part2 =
    [hw_err 9 0x258 0x254 (BIT 19) (BIT 2) desc_err_process,
     hw_err 10 0x258 0x254 (BIT 20) (BIT 2) desc_err_process,
     hw_err 11 0x258 0x254 (BIT 21) (BIT 2) desc_err_process,
     hw_err 12 0x258 0x254 (BIT 22) (BIT 2) desc_err_process,
     hw_err 13 0x258 0x254 (BIT 23) (BIT 2) desc_err_process,
     hw_err 14 0x258 0x254 (BIT 24) (BIT 2) desc_err_process,
     hw_err 15 0x258 0x254 (BIT 25) (BIT 2) desc_err_process,
     hw_err 16 0x258 0x254 0x1F9037E (BIT 2) desc_err_process]"

text \<open>17 to 23: EQDMA_CPM5_TRQ_ERR_CSR_UNMAPPED to EQDMA_CPM5_TRQ_ERR_ALL.\<close>

definition eqdma_cpm5_err_info_trq :: "hw_err_info list" where
  "eqdma_cpm5_err_info_trq =
    [hw_err 17 0x268 0x264 (BIT 0) (BIT 3) trq_err_process,
     hw_err 18 0x268 0x264 (BIT 1) (BIT 3) trq_err_process,
     hw_err 19 0x268 0x264 (BIT 3) (BIT 3) trq_err_process,
     hw_err 20 0x268 0x264 (BIT 4) (BIT 3) trq_err_process,
     hw_err 21 0x268 0x264 (BIT 5) (BIT 3) trq_err_process,
     hw_err 22 0x268 0x264 (BIT 7) (BIT 3) trq_err_process,
     hw_err 23 0x268 0x264 0xB3 (BIT 3) trq_err_process]"

text \<open>24 to 32: EQDMA_CPM5_ST_C2H_ERR_MTY_MISMATCH to EQDMA_CPM5_ST_C2H_ERR_PORTID_CTXT_MISMATCH.\<close>

definition eqdma_cpm5_err_info_st_c2h_part1 :: "hw_err_info list" where
  "eqdma_cpm5_err_info_st_c2h_part1 =
    [hw_err 24 0xAF4 0xAF0 (BIT 0) (BIT 8) st_c2h_err_process,
     hw_err 25 0xAF4 0xAF0 (BIT 1) (BIT 8) st_c2h_err_process,
     hw_err 26 0xAF4 0xAF0 (BIT 2) (BIT 8) st_c2h_err_process,
     hw_err 27 0xAF4 0xAF0 (BIT 3) (BIT 8) st_c2h_err_process,
     hw_err 28 0xAF4 0xAF0 (BIT 4) (BIT 8) st_c2h_err_process,
     hw_err 29 0xAF4 0xAF0 (BIT 6) (BIT 8) st_c2h_err_process,
     hw_err 30 0xAF4 0xAF0 (BIT 7) (BIT 8) st_c2h_err_process,
     hw_err 31 0xAF4 0xAF0 (BIT 9) (BIT 8) st_c2h_err_process,
     hw_err 32 0xAF4 0xAF0 (BIT 10) (BIT 8) st_c2h_err_process]"

text \<open>33 to 41: EQDMA_CPM5_ST_C2H_ERR_CMPT_INV_Q_ERR to EQDMA_CPM5_ST_C2H_ERR_ALL.\<close>

definition eqdma_cpm5_err_info_st_c2h_part2 :: "hw_err_info list" where
  "eqdma_cpm5_err_info_st_c2h_part2 =
    [hw_err 33 0xAF4 0xAF0 (BIT 12) (BIT 8) st_c2h_err_process,
     hw_err 34 0xAF4 0xAF0 (BIT 13) (BIT 8) st_c2h_err_process,
     hw_err 35 0xAF4 0xAF0 (BIT 14) (BIT 8) st_c2h_err_process,
     hw_err 36 0xAF4 0xAF0 (BIT 15) (BIT 8) st_c2h_err_process,
     hw_err 37 0xAF4 0xAF0 (BIT 16) (BIT 8) st_c2h_err_process,
     hw_err 38 0xAF4 0xAF0 (BIT 17) (BIT 8) st_c2h_err_process,
     hw_err 39 0xAF4 0xAF0 (BIT 18) (BIT 8) st_c2h_err_process,
     hw_err 40 0xAF4 0xAF0 (BIT 20) (BIT 8) st_c2h_err_process,
     hw_err 41 0xAF4 0xAF0 0x3F6DF (BIT 8) st_c2h_err_process]"

text \<open>42 to 50: EQDMA_CPM5_ST_FATAL_ERR_MTY_MISMATCH to EQDMA_CPM5_ST_FATAL_ERR_INT_CTXT_RAM_RDBE.\<close>

definition eqdma_cpm5_err_info_st_fatal_part1 :: "hw_err_info list" where
  "eqdma_cpm5_err_info_st_fatal_part1 =
    [hw_err 42 0xAFC 0xAF8 (BIT 0) (BIT 8) st_c2h_err_process,
     hw_err 43 0xAFC 0xAF8 (BIT 1) (BIT 8) st_c2h_err_process,
     hw_err 44 0xAFC 0xAF8 (BIT 3) (BIT 8) st_c2h_err_process,
     hw_err 45 0xAFC 0xAF8 0xF0 (BIT 8) st_c2h_err_process,
     hw_err 46 0xAFC 0xAF8 (BIT 8) (BIT 8) st_c2h_err_process,
     hw_err 47 0xAFC 0xAF8 (BIT 9) (BIT 8) st_c2h_err_process,
     hw_err 48 0xAFC 0xAF8 (BIT 10) (BIT 8) st_c2h_err_process,
     hw_err 49 0xAFC 0xAF8 (BIT 11) (BIT 8) st_c2h_err_process,
     hw_err 50 0xAFC 0xAF8 (BIT 12) (BIT 8) st_c2h_err_process]"

text \<open>51 to 58: EQDMA_CPM5_ST_FATAL_ERR_CMPT_COAL_DATA_RAM_RDBE to EQDMA_CPM5_ST_FATAL_ERR_ALL.\<close>

definition eqdma_cpm5_err_info_st_fatal_part2 :: "hw_err_info list" where
  "eqdma_cpm5_err_info_st_fatal_part2 =
    [hw_err 51 0xAFC 0xAF8 (BIT 14) (BIT 8) st_c2h_err_process,
     hw_err 52 0xAFC 0xAF8 (BIT 15) (BIT 8) st_c2h_err_process,
     hw_err 53 0xAFC 0xAF8 (BIT 16) (BIT 8) st_c2h_err_process,
     hw_err 54 0xAFC 0xAF8 (BIT 17) (BIT 8) st_c2h_err_process,
     hw_err 55 0xAFC 0xAF8 (BIT 18) (BIT 8) st_c2h_err_process,
     hw_err 56 0xAFC 0xAF8 (BIT 19) (BIT 8) st_c2h_err_process,
     hw_err 57 0xAFC 0xAF8 (BIT 20) (BIT 8) st_c2h_err_process,
     hw_err 58 0xAFC 0xAF8 0x1FDF1B (BIT 8) st_c2h_err_process]"

text \<open>59 to 65: EQDMA_CPM5_ST_H2C_ERR_ZERO_LEN_DESC to EQDMA_CPM5_ST_H2C_ERR_ALL.\<close>

definition eqdma_cpm5_err_info_st_h2c :: "hw_err_info list" where
  "eqdma_cpm5_err_info_st_h2c =
    [hw_err 59 0xE04 0xE00 (BIT 0) (BIT 16) st_h2c_err_process,
     hw_err 60 0xE04 0xE00 (BIT 1) (BIT 16) st_h2c_err_process,
     hw_err 61 0xE04 0xE00 (BIT 2) (BIT 16) st_h2c_err_process,
     hw_err 62 0xE04 0xE00 (BIT 4) (BIT 16) st_h2c_err_process,
     hw_err 63 0xE04 0xE00 (BIT 3) (BIT 16) st_h2c_err_process,
     hw_err 64 0xE04 0xE00 (BIT 5) (BIT 16) st_h2c_err_process,
     hw_err 65 0xE04 0xE00 0x3F (BIT 16) st_h2c_err_process]"

text \<open>66 to 71: EQDMA_CPM5_SBE_1_ERR_RC_RRQ_EVEN_RAM to EQDMA_CPM5_SBE_1_ERR_ALL.\<close>

definition eqdma_cpm5_err_info_sbe_1 :: "hw_err_info list" where
  "eqdma_cpm5_err_info_sbe_1 =
    [hw_err 66 0xE0 0xE4 (BIT 0) (BIT 0) ram_sbe_err_process,
     hw_err 67 0xE0 0xE4 (BIT 1) (BIT 0) ram_sbe_err_process,
     hw_err 68 0xE0 0xE4 (BIT 2) (BIT 0) ram_sbe_err_process,
     hw_err 69 0xE0 0xE4 (BIT 3) (BIT 0) ram_sbe_err_process,
     hw_err 70 0xE0 0xE4 (BIT 4) (BIT 0) ram_sbe_err_process,
     hw_err 71 0xE0 0xE4 0xFFFFFFFF (BIT 0) ram_sbe_err_process]"

text \<open>72 to 86: EQDMA_CPM5_SBE_ERR_MI_H2C0_DAT to EQDMA_CPM5_SBE_ERR_DSC_CRD_RCV.\<close>

definition eqdma_cpm5_err_info_sbe_part1 :: "hw_err_info list" where
  "eqdma_cpm5_err_info_sbe_part1 =
    [hw_err 72 0xF0 0xF4 (BIT 0) (BIT 0) ram_sbe_err_process,
     hw_err 73 0xF0 0xF4 (BIT 1) (BIT 0) ram_sbe_err_process,
     hw_err 74 0xF0 0xF4 (BIT 2) (BIT 0) ram_sbe_err_process,
     hw_err 75 0xF0 0xF4 (BIT 3) (BIT 0) ram_sbe_err_process,
     hw_err 76 0xF0 0xF4 (BIT 4) (BIT 0) ram_sbe_err_process,
     hw_err 77 0xF0 0xF4 (BIT 5) (BIT 0) ram_sbe_err_process,
     hw_err 78 0xF0 0xF4 (BIT 6) (BIT 0) ram_sbe_err_process,
     hw_err 79 0xF0 0xF4 (BIT 7) (BIT 0) ram_sbe_err_process,
     hw_err 80 0xF0 0xF4 (BIT 8) (BIT 0) ram_sbe_err_process,
     hw_err 81 0xF0 0xF4 (BIT 9) (BIT 0) ram_sbe_err_process,
     hw_err 82 0xF0 0xF4 (BIT 10) (BIT 0) ram_sbe_err_process,
     hw_err 83 0xF0 0xF4 (BIT 11) (BIT 0) ram_sbe_err_process,
     hw_err 84 0xF0 0xF4 (BIT 12) (BIT 0) ram_sbe_err_process,
     hw_err 85 0xF0 0xF4 (BIT 13) (BIT 0) ram_sbe_err_process,
     hw_err 86 0xF0 0xF4 (BIT 14) (BIT 0) ram_sbe_err_process]"

text \<open>87 to 101: EQDMA_CPM5_SBE_ERR_DSC_SW_CTXT to EQDMA_CPM5_SBE_ERR_ALL.\<close>

definition eqdma_cpm5_err_info_sbe_part2 :: "hw_err_info list" where
  "eqdma_cpm5_err_info_sbe_part2 =
    [hw_err 87 0xF0 0xF4 (BIT 15) (BIT 0) ram_sbe_err_process,
     hw_err 88 0xF0 0xF4 (BIT 16) (BIT 0) ram_sbe_err_process,
     hw_err 89 0xF0 0xF4 (BIT 17) (BIT 0) ram_sbe_err_process,
     hw_err 90 0xF0 0xF4 (BIT 18) (BIT 0) ram_sbe_err_process,
     hw_err 91 0xF0 0xF4 0x780000 (BIT 0) ram_sbe_err_process,
     hw_err 92 0xF0 0xF4 (BIT 23) (BIT 0) ram_sbe_err_process,
     hw_err 93 0xF0 0xF4 (BIT 24) (BIT 0) ram_sbe_err_process,
     hw_err 94 0xF0 0xF4 (BIT 25) (BIT 0) ram_sbe_err_process,
     hw_err 95 0xF0 0xF4 (BIT 26) (BIT 0) ram_sbe_err_process,
     hw_err 96 0xF0 0xF4 (BIT 27) (BIT 0) ram_sbe_err_process,
     hw_err 97 0xF0 0xF4 (BIT 28) (BIT 0) ram_sbe_err_process,
     hw_err 98 0xF0 0xF4 (BIT 29) (BIT 0) ram_sbe_err_process,
     hw_err 99 0xF0 0xF4 (BIT 30) (BIT 0) ram_sbe_err_process,
     hw_err 100 0xF0 0xF4 (BIT 31) (BIT 0) ram_sbe_err_process,
     hw_err 101 0xF0 0xF4 0xFFFFFFFF (BIT 0) ram_sbe_err_process]"

text \<open>102 to 107: EQDMA_CPM5_DBE_1_ERR_RC_RRQ_EVEN_RAM to EQDMA_CPM5_DBE_1_ERR_ALL.\<close>

definition eqdma_cpm5_err_info_dbe_1 :: "hw_err_info list" where
  "eqdma_cpm5_err_info_dbe_1 =
    [hw_err 102 0xE8 0xEC (BIT 0) (BIT 1) ram_dbe_err_process,
     hw_err 103 0xE8 0xEC (BIT 1) (BIT 1) ram_dbe_err_process,
     hw_err 104 0xE8 0xEC (BIT 2) (BIT 1) ram_dbe_err_process,
     hw_err 105 0xE8 0xEC (BIT 3) (BIT 1) ram_dbe_err_process,
     hw_err 106 0xE8 0xEC (BIT 3) (BIT 1) ram_dbe_err_process,
     hw_err 107 0xE8 0xEC 0xFFFFFFFF (BIT 1) ram_dbe_err_process]"

text \<open>108 to 122: EQDMA_CPM5_DBE_ERR_MI_H2C0_DAT to EQDMA_CPM5_DBE_ERR_DSC_CRD_RCV.\<close>

definition eqdma_cpm5_err_info_dbe_part1 :: "hw_err_info list" where
  "eqdma_cpm5_err_info_dbe_part1 =
    [hw_err 108 0xF8 0xFC (BIT 0) (BIT 1) ram_dbe_err_process,
     hw_err 109 0xF8 0xFC (BIT 1) (BIT 1) ram_dbe_err_process,
     hw_err 110 0xF8 0xFC (BIT 2) (BIT 1) ram_dbe_err_process,
     hw_err 111 0xF8 0xFC (BIT 3) (BIT 1) ram_dbe_err_process,
     hw_err 112 0xF8 0xFC (BIT 4) (BIT 1) ram_dbe_err_process,
     hw_err 113 0xF8 0xFC (BIT 5) (BIT 1) ram_dbe_err_process,
     hw_err 114 0xF8 0xFC (BIT 6) (BIT 1) ram_dbe_err_process,
     hw_err 115 0xF8 0xFC (BIT 7) (BIT 1) ram_dbe_err_process,
     hw_err 116 0xF8 0xFC (BIT 8) (BIT 1) ram_dbe_err_process,
     hw_err 117 0xF8 0xFC (BIT 9) (BIT 1) ram_dbe_err_process,
     hw_err 118 0xF8 0xFC (BIT 10) (BIT 1) ram_dbe_err_process,
     hw_err 119 0xF8 0xFC (BIT 11) (BIT 1) ram_dbe_err_process,
     hw_err 120 0xF8 0xFC (BIT 12) (BIT 1) ram_dbe_err_process,
     hw_err 121 0xF8 0xFC (BIT 13) (BIT 1) ram_dbe_err_process,
     hw_err 122 0xF8 0xFC (BIT 14) (BIT 1) ram_dbe_err_process]"

text \<open>123 to 137: EQDMA_CPM5_DBE_ERR_DSC_SW_CTXT to EQDMA_CPM5_DBE_ERR_ALL.\<close>

definition eqdma_cpm5_err_info_dbe_part2 :: "hw_err_info list" where
  "eqdma_cpm5_err_info_dbe_part2 =
    [hw_err 123 0xF8 0xFC (BIT 15) (BIT 1) ram_dbe_err_process,
     hw_err 124 0xF8 0xFC (BIT 16) (BIT 1) ram_dbe_err_process,
     hw_err 125 0xF8 0xFC (BIT 17) (BIT 1) ram_dbe_err_process,
     hw_err 126 0xF8 0xFC (BIT 18) (BIT 1) ram_dbe_err_process,
     hw_err 127 0xF8 0xFC 0x780000 (BIT 1) ram_dbe_err_process,
     hw_err 128 0xF8 0xFC (BIT 23) (BIT 1) ram_dbe_err_process,
     hw_err 129 0xF8 0xFC (BIT 24) (BIT 1) ram_dbe_err_process,
     hw_err 130 0xF8 0xFC (BIT 25) (BIT 1) ram_dbe_err_process,
     hw_err 131 0xF8 0xFC (BIT 26) (BIT 1) ram_dbe_err_process,
     hw_err 132 0xF8 0xFC (BIT 27) (BIT 1) ram_dbe_err_process,
     hw_err 133 0xF8 0xFC (BIT 28) (BIT 1) ram_dbe_err_process,
     hw_err 134 0xF8 0xFC (BIT 29) (BIT 1) ram_dbe_err_process,
     hw_err 135 0xF8 0xFC (BIT 30) (BIT 1) ram_dbe_err_process,
     hw_err 136 0xF8 0xFC (BIT 31) (BIT 1) ram_dbe_err_process,
     hw_err 137 0xF8 0xFC 0xFFFFFFFF (BIT 1) ram_dbe_err_process]"

text \<open>138 to 143: EQDMA_CPM5_MM_C2H_WR_SLR_ERR to EQDMA_CPM5_MM_C2H_ERR_ALL.\<close>

definition eqdma_cpm5_err_info_mm_c2h :: "hw_err_info list" where
  "eqdma_cpm5_err_info_mm_c2h =
    [hw_err 138 0x1054 0x1040 (BIT 0) (BIT 6) mm_c2h0_err_process,
     hw_err 139 0x1054 0x1040 (BIT 1) (BIT 6) mm_c2h0_err_process,
     hw_err 140 0x1054 0x1040 (BIT 28) (BIT 6) mm_c2h0_err_process,
     hw_err 141 0x1054 0x1040 (BIT 29) (BIT 6) mm_c2h0_err_process,
     hw_err 142 0x1054 0x1040 (BIT 30) (BIT 6) mm_c2h0_err_process,
     hw_err 143 0x1054 0x1040 0x70000003 (BIT 6) desc_err_process]"

text \<open>144 to 154: EQDMA_CPM5_MM_H2C0_RD_HDR_POISON_ERR to EQDMA_CPM5_MM_H2C0_ERR_ALL.\<close>

definition eqdma_cpm5_err_info_mm_h2c0 :: "hw_err_info list" where
  "eqdma_cpm5_err_info_mm_h2c0 =
    [hw_err 144 0x1254 0x1240 (BIT 1) (BIT 4) mm_h2c0_err_process,
     hw_err 145 0x1254 0x1240 (BIT 2) (BIT 4) mm_h2c0_err_process,
     hw_err 146 0x1254 0x1240 (BIT 3) (BIT 4) mm_h2c0_err_process,
     hw_err 147 0x1254 0x1240 (BIT 4) (BIT 4) mm_h2c0_err_process,
     hw_err 148 0x1254 0x1240 (BIT 5) (BIT 4) mm_h2c0_err_process,
     hw_err 149 0x1254 0x1240 (BIT 8) (BIT 4) mm_h2c0_err_process,
     hw_err 150 0x1254 0x1240 (BIT 16) (BIT 4) mm_h2c0_err_process,
     hw_err 151 0x1254 0x1240 (BIT 22) (BIT 4) mm_h2c0_err_process,
     hw_err 152 0x1254 0x1240 (BIT 28) (BIT 4) mm_h2c0_err_process,
     hw_err 153 0x1254 0x1240 (BIT 29) (BIT 4) mm_h2c0_err_process,
     hw_err 154 0x1254 0x1240 0x3041013E (BIT 4) desc_err_process]"

definition eqdma_cpm5_err_info :: "hw_err_info list" where
  "eqdma_cpm5_err_info =
     eqdma_cpm5_err_info_dsc_part1 @
     eqdma_cpm5_err_info_dsc_part2 @
     eqdma_cpm5_err_info_trq @
     eqdma_cpm5_err_info_st_c2h_part1 @
     eqdma_cpm5_err_info_st_c2h_part2 @
     eqdma_cpm5_err_info_st_fatal_part1 @
     eqdma_cpm5_err_info_st_fatal_part2 @
     eqdma_cpm5_err_info_st_h2c @
     eqdma_cpm5_err_info_sbe_1 @
     eqdma_cpm5_err_info_sbe_part1 @
     eqdma_cpm5_err_info_sbe_part2 @
     eqdma_cpm5_err_info_dbe_1 @
     eqdma_cpm5_err_info_dbe_part1 @
     eqdma_cpm5_err_info_dbe_part2 @
     eqdma_cpm5_err_info_mm_c2h @
     eqdma_cpm5_err_info_mm_h2c0"

definition all_eqdma_cpm5_hw_errs :: "nat list" where
  "all_eqdma_cpm5_hw_errs = [16, 23, 41, 58, 65, 71, 101, 107, 137, 143, 154]"

definition eqdma_cpm5_hw_err_position :: "nat list" where
  "eqdma_cpm5_hw_err_position = [0, 17, 24, 42, 59, 66, 72, 102, 108, 138, 144]"

definition eqdma_cpm5_err_names :: "string list" where
  "eqdma_cpm5_err_names =
    [''Poison error'',
     ''Unsupported request or completer aborted error'',
     ''Unexpected Byte count in completion error'',
     ''Parameter mismatch error'',
     ''Address mismatch error'',
     ''Unexpected tag error'',
     ''FLR error'',
     ''Timed out error'',
     ''Poison data error'',
     ''Descriptor fetch cancelled due to FLR error'',
     ''DMA engine error'',
     ''Invalid PIDX update error'',
     ''Descriptor fetch cancelled due to disable register status error'',
     ''UNC_ERR_RAM_DBE error'',
     ''UNC_ERR_RAM_SBE error'',
     ''Port ID Error'',
     ''All Descriptor errors'',
     ''Access targeted unmapped register space via CSR pathway error'',
     ''VF attempted to access Global register space or Function map'',
     ''Timeout on request to dma internal csr register'',
     ''Access targeted unmapped register via queue space pathway'',
     ''Qid range error'',
     ''Timeout on request to dma internal queue space register'',
     ''All TRQ errors'',
     ''MTY mismatch error'',
     ''Packet length mismatch error'',
     ''A Shared CMPT queue has encountered a descriptor error'',
     ''Qid mismatch error'',
     ''Descriptor error bit set'',
     ''Data parity error'',
     ''MSI got a fail response error'',
     ''Descriptor count error'',
     ''Port id in packet and pfetch ctxt mismatch error'',
     ''Writeback on invalid queue error'',
     ''Completion queue gets full error'',
     ''Bad CIDX update by the software error'',
     ''C2H completion Parity error'',
     ''Available ring fetch returns descriptor with error'',
     ''multi-bit ecc error on c2h packet header'',
     ''single-bit ecc error on c2h packet header'',
     ''Port ID error'',
     ''All C2h errors'',
     ''Fatal MTY mismatch error'',
     ''Fatal Len mismatch error'',
     ''Fatal Qid mismatch error'',
     ''RAM double bit fatal error'',
     ''RAM double bit fatal error'',
     ''RAM double bit fatal error'',
     ''RAM double bit fatal error'',
     ''RAM double bit fatal error'',
     ''RAM double bit fatal error'',
     ''RAM double bit fatal error'',
     ''RAM double bit fatal error'',
     ''RAM double bit fatal error'',
     ''RAM double bit fatal error'',
     ''RAM double bit fatal error'',
     ''RAM double bit fatal error'',
     ''RAM double bit fatal error'',
     ''All fatal errors'',
     ''Zero length descriptor error'',
     ''A non-EOP descriptor received'',
     ''No DMA descriptor received error'',
     ''Single bit error detected on H2C-ST data error'',
     ''Double bit error detected on H2C-ST data error'',
     ''Internal data parity error'',
     ''All H2C errors'',
     ''RC RRQ Even RAM single bit ECC error.'',
     ''Tag Odd Ram single bit ECC error.'',
     ''Tag Even Ram single bit ECC error.'',
     ''Pfch Ctxt CAM RAM 0 single bit ECC error.'',
     ''Pfch Ctxt CAM RAM 1 single bit ECC error.'',
     ''All SBE Errors.'',
     ''H2C MM data buffer single bit ECC error'',
     ''H2C MM data buffer single bit ECC error'',
     ''H2C MM data buffer single bit ECC error'',
     ''H2C MM data buffer single bit ECC error'',
     ''C2H MM data buffer single bit ECC error'',
     ''C2H MM data buffer single bit ECC error'',
     ''C2H MM data buffer single bit ECC error'',
     ''C2H MM data buffer single bit ECC error'',
     ''Bridge master read single bit ECC error'',
     ''Bridge master write single bit ECC error'',
     ''Bridge slave read data buffer single bit ECC error'',
     ''Bridge slave write data buffer single bit ECC error'',
     ''Function map RAM single bit ECC error'',
     ''Descriptor engine hardware context RAM single bit ECC error'',
     ''Descriptor engine receive credit context RAM single bit ECC error'',
     ''Descriptor engine software context RAM single bit ECC error'',
     ''Descriptor engine fetch completion information RAM single bit ECC error'',
     ''Descriptor engine fetch completion data RAM single bit ECC error'',
     ''TL Slavle FIFO RAM single bit ECC error'',
     ''Timer fifo RAM single bit ECC error'',
     ''C2H ST QID FIFO RAM single bit ECC error'',
     ''Writeback Coalescing RAM single bit ECC error'',
     ''Interrupt context RAM single bit ECC error'',
     ''C2H ST descriptor request RAM single bit ECC error'',
     ''C2H ST prefetch RAM single bit ECC error'',
     ''C2H ST completion context RAM single bit ECC error'',
     ''C2H ST prefetch list RAM single bit ECC error'',
     ''Pend FIFO RAM single bit ECC error'',
     ''RC RRQ Odd RAM single bit ECC error.'',
     ''All SBE errors'',
     ''RC RRQ Odd RAM double bit ECC error.'',
     ''Tag Odd Ram double bit ECC error.'',
     ''Tag Even Ram double bit ECC error.'',
     ''Pfch Ctxt CAM RAM 0 double bit ECC error.'',
     ''Pfch Ctxt CAM RAM double bit ECC error.'',
     ''All DBE errors'',
     ''H2C MM data buffer double bit ECC error'',
     ''H2C MM data buffer double bit ECC error'',
     ''H2C MM data buffer double bit ECC error'',
     ''H2C MM data buffer double bit ECC error'',
     ''C2H MM data buffer double bit ECC error'',
     ''C2H MM data buffer double bit ECC error'',
     ''C2H MM data buffer double bit ECC error'',
     ''C2H MM data buffer double bit ECC error'',
     ''Bridge master read double bit ECC error'',
     ''Bridge master write double bit ECC error'',
     ''Bridge slave read data buffer double bit ECC error'',
     ''Bridge slave write data buffer double bit ECC error'',
     ''Function map RAM double bit ECC error'',
     ''Descriptor engine hardware context RAM double bit ECC error'',
     ''Descriptor engine receive credit context RAM double bit ECC error'',
     ''Descriptor engine software context RAM double bit ECC error'',
     ''Descriptor engine fetch completion information RAM double bit ECC error'',
     ''Descriptor engine fetch completion data RAM double bit ECC error'',
     ''TL Slave FIFO RAM double bit ECC error'',
     ''Timer fifo RAM double bit ECC error'',
     ''C2H ST QID FIFO RAM double bit ECC error'',
     ''Writeback Coalescing RAM double bit ECC error'',
     ''Interrupt context RAM double bit ECC error'',
     ''C2H ST descriptor request RAM double bit ECC error'',
     ''C2H ST prefetch RAM double bit ECC error'',
     ''C2H ST completion context RAM double bit ECC error'',
     ''C2H ST prefetch list RAM double bit ECC error'',
     ''Pend FIFO RAM double bit ECC error'',
     ''RC RRQ Odd RAM double bit ECC error.'',
     ''All DBE errors'',
     ''MM C2H0 WR SLV Error'',
     ''MM C2H0 RD SLV Error'',
     ''MM C2H0 WR FLR Error'',
     ''MM C2H0 Unsupported Request Error'',
     ''MM C2H0 Write Uncorrectable RAM Error'',
     ''All MM C2H Errors'',
     ''MM H2C0 Read cmpt header pison Error'',
     ''MM H2C0 Read cmpt unsupported request Error'',
     ''MM H2C0 Read cmpt hdr byte cnt Error'',
     ''MM H2C0 Read cmpt hdr param mismatch Error'',
     ''MM H2C0 Read cmpt hdr address mismatch Error'',
     ''MM H2C0 Read flr Error'',
     ''MM H2C0 Read data poison Error'',
     ''MM H2C0 Read request disable Error'',
     ''MM H2C0 Write desc Error'',
     ''MM H2C0 Write slv Error'',
     ''All MM H2C Errors'']"

definition eqdma_cpm5_errs :: "'d err_variant" where
  "eqdma_cpm5_errs =
     \<lparr>ev_info = eqdma_cpm5_err_info, ev_all = all_eqdma_cpm5_hw_errs, ev_position = eqdma_cpm5_hw_err_position,
      ev_st_position = [24, 42, 59], ev_st_all = [41, 58, 65],
      ev_attributes = eqdma_cpm5_get_device_attributes, ev_handler = eqdma_cpm5_hw_err_handler\<rparr>"

definition eqdma_cpm5_hw_error_process :: "'d mmio \<Rightarrow> 'd xdev option \<Rightarrow> int \<times> nat list \<times> 'd xdev option" where
  "eqdma_cpm5_hw_error_process = hw_error_process eqdma_cpm5_errs"

definition eqdma_cpm5_hw_error_enable :: "'d mmio \<Rightarrow> 'd xdev option \<Rightarrow> u32 \<Rightarrow> int \<times> 'd xdev option" where
  "eqdma_cpm5_hw_error_enable = hw_error_enable eqdma_cpm5_errs"

definition eqdma_cpm5_hw_get_error_name :: "u32 \<Rightarrow> string option" where
  "eqdma_cpm5_hw_get_error_name = hw_get_error_name eqdma_cpm5_err_names"

section \<open>CPM4\<close>

text \<open>0 to 14: QDMA_CPM4_DSC_ERR_POISON to QDMA_CPM4_DSC_ERR_ALL.\<close>

definition qdma_cpm4_err_info_dsc :: "hw_err_info list" where
  "qdma_cpm4_err_info_dsc =
    [hw_err 0 0x258 0x254 (BIT 0) (BIT 2) desc_err_process,
     hw_err 1 0x258 0x254 (BIT 1) (BIT 2) desc_err_process,
     hw_err 2 0x258 0x254 (BIT 2) (BIT 2) desc_err_process,
     hw_err 3 0x258 0x254 (BIT 3) (BIT 2) desc_err_process,
     hw_err 4 0x258 0x254 (BIT 4) (BIT 2) desc_err_process,
     hw_err 5 0x258 0x254 (BIT 5) (BIT 2) desc_err_process,
     hw_err 6 0x258 0x254 (BIT 9) (BIT 2) desc_err_process,
     hw_err 7 0x258 0x254 (BIT 16) (BIT 2) desc_err_process,
     hw_err 8 0x258 0x254 (BIT 19) (BIT 2) desc_err_process,
     hw_err 9 0x258 0x254 (BIT 20) (BIT 2) desc_err_process,
     hw_err 10 0x258 0x254 (BIT 21) (BIT 2) desc_err_process,
     hw_err 11 0x258 0x254 (BIT 22) (BIT 2) desc_err_process,
     hw_err 12 0x258 0x254 (BIT 23) (BIT 2) desc_err_process,
     hw_err 13 0x258 0x254 (BIT 24) (BIT 2) desc_err_process,
     hw_err 14 0x258 0x254 0xFFFFFFFF (BIT 2) desc_err_process]"

text \<open>15 to 19: QDMA_CPM4_TRQ_ERR_UNMAPPED to QDMA_CPM4_TRQ_ERR_ALL.\<close>

definition qdma_cpm4_err_info_trq :: "hw_err_info list" where
  "qdma_cpm4_err_info_trq =
    [hw_err 15 0x268 0x264 (BIT 0) (BIT 3) trq_err_process,
     hw_err 16 0x268 0x264 (BIT 1) (BIT 3) trq_err_process,
     hw_err 17 0x268 0x264 (BIT 2) (BIT 3) trq_err_process,
     hw_err 18 0x268 0x264 (BIT 3) (BIT 3) trq_err_process,
     hw_err 19 0x268 0x264 0xB3 (BIT 3) trq_err_process]"

text \<open>20 to 33: QDMA_CPM4_ST_C2H_ERR_MTY_MISMATCH to QDMA_CPM4_ST_C2H_ERR_ALL.\<close>

definition qdma_cpm4_err_info_st_c2h :: "hw_err_info list" where
  "qdma_cpm4_err_info_st_c2h =
    [hw_err 20 0xAF4 0xAF0 (BIT 0) (BIT 8) st_c2h_err_process,
     hw_err 21 0xAF4 0xAF0 (BIT 1) (BIT 8) st_c2h_err_process,
     hw_err 22 0xAF4 0xAF0 (BIT 3) (BIT 8) st_c2h_err_process,
     hw_err 23 0xAF4 0xAF0 (BIT 4) (BIT 8) st_c2h_err_process,
     hw_err 24 0xAF4 0xAF0 (BIT 6) (BIT 8) st_c2h_err_process,
     hw_err 25 0xAF4 0xAF0 (BIT 7) (BIT 8) st_c2h_err_process,
     hw_err 26 0xAF4 0xAF0 (BIT 9) (BIT 8) st_c2h_err_process,
     hw_err 27 0xAF4 0xAF0 (BIT 10) (BIT 8) st_c2h_err_process,
     hw_err 28 0xAF4 0xAF0 (BIT 10) (BIT 8) st_c2h_err_process,
     hw_err 29 0xAF4 0xAF0 (BIT 12) (BIT 8) st_c2h_err_process,
     hw_err 30 0xAF4 0xAF0 (BIT 13) (BIT 8) st_c2h_err_process,
     hw_err 31 0xAF4 0xAF0 (BIT 14) (BIT 8) st_c2h_err_process,
     hw_err 32 0xAF4 0xAF0 (BIT 15) (BIT 8) st_c2h_err_process,
     hw_err 33 0xAF4 0xAF0 0x3F6DF (BIT 8) st_c2h_err_process]"

text \<open>34 to 49: QDMA_CPM4_ST_FATAL_ERR_MTY_MISMATCH to QDMA_CPM4_ST_FATAL_ERR_ALL.\<close>

definition qdma_cpm4_err_info_st_fatal :: "hw_err_info list" where
  "qdma_cpm4_err_info_st_fatal =
    [hw_err 34 0xAFC 0xAF8 (BIT 0) (BIT 8) st_c2h_err_process,
     hw_err 35 0xAFC 0xAF8 (BIT 1) (BIT 8) st_c2h_err_process,
     hw_err 36 0xAFC 0xAF8 (BIT 3) (BIT 8) st_c2h_err_process,
     hw_err 37 0xAFC 0xAF8 0xF0 (BIT 8) st_c2h_err_process,
     hw_err 38 0xAFC 0xAF8 (BIT 8) (BIT 8) st_c2h_err_process,
     hw_err 39 0xAFC 0xAF8 (BIT 9) (BIT 8) st_c2h_err_process,
     hw_err 40 0xAFC 0xAF8 (BIT 10) (BIT 8) st_c2h_err_process,
     hw_err 41 0xAFC 0xAF8 (BIT 11) (BIT 8) st_c2h_err_process,
     hw_err 42 0xAFC 0xAF8 (BIT 12) (BIT 8) st_c2h_err_process,
     hw_err 43 0xAFC 0xAF8 (BIT 13) (BIT 8) st_c2h_err_process,
     hw_err 44 0xAFC 0xAF8 (BIT 14) (BIT 8) st_c2h_err_process,
     hw_err 45 0xAFC 0xAF8 (BIT 15) (BIT 8) st_c2h_err_process,
     hw_err 46 0xAFC 0xAF8 (BIT 16) (BIT 8) st_c2h_err_process,
     hw_err 47 0xAFC 0xAF8 (BIT 17) (BIT 8) st_c2h_err_process,
     hw_err 48 0xAFC 0xAF8 (BIT 18) (BIT 8) st_c2h_err_process,
     hw_err 49 0xAFC 0xAF8 0x1FDF1B (BIT 8) st_c2h_err_process]"

text \<open>50 to 55: QDMA_CPM4_ST_H2C_ERR_ZERO_LEN_DESC_ERR to QDMA_CPM4_ST_H2C_ERR_ALL.\<close>

definition qdma_cpm4_err_info_st_h2c :: "hw_err_info list" where
  "qdma_cpm4_err_info_st_h2c =
    [hw_err 50 0xE04 0xE00 (BIT 0) (BIT 11) st_h2c_err_process,
     hw_err 51 0xE04 0xE00 (BIT 1) (BIT 11) st_h2c_err_process,
     hw_err 52 0xE04 0xE00 (BIT 2) (BIT 11) st_h2c_err_process,
     hw_err 53 0xE04 0xE00 (BIT 3) (BIT 11) st_h2c_err_process,
     hw_err 54 0xE04 0xE00 (BIT 4) (BIT 11) st_h2c_err_process,
     hw_err 55 0xE04 0xE00 0x3F (BIT 11) st_h2c_err_process]"

text \<open>56 to 68: QDMA_CPM4_SBE_ERR_MI_H2C0_DAT to QDMA_CPM4_SBE_ERR_PASID_CTXT_RAM.\<close>

definition qdma_cpm4_err_info_sbe_part1 :: "hw_err_info list" where
  "qdma_cpm4_err_info_sbe_part1 =
    [hw_err 56 0xF0 0xF4 (BIT 0) (BIT 0) ram_sbe_err_process,
     hw_err 57 0xF0 0xF4 (BIT 4) (BIT 0) ram_sbe_err_process,
     hw_err 58 0xF0 0xF4 (BIT 9) (BIT 0) ram_sbe_err_process,
     hw_err 59 0xF0 0xF4 (BIT 10) (BIT 0) ram_sbe_err_process,
     hw_err 60 0xF0 0xF4 (BIT 11) (BIT 0) ram_sbe_err_process,
     hw_err 61 0xF0 0xF4 (BIT 12) (BIT 0) ram_sbe_err_process,
     hw_err 62 0xF0 0xF4 (BIT 13) (BIT 0) ram_sbe_err_process,
     hw_err 63 0xF0 0xF4 (BIT 14) (BIT 0) ram_sbe_err_process,
     hw_err 64 0xF0 0xF4 (BIT 15) (BIT 0) ram_sbe_err_process,
     hw_err 65 0xF0 0xF4 (BIT 16) (BIT 0) ram_sbe_err_process,
     hw_err 66 0xF0 0xF4 (BIT 17) (BIT 0) ram_sbe_err_process,
     hw_err 67 0xF0 0xF4 (BIT 18) (BIT 0) ram_sbe_err_process,
     hw_err 68 0xF0 0xF4 (BIT 19) (BIT 0) ram_sbe_err_process]"

text \<open>69 to 80: QDMA_CPM4_SBE_ERR_TIMER_FIFO_RAM to QDMA_CPM4_SBE_ERR_ALL.\<close>

definition qdma_cpm4_err_info_sbe_part2 :: "hw_err_info list" where
  "qdma_cpm4_err_info_sbe_part2 =
    [hw_err 69 0xF0 0xF4 (BIT 20) (BIT 0) ram_sbe_err_process,
     hw_err 70 0xF0 0xF4 (BIT 21) (BIT 0) ram_sbe_err_process,
     hw_err 71 0xF0 0xF4 (BIT 22) (BIT 0) ram_sbe_err_process,
     hw_err 72 0xF0 0xF4 (BIT 23) (BIT 0) ram_sbe_err_process,
     hw_err 73 0xF0 0xF4 (BIT 24) (BIT 0) ram_sbe_err_process,
     hw_err 74 0xF0 0xF4 (BIT 25) (BIT 0) ram_sbe_err_process,
     hw_err 75 0xF0 0xF4 (BIT 26) (BIT 0) ram_sbe_err_process,
     hw_err 76 0xF0 0xF4 (BIT 27) (BIT 0) ram_sbe_err_process,
     hw_err 77 0xF0 0xF4 (BIT 28) (BIT 0) ram_sbe_err_process,
     hw_err 78 0xF0 0xF4 (BIT 29) (BIT 0) ram_sbe_err_process,
     hw_err 79 0xF0 0xF4 (BIT 30) (BIT 0) ram_sbe_err_process,
     hw_err 80 0xF0 0xF4 0xFFFFFFFF (BIT 0) ram_sbe_err_process]"

text \<open>81 to 92: QDMA_CPM4_DBE_ERR_MI_H2C0_DAT to QDMA_CPM4_DBE_ERR_DSC_CPLD.\<close>

definition qdma_cpm4_err_info_dbe_part1 :: "hw_err_info list" where
  "qdma_cpm4_err_info_dbe_part1 =
    [hw_err 81 0xF8 0xFC (BIT 0) (BIT 1) ram_dbe_err_process,
     hw_err 82 0xF8 0xFC (BIT 4) (BIT 1) ram_dbe_err_process,
     hw_err 83 0xF8 0xFC (BIT 9) (BIT 1) ram_dbe_err_process,
     hw_err 84 0xF8 0xFC (BIT 10) (BIT 1) ram_dbe_err_process,
     hw_err 85 0xF8 0xFC (BIT 11) (BIT 1) ram_dbe_err_process,
     hw_err 86 0xF8 0xFC (BIT 12) (BIT 1) ram_dbe_err_process,
     hw_err 87 0xF8 0xFC (BIT 13) (BIT 1) ram_dbe_err_process,
     hw_err 88 0xF8 0xFC (BIT 14) (BIT 1) ram_dbe_err_process,
     hw_err 89 0xF8 0xFC (BIT 15) (BIT 1) ram_dbe_err_process,
     hw_err 90 0xF8 0xFC (BIT 16) (BIT 1) ram_dbe_err_process,
     hw_err 91 0xF8 0xFC (BIT 17) (BIT 1) ram_dbe_err_process,
     hw_err 92 0xF8 0xFC (BIT 18) (BIT 1) ram_dbe_err_process]"

text \<open>93 to 104: QDMA_CPM4_DBE_ERR_PASID_CTXT_RAM to QDMA_CPM4_DBE_ERR_ALL.\<close>

definition qdma_cpm4_err_info_dbe_part2 :: "hw_err_info list" where
  "qdma_cpm4_err_info_dbe_part2 =
    [hw_err 93 0xF8 0xFC (BIT 19) (BIT 1) ram_dbe_err_process,
     hw_err 94 0xF8 0xFC (BIT 20) (BIT 1) ram_dbe_err_process,
     hw_err 95 0xF8 0xFC (BIT 21) (BIT 1) ram_dbe_err_process,
     hw_err 96 0xF8 0xFC (BIT 22) (BIT 1) ram_dbe_err_process,
     hw_err 97 0xF8 0xFC (BIT 24) (BIT 1) ram_dbe_err_process,
     hw_err 98 0xF8 0xFC (BIT 25) (BIT 1) ram_dbe_err_process,
     hw_err 99 0xF8 0xFC (BIT 26) (BIT 1) ram_dbe_err_process,
     hw_err 100 0xF8 0xFC (BIT 27) (BIT 1) ram_dbe_err_process,
     hw_err 101 0xF8 0xFC (BIT 28) (BIT 1) ram_dbe_err_process,
     hw_err 102 0xF8 0xFC (BIT 29) (BIT 1) ram_dbe_err_process,
     hw_err 103 0xF8 0xFC (BIT 30) (BIT 1) ram_dbe_err_process,
     hw_err 104 0xF8 0xFC 0xFFFFFFFF (BIT 1) ram_dbe_err_process]"

definition qdma_cpm4_err_info :: "hw_err_info list" where
  "qdma_cpm4_err_info =
     qdma_cpm4_err_info_dsc @
     qdma_cpm4_err_info_trq @
     qdma_cpm4_err_info_st_c2h @
     qdma_cpm4_err_info_st_fatal @
     qdma_cpm4_err_info_st_h2c @
     qdma_cpm4_err_info_sbe_part1 @
     qdma_cpm4_err_info_sbe_part2 @
     qdma_cpm4_err_info_dbe_part1 @
     qdma_cpm4_err_info_dbe_part2"

definition all_qdma_cpm4_hw_errs :: "nat list" where
  "all_qdma_cpm4_hw_errs = [14, 19, 33, 49, 55, 80, 104]"

definition qdma_cpm4_hw_err_position :: "nat list" where
  "qdma_cpm4_hw_err_position = [0, 15, 20, 34, 50, 56, 81]"

definition qdma_cpm4_err_names :: "string list" where
  "qdma_cpm4_err_names =
    [''Poison error'',
     ''Unsupported request or completer aborted error'',
     ''Parameter mismatch error'',
     ''Address mismatch error'',
     ''Unexpected tag error'',
     ''FLR error'',
     ''Timed out error'',
     ''Poison data error'',
     ''Descriptor fetch cancelled due to FLR error'',
     ''DMA engine error'',
     ''Invalid PIDX update error'',
     ''Descriptor fetch cancelled due to disable register status error'',
     ''UNC_ERR_RAM_DBE error'',
     ''UNC_ERR_RAM_SBE error'',
     ''All Descriptor errors'',
     ''Access targeted unmapped register space via CSR pathway error'',
     ''Qid range error'',
     ''VF attempted to access Global register space or Function map'',
     ''Timeout on request to dma internal csr register'',
     ''All TRQ errors'',
     ''MTY mismatch error'',
     ''Packet length mismatch error'',
     ''Qid mismatch error'',
     ''Descriptor error bit set'',
     ''Data parity error'',
     ''MSI got a fail response error'',
     ''Descriptor count error'',
     ''Port id in packet and pfetch ctxt mismatch error'',
     ''Port id in packet and bypass in mismatch error'',
     ''Writeback on invalid queue error'',
     ''Completion queue gets full error'',
     ''Bad CIDX update by the software error'',
     ''C2H completion Parity error'',
     ''All C2h errors'',
     ''Fatal MTY mismatch error'',
     ''Fatal Len mismatch error'',
     ''Fatal Qid mismatch error'',
     ''RAM double bit fatal error'',
     ''RAM double bit fatal error'',
     ''RAM double bit fatal error'',
     ''RAM double bit fatal error'',
     ''RAM double bit fatal error'',
     ''RAM double bit fatal error'',
     ''RAM double bit fatal error'',
     ''RAM double bit fatal error'',
     ''RAM double bit fatal error'',
     ''RAM double bit fatal error'',
     ''RAM double bit fatal error'',
     ''RAM double bit fatal error'',
     ''All fatal errors'',
     ''Zero length descriptor error'',
     ''A non-EOP descriptor received'',
     ''No DMA descriptor received error'',
     ''Double bit error detected on H2C-ST data error'',
     ''Single bit error detected on H2C-ST data error'',
     ''All H2C errors'',
     ''H2C MM data buffer single bit ECC error'',
     ''C2H MM data buffer single bit ECC error'',
     ''Bridge master read single bit ECC error'',
     ''Bridge master write single bit ECC error'',
     ''Bridge slave read data buffer single bit ECC error'',
     ''Bridge slave write data buffer single bit ECC error'',
     ''Function map RAM single bit ECC error'',
     ''Descriptor engine hardware context RAM single bit ECC error'',
     ''Descriptor engine receive credit context RAM single bit ECC error'',
     ''Descriptor engine software context RAM single bit ECC error'',
     ''Descriptor engine fetch completion information RAM single bit ECC error'',
     ''Descriptor engine fetch completion data RAM single bit ECC error'',
     ''Pasid ctxt FIFO RAM single bit ECC error'',
     ''Timer fifo RAM single bit ECC error'',
     ''C2H ST payload FIFO RAM single bit ECC error'',
     ''C2H ST QID FIFO RAM single bit ECC error'',
     ''C2H ST TUSER FIFO RAM single bit ECC error'',
     ''Writeback Coalescing RAM single bit ECC error'',
     ''Interrupt QID2VEC RAM single bit ECC error'',
     ''Interrupt context RAM single bit ECC error'',
     ''C2H ST descriptor request RAM single bit ECC error'',
     ''C2H ST prefetch RAM single bit ECC error'',
     ''C2H ST completion context RAM single bit ECC error'',
     ''C2H ST prefetch list RAM single bit ECC error'',
     ''All SBE errors'',
     ''H2C MM data buffer single bit ECC error'',
     ''C2H MM data buffer single bit ECC error'',
     ''Bridge master read single bit ECC error'',
     ''Bridge master write single bit ECC error'',
     ''Bridge slave read data buffer single bit ECC error'',
     ''Bridge slave write data buffer single bit ECC error'',
     ''Function map RAM single bit ECC error'',
     ''Descriptor engine hardware context RAM single bit ECC error'',
     ''Descriptor engine receive credit context RAM single bit ECC error'',
     ''Descriptor engine software context RAM single bit ECC error'',
     ''Descriptor engine fetch completion information RAM single bit ECC error'',
     ''Descriptor engine fetch completion data RAM single bit ECC error'',
     ''PASID CTXT RAM single bit ECC error'',
     ''Timer fifo RAM single bit ECC error'',
     ''Payload fifo RAM single bit ECC error'',
     ''C2H ST QID FIFO RAM single bit ECC error'',
     ''Writeback Coalescing RAM single bit ECC error'',
     ''QID2VEC RAM single bit ECC error'',
     ''Interrupt context RAM single bit ECC error'',
     ''C2H ST descriptor request RAM single bit ECC error'',
     ''C2H ST prefetch RAM single bit ECC error'',
     ''C2H ST completion context RAM single bit ECC error'',
     ''C2H ST prefetch list RAM single bit ECC error'',
     ''All DBE errors'']"

definition qdma_cpm4_errs :: "'d err_variant" where
  "qdma_cpm4_errs =
     \<lparr>ev_info = qdma_cpm4_err_info, ev_all = all_qdma_cpm4_hw_errs, ev_position = qdma_cpm4_hw_err_position,
      ev_st_position = [20, 34, 50], ev_st_all = [33, 49, 55],
      ev_attributes = qdma_cpm4_get_device_attributes, ev_handler = qdma_cpm4_hw_err_handler\<rparr>"

definition qdma_cpm4_hw_error_process :: "'d mmio \<Rightarrow> 'd xdev option \<Rightarrow> int \<times> nat list \<times> 'd xdev option" where
  "qdma_cpm4_hw_error_process = hw_error_process qdma_cpm4_errs"

definition qdma_cpm4_hw_error_enable :: "'d mmio \<Rightarrow> 'd xdev option \<Rightarrow> u32 \<Rightarrow> int \<times> 'd xdev option" where
  "qdma_cpm4_hw_error_enable = hw_error_enable qdma_cpm4_errs"

definition qdma_cpm4_hw_get_error_name :: "u32 \<Rightarrow> string option" where
  "qdma_cpm4_hw_get_error_name = hw_get_error_name qdma_cpm4_err_names"

end
