(* ===== verification/AccessInit.thy ===== *)
theory AccessInit
  imports DefaultCsrProps ErrTables
begin

text \<open>
  The rest of qdma_access_common.c: finding the configuration BAR, reading the version of the
  device, qdma_hw_access_init, which fills the table of access functions for the variant
  found, and the functions that all variants share (function level reset, the error interrupt, the
  function number). The table here extends the members of AccessTable with all the
  others, except those that only format text. Build options are taken as off.
\<close>

section \<open>Version\<close>

datatype qdma_ip = QDMA_OR_VERSAL_IP | EQDMA_IP | EQDMA_CPM5_IP

datatype qdma_rtl_version = QDMA_RTL_BASE | QDMA_RTL_PATCH | QDMA_RTL_NONE

datatype qdma_vivado_release_id =
    QDMA_VIVADO_2018_3 | QDMA_VIVADO_2019_1 | QDMA_VIVADO_2019_2 | QDMA_VIVADO_2020_1
  | QDMA_VIVADO_2020_2 | QDMA_VIVADO_2021_1 | QDMA_VIVADO_2022_1 | QDMA_VIVADO_NONE

datatype qdma_ip_type =
    QDMA_VERSAL_HARD_IP | QDMA_VERSAL_SOFT_IP | QDMA_SOFT_IP | EQDMA_SOFT_IP | QDMA_NONE_IP

datatype qdma_device_type =
    QDMA_DEVICE_SOFT | QDMA_DEVICE_VERSAL_CPM4 | QDMA_DEVICE_VERSAL_CPM5 | QDMA_DEVICE_NONE

record qdma_hw_version_info =
  vi_rtl_version :: qdma_rtl_version
  vi_vivado_release :: qdma_vivado_release_id
  vi_ip_type :: qdma_ip_type
  vi_device_type :: qdma_device_type
  vi_rtl_version_str :: string
  vi_vivado_release_id_str :: string
  vi_device_type_str :: string
  vi_ip_type_str :: string

primrec qdma_get_rtl_version :: "qdma_rtl_version \<Rightarrow> string option" where
  "qdma_get_rtl_version QDMA_RTL_PATCH = Some ''RTL Patch''"
| "qdma_get_rtl_version QDMA_RTL_BASE = Some ''RTL Base''"
| "qdma_get_rtl_version QDMA_RTL_NONE = None"

text \<open>eqdma_get_ip_version does not fail for a device that is not null.\<close>

definition eqdma_get_ip_version :: "'d mmio \<Rightarrow> 'd xdev option \<Rightarrow> u8 \<Rightarrow> u32 \<Rightarrow> int \<times> u32 \<times> 'd xdev option" where
  "eqdma_get_ip_version io dev is_vf ip_version =
     (case dev of
        None \<Rightarrow> (neg_err QDMA_ERR_INV_PARAM, ip_version, None)
      | Some d \<Rightarrow> let (v, d) = eqdma_read_ip_version io is_vf d in (err_code QDMA_SUCCESS, v, Some d))"

definition qdma_get_ip_type :: "'d mmio \<Rightarrow> 'd xdev \<Rightarrow> u8 \<Rightarrow> qdma_ip_type \<Rightarrow> string option \<times> 'd xdev" where
  "qdma_get_ip_type io d is_vf ip_type =
     (case ip_type of
        QDMA_VERSAL_HARD_IP \<Rightarrow> (Some ''Versal Hard IP'', d)
      | QDMA_VERSAL_SOFT_IP \<Rightarrow> (Some ''Versal Soft IP'', d)
      | QDMA_SOFT_IP \<Rightarrow> (Some ''QDMA Soft IP'', d)
      | EQDMA_SOFT_IP \<Rightarrow>
          let (ip_version, d) = eqdma_read_ip_version io is_vf d
          in if ip_version = EQDMA_IP_VERSION_4 then (Some ''EQDMA4.0 Soft IP'', d)
             else if ip_version = EQDMA_IP_VERSION_5 then (Some ''EQDMA5.0 Soft IP'', d)
             else (None, d)
      | QDMA_NONE_IP \<Rightarrow> (None, d))"

primrec qdma_get_device_type :: "qdma_device_type \<Rightarrow> string option" where
  "qdma_get_device_type QDMA_DEVICE_SOFT = Some ''Soft IP''"
| "qdma_get_device_type QDMA_DEVICE_VERSAL_CPM4 = Some ''Versal CPM4 Hard IP''"
| "qdma_get_device_type QDMA_DEVICE_VERSAL_CPM5 = Some ''Versal Hard CPM5''"
| "qdma_get_device_type QDMA_DEVICE_NONE = None"

primrec qdma_get_vivado_release_id :: "qdma_vivado_release_id \<Rightarrow> string option" where
  "qdma_get_vivado_release_id QDMA_VIVADO_2018_3 = Some ''vivado 2018.3''"
| "qdma_get_vivado_release_id QDMA_VIVADO_2019_1 = Some ''vivado 2019.1''"
| "qdma_get_vivado_release_id QDMA_VIVADO_2019_2 = Some ''vivado 2019.2''"
| "qdma_get_vivado_release_id QDMA_VIVADO_2020_1 = Some ''vivado 2020.1''"
| "qdma_get_vivado_release_id QDMA_VIVADO_2020_2 = Some ''vivado 2020.2''"
| "qdma_get_vivado_release_id QDMA_VIVADO_2021_1 = Some ''vivado 2021.1''"
| "qdma_get_vivado_release_id QDMA_VIVADO_2022_1 = Some ''vivado 2022.1''"
| "qdma_get_vivado_release_id QDMA_VIVADO_NONE = None"

text \<open>qdma_strncpy of a string that is not null into a buffer of QDMA_HW_VERSION_STRING_LEN = 32
  characters; all strings are shorter.\<close>

definition copy_str :: "string option \<Rightarrow> string \<Rightarrow> string" where
  "copy_str version_str dest = (case version_str of None \<Rightarrow> dest | Some s \<Rightarrow> take 32 s)"

abbreviation QDMA_GLBL2_DEVICE_ID_MASK :: u32 where "QDMA_GLBL2_DEVICE_ID_MASK \<equiv> GENMASK 31 28"
abbreviation QDMA_GLBL2_VIVADO_RELEASE_MASK :: u32 where "QDMA_GLBL2_VIVADO_RELEASE_MASK \<equiv> GENMASK 27 24"
abbreviation QDMA_GLBL2_VERSAL_IP_MASK :: u32 where "QDMA_GLBL2_VERSAL_IP_MASK \<equiv> GENMASK 23 20"
abbreviation QDMA_GLBL2_RTL_VERSION_MASK :: u32 where "QDMA_GLBL2_RTL_VERSION_MASK \<equiv> GENMASK 19 16"
abbreviation QDMA_GLBL2_VF_UNIQUE_ID_MASK :: u32 where "QDMA_GLBL2_VF_UNIQUE_ID_MASK \<equiv> GENMASK 31 16"
abbreviation QDMA_GLBL2_VF_DEVICE_ID_MASK :: u32 where "QDMA_GLBL2_VF_DEVICE_ID_MASK \<equiv> GENMASK 15 12"
abbreviation QDMA_GLBL2_VF_VIVADO_RELEASE_MASK :: u32 where "QDMA_GLBL2_VF_VIVADO_RELEASE_MASK \<equiv> GENMASK 11 8"
abbreviation QDMA_GLBL2_VF_VERSAL_IP_MASK :: u32 where "QDMA_GLBL2_VF_VERSAL_IP_MASK \<equiv> GENMASK 7 4"
abbreviation QDMA_GLBL2_VF_RTL_VERSION_MASK :: u32 where "QDMA_GLBL2_VF_RTL_VERSION_MASK \<equiv> GENMASK 3 0"
abbreviation QDMA_CONFIG_BLOCK_ID_MASK :: u32 where "QDMA_CONFIG_BLOCK_ID_MASK \<equiv> GENMASK 31 16"
abbreviation QDMA_MAGIC_NUMBER :: u32 where "QDMA_MAGIC_NUMBER \<equiv> 0x1fd3"

text \<open>The numbers of the version register to the values of the enumerations.\<close>

definition rtl_version_of :: "u32 \<Rightarrow> qdma_rtl_version" where
  "rtl_version_of n = (if n = 0 then QDMA_RTL_BASE else if n = 1 then QDMA_RTL_PATCH else QDMA_RTL_NONE)"

definition device_type_of :: "u32 \<Rightarrow> qdma_device_type" where
  "device_type_of n =
     (if n = 0 then QDMA_DEVICE_SOFT else if n = 1 then QDMA_DEVICE_VERSAL_CPM4
      else if n = 2 then QDMA_DEVICE_VERSAL_CPM5 else QDMA_DEVICE_NONE)"

definition ip_type_of :: "qdma_device_type \<Rightarrow> u32 \<Rightarrow> qdma_ip_type" where
  "ip_type_of device_type n =
     (if device_type = QDMA_DEVICE_SOFT
      then (if n = 0 then QDMA_SOFT_IP else if n = 1 \<or> n = 2 then EQDMA_SOFT_IP else QDMA_NONE_IP)
      else (if n = 0 then QDMA_VERSAL_HARD_IP else if n = 1 then QDMA_VERSAL_SOFT_IP else QDMA_NONE_IP))"

definition vivado_release_of :: "qdma_device_type \<Rightarrow> qdma_ip_type \<Rightarrow> u32 \<Rightarrow> qdma_vivado_release_id" where
  "vivado_release_of device_type ip_type n =
     (if ip_type = QDMA_SOFT_IP then
        (if n = 0 then QDMA_VIVADO_2018_3 else if n = 1 then QDMA_VIVADO_2019_1
         else if n = 2 then QDMA_VIVADO_2019_2 else QDMA_VIVADO_NONE)
      else if ip_type = EQDMA_SOFT_IP then
        (if n = 0 then QDMA_VIVADO_2020_1 else if n = 1 then QDMA_VIVADO_2020_2
         else if n = 2 then QDMA_VIVADO_2022_1 else QDMA_VIVADO_NONE)
      else if device_type = QDMA_DEVICE_VERSAL_CPM5 then
        (if n = 0 then QDMA_VIVADO_2021_1 else if n = 1 then QDMA_VIVADO_2022_1 else QDMA_VIVADO_NONE)
      else (if n = 0 then QDMA_VIVADO_2019_2 else QDMA_VIVADO_NONE))"

definition qdma_fetch_version_details ::
  "'d mmio \<Rightarrow> 'd xdev \<Rightarrow> u8 \<Rightarrow> u32 \<Rightarrow> qdma_hw_version_info \<Rightarrow> qdma_hw_version_info \<times> 'd xdev" where
  "qdma_fetch_version_details io d is_vf version_reg_val version_info =
     (let (rtl_version, vivado_release_id, device_type, ip_type) =
        (if is_vf = 0 then
           (FIELD_GET QDMA_GLBL2_RTL_VERSION_MASK version_reg_val,
            FIELD_GET QDMA_GLBL2_VIVADO_RELEASE_MASK version_reg_val,
            FIELD_GET QDMA_GLBL2_DEVICE_ID_MASK version_reg_val,
            FIELD_GET QDMA_GLBL2_VERSAL_IP_MASK version_reg_val)
         else
           (FIELD_GET QDMA_GLBL2_VF_RTL_VERSION_MASK version_reg_val,
            FIELD_GET QDMA_GLBL2_VF_VIVADO_RELEASE_MASK version_reg_val,
            FIELD_GET QDMA_GLBL2_VF_DEVICE_ID_MASK version_reg_val,
            FIELD_GET QDMA_GLBL2_VF_VERSAL_IP_MASK version_reg_val));
        rtl = rtl_version_of rtl_version;
        device = device_type_of device_type;
        ip = ip_type_of device ip_type;
        (ip_str, d) = qdma_get_ip_type io d is_vf ip;
        release = vivado_release_of device ip vivado_release_id
      in (\<lparr>vi_rtl_version = rtl, vi_vivado_release = release, vi_ip_type = ip, vi_device_type = device,
           vi_rtl_version_str = copy_str (qdma_get_rtl_version rtl) (vi_rtl_version_str version_info),
           vi_vivado_release_id_str =
             copy_str (qdma_get_vivado_release_id release) (vi_vivado_release_id_str version_info),
           vi_device_type_str = copy_str (qdma_get_device_type device) (vi_device_type_str version_info),
           vi_ip_type_str = copy_str ip_str (vi_ip_type_str version_info)\<rparr>, d))"

definition get_version ::
  "u32 \<Rightarrow> 'd mmio \<Rightarrow> 'd xdev option \<Rightarrow> u8 \<Rightarrow> qdma_hw_version_info \<Rightarrow>
   int \<times> qdma_hw_version_info \<times> 'd xdev option" where
  "get_version vf_version io dev is_vf version_info =
     (case dev of
        None \<Rightarrow> (neg_err QDMA_ERR_INV_PARAM, version_info, None)
      | Some d \<Rightarrow>
          let (reg_val, d) = qdma_reg_read io d (if is_vf \<noteq> 0 then vf_version else GLBL2_MISC_CAP_ADDR);
              (version_info, d) = qdma_fetch_version_details io d is_vf reg_val version_info
          in (err_code QDMA_SUCCESS, version_info, Some d))"

abbreviation QDMA_OFFSET_VF_VERSION :: u32 where "QDMA_OFFSET_VF_VERSION \<equiv> 0x1014"
abbreviation EQDMA_CPM5_OFFSET_VF_VERSION :: u32 where "EQDMA_CPM5_OFFSET_VF_VERSION \<equiv> 0x5014"

definition qdma_get_version ::
  "'d mmio \<Rightarrow> 'd xdev option \<Rightarrow> u8 \<Rightarrow> qdma_hw_version_info \<Rightarrow> int \<times> qdma_hw_version_info \<times> 'd xdev option" where
  "qdma_get_version = get_version QDMA_OFFSET_VF_VERSION"

definition eqdma_get_version ::
  "'d mmio \<Rightarrow> 'd xdev option \<Rightarrow> u8 \<Rightarrow> qdma_hw_version_info \<Rightarrow> int \<times> qdma_hw_version_info \<times> 'd xdev option" where
  "eqdma_get_version = get_version EQDMA_OFFSET_VF_VERSION"

definition eqdma_cpm5_get_version ::
  "'d mmio \<Rightarrow> 'd xdev option \<Rightarrow> u8 \<Rightarrow> qdma_hw_version_info \<Rightarrow> int \<times> qdma_hw_version_info \<times> 'd xdev option" where
  "eqdma_cpm5_get_version = get_version EQDMA_CPM5_OFFSET_VF_VERSION"

section \<open>The configuration BAR\<close>

text \<open>
  The register at the start of the BAR carries the magic number. A VF reads its version
  register instead, first where the soft IP and CPM4 have it, then where the enhanced soft IP has
  it; the variant it finds this way is returned in ip, which a PF leaves as it was.
\<close>

definition qdma_is_config_bar :: "'d mmio \<Rightarrow> 'd xdev option \<Rightarrow> u8 \<Rightarrow> qdma_ip \<Rightarrow> int \<times> qdma_ip \<times> 'd xdev option" where
  "qdma_is_config_bar io dev is_vf ip =
     (case dev of
        None \<Rightarrow> (neg_err QDMA_ERR_INV_PARAM, ip, None)
      | Some d \<Rightarrow>
          let reg_addr = (if is_vf \<noteq> 0 then QDMA_OFFSET_VF_VERSION else 0);
              (reg_val, d) = qdma_reg_read io d reg_addr
          in if is_vf \<noteq> 0 \<and> FIELD_GET QDMA_GLBL2_VF_UNIQUE_ID_MASK reg_val = QDMA_MAGIC_NUMBER
             then (err_code QDMA_SUCCESS, QDMA_OR_VERSAL_IP, Some d)
             else let (ip, reg_val, d) =
                        (if is_vf \<noteq> 0
                         then let (reg_val, d) = qdma_reg_read io d EQDMA_OFFSET_VF_VERSION
                              in (EQDMA_IP, reg_val, d)
                         else (ip, reg_val, d))
                  in if FIELD_GET QDMA_CONFIG_BLOCK_ID_MASK reg_val \<noteq> QDMA_MAGIC_NUMBER
                     then (neg_err QDMA_ERR_HWACC_INV_CONFIG_BAR, ip, Some d)
                     else (err_code QDMA_SUCCESS, ip, Some d))"

section \<open>Function level reset\<close>

definition flr_status_addr :: "u8 \<Rightarrow> u32" where
  "flr_status_addr is_vf = (if is_vf \<noteq> 0 then 0x1100 else 0x2500)"

definition qdma_initiate_flr :: "'d mmio \<Rightarrow> 'd xdev option \<Rightarrow> u8 \<Rightarrow> int \<times> 'd xdev option" where
  "qdma_initiate_flr io dev is_vf =
     (case dev of
        None \<Rightarrow> (neg_err QDMA_ERR_INV_PARAM, None)
      | Some d \<Rightarrow> (err_code QDMA_SUCCESS, Some (qdma_reg_write io d (flr_status_addr is_vf) 1)))"

definition qdma_is_flr_done ::
  "'d mmio \<Rightarrow> 'd xdev option \<Rightarrow> u8 \<Rightarrow> u8 option \<Rightarrow> int \<times> u8 option \<times> 'd xdev option" where
  "qdma_is_flr_done io dev is_vf done_flag =
     (case dev of
        None \<Rightarrow> (neg_err QDMA_ERR_INV_PARAM, done_flag, None)
      | Some d \<Rightarrow>
          (case done_flag of
             None \<Rightarrow> (neg_err QDMA_ERR_INV_PARAM, None, Some d)
           | Some _ \<Rightarrow>
               let (rv, d) = hw_monitor_reg io d (flr_status_addr is_vf) 0x1 0
                               (5 * QDMA_REG_POLL_DFLT_INTERVAL_US) QDMA_REG_POLL_DFLT_TIMEOUT_US
               in (err_code QDMA_SUCCESS, Some (if rv < 0 then 0 else 1), Some d)))"

section \<open>Function number and error interrupt\<close>

definition qdma_get_function_number ::
  "'d mmio \<Rightarrow> 'd xdev option \<Rightarrow> u16 option \<Rightarrow> int \<times> u16 option \<times> 'd xdev option" where
  "qdma_get_function_number io dev func_id =
     (case (dev, func_id) of
        (Some d, Some _) \<Rightarrow>
          let (v, d) = qdma_reg_read io d 0x12C
          in (err_code QDMA_SUCCESS, Some (ucast (ucast v :: u8)), Some d)
      | _ \<Rightarrow> (neg_err QDMA_ERR_INV_PARAM, func_id, dev))"

abbreviation QDMA_OFFSET_GLBL_ERR_INT :: u32 where "QDMA_OFFSET_GLBL_ERR_INT \<equiv> 0xB04"

definition qdma_hw_error_intr_setup ::
  "'d mmio \<Rightarrow> 'd xdev option \<Rightarrow> u16 \<Rightarrow> u8 \<Rightarrow> int \<times> 'd xdev option" where
  "qdma_hw_error_intr_setup io dev func_id err_intr_index =
     (case dev of
        None \<Rightarrow> (neg_err QDMA_ERR_INV_PARAM, None)
      | Some d \<Rightarrow>
          (err_code QDMA_SUCCESS,
           Some (qdma_reg_write io d QDMA_OFFSET_GLBL_ERR_INT
             (FIELD_SET (GENMASK 7 0) (ucast func_id) OR FIELD_SET (GENMASK 22 12) (ucast err_intr_index)))))"

definition qdma_hw_error_intr_rearm :: "'d mmio \<Rightarrow> 'd xdev option \<Rightarrow> int \<times> 'd xdev option" where
  "qdma_hw_error_intr_rearm io dev =
     (case dev of
        None \<Rightarrow> (neg_err QDMA_ERR_INV_PARAM, None)
      | Some d \<Rightarrow>
          let (reg_val, d) = qdma_reg_read io d QDMA_OFFSET_GLBL_ERR_INT
          in (err_code QDMA_SUCCESS,
              Some (qdma_reg_write io d QDMA_OFFSET_GLBL_ERR_INT (reg_val OR FIELD_SET (BIT 24) 1))))"

section \<open>Error codes of the platform\<close>

datatype errno = EINVAL | ENOMEM | EBUSY | EPERM | EIO | NO_ERRNO

primrec errno_code :: "errno \<Rightarrow> int" where
  "errno_code EINVAL = 22"
| "errno_code ENOMEM = 12"
| "errno_code EBUSY = 16"
| "errno_code EPERM = 1"
| "errno_code EIO = 5"
| "errno_code NO_ERRNO = 0"

definition error_code_map_list :: "(qdma_access_error \<times> errno) list" where
  "error_code_map_list =
     [(QDMA_SUCCESS, NO_ERRNO),
      (QDMA_ERR_INV_PARAM, EINVAL),
      (QDMA_ERR_NO_MEM, ENOMEM),
      (QDMA_ERR_HWACC_BUSY_TIMEOUT, EBUSY),
      (QDMA_ERR_HWACC_INV_CONFIG_BAR, EINVAL),
      (QDMA_ERR_HWACC_NO_PEND_LEGCY_INTR, EINVAL),
      (QDMA_ERR_HWACC_BAR_NOT_FOUND, EINVAL),
      (QDMA_ERR_HWACC_FEATURE_NOT_SUPPORTED, EINVAL),
      (QDMA_ERR_RM_RES_EXISTS, EPERM),
      (QDMA_ERR_RM_RES_NOT_EXISTS, EINVAL),
      (QDMA_ERR_RM_DEV_EXISTS, EPERM),
      (QDMA_ERR_RM_DEV_NOT_EXISTS, EINVAL),
      (QDMA_ERR_RM_NO_QUEUES_LEFT, EPERM),
      (QDMA_ERR_RM_QMAX_CONF_REJECTED, EPERM),
      (QDMA_ERR_MBOX_FMAP_WR_FAILED, EIO),
      (QDMA_ERR_MBOX_NUM_QUEUES, EINVAL),
      (QDMA_ERR_MBOX_INV_QID, EINVAL),
      (QDMA_ERR_MBOX_INV_RINGSZ, EINVAL),
      (QDMA_ERR_MBOX_INV_BUFSZ, EINVAL),
      (QDMA_ERR_MBOX_INV_CNTR_TH, EINVAL),
      (QDMA_ERR_MBOX_INV_TMR_TH, EINVAL),
      (QDMA_ERR_MBOX_INV_MSG, EINVAL),
      (QDMA_ERR_MBOX_SEND_BUSY, EBUSY),
      (QDMA_ERR_MBOX_NO_MSG_IN, EINVAL),
      (QDMA_ERR_MBOX_REG_READ_FAILED, EIO),
      (QDMA_ERR_MBOX_ALL_ZERO_MSG, EINVAL)]"

text \<open>The table is indexed without a check: outside it the result is undefined (None).\<close>

definition qdma_get_err_code :: "int \<Rightarrow> int option" where
  "qdma_get_err_code acc_err_code =
     (let i = acc_err_code * -1
      in if 0 \<le> i \<and> nat i < length error_code_map_list
         then Some (- errno_code (snd (error_code_map_list ! nat i)))
         else None)"

definition qdma_get_error_code :: "int \<Rightarrow> int option" where
  "qdma_get_error_code acc_err_code = qdma_get_err_code acc_err_code"

lemma error_code_map_indexed:
  "nat (err_code e) < length error_code_map_list \<and> fst (error_code_map_list ! nat (err_code e)) = e"
  by (cases e) (simp_all add: error_code_map_list_def)

lemma error_code_defined: "\<exists>r. qdma_get_error_code (neg_err e) = Some r \<and> r \<le> 0 \<and> (r = 0 \<longleftrightarrow> e = QDMA_SUCCESS)"
  by (cases e) (simp_all add: qdma_get_error_code_def qdma_get_err_code_def error_code_map_list_def)

section \<open>The table of access functions\<close>

text \<open>
  A member that is not always set is an option. qdma_qid2vec_conf exists for CPM4 only, the
  legacy interrupt for all but CPM4.
\<close>

record 'd qdma_hw_access_full = "'d qdma_hw_access" +
  ha_get_version :: "'d xdev option \<Rightarrow> u8 \<Rightarrow> qdma_hw_version_info \<Rightarrow> int \<times> qdma_hw_version_info \<times> 'd xdev option"
  ha_init_ctxt_memory :: "'d xdev option \<Rightarrow> int \<times> 'd xdev option"
  ha_qid2vec_conf :: "('d xdev option \<Rightarrow> u8 \<Rightarrow> u16 \<Rightarrow> qdma_qid2vec option \<Rightarrow> qdma_hw_access_type \<Rightarrow>
    int \<times> qdma_qid2vec option \<times> 'd xdev option) option"
  ha_set_default_global_csr :: "'d xdev option \<Rightarrow> int \<times> 'd xdev option"
  ha_global_writeback_interval_conf :: "'d xdev option \<Rightarrow> u32 option \<Rightarrow> qdma_hw_access_type \<Rightarrow>
    int \<times> u32 option \<times> 'd xdev option"
  ha_queue_pidx_update :: "'d xdev option \<Rightarrow> u8 \<Rightarrow> u16 \<Rightarrow> u8 \<Rightarrow> qdma_q_pidx_reg_info option \<Rightarrow> int \<times> 'd xdev option"
  ha_queue_cmpt_cidx_read :: "'d xdev option \<Rightarrow> u8 \<Rightarrow> u16 \<Rightarrow> qdma_q_cmpt_cidx_reg_info option \<Rightarrow>
    int \<times> qdma_q_cmpt_cidx_reg_info option \<times> 'd xdev option"
  ha_queue_cmpt_cidx_update :: "'d xdev option \<Rightarrow> u8 \<Rightarrow> u16 \<Rightarrow> qdma_q_cmpt_cidx_reg_info option \<Rightarrow> int \<times> 'd xdev option"
  ha_queue_intr_cidx_update :: "'d xdev option \<Rightarrow> u8 \<Rightarrow> u16 \<Rightarrow> qdma_intr_cidx_reg_info option \<Rightarrow> int \<times> 'd xdev option"
  ha_mm_channel_conf :: "'d xdev option \<Rightarrow> u8 \<Rightarrow> u8 \<Rightarrow> u8 \<Rightarrow> int \<times> 'd xdev option"
  ha_get_user_bar :: "'d xdev option \<Rightarrow> u8 \<Rightarrow> u16 \<Rightarrow> u8 option \<Rightarrow> int \<times> u8 option \<times> 'd xdev option"
  ha_get_function_number :: "'d xdev option \<Rightarrow> u16 option \<Rightarrow> int \<times> u16 option \<times> 'd xdev option"
  ha_hw_error_intr_setup :: "'d xdev option \<Rightarrow> u16 \<Rightarrow> u8 \<Rightarrow> int \<times> 'd xdev option"
  ha_hw_error_intr_rearm :: "'d xdev option \<Rightarrow> int \<times> 'd xdev option"
  ha_hw_error_enable :: "'d xdev option \<Rightarrow> u32 \<Rightarrow> int \<times> 'd xdev option"
  ha_hw_get_error_name :: "u32 \<Rightarrow> string option"
  ha_hw_error_process :: "'d xdev option \<Rightarrow> int \<times> nat list \<times> 'd xdev option"
  ha_is_legacy_intr_pend :: "'d xdev option \<Rightarrow> int \<times> 'd xdev option"
  ha_clear_pend_legacy_intr :: "'d xdev option \<Rightarrow> int \<times> 'd xdev option"
  ha_legacy_intr_conf :: "('d xdev option \<Rightarrow> bool \<Rightarrow> int \<times> 'd xdev option) option"
  ha_initiate_flr :: "'d xdev option \<Rightarrow> u8 \<Rightarrow> int \<times> 'd xdev option"
  ha_is_flr_done :: "'d xdev option \<Rightarrow> u8 \<Rightarrow> u8 option \<Rightarrow> int \<times> u8 option \<times> 'd xdev option"
  ha_get_error_code :: "int \<Rightarrow> int option"
  ha_max_errors :: nat

text \<open>The table as it is first filled, for every variant.\<close>

definition common_hw_access :: "'d mmio \<Rightarrow> qdma_ip \<Rightarrow> 'd qdma_hw_access_full" where
  "common_hw_access io ip = qdma_hw_access.extend (soft_hw_access io)
     \<lparr>ha_get_version =
        (if ip = EQDMA_IP then eqdma_get_version io
         else if ip = EQDMA_CPM5_IP then eqdma_cpm5_get_version io
         else qdma_get_version io),
      ha_init_ctxt_memory = qdma_init_ctxt_memory io,
      ha_qid2vec_conf = None,
      ha_set_default_global_csr = qdma_set_default_global_csr io,
      ha_global_writeback_interval_conf = qdma_global_writeback_interval_conf io,
      ha_queue_pidx_update = qdma_queue_pidx_update io,
      ha_queue_cmpt_cidx_read = qdma_queue_cmpt_cidx_read io,
      ha_queue_cmpt_cidx_update = qdma_queue_cmpt_cidx_update io,
      ha_queue_intr_cidx_update = qdma_queue_intr_cidx_update io,
      ha_mm_channel_conf = qdma_mm_channel_conf io,
      ha_get_user_bar = qdma_get_user_bar io,
      ha_get_function_number = qdma_get_function_number io,
      ha_hw_error_intr_setup = qdma_hw_error_intr_setup io,
      ha_hw_error_intr_rearm = qdma_hw_error_intr_rearm io,
      ha_hw_error_enable = qdma_hw_error_enable io,
      ha_hw_get_error_name = qdma_hw_get_error_name,
      ha_hw_error_process = qdma_hw_error_process io,
      ha_is_legacy_intr_pend = qdma_is_legacy_intr_pend io,
      ha_clear_pend_legacy_intr = qdma_clear_pend_legacy_intr io,
      ha_legacy_intr_conf = Some (qdma_legacy_intr_conf io),
      ha_initiate_flr = qdma_initiate_flr io,
      ha_is_flr_done = qdma_is_flr_done io,
      ha_get_error_code = qdma_get_error_code,
      ha_max_errors = length qdma_err_names\<rparr>"

text \<open>What is replaced for each of the other variants.\<close>

definition replace_cpm4 :: "'d mmio \<Rightarrow> 'd qdma_hw_access_full \<Rightarrow> 'd qdma_hw_access_full" where
  "replace_cpm4 io t = t
     \<lparr>ha_init_ctxt_memory := qdma_cpm4_init_ctxt_memory io,
      ha_qid2vec_conf := Some (qdma_cpm4_qid2vec_conf io),
      ha_fmap_conf := qdma_cpm4_fmap_conf io,
      ha_sw_ctx_conf := qdma_cpm4_sw_ctx_conf io,
      ha_pfetch_ctx_conf := qdma_cpm4_pfetch_ctx_conf io,
      ha_cmpt_ctx_conf := qdma_cpm4_cmpt_ctx_conf io,
      ha_hw_ctx_conf := qdma_cpm4_hw_ctx_conf io,
      ha_credit_ctx_conf := qdma_cpm4_credit_ctx_conf io,
      ha_indirect_intr_ctx_conf := qdma_cpm4_indirect_intr_ctx_conf io,
      ha_set_default_global_csr := qdma_cpm4_set_default_global_csr io,
      ha_queue_pidx_update := qdma_cpm4_queue_pidx_update io,
      ha_queue_cmpt_cidx_update := qdma_cpm4_queue_cmpt_cidx_update io,
      ha_queue_intr_cidx_update := qdma_cpm4_queue_intr_cidx_update io,
      ha_get_user_bar := qdma_cmp_get_user_bar io,
      ha_get_device_attributes := qdma_cpm4_get_device_attributes io,
      ha_hw_error_enable := qdma_cpm4_hw_error_enable io,
      ha_hw_error_process := qdma_cpm4_hw_error_process io,
      ha_hw_get_error_name := qdma_cpm4_hw_get_error_name,
      ha_legacy_intr_conf := None,
      ha_read_reg_list := qdma_cpm4_read_reg_list io,
      ha_max_errors := length qdma_cpm4_err_names\<rparr>"

definition replace_cpm5 :: "'d mmio \<Rightarrow> 'd qdma_hw_access_full \<Rightarrow> 'd qdma_hw_access_full" where
  "replace_cpm5 io t = t
     \<lparr>ha_init_ctxt_memory := eqdma_cpm5_init_ctxt_memory io,
      ha_sw_ctx_conf := eqdma_cpm5_sw_ctx_conf io,
      ha_fmap_conf := eqdma_cpm5_fmap_conf io,
      ha_pfetch_ctx_conf := eqdma_cpm5_pfetch_ctx_conf io,
      ha_cmpt_ctx_conf := eqdma_cpm5_cmpt_ctx_conf io,
      ha_indirect_intr_ctx_conf := eqdma_cpm5_indirect_intr_ctx_conf io,
      ha_hw_error_enable := eqdma_cpm5_hw_error_enable io,
      ha_hw_error_process := eqdma_cpm5_hw_error_process io,
      ha_hw_get_error_name := eqdma_cpm5_hw_get_error_name,
      ha_hw_ctx_conf := eqdma_cpm5_hw_ctx_conf io,
      ha_credit_ctx_conf := eqdma_cpm5_credit_ctx_conf io,
      ha_set_default_global_csr := eqdma_cpm5_set_default_global_csr io,
      ha_get_device_attributes := eqdma_cpm5_get_device_attributes io,
      ha_get_user_bar := eqdma_cpm5_get_user_bar io,
      ha_read_reg_list := eqdma_cpm5_read_reg_list io,
      ha_mbox_base_pf := 0x42400,
      ha_mbox_base_vf := 0x5000,
      ha_max_errors := length eqdma_cpm5_err_names\<rparr>"

definition replace_eqdma :: "'d mmio \<Rightarrow> 'd qdma_hw_access_full \<Rightarrow> 'd qdma_hw_access_full" where
  "replace_eqdma io t = t
     \<lparr>ha_init_ctxt_memory := eqdma_init_ctxt_memory io,
      ha_sw_ctx_conf := eqdma_sw_ctx_conf io,
      ha_fmap_conf := eqdma_fmap_conf io,
      ha_pfetch_ctx_conf := eqdma_pfetch_ctx_conf io,
      ha_cmpt_ctx_conf := eqdma_cmpt_ctx_conf io,
      ha_indirect_intr_ctx_conf := eqdma_indirect_intr_ctx_conf io,
      ha_hw_error_enable := eqdma_hw_error_enable io,
      ha_hw_error_process := eqdma_hw_error_process io,
      ha_hw_get_error_name := eqdma_hw_get_error_name,
      ha_hw_ctx_conf := eqdma_hw_ctx_conf io,
      ha_credit_ctx_conf := eqdma_credit_ctx_conf io,
      ha_set_default_global_csr := eqdma_set_default_global_csr io,
      ha_get_device_attributes := eqdma_get_device_attributes io,
      ha_get_user_bar := eqdma_get_user_bar io,
      ha_read_reg_list := eqdma_read_reg_list io,
      ha_mbox_base_pf := 0x22400,
      ha_mbox_base_vf := 0x5000,
      ha_max_errors := length eqdma_err_names\<rparr>"

text \<open>
  The version information is a local variable that is not initialised: its first contents are a
  parameter. Printing the type of the IP reads the version of the enhanced soft IP again.
\<close>

definition qdma_hw_access_init ::
  "'d mmio \<Rightarrow> qdma_hw_version_info \<Rightarrow> 'd xdev option \<Rightarrow> u8 \<Rightarrow> 'd qdma_hw_access_full option \<Rightarrow>
   int \<times> 'd qdma_hw_access_full option \<times> 'd xdev option" where
  "qdma_hw_access_init io junk dev is_vf hw_access =
     (if dev = None \<or> hw_access = None then (neg_err QDMA_ERR_INV_PARAM, hw_access, dev)
      else let (rv, ip, dev) = qdma_is_config_bar io dev is_vf EQDMA_IP
      in if rv \<noteq> err_code QDMA_SUCCESS then (rv, hw_access, dev)
      else let t = common_hw_access io ip;
               (rv, version_info, dev) = ha_get_version t dev is_vf junk
      in if rv \<noteq> err_code QDMA_SUCCESS then (rv, Some t, dev)
      else let dev = map_option (\<lambda>d. snd (qdma_get_ip_type io d is_vf (vi_ip_type version_info))) dev;
               ip_type = vi_ip_type version_info;
               device_type = vi_device_type version_info;
               t = (if ip_type = QDMA_VERSAL_HARD_IP \<and> device_type = QDMA_DEVICE_VERSAL_CPM4
                    then replace_cpm4 io t else t);
               t = (if ip_type = QDMA_VERSAL_HARD_IP \<and> device_type = QDMA_DEVICE_VERSAL_CPM5
                    then replace_cpm5 io t else t);
               t = (if ip_type = EQDMA_SOFT_IP then replace_eqdma io t else t)
      in (err_code QDMA_SUCCESS, Some t, dev))"

section \<open>The variant that is chosen\<close>

lemma get_version_effect:
  assumes "qdma_reg_read io d (if is_vf \<noteq> 0 then a else GLBL2_MISC_CAP_ADDR) = (v, d2)"
  shows "\<exists>info d3. get_version a io (Some d) is_vf junk = (0, info, Some d3) \<and>
    vi_device_type info = device_type_of (if is_vf = 0 then FIELD_GET QDMA_GLBL2_DEVICE_ID_MASK v
      else FIELD_GET QDMA_GLBL2_VF_DEVICE_ID_MASK v) \<and>
    vi_ip_type info = ip_type_of (vi_device_type info) (if is_vf = 0 then FIELD_GET QDMA_GLBL2_VERSAL_IP_MASK v
      else FIELD_GET QDMA_GLBL2_VF_VERSAL_IP_MASK v)"
  using assms by (auto simp: get_version_def qdma_fetch_version_details_def Let_def split: prod.splits)

lemma get_version_ok: "\<exists>info d'. get_version a io (Some d) is_vf junk = (0, info, Some d')"
  by (simp add: get_version_def split: prod.split)

lemma common_get_version_ok: "\<exists>info d'. ha_get_version (common_hw_access io ip) (Some d) is_vf junk = (0, info, Some d')"
  by (simp add: common_hw_access_def qdma_hw_access.defs qdma_get_version_def eqdma_get_version_def
      eqdma_cpm5_get_version_def get_version_ok)

text \<open>The members of AccessTable for CPM4.\<close>

definition cpm4_hw_access :: "'d mmio \<Rightarrow> 'd qdma_hw_access" where
  "cpm4_hw_access io = (soft_hw_access io)
     \<lparr>ha_fmap_conf := qdma_cpm4_fmap_conf io,
      ha_sw_ctx_conf := qdma_cpm4_sw_ctx_conf io,
      ha_pfetch_ctx_conf := qdma_cpm4_pfetch_ctx_conf io,
      ha_cmpt_ctx_conf := qdma_cpm4_cmpt_ctx_conf io,
      ha_hw_ctx_conf := qdma_cpm4_hw_ctx_conf io,
      ha_credit_ctx_conf := qdma_cpm4_credit_ctx_conf io,
      ha_indirect_intr_ctx_conf := qdma_cpm4_indirect_intr_ctx_conf io,
      ha_get_device_attributes := qdma_cpm4_get_device_attributes io,
      ha_read_reg_list := qdma_cpm4_read_reg_list io\<rparr>"

lemmas table_parts = common_hw_access_def replace_cpm4_def replace_cpm5_def replace_eqdma_def
  cpm4_hw_access_def cpm5_hw_access_def eqdma_hw_access_def soft_hw_access_def qdma_hw_access.defs

lemmas error_name_defs = qdma_hw_get_error_name_def eqdma_hw_get_error_name_def
  eqdma_cpm5_hw_get_error_name_def qdma_cpm4_hw_get_error_name_def hw_get_error_name_def

lemma truncate_common: "qdma_hw_access.truncate (common_hw_access io ip) = soft_hw_access io"
  by (simp add: table_parts)

lemma truncate_cpm4: "qdma_hw_access.truncate (replace_cpm4 io (common_hw_access io ip)) = cpm4_hw_access io"
  by (simp add: table_parts)

lemma truncate_cpm5: "qdma_hw_access.truncate (replace_cpm5 io (common_hw_access io ip)) = cpm5_hw_access io"
  by (simp add: table_parts)

lemma truncate_eqdma: "qdma_hw_access.truncate (replace_eqdma io (common_hw_access io ip)) = eqdma_hw_access io"
  by (simp add: table_parts)

lemma qid2vec_members:
  "ha_qid2vec_conf (common_hw_access io ip) = None"
  "ha_qid2vec_conf (replace_cpm4 io t) = Some (qdma_cpm4_qid2vec_conf io)"
  "ha_qid2vec_conf (replace_cpm5 io t) = ha_qid2vec_conf t"
  "ha_qid2vec_conf (replace_eqdma io t) = ha_qid2vec_conf t"
  "ha_legacy_intr_conf (common_hw_access io ip) = Some (qdma_legacy_intr_conf io)"
  "ha_legacy_intr_conf (replace_cpm4 io t) = None"
  "ha_legacy_intr_conf (replace_cpm5 io t) = ha_legacy_intr_conf t"
  "ha_legacy_intr_conf (replace_eqdma io t) = ha_legacy_intr_conf t"
  by (simp_all add: table_parts)

definition names_all_errors :: "'d qdma_hw_access_full \<Rightarrow> bool" where
  "names_all_errors t \<longleftrightarrow> (\<forall>i. ha_hw_get_error_name t i = None \<longleftrightarrow> ha_max_errors t \<le> unat i)"

lemma table_names_errors:
  "names_all_errors (common_hw_access io ip)"
  "names_all_errors (replace_cpm4 io t)"
  "names_all_errors (replace_cpm5 io t)"
  "names_all_errors (replace_eqdma io t)"
  by (simp_all add: names_all_errors_def table_parts error_name_defs)

text \<open>The variant that the numbers of the device and of its IP stand for.\<close>

definition hw_access_of :: "'d mmio \<Rightarrow> u32 \<Rightarrow> u32 \<Rightarrow> 'd qdma_hw_access" where
  "hw_access_of io device ip =
     (if device = 0 \<and> (ip = 1 \<or> ip = 2) then eqdma_hw_access io
      else if device = 1 \<and> ip = 0 then cpm4_hw_access io
      else if device = 2 \<and> ip = 0 then cpm5_hw_access io
      else soft_hw_access io)"

lemma ip_type_eqdma: "ip_type_of (device_type_of n) m = EQDMA_SOFT_IP \<longleftrightarrow> n = 0 \<and> (m = 1 \<or> m = 2)"
  by (auto simp: ip_type_of_def device_type_of_def)

lemma ip_type_hard:
  "ip_type_of (device_type_of n) m = QDMA_VERSAL_HARD_IP \<longleftrightarrow> n \<noteq> 0 \<and> m = 0"
  by (auto simp: ip_type_of_def device_type_of_def)

lemma device_type_eq:
  "device_type_of n = QDMA_DEVICE_VERSAL_CPM4 \<longleftrightarrow> n = 1"
  "device_type_of n = QDMA_DEVICE_VERSAL_CPM5 \<longleftrightarrow> n = 2"
  by (auto simp: device_type_of_def)

definition version_addr :: "u8 \<Rightarrow> qdma_ip \<Rightarrow> u32" where
  "version_addr is_vf ip =
     (if is_vf = 0 then GLBL2_MISC_CAP_ADDR else if ip = QDMA_OR_VERSAL_IP then QDMA_OFFSET_VF_VERSION
      else EQDMA_OFFSET_VF_VERSION)"

lemma common_get_version:
  "ha_get_version (common_hw_access io ip) =
     get_version (if ip = EQDMA_IP then EQDMA_OFFSET_VF_VERSION else if ip = EQDMA_CPM5_IP
       then EQDMA_CPM5_OFFSET_VF_VERSION else QDMA_OFFSET_VF_VERSION) io"
  by (simp add: common_hw_access_def qdma_hw_access.defs qdma_get_version_def eqdma_get_version_def
      eqdma_cpm5_get_version_def)

definition replacement :: "u32 \<Rightarrow> u32 \<Rightarrow> 'd mmio \<Rightarrow> 'd qdma_hw_access_full \<Rightarrow> 'd qdma_hw_access_full" where
  "replacement device ip io t =
     (if device = 0 \<and> (ip = 1 \<or> ip = 2) then replace_eqdma io t
      else if device = 1 \<and> ip = 0 then replace_cpm4 io t
      else if device = 2 \<and> ip = 0 then replace_cpm5 io t
      else t)"

lemma replacement_table:
  "qdma_hw_access.truncate (replacement device ipn io (common_hw_access io ip)) = hw_access_of io device ipn \<and>
   (ha_qid2vec_conf (replacement device ipn io (common_hw_access io ip)) \<noteq> None \<longleftrightarrow> device = 1 \<and> ipn = 0) \<and>
   (ha_legacy_intr_conf (replacement device ipn io (common_hw_access io ip)) = None \<longleftrightarrow> device = 1 \<and> ipn = 0) \<and>
   names_all_errors (replacement device ipn io (common_hw_access io ip))"
  by (auto simp: replacement_def hw_access_of_def truncate_common truncate_cpm4 truncate_cpm5
      truncate_eqdma qid2vec_members table_names_errors)

text \<open>C25. qdma_hw_access_init on a device whose configuration BAR is valid succeeds, for a PF and
  for a VF, and fills the table by the device and IP numbers of the version register: the
  enhanced soft IP's context functions and mailbox bases for a soft device with IP number 1
  or 2, those of CPM4 and CPM5 for the hard IPs 1 and 2, and the soft IP's for every other
  number. The two members that may be missing are missing as their callers expect, and every
  error number below the number of errors in the table has a name.\<close>

theorem hw_access_init_table:
  assumes bar: "qdma_is_config_bar io (Some d) is_vf EQDMA_IP = (0, ip, Some d1)"
    and version: "qdma_reg_read io d1 (version_addr is_vf ip) = (v, d2)"
    and device: "device = (if is_vf = 0 then FIELD_GET QDMA_GLBL2_DEVICE_ID_MASK v
      else FIELD_GET QDMA_GLBL2_VF_DEVICE_ID_MASK v)"
    and ipn: "ipn = (if is_vf = 0 then FIELD_GET QDMA_GLBL2_VERSAL_IP_MASK v
      else FIELD_GET QDMA_GLBL2_VF_VERSAL_IP_MASK v)"
  shows "\<exists>t d'. qdma_hw_access_init io junk (Some d) is_vf (Some t0) = (0, Some t, Some d') \<and>
    qdma_hw_access.truncate t = hw_access_of io device ipn \<and>
    (ha_qid2vec_conf t \<noteq> None \<longleftrightarrow> device = 1 \<and> ipn = 0) \<and>
    (ha_legacy_intr_conf t = None \<longleftrightarrow> device = 1 \<and> ipn = 0) \<and>
    names_all_errors t"
proof -
  let ?a = "if ip = EQDMA_IP then EQDMA_OFFSET_VF_VERSION else if ip = EQDMA_CPM5_IP
    then EQDMA_CPM5_OFFSET_VF_VERSION else QDMA_OFFSET_VF_VERSION"
  have "ip = QDMA_OR_VERSAL_IP \<or> ip = EQDMA_IP"
    using bar by (auto simp: qdma_is_config_bar_def Let_def split: prod.splits if_splits)
  then have "qdma_reg_read io d1 (if is_vf \<noteq> 0 then ?a else GLBL2_MISC_CAP_ADDR) = (v, d2)"
    using version by (auto simp: version_addr_def)
  from get_version_effect [OF this] obtain info d3 where
    "ha_get_version (common_hw_access io ip) (Some d1) is_vf junk = (0, info, Some d3)"
    and dt: "vi_device_type info = device_type_of device"
    and it: "vi_ip_type info = ip_type_of (device_type_of device) ipn"
    unfolding common_get_version device ipn by metis
  then have "\<exists>d'. qdma_hw_access_init io junk (Some d) is_vf (Some t0) =
    (0, Some (replacement device ipn io (common_hw_access io ip)), Some d')"
    using bar
    by (auto simp: qdma_hw_access_init_def Let_def dt it ip_type_eqdma ip_type_hard device_type_eq
        replacement_def)
  then have "\<exists>d' t. qdma_hw_access_init io junk (Some d) is_vf (Some t0) = (0, Some t, Some d') \<and>
    t = replacement device ipn io (common_hw_access io ip)" by blast
  then show ?thesis
    using replacement_table [of device ipn io ip] by auto
qed

text \<open>A device of fixed registers: an enhanced soft IP seen from a PF.\<close>

definition eqdma_regs :: "unit mmio" where
  "eqdma_regs =
     \<lparr>readl = (\<lambda>r a. (if a = 0 then 0x1fd30000 else if a = 0x134 then 0x00100000 else 0, r)),
      writel = (\<lambda>r a v. r), udelay = (\<lambda>r us. r)\<rparr>"

abbreviation eqdma_dev :: "unit xdev" where "eqdma_dev \<equiv> \<lparr>xregs = (), hw_prg_lock = False\<rparr>"

lemma hw_access_init_table_witness:
  "\<forall>junk t0. \<exists>t d'. qdma_hw_access_init eqdma_regs junk (Some eqdma_dev) 0 (Some t0) = (0, Some t, Some d') \<and>
    qdma_hw_access.truncate t = eqdma_hw_access eqdma_regs \<and> ha_qid2vec_conf t = None \<and>
    ha_legacy_intr_conf t \<noteq> None \<and> names_all_errors t"
proof -
  have "FIELD_GET QDMA_CONFIG_BLOCK_ID_MASK 0x1fd30000 = QDMA_MAGIC_NUMBER" by code_simp
  then have bar: "qdma_is_config_bar eqdma_regs (Some eqdma_dev) 0 EQDMA_IP = (0, EQDMA_IP, Some eqdma_dev)"
    by (simp add: qdma_is_config_bar_def qdma_reg_read_def eqdma_regs_def)
  have version: "qdma_reg_read eqdma_regs eqdma_dev (version_addr 0 EQDMA_IP) = (0x00100000, eqdma_dev)"
    by (simp add: qdma_reg_read_def eqdma_regs_def version_addr_def)
  have device: "(0 :: u32) = (if (0 :: u8) = 0 then FIELD_GET QDMA_GLBL2_DEVICE_ID_MASK 0x00100000
      else FIELD_GET QDMA_GLBL2_VF_DEVICE_ID_MASK 0x00100000)" by code_simp
  have ipn: "(1 :: u32) = (if (0 :: u8) = 0 then FIELD_GET QDMA_GLBL2_VERSAL_IP_MASK 0x00100000
      else FIELD_GET QDMA_GLBL2_VF_VERSAL_IP_MASK 0x00100000)" by code_simp
  show ?thesis
    using hw_access_init_table [OF bar version device ipn] by (auto simp: hw_access_of_def)
qed

lemma config_bar_dev: "\<exists>rv ip' d'. qdma_is_config_bar io (Some d) is_vf ip = (rv, ip', Some d') \<and> rv \<le> 0"
  by (auto simp: qdma_is_config_bar_def Let_def split: prod.splits)

text \<open>Initialisation fails exactly when the device or the table is missing or the BAR check
  fails. It then returns a negative error and leaves the table as it was, so that no table is
  ever half filled.\<close>

theorem hw_access_init_fails:
  assumes "qdma_hw_access_init io junk dev is_vf tab = (rv, tab', dev')"
  shows "(rv \<noteq> 0 \<longleftrightarrow> dev = None \<or> tab = None \<or> fst (qdma_is_config_bar io dev is_vf EQDMA_IP) \<noteq> 0) \<and>
    (rv \<noteq> 0 \<longrightarrow> rv < 0 \<and> tab' = tab)"
proof (cases "dev = None \<or> tab = None")
  case True
  then show ?thesis using assms by (auto simp: qdma_hw_access_init_def)
next
  case False
  then obtain d t0 where dt: "dev = Some d" "tab = Some t0" by auto
  obtain rv1 ip d1 where bar: "qdma_is_config_bar io (Some d) is_vf EQDMA_IP = (rv1, ip, Some d1)" "rv1 \<le> 0"
    using config_bar_dev by blast
  obtain info d2 where "ha_get_version (common_hw_access io ip) (Some d1) is_vf junk = (0, info, Some d2)"
    using common_get_version_ok by blast
  then show ?thesis
    using assms bar by (auto simp: dt qdma_hw_access_init_def Let_def split: if_splits)
qed

lemma hw_access_init_fails_witness:
  "\<forall>junk t0. fst (qdma_hw_access_init eqdma_regs junk (Some eqdma_dev) 1 (Some t0)) < 0"
proof -
  have "FIELD_GET QDMA_GLBL2_VF_UNIQUE_ID_MASK 0 \<noteq> QDMA_MAGIC_NUMBER"
    "FIELD_GET QDMA_CONFIG_BLOCK_ID_MASK 0 \<noteq> QDMA_MAGIC_NUMBER" by code_simp+
  then have bar: "qdma_is_config_bar eqdma_regs (Some eqdma_dev) 1 EQDMA_IP = (-4, EQDMA_IP, Some eqdma_dev)"
    by (simp add: qdma_is_config_bar_def qdma_reg_read_def eqdma_regs_def)
  show ?thesis
  proof (intro allI)
    fix junk t0
    obtain rv tab' dev' where
      "qdma_hw_access_init eqdma_regs junk (Some eqdma_dev) 1 (Some t0) = (rv, tab', dev')"
      by (metis prod_cases3)
    then show "fst (qdma_hw_access_init eqdma_regs junk (Some eqdma_dev) 1 (Some t0)) < 0"
      using hw_access_init_fails bar by (metis fst_conv neg_equal_0_iff_equal zero_neq_numeral)
  qed
qed

end
