(* ===== verification/ResourceMgmt.thy ===== *)
theory ResourceMgmt
  imports Prelude
begin

text \<open>
  The queue resource manager, qdma_resource_mgmt.c: master resources, one per device, each
  with a range of queues, a list of free ranges and the entries of the PCI functions that
  own ranges of it.
  The C integers are int here: an int qbase stays in its signed range and a uint32_t is kept
  in [0, 2 ^ 32) by wrap32; int32 is the conversion of a uint32_t back to int. A list of the
  code is a list of its entries in order, the entry a pointer refers to an index into it.
  qdma_calloc may fail: every function takes the outcomes of the allocations to come, a list
  of booleans that counts as True after its end, and returns the rest.
  A call is one step. In the code each update runs under the resource mutex, but the entries it
  works on are looked up in an earlier section of the mutex, so calls that overlap in time on
  the same resource or function are outside the model.
\<close>

section \<open>Data\<close>

definition wrap32 :: "int \<Rightarrow> int" where
  "wrap32 x = x mod 2 ^ 32"

definition int32 :: "int \<Rightarrow> int" where
  "int32 x = (x + 2 ^ 31) mod 2 ^ 32 - 2 ^ 31"

record qdma_resource_entry =
  qbase :: int
  total_q :: int

record qdma_dev_entry =
  func_id :: u16
  active_h2c_qcnt :: int
  active_c2h_qcnt :: int
  active_cmpt_qcnt :: int
  entry :: qdma_resource_entry

record qdma_resource_master =
  dma_device_index :: int
  pci_bus_start :: int
  pci_bus_end :: int
  master_total_q :: int
  master_qbase :: int
  dev_list :: "qdma_dev_entry list"
  free_list :: "qdma_resource_entry list"
  active_qcnt :: int

text \<open>The file's static state: the list of master resources and the next device index.\<close>

record qdma_rm =
  master_resource_list :: "qdma_resource_master list"
  next_index :: int

datatype qdma_dev_q_type =
    QDMA_DEV_Q_TYPE_H2C | QDMA_DEV_Q_TYPE_C2H | QDMA_DEV_Q_TYPE_CMPT | QDMA_DEV_Q_TYPE_MAX

datatype qdma_dev_q_range =
    QDMA_DEV_Q_IN_RANGE | QDMA_DEV_Q_OUT_OF_RANGE | QDMA_DEV_Q_RANGE_MAX

fun qdma_calloc :: "bool list \<Rightarrow> bool \<times> bool list" where
  "qdma_calloc [] = (True, [])"
| "qdma_calloc (ok # al) = (ok, al)"

text \<open>The write through the pointer that a search loop returned: the first entry that matches.\<close>

fun update_first :: "('a \<Rightarrow> bool) \<Rightarrow> ('a \<Rightarrow> 'a) \<Rightarrow> 'a list \<Rightarrow> 'a list" where
  "update_first P f [] = []"
| "update_first P f (x # xs) = (if P x then f x # xs else x # update_first P f xs)"

text \<open>qdma_list_del of the first entry that matches.\<close>

fun remove_first :: "('a \<Rightarrow> bool) \<Rightarrow> 'a list \<Rightarrow> 'a list" where
  "remove_first P [] = []"
| "remove_first P (x # xs) = (if P x then xs else x # remove_first P xs)"

section \<open>Lookup\<close>

definition qdma_find_master_resource_entry ::
  "qdma_rm \<Rightarrow> int \<Rightarrow> int \<Rightarrow> qdma_resource_master option" where
  "qdma_find_master_resource_entry s bus_start bus_end =
     find (\<lambda>m. pci_bus_start m = bus_start \<and> pci_bus_end m = bus_end) (master_resource_list s)"

definition qdma_get_master_resource_entry :: "qdma_rm \<Rightarrow> int \<Rightarrow> qdma_resource_master option" where
  "qdma_get_master_resource_entry s idx =
     find (\<lambda>m. dma_device_index m = idx) (master_resource_list s)"

definition qdma_get_dev_entry :: "qdma_rm \<Rightarrow> int \<Rightarrow> u16 \<Rightarrow> qdma_dev_entry option" where
  "qdma_get_dev_entry s idx func =
     (case qdma_get_master_resource_entry s idx of
        None \<Rightarrow> None
      | Some m \<Rightarrow> find (\<lambda>d. func_id d = func) (dev_list m))"

section \<open>Free list\<close>

text \<open>
  The insertion loop: before the first entry with a larger base, or behind the last one.
\<close>

fun insert_free :: "qdma_resource_entry \<Rightarrow> qdma_resource_entry list \<Rightarrow> qdma_resource_entry list" where
  "insert_free e [] = []"
| "insert_free e (x # xs) =
     (if qbase x > qbase e then e # x # xs
      else if xs = [] then [x, e]
      else x # insert_free e xs)"

text \<open>The de-fragmentation loop, with its stretch node.\<close>

fun merge_from :: "qdma_resource_entry \<Rightarrow> qdma_resource_entry list \<Rightarrow> qdma_resource_entry list" where
  "merge_from s [] = [s]"
| "merge_from s (n # ns) =
     (if wrap32 (qbase s + total_q s) = wrap32 (qbase n)
      then merge_from (s\<lparr>total_q := wrap32 (total_q s + total_q n)\<rparr>) ns
      else s # merge_from n ns)"

fun merge_free :: "qdma_resource_entry list \<Rightarrow> qdma_resource_entry list" where
  "merge_free [] = []"
| "merge_free (s # ns) = merge_from s ns"

definition no_queues :: qdma_resource_entry where
  "no_queues = \<lparr>qbase = -1, total_q = 0\<rparr>"

definition qdma_submit_to_free_list ::
  "bool list \<Rightarrow> qdma_dev_entry \<Rightarrow> qdma_resource_entry list \<Rightarrow>
   qdma_dev_entry \<times> qdma_resource_entry list \<times> bool list" where
  "qdma_submit_to_free_list al dev fl =
     (if total_q (entry dev) = 0 then (dev, fl, al)
      else let (ok, al) = qdma_calloc al in
        if \<not> ok then (dev, fl, al)
        else (dev\<lparr>entry := no_queues\<rparr>,
              merge_free (if fl = [] then [entry dev] else insert_free (entry dev) fl), al))"

text \<open>The loop that looks for a free range around the requested base.\<close>

fun find_at :: "int \<Rightarrow> int \<Rightarrow> nat \<Rightarrow> qdma_resource_entry list \<Rightarrow> nat option" where
  "find_at qmax qb i [] = None"
| "find_at qmax qb i (n # ns) =
     (if qb \<ge> qbase n \<and> wrap32 (qbase n + total_q n) \<ge> wrap32 (qb + qmax) then Some i
      else find_at qmax qb (Suc i) ns)"

text \<open>The loop that looks for the smallest range that is large enough.\<close>

fun best_fit :: "int \<Rightarrow> nat \<Rightarrow> (nat \<times> qdma_resource_entry) option \<Rightarrow>
    qdma_resource_entry list \<Rightarrow> (nat \<times> qdma_resource_entry) option" where
  "best_fit qmax i best [] = best"
| "best_fit qmax i best (n # ns) =
     best_fit qmax (Suc i)
       (if total_q n \<ge> qmax \<and>
           (case best of None \<Rightarrow> True | Some (_, b) \<Rightarrow> total_q b \<ge> total_q n)
        then Some (i, n) else best) ns"

text \<open>
  The part from the label fragment_free_list on: the entry at index k is cut to the range
  [qb, qb + qmax), and new entries hold what is left of it. The result is the index of the
  entry, or None when an allocation failed.
\<close>

definition fragment_free_list ::
  "bool list \<Rightarrow> int \<Rightarrow> int \<Rightarrow> nat \<Rightarrow> qdma_resource_entry list \<Rightarrow>
   nat option \<times> qdma_resource_entry list \<times> bool list" where
  "fragment_free_list al qmax qb k fl =
     (let n = fl ! k; pre = take k fl; post = drop (Suc k) fl in
      if qb = qbase n \<and> qmax = total_q n then (Some k, fl, al)
      else if qb = qbase n then
        let lqbase = int32 (qbase n + qmax);
            lqmax = wrap32 (total_q n - qmax);
            (ok, al) = qdma_calloc al
        in if \<not> ok then (None, fl, al)
           else (Some k, pre @ [n\<lparr>total_q := wrap32 (total_q n - lqmax)\<rparr>,
                   \<lparr>qbase = lqbase, total_q = lqmax\<rparr>] @ post, al)
      else if qb > qbase n \<and> wrap32 (qb + qmax) = wrap32 (qbase n + total_q n) then
        let lqmax = wrap32 (qb - qbase n);
            (ok, al) = qdma_calloc al
        in if \<not> ok then (None, fl, al)
           else (Some (Suc k), pre @ [\<lparr>qbase = qbase n, total_q = lqmax\<rparr>,
                   n\<lparr>qbase := qb, total_q := qmax\<rparr>] @ post, al)
      else
        let lqmax = wrap32 (qb - qbase n);
            (ok, al) = qdma_calloc al
        in if \<not> ok then (None, fl, al)
           else
             let new1 = \<lparr>qbase = qbase n, total_q = lqmax\<rparr>;
                 n1 = n\<lparr>qbase := qb, total_q := wrap32 (total_q n - lqmax)\<rparr>;
                 lqbase2 = int32 (qb + qmax);
                 lqmax2 = wrap32 (total_q n1 - qmax);
                 (ok2, al) = qdma_calloc al
             in if \<not> ok2 then (None, pre @ [new1, n1] @ post, al)
                else (Some (Suc k), pre @ [new1, n1\<lparr>total_q := qmax\<rparr>,
                        \<lparr>qbase = lqbase2, total_q = lqmax2\<rparr>] @ post, al))"

definition qdma_get_resource_node ::
  "bool list \<Rightarrow> int \<Rightarrow> int \<Rightarrow> qdma_resource_entry list \<Rightarrow>
   nat option \<times> qdma_resource_entry list \<times> bool list" where
  "qdma_get_resource_node al qmax qb fl =
     (case (if qb \<ge> 0 then find_at qmax qb 0 fl else None) of
        Some k \<Rightarrow> fragment_free_list al qmax qb k fl
      | None \<Rightarrow>
          (case best_fit qmax 0 None fl of
             None \<Rightarrow> (None, fl, al)
           | Some (k, n) \<Rightarrow> fragment_free_list al qmax (qbase n) k fl))"

text \<open>Taking the entry at index k out of the list for the function.\<close>

definition take_node ::
  "qdma_dev_entry \<Rightarrow> nat \<Rightarrow> qdma_resource_entry list \<Rightarrow> qdma_dev_entry \<times> qdma_resource_entry list"
where
  "take_node dev k fl =
     (dev\<lparr>entry := \<lparr>qbase = qbase (fl ! k), total_q = total_q (fl ! k)\<rparr>\<rparr>,
      take k fl @ drop (Suc k) fl)"

definition qdma_request_q_resource ::
  "bool list \<Rightarrow> qdma_dev_entry \<Rightarrow> int \<Rightarrow> int \<Rightarrow> qdma_resource_entry list \<Rightarrow>
   int \<times> qdma_dev_entry \<times> qdma_resource_entry list \<times> bool list" where
  "qdma_request_q_resource al dev new_qmax new_qbase fl =
     (let qmax = total_q (entry dev); qb = qbase (entry dev);
          (dev, fl, al) = qdma_submit_to_free_list al dev fl in
      if new_qmax = 0 then (0, dev, fl, al)
      else
        (case qdma_get_resource_node al new_qmax new_qbase fl of
           (Some k, fl, al) \<Rightarrow>
             let (dev, fl) = take_node dev k fl in (err_code QDMA_SUCCESS, dev, fl, al)
         | (None, fl, al) \<Rightarrow>
             (case qdma_get_resource_node al qmax qb fl of
                (Some k, fl, al) \<Rightarrow>
                  let (dev, fl) = take_node dev k fl
                  in (neg_err QDMA_ERR_RM_NO_QUEUES_LEFT, dev, fl, al)
              | (None, fl, al) \<Rightarrow>
                  (neg_err QDMA_ERR_RM_NO_QUEUES_LEFT, dev\<lparr>entry := no_queues\<rparr>, fl, al))))"

section \<open>Master resources\<close>

definition qdma_master_resource_create ::
  "bool list \<Rightarrow> qdma_rm \<Rightarrow> int \<Rightarrow> int \<Rightarrow> int \<Rightarrow> int \<Rightarrow> int \<times> int \<times> qdma_rm \<times> bool list" where
  "qdma_master_resource_create al s bus_start bus_end q_base q_total =
     (case qdma_find_master_resource_entry s bus_start bus_end of
        Some m \<Rightarrow> (neg_err QDMA_ERR_RM_RES_EXISTS, dma_device_index m, s, al)
      | None \<Rightarrow>
          let index = next_index s; (ok, al) = qdma_calloc al in
          if \<not> ok then (neg_err QDMA_ERR_NO_MEM, wrap32 index, s, al)
          else let (ok, al) = qdma_calloc al in
            if \<not> ok then (neg_err QDMA_ERR_NO_MEM, wrap32 index, s, al)
            else
              let m = \<lparr>dma_device_index = wrap32 index, pci_bus_start = bus_start,
                       pci_bus_end = bus_end, master_total_q = q_total, master_qbase = q_base,
                       dev_list = [], free_list = [\<lparr>qbase = q_base, total_q = q_total\<rparr>],
                       active_qcnt = 0\<rparr>
              in (err_code QDMA_SUCCESS, wrap32 index,
                  s\<lparr>master_resource_list := master_resource_list s @ [m],
                    next_index := int32 (index + 1)\<rparr>, al))"

definition qdma_master_resource_destroy :: "qdma_rm \<Rightarrow> int \<Rightarrow> qdma_rm" where
  "qdma_master_resource_destroy s idx =
     (case qdma_get_master_resource_entry s idx of
        None \<Rightarrow> s
      | Some m \<Rightarrow>
          if dev_list m \<noteq> [] then s
          else s\<lparr>master_resource_list :=
                  remove_first (\<lambda>m. dma_device_index m = idx) (master_resource_list s)\<rparr>)"

text \<open>A write to the master resource or to the function entry that a lookup returned.\<close>

definition set_master :: "int \<Rightarrow> (qdma_resource_master \<Rightarrow> qdma_resource_master) \<Rightarrow> qdma_rm \<Rightarrow> qdma_rm" where
  "set_master idx f s =
     s\<lparr>master_resource_list :=
         update_first (\<lambda>m. dma_device_index m = idx) f (master_resource_list s)\<rparr>"

definition set_dev :: "u16 \<Rightarrow> qdma_dev_entry \<Rightarrow> qdma_resource_master \<Rightarrow> qdma_resource_master" where
  "set_dev func d m = m\<lparr>dev_list := update_first (\<lambda>d. func_id d = func) (\<lambda>_. d) (dev_list m)\<rparr>"

section \<open>Functions\<close>

definition qdma_dev_entry_create :: "bool list \<Rightarrow> qdma_rm \<Rightarrow> int \<Rightarrow> u16 \<Rightarrow> int \<times> qdma_rm \<times> bool list" where
  "qdma_dev_entry_create al s idx func =
     (case qdma_get_master_resource_entry s idx of
        None \<Rightarrow> (neg_err QDMA_ERR_RM_RES_NOT_EXISTS, s, al)
      | Some m \<Rightarrow>
          (case qdma_get_dev_entry s idx func of
             None \<Rightarrow>
               let (ok, al) = qdma_calloc al in
               if \<not> ok then (neg_err QDMA_ERR_NO_MEM, s, al)
               else
                 let d = \<lparr>func_id = func, active_h2c_qcnt = 0, active_c2h_qcnt = 0,
                          active_cmpt_qcnt = 0, entry = no_queues\<rparr>
                 in (err_code QDMA_SUCCESS, set_master idx (\<lambda>m. m\<lparr>dev_list := dev_list m @ [d]\<rparr>) s, al)
           | Some d \<Rightarrow> (neg_err QDMA_ERR_RM_DEV_EXISTS, s, al)))"

definition qdma_dev_entry_destroy :: "bool list \<Rightarrow> qdma_rm \<Rightarrow> int \<Rightarrow> u16 \<Rightarrow> qdma_rm \<times> bool list" where
  "qdma_dev_entry_destroy al s idx func =
     (case qdma_get_master_resource_entry s idx of
        None \<Rightarrow> (s, al)
      | Some m \<Rightarrow>
          (case qdma_get_dev_entry s idx func of
             None \<Rightarrow> (s, al)
           | Some d \<Rightarrow>
               let (d, fl, al) = qdma_submit_to_free_list al d (free_list m)
               in (set_master idx (\<lambda>m. m\<lparr>free_list := fl,
                     dev_list := remove_first (\<lambda>d. func_id d = func) (dev_list m)\<rparr>) s, al)))"

text \<open>The result: status, the value written to qbase (the argument on an early return), state.\<close>

definition qdma_dev_update ::
  "bool list \<Rightarrow> qdma_rm \<Rightarrow> int \<Rightarrow> u16 \<Rightarrow> int \<Rightarrow> int \<Rightarrow> int \<times> int \<times> qdma_rm \<times> bool list" where
  "qdma_dev_update al s idx func qmax qb =
     (case qdma_get_master_resource_entry s idx of
        None \<Rightarrow> (neg_err QDMA_ERR_RM_RES_NOT_EXISTS, qb, s, al)
      | Some m \<Rightarrow>
          (case qdma_get_dev_entry s idx func of
             None \<Rightarrow> (neg_err QDMA_ERR_RM_DEV_NOT_EXISTS, qb, s, al)
           | Some d \<Rightarrow>
               if active_h2c_qcnt d \<noteq> 0 \<or> active_c2h_qcnt d \<noteq> 0 \<or> active_cmpt_qcnt d \<noteq> 0
               then (neg_err QDMA_ERR_RM_QMAX_CONF_REJECTED, qb, s, al)
               else
                 let (rv, d, fl, al) = qdma_request_q_resource al d qmax qb (free_list m)
                 in (rv, qbase (entry d),
                     set_master idx (\<lambda>m. set_dev func d (m\<lparr>free_list := fl\<rparr>)) s, al)))"

definition qdma_dev_qinfo_get :: "qdma_rm \<Rightarrow> int \<Rightarrow> u16 \<Rightarrow> qdma_access_error + int \<times> int" where
  "qdma_dev_qinfo_get s idx func =
     (case qdma_get_master_resource_entry s idx of
        None \<Rightarrow> Inl QDMA_ERR_RM_RES_NOT_EXISTS
      | Some m \<Rightarrow>
          (case qdma_get_dev_entry s idx func of
             None \<Rightarrow> Inl QDMA_ERR_RM_DEV_NOT_EXISTS
           | Some d \<Rightarrow> Inr (qbase (entry d), total_q (entry d))))"

definition qdma_dev_is_queue_in_range :: "qdma_rm \<Rightarrow> int \<Rightarrow> u16 \<Rightarrow> int \<Rightarrow> qdma_dev_q_range" where
  "qdma_dev_is_queue_in_range s idx func qid_hw =
     (case qdma_get_master_resource_entry s idx of
        None \<Rightarrow> QDMA_DEV_Q_OUT_OF_RANGE
      | Some m \<Rightarrow>
          (case qdma_get_dev_entry s idx func of
             None \<Rightarrow> QDMA_DEV_Q_OUT_OF_RANGE
           | Some d \<Rightarrow>
               let qmax = wrap32 (qbase (entry d) + total_q (entry d)) in
               if total_q (entry d) \<noteq> 0 \<and> qid_hw < qmax \<and> int32 qid_hw \<ge> qbase (entry d)
               then QDMA_DEV_Q_IN_RANGE else QDMA_DEV_Q_OUT_OF_RANGE))"

text \<open>The counter a queue type selects, and the entry with that counter set.\<close>

definition active_count :: "qdma_dev_q_type \<Rightarrow> qdma_dev_entry \<Rightarrow> int option" where
  "active_count q_type d =
     (case q_type of
        QDMA_DEV_Q_TYPE_H2C \<Rightarrow> Some (active_h2c_qcnt d)
      | QDMA_DEV_Q_TYPE_C2H \<Rightarrow> Some (active_c2h_qcnt d)
      | QDMA_DEV_Q_TYPE_CMPT \<Rightarrow> Some (active_cmpt_qcnt d)
      | _ \<Rightarrow> None)"

definition set_active_count :: "qdma_dev_q_type \<Rightarrow> int \<Rightarrow> qdma_dev_entry \<Rightarrow> qdma_dev_entry" where
  "set_active_count q_type n d =
     (case q_type of
        QDMA_DEV_Q_TYPE_H2C \<Rightarrow> d\<lparr>active_h2c_qcnt := n\<rparr>
      | QDMA_DEV_Q_TYPE_C2H \<Rightarrow> d\<lparr>active_c2h_qcnt := n\<rparr>
      | QDMA_DEV_Q_TYPE_CMPT \<Rightarrow> d\<lparr>active_cmpt_qcnt := n\<rparr>
      | _ \<Rightarrow> d)"

definition qdma_dev_increment_active_queue ::
  "qdma_rm \<Rightarrow> int \<Rightarrow> u16 \<Rightarrow> qdma_dev_q_type \<Rightarrow> int \<times> qdma_rm" where
  "qdma_dev_increment_active_queue s idx func q_type =
     (case qdma_get_master_resource_entry s idx of
        None \<Rightarrow> (neg_err QDMA_ERR_RM_RES_NOT_EXISTS, s)
      | Some m \<Rightarrow>
          (case qdma_get_dev_entry s idx func of
             None \<Rightarrow> (neg_err QDMA_ERR_RM_DEV_NOT_EXISTS, s)
           | Some d \<Rightarrow>
               (case active_count q_type d of
                  None \<Rightarrow> (neg_err QDMA_ERR_RM_DEV_NOT_EXISTS, s)
                | Some n \<Rightarrow>
                    if total_q (entry d) < wrap32 (n + 1)
                    then (neg_err QDMA_ERR_RM_NO_QUEUES_LEFT, s)
                    else (err_code QDMA_SUCCESS,
                      set_master idx (\<lambda>m. set_dev func (set_active_count q_type (wrap32 (n + 1)) d)
                        (m\<lparr>active_qcnt := wrap32 (active_qcnt m + 1)\<rparr>)) s))))"

text \<open>The decrement takes one off the count of the resource in every case.\<close>

definition qdma_dev_decrement_active_queue ::
  "qdma_rm \<Rightarrow> int \<Rightarrow> u16 \<Rightarrow> qdma_dev_q_type \<Rightarrow> int \<times> qdma_rm" where
  "qdma_dev_decrement_active_queue s idx func q_type =
     (case qdma_get_master_resource_entry s idx of
        None \<Rightarrow> (neg_err QDMA_ERR_RM_RES_NOT_EXISTS, s)
      | Some m \<Rightarrow>
          (case qdma_get_dev_entry s idx func of
             None \<Rightarrow> (neg_err QDMA_ERR_RM_DEV_NOT_EXISTS, s)
           | Some d \<Rightarrow>
               let (rv, d') = (case active_count q_type d of
                      None \<Rightarrow> (neg_err QDMA_ERR_RM_DEV_NOT_EXISTS, d)
                    | Some n \<Rightarrow> (err_code QDMA_SUCCESS,
                        if n \<noteq> 0 then set_active_count q_type (wrap32 (n - 1)) d else d))
               in (rv, set_master idx (\<lambda>m. set_dev func d'
                     (m\<lparr>active_qcnt := wrap32 (active_qcnt m - 1)\<rparr>)) s)))"

definition qdma_get_active_queue_count :: "qdma_rm \<Rightarrow> int \<Rightarrow> int" where
  "qdma_get_active_queue_count s idx =
     (case qdma_get_master_resource_entry s idx of
        None \<Rightarrow> err_code QDMA_SUCCESS
      | Some m \<Rightarrow> active_qcnt m)"

definition qdma_get_device_active_queue_count :: "qdma_rm \<Rightarrow> int \<Rightarrow> u16 \<Rightarrow> qdma_dev_q_type \<Rightarrow> int" where
  "qdma_get_device_active_queue_count s idx func q_type =
     (case qdma_get_master_resource_entry s idx of
        None \<Rightarrow> neg_err QDMA_ERR_RM_RES_NOT_EXISTS
      | Some m \<Rightarrow>
          (case qdma_get_dev_entry s idx func of
             None \<Rightarrow> neg_err QDMA_ERR_RM_DEV_NOT_EXISTS
           | Some d \<Rightarrow>
               int32 (case active_count q_type d of None \<Rightarrow> 0 | Some n \<Rightarrow> n)))"

end
