(* ===== verification/ResourceRanges.thy ===== *)
theory ResourceRanges
  imports ResourceMgmt
begin

text \<open>
  The ranges of the resource manager as sets of queues: how many entries of a list hold a
  given queue, and that insertion, de-fragmentation, splitting and removal keep that number.
  An entry is range_ok if it holds at least one queue and stays within the signed 32-bit
  range, where none of the arithmetic of the code wraps around.
\<close>

section \<open>Ownership\<close>

definition has_queue :: "qdma_resource_entry \<Rightarrow> int \<Rightarrow> bool" where
  "has_queue e q \<longleftrightarrow> qbase e \<le> q \<and> q < qbase e + total_q e"

definition owners :: "qdma_resource_entry list \<Rightarrow> int \<Rightarrow> nat" where
  "owners es q = length (filter (\<lambda>e. has_queue e q) es)"

definition range_ok :: "qdma_resource_entry \<Rightarrow> bool" where
  "range_ok e \<longleftrightarrow> 0 \<le> qbase e \<and> 0 < total_q e \<and> qbase e + total_q e < 2 ^ 31"

lemma owners_simps [simp]:
  "owners [] q = 0"
  "owners (e # es) q = of_bool (has_queue e q) + owners es q"
  "owners (es @ es') q = owners es q + owners es' q"
  by (simp_all add: owners_def)

lemma owners_nth:
  "k < length es \<Longrightarrow>
   owners es q = owners (take k es) q + of_bool (has_queue (es ! k) q) + owners (drop (Suc k) es) q"
  by (subst id_take_nth_drop [of k es]) simp_all

lemma owners_pos: "e \<in> set es \<Longrightarrow> has_queue e q \<Longrightarrow> 0 < owners es q"
  by (auto simp: owners_def filter_empty_conv)

lemma owners_pos_iff: "0 < owners es q \<longleftrightarrow> (\<exists>e\<in>set es. has_queue e q)"
  by (auto simp: owners_def filter_empty_conv)

lemma range_ok_first: "range_ok e \<Longrightarrow> has_queue e (qbase e)"
  by (simp add: range_ok_def has_queue_def)

lemma range_ok_last: "range_ok e \<Longrightarrow> has_queue e (qbase e + total_q e - 1)"
  by (simp add: range_ok_def has_queue_def)

section \<open>Wrapping arithmetic in range\<close>

lemma wrap32_id [rm_simps]: "0 \<le> x \<Longrightarrow> x < 2 ^ 32 \<Longrightarrow> wrap32 x = x"
  by (simp add: wrap32_def)

lemma int32_id [rm_simps]: "- (2 ^ 31) \<le> x \<Longrightarrow> x < 2 ^ 31 \<Longrightarrow> int32 x = x"
  by (simp add: int32_def)

lemma wrap32_bounds [simp]: "0 \<le> wrap32 x" "wrap32 x < 2 ^ 32"
  by (simp_all add: wrap32_def)

section \<open>De-fragmentation\<close>

lemma merge_from_ok:
  assumes "range_ok s" "\<forall>e\<in>set ns. range_ok e"
  shows "(\<forall>e\<in>set (merge_from s ns). range_ok e) \<and> owners (merge_from s ns) q = owners (s # ns) q"
  using assms
proof (induction s ns rule: merge_from.induct)
  case (2 s n ns)
  then have ok: "range_ok s" "range_ok n" "\<forall>e\<in>set ns. range_ok e" by simp_all
  show ?case
  proof (cases "wrap32 (qbase s + total_q s) = wrap32 (qbase n)")
    case True
    then have adj: "qbase s + total_q s = qbase n"
      using ok by (simp add: range_ok_def wrap32_id)
    define m where "m = s\<lparr>total_q := wrap32 (total_q s + total_q n)\<rparr>"
    have m: "m = s\<lparr>total_q := total_q s + total_q n\<rparr>"
      using ok adj by (simp add: m_def range_ok_def wrap32_id)
    have "range_ok m" using ok adj by (simp add: m range_ok_def)
    moreover have "of_bool (has_queue m q) = (of_bool (has_queue s q) + of_bool (has_queue n q) :: nat)"
      using ok adj by (auto simp: m has_queue_def range_ok_def)
    ultimately show ?thesis
      using True 2(1) [OF True] ok(3) by (simp flip: m_def)
  next
    case False
    then show ?thesis using 2(2) [OF False ok(2,3)] ok(1) by simp
  qed
qed simp

lemma merge_free_ok:
  assumes "\<forall>e\<in>set fl. range_ok e"
  shows "(\<forall>e\<in>set (merge_free fl). range_ok e) \<and> owners (merge_free fl) q = owners fl q"
  using assms merge_from_ok by (cases fl) auto

section \<open>Insertion and submission\<close>

lemma insert_free_ok:
  "set (insert_free e fl) = (if fl = [] then {} else insert e (set fl)) \<and>
   owners (insert_free e fl) q = (if fl = [] then 0 else of_bool (has_queue e q) + owners fl q)"
  by (induction e fl rule: insert_free.induct) auto

text \<open>A function's entry: no queues, with a base that may be left over, or a good range.\<close>

definition dev_range_ok :: "qdma_resource_entry \<Rightarrow> bool" where
  "dev_range_ok e \<longleftrightarrow> total_q e = 0 \<and> -1 \<le> qbase e \<and> qbase e < 2 ^ 31 \<or> range_ok e"

lemma dev_range_ok_no_queues [simp]: "dev_range_ok no_queues" "\<not> has_queue no_queues q"
  by (simp_all add: dev_range_ok_def no_queues_def has_queue_def)

lemma has_queue_empty: "total_q e = 0 \<Longrightarrow> \<not> has_queue e q"
  by (simp add: has_queue_def)

lemma submit_ok:
  assumes "qdma_submit_to_free_list al d fl = (d', fl', al')"
    "\<forall>e\<in>set fl. range_ok e" "dev_range_ok (entry d)"
  shows "(\<forall>e\<in>set fl'. range_ok e) \<and> dev_range_ok (entry d') \<and>
    owners fl' q + of_bool (has_queue (entry d') q) = owners fl q + of_bool (has_queue (entry d) q)"
proof (cases "total_q (entry d) = 0 \<or> \<not> fst (qdma_calloc al)")
  case True
  then show ?thesis
    using assms by (auto simp: qdma_submit_to_free_list_def split: prod.splits if_splits)
next
  case False
  define fl1 where "fl1 = (if fl = [] then [entry d] else insert_free (entry d) fl)"
  have "range_ok (entry d)" using False assms(3) by (simp add: dev_range_ok_def)
  then have "\<forall>e\<in>set fl1. range_ok e"
    "owners fl1 q = of_bool (has_queue (entry d) q) + owners fl q"
    using assms(2) insert_free_ok [of "entry d" fl q] by (auto simp: fl1_def split: if_splits)
  moreover have "d' = d\<lparr>entry := no_queues\<rparr>" "fl' = merge_free fl1"
    using False assms(1)
    by (auto simp: qdma_submit_to_free_list_def fl1_def split: prod.splits if_splits)
  ultimately show ?thesis using merge_free_ok [of fl1 q] by simp
qed

section \<open>Search\<close>

lemma find_at_Some:
  "find_at qmax qb i fl = Some k \<Longrightarrow>
   i \<le> k \<and> k - i < length fl \<and> qb \<ge> qbase (fl ! (k - i)) \<and>
   wrap32 (qbase (fl ! (k - i)) + total_q (fl ! (k - i))) \<ge> wrap32 (qb + qmax)"
proof (induction qmax qb i fl rule: find_at.induct)
  case (2 qmax qb i n ns)
  show ?case
  proof (cases "qb \<ge> qbase n \<and> wrap32 (qbase n + total_q n) \<ge> wrap32 (qb + qmax)")
    case True
    then show ?thesis using 2(2) by simp
  next
    case False
    with 2 have *: "Suc i \<le> k" "k - Suc i < length ns" "qb \<ge> qbase (ns ! (k - Suc i))"
      "wrap32 (qbase (ns ! (k - Suc i)) + total_q (ns ! (k - Suc i))) \<ge> wrap32 (qb + qmax)"
      by auto
    then have "k - i = Suc (k - Suc i)" by simp
    with * show ?thesis by simp
  qed
qed simp

lemma find_at_None:
  "find_at qmax qb i fl = None \<longleftrightarrow>
   (\<forall>n\<in>set fl. \<not> (qb \<ge> qbase n \<and> wrap32 (qbase n + total_q n) \<ge> wrap32 (qb + qmax)))"
  by (induction qmax qb i fl rule: find_at.induct) auto

text \<open>What the best-fit loop has found in the entries it has seen.\<close>

definition best_so_far ::
  "int \<Rightarrow> (nat \<times> qdma_resource_entry) option \<Rightarrow> qdma_resource_entry list \<Rightarrow> bool" where
  "best_so_far qmax best seen =
     (case best of
        None \<Rightarrow> \<forall>e\<in>set seen. total_q e < qmax
      | Some (k, n) \<Rightarrow> k < length seen \<and> seen ! k = n \<and> qmax \<le> total_q n \<and>
          (\<forall>e\<in>set seen. qmax \<le> total_q e \<longrightarrow> total_q n \<le> total_q e))"

lemma best_fit_step:
  assumes "best_so_far qmax best seen"
  shows "best_so_far qmax
    (if total_q n \<ge> qmax \<and> (case best of None \<Rightarrow> True | Some (_, b) \<Rightarrow> total_q b \<ge> total_q n)
     then Some (length seen, n) else best) (seen @ [n])"
  using assms
  by (cases best) (force simp: best_so_far_def nth_append split: prod.splits)+

lemma best_fit_ok:
  "best_so_far qmax best seen \<Longrightarrow>
   best_so_far qmax (best_fit qmax (length seen) best ns) (seen @ ns)"
proof (induction ns arbitrary: seen best)
  case (Cons n ns)
  then show ?case using Cons.IH [OF best_fit_step [OF Cons.prems, of n]] by simp
qed simp

lemma best_fit_found:
  "best_so_far qmax (best_fit qmax 0 None fl) fl"
  using best_fit_ok [of qmax None "[]" fl] by (simp add: best_so_far_def)

section \<open>Splitting\<close>

text \<open>A list without the entry at an index.\<close>

definition others :: "nat \<Rightarrow> 'a list \<Rightarrow> 'a list" where
  "others k xs = take k xs @ drop (Suc k) xs"

lemma owners_others:
  "k < length fl \<Longrightarrow> owners fl q = owners (others k fl) q + of_bool (has_queue (fl ! k) q)"
  using owners_nth [of k fl q] by (simp add: others_def)

lemma others_append:
  "others (length pre) (pre @ x # post) = pre @ post"
  "others (Suc (length pre)) (pre @ y # x # post) = pre @ y # post"
  by (simp_all add: others_def)

text \<open>
  The outcome of a request for qmax queues on a free list: no queue is lost, and the entry
  that is granted has the requested size.
\<close>

definition granted ::
  "int \<Rightarrow> nat option \<times> qdma_resource_entry list \<Rightarrow> qdma_resource_entry list \<Rightarrow> bool" where
  "granted qmax r fl =
     (case r of
        (None, fl') \<Rightarrow> (\<forall>e\<in>set fl'. range_ok e) \<and> (\<forall>q. owners fl' q = owners fl q)
      | (Some k, fl') \<Rightarrow> k < length fl' \<and> (\<forall>e\<in>set (others k fl'). range_ok e) \<and>
          total_q (fl' ! k) = qmax \<and> 0 \<le> qbase (fl' ! k) \<and> qbase (fl' ! k) + qmax < 2 ^ 31 \<and>
          (\<forall>q. owners fl' q = owners fl q))"

lemma granted_SomeI:
  assumes "fl' = pre @ x # post" "k' = length pre" "\<forall>e\<in>set pre \<union> set post. range_ok e"
    "total_q x = qmax" "0 \<le> qbase x" "qbase x + qmax < 2 ^ 31" "\<forall>q. owners fl' q = owners fl q"
  shows "granted qmax (Some k', fl') fl \<and> qbase (fl' ! k') = qbase x"
  using assms by (auto simp: granted_def others_append)

lemma has_queue_split:
  assumes "b \<le> c" "c \<le> b + t"
  shows "of_bool (has_queue \<lparr>qbase = b, total_q = t\<rparr> q) =
    (of_bool (has_queue \<lparr>qbase = b, total_q = c - b\<rparr> q) +
     of_bool (has_queue \<lparr>qbase = c, total_q = b + t - c\<rparr> q) :: nat)"
  using assms by (auto simp: has_queue_def)

lemma fragment_ok:
  assumes k: "k < length fl" and ok: "\<forall>e\<in>set fl. range_ok e"
    and sub: "qbase (fl ! k) \<le> qb" "0 \<le> qmax" "qb + qmax \<le> qbase (fl ! k) + total_q (fl ! k)"
  shows "case fragment_free_list al qmax qb k fl of (r, fl', al') \<Rightarrow>
    granted qmax (r, fl') fl \<and> (\<forall>k'. r = Some k' \<longrightarrow> qbase (fl' ! k') = qb)"
proof -
  define pre post where "pre = take k fl" and "post = drop (Suc k) fl"
  obtain b t where n: "fl ! k = \<lparr>qbase = b, total_q = t\<rparr>"
    by (cases "fl ! k") auto
  have fl: "fl = pre @ \<lparr>qbase = b, total_q = t\<rparr> # post" and lp: "length pre = k"
    using k n id_take_nth_drop [OF k] by (simp_all add: pre_def post_def)
  have b: "0 \<le> b" "0 < t" "b + t < 2 ^ 31" and rest: "\<forall>e\<in>set pre \<union> set post. range_ok e"
    using ok by (auto simp: fl range_ok_def)
  have sub': "b \<le> qb" "0 \<le> qmax" "qb + qmax \<le> b + t"
    using sub n by simp_all
  note F = fragment_free_list_def Let_def n pre_def [symmetric] post_def [symmetric]
  obtain ok1 al1 where al1: "qdma_calloc al = (ok1, al1)" by fastforce
  consider "qb = b" "qmax = t" | "qb = b" "qmax < t" | "b < qb" "qb + qmax = b + t"
    | "b < qb" "qb + qmax < b + t" using sub' by linarith
  then show ?thesis
  proof cases
    case 1
    then have "fragment_free_list al qmax qb k fl = (Some k, fl, al)" by (simp add: F)
    with 1 granted_SomeI [OF fl lp [symmetric] rest, of qmax] b n show ?thesis by auto
  next
    case 2
    then have w: "wrap32 (t - qmax) = t - qmax" "int32 (b + qmax) = b + qmax"
      "wrap32 qmax = qmax" using b sub' by (simp_all add: rm_simps)
    show ?thesis
    proof (cases ok1)
      case True
      with 2 w have "fragment_free_list al qmax qb k fl = (Some k, pre @ \<lparr>qbase = b, total_q = qmax\<rparr> #
          \<lparr>qbase = b + qmax, total_q = t - qmax\<rparr> # post, al1)"
        by (simp add: F al1)
      then show ?thesis
        using 2 b rest sub' has_queue_split [of b "b + qmax" t]
          granted_SomeI [OF refl lp [symmetric], of "\<lparr>qbase = b + qmax, total_q = t - qmax\<rparr> # post"
            "\<lparr>qbase = b, total_q = qmax\<rparr>" qmax fl]
        by (simp add: range_ok_def fl)
    next
      case False
      with 2 w have "fragment_free_list al qmax qb k fl = (None, fl, al1)"
        by (simp add: F al1)
      with ok show ?thesis by (simp add: granted_def)
    qed
  next
    case 3
    then have w: "wrap32 (qb - b) = qb - b" using b sub' by (simp add: rm_simps)
    show ?thesis
    proof (cases ok1)
      case True
      with 3 w have "fragment_free_list al qmax qb k fl = (Some (Suc k),
          (pre @ [\<lparr>qbase = b, total_q = qb - b\<rparr>]) @ \<lparr>qbase = qb, total_q = qmax\<rparr> # post,
          al1)"
        by (simp add: F al1)
      moreover have "b + t - qb = qmax" using 3 by simp
      ultimately show ?thesis
        using 3(1) b rest sub' lp has_queue_split [of b qb t]
          granted_SomeI [OF refl, of "Suc k" "pre @ [\<lparr>qbase = b, total_q = qb - b\<rparr>]" post
            "\<lparr>qbase = qb, total_q = qmax\<rparr>" qmax fl]
        by (simp add: range_ok_def fl)
    next
      case False
      with 3 w have "fragment_free_list al qmax qb k fl = (None, fl, al1)"
        by (simp add: F al1)
      with ok show ?thesis by (simp add: granted_def)
    qed
  next
    case 4
    then have w: "wrap32 (qb - b) = qb - b" "wrap32 (t - (qb - b)) = b + t - qb"
      "int32 (qb + qmax) = qb + qmax" "wrap32 (b + t - qb - qmax) = b + t - (qb + qmax)"
      "wrap32 (qb + qmax) = qb + qmax" "wrap32 (b + t) = b + t"
      using b sub' by (simp_all add: rm_simps)
    let ?new1 = "\<lparr>qbase = b, total_q = qb - b\<rparr>"
    let ?n1 = "\<lparr>qbase = qb, total_q = b + t - qb\<rparr>"
    let ?n2 = "\<lparr>qbase = qb, total_q = qmax\<rparr>"
    let ?new2 = "\<lparr>qbase = qb + qmax, total_q = b + t - (qb + qmax)\<rparr>"
    have own: "of_bool (has_queue \<lparr>qbase = b, total_q = t\<rparr> q) =
        (of_bool (has_queue ?new1 q) + of_bool (has_queue ?n1 q) :: nat)"
      "of_bool (has_queue ?n1 q) = (of_bool (has_queue ?n2 q) + of_bool (has_queue ?new2 q) :: nat)"
      for q using 4 sub' by (auto simp: has_queue_def)
    have ok4: "range_ok ?new1" "range_ok ?n1" "range_ok ?new2"
      using 4 b sub' by (simp_all add: range_ok_def)
    obtain ok2 al2 where al: "qdma_calloc al = (ok1, al1)" "qdma_calloc al1 = (ok2, al2)"
      using al1 by fastforce
    show ?thesis
    proof (cases "ok1 \<and> ok2")
      case True
      with 4 w al have "fragment_free_list al qmax qb k fl =
          (Some (Suc k), (pre @ [?new1]) @ ?n2 # ?new2 # post, al2)"
        by (simp add: F)
      then show ?thesis
        using 4 b rest sub' lp own ok4
          granted_SomeI [OF refl, of "Suc k" "pre @ [?new1]" "?new2 # post" "?n2" qmax fl]
        by (simp add: fl)
    next
      case False
      with 4 w al have "fragment_free_list al qmax qb k fl =
          (if ok1 then (None, pre @ ?new1 # ?n1 # post, al2) else (None, fl, al1))"
        by (simp add: F)
      then show ?thesis
        using own ok4 rest ok by (auto simp: granted_def fl)
    qed
  qed
qed

section \<open>Requests\<close>

text \<open>A request that does not overflow: no base, or one for which base and size add up.\<close>

definition request_ok :: "int \<Rightarrow> int \<Rightarrow> bool" where
  "request_ok qmax qb \<longleftrightarrow> 0 \<le> qmax \<and> (0 \<le> qb \<longrightarrow> qb + qmax < 2 ^ 32)"

lemma range_ok_wrap: "range_ok n \<Longrightarrow> wrap32 (qbase n + total_q n) = qbase n + total_q n"
  by (simp add: range_ok_def wrap32_id)

lemma find_at_fits:
  assumes "find_at qmax qb 0 fl = Some k" "\<forall>e\<in>set fl. range_ok e" "request_ok qmax qb" "0 \<le> qb"
  shows "k < length fl \<and> qbase (fl ! k) \<le> qb \<and> qb + qmax \<le> qbase (fl ! k) + total_q (fl ! k)"
proof -
  note f = find_at_Some [OF assms(1)]
  then have "range_ok (fl ! k)" using assms(2) by simp
  with f assms(3,4) show ?thesis
    using wrap32_id [of "qb + qmax"] by (simp add: range_ok_wrap request_ok_def)
qed

lemma get_node_ok:
  assumes ok: "\<forall>e\<in>set fl. range_ok e" and req: "request_ok qmax qb"
  shows "case qdma_get_resource_node al qmax qb fl of (r, fl', al') \<Rightarrow> granted qmax (r, fl') fl"
proof (cases "if qb \<ge> 0 then find_at qmax qb 0 fl else None")
  case (Some k)
  then have "0 \<le> qb" "find_at qmax qb 0 fl = Some k" by (simp_all split: if_splits)
  with find_at_fits [OF _ ok req] have "k < length fl" "qbase (fl ! k) \<le> qb"
    "qb + qmax \<le> qbase (fl ! k) + total_q (fl ! k)" by blast+
  from fragment_ok [OF this(1) ok this(2) _ this(3), of al] req Some show ?thesis
    by (auto simp: qdma_get_resource_node_def request_ok_def split: prod.splits)
next
  case None
  show ?thesis
  proof (cases "best_fit qmax 0 None fl")
    case None2: None
    then show ?thesis using None ok
      by (simp only: qdma_get_resource_node_def option.case) (simp add: granted_def)
  next
    case (Some kn)
    then obtain k n where kn: "best_fit qmax 0 None fl = Some (k, n)" by (cases kn) simp
    with best_fit_found [of qmax fl] have k: "k < length fl" "fl ! k = n" "qmax \<le> total_q n"
      by (simp_all add: best_so_far_def)
    with fragment_ok [OF k(1) ok, of "qbase n" qmax al] req kn None show ?thesis
      by (auto simp: qdma_get_resource_node_def request_ok_def split: prod.splits)
  qed
qed

lemma take_node_ok:
  assumes "granted qmax (Some k, fl') fl" "0 \<le> qmax"
  shows "case take_node d k fl' of (d', fl2) \<Rightarrow>
    (\<forall>e\<in>set fl2. range_ok e) \<and> dev_range_ok (entry d') \<and> total_q (entry d') = qmax \<and>
    (\<forall>q. owners fl2 q + of_bool (has_queue (entry d') q) = owners fl q) \<and>
    d' = d\<lparr>entry := entry d'\<rparr>"
  using assms owners_others [of k fl']
  by (auto simp: granted_def take_node_def others_def dev_range_ok_def range_ok_def has_queue_def)

lemma submit_no_failure:
  "qdma_submit_to_free_list [] d fl = (d', fl', al') \<Longrightarrow> total_q (entry d') = 0 \<and> al' = []"
  by (auto simp: qdma_submit_to_free_list_def no_queues_def split: if_splits)

lemma submit_keeps: "qdma_submit_to_free_list al d fl = (d', fl', al') \<Longrightarrow> d' = d\<lparr>entry := entry d'\<rparr>"
  by (auto simp: qdma_submit_to_free_list_def split: if_splits prod.splits)

lemma dev_entry_request_ok: "dev_range_ok e \<Longrightarrow> request_ok (total_q e) (qbase e)"
  by (auto simp: dev_range_ok_def range_ok_def request_ok_def)

text \<open>
  A request gives up the range of the function and takes another one: no queue gets a second
  owner. A queue can lose its owner only when the submission ran out of memory.
\<close>

lemma request_resource_ok:
  assumes ok: "\<forall>e\<in>set fl. range_ok e" and dev: "dev_range_ok (entry d)"
    and req: "request_ok new_qmax new_qbase"
  shows "case qdma_request_q_resource al d new_qmax new_qbase fl of (rv, d', fl', al') \<Rightarrow>
    (\<forall>e\<in>set fl'. range_ok e) \<and> dev_range_ok (entry d') \<and> d' = d\<lparr>entry := entry d'\<rparr> \<and>
    (\<forall>q. owners fl' q + of_bool (has_queue (entry d') q) \<le> owners fl q + of_bool (has_queue (entry d) q)) \<and>
    (al = [] \<longrightarrow>
      (\<forall>q. owners fl' q + of_bool (has_queue (entry d') q) = owners fl q + of_bool (has_queue (entry d) q)))"
proof -
  obtain d1 fl1 al1 where s: "qdma_submit_to_free_list al d fl = (d1, fl1, al1)"
    by (cases "qdma_submit_to_free_list al d fl") auto
  note sub = submit_ok [OF s ok dev]
  have keep: "d1 = d\<lparr>entry := entry d1\<rparr>" using submit_keeps [OF s] .
  have nofail: "al = [] \<Longrightarrow> \<not> has_queue (entry d1) q" for q
    using submit_no_failure [of d fl d1 fl1 al1] s has_queue_empty by blast
  have final: ?thesis if
    "qdma_request_q_resource al d new_qmax new_qbase fl = (rv, d', fl', al')"
    "\<forall>e\<in>set fl'. range_ok e" "dev_range_ok (entry d')" "d' = d1\<lparr>entry := entry d'\<rparr>"
    "\<forall>q. owners fl' q + of_bool (has_queue (entry d') q) = owners fl1 q" for rv d' fl' al'
  proof -
    have "d' = d\<lparr>entry := entry d'\<rparr>"
      using that(4) keep by (metis (no_types) qdma_dev_entry.surjective qdma_dev_entry.update_convs(5))
    moreover have "owners fl1 q \<le> owners fl q + of_bool (has_queue (entry d) q)" for q
      using sub [of q] by linarith
    moreover have "al = [] \<Longrightarrow> owners fl1 q = owners fl q + of_bool (has_queue (entry d) q)" for q
      using sub [of q] nofail [of q] by simp
    ultimately show ?thesis using that by simp
  qed
  show ?thesis
  proof (cases "new_qmax = 0")
    case True
    then show ?thesis using sub keep by (simp add: qdma_request_q_resource_def s)
  next
    case False
    obtain r2 fl2 al2 where g: "qdma_get_resource_node al1 new_qmax new_qbase fl1 = (r2, fl2, al2)"
      by (cases "qdma_get_resource_node al1 new_qmax new_qbase fl1") auto
    then have gr: "granted new_qmax (r2, fl2) fl1"
      using get_node_ok [of fl1 new_qmax new_qbase al1] sub req by simp
    show ?thesis
    proof (cases r2)
      case (Some k)
      with take_node_ok [of new_qmax k fl2 fl1 d1] gr req show ?thesis
        by (intro final [of 0 "fst (take_node d1 k fl2)" "snd (take_node d1 k fl2)" al2])
           (auto simp: qdma_request_q_resource_def s g False request_ok_def split_beta)
    next
      case None
      with gr have fl2: "\<forall>e\<in>set fl2. range_ok e" "\<forall>q. owners fl2 q = owners fl1 q"
        by (simp_all add: granted_def)
      obtain r3 fl3 al3 where g3: "qdma_get_resource_node al2 (total_q (entry d)) (qbase (entry d)) fl2 =
          (r3, fl3, al3)"
        by (cases "qdma_get_resource_node al2 (total_q (entry d)) (qbase (entry d)) fl2") auto
      then have gr3: "granted (total_q (entry d)) (r3, fl3) fl2"
        using get_node_ok [OF fl2(1) dev_entry_request_ok [OF dev], of al2] by simp
      show ?thesis
      proof (cases r3)
        case (Some k)
        with take_node_ok [of "total_q (entry d)" k fl3 fl2 d1] gr3 dev_entry_request_ok [OF dev] fl2
        show ?thesis
          by (intro final [of "-12" "fst (take_node d1 k fl3)" "snd (take_node d1 k fl3)" al3])
             (auto simp: qdma_request_q_resource_def s g g3 False None request_ok_def split_beta)
      next
        case None2: None
        with gr3 fl2 show ?thesis
          by (intro final [of "-12" "d1\<lparr>entry := no_queues\<rparr>" fl3 al3])
             (simp_all add: qdma_request_q_resource_def s g g3 False None granted_def)
      qed
    qed
  qed
qed

end
