(* ===== verification/ResourceInv.thy ===== *)
theory ResourceInv
  imports ResourceRanges
begin

text \<open>
  The invariant of the resource manager and its steps: which operations can run, that each
  keeps the invariant, and what holds in every state they reach.
\<close>

section \<open>Lists with a found element\<close>

lemma find_Some_split:
  assumes "find P xs = Some x"
  obtains pre post where "xs = pre @ x # post" "\<forall>y\<in>set pre. \<not> P y" "P x"
proof -
  from assms obtain i where i: "i < length xs" "P (xs ! i)" "x = xs ! i" "\<forall>j<i. \<not> P (xs ! j)"
    by (auto simp: find_Some_iff)
  then have "xs = take i xs @ x # drop (Suc i) xs"
    by (simp add: id_take_nth_drop)
  moreover have "\<forall>y\<in>set (take i xs). \<not> P y"
    using i(1,4) by (auto simp: in_set_conv_nth)
  ultimately show ?thesis using that i(2,3) by blast
qed

lemma update_first_split:
  "\<forall>y\<in>set pre. \<not> P y \<Longrightarrow> P x \<Longrightarrow> update_first P f (pre @ x # post) = pre @ f x # post"
  by (induction pre) auto

lemma remove_first_split:
  "\<forall>y\<in>set pre. \<not> P y \<Longrightarrow> P x \<Longrightarrow> remove_first P (pre @ x # post) = pre @ post"
  by (induction pre) auto

lemma find_skip: "\<forall>y\<in>set pre. \<not> P y \<Longrightarrow> find P (pre @ xs) = find P xs"
  by (induction pre) auto

section \<open>The invariant\<close>

text \<open>A function: a good range, and no counter above the number of its queues.\<close>

definition dev_ok :: "qdma_dev_entry \<Rightarrow> bool" where
  "dev_ok d \<longleftrightarrow> dev_range_ok (entry d) \<and>
     0 \<le> active_h2c_qcnt d \<and> active_h2c_qcnt d \<le> total_q (entry d) \<and>
     0 \<le> active_c2h_qcnt d \<and> active_c2h_qcnt d \<le> total_q (entry d) \<and>
     0 \<le> active_cmpt_qcnt d \<and> active_cmpt_qcnt d \<le> total_q (entry d)"

text \<open>Owners of a queue of a resource: free ranges and functions.\<close>

definition queue_owners :: "qdma_resource_master \<Rightarrow> int \<Rightarrow> nat" where
  "queue_owners m q = owners (free_list m) q + owners (map entry (dev_list m)) q"

definition in_master :: "qdma_resource_master \<Rightarrow> int \<Rightarrow> bool" where
  "in_master m q \<longleftrightarrow> master_qbase m \<le> q \<and> q < master_qbase m + master_total_q m"

text \<open>lossless: every queue of the resource has an owner, so none was lost.\<close>

definition master_ok :: "bool \<Rightarrow> qdma_resource_master \<Rightarrow> bool" where
  "master_ok lossless m \<longleftrightarrow>
     0 \<le> master_qbase m \<and> master_qbase m + master_total_q m < 2 ^ 31 \<and>
     (\<forall>e\<in>set (free_list m). range_ok e) \<and> (\<forall>d\<in>set (dev_list m). dev_ok d) \<and>
     distinct (map func_id (dev_list m)) \<and>
     (\<forall>q. queue_owners m q \<le> of_bool (in_master m q)) \<and>
     (lossless \<longrightarrow> (\<forall>q. queue_owners m q = of_bool (in_master m q)))"

definition rm_ok :: "bool \<Rightarrow> qdma_rm \<Rightarrow> bool" where
  "rm_ok lossless s \<longleftrightarrow>
     (\<forall>m\<in>set (master_resource_list s). master_ok lossless m \<and>
        0 \<le> dma_device_index m \<and> dma_device_index m < next_index s) \<and>
     distinct (map dma_device_index (master_resource_list s)) \<and>
     0 \<le> next_index s \<and> next_index s < 2 ^ 31"

section \<open>Preservation, on one resource\<close>

lemma owners_map_replace:
  "owners (map entry (pre @ d' # post)) q + of_bool (has_queue (entry d) q) =
   owners (map entry (pre @ d # post)) q + of_bool (has_queue (entry d') q)"
  by simp

text \<open>Replacing a function's entry and the free list without giving a queue a second owner.\<close>

lemma master_ok_replace:
  assumes m: "master_ok l m" "dev_list m = pre @ d # post"
    and d': "dev_ok d'" "func_id d' = func_id d"
    and fl: "\<forall>e\<in>set fl. range_ok e"
    and own: "\<forall>q. owners fl q + of_bool (has_queue (entry d') q) \<le>
      owners (free_list m) q + of_bool (has_queue (entry d) q)"
    and own_eq: "l \<Longrightarrow> \<forall>q. owners fl q + of_bool (has_queue (entry d') q) =
      owners (free_list m) q + of_bool (has_queue (entry d) q)"
  shows "master_ok l (m\<lparr>dev_list := pre @ d' # post, free_list := fl\<rparr>)"
proof -
  let ?m = "m\<lparr>dev_list := pre @ d' # post, free_list := fl\<rparr>"
  have le: "queue_owners ?m q \<le> queue_owners m q" for q
    using own [rule_format, of q] by (simp add: queue_owners_def m(2))
  have eq: "l \<Longrightarrow> queue_owners ?m q = queue_owners m q" for q
    using own_eq [rule_format, of q] by (simp add: queue_owners_def m(2))
  show ?thesis
    unfolding master_ok_def
  proof (intro conjI allI impI)
    fix q
    show "queue_owners ?m q \<le> of_bool (in_master ?m q)"
      using le [of q] m(1) order_trans by (fastforce simp: master_ok_def in_master_def)
    show "l \<Longrightarrow> queue_owners ?m q = of_bool (in_master ?m q)"
      using eq [of q] m(1) by (simp add: master_ok_def in_master_def)
  qed (use m d' fl in \<open>auto simp: master_ok_def\<close>)
qed

lemma master_ok_remove:
  assumes m: "master_ok l m" "dev_list m = pre @ d # post"
    and fl: "\<forall>e\<in>set fl. range_ok e"
    and own: "\<forall>q. owners fl q \<le> owners (free_list m) q + of_bool (has_queue (entry d) q)"
    and own_eq: "l \<Longrightarrow> \<forall>q. owners fl q = owners (free_list m) q + of_bool (has_queue (entry d) q)"
  shows "master_ok l (m\<lparr>free_list := fl, dev_list := pre @ post\<rparr>)"
proof -
  let ?m = "m\<lparr>free_list := fl, dev_list := pre @ post\<rparr>"
  have le: "queue_owners ?m q \<le> queue_owners m q" for q
    using own [rule_format, of q] by (simp add: queue_owners_def m(2))
  have eq: "l \<Longrightarrow> queue_owners ?m q = queue_owners m q" for q
    using own_eq [rule_format, of q] by (simp add: queue_owners_def m(2))
  show ?thesis
    unfolding master_ok_def
  proof (intro conjI allI impI)
    fix q
    show "queue_owners ?m q \<le> of_bool (in_master ?m q)"
      using le [of q] m(1) order_trans by (fastforce simp: master_ok_def in_master_def)
    show "l \<Longrightarrow> queue_owners ?m q = of_bool (in_master ?m q)"
      using eq [of q] m(1) by (simp add: master_ok_def in_master_def)
  qed (use m fl in \<open>auto simp: master_ok_def\<close>)
qed

definition new_dev :: "u16 \<Rightarrow> qdma_dev_entry" where
  "new_dev func = \<lparr>func_id = func, active_h2c_qcnt = 0, active_c2h_qcnt = 0,
     active_cmpt_qcnt = 0, entry = no_queues\<rparr>"

lemma new_dev_ok: "dev_ok (new_dev func)" "func_id (new_dev func) = func"
  "entry (new_dev func) = no_queues"
  by (simp_all add: new_dev_def dev_ok_def) (simp_all add: no_queues_def)

lemma master_ok_add:
  assumes "master_ok l m" "func \<notin> func_id ` set (dev_list m)"
  shows "master_ok l (m\<lparr>dev_list := dev_list m @ [new_dev func]\<rparr>)"
proof -
  let ?m = "m\<lparr>dev_list := dev_list m @ [new_dev func]\<rparr>"
  have "queue_owners ?m q = queue_owners m q" "in_master ?m q = in_master m q" for q
    by (simp_all add: queue_owners_def in_master_def new_dev_ok)
  then show ?thesis
    using assms new_dev_ok by (auto simp: master_ok_def)
qed

lemma master_ok_active [simp]: "master_ok l (m\<lparr>active_qcnt := n\<rparr>) = master_ok l m"
  by (simp add: master_ok_def queue_owners_def in_master_def)

section \<open>Preservation, operation by operation\<close>

lemma get_master_split:
  assumes "qdma_get_master_resource_entry s idx = Some m"
  obtains pre post where "master_resource_list s = pre @ m # post" "dma_device_index m = idx"
    "\<forall>m'\<in>set pre. dma_device_index m' \<noteq> idx"
  by (rule find_Some_split [OF assms [unfolded qdma_get_master_resource_entry_def]])
     (rule that; assumption)

lemma get_dev_split:
  assumes "qdma_get_master_resource_entry s idx = Some m" "qdma_get_dev_entry s idx func = Some d"
  obtains pre post where "dev_list m = pre @ d # post" "func_id d = func"
    "\<forall>d'\<in>set pre. func_id d' \<noteq> func"
proof -
  have "find (\<lambda>d. func_id d = func) (dev_list m) = Some d"
    using assms by (simp add: qdma_get_dev_entry_def)
  then show ?thesis by (rule find_Some_split) (rule that; assumption)
qed

lemma rm_ok_set_master:
  assumes s: "rm_ok l s" and m: "qdma_get_master_resource_entry s idx = Some m"
    and f: "master_ok l (f m)" "dma_device_index (f m) = idx"
  shows "rm_ok l (set_master idx f s)"
proof -
  obtain pre post where split: "master_resource_list s = pre @ m # post" "dma_device_index m = idx"
    "\<forall>m'\<in>set pre. dma_device_index m' \<noteq> idx"
    using get_master_split [OF m] by blast
  then have "master_resource_list (set_master idx f s) = pre @ f m # post"
    by (simp add: set_master_def update_first_split)
  moreover have "next_index (set_master idx f s) = next_index s"
    by (simp add: set_master_def)
  ultimately show ?thesis
    using s f split(1,2) by (auto simp: rm_ok_def)
qed

lemma master_of_rm_ok:
  "rm_ok l s \<Longrightarrow> qdma_get_master_resource_entry s idx = Some m \<Longrightarrow> master_ok l m \<and> dma_device_index m = idx"
  using get_master_split [of s idx m] by (fastforce simp: rm_ok_def)

lemma set_dev_split:
  assumes "dev_list m = pre @ d # post" "func_id d = func" "\<forall>d'\<in>set pre. func_id d' \<noteq> func"
  shows "set_dev func d' (m\<lparr>free_list := fl\<rparr>) = m\<lparr>dev_list := pre @ d' # post, free_list := fl\<rparr>"
    "set_dev func d' (m\<lparr>active_qcnt := n\<rparr>) = m\<lparr>dev_list := pre @ d' # post, active_qcnt := n\<rparr>"
  using assms by (simp_all add: set_dev_def update_first_split)

lemma dev_update_ok:
  assumes s: "rm_ok l s" and req: "request_ok qmax qb" and al: "l \<Longrightarrow> al = []"
  shows "rm_ok l (fst (snd (snd (qdma_dev_update al s idx func qmax qb))))"
proof (cases "qdma_get_master_resource_entry s idx")
  case None
  then show ?thesis using s by (simp add: qdma_dev_update_def)
next
  case m: (Some m)
  show ?thesis
  proof (cases "qdma_get_dev_entry s idx func")
    case None
    then show ?thesis using s m by (simp add: qdma_dev_update_def)
  next
    case d: (Some d)
    show ?thesis
    proof (cases "active_h2c_qcnt d \<noteq> 0 \<or> active_c2h_qcnt d \<noteq> 0 \<or> active_cmpt_qcnt d \<noteq> 0")
      case True
      then show ?thesis using s m d by (auto simp: qdma_dev_update_def)
    next
      case False
      obtain pre post where dl: "dev_list m = pre @ d # post" "func_id d = func"
        "\<forall>d'\<in>set pre. func_id d' \<noteq> func"
        using get_dev_split [OF m d] by blast
      obtain rv d' fl al' where r: "qdma_request_q_resource al d qmax qb (free_list m) = (rv, d', fl, al')"
        by (cases "qdma_request_q_resource al d qmax qb (free_list m)") auto
      have mok: "master_ok l m" "dma_device_index m = idx" using master_of_rm_ok [OF s m] by auto
      then have dok: "dev_ok d" and flok: "\<forall>e\<in>set (free_list m). range_ok e"
        using dl by (simp_all add: master_ok_def)
      have ro: "(\<forall>e\<in>set fl. range_ok e) \<and> dev_range_ok (entry d') \<and> d' = d\<lparr>entry := entry d'\<rparr> \<and>
        (\<forall>q. owners fl q + of_bool (has_queue (entry d') q) \<le>
          owners (free_list m) q + of_bool (has_queue (entry d) q)) \<and>
        (al = [] \<longrightarrow> (\<forall>q. owners fl q + of_bool (has_queue (entry d') q) =
          owners (free_list m) q + of_bool (has_queue (entry d) q)))"
        using request_resource_ok [OF flok _ req, of d al] dok r by (simp add: dev_ok_def)
      have "active_h2c_qcnt d' = 0 \<and> active_c2h_qcnt d' = 0 \<and> active_cmpt_qcnt d' = 0 \<and> func_id d' = func"
        using ro False dl(2) by (metis qdma_dev_entry.select_convs(1-4) qdma_dev_entry.surjective
            qdma_dev_entry.update_convs(5))
      moreover have "0 \<le> total_q (entry d')"
        using ro by (auto simp: dev_range_ok_def range_ok_def)
      ultimately have "dev_ok d'" "func_id d' = func_id d"
        using ro dl(2) by (simp_all add: dev_ok_def)
      then have "master_ok l (m\<lparr>dev_list := pre @ d' # post, free_list := fl\<rparr>)"
        using ro al by (intro master_ok_replace [OF mok(1) dl(1)]) auto
      then have "rm_ok l (set_master idx (\<lambda>m. set_dev func d' (m\<lparr>free_list := fl\<rparr>)) s)"
        using mok(2) set_dev_split(1) [OF dl] by (intro rm_ok_set_master [OF s m]) simp_all
      then show ?thesis using m d False r by (simp add: qdma_dev_update_def)
    qed
  qed
qed

lemma dev_destroy_ok:
  assumes s: "rm_ok l s" and al: "l \<Longrightarrow> al = []"
  shows "rm_ok l (fst (qdma_dev_entry_destroy al s idx func))"
proof (cases "qdma_get_master_resource_entry s idx")
  case None
  then show ?thesis using s by (simp add: qdma_dev_entry_destroy_def)
next
  case m: (Some m)
  show ?thesis
  proof (cases "qdma_get_dev_entry s idx func")
    case None
    then show ?thesis using s m by (simp add: qdma_dev_entry_destroy_def)
  next
    case d: (Some d)
    obtain pre post where dl: "dev_list m = pre @ d # post" "func_id d = func"
      "\<forall>d'\<in>set pre. func_id d' \<noteq> func"
      using get_dev_split [OF m d] by blast
    obtain d' fl al' where r: "qdma_submit_to_free_list al d (free_list m) = (d', fl, al')"
      by (cases "qdma_submit_to_free_list al d (free_list m)") auto
    have mok: "master_ok l m" "dma_device_index m = idx" using master_of_rm_ok [OF s m] by auto
    then have "dev_range_ok (entry d)" and flok: "\<forall>e\<in>set (free_list m). range_ok e"
      using dl by (simp_all add: master_ok_def dev_ok_def)
    note sub = submit_ok [OF r flok this(1)]
    have "\<forall>q. owners fl q \<le> owners (free_list m) q + of_bool (has_queue (entry d) q)"
      using sub by (metis le_add1)
    moreover have "\<forall>q. owners fl q = owners (free_list m) q + of_bool (has_queue (entry d) q)" if l
      using sub submit_no_failure [of d "free_list m" d' fl al'] al [OF that] r
      by (simp add: has_queue_empty)
    ultimately have "master_ok l (m\<lparr>free_list := fl, dev_list := pre @ post\<rparr>)"
      using sub by (intro master_ok_remove [OF mok(1) dl(1)]) auto
    moreover have "m\<lparr>free_list := fl, dev_list := remove_first (\<lambda>d. func_id d = func) (dev_list m)\<rparr> =
        m\<lparr>free_list := fl, dev_list := pre @ post\<rparr>"
      using dl by (simp add: remove_first_split)
    ultimately have "rm_ok l (set_master idx (\<lambda>m. m\<lparr>free_list := fl,
        dev_list := remove_first (\<lambda>d. func_id d = func) (dev_list m)\<rparr>) s)"
      using mok(2) by (intro rm_ok_set_master [OF s m]) simp_all
    then show ?thesis using m d r by (simp add: qdma_dev_entry_destroy_def)
  qed
qed

lemma dev_create_ok:
  assumes s: "rm_ok l s"
  shows "rm_ok l (fst (snd (qdma_dev_entry_create al s idx func)))"
proof (cases "qdma_get_master_resource_entry s idx")
  case None
  then show ?thesis using s by (simp add: qdma_dev_entry_create_def)
next
  case m: (Some m)
  show ?thesis
  proof (cases "qdma_get_dev_entry s idx func")
    case None
    then have "func \<notin> func_id ` set (dev_list m)"
      using m by (auto simp: qdma_get_dev_entry_def find_None_iff)
    moreover have "master_ok l m" "dma_device_index m = idx" using master_of_rm_ok [OF s m] by auto
    ultimately have "rm_ok l (set_master idx (\<lambda>m. m\<lparr>dev_list := dev_list m @ [new_dev func]\<rparr>) s)"
      by (intro rm_ok_set_master [OF s m] master_ok_add) simp_all
    then show ?thesis using s m None
      by (auto simp: qdma_dev_entry_create_def new_dev_def split: prod.split)
  next
    case d: (Some d)
    then show ?thesis using s m by (simp add: qdma_dev_entry_create_def)
  qed
qed

text \<open>Counting queues up and down touches the counters only.\<close>

lemma set_active_count_simps [simp]:
  "func_id (set_active_count t n d) = func_id d" "entry (set_active_count t n d) = entry d"
  by (simp_all add: set_active_count_def split: qdma_dev_q_type.split)

lemma dev_ok_set_active:
  "dev_ok d \<Longrightarrow> 0 \<le> n \<Longrightarrow> n \<le> total_q (entry d) \<Longrightarrow> dev_ok (set_active_count t n d)"
  by (auto simp: dev_ok_def set_active_count_def split: qdma_dev_q_type.split)

lemma active_count_bounds:
  "dev_ok d \<Longrightarrow> active_count t d = Some n \<Longrightarrow> 0 \<le> n \<and> n \<le> total_q (entry d) \<and> n < 2 ^ 31"
  by (auto simp: dev_ok_def active_count_def dev_range_ok_def range_ok_def
      split: qdma_dev_q_type.splits)

lemma count_ok:
  assumes s: "rm_ok l s" and m: "qdma_get_master_resource_entry s idx = Some m"
    and d: "qdma_get_dev_entry s idx func = Some d"
    and d': "dev_ok d'" "func_id d' = func_id d" "entry d' = entry d"
  shows "rm_ok l (set_master idx (\<lambda>m. set_dev func d' (m\<lparr>active_qcnt := g m\<rparr>)) s)"
proof -
  obtain pre post where dl: "dev_list m = pre @ d # post" "func_id d = func"
    "\<forall>d'\<in>set pre. func_id d' \<noteq> func"
    using get_dev_split [OF m d] by blast
  have mok: "master_ok l m" "dma_device_index m = idx" using master_of_rm_ok [OF s m] by auto
  have "master_ok l (m\<lparr>dev_list := pre @ d' # post, free_list := free_list m\<rparr>)"
    using d' mok(1) by (intro master_ok_replace [OF mok(1) dl(1)]) (simp_all add: master_ok_def)
  then have "master_ok l ((m\<lparr>dev_list := pre @ d' # post\<rparr>)\<lparr>active_qcnt := g m\<rparr>)"
    by (simp only: master_ok_active) simp
  then show ?thesis
    using mok(2) set_dev_split(2) [OF dl] by (intro rm_ok_set_master [OF s m]) simp_all
qed

lemma increment_ok:
  assumes s: "rm_ok l s"
  shows "rm_ok l (snd (qdma_dev_increment_active_queue s idx func t))"
proof -
  consider "qdma_get_master_resource_entry s idx = None"
    | m where "qdma_get_master_resource_entry s idx = Some m" "qdma_get_dev_entry s idx func = None"
    | m d where "qdma_get_master_resource_entry s idx = Some m" "qdma_get_dev_entry s idx func = Some d"
    by fastforce
  then show ?thesis
  proof cases
    case (3 m d)
    have "d \<in> set (dev_list m)" using get_dev_split [OF 3] by (metis in_set_conv_decomp)
    then have dok: "dev_ok d" using master_of_rm_ok [OF s 3(1)] by (simp add: master_ok_def)
    show ?thesis
    proof (cases "active_count t d")
      case None
      then show ?thesis using 3 s by (simp add: qdma_dev_increment_active_queue_def)
    next
      case (Some n)
      have n: "wrap32 (n + 1) = n + 1" "0 \<le> n"
        using active_count_bounds [OF dok Some] by (simp_all add: rm_simps)
      then have "n + 1 \<le> total_q (entry d) \<Longrightarrow> dev_ok (set_active_count t (n + 1) d)"
        by (intro dev_ok_set_active [OF dok]) simp_all
      then show ?thesis
        using 3 s n Some by (auto simp: qdma_dev_increment_active_queue_def intro!: count_ok)
    qed
  qed (use s in \<open>simp_all add: qdma_dev_increment_active_queue_def\<close>)
qed

lemma decrement_ok:
  assumes s: "rm_ok l s"
  shows "rm_ok l (snd (qdma_dev_decrement_active_queue s idx func t))"
proof -
  consider "qdma_get_master_resource_entry s idx = None"
    | m where "qdma_get_master_resource_entry s idx = Some m" "qdma_get_dev_entry s idx func = None"
    | m d where "qdma_get_master_resource_entry s idx = Some m" "qdma_get_dev_entry s idx func = Some d"
    by fastforce
  then show ?thesis
  proof cases
    case (3 m d)
    have "d \<in> set (dev_list m)" using get_dev_split [OF 3] by (metis in_set_conv_decomp)
    then have dok: "dev_ok d" using master_of_rm_ok [OF s 3(1)] by (simp add: master_ok_def)
    show ?thesis
    proof (cases "active_count t d")
      case None
      then show ?thesis using 3 s dok
        by (auto simp: qdma_dev_decrement_active_queue_def intro!: count_ok)
    next
      case (Some n)
      note n = active_count_bounds [OF dok Some]
      have "n \<noteq> 0 \<Longrightarrow> dev_ok (set_active_count t (wrap32 (n - 1)) d)"
        using n by (intro dev_ok_set_active [OF dok]) (simp_all add: rm_simps)
      then show ?thesis
        using 3 s Some dok by (auto simp: qdma_dev_decrement_active_queue_def intro!: count_ok)
    qed
  qed (use s in \<open>simp_all add: qdma_dev_decrement_active_queue_def\<close>)
qed

lemma master_create_ok:
  assumes s: "rm_ok l s" and p: "0 \<le> q_base" "0 < q_total" "q_base + q_total < 2 ^ 31"
    and i: "next_index s + 1 < 2 ^ 31"
  shows "rm_ok l (fst (snd (snd (qdma_master_resource_create al s b0 b1 q_base q_total))))"
proof -
  let ?m = "\<lparr>dma_device_index = next_index s, pci_bus_start = b0, pci_bus_end = b1,
    master_total_q = q_total, master_qbase = q_base, dev_list = [],
    free_list = [\<lparr>qbase = q_base, total_q = q_total\<rparr>], active_qcnt = 0\<rparr>"
  have "master_ok l ?m"
    using p by (simp add: master_ok_def range_ok_def queue_owners_def in_master_def has_queue_def)
  moreover have w: "wrap32 (next_index s) = next_index s" "int32 (next_index s + 1) = next_index s + 1"
    using s i by (simp_all add: rm_ok_def rm_simps)
  ultimately have "rm_ok l (s\<lparr>master_resource_list := master_resource_list s @ [?m],
      next_index := next_index s + 1\<rparr>)"
    using s i by (auto simp: rm_ok_def)
  then show ?thesis
    using s w by (auto simp: qdma_master_resource_create_def Let_def split: option.split prod.split)
qed

lemma master_destroy_ok:
  assumes s: "rm_ok l s"
  shows "rm_ok l (qdma_master_resource_destroy s idx)"
proof (cases "qdma_get_master_resource_entry s idx")
  case None
  then show ?thesis using s by (simp add: qdma_master_resource_destroy_def)
next
  case (Some m)
  obtain pre post where "master_resource_list s = pre @ m # post" "dma_device_index m = idx"
    "\<forall>m'\<in>set pre. dma_device_index m' \<noteq> idx"
    using get_master_split [OF Some] by blast
  then show ?thesis
    using s Some by (auto simp: qdma_master_resource_destroy_def remove_first_split rm_ok_def)
qed

section \<open>Steps and reachable states\<close>

text \<open>
  One call of the interface. A resource is created with a positive number of queues below
  2 ^ 31; a request for queues does not overflow (request_ok); every allocation may fail,
  unless the run is lossless. Reads do not change the state and need no step.
\<close>

definition rm_init :: qdma_rm where
  "rm_init = \<lparr>master_resource_list = [], next_index = 0\<rparr>"

inductive rm_step :: "bool \<Rightarrow> qdma_rm \<Rightarrow> qdma_rm \<Rightarrow> bool" for l where
  step_create: "(l \<Longrightarrow> al = []) \<Longrightarrow> 0 \<le> q_base \<Longrightarrow> 0 < q_total \<Longrightarrow> q_base + q_total < 2 ^ 31 \<Longrightarrow>
     next_index s + 1 < 2 ^ 31 \<Longrightarrow>
     rm_step l s (fst (snd (snd (qdma_master_resource_create al s b0 b1 q_base q_total))))"
| step_destroy: "rm_step l s (qdma_master_resource_destroy s idx)"
| step_dev_create: "(l \<Longrightarrow> al = []) \<Longrightarrow> rm_step l s (fst (snd (qdma_dev_entry_create al s idx func)))"
| step_dev_destroy: "(l \<Longrightarrow> al = []) \<Longrightarrow> rm_step l s (fst (qdma_dev_entry_destroy al s idx func))"
| step_dev_update: "(l \<Longrightarrow> al = []) \<Longrightarrow> request_ok qmax qb \<Longrightarrow>
     rm_step l s (fst (snd (snd (qdma_dev_update al s idx func qmax qb))))"
| step_increment: "rm_step l s (snd (qdma_dev_increment_active_queue s idx func t))"
| step_decrement: "rm_step l s (snd (qdma_dev_decrement_active_queue s idx func t))"

inductive_cases rm_stepE: "rm_step l s s'"

inductive rm_reach :: "bool \<Rightarrow> qdma_rm \<Rightarrow> bool" for l where
  reach_init: "rm_reach l rm_init"
| reach_step: "rm_reach l s \<Longrightarrow> rm_step l s s' \<Longrightarrow> rm_reach l s'"

lemmas rm_ok_intros = master_create_ok master_destroy_ok dev_create_ok dev_destroy_ok
  dev_update_ok increment_ok decrement_ok

lemma rm_step_ok: "rm_step l s s' \<Longrightarrow> rm_ok l s \<Longrightarrow> rm_ok l s'"
  by (erule rm_stepE) (auto intro: rm_ok_intros)

lemma rm_init_ok: "rm_ok l rm_init"
  by (simp add: rm_ok_def rm_init_def)

lemma rm_reach_ok: "rm_reach l s \<Longrightarrow> rm_ok l s"
  by (induction rule: rm_reach.induct) (auto intro: rm_init_ok rm_step_ok)

lemma rm_ok_weaken: "rm_ok l s \<Longrightarrow> rm_ok False s"
  by (auto simp: rm_ok_def master_ok_def)

section \<open>Range checks\<close>

lemma in_range_iff:
  assumes s: "rm_ok l s" and q: "0 \<le> q" "q < 2 ^ 32"
  shows "qdma_dev_is_queue_in_range s idx func q = QDMA_DEV_Q_IN_RANGE \<longleftrightarrow>
    (\<exists>m d. qdma_get_master_resource_entry s idx = Some m \<and> qdma_get_dev_entry s idx func = Some d \<and>
       has_queue (entry d) q)"
proof -
  consider "qdma_get_master_resource_entry s idx = None"
    | m where "qdma_get_master_resource_entry s idx = Some m" "qdma_get_dev_entry s idx func = None"
    | m d where "qdma_get_master_resource_entry s idx = Some m" "qdma_get_dev_entry s idx func = Some d"
    by fastforce
  then show ?thesis
  proof cases
    case (3 m d)
    have "d \<in> set (dev_list m)" using get_dev_split [OF 3] by (metis in_set_conv_decomp)
    then have "dev_range_ok (entry d)"
      using master_of_rm_ok [OF s 3(1)] by (simp add: master_ok_def dev_ok_def)
    then have "total_q (entry d) = 0 \<or> range_ok (entry d)" by (auto simp: dev_range_ok_def)
    then have "(total_q (entry d) \<noteq> 0 \<and> q < wrap32 (qbase (entry d) + total_q (entry d)) \<and>
        qbase (entry d) \<le> int32 q) = has_queue (entry d) q"
    proof
      assume "range_ok (entry d)"
      then have "wrap32 (qbase (entry d) + total_q (entry d)) = qbase (entry d) + total_q (entry d)"
        "qbase (entry d) + total_q (entry d) < 2 ^ 31" "0 < total_q (entry d)"
        by (simp_all add: range_ok_wrap range_ok_def)
      moreover have "q < 2 ^ 31 \<Longrightarrow> int32 q = q" using q by (simp add: int32_id)
      ultimately show ?thesis by (auto simp: has_queue_def)
    qed (simp add: has_queue_def)
    then show ?thesis using 3 by (simp add: qdma_dev_is_queue_in_range_def)
  qed (simp_all add: qdma_dev_is_queue_in_range_def)
qed

lemma owners_two:
  "a \<noteq> b \<Longrightarrow> a \<in> set ds \<Longrightarrow> b \<in> set ds \<Longrightarrow> has_queue (entry a) q \<Longrightarrow> has_queue (entry b) q \<Longrightarrow>
   2 \<le> owners (map entry ds) q"
proof (induction ds)
  case (Cons d ds)
  have "x \<in> set ds \<Longrightarrow> has_queue (entry x) q \<Longrightarrow> 1 \<le> owners (map entry ds) q" for x
    using owners_pos [of "entry x" "map entry ds" q] by auto
  then show ?case using Cons by auto
qed simp

lemma owner_unique:
  assumes "master_ok l m" "a \<in> set (dev_list m)" "b \<in> set (dev_list m)"
    "has_queue (entry a) q" "has_queue (entry b) q"
  shows "a = b"
proof (rule ccontr)
  assume "a \<noteq> b"
  then have "2 \<le> owners (map entry (dev_list m)) q" using assms owners_two by blast
  moreover have "queue_owners m q \<le> 1"
    using assms(1) by (auto simp: master_ok_def intro: order_trans)
  ultimately show False by (simp add: queue_owners_def)
qed

lemma in_range_unique:
  assumes "rm_ok l s" "0 \<le> q" "q < 2 ^ 32"
    "qdma_dev_is_queue_in_range s idx f1 q = QDMA_DEV_Q_IN_RANGE"
    "qdma_dev_is_queue_in_range s idx f2 q = QDMA_DEV_Q_IN_RANGE"
  shows "f1 = f2 \<and> (\<exists>m. qdma_get_master_resource_entry s idx = Some m \<and> in_master m q)"
proof -
  obtain m d1 where 1: "qdma_get_master_resource_entry s idx = Some m"
    "qdma_get_dev_entry s idx f1 = Some d1" "has_queue (entry d1) q"
    using assms(4) in_range_iff [OF assms(1,2,3)] by blast
  obtain d2 where 2: "qdma_get_dev_entry s idx f2 = Some d2" "has_queue (entry d2) q"
    using assms(5) in_range_iff [OF assms(1,2,3)] by blast
  have mok: "master_ok l m" using master_of_rm_ok [OF assms(1) 1(1)] by blast
  have in1: "d1 \<in> set (dev_list m)" "func_id d1 = f1"
    using get_dev_split [OF 1(1,2)] by (metis in_set_conv_decomp)+
  have in2: "d2 \<in> set (dev_list m)" "func_id d2 = f2"
    using get_dev_split [OF 1(1) 2(1)] by (metis in_set_conv_decomp)+
  have "d1 = d2" using owner_unique [OF mok in1(1) in2(1) 1(3) 2(2)] .
  moreover have "0 < queue_owners m q"
    using in1(1) 1(3) owners_pos [of "entry d1" "map entry (dev_list m)" q]
    by (simp add: queue_owners_def)
  then have "in_master m q"
    using mok by (auto simp: master_ok_def split: if_splits) (metis not_less of_bool_eq(1))
  ultimately show ?thesis using in1 in2 1(1) by auto
qed

section \<open>A sample run\<close>

text \<open>One device with 16 queues from 0 on; functions 1 and 2 take 4 and 6 of them.\<close>

definition sample_created :: qdma_rm where
  "sample_created = fst (snd (snd (qdma_master_resource_create [] rm_init 3 4 0 16)))"

definition sample_devs :: qdma_rm where
  "sample_devs = fst (snd (qdma_dev_entry_create []
     (fst (snd (qdma_dev_entry_create [] sample_created 0 1))) 0 2))"

definition sample_one :: qdma_rm where
  "sample_one = fst (snd (snd (qdma_dev_update [] sample_devs 0 1 4 (-1))))"

definition sample_two :: qdma_rm where
  "sample_two = fst (snd (snd (qdma_dev_update [] sample_one 0 2 6 8)))"

lemma sample_reach: "rm_reach l sample_created" "rm_reach l sample_devs" "rm_reach l sample_one"
  "rm_reach l sample_two"
proof -
  have "rm_step l rm_init sample_created"
    unfolding sample_created_def by (rule step_create) (simp_all add: rm_init_def)
  then show 1: "rm_reach l sample_created" by (rule reach_step [OF reach_init])
  show 2: "rm_reach l sample_devs"
    unfolding sample_devs_def by (rule reach_step [OF reach_step [OF 1 step_dev_create] step_dev_create]) simp_all
  show 3: "rm_reach l sample_one"
    unfolding sample_one_def
    by (rule reach_step [OF 2], rule step_dev_update) (simp_all add: request_ok_def)
  show "rm_reach l sample_two"
    unfolding sample_two_def
    by (rule reach_step [OF 3], rule step_dev_update) (simp_all add: request_ok_def)
qed

lemmas rm_eval = qdma_master_resource_create_def qdma_find_master_resource_entry_def
  qdma_get_master_resource_entry_def qdma_get_dev_entry_def qdma_dev_entry_create_def
  qdma_dev_update_def qdma_request_q_resource_def qdma_submit_to_free_list_def
  qdma_get_resource_node_def fragment_free_list_def take_node_def set_master_def set_dev_def
  qdma_dev_is_queue_in_range_def qdma_dev_entry_destroy_def no_queues_def rm_init_def
  wrap32_def int32_def

lemma sample_created_eq:
  "sample_created = \<lparr>master_resource_list = [\<lparr>dma_device_index = 0, pci_bus_start = 3,
     pci_bus_end = 4, master_total_q = 16, master_qbase = 0, dev_list = [],
     free_list = [\<lparr>qbase = 0, total_q = 16\<rparr>], active_qcnt = 0\<rparr>], next_index = 1\<rparr>"
  by (simp add: sample_created_def rm_eval)

lemma sample_devs_eq:
  "sample_devs = \<lparr>master_resource_list = [\<lparr>dma_device_index = 0, pci_bus_start = 3,
     pci_bus_end = 4, master_total_q = 16, master_qbase = 0, dev_list = [new_dev 1, new_dev 2],
     free_list = [\<lparr>qbase = 0, total_q = 16\<rparr>], active_qcnt = 0\<rparr>], next_index = 1\<rparr>"
  by (simp add: sample_devs_def sample_created_eq rm_eval new_dev_def)

lemma sample_two_eq:
  "sample_two = \<lparr>master_resource_list = [\<lparr>dma_device_index = 0, pci_bus_start = 3,
     pci_bus_end = 4, master_total_q = 16, master_qbase = 0,
     dev_list = [new_dev 1\<lparr>entry := \<lparr>qbase = 0, total_q = 4\<rparr>\<rparr>,
       new_dev 2\<lparr>entry := \<lparr>qbase = 8, total_q = 6\<rparr>\<rparr>],
     free_list = [\<lparr>qbase = 4, total_q = 4\<rparr>, \<lparr>qbase = 14, total_q = 2\<rparr>], active_qcnt = 0\<rparr>],
     next_index = 1\<rparr>"
  by (simp add: sample_two_def sample_one_def sample_devs_eq rm_eval new_dev_def)

section \<open>Properties\<close>

text \<open>C1. In every state that the resource manager reaches, whatever allocations fail, each
  master resource is well formed: its free ranges hold at least one queue each and do not
  overflow, every function has no queues or such a range, the ids of its functions are distinct,
  no queue has two owners among free ranges and functions, every owned queue belongs to the
  resource, and the active counters of a function do not exceed its queues. The indices of the
  resources are distinct and below the next index.\<close>

theorem rm_reach_invariant: "rm_reach l s \<Longrightarrow> rm_ok l s"
  by (rule rm_reach_ok)

theorem rm_reach_invariant_witness: "rm_ok True sample_two"
  by (rule rm_reach_invariant [OF sample_reach(4)])

text \<open>C2. Queue isolation: in a reachable state no queue of a device is in range for two
  functions, and a queue that is in range for a function lies in the range of its device.\<close>

theorem queue_in_one_function:
  assumes "rm_reach l s" "0 \<le> q" "q < 2 ^ 32"
    "qdma_dev_is_queue_in_range s idx f1 q = QDMA_DEV_Q_IN_RANGE"
    "qdma_dev_is_queue_in_range s idx f2 q = QDMA_DEV_Q_IN_RANGE"
  shows "f1 = f2 \<and> (\<exists>m. qdma_get_master_resource_entry s idx = Some m \<and> in_master m q)"
  by (rule in_range_unique [OF rm_reach_ok [OF assms(1)] assms(2-5)])

theorem queue_in_one_function_witness:
  "qdma_dev_is_queue_in_range sample_two 0 2 9 = QDMA_DEV_Q_IN_RANGE \<and>
   (\<exists>m. qdma_get_master_resource_entry sample_two 0 = Some m \<and> in_master m 9)"
proof -
  have "qdma_dev_is_queue_in_range sample_two 0 2 9 = QDMA_DEV_Q_IN_RANGE"
    by (simp add: sample_two_eq rm_eval new_dev_def)
  with queue_in_one_function [OF sample_reach(4), of 9 0 2 2] show ?thesis by simp
qed

text \<open>C4. Conservation: if no allocation fails, every queue of every device has exactly one owner,
  a free range or a function, and no queue outside the device has any.\<close>

theorem queues_conserved:
  assumes "rm_reach True s" "m \<in> set (master_resource_list s)"
  shows "queue_owners m q = of_bool (master_qbase m \<le> q \<and> q < master_qbase m + master_total_q m)"
  using rm_reach_ok [OF assms(1)] assms(2) by (simp add: rm_ok_def master_ok_def in_master_def)

theorem queues_conserved_witness:
  "queue_owners (hd (master_resource_list sample_two)) 15 = 1"
  using queues_conserved [OF sample_reach(4), of "hd (master_resource_list sample_two)" 15]
  by (simp add: sample_two_eq)

text \<open>C8. Counting up: an increment on a known function is refused exactly when the counter has
  reached the number of the function's queues, and otherwise adds one to the counter of that
  type and, modulo 2 ^ 32, to the counter of the device.\<close>

theorem increment_spec:
  assumes "rm_reach l s" "qdma_get_dev_entry s idx func = Some d" "active_count t d = Some n"
  shows "if n = total_q (entry d)
    then qdma_dev_increment_active_queue s idx func t = (neg_err QDMA_ERR_RM_NO_QUEUES_LEFT, s)
    else fst (qdma_dev_increment_active_queue s idx func t) = 0 \<and>
      qdma_get_device_active_queue_count (snd (qdma_dev_increment_active_queue s idx func t)) idx func t
        = n + 1 \<and>
      qdma_get_active_queue_count (snd (qdma_dev_increment_active_queue s idx func t)) idx =
        wrap32 (qdma_get_active_queue_count s idx + 1)"
proof -
  note s = rm_reach_ok [OF assms(1)]
  obtain m where m: "qdma_get_master_resource_entry s idx = Some m"
    using assms(2) by (auto simp: qdma_get_dev_entry_def split: option.splits)
  obtain pre post where ml: "master_resource_list s = pre @ m # post" "dma_device_index m = idx"
    "\<forall>m'\<in>set pre. dma_device_index m' \<noteq> idx"
    using get_master_split [OF m] by blast
  obtain dpre dpost where dl: "dev_list m = dpre @ d # dpost" "func_id d = func"
    "\<forall>d'\<in>set dpre. func_id d' \<noteq> func"
    using get_dev_split [OF m assms(2)] by blast
  have "dev_ok d" using master_of_rm_ok [OF s m] dl(1) by (simp add: master_ok_def)
  from active_count_bounds [OF this assms(3)]
  have n: "wrap32 (n + 1) = n + 1" "0 \<le> n" "n \<le> total_q (entry d)" "int32 (n + 1) = n + 1 \<or> n = total_q (entry d)"
    using \<open>dev_ok d\<close> by (auto simp: rm_simps dev_ok_def dev_range_ok_def range_ok_def)
  show ?thesis
  proof (cases "n = total_q (entry d)")
    case True
    then show ?thesis using m assms n by (simp add: qdma_dev_increment_active_queue_def)
  next
    case False
    define d' where "d' = set_active_count t (n + 1) d"
    define m' where "m' = m\<lparr>dev_list := dpre @ d' # dpost, active_qcnt := wrap32 (active_qcnt m + 1)\<rparr>"
    define s' where "s' = s\<lparr>master_resource_list := pre @ m' # post\<rparr>"
    have r: "qdma_dev_increment_active_queue s idx func t = (0, s')"
      using m assms n False set_dev_split(2) [OF dl] ml
      by (simp add: qdma_dev_increment_active_queue_def set_master_def update_first_split
          d'_def m'_def s'_def)
    have m': "qdma_get_master_resource_entry s' idx = Some m'"
      using ml by (simp add: qdma_get_master_resource_entry_def s'_def find_skip m'_def)
    have "qdma_get_dev_entry s' idx func = Some d'"
      using m' dl by (simp add: qdma_get_dev_entry_def m'_def find_skip d'_def)
    moreover have "active_count t d' = Some (n + 1)"
      using assms(3) by (cases t) (auto simp: d'_def active_count_def set_active_count_def)
    ultimately show ?thesis
      using m m' r n False
      by (simp add: qdma_get_device_active_queue_count_def qdma_get_active_queue_count_def)
         (simp add: m'_def)
  qed
qed

theorem increment_spec_witness:
  "fst (qdma_dev_increment_active_queue sample_two 0 1 QDMA_DEV_Q_TYPE_C2H) = 0 \<and>
   qdma_get_device_active_queue_count
     (snd (qdma_dev_increment_active_queue sample_two 0 1 QDMA_DEV_Q_TYPE_C2H)) 0 1 QDMA_DEV_Q_TYPE_C2H = 1"
proof -
  have "qdma_get_dev_entry sample_two 0 1 = Some (new_dev 1\<lparr>entry := \<lparr>qbase = 0, total_q = 4\<rparr>\<rparr>)"
    by (simp add: sample_two_eq rm_eval new_dev_def)
  from increment_spec [OF sample_reach(4) this, of QDMA_DEV_Q_TYPE_C2H 0]
  show ?thesis by (simp add: active_count_def new_dev_def)
qed

end
