(* ===== verification/ResourceAlloc.thy ===== *)
theory ResourceAlloc
  imports ResourceInv
begin

text \<open>
  What the allocator grants: the choice of a free range, the outcome of a request when no
  allocation fails, the order of the free list and its de-fragmentation, and the runs in
  which the arithmetic or an allocation failure breaks the promise.
\<close>

section \<open>Choice of a free range\<close>

lemma fragment_no_failure:
  "\<exists>k' fl'. fragment_free_list [] qmax qb k fl = (Some k', fl', [])"
  by (simp add: fragment_free_list_def Let_def)

text \<open>An entry of the free list that contains the range [qb, qb + qmax).\<close>

definition contains :: "int \<Rightarrow> int \<Rightarrow> qdma_resource_entry \<Rightarrow> bool" where
  "contains qb qmax e \<longleftrightarrow> 0 \<le> qb \<and> qbase e \<le> qb \<and> qb + qmax \<le> qbase e + total_q e"

lemma contains_total: "contains qb qmax e \<Longrightarrow> qmax \<le> total_q e"
  by (simp add: contains_def)

lemma find_at_contains:
  assumes "\<forall>e\<in>set fl. range_ok e" "request_ok qmax qb" "0 \<le> qb"
  shows "find_at qmax qb 0 fl = None \<longleftrightarrow> \<not> (\<exists>e\<in>set fl. contains qb qmax e)"
proof -
  have "wrap32 (qb + qmax) = qb + qmax" using assms(2,3) by (simp add: request_ok_def rm_simps)
  moreover have "wrap32 (qbase e + total_q e) = qbase e + total_q e" if "e \<in> set fl" for e
    using that assms(1) range_ok_wrap by blast
  ultimately show ?thesis
    using assms(3) by (auto simp: find_at_None contains_def)
qed

lemma get_node_cases:
  assumes ok: "\<forall>e\<in>set fl. range_ok e" and req: "request_ok qmax qb"
  obtains (exact) k fl' where "qdma_get_resource_node [] qmax qb fl = (Some k, fl', [])"
      "granted qmax (Some k, fl') fl" "qbase (fl' ! k) = qb" "\<exists>e\<in>set fl. contains qb qmax e"
  | (best) k fl' e where "qdma_get_resource_node [] qmax qb fl = (Some k, fl', [])"
      "granted qmax (Some k, fl') fl" "\<not> (\<exists>e\<in>set fl. contains qb qmax e)"
      "e \<in> set fl" "qbase (fl' ! k) = qbase e" "qmax \<le> total_q e"
      "\<forall>e'\<in>set fl. qmax \<le> total_q e' \<longrightarrow> total_q e \<le> total_q e'"
  | (none) "qdma_get_resource_node [] qmax qb fl = (None, fl, [])"
      "\<not> (\<exists>e\<in>set fl. contains qb qmax e)" "\<forall>e\<in>set fl. total_q e < qmax"
proof (cases "0 \<le> qb \<and> (\<exists>e\<in>set fl. contains qb qmax e)")
  case True
  then obtain k where k: "find_at qmax qb 0 fl = Some k"
    using find_at_contains [OF ok req] by fastforce
  obtain k' fl' where f: "fragment_free_list [] qmax qb k fl = (Some k', fl', [])"
    using fragment_no_failure by blast
  then have g: "qdma_get_resource_node [] qmax qb fl = (Some k', fl', [])"
    using True k by (simp add: qdma_get_resource_node_def)
  moreover have "granted qmax (Some k', fl') fl \<and> qbase (fl' ! k') = qb"
    using fragment_ok [OF _ ok, of k qb qmax "[]"] find_at_fits [OF k ok req] f True req
    by (auto simp: request_ok_def)
  ultimately show ?thesis using that(1) True by blast
next
  case False
  then have no: "\<not> (\<exists>e\<in>set fl. contains qb qmax e)" by (auto simp: contains_def)
  then have fa: "(if qb \<ge> 0 then find_at qmax qb 0 fl else None) = None"
    using find_at_contains [OF ok req] by auto
  show ?thesis
  proof (cases "best_fit qmax 0 None fl")
    case None
    then have "qdma_get_resource_node [] qmax qb fl = (None, fl, [])"
      by (simp only: qdma_get_resource_node_def fa option.case)
    moreover have "\<forall>e\<in>set fl. total_q e < qmax"
      using best_fit_found [of qmax fl] None by (simp add: best_so_far_def)
    ultimately show ?thesis using that(3) no by blast
  next
    case (Some kn)
    then obtain k n where kn: "best_fit qmax 0 None fl = Some (k, n)" by (cases kn) simp
    with best_fit_found [of qmax fl] have k: "k < length fl" "fl ! k = n" "qmax \<le> total_q n"
      "\<forall>e\<in>set fl. qmax \<le> total_q e \<longrightarrow> total_q n \<le> total_q e"
      by (simp_all add: best_so_far_def)
    obtain k' fl' where f: "fragment_free_list [] qmax (qbase n) k fl = (Some k', fl', [])"
      using fragment_no_failure by blast
    then have "qdma_get_resource_node [] qmax qb fl = (Some k', fl', [])"
      by (simp only: qdma_get_resource_node_def fa option.case kn split)
    moreover have "granted qmax (Some k', fl') fl \<and> qbase (fl' ! k') = qbase n"
      using fragment_ok [OF k(1) ok, of "qbase n" qmax "[]"] f k req
      by (auto simp: request_ok_def)
    moreover have "n \<in> set fl" using k by (metis nth_mem)
    ultimately show ?thesis using that(2) no k by blast
  qed
qed

section \<open>Requests without allocation failures\<close>

text \<open>De-fragmentation only enlarges ranges.\<close>

lemma merge_from_contains:
  assumes "range_ok s" "\<forall>e\<in>set ns. range_ok e" "e \<in> set (s # ns)" "contains qb qmax e"
  shows "\<exists>e'\<in>set (merge_from s ns). contains qb qmax e'"
  using assms
proof (induction s ns arbitrary: e rule: merge_from.induct)
  case (2 s n ns)
  then have ok: "range_ok s" "range_ok n" "\<forall>e\<in>set ns. range_ok e" by simp_all
  show ?case
  proof (cases "wrap32 (qbase s + total_q s) = wrap32 (qbase n)")
    case True
    then have adj: "qbase s + total_q s = qbase n"
      using ok by (simp add: range_ok_def wrap32_id)
    have m: "wrap32 (total_q s + total_q n) = total_q s + total_q n"
      using ok adj by (simp add: range_ok_def wrap32_id)
    let ?m = "s\<lparr>total_q := total_q s + total_q n\<rparr>"
    have "range_ok ?m" using ok adj by (simp add: range_ok_def)
    moreover have "\<exists>e\<in>set (?m # ns). contains qb qmax e"
      using 2(5,6) adj ok by (auto simp: contains_def range_ok_def)
    ultimately show ?thesis
      using True 2(1) [OF True, unfolded m] ok(3) m by auto
  next
    case False
    then show ?thesis using 2(2) [OF False ok(2,3)] 2(5,6) by auto
  qed
qed simp

lemma submit_contains:
  assumes s: "qdma_submit_to_free_list [] d fl = (d', fl', al')" "\<forall>e\<in>set fl. range_ok e"
    "dev_range_ok (entry d)" "0 < total_q (entry d)"
  shows "\<exists>e\<in>set fl'. contains (qbase (entry d)) (total_q (entry d)) e"
proof -
  define fl1 where "fl1 = (if fl = [] then [entry d] else insert_free (entry d) fl)"
  have "range_ok (entry d)" using s(3,4) by (simp add: dev_range_ok_def)
  then have ok: "\<forall>e\<in>set fl1. range_ok e" "entry d \<in> set fl1" "contains (qbase (entry d)) (total_q (entry d)) (entry d)"
    using s(2) insert_free_ok [of "entry d" fl 0] by (auto simp: fl1_def contains_def range_ok_def)
  have "fl' = merge_free fl1"
    using s(1,4) by (auto simp: qdma_submit_to_free_list_def fl1_def split: if_splits)
  with ok show ?thesis
    using merge_from_contains by (cases fl1) auto
qed

lemma request_cases:
  assumes ok: "\<forall>e\<in>set fl. range_ok e" and dev: "dev_range_ok (entry d)"
    and req: "request_ok qmax qb" and s: "qdma_submit_to_free_list [] d fl = (d1, fl1, al1)"
  obtains (zero) "qmax = 0" "qdma_request_q_resource [] d qmax qb fl = (0, d1, fl1, [])"
      "total_q (entry d1) = 0"
  | (granted) d' fl' where "0 < qmax" "qdma_request_q_resource [] d qmax qb fl = (0, d', fl', [])"
      "total_q (entry d') = qmax" "\<exists>e\<in>set fl1. qmax \<le> total_q e"
      "(\<exists>e\<in>set fl1. contains qb qmax e) \<Longrightarrow> qbase (entry d') = qb"
  | (refused) d' fl' al' where "0 < qmax"
      "qdma_request_q_resource [] d qmax qb fl = (-12, d', fl', al')"
      "\<forall>e\<in>set fl1. total_q e < qmax" "total_q (entry d') = total_q (entry d)"
      "0 < total_q (entry d) \<Longrightarrow> entry d' = entry d"
proof (cases "qmax = 0")
  case True
  then show ?thesis
    using zero submit_no_failure [OF s] s by (simp add: qdma_request_q_resource_def)
next
  case False
  with req have pos: "0 < qmax" by (simp add: request_ok_def)
  note sub = submit_ok [OF s ok dev] and nof = submit_no_failure [OF s]
  then have ok1: "\<forall>e\<in>set fl1. range_ok e" by blast
  show ?thesis
  proof (cases rule: get_node_cases [OF ok1 req])
    case (1 k fl')
    then have "\<exists>e\<in>set fl1. qmax \<le> total_q e" using contains_total by blast
    with 1 show ?thesis
      using nof s False pos
      by (intro granted [of "fst (take_node d1 k fl')" "snd (take_node d1 k fl')"])
         (auto simp: qdma_request_q_resource_def take_node_def granted_def)
  next
    case (2 k fl' e)
    then show ?thesis
      using nof s False pos
      by (intro granted [of "fst (take_node d1 k fl')" "snd (take_node d1 k fl')"])
         (auto simp: qdma_request_q_resource_def take_node_def granted_def)
  next
    case 3
    note none1 = 3
    show ?thesis
    proof (cases rule: get_node_cases [OF ok1 dev_entry_request_ok [OF dev]])
      case (1 k fl')
      then show ?thesis
        using nof s False pos none1
        by (intro refused [of "fst (take_node d1 k fl')" "snd (take_node d1 k fl')" "[]"])
           (auto simp: qdma_request_q_resource_def take_node_def granted_def)
    next
      case (2 k fl' e)
      then have "\<not> 0 < total_q (entry d)" using submit_contains [OF s ok dev] by blast
      with 2 show ?thesis
        using nof s False pos none1
        by (intro refused [of "fst (take_node d1 k fl')" "snd (take_node d1 k fl')" "[]"])
           (auto simp: qdma_request_q_resource_def take_node_def granted_def)
    next
      case 3
      then have "\<not> 0 < total_q (entry d)" using submit_contains [OF s ok dev] by blast
      moreover have "0 \<le> total_q (entry d)" using dev by (auto simp: dev_range_ok_def range_ok_def)
      ultimately show ?thesis
        using nof s False pos none1 3
        by (intro refused [of "d1\<lparr>entry := no_queues\<rparr>" fl1 "[]"])
           (auto simp: qdma_request_q_resource_def no_queues_def)
    qed
  qed
qed

lemma after_dev_update:
  assumes m: "qdma_get_master_resource_entry s idx = Some m"
    and d: "qdma_get_dev_entry s idx func = Some d" and f: "func_id d' = func"
  shows "qdma_dev_qinfo_get (set_master idx (\<lambda>m. set_dev func d' (m\<lparr>free_list := fl\<rparr>)) s) idx func =
    Inr (qbase (entry d'), total_q (entry d'))"
proof -
  obtain pre post where ml: "master_resource_list s = pre @ m # post" "dma_device_index m = idx"
    "\<forall>m'\<in>set pre. dma_device_index m' \<noteq> idx"
    using get_master_split [OF m] by blast
  obtain dpre dpost where dl: "dev_list m = dpre @ d # dpost" "func_id d = func"
    "\<forall>d'\<in>set dpre. func_id d' \<noteq> func"
    using get_dev_split [OF m d] by blast
  let ?s = "set_master idx (\<lambda>m. set_dev func d' (m\<lparr>free_list := fl\<rparr>)) s"
  have "qdma_get_master_resource_entry ?s idx = Some (m\<lparr>dev_list := dpre @ d' # dpost, free_list := fl\<rparr>)"
    using ml set_dev_split(1) [OF dl]
    by (simp add: qdma_get_master_resource_entry_def set_master_def update_first_split find_skip)
  then show ?thesis
    using dl f by (simp add: qdma_dev_qinfo_get_def qdma_get_dev_entry_def find_skip)
qed

section \<open>Order of the free list\<close>

text \<open>
  Each range ends where the next begins or before; strictly before after de-fragmentation.
  The order is kept as long as the ranges that are given back are owned by nobody else.
\<close>

definition before :: "qdma_resource_entry \<Rightarrow> qdma_resource_entry \<Rightarrow> bool" where
  "before a b \<longleftrightarrow> qbase a + total_q a \<le> qbase b"

definition apart :: "qdma_resource_entry \<Rightarrow> qdma_resource_entry \<Rightarrow> bool" where
  "apart a b \<longleftrightarrow> qbase a + total_q a < qbase b"

lemma disjoint_before:
  assumes "range_ok a" "range_ok b" "\<forall>q. \<not> (has_queue a q \<and> has_queue b q)" "qbase a \<le> qbase b"
  shows "before a b"
  using assms(1,2,4) assms(3) [rule_format, of "qbase b"]
  by (auto simp: range_ok_def has_queue_def before_def)

lemma insert_free_sorted:
  assumes "range_ok e" "\<forall>x\<in>set fl. range_ok x" "sorted_wrt before fl"
    "\<forall>x\<in>set fl. \<forall>q. \<not> (has_queue x q \<and> has_queue e q)"
  shows "sorted_wrt before (insert_free e fl)"
  using assms
proof (induction e fl rule: insert_free.induct)
  case (2 e x xs)
  have dis: "\<forall>q. \<not> (has_queue x q \<and> has_queue e q)" and rx: "range_ok x"
    using 2(3,5) by simp_all
  show ?case
  proof (cases "qbase x > qbase e")
    case True
    then have ex: "before e x" using disjoint_before [OF 2(2) rx] dis by auto
    have "before e y" if "y \<in> set xs" for y
    proof -
      have "before x y" "range_ok y" using that 2(3,4) by auto
      with ex rx show ?thesis by (auto simp: before_def range_ok_def)
    qed
    with ex True 2(4) show ?thesis by auto
  next
    case False
    then have xe: "before x e" using disjoint_before [OF rx 2(2) dis] by simp
    show ?thesis
    proof (cases "xs = []")
      case True
      with False xe show ?thesis by simp
    next
      case ne: False
      have "sorted_wrt before (insert_free e xs)" using 2(1) [OF False ne] 2 by simp
      moreover have "\<forall>y\<in>set (insert_free e xs). before x y"
        using insert_free_ok [of e xs 0] ne xe 2(4) by auto
      ultimately show ?thesis using False ne by simp
    qed
  qed
qed simp

lemma merge_from_apart:
  assumes "range_ok s" "\<forall>e\<in>set ns. range_ok e" "sorted_wrt before (s # ns)"
  shows "sorted_wrt apart (merge_from s ns) \<and> (\<forall>e\<in>set (merge_from s ns). qbase s \<le> qbase e)"
  using assms
proof (induction s ns rule: merge_from.induct)
  case (2 s n ns)
  then have ok: "range_ok s" "range_ok n" "\<forall>e\<in>set ns. range_ok e" by simp_all
  have sn: "before s n" "sorted_wrt before (n # ns)" using 2(5) by simp_all
  have w: "wrap32 (qbase s + total_q s) = qbase s + total_q s" "wrap32 (qbase n) = qbase n"
    using ok by (simp_all add: range_ok_def wrap32_id)
  show ?case
  proof (cases "wrap32 (qbase s + total_q s) = wrap32 (qbase n)")
    case True
    then have adj: "qbase s + total_q s = qbase n" using w by simp
    have m: "wrap32 (total_q s + total_q n) = total_q s + total_q n"
      using ok adj by (simp add: range_ok_def wrap32_id)
    let ?m = "s\<lparr>total_q := total_q s + total_q n\<rparr>"
    have "range_ok ?m" using ok adj by (simp add: range_ok_def)
    moreover have "sorted_wrt before (?m # ns)"
      using sn(2) adj by (auto simp: before_def)
    ultimately show ?thesis
      using True 2(1) [OF True, unfolded m] ok(3) m by simp
  next
    case False
    then have lt: "apart s n" using sn(1) w by (simp add: before_def apart_def)
    note IH = 2(2) [OF False ok(2,3) sn(2)]
    have "\<forall>e\<in>set (merge_from n ns). apart s e" using IH lt by (auto simp: apart_def)
    moreover have "\<forall>e\<in>set (merge_from n ns). qbase s \<le> qbase e"
      using IH lt ok(1) by (force simp: apart_def range_ok_def)
    ultimately show ?thesis using False IH by simp
  qed
qed simp

text \<open>A strictly separated list that owns exactly the queues of one range is that range.\<close>

lemma apart_cover:
  assumes ok: "\<forall>e\<in>set fl. range_ok e" and ap: "sorted_wrt apart fl" and pos: "0 < t"
    and cov: "\<forall>q. owners fl q = of_bool (b \<le> q \<and> q < b + t)"
  shows "fl = [\<lparr>qbase = b, total_q = t\<rparr>]"
proof (cases fl)
  case Nil
  then show ?thesis using cov [rule_format, of b] pos by simp
next
  case (Cons e es)
  have e: "range_ok e" and es: "\<forall>x\<in>set es. apart e x" using ok ap Cons by simp_all
  have own: "\<exists>x\<in>set fl. has_queue x q" if "b \<le> q" "q < b + t" for q
    using cov [rule_format, of q] that owners_pos_iff [of fl q] by simp
  have le: "b \<le> q \<and> q < b + t" if "x \<in> set fl" "has_queue x q" for x q
    using cov [rule_format, of q] owners_pos [OF that] by (auto split: if_splits)
  have be: "qbase e = b"
  proof -
    have "b \<le> qbase e" using le [of e "qbase e"] Cons range_ok_first [OF e] by simp
    moreover have "qbase e \<le> b"
    proof -
      obtain x where "x \<in> set fl" "has_queue x b" using own [of b] pos by auto
      then show ?thesis using es Cons e by (auto simp: has_queue_def apart_def range_ok_def)
    qed
    ultimately show ?thesis by simp
  qed
  have te: "qbase e + total_q e = b + t"
  proof (rule antisym)
    show "qbase e + total_q e \<le> b + t"
      using le [of e "qbase e + total_q e - 1"] Cons range_ok_last [OF e] by simp
    show "b + t \<le> qbase e + total_q e"
    proof (rule ccontr)
      assume "\<not> b + t \<le> qbase e + total_q e"
      then obtain x where "x \<in> set fl" "has_queue x (qbase e + total_q e)"
        using own [of "qbase e + total_q e"] be e by (auto simp: range_ok_def)
      then show False using es Cons by (auto simp: has_queue_def apart_def)
    qed
  qed
  have "es = []"
  proof (rule ccontr)
    assume "es \<noteq> []"
    then obtain x where x: "x \<in> set es" by (cases es) auto
    then have "range_ok x" "apart e x" using ok es Cons by auto
    then show False using le [of x "qbase x"] x Cons range_ok_first [of x] te by (simp add: apart_def)
  qed
  then show ?thesis using Cons be te by simp
qed

lemma apart_before: "sorted_wrt apart fl \<Longrightarrow> sorted_wrt before fl"
  by (erule sorted_wrt_mono_rel [rotated]) (simp add: apart_def before_def)

text \<open>A list in which no queue has two owners, together with an entry that is not free.\<close>

lemma submit_sorted:
  assumes s: "qdma_submit_to_free_list al d fl = (d', fl', al')" "\<forall>e\<in>set fl. range_ok e"
    "dev_range_ok (entry d)" "sorted_wrt before fl"
    and own: "\<forall>q. owners fl q + of_bool (has_queue (entry d) q) \<le> 1"
  shows "sorted_wrt before fl' \<and> (al = [] \<longrightarrow> 0 < total_q (entry d) \<longrightarrow> sorted_wrt apart fl')"
proof (cases "total_q (entry d) = 0 \<or> \<not> fst (qdma_calloc al)")
  case True
  then show ?thesis
    using s by (auto simp: qdma_submit_to_free_list_def split: prod.splits if_splits)
next
  case False
  define fl1 where "fl1 = (if fl = [] then [entry d] else insert_free (entry d) fl)"
  have e: "range_ok (entry d)" using False s(3) by (simp add: dev_range_ok_def)
  have dis: "\<forall>x\<in>set fl. \<forall>q. \<not> (has_queue x q \<and> has_queue (entry d) q)"
  proof (intro ballI allI notI)
    fix x q assume "x \<in> set fl" "has_queue x q \<and> has_queue (entry d) q"
    then show False using own [rule_format, of q] owners_pos [of x fl q] by simp
  qed
  have "sorted_wrt before fl1" "\<forall>x\<in>set fl1. range_ok x"
    using insert_free_sorted [OF e s(2,4) dis] insert_free_ok [of "entry d" fl 0] e s(2)
    by (auto simp: fl1_def split: if_splits)
  then have "sorted_wrt apart (merge_free fl1)"
    using merge_from_apart by (cases fl1) auto
  moreover have "fl' = merge_free fl1"
    using False s(1)
    by (auto simp: qdma_submit_to_free_list_def fl1_def split: prod.splits if_splits)
  ultimately show ?thesis using apart_before by simp
qed

lemma sorted_wrt_before_append:
  "sorted_wrt before (pre @ ns @ post) \<longleftrightarrow>
   sorted_wrt before pre \<and> sorted_wrt before ns \<and> sorted_wrt before post \<and>
   (\<forall>a\<in>set pre. \<forall>b\<in>set ns \<union> set post. before a b) \<and> (\<forall>a\<in>set ns. \<forall>b\<in>set post. before a b)"
  by (auto simp: sorted_wrt_append)

text \<open>Replacing an entry by pieces of it keeps the order.\<close>

lemma pieces_sorted:
  assumes "sorted_wrt before (pre @ n # post)" "sorted_wrt before ns"
    "\<forall>x\<in>set ns. qbase n \<le> qbase x \<and> qbase x + total_q x \<le> qbase n + total_q n"
  shows "sorted_wrt before (pre @ ns @ post)"
  using assms by (auto simp: sorted_wrt_append before_def) (meson order_trans)+

lemma fragment_sorted:
  assumes k: "k < length fl" and ok: "\<forall>e\<in>set fl. range_ok e" and sorted: "sorted_wrt before fl"
    and sub: "qbase (fl ! k) \<le> qb" "0 \<le> qmax" "qb + qmax \<le> qbase (fl ! k) + total_q (fl ! k)"
    and r: "fragment_free_list al qmax qb k fl = (r, fl', al')"
  shows "sorted_wrt before fl'"
proof -
  define pre post where "pre = take k fl" and "post = drop (Suc k) fl"
  obtain b t where n: "fl ! k = \<lparr>qbase = b, total_q = t\<rparr>"
    by (cases "fl ! k") auto
  have fl: "fl = pre @ \<lparr>qbase = b, total_q = t\<rparr> # post"
    using k n id_take_nth_drop [OF k] by (simp add: pre_def post_def)
  have b: "0 \<le> b" "0 < t" "b + t < 2 ^ 31"
    using ok by (auto simp: fl range_ok_def)
  have sub': "b \<le> qb" "0 \<le> qmax" "qb + qmax \<le> b + t"
    using sub n by simp_all
  have w: "wrap32 (t - qmax) = t - qmax" "int32 (b + qmax) = b + qmax" "wrap32 qmax = qmax"
    "wrap32 (qb - b) = qb - b" "wrap32 (t - (qb - b)) = b + t - qb" "int32 (qb + qmax) = qb + qmax"
    "wrap32 (b + t - qb - qmax) = b + t - qb - qmax"
    using b sub' by (simp_all add: rm_simps)
  have "fl' = fl \<or> (\<exists>ns. fl' = pre @ ns @ post \<and> sorted_wrt before ns \<and>
      (\<forall>x\<in>set ns. b \<le> qbase x \<and> qbase x + total_q x \<le> b + t))"
    using r sub'
    by (auto simp: fragment_free_list_def Let_def n w before_def
        simp flip: pre_def post_def split: if_splits prod.splits)
  then show ?thesis
    using sorted pieces_sorted [of pre "\<lparr>qbase = b, total_q = t\<rparr>" post] by (auto simp: fl)
qed

lemma get_node_sorted:
  assumes ok: "\<forall>e\<in>set fl. range_ok e" and sorted: "sorted_wrt before fl"
    and req: "request_ok qmax qb" and r: "qdma_get_resource_node al qmax qb fl = (r, fl', al')"
  shows "sorted_wrt before fl'"
proof (cases "if qb \<ge> 0 then find_at qmax qb 0 fl else None")
  case (Some k)
  then have k: "0 \<le> qb" "find_at qmax qb 0 fl = Some k" by (simp_all split: if_splits)
  then have "fragment_free_list al qmax qb k fl = (r, fl', al')"
    using r by (simp add: qdma_get_resource_node_def)
  with find_at_fits [OF k(2) ok req k(1)] req show ?thesis
    by (intro fragment_sorted [OF _ ok sorted, of k qb qmax]) (auto simp: request_ok_def)
next
  case None
  show ?thesis
  proof (cases "best_fit qmax 0 None fl")
    case None2: None
    then show ?thesis using r sorted by (simp only: qdma_get_resource_node_def None option.case) simp
  next
    case (Some kn)
    then obtain k n where kn: "best_fit qmax 0 None fl = Some (k, n)" by (cases kn) simp
    with best_fit_found [of qmax fl] have "k < length fl" "fl ! k = n" "qmax \<le> total_q n"
      by (simp_all add: best_so_far_def)
    moreover have "fragment_free_list al qmax (qbase n) k fl = (r, fl', al')"
      using r by (simp only: qdma_get_resource_node_def None option.case kn split)
    ultimately show ?thesis
      using req by (intro fragment_sorted [OF _ ok sorted, of k "qbase n" qmax])
        (auto simp: request_ok_def)
  qed
qed

lemma sorted_others: "sorted_wrt before fl \<Longrightarrow> k < length fl \<Longrightarrow> sorted_wrt before (others k fl)"
  using id_take_nth_drop [of k fl] by (simp add: others_def sorted_wrt_append) (metis sorted_wrt_append
      sorted_wrt.simps(2) list.set_intros(2))

lemma take_node_sorted:
  assumes "granted qmax (Some k, fl') fl" "sorted_wrt before fl'"
  shows "sorted_wrt before (snd (take_node d k fl'))"
  using assms sorted_others [of fl' k] by (simp add: granted_def take_node_def others_def)

lemma request_sorted:
  assumes ok: "\<forall>e\<in>set fl. range_ok e" and dev: "dev_range_ok (entry d)"
    and req: "request_ok qmax qb" and sorted: "sorted_wrt before fl"
    and own: "\<forall>q. owners fl q + of_bool (has_queue (entry d) q) \<le> 1"
    and r: "qdma_request_q_resource al d qmax qb fl = (rv, d', fl', al')"
  shows "sorted_wrt before fl'"
proof -
  obtain d1 fl1 al1 where s: "qdma_submit_to_free_list al d fl = (d1, fl1, al1)"
    by (cases "qdma_submit_to_free_list al d fl") auto
  have ok1: "\<forall>e\<in>set fl1. range_ok e" and s1: "sorted_wrt before fl1"
    using submit_ok [OF s ok dev] submit_sorted [OF s ok dev sorted own] by blast+
  obtain r2 fl2 al2 where g: "qdma_get_resource_node al1 qmax qb fl1 = (r2, fl2, al2)"
    by (cases "qdma_get_resource_node al1 qmax qb fl1") auto
  have gr: "granted qmax (r2, fl2) fl1" and s2: "sorted_wrt before fl2"
    using get_node_ok [OF ok1 req, of al1] get_node_sorted [OF ok1 s1 req g] g by simp_all
  show ?thesis
  proof (cases "qmax = 0")
    case True
    then show ?thesis using r s s1 by (simp add: qdma_request_q_resource_def)
  next
    case False
    show ?thesis
    proof (cases r2)
      case (Some k)
      then have "fl' = snd (take_node d1 k fl2)"
        using r s g False by (simp add: qdma_request_q_resource_def split_beta)
      then show ?thesis using take_node_sorted gr s2 Some by blast
    next
      case None
      obtain r3 fl3 al3 where g3: "qdma_get_resource_node al2 (total_q (entry d)) (qbase (entry d)) fl2 =
          (r3, fl3, al3)"
        by (cases "qdma_get_resource_node al2 (total_q (entry d)) (qbase (entry d)) fl2") auto
      have ok2: "\<forall>e\<in>set fl2. range_ok e" using gr None by (simp add: granted_def)
      have gr3: "granted (total_q (entry d)) (r3, fl3) fl2" and s3: "sorted_wrt before fl3"
        using get_node_ok [OF ok2 dev_entry_request_ok [OF dev], of al2]
          get_node_sorted [OF ok2 s2 dev_entry_request_ok [OF dev] g3] g3 by simp_all
      have "fl' = (case r3 of None \<Rightarrow> fl3 | Some k \<Rightarrow> snd (take_node d1 k fl3))"
        using r s g g3 False None by (cases r3) (simp_all add: qdma_request_q_resource_def split_beta)
      then show ?thesis using take_node_sorted gr3 s3 by (cases r3) auto
    qed
  qed
qed

section \<open>The order is kept by every step\<close>

definition rm_sorted :: "qdma_rm \<Rightarrow> bool" where
  "rm_sorted s \<longleftrightarrow> (\<forall>m\<in>set (master_resource_list s). sorted_wrt before (free_list m))"

lemma rm_sorted_set_master:
  assumes "rm_sorted s" "qdma_get_master_resource_entry s idx = Some m" "sorted_wrt before (free_list (f m))"
  shows "rm_sorted (set_master idx f s)"
proof -
  obtain pre post where "master_resource_list s = pre @ m # post" "dma_device_index m = idx"
    "\<forall>m'\<in>set pre. dma_device_index m' \<noteq> idx"
    using get_master_split [OF assms(2)] by blast
  then show ?thesis
    using assms(1,3) by (simp add: rm_sorted_def set_master_def update_first_split)
qed

lemma rm_sorted_master:
  "rm_sorted s \<Longrightarrow> qdma_get_master_resource_entry s idx = Some m \<Longrightarrow> sorted_wrt before (free_list m)"
  by (auto simp: rm_sorted_def elim!: get_master_split)

lemma dev_free_disjoint:
  assumes "rm_ok l s" "qdma_get_master_resource_entry s idx = Some m" "qdma_get_dev_entry s idx func = Some d"
  shows "\<forall>q. owners (free_list m) q + of_bool (has_queue (entry d) q) \<le> 1"
    "\<forall>e\<in>set (free_list m). range_ok e" "dev_range_ok (entry d)"
proof -
  have m: "master_ok l m" using master_of_rm_ok [OF assms(1,2)] by blast
  have d: "d \<in> set (dev_list m)" using get_dev_split [OF assms(2,3)] by (metis in_set_conv_decomp)
  show "\<forall>q. owners (free_list m) q + of_bool (has_queue (entry d) q) \<le> 1"
  proof
    fix q
    have "of_bool (has_queue (entry d) q) \<le> owners (map entry (dev_list m)) q"
      using owners_pos [of "entry d" "map entry (dev_list m)" q] d by (cases "has_queue (entry d) q") auto
    moreover have "queue_owners m q \<le> 1" using m by (auto simp: master_ok_def intro: order_trans)
    ultimately show "owners (free_list m) q + of_bool (has_queue (entry d) q) \<le> 1"
      by (simp add: queue_owners_def)
  qed
  show "\<forall>e\<in>set (free_list m). range_ok e" "dev_range_ok (entry d)"
    using m d by (simp_all add: master_ok_def dev_ok_def)
qed

lemma dev_found_cases:
  obtains "qdma_get_master_resource_entry s idx = None"
    | m where "qdma_get_master_resource_entry s idx = Some m" "qdma_get_dev_entry s idx func = None"
    | m d where "qdma_get_master_resource_entry s idx = Some m" "qdma_get_dev_entry s idx func = Some d"
  by fastforce

lemma rm_step_sorted:
  assumes "rm_step l s s'" "rm_ok l s" "rm_sorted s"
  shows "rm_sorted s'"
  using assms(1)
proof (cases rule: rm_step.cases)
  case (step_create al q_base q_total b0 b1)
  then show ?thesis
    using assms(3)
    by (auto simp: rm_sorted_def qdma_master_resource_create_def Let_def split: option.split prod.split)
next
  case (step_destroy idx)
  show ?thesis
  proof (cases "qdma_get_master_resource_entry s idx")
    case None
    then show ?thesis using step_destroy assms(3) by (simp add: qdma_master_resource_destroy_def)
  next
    case (Some m)
    obtain pre post where "master_resource_list s = pre @ m # post" "dma_device_index m = idx"
      "\<forall>m'\<in>set pre. dma_device_index m' \<noteq> idx"
      using get_master_split [OF Some] by blast
    then show ?thesis using step_destroy Some assms(3)
      by (auto simp: qdma_master_resource_destroy_def remove_first_split rm_sorted_def)
  qed
next
  case (step_dev_create al idx func)
  show ?thesis
  proof (cases rule: dev_found_cases [where s = s and idx = idx and func = func])
    case (2 m)
    then have "rm_sorted (set_master idx (\<lambda>m. m\<lparr>dev_list := dev_list m @ [new_dev func]\<rparr>) s)"
      using rm_sorted_set_master [OF assms(3) 2(1)] rm_sorted_master [OF assms(3) 2(1)] by simp
    with 2 show ?thesis using step_dev_create assms(3)
      by (auto simp: qdma_dev_entry_create_def new_dev_def split: prod.split)
  qed (use step_dev_create assms(3) in \<open>simp_all add: qdma_dev_entry_create_def\<close>)
next
  case (step_dev_destroy al idx func)
  show ?thesis
  proof (cases rule: dev_found_cases [where s = s and idx = idx and func = func])
    case (3 m d)
    obtain d' fl al' where r: "qdma_submit_to_free_list al d (free_list m) = (d', fl, al')"
      by (cases "qdma_submit_to_free_list al d (free_list m)") auto
    note dis = dev_free_disjoint [OF assms(2) 3]
    have "sorted_wrt before fl"
      using submit_sorted [OF r dis(2,3) rm_sorted_master [OF assms(3) 3(1)] dis(1)] by blast
    then show ?thesis using step_dev_destroy 3 r rm_sorted_set_master [OF assms(3) 3(1)]
      by (simp add: qdma_dev_entry_destroy_def)
  qed (use step_dev_destroy assms(3) in \<open>simp_all add: qdma_dev_entry_destroy_def\<close>)
next
  case (step_dev_update al qmax qb idx func)
  show ?thesis
  proof (cases rule: dev_found_cases [where s = s and idx = idx and func = func])
    case (3 m d)
    obtain rv d' fl al' where r: "qdma_request_q_resource al d qmax qb (free_list m) = (rv, d', fl, al')"
      by (cases "qdma_request_q_resource al d qmax qb (free_list m)") auto
    note dis = dev_free_disjoint [OF assms(2) 3]
    have "sorted_wrt before fl"
      using request_sorted [OF dis(2,3) step_dev_update(3) rm_sorted_master [OF assms(3) 3(1)] dis(1) r] .
    then show ?thesis using step_dev_update 3 r rm_sorted_set_master [OF assms(3) 3(1)] assms(3)
      by (auto simp: qdma_dev_update_def set_dev_def)
  qed (use step_dev_update assms(3) in \<open>simp_all add: qdma_dev_update_def\<close>)
next
  case (step_increment idx func t)
  show ?thesis
  proof (cases rule: dev_found_cases [where s = s and idx = idx and func = func])
    case (3 m d)
    then show ?thesis
      using step_increment assms(3) rm_sorted_set_master [OF assms(3) 3(1)] rm_sorted_master [OF assms(3) 3(1)]
      by (auto simp: qdma_dev_increment_active_queue_def set_dev_def split: option.split)
  qed (use step_increment assms(3) in \<open>simp_all add: qdma_dev_increment_active_queue_def\<close>)
next
  case (step_decrement idx func t)
  show ?thesis
  proof (cases rule: dev_found_cases [where s = s and idx = idx and func = func])
    case (3 m d)
    then show ?thesis
      using step_decrement assms(3) rm_sorted_set_master [OF assms(3) 3(1)] rm_sorted_master [OF assms(3) 3(1)]
      by (auto simp: qdma_dev_decrement_active_queue_def set_dev_def split: option.split)
  qed (use step_decrement assms(3) in \<open>simp_all add: qdma_dev_decrement_active_queue_def\<close>)
qed

lemma rm_reach_sorted: "rm_reach l s \<Longrightarrow> rm_sorted s"
proof (induction rule: rm_reach.induct)
  case reach_init
  show ?case by (simp add: rm_sorted_def rm_init_def)
next
  case (reach_step s s')
  then show ?case using rm_step_sorted rm_reach_ok by blast
qed

section \<open>Properties\<close>

text \<open>C6. Choice of a range, when no allocation fails: a free range that contains the requested
  base and size is cut to exactly that; failing that, the base is that of a smallest free range
  which is large enough; and the search fails only if every free range is too small. The granted
  entry has the requested size, the remaining ranges are good ones, and the free list as a whole
  still holds the same queues.\<close>

theorem get_resource_node_spec:
  assumes "\<forall>e\<in>set fl. range_ok e" "request_ok qmax qb"
  shows "case qdma_get_resource_node [] qmax qb fl of
      (None, fl', _) \<Rightarrow> fl' = fl \<and> list_all (\<lambda>e. total_q e < qmax) fl
    | (Some k, fl', _) \<Rightarrow> granted qmax (Some k, fl') fl \<and>
        (if list_ex (contains qb qmax) fl then qbase (fl' ! k) = qb
         else list_ex (\<lambda>e. qbase (fl' ! k) = qbase e \<and> qmax \<le> total_q e \<and>
           list_all (\<lambda>e'. total_q e' < qmax \<or> total_q e \<le> total_q e') fl) fl)"
proof (cases rule: get_node_cases [OF assms])
  case (2 k fl' e)
  then show ?thesis by (auto simp: list_ex_iff list_all_iff not_less intro!: bexI [of _ e])
qed (auto simp: list_ex_iff list_all_iff)

theorem get_resource_node_spec_witness:
  "case qdma_get_resource_node [] 2 5 [\<lparr>qbase = 0, total_q = 3\<rparr>, \<lparr>qbase = 4, total_q = 8\<rparr>] of
     (Some k, fl', _) \<Rightarrow> qbase (fl' ! k) = 5 | _ \<Rightarrow> False"
proof -
  have "\<forall>e\<in>set [\<lparr>qbase = 0, total_q = 3\<rparr>, \<lparr>qbase = 4, total_q = 8\<rparr>]. range_ok e" "request_ok 2 5"
    by (simp_all add: range_ok_def request_ok_def)
  from get_resource_node_spec [OF this] show ?thesis
    by (auto simp: contains_def split: option.splits prod.splits)
qed

lemma dev_update_outcome:
  assumes "rm_ok l s" "request_ok qmax qb" "qdma_get_master_resource_entry s idx = Some m"
    "qdma_get_dev_entry s idx func = Some d"
    "active_h2c_qcnt d = 0" "active_c2h_qcnt d = 0" "active_cmpt_qcnt d = 0"
  shows "case qdma_dev_update [] s idx func qmax qb of (rv, base, s', _) \<Rightarrow>
    (rv = 0 \<longleftrightarrow> qmax = 0 \<or>
       list_ex (\<lambda>e. qmax \<le> total_q e) (fst (snd (qdma_submit_to_free_list [] d (free_list m))))) \<and>
    (if rv = 0 then qdma_dev_qinfo_get s' idx func = Inr (base, qmax)
     else rv = neg_err QDMA_ERR_RM_NO_QUEUES_LEFT \<and>
       (total_q (entry d) = 0 \<or> qdma_dev_qinfo_get s' idx func = qdma_dev_qinfo_get s idx func))"
proof -
  note dis = dev_free_disjoint [OF assms(1) assms(3,4)]
  obtain d1 fl1 al1 where s: "qdma_submit_to_free_list [] d (free_list m) = (d1, fl1, al1)"
    by (cases "qdma_submit_to_free_list [] d (free_list m)") auto
  obtain rv d' fl al where r: "qdma_request_q_resource [] d qmax qb (free_list m) = (rv, d', fl, al)"
    by (cases "qdma_request_q_resource [] d qmax qb (free_list m)") auto
  let ?s = "set_master idx (\<lambda>m. set_dev func d' (m\<lparr>free_list := fl\<rparr>)) s"
  have u: "qdma_dev_update [] s idx func qmax qb = (rv, qbase (entry d'), ?s, al)"
    using assms r by (simp add: qdma_dev_update_def)
  have "d' = d\<lparr>entry := entry d'\<rparr>"
    using request_resource_ok [OF dis(2,3) assms(2), of "[]"] r by simp
  then have "func_id d' = func"
    using get_dev_split [OF assms(3,4)]
    by (metis qdma_dev_entry.select_convs(1) qdma_dev_entry.surjective qdma_dev_entry.update_convs(5))
  then have q: "qdma_dev_qinfo_get ?s idx func = Inr (qbase (entry d'), total_q (entry d'))"
    using after_dev_update [OF assms(3,4)] by blast
  have q0: "qdma_dev_qinfo_get s idx func = Inr (qbase (entry d), total_q (entry d))"
    using assms(3,4) by (simp add: qdma_dev_qinfo_get_def)
  have pos: "0 \<le> total_q (entry d)" using dis(3) by (auto simp: dev_range_ok_def range_ok_def)
  show ?thesis
  proof (cases rule: request_cases [OF dis(2,3) assms(2) s])
    case 1
    then show ?thesis using r u q by simp
  next
    case (2 d'' fl'')
    then show ?thesis using r u q s by (simp add: list_ex_iff)
  next
    case (3 d'' fl'' al'')
    have "d' = d''" using 3(2) r by simp
    then have "total_q (entry d) = 0 \<or> entry d' = entry d"
      using 3(5) pos by (cases "total_q (entry d) = 0") simp_all
    then have "total_q (entry d) = 0 \<or> qdma_dev_qinfo_get ?s idx func = qdma_dev_qinfo_get s idx func"
      using q q0 by auto
    with 3(1,2,3) r u s show ?thesis by (auto simp: list_ex_iff)
  qed
qed

text \<open>C3. A request for queues on a reachable state, for a function without active queues and with
  no failing allocation: it is granted exactly when the number is zero or some free range, after
  the function's own queues are given back, is large enough, and then the function has that many
  queues from the base that is reported; otherwise it returns -QDMA_ERR_RM_NO_QUEUES_LEFT and the
  function keeps the range it had.\<close>

theorem dev_update_spec:
  assumes "rm_reach l s" "request_ok qmax qb" "qdma_get_master_resource_entry s idx = Some m"
    "qdma_get_dev_entry s idx func = Some d"
    "active_h2c_qcnt d = 0" "active_c2h_qcnt d = 0" "active_cmpt_qcnt d = 0"
  shows "case qdma_dev_update [] s idx func qmax qb of (rv, base, s', _) \<Rightarrow>
    (rv = 0 \<longleftrightarrow> qmax = 0 \<or>
       list_ex (\<lambda>e. qmax \<le> total_q e) (fst (snd (qdma_submit_to_free_list [] d (free_list m))))) \<and>
    (if rv = 0 then qdma_dev_qinfo_get s' idx func = Inr (base, qmax)
     else rv = neg_err QDMA_ERR_RM_NO_QUEUES_LEFT \<and>
       (total_q (entry d) = 0 \<or> qdma_dev_qinfo_get s' idx func = qdma_dev_qinfo_get s idx func))"
  by (rule dev_update_outcome [OF rm_reach_ok [OF assms(1)] assms(2-7)])

theorem dev_update_spec_witness:
  "case qdma_dev_update [] sample_two 0 1 12 (-1) of (rv, base, s', _) \<Rightarrow>
     rv = neg_err QDMA_ERR_RM_NO_QUEUES_LEFT \<and>
     qdma_dev_qinfo_get s' 0 1 = qdma_dev_qinfo_get sample_two 0 1"
proof -
  have m: "qdma_get_master_resource_entry sample_two 0 = Some (hd (master_resource_list sample_two))"
    "qdma_get_dev_entry sample_two 0 1 = Some (new_dev 1\<lparr>entry := \<lparr>qbase = 0, total_q = 4\<rparr>\<rparr>)"
    by (simp_all add: sample_two_eq rm_eval new_dev_def)
  show ?thesis
    using dev_update_spec [OF sample_reach(4) _ m, of 12 "-1"]
    by (simp add: request_ok_def new_dev_def sample_two_eq qdma_submit_to_free_list_def wrap32_def
        split: prod.splits if_splits)
qed

text \<open>C9. In every reachable state, even after failed allocations, the free list of each resource is
  in order: its ranges are sorted and none overlaps a later one.\<close>

theorem free_list_ordered:
  assumes "rm_reach l s" "m \<in> set (master_resource_list s)"
  shows "sorted_wrt before (free_list m)"
  using rm_reach_sorted [OF assms(1)] assms(2) by (simp add: rm_sorted_def)

theorem free_list_ordered_witness:
  "sorted_wrt before (free_list (hd (master_resource_list sample_two)))"
  by (rule free_list_ordered [OF sample_reach(4)]) (simp add: sample_two_eq)

lemma destroyed_list:
  assumes m: "qdma_get_master_resource_entry s idx = Some m"
    and d: "qdma_get_dev_entry s idx func = Some d"
    and r: "qdma_submit_to_free_list al d (free_list m) = (d', fl, al')"
  shows "map_option free_list
    (qdma_get_master_resource_entry (fst (qdma_dev_entry_destroy al s idx func)) idx) = Some fl"
proof -
  obtain pre post where ml: "master_resource_list s = pre @ m # post" "dma_device_index m = idx"
    "\<forall>m'\<in>set pre. dma_device_index m' \<noteq> idx"
    using get_master_split [OF m] by blast
  show ?thesis
    using m d r ml
    by (simp add: qdma_dev_entry_destroy_def set_master_def update_first_split find_skip)
       (simp add: qdma_get_master_resource_entry_def find_skip)
qed

lemma only_owner:
  assumes ds: "d \<in> set ds" "distinct (map func_id ds)"
    and others: "\<forall>d'\<in>set ds. d' \<noteq> d \<longrightarrow> total_q (entry d') = 0"
  shows "owners (map entry ds) q = of_bool (has_queue (entry d) q)"
proof -
  obtain pre post where ds': "ds = pre @ d # post" using ds(1) by (auto dest: split_list)
  have none: "owners (map entry es) q = 0" if "\<forall>d'\<in>set es. total_q (entry d') = 0" for es
    using that by (induction es) (auto simp: has_queue_def)
  have "d \<notin> set pre \<union> set post" using ds(2) ds' by auto
  then have "\<forall>d'\<in>set pre. total_q (entry d') = 0" "\<forall>d'\<in>set post. total_q (entry d') = 0"
    using others ds' by auto
  then show ?thesis using none [of pre] none [of post] by (simp add: ds')
qed

text \<open>De-fragmentation: in a run without failed allocations, removing the last function that
  holds queues leaves one free range, the whole range that the resource was created with.\<close>

theorem last_destroy_restores:
  assumes "rm_reach True s" "qdma_get_master_resource_entry s idx = Some m"
    "qdma_get_dev_entry s idx func = Some d" "0 < total_q (entry d)"
    "\<forall>d'\<in>set (dev_list m). d' \<noteq> d \<longrightarrow> total_q (entry d') = 0"
  shows "map_option free_list
      (qdma_get_master_resource_entry (fst (qdma_dev_entry_destroy [] s idx func)) idx) =
    Some [\<lparr>qbase = master_qbase m, total_q = master_total_q m\<rparr>]"
proof -
  note s = rm_reach_ok [OF assms(1)]
  have m: "master_ok True m" using master_of_rm_ok [OF s assms(2)] by blast
  have d: "d \<in> set (dev_list m)" using get_dev_split [OF assms(2,3)] by (metis in_set_conv_decomp)
  note dis = dev_free_disjoint [OF s assms(2,3)]
  obtain d' fl al where r: "qdma_submit_to_free_list [] d (free_list m) = (d', fl, al)"
    by (cases "qdma_submit_to_free_list [] d (free_list m)") auto
  have "sorted_wrt before (free_list m)"
    using rm_sorted_master [OF rm_reach_sorted [OF assms(1)] assms(2)] .
  then have "sorted_wrt apart fl" using submit_sorted [OF r dis(2,3) _ dis(1)] assms(4) by simp
  moreover have "\<forall>e\<in>set fl. range_ok e" using submit_ok [OF r dis(2,3)] by blast
  moreover have owned: "owners (free_list m) q + of_bool (has_queue (entry d) q) = of_bool (in_master m q)" for q
  proof -
    have "distinct (map func_id (dev_list m))" "queue_owners m q = of_bool (in_master m q)"
      using m unfolding master_ok_def by blast+
    then show ?thesis using only_owner [OF d _ assms(5), of q] by (simp only: queue_owners_def)
  qed
  moreover have "owners fl q = owners (free_list m) q + of_bool (has_queue (entry d) q)" for q
    using submit_ok [OF r dis(2,3), of q] submit_no_failure [OF r] by (simp add: has_queue_empty)
  moreover have "0 < master_total_q m"
  proof -
    have "has_queue (entry d) (qbase (entry d))" using assms(4) by (simp add: has_queue_def)
    then have "in_master m (qbase (entry d))"
      using owned [of "qbase (entry d)"] by (cases "in_master m (qbase (entry d))") simp_all
    then show ?thesis by (simp add: in_master_def)
  qed
  ultimately have "fl = [\<lparr>qbase = master_qbase m, total_q = master_total_q m\<rparr>]"
    by (intro apart_cover) (simp_all add: in_master_def)
  then show ?thesis using destroyed_list [OF assms(2,3) r] by simp
qed

theorem last_destroy_restores_witness:
  "map_option free_list
    (qdma_get_master_resource_entry (fst (qdma_dev_entry_destroy [] sample_one 0 1)) 0) =
   Some [\<lparr>qbase = 0, total_q = 16\<rparr>]"
proof -
  let ?d = "new_dev 1\<lparr>entry := \<lparr>qbase = 0, total_q = 4\<rparr>\<rparr>"
  let ?m = "hd (master_resource_list sample_one)"
  have e: "sample_one = \<lparr>master_resource_list = [\<lparr>dma_device_index = 0, pci_bus_start = 3,
     pci_bus_end = 4, master_total_q = 16, master_qbase = 0, dev_list = [?d, new_dev 2],
     free_list = [\<lparr>qbase = 4, total_q = 12\<rparr>], active_qcnt = 0\<rparr>], next_index = 1\<rparr>"
    by (simp add: sample_one_def sample_devs_eq rm_eval new_dev_def)
  have "qdma_get_master_resource_entry sample_one 0 = Some ?m"
    "qdma_get_dev_entry sample_one 0 1 = Some ?d" "0 < total_q (entry ?d)"
    "\<forall>d'\<in>set (dev_list ?m). d' \<noteq> ?d \<longrightarrow> total_q (entry d') = 0"
    by (simp_all add: e rm_eval new_dev_def)
  from last_destroy_restores [OF sample_reach(3) this] show ?thesis by (simp add: e)
qed

section \<open>Where the promise ends\<close>

definition sample_three :: qdma_rm where
  "sample_three = fst (snd (qdma_dev_entry_create [] sample_one 0 3))"

definition sample_wrapped :: qdma_rm where
  "sample_wrapped = fst (snd (snd (qdma_dev_update [] sample_three 0 2 4294967291 5)))"

definition sample_shared :: qdma_rm where
  "sample_shared = fst (snd (snd (qdma_dev_update [] sample_wrapped 0 3 4 0)))"

text \<open>The bound on requests is needed: base 5 with 2 ^ 32 - 5 queues is granted on a device with
  16 queues, because the end of the request wraps to zero; the rest that is put on the free list
  starts at zero again, and the next function shares queue 0 with the first.\<close>

theorem overflowing_request_shares_queues:
  "fst (qdma_dev_update [] sample_three 0 2 4294967291 5) = 0 \<and>
   qdma_dev_qinfo_get sample_wrapped 0 2 = Inr (5, 4294967291) \<and>
   fst (qdma_dev_update [] sample_wrapped 0 3 4 0) = 0 \<and>
   qdma_dev_is_queue_in_range sample_shared 0 1 0 = QDMA_DEV_Q_IN_RANGE \<and>
   qdma_dev_is_queue_in_range sample_shared 0 3 0 = QDMA_DEV_Q_IN_RANGE"
  by (simp add: sample_shared_def sample_wrapped_def sample_three_def sample_one_def
      sample_devs_eq rm_eval qdma_dev_qinfo_get_def new_dev_def)

text \<open>Counting down twice after counting up once: both calls succeed, the counter of the
  function stays at zero, and the counter of the device becomes 2 ^ 32 - 1.\<close>

theorem decrement_underflows_device:
  "let s1 = snd (qdma_dev_increment_active_queue sample_two 0 1 QDMA_DEV_Q_TYPE_H2C);
       (rv2, s2) = qdma_dev_decrement_active_queue s1 0 1 QDMA_DEV_Q_TYPE_H2C;
       (rv3, s3) = qdma_dev_decrement_active_queue s2 0 1 QDMA_DEV_Q_TYPE_H2C
   in rv2 = 0 \<and> rv3 = 0 \<and> qdma_get_active_queue_count s1 0 = 1 \<and>
      qdma_get_active_queue_count s2 0 = 0 \<and>
      qdma_get_device_active_queue_count s3 0 1 QDMA_DEV_Q_TYPE_H2C = 0 \<and>
      qdma_get_active_queue_count s3 0 = 2 ^ 32 - 1"
  by (simp add: sample_two_eq qdma_dev_increment_active_queue_def qdma_dev_decrement_active_queue_def
      qdma_get_active_queue_count_def qdma_get_device_active_queue_count_def
      active_count_def set_active_count_def rm_eval new_dev_def)

text \<open>When the allocation in qdma_submit_to_free_list fails, removing a function loses its
  queues: no free range and no function owns them any more.\<close>

theorem failed_submit_loses_queues:
  "queue_owners (hd (master_resource_list sample_two)) 8 = 1 \<and>
   queue_owners (hd (master_resource_list (fst (qdma_dev_entry_destroy [False] sample_two 0 2)))) 8 = 0"
  by (simp add: sample_two_eq rm_eval new_dev_def queue_owners_def has_queue_def)

end
