(* ===== verification/MboxMsg.thy ===== *)
theory MboxMsg
  imports AccessTable ResourceAlloc
begin

text \<open>
  The messages of the mailbox between virtual and physical functions, qdma_mbox_protocol.c and
  .h: operations, message structures, the functions that compose requests and those that take
  responses apart.
  A message is one record with the members of every structure of union qdma_mbox_txrx; an
  operation reads and writes the members of its own structure only. The structures hello and
  fmap lie over each other with equal members qbase and qmax, and HELLO goes through both, so
  they are one pair of fields here. A null buffer is None.
\<close>

section \<open>Operations\<close>

datatype mbox_msg_op =
    MBOX_OP_VF_BYE | MBOX_OP_HELLO | MBOX_OP_FMAP | MBOX_OP_CSR | MBOX_OP_QREQ
  | MBOX_OP_QNOTIFY_ADD | MBOX_OP_QNOTIFY_DEL | MBOX_OP_GET_QACTIVE_CNT
  | MBOX_OP_QCTXT_WRT | MBOX_OP_QCTXT_RD | MBOX_OP_QCTXT_CLR | MBOX_OP_QCTXT_INV
  | MBOX_OP_INTR_CTXT_WRT | MBOX_OP_INTR_CTXT_RD | MBOX_OP_INTR_CTXT_CLR | MBOX_OP_INTR_CTXT_INV
  | MBOX_OP_RESET_PREPARE | MBOX_OP_RESET_DONE | MBOX_OP_REG_LIST_READ | MBOX_OP_PF_BYE
  | MBOX_OP_PF_RESET_VF_BYE
  | MBOX_OP_HELLO_RESP | MBOX_OP_FMAP_RESP | MBOX_OP_CSR_RESP | MBOX_OP_QREQ_RESP
  | MBOX_OP_QNOTIFY_ADD_RESP | MBOX_OP_QNOTIFY_DEL_RESP | MBOX_OP_GET_QACTIVE_CNT_RESP
  | MBOX_OP_QCTXT_WRT_RESP | MBOX_OP_QCTXT_RD_RESP | MBOX_OP_QCTXT_CLR_RESP | MBOX_OP_QCTXT_INV_RESP
  | MBOX_OP_INTR_CTXT_WRT_RESP | MBOX_OP_INTR_CTXT_RD_RESP | MBOX_OP_INTR_CTXT_CLR_RESP
  | MBOX_OP_INTR_CTXT_INV_RESP
  | MBOX_OP_RESET_PREPARE_RESP | MBOX_OP_RESET_DONE_RESP | MBOX_OP_REG_LIST_READ_RESP
  | MBOX_OP_PF_BYE_RESP | MBOX_OP_PF_RESET_VF_BYE_RESP | MBOX_OP_MAX

primrec mbox_op_code :: "mbox_msg_op \<Rightarrow> u8" where
  "mbox_op_code MBOX_OP_VF_BYE = 0x00"
| "mbox_op_code MBOX_OP_HELLO = 0x01"
| "mbox_op_code MBOX_OP_FMAP = 0x02"
| "mbox_op_code MBOX_OP_CSR = 0x03"
| "mbox_op_code MBOX_OP_QREQ = 0x04"
| "mbox_op_code MBOX_OP_QNOTIFY_ADD = 0x05"
| "mbox_op_code MBOX_OP_QNOTIFY_DEL = 0x06"
| "mbox_op_code MBOX_OP_GET_QACTIVE_CNT = 0x07"
| "mbox_op_code MBOX_OP_QCTXT_WRT = 0x08"
| "mbox_op_code MBOX_OP_QCTXT_RD = 0x09"
| "mbox_op_code MBOX_OP_QCTXT_CLR = 0x0A"
| "mbox_op_code MBOX_OP_QCTXT_INV = 0x0B"
| "mbox_op_code MBOX_OP_INTR_CTXT_WRT = 0x0C"
| "mbox_op_code MBOX_OP_INTR_CTXT_RD = 0x0D"
| "mbox_op_code MBOX_OP_INTR_CTXT_CLR = 0x0E"
| "mbox_op_code MBOX_OP_INTR_CTXT_INV = 0x0F"
| "mbox_op_code MBOX_OP_RESET_PREPARE = 0x10"
| "mbox_op_code MBOX_OP_RESET_DONE = 0x11"
| "mbox_op_code MBOX_OP_REG_LIST_READ = 0x12"
| "mbox_op_code MBOX_OP_PF_BYE = 0x13"
| "mbox_op_code MBOX_OP_PF_RESET_VF_BYE = 0x14"
| "mbox_op_code MBOX_OP_HELLO_RESP = 0x81"
| "mbox_op_code MBOX_OP_FMAP_RESP = 0x82"
| "mbox_op_code MBOX_OP_CSR_RESP = 0x83"
| "mbox_op_code MBOX_OP_QREQ_RESP = 0x84"
| "mbox_op_code MBOX_OP_QNOTIFY_ADD_RESP = 0x85"
| "mbox_op_code MBOX_OP_QNOTIFY_DEL_RESP = 0x86"
| "mbox_op_code MBOX_OP_GET_QACTIVE_CNT_RESP = 0x87"
| "mbox_op_code MBOX_OP_QCTXT_WRT_RESP = 0x88"
| "mbox_op_code MBOX_OP_QCTXT_RD_RESP = 0x89"
| "mbox_op_code MBOX_OP_QCTXT_CLR_RESP = 0x8A"
| "mbox_op_code MBOX_OP_QCTXT_INV_RESP = 0x8B"
| "mbox_op_code MBOX_OP_INTR_CTXT_WRT_RESP = 0x8C"
| "mbox_op_code MBOX_OP_INTR_CTXT_RD_RESP = 0x8D"
| "mbox_op_code MBOX_OP_INTR_CTXT_CLR_RESP = 0x8E"
| "mbox_op_code MBOX_OP_INTR_CTXT_INV_RESP = 0x8F"
| "mbox_op_code MBOX_OP_RESET_PREPARE_RESP = 0x90"
| "mbox_op_code MBOX_OP_RESET_DONE_RESP = 0x91"
| "mbox_op_code MBOX_OP_REG_LIST_READ_RESP = 0x92"
| "mbox_op_code MBOX_OP_PF_BYE_RESP = 0x93"
| "mbox_op_code MBOX_OP_PF_RESET_VF_BYE_RESP = 0x94"
| "mbox_op_code MBOX_OP_MAX = 0x95"

text \<open>The operation a byte of a header stands for, if any; the switch of the handlers.\<close>

definition mbox_ops :: "mbox_msg_op list" where
  "mbox_ops = [MBOX_OP_VF_BYE, MBOX_OP_HELLO, MBOX_OP_FMAP, MBOX_OP_CSR, MBOX_OP_QREQ,
     MBOX_OP_QNOTIFY_ADD, MBOX_OP_QNOTIFY_DEL, MBOX_OP_GET_QACTIVE_CNT,
     MBOX_OP_QCTXT_WRT, MBOX_OP_QCTXT_RD, MBOX_OP_QCTXT_CLR, MBOX_OP_QCTXT_INV,
     MBOX_OP_INTR_CTXT_WRT, MBOX_OP_INTR_CTXT_RD, MBOX_OP_INTR_CTXT_CLR, MBOX_OP_INTR_CTXT_INV,
     MBOX_OP_RESET_PREPARE, MBOX_OP_RESET_DONE, MBOX_OP_REG_LIST_READ, MBOX_OP_PF_BYE,
     MBOX_OP_PF_RESET_VF_BYE,
     MBOX_OP_HELLO_RESP, MBOX_OP_FMAP_RESP, MBOX_OP_CSR_RESP, MBOX_OP_QREQ_RESP,
     MBOX_OP_QNOTIFY_ADD_RESP, MBOX_OP_QNOTIFY_DEL_RESP, MBOX_OP_GET_QACTIVE_CNT_RESP,
     MBOX_OP_QCTXT_WRT_RESP, MBOX_OP_QCTXT_RD_RESP, MBOX_OP_QCTXT_CLR_RESP, MBOX_OP_QCTXT_INV_RESP,
     MBOX_OP_INTR_CTXT_WRT_RESP, MBOX_OP_INTR_CTXT_RD_RESP, MBOX_OP_INTR_CTXT_CLR_RESP,
     MBOX_OP_INTR_CTXT_INV_RESP,
     MBOX_OP_RESET_PREPARE_RESP, MBOX_OP_RESET_DONE_RESP, MBOX_OP_REG_LIST_READ_RESP,
     MBOX_OP_PF_BYE_RESP, MBOX_OP_PF_RESET_VF_BYE_RESP, MBOX_OP_MAX]"

definition mbox_op_of :: "u8 \<Rightarrow> mbox_msg_op option" where
  "mbox_op_of w = find (\<lambda>op. mbox_op_code op = w) mbox_ops"

definition MBOX_MSG_OP_RSP_OFFSET :: u8 where
  "MBOX_MSG_OP_RSP_OFFSET = 0x80"

lemma mbox_op_of_code [simp]: "mbox_op_of (mbox_op_code req) = Some req"
  by (cases req; simp add: mbox_op_of_def mbox_ops_def)

lemma mbox_op_of_Some: "mbox_op_of w = Some req \<Longrightarrow> mbox_op_code req = w"
  by (auto simp: mbox_op_of_def find_Some_iff)

section \<open>Messages\<close>

datatype mbox_cmpt_ctxt_type =
    QDMA_MBOX_CMPT_CTXT_ONLY | QDMA_MBOX_CMPT_WITH_MM | QDMA_MBOX_CMPT_WITH_ST
  | QDMA_MBOX_CMPT_CTXT_NONE

record mbox_descq_conf =
  dc_ring_bs_addr :: u64
  dc_cmpt_ring_bs_addr :: u64
  dc_forced_en :: "1 word"
  dc_en_bypass :: "1 word"
  dc_irq_arm :: "1 word"
  dc_wbi_intvl_en :: "1 word"
  dc_wbi_chk :: "1 word"
  dc_at :: "1 word"
  dc_wbk_en :: "1 word"
  dc_irq_en :: "1 word"
  dc_pfch_en :: "1 word"
  dc_en_bypass_prefetch :: "1 word"
  dc_dis_overflow_check :: "1 word"
  dc_cmpt_int_en :: "1 word"
  dc_cmpt_at :: "1 word"
  dc_cmpt_color :: "1 word"
  dc_cmpt_full_upd :: "1 word"
  dc_cmpl_stat_en :: "1 word"
  dc_desc_sz :: "2 word"
  dc_cmpt_desc_sz :: "2 word"
  dc_triggermode :: "3 word"
  dc_func_id :: u16
  dc_cnt_thres :: u8
  dc_timer_thres :: u8
  dc_intr_id :: "11 word"
  dc_intr_aggr :: "1 word"
  dc_ringsz :: u16
  dc_bufsz :: u16
  dc_cmpt_ringsz :: u16

record qdma_descq_context =
  dx_qid2vec :: qdma_qid2vec
  dx_fmap :: qdma_fmap_cfg
  dx_sw_ctxt :: qdma_descq_sw_ctxt
  dx_hw_ctxt :: qdma_descq_hw_ctxt
  dx_cr_ctxt :: qdma_descq_credit_ctxt
  dx_pfetch_ctxt :: qdma_descq_prefetch_ctxt
  dx_cmpt_ctxt :: qdma_descq_cmpt_ctxt

text \<open>The arrays of the interrupt context message have one element in the code.\<close>

record mbox_msg_intr_ctxt =
  ix_num_rings :: u8
  ix_ring_index_list :: "u32 list"
  ix_ictxt :: "qdma_indirect_intr_ctxt list"

record qdma_csr_info =
  ci_ringsz :: "u16 list"
  ci_bufsz :: "u16 list"
  ci_timer_cnt :: "u8 list"
  ci_cnt_thres :: "u8 list"
  ci_wb_intvl :: u8

record mbox_msg =
  mm_op :: u8
  mm_status :: u8
  mm_src_func_id :: u16
  mm_dst_func_id :: u16
  mm_qbase :: u32
  mm_qmax :: u32
  mm_dev_cap :: qdma_dev_attributes
  mm_dma_device_index :: u32
  mm_h2c_queues :: u32
  mm_c2h_queues :: u32
  mm_cmpt_queues :: u32
  mm_csr_info :: qdma_csr_info
  mm_notify_qid_hw :: u16
  mm_notify_q_type :: qdma_dev_q_type
  mm_qid_hw :: u16
  mm_st :: "1 word"
  mm_c2h :: "1 word"
  mm_cmpt_ctxt_type :: mbox_cmpt_ctxt_type
  mm_descq_conf :: mbox_descq_conf
  mm_descq_ctxt :: qdma_descq_context
  mm_intr_ctxt :: mbox_msg_intr_ctxt
  mm_group_num :: u16
  mm_num_regs :: u16
  mm_reg_list :: "(u32 \<times> u32) list"

text \<open>A buffer after memset.\<close>

definition dc_zeroed :: mbox_descq_conf where
  "dc_zeroed = \<lparr>dc_ring_bs_addr = 0, dc_cmpt_ring_bs_addr = 0, dc_forced_en = 0, dc_en_bypass = 0,
     dc_irq_arm = 0, dc_wbi_intvl_en = 0, dc_wbi_chk = 0, dc_at = 0, dc_wbk_en = 0, dc_irq_en = 0,
     dc_pfch_en = 0, dc_en_bypass_prefetch = 0, dc_dis_overflow_check = 0, dc_cmpt_int_en = 0,
     dc_cmpt_at = 0, dc_cmpt_color = 0, dc_cmpt_full_upd = 0, dc_cmpl_stat_en = 0, dc_desc_sz = 0,
     dc_cmpt_desc_sz = 0, dc_triggermode = 0, dc_func_id = 0, dc_cnt_thres = 0, dc_timer_thres = 0,
     dc_intr_id = 0, dc_intr_aggr = 0, dc_ringsz = 0, dc_bufsz = 0, dc_cmpt_ringsz = 0\<rparr>"

definition dx_zeroed :: qdma_descq_context where
  "dx_zeroed = \<lparr>dx_qid2vec = qv_zeroed, dx_fmap = fm_zeroed, dx_sw_ctxt = sw_zeroed,
     dx_hw_ctxt = hw_zeroed, dx_cr_ctxt = cr_zeroed, dx_pfetch_ctxt = pf_zeroed,
     dx_cmpt_ctxt = cm_zeroed\<rparr>"

definition mm_zeroed :: mbox_msg where
  "mm_zeroed = \<lparr>mm_op = 0, mm_status = 0, mm_src_func_id = 0, mm_dst_func_id = 0, mm_qbase = 0,
     mm_qmax = 0, mm_dev_cap = da_zeroed, mm_dma_device_index = 0, mm_h2c_queues = 0,
     mm_c2h_queues = 0, mm_cmpt_queues = 0,
     mm_csr_info = \<lparr>ci_ringsz = replicate 16 0, ci_bufsz = replicate 16 0,
       ci_timer_cnt = replicate 16 0, ci_cnt_thres = replicate 16 0, ci_wb_intvl = 0\<rparr>,
     mm_notify_qid_hw = 0, mm_notify_q_type = QDMA_DEV_Q_TYPE_H2C, mm_qid_hw = 0, mm_st = 0,
     mm_c2h = 0, mm_cmpt_ctxt_type = QDMA_MBOX_CMPT_CTXT_ONLY, mm_descq_conf = dc_zeroed,
     mm_descq_ctxt = dx_zeroed,
     mm_intr_ctxt = \<lparr>ix_num_rings = 0, ix_ring_index_list = [0], ix_ictxt = [it_zeroed]\<rparr>,
     mm_group_num = 0, mm_num_regs = 0, mm_reg_list = replicate 14 (0, 0)\<rparr>"

section \<open>Composing requests\<close>

text \<open>Every composer refuses a null buffer, clears it and fills in its members.\<close>

definition compose_msg :: "(mbox_msg \<Rightarrow> mbox_msg) \<Rightarrow> mbox_msg option \<Rightarrow> int \<times> mbox_msg option" where
  "compose_msg fill raw_data =
     (case raw_data of
        None \<Rightarrow> (neg_err QDMA_ERR_INV_PARAM, raw_data)
      | Some _ \<Rightarrow> (err_code QDMA_SUCCESS, Some (fill mm_zeroed)))"

definition request :: "mbox_msg_op \<Rightarrow> u16 \<Rightarrow> mbox_msg \<Rightarrow> mbox_msg" where
  "request req func msg = msg\<lparr>mm_op := mbox_op_code req, mm_src_func_id := func\<rparr>"

definition qmda_mbox_compose_vf_online :: "u16 \<Rightarrow> u16 \<Rightarrow> int \<Rightarrow> mbox_msg option \<Rightarrow> int \<times> mbox_msg option" where
  "qmda_mbox_compose_vf_online func qmax qb =
     compose_msg (\<lambda>m. (request MBOX_OP_HELLO func m)\<lparr>mm_qbase := of_int qb, mm_qmax := ucast qmax\<rparr>)"

definition qdma_mbox_compose_vf_offline :: "u16 \<Rightarrow> mbox_msg option \<Rightarrow> int \<times> mbox_msg option" where
  "qdma_mbox_compose_vf_offline func = compose_msg (request MBOX_OP_VF_BYE func)"

definition qdma_mbox_compose_vf_reset_offline :: "u16 \<Rightarrow> mbox_msg option \<Rightarrow> int \<times> mbox_msg option" where
  "qdma_mbox_compose_vf_reset_offline func = compose_msg (request MBOX_OP_PF_RESET_VF_BYE func)"

definition qdma_mbox_compose_vf_qreq :: "u16 \<Rightarrow> u16 \<Rightarrow> int \<Rightarrow> mbox_msg option \<Rightarrow> int \<times> mbox_msg option" where
  "qdma_mbox_compose_vf_qreq func qmax qb =
     compose_msg (\<lambda>m. (request MBOX_OP_QREQ func m)\<lparr>mm_qbase := of_int qb, mm_qmax := ucast qmax\<rparr>)"

definition qdma_mbox_compose_vf_notify_qadd ::
  "u16 \<Rightarrow> u16 \<Rightarrow> qdma_dev_q_type \<Rightarrow> mbox_msg option \<Rightarrow> int \<times> mbox_msg option" where
  "qdma_mbox_compose_vf_notify_qadd func qid_hw q_type =
     compose_msg (\<lambda>m. (request MBOX_OP_QNOTIFY_ADD func m)
       \<lparr>mm_notify_qid_hw := qid_hw, mm_notify_q_type := q_type\<rparr>)"

definition qdma_mbox_compose_vf_get_device_active_qcnt :: "u16 \<Rightarrow> mbox_msg option \<Rightarrow> int \<times> mbox_msg option" where
  "qdma_mbox_compose_vf_get_device_active_qcnt func =
     compose_msg (request MBOX_OP_GET_QACTIVE_CNT func)"

definition qdma_mbox_compose_vf_notify_qdel ::
  "u16 \<Rightarrow> u16 \<Rightarrow> qdma_dev_q_type \<Rightarrow> mbox_msg option \<Rightarrow> int \<times> mbox_msg option" where
  "qdma_mbox_compose_vf_notify_qdel func qid_hw q_type =
     compose_msg (\<lambda>m. (request MBOX_OP_QNOTIFY_DEL func m)
       \<lparr>mm_notify_qid_hw := qid_hw, mm_notify_q_type := q_type\<rparr>)"

definition qdma_mbox_compose_vf_fmap_prog :: "u16 \<Rightarrow> u16 \<Rightarrow> int \<Rightarrow> mbox_msg option \<Rightarrow> int \<times> mbox_msg option" where
  "qdma_mbox_compose_vf_fmap_prog func qmax qb =
     compose_msg (\<lambda>m. (request MBOX_OP_FMAP func m)\<lparr>mm_qbase := of_int qb, mm_qmax := ucast qmax\<rparr>)"

definition queue_request ::
  "mbox_msg_op \<Rightarrow> u16 \<Rightarrow> u16 \<Rightarrow> u8 \<Rightarrow> u8 \<Rightarrow> mbox_cmpt_ctxt_type \<Rightarrow> mbox_msg \<Rightarrow> mbox_msg" where
  "queue_request req func qid_hw st c2h cmpt_ctxt_type m =
     (request req func m)\<lparr>mm_qid_hw := qid_hw, mm_c2h := ucast c2h, mm_st := ucast st,
       mm_cmpt_ctxt_type := cmpt_ctxt_type\<rparr>"

definition qdma_mbox_compose_vf_qctxt_write ::
  "u16 \<Rightarrow> u16 \<Rightarrow> u8 \<Rightarrow> u8 \<Rightarrow> mbox_cmpt_ctxt_type \<Rightarrow> mbox_descq_conf \<Rightarrow> mbox_msg option \<Rightarrow>
   int \<times> mbox_msg option" where
  "qdma_mbox_compose_vf_qctxt_write func qid_hw st c2h cmpt_ctxt_type descq_conf =
     compose_msg (\<lambda>m. (queue_request MBOX_OP_QCTXT_WRT func qid_hw st c2h cmpt_ctxt_type m)
       \<lparr>mm_descq_conf := descq_conf\<rparr>)"

definition qdma_mbox_compose_vf_qctxt_read ::
  "u16 \<Rightarrow> u16 \<Rightarrow> u8 \<Rightarrow> u8 \<Rightarrow> mbox_cmpt_ctxt_type \<Rightarrow> mbox_msg option \<Rightarrow> int \<times> mbox_msg option" where
  "qdma_mbox_compose_vf_qctxt_read func qid_hw st c2h cmpt_ctxt_type =
     compose_msg (queue_request MBOX_OP_QCTXT_RD func qid_hw st c2h cmpt_ctxt_type)"

definition qdma_mbox_compose_vf_qctxt_invalidate ::
  "u16 \<Rightarrow> u16 \<Rightarrow> u8 \<Rightarrow> u8 \<Rightarrow> mbox_cmpt_ctxt_type \<Rightarrow> mbox_msg option \<Rightarrow> int \<times> mbox_msg option" where
  "qdma_mbox_compose_vf_qctxt_invalidate func qid_hw st c2h cmpt_ctxt_type =
     compose_msg (queue_request MBOX_OP_QCTXT_INV func qid_hw st c2h cmpt_ctxt_type)"

definition qdma_mbox_compose_vf_qctxt_clear ::
  "u16 \<Rightarrow> u16 \<Rightarrow> u8 \<Rightarrow> u8 \<Rightarrow> mbox_cmpt_ctxt_type \<Rightarrow> mbox_msg option \<Rightarrow> int \<times> mbox_msg option" where
  "qdma_mbox_compose_vf_qctxt_clear func qid_hw st c2h cmpt_ctxt_type =
     compose_msg (queue_request MBOX_OP_QCTXT_CLR func qid_hw st c2h cmpt_ctxt_type)"

definition qdma_mbox_compose_csr_read :: "u16 \<Rightarrow> mbox_msg option \<Rightarrow> int \<times> mbox_msg option" where
  "qdma_mbox_compose_csr_read func = compose_msg (request MBOX_OP_CSR func)"

definition qdma_mbox_compose_reg_read :: "u16 \<Rightarrow> u16 \<Rightarrow> mbox_msg option \<Rightarrow> int \<times> mbox_msg option" where
  "qdma_mbox_compose_reg_read func group_num =
     compose_msg (\<lambda>m. (request MBOX_OP_REG_LIST_READ func m)\<lparr>mm_group_num := group_num\<rparr>)"

definition qdma_mbox_compose_vf_intr_ctxt_write ::
  "u16 \<Rightarrow> mbox_msg_intr_ctxt \<Rightarrow> mbox_msg option \<Rightarrow> int \<times> mbox_msg option" where
  "qdma_mbox_compose_vf_intr_ctxt_write func intr_ctxt =
     compose_msg (\<lambda>m. (request MBOX_OP_INTR_CTXT_WRT func m)\<lparr>mm_intr_ctxt := intr_ctxt\<rparr>)"

definition qdma_mbox_compose_vf_intr_ctxt_read ::
  "u16 \<Rightarrow> mbox_msg_intr_ctxt \<Rightarrow> mbox_msg option \<Rightarrow> int \<times> mbox_msg option" where
  "qdma_mbox_compose_vf_intr_ctxt_read func intr_ctxt =
     compose_msg (\<lambda>m. (request MBOX_OP_INTR_CTXT_RD func m)\<lparr>mm_intr_ctxt := intr_ctxt\<rparr>)"

definition qdma_mbox_compose_vf_intr_ctxt_clear ::
  "u16 \<Rightarrow> mbox_msg_intr_ctxt \<Rightarrow> mbox_msg option \<Rightarrow> int \<times> mbox_msg option" where
  "qdma_mbox_compose_vf_intr_ctxt_clear func intr_ctxt =
     compose_msg (\<lambda>m. (request MBOX_OP_INTR_CTXT_CLR func m)\<lparr>mm_intr_ctxt := intr_ctxt\<rparr>)"

definition qdma_mbox_compose_vf_intr_ctxt_invalidate ::
  "u16 \<Rightarrow> mbox_msg_intr_ctxt \<Rightarrow> mbox_msg option \<Rightarrow> int \<times> mbox_msg option" where
  "qdma_mbox_compose_vf_intr_ctxt_invalidate func intr_ctxt =
     compose_msg (\<lambda>m. (request MBOX_OP_INTR_CTXT_INV func m)\<lparr>mm_intr_ctxt := intr_ctxt\<rparr>)"

text \<open>Messages of a physical function to a virtual one; the ids are 8 bits wide here.\<close>

definition pf_message :: "mbox_msg_op \<Rightarrow> u8 \<Rightarrow> u8 \<Rightarrow> mbox_msg \<Rightarrow> mbox_msg" where
  "pf_message req src_funcid dest_funcid m =
     (request req (ucast src_funcid) m)\<lparr>mm_dst_func_id := ucast dest_funcid\<rparr>"

definition qdma_mbox_compose_vf_reset_message :: "mbox_msg option \<Rightarrow> u8 \<Rightarrow> u8 \<Rightarrow> int \<times> mbox_msg option" where
  "qdma_mbox_compose_vf_reset_message raw_data src_funcid dest_funcid =
     compose_msg (pf_message MBOX_OP_RESET_PREPARE src_funcid dest_funcid) raw_data"

definition qdma_mbox_compose_pf_reset_done_message :: "mbox_msg option \<Rightarrow> u8 \<Rightarrow> u8 \<Rightarrow> int \<times> mbox_msg option" where
  "qdma_mbox_compose_pf_reset_done_message raw_data src_funcid dest_funcid =
     compose_msg (pf_message MBOX_OP_RESET_DONE src_funcid dest_funcid) raw_data"

definition qdma_mbox_compose_pf_offline :: "mbox_msg option \<Rightarrow> u8 \<Rightarrow> u8 \<Rightarrow> int \<times> mbox_msg option" where
  "qdma_mbox_compose_pf_offline raw_data src_funcid dest_funcid =
     compose_msg (pf_message MBOX_OP_PF_BYE src_funcid dest_funcid) raw_data"

section \<open>Taking responses apart\<close>

definition qdma_mbox_is_msg_response :: "mbox_msg \<Rightarrow> mbox_msg \<Rightarrow> u8" where
  "qdma_mbox_is_msg_response tx_msg rx_msg =
     (if (ucast (mm_op tx_msg) :: u32) + 0x80 = ucast (mm_op rx_msg) then 1 else 0)"

text \<open>The status is a char, that is signed, and comes back as an int.\<close>

definition qdma_mbox_vf_response_status :: "mbox_msg \<Rightarrow> int" where
  "qdma_mbox_vf_response_status msg = sint (mm_status msg)"

text \<open>The 16-bit id is returned as a uint8_t.\<close>

definition qdma_mbox_vf_func_id_get :: "mbox_msg \<Rightarrow> u8 \<Rightarrow> u8" where
  "qdma_mbox_vf_func_id_get msg is_vf =
     ucast (if is_vf \<noteq> 0 then mm_dst_func_id msg else mm_src_func_id msg)"

definition qdma_mbox_vf_active_queues_get :: "mbox_msg \<Rightarrow> qdma_dev_q_type \<Rightarrow> int" where
  "qdma_mbox_vf_active_queues_get msg q_type =
     (case q_type of
        QDMA_DEV_Q_TYPE_H2C \<Rightarrow> sint (mm_h2c_queues msg)
      | QDMA_DEV_Q_TYPE_C2H \<Rightarrow> sint (mm_c2h_queues msg)
      | QDMA_DEV_Q_TYPE_CMPT \<Rightarrow> sint (mm_cmpt_queues msg)
      | _ \<Rightarrow> 0)"

definition qdma_mbox_vf_parent_func_id_get :: "mbox_msg \<Rightarrow> u8" where
  "qdma_mbox_vf_parent_func_id_get msg = ucast (mm_src_func_id msg)"

definition qdma_mbox_vf_dev_info_get :: "mbox_msg \<Rightarrow> int \<times> qdma_dev_attributes \<times> u32" where
  "qdma_mbox_vf_dev_info_get msg =
     (sint (mm_status msg), mm_dev_cap msg, mm_dma_device_index msg)"

text \<open>The 32-bit qmax is stored through a uint16_t pointer.\<close>

definition qdma_mbox_vf_qinfo_get :: "mbox_msg \<Rightarrow> int \<times> int \<times> u16" where
  "qdma_mbox_vf_qinfo_get msg = (sint (mm_status msg), sint (mm_qbase msg), ucast (mm_qmax msg))"

definition qdma_mbox_vf_csr_get :: "mbox_msg \<Rightarrow> int \<times> qdma_csr_info" where
  "qdma_mbox_vf_csr_get msg = (sint (mm_status msg), mm_csr_info msg)"

definition qdma_mbox_vf_reg_list_get :: "mbox_msg \<Rightarrow> (u32 \<times> u32) list \<Rightarrow> int \<times> u16 \<times> (u32 \<times> u32) list" where
  "qdma_mbox_vf_reg_list_get msg reg_list =
     (sint (mm_status msg), mm_num_regs msg,
      take (unat (mm_num_regs msg)) (mm_reg_list msg) @ drop (unat (mm_num_regs msg)) reg_list)"

definition qdma_mbox_vf_context_get :: "mbox_msg \<Rightarrow> int \<times> qdma_descq_context" where
  "qdma_mbox_vf_context_get msg = (sint (mm_status msg), mm_descq_ctxt msg)"

definition qdma_mbox_vf_intr_context_get :: "mbox_msg \<Rightarrow> int \<times> mbox_msg_intr_ctxt" where
  "qdma_mbox_vf_intr_context_get msg = (sint (mm_status msg), mm_intr_ctxt msg)"

section \<open>Messages that a virtual function receives\<close>

definition QDMA_MBOX_VF_ONLINE :: int where "QDMA_MBOX_VF_ONLINE = 1"
definition QDMA_MBOX_VF_OFFLINE :: int where "QDMA_MBOX_VF_OFFLINE = -1"
definition QDMA_MBOX_VF_RESET :: int where "QDMA_MBOX_VF_RESET = 2"
definition QDMA_MBOX_PF_RESET_DONE :: int where "QDMA_MBOX_PF_RESET_DONE = 3"
definition QDMA_MBOX_PF_BYE :: int where "QDMA_MBOX_PF_BYE = 4"
definition QDMA_MBOX_VF_RESET_BYE :: int where "QDMA_MBOX_VF_RESET_BYE = 5"

definition vf_answer :: "mbox_msg \<Rightarrow> mbox_msg \<Rightarrow> mbox_msg" where
  "vf_answer rcv resp =
     resp\<lparr>mm_op := mm_op rcv + MBOX_MSG_OP_RSP_OFFSET, mm_dst_func_id := mm_src_func_id rcv,
       mm_src_func_id := mm_dst_func_id rcv\<rparr>"

definition qdma_mbox_vf_rcv_msg_handler :: "mbox_msg \<Rightarrow> mbox_msg \<Rightarrow> int \<times> mbox_msg" where
  "qdma_mbox_vf_rcv_msg_handler rcv resp =
     (case mbox_op_of (mm_op rcv) of
        Some MBOX_OP_RESET_PREPARE \<Rightarrow> (QDMA_MBOX_VF_RESET, vf_answer rcv resp)
      | Some MBOX_OP_RESET_DONE \<Rightarrow> (QDMA_MBOX_PF_RESET_DONE, vf_answer rcv resp)
      | Some MBOX_OP_PF_BYE \<Rightarrow> (QDMA_MBOX_PF_BYE, vf_answer rcv resp)
      | _ \<Rightarrow> (0, resp))"

end
