(* ===== verification/MboxHandler.thy ===== *)
theory MboxHandler
  imports MboxMsg
begin

text \<open>
  The handler a physical function runs on the requests of virtual functions,
  qdma_mbox_pf_rcv_msg_handler, and its parts: the search for CSR indices, the composition of
  contexts from a queue configuration and the clearing, invalidation, writing and reading of
  the contexts of a queue. The handler works on the device through the access table and on the
  queue resource manager; both are in the state mbox_env, with the allocation outcomes of the
  resource manager. The received message is a buffer the caller drops afterwards, so what the
  code writes into it is not kept.
\<close>

section \<open>CSR indices\<close>

text \<open>
  The four searches read a CSR array of sixteen and look for a value; the result is the status,
  the index of the first match, and the device.
\<close>

definition csr_index_of ::
  "'d qdma_hw_access \<Rightarrow> qdma_global_csr_type \<Rightarrow> (u32 \<Rightarrow> bool) \<Rightarrow> qdma_access_error \<Rightarrow> 'd xdev \<Rightarrow>
   int \<times> nat \<times> 'd xdev" where
  "csr_index_of hw csr_type match err d =
     (let (rv, vals, dev) = ha_global_csr_conf hw (Some d) 0 16 (Some (replicate QDMA_GLOBAL_CSR_ARRAY_SZ 0))
            csr_type QDMA_HW_ACCESS_READ
      in if rv \<noteq> 0 then (rv, 0, the dev)
         else (case find (\<lambda>i. match (the vals ! i)) [0..<QDMA_GLOBAL_CSR_ARRAY_SZ] of
                 Some i \<Rightarrow> (err_code QDMA_SUCCESS, i, the dev)
               | None \<Rightarrow> (neg_err err, 0, the dev)))"

definition get_ring_idx :: "'d qdma_hw_access \<Rightarrow> u16 \<Rightarrow> 'd xdev \<Rightarrow> int \<times> nat \<times> 'd xdev" where
  "get_ring_idx hw ring_sz =
     csr_index_of hw QDMA_CSR_RING_SZ (\<lambda>v. ucast ring_sz = v - 1) QDMA_ERR_MBOX_INV_RINGSZ"

definition get_buf_idx :: "'d qdma_hw_access \<Rightarrow> u16 \<Rightarrow> 'd xdev \<Rightarrow> int \<times> nat \<times> 'd xdev" where
  "get_buf_idx hw buf_sz =
     csr_index_of hw QDMA_CSR_BUF_SZ (\<lambda>v. v = ucast buf_sz) QDMA_ERR_MBOX_INV_BUFSZ"

definition get_cntr_idx :: "'d qdma_hw_access \<Rightarrow> u8 \<Rightarrow> 'd xdev \<Rightarrow> int \<times> nat \<times> 'd xdev" where
  "get_cntr_idx hw cntr_val =
     csr_index_of hw QDMA_CSR_CNT_TH (\<lambda>v. v = ucast cntr_val) QDMA_ERR_MBOX_INV_CNTR_TH"

definition get_tmr_idx :: "'d qdma_hw_access \<Rightarrow> u8 \<Rightarrow> 'd xdev \<Rightarrow> int \<times> nat \<times> 'd xdev" where
  "get_tmr_idx hw tmr_val =
     csr_index_of hw QDMA_CSR_TIMER_CNT (\<lambda>v. v = ucast tmr_val) QDMA_ERR_MBOX_INV_TMR_TH"

section \<open>Contexts from a queue configuration\<close>

text \<open>
  The complement of the one-bit st is taken at the width of int and stored in a byte. A stream
  C2H queue gets no interrupts and no writeback of its own.
\<close>

definition sw_context_of :: "mbox_descq_conf \<Rightarrow> 1 word \<Rightarrow> 1 word \<Rightarrow> nat \<Rightarrow> qdma_descq_sw_ctxt \<Rightarrow> qdma_descq_sw_ctxt" where
  "sw_context_of conf st c2h rng_idx sw_ctxt =
     (let sw = sw_ctxt\<lparr>sw_vec := ucast (dc_intr_id conf), sw_intr_aggr := ucast (dc_intr_aggr conf),
            sw_ring_bs_addr := dc_ring_bs_addr conf, sw_wbi_chk := ucast (dc_wbi_chk conf),
            sw_wbi_intvl_en := ucast (dc_wbi_intvl_en conf), sw_rngsz_idx := of_nat rng_idx,
            sw_bypass := ucast (dc_en_bypass conf), sw_wbk_en := ucast (dc_wbk_en conf),
            sw_irq_en := ucast (dc_irq_en conf), sw_is_mm := NOT (ucast st), sw_mm_chn := 0,
            sw_qen := 1, sw_frcd_en := ucast (dc_forced_en conf),
            sw_desc_sz := ucast (dc_desc_sz conf), sw_fnc_id := ucast (dc_func_id conf),
            sw_irq_arm := ucast (dc_irq_arm conf)\<rparr>
      in if st \<noteq> 0 \<and> c2h \<noteq> 0
         then sw\<lparr>sw_irq_en := 0, sw_irq_arm := 0, sw_wbk_en := 0, sw_wbi_chk := 0\<rparr> else sw)"

definition mbox_compose_sw_context ::
  "'d qdma_hw_access \<Rightarrow> mbox_msg \<Rightarrow> qdma_descq_sw_ctxt \<Rightarrow> 'd xdev \<Rightarrow> int \<times> qdma_descq_sw_ctxt \<times> 'd xdev" where
  "mbox_compose_sw_context hw qctxt sw_ctxt d =
     (let conf = mm_descq_conf qctxt; (rv, rng_idx, d) = get_ring_idx hw (dc_ringsz conf) d
      in if rv < 0 then (rv, sw_ctxt, d)
         else (err_code QDMA_SUCCESS, sw_context_of conf (mm_st qctxt) (mm_c2h qctxt) rng_idx sw_ctxt, d))"

definition mbox_compose_prefetch_context ::
  "'d qdma_hw_access \<Rightarrow> mbox_msg \<Rightarrow> qdma_descq_prefetch_ctxt \<Rightarrow> 'd xdev \<Rightarrow>
   int \<times> qdma_descq_prefetch_ctxt \<times> 'd xdev" where
  "mbox_compose_prefetch_context hw qctxt pfetch_ctxt d =
     (let conf = mm_descq_conf qctxt; (rv, buf_idx, d) = get_buf_idx hw (dc_bufsz conf) d
      in if rv < 0 then (rv, pfetch_ctxt, d)
         else (err_code QDMA_SUCCESS,
           pfetch_ctxt\<lparr>pf_valid := 1, pf_bypass := ucast (dc_en_bypass_prefetch conf),
             pf_bufsz_idx := of_nat buf_idx, pf_pfch_en := ucast (dc_pfch_en conf)\<rparr>, d))"

definition cmpt_context_of ::
  "mbox_descq_conf \<Rightarrow> 1 word \<Rightarrow> 1 word \<Rightarrow> nat \<Rightarrow> nat \<Rightarrow> nat \<Rightarrow> qdma_descq_cmpt_ctxt \<Rightarrow> qdma_descq_cmpt_ctxt" where
  "cmpt_context_of conf st c2h cntr_idx tmr_idx rng_idx cmpt_ctxt =
     cmpt_ctxt\<lparr>cm_bs_addr := dc_cmpt_ring_bs_addr conf, cm_en_stat_desc := dc_cmpl_stat_en conf,
       cm_en_int := dc_cmpt_int_en conf, cm_trig_mode := dc_triggermode conf,
       cm_fnc_id := ucast (dc_func_id conf), cm_timer_idx := of_nat tmr_idx,
       cm_counter_idx := of_nat cntr_idx, cm_color := 1, cm_ringsz_idx := of_nat rng_idx,
       cm_desc_sz := dc_cmpt_desc_sz conf, cm_valid := 1,
       cm_dir_c2h := (if st \<noteq> 0 \<and> c2h \<noteq> 0 then 1 else cm_dir_c2h cmpt_ctxt),
       cm_ovf_chk_dis := dc_dis_overflow_check conf, cm_vec := dc_intr_id conf,
       cm_int_aggr := dc_intr_aggr conf\<rparr>"

definition mbox_compose_cmpt_context ::
  "'d qdma_hw_access \<Rightarrow> mbox_msg \<Rightarrow> qdma_descq_cmpt_ctxt \<Rightarrow> 'd xdev \<Rightarrow> int \<times> qdma_descq_cmpt_ctxt \<times> 'd xdev" where
  "mbox_compose_cmpt_context hw qctxt cmpt_ctxt d =
     (let conf = mm_descq_conf qctxt;
          (rv, cntr_idx, d) = get_cntr_idx hw (dc_cnt_thres conf) d
      in if rv < 0 then (rv, cmpt_ctxt, d)
         else let (rv, tmr_idx, d) = get_tmr_idx hw (dc_timer_thres conf) d
         in if rv < 0 then (rv, cmpt_ctxt, d)
         else let (rv, rng_idx, d) = get_ring_idx hw (dc_cmpt_ringsz conf) d
         in if rv < 0 then (rv, cmpt_ctxt, d)
         else (err_code QDMA_SUCCESS,
           cmpt_context_of conf (mm_st qctxt) (mm_c2h qctxt) cntr_idx tmr_idx rng_idx cmpt_ctxt, d))"

section \<open>The contexts of a queue\<close>

text \<open>A sequence of calls each of which ends the function when it returns a negative value.\<close>

fun run_steps :: "('s \<Rightarrow> int \<times> 's) list \<Rightarrow> 's \<Rightarrow> int \<times> 's" where
  "run_steps [] s = (err_code QDMA_SUCCESS, s)"
| "run_steps (f # fs) s = (let (rv, s) = f s in if rv < 0 then (rv, s) else run_steps fs s)"

definition hw_step :: "('d xdev option \<Rightarrow> int \<times> 'c \<times> 'd xdev option) \<Rightarrow> 'd xdev \<Rightarrow> int \<times> 'd xdev" where
  "hw_step f d = (let (rv, _, dev) = f (Some d) in (rv, the dev))"

definition cmpt_with_data :: "mbox_cmpt_ctxt_type \<Rightarrow> bool" where
  "cmpt_with_data t \<longleftrightarrow> t = QDMA_MBOX_CMPT_WITH_MM \<or> t = QDMA_MBOX_CMPT_WITH_ST"

text \<open>
  Clearing and invalidating are the same code with a different access type. A queue outside the
  range of the function ends it with the non-negative result of qdma_dev_qinfo_get.
\<close>

definition mbox_reset_queue_contexts ::
  "qdma_hw_access_type \<Rightarrow> 'd qdma_hw_access \<Rightarrow> qdma_rm \<Rightarrow> u8 \<Rightarrow> u16 \<Rightarrow> u16 \<Rightarrow> 1 word \<Rightarrow> 1 word \<Rightarrow>
   mbox_cmpt_ctxt_type \<Rightarrow> 'd xdev \<Rightarrow> int \<times> 'd xdev" where
  "mbox_reset_queue_contexts access hw rm idx func qid_hw st c2h cmpt_ctxt_type d =
     (if cmpt_ctxt_type = QDMA_MBOX_CMPT_CTXT_ONLY
      then run_steps [hw_step (\<lambda>dev. ha_cmpt_ctx_conf hw dev qid_hw None access)] d
      else case qdma_dev_qinfo_get rm (uint idx) func of
        Inl e \<Rightarrow> (neg_err e, d)
      | Inr _ \<Rightarrow>
          if qdma_dev_is_queue_in_range rm (uint idx) func (uint qid_hw) \<noteq> QDMA_DEV_Q_IN_RANGE
          then (err_code QDMA_SUCCESS, d)
          else run_steps
            ([hw_step (\<lambda>dev. ha_sw_ctx_conf hw dev (ucast c2h) qid_hw None access),
              hw_step (\<lambda>dev. ha_hw_ctx_conf hw dev (ucast c2h) qid_hw None access),
              hw_step (\<lambda>dev. ha_credit_ctx_conf hw dev (ucast c2h) qid_hw None access)] @
             (if st \<noteq> 0 \<and> c2h \<noteq> 0
              then [hw_step (\<lambda>dev. ha_pfetch_ctx_conf hw dev qid_hw None access)] else []) @
             (if cmpt_with_data cmpt_ctxt_type
              then [hw_step (\<lambda>dev. ha_cmpt_ctx_conf hw dev qid_hw None access)] else [])) d)"

definition mbox_clear_queue_contexts ::
  "'d qdma_hw_access \<Rightarrow> qdma_rm \<Rightarrow> u8 \<Rightarrow> u16 \<Rightarrow> u16 \<Rightarrow> 1 word \<Rightarrow> 1 word \<Rightarrow> mbox_cmpt_ctxt_type \<Rightarrow>
   'd xdev \<Rightarrow> int \<times> 'd xdev" where
  "mbox_clear_queue_contexts = mbox_reset_queue_contexts QDMA_HW_ACCESS_CLEAR"

definition mbox_invalidate_queue_contexts ::
  "'d qdma_hw_access \<Rightarrow> qdma_rm \<Rightarrow> u8 \<Rightarrow> u16 \<Rightarrow> u16 \<Rightarrow> 1 word \<Rightarrow> 1 word \<Rightarrow> mbox_cmpt_ctxt_type \<Rightarrow>
   'd xdev \<Rightarrow> int \<times> 'd xdev" where
  "mbox_invalidate_queue_contexts = mbox_reset_queue_contexts QDMA_HW_ACCESS_INVALIDATE"

text \<open>The function id is the one of the queue configuration, which the handler sets.\<close>

definition mbox_write_queue_contexts ::
  "'d qdma_hw_access \<Rightarrow> qdma_rm \<Rightarrow> u8 \<Rightarrow> mbox_msg \<Rightarrow> 'd xdev \<Rightarrow> int \<times> 'd xdev" where
  "mbox_write_queue_contexts hw rm idx qctxt d =
     (let func = dc_func_id (mm_descq_conf qctxt); qid_hw = mm_qid_hw qctxt;
          st = mm_st qctxt; c2h = mm_c2h qctxt; t = mm_cmpt_ctxt_type qctxt
      in case qdma_dev_qinfo_get rm (uint idx) func of
        Inl e \<Rightarrow> (neg_err e, d)
      | Inr _ \<Rightarrow>
          if qdma_dev_is_queue_in_range rm (uint idx) func (uint qid_hw) \<noteq> QDMA_DEV_Q_IN_RANGE
          then (err_code QDMA_SUCCESS, d)
          else if t = QDMA_MBOX_CMPT_CTXT_ONLY
          then let (rv, cmpt, d) = mbox_compose_cmpt_context hw qctxt cm_zeroed d
               in if rv < 0 then (rv, d)
                  else run_steps
                    [hw_step (\<lambda>dev. ha_cmpt_ctx_conf hw dev qid_hw None QDMA_HW_ACCESS_CLEAR),
                     hw_step (\<lambda>dev. ha_cmpt_ctx_conf hw dev qid_hw (Some cmpt) QDMA_HW_ACCESS_WRITE)] d
          else let (rv, sw, d) = mbox_compose_sw_context hw qctxt sw_zeroed d
               in if rv < 0 then (rv, d)
          else let (rv, pfetch, d) =
                 (if st \<noteq> 0 \<and> c2h \<noteq> 0 then mbox_compose_prefetch_context hw qctxt pf_zeroed d
                  else (err_code QDMA_SUCCESS, pf_zeroed, d))
               in if rv < 0 then (rv, d)
          else let (rv, cmpt, d) =
                 (if cmpt_with_data t then mbox_compose_cmpt_context hw qctxt cm_zeroed d
                  else (err_code QDMA_SUCCESS, cm_zeroed, d))
               in if rv < 0 then (rv, d)
          else run_steps
            ([mbox_clear_queue_contexts hw rm idx func qid_hw st c2h t,
              hw_step (\<lambda>dev. ha_sw_ctx_conf hw dev (ucast c2h) qid_hw (Some sw) QDMA_HW_ACCESS_WRITE)] @
             (if st \<noteq> 0 \<and> c2h \<noteq> 0
              then [hw_step (\<lambda>dev. ha_pfetch_ctx_conf hw dev qid_hw (Some pfetch) QDMA_HW_ACCESS_WRITE)]
              else []) @
             (if cmpt_with_data t
              then [hw_step (\<lambda>dev. ha_cmpt_ctx_conf hw dev qid_hw (Some cmpt) QDMA_HW_ACCESS_WRITE)]
              else [])) d)"

text \<open>A read fills one member of the structure; it is not checked against the queue range.\<close>

definition read_step ::
  "('d xdev option \<Rightarrow> 'c option \<Rightarrow> int \<times> 'c option \<times> 'd xdev option) \<Rightarrow> ('x \<Rightarrow> 'c) \<Rightarrow> ('c \<Rightarrow> 'x \<Rightarrow> 'x) \<Rightarrow>
   'x \<times> 'd xdev \<Rightarrow> int \<times> 'x \<times> 'd xdev" where
  "read_step f get put = (\<lambda>(x, d).
     let (rv, c, dev) = f (Some d) (Some (get x)) in (rv, put (the c) x, the dev))"

definition mbox_read_queue_contexts ::
  "'d qdma_hw_access \<Rightarrow> u16 \<Rightarrow> u16 \<Rightarrow> 1 word \<Rightarrow> 1 word \<Rightarrow> mbox_cmpt_ctxt_type \<Rightarrow>
   qdma_descq_context \<Rightarrow> 'd xdev \<Rightarrow> int \<times> qdma_descq_context \<times> 'd xdev" where
  "mbox_read_queue_contexts hw func qid_hw st c2h cmpt_ctxt_type ctxt d =
     run_steps
       ([read_step (\<lambda>dev c. ha_sw_ctx_conf hw dev (ucast c2h) qid_hw c QDMA_HW_ACCESS_READ)
           dx_sw_ctxt (\<lambda>c x. x\<lparr>dx_sw_ctxt := c\<rparr>),
         read_step (\<lambda>dev c. ha_hw_ctx_conf hw dev (ucast c2h) qid_hw c QDMA_HW_ACCESS_READ)
           dx_hw_ctxt (\<lambda>c x. x\<lparr>dx_hw_ctxt := c\<rparr>),
         read_step (\<lambda>dev c. ha_credit_ctx_conf hw dev (ucast c2h) qid_hw c QDMA_HW_ACCESS_READ)
           dx_cr_ctxt (\<lambda>c x. x\<lparr>dx_cr_ctxt := c\<rparr>),
         read_step (\<lambda>dev c. ha_fmap_conf hw dev func c QDMA_HW_ACCESS_READ)
           dx_fmap (\<lambda>c x. x\<lparr>dx_fmap := c\<rparr>)] @
        (if st \<noteq> 0 \<and> c2h \<noteq> 0
         then [read_step (\<lambda>dev c. ha_pfetch_ctx_conf hw dev qid_hw c QDMA_HW_ACCESS_READ)
                 dx_pfetch_ctxt (\<lambda>c x. x\<lparr>dx_pfetch_ctxt := c\<rparr>)] else []) @
        (if cmpt_with_data cmpt_ctxt_type
         then [read_step (\<lambda>dev c. ha_cmpt_ctx_conf hw dev qid_hw c QDMA_HW_ACCESS_READ)
                 dx_cmpt_ctxt (\<lambda>c x. x\<lparr>dx_cmpt_ctxt := c\<rparr>)] else [])) (ctxt, d)"

section \<open>The branches of the handler\<close>

text \<open>
  The state a request works on: the device, the queue resource manager and the allocation
  outcomes to come. A branch ends the handler at once with a value, or goes on to exit_func with
  the status rv of the response and the value ret to return.
\<close>

record 'd mbox_env =
  mb_dev :: "'d xdev"
  mb_rm :: qdma_rm
  mb_al :: "bool list"

datatype mbox_exit = Return int | Exit_func (exit_rv: int) (exit_ret: int)

type_synonym 'd mbox_branch = "mbox_msg \<Rightarrow> mbox_msg \<Rightarrow> 'd mbox_env \<Rightarrow> mbox_exit \<times> mbox_msg \<times> 'd mbox_env"

definition write_fmap :: "'d qdma_hw_access \<Rightarrow> u16 \<Rightarrow> qdma_fmap_cfg \<Rightarrow> 'd mbox_env \<Rightarrow> int \<times> 'd mbox_env" where
  "write_fmap hw func fmap env =
     (let (rv, d) = hw_step (\<lambda>dev. ha_fmap_conf hw dev func (Some fmap) QDMA_HW_ACCESS_WRITE) (mb_dev env)
      in (rv, env\<lparr>mb_dev := d\<rparr>))"

text \<open>MBOX_OP_VF_BYE and MBOX_OP_PF_RESET_VF_BYE differ in the value returned.\<close>

definition mbox_bye :: "'d qdma_hw_access \<Rightarrow> u8 \<Rightarrow> int \<Rightarrow> 'd mbox_branch" where
  "mbox_bye hw idx ret rcv resp env =
     (let (rv, env) = write_fmap hw (mm_src_func_id rcv) fm_zeroed env;
          (rm, al) = qdma_dev_entry_destroy (mb_al env) (mb_rm env) (uint idx) (mm_src_func_id rcv)
      in (Exit_func rv ret, resp, env\<lparr>mb_rm := rm, mb_al := al\<rparr>))"

definition mbox_hello :: "'d qdma_hw_access \<Rightarrow> u8 \<Rightarrow> 'd mbox_branch" where
  "mbox_hello hw idx rcv resp env =
     (let (rv, base, qmax, env) =
        (case qdma_dev_qinfo_get (mb_rm env) (uint idx) (mm_src_func_id rcv) of
           Inr (b, n) \<Rightarrow> (err_code QDMA_SUCCESS, of_int b, of_int n, env)
         | Inl _ \<Rightarrow>
             let (rv, rm, al) = qdma_dev_entry_create (mb_al env) (mb_rm env) (uint idx) (mm_src_func_id rcv)
             in (rv, mm_qbase rcv, mm_qmax rcv, env\<lparr>mb_rm := rm, mb_al := al\<rparr>));
          (resp, env) =
        (if rv = 0
         then let (_, cap, dev) = ha_get_device_attributes hw (Some (mb_dev env)) (Some (mm_dev_cap resp))
              in (resp\<lparr>mm_qbase := base, mm_qmax := qmax, mm_dma_device_index := ucast idx,
                    mm_dev_cap := the cap\<rparr>, env\<lparr>mb_dev := the dev\<rparr>)
         else (resp, env));
          (_, env) = write_fmap hw (mm_src_func_id rcv) fm_zeroed env
      in (Exit_func rv QDMA_MBOX_VF_ONLINE, resp, env))"

definition mbox_fmap :: "'d qdma_hw_access \<Rightarrow> 'd mbox_branch" where
  "mbox_fmap hw rcv resp env =
     (let (rv, env) = write_fmap hw (mm_src_func_id rcv)
            \<lparr>fm_qbase = ucast (mm_qbase rcv), fm_qmax = ucast (mm_qmax rcv)\<rparr> env
      in (if rv < 0 then Return rv else Exit_func rv 0, resp, env))"

text \<open>Reading a CSR array of sixteen that starts with zeros.\<close>

definition read_csr_array ::
  "'d qdma_hw_access \<Rightarrow> qdma_global_csr_type \<Rightarrow> 'd xdev \<Rightarrow> int \<times> u32 list \<times> 'd xdev" where
  "read_csr_array hw csr_type d =
     (let (rv, vals, dev) = ha_global_csr_conf hw (Some d) 0 16 (Some (replicate QDMA_GLOBAL_CSR_ARRAY_SZ 0))
            csr_type QDMA_HW_ACCESS_READ
      in (rv, the vals, the dev))"

definition csr_failed :: "int \<Rightarrow> bool" where
  "csr_failed rv \<longleftrightarrow> rv < 0 \<and> rv \<noteq> neg_err QDMA_ERR_HWACC_FEATURE_NOT_SUPPORTED"

definition csr_answer :: "int \<Rightarrow> u32 list \<Rightarrow> u32 list \<Rightarrow> u32 list \<Rightarrow> u32 list \<Rightarrow> qdma_csr_info \<Rightarrow> qdma_csr_info" where
  "csr_answer rv ringsz bufsz tmr_th cntr_th info =
     (let info = info\<lparr>ci_ringsz := map (\<lambda>w. ucast (w AND 0xFFFF)) ringsz\<rparr>
      in if rv = 0
         then info\<lparr>ci_bufsz := map (\<lambda>w. ucast (w AND 0xFFFF)) bufsz,
                ci_timer_cnt := map (\<lambda>w. ucast (w AND 0xFF)) tmr_th,
                ci_cnt_thres := map (\<lambda>w. ucast (w AND 0xFF)) cntr_th\<rparr>
         else info)"

definition mbox_csr :: "'d qdma_hw_access \<Rightarrow> 'd mbox_branch" where
  "mbox_csr hw rcv resp env =
     (let zeros = replicate QDMA_GLOBAL_CSR_ARRAY_SZ 0;
          (rv, ringsz, d) = read_csr_array hw QDMA_CSR_RING_SZ (mb_dev env)
      in if rv < 0 then (Exit_func rv 0, resp, env\<lparr>mb_dev := d\<rparr>)
         else let (_, cap, dev) = ha_get_device_attributes hw (Some d) (Some da_zeroed);
                  dev_cap = the cap; d = the dev;
                  (rv, bufsz, d) = (if da_st_en dev_cap \<noteq> 0 then read_csr_array hw QDMA_CSR_BUF_SZ d
                    else (rv, zeros, d))
         in if csr_failed rv then (Exit_func rv 0, resp, env\<lparr>mb_dev := d\<rparr>)
         else let more = (da_st_en dev_cap \<noteq> 0 \<or> da_mm_cmpt_en dev_cap \<noteq> 0);
                  (rv, tmr_th, d) = (if more then read_csr_array hw QDMA_CSR_TIMER_CNT d
                    else (rv, zeros, d))
         in if csr_failed rv then (Exit_func rv 0, resp, env\<lparr>mb_dev := d\<rparr>)
         else let (rv, cntr_th, d) = (if more then read_csr_array hw QDMA_CSR_CNT_TH d
                    else (rv, zeros, d))
         in if csr_failed rv then (Exit_func rv 0, resp, env\<lparr>mb_dev := d\<rparr>)
         else (Exit_func
                 (if rv = neg_err QDMA_ERR_HWACC_FEATURE_NOT_SUPPORTED then err_code QDMA_SUCCESS else rv) 0,
               resp\<lparr>mm_csr_info := csr_answer rv ringsz bufsz tmr_th cntr_th (mm_csr_info resp)\<rparr>,
               env\<lparr>mb_dev := d\<rparr>))"

definition mbox_qreq :: "'d qdma_hw_access \<Rightarrow> u8 \<Rightarrow> 'd mbox_branch" where
  "mbox_qreq hw idx rcv resp env =
     (let (rv, _, rm, al) = qdma_dev_update (mb_al env) (mb_rm env) (uint idx) (mm_src_func_id rcv)
            (uint (mm_qmax rcv)) (sint (mm_qbase rcv));
          env = env\<lparr>mb_rm := rm, mb_al := al\<rparr>;
          (rv, resp) =
        (if rv = 0
         then (case qdma_dev_qinfo_get rm (uint idx) (mm_src_func_id rcv) of
                 Inl e \<Rightarrow> (neg_err e, resp)
               | Inr (b, n) \<Rightarrow> (err_code QDMA_SUCCESS, resp\<lparr>mm_qbase := of_int b, mm_qmax := of_int n\<rparr>))
         else (rv, resp))
      in if rv < 0 then (Exit_func (neg_err QDMA_ERR_MBOX_NUM_QUEUES) 0, resp, env)
         else let (_, env) = write_fmap hw (mm_src_func_id rcv) fm_zeroed env
              in (Exit_func rv 0, resp, env))"

text \<open>MBOX_OP_QNOTIFY_ADD counts up and MBOX_OP_QNOTIFY_DEL counts down.\<close>

definition mbox_qnotify ::
  "(qdma_rm \<Rightarrow> int \<Rightarrow> u16 \<Rightarrow> qdma_dev_q_type \<Rightarrow> int \<times> qdma_rm) \<Rightarrow> u8 \<Rightarrow> 'd mbox_branch" where
  "mbox_qnotify count idx rcv resp env =
     (if qdma_dev_is_queue_in_range (mb_rm env) (uint idx) (mm_src_func_id rcv)
           (uint (mm_notify_qid_hw rcv)) \<noteq> QDMA_DEV_Q_IN_RANGE
      then (Exit_func (neg_err QDMA_ERR_MBOX_INV_QID) 0, resp, env)
      else let (rv, rm) = count (mb_rm env) (uint idx) (mm_src_func_id rcv) (mm_notify_q_type rcv)
           in (Exit_func rv 0, resp, env\<lparr>mb_rm := rm\<rparr>))"

text \<open>The status of the answer is the last count.\<close>

definition mbox_qactive_cnt :: "u8 \<Rightarrow> 'd mbox_branch" where
  "mbox_qactive_cnt idx rcv resp env =
     (let count = qdma_get_device_active_queue_count (mb_rm env) (uint idx) (mm_src_func_id rcv)
      in (Exit_func (count QDMA_DEV_Q_TYPE_CMPT) 0,
          resp\<lparr>mm_h2c_queues := of_int (count QDMA_DEV_Q_TYPE_H2C),
            mm_c2h_queues := of_int (count QDMA_DEV_Q_TYPE_C2H),
            mm_cmpt_queues := of_int (count QDMA_DEV_Q_TYPE_CMPT)\<rparr>, env))"

text \<open>
  The loops over interrupt rings. Each call overwrites rv, and what the loops store in the status
  of the response is overwritten at exit_func; so the status is the result of the last call.
  With more rings than the arrays have elements the code reads, and for MBOX_OP_INTR_CTXT_RD
  writes, behind them; the lists of the model may have more elements to stand for that, and
  a write outside the list is dropped.
\<close>

definition ring_step ::
  "'d qdma_hw_access \<Rightarrow> u32 \<Rightarrow> qdma_indirect_intr_ctxt option \<Rightarrow> qdma_hw_access_type \<Rightarrow>
   'd mbox_env \<Rightarrow> int \<times> qdma_indirect_intr_ctxt option \<times> 'd mbox_env" where
  "ring_step hw ring_index ctxt access env =
     (let (rv, c, dev) = ha_indirect_intr_ctx_conf hw (Some (mb_dev env)) (ucast ring_index) ctxt access
      in (rv, c, env\<lparr>mb_dev := the dev\<rparr>))"

definition mbox_intr_write :: "'d qdma_hw_access \<Rightarrow> 'd mbox_branch" where
  "mbox_intr_write hw rcv resp env =
     (let ictxt = mm_intr_ctxt rcv;
          (rv, env) = fold (\<lambda>i (rv, env).
            let ring_index = ix_ring_index_list ictxt ! i;
                (_, _, env) = ring_step hw ring_index None QDMA_HW_ACCESS_CLEAR env;
                (rv, _, env) = ring_step hw ring_index (Some (ix_ictxt ictxt ! i)) QDMA_HW_ACCESS_WRITE env
            in (rv, env)) [0..<unat (ix_num_rings ictxt)] (err_code QDMA_SUCCESS, env)
      in (Exit_func rv 0, resp, env))"

definition mbox_intr_read :: "'d qdma_hw_access \<Rightarrow> 'd mbox_branch" where
  "mbox_intr_read hw rcv resp env =
     (let ictxt = mm_intr_ctxt rcv;
          (rv, rings, env) = fold (\<lambda>i (rv, rings, env).
            let (rv, c, env) = ring_step hw (ix_ring_index_list ictxt ! i) (Some (rings ! i))
                  QDMA_HW_ACCESS_READ env
            in (rv, rings[i := the c], env))
            [0..<unat (ix_num_rings ictxt)] (err_code QDMA_SUCCESS, ix_ictxt (mm_intr_ctxt resp), env)
      in (Exit_func rv 0, resp\<lparr>mm_intr_ctxt := (mm_intr_ctxt resp)\<lparr>ix_ictxt := rings\<rparr>\<rparr>, env))"

text \<open>MBOX_OP_INTR_CTXT_CLR and MBOX_OP_INTR_CTXT_INV differ in the access type.\<close>

definition mbox_intr_reset :: "'d qdma_hw_access \<Rightarrow> qdma_hw_access_type \<Rightarrow> 'd mbox_branch" where
  "mbox_intr_reset hw access rcv resp env =
     (let ictxt = mm_intr_ctxt rcv;
          (rv, env) = fold (\<lambda>i (rv, env).
            let (rv, _, env) = ring_step hw (ix_ring_index_list ictxt ! i) None access env in (rv, env))
            [0..<unat (ix_num_rings ictxt)] (err_code QDMA_SUCCESS, env)
      in (Exit_func rv 0, resp, env))"

definition mbox_qctxt_reset ::
  "('d qdma_hw_access \<Rightarrow> qdma_rm \<Rightarrow> u8 \<Rightarrow> u16 \<Rightarrow> u16 \<Rightarrow> 1 word \<Rightarrow> 1 word \<Rightarrow> mbox_cmpt_ctxt_type \<Rightarrow>
    'd xdev \<Rightarrow> int \<times> 'd xdev) \<Rightarrow> 'd qdma_hw_access \<Rightarrow> u8 \<Rightarrow> 'd mbox_branch" where
  "mbox_qctxt_reset reset hw idx rcv resp env =
     (let (rv, d) = reset hw (mb_rm env) idx (mm_src_func_id rcv) (mm_qid_hw rcv) (mm_st rcv) (mm_c2h rcv)
            (mm_cmpt_ctxt_type rcv) (mb_dev env)
      in (Exit_func rv 0, resp, env\<lparr>mb_dev := d\<rparr>))"

definition mbox_qctxt_read :: "'d qdma_hw_access \<Rightarrow> 'd mbox_branch" where
  "mbox_qctxt_read hw rcv resp env =
     (let (rv, ctxt, d) = mbox_read_queue_contexts hw (mm_src_func_id rcv) (mm_qid_hw rcv) (mm_st rcv)
            (mm_c2h rcv) (mm_cmpt_ctxt_type rcv) (mm_descq_ctxt resp) (mb_dev env)
      in (Exit_func rv 0, resp\<lparr>mm_descq_ctxt := ctxt\<rparr>, env\<lparr>mb_dev := d\<rparr>))"

text \<open>The function id of the configuration is replaced by the one of the sender.\<close>

definition mbox_qctxt_write :: "'d qdma_hw_access \<Rightarrow> u8 \<Rightarrow> 'd mbox_branch" where
  "mbox_qctxt_write hw idx rcv resp env =
     (let qctxt = rcv\<lparr>mm_descq_conf := (mm_descq_conf rcv)\<lparr>dc_func_id := mm_src_func_id rcv\<rparr>\<rparr>;
          (rv, d) = mbox_write_queue_contexts hw (mb_rm env) idx qctxt (mb_dev env)
      in (Exit_func rv 0, resp, env\<lparr>mb_dev := d\<rparr>))"

definition mbox_reg_list :: "'d qdma_hw_access \<Rightarrow> 'd mbox_branch" where
  "mbox_reg_list hw rcv resp env =
     (let (rv, n, regs, dev) = ha_read_reg_list hw (Some (mb_dev env)) 1 (mm_group_num rcv)
            (mm_num_regs resp) (Some (mm_reg_list resp));
          resp = resp\<lparr>mm_num_regs := n, mm_reg_list := the regs\<rparr>
      in (Exit_func (if rv < 0 \<or> n = 0 then neg_err QDMA_ERR_MBOX_REG_READ_FAILED else rv) 0,
          resp, env\<lparr>mb_dev := the dev\<rparr>))"

section \<open>The handler\<close>

definition mbox_dispatch :: "'d qdma_hw_access \<Rightarrow> u8 \<Rightarrow> 'd mbox_branch" where
  "mbox_dispatch hw idx rcv =
     (case mbox_op_of (mm_op rcv) of
        Some MBOX_OP_VF_BYE \<Rightarrow> mbox_bye hw idx QDMA_MBOX_VF_OFFLINE rcv
      | Some MBOX_OP_PF_RESET_VF_BYE \<Rightarrow> mbox_bye hw idx QDMA_MBOX_VF_RESET_BYE rcv
      | Some MBOX_OP_HELLO \<Rightarrow> mbox_hello hw idx rcv
      | Some MBOX_OP_FMAP \<Rightarrow> mbox_fmap hw rcv
      | Some MBOX_OP_CSR \<Rightarrow> mbox_csr hw rcv
      | Some MBOX_OP_QREQ \<Rightarrow> mbox_qreq hw idx rcv
      | Some MBOX_OP_QNOTIFY_ADD \<Rightarrow> mbox_qnotify qdma_dev_increment_active_queue idx rcv
      | Some MBOX_OP_QNOTIFY_DEL \<Rightarrow> mbox_qnotify qdma_dev_decrement_active_queue idx rcv
      | Some MBOX_OP_GET_QACTIVE_CNT \<Rightarrow> mbox_qactive_cnt idx rcv
      | Some MBOX_OP_INTR_CTXT_WRT \<Rightarrow> mbox_intr_write hw rcv
      | Some MBOX_OP_INTR_CTXT_RD \<Rightarrow> mbox_intr_read hw rcv
      | Some MBOX_OP_INTR_CTXT_CLR \<Rightarrow> mbox_intr_reset hw QDMA_HW_ACCESS_CLEAR rcv
      | Some MBOX_OP_INTR_CTXT_INV \<Rightarrow> mbox_intr_reset hw QDMA_HW_ACCESS_INVALIDATE rcv
      | Some MBOX_OP_QCTXT_INV \<Rightarrow> mbox_qctxt_reset mbox_invalidate_queue_contexts hw idx rcv
      | Some MBOX_OP_QCTXT_CLR \<Rightarrow> mbox_qctxt_reset mbox_clear_queue_contexts hw idx rcv
      | Some MBOX_OP_QCTXT_RD \<Rightarrow> mbox_qctxt_read hw rcv
      | Some MBOX_OP_QCTXT_WRT \<Rightarrow> mbox_qctxt_write hw idx rcv
      | Some MBOX_OP_RESET_PREPARE_RESP \<Rightarrow> (\<lambda>resp env. (Return QDMA_MBOX_VF_RESET, resp, env))
      | Some MBOX_OP_RESET_DONE_RESP \<Rightarrow> (\<lambda>resp env. (Return QDMA_MBOX_PF_RESET_DONE, resp, env))
      | Some MBOX_OP_REG_LIST_READ \<Rightarrow> mbox_reg_list hw rcv
      | Some MBOX_OP_PF_BYE_RESP \<Rightarrow> (\<lambda>resp env. (Return QDMA_MBOX_PF_BYE, resp, env))
      | _ \<Rightarrow> (\<lambda>resp env. (Return (neg_err QDMA_ERR_MBOX_INV_MSG), resp, env)))"

text \<open>The status is a char of the response.\<close>

definition pf_answer :: "u16 \<Rightarrow> mbox_msg \<Rightarrow> int \<Rightarrow> mbox_msg \<Rightarrow> mbox_msg" where
  "pf_answer func rcv rv resp =
     resp\<lparr>mm_op := mm_op rcv + MBOX_MSG_OP_RSP_OFFSET, mm_dst_func_id := mm_src_func_id rcv,
       mm_src_func_id := func, mm_status := of_int rv\<rparr>"

definition qdma_mbox_pf_rcv_msg_handler ::
  "'d qdma_hw_access \<Rightarrow> u8 \<Rightarrow> u16 \<Rightarrow> mbox_msg option \<Rightarrow> mbox_msg \<Rightarrow> 'd mbox_env \<Rightarrow>
   int \<times> mbox_msg \<times> 'd mbox_env" where
  "qdma_mbox_pf_rcv_msg_handler hw idx func rcv_msg resp env =
     (case rcv_msg of
        None \<Rightarrow> (neg_err QDMA_ERR_INV_PARAM, resp, env)
      | Some rcv \<Rightarrow>
          (case mbox_dispatch hw idx rcv resp env of
             (Return rv, resp, env) \<Rightarrow> (rv, resp, env)
           | (Exit_func rv ret, resp, env) \<Rightarrow> (ret, pf_answer func rcv rv resp, env)))"

end
