(* ===== verification/QueueConf.thy ===== *)
theory QueueConf
  imports AccessInit MboxHandler
begin

text \<open>
  The data of a queue in the library above the access functions: struct qdma_queue_conf
  (libqdma_export.h), the members of struct qdma_descq (qdma_descq.h) that set-up and the life
  of a queue work on, and those of struct xlnx_dma_dev (xdev.h) they read. Further the
  composition of the contexts of a queue from its configuration: make_sw_context,
  make_qid2vec_context, make_prefetch_context and make_cmpt_context of qdma_context.c for a
  physical function, and the configuration that a virtual function puts into its request. The
  callbacks of the upper layer are left out, except whether the descriptor fill callback is set;
  names are left out.
\<close>

section \<open>Data\<close>

datatype queue_type_t = Q_H2C | Q_C2H | Q_CMPT | Q_H2C_C2H

primrec q_type_code :: "queue_type_t \<Rightarrow> u8" where
  "q_type_code Q_H2C = 0"
| "q_type_code Q_C2H = 1"
| "q_type_code Q_CMPT = 2"
| "q_type_code Q_H2C_C2H = 3"

datatype qdma_drv_mode = AUTO_MODE | POLL_MODE | DIRECT_INTR_MODE | INDIRECT_INTR_MODE | LEGACY_INTR_MODE

datatype q_state_t = Q_STATE_DISABLED | Q_STATE_ENABLED | Q_STATE_ONLINE

abbreviation DESC_SZ_8B :: "2 word" where "DESC_SZ_8B \<equiv> 0"
abbreviation DESC_SZ_16B :: "2 word" where "DESC_SZ_16B \<equiv> 1"
abbreviation DESC_SZ_32B :: "2 word" where "DESC_SZ_32B \<equiv> 2"
abbreviation DESC_SZ_64B :: "2 word" where "DESC_SZ_64B \<equiv> 3"
abbreviation CMPT_DESC_SZ_64B :: "2 word" where "CMPT_DESC_SZ_64B \<equiv> 3"
abbreviation TRIG_MODE_COMBO :: "3 word" where "TRIG_MODE_COMBO \<equiv> 5"

record qdma_queue_conf =
  cf_qidx :: "24 word"
  cf_st :: "1 word"
  cf_q_type :: queue_type_t
  cf_pipe :: "1 word"
  cf_irq_en :: "1 word"
  cf_desc_rng_sz_idx :: "4 word"
  cf_wb_status_en :: "1 word"
  cf_cmpl_status_acc_en :: "1 word"
  cf_cmpl_status_pend_chk :: "1 word"
  cf_desc_bypass :: "1 word"
  cf_pfetch_en :: "1 word"
  cf_fetch_credit :: "1 word"
  cf_st_pkt_mode :: "1 word"
  cf_c2h_buf_sz_idx :: "4 word"
  cf_cmpl_rng_sz_idx :: "4 word"
  cf_cmpl_desc_sz :: "2 word"
  cf_cmpl_stat_en :: "1 word"
  cf_cmpl_udd_en :: "1 word"
  cf_cmpl_timer_idx :: "4 word"
  cf_cmpl_cnt_th_idx :: "4 word"
  cf_cmpl_trig_mode :: "3 word"
  cf_cmpl_en_intr :: "1 word"
  cf_sw_desc_sz :: "2 word"
  cf_pfetch_bypass :: "1 word"
  cf_cmpl_ovf_chk_dis :: "1 word"
  cf_port_id :: "3 word"
  cf_at :: "1 word"
  cf_adaptive_rx :: "1 word"
  cf_latency_optimize :: "1 word"
  cf_init_pidx_dis :: "1 word"
  cf_mm_channel :: "1 word"
  cf_pidx_acc :: u8
  cf_fp_bypass_desc_fill :: bool
  cf_rngsz :: u32
  cf_rngsz_cmpt :: u32
  cf_c2h_bufsz :: u32
  cf_ping_pong_en :: "1 word"
  cf_aperture_size :: u32

record descq =
  ds_conf :: qdma_queue_conf
  ds_channel :: u8
  ds_color :: "1 word"
  ds_q_state :: q_state_t
  ds_qidx_hw :: u32
  ds_q_hndl :: nat
  ds_intr_id :: u32
  ds_desc :: bool
  ds_desc_bus :: u64
  ds_desc_cmpt :: bool
  ds_desc_cmpt_bus :: u64
  ds_desc_list :: bool
  ds_avail :: u32
  ds_pidx :: u32
  ds_cidx :: u32
  ds_credit :: u32
  ds_pidx_cmpt :: u32
  ds_cidx_cmpt :: u32
  ds_pend_list_empty :: u32
  ds_work_req_pend :: u32
  ds_total_cmpl_descs :: nat
  ds_cmpt_entry_len :: u8
  ds_pidx_info :: qdma_q_pidx_reg_info
  ds_cmpt_cidx_info :: qdma_q_cmpt_cidx_reg_info
  ds_moving_avg :: u32
  ds_avg_thr_hi :: u32
  ds_avg_thr_lo :: u32
  ds_sorted_idx :: nat

record global_csr_conf =
  gc_ring_sz :: "u32 list"
  gc_c2h_timer_cnt :: "u32 list"
  gc_c2h_cnt_th :: "u32 list"
  gc_c2h_buf_sz :: "u32 list"
  gc_wb_intvl :: u32

record intr_coal_conf =
  ic_vec_id :: u16
  ic_intr_ring_bus :: u64
  ic_color :: u8

text \<open>The register state is the device handle of RegIo; hw is the table of access functions.\<close>

record 'd xlnx_dma_dev =
  xd_dev :: "'d xdev"
  xd_hw :: "'d qdma_hw_access_full"
  xd_drv_mode :: qdma_drv_mode
  xd_intr_rngsz :: u8
  xd_func_id :: u16
  xd_num_vecs :: nat
  xd_dvec_start_idx :: u32
  xd_intr_coal_list :: "intr_coal_conf list"
  xd_dev_cap :: qdma_dev_attributes
  xd_version_info :: qdma_hw_version_info
  xd_csr_info :: global_csr_conf
  xd_sorted_c2h_cntr_idx :: "nat list"

abbreviation at_idx :: "u32 list \<Rightarrow> 4 word \<Rightarrow> u32" where
  "at_idx arr i \<equiv> arr ! unat i"

abbreviation aggregated :: "qdma_drv_mode \<Rightarrow> bool" where
  "aggregated mode \<equiv> mode = INDIRECT_INTR_MODE \<or> mode = AUTO_MODE"

text \<open>The queues that have a completion ring and those of a free list.\<close>

definition st_c2h :: "qdma_queue_conf \<Rightarrow> bool" where
  "st_c2h conf \<longleftrightarrow> cf_st conf \<noteq> 0 \<and> cf_q_type conf = Q_C2H"

definition has_cmpt :: "qdma_queue_conf \<Rightarrow> bool" where
  "has_cmpt conf \<longleftrightarrow> st_c2h conf \<or> cf_st conf = 0 \<and> cf_q_type conf = Q_CMPT"

section \<open>Contexts of a queue of a physical function\<close>

definition get_intr_ring_index :: "'d xlnx_dma_dev \<Rightarrow> u32 \<Rightarrow> u32" where
  "get_intr_ring_index xdev vector_index =
     (vector_index - xd_dvec_start_idx xdev) + ucast (xd_func_id xdev) * 1"

definition make_intr_context :: "'d xlnx_dma_dev \<Rightarrow> qdma_indirect_intr_ctxt \<Rightarrow> int \<times> qdma_indirect_intr_ctxt" where
  "make_intr_context xdev ctxt =
     (if \<not> aggregated (xd_drv_mode xdev) then (- errno_code EINVAL, ctxt)
      else let entry = xd_intr_coal_list xdev ! 0
      in (0, ctxt\<lparr>it_valid := 1, it_vec := ic_vec_id entry, it_baddr_4k := ic_intr_ring_bus entry,
           it_color := ic_color entry, it_page_size := xd_intr_rngsz xdev, it_func_id := xd_func_id xdev\<rparr>))"

definition make_sw_context :: "'d xlnx_dma_dev \<Rightarrow> descq \<Rightarrow> qdma_descq_sw_ctxt" where
  "make_sw_context xdev q =
     (let conf = ds_conf q; sw = sw_zeroed;
          sw = (if aggregated (xd_drv_mode xdev)
                then sw\<lparr>sw_vec := ucast (get_intr_ring_index xdev (ds_intr_id q)), sw_intr_aggr := 1\<rparr>
                else sw\<lparr>sw_vec := ucast (ds_intr_id q)\<rparr>);
          sw = sw\<lparr>sw_ring_bs_addr := ds_desc_bus q,
                  sw_wbi_chk := ucast (cf_cmpl_status_pend_chk conf),
                  sw_wbi_intvl_en := ucast (cf_cmpl_status_acc_en conf),
                  sw_rngsz_idx := ucast (cf_desc_rng_sz_idx conf),
                  sw_bypass := ucast (cf_desc_bypass conf),
                  sw_wbk_en := ucast (cf_wb_status_en conf),
                  sw_irq_en := ucast (cf_irq_en conf),
                  sw_is_mm := NOT (ucast (cf_st conf)),
                  sw_qen := 1\<rparr>;
          sw = (if cf_desc_bypass conf \<noteq> 0 \<and> cf_sw_desc_sz conf = DESC_SZ_64B
                then sw\<lparr>sw_desc_sz := ucast (cf_sw_desc_sz conf)\<rparr>
                else let sw = sw\<lparr>sw_fetch_max := 7\<rparr>
                in if cf_st conf = 0
                   then sw\<lparr>sw_desc_sz := ucast DESC_SZ_32B, sw_mm_chn := ds_channel q, sw_host_id := ds_channel q\<rparr>
                   else if cf_q_type conf = Q_C2H
                   then sw\<lparr>sw_frcd_en := ucast (cf_fetch_credit conf), sw_desc_sz := ucast DESC_SZ_8B\<rparr>
                   else if cf_q_type conf = Q_H2C
                   then sw\<lparr>sw_frcd_en := ucast (cf_fetch_credit conf), sw_desc_sz := ucast DESC_SZ_16B\<rparr>
                   else sw\<lparr>sw_desc_sz := ucast DESC_SZ_16B\<rparr>);
          sw = sw\<lparr>sw_fnc_id := ucast (xd_func_id xdev), sw_irq_arm := ucast (cf_irq_en conf)\<rparr>;
          sw = (if cf_st conf \<noteq> 0 \<and> cf_q_type conf = Q_C2H
                then sw\<lparr>sw_irq_en := 0, sw_irq_arm := 0, sw_wbk_en := 0, sw_wbi_chk := 0\<rparr> else sw)
      in if cf_desc_bypass conf = 0 \<and> (cf_st conf = 0 \<or> cf_q_type conf = Q_H2C)
         then sw\<lparr>sw_mrkr_dis := 1\<rparr> else sw)"

definition make_qid2vec_context :: "'d xlnx_dma_dev \<Rightarrow> descq \<Rightarrow> qdma_qid2vec" where
  "make_qid2vec_context xdev q =
     (let (vec_num, en_coal) =
        (if aggregated (xd_drv_mode xdev) then (get_intr_ring_index xdev (ds_intr_id q), 1)
         else (ds_intr_id q, 0))
      in if cf_q_type (ds_conf q) = Q_C2H
         then qv_zeroed\<lparr>qv_c2h_en_coal := en_coal, qv_c2h_vector := ucast vec_num\<rparr>
         else if cf_q_type (ds_conf q) = Q_H2C
         then qv_zeroed\<lparr>qv_h2c_en_coal := en_coal, qv_h2c_vector := ucast vec_num\<rparr>
         else qv_zeroed)"

definition make_prefetch_context :: "descq \<Rightarrow> qdma_descq_prefetch_ctxt" where
  "make_prefetch_context q =
     (let conf = ds_conf q
      in pf_zeroed\<lparr>pf_valid := 1, pf_bypass := ucast (cf_pfetch_bypass conf),
           pf_bufsz_idx := ucast (cf_c2h_buf_sz_idx conf), pf_pfch_en := ucast (cf_pfetch_en conf)\<rparr>)"

definition make_cmpt_context :: "'d xlnx_dma_dev \<Rightarrow> descq \<Rightarrow> qdma_descq_cmpt_ctxt" where
  "make_cmpt_context xdev q =
     (let conf = ds_conf q;
          cm = cm_zeroed\<lparr>cm_en_stat_desc := cf_cmpl_stat_en conf, cm_en_int := cf_cmpl_en_intr conf,
            cm_trig_mode := cf_cmpl_trig_mode conf, cm_fnc_id := ucast (xd_func_id xdev),
            cm_timer_idx := cf_cmpl_timer_idx conf, cm_counter_idx := cf_cmpl_cnt_th_idx conf,
            cm_color := 1, cm_ringsz_idx := cf_cmpl_rng_sz_idx conf,
            cm_bs_addr := ds_desc_cmpt_bus q, cm_desc_sz := cf_cmpl_desc_sz conf,
            cm_full_upd := cf_adaptive_rx conf, cm_valid := 1\<rparr>;
          cm = (if st_c2h conf then cm\<lparr>cm_dir_c2h := 1\<rparr> else cm);
          cm = cm\<lparr>cm_ovf_chk_dis := cf_cmpl_ovf_chk_dis conf\<rparr>
      in if aggregated (xd_drv_mode xdev)
         then cm\<lparr>cm_vec := ucast (get_intr_ring_index xdev (ds_intr_id q)), cm_int_aggr := 1\<rparr>
         else cm\<lparr>cm_vec := ucast (ds_intr_id q)\<rparr>)"

section \<open>Request of a virtual function\<close>

text \<open>The configuration that qdma_descq_context_setup of a virtual function sends.\<close>

definition vf_descq_conf :: "'d xlnx_dma_dev \<Rightarrow> descq \<Rightarrow> mbox_descq_conf" where
  "vf_descq_conf xdev q =
     (let conf = ds_conf q; csr = xd_csr_info xdev;
          m = dc_zeroed\<lparr>dc_ring_bs_addr := ds_desc_bus q, dc_cmpt_ring_bs_addr := ds_desc_cmpt_bus q,
            dc_en_bypass := cf_desc_bypass conf, dc_irq_arm := cf_irq_en conf,
            dc_wbi_intvl_en := cf_cmpl_status_acc_en conf, dc_wbi_chk := cf_cmpl_status_pend_chk conf,
            dc_at := cf_at conf, dc_wbk_en := cf_wb_status_en conf, dc_irq_en := cf_irq_en conf,
            dc_pfch_en := cf_pfetch_en conf, dc_en_bypass_prefetch := cf_pfetch_bypass conf,
            dc_dis_overflow_check := cf_cmpl_ovf_chk_dis conf, dc_cmpt_int_en := cf_cmpl_en_intr conf,
            dc_cmpl_stat_en := cf_cmpl_stat_en conf\<rparr>;
          m = (if cf_desc_bypass conf \<noteq> 0 \<and> cf_sw_desc_sz conf = DESC_SZ_64B
               then m\<lparr>dc_desc_sz := cf_sw_desc_sz conf\<rparr>
               else if cf_q_type conf \<noteq> Q_CMPT
               then (if cf_st conf = 0 then m\<lparr>dc_desc_sz := DESC_SZ_32B\<rparr>
                     else if cf_q_type conf \<noteq> Q_H2C
                     then m\<lparr>dc_desc_sz := DESC_SZ_8B, dc_forced_en := cf_fetch_credit conf\<rparr>
                     else m\<lparr>dc_desc_sz := DESC_SZ_16B\<rparr>)
               else m);
          m = m\<lparr>dc_cmpt_desc_sz := cf_cmpl_desc_sz conf, dc_triggermode := cf_cmpl_trig_mode conf,
            dc_cmpt_at := cf_at conf, dc_cmpt_color := 1, dc_cmpt_full_upd := 0,
            dc_func_id := xd_func_id xdev,
            dc_cnt_thres := ucast (at_idx (gc_c2h_cnt_th csr) (cf_cmpl_cnt_th_idx conf)),
            dc_timer_thres := ucast (at_idx (gc_c2h_timer_cnt csr) (cf_cmpl_timer_idx conf)),
            dc_ringsz := ucast (cf_rngsz conf), dc_bufsz := ucast (cf_c2h_bufsz conf),
            dc_cmpt_ringsz := ucast (cf_rngsz_cmpt conf)\<rparr>
      in if aggregated (xd_drv_mode xdev)
         then m\<lparr>dc_intr_id := ucast (get_intr_ring_index xdev (ds_intr_id q) AND 0xFFF), dc_intr_aggr := 1\<rparr>
         else m\<lparr>dc_intr_id := ucast (ds_intr_id q)\<rparr>)"

definition vf_cmpt_ctxt_type :: "1 word \<Rightarrow> queue_type_t \<Rightarrow> mbox_cmpt_ctxt_type" where
  "vf_cmpt_ctxt_type st q_type =
     (if st = 0 then (if q_type = Q_CMPT then QDMA_MBOX_CMPT_CTXT_ONLY else QDMA_MBOX_CMPT_CTXT_NONE)
      else if q_type = Q_C2H then QDMA_MBOX_CMPT_WITH_ST else QDMA_MBOX_CMPT_CTXT_NONE)"

end
