(* ===== verification/QueueContext.thy ===== *)
theory QueueContext
  imports QueueConf
begin

text \<open>
  qdma_context.c: programming, clearing and reading the contexts of a queue through the table of
  access functions, for a physical function, and the request that a virtual function sends
  instead. An error of an access function is mapped to a code of the platform and ends the
  call; the map is a table lookup without bounds check, and a lookup outside it is the value None.
  The locale queue_table states what the programming of a queue relies on: a write of a context
  stores its encoding under the selector and queue, a clear zeroes it. It is interpreted
  for the soft IP, the enhanced soft IP and CPM5.
\<close>

section \<open>Calls through the table\<close>

text \<open>A step either ends the function with a result or lets it go on.\<close>

definition checked ::
  "'d qdma_hw_access_full \<Rightarrow> ('d xdev option \<Rightarrow> int \<times> 'c \<times> 'd xdev option) \<Rightarrow> 'd xdev \<Rightarrow>
   (int option + unit) \<times> 'd xdev" where
  "checked hw f d =
     (let (rv, _, dev) = f (Some d)
      in (if rv < 0 then Inl (ha_get_error_code hw rv) else Inr (), the dev))"

fun run_checked :: "('s \<Rightarrow> (int option + unit) \<times> 's) list \<Rightarrow> 's \<Rightarrow> int option \<times> 's" where
  "run_checked [] s = (Some 0, s)"
| "run_checked (f # fs) s =
     (case f s of (Inl r, s) \<Rightarrow> (r, s) | (Inr _, s) \<Rightarrow> run_checked fs s)"

definition cmpt_ring :: "bool \<Rightarrow> queue_type_t \<Rightarrow> bool" where
  "cmpt_ring st type \<longleftrightarrow> st \<and> type = Q_C2H \<or> \<not> st \<and> type = Q_CMPT"

definition qdma_descq_context_clear ::
  "'d qdma_hw_access_full \<Rightarrow> 'd xdev \<Rightarrow> u32 \<Rightarrow> bool \<Rightarrow> queue_type_t \<Rightarrow> bool \<Rightarrow> int option \<times> 'd xdev" where
  "qdma_descq_context_clear hw d qid_hw st type clr =
     (let access = (if clr then QDMA_HW_ACCESS_CLEAR else QDMA_HW_ACCESS_INVALIDATE); q = ucast qid_hw
      in run_checked
        ((if type \<noteq> Q_CMPT
          then [checked hw (\<lambda>dev. ha_sw_ctx_conf hw dev (q_type_code type) q None access),
                checked hw (\<lambda>dev. ha_hw_ctx_conf hw dev (q_type_code type) q None access),
                checked hw (\<lambda>dev. ha_credit_ctx_conf hw dev (q_type_code type) q None access)] @
               (if st \<and> type = Q_C2H then [checked hw (\<lambda>dev. ha_pfetch_ctx_conf hw dev q None access)] else [])
          else []) @
         (if cmpt_ring st type then [checked hw (\<lambda>dev. ha_cmpt_ctx_conf hw dev q None access)] else [])) d)"

text \<open>The result of writing the vector map is not looked at; a call of a function that the table
  does not have is undefined.\<close>

definition qid2vec_step ::
  "'d xlnx_dma_dev \<Rightarrow> queue_type_t \<Rightarrow> u16 \<Rightarrow> qdma_qid2vec \<Rightarrow> 'd xdev \<Rightarrow> (int option + unit) \<times> 'd xdev" where
  "qid2vec_step xdev type q ctxt d =
     (case ha_qid2vec_conf (xd_hw xdev) of
        None \<Rightarrow> (Inl None, d)
      | Some f \<Rightarrow> let (_, _, dev) = f (Some d) (q_type_code type) q (Some ctxt) QDMA_HW_ACCESS_WRITE
          in (Inr (), the dev))"

definition qdma_descq_context_program ::
  "'d xlnx_dma_dev \<Rightarrow> u32 \<Rightarrow> bool \<Rightarrow> queue_type_t \<Rightarrow> qdma_descq_context \<Rightarrow> int option \<times> 'd xlnx_dma_dev" where
  "qdma_descq_context_program xdev qid_hw st type context =
     (let hw = xd_hw xdev; q = ucast qid_hw;
          (rv, d) = qdma_descq_context_clear hw (xd_dev xdev) qid_hw st type True
      in case rv of
        None \<Rightarrow> (None, xdev\<lparr>xd_dev := d\<rparr>)
      | Some rv \<Rightarrow>
          if rv < 0 then (ha_get_error_code hw rv, xdev\<lparr>xd_dev := d\<rparr>)
          else let (rv, d) = run_checked
            ((if type \<noteq> Q_CMPT
              then [checked hw (\<lambda>dev. ha_sw_ctx_conf hw dev (q_type_code type) q
                      (Some (dx_sw_ctxt context)) QDMA_HW_ACCESS_WRITE)] @
                   (if da_qid2vec_ctx (xd_dev_cap xdev) \<noteq> 0 \<and> xd_drv_mode xdev \<noteq> POLL_MODE
                    then [qid2vec_step xdev type q (dx_qid2vec context)] else []) @
                   (if st \<and> type \<noteq> Q_H2C
                    then [checked hw (\<lambda>dev. ha_pfetch_ctx_conf hw dev q
                            (Some (dx_pfetch_ctxt context)) QDMA_HW_ACCESS_WRITE)] else [])
              else []) @
             (if cmpt_ring st type
              then [checked hw (\<lambda>dev. ha_cmpt_ctx_conf hw dev q
                      (Some (dx_cmpt_ctxt context)) QDMA_HW_ACCESS_WRITE)] else [])) d
          in (rv, xdev\<lparr>xd_dev := d\<rparr>))"

definition queue_context :: "'d xlnx_dma_dev \<Rightarrow> descq \<Rightarrow> qdma_descq_context" where
  "queue_context xdev q =
     (let conf = ds_conf q; c = dx_zeroed;
          c = (if cf_q_type conf \<noteq> Q_CMPT
               then let c = c\<lparr>dx_sw_ctxt := make_sw_context xdev q\<rparr>;
                        c = (if da_qid2vec_ctx (xd_dev_cap xdev) \<noteq> 0 \<and> xd_drv_mode xdev \<noteq> POLL_MODE
                             then c\<lparr>dx_qid2vec := make_qid2vec_context xdev q\<rparr> else c)
                    in if st_c2h conf then c\<lparr>dx_pfetch_ctxt := make_prefetch_context q\<rparr> else c
               else c)
      in if has_cmpt conf then c\<lparr>dx_cmpt_ctxt := make_cmpt_context xdev q\<rparr> else c)"

definition qdma_descq_context_setup :: "'d xlnx_dma_dev \<Rightarrow> descq \<Rightarrow> int option \<times> 'd xlnx_dma_dev" where
  "qdma_descq_context_setup xdev q =
     qdma_descq_context_program xdev (ds_qidx_hw q) (cf_st (ds_conf q) \<noteq> 0) (cf_q_type (ds_conf q))
       (queue_context xdev q)"

text \<open>A read fills one member of the context structure.\<close>

definition checked_read ::
  "'d qdma_hw_access_full \<Rightarrow> ('d xdev option \<Rightarrow> 'c option \<Rightarrow> int \<times> 'c option \<times> 'd xdev option) \<Rightarrow>
   (qdma_descq_context \<Rightarrow> 'c) \<Rightarrow> ('c \<Rightarrow> qdma_descq_context \<Rightarrow> qdma_descq_context) \<Rightarrow>
   qdma_descq_context \<times> 'd xdev \<Rightarrow> (int option + unit) \<times> qdma_descq_context \<times> 'd xdev" where
  "checked_read hw f get put = (\<lambda>(x, d).
     let (rv, c, dev) = f (Some d) (Some (get x))
     in (if rv < 0 then Inl (ha_get_error_code hw rv) else Inr (), put (the c) x, the dev))"

definition qdma_descq_context_read ::
  "'d xlnx_dma_dev \<Rightarrow> u32 \<Rightarrow> bool \<Rightarrow> queue_type_t \<Rightarrow> int option \<times> qdma_descq_context \<times> 'd xlnx_dma_dev" where
  "qdma_descq_context_read xdev qid_hw st type =
     (let hw = xd_hw xdev; q = ucast qid_hw; t = q_type_code type;
          (rv, c, d) = run_checked
            ((if type \<noteq> Q_CMPT
              then [checked_read hw (\<lambda>dev c. ha_sw_ctx_conf hw dev t q c QDMA_HW_ACCESS_READ)
                      dx_sw_ctxt (\<lambda>c x. x\<lparr>dx_sw_ctxt := c\<rparr>),
                    checked_read hw (\<lambda>dev c. ha_hw_ctx_conf hw dev t q c QDMA_HW_ACCESS_READ)
                      dx_hw_ctxt (\<lambda>c x. x\<lparr>dx_hw_ctxt := c\<rparr>),
                    checked_read hw (\<lambda>dev c. ha_credit_ctx_conf hw dev t q c QDMA_HW_ACCESS_READ)
                      dx_cr_ctxt (\<lambda>c x. x\<lparr>dx_cr_ctxt := c\<rparr>),
                    checked_read hw (\<lambda>dev c. ha_fmap_conf hw dev (xd_func_id xdev) c QDMA_HW_ACCESS_READ)
                      dx_fmap (\<lambda>c x. x\<lparr>dx_fmap := c\<rparr>)] @
                   (if st \<and> type \<noteq> Q_H2C
                    then [checked_read hw (\<lambda>dev c. ha_pfetch_ctx_conf hw dev q c QDMA_HW_ACCESS_READ)
                            dx_pfetch_ctxt (\<lambda>c x. x\<lparr>dx_pfetch_ctxt := c\<rparr>)] else [])
              else []) @
             (if cmpt_ring st type
              then [checked_read hw (\<lambda>dev c. ha_cmpt_ctx_conf hw dev q c QDMA_HW_ACCESS_READ)
                      dx_cmpt_ctxt (\<lambda>c x. x\<lparr>dx_cmpt_ctxt := c\<rparr>)] else [])) (dx_zeroed, xd_dev xdev)
      in (rv, c, xdev\<lparr>xd_dev := d\<rparr>))"

section \<open>Interrupt contexts\<close>

text \<open>There is one interrupt ring for each function (QDMA_NUM_DATA_VEC_FOR_INTR_CXT).\<close>

definition qdma_intr_context_setup :: "'d xlnx_dma_dev \<Rightarrow> int option \<times> 'd xlnx_dma_dev" where
  "qdma_intr_context_setup xdev =
     (if \<not> aggregated (xd_drv_mode xdev) then (Some 0, xdev)
      else let (rv, ctxt) = make_intr_context xdev it_zeroed
      in if rv < 0 then (Some rv, xdev)
      else let hw = xd_hw xdev; ring_index = ucast (get_intr_ring_index xdev (0 + xd_dvec_start_idx xdev));
               (rv, d) = run_checked
                 [checked hw (\<lambda>dev. ha_indirect_intr_ctx_conf hw dev ring_index None QDMA_HW_ACCESS_CLEAR),
                  checked hw (\<lambda>dev. ha_indirect_intr_ctx_conf hw dev ring_index (Some ctxt) QDMA_HW_ACCESS_WRITE)]
                 (xd_dev xdev)
      in (rv, xdev\<lparr>xd_dev := d\<rparr>))"

definition qdma_intr_context_read ::
  "'d xlnx_dma_dev \<Rightarrow> u32 \<Rightarrow> int option \<times> qdma_indirect_intr_ctxt \<times> 'd xlnx_dma_dev" where
  "qdma_intr_context_read xdev ring_index =
     (let hw = xd_hw xdev;
          (rv, c, dev) = ha_indirect_intr_ctx_conf hw (Some (xd_dev xdev)) (ucast ring_index)
            (Some it_zeroed) QDMA_HW_ACCESS_READ
      in (if rv < 0 then ha_get_error_code hw rv else Some 0, the c, xdev\<lparr>xd_dev := the dev\<rparr>))"

definition qdma_prog_intr_context ::
  "'d xlnx_dma_dev \<Rightarrow> (u32 \<times> qdma_indirect_intr_ctxt) list \<Rightarrow> int option \<times> 'd xlnx_dma_dev" where
  "qdma_prog_intr_context xdev rings =
     (let hw = xd_hw xdev;
          (rv, d) = run_checked
            (map (\<lambda>(ring_index, ctxt). checked hw (\<lambda>dev. ha_indirect_intr_ctx_conf hw dev (ucast ring_index)
               (Some ctxt) QDMA_HW_ACCESS_WRITE)) rings) (xd_dev xdev)
      in (rv, xdev\<lparr>xd_dev := d\<rparr>))"

section \<open>Request of a virtual function\<close>

definition vf_context_setup_msg :: "'d xlnx_dma_dev \<Rightarrow> descq \<Rightarrow> mbox_msg option \<Rightarrow> int \<times> mbox_msg option" where
  "vf_context_setup_msg xdev q m =
     qdma_mbox_compose_vf_qctxt_write (xd_func_id xdev) (ucast (ds_qidx_hw q)) (ucast (cf_st (ds_conf q)))
       (q_type_code (cf_q_type (ds_conf q))) (vf_cmpt_ctxt_type (cf_st (ds_conf q)) (cf_q_type (ds_conf q)))
       (vf_descq_conf xdev q) m"

definition vf_context_clear_msg ::
  "'d xlnx_dma_dev \<Rightarrow> u32 \<Rightarrow> bool \<Rightarrow> queue_type_t \<Rightarrow> bool \<Rightarrow> mbox_msg option \<Rightarrow> int \<times> mbox_msg option" where
  "vf_context_clear_msg xdev qid_hw st type clr m =
     (let t = vf_cmpt_ctxt_type (if st then 1 else 0) type; s = (if st then 1 else 0)
      in if clr then qdma_mbox_compose_vf_qctxt_clear (xd_func_id xdev) (ucast qid_hw) s (q_type_code type) t m
         else qdma_mbox_compose_vf_qctxt_invalidate (xd_func_id xdev) (ucast qid_hw) s (q_type_code type) t m)"

definition vf_context_read_msg ::
  "'d xlnx_dma_dev \<Rightarrow> u32 \<Rightarrow> bool \<Rightarrow> queue_type_t \<Rightarrow> mbox_msg option \<Rightarrow> int \<times> mbox_msg option" where
  "vf_context_read_msg xdev qid_hw st type m =
     qdma_mbox_compose_vf_qctxt_read (xd_func_id xdev) (ucast qid_hw) (if st then 1 else 0) (q_type_code type)
       (vf_cmpt_ctxt_type (if st then 1 else 0) type) m"

section \<open>What programming a queue relies on\<close>

abbreviation sel_sw :: "u8 \<Rightarrow> ind_ctxt_cmd_sel" where
  "sel_sw c2h \<equiv> if c2h \<noteq> 0 then QDMA_CTXT_SEL_SW_C2H else QDMA_CTXT_SEL_SW_H2C"
abbreviation sel_hw :: "u8 \<Rightarrow> ind_ctxt_cmd_sel" where
  "sel_hw c2h \<equiv> if c2h \<noteq> 0 then QDMA_CTXT_SEL_HW_C2H else QDMA_CTXT_SEL_HW_H2C"
abbreviation sel_cr :: "u8 \<Rightarrow> ind_ctxt_cmd_sel" where
  "sel_cr c2h \<equiv> if c2h \<noteq> 0 then QDMA_CTXT_SEL_CR_C2H else QDMA_CTXT_SEL_CR_H2C"

text \<open>The call succeeds and the contexts are as before but for one key.\<close>

definition stores ::
  "('d \<Rightarrow> ctxt_memory) \<Rightarrow> 'd xdev \<Rightarrow> u32 \<Rightarrow> u32 list \<Rightarrow> int \<times> 'c \<times> 'd xdev option \<Rightarrow> bool" where
  "stores mem d k ws r \<longleftrightarrow>
     (\<exists>c d'. r = (0, c, Some d') \<and> mem (xregs d') = (mem (xregs d))(k := ws))"

lemma stores_write:
  assumes "ctxt_hardware io win mem"
  shows "stores mem d (ctxt_key sel q) (ctxt_pad (enc c))
    (keep_ctxt c0 (context_write (indirect_reg_write io 0x804 0x844 1) enc (Some d) sel q (Some c)))"
  using indirect_write_effect [OF assms, of d sel q "enc c"]
  by (auto simp: stores_def context_write_def keep_ctxt_def ctxt_key_def)

lemma stores_clear:
  assumes "ctxt_hardware io win mem"
  shows "stores mem d (ctxt_key sel q) (replicate 8 0)
    (keep_ctxt c0 (context_cmd (indirect_reg_cmd io 0x844 1 QDMA_CTXT_CMD_CLR) (Some d) sel q))"
  using indirect_clear_effect [OF assms, of d sel q]
  by (auto simp: stores_def context_cmd_def keep_ctxt_def ctxt_key_def)

locale queue_table =
  fixes tab :: "'d mmio \<Rightarrow> 'd qdma_hw_access"
    and enc_sw :: "qdma_descq_sw_ctxt \<Rightarrow> u32 list" and enc_pf :: "qdma_descq_prefetch_ctxt \<Rightarrow> u32 list"
    and enc_cm :: "qdma_descq_cmpt_ctxt \<Rightarrow> u32 list"
  assumes sw_clear: "ctxt_hardware io win mem \<Longrightarrow> c2h \<le> 1 \<Longrightarrow> stores mem d (ctxt_key (sel_sw c2h) q) (replicate 8 0)
      (ha_sw_ctx_conf (tab io) (Some d) c2h q None QDMA_HW_ACCESS_CLEAR)"
    and sw_write: "ctxt_hardware io win mem \<Longrightarrow> c2h \<le> 1 \<Longrightarrow> stores mem d (ctxt_key (sel_sw c2h) q) (ctxt_pad (enc_sw cs))
      (ha_sw_ctx_conf (tab io) (Some d) c2h q (Some cs) QDMA_HW_ACCESS_WRITE)"
    and hw_clear: "ctxt_hardware io win mem \<Longrightarrow> c2h \<le> 1 \<Longrightarrow> stores mem d (ctxt_key (sel_hw c2h) q) (replicate 8 0)
      (ha_hw_ctx_conf (tab io) (Some d) c2h q None QDMA_HW_ACCESS_CLEAR)"
    and credit_clear: "ctxt_hardware io win mem \<Longrightarrow> c2h \<le> 1 \<Longrightarrow> stores mem d (ctxt_key (sel_cr c2h) q) (replicate 8 0)
      (ha_credit_ctx_conf (tab io) (Some d) c2h q None QDMA_HW_ACCESS_CLEAR)"
    and pfetch_clear: "ctxt_hardware io win mem \<Longrightarrow> stores mem d (ctxt_key QDMA_CTXT_SEL_PFTCH q) (replicate 8 0)
      (ha_pfetch_ctx_conf (tab io) (Some d) q None QDMA_HW_ACCESS_CLEAR)"
    and pfetch_write: "ctxt_hardware io win mem \<Longrightarrow> stores mem d (ctxt_key QDMA_CTXT_SEL_PFTCH q) (ctxt_pad (enc_pf cp))
      (ha_pfetch_ctx_conf (tab io) (Some d) q (Some cp) QDMA_HW_ACCESS_WRITE)"
    and cmpt_clear: "ctxt_hardware io win mem \<Longrightarrow> stores mem d (ctxt_key QDMA_CTXT_SEL_CMPT q) (replicate 8 0)
      (ha_cmpt_ctx_conf (tab io) (Some d) q None QDMA_HW_ACCESS_CLEAR)"
    and cmpt_write: "ctxt_hardware io win mem \<Longrightarrow> cm_trig_mode cm \<le> TRIG_MODE_COMBO \<Longrightarrow>
      stores mem d (ctxt_key QDMA_CTXT_SEL_CMPT q) (ctxt_pad (enc_cm cm))
      (ha_cmpt_ctx_conf (tab io) (Some d) q (Some cm) QDMA_HW_ACCESS_WRITE)"

text \<open>
  What the contexts of a queue are after it is programmed: the key of each with its words. The
  hardware and credit contexts start from zero.
\<close>

definition programmed ::
  "(qdma_descq_sw_ctxt \<Rightarrow> u32 list) \<Rightarrow> (qdma_descq_prefetch_ctxt \<Rightarrow> u32 list) \<Rightarrow> (qdma_descq_cmpt_ctxt \<Rightarrow> u32 list) \<Rightarrow>
   u16 \<Rightarrow> bool \<Rightarrow> queue_type_t \<Rightarrow> qdma_descq_context \<Rightarrow> (u32 \<times> u32 list) list" where
  "programmed enc_sw enc_pf enc_cm q st type c =
     (if type \<noteq> Q_CMPT
      then [(ctxt_key (sel_sw (q_type_code type)) q, ctxt_pad (enc_sw (dx_sw_ctxt c))),
            (ctxt_key (sel_hw (q_type_code type)) q, replicate 8 0),
            (ctxt_key (sel_cr (q_type_code type)) q, replicate 8 0)] @
           (if st \<and> type = Q_C2H then [(ctxt_key QDMA_CTXT_SEL_PFTCH q, ctxt_pad (enc_pf (dx_pfetch_ctxt c)))] else [])
      else []) @
     (if cmpt_ring st type then [(ctxt_key QDMA_CTXT_SEL_CMPT q, ctxt_pad (enc_cm (dx_cmpt_ctxt c)))] else [])"

definition with_contexts :: "ctxt_memory \<Rightarrow> (u32 \<times> u32 list) list \<Rightarrow> ctxt_memory" where
  "with_contexts m kvs = (\<lambda>k. case map_of kvs k of Some ws \<Rightarrow> ws | None \<Rightarrow> m k)"

text \<open>A list of calls each of which stores one context.\<close>

definition all_store :: "('d \<Rightarrow> ctxt_memory) \<Rightarrow> (u32 \<times> u32 list) list \<Rightarrow>
  ('d xdev \<Rightarrow> (int option + unit) \<times> 'd xdev) list \<Rightarrow> bool" where
  "all_store mem kws fs \<longleftrightarrow> list_all2 (\<lambda>(k, ws) f. \<forall>d. \<exists>d'. f d = (Inr (), d') \<and>
     mem (xregs d') = (mem (xregs d))(k := ws)) kws fs"

lemma all_store_simps [simp]:
  "all_store mem [] []"
  "all_store mem ((k, ws) # kws) (f # fs) \<longleftrightarrow>
     (\<forall>d. \<exists>d'. f d = (Inr (), d') \<and> mem (xregs d') = (mem (xregs d))(k := ws)) \<and> all_store mem kws fs"
  by (simp_all add: all_store_def)

lemma all_store_append:
  "all_store mem kws fs \<Longrightarrow> all_store mem kws' fs' \<Longrightarrow> all_store mem (kws @ kws') (fs @ fs')"
  by (simp add: all_store_def list_all2_appendI)

lemma checked_stores:
  assumes "\<And>d. stores mem d k ws (f (Some d))"
  shows "\<exists>d'. checked hw f d = (Inr (), d') \<and> mem (xregs d') = (mem (xregs d))(k := ws)"
  using assms [of d] by (auto simp: stores_def checked_def)

lemma run_all_store:
  assumes "all_store mem kws fs"
  shows "\<exists>d'. run_checked fs d = (Some 0, d') \<and> mem (xregs d') = foldl (\<lambda>m (k, ws). m(k := ws)) (mem (xregs d)) kws"
  using assms
proof (induction kws arbitrary: fs d)
  case Nil then show ?case by (simp add: all_store_def)
next
  case (Cons kw kws)
  obtain k ws where kw: "kw = (k, ws)" by force
  obtain f fs' where fs: "fs = f # fs'" using Cons.prems by (cases fs) (auto simp: all_store_def)
  obtain d1 where "f d = (Inr (), d1)" "mem (xregs d1) = (mem (xregs d))(k := ws)"
    using Cons.prems unfolding fs kw by auto
  then show ?case using Cons.IH [of fs' d1] Cons.prems unfolding fs kw by auto
qed

lemma q_type_code_le: "type \<noteq> Q_CMPT \<Longrightarrow> type \<noteq> Q_H2C_C2H \<Longrightarrow> q_type_code type \<le> 1"
  by (cases type) simp_all

definition queue_keys :: "u16 \<Rightarrow> bool \<Rightarrow> queue_type_t \<Rightarrow> u32 list" where
  "queue_keys q st type =
     (if type \<noteq> Q_CMPT
      then [ctxt_key (sel_sw (q_type_code type)) q, ctxt_key (sel_hw (q_type_code type)) q,
            ctxt_key (sel_cr (q_type_code type)) q] @
           (if st \<and> type = Q_C2H then [ctxt_key QDMA_CTXT_SEL_PFTCH q] else [])
      else []) @
     (if cmpt_ring st type then [ctxt_key QDMA_CTXT_SEL_CMPT q] else [])"

text \<open>The functions of a table that the table of all members holds.\<close>

lemma truncate_members:
  assumes "qdma_hw_access.truncate hw = t"
  shows "ha_sw_ctx_conf hw = ha_sw_ctx_conf t" "ha_hw_ctx_conf hw = ha_hw_ctx_conf t"
    "ha_credit_ctx_conf hw = ha_credit_ctx_conf t" "ha_pfetch_ctx_conf hw = ha_pfetch_ctx_conf t"
    "ha_cmpt_ctx_conf hw = ha_cmpt_ctx_conf t" "ha_global_csr_conf hw = ha_global_csr_conf t"
    "ha_fmap_conf hw = ha_fmap_conf t" "ha_indirect_intr_ctx_conf hw = ha_indirect_intr_ctx_conf t"
  unfolding assms [symmetric] qdma_hw_access.truncate_def by simp_all

context queue_table
begin

lemma context_clear_effect:
  assumes hw: "ctxt_hardware io win mem" and t: "qdma_hw_access.truncate hwt = tab io" and ty: "type \<noteq> Q_H2C_C2H"
  shows "\<exists>d'. qdma_descq_context_clear hwt d qid_hw st type True = (Some 0, d') \<and>
    mem (xregs d') = foldl (\<lambda>m k. m(k := replicate 8 0)) (mem (xregs d)) (queue_keys (ucast qid_hw) st type)"
proof -
  let ?kws = "map (\<lambda>k. (k, replicate 8 0)) (queue_keys (ucast qid_hw) st type)"
  have fold: "foldl (\<lambda>m (k, ws). m(k := ws)) m (map (\<lambda>k. (k, replicate 8 0)) ks) =
      foldl (\<lambda>m k. m(k := replicate 8 0)) m ks" for m :: ctxt_memory and ks
    by (induction ks arbitrary: m) simp_all
  let ?q = "ucast qid_hw"
  have sw: "\<exists>d'. checked hwt (\<lambda>dev. ha_sw_ctx_conf (tab io) dev c ?q None QDMA_HW_ACCESS_CLEAR) d = (Inr (), d') \<and>
      mem (xregs d') = (mem (xregs d))(ctxt_key (sel_sw c) ?q := replicate 8 0)" if "c \<le> 1" for c d
    by (rule checked_stores [OF sw_clear [OF hw that]])
  have hwc: "\<exists>d'. checked hwt (\<lambda>dev. ha_hw_ctx_conf (tab io) dev c ?q None QDMA_HW_ACCESS_CLEAR) d = (Inr (), d') \<and>
      mem (xregs d') = (mem (xregs d))(ctxt_key (sel_hw c) ?q := replicate 8 0)" if "c \<le> 1" for c d
    by (rule checked_stores [OF hw_clear [OF hw that]])
  have cr: "\<exists>d'. checked hwt (\<lambda>dev. ha_credit_ctx_conf (tab io) dev c ?q None QDMA_HW_ACCESS_CLEAR) d = (Inr (), d') \<and>
      mem (xregs d') = (mem (xregs d))(ctxt_key (sel_cr c) ?q := replicate 8 0)" if "c \<le> 1" for c d
    by (rule checked_stores [OF credit_clear [OF hw that]])
  note stored = sw [of 0, simplified] sw [of 1, simplified] hwc [of 0, simplified] hwc [of 1, simplified]
    cr [of 0, simplified] cr [of 1, simplified] checked_stores [OF pfetch_clear [OF hw]]
    checked_stores [OF cmpt_clear [OF hw]]
  show ?thesis
    unfolding qdma_descq_context_clear_def Let_def if_True truncate_members [OF t] fold [symmetric]
    by (rule run_all_store)
      (cases type; use ty in \<open>simp add: queue_keys_def cmpt_ring_def stored\<close>)
qed

lemma context_program_effect:
  assumes hw: "ctxt_hardware io win mem" and t: "qdma_hw_access.truncate (xd_hw xdev) = tab io"
    and ty: "type \<noteq> Q_H2C_C2H" and tr: "cm_trig_mode (dx_cmpt_ctxt c) \<le> TRIG_MODE_COMBO"
    and q2v: "da_qid2vec_ctx (xd_dev_cap xdev) = 0 \<or> xd_drv_mode xdev = POLL_MODE"
  shows "\<exists>d. qdma_descq_context_program xdev qid_hw st type c = (Some 0, xdev\<lparr>xd_dev := d\<rparr>) \<and>
    mem (xregs d) = with_contexts (mem (xregs (xd_dev xdev)))
      (programmed enc_sw enc_pf enc_cm (ucast qid_hw) st type c)"
proof -
  let ?q = "ucast qid_hw" and ?hw = "xd_hw xdev"
  obtain d where d: "qdma_descq_context_clear ?hw (xd_dev xdev) qid_hw st type True = (Some 0, d)"
      "mem (xregs d) = foldl (\<lambda>m k. m(k := replicate 8 0)) (mem (xregs (xd_dev xdev))) (queue_keys ?q st type)"
    using context_clear_effect [OF hw t ty] by metis
  let ?kws = "(if type \<noteq> Q_CMPT
      then [(ctxt_key (sel_sw (q_type_code type)) ?q, ctxt_pad (enc_sw (dx_sw_ctxt c)))] @
           (if st \<and> type = Q_C2H then [(ctxt_key QDMA_CTXT_SEL_PFTCH ?q, ctxt_pad (enc_pf (dx_pfetch_ctxt c)))] else [])
      else []) @
     (if cmpt_ring st type then [(ctxt_key QDMA_CTXT_SEL_CMPT ?q, ctxt_pad (enc_cm (dx_cmpt_ctxt c)))] else [])"
  have sw: "\<exists>d'. checked ?hw (\<lambda>dev. ha_sw_ctx_conf (tab io) dev t ?q (Some (dx_sw_ctxt c)) QDMA_HW_ACCESS_WRITE) d =
      (Inr (), d') \<and> mem (xregs d') = (mem (xregs d))(ctxt_key (sel_sw t) ?q := ctxt_pad (enc_sw (dx_sw_ctxt c)))"
    if "t \<le> 1" for t d by (rule checked_stores [OF sw_write [OF hw that]])
  note stored = sw [of 0, simplified] sw [of 1, simplified] checked_stores [OF pfetch_write [OF hw]]
    checked_stores [OF cmpt_write [OF hw tr]]
  let ?fs = "(if type \<noteq> Q_CMPT
      then [checked ?hw (\<lambda>dev. ha_sw_ctx_conf (tab io) dev (q_type_code type) ?q
              (Some (dx_sw_ctxt c)) QDMA_HW_ACCESS_WRITE)] @
           (if da_qid2vec_ctx (xd_dev_cap xdev) \<noteq> 0 \<and> xd_drv_mode xdev \<noteq> POLL_MODE
            then [qid2vec_step xdev type ?q (dx_qid2vec c)] else []) @
           (if st \<and> type \<noteq> Q_H2C
            then [checked ?hw (\<lambda>dev. ha_pfetch_ctx_conf (tab io) dev ?q
                    (Some (dx_pfetch_ctxt c)) QDMA_HW_ACCESS_WRITE)] else [])
      else []) @
     (if cmpt_ring st type
      then [checked ?hw (\<lambda>dev. ha_cmpt_ctx_conf (tab io) dev ?q
              (Some (dx_cmpt_ctxt c)) QDMA_HW_ACCESS_WRITE)] else [])"
  have "all_store mem ?kws ?fs"
    using ty q2v by (cases type) (auto simp: cmpt_ring_def stored)
  from run_all_store [OF this, of d] obtain d' where d': "run_checked ?fs d = (Some 0, d')"
      "mem (xregs d') = foldl (\<lambda>m (k, ws). m(k := ws)) (mem (xregs d)) ?kws" by metis
  have fold: "foldl (\<lambda>m (k, ws). m(k := ws)) (mem (xregs d)) ?kws =
      with_contexts (mem (xregs (xd_dev xdev))) (programmed enc_sw enc_pf enc_cm ?q st type c)"
    using ty by (cases type; cases st)
      (simp_all add: d queue_keys_def programmed_def cmpt_ring_def with_contexts_def fun_eq_iff ctxt_key_eq_iff)
  have "\<not> (0::int) < 0" by simp
  then show ?thesis
    unfolding qdma_descq_context_program_def Let_def d(1) prod.case option.case truncate_members [OF t] d'(1)
    using d'(2) unfolding fold by (metis (no_types))
qed

end

interpretation soft_queues: queue_table soft_hw_access qdma_sw_words qdma_pfetch_words qdma_cmpt_words
  by unfold_locales
    (simp_all add: hw_access_defs soft_context_functions indirect_copies stores_write stores_clear leD)

interpretation eqdma_queues: queue_table eqdma_hw_access eqdma_sw_words eqdma_pfetch_words eqdma_cmpt_words
  by unfold_locales
    (simp_all add: hw_access_defs eqdma_context_functions indirect_copies stores_write stores_clear leD)

interpretation cpm5_queues: queue_table cpm5_hw_access eqdma_cpm5_sw_words eqdma_cpm5_pfetch_words
  eqdma_cpm5_cmpt_words
  by unfold_locales
    (simp_all add: hw_access_defs cpm5_context_functions indirect_copies stores_write stores_clear leD)


end
