(* ===== verification/QueueContextProps.thy ===== *)
theory QueueContextProps
  imports QueueContext
begin

text \<open>
  The properties of the set-up of a queue's contexts (qdma_context.c): what a start programs on
  each of the three variants whose contexts are indirect registers of the same kind, what an error
  becomes, and what a virtual function gets instead of what a physical function programs.
\<close>

section \<open>Devices of the witnesses\<close>

definition sample_conf :: qdma_queue_conf where
  "sample_conf = \<lparr>cf_qidx = 0, cf_st = 1, cf_q_type = Q_C2H, cf_pipe = 0, cf_irq_en = 0, cf_desc_rng_sz_idx = 2,
     cf_wb_status_en = 1, cf_cmpl_status_acc_en = 1, cf_cmpl_status_pend_chk = 1, cf_desc_bypass = 0,
     cf_pfetch_en = 1, cf_fetch_credit = 1, cf_st_pkt_mode = 0, cf_c2h_buf_sz_idx = 1, cf_cmpl_rng_sz_idx = 2,
     cf_cmpl_desc_sz = 0, cf_cmpl_stat_en = 1, cf_cmpl_udd_en = 0, cf_cmpl_timer_idx = 1, cf_cmpl_cnt_th_idx = 2,
     cf_cmpl_trig_mode = TRIG_MODE_COMBO, cf_cmpl_en_intr = 0, cf_sw_desc_sz = 0, cf_pfetch_bypass = 0,
     cf_cmpl_ovf_chk_dis = 0, cf_port_id = 0, cf_at = 0, cf_adaptive_rx = 0, cf_latency_optimize = 0,
     cf_init_pidx_dis = 0, cf_mm_channel = 0, cf_pidx_acc = 0, cf_fp_bypass_desc_fill = False, cf_rngsz = 1024,
     cf_rngsz_cmpt = 1024, cf_c2h_bufsz = 4096, cf_ping_pong_en = 0, cf_aperture_size = 0\<rparr>"

definition sample_descq :: descq where
  "sample_descq = \<lparr>ds_conf = sample_conf, ds_channel = 0, ds_color = 0, ds_q_state = Q_STATE_ENABLED, ds_qidx_hw = 9,
     ds_q_hndl = 9, ds_intr_id = 0, ds_desc = True, ds_desc_bus = 0x100000, ds_desc_cmpt = True,
     ds_desc_cmpt_bus = 0x200000, ds_desc_list = True, ds_avail = 1024, ds_pidx = 0, ds_cidx = 0, ds_credit = 0,
     ds_pidx_cmpt = 0, ds_cidx_cmpt = 0, ds_pend_list_empty = 0, ds_work_req_pend = 0, ds_total_cmpl_descs = 0,
     ds_cmpt_entry_len = 8, ds_pidx_info = \<lparr>qp_pidx = 0, qp_irq_en = 0\<rparr>,
     ds_cmpt_cidx_info = \<lparr>qc_wrb_cidx = 0, qc_counter_idx = 0, qc_timer_idx = 0, qc_trig_mode = 0, qc_wrb_en = 0,
       qc_irq_en = 0\<rparr>, ds_moving_avg = 0, ds_avg_thr_hi = 0, ds_avg_thr_lo = 0, ds_sorted_idx = 0\<rparr>"

definition sample_xdev :: "'d qdma_hw_access_full \<Rightarrow> 'd xdev \<Rightarrow> 'd xlnx_dma_dev" where
  "sample_xdev hw d = \<lparr>xd_dev = d, xd_hw = hw, xd_drv_mode = POLL_MODE, xd_intr_rngsz = 0, xd_func_id = 2,
     xd_num_vecs = 0, xd_dvec_start_idx = 0, xd_intr_coal_list = [], xd_dev_cap = da_zeroed,
     xd_version_info = \<lparr>vi_rtl_version = QDMA_RTL_NONE, vi_vivado_release = QDMA_VIVADO_NONE,
       vi_ip_type = QDMA_SOFT_IP, vi_device_type = QDMA_DEVICE_SOFT, vi_rtl_version_str = [],
       vi_vivado_release_id_str = [], vi_device_type_str = [], vi_ip_type_str = []\<rparr>,
     xd_csr_info = \<lparr>gc_ring_sz = replicate 16 1024, gc_c2h_timer_cnt = replicate 16 1, gc_c2h_cnt_th = replicate 16 2,
       gc_c2h_buf_sz = replicate 16 4096, gc_wb_intvl = 0\<rparr>,
     xd_sorted_c2h_cntr_idx = [0..<16]\<rparr>"

text \<open>
  A device whose CSR registers hold the last byte of their address, but for the buffer sizes,
  which are all 4096 from the second on.
\<close>

definition csr_sample :: "(u32 \<Rightarrow> u32) xdev" where
  "csr_sample = \<lparr>xregs = (\<lambda>a. if a = 0x118 then 0x30000 else if 0xAB4 \<le> a then 4096 else a AND 0xFF),
     hw_prg_lock = False\<rparr>"

definition csr_sample_xdev :: "(u32 \<Rightarrow> u32) xlnx_dma_dev" where
  "csr_sample_xdev = (sample_xdev (common_hw_access plain_io EQDMA_IP) csr_sample)\<lparr>xd_csr_info :=
     \<lparr>gc_ring_sz = map (\<lambda>j. 4 + 4 * of_nat j) [0..<16], gc_c2h_timer_cnt = map (\<lambda>j. 4 * of_nat j) [0..<16],
      gc_c2h_cnt_th = map (\<lambda>j. 0x40 + 4 * of_nat j) [0..<16], gc_c2h_buf_sz = map (\<lambda>j. if j = 0 then 0xB0 else 4096) [0..<16],
      gc_wb_intvl = 0\<rparr>\<rparr>"

definition csr_sample_descq :: descq where
  "csr_sample_descq = sample_descq\<lparr>ds_conf := sample_conf\<lparr>cf_rngsz := 0xB, cf_rngsz_cmpt := 0xB,
     cf_c2h_buf_sz_idx := 3, cf_c2h_bufsz := 4096\<rparr>\<rparr>"

section \<open>Properties\<close>

lemma programmed_at:
  assumes "type \<noteq> Q_H2C_C2H"
  shows "type \<noteq> Q_CMPT \<Longrightarrow>
      with_contexts m (programmed e f g q st type c) (ctxt_key (sel_sw (q_type_code type)) q) = ctxt_pad (e (dx_sw_ctxt c)) \<and>
      with_contexts m (programmed e f g q st type c) (ctxt_key (sel_hw (q_type_code type)) q) = replicate 8 0 \<and>
      with_contexts m (programmed e f g q st type c) (ctxt_key (sel_cr (q_type_code type)) q) = replicate 8 0"
    "st \<and> type = Q_C2H \<Longrightarrow>
      with_contexts m (programmed e f g q st type c) (ctxt_key QDMA_CTXT_SEL_PFTCH q) = ctxt_pad (f (dx_pfetch_ctxt c))"
    "cmpt_ring st type \<Longrightarrow>
      with_contexts m (programmed e f g q st type c) (ctxt_key QDMA_CTXT_SEL_CMPT q) = ctxt_pad (g (dx_cmpt_ctxt c))"
    "k \<notin> set (queue_keys q st type) \<Longrightarrow> with_contexts m (programmed e f g q st type c) k = m k"
  using assms
  by (cases type; simp add: programmed_def with_contexts_def ctxt_key_eq_iff cmpt_ring_def queue_keys_def split: if_splits)+

lemma queue_context_members:
  "cf_q_type (ds_conf q) \<noteq> Q_CMPT \<Longrightarrow> dx_sw_ctxt (queue_context xdev q) = make_sw_context xdev q"
  "st_c2h (ds_conf q) \<Longrightarrow> dx_pfetch_ctxt (queue_context xdev q) = make_prefetch_context q"
  "has_cmpt (ds_conf q) \<Longrightarrow> dx_cmpt_ctxt (queue_context xdev q) = make_cmpt_context xdev q"
  by (auto simp: queue_context_def Let_def st_c2h_def)

lemma queue_context_trigger:
  "cm_trig_mode (dx_cmpt_ctxt (queue_context xdev q)) \<in> {0, cf_cmpl_trig_mode (ds_conf q)}"
  by (auto simp: queue_context_def Let_def dx_zeroed_def cm_zeroed_def make_cmpt_context_def)

lemma has_cmpt_ring: "has_cmpt conf \<longleftrightarrow> cmpt_ring (cf_st conf \<noteq> 0) (cf_q_type conf)"
  by (auto simp: has_cmpt_def st_c2h_def cmpt_ring_def)

definition programmable :: "('d mmio \<Rightarrow> 'd qdma_hw_access) \<times> (qdma_descq_sw_ctxt \<Rightarrow> u32 list) \<times>
    (qdma_descq_prefetch_ctxt \<Rightarrow> u32 list) \<times> (qdma_descq_cmpt_ctxt \<Rightarrow> u32 list) \<Rightarrow> bool" where
  "programmable v \<longleftrightarrow>
     v = (soft_hw_access, qdma_sw_words, qdma_pfetch_words, qdma_cmpt_words) \<or>
     v = (eqdma_hw_access, eqdma_sw_words, eqdma_pfetch_words, eqdma_cmpt_words) \<or>
     v = (cpm5_hw_access, eqdma_cpm5_sw_words, eqdma_cpm5_pfetch_words, eqdma_cpm5_cmpt_words)"

text \<open>C29. Starting a queue of a physical function on the soft IP, the enhanced soft IP or CPM5
  whose context memory works succeeds and leaves exactly the queue's contexts changed: the
  descriptor context of its direction holds the words of make_sw_context, the hardware and
  credit contexts of that direction are zero whatever a former owner of the queue left there,
  a streaming receive queue has the prefetch context of make_prefetch_context, a queue with a
  completion ring the completion context of make_cmpt_context, and the contexts of every other
  queue and kind are as before.\<close>

theorem queue_setup_programs:
  assumes variant: "programmable (tab, enc_sw, enc_pf, enc_cm)"
    and hw: "ctxt_hardware io win mem" and table: "qdma_hw_access.truncate (xd_hw xdev) = tab io"
    and type: "cf_q_type (ds_conf q) \<noteq> Q_H2C_C2H" and trig: "cf_cmpl_trig_mode (ds_conf q) \<le> TRIG_MODE_COMBO"
    and q2v: "da_qid2vec_ctx (xd_dev_cap xdev) = 0 \<or> xd_drv_mode xdev = POLL_MODE"
  shows "\<exists>d. qdma_descq_context_setup xdev q = (Some 0, xdev\<lparr>xd_dev := d\<rparr>) \<and>
    (let m = mem (xregs (xd_dev xdev)); m' = mem (xregs d); qid = ucast (ds_qidx_hw q); conf = ds_conf q;
         t = q_type_code (cf_q_type conf)
     in (cf_q_type conf \<noteq> Q_CMPT \<longrightarrow>
           m' (ctxt_key (sel_sw t) qid) = ctxt_pad (enc_sw (make_sw_context xdev q)) \<and>
           m' (ctxt_key (sel_hw t) qid) = replicate 8 0 \<and> m' (ctxt_key (sel_cr t) qid) = replicate 8 0) \<and>
        (st_c2h conf \<longrightarrow> m' (ctxt_key QDMA_CTXT_SEL_PFTCH qid) = ctxt_pad (enc_pf (make_prefetch_context q))) \<and>
        (has_cmpt conf \<longrightarrow> m' (ctxt_key QDMA_CTXT_SEL_CMPT qid) = ctxt_pad (enc_cm (make_cmpt_context xdev q))) \<and>
        (\<forall>k. k \<notin> set (queue_keys qid (cf_st conf \<noteq> 0) (cf_q_type conf)) \<longrightarrow> m' k = m k))"
proof -
  let ?conf = "ds_conf q"
  let ?c = "queue_context xdev q" and ?st = "cf_st ?conf \<noteq> 0" and ?t = "cf_q_type ?conf"
  have tr: "cm_trig_mode (dx_cmpt_ctxt ?c) \<le> TRIG_MODE_COMBO"
    using queue_context_trigger [of xdev q] trig by auto
  note effects = soft_queues.context_program_effect eqdma_queues.context_program_effect
    cpm5_queues.context_program_effect
  have "\<exists>d. qdma_descq_context_setup xdev q = (Some 0, xdev\<lparr>xd_dev := d\<rparr>) \<and>
    mem (xregs d) = with_contexts (mem (xregs (xd_dev xdev)))
      (programmed enc_sw enc_pf enc_cm (ucast (ds_qidx_hw q)) ?st ?t ?c)"
    using variant effects [OF hw _ type tr q2v] table
    unfolding programmable_def qdma_descq_context_setup_def by auto
  then obtain d where d: "qdma_descq_context_setup xdev q = (Some 0, xdev\<lparr>xd_dev := d\<rparr>)"
    "mem (xregs d) = with_contexts (mem (xregs (xd_dev xdev)))
      (programmed enc_sw enc_pf enc_cm (ucast (ds_qidx_hw q)) ?st ?t ?c)" by blast
  show ?thesis
    unfolding Let_def
    using d programmed_at [OF type, where e = enc_sw and f = enc_pf and g = enc_cm and
        q = "ucast (ds_qidx_hw q)" and st = ?st and c = ?c] queue_context_members [of q xdev]
    by (intro exI [of _ d] conjI impI allI) (metis has_cmpt_ring st_c2h_def)+
qed

theorem queue_setup_programs_witness:
  "\<exists>d. qdma_descq_context_setup (sample_xdev (common_hw_access sim_io EQDMA_IP) sim_dev) sample_descq =
      (Some 0, (sample_xdev (common_hw_access sim_io EQDMA_IP) sim_dev)\<lparr>xd_dev := d\<rparr>) \<and>
    snd (xregs d) (ctxt_key QDMA_CTXT_SEL_HW_C2H 9) = replicate 8 0"
  using queue_setup_programs [of soft_hw_access qdma_sw_words qdma_pfetch_words qdma_cmpt_words sim_io fst snd
      "sample_xdev (common_hw_access sim_io EQDMA_IP) sim_dev" sample_descq]
  by (auto simp: programmable_def sim_hardware sample_xdev_def sample_descq_def sample_conf_def truncate_common Let_def)


section \<open>Contexts of a virtual function\<close>

text \<open>The sixteen registers of a CSR array, and what the driver keeps of them.\<close>

definition csr_registers :: "('d \<Rightarrow> u32 \<Rightarrow> u32) \<Rightarrow> 'd xdev \<Rightarrow> qdma_global_csr_type \<Rightarrow> u32 list" where
  "csr_registers rd d t = map (\<lambda>j. rd (xregs d) (csr_addr t j)) [0..<16]"

definition csr_values :: "global_csr_conf \<Rightarrow> qdma_global_csr_type \<Rightarrow> u32 list" where
  "csr_values csr t =
     (case t of QDMA_CSR_RING_SZ \<Rightarrow> gc_ring_sz csr | QDMA_CSR_TIMER_CNT \<Rightarrow> gc_c2h_timer_cnt csr
      | QDMA_CSR_CNT_TH \<Rightarrow> gc_c2h_cnt_th csr | QDMA_CSR_BUF_SZ \<Rightarrow> gc_c2h_buf_sz csr | QDMA_CSR_MAX \<Rightarrow> [])"

definition csr_kept :: "('d \<Rightarrow> u32 \<Rightarrow> u32) \<Rightarrow> 'd xdev \<Rightarrow> global_csr_conf \<Rightarrow> bool" where
  "csr_kept rd d csr \<longleftrightarrow>
     (\<forall>t. csr_supported t (qdma_attributes (capabilities rd d)) \<longrightarrow> csr_values csr t = csr_registers rd d t)"

text \<open>
  The arrays have their sixteen values, which fit the fields of the message and may repeat; those
  the device does not have are zero.
\<close>

definition csr_fits :: "global_csr_conf \<Rightarrow> bool" where
  "csr_fits csr \<longleftrightarrow>
     length (gc_ring_sz csr) = 16 \<and> length (gc_c2h_buf_sz csr) = 16 \<and> length (gc_c2h_timer_cnt csr) = 16 \<and>
     length (gc_c2h_cnt_th csr) = 16 \<and>
     (\<forall>v\<in>set (gc_ring_sz csr). 0 < v \<and> v < 2 ^ 16) \<and> (\<forall>v\<in>set (gc_c2h_buf_sz csr). v < 2 ^ 16) \<and>
     (\<forall>v\<in>set (gc_c2h_timer_cnt csr) \<union> set (gc_c2h_cnt_th csr). v < 2 ^ 8)"

text \<open>
  A search by value finds the first index with the value, so the configuration that the physical
  function goes by has each index moved to the first one with the same value.
\<close>

definition first_idx :: "u32 list \<Rightarrow> 4 word \<Rightarrow> 4 word" where
  "first_idx arr i = of_nat (length (takeWhile (\<lambda>v. v \<noteq> at_idx arr i) arr))"

definition csr_canonical :: "global_csr_conf \<Rightarrow> qdma_queue_conf \<Rightarrow> qdma_queue_conf" where
  "csr_canonical csr conf = conf\<lparr>
     cf_desc_rng_sz_idx := first_idx (gc_ring_sz csr) (cf_desc_rng_sz_idx conf),
     cf_cmpl_rng_sz_idx := first_idx (gc_ring_sz csr) (cf_cmpl_rng_sz_idx conf),
     cf_c2h_buf_sz_idx := first_idx (gc_c2h_buf_sz csr) (cf_c2h_buf_sz_idx conf),
     cf_cmpl_timer_idx := first_idx (gc_c2h_timer_cnt csr) (cf_cmpl_timer_idx conf),
     cf_cmpl_cnt_th_idx := first_idx (gc_c2h_cnt_th csr) (cf_cmpl_cnt_th_idx conf)\<rparr>"

text \<open>The sizes qdma_descq_config_complete takes from the CSR arrays.\<close>

definition sizes_complete :: "global_csr_conf \<Rightarrow> qdma_queue_conf \<Rightarrow> bool" where
  "sizes_complete csr conf \<longleftrightarrow>
     cf_rngsz conf = at_idx (gc_ring_sz csr) (cf_desc_rng_sz_idx conf) - 1 \<and>
     (has_cmpt conf \<longrightarrow> cf_rngsz_cmpt conf = at_idx (gc_ring_sz csr) (cf_cmpl_rng_sz_idx conf) - 1 \<and>
        cf_c2h_bufsz conf = at_idx (gc_c2h_buf_sz csr) (cf_c2h_buf_sz_idx conf))"

lemma at_idx_mem: "length arr = 16 \<Longrightarrow> at_idx arr i \<in> set arr"
  using unsigned_less [of i, where 'a = nat] by simp

lemma first_idx_less:
  assumes "length arr = 16"
  shows "length (takeWhile (\<lambda>v. v \<noteq> at_idx arr i) arr) < 16"
proof -
  let ?w = "takeWhile (\<lambda>v. v \<noteq> at_idx arr i) arr"
  have "?w \<noteq> arr" using at_idx_mem [OF assms, of i] by (auto simp: takeWhile_eq_all_conv)
  then have "length ?w \<noteq> length arr" by (metis takeWhile_eq_take take_all order_refl)
  then show ?thesis using assms length_takeWhile_le [of "\<lambda>v. v \<noteq> at_idx arr i" arr] by simp
qed

lemma unat_first_idx:
  "length arr = 16 \<Longrightarrow> unat (first_idx arr i) = length (takeWhile (\<lambda>v. v \<noteq> at_idx arr i) arr)"
  using first_idx_less [of arr i] by (simp add: first_idx_def unsigned_of_nat take_bit_nat_eq_self)

lemma at_first_idx: "length arr = 16 \<Longrightarrow> at_idx arr (first_idx arr i) = at_idx arr i"
  using nth_length_takeWhile [of "\<lambda>v. v \<noteq> at_idx arr i" arr] first_idx_less [of arr i]
  by (simp add: unat_first_idx)

lemma first_idx_before: "length arr = 16 \<Longrightarrow> j < unat (first_idx arr i) \<Longrightarrow> arr ! j \<noteq> at_idx arr i"
  using nth_mem [of j "takeWhile (\<lambda>v. v \<noteq> at_idx arr i) arr"] set_takeWhileD
  by (fastforce simp: unat_first_idx takeWhile_nth)

lemma find_first:
  assumes "length arr = 16" "\<And>v. v \<in> set arr \<Longrightarrow> P v \<longleftrightarrow> v = at_idx arr i"
  shows "find (\<lambda>j. P (arr ! j)) [0..<16] = Some (unat (first_idx arr i))"
proof -
  have l: "unat (first_idx arr i) < 16" using first_idx_less [OF assms(1)] unat_first_idx [OF assms(1)] by simp
  then show ?thesis
    using assms at_idx_mem [OF assms(1), of i] at_first_idx [OF assms(1)] first_idx_before [OF assms(1)]
    unfolding find_Some_iff by (intro exI [of _ "unat (first_idx arr i)"]) auto
qed

text \<open>Where no two values are equal the configuration is the one of the queue.\<close>

lemma first_idx_distinct:
  assumes "length arr = 16" "distinct arr"
  shows "first_idx arr i = i"
proof -
  have "unat (first_idx arr i) < 16" "unat i < 16"
    using unsigned_less [of "first_idx arr i", where 'a = nat] unsigned_less [of i, where 'a = nat] by simp_all
  then have "unat (first_idx arr i) = unat i"
    using at_first_idx [OF assms(1), of i] assms by (simp add: nth_eq_iff_index_eq)
  then show ?thesis by (simp only: word_unat_eq_iff)
qed

lemma csr_canonical_distinct:
  "csr_fits csr \<Longrightarrow> distinct (gc_ring_sz csr) \<Longrightarrow> distinct (gc_c2h_buf_sz csr) \<Longrightarrow>
   distinct (gc_c2h_timer_cnt csr) \<Longrightarrow> distinct (gc_c2h_cnt_th csr) \<Longrightarrow> csr_canonical csr conf = conf"
  by (simp add: csr_canonical_def csr_fits_def first_idx_distinct)

lemma csr_index_found:
  fixes idx :: "4 word"
  assumes hw: "csr_hardware io rd wm" and conf: "ha_global_csr_conf hw = qdma_global_csr_conf io"
    and c: "csr_supported t (qdma_attributes (capabilities rd d0))" and d: "same_registers rd d0 d"
    and m: "\<And>v. v \<in> set (csr_registers rd d0 t) \<Longrightarrow> match v \<longleftrightarrow> v = at_idx (csr_registers rd d0 t) idx"
  shows "\<exists>d'. csr_index_of hw t match err d = (0, unat (first_idx (csr_registers rd d0 t) idx), d') \<and>
    same_registers rd d0 d'"
proof -
  have t: "t \<noteq> QDMA_CSR_MAX" using c by (auto simp: csr_supported_def)
  have cap: "capabilities rd d = capabilities rd d0"
    using d by (simp add: same_registers_def capabilities_def capability_register_def)
  have arr: "map (\<lambda>j. rd (xregs d) (csr_addr t j)) [0..<16] = csr_registers rd d0 t"
    using d csr_addr_register [OF _ t] by (auto simp: csr_registers_def same_registers_def)
  obtain d' where d': "qdma_global_csr_conf io (Some d) 0 16 (Some (replicate QDMA_GLOBAL_CSR_ARRAY_SZ 0)) t
      QDMA_HW_ACCESS_READ = (0, Some (csr_registers rd d0 t), Some d')" "same_registers rd d d'"
    using qdma_csr.read_values [OF hw t, of d 16 0 "replicate QDMA_GLOBAL_CSR_ARRAY_SZ 0"] c
    unfolding cap by (auto simp: QDMA_GLOBAL_CSR_ARRAY_SZ_def arr)
  have "find (\<lambda>j. match (csr_registers rd d0 t ! j)) [0..<16] = Some (unat (first_idx (csr_registers rd d0 t) idx))"
    by (intro find_first m) (simp_all add: csr_registers_def)
  then show ?thesis
    using d' same_registers_trans [OF d d'(2)]
    by (simp add: csr_index_of_def conf QDMA_GLOBAL_CSR_ARRAY_SZ_def)
qed

lemma ucast_back:
  fixes v :: u32
  shows "v < 2 ^ 16 \<Longrightarrow> ucast (ucast v :: u16) = v" "v < 2 ^ 8 \<Longrightarrow> ucast (ucast v :: u8) = v"
  by (simp_all add: word_unat_eq_iff unsigned_ucast_eq unsigned_take_bit_eq take_bit_nat_eq_self word_less_nat_alt)

lemma pred_less:
  fixes w :: u32
  assumes "0 < w" "w < 2 ^ 16"
  shows "w - 1 < 2 ^ 16"
proof -
  have "unat (w - 1) = unat w - 1" using assms(1) by (simp add: unat_minus_one word_gt_0)
  then show ?thesis using assms by (simp add: word_less_nat_alt)
qed

text \<open>The message of a virtual function, as the handler of the physical function reads it.\<close>

lemma ucast_1_word: "ucast (ucast (b :: 1 word) :: u8) = b"
  by (intro bit_word_eqI) (auto simp: bit_simps dest: bit_imp_le_length)

lemma ucast_same16:
  fixes v w :: u32
  assumes "0 < v" "v < 2 ^ 16" "0 < w" "w < 2 ^ 16"
  shows "ucast (ucast (w - 1) :: u16) = v - 1 \<longleftrightarrow> v = w"
  unfolding ucast_back(1) [OF pred_less [OF assms(3,4)]] by auto

lemma setup_msg_members:
  assumes "vf_context_setup_msg xdev q (Some m) = (0, Some msg)"
  shows "mm_descq_conf msg = vf_descq_conf xdev q" "mm_st msg = cf_st (ds_conf q)"
    "mm_c2h msg = ucast (q_type_code (cf_q_type (ds_conf q)))"
  using assms
  by (auto simp: vf_context_setup_msg_def qdma_mbox_compose_vf_qctxt_write_def compose_msg_def queue_request_def
      ucast_take_ucast ucast_1_word)

text \<open>What the sixteen bits of the message keep of the vector.\<close>

lemma vf_descq_vector:
  fixes v :: u32
  assumes "v < 2 ^ 11"
  shows "ucast (ucast (v AND 0xFFF) :: 11 word) = (ucast v :: u16)" "ucast (ucast v :: 11 word) = (ucast v :: u16)"
    "ucast (v AND 0xFFF) = (ucast v :: 11 word)"
proof -
  have "v AND 0xFFF = take_bit 12 v" by (simp add: take_bit_eq_mask mask_eq_exp_minus_1)
  moreover have "take_bit 12 v = v"
    using assms by (simp add: word_unat_eq_iff unsigned_take_bit_eq take_bit_nat_eq_self word_less_nat_alt)
  ultimately show "ucast (v AND 0xFFF) = (ucast v :: 11 word)" by simp
  moreover show "ucast (ucast v :: 11 word) = (ucast v :: u16)"
    using assms
    by (simp add: word_unat_eq_iff unsigned_ucast_eq unsigned_take_bit_eq take_bit_nat_eq_self word_less_nat_alt)
  ultimately show "ucast (ucast (v AND 0xFFF) :: 11 word) = (ucast v :: u16)" by simp
qed

lemma ucast_code [simp]:
  "cf_q_type (ds_conf q) = Q_C2H \<Longrightarrow> ucast (q_type_code (cf_q_type (ds_conf q))) \<noteq> (0 :: 1 word)"
  by simp

text \<open>
  The vector a request carries has eleven bits: the index of the interrupt ring or the vector
  must be smaller.
\<close>

definition vector_fits :: "'d xlnx_dma_dev \<Rightarrow> descq \<Rightarrow> bool" where
  "vector_fits xdev q \<longleftrightarrow>
     (if aggregated (xd_drv_mode xdev) then get_intr_ring_index xdev (ds_intr_id q) else ds_intr_id q) < 2 ^ 11"

text \<open>The members of the request that the contexts are composed from.\<close>

definition bypass_64B :: "qdma_queue_conf \<Rightarrow> bool" where
  "bypass_64B conf \<longleftrightarrow> cf_desc_bypass conf \<noteq> 0 \<and> cf_sw_desc_sz conf = DESC_SZ_64B"

lemma vf_conf_plain:
  "dc_ring_bs_addr (vf_descq_conf xdev q) = ds_desc_bus q"
  "dc_cmpt_ring_bs_addr (vf_descq_conf xdev q) = ds_desc_cmpt_bus q"
  "dc_en_bypass (vf_descq_conf xdev q) = cf_desc_bypass (ds_conf q)"
  "dc_irq_arm (vf_descq_conf xdev q) = cf_irq_en (ds_conf q)"
  "dc_wbi_intvl_en (vf_descq_conf xdev q) = cf_cmpl_status_acc_en (ds_conf q)"
  "dc_wbi_chk (vf_descq_conf xdev q) = cf_cmpl_status_pend_chk (ds_conf q)"
  "dc_wbk_en (vf_descq_conf xdev q) = cf_wb_status_en (ds_conf q)"
  "dc_irq_en (vf_descq_conf xdev q) = cf_irq_en (ds_conf q)"
  "dc_pfch_en (vf_descq_conf xdev q) = cf_pfetch_en (ds_conf q)"
  "dc_en_bypass_prefetch (vf_descq_conf xdev q) = cf_pfetch_bypass (ds_conf q)"
  "dc_dis_overflow_check (vf_descq_conf xdev q) = cf_cmpl_ovf_chk_dis (ds_conf q)"
  "dc_cmpt_int_en (vf_descq_conf xdev q) = cf_cmpl_en_intr (ds_conf q)"
  "dc_cmpl_stat_en (vf_descq_conf xdev q) = cf_cmpl_stat_en (ds_conf q)"
  "dc_cmpt_desc_sz (vf_descq_conf xdev q) = cf_cmpl_desc_sz (ds_conf q)"
  "dc_triggermode (vf_descq_conf xdev q) = cf_cmpl_trig_mode (ds_conf q)"
  "dc_func_id (vf_descq_conf xdev q) = xd_func_id xdev"
  "dc_ringsz (vf_descq_conf xdev q) = ucast (cf_rngsz (ds_conf q))"
  "dc_bufsz (vf_descq_conf xdev q) = ucast (cf_c2h_bufsz (ds_conf q))"
  "dc_cmpt_ringsz (vf_descq_conf xdev q) = ucast (cf_rngsz_cmpt (ds_conf q))"
  "dc_cnt_thres (vf_descq_conf xdev q) = ucast (at_idx (gc_c2h_cnt_th (xd_csr_info xdev)) (cf_cmpl_cnt_th_idx (ds_conf q)))"
  "dc_timer_thres (vf_descq_conf xdev q) = ucast (at_idx (gc_c2h_timer_cnt (xd_csr_info xdev)) (cf_cmpl_timer_idx (ds_conf q)))"
  by (simp_all add: vf_descq_conf_def Let_def if_distrib [of "\<lambda>m. _ m"])

lemma vf_conf_vector:
  assumes "vector_fits xdev q"
  shows "ucast (dc_intr_id (vf_descq_conf xdev q)) = sw_vec (make_sw_context xdev q)"
    "ucast (dc_intr_aggr (vf_descq_conf xdev q)) = sw_intr_aggr (make_sw_context xdev q)"
    "dc_intr_id (vf_descq_conf xdev q) = cm_vec (make_cmpt_context xdev q)"
    "dc_intr_aggr (vf_descq_conf xdev q) = cm_int_aggr (make_cmpt_context xdev q)"
  using assms
  by (auto simp: vector_fits_def vf_descq_conf_def make_sw_context_def make_cmpt_context_def Let_def
      if_distrib [of sw_vec] if_distrib [of sw_intr_aggr] if_distrib [of cm_vec] if_distrib [of cm_int_aggr]
      if_distrib [of dc_intr_id] if_distrib [of dc_intr_aggr] vf_descq_vector [simplified] sw_zeroed_def dc_zeroed_def
      cm_zeroed_def split: if_splits cong: if_cong)

lemma vf_conf_desc:
  assumes "cf_q_type (ds_conf q) = Q_H2C \<or> cf_q_type (ds_conf q) = Q_C2H"
  shows "ucast (dc_desc_sz (vf_descq_conf xdev q)) = sw_desc_sz (make_sw_context xdev q)"
    "st_c2h (ds_conf q) \<Longrightarrow> ucast (dc_forced_en (vf_descq_conf xdev q)) = sw_frcd_en (make_sw_context xdev q)"
    "\<not> st_c2h (ds_conf q) \<Longrightarrow> dc_forced_en (vf_descq_conf xdev q) = 0"
  using assms
  by (auto simp: vf_descq_conf_def make_sw_context_def Let_def st_c2h_def
      if_distrib [of sw_desc_sz] if_distrib [of sw_frcd_en] if_distrib [of dc_desc_sz] if_distrib [of dc_forced_en]
      sw_zeroed_def dc_zeroed_def cong: if_cong)

lemma sw_context_of_vf:
  assumes type: "cf_q_type (ds_conf q) = Q_H2C \<or> cf_q_type (ds_conf q) = Q_C2H" and fits: "vector_fits xdev q"
  shows "sw_context_of (vf_descq_conf xdev q) (cf_st (ds_conf q)) (ucast (q_type_code (cf_q_type (ds_conf q))))
      (unat (cf_desc_rng_sz_idx (ds_conf q))) sw_zeroed =
    (make_sw_context xdev q)\<lparr>sw_fetch_max := 0, sw_mm_chn := 0, sw_host_id := 0, sw_mrkr_dis := 0,
       sw_frcd_en := (if st_c2h (ds_conf q) then sw_frcd_en (make_sw_context xdev q) else 0)\<rparr>"
proof -
  note vf = vf_conf_plain vf_conf_vector(1,2) [OF fits] vf_conf_desc(1) [OF type]
  have frcd: "ucast (dc_forced_en (vf_descq_conf xdev q)) =
      (if st_c2h (ds_conf q) then sw_frcd_en (make_sw_context xdev q) else (0 :: u8))"
    using vf_conf_desc(2,3) [OF type, of xdev] by (cases "st_c2h (ds_conf q)") (simp_all add: ucast_zero_word)
  have c2h: "cf_st (ds_conf q) \<noteq> 0 \<and> ucast (q_type_code (cf_q_type (ds_conf q))) \<noteq> (0 :: 1 word) \<longleftrightarrow> st_c2h (ds_conf q)"
    using type by (auto simp: st_c2h_def)
  show ?thesis
    unfolding sw_context_of_def vf frcd c2h Let_def
    by (cases "aggregated (xd_drv_mode xdev)"; cases "cf_st (ds_conf q) = 0"; cases "cf_q_type (ds_conf q) = Q_C2H";
        cases "cf_desc_bypass (ds_conf q) = 0"; cases "cf_sw_desc_sz (ds_conf q) = DESC_SZ_64B")
      (use type in \<open>simp_all add: make_sw_context_def Let_def sw_zeroed_def st_c2h_def\<close>)
qed

lemma cmpt_context_of_vf:
  assumes cmpt: "has_cmpt (ds_conf q)" and fits: "vector_fits xdev q"
  shows "cmpt_context_of (vf_descq_conf xdev q) (cf_st (ds_conf q)) (ucast (q_type_code (cf_q_type (ds_conf q))))
      (unat (cf_cmpl_cnt_th_idx (ds_conf q))) (unat (cf_cmpl_timer_idx (ds_conf q)))
      (unat (cf_cmpl_rng_sz_idx (ds_conf q))) cm_zeroed =
    (make_cmpt_context xdev q)\<lparr>cm_full_upd := 0\<rparr>"
proof -
  note vf = vf_conf_plain vf_conf_vector(3,4) [OF fits]
  have c2h: "cf_st (ds_conf q) \<noteq> 0 \<and> ucast (q_type_code (cf_q_type (ds_conf q))) \<noteq> (0 :: 1 word) \<longleftrightarrow> st_c2h (ds_conf q)"
    using cmpt by (auto simp: st_c2h_def has_cmpt_def)
  show ?thesis
    unfolding cmpt_context_of_def vf c2h
    by (cases "aggregated (xd_drv_mode xdev)"; cases "st_c2h (ds_conf q)")
      (simp_all add: make_cmpt_context_def Let_def cm_zeroed_def)
qed

lemma csr_searches:
  assumes hw: "csr_hardware io rd wm" and conf: "ha_global_csr_conf hw = qdma_global_csr_conf io"
    and csr: "csr_kept rd d csr" and fits: "csr_fits csr" and d1: "same_registers rd d d1"
  defines "att \<equiv> qdma_attributes (capabilities rd d)"
  shows "\<exists>d'. get_ring_idx hw (ucast (at_idx (gc_ring_sz csr) i - 1)) d1 =
      (0, unat (first_idx (gc_ring_sz csr) i), d') \<and> same_registers rd d d'"
    "has_st att \<Longrightarrow> \<exists>d'. get_buf_idx hw (ucast (at_idx (gc_c2h_buf_sz csr) i)) d1 =
      (0, unat (first_idx (gc_c2h_buf_sz csr) i), d') \<and> same_registers rd d d'"
    "has_st_or_cmpt att \<Longrightarrow> \<exists>d'. get_cntr_idx hw (ucast (at_idx (gc_c2h_cnt_th csr) i)) d1 =
      (0, unat (first_idx (gc_c2h_cnt_th csr) i), d') \<and> same_registers rd d d'"
    "has_st_or_cmpt att \<Longrightarrow> \<exists>d'. get_tmr_idx hw (ucast (at_idx (gc_c2h_timer_cnt csr) i)) d1 =
      (0, unat (first_idx (gc_c2h_timer_cnt csr) i), d') \<and> same_registers rd d d'"
proof -
  have sup: "csr_supported QDMA_CSR_RING_SZ att" "has_st att \<Longrightarrow> csr_supported QDMA_CSR_BUF_SZ att"
    "has_st_or_cmpt att \<Longrightarrow> csr_supported QDMA_CSR_CNT_TH att"
    "has_st_or_cmpt att \<Longrightarrow> csr_supported QDMA_CSR_TIMER_CNT att"
    by (simp_all add: csr_supported_def)
  have arr: "csr_registers rd d t = csr_values csr t" if "csr_supported t att" for t
    using csr that by (simp add: csr_kept_def att_def)
  have found: "\<exists>d'. csr_index_of hw t match err d1 = (0, unat (first_idx (csr_values csr t) i), d') \<and>
      same_registers rd d d'"
    if "csr_supported t att" "\<And>v. v \<in> set (csr_values csr t) \<Longrightarrow> match v \<longleftrightarrow> v = at_idx (csr_values csr t) i"
    for t match err
    using csr_index_found [OF hw conf _ d1, of t match i err] that arr [OF that(1)] by (simp add: att_def)
  have len: "length (gc_ring_sz csr) = 16" "length (gc_c2h_buf_sz csr) = 16"
      "length (gc_c2h_timer_cnt csr) = 16" "length (gc_c2h_cnt_th csr) = 16"
    and bound: "\<forall>v\<in>set (gc_ring_sz csr). 0 < v \<and> v < 2 ^ 16" "\<forall>v\<in>set (gc_c2h_buf_sz csr). v < 2 ^ 16"
      "\<forall>v\<in>set (gc_c2h_timer_cnt csr). v < 2 ^ 8" "\<forall>v\<in>set (gc_c2h_cnt_th csr). v < 2 ^ 8"
    using fits by (simp_all add: csr_fits_def)
  note mem = at_idx_mem [of _ i, OF len(1)] at_idx_mem [of _ i, OF len(2)] at_idx_mem [of _ i, OF len(3)]
    at_idx_mem [of _ i, OF len(4)]
  show "\<exists>d'. get_ring_idx hw (ucast (at_idx (gc_ring_sz csr) i - 1)) d1 =
      (0, unat (first_idx (gc_ring_sz csr) i), d') \<and> same_registers rd d d'"
    unfolding get_ring_idx_def using found [OF sup(1)] bound(1) mem(1) ucast_same16 by (simp add: csr_values_def)
  show "\<exists>d'. get_buf_idx hw (ucast (at_idx (gc_c2h_buf_sz csr) i)) d1 =
      (0, unat (first_idx (gc_c2h_buf_sz csr) i), d') \<and> same_registers rd d d'" if "has_st att"
    unfolding get_buf_idx_def using found [OF sup(2) [OF that]] bound(2) mem(2) ucast_back by (simp add: csr_values_def)
  show "\<exists>d'. get_cntr_idx hw (ucast (at_idx (gc_c2h_cnt_th csr) i)) d1 =
      (0, unat (first_idx (gc_c2h_cnt_th csr) i), d') \<and> same_registers rd d d'" if "has_st_or_cmpt att"
    unfolding get_cntr_idx_def using found [OF sup(3) [OF that]] bound(4) mem(4) ucast_back by (simp add: csr_values_def)
  show "\<exists>d'. get_tmr_idx hw (ucast (at_idx (gc_c2h_timer_cnt csr) i)) d1 =
      (0, unat (first_idx (gc_c2h_timer_cnt csr) i), d') \<and> same_registers rd d d'" if "has_st_or_cmpt att"
    unfolding get_tmr_idx_def using found [OF sup(4) [OF that]] bound(3) mem(3) ucast_back by (simp add: csr_values_def)
qed

text \<open>The queue with the configuration the physical function goes by sends the same request.\<close>

definition canonical_descq :: "'d xlnx_dma_dev \<Rightarrow> descq \<Rightarrow> descq" where
  "canonical_descq xdev q = q\<lparr>ds_conf := csr_canonical (xd_csr_info xdev) (ds_conf q)\<rparr>"

lemma canonical_descq_conf:
  "cf_st (ds_conf (canonical_descq xdev q)) = cf_st (ds_conf q)"
  "cf_q_type (ds_conf (canonical_descq xdev q)) = cf_q_type (ds_conf q)"
  "st_c2h (ds_conf (canonical_descq xdev q)) = st_c2h (ds_conf q)"
  "has_cmpt (ds_conf (canonical_descq xdev q)) = has_cmpt (ds_conf q)"
  "vector_fits xdev (canonical_descq xdev q) = vector_fits xdev q"
  by (simp_all add: canonical_descq_def csr_canonical_def st_c2h_def has_cmpt_def vector_fits_def)

lemma canonical_request:
  "csr_fits (xd_csr_info xdev) \<Longrightarrow> vf_descq_conf xdev (canonical_descq xdev q) = vf_descq_conf xdev q"
  by (simp add: vf_descq_conf_def canonical_descq_def csr_canonical_def csr_fits_def at_first_idx Let_def)

text \<open>C30. The handler of the physical function, whose table has the CSR function that every variant
  gets, composes from the values in the request of a virtual function the contexts that a
  physical function would program for the same queue, but for two kinds of difference. First, each size, timer and threshold is
  searched by its value, so its index is the first one with that value, which is another one
  where values repeat, as the driver's default buffer sizes do (canonical_descq; with
  distinct values it is the queue's own configuration). Second, six fields: the fetch limit, the
  memory channel, the host, the marker bit, the forced credits of a queue that is not a streaming
  receive queue, and the full update of the completion context are zero. The conditions: the virtual
  function keeps the CSR arrays that the device has, their values fit the message (ring sizes from
  1 to 65535, buffer sizes below 65536, timers and thresholds below 256), the sizes of the queue are
  those qdma_descq_config_complete sets, and the interrupt vector fits its eleven bits. Prefetch
  contexts are for a device with a streaming engine, completion contexts for one with a streaming
  engine or MM completion.\<close>

theorem vf_contexts_composed:
  assumes hw: "csr_hardware io rd wm" and conf: "ha_global_csr_conf hw = qdma_global_csr_conf io"
    and csr: "csr_kept rd d (xd_csr_info xdev)" and vals: "csr_fits (xd_csr_info xdev)"
    and sizes: "sizes_complete (xd_csr_info xdev) (ds_conf q)"
    and fits: "vector_fits xdev q" and msg: "vf_context_setup_msg xdev q (Some m) = (0, Some msg)"
  defines "att \<equiv> qdma_attributes (capabilities rd d)" and "q' \<equiv> canonical_descq xdev q"
  shows "(cf_q_type (ds_conf q) = Q_H2C \<or> cf_q_type (ds_conf q) = Q_C2H \<longrightarrow>
       (\<exists>d'. mbox_compose_sw_context hw msg sw_zeroed d = (0, (make_sw_context xdev q')\<lparr>sw_fetch_max := 0,
         sw_mm_chn := 0, sw_host_id := 0, sw_mrkr_dis := 0,
         sw_frcd_en := (if st_c2h (ds_conf q) then sw_frcd_en (make_sw_context xdev q') else 0)\<rparr>, d'))) \<and>
     (st_c2h (ds_conf q) \<and> has_st att \<longrightarrow>
       (\<exists>d'. mbox_compose_prefetch_context hw msg pf_zeroed d = (0, make_prefetch_context q', d'))) \<and>
     (has_cmpt (ds_conf q) \<and> has_st_or_cmpt att \<longrightarrow>
       (\<exists>d'. mbox_compose_cmpt_context hw msg cm_zeroed d = (0, (make_cmpt_context xdev q')\<lparr>cm_full_upd := 0\<rparr>, d')))"
    (is "(_ \<longrightarrow> ?sw) \<and> (_ \<longrightarrow> ?pf) \<and> (_ \<longrightarrow> ?cm)")
proof -
  let ?csr = "xd_csr_info xdev" and ?conf = "ds_conf q"
  note searches = csr_searches [OF hw conf csr vals, folded att_def] and mem = setup_msg_members [OF msg]
  note same = canonical_descq_conf [of xdev q, folded q'_def] and req = canonical_request [OF vals, of q, folded q'_def]
  have idx: "cf_desc_rng_sz_idx (ds_conf q') = first_idx (gc_ring_sz ?csr) (cf_desc_rng_sz_idx ?conf)"
    "cf_cmpl_rng_sz_idx (ds_conf q') = first_idx (gc_ring_sz ?csr) (cf_cmpl_rng_sz_idx ?conf)"
    "cf_c2h_buf_sz_idx (ds_conf q') = first_idx (gc_c2h_buf_sz ?csr) (cf_c2h_buf_sz_idx ?conf)"
    "cf_cmpl_timer_idx (ds_conf q') = first_idx (gc_c2h_timer_cnt ?csr) (cf_cmpl_timer_idx ?conf)"
    "cf_cmpl_cnt_th_idx (ds_conf q') = first_idx (gc_c2h_cnt_th ?csr) (cf_cmpl_cnt_th_idx ?conf)"
    by (simp_all add: q'_def canonical_descq_def csr_canonical_def)
  have ring: "cf_rngsz ?conf = at_idx (gc_ring_sz ?csr) (cf_desc_rng_sz_idx ?conf) - 1"
    using sizes by (simp add: sizes_complete_def)
  have ?sw if t: "cf_q_type ?conf = Q_H2C \<or> cf_q_type ?conf = Q_C2H"
    using searches(1) [of d "cf_desc_rng_sz_idx ?conf"] sw_context_of_vf [of q' xdev] t fits
    by (auto simp: mbox_compose_sw_context_def mem vf_conf_plain ring same req idx)
  moreover have ?pf if t: "st_c2h ?conf" "has_st att"
    using searches(2) [OF _ t(2), of d "cf_c2h_buf_sz_idx ?conf"] sizes t(1)
    by (auto simp: mbox_compose_prefetch_context_def mem vf_conf_plain sizes_complete_def has_cmpt_def
        make_prefetch_context_def pf_zeroed_def Let_def idx, simp_all add: q'_def canonical_descq_def csr_canonical_def)
  moreover have ?cm if t: "has_cmpt ?conf" "has_st_or_cmpt att"
  proof -
    obtain d1 where d1: "get_cntr_idx hw (dc_cnt_thres (vf_descq_conf xdev q)) d = (0, unat (cf_cmpl_cnt_th_idx (ds_conf q')), d1)"
        "same_registers rd d d1"
      using searches(3) [OF _ t(2), of d "cf_cmpl_cnt_th_idx ?conf"] by (auto simp: vf_conf_plain idx)
    obtain d2 where d2: "get_tmr_idx hw (dc_timer_thres (vf_descq_conf xdev q)) d1 = (0, unat (cf_cmpl_timer_idx (ds_conf q')), d2)"
        "same_registers rd d d2"
      using searches(4) [OF d1(2) t(2), of "cf_cmpl_timer_idx ?conf"] by (auto simp: vf_conf_plain idx)
    obtain d3 where d3: "get_ring_idx hw (dc_cmpt_ringsz (vf_descq_conf xdev q)) d2 = (0, unat (cf_cmpl_rng_sz_idx (ds_conf q')), d3)"
      using searches(1) [OF d2(2), of "cf_cmpl_rng_sz_idx ?conf"] sizes t(1)
      by (auto simp: vf_conf_plain sizes_complete_def idx)
    show ?thesis
      using cmpt_context_of_vf [of q' xdev] t(1) fits
      by (simp add: mbox_compose_cmpt_context_def mem d1(1) d2(1) d3 same req)
  qed
  ultimately show ?thesis by blast
qed

lemma csr_unsupported: "\<not> csr_supported QDMA_CSR_MAX cap"
  by (simp add: csr_supported_def)

lemma csr_sample_registers:
  "t \<noteq> QDMA_CSR_MAX \<Longrightarrow> csr_values (xd_csr_info csr_sample_xdev) t = csr_registers (\<lambda>r. r) csr_sample t"
  by (cases t) (simp_all add: csr_values_def csr_registers_def csr_sample_def csr_sample_xdev_def
      csr_addr_def csr_base_def upt_rec)

lemma csr_sample_arrays:
  "csr_kept (\<lambda>r. r) csr_sample (xd_csr_info csr_sample_xdev)"
  "csr_fits (xd_csr_info csr_sample_xdev)"
  "sizes_complete (xd_csr_info csr_sample_xdev) (ds_conf csr_sample_descq)"
proof -
  show "csr_kept (\<lambda>r. r) csr_sample (xd_csr_info csr_sample_xdev)"
    unfolding csr_kept_def using csr_sample_registers by (metis csr_unsupported)
qed (simp_all add: csr_fits_def sizes_complete_def csr_sample_xdev_def csr_sample_descq_def sample_conf_def upt_rec)

lemma csr_sample_supported: "has_st (qdma_attributes (capabilities (\<lambda>r. r) csr_sample))"
  by (simp add: has_st_def qdma_attributes_def capabilities_def csr_sample_def both_set_def
      FIELD_GET_GENMASK BIT_GENMASK take_bit_eq_mod)

text \<open>The queue has buffer size 3, whose value is also the one of index 1.\<close>

lemma csr_sample_buffers:
  "pf_bufsz_idx (make_prefetch_context (canonical_descq csr_sample_xdev csr_sample_descq)) = 1"
  "pf_bufsz_idx (make_prefetch_context csr_sample_descq) = 3"
  by (simp_all add: make_prefetch_context_def canonical_descq_def csr_canonical_def first_idx_def csr_sample_xdev_def
      csr_sample_descq_def sample_conf_def upt_rec)

theorem vf_contexts_composed_witness:
  "\<exists>msg d' c. vf_context_setup_msg csr_sample_xdev csr_sample_descq (Some mm_zeroed) = (0, Some msg) \<and>
     mbox_compose_prefetch_context (soft_hw_access plain_io) msg pf_zeroed csr_sample = (0, c, d') \<and>
     pf_bufsz_idx c = 1 \<and> pf_bufsz_idx (make_prefetch_context csr_sample_descq) = 3"
proof -
  obtain msg where msg: "vf_context_setup_msg csr_sample_xdev csr_sample_descq (Some mm_zeroed) = (0, Some msg)"
    by (simp add: vf_context_setup_msg_def qdma_mbox_compose_vf_qctxt_write_def compose_msg_def)
  moreover have "vector_fits csr_sample_xdev csr_sample_descq"
    by (simp add: vector_fits_def csr_sample_xdev_def csr_sample_descq_def sample_xdev_def sample_descq_def)
  moreover have "st_c2h (ds_conf csr_sample_descq)"
    by (simp add: csr_sample_descq_def sample_conf_def st_c2h_def)
  moreover have "ha_global_csr_conf (soft_hw_access plain_io) = qdma_global_csr_conf plain_io"
    by (simp add: soft_hw_access_def)
  ultimately show ?thesis
    using vf_contexts_composed [OF plain_hardware _ csr_sample_arrays] csr_sample_supported csr_sample_buffers
    by blast
qed

section \<open>Errors\<close>

text \<open>A device that never finishes a command.\<close>

definition stuck_io :: "unit mmio" where
  "stuck_io = \<lparr>readl = \<lambda>r a. (1, r), writel = \<lambda>r a v. r, udelay = \<lambda>r us. r\<rparr>"

abbreviation stuck_dev :: "unit xdev" where
  "stuck_dev \<equiv> \<lparr>xregs = (), hw_prg_lock = False\<rparr>"

lemma stuck_poll: "fst (hw_monitor_reg stuck_io d 0x844 1 0 iv tmo) = -3"
proof -
  have miss: "\<not> poll_hit stuck_io 0x844 1 0 d'" for d'
    by (simp add: poll_hit_def qdma_reg_read_def stuck_io_def)
  show ?thesis
    by (rule hw_monitor_reg_cases [of iv tmo stuck_io "0x844" 1 0 d]) (simp_all add: miss)
qed

lemma stuck_clear:
  "\<exists>c. ha_sw_ctx_conf (common_hw_access stuck_io EQDMA_IP) (Some stuck_dev) 1 9 None QDMA_HW_ACCESS_CLEAR =
    (neg_err QDMA_ERR_HWACC_BUSY_TIMEOUT, c, Some stuck_dev)"
proof -
  have "fst (indirect_reg_cmd stuck_io 0x844 1 op stuck_dev sel 9) = -3" for op sel
    using stuck_poll by (auto simp: indirect_reg_cmd_def Let_def split_beta)
  moreover have "snd (indirect_reg_cmd stuck_io 0x844 1 op stuck_dev sel 9) = stuck_dev" for op sel
    by (rule xdev.equality) (auto simp: indirect_reg_cmd_def Let_def split_beta)
  ultimately show ?thesis
    by (simp add: table_parts soft_context_functions indirect_copies context_cmd_def keep_ctxt_def split_beta prod_eq_iff)
qed

text \<open>C31. When the first clear of a queue's contexts times out, qdma_descq_context_clear returns
  -EBUSY, but qdma_descq_context_program, which maps what it gets once more as if it were an
  error of the access library, returns -EINVAL.\<close>

theorem context_program_timeout:
  assumes map: "ha_get_error_code (xd_hw xdev) = qdma_get_error_code" and type: "type \<noteq> Q_CMPT"
    and clear: "ha_sw_ctx_conf (xd_hw xdev) (Some (xd_dev xdev)) (q_type_code type) (ucast qid_hw) None QDMA_HW_ACCESS_CLEAR =
      (neg_err QDMA_ERR_HWACC_BUSY_TIMEOUT, c, Some d)"
  shows "qdma_descq_context_clear (xd_hw xdev) (xd_dev xdev) qid_hw st type True = (Some (- errno_code EBUSY), d) \<and>
    qdma_descq_context_program xdev qid_hw st type context = (Some (- errno_code EINVAL), xdev\<lparr>xd_dev := d\<rparr>)"
proof
  have code: "qdma_get_error_code (-3) = Some (-16)" "qdma_get_error_code (-16) = Some (-22)"
    by (simp_all add: qdma_get_error_code_def qdma_get_err_code_def error_code_map_list_def)
  show c: "qdma_descq_context_clear (xd_hw xdev) (xd_dev xdev) qid_hw st type True = (Some (- errno_code EBUSY), d)"
    using type by (simp add: qdma_descq_context_clear_def checked_def clear map code)
  show "qdma_descq_context_program xdev qid_hw st type context = (Some (- errno_code EINVAL), xdev\<lparr>xd_dev := d\<rparr>)"
    by (simp add: qdma_descq_context_program_def c map code)
qed

theorem context_program_timeout_witness:
  "qdma_descq_context_program (sample_xdev (common_hw_access stuck_io EQDMA_IP) stuck_dev) 9 True Q_C2H dx_zeroed =
     (Some (-22), sample_xdev (common_hw_access stuck_io EQDMA_IP) stuck_dev)"
proof -
  let ?xdev = "sample_xdev (common_hw_access stuck_io EQDMA_IP) stuck_dev"
  have "ha_get_error_code (xd_hw ?xdev) = qdma_get_error_code"
    by (simp add: sample_xdev_def common_hw_access_def qdma_hw_access.defs)
  moreover obtain c where "ha_sw_ctx_conf (xd_hw ?xdev) (Some (xd_dev ?xdev)) (q_type_code Q_C2H) (ucast (9 :: u32)) None
      QDMA_HW_ACCESS_CLEAR = (neg_err QDMA_ERR_HWACC_BUSY_TIMEOUT, c, Some stuck_dev)"
    using stuck_clear by (auto simp: sample_xdev_def)
  ultimately show ?thesis
    using context_program_timeout [of ?xdev Q_C2H 9 c stuck_dev True dx_zeroed] by (simp add: sample_xdev_def)
qed

end
