(* ===== verification/DescqMM.thy ===== *)
theory DescqMM
  imports Prelude
begin

text \<open>
  Memory mapped queues of qdma_descq.c: requests with scatter-gather lists are cut into
  descriptors, written to the ring of the queue as far as there is room, and finished when the
  device has completed their descriptors. A queue is a record of the members of struct qdma_descq
  that this code uses; a request is a record of struct qdma_request and of the struct
  qdma_sgt_req_cb in its opaque part. An unsigned int is a natural number with the wrap-around
  written out by u32_wrap where a sum can exceed it; addresses are words.
  The completion status that the device writes to memory is read from a list of values to come,
  one per read; the writes of the producer index register are recorded in a list. Queues with a
  descriptor fill callback of an upper layer driver are not covered.
\<close>

section \<open>Data\<close>

definition u32_wrap :: "nat \<Rightarrow> nat" where
  "u32_wrap n = n mod 2 ^ 32"

definition QDMA_DESC_BLEN_MAX :: nat where "QDMA_DESC_BLEN_MAX = 2 ^ 28 - 1"
definition SOFT_EQDMA_DESC_BLEN_MAX :: nat where "SOFT_EQDMA_DESC_BLEN_MAX = 2 ^ 15"
definition SOFT_EQDMA_DESC_MAX_LEN :: nat where "SOFT_EQDMA_DESC_MAX_LEN = 2 * 2 ^ 15"
definition S_DESC_F_DV :: nat where "S_DESC_F_DV = 28"
definition S_DESC_F_SOP :: nat where "S_DESC_F_SOP = 29"
definition S_DESC_F_EOP :: nat where "S_DESC_F_EOP = 30"

record qdma_mm_desc =
  md_src_addr :: u64
  md_flag_len :: u32
  md_rsvd0 :: u32
  md_dst_addr :: u64
  md_rsvd1 :: u64

record qdma_sw_sg =
  sw_len :: nat
  sw_dma_addr :: u64

record qdma_request =
  rq_sgl :: "qdma_sw_sg list"
  rq_count :: nat
  rq_ep_addr :: u64
  rq_fp_done :: bool
  cb_desc_nr :: nat
  cb_offset :: nat
  cb_sg_offset :: nat
  cb_sg :: "nat option"

record qdma_descq =
  dq_rngsz :: nat
  dq_st :: bool
  dq_c2h :: bool
  dq_pidx_acc :: nat
  dq_aperture_size :: nat
  dq_eqdma5 :: bool
  dq_poll :: bool
  dq_online :: bool
  dq_c2h_packet :: bool
  dq_q_stop_wait :: bool
  dq_proc_req_running :: bool
  dq_desc :: "qdma_mm_desc list"
  dq_pidx :: nat
  dq_cidx :: nat
  dq_avail :: nat
  dq_credit :: nat
  dq_work_list :: "qdma_request list"
  dq_work_req_pend :: nat
  dq_pend_list :: "qdma_request list"
  dq_pend_list_empty :: bool
  dq_done :: "(qdma_request \<times> int) list"
  dq_pidx_info :: nat
  dq_desc_pend :: nat
  dq_total_cmpl_descs :: nat
  dq_doorbell :: "nat list"
  dq_hw_cidx :: "nat list"

section \<open>Position in a request\<close>

text \<open>The loop of qdma_sgl_find_offset: the entry at index i is the head of the list.\<close>

fun find_offset :: "nat \<Rightarrow> nat \<Rightarrow> nat \<Rightarrow> qdma_sw_sg list \<Rightarrow> (nat \<times> nat) option" where
  "find_offset offset len i [] = None"
| "find_offset offset len i (sg # sgs) =
     (let len = u32_wrap (len + sw_len sg)
      in if len = offset then (if sgs = [] then None else Some (Suc i, 0))
         else if len > offset then Some (i, sw_len sg - (len - offset))
         else find_offset offset len (Suc i) sgs)"

definition qdma_sgl_find_offset :: "qdma_request \<Rightarrow> (nat \<times> nat) option" where
  "qdma_sgl_find_offset req =
     (if rq_count req = 0 then Some (0, 0) else find_offset (cb_offset req) 0 0 (rq_sgl req))"

section \<open>Cutting a request into descriptors\<close>

text \<open>
  What the loops over a request change: the ring with its index, the address in the device,
  the byte count, the offset in the current entry and the last descriptor written. The room is
  desc_max - desc_cnt, the number of descriptors that may still be written.
\<close>

record mm_pass =
  mp_desc :: "qdma_mm_desc list"
  mp_pidx :: nat
  mp_ep_addr :: u64
  mp_data_cnt :: nat
  mp_sg_offset :: nat
  mp_desc_end :: "nat option"

definition mm_aperture :: "qdma_descq \<Rightarrow> nat" where
  "mm_aperture q =
     (if dq_eqdma5 q \<and> dq_aperture_size q = 0 then SOFT_EQDMA_DESC_BLEN_MAX
      else if dq_aperture_size q \<noteq> 0 then dq_aperture_size q else QDMA_DESC_BLEN_MAX)"

text \<open>The length of the next descriptor and its address in the device; a keyhole cycles.\<close>

definition mm_chunk :: "qdma_descq \<Rightarrow> qdma_request \<Rightarrow> nat \<Rightarrow> u64 \<Rightarrow> nat \<times> u64" where
  "mm_chunk q req tlen ep_addr =
     (let aperture = mm_aperture q; len = min tlen aperture;
          ep_addr_max = rq_ep_addr req + of_nat aperture - 1
      in if dq_aperture_size q \<noteq> 0
         then let ep_addr = (if ep_addr > ep_addr_max then rq_ep_addr req else ep_addr)
              in (if ep_addr + of_nat len > ep_addr_max then u32_wrap (unat (ep_addr_max - ep_addr + 1))
                  else len, ep_addr)
         else (len, ep_addr))"

text \<open>One round of the inner loop: a descriptor, and what is left of the entry.\<close>

definition mm_put_desc ::
  "qdma_descq \<Rightarrow> qdma_request \<Rightarrow> nat \<Rightarrow> u64 \<Rightarrow> mm_pass \<Rightarrow> nat \<times> u64 \<times> mm_pass" where
  "mm_put_desc q req tlen src_addr s =
     (let (len, ep_addr) = mm_chunk q req tlen (mp_ep_addr s);
          desc = (if dq_c2h q
            then \<lparr>md_src_addr = ep_addr, md_flag_len = of_nat len OR push_bit S_DESC_F_DV 1, md_rsvd0 = 0,
                   md_dst_addr = src_addr, md_rsvd1 = 0\<rparr>
            else \<lparr>md_src_addr = src_addr, md_flag_len = of_nat len OR push_bit S_DESC_F_DV 1, md_rsvd0 = 0,
                   md_dst_addr = ep_addr, md_rsvd1 = 0\<rparr>)
      in (tlen - len, src_addr + of_nat len,
          s\<lparr>mp_desc := (mp_desc s)[mp_pidx s := desc], mp_desc_end := Some (mp_pidx s),
            mp_pidx := if Suc (mp_pidx s) = dq_rngsz q then 0 else Suc (mp_pidx s),
            mp_ep_addr := ep_addr + of_nat len, mp_data_cnt := u32_wrap (mp_data_cnt s + len),
            mp_sg_offset := u32_wrap (mp_sg_offset s + len)\<rparr>))"

text \<open>The inner loop, entered with room for a descriptor: it ends without room or at the entry's end.\<close>

fun mm_fill_sg ::
  "qdma_descq \<Rightarrow> qdma_request \<Rightarrow> nat \<Rightarrow> nat \<Rightarrow> u64 \<Rightarrow> mm_pass \<Rightarrow> nat \<times> nat \<times> mm_pass" where
  "mm_fill_sg q req 0 tlen src_addr s = (0, tlen, s)"
| "mm_fill_sg q req (Suc room) tlen src_addr s =
     (let (tlen, src_addr, s) = mm_put_desc q req tlen src_addr s
      in if room = 0 then (0, tlen, s)
         else if tlen \<noteq> 0 then mm_fill_sg q req room tlen src_addr s
         else (room, tlen, s))"

text \<open>
  The loop over the entries. The result: None when an entry is too long for an EQDMA 5 keyhole,
  else the room left and the number of entries gone through; in both cases what was written.
\<close>

definition mm_too_long :: "qdma_descq \<Rightarrow> qdma_sw_sg \<Rightarrow> bool" where
  "mm_too_long q sg \<longleftrightarrow> dq_eqdma5 q \<and> dq_aperture_size q \<ge> SOFT_EQDMA_DESC_BLEN_MAX \<and>
     sw_len sg \<ge> SOFT_EQDMA_DESC_MAX_LEN"

fun mm_sg_loop ::
  "qdma_descq \<Rightarrow> qdma_request \<Rightarrow> nat \<Rightarrow> nat \<Rightarrow> qdma_sw_sg list \<Rightarrow> mm_pass \<Rightarrow> (nat \<times> nat) option \<times> mm_pass" where
  "mm_sg_loop q req room i [] s = (Some (room, i), s)"
| "mm_sg_loop q req room i (sg # sgs) s =
     (if room = 0 then (Some (room, i), s)
      else if mm_too_long q sg then (None, s)
      else
        let off = mp_sg_offset s;
            (room, tlen, s) = mm_fill_sg q req room (sw_len sg - off) (sw_dma_addr sg + of_nat off)
              (s\<lparr>mp_sg_offset := 0\<rparr>);
            s = (if tlen = 0 then s\<lparr>mp_sg_offset := 0\<rparr> else s)
        in mm_sg_loop q req room (Suc i) sgs s)"

definition set_flag :: "nat \<Rightarrow> nat \<Rightarrow> qdma_mm_desc list \<Rightarrow> qdma_mm_desc list" where
  "set_flag i flag ring =
     ring[i := (ring ! i)\<lparr>md_flag_len := md_flag_len (ring ! i) OR push_bit flag 1\<rparr>]"

section \<open>Completion\<close>

text \<open>queue_pidx_update, whose arguments are never null here, writes the register.\<close>

definition ring_doorbell :: "qdma_descq \<Rightarrow> qdma_descq" where
  "ring_doorbell q = q\<lparr>dq_doorbell := dq_doorbell q @ [dq_pidx_info q]\<rparr>"

text \<open>The comparison of unsigned ints wraps when pidx_acc exceeds the ring size.\<close>

definition qdma_pidx_update :: "bool \<Rightarrow> qdma_descq \<Rightarrow> qdma_descq" where
  "qdma_pidx_update force q =
     (if force \<or> dq_avail q > unat (of_nat (dq_rngsz q) - 1 - of_nat (dq_pidx_acc q) :: u32) \<or>
         \<not> dq_desc_pend q < dq_pidx_acc q
      then (ring_doorbell q)\<lparr>dq_desc_pend := 0\<rparr> else q)"

text \<open>The loop that hands credits to the pending requests, and the ones it finishes.\<close>

fun credit_loop ::
  "nat \<Rightarrow> qdma_request list \<Rightarrow> nat \<times> qdma_request list \<times> qdma_request list" where
  "credit_loop cr [] = (cr, [], [])"
| "credit_loop cr (cb # cbs) =
     (if cr \<ge> cb_desc_nr cb
      then if cr - cb_desc_nr cb = 0 then (0, cbs, [cb])
           else let (cr, pend, fin) = credit_loop (cr - cb_desc_nr cb) cbs in (cr, pend, cb # fin)
      else (0, cb\<lparr>cb_desc_nr := cb_desc_nr cb - cr\<rparr> # cbs, []))"

text \<open>The status a request gets; one with a callback that is not complete is an error (-EINVAL).\<close>

definition req_status :: "qdma_descq \<Rightarrow> qdma_request \<Rightarrow> int \<Rightarrow> int" where
  "req_status q cb error =
     (if rq_fp_done cb \<and> cb_offset cb \<noteq> rq_count cb \<and> \<not> (dq_st q \<and> dq_c2h q) then -22 else error)"

definition qdma_sgt_req_done :: "int \<Rightarrow> qdma_request \<Rightarrow> qdma_descq \<Rightarrow> qdma_descq" where
  "qdma_sgt_req_done error cb q =
     q\<lparr>dq_done := dq_done q @ [(cb, req_status q cb error)],
       dq_pend_list_empty :=
         (if \<not> dq_c2h_packet q
          then if dq_st q \<and> dq_c2h q then dq_avail q = 0 else dq_avail q = dq_rngsz q - 1
          else True)\<rparr>"

definition descq_mm_n_h2c_cmpl_status :: "qdma_descq \<Rightarrow> qdma_descq" where
  "descq_mm_n_h2c_cmpl_status q =
     (if dq_pidx q = dq_cidx q then q
      else
        let cidx = dq_cidx q;
            (cidx_hw, q) = (case dq_hw_cidx q of
                [] \<Rightarrow> (cidx, q)
              | h # hs \<Rightarrow> (h, q\<lparr>dq_hw_cidx := hs\<rparr>))
        in if cidx_hw = cidx then q
           else
             let cr = (if cidx_hw < cidx then (dq_rngsz q - cidx) + cidx_hw else cidx_hw - cidx);
                 q = q\<lparr>dq_cidx := cidx_hw, dq_avail := u32_wrap (dq_avail q + cr),
                   dq_credit := u32_wrap (dq_credit q + cr),
                   dq_total_cmpl_descs := dq_total_cmpl_descs q + cr\<rparr>;
                 (cr, pend, fin) = credit_loop (dq_credit q) (dq_pend_list q);
                 q = fold (qdma_sgt_req_done 0) fin (q\<lparr>dq_pend_list := pend\<rparr>)
             in qdma_pidx_update True (q\<lparr>dq_credit := cr\<rparr>))"

definition descq_poll_mm_n_h2c_cmpl_status :: "qdma_descq \<Rightarrow> qdma_descq" where
  "descq_poll_mm_n_h2c_cmpl_status q =
     (if dq_poll q then descq_mm_n_h2c_cmpl_status (q\<lparr>dq_proc_req_running := True\<rparr>) else q)"

section \<open>Processing the work list\<close>

text \<open>qdma_update_request for the first request of the work list.\<close>

definition qdma_update_request ::
  "nat \<Rightarrow> nat \<Rightarrow> nat \<Rightarrow> nat option \<Rightarrow> qdma_descq \<Rightarrow> qdma_descq" where
  "qdma_update_request num_desc data_cnt sg_offset sg q =
     (let cb = hd (dq_work_list q);
          cb = cb\<lparr>cb_desc_nr := u32_wrap (cb_desc_nr cb + num_desc),
            cb_offset := u32_wrap (cb_offset cb + data_cnt), cb_sg_offset := sg_offset, cb_sg := sg\<rparr>
      in if cb_offset cb \<ge> rq_count cb
         then q\<lparr>dq_work_list := tl (dq_work_list q), dq_work_req_pend := dq_work_req_pend q - 1,
                dq_pend_list := dq_pend_list q @ [cb]\<rparr>
         else q\<lparr>dq_work_list := cb # tl (dq_work_list q)\<rparr>)"

text \<open>
  One round of the loop over the work list, which is not empty: it goes on, is left, or ends the
  function with an error; with the number of descriptors written.
\<close>

datatype mm_round = Continue nat qdma_descq | Break qdma_descq | Fail qdma_descq

definition mm_start_addr :: "qdma_descq \<Rightarrow> qdma_request \<Rightarrow> u64" where
  "mm_start_addr q req =
     (if dq_aperture_size q = 0 then rq_ep_addr req + of_nat (cb_offset req)
      else rq_ep_addr req + (of_nat (cb_offset req) AND of_nat (mm_aperture q - 1)))"

definition mm_round :: "qdma_descq \<Rightarrow> mm_round" where
  "mm_round q =
     (let req = hd (dq_work_list q);
          q = (if dq_avail q = 0 then descq_poll_mm_n_h2c_cmpl_status q else q);
          desc_max = dq_avail q
      in if desc_max = 0 then Break q
         else
           (case qdma_sgl_find_offset req of
              None \<Rightarrow> Continue 0 (qdma_update_request 0 0 0 None q)
            | Some (i, sg_offset) \<Rightarrow>
                (case mm_sg_loop q req desc_max i (drop i (rq_sgl req))
                        \<lparr>mp_desc = dq_desc q, mp_pidx = dq_pidx q, mp_ep_addr = mm_start_addr q req,
                         mp_data_cnt = 0, mp_sg_offset = sg_offset, mp_desc_end = None\<rparr> of
                   (None, s) \<Rightarrow> Fail (q\<lparr>dq_desc := mp_desc s, dq_proc_req_running := False\<rparr>)
                 | (Some (room, i), s) \<Rightarrow>
                     let last = (i = length (rq_sgl req))
                     in (case mp_desc_end s of
                           None \<Rightarrow> Break (q\<lparr>dq_desc := mp_desc s\<rparr>)
                         | Some e \<Rightarrow>
                             let ring = set_flag (dq_pidx q) S_DESC_F_SOP (set_flag e S_DESC_F_EOP (mp_desc s));
                                 q = qdma_update_request (desc_max - room) (mp_data_cnt s)
                                   (if last then 0 else mp_sg_offset s) (if last then None else Some i) q
                             in Continue (desc_max - room)
                                  (q\<lparr>dq_desc := ring, dq_pidx := mp_pidx s,
                                     dq_avail := dq_avail q - (desc_max - room)\<rparr>)))))"

text \<open>The loop; it need not end, so None is a run that never returns.\<close>

partial_function (option) mm_work_loop :: "nat \<Rightarrow> qdma_descq \<Rightarrow> (bool \<times> nat \<times> qdma_descq) option" where
  "mm_work_loop desc_written q =
     (if dq_work_list q = [] then Some (True, desc_written, q)
      else (case mm_round q of
              Continue n q \<Rightarrow> mm_work_loop (u32_wrap (desc_written + n)) q
            | Break q \<Rightarrow> Some (True, desc_written, q)
            | Fail q \<Rightarrow> Some (False, desc_written, q)))"

definition descq_mm_proc_request :: "qdma_descq \<Rightarrow> (int \<times> qdma_descq) option" where
  "descq_mm_proc_request q =
     (if dq_q_stop_wait q then Some (0, descq_mm_n_h2c_cmpl_status q)
      else if \<not> dq_online q then Some (0, q)
      else if dq_proc_req_running q then Some (0, q)
      else (case mm_work_loop 0 (descq_poll_mm_n_h2c_cmpl_status q) of
              None \<Rightarrow> None
            | Some (ok, desc_written, q) \<Rightarrow>
                if \<not> ok then Some (-22, q)
                else
                  let q = (if desc_written \<noteq> 0
                        then descq_poll_mm_n_h2c_cmpl_status
                          (ring_doorbell (q\<lparr>dq_pend_list_empty := False, dq_pidx_info := dq_pidx q\<rparr>))
                        else q)
                  in Some (0, q\<lparr>dq_proc_req_running := False\<rparr>)))"

end
