(* ===== verification/C2hFreeList.thy ===== *)
theory C2hFreeList
  imports QueueContext DescqMM
begin

text \<open>
  The receive buffers of a streaming queue (qdma_st_c2h.c): pages from the kernel are cut into
  buffers of one size, one for each descriptor of the ring. An unsigned int is a natural number
  with the wrap-around written out by u32_wrap; the kernel is a record with the reference count
  of every page, the DMA mappings, the contents of the pages and the outcomes of the allocations
  to come. An access through a null pointer and a shift by a negative count are the value None.
  The members avail, cidx and pidx of struct qdma_flq are not used by the code and left out.
\<close>

section \<open>Data\<close>

abbreviation PAGE_SHIFT :: nat where "PAGE_SHIFT \<equiv> 12"
abbreviation PAGE_SIZE :: nat where "PAGE_SIZE \<equiv> 4096"

text \<open>
  An allocation of pages gives no page, or a page that may be mapped for the device at an
  address. Reference counts are integers, so that a reference given back twice shows.
\<close>

record kmem =
  km_refs :: "nat \<Rightarrow> int"
  km_maps :: "u64 set"
  km_bytes :: "nat \<Rightarrow> nat \<Rightarrow> 8 word"
  km_al :: "bool list"
  km_pages :: "(nat \<times> u64 option) option list"

record qdma_sw_pg_sg =
  pg_base :: "nat option"
  pg_dma_base_addr :: u64
  pg_offset :: nat

record flq_sg =
  fs_pg :: "nat option"
  fs_offset :: nat
  fs_len :: nat
  fs_dma_addr :: u64

record qdma_sdesc_info =
  si_valid :: bool
  si_sop :: bool
  si_eop :: bool
  si_cidx :: nat

record qdma_flq =
  fq_size :: nat
  fq_desc_buf_size :: nat
  fq_num_pages :: nat
  fq_num_pgs_mask :: nat
  fq_num_bufs_per_pg :: nat
  fq_alloc_idx :: nat
  fq_recycle_idx :: nat
  fq_max_pg_offset :: nat
  fq_buf_pg_mask :: nat
  fq_desc_pg_order :: nat
  fq_desc_pg_shift :: nat
  fq_buf_pg_shift :: nat
  fq_udd_cnt :: nat
  fq_pkt_cnt :: nat
  fq_pkt_dlen :: nat
  fq_alloc_fail :: nat
  fq_mapping_err :: nat
  fq_pidx_pend :: nat
  fq_pg_sdesc :: "qdma_sw_pg_sg list option"
  fq_sdesc :: "flq_sg list option"
  fq_sdesc_info :: "qdma_sdesc_info list"

definition flq_zeroed :: qdma_flq where
  "flq_zeroed = \<lparr>fq_size = 0, fq_desc_buf_size = 0, fq_num_pages = 0, fq_num_pgs_mask = 0, fq_num_bufs_per_pg = 0,
     fq_alloc_idx = 0, fq_recycle_idx = 0, fq_max_pg_offset = 0, fq_buf_pg_mask = 0, fq_desc_pg_order = 0,
     fq_desc_pg_shift = 0, fq_buf_pg_shift = 0, fq_udd_cnt = 0, fq_pkt_cnt = 0, fq_pkt_dlen = 0, fq_alloc_fail = 0,
     fq_mapping_err = 0, fq_pidx_pend = 0, fq_pg_sdesc = None, fq_sdesc = None, fq_sdesc_info = []\<rparr>"

abbreviation sg_zeroed :: flq_sg where
  "sg_zeroed \<equiv> \<lparr>fs_pg = None, fs_offset = 0, fs_len = 0, fs_dma_addr = 0\<rparr>"
abbreviation pg_zeroed :: qdma_sw_pg_sg where
  "pg_zeroed \<equiv> \<lparr>pg_base = None, pg_dma_base_addr = 0, pg_offset = 0\<rparr>"
abbreviation info_zeroed :: qdma_sdesc_info where
  "info_zeroed \<equiv> \<lparr>si_valid = False, si_sop = False, si_eop = False, si_cidx = 0\<rparr>"

text \<open>fls, the position of the highest set bit from 1, and the next power of two.\<close>

fun fls :: "nat \<Rightarrow> nat" where
  "fls n = (if n = 0 then 0 else Suc (fls (n div 2)))"

declare fls.simps [simp del]

definition get_next_powof2 :: "nat \<Rightarrow> nat option" where
  "get_next_powof2 val =
     (if val = 0 then None
      else let num_bits = fls val - 1; mask = 2 ^ num_bits - 1
      in Some (push_bit num_bits (drop_bit num_bits (u32_wrap (val + mask)))))"

section \<open>Pages\<close>

definition kzalloc :: "kmem \<Rightarrow> bool \<times> kmem" where
  "kzalloc km = (case km_al km of [] \<Rightarrow> (True, km) | ok # al \<Rightarrow> (ok, km\<lparr>km_al := al\<rparr>))"

definition put_pages :: "nat \<Rightarrow> nat \<Rightarrow> kmem \<Rightarrow> kmem" where
  "put_pages p n km = km\<lparr>km_refs := (km_refs km)(p := km_refs km p - int n)\<rparr>"

definition page_ref_inc :: "nat \<Rightarrow> kmem \<Rightarrow> kmem" where
  "page_ref_inc p km = km\<lparr>km_refs := (km_refs km)(p := km_refs km p + 1)\<rparr>"

text \<open>A page that cannot be mapped is given back at once.\<close>

definition flq_fill_page_one :: "qdma_sw_pg_sg \<Rightarrow> kmem \<Rightarrow> int \<times> qdma_sw_pg_sg \<times> kmem" where
  "flq_fill_page_one pg km =
     (case km_pages km of
        [] \<Rightarrow> (- errno_code ENOMEM, pg, km)
      | None # r \<Rightarrow> (- errno_code ENOMEM, pg, km\<lparr>km_pages := r\<rparr>)
      | Some (p, None) # r \<Rightarrow> (- errno_code EINVAL, pg, km\<lparr>km_pages := r\<rparr>)
      | Some (p, Some addr) # r \<Rightarrow>
          (0, \<lparr>pg_base = Some p, pg_dma_base_addr = addr, pg_offset = 0\<rparr>,
           km\<lparr>km_pages := r, km_refs := (km_refs km)(p := 1), km_maps := insert addr (km_maps km)\<rparr>))"

definition flq_unmap_page_one :: "qdma_sw_pg_sg \<Rightarrow> kmem \<Rightarrow> qdma_sw_pg_sg \<times> kmem" where
  "flq_unmap_page_one pg km =
     (if pg_dma_base_addr pg \<noteq> 0
      then (pg\<lparr>pg_dma_base_addr := 0\<rparr>, km\<lparr>km_maps := km_maps km - {pg_dma_base_addr pg}\<rparr>) else (pg, km))"

definition flq_free_page_one :: "nat \<Rightarrow> qdma_sw_pg_sg \<Rightarrow> kmem \<Rightarrow> qdma_sw_pg_sg \<times> kmem" where
  "flq_free_page_one pg_shift pg km =
     (case pg_base pg of
        None \<Rightarrow> (pg, km)
      | Some p \<Rightarrow>
          let page_count = drop_bit pg_shift (pg_offset pg) + 1; (pg, km) = flq_unmap_page_one pg km
          in (pg\<lparr>pg_base := None, pg_dma_base_addr := 0\<rparr>, put_pages p page_count km))"

fun free_pages :: "nat \<Rightarrow> qdma_sw_pg_sg list \<Rightarrow> kmem \<Rightarrow> kmem" where
  "free_pages pg_shift [] km = km"
| "free_pages pg_shift (pg # pgs) km = free_pages pg_shift pgs (snd (flq_free_page_one pg_shift pg km))"

text \<open>
  The array of pages is walked over even when there is none: its first element is then skipped as
  a null pointer, but the address of the second is not null.
\<close>

definition descq_flq_free_page_resource :: "qdma_flq \<Rightarrow> kmem \<Rightarrow> (qdma_flq \<times> kmem) option" where
  "descq_flq_free_page_resource flq km =
     (case fq_pg_sdesc flq of
        None \<Rightarrow> if fq_num_pages flq \<le> 1 then Some (flq_zeroed, km) else None
      | Some pgs \<Rightarrow>
          if length pgs < fq_num_pages flq then None
          else Some (flq_zeroed, free_pages (fq_desc_pg_shift flq) (take (fq_num_pages flq) pgs) km))"

section \<open>Buffers\<close>

definition flq_free_one :: "flq_sg \<Rightarrow> u64 \<Rightarrow> flq_sg \<times> u64" where
  "flq_free_one sdesc dst_addr =
     (let (sdesc, dst_addr) = (if fs_dma_addr sdesc \<noteq> 0 then (sdesc\<lparr>fs_dma_addr := 0\<rparr>, 0) else (sdesc, dst_addr))
      in (if fs_pg sdesc \<noteq> None then sdesc\<lparr>fs_pg := None, fs_offset := 0\<rparr> else sdesc, dst_addr))"

text \<open>The ring of descriptors is the list of their addresses; the buffers are freed with it.\<close>

definition descq_flq_free_resource :: "qdma_flq \<Rightarrow> u64 list \<Rightarrow> qdma_flq \<times> u64 list" where
  "descq_flq_free_resource flq ring =
     (case fq_sdesc flq of
        None \<Rightarrow> (flq, ring)
      | Some sds \<Rightarrow>
          (flq\<lparr>fq_sdesc := None, fq_sdesc_info := []\<rparr>,
           map (\<lambda>(sd, d). snd (flq_free_one sd d)) (zip (take (fq_size flq) sds) ring) @ drop (fq_size flq) ring))"

text \<open>
  A buffer is cut from the page of the current allocation index; the index moves on when the
  page has no room for another.
\<close>

definition flq_fill_one :: "nat \<Rightarrow> qdma_flq \<Rightarrow> kmem \<Rightarrow> (int \<times> (flq_sg \<times> u64) option \<times> qdma_flq \<times> kmem)" where
  "flq_fill_one c2h_bufsz flq km =
     (let err = \<lambda>e. (- errno_code e, None, flq, km)
      in if fq_num_pages flq = 0 then err EINVAL
      else let buf_sz = fq_desc_buf_size flq; pg_idx = fq_alloc_idx flq AND fq_num_pgs_mask flq
      in if pg_idx \<ge> fq_num_pages flq then err EINVAL
      else case fq_pg_sdesc flq of
        None \<Rightarrow> err EINVAL
      | Some pgs \<Rightarrow>
          let pg = pgs ! pg_idx
          in case pg_base pg of
            None \<Rightarrow> err EINVAL
          | Some p \<Rightarrow>
              if u32_wrap (pg_offset pg + buf_sz) > fq_max_pg_offset flq then err ENOMEM
              else let addr = pg_dma_base_addr pg + of_nat (pg_offset pg); off = u32_wrap (pg_offset pg + buf_sz)
              in (0, Some (\<lparr>fs_pg = Some p, fs_offset = pg_offset pg, fs_len = c2h_bufsz, fs_dma_addr = addr\<rparr>, addr),
                  flq\<lparr>fq_pg_sdesc := Some (pgs[pg_idx := pg\<lparr>pg_offset := off\<rparr>]),
                      fq_alloc_idx := (if u32_wrap (off + buf_sz) > fq_max_pg_offset flq
                        then u32_wrap (fq_alloc_idx flq + 1) else fq_alloc_idx flq)\<rparr>,
                  page_ref_inc p km))"

fun fill_pages :: "qdma_sw_pg_sg list \<Rightarrow> kmem \<Rightarrow> int \<times> qdma_sw_pg_sg list \<times> kmem" where
  "fill_pages [] km = (0, [], km)"
| "fill_pages (pg # pgs) km =
     (let (rv, pg, km) = flq_fill_page_one pg km
      in if rv < 0 then (rv, pg # pgs, km)
         else let (rv, pgs, km) = fill_pages pgs km in (rv, pg # pgs, km))"

fun fill_bufs :: "nat \<Rightarrow> nat \<Rightarrow> nat \<Rightarrow> flq_sg list \<Rightarrow> u64 list \<Rightarrow> qdma_flq \<Rightarrow> kmem \<Rightarrow>
    int \<times> flq_sg list \<times> u64 list \<times> qdma_flq \<times> kmem" where
  "fill_bufs c2h_bufsz i 0 sds ring flq km = (0, sds, ring, flq, km)"
| "fill_bufs c2h_bufsz i (Suc n) sds ring flq km =
     (case flq_fill_one c2h_bufsz flq km of
        (rv, Some (sd, d), flq, km) \<Rightarrow> fill_bufs c2h_bufsz (Suc i) n (sds[i := sd]) (ring[i := d]) flq km
      | (rv, None, flq, km) \<Rightarrow> (rv, sds, ring, flq, km))"

text \<open>The number of pages, a power of two of which the index mask is taken.\<close>

definition pages_for :: "nat \<Rightarrow> nat \<Rightarrow> nat option" where
  "pages_for sz per_pg =
     (case get_next_powof2 (sz div per_pg + (if sz mod per_pg = 0 then 0 else 1)) of
        None \<Rightarrow> None
      | Some num_pages \<Rightarrow> Some (if num_pages < sz then u32_wrap (push_bit 1 num_pages) else num_pages))"

definition descq_flq_alloc_resource ::
  "nat \<Rightarrow> qdma_flq \<Rightarrow> u64 list \<Rightarrow> kmem \<Rightarrow> (int \<times> qdma_flq \<times> u64 list \<times> kmem) option" where
  "descq_flq_alloc_resource c2h_bufsz flq ring km =
     (let flq = flq\<lparr>fq_num_bufs_per_pg := drop_bit (fq_desc_pg_shift flq) (fq_max_pg_offset flq)\<rparr>;
          size = fq_size flq; per_pg = fq_num_bufs_per_pg flq
      in if per_pg = 0 then Some (- errno_code EINVAL, flq, ring, km)
      else case pages_for size per_pg of
        None \<Rightarrow> None
      | Some num_pages \<Rightarrow>
          let flq = flq\<lparr>fq_num_pages := num_pages, fq_num_pgs_mask := num_pages - 1\<rparr>;
              (ok, km) = kzalloc km
          in if \<not> ok then Some (- errno_code ENOMEM, flq, ring, km)
          else let (rv, pgs, km) = fill_pages (replicate num_pages pg_zeroed) km;
                   flq = flq\<lparr>fq_pg_sdesc := Some pgs\<rparr>
          in if rv < 0
             then (case descq_flq_free_page_resource flq km of
                 None \<Rightarrow> None | Some (flq, km) \<Rightarrow> Some (rv, flq, ring, km))
          else let (ok, km) = kzalloc km
          in if \<not> ok
             then (case descq_flq_free_page_resource flq km of
                 None \<Rightarrow> None | Some (flq, km) \<Rightarrow> Some (- errno_code ENOMEM, flq, ring, km))
          else let (rv, sds, ring, flq, km) = fill_bufs c2h_bufsz 0 size (replicate size sg_zeroed) ring
                     (flq\<lparr>fq_alloc_idx := 0\<rparr>) km;
                   flq = flq\<lparr>fq_sdesc := Some sds, fq_sdesc_info := replicate size info_zeroed\<rparr>
          in if rv < 0
             then let (flq, ring) = descq_flq_free_resource flq ring
               in (case descq_flq_free_page_resource flq km of
                     None \<Rightarrow> None | Some (flq, km) \<Rightarrow> Some (rv, flq, ring, km))
          else Some (0, flq, ring, km))"

text \<open>The sizes that qdma_descq_alloc_resource sets first.\<close>

definition flq_sizes :: "nat \<Rightarrow> nat \<Rightarrow> qdma_flq \<Rightarrow> qdma_flq option" where
  "flq_sizes rngsz c2h_bufsz flq =
     (case get_next_powof2 c2h_bufsz of
        None \<Rightarrow> None
      | Some desc_buf_size \<Rightarrow>
          let shift = fls desc_buf_size - 1; order = (if shift < PAGE_SHIFT then 0 else shift - PAGE_SHIFT)
          in Some (flq\<lparr>fq_size := rngsz, fq_buf_pg_shift := fls c2h_bufsz - 1,
                fq_buf_pg_mask := 2 ^ (fls c2h_bufsz - 1) - 1, fq_desc_buf_size := desc_buf_size,
                fq_desc_pg_shift := shift, fq_desc_pg_order := order, fq_max_pg_offset := push_bit order PAGE_SIZE\<rparr>))"

end
