(* ===== verification/C2hStream.thy ===== *)
theory C2hStream
  imports C2hFreeList
begin

text \<open>
  Streaming receive queues (qdma_st_c2h.c): completion entries announce packets that lie in the
  buffers of the free list, requests of the client copy them out, and consumed buffers go back to
  the device. A queue is a record of the members of struct qdma_descq, its configuration and its
  free list that this code uses; a request holds the members of struct qdma_sgt_req_cb too. An
  unsigned int is a natural number with the wrap-around written out, in the adaptive moderation a
  word. The status that the device writes to memory changes between its reads: a list holds the
  values to come. Writes of the doorbell registers are recorded; they fail only without a device.
  The callbacks of an upper layer driver are functions in a record of the environment. Access
  through a null pointer or outside an array and a loop that does not end are the value None.
  The list of requests to be worked on is not used for these queues, and waking up a waiting
  thread is not modelled. Three corners are outside the model: the result of descq_st_c2h_read is
  the count of bytes, where C converts from 2 ^ 31 bytes on to a negative int; the budget of
  descq_process_completion_st_c2h is not negative; and with a buffer size of 0 the loop of get_fl_nr
  does not end in C, so the properties assume a positive size.
\<close>

section \<open>Data\<close>

record st_sg =
  ts_pg :: nat
  ts_offset :: nat
  ts_len :: nat

record st_req =
  sr_sgl :: "st_sg list"
  sr_count :: nat
  sr_no_memcpy :: bool
  sr_fp_done :: bool
  sr_sg_idx :: nat
  sr_sg_offset :: nat
  sr_left :: nat

record cmpt_info =
  cp_format :: bool
  cp_color :: bool
  cp_err :: bool
  cp_desc_used :: bool
  cp_eot :: bool
  cp_len :: nat
  cp_pidx :: nat
  cp_entry :: "u64 list"

abbreviation cmpt_zeroed :: cmpt_info where
  "cmpt_zeroed \<equiv> \<lparr>cp_format = False, cp_color = False, cp_err = False, cp_desc_used = False, cp_eot = False,
     cp_len = 0, cp_pidx = 0, cp_entry = []\<rparr>"

datatype st_doorbell = Pidx nat | CmptCidx qdma_q_cmpt_cidx_reg_info

text \<open>The part of a queue that the adaptive moderation works on.\<close>

record c2h_adapt =
  sq_rngsz :: nat
  sq_latency_optimize :: bool
  sq_moving_avg :: u32
  sq_thr_hi :: u32
  sq_thr_lo :: u32
  sq_sorted_idx :: nat
  sq_monitor_cnt :: u8
  sq_cidx_info :: qdma_q_cmpt_cidx_reg_info

record st_queue = c2h_adapt +
  sq_st_c2h :: bool
  sq_rngsz_cmpt :: nat
  sq_bufsz :: nat
  sq_udd_en :: bool
  sq_desc_bypass :: bool
  sq_adaptive_rx :: bool
  sq_ping_pong_en :: bool
  sq_online :: bool
  sq_stop_wait :: bool
  sq_err :: bool
  sq_color :: bool
  sq_avail :: nat
  sq_pidx :: nat
  sq_pidx_cmpt :: nat
  sq_cidx_cmpt :: nat
  sq_cur :: nat
  sq_cmpt :: "u64 list list"
  sq_cs_pidx :: nat
  sq_cs_next :: "nat list"
  sq_flq :: qdma_flq
  sq_ring :: "u64 list"
  sq_pend_list :: "st_req list"
  sq_pend_list_empty :: bool
  sq_done :: "(st_req \<times> int) list"
  sq_total_cmpl_descs :: nat
  sq_total_st_c2h_pkts :: nat
  sq_pidx_info :: nat
  sq_doorbell :: "st_doorbell list"
  sq_rx_time :: u64
  sq_tx_time :: u64
  sq_lat_min :: u64
  sq_lat_max :: u64
  sq_lat_total :: u64

text \<open>
  The device around the queue: thresholds of the packet counters with their sorted order, the
  mode of the driver, and the callbacks for packets (length, number of buffers, first buffer,
  completion entry) and for completion entries.
\<close>

record c2h_env =
  ce_cnt_th :: "u32 list"
  ce_sorted :: "nat list"
  ce_poll :: bool
  ce_intr_moderation :: bool
  ce_packet :: "(nat \<Rightarrow> nat \<Rightarrow> flq_sg option \<Rightarrow> u64 list option \<Rightarrow> int) option"
  ce_proc_entry :: "(u64 list \<Rightarrow> cmpt_info \<Rightarrow> int \<times> cmpt_info) option"

definition u32_sub :: "nat \<Rightarrow> nat \<Rightarrow> nat" where
  "u32_sub a b = (if b \<le> a then a - b else u32_wrap (a + 2 ^ 32 - u32_wrap b))"

definition ring_idx_delta :: "nat \<Rightarrow> nat \<Rightarrow> nat \<Rightarrow> nat" where
  "ring_idx_delta new old rngsz = (if new \<ge> old then new - old else u32_wrap (new + u32_sub rngsz old))"

definition ring_idx_incr :: "nat \<Rightarrow> nat \<Rightarrow> nat \<Rightarrow> nat" where
  "ring_idx_incr idx cnt rngsz = (let idx = u32_wrap (idx + cnt) in if idx \<ge> rngsz then idx - rngsz else idx)"

definition ring_idx_decr :: "nat \<Rightarrow> nat \<Rightarrow> nat \<Rightarrow> nat" where
  "ring_idx_decr idx cnt rngsz = (if idx \<ge> cnt then idx - cnt else u32_sub rngsz (cnt - idx))"

text \<open>One read of the producer index in the completion status.\<close>

definition cs_pidx :: "st_queue \<Rightarrow> nat \<times> st_queue" where
  "cs_pidx q = (case sq_cs_next q of [] \<Rightarrow> (sq_cs_pidx q, q) | p # ps \<Rightarrow> (p, q\<lparr>sq_cs_pidx := p, sq_cs_next := ps\<rparr>))"

definition queue_pidx_update :: "st_queue \<Rightarrow> st_queue" where
  "queue_pidx_update q = q\<lparr>sq_doorbell := sq_doorbell q @ [Pidx (sq_pidx_info q)]\<rparr>"

definition queue_cmpt_cidx_update :: "st_queue \<Rightarrow> st_queue" where
  "queue_cmpt_cidx_update q = q\<lparr>sq_doorbell := sq_doorbell q @ [CmptCidx (sq_cidx_info q)]\<rparr>"

definition incr_cmpl_desc_cnt :: "nat \<Rightarrow> st_queue \<Rightarrow> st_queue" where
  "incr_cmpl_desc_cnt cnt q =
     q\<lparr>sq_total_cmpl_descs := sq_total_cmpl_descs q + cnt, sq_total_st_c2h_pkts := sq_total_st_c2h_pkts q + cnt\<rparr>"

definition st_req_done :: "c2h_env \<Rightarrow> int \<Rightarrow> st_req \<Rightarrow> st_queue \<Rightarrow> st_queue" where
  "st_req_done env error req q =
     q\<lparr>sq_done := sq_done q @ [(req, error)],
       sq_pend_list_empty := (if ce_packet env = None then sq_avail q = 0 else True)\<rparr>"

section \<open>Giving buffers back\<close>

text \<open>
  The buffers of a page go back one by one. Without an array of pages its element 0 is a null
  pointer, which is an error the caller goes on after.
\<close>

partial_function (option) refill_pages ::
  "bool \<Rightarrow> nat \<Rightarrow> nat \<Rightarrow> nat \<Rightarrow> qdma_flq \<Rightarrow> kmem \<Rightarrow> (nat option \<times> qdma_flq \<times> kmem) option" where
  "refill_pages put count i n flq km =
     (if i \<ge> count then Some (Some n, flq, km)
      else let k = n AND fq_num_pgs_mask flq
      in case fq_pg_sdesc flq of
        None \<Rightarrow> if k = 0 then Some (None, flq, km) else None
      | Some pgs \<Rightarrow>
          if k \<ge> length pgs then None
          else let pg = pgs ! k;
                 free = min (drop_bit (fq_desc_pg_shift flq) (pg_offset pg)) (count - i);
                 off = u32_sub (pg_offset pg) (u32_wrap (free * fq_desc_buf_size flq))
          in if put \<and> 0 < free \<and> pg_base pg = None then None
          else refill_pages put count (i + free) (if off = 0 then u32_wrap (n + 1) else n)
            (flq\<lparr>fq_pg_sdesc := Some (pgs[k := pg\<lparr>pg_offset := off\<rparr>])\<rparr>)
            (case pg_base pg of Some p \<Rightarrow> if put then put_pages p free km else km | None \<Rightarrow> km))"

text \<open>Pages that are all given back are replaced by new ones, up to the page buffers are cut from.\<close>

partial_function (option) replace_pages :: "qdma_flq \<Rightarrow> kmem \<Rightarrow> (qdma_flq \<times> kmem) option" where
  "replace_pages flq km =
     (let k = fq_recycle_idx flq AND fq_num_pgs_mask flq
      in case fq_pg_sdesc flq of
        None \<Rightarrow> if k = 0 then Some (flq, km) else None
      | Some pgs \<Rightarrow>
          if k \<ge> length pgs then None
          else if pg_offset (pgs ! k) \<noteq> 0 \<or> fq_recycle_idx flq = fq_alloc_idx flq then Some (flq, km)
          else let (pg, km) = flq_unmap_page_one (pgs ! k) km
          in case pg_base pg of
            None \<Rightarrow> None
          | Some p \<Rightarrow>
              let (rv, pg, km) = flq_fill_page_one pg (put_pages p 1 km);
                  flq = flq\<lparr>fq_pg_sdesc := Some (pgs[k := pg])\<rparr>
              in if rv < 0 then Some (flq, km)
                 else replace_pages (flq\<lparr>fq_recycle_idx := u32_wrap (fq_recycle_idx flq + 1)\<rparr>) km)"

definition flq_refill_pages :: "c2h_env \<Rightarrow> nat \<Rightarrow> bool \<Rightarrow> qdma_flq \<Rightarrow> kmem \<Rightarrow> (qdma_flq \<times> kmem) option" where
  "flq_refill_pages env count recycle flq km =
     (case refill_pages (\<not> recycle \<and> ce_packet env = None) count 0 (fq_recycle_idx flq) flq km of
        None \<Rightarrow> None
      | Some (None, flq, km) \<Rightarrow> Some (flq, km)
      | Some (Some n, flq, km) \<Rightarrow>
          if recycle then Some (flq\<lparr>fq_recycle_idx := n\<rparr>, km) else replace_pages flq km)"

text \<open>One buffer of qdma_flq_refill: it is kept with its full length, or replaced by a new one.\<close>

definition refill_one :: "bool \<Rightarrow> nat \<Rightarrow> st_queue \<Rightarrow> kmem \<Rightarrow> (bool \<times> st_queue \<times> kmem) option" where
  "refill_one recycle idx q km =
     (let flq = sq_flq q
      in case fq_sdesc flq of
        None \<Rightarrow> None
      | Some sds \<Rightarrow>
          if idx \<ge> length sds \<or> idx \<ge> length (fq_sdesc_info flq) \<or> idx \<ge> length (sq_ring q) then None
          else let done = (\<lambda>sd d flq. q\<lparr>sq_avail := u32_wrap (sq_avail q + 1), sq_ring := (sq_ring q)[idx := d],
                 sq_flq := flq\<lparr>fq_sdesc := Some (sds[idx := sd]), fq_sdesc_info := (fq_sdesc_info flq)[idx := (fq_sdesc_info flq ! idx)
                   \<lparr>si_valid := False, si_sop := False, si_eop := False\<rparr>]\<rparr>\<rparr>)
          in if recycle then Some (True, done ((sds ! idx)\<lparr>fs_len := sq_bufsz q\<rparr>) (sq_ring q ! idx) flq, km)
          else let (sd, d) = flq_free_one (sds ! idx) (sq_ring q ! idx)
          in case flq_fill_one (sq_bufsz q) flq km of
            (rv, Some (sd, d), flq, km) \<Rightarrow> Some (True, done sd d flq, km)
          | (rv, None, flq, km) \<Rightarrow>
              Some (False, q\<lparr>sq_ring := (sq_ring q)[idx := d], sq_flq := flq\<lparr>fq_sdesc := Some (sds[idx := sd]),
                fq_alloc_fail := (if rv = - errno_code ENOMEM then fq_alloc_fail flq + 1 else fq_alloc_fail flq),
                fq_mapping_err := (if rv = - errno_code ENOMEM then fq_mapping_err flq else fq_mapping_err flq + 1)\<rparr>\<rparr>,
                km))"

fun refill_loop :: "bool \<Rightarrow> nat \<Rightarrow> nat \<Rightarrow> nat \<Rightarrow> st_queue \<Rightarrow> kmem \<Rightarrow> (nat \<times> st_queue \<times> kmem) option" where
  "refill_loop recycle 0 i idx q km = Some (i, q, km)"
| "refill_loop recycle (Suc n) i idx q km =
     (let idx = (if idx = fq_size (sq_flq q) then 0 else idx)
      in case refill_one recycle idx q km of
        None \<Rightarrow> None
      | Some (True, q, km) \<Rightarrow> refill_loop recycle n (Suc i) (Suc idx) q km
      | Some (False, q, km) \<Rightarrow> Some (i, q, km))"

definition qdma_flq_refill :: "c2h_env \<Rightarrow> nat \<Rightarrow> nat \<Rightarrow> bool \<Rightarrow> st_queue \<Rightarrow> kmem \<Rightarrow> (nat \<times> st_queue \<times> kmem) option" where
  "qdma_flq_refill env idx count recycle q km =
     (case (if recycle then Some (sq_flq q, km) else flq_refill_pages env count recycle (sq_flq q) km) of
        None \<Rightarrow> None
      | Some (flq, km) \<Rightarrow>
          (case refill_loop recycle count 0 idx (q\<lparr>sq_flq := flq\<rparr>) km of
             None \<Rightarrow> None
           | Some (i, q, km) \<Rightarrow> Some (i, if sq_pend_list q = [] then q\<lparr>sq_pend_list_empty := True\<rparr> else q, km)))"

section \<open>Reading received data\<close>

definition memcpy :: "nat \<Rightarrow> nat \<Rightarrow> nat \<Rightarrow> nat \<Rightarrow> nat \<Rightarrow> kmem \<Rightarrow> kmem" where
  "memcpy dpg doff spg soff n km =
     km\<lparr>km_bytes := \<lambda>p i. if p = dpg \<and> doff \<le> i \<and> i < doff + n then km_bytes km spg (soff + (i - doff)) else km_bytes km p i\<rparr>"

text \<open>The little endian 64 bit number at an address.\<close>

definition read_u64 :: "kmem \<Rightarrow> nat \<Rightarrow> nat \<Rightarrow> u64" where
  "read_u64 km p off = fold (\<lambda>i w. push_bit 8 w OR ucast (km_bytes km p (off + i))) [7, 6, 5, 4, 3, 2, 1, 0] 0"

definition ping_pong :: "u64 \<Rightarrow> st_queue \<Rightarrow> st_queue" where
  "ping_pong tx_time q =
     (if sq_ping_pong_en q \<and> tx_time = sq_tx_time q
      then let latency = sq_rx_time q - tx_time;
               q = (if sq_lat_min q > latency \<or> sq_lat_min q = 0 then q\<lparr>sq_lat_min := latency\<rparr> else q);
               q = (if sq_lat_max q < latency \<or> sq_lat_max q = 0 then q\<lparr>sq_lat_max := latency\<rparr> else q)
           in q\<lparr>sq_lat_total := sq_lat_total q + latency\<rparr>
      else q)"

text \<open>
  The inner loop: bytes of one buffer go to the entries of the request. It gives the entries and
  the offset in the first of them that are left, the number of entries finished and of bytes
  copied.
\<close>

record copy_st =
  cs_tsgs :: "st_sg list"
  cs_tsgoff :: nat
  cs_j :: nat
  cs_foff :: nat
  cs_copied :: nat

definition copy_len :: "nat \<Rightarrow> copy_st \<Rightarrow> nat" where
  "copy_len flen c = (case cs_tsgs c of [] \<Rightarrow> 0 | tsg # _ \<Rightarrow> min flen (u32_sub (ts_len tsg) (cs_tsgoff c)))"

definition copy_advance :: "nat \<Rightarrow> copy_st \<Rightarrow> copy_st" where
  "copy_advance copy c =
     (case cs_tsgs c of
        [] \<Rightarrow> c
      | tsg # tsgs \<Rightarrow>
          let tsgoff = (if cs_tsgoff c \<le> ts_len tsg then cs_tsgoff c + copy else u32_wrap (cs_tsgoff c + copy));
              c = c\<lparr>cs_tsgoff := tsgoff, cs_foff := cs_foff c + copy, cs_copied := u32_wrap (cs_copied c + copy)\<rparr>
          in if tsgoff = ts_len tsg then c\<lparr>cs_tsgs := tsgs, cs_tsgoff := 0, cs_j := cs_j c + 1\<rparr> else c)"

definition copy_todo :: "copy_st \<Rightarrow> nat" where
  "copy_todo c = 2 * length (cs_tsgs c) +
     (case cs_tsgs c of [] \<Rightarrow> 0 | tsg # _ \<Rightarrow> if ts_len tsg < cs_tsgoff c then 1 else 0)"

lemma copy_todo_decreases:
  assumes "cs_tsgs c \<noteq> []" "flen \<noteq> 0"
  shows "copy_todo (copy_advance (copy_len flen c) c) + (if flen - copy_len flen c = 0 then 0 else 1) < copy_todo c + 1"
proof -
  obtain tsg tsgs where t: "cs_tsgs c = tsg # tsgs" using assms(1) by (cases "cs_tsgs c") auto
  show ?thesis
  proof (cases "cs_tsgoff c \<le> ts_len tsg")
    case True
    then show ?thesis using assms(2) t
      by (cases tsgs; cases "flen \<le> ts_len tsg - cs_tsgoff c")
        (auto simp: copy_todo_def copy_advance_def copy_len_def Let_def u32_sub_def min_def)
  next
    case False
    let ?n = "copy_len flen c"
    show ?thesis
    proof (cases "?n = flen")
      case True
      then show ?thesis using False t
        by (cases tsgs) (simp_all add: copy_todo_def copy_advance_def Let_def)
    next
      case less: False
      have n: "?n = u32_wrap (ts_len tsg + 2 ^ 32 - u32_wrap (cs_tsgoff c))" using less False t by (auto simp: copy_len_def u32_sub_def)
      have "u32_wrap (cs_tsgoff c) \<le> 2 ^ 32" by (simp add: u32_wrap_def)
      then have "u32_wrap (cs_tsgoff c + ?n) = u32_wrap (ts_len tsg)"
        unfolding n u32_wrap_def
        by (metis (no_types, lifting) add_diff_inverse_nat mod_add_eq mod_add_self2 mod_mod_trivial not_less trans_le_add2)
      then have "u32_wrap (cs_tsgoff c + ?n) \<le> ts_len tsg" by (simp add: u32_wrap_def)
      then show ?thesis using False t
        by (cases tsgs) (simp_all add: copy_todo_def copy_advance_def Let_def)
    qed
  qed
qed

function copy_buf :: "bool \<Rightarrow> flq_sg \<Rightarrow> nat \<Rightarrow> nat \<Rightarrow> copy_st \<Rightarrow> st_queue \<Rightarrow> kmem \<Rightarrow> copy_st \<times> st_queue \<times> kmem" where
  "copy_buf no_memcpy fsg p flen c q km =
     (if cs_tsgs c = [] \<or> flen = 0 then (c, q, km)
      else let tsg = hd (cs_tsgs c); copy = copy_len flen c;
               km = (if no_memcpy then km
                     else memcpy (ts_pg tsg) (u32_wrap (ts_offset tsg + cs_tsgoff c)) p (fs_offset fsg + cs_foff c) copy km)
           in copy_buf no_memcpy fsg p (flen - copy) (copy_advance copy c)
                (ping_pong (read_u64 km p (fs_offset fsg)) q) km)"
  by pat_completeness auto
termination
proof (relation "measure (\<lambda>(no_memcpy, fsg, p, flen, c, q, km). copy_todo c + (if flen = 0 then 0 else 1))", goal_cases)
  case (2 no_memcpy fsg p flen c q km)
  then show ?case using copy_todo_decreases [of c flen] by simp
qed simp

declare copy_buf.simps [simp del]

text \<open>
  The outer loop, over the buffers that hold data: a buffer whose bytes are all copied is done.
  When one is not, the request has no entry left, and the loop ends.
\<close>

fun read_bufs ::
  "bool \<Rightarrow> nat \<Rightarrow> nat \<Rightarrow> nat \<Rightarrow> copy_st \<Rightarrow> st_queue \<Rightarrow> kmem \<Rightarrow> (nat \<times> nat \<times> copy_st \<times> st_queue \<times> kmem) option" where
  "read_bufs no_memcpy 0 i idx c q km = Some (i, idx, c, q, km)"
| "read_bufs no_memcpy (Suc n) i idx c q km =
     (if cs_tsgs c = [] then Some (i, idx, c, q, km)
      else case fq_sdesc (sq_flq q) of
        None \<Rightarrow> None
      | Some sds \<Rightarrow>
          if idx \<ge> length sds then None
          else case fs_pg (sds ! idx) of
            None \<Rightarrow> None
          | Some p \<Rightarrow>
              let (c, q, km) = copy_buf no_memcpy (sds ! idx) p (fs_len (sds ! idx)) (c\<lparr>cs_foff := 0\<rparr>) q km
              in if cs_foff c = fs_len (sds ! idx)
                 then read_bufs no_memcpy n (Suc i) (if idx + 1 = length sds then 0 else idx + 1) (c\<lparr>cs_foff := 0\<rparr>) q km
                 else Some (i, idx, c, q, km))"

definition descq_st_c2h_read ::
  "c2h_env \<Rightarrow> bool \<Rightarrow> bool \<Rightarrow> st_req \<Rightarrow> st_queue \<Rightarrow> kmem \<Rightarrow> (int \<times> st_req \<times> st_queue \<times> kmem) option" where
  "descq_st_c2h_read env update_pidx refill req q km =
     (let flq = sq_flq q; pidx = fq_pidx_pend flq; fsgcnt = ring_idx_delta (sq_pidx q) pidx (fq_size flq)
      in if fsgcnt = 0 then Some (0, req, q, km)
      else if sr_sg_idx req \<noteq> 0 \<and> sr_sg_idx req \<ge> length (sr_sgl req) then Some (- errno_code EINVAL, req, q, km)
      else case read_bufs (sr_no_memcpy req) fsgcnt 0 pidx
          \<lparr>cs_tsgs = drop (sr_sg_idx req) (sr_sgl req), cs_tsgoff = sr_sg_offset req, cs_j = sr_sg_idx req,
           cs_foff = 0, cs_copied = 0\<rparr> q km of
        None \<Rightarrow> None
      | Some (i, idx, c, q, km) \<Rightarrow>
          (case (if refill \<and> i \<noteq> 0 then qdma_flq_refill env pidx i True (incr_cmpl_desc_cnt i q) km
                 else Some (0, incr_cmpl_desc_cnt i q, km)) of
             None \<Rightarrow> None
           | Some (_, q, km) \<Rightarrow>
               let flq = sq_flq q; pend = ring_idx_incr pidx i (fq_size flq);
                   flq = flq\<lparr>fq_pidx_pend := pend,
                     fq_sdesc := (case fq_sdesc flq of None \<Rightarrow> None
                       | Some sds \<Rightarrow> Some (if cs_foff c = 0 then sds
                           else sds[idx := (sds ! idx)\<lparr>fs_offset := u32_wrap (fs_offset (sds ! idx) + cs_foff c),
                             fs_len := u32_sub (fs_len (sds ! idx)) (cs_foff c)\<rparr>])),
                     fq_pkt_dlen := u32_sub (fq_pkt_dlen flq) (cs_copied c)\<rparr>;
                   q = q\<lparr>sq_flq := flq\<rparr>;
                   q = (if i \<noteq> 0 \<and> update_pidx then queue_pidx_update (q\<lparr>sq_pidx_info := ring_idx_decr pend 1 (fq_size flq)\<rparr>) else q)
               in Some (int (cs_copied c),
                    req\<lparr>sr_sg_idx := cs_j c, sr_sg_offset := cs_tsgoff c, sr_left := u32_sub (sr_left req) (cs_copied c)\<rparr>,
                    q, km)))"

text \<open>Requests that wait get the data in their order; one with nothing left to read ends the walk.\<close>

fun packets_proc :: "c2h_env \<Rightarrow> st_req list \<Rightarrow> st_queue \<Rightarrow> kmem \<Rightarrow> (st_queue \<times> kmem) option" where
  "packets_proc env [] q km = Some (q, km)"
| "packets_proc env (cb # cbs) q km =
     (if sr_left cb = 0 then Some (st_req_done env 0 cb (q\<lparr>sq_pend_list := cbs\<rparr>), km)
      else case descq_st_c2h_read env False False cb q km of
        None \<Rightarrow> None
      | Some (rv, cb, q, km) \<Rightarrow>
          let q = q\<lparr>sq_pend_list := cb # cbs\<rparr>
          in if rv < 0 then packets_proc env cbs (st_req_done env rv cb (q\<lparr>sq_pend_list := cbs\<rparr>)) km
             else if sr_left cb = 0 then packets_proc env cbs (st_req_done env 0 cb (q\<lparr>sq_pend_list := cbs\<rparr>)) km
             else Some (q, km))"

definition qdma_c2h_packets_proc_dflt :: "c2h_env \<Rightarrow> st_queue \<Rightarrow> kmem \<Rightarrow> (st_queue \<times> kmem) option" where
  "qdma_c2h_packets_proc_dflt env q km = packets_proc env (sq_pend_list q) q km"

section \<open>Completion entries\<close>

definition cmpt_next :: "st_queue \<Rightarrow> st_queue" where
  "cmpt_next q =
     (let cidx = u32_wrap (sq_cidx_cmpt q + 1)
      in if cidx = sq_rngsz_cmpt q then q\<lparr>sq_cidx_cmpt := 0, sq_color := \<not> sq_color q, sq_cur := 0\<rparr>
         else q\<lparr>sq_cidx_cmpt := cidx, sq_cur := sq_cur q + 1\<rparr>)"

definition is_new_cmpl_entry :: "st_queue \<Rightarrow> cmpt_info \<Rightarrow> bool" where
  "is_new_cmpl_entry q cmpl = (cp_color cmpl = sq_color q)"

definition parse_cmpl_entry :: "st_queue \<Rightarrow> cmpt_info \<Rightarrow> (int \<times> cmpt_info) option" where
  "parse_cmpl_entry q cmpl =
     (if sq_cur q \<ge> length (sq_cmpt q) \<or> sq_cmpt q ! sq_cur q = [] then None
      else let cmpt = sq_cmpt q ! sq_cur q; w = hd cmpt;
               cmpl = cmpl\<lparr>cp_entry := cmpt, cp_format := bit w 0, cp_color := bit w 1, cp_err := bit w 2,
                 cp_eot := bit w 20, cp_desc_used := bit w 3\<rparr>
      in Some (0, cmpl\<lparr>cp_len := (if \<not> cp_format cmpl \<and> cp_desc_used cmpl
           then unat (drop_bit 4 w AND 0xFFFF) else 0)\<rparr>))"

text \<open>The number of buffers of a packet and the bytes in its last one.\<close>

fun count_bufs :: "nat \<Rightarrow> nat \<Rightarrow> nat \<Rightarrow> nat \<Rightarrow> nat \<times> nat" where
  "count_bufs 0 bufsz l_len n = (n, l_len)"
| "count_bufs (Suc fuel) bufsz l_len n =
     (if l_len \<ge> bufsz then count_bufs fuel bufsz (l_len - bufsz) (n + 1) else (n, l_len))"

text \<open>The loop takes away a buffer size, not zero, each time: as many rounds as bytes are enough.\<close>

definition get_fl_nr :: "nat \<Rightarrow> nat \<Rightarrow> nat \<Rightarrow> nat \<Rightarrow> nat \<times> nat" where
  "get_fl_nr len c2h_bufsz pg_shift pg_mask =
     (if len AND (u32_sub len 1) = 0
      then let l_len = len AND pg_mask
           in ((if len \<noteq> 0 then drop_bit pg_shift (u32_wrap (len + pg_mask)) else 1),
               (if l_len = 0 then c2h_bufsz else l_len))
      else if len \<le> c2h_bufsz then (1, len)
      else let (n, l_len) = count_bufs len c2h_bufsz len 0
           in if l_len \<noteq> 0 then (n + 1, l_len) else (n, c2h_bufsz))"

fun mark_infos :: "nat \<Rightarrow> nat \<Rightarrow> nat \<Rightarrow> qdma_sdesc_info list \<Rightarrow> qdma_sdesc_info list" where
  "mark_infos cidx 0 i infos = infos"
| "mark_infos cidx (Suc n) i infos =
     mark_infos cidx n (if i + 1 = length infos then 0 else i + 1)
       (infos[i := (infos ! i)\<lparr>si_valid := True, si_cidx := cidx\<rparr>])"

text \<open>
  A packet takes its buffers from the ring. The length of the last buffer is written before the
  number of buffers is checked.
\<close>

definition rcv_pkt :: "c2h_env \<Rightarrow> cmpt_info \<Rightarrow> nat \<Rightarrow> st_queue \<Rightarrow> (int \<times> cmpt_info \<times> st_queue) option" where
  "rcv_pkt env cmpl len q =
     (let pidx = cp_pidx cmpl; flq = sq_flq q; pg_shift = fq_desc_pg_shift flq; rngsz = sq_rngsz q;
          (fl_nr, l_len) = get_fl_nr len (sq_bufsz q) pg_shift (2 ^ pg_shift - 1);
          last = ring_idx_incr pidx (fl_nr - 1) rngsz; nxt = ring_idx_incr last 1 rngsz;
          cidx_next = ring_idx_incr (sq_cidx_cmpt q) 1 (sq_rngsz_cmpt q)
      in case fq_sdesc flq of
        None \<Rightarrow> None
      | Some sds \<Rightarrow>
          if last \<ge> length sds \<or> pidx \<ge> length sds \<or> length (fq_sdesc_info flq) \<noteq> length sds then None
          else let sds = sds[last := (sds ! last)\<lparr>fs_len := (if len = 0 then 0 else l_len)\<rparr>];
                   q = q\<lparr>sq_flq := flq\<lparr>fq_sdesc := Some sds\<rparr>\<rparr>; flq = sq_flq q
          in if sq_avail q < fl_nr then Some (- errno_code EBUSY, cmpl, q)
          else let q = q\<lparr>sq_avail := sq_avail q - fl_nr\<rparr>
          in case ce_packet env of
            Some fp \<Rightarrow>
              (let rv = fp len fl_nr (Some (sds ! pidx)) (if sq_udd_en q then Some (cp_entry cmpl) else None)
               in if rv < 0 then Some (rv, cmpl, q)
                  else Some (0, cmpl\<lparr>cp_pidx := nxt\<rparr>, q\<lparr>sq_flq := flq\<lparr>fq_pidx_pend := nxt\<rparr>\<rparr>))
          | None \<Rightarrow>
              (let infos = mark_infos cidx_next fl_nr pidx (fq_sdesc_info flq);
                   infos = infos[pidx := (infos ! pidx)\<lparr>si_sop := True\<rparr>];
                   infos = infos[last := (infos ! last)\<lparr>si_eop := True\<rparr>]
               in Some (0, cmpl\<lparr>cp_pidx := nxt\<rparr>, q\<lparr>sq_flq := flq\<lparr>fq_sdesc_info := infos,
                    fq_pkt_dlen := u32_wrap (fq_pkt_dlen flq + len),
                    fq_udd_cnt := (if sq_udd_en q then u32_wrap (fq_udd_cnt flq + 1) else fq_udd_cnt flq)\<rparr>\<rparr>)))"

definition rcv_udd_only :: "c2h_env \<Rightarrow> cmpt_info \<Rightarrow> st_queue \<Rightarrow> int \<times> st_queue" where
  "rcv_udd_only env cmpl q =
     (case ce_packet env of
        Some fp \<Rightarrow> (fp 0 0 None (Some (cp_entry cmpl)), q)
      | None \<Rightarrow> (0, q\<lparr>sq_flq := (sq_flq q)\<lparr>fq_udd_cnt := u32_wrap (fq_udd_cnt (sq_flq q) + 1)\<rparr>\<rparr>))"

section \<open>Adaptive moderation\<close>

abbreviation cnt_th :: "c2h_env \<Rightarrow> nat \<Rightarrow> u32" where "cnt_th env i \<equiv> ce_cnt_th env ! i"

definition descq_adjust_c2h_cntr_avgs :: "c2h_env \<Rightarrow> 'a c2h_adapt_scheme \<Rightarrow> 'a c2h_adapt_scheme" where
  "descq_adjust_c2h_cntr_avgs env q =
     (let avg = cnt_th env (unat (qc_counter_idx (sq_cidx_info q))); k = sq_sorted_idx q;
          hi = cnt_th env (ce_sorted env ! (if k = QDMA_GLOBAL_CSR_ARRAY_SZ - 1 then k else k + 1));
          lo = cnt_th env (ce_sorted env ! (if k > 0 then k - 1 else k))
      in q\<lparr>sq_moving_avg := avg,
           sq_thr_hi := drop_bit 1 (if sq_latency_optimize q then hi + hi else avg + hi),
           sq_thr_lo := drop_bit 1 (if sq_latency_optimize q then lo + lo else avg + lo)\<rparr>)"

text \<open>The counter values pass through unsigned chars.\<close>

definition cntr_val :: "c2h_env \<Rightarrow> nat \<Rightarrow> u32" where
  "cntr_val env k = ucast (ucast (cnt_th env (ce_sorted env ! k)) :: u8)"

definition move_cntr :: "c2h_env \<Rightarrow> nat \<Rightarrow> 'a c2h_adapt_scheme \<Rightarrow> 'a c2h_adapt_scheme" where
  "move_cntr env k q =
     descq_adjust_c2h_cntr_avgs env (q\<lparr>sq_sorted_idx := k,
       sq_cidx_info := (sq_cidx_info q)\<lparr>qc_counter_idx := of_nat (ce_sorted env ! k)\<rparr>\<rparr>)"

definition descq_incr_c2h_cntr_th :: "c2h_env \<Rightarrow> 'a c2h_adapt_scheme \<Rightarrow> 'a c2h_adapt_scheme" where
  "descq_incr_c2h_cntr_th env q =
     (if sq_sorted_idx q = QDMA_GLOBAL_CSR_ARRAY_SZ - 1 then q
      else let q = q\<lparr>sq_monitor_cnt := 0\<rparr>; k = sq_sorted_idx q; avg = sq_moving_avg q;
               cur = cntr_val env k; new = cntr_val env (k + 1)
      in if new \<ge> avg \<and> new - avg \<ge> avg - cur then q
         else if new < drop_bit 1 (of_nat (sq_rngsz q)) then move_cntr env (k + 1) q else q)"

definition descq_decr_c2h_cntr_th :: "c2h_env \<Rightarrow> u32 \<Rightarrow> 'a c2h_adapt_scheme \<Rightarrow> 'a c2h_adapt_scheme" where
  "descq_decr_c2h_cntr_th env budget q =
     (if sq_sorted_idx q = 0 then q
      else let q = q\<lparr>sq_monitor_cnt := 0\<rparr>; k = sq_sorted_idx q; avg = sq_moving_avg q;
               cur = cntr_val env k; new = cntr_val env (k - 1)
      in if new \<le> avg \<and> avg - new \<ge> cur - avg then q
         else if \<not> sq_latency_optimize q \<and> new < budget - 2 then q
         else move_cntr env (k - 1) q)"

abbreviation MAX_C2H_CNTR_STAGNANT_CNT :: u8 where "MAX_C2H_CNTR_STAGNANT_CNT \<equiv> 16"

definition descq_adjust_c2h_cntr_th :: "c2h_env \<Rightarrow> u32 \<Rightarrow> u32 \<Rightarrow> 'a c2h_adapt_scheme \<Rightarrow> 'a c2h_adapt_scheme" where
  "descq_adjust_c2h_cntr_th env pend budget q =
     (let q = q\<lparr>sq_moving_avg := drop_bit 1 (sq_moving_avg q + pend)\<rparr>
      in if sq_thr_hi q \<le> sq_moving_avg q then descq_incr_c2h_cntr_th env q
         else if sq_thr_lo q \<ge> sq_moving_avg q then descq_decr_c2h_cntr_th env budget q
         else let q = q\<lparr>sq_monitor_cnt := sq_monitor_cnt q + 1\<rparr>
           in if sq_monitor_cnt q = MAX_C2H_CNTR_STAGNANT_CNT
              then (descq_decr_c2h_cntr_th env budget q)\<lparr>sq_monitor_cnt := 0\<rparr> else q)"

section \<open>Processing completions\<close>

definition descq_cmpl_err_check :: "cmpt_info \<Rightarrow> st_queue \<Rightarrow> int \<times> st_queue" where
  "descq_cmpl_err_check cmpl q =
     (if cp_format cmpl \<or> \<not> cp_desc_used cmpl \<and> \<not> sq_udd_en q \<or> cp_err cmpl
      then (- errno_code EINVAL, q\<lparr>sq_err := True\<rparr>) else (0, q))"

text \<open>One entry: an error that ends the function, the end of the loop, or the next entry.\<close>

datatype cmpl_step = Fail int st_queue | Stop st_queue | Go nat st_queue

definition cmpl_one :: "c2h_env \<Rightarrow> nat \<Rightarrow> st_queue \<Rightarrow> cmpl_step option" where
  "cmpl_one env pidx q =
     (case (case ce_proc_entry env of
              Some fp \<Rightarrow> if sq_desc_bypass q
                then if sq_cur q \<ge> length (sq_cmpt q) then None else Some (fp (sq_cmpt q ! sq_cur q) cmpt_zeroed)
                else parse_cmpl_entry q cmpt_zeroed
            | None \<Rightarrow> parse_cmpl_entry q cmpt_zeroed) of
        None \<Rightarrow> None
      | Some (rv, cmpl) \<Rightarrow>
          if rv < 0 then Some (Fail rv q)
          else let (rv, q) = descq_cmpl_err_check cmpl q
          in if rv < 0 then Some (Fail rv q)
          else if \<not> is_new_cmpl_entry q cmpl then Some (Stop q)
          else let cmpl = cmpl\<lparr>cp_pidx := pidx\<rparr>
          in case (if cp_desc_used cmpl then rcv_pkt env cmpl (cp_len cmpl) q
                   else if sq_udd_en q then let (rv, q) = rcv_udd_only env cmpl q in Some (rv, cmpl, q)
                   else Some (rv, cmpl, q)) of
            None \<Rightarrow> None
          | Some (rv, cmpl, q) \<Rightarrow> Some (if rv < 0 then Stop q else Go (cp_pidx cmpl) (cmpt_next q)))"

fun cmpl_loop :: "c2h_env \<Rightarrow> nat \<Rightarrow> nat \<Rightarrow> nat \<Rightarrow> st_queue \<Rightarrow> (int option \<times> nat \<times> nat \<times> st_queue) option" where
  "cmpl_loop env 0 proc_cnt pidx q = Some (None, proc_cnt, pidx, q)"
| "cmpl_loop env (Suc n) proc_cnt pidx q =
     (case cmpl_one env pidx q of
        None \<Rightarrow> None
      | Some (Fail rv q) \<Rightarrow> Some (Some rv, proc_cnt, pidx, q)
      | Some (Stop q) \<Rightarrow> Some (None, proc_cnt, pidx, q)
      | Some (Go pidx q) \<Rightarrow> cmpl_loop env n (Suc proc_cnt) pidx q)"

definition moderate :: "c2h_env \<Rightarrow> nat \<Rightarrow> nat \<Rightarrow> st_queue \<Rightarrow> st_queue" where
  "moderate env read_weight proc_cnt q =
     (if ce_intr_moderation env \<and> qc_trig_mode (sq_cidx_info q) = 5
      then let (p, q) = cs_pidx q; pend = ring_idx_delta p (sq_cidx_cmpt q) (sq_rngsz_cmpt q);
               q = q\<lparr>sq_flq := (sq_flq q)\<lparr>fq_pkt_cnt := pend\<rparr>,
                 sq_cidx_info := (sq_cidx_info q)\<lparr>qc_irq_en := (if read_weight \<noteq> 0 \<and> pend > read_weight then 0 else 1)\<rparr>\<rparr>
           in if sq_adaptive_rx q then descq_adjust_c2h_cntr_th env (of_nat (pend + proc_cnt)) (of_nat read_weight) q else q
      else q)"

text \<open>Without new entries the result is -ENODATA, which is -61.\<close>

definition descq_process_completion_st_c2h ::
  "c2h_env \<Rightarrow> nat \<Rightarrow> bool \<Rightarrow> st_queue \<Rightarrow> kmem \<Rightarrow> (int \<times> st_queue \<times> kmem) option" where
  "descq_process_completion_st_c2h env budget upd_cmpl q km =
     (let (pidx_cmpt, q) = cs_pidx q; pidx_pend = fq_pidx_pend (sq_flq q);
          pend = ring_idx_delta pidx_cmpt (sq_cidx_cmpt q) (sq_rngsz_cmpt q)
      in if sq_err q then Some (- errno_code EINVAL, q, km)
      else if pend = 0
      then Some (- 61, if \<not> ce_poll env then queue_cmpt_cidx_update q else q, km)
      else let q = q\<lparr>sq_flq := (sq_flq q)\<lparr>fq_pkt_cnt := pend\<rparr>\<rparr>;
               budget' = (if budget = 0 \<or> budget > pend then pend else budget)
      in case cmpl_loop env budget' 0 (sq_pidx q) q of
        None \<Rightarrow> None
      | Some (Some rv, proc_cnt, pidx, q) \<Rightarrow> Some (rv, q, km)
      | Some (None, proc_cnt, pidx, q) \<Rightarrow>
          let q = q\<lparr>sq_flq := (sq_flq q)\<lparr>fq_pkt_cnt := u32_sub (fq_pkt_cnt (sq_flq q)) proc_cnt\<rparr>\<rparr>;
              q = moderate env budget proc_cnt q
          in if proc_cnt = 0 then Some (0, q, km)
          else let q = q\<lparr>sq_pidx_cmpt := pidx_cmpt, sq_pidx := pidx,
                 sq_cidx_info := (sq_cidx_info q)\<lparr>qc_wrb_cidx := of_nat (sq_cidx_cmpt q)\<rparr>\<rparr>
          in case (if ce_packet env = None then qdma_c2h_packets_proc_dflt env (queue_cmpt_cidx_update q) km
                   else Some (q, km)) of
            None \<Rightarrow> None
          | Some (q, km) \<Rightarrow>
              let (p, q) = cs_pidx q;
                  q = q\<lparr>sq_flq := (sq_flq q)\<lparr>fq_pkt_cnt := ring_idx_delta p (sq_cidx_cmpt q) (sq_rngsz_cmpt q)\<rparr>\<rparr>;
                  flq = sq_flq q
              in if fq_pidx_pend flq = pidx_pend then Some (0, q, km)
              else case qdma_flq_refill env pidx_pend (ring_idx_delta (fq_pidx_pend flq) pidx_pend (fq_size flq))
                  (ce_packet env = None) q km of
                None \<Rightarrow> None
              | Some (_, q, km) \<Rightarrow>
                  if upd_cmpl \<and> \<not> sq_stop_wait q
                  then let q = q\<lparr>sq_pidx_info := ring_idx_decr (fq_pidx_pend (sq_flq q)) 1 (fq_size (sq_flq q))\<rparr>
                    in Some (0, if ce_packet env = None then queue_pidx_update q else q, km)
                  else Some (0, q, km))"

text \<open>The branch of qdma_descq_service_cmpl_update for these queues.\<close>

definition service_cmpl_update :: "c2h_env \<Rightarrow> nat \<Rightarrow> bool \<Rightarrow> st_queue \<Rightarrow> kmem \<Rightarrow> (int \<times> st_queue \<times> kmem) option" where
  "service_cmpl_update env budget upd_cmpl q km =
     (if sq_online q then descq_process_completion_st_c2h env budget upd_cmpl q km
      else Some (- errno_code EINVAL, q, km))"

section \<open>Requests of the client\<close>

text \<open>The functions below work on the queue that the handle of the client names.\<close>

definition qdma_queue_c2h_peek :: "st_queue \<Rightarrow> int \<times> nat \<times> nat \<times> nat" where
  "qdma_queue_c2h_peek q = (0, fq_udd_cnt (sq_flq q), fq_pkt_cnt (sq_flq q), fq_pkt_dlen (sq_flq q))"

record qdma_cmpl_ctrl =
  cc_cnt_th_idx :: "4 word"
  cc_timer_idx :: "4 word"
  cc_trigger_mode :: "3 word"
  cc_en_stat_desc :: "1 word"
  cc_cmpl_en_intr :: "1 word"

text \<open>The same values go into the configuration of the queue, where this code does not read them.\<close>

definition set_cmpl_ctrl :: "qdma_cmpl_ctrl \<Rightarrow> st_queue \<Rightarrow> st_queue" where
  "set_cmpl_ctrl cctrl q =
     queue_cmpt_cidx_update (q\<lparr>sq_cidx_info := \<lparr>qc_wrb_cidx = of_nat (sq_cidx_cmpt q),
       qc_counter_idx = ucast (cc_cnt_th_idx cctrl), qc_timer_idx = ucast (cc_timer_idx cctrl),
       qc_trig_mode = ucast (cc_trigger_mode cctrl), qc_wrb_en = ucast (cc_en_stat_desc cctrl),
       qc_irq_en = ucast (cc_cmpl_en_intr cctrl)\<rparr>\<rparr>)"

definition qdma_queue_packet_read ::
  "c2h_env \<Rightarrow> st_req option \<Rightarrow> qdma_cmpl_ctrl option \<Rightarrow> st_queue \<Rightarrow> kmem \<Rightarrow> (int \<times> st_req option \<times> st_queue \<times> kmem) option" where
  "qdma_queue_packet_read env req cctrl q km =
     (case req of
        None \<Rightarrow> Some (- errno_code EINVAL, req, q, km)
      | Some r \<Rightarrow>
          if \<not> sq_st_c2h q then Some (- errno_code EINVAL, req, q, km)
          else let q = (case cctrl of None \<Rightarrow> q | Some c \<Rightarrow> set_cmpl_ctrl c q);
                   r = r\<lparr>sr_sg_idx := 0, sr_sg_offset := 0, sr_left := 0\<rparr>
          in case descq_st_c2h_read env True True r q km of
            None \<Rightarrow> None
          | Some (_, r, q, km) \<Rightarrow>
              Some (sint (of_nat (sr_count r) - of_nat (sr_left r) :: u32), Some r, q, km))"

text \<open>
  A request to read, up to the point where its thread would wait for the completion: then there
  is no result yet.
\<close>

definition qdma_request_submit_st_c2h ::
  "c2h_env \<Rightarrow> st_req \<Rightarrow> st_queue \<Rightarrow> kmem \<Rightarrow> (int option \<times> st_req \<times> st_queue \<times> kmem) option" where
  "qdma_request_submit_st_c2h env req q km =
     (let req = req\<lparr>sr_left := sr_count req\<rparr>
      in if sq_stop_wait q then Some (Some 0, req, q, km)
      else if sq_online q
      then (let pend = sq_pend_list q
        in case descq_st_c2h_read env True True req (q\<lparr>sq_pend_list := pend @ [req]\<rparr>) km of
          None \<Rightarrow> None
        | Some (_, req, q, km) \<Rightarrow>
            if sr_left req = 0 then Some (Some (int (sr_count req)), req, q\<lparr>sq_pend_list := pend\<rparr>, km)
            else Some (if sr_fp_done req then Some 0 else None, req,
              q\<lparr>sq_pend_list := pend @ [req], sq_pend_list_empty := False\<rparr>, km))
      else Some (Some (- errno_code EINVAL), req, q, km))"

end
