(* ===== verification/C2hFreeListProps.thy ===== *)
theory C2hFreeListProps
  imports C2hFreeList
begin

text \<open>
  The accounts of the free list: every page is referenced once by the list and once for each buffer
  cut from it, and giving the list back drops exactly these references and the mappings of the
  pages. Then the layout of the buffers after a successful allocation.
\<close>

section \<open>References and mappings\<close>

definition page_account :: "nat \<Rightarrow> qdma_sw_pg_sg list \<Rightarrow> nat \<Rightarrow> int" where
  "page_account shift pgs p =
     (\<Sum>pg\<leftarrow>pgs. if pg_base pg = Some p then int (drop_bit shift (pg_offset pg)) + 1 else 0)"

definition mapped :: "qdma_sw_pg_sg list \<Rightarrow> u64 set" where
  "mapped pgs = {pg_dma_base_addr pg | pg. pg \<in> set pgs \<and> pg_base pg \<noteq> None}"

text \<open>The list with its pages, where km0 is the kernel without it.\<close>

definition accounted :: "nat \<Rightarrow> qdma_sw_pg_sg list \<Rightarrow> kmem \<Rightarrow> kmem \<Rightarrow> bool" where
  "accounted shift pgs km0 km \<longleftrightarrow>
     (\<forall>p. km_refs km p = km_refs km0 p + page_account shift pgs p) \<and>
     km_maps km = km_maps km0 \<union> mapped pgs \<and> km_maps km0 \<inter> mapped pgs = {} \<and>
     0 \<notin> mapped pgs \<and> distinct (map pg_dma_base_addr (filter (\<lambda>pg. pg_base pg \<noteq> None) pgs))"

definition kernel_same :: "kmem \<Rightarrow> kmem \<Rightarrow> bool" where
  "kernel_same km0 km \<longleftrightarrow> km_refs km = km_refs km0 \<and> km_maps km = km_maps km0"

lemma page_account_simps [simp]:
  "page_account shift [] p = 0"
  "page_account shift (pg # pgs) p =
     (if pg_base pg = Some p then int (drop_bit shift (pg_offset pg)) + 1 else 0) + page_account shift pgs p"
  by (simp_all add: page_account_def)

lemma mapped_simps [simp]:
  "mapped [] = {}"
  "mapped (pg # pgs) = (if pg_base pg = None then {} else {pg_dma_base_addr pg}) \<union> mapped pgs"
  by (auto simp: mapped_def)

lemma mapped_filter: "mapped pgs = set (map pg_dma_base_addr (filter (\<lambda>pg. pg_base pg \<noteq> None) pgs))"
  by (auto simp: mapped_def)

lemma free_pages_accounts:
  assumes "accounted shift pgs km0 km"
  shows "kernel_same km0 (free_pages shift pgs km)"
  using assms
proof (induction pgs arbitrary: km)
  case Nil then show ?case by (auto simp: accounted_def kernel_same_def)
next
  case (Cons pg pgs)
  show ?case
  proof (cases "pg_base pg")
    case None
    then show ?thesis using Cons by (simp add: flq_free_page_one_def accounted_def)
  next
    case (Some p)
    have "accounted shift pgs km0 (snd (flq_free_page_one shift pg km))"
      using Cons.prems Some
      by (auto simp: accounted_def flq_free_page_one_def flq_unmap_page_one_def put_pages_def Let_def mapped_filter)
    then show ?thesis using Cons.IH by simp
  qed
qed

text \<open>Pages that an allocation can give are new.\<close>

fun offered :: "(nat \<times> u64 option) option list \<Rightarrow> (nat \<times> u64) list" where
  "offered (Some (p, Some a) # r) = (p, a) # offered r"
| "offered (_ # r) = offered r"
| "offered [] = []"

definition fresh_pages :: "kmem \<Rightarrow> bool" where
  "fresh_pages km \<longleftrightarrow>
     distinct (map fst (offered (km_pages km))) \<and> distinct (map snd (offered (km_pages km))) \<and>
     (\<forall>(p, a)\<in>set (offered (km_pages km)). km_refs km p = 0 \<and> a \<noteq> 0 \<and> a \<notin> km_maps km)"

lemma accounted_zeroed: "kernel_same km km' \<Longrightarrow> accounted shift (replicate n pg_zeroed) km km'"
proof -
  have "page_account shift (replicate n pg_zeroed) p = 0" for p by (induction n) simp_all
  moreover have "mapped (replicate n pg_zeroed) = {}" by (auto simp: mapped_def)
  moreover have "filter (\<lambda>pg. pg_base pg \<noteq> None) (replicate n pg_zeroed) = []" by (simp add: filter_empty_conv)
  ultimately show "kernel_same km km' \<Longrightarrow> ?thesis" by (simp add: accounted_def kernel_same_def)
qed

lemma flq_fill_page_one_cases:
  assumes "fresh_pages km" and "flq_fill_page_one pg km = (rv, pg', km')"
  obtains "rv < 0" "pg' = pg" "kernel_same km km'" "km_al km' = km_al km"
  | p a where "rv = 0" "pg' = \<lparr>pg_base = Some p, pg_dma_base_addr = a, pg_offset = 0\<rparr>" "km_refs km p = 0" "a \<noteq> 0"
      "a \<notin> km_maps km" "km_refs km' = (km_refs km)(p := 1)" "km_maps km' = insert a (km_maps km)" "fresh_pages km'"
      "km_al km' = km_al km"
proof (cases "km_pages km")
  case Nil then show ?thesis using assms that(1) by (auto simp: flq_fill_page_one_def kernel_same_def)
next
  case (Cons o1 r)
  show ?thesis
  proof (cases o1)
    case None then show ?thesis using Cons assms that(1) by (auto simp: flq_fill_page_one_def kernel_same_def)
  next
    case (Some pa)
    obtain p m where pa: "pa = (p, m)" by force
    show ?thesis
    proof (cases m)
      case None then show ?thesis using Cons Some pa assms that(1)
        by (auto simp: flq_fill_page_one_def kernel_same_def)
    next
      case (Some a)
      have "(q, b) \<in> set (offered r) \<Longrightarrow> q \<noteq> p \<and> b \<noteq> a" for q b
        using assms(1) Cons \<open>o1 = Some pa\<close> pa Some by (force simp: fresh_pages_def)
      then have "fresh_pages km'"
        using assms Cons \<open>o1 = Some pa\<close> pa Some
        by (auto simp: flq_fill_page_one_def fresh_pages_def)
      then show ?thesis
        using assms Cons \<open>o1 = Some pa\<close> pa Some that(2) [of p a]
        by (auto simp: flq_fill_page_one_def fresh_pages_def)
    qed
  qed
qed

lemma accounted_new_page:
  assumes acc: "accounted shift pgs km1 km'" and p: "km_refs km p = 0" "a \<noteq> 0" "a \<notin> km_maps km"
    and km1: "km_refs km1 = (km_refs km)(p := 1)" "km_maps km1 = insert a (km_maps km)"
  shows "accounted shift (\<lparr>pg_base = Some p, pg_dma_base_addr = a, pg_offset = 0\<rparr> # pgs) km km'"
  using assms by (auto simp: accounted_def mapped_filter)

lemma fill_pages_accounts:
  assumes "fresh_pages km" and "fill_pages (replicate n pg_zeroed) km = (rv, pgs, km')"
  shows "accounted shift pgs km km' \<and> length pgs = n \<and> rv \<le> 0 \<and> km_al km' = km_al km \<and>
    (rv = 0 \<longrightarrow> (\<forall>pg\<in>set pgs. pg_base pg \<noteq> None \<and> pg_offset pg = 0))"
  using assms
proof (induction n arbitrary: km rv pgs km')
  case 0 then show ?case using accounted_zeroed [of km km shift 0] by (simp add: kernel_same_def)
next
  case (Suc n)
  obtain rv1 pg1 km1 where f: "flq_fill_page_one pg_zeroed km = (rv1, pg1, km1)" by (metis prod_cases3)
  from Suc.prems(1) f show ?case
  proof (cases rule: flq_fill_page_one_cases)
    case 1
    then show ?thesis
      using Suc.prems(2) f accounted_zeroed [of km km1 shift "Suc n"] by auto
  next
    case (2 p a)
    obtain rv2 pgs2 km2 where r: "fill_pages (replicate n pg_zeroed) km1 = (rv2, pgs2, km2)" by (metis prod_cases3)
    from Suc.IH [OF 2(8) r] accounted_new_page [OF _ 2(3-7), of shift pgs2 km2]
    show ?thesis using Suc.prems(2) f r 2 by auto
  qed
qed

text \<open>Cutting a buffer from a page keeps the accounts.\<close>

lemma page_account_update:
  "i < length pgs \<Longrightarrow> pg_base (pgs ! i) = Some p \<Longrightarrow> pg_base pg = Some p \<Longrightarrow>
   drop_bit shift (pg_offset pg) = drop_bit shift (pg_offset (pgs ! i)) + 1 \<Longrightarrow>
   page_account shift (pgs[i := pg]) q = page_account shift pgs q + (if q = p then 1 else 0)"
  by (induction pgs arbitrary: i) (auto split: nat.splits)

lemma mapped_update:
  "i < length pgs \<Longrightarrow> pg_base (pgs ! i) \<noteq> None \<Longrightarrow> pg_base pg \<noteq> None \<Longrightarrow>
   pg_dma_base_addr pg = pg_dma_base_addr (pgs ! i) \<Longrightarrow>
   map pg_dma_base_addr (filter (\<lambda>pg. pg_base pg \<noteq> None) (pgs[i := pg])) =
   map pg_dma_base_addr (filter (\<lambda>pg. pg_base pg \<noteq> None) pgs)"
  by (induction pgs arbitrary: i) (auto split: nat.splits)

lemma accounted_cut:
  assumes "accounted shift pgs km0 km" "i < length pgs" "pg_base (pgs ! i) = Some p"
    and "drop_bit shift off = drop_bit shift (pg_offset (pgs ! i)) + 1"
  shows "accounted shift (pgs[i := (pgs ! i)\<lparr>pg_offset := off\<rparr>]) km0 (page_ref_inc p km)"
  using assms mapped_update [of i pgs "(pgs ! i)\<lparr>pg_offset := off\<rparr>"]
  by (auto simp: accounted_def page_ref_inc_def page_account_update mapped_filter)

section \<open>The list and its pages\<close>

definition pages_ok :: "kmem \<Rightarrow> qdma_flq \<Rightarrow> kmem \<Rightarrow> bool" where
  "pages_ok km0 flq km \<longleftrightarrow>
     fq_desc_buf_size flq = 2 ^ fq_desc_pg_shift flq \<and> fq_max_pg_offset flq + fq_desc_buf_size flq < 2 ^ 32 \<and>
     (\<exists>pgs. fq_pg_sdesc flq = Some pgs \<and> length pgs = fq_num_pages flq \<and>
        (\<forall>pg\<in>set pgs. pg_offset pg \<le> fq_max_pg_offset flq) \<and> accounted (fq_desc_pg_shift flq) pgs km0 km)"

lemma u32_wrap_small: "n < 2 ^ 32 \<Longrightarrow> u32_wrap n = n"
  by (simp add: u32_wrap_def)

lemma flq_fill_one_cases:
  assumes ok: "pages_ok km0 flq km" and f: "flq_fill_one n flq km = (rv, r, flq', km')"
  obtains "rv < 0" "r = None" "flq' = flq" "km' = km"
  | pgs p where "rv = 0" "fq_pg_sdesc flq = Some pgs" "fq_alloc_idx flq AND fq_num_pgs_mask flq < length pgs"
      "pg_base (pgs ! (fq_alloc_idx flq AND fq_num_pgs_mask flq)) = Some p"
      "pg_offset (pgs ! (fq_alloc_idx flq AND fq_num_pgs_mask flq)) + fq_desc_buf_size flq \<le> fq_max_pg_offset flq"
      "r = Some (let pg = pgs ! (fq_alloc_idx flq AND fq_num_pgs_mask flq); addr = pg_dma_base_addr pg + of_nat (pg_offset pg)
         in (\<lparr>fs_pg = Some p, fs_offset = pg_offset pg, fs_len = n, fs_dma_addr = addr\<rparr>, addr))"
      "flq' = (let i = fq_alloc_idx flq AND fq_num_pgs_mask flq; off = pg_offset (pgs ! i) + fq_desc_buf_size flq
         in flq\<lparr>fq_pg_sdesc := Some (pgs[i := (pgs ! i)\<lparr>pg_offset := off\<rparr>]),
              fq_alloc_idx := (if off + fq_desc_buf_size flq > fq_max_pg_offset flq then u32_wrap (fq_alloc_idx flq + 1)
                else fq_alloc_idx flq)\<rparr>)"
      "km' = page_ref_inc p km"
proof -
  obtain pgs where pgs: "fq_pg_sdesc flq = Some pgs" "length pgs = fq_num_pages flq"
      "\<forall>pg\<in>set pgs. pg_offset pg \<le> fq_max_pg_offset flq"
    and w: "fq_max_pg_offset flq + fq_desc_buf_size flq < 2 ^ 32"
    using ok by (auto simp: pages_ok_def)
  let ?i = "fq_alloc_idx flq AND fq_num_pgs_mask flq"
  show ?thesis
  proof (cases "rv < 0")
    case True
    then show ?thesis using f that(1)
      by (auto simp: flq_fill_one_def Let_def split: if_splits option.splits)
  next
    case False
    have i: "?i < length pgs" using f False pgs(2)
      by (auto simp: flq_fill_one_def Let_def pgs(1) split: if_splits option.splits)
    then have "pg_offset (pgs ! ?i) \<le> fq_max_pg_offset flq" using pgs(3) by simp
    then have wr: "u32_wrap (pg_offset (pgs ! ?i) + fq_desc_buf_size flq) = pg_offset (pgs ! ?i) + fq_desc_buf_size flq"
      using w by (intro u32_wrap_small) simp
    have le: "pg_offset (pgs ! ?i) + fq_desc_buf_size flq \<le> fq_max_pg_offset flq"
      using f False i pgs(2) by (auto simp: flq_fill_one_def Let_def pgs(1) wr split: if_splits option.splits)
    then have "u32_wrap (pg_offset (pgs ! ?i) + fq_desc_buf_size flq + fq_desc_buf_size flq) =
        pg_offset (pgs ! ?i) + fq_desc_buf_size flq + fq_desc_buf_size flq"
      using w by (intro u32_wrap_small) simp
    then show ?thesis
      using f False i pgs(1,2) that(2) wr le
      by (auto simp: flq_fill_one_def Let_def split: if_splits option.splits)
  qed
qed

lemma flq_fill_one_ok:
  assumes ok: "pages_ok km0 flq km" and f: "flq_fill_one n flq km = (rv, r, flq', km')"
  shows "pages_ok km0 flq' km' \<and> rv \<le> 0 \<and> (r = None \<longleftrightarrow> rv < 0) \<and> fq_size flq' = fq_size flq"
  using ok f
proof (cases rule: flq_fill_one_cases)
  case 1 then show ?thesis using ok by simp
next
  case (2 pgs p)
  let ?i = "fq_alloc_idx flq AND fq_num_pgs_mask flq"
  have b: "fq_desc_buf_size flq = 2 ^ fq_desc_pg_shift flq" using ok by (simp add: pages_ok_def)
  have "drop_bit (fq_desc_pg_shift flq) (pg_offset (pgs ! ?i) + fq_desc_buf_size flq) =
      drop_bit (fq_desc_pg_shift flq) (pg_offset (pgs ! ?i)) + 1"
    by (simp add: b drop_bit_eq_div div_add_self2)
  then have "accounted (fq_desc_pg_shift flq)
      (pgs[?i := (pgs ! ?i)\<lparr>pg_offset := pg_offset (pgs ! ?i) + fq_desc_buf_size flq\<rparr>]) km0 (page_ref_inc p km)"
    using ok 2(2-4) by (intro accounted_cut) (auto simp: pages_ok_def)
  moreover have "\<forall>pg\<in>set (pgs[?i := (pgs ! ?i)\<lparr>pg_offset := pg_offset (pgs ! ?i) + fq_desc_buf_size flq\<rparr>]).
      pg_offset pg \<le> fq_max_pg_offset flq"
    using ok 2(2,5) by (auto simp: pages_ok_def dest!: set_update_subset_insert [THEN subsetD])
  ultimately show ?thesis
    using ok 2 by (auto simp: pages_ok_def Let_def)
qed

lemma fill_bufs_ok:
  assumes "pages_ok km0 flq km" and "fill_bufs c i n sds ring flq km = (rv, sds', ring', flq', km')"
  shows "pages_ok km0 flq' km' \<and> rv \<le> 0 \<and> fq_size flq' = fq_size flq"
  using assms
proof (induction n arbitrary: i sds ring flq km)
  case 0 then show ?case by simp
next
  case (Suc n)
  obtain rv1 r flq1 km1 where f: "flq_fill_one c flq km = (rv1, r, flq1, km1)" by (metis prod_cases4)
  note ok = flq_fill_one_ok [OF Suc.prems(1) f]
  show ?case
    using Suc.prems(2) Suc.IH [of flq1 km1] ok f by (auto split: option.splits)
qed

lemma free_page_resource_ok:
  assumes "pages_ok km0 flq km"
  shows "\<exists>km'. descq_flq_free_page_resource flq km = Some (flq_zeroed, km') \<and> kernel_same km0 km'"
  using assms free_pages_accounts by (auto simp: pages_ok_def descq_flq_free_page_resource_def)

lemma free_resource_ok: "pages_ok km0 flq km \<Longrightarrow> pages_ok km0 (fst (descq_flq_free_resource flq ring)) km"
  by (auto simp: pages_ok_def descq_flq_free_resource_def split: option.split)

section \<open>Sizes\<close>

lemma fls_bounds: "0 < n \<Longrightarrow> 2 ^ (fls n - 1) \<le> n \<and> n < 2 ^ fls n \<and> 0 < fls n"
proof (induction n rule: less_induct)
  case (less n)
  show ?case
  proof (cases "n = 1")
    have "fls 1 = 1" by (subst fls.simps) (simp add: fls.simps [of 0])
    moreover case True
    ultimately show ?thesis by simp
  next
    case False
    then have d: "0 < n div 2" "n div 2 < n" using less.prems by auto
    have f: "fls n = Suc (fls (n div 2))" using less.prems by (simp add: fls.simps [of n])
    obtain k where k: "fls (n div 2) = Suc k" using less.IH [OF d(2,1)] by (cases "fls (n div 2)") auto
    have "2 ^ k \<le> n div 2" "n div 2 < 2 * 2 ^ k" using less.IH [OF d(2,1)] k by auto
    then show ?thesis unfolding f k by simp linarith
  qed
qed

lemma fls_unique: "2 ^ k \<le> n \<Longrightarrow> n < 2 ^ Suc k \<Longrightarrow> fls n = Suc k"
proof -
  assume n: "2 ^ k \<le> n" "n < 2 ^ Suc k"
  then have "0 < n" by (metis less_le_trans zero_less_numeral zero_less_power)
  from fls_bounds [OF this] obtain j where j: "fls n = Suc j" "2 ^ j \<le> n" "n < 2 ^ Suc j"
    by (cases "fls n") auto
  have "(2::nat) ^ j < 2 ^ Suc k" "(2::nat) ^ k < 2 ^ Suc j" using n j by linarith+
  then show "fls n = Suc k" using j(1) by (simp only: power_strict_increasing_iff [of "2::nat"])
qed

lemma fls_power: "fls (2 ^ k) = Suc k"
  by (rule fls_unique) simp_all

lemma get_next_powof2_spec:
  assumes "0 < v" "v \<le> 2 ^ 30"
  shows "\<exists>k. get_next_powof2 v = Some (2 ^ k) \<and> v \<le> 2 ^ k \<and> 2 ^ k < 2 * v"
proof -
  obtain k where k: "fls v = Suc k" "2 ^ k \<le> v" "v < 2 ^ Suc k"
    using fls_bounds [OF assms(1)] by (cases "fls v") auto
  have "v + (2 ^ k - 1) < 2 ^ 32" using k(2) assms(2) by simp
  then have g: "get_next_powof2 v = Some ((v + (2 ^ k - 1)) div 2 ^ k * 2 ^ k)"
    using assms(1) by (simp add: get_next_powof2_def k(1) u32_wrap_small push_bit_eq_mult drop_bit_eq_div)
  show ?thesis
  proof (cases "v = 2 ^ k")
    case True
    have "(v + (2 ^ k - 1)) div 2 ^ k = 1" unfolding True by (simp add: div_nat_eqI)
    then show ?thesis using g True assms(1) by (intro exI [of _ k]) simp
  next
    case False
    then have "(v + (2 ^ k - 1)) div 2 ^ k = 2" using k by (intro div_nat_eqI) auto
    then show ?thesis using g k False by (intro exI [of _ "Suc k"]) simp
  qed
qed

text \<open>What flq_sizes gives for a buffer size that is not zero and not too large.\<close>

lemma flq_sizes_spec:
  assumes "0 < c" "c \<le> 2 ^ 16" and f: "flq_sizes rngsz c flq0 = Some flq"
  shows "\<exists>s. fq_desc_pg_shift flq = s \<and> fq_desc_buf_size flq = 2 ^ s \<and> c \<le> 2 ^ s \<and> s \<le> 16 \<and>
    fq_max_pg_offset flq = 2 ^ max s 12 \<and> fq_size flq = rngsz"
proof -
  obtain k where k: "get_next_powof2 c = Some (2 ^ k)" "c \<le> 2 ^ k" "2 ^ k < 2 * c"
    using get_next_powof2_spec [of c] assms(1,2) by auto
  have "(2::nat) ^ k < 2 ^ 17" using k(3) assms(2) by simp
  then have "k < 17" by (simp only: power_strict_increasing_iff [of "2::nat"])
  moreover have "push_bit (k - 12) (4096::nat) = 2 ^ k" if "12 \<le> k"
  proof -
    have "(2::nat) ^ (k - 12) * 2 ^ 12 = 2 ^ k" unfolding power_add [symmetric] using that by simp
    then show ?thesis by (simp add: push_bit_eq_mult)
  qed
  ultimately show ?thesis
    using f k(1,2) by (auto simp: flq_sizes_def fls_power Let_def max_def)
qed

section \<open>Allocation\<close>

text \<open>The number of pages that an allocation asks for.\<close>

lemma alloc_pages_number:
  assumes "0 < (sz :: nat)" "sz \<le> 2 ^ 16" "0 < B"
  shows "\<exists>k. get_next_powof2 (sz div B + (if sz mod B = 0 then 0 else 1)) = Some (2 ^ k) \<and> sz \<le> 2 ^ k * B \<and> k \<le> 16"
proof -
  let ?n = "sz div B + (if sz mod B = 0 then 0 else 1)"
  have dm: "sz = sz div B * B + sz mod B" by simp
  have "0 < ?n" using assms(1) dm by (cases "sz mod B = 0") auto
  moreover have n: "?n \<le> sz"
  proof (cases "B = 1")
    case False
    then have "sz div B < sz" using assms(1,3) by (intro div_less_dividend) auto
    then show ?thesis by simp
  qed simp
  ultimately obtain k where k: "get_next_powof2 ?n = Some (2 ^ k)" "?n \<le> 2 ^ k" "2 ^ k < 2 * ?n"
    using get_next_powof2_spec [of ?n] assms(2) by auto
  have "(2::nat) ^ k < 2 ^ 17" using k(3) n assms(2) by simp
  then have "k < 17" by (simp only: power_strict_increasing_iff [of "2::nat"])
  moreover have "sz \<le> ?n * B"
  proof (cases "sz mod B = 0")
    case False
    have "sz \<le> sz div B * B + B" using dm mod_less_divisor [OF assms(3), of sz] by linarith
    then show ?thesis using False by (simp add: add_mult_distrib)
  qed (use dm in simp)
  then have "sz \<le> 2 ^ k * B" using k(2) by (meson mult_le_mono1 order_trans)
  ultimately show ?thesis using k(1) by auto
qed

lemma kzalloc_same: "kzalloc km = (ok, km') \<Longrightarrow> kernel_same km km' \<and> km_pages km' = km_pages km"
  by (auto simp: kzalloc_def kernel_same_def split: list.splits)

lemma accounted_same: "kernel_same km0 km1 \<Longrightarrow> accounted s pgs km1 km \<Longrightarrow> accounted s pgs km0 km"
  by (simp add: accounted_def kernel_same_def)

lemma accounted_same_right: "kernel_same km km' \<Longrightarrow> accounted s pgs km0 km \<Longrightarrow> accounted s pgs km0 km'"
  by (simp add: accounted_def kernel_same_def)

lemma pages_ok_same: "kernel_same km km' \<Longrightarrow> pages_ok km0 flq km \<Longrightarrow> pages_ok km0 flq km'"
  by (auto simp: pages_ok_def dest: accounted_same_right)

lemma fresh_same: "kernel_same km km' \<Longrightarrow> km_pages km' = km_pages km \<Longrightarrow> fresh_pages km \<Longrightarrow> fresh_pages km'"
  by (simp add: fresh_pages_def kernel_same_def)

lemma filled_pages_ok:
  assumes "fresh_pages km" "kernel_same km0 km" "fill_pages (replicate n pg_zeroed) km = (rv, pgs, km')"
    and "fq_desc_buf_size flq = 2 ^ fq_desc_pg_shift flq" "fq_max_pg_offset flq + fq_desc_buf_size flq < 2 ^ 32"
    and "fq_num_pages flq = n"
  shows "pages_ok km0 (flq\<lparr>fq_pg_sdesc := Some pgs\<rparr>) km' \<and> rv \<le> 0"
proof -
  have zero: "\<forall>pg\<in>set pgs. pg_offset pg = 0"
    using assms(3)
  proof (induction n arbitrary: km rv pgs km')
    case (Suc n)
    then show ?case by (force simp: flq_fill_page_one_def split: prod.splits list.splits option.splits if_splits)
  qed simp
  show ?thesis
    using fill_pages_accounts [OF assms(1,3), of "fq_desc_pg_shift flq"] assms(2,4-) zero
    by (auto simp: pages_ok_def intro: accounted_same)
qed

lemma pages_for_spec:
  assumes "0 < sz" "sz \<le> 2 ^ 16" "0 < B"
  shows "\<exists>m. pages_for sz B = Some (2 ^ m) \<and> sz \<le> 2 ^ m * B \<and> m < 32"
proof -
  obtain k where k: "get_next_powof2 (sz div B + (if sz mod B = 0 then 0 else 1)) = Some (2 ^ k)"
      "sz \<le> 2 ^ k * B" "k \<le> 16"
    using alloc_pages_number [OF assms] by blast
  have "(2::nat) ^ k \<le> 2 ^ 16" using k(3) by (intro power_increasing) simp_all
  then have w: "u32_wrap (push_bit 1 (2 ^ k)) = 2 ^ Suc k" by (simp add: push_bit_eq_mult u32_wrap_small)
  show ?thesis
    using k w by (intro exI [of _ "if 2 ^ k < sz then Suc k else k"]) (auto simp: pages_for_def)
qed

text \<open>A list whose sizes are set, B buffers in each of its 2 ^ m pages.\<close>

definition sized :: "nat \<Rightarrow> nat \<Rightarrow> nat \<Rightarrow> nat \<Rightarrow> qdma_flq \<Rightarrow> bool" where
  "sized c rngsz m B flq \<longleftrightarrow>
     fq_desc_buf_size flq = 2 ^ fq_desc_pg_shift flq \<and> fq_max_pg_offset flq = B * fq_desc_buf_size flq \<and>
     drop_bit (fq_desc_pg_shift flq) (fq_max_pg_offset flq) = B \<and> 0 < B \<and> fq_size flq = rngsz \<and>
     c \<le> fq_desc_buf_size flq \<and> fq_max_pg_offset flq + fq_desc_buf_size flq < 2 ^ 32 \<and>
     pages_for rngsz B = Some (2 ^ m) \<and> rngsz \<le> 2 ^ m * B"

lemma flq_sizes_sized:
  assumes "0 < c" "c \<le> 2 ^ 16" "0 < rngsz" "rngsz \<le> 2 ^ 16" and f: "flq_sizes rngsz c flq0 = Some flq"
  shows "\<exists>m B. sized c rngsz m B flq"
proof -
  obtain s where s: "fq_desc_pg_shift flq = s" "fq_desc_buf_size flq = 2 ^ s" "c \<le> 2 ^ s" "s \<le> 16"
      "fq_max_pg_offset flq = 2 ^ max s 12" "fq_size flq = rngsz"
    using flq_sizes_spec [OF assms(1,2) f] by blast
  define B :: nat where "B = 2 ^ (max s 12 - s)"
  have B: "fq_max_pg_offset flq = B * 2 ^ s" unfolding s(5) B_def by (simp flip: power_add)
  have drop: "drop_bit s (fq_max_pg_offset flq) = B" unfolding B by (simp add: drop_bit_eq_div)
  have pos: "0 < B" by (simp add: B_def)
  have "(2::nat) ^ max s 12 \<le> 2 ^ 16" using s(4) by (intro power_increasing) simp_all
  moreover have "(2::nat) ^ s \<le> 2 ^ 16" using s(4) by (intro power_increasing) simp_all
  ultimately have "fq_max_pg_offset flq + fq_desc_buf_size flq < 2 ^ 32" unfolding s by simp
  then show ?thesis
    using pages_for_spec [OF assms(3,4) pos] s B drop pos by (auto simp: sized_def)
qed

lemma flq_alloc_accounts:
  assumes sz: "sized c rngsz m B flq" and fresh: "fresh_pages km"
  shows "\<exists>rv flq' ring' km'. descq_flq_alloc_resource c flq ring km = Some (rv, flq', ring', km') \<and> rv \<le> 0 \<and>
    (rv < 0 \<longrightarrow> kernel_same km km') \<and> (rv = 0 \<longrightarrow> pages_ok km flq' km')"
proof -
  note shape = sz [unfolded sized_def]
  have parts: "drop_bit (fq_desc_pg_shift flq) (fq_max_pg_offset flq) = B" "0 < B" "fq_size flq = rngsz"
      "pages_for rngsz B = Some (2 ^ m)"
    using shape by blast+
  have nz: "(B = 0) = False" using parts(2) by simp
  define flq1 where "flq1 = flq\<lparr>fq_num_bufs_per_pg := B, fq_num_pages := 2 ^ m, fq_num_pgs_mask := 2 ^ m - 1\<rparr>"
  have flq1: "fq_num_pages flq1 = 2 ^ m" "fq_desc_buf_size flq1 = 2 ^ fq_desc_pg_shift flq1"
      "fq_max_pg_offset flq1 + fq_desc_buf_size flq1 < 2 ^ 32"
  proof -
    have "fq_max_pg_offset flq1 + fq_desc_buf_size flq1 = fq_max_pg_offset flq + fq_desc_buf_size flq"
      by (simp add: flq1_def)
    then show "fq_max_pg_offset flq1 + fq_desc_buf_size flq1 < 2 ^ 32" using shape by metis
  qed (use shape in \<open>simp_all add: flq1_def\<close>)
  obtain ok1 km1 where k1: "kzalloc km = (ok1, km1)" by force
  note same1 = kzalloc_same [OF k1]
  obtain rv2 pgs km2 where p: "fill_pages (replicate (2 ^ m) pg_zeroed) km1 = (rv2, pgs, km2)" by (metis prod_cases3)
  have ok2: "pages_ok km (flq1\<lparr>fq_pg_sdesc := Some pgs\<rparr>) km2 \<and> rv2 \<le> 0"
    using same1 fresh by (intro filled_pages_ok [OF _ _ p flq1(2,3,1)]) (auto intro: fresh_same)
  obtain ok3 km3 where k3: "kzalloc km2 = (ok3, km3)" by force
  have ok3: "pages_ok km (flq1\<lparr>fq_pg_sdesc := Some pgs\<rparr>) km3"
    using ok2 kzalloc_same [OF k3] by (blast intro: pages_ok_same)
  have ok3': "pages_ok km (flq1\<lparr>fq_pg_sdesc := Some pgs, fq_alloc_idx := 0\<rparr>) km3"
    using ok3 by (simp add: pages_ok_def)
  obtain rv4 sds ring4 flq4 km4 where b: "fill_bufs c 0 rngsz (replicate rngsz sg_zeroed) ring
      (flq1\<lparr>fq_pg_sdesc := Some pgs, fq_alloc_idx := 0\<rparr>) km3 = (rv4, sds, ring4, flq4, km4)" by (metis prod_cases5)
  note ok4 = fill_bufs_ok [OF ok3' b]
  define flq5 where "flq5 = flq4\<lparr>fq_sdesc := Some sds, fq_sdesc_info := replicate rngsz info_zeroed\<rparr>"
  have ok5: "pages_ok km flq5 km4" using ok4 by (simp add: pages_ok_def flq5_def)
  have alloc: "descq_flq_alloc_resource c flq ring km =
      (if \<not> ok1 then Some (- errno_code ENOMEM, flq1, ring, km1)
       else if rv2 < 0 then (case descq_flq_free_page_resource (flq1\<lparr>fq_pg_sdesc := Some pgs\<rparr>) km2 of
              None \<Rightarrow> None | Some (flq, km) \<Rightarrow> Some (rv2, flq, ring, km))
       else if \<not> ok3 then (case descq_flq_free_page_resource (flq1\<lparr>fq_pg_sdesc := Some pgs\<rparr>) km3 of
              None \<Rightarrow> None | Some (flq, km) \<Rightarrow> Some (- errno_code ENOMEM, flq, ring, km))
       else if rv4 < 0 then (case descq_flq_free_page_resource (fst (descq_flq_free_resource flq5 ring4)) km4 of
              None \<Rightarrow> None | Some (flq, km) \<Rightarrow> Some (rv4, flq, snd (descq_flq_free_resource flq5 ring4), km))
       else Some (0, flq5, ring4, km4))"
    by (simp add: descq_flq_alloc_resource_def Let_def parts nz k1 p k3 b [unfolded flq1_def, simplified] flq1_def flq5_def
        split: option.split prod.split)
  show ?thesis
    unfolding alloc
    using same1 ok2 ok3 ok4 ok5 free_page_resource_ok [of km "flq1\<lparr>fq_pg_sdesc := Some pgs\<rparr>" km2]
      free_page_resource_ok [OF ok3] free_page_resource_ok [OF free_resource_ok [OF ok5, of ring4]]
    by auto
qed

text \<open>C34. The free list of a streaming receive queue returns every page it takes: whatever the
  kernel answers to the allocations of descq_flq_alloc_resource, the call comes to an end with
  a result that is not positive; if it fails, the reference counts of all pages and the DMA
  mappings are those from before the call; if it succeeds, freeing the buffers and the pages
  brings them back. The sizes are those qdma_descq_alloc_resource computes from a buffer size and
  ring size up to 65536, and a page the kernel gives is one nobody holds.\<close>

theorem free_list_returns_pages:
  assumes "0 < c" "c \<le> 2 ^ 16" "0 < rngsz" "rngsz \<le> 2 ^ 16" and sizes: "flq_sizes rngsz c flq0 = Some flq"
    and fresh: "fresh_pages km"
  shows "\<exists>rv flq1 ring1 km1. descq_flq_alloc_resource c flq ring km = Some (rv, flq1, ring1, km1) \<and> rv \<le> 0 \<and>
    (if rv < 0 then kernel_same km km1
     else \<exists>km2. descq_flq_free_page_resource (fst (descq_flq_free_resource flq1 ring1)) km1 = Some (flq_zeroed, km2) \<and>
       kernel_same km km2)"
proof -
  obtain m B where "sized c rngsz m B flq" using flq_sizes_sized [OF assms(1-5)] by blast
  from flq_alloc_accounts [OF this fresh, of ring] obtain rv flq1 ring1 km1 where
    a: "descq_flq_alloc_resource c flq ring km = Some (rv, flq1, ring1, km1)" "rv \<le> 0"
      "rv < 0 \<longrightarrow> kernel_same km km1" "rv = 0 \<longrightarrow> pages_ok km flq1 km1" by blast
  then show ?thesis using free_page_resource_ok [OF free_resource_ok] by force
qed

section \<open>Layout of the buffers\<close>

text \<open>The pages when k buffers are cut from them, and buffer i.\<close>

definition pages_at :: "(nat \<times> u64) list \<Rightarrow> nat \<Rightarrow> nat \<Rightarrow> nat \<Rightarrow> qdma_sw_pg_sg list" where
  "pages_at pages buf B k = map (\<lambda>j. \<lparr>pg_base = Some (fst (pages ! j)), pg_dma_base_addr = snd (pages ! j),
     pg_offset = buf * min B (k - j * B)\<rparr>) [0..<length pages]"

definition buffer_at :: "(nat \<times> u64) list \<Rightarrow> nat \<Rightarrow> nat \<Rightarrow> nat \<Rightarrow> nat \<Rightarrow> flq_sg" where
  "buffer_at pages buf B c i = (let (p, a) = pages ! (i div B); off = buf * (i mod B)
     in \<lparr>fs_pg = Some p, fs_offset = off, fs_len = c, fs_dma_addr = a + of_nat off\<rparr>)"

lemma pages_at_Suc:
  assumes "0 < B" "k < length pages * B"
  shows "(pages_at pages buf B k)[k div B := (pages_at pages buf B k ! (k div B))\<lparr>pg_offset := buf * (k mod B) + buf\<rparr>] =
    pages_at pages buf B (Suc k)"
proof (rule nth_equalityI)
  fix j assume "j < length ((pages_at pages buf B k)
      [k div B := (pages_at pages buf B k ! (k div B))\<lparr>pg_offset := buf * (k mod B) + buf\<rparr>])"
  then have j: "j < length pages" by (simp add: pages_at_def)
  have dm: "k = k div B * B + k mod B" by simp
  have lt: "k mod B < B" using assms(1) by simp
  consider "j = k div B" | "j < k div B" | "k div B < j" by linarith
  then show "(pages_at pages buf B k)
      [k div B := (pages_at pages buf B k ! (k div B))\<lparr>pg_offset := buf * (k mod B) + buf\<rparr>] ! j =
    pages_at pages buf B (Suc k) ! j"
  proof cases
    case 1
    have "Suc k - k div B * B = k mod B + 1" using dm by linarith
    then have "min B (Suc k - k div B * B) = k mod B + 1" using lt by simp
    then show ?thesis using 1 j by (simp add: pages_at_def)
  next
    case 2
    then have "Suc j * B \<le> k div B * B" by (intro mult_le_mono1) simp
    moreover have "k div B * B \<le> k" by (rule div_times_less_eq_dividend)
    moreover have "Suc j * B = B + j * B" by simp
    ultimately have "min B (k - j * B) = B" "min B (Suc k - j * B) = B" by linarith+
    then show ?thesis using 2 j by (simp add: pages_at_def)
  next
    case 3
    then have "Suc (k div B) * B \<le> j * B" by (intro mult_le_mono1) simp
    moreover have "Suc (k div B) * B = k div B * B + B" by simp
    ultimately have "Suc k \<le> j * B" using dm lt by linarith
    then show ?thesis using 3 j by (simp add: pages_at_def)
  qed
qed (simp add: pages_at_def)

lemma pages_at_current:
  assumes "0 < B" "k < length pages * B"
  shows "k div B < length pages"
    "pages_at pages buf B k ! (k div B) = \<lparr>pg_base = Some (fst (pages ! (k div B))),
       pg_dma_base_addr = snd (pages ! (k div B)), pg_offset = buf * (k mod B)\<rparr>"
proof -
  show l: "k div B < length pages" using assms by (simp add: less_mult_imp_div_less)
  have "k - k div B * B = k mod B" by (simp add: minus_div_mult_eq_mod)
  moreover have "k mod B < B" using assms(1) by simp
  ultimately show "pages_at pages buf B k ! (k div B) = \<lparr>pg_base = Some (fst (pages ! (k div B))),
       pg_dma_base_addr = snd (pages ! (k div B)), pg_offset = buf * (k mod B)\<rparr>"
    using l by (simp add: pages_at_def)
qed

lemma div_Suc_cases: "0 < (B::nat) \<Longrightarrow> Suc k div B = (if Suc (k mod B) < B then k div B else k div B + 1)"
proof -
  assume "0 < B"
  then have "k mod B < B" by simp
  then show ?thesis by (auto simp: div_Suc mod_Suc)
qed

lemma fill_one_at:
  assumes B: "0 < B" and k: "k < length pages * B" and buf: "fq_desc_buf_size flq = buf" "0 < buf"
    and max: "fq_max_pg_offset flq = B * buf" "B * buf + buf < 2 ^ 32"
    and pgs: "fq_pg_sdesc flq = Some (pages_at pages buf B k)" and idx: "fq_alloc_idx flq = k div B"
    and n: "fq_num_pages flq = length pages" "length pages = 2 ^ m" "fq_num_pgs_mask flq = 2 ^ m - 1" "m < 32"
  shows "flq_fill_one c flq km = (0, Some (buffer_at pages buf B c k, fs_dma_addr (buffer_at pages buf B c k)),
    flq\<lparr>fq_pg_sdesc := Some (pages_at pages buf B (Suc k)), fq_alloc_idx := Suc k div B\<rparr>,
    page_ref_inc (fst (pages ! (k div B))) km)"
proof -
  note cur = pages_at_current(1) [OF B k] pages_at_current(2) [OF B k, of buf]
  have lt: "k mod B < B" using B by simp
  have "k div B AND fq_num_pgs_mask flq = take_bit m (k div B)"
    by (simp add: n(3) take_bit_eq_mask mask_eq_exp_minus_1)
  also have "\<dots> = k div B" using cur(1) n(2) by (simp add: take_bit_nat_eq_self)
  finally have i: "k div B AND fq_num_pgs_mask flq = k div B" .
  have le: "buf * (k mod B) + buf \<le> B * buf"
    using mult_le_mono1 [of "Suc (k mod B)" B buf] lt by (simp add: mult.commute)
  have w1: "u32_wrap (buf * (k mod B) + buf) = buf * (k mod B) + buf"
    using le max(2) by (intro u32_wrap_small) simp
  have w2: "u32_wrap (buf * (k mod B) + buf + buf) = buf * (k mod B) + buf + buf"
    using le max(2) by (intro u32_wrap_small) simp
  have "buf * (k mod B) + buf + buf > B * buf \<longleftrightarrow> \<not> Suc (k mod B) < B"
  proof -
    have "buf * (k mod B) + buf + buf = buf * (k mod B + 2)" by simp
    then have "buf * (k mod B) + buf + buf > B * buf \<longleftrightarrow> buf * B < buf * (k mod B + 2)" by (simp only: mult.commute)
    then have "buf * (k mod B) + buf + buf > B * buf \<longleftrightarrow> B < k mod B + 2" using buf(2) by (simp only: mult_less_cancel1 simp_thms)
    then show ?thesis using lt by linarith
  qed
  moreover have "u32_wrap (k div B + 1) = k div B + 1"
  proof -
    have "(2::nat) ^ m \<le> 2 ^ 31" using n(4) by (intro power_increasing) simp_all
    then show ?thesis using cur(1) n(2) by (intro u32_wrap_small) simp
  qed
  moreover have "pages \<noteq> []" using cur(1) by auto
  ultimately show ?thesis
    using cur le w1 w2 n(1) pages_at_Suc [OF B k, of buf]
    by (simp add: flq_fill_one_def Let_def i pgs buf(1) max(1) buffer_at_def split_beta idx div_Suc_cases [OF B])
qed

lemma fill_bufs_at:
  assumes "0 < B" "i + n \<le> length pages * B" "fq_desc_buf_size flq = buf" "0 < buf"
    "fq_max_pg_offset flq = B * buf" "B * buf + buf < 2 ^ 32"
    "fq_pg_sdesc flq = Some (pages_at pages buf B i)" "fq_alloc_idx flq = i div B"
    "fq_num_pages flq = length pages" "length pages = 2 ^ m" "fq_num_pgs_mask flq = 2 ^ m - 1" "m < 32"
    "length sds = i + n" "length ring = i + n"
  shows "\<exists>flq' km'. fill_bufs c i n sds ring flq km =
    (0, take i sds @ map (buffer_at pages buf B c) [i..<i + n],
     take i ring @ map (fs_dma_addr \<circ> buffer_at pages buf B c) [i..<i + n], flq', km')"
  using assms
proof (induction n arbitrary: i sds ring flq km)
  case (Suc n)
  let ?b = "buffer_at pages buf B c i"
  have i: "i < length pages * B" using Suc.prems(2) by simp
  have step: "flq_fill_one c flq km = (0, Some (?b, fs_dma_addr ?b),
      flq\<lparr>fq_pg_sdesc := Some (pages_at pages buf B (Suc i)), fq_alloc_idx := Suc i div B\<rparr>,
      page_ref_inc (fst (pages ! (i div B))) km)"
    by (rule fill_one_at [OF Suc.prems(1) i Suc.prems(3-12)])
  have "\<exists>flq' km'. fill_bufs c (Suc i) n (sds[i := ?b]) (ring[i := fs_dma_addr ?b])
      (flq\<lparr>fq_pg_sdesc := Some (pages_at pages buf B (Suc i)), fq_alloc_idx := Suc i div B\<rparr>)
      (page_ref_inc (fst (pages ! (i div B))) km) =
    (0, take (Suc i) (sds[i := ?b]) @ map (buffer_at pages buf B c) [Suc i..<Suc i + n],
     take (Suc i) (ring[i := fs_dma_addr ?b]) @ map (fs_dma_addr \<circ> buffer_at pages buf B c) [Suc i..<Suc i + n],
     flq', km')"
    using Suc.prems by (intro Suc.IH) simp_all
  then obtain flq' km' where IH: "fill_bufs c (Suc i) n (sds[i := ?b]) (ring[i := fs_dma_addr ?b])
      (flq\<lparr>fq_pg_sdesc := Some (pages_at pages buf B (Suc i)), fq_alloc_idx := Suc i div B\<rparr>)
      (page_ref_inc (fst (pages ! (i div B))) km) =
    (0, take (Suc i) (sds[i := ?b]) @ map (buffer_at pages buf B c) [Suc i..<Suc i + n],
     take (Suc i) (ring[i := fs_dma_addr ?b]) @ map (fs_dma_addr \<circ> buffer_at pages buf B c) [Suc i..<Suc i + n],
     flq', km')"
    by blast
  have t: "take (Suc i) (sds[i := ?b]) = take i sds @ [?b]"
      "take (Suc i) (ring[i := fs_dma_addr ?b]) = take i ring @ [fs_dma_addr ?b]"
    using Suc.prems(13,14) by (simp_all add: take_Suc_conv_app_nth)
  have u: "[i..<i + Suc n] = i # [Suc i..<Suc i + n]" by (simp add: upt_rec del: upt_Suc)
  show ?case unfolding u using IH t by (simp add: step del: upt_Suc)
qed simp

lemma fill_pages_given:
  assumes "km_pages km = map (\<lambda>(p, a). Some (p, Some a)) pages @ rest"
  shows "\<exists>km'. fill_pages (replicate (length pages) pg_zeroed) km =
      (0, map (\<lambda>(p, a). \<lparr>pg_base = Some p, pg_dma_base_addr = a, pg_offset = 0\<rparr>) pages, km') \<and> km_al km' = km_al km"
  using assms
proof (induction pages arbitrary: km)
  case (Cons pa pages)
  obtain p a where pa: "pa = (p, a)" by force
  let ?km = "km\<lparr>km_pages := map (\<lambda>(p, a). Some (p, Some a)) pages @ rest, km_refs := (km_refs km)(p := 1),
    km_maps := insert a (km_maps km)\<rparr>"
  have "flq_fill_page_one pg_zeroed km = (0, \<lparr>pg_base = Some p, pg_dma_base_addr = a, pg_offset = 0\<rparr>, ?km)"
    using Cons.prems pa by (simp add: flq_fill_page_one_def)
  then show ?case using Cons.IH [of ?km] pa by auto
qed simp

lemma pages_at_0: "pages_at pages buf B 0 = map (\<lambda>(p, a). \<lparr>pg_base = Some p, pg_dma_base_addr = a, pg_offset = 0\<rparr>) pages"
  by (rule nth_equalityI) (simp_all add: pages_at_def split_beta)

text \<open>C35. When the kernel gives every page, the free list of a streaming queue is laid out as the
  hardware needs it: descq_flq_alloc_resource succeeds, buffer i lies in page i div B at offset
  (i mod B) times the buffer size, where B is the number of buffers of a page, entry i of the
  descriptor ring is the address of buffer i, and every buffer ends inside its page. So two
  buffers never share a byte.\<close>

theorem free_list_buffers:
  assumes "0 < c" "c \<le> 2 ^ 16" "0 < rngsz" "rngsz \<le> 2 ^ 16" and sizes: "flq_sizes rngsz c flq0 = Some flq"
    and B: "B = fq_max_pg_offset flq div fq_desc_buf_size flq" and n: "pages_for rngsz B = Some (length pages)"
    and km: "km_al km = []" "km_pages km = map (\<lambda>(p, a). Some (p, Some a)) pages @ rest" and r: "length ring = rngsz"
  shows "\<exists>flq' km'. descq_flq_alloc_resource c flq ring km =
      Some (0, flq', map (fs_dma_addr \<circ> buffer_at pages (fq_desc_buf_size flq) B c) [0..<rngsz], km') \<and>
    fq_sdesc flq' = Some (map (buffer_at pages (fq_desc_buf_size flq) B c) [0..<rngsz]) \<and>
    (\<forall>i<rngsz. i div B < length pages \<and> c \<le> fq_desc_buf_size flq \<and>
      fq_desc_buf_size flq * (i mod B) + fq_desc_buf_size flq \<le> fq_max_pg_offset flq)"
proof -
  obtain m B' where sz: "sized c rngsz m B' flq" using flq_sizes_sized [OF assms(1-5)] by blast
  then have BB: "B' = B" using B by (simp add: sized_def)
  note sz = sz [unfolded BB]
  define buf where "buf = fq_desc_buf_size flq"
  have shape: "drop_bit (fq_desc_pg_shift flq) (fq_max_pg_offset flq) = B" "0 < B" "fq_size flq = rngsz"
      "fq_max_pg_offset flq = B * buf" "B * buf + buf < 2 ^ 32" "0 < buf" "c \<le> buf"
    using sz by (auto simp: sized_def buf_def)
  have len: "length pages = 2 ^ m" "rngsz \<le> length pages * B" using sz n by (auto simp: sized_def)
  have m: "m < 32"
    using pages_for_spec [OF assms(3,4) shape(2)] n len(1) by auto
  define flq1 where "flq1 = flq\<lparr>fq_num_bufs_per_pg := B, fq_num_pages := 2 ^ m, fq_num_pgs_mask := 2 ^ m - 1,
    fq_pg_sdesc := Some (pages_at pages buf B 0), fq_alloc_idx := 0\<rparr>"
  obtain km1 where p: "fill_pages (replicate (2 ^ m) pg_zeroed) km = (0, pages_at pages buf B 0, km1)" "km_al km1 = []"
    using fill_pages_given [OF km(2)] km(1) len(1) pages_at_0 [of pages buf B] by auto
  have k: "kzalloc km = (True, km)" "kzalloc km1 = (True, km1)" using km(1) p(2) by (simp_all add: kzalloc_def)
  obtain flq2 km2 where b: "fill_bufs c 0 rngsz (replicate rngsz sg_zeroed) ring flq1 km1 =
      (0, map (buffer_at pages buf B c) [0..<rngsz], map (fs_dma_addr \<circ> buffer_at pages buf B c) [0..<rngsz], flq2, km2)"
    using fill_bufs_at [OF shape(2), of 0 rngsz pages flq1 buf m "replicate rngsz sg_zeroed" ring c km1]
      shape len m r by (auto simp: flq1_def buf_def)
  have "descq_flq_alloc_resource c flq ring km = Some (0,
      flq2\<lparr>fq_sdesc := Some (map (buffer_at pages buf B c) [0..<rngsz]), fq_sdesc_info := replicate rngsz info_zeroed\<rparr>,
      map (fs_dma_addr \<circ> buffer_at pages buf B c) [0..<rngsz], km2)"
    using shape(2) by (simp add: descq_flq_alloc_resource_def Let_def shape(1,3) n len(1) k p(1) b [unfolded flq1_def, simplified])
  moreover have "i < rngsz \<Longrightarrow> i div B < length pages" for i using len(2) by (simp add: less_mult_imp_div_less)
  moreover have "buf * (i mod B) + buf \<le> fq_max_pg_offset flq" for i
  proof -
    have "Suc (i mod B) \<le> B" using shape(2) by (simp add: Suc_le_eq)
    then show ?thesis using mult_le_mono1 [of "Suc (i mod B)" B buf] shape(4) by (simp add: mult.commute)
  qed
  ultimately show ?thesis using shape(7) by (simp flip: buf_def)
qed

section \<open>A list of two buffers\<close>

definition sample_kmem :: kmem where
  "sample_kmem = \<lparr>km_refs = (\<lambda>_. 0), km_maps = {}, km_bytes = (\<lambda>_ _. 0), km_al = [],
     km_pages = [Some (7, Some 0x10000), Some (8, Some 0x20000)]\<rparr>"

definition sample_flq :: qdma_flq where
  "sample_flq = flq_zeroed\<lparr>fq_size := 2, fq_buf_pg_shift := 11, fq_buf_pg_mask := 2047, fq_desc_buf_size := 2048,
     fq_desc_pg_shift := 11, fq_desc_pg_order := 0, fq_max_pg_offset := 4096\<rparr>"

lemma sample_sizes: "flq_sizes 2 2048 flq_zeroed = Some sample_flq"
  by (simp add: flq_sizes_def get_next_powof2_def fls.simps Let_def sample_flq_def u32_wrap_def
      push_bit_eq_mult drop_bit_eq_div)

lemma sample_fresh: "fresh_pages sample_kmem"
  by (simp add: fresh_pages_def sample_kmem_def)

lemma free_list_returns_pages_witness:
  "flq_sizes 2 2048 flq_zeroed = Some sample_flq \<and> fresh_pages sample_kmem \<and>
   (\<exists>rv flq1 ring1 km1. descq_flq_alloc_resource 2048 sample_flq [0, 0] sample_kmem = Some (rv, flq1, ring1, km1) \<and>
    rv \<le> 0 \<and>
    (if rv < 0 then kernel_same sample_kmem km1
     else \<exists>km2. descq_flq_free_page_resource (fst (descq_flq_free_resource flq1 ring1)) km1 = Some (flq_zeroed, km2) \<and>
       kernel_same sample_kmem km2))"
  using sample_sizes sample_fresh free_list_returns_pages [OF _ _ _ _ sample_sizes sample_fresh, of "[0, 0]"] by simp

lemma sample_pages: "pages_for 2 (fq_max_pg_offset sample_flq div fq_desc_buf_size sample_flq) = Some 2"
  by (simp add: pages_for_def sample_flq_def get_next_powof2_def fls.simps Let_def u32_wrap_def
      push_bit_eq_mult drop_bit_eq_div)

lemma free_list_buffers_witness:
  "\<exists>flq' km'. descq_flq_alloc_resource 2048 sample_flq [0, 0] sample_kmem = Some (0, flq', [0x10000, 0x10800], km') \<and>
     fq_sdesc flq' = Some [\<lparr>fs_pg = Some 7, fs_offset = 0, fs_len = 2048, fs_dma_addr = 0x10000\<rparr>,
       \<lparr>fs_pg = Some 7, fs_offset = 2048, fs_len = 2048, fs_dma_addr = 0x10800\<rparr>]"
  using free_list_buffers [of 2048 2 flq_zeroed sample_flq, OF _ _ _ _ sample_sizes refl, of "[(7, 0x10000), (8, 0x20000)]"
      sample_kmem "[]" "[0, 0]"] sample_pages
  by (auto simp: sample_kmem_def sample_flq_def upt_rec buffer_at_def)

end
