(* ===== verification/C2hStreamProps.thy ===== *)
theory C2hStreamProps
  imports C2hStream C2hFreeListProps
begin

text \<open>
  What streaming receive queues promise: the number of buffers of a packet, the indices and the
  count of free buffers over every operation, the bytes that a request gets, and where the code
  falls short of that.
\<close>

section \<open>Buffers of a packet\<close>

lemma count_bufs_spec:
  assumes "0 < b" "l \<le> fuel"
  shows "count_bufs fuel b l n = (n + l div b, l mod b)"
  using assms
proof (induction fuel arbitrary: l n)
  case (Suc fuel)
  show ?case
  proof (cases "b \<le> l")
    case True
    then have "l - b \<le> fuel" "l div b = Suc ((l - b) div b)" "l mod b = (l - b) mod b"
      using Suc.prems by (simp_all add: le_div_geq le_mod_geq)
    then show ?thesis using Suc True by simp
  qed (use Suc in simp)
qed simp

lemma ceil_split:
  assumes "0 < (b::nat)" "0 < len"
  shows "(len + (b - 1)) div b = (if len mod b = 0 then len div b else len div b + 1)"
    "((if len mod b = 0 then len div b else len div b + 1) - 1) * b + (if len mod b = 0 then b else len mod b) = len"
proof -
  have dm: "len = len div b * b + len mod b" by simp
  have lt: "len mod b < b" using assms(1) by simp
  show "(len + (b - 1)) div b = (if len mod b = 0 then len div b else len div b + 1)"
  proof (cases "len mod b = 0")
    case True
    then have "len + (b - 1) = len div b * b + (b - 1)" using dm by linarith
    moreover have "b - 1 < b" using assms(1) by simp
    ultimately have "(len + (b - 1)) div b = len div b" using assms(1) by (simp only: div_mult_self3 div_less)
    then show ?thesis using True by simp
  next
    case False
    moreover have "(len div b + 1) * b = len div b * b + b" by simp
    ultimately have "len + (b - 1) = (len div b + 1) * b + (len mod b - 1)" using dm lt by linarith
    moreover have "len mod b - 1 < b" using lt by simp
    ultimately have "(len + (b - 1)) div b = len div b + 1" by (simp only: div_mult_self3 div_less)
    then show ?thesis using False by simp
  qed
  show "((if len mod b = 0 then len div b else len div b + 1) - 1) * b + (if len mod b = 0 then b else len mod b) = len"
  proof (cases "len mod b = 0")
    case True
    then have "0 < len div b" using dm assms(2) by (cases "len div b") auto
    then have "(len div b - 1) * b + b = len div b * b" by (cases "len div b") auto
    then show ?thesis using True dm by simp
  qed (use dm in simp)
qed

text \<open>A buffer size that is a power of two, or a length that is not one.\<close>

definition fl_ok :: "nat \<Rightarrow> nat \<Rightarrow> nat \<Rightarrow> bool" where
  "fl_ok len bufsz s \<longleftrightarrow> bufsz = 2 ^ s \<or> len AND (len - 1) \<noteq> 0"

lemma get_fl_nr_ceil:
  assumes "0 < len" "len < 2 ^ 16" "0 < bufsz" "s \<le> 16" "fl_ok len bufsz s"
  shows "get_fl_nr len bufsz s (2 ^ s - 1) =
    (if len mod bufsz = 0 then (len div bufsz, bufsz) else (len div bufsz + 1, len mod bufsz))"
proof -
  have sub: "u32_sub len 1 = len - 1" using assms(1) by (simp add: u32_sub_def)
  show ?thesis
  proof (cases "len AND (len - 1) = 0")
    case True
    then have b: "bufsz = 2 ^ s" using assms(5) by (simp add: fl_ok_def)
    have "(2::nat) ^ s \<le> 2 ^ 16" using assms(4) by (intro power_increasing) simp_all
    then have w: "u32_wrap (len + (2 ^ s - 1)) = len + (2 ^ s - 1)" using assms(2) by (intro u32_wrap_small) simp
    have "len AND (2 ^ s - 1) = len mod 2 ^ s"
      by (simp only: take_bit_eq_mask mask_eq_exp_minus_1 flip: take_bit_eq_mod)
    then show ?thesis
      using True b w ceil_split(1) [of "2 ^ s" len] assms(1)
      by (simp add: get_fl_nr_def sub Let_def drop_bit_eq_div del: One_nat_def)
  next
    case False
    then show ?thesis
      using assms(1,3) count_bufs_spec [of bufsz len len 0]
      by (auto simp: get_fl_nr_def sub Let_def div_eq_0_iff le_less simp del: One_nat_def)
  qed
qed

text \<open>C36. rcv_pkt splits a packet as the hardware did: get_fl_nr gives the fewest buffers that hold
  the packet, all full except the last, which holds the rest and is not empty, provided the
  buffer size is a power of two or the length is not one.\<close>

theorem get_fl_nr_spec:
  assumes "0 < len" "len < 2 ^ 16" "0 < bufsz" "s \<le> 16" "fl_ok len bufsz s"
    and "get_fl_nr len bufsz s (2 ^ s - 1) = (n, l)"
  shows "0 < n \<and> (n - 1) * bufsz + l = len \<and> 0 < l \<and> l \<le> bufsz"
proof -
  have nl: "n = (if len mod bufsz = 0 then len div bufsz else len div bufsz + 1)"
      "l = (if len mod bufsz = 0 then bufsz else len mod bufsz)"
    using get_fl_nr_ceil [OF assms(1-5)] assms(6) by (auto split: if_splits)
  have "0 < n"
    using assms(1,3) nl(1) by (auto simp: mod_eq_0_iff_dvd dvd_imp_le div_greater_zero_iff)
  then show ?thesis
    using ceil_split(2) [of bufsz len] assms(1,3) nl mod_less_divisor [OF assms(3), of len] by auto
qed

lemma get_fl_nr_spec_witness:
  "(0::nat) < 5000 \<and> fl_ok 5000 2048 11 \<and> get_fl_nr 5000 2048 11 (2 ^ 11 - 1) = (3, 904) \<and> (3 - 1) * 2048 + 904 = (5000::nat)"
proof -
  have "fl_ok 5000 2048 11" by (simp add: fl_ok_def)
  moreover from this have "get_fl_nr 5000 2048 11 (2 ^ 11 - 1) = (3, 904)" by (subst get_fl_nr_ceil) simp_all
  ultimately show ?thesis using get_fl_nr_spec [of 5000 2048 11 3 904] by simp
qed

text \<open>Buffers of 3968 bytes, one of the default sizes: a packet of 4096 bytes is taken for one full
  buffer, and its last 128 bytes are lost with their buffer.\<close>

lemma get_fl_nr_default_size: "get_fl_nr 4096 3968 12 (2 ^ 12 - 1) = (1, 3968)"
  by (simp add: get_fl_nr_def u32_sub_def u32_wrap_def Let_def drop_bit_eq_div)

section \<open>Rings\<close>

lemma delta_small:
  assumes "new < n" "old < n" "n < 2 ^ 31"
  shows "ring_idx_delta new old n = (if old \<le> new then new - old else new + n - old)"
  using assms u32_wrap_small [of "new + (n - old)"] by (auto simp: ring_idx_delta_def u32_sub_def)

lemma incr_small:
  assumes "idx < n" "cnt \<le> n" "n < 2 ^ 31"
  shows "ring_idx_incr idx cnt n = (idx + cnt) mod n"
  using assms u32_wrap_small [of "idx + cnt"] by (simp add: ring_idx_incr_def Let_def le_mod_geq)

lemma delta_lt: "new < n \<Longrightarrow> old < n \<Longrightarrow> n < 2 ^ 31 \<Longrightarrow> ring_idx_delta new old n < n"
  by (auto simp: delta_small)

lemma mod_twice: "a < 2 * (n::nat) \<Longrightarrow> a mod n = (if a < n then a else a - n)"
  by (simp add: le_mod_geq)

lemma delta_mod:
  assumes "new < n" "old < n" "n < 2 ^ 31"
  shows "ring_idx_delta new old n = (new + n - old) mod n"
proof -
  have "new + n - old < 2 * n" using assms(1) by simp
  then show ?thesis using assms by (auto simp: delta_small mod_twice)
qed

lemma delta_incr:
  assumes "idx < n" "cnt < n" "n < 2 ^ 31"
  shows "ring_idx_delta ((idx + cnt) mod n) idx n = cnt"
proof -
  have "(idx + cnt) mod n = (if idx + cnt < n then idx + cnt else idx + cnt - n)"
    using assms by (intro mod_twice) simp
  then show ?thesis using assms by (cases "idx + cnt < n") (simp_all add: delta_small)
qed

lemma mod_delta:
  assumes "new < n" "old < n" "n < 2 ^ 31"
  shows "(old + ring_idx_delta new old n) mod n = new"
  using assms by (cases "old \<le> new") (simp_all add: delta_small)

lemma delta_advance:
  assumes "new < n" "old < n" "n < 2 ^ 31" "cnt \<le> ring_idx_delta new old n"
  shows "ring_idx_delta new ((old + cnt) mod n) n = ring_idx_delta new old n - cnt"
proof -
  have "cnt \<le> n" using assms delta_lt [OF assms(1-3)] by linarith
  then have m: "(old + cnt) mod n = (if old + cnt < n then old + cnt else old + cnt - n)"
    using assms by (intro mod_twice) simp
  show ?thesis
    using assms m by (cases "old \<le> new"; cases "old + cnt < n") (simp_all add: delta_small)
qed

lemma delta_append:
  assumes "new < n" "old < n" "n < 2 ^ 31" "ring_idx_delta new old n + cnt < n"
  shows "ring_idx_delta ((new + cnt) mod n) old n = ring_idx_delta new old n + cnt"
proof -
  have m: "(new + cnt) mod n = (if new + cnt < n then new + cnt else new + cnt - n)"
    using assms by (intro mod_twice) simp
  have "(new + cnt) mod n < n" using assms by simp
  then have "ring_idx_delta ((new + cnt) mod n) old n =
      (if old \<le> (new + cnt) mod n then (new + cnt) mod n - old else (new + cnt) mod n + n - old)"
    using assms by (intro delta_small) simp_all
  moreover have "ring_idx_delta new old n = (if old \<le> new then new - old else new + n - old)"
    by (rule delta_small [OF assms(1-3)])
  ultimately show ?thesis using assms(1,2,4) m by (simp split: if_splits)
qed

definition window :: "nat \<Rightarrow> nat \<Rightarrow> nat \<Rightarrow> nat set" where
  "window n idx cnt = (\<lambda>j. (idx + j) mod n) ` {..<cnt}"

lemma window_0 [simp]: "window n idx 0 = {}" by (simp add: window_def)

lemma window_mod: "window n (idx mod n) cnt = window n idx cnt"
  by (simp add: window_def mod_add_left_eq)

lemma window_Suc: "window n idx (Suc cnt) = insert (idx mod n) (window n (Suc idx) cnt)"
proof -
  have "{..<Suc cnt} = insert 0 (Suc ` {..<cnt})" by (simp add: lessThan_Suc_eq_insert_0)
  then show ?thesis by (auto simp: window_def image_image)
qed

section \<open>Well-formed queues\<close>

text \<open>The length of the packet that a completion entry reports.\<close>

definition entry_len :: "u64 list \<Rightarrow> nat" where
  "entry_len e = (if \<not> bit (hd e) 0 \<and> bit (hd e) 3 then unat (drop_bit 4 (hd e) AND 0xFFFF) else 0)"

text \<open>
  The sizes of the arrays fit together and the indices lie in them; no completion entry reports a
  packet that is larger than all buffers of the ring, for which rcv_pkt would write beyond them.
\<close>

definition st_shape :: "st_queue \<Rightarrow> bool" where
  "st_shape q \<longleftrightarrow>
     (let flq = sq_flq q; n = fq_size flq
      in 0 < n \<and> n < 2 ^ 16 \<and> sq_rngsz q = n \<and> length (fq_sdesc_info flq) = n \<and> length (sq_ring q) = n \<and>
         (\<exists>sds. fq_sdesc flq = Some sds \<and> length sds = n \<and> (\<forall>sd\<in>set sds. fs_pg sd \<noteq> None)) \<and>
         fq_pidx_pend flq < n \<and> 0 < sq_rngsz_cmpt q \<and> sq_rngsz_cmpt q < 2 ^ 16 \<and>
         length (sq_cmpt q) = sq_rngsz_cmpt q \<and> [] \<notin> set (sq_cmpt q) \<and>
         sq_cidx_cmpt q < sq_rngsz_cmpt q \<and> sq_cur q = sq_cidx_cmpt q \<and>
         0 < sq_bufsz q \<and> sq_bufsz q \<le> 2 ^ fq_desc_pg_shift flq \<and> fq_desc_pg_shift flq \<le> 16 \<and>
         (\<forall>e\<in>set (sq_cmpt q). entry_len e \<le> sq_bufsz q * n))"

text \<open>
  With pidx the end of the received buffers and old their beginning when the processing started:
  these buffers and the free ones are fewer than the ring has, and the next to be read is between
  them.
\<close>

definition st_ring :: "nat \<Rightarrow> nat \<Rightarrow> st_queue \<Rightarrow> bool" where
  "st_ring old pidx q \<longleftrightarrow>
     (let n = fq_size (sq_flq q); pend = fq_pidx_pend (sq_flq q)
      in pidx < n \<and> old < n \<and> sq_avail q + ring_idx_delta pidx old n < n \<and>
         ring_idx_delta pend old n + ring_idx_delta pidx pend n = ring_idx_delta pidx old n)"

definition st_wf :: "st_queue \<Rightarrow> bool" where
  "st_wf q \<longleftrightarrow> st_shape q \<and> st_ring (fq_pidx_pend (sq_flq q)) (sq_pidx q) q"

lemma refill_recycle:
  assumes "fq_sdesc (sq_flq q) = Some sds" "length sds = n" "length (fq_sdesc_info (sq_flq q)) = n"
    "length (sq_ring q) = n" "fq_size (sq_flq q) = n" "0 < n" "idx \<le> n" "sq_avail q + cnt < 2 ^ 32"
  shows "\<exists>sds' infos'. refill_loop True cnt i idx q km = Some (i + cnt, q\<lparr>sq_avail := sq_avail q + cnt,
      sq_flq := (sq_flq q)\<lparr>fq_sdesc := Some sds', fq_sdesc_info := infos'\<rparr>\<rparr>, km) \<and>
    length sds' = n \<and> length infos' = n \<and>
    (\<forall>k<n. sds' ! k = (if k \<in> window n idx cnt then (sds ! k)\<lparr>fs_len := sq_bufsz q\<rparr> else sds ! k))"
  using assms
proof (induction cnt arbitrary: i idx q sds)
  case 0
  then show ?case by (intro exI [of _ sds] exI [of _ "fq_sdesc_info (sq_flq q)"]) simp
next
  case (Suc cnt)
  define j where "j = (if idx = n then 0 else idx)"
  have j: "j < n" "j = idx mod n" using Suc.prems(6,7) by (auto simp: j_def)
  define q1 where "q1 = q\<lparr>sq_avail := sq_avail q + 1, sq_flq := (sq_flq q)\<lparr>fq_sdesc := Some (sds[j := (sds ! j)\<lparr>fs_len := sq_bufsz q\<rparr>]),
    fq_sdesc_info := (fq_sdesc_info (sq_flq q))[j := (fq_sdesc_info (sq_flq q) ! j)\<lparr>si_valid := False, si_sop := False, si_eop := False\<rparr>]\<rparr>\<rparr>"
  have step: "refill_one True j q km = Some (True, q1, km)"
    using Suc.prems j(1) by (simp add: refill_one_def Let_def q1_def u32_wrap_small)
  have "\<exists>sds' infos'. refill_loop True cnt (Suc i) (Suc j) q1 km = Some (Suc i + cnt, q1\<lparr>sq_avail := sq_avail q1 + cnt,
      sq_flq := (sq_flq q1)\<lparr>fq_sdesc := Some sds', fq_sdesc_info := infos'\<rparr>\<rparr>, km) \<and>
    length sds' = n \<and> length infos' = n \<and>
    (\<forall>k<n. sds' ! k = (if k \<in> window n (Suc j) cnt then (sds[j := (sds ! j)\<lparr>fs_len := sq_bufsz q\<rparr>] ! k)\<lparr>fs_len := sq_bufsz q1\<rparr>
       else sds[j := (sds ! j)\<lparr>fs_len := sq_bufsz q\<rparr>] ! k))"
    using Suc.prems j(1) by (intro Suc.IH) (simp_all add: q1_def)
  then obtain sds' infos' where IH: "refill_loop True cnt (Suc i) (Suc j) q1 km = Some (Suc i + cnt, q1\<lparr>sq_avail := sq_avail q1 + cnt,
      sq_flq := (sq_flq q1)\<lparr>fq_sdesc := Some sds', fq_sdesc_info := infos'\<rparr>\<rparr>, km)"
    "length sds' = n" "length infos' = n"
    "\<forall>k<n. sds' ! k = (if k \<in> window n (Suc j) cnt then (sds[j := (sds ! j)\<lparr>fs_len := sq_bufsz q\<rparr>] ! k)\<lparr>fs_len := sq_bufsz q1\<rparr>
       else sds[j := (sds ! j)\<lparr>fs_len := sq_bufsz q\<rparr>] ! k)" by blast
  have w: "window n idx (Suc cnt) = insert j (window n (Suc j) cnt)"
    using window_Suc [of n j cnt] window_mod [of n idx "Suc cnt"] j by (simp add: window_Suc)
  have "refill_loop True (Suc cnt) i idx q km = Some (i + Suc cnt, q\<lparr>sq_avail := sq_avail q + Suc cnt,
      sq_flq := (sq_flq q)\<lparr>fq_sdesc := Some sds', fq_sdesc_info := infos'\<rparr>\<rparr>, km)"
    using IH(1) step Suc.prems(5) by (simp add: j_def [symmetric] q1_def)
  then show ?case
    using IH(2-4) w j(1) Suc.prems(2)
    by (intro exI [of _ sds'] exI [of _ infos']) (auto simp: nth_list_update q1_def)
qed

section \<open>Copying bytes\<close>

text \<open>Memory by address, which is a page with an offset, and bytes stored in order.\<close>

definition byte :: "kmem \<Rightarrow> nat \<times> nat \<Rightarrow> 8 word" where
  "byte km a = km_bytes km (fst a) (snd a)"

definition put_bytes :: "(nat \<times> nat) list \<Rightarrow> (nat \<times> nat) list \<Rightarrow> (nat \<times> nat \<Rightarrow> 8 word) \<Rightarrow> nat \<times> nat \<Rightarrow> 8 word" where
  "put_bytes ds ss b a = (case map_of (zip ds ss) a of None \<Rightarrow> b a | Some s \<Rightarrow> b s)"

definition seg :: "nat \<Rightarrow> nat \<Rightarrow> nat \<Rightarrow> (nat \<times> nat) list" where
  "seg p off n = map (\<lambda>k. (p, off + k)) [0..<n]"

lemma seg_length [simp]: "length (seg p off n) = n"
  and seg_0 [simp]: "seg p off 0 = []"
  by (simp_all add: seg_def)

lemma seg_nth [simp]: "k < n \<Longrightarrow> seg p off n ! k = (p, off + k)"
  by (simp add: seg_def)

lemma mem_seg: "a \<in> set (seg p off n) \<longleftrightarrow> fst a = p \<and> off \<le> snd a \<and> snd a < off + n"
  by (cases a) (auto simp: seg_def image_iff intro!: bexI [of _ "snd a - off"])

lemma seg_take: "take m (seg p off n) = seg p off (min m n)"
  by (simp add: seg_def take_map min_def)

lemma seg_drop: "drop m (seg p off n) = seg p (off + m) (n - m)"
  by (rule nth_equalityI) simp_all

lemma put_bytes_nil [simp]: "put_bytes [] ss b = b" "put_bytes ds [] b = b"
  by (auto simp: put_bytes_def)

lemma put_bytes_append:
  assumes "length d1 = length s1" "set d1 \<inter> set d2 = {}" "set d1 \<inter> set s2 = {}"
  shows "put_bytes d2 s2 (put_bytes d1 s1 b) = put_bytes (d1 @ d2) (s1 @ s2) b"
proof
  fix a
  have z: "zip (d1 @ d2) (s1 @ s2) = zip d1 s1 @ zip d2 s2" using assms(1) by simp
  show "put_bytes d2 s2 (put_bytes d1 s1 b) a = put_bytes (d1 @ d2) (s1 @ s2) b a"
  proof (cases "map_of (zip d2 s2) a")
    case None
    then show ?thesis unfolding put_bytes_def z map_of_append by (simp add: map_add_def split: option.split)
  next
    case (Some s)
    have "a \<in> set d2" "s \<in> set s2" using Some by (auto dest!: map_of_SomeD elim: in_set_zipE)
    then have "a \<notin> set d1" "s \<notin> set d1" using assms(2,3) by auto
    then have "map_of (zip d1 s1) a = None" "map_of (zip d1 s1) s = None"
      by (auto simp: map_of_eq_None_iff elim!: in_set_zipE)
    then show ?thesis using Some unfolding put_bytes_def z map_of_append by (simp add: map_add_def)
  qed
qed

lemma put_bytes_compose:
  assumes "b1 = put_bytes (take m d) s1 b" "b2 = put_bytes (take k (drop m d)) s2 b1"
    "length s1 = m" "m \<le> length d" "distinct d" "set d \<inter> set s2 = {}"
  shows "b2 = put_bytes (take (m + k) d) (s1 @ s2) b"
proof -
  have "set (take m d) \<inter> set (take k (drop m d)) = {}"
    using assms(5) by (meson disjoint_iff in_set_takeD set_take_disj_set_drop_if_distinct order_refl)
  moreover have "set (take m d) \<inter> set s2 = {}" using assms(6) by (meson disjoint_iff in_set_takeD)
  ultimately show ?thesis
    unfolding assms(2) assms(1) take_add using assms(3,4) by (intro put_bytes_append) simp_all
qed

lemma put_bytes_nth:
  assumes "distinct ds" "i < length ds" "i < length ss"
  shows "put_bytes ds ss b (ds ! i) = b (ss ! i)"
proof -
  have "(ds ! i, ss ! i) \<in> set (zip ds ss)" using assms(2,3) by (auto simp: set_zip)
  moreover have "distinct (map fst (zip ds ss))" using assms(1) by (simp add: map_fst_zip_take)
  ultimately have "map_of (zip ds ss) (ds ! i) = Some (ss ! i)" by (simp add: map_of_eq_Some_iff)
  then show ?thesis by (simp add: put_bytes_def)
qed

lemma put_bytes_other: "a \<notin> set ds \<Longrightarrow> put_bytes ds ss b a = b a"
  by (auto simp: put_bytes_def map_of_eq_None_iff split: option.split elim!: in_set_zipE dest!: map_of_SomeD)

lemma memcpy_bytes: "byte (memcpy dp doff sp soff n km) = put_bytes (seg dp doff n) (seg sp soff n) (byte km)"
proof
  fix a :: "nat \<times> nat"
  show "byte (memcpy dp doff sp soff n km) a = put_bytes (seg dp doff n) (seg sp soff n) (byte km) a"
  proof (cases "a \<in> set (seg dp doff n)")
    case True
    then obtain k where k: "k < n" "a = seg dp doff n ! k" by (auto simp: in_set_conv_nth)
    moreover have "distinct (seg dp doff n)" by (simp add: seg_def distinct_map inj_on_def)
    ultimately have "put_bytes (seg dp doff n) (seg sp soff n) (byte km) a = byte km (sp, soff + k)"
      by (simp add: put_bytes_nth del: seg_nth) simp
    then show ?thesis using k by (simp add: byte_def memcpy_def)
  next
    case False
    then have "\<not> (fst a = dp \<and> doff \<le> snd a \<and> snd a < doff + n)" by (simp add: mem_seg)
    then show ?thesis using False by (auto simp: put_bytes_other byte_def memcpy_def)
  qed
qed

text \<open>The room of a request, from its position on.\<close>

definition room :: "copy_st \<Rightarrow> (nat \<times> nat) list" where
  "room c = (case cs_tsgs c of [] \<Rightarrow> []
     | t # ts \<Rightarrow> seg (ts_pg t) (ts_offset t + cs_tsgoff c) (ts_len t - cs_tsgoff c) @
         concat (map (\<lambda>t. seg (ts_pg t) (ts_offset t) (ts_len t)) ts))"

definition st_req_ok :: "copy_st \<Rightarrow> bool" where
  "st_req_ok c \<longleftrightarrow> (\<forall>t\<in>set (cs_tsgs c). ts_offset t + ts_len t < 2 ^ 32) \<and>
     (case cs_tsgs c of [] \<Rightarrow> True | t # _ \<Rightarrow> cs_tsgoff c \<le> ts_len t)"

lemma copy_len_le: "copy_len flen c \<le> flen"
  by (simp add: copy_len_def split: list.split)

lemma copy_advance_room:
  assumes "st_req_ok c" "n = copy_len flen c" "cs_copied c + n < 2 ^ 32"
  shows "room (copy_advance n c) = drop n (room c)" "st_req_ok (copy_advance n c)"
    "cs_foff (copy_advance n c) = (if cs_tsgs c = [] then cs_foff c else cs_foff c + n)"
    "cs_copied (copy_advance n c) = (if cs_tsgs c = [] then cs_copied c else cs_copied c + n)"
    "n \<le> flen" "n \<le> length (room c)"
    "cs_tsgs c \<noteq> [] \<Longrightarrow> take n (room c) = seg (ts_pg (hd (cs_tsgs c))) (ts_offset (hd (cs_tsgs c)) + cs_tsgoff c) n"
    "drop (cs_j c) sgl = cs_tsgs c \<Longrightarrow> drop (cs_j (copy_advance n c)) sgl = cs_tsgs (copy_advance n c)"
proof (atomize(full), goal_cases)
  case 1
  show ?case
  proof (cases "cs_tsgs c")
    case Nil then show ?thesis using assms by (simp add: copy_advance_def copy_len_def room_def)
  next
    case (Cons t ts)
    have t: "cs_tsgoff c \<le> ts_len t" using assms(1) Cons by (simp add: st_req_ok_def)
    have n: "n = min flen (ts_len t - cs_tsgoff c)" using assms(2) Cons t by (simp add: copy_len_def u32_sub_def)
    have w: "u32_wrap (cs_copied c + n) = cs_copied c + n" by (rule u32_wrap_small [OF assms(3)])
    have d: "drop (cs_j c) sgl = t # ts \<Longrightarrow> drop (Suc (cs_j c)) sgl = ts" by (simp add: drop_Suc flip: tl_drop)
    show ?thesis
    proof (cases "cs_tsgoff c + n = ts_len t")
      case True
      have adv: "copy_advance n c = \<lparr>cs_tsgs = ts, cs_tsgoff = 0, cs_j = cs_j c + 1, cs_foff = cs_foff c + n,
          cs_copied = cs_copied c + n\<rparr>"
        using Cons t True w by (simp add: copy_advance_def Let_def)
      have "room (copy_advance n c) = concat (map (\<lambda>t. seg (ts_pg t) (ts_offset t) (ts_len t)) ts)"
        by (simp add: adv room_def split: list.split)
      moreover have "st_req_ok (copy_advance n c)" using assms(1) Cons by (auto simp: adv st_req_ok_def split: list.split)
      moreover have "ts_len t - cs_tsgoff c = n" "n \<le> flen" using True n by simp_all
      ultimately show ?thesis using Cons d by (simp add: room_def adv seg_take)
    next
      case False
      have lt: "n < ts_len t - cs_tsgoff c" using n False t by auto
      have adv: "copy_advance n c = \<lparr>cs_tsgs = t # ts, cs_tsgoff = cs_tsgoff c + n, cs_j = cs_j c, cs_foff = cs_foff c + n,
          cs_copied = cs_copied c + n\<rparr>"
        using Cons t False w by (simp add: copy_advance_def Let_def)
      have "st_req_ok (copy_advance n c)" using assms(1) Cons lt by (auto simp: adv st_req_ok_def)
      moreover have "n \<le> flen" using n by simp
      ultimately show ?thesis using Cons lt by (simp add: room_def adv seg_take seg_drop add.assoc)
    qed
  qed
qed

text \<open>Copying changes nothing of the queue but the latency statistics.\<close>

definition same_queue :: "st_queue \<Rightarrow> st_queue \<Rightarrow> bool" where
  "same_queue q q' \<longleftrightarrow> (\<exists>a b c. q' = q\<lparr>sq_lat_min := a, sq_lat_max := b, sq_lat_total := c\<rparr>)"

lemma same_queue_refl: "same_queue q q"
  unfolding same_queue_def by (intro exI [of _ "sq_lat_min q"] exI [of _ "sq_lat_max q"] exI [of _ "sq_lat_total q"]) simp

lemma same_queue_trans: "same_queue q q' \<Longrightarrow> same_queue q' q'' \<Longrightarrow> same_queue q q''"
  by (fastforce simp: same_queue_def)

lemma same_queue_flq: "same_queue q q' \<Longrightarrow> sq_flq q' = sq_flq q"
  by (auto simp: same_queue_def)

lemma same_queue_ping_pong: "same_queue q (ping_pong tx q)"
proof -
  have "ping_pong tx q = q\<lparr>sq_lat_min := sq_lat_min (ping_pong tx q), sq_lat_max := sq_lat_max (ping_pong tx q),
      sq_lat_total := sq_lat_total (ping_pong tx q)\<rparr>"
    by (simp add: ping_pong_def Let_def)
  then show ?thesis unfolding same_queue_def by blast
qed

lemma copy_buf_keeps:
  "copy_buf nm fsg p flen c q km = (c', q', km') \<Longrightarrow> same_queue q q'"
proof (induction nm fsg p flen c q km rule: copy_buf.induct)
  case (1 nm fsg p flen c q km)
  show ?case
  proof (cases "cs_tsgs c = [] \<or> flen = 0")
    case True
    then show ?thesis using "1.prems" by (auto simp: copy_buf.simps [of nm fsg p flen c q km] same_queue_refl)
  next
    case False
    note IH = "1.IH" [OF False refl refl refl]
    show ?thesis
      using False "1.prems" IH
      by (auto simp: copy_buf.simps [of nm fsg p flen c q km] Let_def intro: same_queue_trans [OF same_queue_ping_pong])
  qed
qed

lemma copy_buf_bytes:
  assumes "copy_buf False fsg p flen c q km = (c', q', km')"
    and "st_req_ok c" "cs_copied c + flen < 2 ^ 32" "distinct (room c)"
    and "set (room c) \<inter> set (seg p (fs_offset fsg + cs_foff c) flen) = {}"
    and "n = min flen (length (room c))"
  shows "byte km' = put_bytes (take n (room c)) (take n (seg p (fs_offset fsg + cs_foff c) flen)) (byte km) \<and>
    room c' = drop n (room c) \<and> st_req_ok c' \<and> cs_foff c' = cs_foff c + n \<and> cs_copied c' = cs_copied c + n \<and>
    (drop (cs_j c) sgl = cs_tsgs c \<longrightarrow> drop (cs_j c') sgl = cs_tsgs c') \<and> (n < flen \<longrightarrow> cs_tsgs c' = [])"
  using assms
proof (induction "False" fsg p flen c q km arbitrary: n rule: copy_buf.induct)
  case (1 fsg p flen c q km)
  show ?case
  proof (cases "cs_tsgs c = [] \<or> flen = 0")
    case True
    then have "n = 0" using "1.prems"(6) by (auto simp: room_def)
    then show ?thesis using True "1.prems" by (auto simp: copy_buf.simps [of False fsg p flen c q km])
  next
    case False
    define t where "t = hd (cs_tsgs c)"
    define m where "m = copy_len flen c"
    define km1 where "km1 = memcpy (ts_pg t) (u32_wrap (ts_offset t + cs_tsgoff c)) p (fs_offset fsg + cs_foff c) m km"
    have le: "cs_copied c + m < 2 ^ 32" using "1.prems"(3) copy_len_le [of flen c] by (simp add: m_def)
    note adv = copy_advance_room [OF "1.prems"(2) m_def le]
    have run: "copy_buf False fsg p (flen - m) (copy_advance m c) (ping_pong (read_u64 km1 p (fs_offset fsg)) q) km1 = (c', q', km')"
      using "1.prems"(1) False
      by (simp add: copy_buf.simps [of False fsg p flen c q km] Let_def t_def m_def km1_def)
    have "t \<in> set (cs_tsgs c)" using False by (simp add: t_def)
    then have "ts_offset t + cs_tsgoff c < 2 ^ 32"
      using "1.prems"(2) False by (auto simp: st_req_ok_def t_def split: list.splits)
    then have b1: "byte km1 = put_bytes (take m (room c)) (seg p (fs_offset fsg + cs_foff c) m) (byte km)"
      using adv(7) False by (simp add: km1_def memcpy_bytes u32_wrap_small t_def)
    let ?n = "min (flen - m) (length (room (copy_advance m c)))"
    have n: "n = m + ?n" using "1.prems"(6) adv(1,5,6) by auto
    have src: "seg p (fs_offset fsg + cs_foff (copy_advance m c)) (flen - m) = drop m (seg p (fs_offset fsg + cs_foff c) flen)"
      using False adv(3) by (simp add: seg_drop add.assoc)
    have disj: "set (room (copy_advance m c)) \<inter> set (seg p (fs_offset fsg + cs_foff (copy_advance m c)) (flen - m)) = {}"
      using "1.prems"(5) unfolding src adv(1) by (meson disjoint_iff in_set_dropD)
    have IH: "byte km' = put_bytes (take ?n (room (copy_advance m c)))
        (take ?n (seg p (fs_offset fsg + cs_foff (copy_advance m c)) (flen - m))) (byte km1) \<and>
      room c' = drop ?n (room (copy_advance m c)) \<and> st_req_ok c' \<and> cs_foff c' = cs_foff (copy_advance m c) + ?n \<and>
      cs_copied c' = cs_copied (copy_advance m c) + ?n \<and>
      (drop (cs_j (copy_advance m c)) sgl = cs_tsgs (copy_advance m c) \<longrightarrow> drop (cs_j c') sgl = cs_tsgs c') \<and>
      (?n < flen - m \<longrightarrow> cs_tsgs c' = [])"
    proof (rule "1.hyps" [OF False t_def m_def _ run adv(2) _ _ disj refl])
      show "cs_copied (copy_advance m c) + (flen - m) < 2 ^ 32" using "1.prems"(3) adv(4,5) False by simp
      show "distinct (room (copy_advance m c))" using "1.prems"(4) adv(1) by simp
    qed (simp add: km1_def)
    have "byte km' = put_bytes (take ?n (drop m (room c))) (take ?n (drop m (seg p (fs_offset fsg + cs_foff c) flen)))
        (put_bytes (take m (room c)) (take m (seg p (fs_offset fsg + cs_foff c) flen)) (byte km))"
      using IH b1 adv(1,5) src by (simp add: seg_take min_def)
    also have "\<dots> = put_bytes (take n (room c)) (take n (seg p (fs_offset fsg + cs_foff c) flen)) (byte km)"
      unfolding n take_add
    proof (rule put_bytes_append)
      show "set (take m (room c)) \<inter> set (take ?n (drop m (room c))) = {}"
        using "1.prems"(4) by (meson disjoint_iff in_set_takeD set_take_disj_set_drop_if_distinct order_refl)
      show "set (take m (room c)) \<inter> set (take ?n (drop m (seg p (fs_offset fsg + cs_foff c) flen))) = {}"
        using "1.prems"(5) by (meson disjoint_iff in_set_takeD in_set_dropD)
    qed (use adv(5,6) in simp)
    finally have "byte km' = put_bytes (take n (room c)) (take n (seg p (fs_offset fsg + cs_foff c) flen)) (byte km)" .
    moreover have "room c' = drop n (room c)"
    proof -
      have "room c' = drop ?n (drop m (room c))" using IH adv(1) by metis
      also have "\<dots> = drop (?n + m) (room c)" by (rule drop_drop)
      finally show ?thesis using n by (metis add.commute)
    qed
    moreover have "cs_foff c' = cs_foff c + n" "cs_copied c' = cs_copied c + n"
      using IH adv(3,4) False n by (metis add.assoc)+
    moreover have "n < flen \<longrightarrow> ?n < flen - m" using n by linarith
    ultimately show ?thesis using IH adv(8) by blast
  qed
qed

section \<open>Reading buffers\<close>

text \<open>The addresses of the bytes that cnt buffers hold, from index idx of the ring on.\<close>

definition buf_bytes :: "flq_sg \<Rightarrow> (nat \<times> nat) list" where
  "buf_bytes sd = seg (the (fs_pg sd)) (fs_offset sd) (fs_len sd)"

fun held :: "flq_sg list \<Rightarrow> nat \<Rightarrow> nat \<Rightarrow> (nat \<times> nat) list" where
  "held sds idx 0 = []"
| "held sds idx (Suc cnt) = buf_bytes (sds ! idx) @ held sds (Suc idx mod length sds) cnt"

lemma read_bufs_keeps:
  assumes "fq_sdesc (sq_flq q) = Some sds" "\<forall>sd\<in>set sds. fs_pg sd \<noteq> None" "idx < length sds"
  shows "\<exists>i' c' q' km'. read_bufs nm cnt i idx c q km = Some (i + i', (idx + i') mod length sds, c', q', km') \<and>
    i' \<le> cnt \<and> same_queue q q'"
  using assms
proof (induction cnt arbitrary: i idx c q km)
  case 0
  then show ?case by (auto simp: same_queue_refl)
next
  case (Suc cnt)
  let ?n = "length sds"
  obtain p where p: "fs_pg (sds ! idx) = Some p" using Suc.prems(2,3) nth_mem by blast
  obtain c1 q1 km1 where b: "copy_buf nm (sds ! idx) p (fs_len (sds ! idx)) (c\<lparr>cs_foff := 0\<rparr>) q km = (c1, q1, km1)"
    by (metis prod_cases3)
  note same = copy_buf_keeps [OF b]
  have wrap: "(if idx + 1 = ?n then 0 else idx + 1) = Suc idx mod ?n" using Suc.prems(3) by (simp add: mod_Suc)
  show ?case
  proof (cases "cs_tsgs c \<noteq> [] \<and> cs_foff c1 = fs_len (sds ! idx)")
    case True
    have "Suc idx mod ?n < ?n" by (rule mod_less_divisor) (use Suc.prems(3) in linarith)
    then obtain i' c' q' km' where r: "read_bufs nm cnt (Suc i) (Suc idx mod ?n) (c1\<lparr>cs_foff := 0\<rparr>) q1 km1 =
        Some (Suc i + i', (Suc idx mod ?n + i') mod ?n, c', q', km')" "i' \<le> cnt" "same_queue q1 q'"
      using Suc.IH [of q1 "Suc idx mod ?n" "Suc i" "c1\<lparr>cs_foff := 0\<rparr>" km1] Suc.prems same_queue_flq [OF same] by auto
    have "(Suc idx mod ?n + i') mod ?n = (idx + Suc i') mod ?n" by (simp add: mod_add_left_eq)
    then show ?thesis
      using r True b p Suc.prems same_queue_trans [OF same] wrap
      by (intro exI [of _ "Suc i'"]) (simp only: read_bufs.simps, simp)
  next
    case False
    then show ?thesis using b p Suc.prems same
      by (intro exI [of _ 0]) (auto simp: same_queue_refl)
  qed
qed

lemma room_foff [simp]: "room (c\<lparr>cs_foff := f\<rparr>) = room c" "st_req_ok (c\<lparr>cs_foff := f\<rparr>) = st_req_ok c"
  by (simp_all add: room_def st_req_ok_def split: list.split)

lemma read_bufs_bytes:
  assumes "read_bufs False cnt i idx c q km = Some (i', idx', c', q', km')"
    and "fq_sdesc (sq_flq q) = Some sds" "idx < length sds"
    and "st_req_ok c" "cs_copied c + length (held sds idx cnt) < 2 ^ 32" "distinct (room c)" "cs_foff c = 0"
    and "set (room c) \<inter> set (held sds idx cnt) = {}"
    and "k = min (length (held sds idx cnt)) (length (room c))"
  shows "byte km' = put_bytes (take k (room c)) (take k (held sds idx cnt)) (byte km) \<and>
    room c' = drop k (room c) \<and> cs_copied c' = cs_copied c + k \<and> i \<le> i' \<and> i' \<le> i + cnt \<and>
    (drop (cs_j c) sgl = cs_tsgs c \<longrightarrow> drop (cs_j c') sgl = cs_tsgs c') \<and>
    drop k (held sds idx cnt) = drop (cs_foff c') (held sds idx' (i + cnt - i')) \<and>
    (if i' = i + cnt then cs_foff c' = 0 else cs_foff c' < fs_len (sds ! idx') \<or> cs_foff c' = 0) \<and> st_req_ok c'"
  using assms
proof (induction cnt arbitrary: i idx c q km k)
  case 0
  then show ?case by auto
next
  case (Suc cnt)
  let ?n = "length sds" and ?sd = "sds ! idx"
  show ?case
  proof (cases "cs_tsgs c = []")
    case True
    then have "room c = []" by (simp add: room_def)
    then show ?thesis using True Suc.prems by simp
  next
    case False
    obtain p where p: "fs_pg ?sd = Some p"
      using Suc.prems(1-3) False by (auto split: option.splits)
    obtain c1 q1 km1 where b: "copy_buf False ?sd p (fs_len ?sd) (c\<lparr>cs_foff := 0\<rparr>) q km = (c1, q1, km1)"
      by (metis prod_cases3)
    let ?m = "min (fs_len ?sd) (length (room c))" and ?S2 = "held sds (Suc idx mod ?n) cnt"
    have S: "held sds idx (Suc cnt) = buf_bytes ?sd @ ?S2" by simp
    have bb: "seg p (fs_offset ?sd) (fs_len ?sd) = buf_bytes ?sd" "length (buf_bytes ?sd) = fs_len ?sd"
      using p by (simp_all add: buf_bytes_def)
    have B: "byte km1 = put_bytes (take ?m (room c)) (take ?m (buf_bytes ?sd)) (byte km) \<and>
        room c1 = drop ?m (room c) \<and> st_req_ok c1 \<and> cs_foff c1 = ?m \<and> cs_copied c1 = cs_copied c + ?m \<and>
        (drop (cs_j c) sgl = cs_tsgs c \<longrightarrow> drop (cs_j c1) sgl = cs_tsgs c1) \<and> (?m < fs_len ?sd \<longrightarrow> cs_tsgs c1 = [])"
      using copy_buf_bytes [OF b, of ?m sgl] Suc.prems(4-6,8) bb S by (simp add: disjoint_iff)
    show ?thesis
    proof (cases "?m = fs_len ?sd")
      case True
      have wrap: "(if idx + 1 = ?n then 0 else idx + 1) = Suc idx mod ?n" using Suc.prems(3) by (simp add: mod_Suc)
      have run: "read_bufs False cnt (Suc i) (Suc idx mod ?n) (c1\<lparr>cs_foff := 0\<rparr>) q1 km1 = Some (i', idx', c', q', km')"
        using Suc.prems(1-3) False p b B True wrap by simp
      have lt: "Suc idx mod ?n < ?n" by (rule mod_less_divisor) (use Suc.prems(3) in linarith)
      let ?k = "min (length ?S2) (length (room (c1\<lparr>cs_foff := 0\<rparr>)))"
      have k: "k = ?m + ?k" using Suc.prems(9) B True S bb by auto
      have IH: "byte km' = put_bytes (take ?k (room c1)) (take ?k ?S2) (byte km1) \<and>
          room c' = drop ?k (room c1) \<and> cs_copied c' = cs_copied c1 + ?k \<and> Suc i \<le> i' \<and> i' \<le> Suc i + cnt \<and>
          (drop (cs_j c1) sgl = cs_tsgs c1 \<longrightarrow> drop (cs_j c') sgl = cs_tsgs c') \<and>
          drop ?k ?S2 = drop (cs_foff c') (held sds idx' (Suc i + cnt - i')) \<and>
          (if i' = Suc i + cnt then cs_foff c' = 0 else cs_foff c' < fs_len (sds ! idx') \<or> cs_foff c' = 0) \<and> st_req_ok c'"
      proof -
        have "fq_sdesc (sq_flq q1) = Some sds" using same_queue_flq [OF copy_buf_keeps [OF b]] Suc.prems(2) by simp
        moreover have "cs_copied c1 + length ?S2 < 2 ^ 32" using Suc.prems(5) B S bb by simp
        moreover have "distinct (room c1)" using B Suc.prems(6) by simp
        moreover have "set (room c1) \<inter> set ?S2 = {}"
          using Suc.prems(8) set_drop_subset [of ?m "room c"] B unfolding S set_append by auto
        ultimately show ?thesis using Suc.IH [OF run _ lt _ _ _ _ _ refl] B by simp
      qed
      have t: "take k (held sds idx (Suc cnt)) = take ?m (buf_bytes ?sd) @ take ?k ?S2"
        "drop k (held sds idx (Suc cnt)) = drop ?k ?S2"
        using k True bb unfolding S by (simp_all add: min_def)
      have c1: "room (c1\<lparr>cs_foff := 0\<rparr>) = drop ?m (room c)" "byte km1 = put_bytes (take ?m (room c)) (take ?m (buf_bytes ?sd)) (byte km)"
        "cs_copied c1 = cs_copied c + ?m" "drop (cs_j c) sgl = cs_tsgs c \<longrightarrow> drop (cs_j c1) sgl = cs_tsgs c1"
        using B by auto
      define k2 where "k2 = ?k"
      have k2: "byte km' = put_bytes (take k2 (drop ?m (room c))) (take k2 ?S2) (byte km1)" "room c' = drop k2 (drop ?m (room c))"
        "cs_copied c' = cs_copied c1 + k2" "k = ?m + k2"
        using IH c1(1) k by (simp_all add: k2_def)
      have "byte km' = put_bytes (take k (room c)) (take k (held sds idx (Suc cnt))) (byte km)"
        unfolding t(1) unfolding k2_def [symmetric] k2(4)
      proof (rule put_bytes_compose [OF c1(2) k2(1)])
        show "set (room c) \<inter> set (take k2 ?S2) = {}"
          using Suc.prems(8) set_take_subset [of k2 ?S2] unfolding S set_append by blast
      qed (use bb Suc.prems(6) in simp_all)
      moreover have "room c' = drop k (room c)" unfolding k2(2,4) by (simp add: add.commute)
      moreover have "cs_copied c' = cs_copied c + k" using k2(3,4) c1(3) by simp
      moreover have "Suc i + cnt = i + Suc cnt" by simp
      ultimately show ?thesis using IH c1(4) t(2) by (metis Suc_leD)
    next
      case less: False
      then have m: "?m < fs_len ?sd" "?m = length (room c)" by linarith+
      have "k = ?m" using m Suc.prems(9) S bb by auto
      moreover have "i' = i" "idx' = idx" "c' = c1" "km' = km1"
      proof -
        have "cs_foff c1 \<noteq> fs_len ?sd" using B m by simp
        then show "i' = i" "idx' = idx" "c' = c1" "km' = km1" using Suc.prems(1-3) False p b by simp_all
      qed
      ultimately show ?thesis using B S m bb
        by (simp add: min_def)
    qed
  qed
qed

section \<open>Operations on well-formed queues\<close>

text \<open>What the operations on the receive side leave as it is.\<close>

definition st_keeps :: "st_queue \<Rightarrow> st_queue \<Rightarrow> bool" where
  "st_keeps q q' \<longleftrightarrow> sq_rngsz q' = sq_rngsz q \<and> sq_rngsz_cmpt q' = sq_rngsz_cmpt q \<and> sq_bufsz q' = sq_bufsz q \<and>
     sq_cmpt q' = sq_cmpt q \<and> sq_cidx_cmpt q' = sq_cidx_cmpt q \<and> sq_cur q' = sq_cur q \<and> sq_pidx q' = sq_pidx q \<and>
     length (sq_ring q') = length (sq_ring q) \<and> fq_size (sq_flq q') = fq_size (sq_flq q) \<and>
     fq_desc_pg_shift (sq_flq q') = fq_desc_pg_shift (sq_flq q) \<and>
     length (fq_sdesc_info (sq_flq q')) = length (fq_sdesc_info (sq_flq q))"

definition sdesc_ok :: "st_queue \<Rightarrow> bool" where
  "sdesc_ok q \<longleftrightarrow> (\<exists>sds. fq_sdesc (sq_flq q) = Some sds \<and> length sds = fq_size (sq_flq q) \<and>
     (\<forall>sd\<in>set sds. fs_pg sd \<noteq> None))"

lemma st_keeps_trans: "st_keeps q q' \<Longrightarrow> st_keeps q' q'' \<Longrightarrow> st_keeps q q''"
  by (simp add: st_keeps_def)

lemma shape_keeps:
  "st_shape q \<Longrightarrow> st_keeps q q' \<Longrightarrow> sdesc_ok q' \<Longrightarrow> fq_pidx_pend (sq_flq q') < fq_size (sq_flq q') \<Longrightarrow> st_shape q'"
  by (simp add: st_shape_def st_keeps_def sdesc_ok_def Let_def)

lemma shape_sdesc: "st_shape q \<Longrightarrow> sdesc_ok q"
  by (auto simp: st_shape_def sdesc_ok_def Let_def)

lemma flq_refill_recycle:
  assumes "st_shape q" "idx < fq_size (sq_flq q)" "sq_avail q + cnt < 2 ^ 32" "fq_sdesc (sq_flq q) = Some sds"
  shows "\<exists>sds' q'. qdma_flq_refill env idx cnt True q km = Some (cnt, q', km) \<and> st_keeps q q' \<and> sdesc_ok q' \<and>
    sq_avail q' = sq_avail q + cnt \<and> fq_pidx_pend (sq_flq q') = fq_pidx_pend (sq_flq q) \<and>
    sq_pend_list q' = sq_pend_list q \<and> fq_pkt_dlen (sq_flq q') = fq_pkt_dlen (sq_flq q) \<and>
    fq_sdesc (sq_flq q') = Some sds' \<and> length sds' = length sds \<and>
    (\<forall>k<length sds. sds' ! k = (if k \<in> window (length sds) idx cnt then (sds ! k)\<lparr>fs_len := sq_bufsz q\<rparr> else sds ! k))"
proof -
  let ?n = "length sds"
  have n: "?n = fq_size (sq_flq q)" "length (fq_sdesc_info (sq_flq q)) = ?n" "length (sq_ring q) = ?n" "0 < ?n"
    "\<forall>sd\<in>set sds. fs_pg sd \<noteq> None"
    using assms(1,4) by (auto simp: st_shape_def Let_def)
  obtain sds' infos' where r: "refill_loop True cnt 0 idx q km = Some (0 + cnt, q\<lparr>sq_avail := sq_avail q + cnt,
      sq_flq := (sq_flq q)\<lparr>fq_sdesc := Some sds', fq_sdesc_info := infos'\<rparr>\<rparr>, km)" "length sds' = ?n" "length infos' = ?n"
    "\<forall>k<?n. sds' ! k = (if k \<in> window ?n idx cnt then (sds ! k)\<lparr>fs_len := sq_bufsz q\<rparr> else sds ! k)"
    using refill_recycle [OF assms(4) refl n(2,3) n(1) [symmetric] n(4) _ assms(3), of idx 0 km] assms(2) n(1) by auto
  have pg: "\<forall>sd\<in>set sds'. fs_pg sd \<noteq> None"
  proof
    fix sd assume "sd \<in> set sds'"
    then obtain k where k: "k < ?n" "sd = sds' ! k" using r(2) by (auto simp: in_set_conv_nth)
    then have "fs_pg sd = fs_pg (sds ! k)" using r(4) by simp
    then show "fs_pg sd \<noteq> None" using n(5) k(1) nth_mem by metis
  qed
  show ?thesis
    using r n pg
    by (intro exI [of _ sds'] exI [of _ "snd (the (map_option (\<lambda>(a, b, c). (a, b)) (qdma_flq_refill env idx cnt True q km)))"])
      (auto simp: qdma_flq_refill_def st_keeps_def sdesc_ok_def)
qed

text \<open>The position in the request at which a read starts.\<close>

definition start_pos :: "st_req \<Rightarrow> copy_st" where
  "start_pos req = \<lparr>cs_tsgs = drop (sr_sg_idx req) (sr_sgl req), cs_tsgoff = sr_sg_offset req, cs_j = sr_sg_idx req,
     cs_foff = 0, cs_copied = 0\<rparr>"

lemma c2h_read_form:
  assumes shape: "st_shape q" and pidx: "sq_pidx q < fq_size (sq_flq q)" and av: "sq_avail q < 2 ^ 31"
    and sds: "fq_sdesc (sq_flq q) = Some sds"
    and cnt: "cnt = ring_idx_delta (sq_pidx q) (fq_pidx_pend (sq_flq q)) (fq_size (sq_flq q))" "cnt \<noteq> 0"
    and idx: "\<not> (sr_sg_idx req \<noteq> 0 \<and> sr_sg_idx req \<ge> length (sr_sgl req))"
  shows "\<exists>i c q1 km' q' sds'. read_bufs (sr_no_memcpy req) cnt 0 (fq_pidx_pend (sq_flq q)) (start_pos req) q km =
      Some (i, (fq_pidx_pend (sq_flq q) + i) mod length sds, c, q1, km') \<and> i \<le> cnt \<and>
    descq_st_c2h_read env update_pidx refill req q km =
      Some (int (cs_copied c), req\<lparr>sr_sg_idx := cs_j c, sr_sg_offset := cs_tsgoff c,
        sr_left := u32_sub (sr_left req) (cs_copied c)\<rparr>, q', km') \<and>
    st_keeps q q' \<and> sdesc_ok q' \<and> sq_avail q' = sq_avail q + (if refill then i else 0) \<and> sq_pend_list q' = sq_pend_list q \<and>
    fq_pidx_pend (sq_flq q') = (fq_pidx_pend (sq_flq q) + i) mod length sds \<and>
    fq_pkt_dlen (sq_flq q') = u32_sub (fq_pkt_dlen (sq_flq q)) (cs_copied c) \<and>
    fq_sdesc (sq_flq q') = Some (if cs_foff c = 0 then sds' else
      sds'[(fq_pidx_pend (sq_flq q) + i) mod length sds := (sds' ! ((fq_pidx_pend (sq_flq q) + i) mod length sds))
        \<lparr>fs_offset := u32_wrap (fs_offset (sds' ! ((fq_pidx_pend (sq_flq q) + i) mod length sds)) + cs_foff c),
         fs_len := u32_sub (fs_len (sds' ! ((fq_pidx_pend (sq_flq q) + i) mod length sds))) (cs_foff c)\<rparr>]) \<and>
    length sds' = length sds \<and>
    (\<forall>k<length sds. sds' ! k = (if refill \<and> k \<in> window (length sds) (fq_pidx_pend (sq_flq q)) i
       then (sds ! k)\<lparr>fs_len := sq_bufsz q\<rparr> else sds ! k))"
proof -
  let ?n = "length sds" and ?pend = "fq_pidx_pend (sq_flq q)"
  have n: "fq_size (sq_flq q) = ?n" "0 < ?n" "?n < 2 ^ 16" "?pend < ?n" "\<forall>sd\<in>set sds. fs_pg sd \<noteq> None"
    using shape sds by (auto simp: st_shape_def Let_def)
  have cnt_n: "cnt < ?n" using delta_lt [of "sq_pidx q" ?n ?pend] pidx n cnt(1) by simp
  obtain i c q1 km' where r: "read_bufs (sr_no_memcpy req) cnt 0 ?pend (start_pos req) q km =
      Some (i, (?pend + i) mod ?n, c, q1, km')" "i \<le> cnt" "same_queue q q1"
    using read_bufs_keeps [OF sds n(5,4), of "sr_no_memcpy req" cnt 0 "start_pos req" km] by auto
  let ?q2 = "incr_cmpl_desc_cnt i q1"
  have q2: "st_keeps q ?q2" "sq_flq ?q2 = sq_flq q" "sq_avail ?q2 = sq_avail q" "sq_pend_list ?q2 = sq_pend_list q" "sq_bufsz ?q2 = sq_bufsz q"
    using r(3) by (auto simp: same_queue_def incr_cmpl_desc_cnt_def st_keeps_def)
  have "sdesc_ok ?q2" using shape_sdesc [OF shape] q2(2) by (simp add: sdesc_ok_def)
  then have shape2: "st_shape ?q2" using shape_keeps [OF shape q2(1)] q2(2) n(1,4) by simp
  have "\<exists>sds' q3. (if refill \<and> i \<noteq> 0 then qdma_flq_refill env ?pend i True ?q2 km' else Some (0, ?q2, km')) =
      Some ((if refill \<and> i \<noteq> 0 then i else 0), q3, km') \<and> st_keeps q q3 \<and> sdesc_ok q3 \<and>
      sq_avail q3 = sq_avail q + (if refill then i else 0) \<and> fq_pidx_pend (sq_flq q3) = ?pend \<and>
      sq_pend_list q3 = sq_pend_list q \<and> fq_pkt_dlen (sq_flq q3) = fq_pkt_dlen (sq_flq q) \<and>
      fq_sdesc (sq_flq q3) = Some sds' \<and> length sds' = ?n \<and>
      (\<forall>k<?n. sds' ! k = (if refill \<and> k \<in> window ?n ?pend i then (sds ! k)\<lparr>fs_len := sq_bufsz q\<rparr> else sds ! k))"
  proof (cases "refill \<and> i \<noteq> 0")
    case True
    have "fq_sdesc (sq_flq ?q2) = Some sds" "?pend < fq_size (sq_flq ?q2)" "sq_avail ?q2 + i < 2 ^ 32"
      using q2 sds n r(2) cnt_n av by simp_all
    from flq_refill_recycle [OF shape2 this(2,3,1), of env km'] obtain sds' q3 where
      "qdma_flq_refill env ?pend i True ?q2 km' = Some (i, q3, km')" "st_keeps ?q2 q3" "sdesc_ok q3"
      "sq_avail q3 = sq_avail ?q2 + i" "fq_pidx_pend (sq_flq q3) = fq_pidx_pend (sq_flq ?q2)"
      "sq_pend_list q3 = sq_pend_list ?q2" "fq_pkt_dlen (sq_flq q3) = fq_pkt_dlen (sq_flq ?q2)"
      "fq_sdesc (sq_flq q3) = Some sds'" "length sds' = ?n"
      "\<forall>k<?n. sds' ! k = (if k \<in> window ?n ?pend i then (sds ! k)\<lparr>fs_len := sq_bufsz ?q2\<rparr> else sds ! k)"
      by blast
    then show ?thesis using True q2 st_keeps_trans [OF q2(1)] by (intro exI [of _ sds'] exI [of _ q3]) simp
  next
    case False
    then show ?thesis using q2 sds \<open>sdesc_ok ?q2\<close>
      by (intro exI [of _ sds] exI [of _ ?q2]) auto
  qed
  then obtain sds' q3 where q3:
    "(if refill \<and> i \<noteq> 0 then qdma_flq_refill env ?pend i True ?q2 km' else Some (0, ?q2, km')) =
      Some ((if refill \<and> i \<noteq> 0 then i else 0), q3, km')" "st_keeps q q3" "sdesc_ok q3"
    "sq_avail q3 = sq_avail q + (if refill then i else 0)" "fq_pidx_pend (sq_flq q3) = ?pend"
    "sq_pend_list q3 = sq_pend_list q" "fq_pkt_dlen (sq_flq q3) = fq_pkt_dlen (sq_flq q)"
    "fq_sdesc (sq_flq q3) = Some sds'" "length sds' = ?n"
    "\<forall>k<?n. sds' ! k = (if refill \<and> k \<in> window ?n ?pend i then (sds ! k)\<lparr>fs_len := sq_bufsz q\<rparr> else sds ! k)"
    by blast
  have size3: "fq_size (sq_flq q3) = ?n" using q3(2) n(1) by (simp add: st_keeps_def)
  have pg3: "\<forall>sd\<in>set sds'. fs_pg sd \<noteq> None" using q3(3,8) by (simp add: sdesc_ok_def)
  have incr: "ring_idx_incr ?pend i ?n = (?pend + i) mod ?n" using n r(2) cnt_n by (intro incr_small) simp_all
  let ?idx = "(?pend + i) mod ?n"
  have idx_n: "?idx < length sds'" using n(2) q3(9) by simp
  define sds2 where "sds2 = (if cs_foff c = 0 then sds' else sds'[?idx := (sds' ! ?idx)
      \<lparr>fs_offset := u32_wrap (fs_offset (sds' ! ?idx) + cs_foff c), fs_len := u32_sub (fs_len (sds' ! ?idx)) (cs_foff c)\<rparr>])"
  have sds2: "length sds2 = ?n" "\<forall>sd\<in>set sds2. fs_pg sd \<noteq> None"
    using q3(9) pg3 idx_n by (auto simp: sds2_def dest!: set_update_subset_insert [THEN subsetD])
  define q4 where "q4 = q3\<lparr>sq_flq := (sq_flq q3)\<lparr>fq_pidx_pend := ?idx, fq_sdesc := Some sds2,
    fq_pkt_dlen := u32_sub (fq_pkt_dlen (sq_flq q3)) (cs_copied c)\<rparr>\<rparr>"
  define q' where "q' = (if i \<noteq> 0 \<and> update_pidx then queue_pidx_update (q4\<lparr>sq_pidx_info := ring_idx_decr ?idx 1 ?n\<rparr>) else q4)"
  have "descq_st_c2h_read env update_pidx refill req q km =
      Some (int (cs_copied c), req\<lparr>sr_sg_idx := cs_j c, sr_sg_offset := cs_tsgoff c,
        sr_left := u32_sub (sr_left req) (cs_copied c)\<rparr>, q', km')"
  proof -
    have "descq_st_c2h_read env update_pidx refill req q km =
        (case read_bufs (sr_no_memcpy req) cnt 0 ?pend (start_pos req) q km of
          None \<Rightarrow> None
        | Some (i, idx, c, q, km) \<Rightarrow>
            (case (if refill \<and> i \<noteq> 0 then qdma_flq_refill env ?pend i True (incr_cmpl_desc_cnt i q) km
                   else Some (0, incr_cmpl_desc_cnt i q, km)) of
               None \<Rightarrow> None
             | Some (_, q, km) \<Rightarrow>
                 let flq = sq_flq q; pend = ring_idx_incr ?pend i (fq_size flq);
                     flq = flq\<lparr>fq_pidx_pend := pend,
                       fq_sdesc := (case fq_sdesc flq of None \<Rightarrow> None
                         | Some sds \<Rightarrow> Some (if cs_foff c = 0 then sds
                             else sds[idx := (sds ! idx)\<lparr>fs_offset := u32_wrap (fs_offset (sds ! idx) + cs_foff c),
                               fs_len := u32_sub (fs_len (sds ! idx)) (cs_foff c)\<rparr>])),
                       fq_pkt_dlen := u32_sub (fq_pkt_dlen flq) (cs_copied c)\<rparr>;
                     q = q\<lparr>sq_flq := flq\<rparr>;
                     q = (if i \<noteq> 0 \<and> update_pidx then queue_pidx_update (q\<lparr>sq_pidx_info := ring_idx_decr pend 1 (fq_size flq)\<rparr>) else q)
                 in Some (int (cs_copied c),
                      req\<lparr>sr_sg_idx := cs_j c, sr_sg_offset := cs_tsgoff c, sr_left := u32_sub (sr_left req) (cs_copied c)\<rparr>,
                      q, km)))"
      using cnt idx unfolding descq_st_c2h_read_def Let_def start_pos_def by (simp only: if_False simp_thms) 
    also have "\<dots> = Some (int (cs_copied c), req\<lparr>sr_sg_idx := cs_j c, sr_sg_offset := cs_tsgoff c,
        sr_left := u32_sub (sr_left req) (cs_copied c)\<rparr>, q', km')"
      unfolding r(1) option.case prod.case q3(1) size3 incr q3(8) Let_def q'_def q4_def sds2_def
      by (simp add: size3)
    finally show ?thesis .
  qed
  moreover have flq': "sq_flq q' = sq_flq q4" "st_keeps q4 q'" "sq_avail q' = sq_avail q4" "sq_pend_list q' = sq_pend_list q4"
    by (simp_all add: q'_def queue_pidx_update_def st_keeps_def)
  moreover have "st_keeps q q'"
  proof (rule st_keeps_trans [OF q3(2) st_keeps_trans [OF _ flq'(2)]])
    show "st_keeps q3 q4" by (simp add: st_keeps_def q4_def)
  qed
  moreover have "sdesc_ok q'" unfolding sdesc_ok_def flq'(1) using sds2 size3 by (simp add: q4_def)
  moreover have "sq_avail q' = sq_avail q + (if refill then i else 0)" "sq_pend_list q' = sq_pend_list q"
    "fq_pidx_pend (sq_flq q') = ?idx" "fq_pkt_dlen (sq_flq q') = u32_sub (fq_pkt_dlen (sq_flq q)) (cs_copied c)"
    "fq_sdesc (sq_flq q') = Some sds2"
    unfolding flq'(1,3,4) by (simp_all add: q4_def q3(4,6,7))
  ultimately show ?thesis
    using r(1,2) q3(9,10) unfolding sds2_def
    by (intro exI [of _ i] exI [of _ c] exI [of _ q1] exI [of _ km'] exI [of _ q'] exI [of _ sds'] conjI) assumption+
qed

lemma ring_pos_inj:
  assumes "idx < n" "j < n" "j' < n" "(idx + j) mod n = (idx + j') mod (n::nat)"
  shows "j = j'"
proof -
  have "(idx + j) mod n = (if idx + j < n then idx + j else idx + j - n)"
    "(idx + j') mod n = (if idx + j' < n then idx + j' else idx + j' - n)"
    using assms(1-3) by (intro mod_twice; simp)+
  then show ?thesis using assms by (simp split: if_splits)
qed

lemma window_disjoint:
  assumes "idx < n" "i \<le> cnt" "cnt \<le> n"
  shows "window n ((idx + i) mod n) (cnt - i) \<inter> window n idx i = {}"
proof -
  have False if "j < cnt - i" "j' < i" "(idx + i + j) mod n = (idx + j') mod n" for j j'
  proof -
    have "i + j < n" "j' < n" using that(1,2) assms(2,3) by linarith+
    then show False using ring_pos_inj [of idx n "i + j" j'] that(2,3) assms(1) by (simp add: add.assoc)
  qed
  then show ?thesis unfolding window_mod by (auto simp: window_def)
qed

lemma window_first: "idx < n \<Longrightarrow> 0 < cnt \<Longrightarrow> cnt \<le> n \<Longrightarrow> idx \<notin> window n (Suc idx mod n) (cnt - 1)"
  using window_disjoint [of idx n 1 cnt] by (auto simp: window_def)

lemma held_cong:
  assumes "length sds = length sds'" "idx < length sds" "\<forall>k\<in>window (length sds) idx cnt. sds ! k = sds' ! k"
  shows "held sds idx cnt = held sds' idx cnt"
  using assms
proof (induction cnt arbitrary: idx)
  case (Suc cnt)
  have "Suc idx mod length sds < length sds" by (rule mod_less_divisor) (use Suc.prems(2) in linarith)
  then show ?case using Suc by (simp add: window_Suc window_mod)
qed simp

lemma held_partial:
  assumes "idx < length sds" "0 < cnt" "cnt \<le> length sds" "f \<le> fs_len (sds ! idx)"
    "sd = (sds ! idx)\<lparr>fs_offset := fs_offset (sds ! idx) + f, fs_len := fs_len (sds ! idx) - f\<rparr>"
  shows "held (sds[idx := sd]) idx cnt = drop f (held sds idx cnt)"
proof -
  obtain m where m: "cnt = Suc m" using assms(2) by (cases cnt) auto
  let ?i = "Suc idx mod length sds"
  have "?i < length sds" by (rule mod_less_divisor) (use assms(1) in linarith)
  moreover have "idx \<notin> window (length sds) ?i m" using window_first [OF assms(1-3)] m by simp
  ultimately have "held (sds[idx := sd]) ?i m = held sds ?i m"
    by (intro held_cong) (simp_all, metis nth_list_update_neq)
  moreover have "buf_bytes sd = drop f (buf_bytes (sds ! idx))" by (simp add: assms(5) buf_bytes_def seg_drop)
  moreover have "f - length (buf_bytes (sds ! idx)) = 0" using assms(4) by (simp add: buf_bytes_def)
  ultimately show ?thesis using assms(1) by (simp add: m)
qed

text \<open>The bytes received and not yet read, in their order.\<close>

definition unread :: "st_queue \<Rightarrow> (nat \<times> nat) list" where
  "unread q = (case fq_sdesc (sq_flq q) of None \<Rightarrow> []
     | Some sds \<Rightarrow> held sds (fq_pidx_pend (sq_flq q))
         (ring_idx_delta (sq_pidx q) (fq_pidx_pend (sq_flq q)) (fq_size (sq_flq q))))"

definition bufs_ok :: "st_queue \<Rightarrow> bool" where
  "bufs_ok q \<longleftrightarrow> (\<forall>sds. fq_sdesc (sq_flq q) = Some sds \<longrightarrow> (\<forall>sd\<in>set sds. fs_offset sd + fs_len sd < 2 ^ 32))"

text \<open>C32. Reading from a streaming queue delivers the received bytes in order, none lost and none
  twice: descq_st_c2h_read copies as many bytes as there are and as fit in the rest of the request;
  the rest of the request gets exactly the first unread bytes and no other memory changes; the
  position of the request moves behind them and the unread bytes are the ones that follow.\<close>

theorem c2h_read_bytes:
  assumes wf: "st_wf q" "bufs_ok q" and req: "\<not> sr_no_memcpy req" "st_req_ok (start_pos req)"
      "sr_sg_idx req = 0 \<or> sr_sg_idx req < length (sr_sgl req)"
    and room: "distinct (room (start_pos req))" "set (room (start_pos req)) \<inter> set (unread q) = {}"
    and len: "length (unread q) < 2 ^ 32" and k: "k = min (length (unread q)) (length (room (start_pos req)))"
  shows "\<exists>req' q' km'. descq_st_c2h_read env update_pidx refill req q km = Some (int k, req', q', km') \<and>
    byte km' = put_bytes (take k (room (start_pos req))) (take k (unread q)) (byte km) \<and>
    room (start_pos req') = drop k (room (start_pos req)) \<and> unread q' = drop k (unread q) \<and>
    sr_left req' = u32_sub (sr_left req) k \<and> st_wf q'"
proof -
  let ?pend = "fq_pidx_pend (sq_flq q)" and ?pidx = "sq_pidx q"
  obtain sds where sds: "fq_sdesc (sq_flq q) = Some sds" "length sds = fq_size (sq_flq q)"
    using shape_sdesc wf(1) by (auto simp: st_wf_def sdesc_ok_def)
  let ?n = "length sds"
  have n: "0 < ?n" "?n < 2 ^ 16" "?pend < ?n" "?pidx < ?n" "sq_avail q + ring_idx_delta ?pidx ?pend ?n < ?n"
    using wf(1) sds(2) by (auto simp: st_wf_def st_shape_def st_ring_def Let_def)
  define cnt where "cnt = ring_idx_delta ?pidx ?pend ?n"
  have unread: "unread q = held sds ?pend cnt" by (simp add: unread_def sds cnt_def)
  have cnt_n: "cnt < ?n" using delta_lt [of ?pidx ?n ?pend] n by (simp add: cnt_def)
  show ?thesis
  proof (cases "cnt = 0")
    case True
    then have "descq_st_c2h_read env update_pidx refill req q km = Some (0, req, q, km)"
      using sds(2) by (simp add: descq_st_c2h_read_def cnt_def)
    then show ?thesis using wf(1) k unread True by (auto simp: u32_sub_def)
  next
    case False
    have idx: "\<not> (sr_sg_idx req \<noteq> 0 \<and> sr_sg_idx req \<ge> length (sr_sgl req))" using req(3) by auto
    have pre: "st_shape q" "?pidx < fq_size (sq_flq q)" "sq_avail q < 2 ^ 31"
        "cnt = ring_idx_delta ?pidx ?pend (fq_size (sq_flq q))"
      using wf(1) n sds(2) by (simp_all add: st_wf_def cnt_def)
    obtain i c q1 km' q' sds' where
      r: "read_bufs False cnt 0 ?pend (start_pos req) q km = Some (i, (?pend + i) mod ?n, c, q1, km')"
      and i: "i \<le> cnt"
      and res: "descq_st_c2h_read env update_pidx refill req q km = Some (int (cs_copied c),
        req\<lparr>sr_sg_idx := cs_j c, sr_sg_offset := cs_tsgoff c, sr_left := u32_sub (sr_left req) (cs_copied c)\<rparr>, q', km')"
      and kp: "st_keeps q q'" "sdesc_ok q'" "sq_avail q' = sq_avail q + (if refill then i else 0)"
      and pend': "fq_pidx_pend (sq_flq q') = (?pend + i) mod ?n"
      and sds2: "fq_sdesc (sq_flq q') = Some (if cs_foff c = 0 then sds' else
        sds'[(?pend + i) mod ?n := (sds' ! ((?pend + i) mod ?n))
          \<lparr>fs_offset := u32_wrap (fs_offset (sds' ! ((?pend + i) mod ?n)) + cs_foff c),
           fs_len := u32_sub (fs_len (sds' ! ((?pend + i) mod ?n))) (cs_foff c)\<rparr>])"
      and sds': "length sds' = ?n" "\<forall>k<?n. sds' ! k = (if refill \<and> k \<in> window ?n ?pend i
         then (sds ! k)\<lparr>fs_len := sq_bufsz q\<rparr> else sds ! k)"
      using c2h_read_form [OF pre(1-3) sds(1) pre(4) False idx, where env = env and update_pidx = update_pidx and refill = refill and km = km] req(1) by auto
    let ?idx = "(?pend + i) mod ?n"
    have idx_n: "?idx < ?n" using n(1) by simp
    have "cs_copied (start_pos req) + length (held sds ?pend cnt) < 2 ^ 32" using len unread by (simp add: start_pos_def)
    note B = read_bufs_bytes [OF r sds(1) n(3) req(2) this room(1) _ room(2) [unfolded unread] k [unfolded unread],
        of "sr_sgl req"]
    have B: "byte km' = put_bytes (take k (room (start_pos req))) (take k (unread q)) (byte km)"
        "room c = drop k (room (start_pos req))" "cs_copied c = k" "drop (cs_j c) (sr_sgl req) = cs_tsgs c"
        "drop k (unread q) = drop (cs_foff c) (held sds ?idx (cnt - i))"
        "if i = cnt then cs_foff c = 0 else cs_foff c < fs_len (sds ! ?idx) \<or> cs_foff c = 0"
      using B by (simp_all add: start_pos_def unread)
    let ?req = "req\<lparr>sr_sg_idx := cs_j c, sr_sg_offset := cs_tsgoff c, sr_left := u32_sub (sr_left req) (cs_copied c)\<rparr>"
    have room': "room (start_pos ?req) = room c" using B(4) by (simp add: start_pos_def room_def split: list.split)
    have size': "fq_size (sq_flq q') = ?n" "sq_pidx q' = ?pidx" using kp(1) sds(2) by (simp_all add: st_keeps_def)
    have delta': "ring_idx_delta ?pidx ?idx ?n = cnt - i"
      unfolding cnt_def using delta_advance [of ?pidx ?n ?pend i] n i cnt_def by simp
    have same: "held sds' ?idx (cnt - i) = held sds ?idx (cnt - i)"
    proof (rule held_cong)
      show "\<forall>k\<in>window (length sds') ?idx (cnt - i). sds' ! k = sds ! k"
      proof
        fix k assume k: "k \<in> window (length sds') ?idx (cnt - i)"
        then have "k \<notin> window ?n ?pend i" using window_disjoint [OF n(3) i] cnt_n sds'(1) by auto
        moreover have "k < ?n" using k n(1) sds'(1) by (auto simp: window_def)
        ultimately show "sds' ! k = sds ! k" using sds'(2) by simp
      qed
    qed (use sds'(1) idx_n in simp_all)
    have "unread q' = drop (cs_foff c) (held sds ?idx (cnt - i))"
    proof (cases "cs_foff c = 0")
      case True
      then show ?thesis using same by (simp add: unread_def sds2 pend' size' delta')
    next
      case part: False
      then have lt: "i < cnt" "cs_foff c < fs_len (sds ! ?idx)" using B(6) i by (auto split: if_splits)
      have "?idx \<in> window ?n ?idx (cnt - i)" using lt(1) n(1) by (auto simp: window_def intro!: image_eqI [of _ _ 0])
      then have "?idx \<notin> window ?n ?pend i" using window_disjoint [OF n(3) i] cnt_n by auto
      then have at: "sds' ! ?idx = sds ! ?idx" using sds'(2) idx_n by simp
      have "fs_offset (sds ! ?idx) + fs_len (sds ! ?idx) < 2 ^ 32" using wf(2) sds(1) idx_n by (simp add: bufs_ok_def)
      then have w: "u32_wrap (fs_offset (sds ! ?idx) + cs_foff c) = fs_offset (sds ! ?idx) + cs_foff c"
        "u32_sub (fs_len (sds ! ?idx)) (cs_foff c) = fs_len (sds ! ?idx) - cs_foff c"
        using lt(2) by (simp_all add: u32_wrap_small u32_sub_def)
      show ?thesis
        using held_partial [of ?idx sds' "cnt - i" "cs_foff c", OF _ _ _ _ refl] lt at w part sds'(1) idx_n cnt_n same
        by (simp add: unread_def sds2 pend' size' delta')
    qed
    then have "unread q' = drop k (unread q)" using B(5) by simp
    moreover have "st_wf q'"
      unfolding st_wf_def
    proof
      show "st_shape q'" using shape_keeps [OF pre(1) kp(1,2)] pend' size' idx_n by simp
      show "st_ring (fq_pidx_pend (sq_flq q')) (sq_pidx q') q'"
        using n i idx_n kp(3) delta' cnt_def by (auto simp: st_ring_def pend' size' Let_def delta_small)
    qed
    ultimately show ?thesis using res B(1-3) room' by (intro exI [of _ ?req] exI [of _ q'] exI [of _ km']) simp
  qed
qed

section \<open>Type safety of the receive side\<close>

lemma c2h_read_wf:
  assumes shape: "st_shape q" and ring: "st_ring old (sq_pidx q) q" and old: "refill \<Longrightarrow> old = fq_pidx_pend (sq_flq q)"
  shows "\<exists>rv req' q' km'. descq_st_c2h_read env update_pidx refill req q km = Some (rv, req', q', km') \<and> st_keeps q q' \<and>
    st_shape q' \<and> st_ring (if refill then fq_pidx_pend (sq_flq q') else old) (sq_pidx q') q'"
proof -
  let ?pend = "fq_pidx_pend (sq_flq q)" and ?pidx = "sq_pidx q"
  obtain sds where sds: "fq_sdesc (sq_flq q) = Some sds" "length sds = fq_size (sq_flq q)"
    using shape_sdesc [OF shape] by (auto simp: sdesc_ok_def)
  let ?n = "length sds"
  have n: "0 < ?n" "?n < 2 ^ 16" "?pend < ?n" "?pidx < ?n" "old < ?n"
      "sq_avail q + ring_idx_delta ?pidx old ?n < ?n"
      "ring_idx_delta ?pend old ?n + ring_idx_delta ?pidx ?pend ?n = ring_idx_delta ?pidx old ?n"
    using shape ring sds(2) by (auto simp: st_shape_def st_ring_def Let_def)
  define cnt where "cnt = ring_idx_delta ?pidx ?pend ?n"
  have keep: "st_keeps q q" by (simp add: st_keeps_def)
  have ring0: "st_ring (if refill then ?pend else old) ?pidx q" using ring old by auto
  show ?thesis
  proof (cases "cnt = 0 \<or> sr_sg_idx req \<noteq> 0 \<and> sr_sg_idx req \<ge> length (sr_sgl req)")
    case True
    then show ?thesis using shape ring0 keep sds(2) by (auto simp: descq_st_c2h_read_def Let_def cnt_def)
  next
    case False
    have pre: "?pidx < fq_size (sq_flq q)" "sq_avail q < 2 ^ 31" "cnt = ring_idx_delta ?pidx ?pend (fq_size (sq_flq q))" "cnt \<noteq> 0"
        "\<not> (sr_sg_idx req \<noteq> 0 \<and> sr_sg_idx req \<ge> length (sr_sgl req))"
      using n sds(2) False by (simp_all add: cnt_def)
    obtain i q' km' and c :: copy_st where i: "i \<le> cnt"
      and res: "descq_st_c2h_read env update_pidx refill req q km = Some (int (cs_copied c),
        req\<lparr>sr_sg_idx := cs_j c, sr_sg_offset := cs_tsgoff c, sr_left := u32_sub (sr_left req) (cs_copied c)\<rparr>, q', km')"
      and kp: "st_keeps q q'" "sdesc_ok q'" "sq_avail q' = sq_avail q + (if refill then i else 0)"
      and pend': "fq_pidx_pend (sq_flq q') = (?pend + i) mod ?n"
      using c2h_read_form [OF shape pre(1,2) sds(1) pre(3-5), where env = env and update_pidx = update_pidx
          and refill = refill and km = km] by blast
    have size': "fq_size (sq_flq q') = ?n" "sq_pidx q' = ?pidx" using kp(1) sds(2) by (simp_all add: st_keeps_def)
    have idx_n: "(?pend + i) mod ?n < ?n" using n(1) by simp
    have cnt_n: "cnt < ?n" using delta_lt [of ?pidx ?n ?pend] n by (simp add: cnt_def)
    have d1: "ring_idx_delta ?pidx ((?pend + i) mod ?n) ?n = cnt - i"
      unfolding cnt_def using delta_advance [of ?pidx ?n ?pend i] n i cnt_def by simp
    have "ring_idx_delta ?pidx old ?n < ?n" using delta_lt [of ?pidx ?n old] n by simp
    then have "ring_idx_delta ?pend old ?n + i < ?n" using n(7) i cnt_def by linarith
    then have d2: "ring_idx_delta ((?pend + i) mod ?n) old ?n = ring_idx_delta ?pend old ?n + i"
      using delta_append [of ?pend ?n old i] n by simp
    have d3: "ring_idx_delta ((?pend + i) mod ?n) ((?pend + i) mod ?n) ?n = 0" by (simp add: ring_idx_delta_def)
    have d4: "old = ?pend \<Longrightarrow> ring_idx_delta ?pend old ?n = 0" by (simp add: ring_idx_delta_def)
    have "st_shape q'" using shape_keeps [OF shape kp(1,2)] pend' size' idx_n by simp
    moreover have "st_ring (if refill then fq_pidx_pend (sq_flq q') else old) (sq_pidx q') q'"
    proof (cases refill)
      case True
      then show ?thesis using n i idx_n kp(3) d1 d3 d4 old cnt_def by (simp add: st_ring_def pend' size' Let_def)
    next
      case False
      then show ?thesis using n i idx_n kp(3) d1 d2 cnt_def by (simp add: st_ring_def pend' size' Let_def)
    qed
    ultimately show ?thesis using res kp(1) by blast
  qed
qed

lemma fl_nr_bounds:
  assumes "len < 2 ^ 16" "0 < b" "b \<le> 2 ^ s" "s \<le> 16" "len \<le> b * n" "0 < n"
  shows "0 < fst (get_fl_nr len b s (2 ^ s - 1)) \<and> fst (get_fl_nr len b s (2 ^ s - 1)) \<le> n"
proof (cases "len = 0")
  case True
  then show ?thesis using assms(6) by (simp add: get_fl_nr_def Let_def)
next
  case False
  note le = assms(5)
  have up: "(if len mod d = 0 then len div d else len div d + 1) \<le> n" if "b \<le> d" for d
  proof -
    have d: "0 < d" "len \<le> d * n" using that assms(2) le mult_le_mono1 [OF that, of n] by linarith+
    have "(len + (d - 1)) div d \<le> (n * d + (d - 1)) div d" using d by (intro div_le_mono) (simp add: mult.commute)
    also have "\<dots> = n" using d(1) by (simp only: div_mult_self3 div_less)
    finally show ?thesis using ceil_split(1) [OF d(1), of len] False by simp
  qed
  have lo: "0 < (if len mod d = 0 then len div d else len div d + 1)" if "0 < d" for d
    using that False by (auto simp: mod_eq_0_iff_dvd dvd_imp_le div_greater_zero_iff)
  show ?thesis
  proof (cases "fl_ok len b s")
    case True
    then show ?thesis
      using get_fl_nr_ceil [of len b s] assms False up [of b] lo [of b] by auto
  next
    case bad: False
    then have z: "len AND (u32_sub len 1) = 0" using False by (simp add: fl_ok_def u32_sub_def)
    have "(2::nat) ^ s \<le> 2 ^ 16" using assms(4) by (intro power_increasing) simp_all
    then have w: "u32_wrap (len + (2 ^ s - 1)) = len + (2 ^ s - 1)" using assms(1) by (intro u32_wrap_small) simp
    have "fst (get_fl_nr len b s (2 ^ s - 1)) = (if len mod 2 ^ s = 0 then len div 2 ^ s else len div 2 ^ s + 1)"
      using z w False ceil_split(1) [of "2 ^ s" len] by (simp add: get_fl_nr_def Let_def drop_bit_eq_div del: One_nat_def)
    then show ?thesis using up [OF assms(3)] lo [of "2 ^ s"] by simp
  qed
qed

lemma mark_infos_length [simp]: "length (mark_infos cidx n i infos) = length infos"
  by (induction cidx n i infos rule: mark_infos.induct) (simp_all add: Let_def)

lemma rcv_pkt_wf:
  assumes shape: "st_shape q" and ring: "st_ring old pidx q" and env: "ce_packet env = None"
    and cmpl: "cp_pidx cmpl = pidx" "len < 2 ^ 16" "len \<le> sq_bufsz q * fq_size (sq_flq q)"
  shows "\<exists>rv cmpl' q'. rcv_pkt env cmpl len q = Some (rv, cmpl', q') \<and> st_keeps q q' \<and> st_shape q' \<and> sq_avail q' \<le> sq_avail q \<and> fq_size (sq_flq q') = fq_size (sq_flq q) \<and>
    fq_pidx_pend (sq_flq q') = fq_pidx_pend (sq_flq q) \<and>
    (if rv < 0 then st_ring old pidx q' else st_ring old (cp_pidx cmpl') q')"
proof -
  let ?pend = "fq_pidx_pend (sq_flq q)" and ?s = "fq_desc_pg_shift (sq_flq q)"
  obtain sds where sds: "fq_sdesc (sq_flq q) = Some sds" "length sds = fq_size (sq_flq q)" "\<forall>sd\<in>set sds. fs_pg sd \<noteq> None"
    using shape_sdesc [OF shape] by (auto simp: sdesc_ok_def)
  let ?n = "length sds"
  have n: "0 < ?n" "?n < 2 ^ 16" "sq_rngsz q = ?n" "length (fq_sdesc_info (sq_flq q)) = ?n" "?pend < ?n" "pidx < ?n" "old < ?n"
      "sq_avail q + ring_idx_delta pidx old ?n < ?n"
      "ring_idx_delta ?pend old ?n + ring_idx_delta pidx ?pend ?n = ring_idx_delta pidx old ?n"
      "0 < sq_bufsz q" "sq_bufsz q \<le> 2 ^ ?s" "?s \<le> 16" "len \<le> sq_bufsz q * ?n"
    using shape ring sds(2) cmpl(3) by (auto simp: st_shape_def st_ring_def Let_def)
  obtain m l where ml: "get_fl_nr len (sq_bufsz q) ?s (2 ^ ?s - 1) = (m, l)" by force
  then have m: "0 < m" "m \<le> ?n" using fl_nr_bounds [OF cmpl(2) n(10-13,1)] by simp_all
  define last where "last = (pidx + (m - 1)) mod ?n"
  have last: "ring_idx_incr pidx (m - 1) ?n = last" unfolding last_def using n m by (intro incr_small) simp_all
  have last_n: "last < ?n" using n(1) by (simp add: last_def)
  have nxt: "ring_idx_incr last 1 ?n = (pidx + m) mod ?n"
  proof -
    have "ring_idx_incr last 1 ?n = (last + 1) mod ?n" using n last_n by (intro incr_small) simp_all
    also have "\<dots> = (pidx + (m - 1) + 1) mod ?n" unfolding last_def by (rule mod_add_left_eq)
    finally show ?thesis using m(1) by simp
  qed
  define sds1 where "sds1 = sds[last := (sds ! last)\<lparr>fs_len := (if len = 0 then 0 else l)\<rparr>]"
  define q1 where "q1 = q\<lparr>sq_flq := (sq_flq q)\<lparr>fq_sdesc := Some sds1\<rparr>\<rparr>"
  have pg1: "\<forall>sd\<in>set sds1. fs_pg sd \<noteq> None" "length sds1 = ?n"
    using sds(3) last_n by (auto simp: sds1_def dest!: set_update_subset_insert [THEN subsetD])
  have q1: "st_keeps q q1" "sdesc_ok q1" "fq_pidx_pend (sq_flq q1) = ?pend" "sq_avail q1 = sq_avail q" "st_ring old pidx q1"
    using pg1 sds(2) ring by (simp_all add: q1_def st_keeps_def sdesc_ok_def st_ring_def)
  have shape1: "st_shape q1" using shape_keeps [OF shape q1(1,2)] q1(3) n(5) sds(2) by (simp add: q1_def)
  show ?thesis
  proof (cases "sq_avail q < m")
    case True
    then have "rcv_pkt env cmpl len q = Some (- errno_code EBUSY, cmpl, q1)"
      using sds(1) n last_n last ml cmpl(1) by (simp add: rcv_pkt_def Let_def q1_def sds1_def)
    then show ?thesis using q1 shape1 by (auto simp: q1_def)
  next
    case False
    define infos where "infos = (let infos = mark_infos (ring_idx_incr (sq_cidx_cmpt q) 1 (sq_rngsz_cmpt q)) m pidx (fq_sdesc_info (sq_flq q));
        infos = infos[pidx := (infos ! pidx)\<lparr>si_sop := True\<rparr>] in infos[last := (infos ! last)\<lparr>si_eop := True\<rparr>])"
    define q2 where "q2 = q\<lparr>sq_avail := sq_avail q - m, sq_flq := (sq_flq q)\<lparr>fq_sdesc := Some sds1, fq_sdesc_info := infos,
      fq_pkt_dlen := u32_wrap (fq_pkt_dlen (sq_flq q) + len),
      fq_udd_cnt := (if sq_udd_en q then u32_wrap (fq_udd_cnt (sq_flq q) + 1) else fq_udd_cnt (sq_flq q))\<rparr>\<rparr>"
    have "rcv_pkt env cmpl len q = Some (0, cmpl\<lparr>cp_pidx := (pidx + m) mod ?n\<rparr>, q2)"
      using sds(1) n last_n last nxt ml cmpl(1) env False by (simp add: rcv_pkt_def Let_def q2_def sds1_def infos_def)
    moreover have "st_keeps q q2" "sdesc_ok q2" "fq_pidx_pend (sq_flq q2) = ?pend"
      using pg1 sds(2) by (simp_all add: q2_def st_keeps_def sdesc_ok_def infos_def Let_def)
    moreover from this have "st_shape q2" using shape_keeps [OF shape] n(5) sds(2) by (simp add: q2_def)
    moreover have "st_ring old ((pidx + m) mod ?n) q2"
    proof -
      have "ring_idx_delta pidx old ?n + m < ?n" "ring_idx_delta pidx ?pend ?n + m < ?n" using n(8,9) False by linarith+
      then have "ring_idx_delta ((pidx + m) mod ?n) old ?n = ring_idx_delta pidx old ?n + m"
        "ring_idx_delta ((pidx + m) mod ?n) ?pend ?n = ring_idx_delta pidx ?pend ?n + m"
        using delta_append n(2,5,6,7) by simp_all
      then show ?thesis using n False sds(2) by (simp add: st_ring_def Let_def q2_def)
    qed
    ultimately show ?thesis by (auto simp: q2_def)
  qed
qed

lemma cmpt_next_wf:
  assumes "st_shape q"
  shows "st_shape (cmpt_next q)" "st_ring old pidx (cmpt_next q) = st_ring old pidx q"
    "sq_pidx (cmpt_next q) = sq_pidx q" "sq_flq (cmpt_next q) = sq_flq q" "sq_avail (cmpt_next q) = sq_avail q" "sq_pend_list (cmpt_next q) = sq_pend_list q"
proof -
  have "u32_wrap (Suc (sq_cidx_cmpt q)) = Suc (sq_cidx_cmpt q)"
    using assms by (intro u32_wrap_small) (simp add: st_shape_def Let_def)
  then show "st_shape (cmpt_next q)" using assms by (auto simp: st_shape_def cmpt_next_def Let_def)
qed (simp_all add: cmpt_next_def st_ring_def Let_def)

text \<open>One completion entry and the loop over them.\<close>

definition plain :: "c2h_env \<Rightarrow> bool" where
  "plain env \<longleftrightarrow> ce_packet env = None \<and> ce_proc_entry env = None"

lemma cmpl_one_wf:
  assumes shape: "st_shape q" and ring: "st_ring old pidx q" and env: "plain env"
  shows "case cmpl_one env pidx q of None \<Rightarrow> False
    | Some (Fail rv q') \<Rightarrow> st_shape q' \<and> st_ring old pidx q' \<and> sq_pidx q' = sq_pidx q \<and> sq_avail q' \<le> sq_avail q \<and> fq_size (sq_flq q') = fq_size (sq_flq q) \<and>
        fq_pidx_pend (sq_flq q') = fq_pidx_pend (sq_flq q)
    | Some (Stop q') \<Rightarrow> st_shape q' \<and> st_ring old pidx q' \<and> sq_pidx q' = sq_pidx q \<and> sq_avail q' \<le> sq_avail q \<and> fq_size (sq_flq q') = fq_size (sq_flq q) \<and>
        fq_pidx_pend (sq_flq q') = fq_pidx_pend (sq_flq q)
    | Some (Go pidx' q') \<Rightarrow> st_shape q' \<and> st_ring old pidx' q' \<and> sq_pidx q' = sq_pidx q \<and> sq_avail q' \<le> sq_avail q \<and> fq_size (sq_flq q') = fq_size (sq_flq q) \<and>
        fq_pidx_pend (sq_flq q') = fq_pidx_pend (sq_flq q)"
proof -
  have cur: "sq_cur q < length (sq_cmpt q)" "sq_cmpt q ! sq_cur q \<noteq> []"
    using shape by (auto simp: st_shape_def Let_def in_set_conv_nth)
  then obtain cmpl where c: "parse_cmpl_entry q cmpt_zeroed = Some (0, cmpl)" by (simp add: parse_cmpl_entry_def Let_def)
  have len: "cp_len cmpl < 2 ^ 16"
  proof -
    have "unat (x AND 0xFFFF :: u64) < 2 ^ 16" for x
    proof -
      have "x AND 0xFFFF \<le> 0xFFFF" by (rule word_and_le1)
      then show ?thesis by (simp add: word_le_nat_alt)
    qed
    then show ?thesis using c cur by (auto simp: parse_cmpl_entry_def Let_def)
  qed
  have "cp_len cmpl = entry_len (sq_cmpt q ! sq_cur q)"
    using c cur by (auto simp: parse_cmpl_entry_def entry_len_def Let_def)
  moreover have "sq_cmpt q ! sq_cur q \<in> set (sq_cmpt q)" using cur(1) by (rule nth_mem)
  ultimately have fits: "cp_len cmpl \<le> sq_bufsz q * fq_size (sq_flq q)"
    using shape by (simp add: st_shape_def Let_def)
  have err: "st_shape (q\<lparr>sq_err := True\<rparr>) = st_shape q" "st_ring old pidx (q\<lparr>sq_err := True\<rparr>) = st_ring old pidx q"
    by (simp_all add: st_shape_def st_ring_def)
  obtain rv cmpl' q' where r: "rcv_pkt env (cmpl\<lparr>cp_pidx := pidx\<rparr>) (cp_len cmpl) q = Some (rv, cmpl', q')"
      "st_shape q'" "st_keeps q q'" "fq_pidx_pend (sq_flq q') = fq_pidx_pend (sq_flq q)"
      "if rv < 0 then st_ring old pidx q' else st_ring old (cp_pidx cmpl') q'" "sq_avail q' \<le> sq_avail q"
    using rcv_pkt_wf [OF shape ring, of env "cmpl\<lparr>cp_pidx := pidx\<rparr>" "cp_len cmpl"] env len fits by (auto simp: plain_def)
  define q2 where "q2 = q\<lparr>sq_flq := (sq_flq q)\<lparr>fq_udd_cnt := u32_wrap (fq_udd_cnt (sq_flq q) + 1)\<rparr>\<rparr>"
  have q2: "st_shape q2" "st_ring old pidx q2" "sq_pidx q2 = sq_pidx q" "sq_avail q2 = sq_avail q" "fq_size (sq_flq q2) = fq_size (sq_flq q)" "fq_pidx_pend (sq_flq q2) = fq_pidx_pend (sq_flq q)"
    using shape ring by (simp_all add: q2_def st_shape_def st_ring_def Let_def)
  have "rcv_udd_only env c q = (0, q2)" for c using env by (simp add: rcv_udd_only_def plain_def q2_def)
  then show ?thesis
    using env shape ring c r err q2 cmpt_next_wf [OF r(2)] cmpt_next_wf [OF q2(1)]
    by (auto simp: cmpl_one_def plain_def descq_cmpl_err_check_def Let_def st_keeps_def)
qed

lemma cmpl_loop_wf:
  assumes "st_shape q" "st_ring old pidx q" "plain env"
  shows "\<exists>rv proc' pidx' q'. cmpl_loop env n proc_cnt pidx q = Some (rv, proc', pidx', q') \<and> st_shape q' \<and> st_ring old pidx' q' \<and>
    sq_pidx q' = sq_pidx q \<and> sq_avail q' \<le> sq_avail q \<and> fq_size (sq_flq q') = fq_size (sq_flq q) \<and> fq_pidx_pend (sq_flq q') = fq_pidx_pend (sq_flq q)"
  using assms
proof (induction n arbitrary: proc_cnt pidx q)
  case (Suc n)
  note one = cmpl_one_wf [OF Suc.prems]
  show ?case
  proof (cases "cmpl_one env pidx q")
    case None then show ?thesis using one by simp
  next
    case (Some st)
    show ?thesis
    proof (cases st)
      case (Go pidx1 q1)
      then have "st_shape q1" "st_ring old pidx1 q1" "sq_pidx q1 = sq_pidx q" "sq_avail q1 \<le> sq_avail q" "fq_size (sq_flq q1) = fq_size (sq_flq q)" "fq_pidx_pend (sq_flq q1) = fq_pidx_pend (sq_flq q)"
        using one Some by simp_all
      then show ?thesis using Suc.IH [of q1 pidx1 "Suc proc_cnt"] Suc.prems(3) Go Some by fastforce
    qed (use one Some Suc.prems in auto)
  qed
qed simp

lemma shape_frame:
  assumes "st_keeps q q'" "fq_sdesc (sq_flq q') = fq_sdesc (sq_flq q)" "fq_pidx_pend (sq_flq q') = fq_pidx_pend (sq_flq q)"
  shows "st_shape q' = st_shape q"
  using assms by (simp add: st_shape_def st_keeps_def Let_def)

lemma ring_frame:
  assumes "fq_size (sq_flq q') = fq_size (sq_flq q)" "sq_avail q' = sq_avail q" "fq_pidx_pend (sq_flq q') = fq_pidx_pend (sq_flq q)"
  shows "st_ring old pidx q' = st_ring old pidx q"
  using assms by (simp add: st_ring_def)

text \<open>Bookkeeping that touches neither the ring nor the indices.\<close>

definition books :: "st_queue \<Rightarrow> st_queue \<Rightarrow> bool" where
  "books q q' \<longleftrightarrow> st_keeps q q' \<and> fq_sdesc (sq_flq q') = fq_sdesc (sq_flq q) \<and>
     fq_pidx_pend (sq_flq q') = fq_pidx_pend (sq_flq q) \<and> sq_avail q' = sq_avail q \<and> sq_pend_list q' = sq_pend_list q"

lemma books_ok:
  assumes "books q q'"
  shows "st_shape q' = st_shape q" "st_ring old pidx q' = st_ring old pidx q" "sq_pidx q' = sq_pidx q"
    "fq_pidx_pend (sq_flq q') = fq_pidx_pend (sq_flq q)" "fq_size (sq_flq q') = fq_size (sq_flq q)"
    "sq_avail q' = sq_avail q" "sq_pend_list q' = sq_pend_list q"
  using assms shape_frame [of q q'] ring_frame [of q' q] by (auto simp: books_def st_keeps_def)

lemma books_trans: "books q q' \<Longrightarrow> books q' q'' \<Longrightarrow> books q q''"
  by (simp add: books_def st_keeps_def)

lemma books_cs_pidx: "books q (snd (cs_pidx q))"
  by (simp add: cs_pidx_def books_def st_keeps_def split: list.split)

lemma adjust_avgs_frame:
  "descq_adjust_c2h_cntr_avgs env q = q\<lparr>sq_moving_avg := sq_moving_avg (descq_adjust_c2h_cntr_avgs env q),
     sq_thr_hi := sq_thr_hi (descq_adjust_c2h_cntr_avgs env q), sq_thr_lo := sq_thr_lo (descq_adjust_c2h_cntr_avgs env q)\<rparr>"
  by (simp add: descq_adjust_c2h_cntr_avgs_def Let_def)

lemma move_cntr_rngsz: "sq_rngsz (move_cntr env k q) = sq_rngsz q" "c2h_adapt.more (move_cntr env k q) = c2h_adapt.more q"
  by (simp_all add: move_cntr_def descq_adjust_c2h_cntr_avgs_def Let_def)

lemma adjust_rngsz:
  "sq_rngsz (descq_adjust_c2h_cntr_th env p b q) = sq_rngsz q"
  "c2h_adapt.more (descq_adjust_c2h_cntr_th env p b q) = c2h_adapt.more q"
  by (simp_all add: descq_adjust_c2h_cntr_th_def descq_incr_c2h_cntr_th_def descq_decr_c2h_cntr_th_def move_cntr_rngsz Let_def)

lemma books_more:
  fixes q q' :: st_queue
  assumes "sq_rngsz q' = sq_rngsz q" "c2h_adapt.more q' = c2h_adapt.more q"
  shows "books q q'"
  using assms by (cases q; cases q') (simp add: books_def st_keeps_def)

lemma books_moderate: "books q (moderate env w n q)"
proof -
  obtain p q1 where p: "cs_pidx q = (p, q1)" by force
  define q2 where "q2 = q1\<lparr>sq_flq := (sq_flq q1)\<lparr>fq_pkt_cnt := ring_idx_delta p (sq_cidx_cmpt q1) (sq_rngsz_cmpt q1)\<rparr>,
    sq_cidx_info := (sq_cidx_info q1)\<lparr>qc_irq_en :=
      (if w \<noteq> 0 \<and> ring_idx_delta p (sq_cidx_cmpt q1) (sq_rngsz_cmpt q1) > w then 0 else 1)\<rparr>\<rparr>"
  have "books q1 q2" by (simp add: books_def st_keeps_def q2_def)
  then have b: "books q q2" using books_cs_pidx [of q] p by (auto intro: books_trans)
  have "books q2 (descq_adjust_c2h_cntr_th env (of_nat (ring_idx_delta p (sq_cidx_cmpt q1) (sq_rngsz_cmpt q1) + n)) (of_nat w) q2)"
    by (intro books_more adjust_rngsz)
  then have "books q (descq_adjust_c2h_cntr_th env (of_nat (ring_idx_delta p (sq_cidx_cmpt q1) (sq_rngsz_cmpt q1) + n)) (of_nat w) q2)"
    using b by (blast intro: books_trans)
  moreover have "moderate env w n q = (if ce_intr_moderation env \<and> qc_trig_mode (sq_cidx_info q) = 5
      then if sq_adaptive_rx q2 then descq_adjust_c2h_cntr_th env
          (of_nat (ring_idx_delta p (sq_cidx_cmpt q1) (sq_rngsz_cmpt q1) + n)) (of_nat w) q2 else q2 else q)"
    unfolding moderate_def p Let_def q2_def prod.case by (rule refl)
  moreover have "books q q" by (simp add: books_def st_keeps_def)
  ultimately show ?thesis using b by simp
qed

lemma st_req_done_ok: "st_shape (st_req_done env e r q) = st_shape q" "st_ring old pidx (st_req_done env e r q) = st_ring old pidx q"
  "sq_pidx (st_req_done env e r q) = sq_pidx q" "fq_pidx_pend (sq_flq (st_req_done env e r q)) = fq_pidx_pend (sq_flq q)"
  by (simp_all add: st_req_done_def st_shape_def st_ring_def Let_def)

lemma pend_list_ok: "st_shape (q\<lparr>sq_pend_list := l\<rparr>) = st_shape q" "st_ring old pidx (q\<lparr>sq_pend_list := l\<rparr>) = st_ring old pidx q"
  "st_shape (q\<lparr>sq_pend_list := l, sq_pend_list_empty := e\<rparr>) = st_shape q"
  "st_ring old pidx (q\<lparr>sq_pend_list := l, sq_pend_list_empty := e\<rparr>) = st_ring old pidx q"
  by (simp_all add: st_shape_def st_ring_def Let_def)

lemma packets_proc_wf:
  assumes "st_shape q" "st_ring old (sq_pidx q) q"
  shows "\<exists>q' km'. packets_proc env cbs q km = Some (q', km') \<and> st_shape q' \<and> st_ring old (sq_pidx q') q'"
  using assms
proof (induction cbs arbitrary: q km)
  case (Cons cb cbs)
  show ?case
  proof (cases "sr_left cb = 0")
    case True
    then show ?thesis using Cons.prems by (simp add: st_req_done_ok pend_list_ok)
  next
    case False
    obtain rv cb' q1 km1 where r: "descq_st_c2h_read env False False cb q km = Some (rv, cb', q1, km1)"
        "st_shape q1" "st_ring old (sq_pidx q1) q1"
      using c2h_read_wf [OF Cons.prems, of False env False cb km] by auto
    let ?q = "\<lambda>e. st_req_done env e cb' (q1\<lparr>sq_pend_list := cbs\<rparr>)"
    have "\<exists>q' km'. packets_proc env cbs (?q e) km1 = Some (q', km') \<and> st_shape q' \<and> st_ring old (sq_pidx q') q'" for e
      using r(2,3) by (intro Cons.IH) (simp_all add: st_req_done_ok pend_list_ok)
    then show ?thesis using False r by (simp add: pend_list_ok Let_def)
  qed
qed simp

lemma ring_shrink:
  assumes "st_ring old pidx q" "sq_avail q' \<le> sq_avail q" "fq_size (sq_flq q') = fq_size (sq_flq q)"
    "fq_pidx_pend (sq_flq q') = fq_pidx_pend (sq_flq q)"
  shows "st_ring old pidx q'"
  using assms by (auto simp: st_ring_def Let_def)

lemma ring_close:
  assumes "st_ring old pidx q" "sq_avail q' = sq_avail q + ring_idx_delta (fq_pidx_pend (sq_flq q)) old (fq_size (sq_flq q))"
    "fq_size (sq_flq q') = fq_size (sq_flq q)" "fq_pidx_pend (sq_flq q') = fq_pidx_pend (sq_flq q)"
    "fq_pidx_pend (sq_flq q) < fq_size (sq_flq q)"
  shows "st_ring (fq_pidx_pend (sq_flq q')) pidx q'"
proof -
  have "ring_idx_delta p p n = 0" for p n by (simp add: ring_idx_delta_def)
  then show ?thesis using assms by (auto simp: st_ring_def Let_def)
qed

lemma process_completion_wf:
  assumes wf: "st_wf q" and env: "plain env"
  shows "\<exists>rv q' km'. descq_process_completion_st_c2h env budget upd_cmpl q km = Some (rv, q', km') \<and> st_wf q'"
proof -
  let ?old = "fq_pidx_pend (sq_flq q)" and ?pidx = "sq_pidx q"
  obtain pc q0 where p0: "cs_pidx q = (pc, q0)" by force
  have b0: "books q q0" using books_cs_pidx [of q] p0 by simp
  define pend where "pend = ring_idx_delta pc (sq_cidx_cmpt q0) (sq_rngsz_cmpt q0)"
  define q1 where "q1 = q0\<lparr>sq_flq := (sq_flq q0)\<lparr>fq_pkt_cnt := pend\<rparr>\<rparr>"
  have b1: "books q q1" using books_trans [OF b0, of q1] by (simp add: q1_def books_def st_keeps_def)
  have wf_books: "st_wf q'" if "books q q'" for q' using wf books_ok [OF that] by (simp add: st_wf_def)
  have up: "books q (queue_cmpt_cidx_update q0)"
    using books_trans [OF b0, of "queue_cmpt_cidx_update q0"] by (simp add: queue_cmpt_cidx_update_def books_def st_keeps_def)
  show ?thesis
  proof (cases "sq_err q0 \<or> pend = 0")
    case True
    then show ?thesis using wf_books [OF b0] wf_books [OF up] p0
      by (auto simp: descq_process_completion_st_c2h_def Let_def pend_def)
  next
    case False
    define bud where "bud = (if budget = 0 \<or> budget > pend then pend else budget)"
    have in1: "st_shape q1" "st_ring ?old ?pidx q1" "sq_pidx q1 = ?pidx" "fq_pidx_pend (sq_flq q1) = ?old"
        "sq_avail q1 = sq_avail q" "fq_size (sq_flq q1) = fq_size (sq_flq q)"
      using wf books_ok [OF b1] by (simp_all add: st_wf_def)
    obtain rv n pidx q2 where loop: "cmpl_loop env bud 0 ?pidx q1 = Some (rv, n, pidx, q2)"
        "st_shape q2" "st_ring ?old pidx q2" "sq_pidx q2 = ?pidx" "sq_avail q2 \<le> sq_avail q1" "fq_pidx_pend (sq_flq q2) = ?old"
        "fq_size (sq_flq q2) = fq_size (sq_flq q1)"
      using cmpl_loop_wf [OF in1(1,2) env, of bud 0] in1 by auto
    have size2: "fq_size (sq_flq q2) = fq_size (sq_flq q)" using loop(7) in1(6) by simp
    have wf2: "st_wf q2"
      using ring_shrink [OF in1(2) loop(5)] loop size2 in1 by (simp add: st_wf_def)
    define q3 where "q3 = moderate env budget n (q2\<lparr>sq_flq := (sq_flq q2)\<lparr>fq_pkt_cnt := u32_sub (fq_pkt_cnt (sq_flq q2)) n\<rparr>\<rparr>)"
    have "books q2 (q2\<lparr>sq_flq := (sq_flq q2)\<lparr>fq_pkt_cnt := u32_sub (fq_pkt_cnt (sq_flq q2)) n\<rparr>\<rparr>)"
      by (simp add: books_def st_keeps_def)
    then have b3: "books q2 q3" unfolding q3_def by (rule books_trans [OF _ books_moderate])
    have wf3: "st_wf q3" using wf2 books_ok [OF b3] by (simp add: st_wf_def)
    define q4 where "q4 = queue_cmpt_cidx_update (q3\<lparr>sq_pidx_cmpt := pc, sq_pidx := pidx,
      sq_cidx_info := (sq_cidx_info q3)\<lparr>qc_wrb_cidx := of_nat (sq_cidx_cmpt q3)\<rparr>\<rparr>)"
    have q4: "st_shape q4" "st_ring ?old (sq_pidx q4) q4"
      using loop(2,3) books_ok [OF b3] by (simp_all add: q4_def queue_cmpt_cidx_update_def st_shape_def st_ring_def Let_def)
    obtain q5 km5 where r5: "packets_proc env (sq_pend_list q4) q4 km = Some (q5, km5)" "st_shape q5" "st_ring ?old (sq_pidx q5) q5"
      using packets_proc_wf [OF q4] by blast
    obtain p6 q6' where p6: "cs_pidx q5 = (p6, q6')" by force
    define q6 where "q6 = q6'\<lparr>sq_flq := (sq_flq q6')\<lparr>fq_pkt_cnt := ring_idx_delta p6 (sq_cidx_cmpt q6') (sq_rngsz_cmpt q6')\<rparr>\<rparr>"
    have "books q5 q6'" using books_cs_pidx [of q5] p6 by simp
    then have b6: "books q5 q6" by (rule books_trans) (simp add: q6_def books_def st_keeps_def)
    have q6: "st_shape q6" "st_ring ?old (sq_pidx q6) q6" using r5 books_ok [OF b6] by simp_all
    let ?pend = "fq_pidx_pend (sq_flq q6)" and ?n = "fq_size (sq_flq q6)"
    have lt: "?pend < ?n" "?old < ?n" "?n < 2 ^ 16" "sq_avail q6 < ?n"
      using q6 by (auto simp: st_shape_def st_ring_def Let_def)
    have d: "ring_idx_delta ?pend ?old ?n < ?n" using delta_lt lt by simp
    obtain sds where sds: "fq_sdesc (sq_flq q6) = Some sds" using shape_sdesc [OF q6(1)] by (auto simp: sdesc_ok_def)
    have "sq_avail q6 + ring_idx_delta ?pend ?old ?n < 2 ^ 32" using lt d by simp
    from flq_refill_recycle [OF q6(1) lt(2) this sds, of env km5] obtain q7 where r7:
      "qdma_flq_refill env ?old (ring_idx_delta ?pend ?old ?n) True q6 km5 = Some (ring_idx_delta ?pend ?old ?n, q7, km5)"
      "st_keeps q6 q7" "sdesc_ok q7" "sq_avail q7 = sq_avail q6 + ring_idx_delta ?pend ?old ?n" "fq_pidx_pend (sq_flq q7) = ?pend"
      by blast
    have k7: "fq_size (sq_flq q7) = ?n" "sq_pidx q7 = sq_pidx q6" using r7(2) by (simp_all add: st_keeps_def)
    have wf7: "st_wf q7"
      using shape_keeps [OF q6(1) r7(2,3)] ring_close [OF q6(2) r7(4) k7(1) r7(5) lt(1)] lt(1) k7 r7(5) by (simp add: st_wf_def)
    define q8 where "q8 = queue_pidx_update (q7\<lparr>sq_pidx_info := ring_idx_decr (fq_pidx_pend (sq_flq q7)) 1 (fq_size (sq_flq q7))\<rparr>)"
    have wf8: "st_wf q8"
      using wf7 by (simp add: q8_def queue_pidx_update_def st_wf_def st_shape_def st_ring_def Let_def)
    have wf6: "st_wf q6" if "?pend = ?old" using q6 that by (simp add: st_wf_def)
    have "descq_process_completion_st_c2h env budget upd_cmpl q km =
        (case rv of Some rv \<Rightarrow> Some (rv, q2, km)
         | None \<Rightarrow> if n = 0 then Some (0, q3, km)
           else if ?pend = ?old then Some (0, q6, km5)
           else if upd_cmpl \<and> \<not> sq_stop_wait q7 then Some (0, q8, km5) else Some (0, q7, km5))"
    proof -
      have f: "sq_err q0 = False" "(pend = 0) = False" using False by simp_all
      have e: "(ce_packet env = None) = True" using env by (simp add: plain_def)
      show ?thesis
        unfolding descq_process_completion_st_c2h_def p0 Let_def prod.case books_ok(4) [OF b0] pend_def [symmetric]
          f if_False if_True q1_def [symmetric] bud_def [symmetric] in1(3) loop(1) option.case
        by (cases rv) (simp_all only: option.case q3_def [symmetric] e if_True qdma_c2h_packets_proc_dflt_def q4_def [symmetric] r5(1) prod.case p6
          q6_def [symmetric] r7(1) q8_def [symmetric])
    qed
    then show ?thesis using wf2 wf3 wf6 wf7 wf8 by (auto split: option.split)
  qed
qed

text \<open>C33. The receive side of a streaming queue without callbacks of an upper layer (plain) never
  leaves its arrays: from a queue whose indices lie in their rings, whose free and unread buffers
  are fewer than the ring has, and whose completion entries report no packet larger than the buffers
  of the whole ring, servicing completions, submitting a request and reading packets come to
  an end, whatever else the completion entries, the status and the request hold, and leave such a
  queue. The code has no check for a packet larger than the ring: rcv_pkt would write the length of
  its last buffer beyond the array.\<close>

theorem st_queue_stays_wf:
  assumes "st_wf q" "plain env"
  shows "(\<exists>rv q' km'. service_cmpl_update env budget upd_cmpl q km = Some (rv, q', km') \<and> st_wf q') \<and>
    (\<exists>rv req' q' km'. qdma_request_submit_st_c2h env req q km = Some (rv, req', q', km') \<and> st_wf q') \<and>
    (\<exists>rv req' q' km'. qdma_queue_packet_read env (Some req) cctrl q km = Some (rv, req', q', km') \<and> st_wf q')"
proof (intro conjI)
  show "\<exists>rv q' km'. service_cmpl_update env budget upd_cmpl q km = Some (rv, q', km') \<and> st_wf q'"
    using process_completion_wf [OF assms] assms(1) by (simp add: service_cmpl_update_def)
  have read: "\<exists>rv req' q' km'. descq_st_c2h_read env True True r x km = Some (rv, req', q', km') \<and> st_wf q'"
    if "st_wf x" for r x
    using c2h_read_wf [of x "fq_pidx_pend (sq_flq x)" True env True r km] that by (auto simp: st_wf_def)
  have pend: "st_wf (x\<lparr>sq_pend_list := l\<rparr>) = st_wf x" "st_wf (x\<lparr>sq_pend_list := l, sq_pend_list_empty := e\<rparr>) = st_wf x" for x l e
    by (simp_all add: st_wf_def pend_list_ok)
  obtain rv1 r1 q1 km1 where 1: "descq_st_c2h_read env True True (req\<lparr>sr_left := sr_count req\<rparr>)
      (q\<lparr>sq_pend_list := sq_pend_list q @ [req\<lparr>sr_left := sr_count req\<rparr>]\<rparr>) km = Some (rv1, r1, q1, km1)" "st_wf q1"
    using read [of "q\<lparr>sq_pend_list := sq_pend_list q @ [req\<lparr>sr_left := sr_count req\<rparr>]\<rparr>" "req\<lparr>sr_left := sr_count req\<rparr>"] assms(1)
    by (auto simp: pend)
  show "\<exists>rv req' q' km'. qdma_request_submit_st_c2h env req q km = Some (rv, req', q', km') \<and> st_wf q'"
    using 1 assms(1) by (simp add: qdma_request_submit_st_c2h_def Let_def pend)
  define q0 where "q0 = (case cctrl of None \<Rightarrow> q | Some c \<Rightarrow> set_cmpl_ctrl c q)"
  have "st_wf q0"
    using assms(1) by (auto simp: q0_def set_cmpl_ctrl_def queue_cmpt_cidx_update_def st_wf_def st_shape_def st_ring_def Let_def
        split: option.split)
  then obtain rv2 r2 q2 km2 where 2: "descq_st_c2h_read env True True (req\<lparr>sr_sg_idx := 0, sr_sg_offset := 0, sr_left := 0\<rparr>) q0 km =
      Some (rv2, r2, q2, km2)" "st_wf q2"
    using read [of q0] by blast
  show "\<exists>rv req' q' km'. qdma_queue_packet_read env (Some req) cctrl q km = Some (rv, req', q', km') \<and> st_wf q'"
    using 2 assms(1) by (simp add: qdma_queue_packet_read_def q0_def [symmetric] Let_def)
qed

section \<open>Where the code falls short\<close>

text \<open>C37. The result of qdma_queue_packet_read is the size of the request plus the bytes read, not
  the bytes read: the count of bytes left is cleared with the rest of the request instead of
  being set to its size.\<close>

theorem packet_read_counts:
  assumes wf: "st_wf q" "bufs_ok q" "sq_st_c2h q" and req: "\<not> sr_no_memcpy req"
    and r0: "r0 = req\<lparr>sr_sg_idx := 0, sr_sg_offset := 0, sr_left := 0\<rparr>" and ok: "st_req_ok (start_pos r0)"
    and room: "distinct (room (start_pos r0))" "set (room (start_pos r0)) \<inter> set (unread q) = {}"
    and len: "length (unread q) < 2 ^ 32" and k: "k = min (length (unread q)) (length (room (start_pos r0)))"
    and sz: "sr_count req + k < 2 ^ 31"
  shows "\<exists>r' q' km'. qdma_queue_packet_read env (Some req) None q km = Some (int (sr_count req + k), Some r', q', km') \<and>
    byte km' = put_bytes (take k (room (start_pos r0))) (take k (unread q)) (byte km)"
proof -
  obtain r' q' km' where r: "descq_st_c2h_read env True True r0 q km = Some (int k, r', q', km')"
      "byte km' = put_bytes (take k (room (start_pos r0))) (take k (unread q)) (byte km)" "sr_left r' = u32_sub 0 k"
    using c2h_read_bytes [OF wf(1,2) _ ok _ room len k, of env True True km] req r0 by auto
  have "sr_count r' = sr_count req"
    using r(1) r0 by (auto simp: descq_st_c2h_read_def Let_def split: if_splits option.splits prod.splits)
  have "k < 2 ^ 32" using sz by simp
  then have "of_nat (u32_sub 0 k) = (- of_nat k :: u32)"
  proof (cases "k = 0")
    case False
    have "u32_wrap (2 ^ 32 - k) = 2 ^ 32 - k" using False by (intro u32_wrap_small) simp
    then have "of_nat (u32_sub 0 k) = (of_nat (2 ^ 32 - k) :: u32)" using False \<open>k < 2 ^ 32\<close> by (simp add: u32_sub_def u32_wrap_small)
    also have "\<dots> = of_nat (2 ^ 32) - of_nat k" using \<open>k < 2 ^ 32\<close> by (intro of_nat_diff) simp
    finally show ?thesis by simp
  qed (simp add: u32_sub_def)
  then have "sint (of_nat (sr_count req) - of_nat (u32_sub 0 k) :: u32) = sint (of_nat (sr_count req + k) :: u32)" by simp
  also have "\<dots> = signed_take_bit 31 (int (sr_count req + k))" unfolding signed_of_nat by simp
  also have "\<dots> = int (sr_count req + k)" using sz by (intro signed_take_bit_int_eq_self) simp_all
  finally show ?thesis
    using r \<open>sr_count r' = sr_count req\<close> wf(3) r0 by (simp add: qdma_queue_packet_read_def Let_def)
qed

text \<open>A page that cannot be replaced is given back and stays in the list; the next attempt gives it
  back once more.\<close>

lemma failed_replacement_drops_twice:
  assumes "fq_pg_sdesc flq = Some pgs" "k = fq_recycle_idx flq AND fq_num_pgs_mask flq" "k < length pgs"
    "pg_offset (pgs ! k) = 0" "fq_recycle_idx flq \<noteq> fq_alloc_idx flq" "pg_base (pgs ! k) = Some p" "km_pages km = []"
  shows "\<exists>flq' km'. replace_pages flq km = Some (flq', km') \<and> km_refs km' p = km_refs km p - 1 \<and>
    (\<exists>flq'' km''. replace_pages flq' km' = Some (flq'', km'') \<and> km_refs km'' p = km_refs km p - 2)"
proof -
  obtain pg km1 where u: "flq_unmap_page_one (pgs ! k) km = (pg, km1)" by force
  have pg: "pg_base pg = Some p" "pg_offset pg = 0" "km_pages km1 = []" "km_refs km1 = km_refs km" "pg_dma_base_addr pg = 0"
    using u assms(4,6,7) by (auto simp: flq_unmap_page_one_def split: if_splits)
  have one: "replace_pages flq km = Some (flq\<lparr>fq_pg_sdesc := Some (pgs[k := pg])\<rparr>, put_pages p 1 km1)"
    using assms u pg by (subst replace_pages.simps) (simp add: Let_def flq_fill_page_one_def put_pages_def)
  have u2: "flq_unmap_page_one pg (put_pages p 1 km1) = (pg, put_pages p 1 km1)" using pg(5) by (simp add: flq_unmap_page_one_def)
  have two: "replace_pages (flq\<lparr>fq_pg_sdesc := Some (pgs[k := pg])\<rparr>) (put_pages p 1 km1) =
      Some (flq\<lparr>fq_pg_sdesc := Some (pgs[k := pg])\<rparr>, put_pages p 1 (put_pages p 1 km1))"
    using assms pg u2 by (subst replace_pages.simps) (simp add: Let_def flq_fill_page_one_def put_pages_def)
  show ?thesis using one two pg(4) by (simp add: put_pages_def)
qed

text \<open>Without a budget the moderation never lowers its counter.\<close>

lemma no_budget_no_decrease:
  assumes "budget < 2" "\<not> sq_latency_optimize q"
  shows "sq_sorted_idx (descq_decr_c2h_cntr_th env budget q) = sq_sorted_idx q"
proof -
  have "cntr_val env k < budget - 2" for k
  proof -
    have "unat (ucast w :: u32) < 256" for w :: u8
    proof -
      have "unat w < 2 ^ LENGTH(8)" by (rule unsigned_less)
      then show ?thesis using le_less_trans [OF take_bit_nat_less_eq_self [of 32 "unat w"]] by (simp add: unsigned_ucast_eq)
    qed
    then have "unat (cntr_val env k) < 256" by (simp add: cntr_val_def)
    moreover have "unat budget = 0 \<or> unat budget = 1" using assms(1) by (auto simp: word_less_nat_alt)
    then have "budget = 0 \<or> budget = 1" by (auto simp: word_unat_eq_iff)
    then have "budget - 2 = 0xFFFFFFFE \<or> budget - 2 = 0xFFFFFFFF" by auto
    ultimately show ?thesis by (auto simp: word_less_nat_alt)
  qed
  then show ?thesis using assms(2) by (simp add: descq_decr_c2h_cntr_th_def Let_def)
qed

section \<open>A queue with one packet\<close>

definition sample_c2h_env :: c2h_env where
  "sample_c2h_env = \<lparr>ce_cnt_th = [2, 4], ce_sorted = [0, 1], ce_poll = False, ce_intr_moderation = False,
     ce_packet = None, ce_proc_entry = None\<rparr>"

text \<open>Two buffers of 32 KB; the first holds a packet of three bytes.\<close>

definition sample_list :: qdma_flq where
  "sample_list = flq_zeroed\<lparr>fq_size := 2, fq_desc_buf_size := 32768, fq_desc_pg_shift := 15, fq_pkt_dlen := 3,
     fq_sdesc := Some [\<lparr>fs_pg = Some 7, fs_offset = 0, fs_len = 3, fs_dma_addr = 0x10000\<rparr>,
       \<lparr>fs_pg = Some 8, fs_offset = 0, fs_len = 32768, fs_dma_addr = 0x20000\<rparr>],
     fq_sdesc_info := [info_zeroed, info_zeroed]\<rparr>"

definition sample_queue :: st_queue where
  "sample_queue = \<lparr>sq_rngsz = 2, sq_latency_optimize = False, sq_moving_avg = 0, sq_thr_hi = 0, sq_thr_lo = 0, sq_sorted_idx = 0,
     sq_monitor_cnt = 0, sq_cidx_info = \<lparr>qc_wrb_cidx = 1, qc_counter_idx = 0, qc_timer_idx = 0, qc_trig_mode = 1, qc_wrb_en = 1,
       qc_irq_en = 1\<rparr>,
     sq_st_c2h = True, sq_rngsz_cmpt = 2, sq_bufsz = 32768, sq_udd_en = False, sq_desc_bypass = False, sq_adaptive_rx = False,
     sq_ping_pong_en = False, sq_online = True, sq_stop_wait = False, sq_err = False, sq_color = True, sq_avail = 0, sq_pidx = 1,
     sq_pidx_cmpt = 1, sq_cidx_cmpt = 1, sq_cur = 1, sq_cmpt = [[0x3A], [0]], sq_cs_pidx = 1, sq_cs_next = [],
     sq_flq = sample_list, sq_ring = [0x10000, 0x20000], sq_pend_list = [], sq_pend_list_empty = True, sq_done = [],
     sq_total_cmpl_descs = 0, sq_total_st_c2h_pkts = 0, sq_pidx_info = 1, sq_doorbell = [], sq_rx_time = 0, sq_tx_time = 0,
     sq_lat_min = 0, sq_lat_max = 0, sq_lat_total = 0\<rparr>"

definition sample_req :: st_req where
  "sample_req = \<lparr>sr_sgl = [\<lparr>ts_pg = 20, ts_offset = 16, ts_len = 8\<rparr>], sr_count = 8, sr_no_memcpy = False, sr_fp_done = False,
     sr_sg_idx = 0, sr_sg_offset = 0, sr_left = 8\<rparr>"

lemma sample_queue_wf: "st_wf sample_queue" "bufs_ok sample_queue"
  by (auto simp: st_wf_def st_shape_def st_ring_def sample_queue_def sample_list_def bufs_ok_def ring_idx_delta_def u32_sub_def
      entry_len_def flq_zeroed_def)

lemma sample_unread: "unread sample_queue = [(7, 0), (7, 1), (7, 2)]"
proof -
  have "seg 7 0 3 = [(7, 0), (7, 1), (7, 2 :: nat)]" by (simp add: seg_def upt_rec)
  then show ?thesis
    by (simp add: unread_def sample_queue_def sample_list_def ring_idx_delta_def buf_bytes_def flq_zeroed_def)
qed

lemma sample_room: "room (start_pos sample_req) = seg 20 16 8" "st_req_ok (start_pos sample_req)"
  by (simp_all add: room_def start_pos_def sample_req_def st_req_ok_def)

lemma sample_apart: "distinct (seg 20 16 8)" "set (seg 20 16 8) \<inter> set [(7, 0), (7, 1), (7, 2)] = {}"
  by (auto simp: seg_def distinct_map inj_on_def)

lemma c2h_read_bytes_witness:
  "st_wf sample_queue \<and> (\<exists>req' q' km'. descq_st_c2h_read sample_c2h_env True True sample_req sample_queue sample_kmem = Some (3, req', q', km') \<and>
     byte km' = put_bytes (seg 20 16 3) [(7, 0), (7, 1), (7, 2)] (byte sample_kmem) \<and> unread q' = [])"
proof -
  have "\<not> sr_no_memcpy sample_req" "sr_sg_idx sample_req = 0" by (simp_all add: sample_req_def)
  then show ?thesis
    using c2h_read_bytes [OF sample_queue_wf _ sample_room(2), of 3 sample_c2h_env True True sample_kmem] sample_queue_wf(1) sample_apart
    by (auto simp: sample_room(1) sample_unread seg_take)
qed

lemma st_queue_stays_wf_witness:
  "st_wf sample_queue \<and> plain sample_c2h_env \<and>
   (\<exists>rv q' km'. service_cmpl_update sample_c2h_env 4 True sample_queue sample_kmem = Some (rv, q', km') \<and> st_wf q')"
proof -
  have "plain sample_c2h_env" by (simp add: plain_def sample_c2h_env_def)
  then show ?thesis using st_queue_stays_wf [OF sample_queue_wf(1), of sample_c2h_env 4 True sample_kmem] sample_queue_wf(1) by simp
qed

lemma packet_read_counts_witness:
  "\<exists>r' q' km'. qdma_queue_packet_read sample_c2h_env (Some sample_req) None sample_queue sample_kmem = Some (11, Some r', q', km')"
proof -
  let ?r = "sample_req\<lparr>sr_left := 0\<rparr>"
  have "sq_st_c2h sample_queue" "\<not> sr_no_memcpy sample_req" "?r = sample_req\<lparr>sr_sg_idx := 0, sr_sg_offset := 0, sr_left := 0\<rparr>"
      "room (start_pos ?r) = seg 20 16 8" "st_req_ok (start_pos ?r)" "sr_count sample_req = 8"
    by (simp_all add: sample_queue_def sample_req_def room_def start_pos_def st_req_ok_def)
  then show ?thesis
    using packet_read_counts [OF sample_queue_wf, of sample_req ?r 3 sample_c2h_env sample_kmem] sample_apart
    by (auto simp: sample_unread)
qed

text \<open>
  A request of one byte leaves the rest of the packet in its buffer, whose beginning moves on. When
  the rest is read, the buffer is given back with its full length and its old address, but its
  beginning stays moved: the next packet in it is read one byte late.
\<close>

definition one_byte :: "nat \<Rightarrow> st_req" where
  "one_byte n = sample_req\<lparr>sr_sgl := [\<lparr>ts_pg = 20, ts_offset = 0, ts_len = n\<rparr>], sr_no_memcpy := True\<rparr>"

lemma partial_read_moves_buffer:
  "\<exists>r1 q1 km1 r2 q2 km2 sd rest.
     descq_st_c2h_read sample_c2h_env True True (one_byte 1) sample_queue sample_kmem = Some (1, r1, q1, km1) \<and>
     descq_st_c2h_read sample_c2h_env True True (one_byte 2) q1 km1 = Some (2, r2, q2, km2) \<and>
     fq_sdesc (sq_flq q2) = Some (sd # rest) \<and> fs_offset sd = 1 \<and> fs_len sd = 32768 \<and> fs_dma_addr sd = 0x10000 \<and> sq_avail q2 = 1"
  by (simp add: descq_st_c2h_read_def one_byte_def sample_req_def sample_queue_def sample_list_def sample_c2h_env_def flq_zeroed_def
      ring_idx_delta_def ring_idx_incr_def ring_idx_decr_def u32_sub_def u32_wrap_def Let_def copy_buf.simps copy_len_def copy_advance_def
      ping_pong_def qdma_flq_refill_def refill_one_def incr_cmpl_desc_cnt_def queue_pidx_update_def)

end
