(* ===== verification/ErrProps.thy ===== *)
theory ErrProps
  imports ErrTables
begin

text \<open>
  What error processing and error enabling do on a device whose status registers are cleared by
  writing ones and whose mask registers keep what is written: which errors are reported, that
  the status is clear afterwards, and which errors are enabled. The tables are used through
  the interface err_table, interpreted for the four variants.
\<close>

section \<open>Status registers\<close>

text \<open>
  stat is the state of the status registers at the addresses A: reads give it and do not change
  it, a write of v to one of them clears the bits of v, and nothing else changes it.
\<close>

definition err_status :: "'d mmio \<Rightarrow> ('d \<Rightarrow> u32 \<Rightarrow> u32) \<Rightarrow> u32 set \<Rightarrow> bool" where
  "err_status io stat A \<longleftrightarrow>
     (\<forall>r a. stat (snd (readl io r a)) = stat r) \<and>
     (\<forall>r. \<forall>a\<in>A. fst (readl io r a) = stat r a) \<and>
     (\<forall>r a v. stat (writel io r a v) =
        (if a \<in> A then (stat r)(a := stat r a AND NOT v) else stat r)) \<and>
     (\<forall>r us. stat (udelay io r us) = stat r)"

lemma stat_read: "err_status io stat A \<Longrightarrow> stat (xregs (snd (qdma_reg_read io d a))) = stat (xregs d)"
  by (simp add: err_status_def qdma_reg_read_def split_beta)

lemma stat_value: "err_status io stat A \<Longrightarrow> a \<in> A \<Longrightarrow> fst (qdma_reg_read io d a) = stat (xregs d) a"
  by (simp add: err_status_def qdma_reg_read_def split_beta)

lemma stat_write_other:
  "err_status io stat A \<Longrightarrow> a \<notin> A \<Longrightarrow> stat (xregs (qdma_reg_write io d a v)) = stat (xregs d)"
  by (simp add: err_status_def qdma_reg_write_def)

lemma stat_write:
  "err_status io stat A \<Longrightarrow> a \<in> A \<Longrightarrow>
     stat (xregs (qdma_reg_write io d a v)) = (stat (xregs d))(a := stat (xregs d) a AND NOT v)"
  by (simp add: err_status_def qdma_reg_write_def)

lemma stat_udelay: "err_status io stat A \<Longrightarrow> stat (xregs (qdma_udelay io d us)) = stat (xregs d)"
  by (simp add: err_status_def qdma_udelay_def)

text \<open>Nothing the handlers do changes the status.\<close>

lemma stat_monitor_loop:
  assumes "err_status io stat A"
  shows "stat (xregs (snd (hw_monitor_loop io reg m val iv c d))) = stat (xregs d)"
  using assms
proof (induction io reg m val iv c d rule: hw_monitor_loop.induct)
  case (1 io reg m val iv c d)
  obtain v d1 where r: "qdma_reg_read io d reg = (v, d1)" by fastforce
  then have "stat (xregs d1) = stat (xregs d)" using stat_read [OF 1(2), of d reg] by simp
  with r 1 show ?case
    by (subst hw_monitor_loop.simps) (simp add: stat_udelay Let_def)
qed

lemma stat_monitor:
  "err_status io stat A \<Longrightarrow> stat (xregs (snd (hw_monitor_reg io d reg m val iv t))) = stat (xregs d)"
  by (simp add: hw_monitor_reg_def Let_def split_beta stat_read stat_monitor_loop)

lemma stat_read_block:
  assumes "err_status io stat A"
  shows "stat (xregs (snd (reg_read_block io d a n))) = stat (xregs d)"
proof (induction n arbitrary: d a)
  case (Suc n)
  then show ?case by (simp add: split_beta stat_read [OF assms])
qed simp

lemma stat_indirect_read:
  "err_status io stat A \<Longrightarrow> c \<notin> A \<Longrightarrow>
     stat (xregs (snd (snd (indirect_reg_read io a c b d sel q n)))) = stat (xregs d)"
  by (simp add: indirect_reg_read_def Let_def split_beta stat_read_block stat_monitor stat_write_other)

lemma stat_context_read:
  assumes "err_status io stat A" "0x844 \<notin> A"
  shows "\<exists>rv c' d'. context_read (indirect_reg_read io 0x804 0x844 1) n dec (Some d) sel q (Some c) =
      (rv, c', Some d') \<and> stat (xregs d') = stat (xregs d)"
  using stat_indirect_read [OF assms, of "0x804" 1 d sel q n]
  by (auto simp: context_read_def split_beta)

lemma attributes_read:
  assumes "\<And>r a. st (snd (readl io r a)) = st r"
  shows "st (xregs (snd (after_attributes (get_attributes att) io d))) = st (xregs d)"
proof -
  have "st (xregs (snd (qdma_reg_read io d a))) = st (xregs d)" for d a
    using assms by (simp add: qdma_reg_read_def split_beta)
  then show ?thesis
    by (simp add: after_attributes_def get_attributes_def read_capabilities_def split_beta)
qed

lemma stat_attributes:
  "err_status io stat A \<Longrightarrow> stat (xregs (snd (after_attributes (get_attributes att) io d))) = stat (xregs d)"
  unfolding err_status_def by (rule attributes_read) blast

lemma stat_dump_reg_info:
  assumes "err_status io stat A"
  shows "stat (xregs (snd (dump_reg_info regs io d a n))) = stat (xregs d)"
proof -
  have "stat (xregs (foldl (\<lambda>d e. snd (qdma_reg_read io d (xr_addr e))) d es)) = stat (xregs d)" for es :: "xreg_info list" and d
    by (induction es arbitrary: d) (simp_all add: stat_read [OF assms])
  then show ?thesis by (simp add: dump_reg_info_def split: option.split)
qed

lemma stat_dump_each:
  assumes "\<And>d a. stat (xregs (snd (dump d a 1))) = stat (xregs d)"
  shows "stat (xregs (dump_each dump regs d)) = stat (xregs d)"
  unfolding dump_each_def by (induction regs arbitrary: d) (simp_all add: assms [unfolded One_nat_def])

lemmas dump_defs = qdma_dump_reg_info_def qdma_cpm4_dump_reg_info_def eqdma_dump_reg_info_def
  eqdma_cpm5_dump_reg_info_def eqdma_get_device_attributes_def eqdma_cpm5_get_device_attributes_def

lemma stat_dump_ctxt_info:
  assumes "err_status io stat A" "0x844 \<notin> A"
  shows "stat (xregs (eqdma_hw_err_dump_ctxt_info io reg en_st c2h d)) = stat (xregs d)"
    "stat (xregs (eqdma_cpm5_hw_err_dump_ctxt_info io reg en_st c2h d)) = stat (xregs d)"
proof -
  have reads: "eqdma_cpm5_sw_context_read io = eqdma_sw_context_read io"
    "eqdma_cpm5_hw_context_read io = eqdma_hw_context_read io"
    "eqdma_cpm5_cmpt_context_read io = eqdma_cmpt_context_read io"
    by (intro ext, simp only: cpm5_functions cpm5_registers cpm5_codecs)+
  have cpm5: "eqdma_cpm5_hw_err_dump_ctxt_info io = eqdma_hw_err_dump_ctxt_info io"
    by (intro ext) (simp only: eqdma_cpm5_hw_err_dump_ctxt_info_def eqdma_hw_err_dump_ctxt_info_def reads)
  obtain v d1 where r: "qdma_reg_read io d reg = (v, d1)" "stat (xregs d1) = stat (xregs d)"
    using stat_read [OF assms(1), of d reg] by (metis surj_pair snd_conv)
  obtain rv c d2 where sw: "eqdma_sw_context_read io (Some d1) c2h (ucast v) (Some sw_zeroed) = (rv, c, Some d2)"
    "stat (xregs d2) = stat (xregs d1)"
    using stat_context_read [OF assms, where dec = eqdma_sw_fields]
    unfolding eqdma_sw_context_read_def eqdma_indirect_reg_read_def BIT_0 by blast
  obtain rv' c' d3 where hw: "eqdma_hw_context_read io (Some d2) c2h (ucast v) (Some hw_zeroed) = (rv', c', Some d3)"
    "stat (xregs d3) = stat (xregs d2)"
    using stat_context_read [OF assms, where dec = eqdma_hw_fields]
    unfolding eqdma_hw_context_read_def eqdma_indirect_reg_read_def BIT_0 by blast
  obtain rv2 c2 d4 where cm: "eqdma_cmpt_context_read io (Some d3) (ucast v) (Some cm_zeroed) = (rv2, c2, Some d4)"
    "stat (xregs d4) = stat (xregs d3)"
    using stat_context_read [OF assms, where dec = eqdma_cmpt_fields]
    unfolding eqdma_cmpt_context_read_def eqdma_indirect_reg_read_def BIT_0 by blast
  show "stat (xregs (eqdma_hw_err_dump_ctxt_info io reg en_st c2h d)) = stat (xregs d)"
    "stat (xregs (eqdma_cpm5_hw_err_dump_ctxt_info io reg en_st c2h d)) = stat (xregs d)"
    unfolding cpm5 by (simp_all add: eqdma_hw_err_dump_ctxt_info_def r sw hw cm)
qed

lemma stat_handlers:
  assumes "err_status io stat A" "0x844 \<notin> A"
  shows "stat (xregs (qdma_hw_err_handler io h d)) = stat (xregs d)"
    "stat (xregs (qdma_cpm4_hw_err_handler io h d)) = stat (xregs d)"
    "stat (xregs (eqdma_hw_err_handler io h d)) = stat (xregs d)"
    "stat (xregs (eqdma_cpm5_hw_err_handler io h d)) = stat (xregs d)"
  by (cases h; simp add: stat_dump_each stat_dump_reg_info [OF assms(1)] stat_attributes [OF assms(1)]
      stat_dump_ctxt_info [OF assms] dump_defs)+

section \<open>Mask registers\<close>

text \<open>msk is the state of registers at the addresses B that keep what is written to them.\<close>

definition err_masks :: "'d mmio \<Rightarrow> ('d \<Rightarrow> u32 \<Rightarrow> u32) \<Rightarrow> u32 set \<Rightarrow> bool" where
  "err_masks io msk B \<longleftrightarrow>
     (\<forall>r a. msk (snd (readl io r a)) = msk r) \<and>
     (\<forall>r. \<forall>a\<in>B. fst (readl io r a) = msk r a) \<and>
     (\<forall>r a v. msk (writel io r a v) = (if a \<in> B then (msk r)(a := v) else msk r))"

lemma mask_write:
  "err_masks io msk B \<Longrightarrow> a \<in> B \<Longrightarrow> msk (xregs (qdma_reg_write io d a v)) = (msk (xregs d))(a := v)"
  by (simp add: err_masks_def qdma_reg_write_def)

lemma or_reg_effect:
  "err_masks io msk B \<Longrightarrow> a \<in> B \<Longrightarrow>
     msk (xregs (or_reg io d a w)) = (msk (xregs d))(a := msk (xregs d) a OR w)"
  by (simp add: or_reg_def err_masks_def qdma_reg_write_def qdma_reg_read_def split_beta)

section \<open>The interface of a table\<close>

abbreviation status_of :: "'d err_variant \<Rightarrow> nat \<Rightarrow> u32" where
  "status_of v i \<equiv> he_stat_reg_addr (ev_info v ! i)"

abbreviation mask_of :: "'d err_variant \<Rightarrow> nat \<Rightarrow> u32" where
  "mask_of v i \<equiv> he_mask_reg_addr (ev_info v ! i)"

abbreviation leaf_of :: "'d err_variant \<Rightarrow> nat \<Rightarrow> u32" where
  "leaf_of v i \<equiv> he_leaf_err_mask (ev_info v ! i)"

abbreviation err_groups :: "'d err_variant \<Rightarrow> (nat \<times> nat) list" where
  "err_groups v \<equiv> zip (ev_position v) (ev_all v)"

definition err_regs :: "'d err_variant \<Rightarrow> u32 set" where
  "err_regs v = insert GLBL_ERR_STAT_ADDR (status_of v ` set (ev_position v))"

text \<open>Groups that are passed over on a device without streaming.\<close>

definition skipped :: "'d err_variant \<Rightarrow> qdma_dev_attributes \<Rightarrow> nat \<Rightarrow> bool" where
  "skipped v dev_cap p \<longleftrightarrow> da_st_en dev_cap = 0 \<and> p \<in> set (ev_st_position v)"

definition mask_regs :: "'d err_variant \<Rightarrow> u32 set" where
  "mask_regs v = insert GLBL_ERR_MASK_ADDR (mask_of v ` {..<errs_all v})"

definition enabled_groups :: "'d err_variant \<Rightarrow> qdma_dev_attributes \<Rightarrow> nat list" where
  "enabled_groups v dev_cap = filter (\<lambda>l. \<not> (da_st_en dev_cap = 0 \<and> l \<in> set (ev_st_all v))) (ev_all v)"

locale err_table =
  fixes v :: "'d err_variant"
  assumes groups_length: "length (ev_all v) = length (ev_position v)"
    and status_distinct: "distinct (map (status_of v) (ev_position v))"
    and global_apart: "GLBL_ERR_STAT_ADDR \<notin> status_of v ` set (ev_position v)"
    and command_apart: "0x844 \<notin> err_regs v"
    and group_status: "(p, a) \<in> set (err_groups v) \<Longrightarrow> p \<le> i \<Longrightarrow> i < a \<Longrightarrow> status_of v i = status_of v p"
    and handler_keeps: "err_status io stat A \<Longrightarrow> 0x844 \<notin> A \<Longrightarrow>
      stat (xregs (ev_handler v io h d)) = stat (xregs d)"
    and attributes_keep: "(\<And>r a. st (snd (readl io r a)) = st r) \<Longrightarrow>
      st (xregs (snd (after_attributes (ev_attributes v) io d))) = (st (xregs d) :: u32 \<Rightarrow> u32)"
    and masks_distinct: "distinct (map (mask_of v) (ev_all v))"
    and global_mask_apart: "GLBL_ERR_MASK_ADDR \<notin> mask_of v ` {..<errs_all v}"
    and all_in_table: "set (ev_all v) \<subseteq> {..<errs_all v}"
begin

definition found :: "qdma_dev_attributes \<Rightarrow> (u32 \<Rightarrow> u32) \<Rightarrow> nat \<times> nat \<Rightarrow> nat list" where
  "found dev_cap s = (\<lambda>(p, a). if skipped v dev_cap p then []
     else filter (\<lambda>i. s (status_of v p) AND leaf_of v i \<noteq> 0) [p..<a])"

lemma group_effect:
  assumes "err_status io stat A" "0x844 \<notin> A" "status_of v p \<in> A"
  shows "\<exists>d'. hw_error_group v io cap (p, a) (rep, d) = (rep @ found cap (stat (xregs d)) (p, a), d') \<and>
    stat (xregs d') = (if skipped v cap p then stat (xregs d) else (stat (xregs d))(status_of v p := 0))"
proof (cases "skipped v cap p")
  case True
  then show ?thesis by (simp add: hw_error_group_def found_def skipped_def)
next
  case False
  obtain e d1 where r: "qdma_reg_read io d (status_of v p) = (e, d1)" by fastforce
  then have e: "e = stat (xregs d) (status_of v p)" "stat (xregs d1) = stat (xregs d)"
    using stat_value [OF assms(1,3), of d] stat_read [OF assms(1), of d "status_of v p"] by auto
  show ?thesis
  proof (cases "e = 0")
    case True
    then show ?thesis
      using r False e by (auto simp: hw_error_group_def found_def skipped_def)
  next
    case ne: False
    let ?d2 = "ev_handler v io (he_handler (ev_info v ! p)) d1"
    have "stat (xregs (qdma_reg_write io ?d2 (status_of v p) e)) = (stat (xregs d))(status_of v p := 0)"
      using stat_write [OF assms(1,3), of ?d2 e] handler_keeps [OF assms(1,2)] e by simp
    then show ?thesis
      using r False ne e by (auto simp: hw_error_group_def found_def skipped_def)
  qed
qed

lemma groups_effect:
  assumes "err_status io stat A" "0x844 \<notin> A"
    and "\<forall>(p, a)\<in>set gs. status_of v p \<in> A" "distinct (map (\<lambda>(p, a). status_of v p) gs)"
  shows "\<exists>d'. fold (hw_error_group v io cap) gs (rep, d) =
      (rep @ concat (map (found cap (stat (xregs d))) gs), d') \<and>
    (\<forall>x. stat (xregs d') x =
      (if \<exists>(p, a)\<in>set gs. \<not> skipped v cap p \<and> x = status_of v p then 0 else stat (xregs d) x))"
  using assms(3,4)
proof (induction gs arbitrary: rep d)
  case (Cons g gs)
  obtain p a where g: "g = (p, a)" by fastforce
  obtain d1 where d1: "hw_error_group v io cap (p, a) (rep, d) = (rep @ found cap (stat (xregs d)) (p, a), d1)"
    "stat (xregs d1) = (if skipped v cap p then stat (xregs d) else (stat (xregs d))(status_of v p := 0))"
    using group_effect [OF assms(1,2), of p cap a rep d] Cons.prems g by auto
  obtain d2 where d2: "fold (hw_error_group v io cap) gs (rep @ found cap (stat (xregs d)) (p, a), d1) =
      ((rep @ found cap (stat (xregs d)) (p, a)) @ concat (map (found cap (stat (xregs d1))) gs), d2)"
    "\<forall>x. stat (xregs d2) x =
      (if \<exists>(p, a)\<in>set gs. \<not> skipped v cap p \<and> x = status_of v p then 0 else stat (xregs d1) x)"
    using Cons.IH [of "rep @ found cap (stat (xregs d)) (p, a)" d1] Cons.prems by fastforce
  have "found cap (stat (xregs d1)) h = found cap (stat (xregs d)) h" if "h \<in> set gs" for h
  proof -
    obtain p' a' where h: "h = (p', a')" by fastforce
    then have "status_of v p' \<noteq> status_of v p" using that Cons.prems(2) g by force
    then show ?thesis using d1(2) h by (simp add: found_def)
  qed
  then have "map (found cap (stat (xregs d1))) gs = map (found cap (stat (xregs d))) gs" by simp
  moreover have "stat (xregs d2) x = (if \<exists>(p, a)\<in>set (g # gs). \<not> skipped v cap p \<and> x = status_of v p
      then 0 else stat (xregs d) x)" for x
    using d2(2) [rule_format, of x] d1(2) by (cases "skipped v cap p") (simp_all add: g)
  ultimately show ?case using d1(1) d2(1) by (intro exI [of _ d2]) (simp add: g cong: map_cong)
qed simp

lemma process_effect:
  assumes st: "err_status io stat (err_regs v)" and glbl: "stat (xregs d) GLBL_ERR_STAT_ADDR \<noteq> 0"
    and cap: "cap = fst (after_attributes (ev_attributes v) io d)"
  shows "\<exists>d'. hw_error_process v io (Some d) =
      (0, concat (map (found cap (stat (xregs d))) (err_groups v)), Some d') \<and>
    (\<forall>x\<in>err_regs v. stat (xregs d') x =
      (if \<exists>p\<in>set (ev_position v). skipped v cap p \<and> x = status_of v p then stat (xregs d) x else 0))"
proof -
  obtain d1 where a: "after_attributes (ev_attributes v) io d = (cap, d1)" "stat (xregs d1) = stat (xregs d)"
    using attributes_keep [of stat io d] st cap unfolding err_status_def by (metis prod.collapse)
  obtain g d2 where r: "qdma_reg_read io d1 GLBL_ERR_STAT_ADDR = (g, d2)" by fastforce
  have G: "GLBL_ERR_STAT_ADDR \<in> err_regs v" by (simp add: err_regs_def)
  from r have g: "g = stat (xregs d) GLBL_ERR_STAT_ADDR" "stat (xregs d2) = stat (xregs d)"
    using stat_value [OF st G, of d1] stat_read [OF st, of d1 GLBL_ERR_STAT_ADDR] a(2) by auto
  have fst_groups: "map fst (err_groups v) = ev_position v"
    using groups_length by simp
  have "map (\<lambda>(p, a). status_of v p) (err_groups v) = map (status_of v) (map fst (err_groups v))"
    by (simp add: split_beta)
  then have "distinct (map (\<lambda>(p, a). status_of v p) (err_groups v))"
    unfolding fst_groups using status_distinct by simp
  moreover have "\<forall>(p, a)\<in>set (err_groups v). status_of v p \<in> err_regs v"
    by (auto simp: err_regs_def dest: set_zip_leftD)
  ultimately obtain d3 where d3: "fold (hw_error_group v io cap) (err_groups v) ([], d2) =
      (concat (map (found cap (stat (xregs d))) (err_groups v)), d3)"
    "\<forall>x. stat (xregs d3) x = (if \<exists>(p, a)\<in>set (err_groups v). \<not> skipped v cap p \<and> x = status_of v p
        then 0 else stat (xregs d) x)"
    using groups_effect [OF st command_apart, of "err_groups v" cap "[]" d2] g by auto
  have ex: "(\<exists>(p, a)\<in>set (err_groups v). Q p) \<longleftrightarrow> (\<exists>p\<in>set (ev_position v). Q p)" for Q
    by (subst fst_groups [symmetric]) (auto simp: split_beta)
  have pos: "status_of v p = status_of v q \<Longrightarrow> p \<in> set (ev_position v) \<Longrightarrow> q \<in> set (ev_position v) \<Longrightarrow> p = q" for p q
    using status_distinct by (auto simp: distinct_map dest: inj_onD)
  have "stat (xregs (qdma_reg_write io d3 GLBL_ERR_STAT_ADDR g)) x =
      (if \<exists>p\<in>set (ev_position v). skipped v cap p \<and> x = status_of v p then stat (xregs d) x else 0)"
    if x: "x \<in> err_regs v" for x
  proof (cases "x = GLBL_ERR_STAT_ADDR")
    case True
    then show ?thesis
      using global_apart d3(2) by (auto simp: stat_write [OF st G] ex g image_iff)
  next
    case False
    then obtain p where p: "p \<in> set (ev_position v)" "x = status_of v p"
      using x by (auto simp: err_regs_def)
    then show ?thesis
      using False pos by (auto simp: stat_write [OF st G] d3(2) ex)
  qed
  with a r g glbl d3(1) show ?thesis
    by (auto simp: hw_error_process_def)
qed

lemma reported_iff:
  "i \<in> set (concat (map (found cap s) (err_groups v))) \<longleftrightarrow>
     (\<exists>(p, a)\<in>set (err_groups v). p \<le> i \<and> i < a \<and> \<not> skipped v cap p) \<and>
     s (status_of v i) AND leaf_of v i \<noteq> 0"
proof -
  have "i \<in> set (found cap s (p, a)) \<longleftrightarrow>
      p \<le> i \<and> i < a \<and> \<not> skipped v cap p \<and> s (status_of v i) AND leaf_of v i \<noteq> 0"
    if "(p, a) \<in> set (err_groups v)" for p a
    using group_status [OF that, of i] by (auto simp: found_def)
  then have "(\<exists>g\<in>set (err_groups v). i \<in> set (found cap s g)) \<longleftrightarrow>
      (\<exists>g\<in>set (err_groups v). fst g \<le> i \<and> i < snd g \<and> \<not> skipped v cap (fst g) \<and>
         s (status_of v i) AND leaf_of v i \<noteq> 0)"
    by (intro bex_cong) (auto simp: prod_eq_iff)
  then show ?thesis by (auto simp: split_beta)
qed

text \<open>Enabling: the mask registers keep what is written to them.\<close>

lemma enable_groups_effect:
  assumes "err_masks io msk (mask_regs v)" "distinct (map (mask_of v) ls)" "set ls \<subseteq> {..<errs_all v}"
  shows "msk (xregs (fold (enable_group v io cap) ls d)) x =
    (let on = filter (\<lambda>l. \<not> (da_st_en cap = 0 \<and> l \<in> set (ev_st_all v))) ls in
     if x = GLBL_ERR_MASK_ADDR
     then foldl (\<lambda>w l. w OR FIELD_SET (he_global_err_mask (ev_info v ! l)) 1) (msk (xregs d) x) on
     else case find (\<lambda>l. mask_of v l = x) on of Some l \<Rightarrow> leaf_of v l | None \<Rightarrow> msk (xregs d) x)"
  using assms(2,3)
proof (induction ls arbitrary: d)
  case (Cons l ls)
  have m: "mask_of v l \<noteq> GLBL_ERR_MASK_ADDR" "mask_of v l \<in> mask_regs v" "GLBL_ERR_MASK_ADDR \<in> mask_regs v"
    using global_mask_apart Cons.prems(2) by (force simp: mask_regs_def)+
  have l: "find (\<lambda>k. mask_of v k = x) (filter P ls) = None" if "mask_of v l = x" for P
    using that Cons.prems(1) by (auto simp: find_None_iff image_iff)
  show ?case
  proof (cases "da_st_en cap = 0 \<and> l \<in> set (ev_st_all v)")
    case True
    then show ?thesis using Cons by (simp add: enable_group_def)
  next
    case False
    then have "msk (xregs (enable_group v io cap l d)) = (msk (xregs d))
        (mask_of v l := leaf_of v l, GLBL_ERR_MASK_ADDR :=
           msk (xregs d) GLBL_ERR_MASK_ADDR OR FIELD_SET (he_global_err_mask (ev_info v ! l)) 1)"
      using m by (auto simp: enable_group_def or_reg_effect [OF assms(1)] mask_write [OF assms(1)])
    then show ?thesis
      using Cons.IH [of "enable_group v io cap l d"] Cons.prems False l m(1)
      by (cases "mask_of v l = x") (auto simp: Let_def split: option.split)
  qed
qed simp

lemma enable_all_effect:
  assumes io: "err_masks io msk (mask_regs v)" and idx: "unat err_idx = errs_all v"
    and cap: "cap = fst (after_attributes (ev_attributes v) io d)"
  shows "\<exists>d'. hw_error_enable v io (Some d) err_idx = (0, Some d') \<and>
    (\<forall>l\<in>set (enabled_groups v cap). msk (xregs d') (mask_of v l) = leaf_of v l) \<and>
    msk (xregs d') GLBL_ERR_MASK_ADDR =
      foldl (\<lambda>w l. w OR FIELD_SET (he_global_err_mask (ev_info v ! l)) 1)
        (msk (xregs d) GLBL_ERR_MASK_ADDR) (enabled_groups v cap)"
proof -
  obtain d1 where a: "after_attributes (ev_attributes v) io d = (cap, d1)" "msk (xregs d1) = msk (xregs d)"
    using attributes_keep [of msk io d] io cap unfolding err_masks_def by (metis prod.collapse)
  note eff = enable_groups_effect [OF io masks_distinct all_in_table, of cap d1, folded enabled_groups_def]
  have "find (\<lambda>k. mask_of v k = mask_of v l) (enabled_groups v cap) = Some l"
    if l: "l \<in> set (enabled_groups v cap)" for l
  proof -
    have "find (\<lambda>k. mask_of v k = mask_of v l) (enabled_groups v cap) \<noteq> None"
      using l by (auto simp: find_None_iff)
    then obtain k where k: "find (\<lambda>k. mask_of v k = mask_of v l) (enabled_groups v cap) = Some k" by blast
    then have "mask_of v k = mask_of v l" "k \<in> set (enabled_groups v cap)"
      by (auto simp: find_Some_iff)
    then have "k = l"
      using l masks_distinct by (auto simp: enabled_groups_def distinct_map dest: inj_onD)
    then show ?thesis using k by simp
  qed
  then have "msk (xregs (fold (enable_group v io cap) (ev_all v) d1)) (mask_of v l) = leaf_of v l"
    if "l \<in> set (enabled_groups v cap)" for l
    using that global_mask_apart all_in_table by (force simp: eff Let_def enabled_groups_def)
  then show ?thesis
    using a idx by (simp add: hw_error_enable_def eff Let_def)
qed

lemma enable_one_effect:
  assumes io: "err_masks io msk (mask_regs v)" and idx: "unat err_idx < errs_all v" "i = unat err_idx"
    and st: "da_st_en (fst (after_attributes (ev_attributes v) io d)) \<noteq> 0"
  shows "\<exists>d'. hw_error_enable v io (Some d) err_idx = (0, Some d') \<and>
    msk (xregs d') = (msk (xregs d))
      (mask_of v i := msk (xregs d) (mask_of v i) OR FIELD_SET (leaf_of v i) 1,
       GLBL_ERR_MASK_ADDR := msk (xregs d) GLBL_ERR_MASK_ADDR OR
         FIELD_SET (he_global_err_mask (ev_info v ! i)) 1)"
proof -
  obtain cap d1 where a: "after_attributes (ev_attributes v) io d = (cap, d1)" "msk (xregs d1) = msk (xregs d)"
    using attributes_keep [of msk io d] io unfolding err_masks_def by (metis prod.collapse)
  have m: "mask_of v i \<noteq> GLBL_ERR_MASK_ADDR" "mask_of v i \<in> mask_regs v" "GLBL_ERR_MASK_ADDR \<in> mask_regs v"
    using global_mask_apart idx by (force simp: mask_regs_def)+
  show ?thesis
    using a st idx m
    by (simp add: hw_error_enable_def Let_def or_reg_effect [OF io])
qed

end

section \<open>The tables of the variants\<close>

text \<open>The conditions of the interface as computations on the lists.\<close>

definition group_entries :: "hw_err_info list \<Rightarrow> nat \<times> nat \<Rightarrow> hw_err_info list" where
  "group_entries info = (\<lambda>(p, a). take (a - p) (drop p info))"

lemma nth_group_entries:
  assumes "p \<le> i" "i < a" "a \<le> length info"
  shows "info ! i \<in> set (group_entries info (p, a))"
proof -
  have "group_entries info (p, a) ! (i - p) = info ! i"
    using assms by (simp add: group_entries_def)
  moreover have "i - p < length (group_entries info (p, a))"
    using assms by (simp add: group_entries_def)
  ultimately show ?thesis by (metis nth_mem)
qed

definition table_ok :: "'d err_variant \<Rightarrow> bool" where
  "table_ok v \<longleftrightarrow>
     length (ev_all v) = length (ev_position v) \<and>
     distinct (map (status_of v) (ev_position v)) \<and>
     list_all (\<lambda>p. status_of v p \<noteq> GLBL_ERR_STAT_ADDR \<and> status_of v p \<noteq> 0x844) (ev_position v) \<and>
     list_all (\<lambda>(p, a). a < errs_all v \<and>
       list_all (\<lambda>e. he_stat_reg_addr e = status_of v p) (group_entries (ev_info v) (p, a))) (err_groups v) \<and>
     distinct (map (mask_of v) (ev_all v)) \<and>
     list_all (\<lambda>e. he_mask_reg_addr e \<noteq> GLBL_ERR_MASK_ADDR) (ev_info v)"

lemma err_table_intro:
  assumes ok: "table_ok v"
    and "\<And>io stat A h d. err_status io stat A \<Longrightarrow> 0x844 \<notin> A \<Longrightarrow>
      stat (xregs (ev_handler v io h d)) = stat (xregs d)"
    and "\<And>io st d. (\<And>r a. st (snd (readl io r a)) = st r) \<Longrightarrow>
      st (xregs (snd (after_attributes (ev_attributes v) io d))) = (st (xregs d) :: u32 \<Rightarrow> u32)"
  shows "err_table v"
proof
  show "status_of v i = status_of v p" if "(p, a) \<in> set (err_groups v)" "p \<le> i" "i < a" for p a i
    using ok nth_group_entries [OF that(2,3), of "ev_info v"] that(1)
    by (fastforce simp: table_ok_def list_all_iff)
  show "set (ev_all v) \<subseteq> {..<errs_all v}"
  proof
    fix l assume "l \<in> set (ev_all v)"
    then obtain i where i: "i < length (ev_all v)" "l = ev_all v ! i"
      by (auto simp: in_set_conv_nth)
    then have "(ev_position v ! i, l) \<in> set (err_groups v)"
      using ok by (force simp: table_ok_def in_set_zip)
    then show "l \<in> {..<errs_all v}" using ok by (auto simp: table_ok_def list_all_iff)
  qed
  show "GLBL_ERR_MASK_ADDR \<notin> mask_of v ` {..<errs_all v}"
    using ok by (fastforce simp: table_ok_def list_all_iff)
qed (use assms in \<open>auto simp: table_ok_def err_regs_def list_all_iff\<close>)

lemmas qdma_table = qdma_errs_def qdma_hw_err_position_def all_qdma_hw_errs_def
  qdma_err_info_dsc_def qdma_err_info_trq_def qdma_err_info_st_c2h_def qdma_err_info_st_fatal_def
  qdma_err_info_st_h2c_def qdma_err_info_sbe_part1_def qdma_err_info_sbe_part2_def
  qdma_err_info_dbe_part1_def qdma_err_info_dbe_part2_def qdma_err_info_def

lemma qdma_table_ok: "table_ok qdma_errs"
  by (simp add: table_ok_def group_entries_def qdma_table)

interpretation soft: err_table qdma_errs
  by (rule err_table_intro [OF qdma_table_ok])
     (simp_all add: qdma_errs_def stat_handlers qdma_get_device_attributes_def attributes_read)

lemmas eqdma_table = eqdma_errs_def eqdma_hw_err_position_def all_eqdma_hw_errs_def
  eqdma_err_info_dsc_part1_def eqdma_err_info_dsc_part2_def eqdma_err_info_trq_def
  eqdma_err_info_st_c2h_part1_def eqdma_err_info_st_c2h_part2_def
  eqdma_err_info_st_fatal_part1_def eqdma_err_info_st_fatal_part2_def eqdma_err_info_st_h2c_def
  eqdma_err_info_sbe_1_def eqdma_err_info_sbe_part1_def eqdma_err_info_sbe_part2_def
  eqdma_err_info_dbe_1_def eqdma_err_info_dbe_part1_def eqdma_err_info_dbe_part2_def
  eqdma_err_info_mm_c2h_def eqdma_err_info_mm_h2c0_def eqdma_err_info_def

lemma eqdma_table_ok: "table_ok eqdma_errs"
  by (simp add: table_ok_def group_entries_def eqdma_table)

interpretation enhanced: err_table eqdma_errs
  by (rule err_table_intro [OF eqdma_table_ok])
     (simp_all add: eqdma_errs_def stat_handlers eqdma_get_device_attributes_def attributes_read)

lemmas eqdma_cpm5_table = eqdma_cpm5_errs_def eqdma_cpm5_hw_err_position_def
  all_eqdma_cpm5_hw_errs_def eqdma_cpm5_err_info_dsc_part1_def eqdma_cpm5_err_info_dsc_part2_def
  eqdma_cpm5_err_info_trq_def eqdma_cpm5_err_info_st_c2h_part1_def
  eqdma_cpm5_err_info_st_c2h_part2_def eqdma_cpm5_err_info_st_fatal_part1_def
  eqdma_cpm5_err_info_st_fatal_part2_def eqdma_cpm5_err_info_st_h2c_def
  eqdma_cpm5_err_info_sbe_1_def eqdma_cpm5_err_info_sbe_part1_def
  eqdma_cpm5_err_info_sbe_part2_def eqdma_cpm5_err_info_dbe_1_def
  eqdma_cpm5_err_info_dbe_part1_def eqdma_cpm5_err_info_dbe_part2_def
  eqdma_cpm5_err_info_mm_c2h_def eqdma_cpm5_err_info_mm_h2c0_def eqdma_cpm5_err_info_def

lemma eqdma_cpm5_table_ok: "table_ok eqdma_cpm5_errs"
  by (simp add: table_ok_def group_entries_def eqdma_cpm5_table)

interpretation cpm5: err_table eqdma_cpm5_errs
  by (rule err_table_intro [OF eqdma_cpm5_table_ok])
     (simp_all add: eqdma_cpm5_errs_def stat_handlers eqdma_cpm5_get_device_attributes_def attributes_read)

lemmas qdma_cpm4_table = qdma_cpm4_errs_def qdma_cpm4_hw_err_position_def
  all_qdma_cpm4_hw_errs_def qdma_cpm4_err_info_dsc_def qdma_cpm4_err_info_trq_def
  qdma_cpm4_err_info_st_c2h_def qdma_cpm4_err_info_st_fatal_def qdma_cpm4_err_info_st_h2c_def
  qdma_cpm4_err_info_sbe_part1_def qdma_cpm4_err_info_sbe_part2_def
  qdma_cpm4_err_info_dbe_part1_def qdma_cpm4_err_info_dbe_part2_def qdma_cpm4_err_info_def

lemma qdma_cpm4_table_ok: "table_ok qdma_cpm4_errs"
  by (simp add: table_ok_def group_entries_def qdma_cpm4_table)

interpretation cpm4: err_table qdma_cpm4_errs
  by (rule err_table_intro [OF qdma_cpm4_table_ok])
     (simp_all add: qdma_cpm4_errs_def stat_handlers qdma_cpm4_get_device_attributes_def attributes_read)

section \<open>Processing\<close>

definition error_processes ::
  "(('d mmio \<Rightarrow> 'd xdev option \<Rightarrow> int \<times> nat list \<times> 'd xdev option) \<times> 'd err_variant) list" where
  "error_processes =
     [(qdma_hw_error_process, qdma_errs), (eqdma_hw_error_process, eqdma_errs),
      (eqdma_cpm5_hw_error_process, eqdma_cpm5_errs), (qdma_cpm4_hw_error_process, qdma_cpm4_errs)]"

lemma error_tables:
  assumes "(process, v) \<in> set error_processes"
  shows "err_table v" "process = hw_error_process v"
  using assms soft.err_table_axioms enhanced.err_table_axioms cpm5.err_table_axioms cpm4.err_table_axioms
  by (auto simp: error_processes_def qdma_hw_error_process_def eqdma_hw_error_process_def
      eqdma_cpm5_hw_error_process_def qdma_cpm4_hw_error_process_def)

text \<open>C23. Error processing on every variant, on a device whose status registers are cleared by
  writing ones, when the global status is not clear: the errors reported are exactly those
  entries of a group (its ALL entry excepted) whose bit is raised in the group's status
  register, except the groups of the streaming engine on a device without one. Afterwards the
  global status and the status registers of the groups looked at are clear, those of the
  groups passed over are as they were.
\<close>

theorem hw_error_process_reports:
  assumes "(process, v) \<in> set error_processes" "err_status io stat (err_regs v)"
    and "stat (xregs d) GLBL_ERR_STAT_ADDR \<noteq> 0"
    and "cap = fst (after_attributes (ev_attributes v) io d)"
  shows "\<exists>reported d'. process io (Some d) = (0, reported, Some d') \<and>
    (\<forall>i. i \<in> set reported \<longleftrightarrow>
       (\<exists>(p, a)\<in>set (zip (ev_position v) (ev_all v)). p \<le> i \<and> i < a \<and> \<not> skipped v cap p) \<and>
       stat (xregs d) (he_stat_reg_addr (ev_info v ! i)) AND he_leaf_err_mask (ev_info v ! i) \<noteq> 0) \<and>
    (\<forall>x\<in>err_regs v. stat (xregs d') x =
       (if \<exists>p\<in>set (ev_position v). skipped v cap p \<and> x = he_stat_reg_addr (ev_info v ! p)
        then stat (xregs d) x else 0))"
  using err_table.process_effect [OF error_tables(1) [OF assms(1)] assms(2-4)]
    err_table.reported_iff [OF error_tables(1) [OF assms(1)], of _ cap "stat (xregs d)"]
    error_tables(2) [OF assms(1)]
  by auto

definition err_sim_stat :: "u32 set \<Rightarrow> (u32 \<Rightarrow> u32) \<Rightarrow> u32 \<Rightarrow> u32" where
  "err_sim_stat A r a = (if a \<in> A then r a else 0)"

definition err_sim :: "u32 set \<Rightarrow> (u32 \<Rightarrow> u32) mmio" where
  "err_sim A = \<lparr>readl = \<lambda>r a. (r a, r),
     writel = \<lambda>r a v. r(a := (if a \<in> A then r a AND NOT v else v)), udelay = \<lambda>r us. r\<rparr>"

lemma err_sim_status: "err_status (err_sim A) (err_sim_stat A) A"
  by (auto simp: err_status_def err_sim_def err_sim_stat_def fun_eq_iff)

text \<open>A soft IP with bits 1 and 4 raised in the descriptor status.\<close>

definition err_sim_dev :: "(u32 \<Rightarrow> u32) xdev" where
  "err_sim_dev = \<lparr>xregs = (\<lambda>_. 0)(0x248 := 0x2, 0x254 := 0x12), hw_prg_lock = False\<rparr>"

abbreviation soft_sim_errs :: "(u32 \<Rightarrow> u32) err_variant" where
  "soft_sim_errs \<equiv> qdma_errs"

lemma hw_error_process_reports_witness:
  "\<exists>reported d'. qdma_hw_error_process (err_sim (err_regs soft_sim_errs)) (Some err_sim_dev) =
      (0, reported, Some d') \<and> 1 \<in> set reported \<and> 2 \<notin> set reported"
proof -
  have m: "(qdma_hw_error_process, soft_sim_errs) \<in> set error_processes" by (simp add: error_processes_def)
  have g: "err_sim_stat (err_regs soft_sim_errs) (xregs err_sim_dev) 0x248 \<noteq> 0"
    by (simp add: err_sim_stat_def err_regs_def err_sim_dev_def)
  have f: "(0, 14) \<in> set (zip (ev_position soft_sim_errs) (ev_all soft_sim_errs))"
    "status_of soft_sim_errs 1 = 0x254" "leaf_of soft_sim_errs 1 = 2"
    "status_of soft_sim_errs 2 = 0x254" "leaf_of soft_sim_errs 2 = 4"
    "\<not> skipped soft_sim_errs cap 0" "0x254 \<in> err_regs soft_sim_errs" for cap
    by (simp_all add: qdma_table skipped_def err_regs_def BIT_def)
  have ex: "\<exists>(p, a)\<in>set (zip (ev_position soft_sim_errs) (ev_all soft_sim_errs)).
      p \<le> 1 \<and> 1 < a \<and> \<not> skipped soft_sim_errs cap p" for cap
    using f(6) by (intro bexI [OF _ f(1)]) simp
  show ?thesis
    using hw_error_process_reports [where stat = "err_sim_stat (err_regs soft_sim_errs)" and d = err_sim_dev,
      OF m err_sim_status g refl]
    apply (elim ex_forward conjE)
    apply (intro conjI)
      apply assumption
     apply (simp only: ex f, simp add: f err_sim_stat_def err_sim_dev_def)
    apply (simp only: f, simp add: f err_sim_stat_def err_sim_dev_def)
    done
qed

section \<open>Enabling\<close>

text \<open>
  A variant's function, its table, the errors whose bit is not part of the mask its group is
  enabled with, and the bits of the global mask.
\<close>

definition error_enables ::
  "(('d mmio \<Rightarrow> 'd xdev option \<Rightarrow> u32 \<Rightarrow> int \<times> 'd xdev option) \<times> 'd err_variant \<times> nat list \<times> u32) list" where
  "error_enables =
     [(qdma_hw_error_enable, qdma_errs, [], 0x90F),
      (eqdma_hw_error_enable, eqdma_errs, [15, 19, 39, 40, 45], 0x1015F),
      (eqdma_cpm5_hw_error_enable, eqdma_cpm5_errs, [15, 19, 39, 40, 45], 0x1015F),
      (qdma_cpm4_hw_error_enable, qdma_cpm4_errs, [17, 18, 37, 43], 0x90F)]"

definition enable_table_ok :: "'d err_variant \<Rightarrow> nat list \<Rightarrow> u32 \<Rightarrow> bool" where
  "enable_table_ok v missing bits \<longleftrightarrow>
     list_all (\<lambda>(p, a). list_all (\<lambda>(i, e). he_mask_reg_addr e = mask_of v a \<and>
         (leaf_of v a AND he_leaf_err_mask e = he_leaf_err_mask e \<longleftrightarrow> i \<notin> set missing))
       (enumerate p (group_entries (ev_info v) (p, a)))) (err_groups v) \<and>
     foldl (\<lambda>w l. w OR FIELD_SET (he_global_err_mask (ev_info v ! l)) 1) 0 (ev_all v) = bits"

lemma enable_table_group:
  assumes "enable_table_ok v missing bits" "(p, a) \<in> set (err_groups v)" "p \<le> i" "i < a"
    and "a \<le> length (ev_info v)"
  shows "mask_of v i = mask_of v a" "leaf_of v a AND leaf_of v i = leaf_of v i \<longleftrightarrow> i \<notin> set missing"
proof -
  have "(i, ev_info v ! i) \<in> set (enumerate p (group_entries (ev_info v) (p, a)))"
    using assms(3-5) by (auto simp: in_set_enumerate_eq group_entries_def)
  then show "mask_of v i = mask_of v a" "leaf_of v a AND leaf_of v i = leaf_of v i \<longleftrightarrow> i \<notin> set missing"
    using assms(1,2) by (fastforce simp: enable_table_ok_def list_all_iff)+
qed

lemmas ctz_eval = FIELD_SET_def FIELD_SHIFT_def get_trailing_zeros_def ctz_step_def

lemma enable_tables_ok:
  "enable_table_ok qdma_errs [] 0x90F"
  "enable_table_ok eqdma_errs [15, 19, 39, 40, 45] 0x1015F"
  "enable_table_ok eqdma_cpm5_errs [15, 19, 39, 40, 45] 0x1015F"
  "enable_table_ok qdma_cpm4_errs [17, 18, 37, 43] 0x90F"
     apply (simp add: enable_table_ok_def qdma_table group_entries_def BIT_def ctz_eval)
    apply (simp add: enable_table_ok_def eqdma_table group_entries_def BIT_def ctz_eval)
   apply (simp add: enable_table_ok_def eqdma_cpm5_table group_entries_def BIT_def ctz_eval)
  apply (simp add: enable_table_ok_def qdma_cpm4_table group_entries_def BIT_def ctz_eval)
  done

lemma foldl_or: "foldl (\<lambda>w l. w OR f l) w ls = w OR foldl (\<lambda>w l. w OR f l) (0 :: u32) ls"
proof (induction ls arbitrary: w)
  case (Cons l ls)
  show ?case using Cons [of "w OR f l"] Cons [of "f l"] by (simp add: or.assoc)
qed simp

text \<open>C24. Enabling all errors on a device with a streaming engine whose mask registers keep what is
  written: the call succeeds, the global mask gains the bits of every group, and in the mask
  register of its group every error is enabled except those of the list given for the
  variant: none on the soft IP, the port id, other request, tag, parity and one fatal RAM
  error on EQDMA and CPM5, and four on CPM4.
\<close>

theorem hw_error_enable_all:
  assumes "(enable, v, missing, bits) \<in> set error_enables"
    and "err_masks io msk (insert GLBL_ERR_MASK_ADDR ((\<lambda>i. he_mask_reg_addr (ev_info v ! i)) ` {..<length (ev_info v)}))"
    and "unat err_idx = length (ev_info v)"
    and "da_st_en (fst (after_attributes (ev_attributes v) io d)) \<noteq> 0"
  shows "\<exists>d'. enable io (Some d) err_idx = (0, Some d') \<and>
    msk (xregs d') GLBL_ERR_MASK_ADDR = msk (xregs d) GLBL_ERR_MASK_ADDR OR bits \<and>
    (\<forall>(p, a)\<in>set (zip (ev_position v) (ev_all v)). \<forall>i. p \<le> i \<and> i < a \<longrightarrow>
      (msk (xregs d') (he_mask_reg_addr (ev_info v ! i)) AND he_leaf_err_mask (ev_info v ! i) =
         he_leaf_err_mask (ev_info v ! i) \<longleftrightarrow> i \<notin> set missing))"
proof -
  have v: "err_table v" "enable = hw_error_enable v" "enable_table_ok v missing bits"
    using assms(1) enable_tables_ok
      soft.err_table_axioms enhanced.err_table_axioms cpm5.err_table_axioms cpm4.err_table_axioms
    by (auto simp: error_enables_def qdma_hw_error_enable_def eqdma_hw_error_enable_def
        eqdma_cpm5_hw_error_enable_def qdma_cpm4_hw_error_enable_def)
  let ?cap = "fst (after_attributes (ev_attributes v) io d)"
  have all: "enabled_groups v ?cap = ev_all v"
    using assms(4) by (simp add: enabled_groups_def)
  obtain d' where d': "hw_error_enable v io (Some d) err_idx = (0, Some d')"
    "\<forall>l\<in>set (ev_all v). msk (xregs d') (mask_of v l) = leaf_of v l"
    "msk (xregs d') GLBL_ERR_MASK_ADDR =
      foldl (\<lambda>w l. w OR FIELD_SET (he_global_err_mask (ev_info v ! l)) 1)
        (msk (xregs d) GLBL_ERR_MASK_ADDR) (ev_all v)"
    using err_table.enable_all_effect [where d = d, OF v(1) assms(2) [folded mask_regs_def] assms(3) refl]
    unfolding all by blast
  moreover have "mask_of v i = mask_of v a" "leaf_of v a AND leaf_of v i = leaf_of v i \<longleftrightarrow> i \<notin> set missing"
    if "(p, a) \<in> set (err_groups v)" "p \<le> i" "i < a" for p a i
    using enable_table_group [OF v(3) that] err_table.all_in_table [OF v(1)] set_zip_rightD [OF that(1)]
    by (auto simp: less_imp_le)
  moreover have global: "foldl (\<lambda>w l. w OR FIELD_SET (he_global_err_mask (ev_info v ! l)) 1)
        (msk (xregs d) GLBL_ERR_MASK_ADDR) (ev_all v) = msk (xregs d) GLBL_ERR_MASK_ADDR OR bits"
    using v(3) foldl_or [of _ "msk (xregs d) GLBL_ERR_MASK_ADDR" "ev_all v"] by (simp add: enable_table_ok_def)
  ultimately have "case g of (p, a) \<Rightarrow> \<forall>i. p \<le> i \<and> i < a \<longrightarrow>
      (msk (xregs d') (mask_of v i) AND leaf_of v i = leaf_of v i \<longleftrightarrow> i \<notin> set missing)"
    if "g \<in> set (err_groups v)" for g
    using that by (cases g) (simp add: set_zip_rightD)
  with d'(1,3) global show ?thesis
    unfolding v(2) by (intro exI [of _ d']) simp
qed

text \<open>A CPM4 device whose registers all read as ones.\<close>

definition err_ones_dev :: "(u32 \<Rightarrow> u32) xdev" where
  "err_ones_dev = \<lparr>xregs = \<lambda>_. 0xFFFFFFFF, hw_prg_lock = False\<rparr>"

abbreviation cpm4_sim_errs :: "(u32 \<Rightarrow> u32) err_variant" where
  "cpm4_sim_errs \<equiv> qdma_cpm4_errs"

lemma err_sim_masks: "err_masks (err_sim {}) (err_sim_stat B) B"
  by (auto simp: err_masks_def err_sim_def err_sim_stat_def fun_eq_iff)

lemma hw_error_enable_all_witness:
  "\<exists>d'. qdma_cpm4_hw_error_enable (err_sim {}) (Some err_ones_dev) (of_nat (length qdma_cpm4_err_info)) =
     (0, Some d')"
proof -
  have st: "both_set QDMA_GLBL2_ST_C2H_MASK QDMA_GLBL2_ST_H2C_MASK 0xFFFFFFFF \<noteq> 0"
    by (simp add: both_set_def FIELD_GET_def FIELD_SHIFT_def BIT_def get_trailing_zeros_def ctz_step_def)
  have "(qdma_cpm4_hw_error_enable, cpm4_sim_errs, [17, 18, 37, 43], 0x90F) \<in> set error_enables"
    by (simp add: error_enables_def)
  moreover have "unat (of_nat (length qdma_cpm4_err_info) :: u32) = length (ev_info cpm4_sim_errs)"
    by (simp add: qdma_cpm4_table)
  moreover have "da_st_en (fst (after_attributes (ev_attributes cpm4_sim_errs) (err_sim {}) err_ones_dev)) \<noteq> 0"
    by (simp add: qdma_cpm4_errs_def after_attributes_def qdma_cpm4_get_device_attributes_def
        get_attributes_def read_capabilities_def qdma_reg_read_def err_sim_def err_ones_dev_def
        qdma_cpm4_attributes_def st)
  ultimately show ?thesis
    using hw_error_enable_all [OF _ err_sim_masks] by blast
qed

end
