(* ===== verification/MboxHw.thy ===== *)
theory MboxHw
  imports AccessTable
begin

text \<open>
  The mailbox registers: sending and receiving the 32 words of a message, acknowledgements and
  interrupts of the second half of qdma_mbox_protocol.c. A message is a list of words here, as the
  registers carry it; its header has the operation in bits 0 to 7 of word 0, the source function in
  bits 16 to 31 of word 0 and the destination function in bits 0 to 15 of word 1 (little endian).
\<close>

section \<open>Registers\<close>

definition MBOX_FN_STATUS :: u32 where "MBOX_FN_STATUS = 0x0"
definition F_MBOX_FN_STATUS_IN_MSG :: u32 where "F_MBOX_FN_STATUS_IN_MSG = 0x1"
definition F_MBOX_FN_STATUS_OUT_MSG :: u32 where "F_MBOX_FN_STATUS_OUT_MSG = 0x2"
definition F_MBOX_FN_STATUS_ACK :: u32 where "F_MBOX_FN_STATUS_ACK = 0x4"
definition G_MBOX_FN_STATUS_SRC :: "u32 \<Rightarrow> u32" where "G_MBOX_FN_STATUS_SRC x = drop_bit 4 x AND 0xFFF"
definition MBOX_FN_CMD :: u32 where "MBOX_FN_CMD = 0x4"
definition F_MBOX_FN_CMD_SND :: u32 where "F_MBOX_FN_CMD_SND = 0x1"
definition F_MBOX_FN_CMD_RCV :: u32 where "F_MBOX_FN_CMD_RCV = 0x2"
definition MBOX_ISR_VEC :: u32 where "MBOX_ISR_VEC = 0x8"
definition MBOX_FN_TARGET :: u32 where "MBOX_FN_TARGET = 0xC"
definition V_MBOX_FN_TARGET_ID :: "u32 \<Rightarrow> u32" where "V_MBOX_FN_TARGET_ID x = x AND 0xFFF"
definition MBOX_ISR_EN :: u32 where "MBOX_ISR_EN = 0x10"
definition MBOX_PF_ACK_BASE :: u32 where "MBOX_PF_ACK_BASE = 0x20"
definition MBOX_PF_ACK_STEP :: u32 where "MBOX_PF_ACK_STEP = 4"
definition MBOX_PF_ACK_COUNT :: nat where "MBOX_PF_ACK_COUNT = 8"
definition MBOX_IN_MSG_BASE :: u32 where "MBOX_IN_MSG_BASE = 0x800"
definition MBOX_OUT_MSG_BASE :: u32 where "MBOX_OUT_MSG_BASE = 0xC00"
definition MBOX_MSG_STEP :: u32 where "MBOX_MSG_STEP = 4"
definition MBOX_MSG_REG_MAX :: nat where "MBOX_MSG_REG_MAX = 32"

lemmas mbox_reg_defs = MBOX_FN_STATUS_def F_MBOX_FN_STATUS_IN_MSG_def F_MBOX_FN_STATUS_OUT_MSG_def
  F_MBOX_FN_STATUS_ACK_def MBOX_FN_CMD_def F_MBOX_FN_CMD_SND_def F_MBOX_FN_CMD_RCV_def MBOX_ISR_VEC_def
  MBOX_FN_TARGET_def V_MBOX_FN_TARGET_ID_def MBOX_ISR_EN_def MBOX_PF_ACK_BASE_def MBOX_PF_ACK_STEP_def
  MBOX_PF_ACK_COUNT_def MBOX_IN_MSG_BASE_def MBOX_OUT_MSG_BASE_def MBOX_MSG_STEP_def MBOX_MSG_REG_MAX_def

text \<open>The two function ids of a header, and the header with another source.\<close>

definition raw_src :: "u32 list \<Rightarrow> u16" where
  "raw_src raw = ucast (drop_bit 16 (raw ! 0))"

definition raw_dst :: "u32 list \<Rightarrow> u16" where
  "raw_dst raw = ucast (raw ! 1)"

definition set_raw_src :: "u32 \<Rightarrow> u32 list \<Rightarrow> u32 list" where
  "set_raw_src from_id raw = raw[0 := take_bit 16 (raw ! 0) OR push_bit 16 (take_bit 16 from_id)]"

section \<open>Operations\<close>

definition get_mbox_offset :: "'d qdma_hw_access \<Rightarrow> u8 \<Rightarrow> u32" where
  "get_mbox_offset hw is_vf = (if is_vf \<noteq> 0 then ha_mbox_base_vf hw else ha_mbox_base_pf hw)"

definition mbox_pf_hw_clear_func_ack :: "'d qdma_hw_access \<Rightarrow> 'd mmio \<Rightarrow> 'd xdev \<Rightarrow> u16 \<Rightarrow> 'd xdev" where
  "mbox_pf_hw_clear_func_ack hw io d func =
     (let idx = ucast (func div 32); bit_nr = unat (func mod 32); mbox_base = get_mbox_offset hw 0
      in qdma_reg_write io d (mbox_base + MBOX_PF_ACK_BASE + idx * MBOX_PF_ACK_STEP) (push_bit bit_nr 1))"

definition qdma_mbox_pf_hw_clear_ack :: "'d qdma_hw_access \<Rightarrow> 'd mmio \<Rightarrow> 'd xdev \<Rightarrow> 'd xdev" where
  "qdma_mbox_pf_hw_clear_ack hw io d =
     (let mbox_base = get_mbox_offset hw 0;
          (v, d) = qdma_reg_read io d (mbox_base + MBOX_FN_STATUS)
      in if v AND F_MBOX_FN_STATUS_ACK = 0 then d
         else fold (\<lambda>i d.
           let reg = mbox_base + MBOX_PF_ACK_BASE + of_nat i * MBOX_PF_ACK_STEP;
               (v, d) = qdma_reg_read io d reg
           in if v = 0 then d else qdma_reg_write io d reg v) [0..<MBOX_PF_ACK_COUNT] d)"

definition qdma_mbox_send ::
  "'d qdma_hw_access \<Rightarrow> 'd mmio \<Rightarrow> 'd xdev \<Rightarrow> u8 \<Rightarrow> u32 list \<Rightarrow> int \<times> 'd xdev" where
  "qdma_mbox_send hw io d is_vf raw_data =
     (let dst_func_id = raw_dst raw_data; mbox_base = get_mbox_offset hw is_vf;
          (v, d) = qdma_reg_read io d (mbox_base + MBOX_FN_STATUS)
      in if v AND F_MBOX_FN_STATUS_OUT_MSG \<noteq> 0 then (neg_err QDMA_ERR_MBOX_SEND_BUSY, d)
         else
           let d = (if is_vf = 0
                 then qdma_reg_write io d (mbox_base + MBOX_FN_TARGET) (V_MBOX_FN_TARGET_ID (ucast dst_func_id))
                 else d);
               d = fold (\<lambda>i d. qdma_reg_write io d
                     (mbox_base + (MBOX_OUT_MSG_BASE + of_nat i * MBOX_MSG_STEP)) (raw_data ! i))
                   [0..<MBOX_MSG_REG_MAX] d;
               d = (if is_vf = 0 then mbox_pf_hw_clear_func_ack hw io d dst_func_id else d);
               d = qdma_reg_write io d (mbox_base + MBOX_FN_CMD) F_MBOX_FN_CMD_SND
           in (err_code QDMA_SUCCESS, d))"

text \<open>The buffer after the call is the second part of the result.\<close>

definition qdma_mbox_rcv ::
  "'d qdma_hw_access \<Rightarrow> 'd mmio \<Rightarrow> 'd xdev \<Rightarrow> u8 \<Rightarrow> u32 list \<Rightarrow> int \<times> u32 list \<times> 'd xdev" where
  "qdma_mbox_rcv hw io d is_vf raw_data =
     (let mbox_base = get_mbox_offset hw is_vf;
          (v, d) = qdma_reg_read io d (mbox_base + MBOX_FN_STATUS)
      in if v AND F_MBOX_FN_STATUS_IN_MSG = 0 then (neg_err QDMA_ERR_MBOX_NO_MSG_IN, raw_data, d)
         else
           let from_id = (if is_vf = 0 then G_MBOX_FN_STATUS_SRC v else 0);
               d = (if is_vf = 0 then qdma_reg_write io d (mbox_base + MBOX_FN_TARGET) from_id else d);
               (raw_data, d) = fold (\<lambda>i (raw_data, d).
                   let (w, d) = qdma_reg_read io d (mbox_base + (MBOX_IN_MSG_BASE + of_nat i * MBOX_MSG_STEP))
                   in (raw_data[i := w], d)) [0..<MBOX_MSG_REG_MAX] (raw_data, d);
               all_zero_msg = list_all (\<lambda>i. raw_data ! i = 0) [0..<MBOX_MSG_REG_MAX];
               d = qdma_reg_write io d (mbox_base + MBOX_FN_CMD) F_MBOX_FN_CMD_RCV
           in if all_zero_msg then (neg_err QDMA_ERR_MBOX_ALL_ZERO_MSG, raw_data, d)
              else (err_code QDMA_SUCCESS,
                    if is_vf = 0 \<and> from_id \<noteq> ucast (raw_src raw_data) then set_raw_src from_id raw_data
                    else raw_data, d))"

definition qdma_mbox_hw_init :: "'d qdma_hw_access \<Rightarrow> 'd mmio \<Rightarrow> 'd xdev \<Rightarrow> u8 \<Rightarrow> 'd xdev" where
  "qdma_mbox_hw_init hw io d is_vf =
     (let mbox_base = get_mbox_offset hw is_vf
      in if is_vf \<noteq> 0
         then let (v, d) = qdma_reg_read io d (mbox_base + MBOX_FN_STATUS)
              in if v AND F_MBOX_FN_STATUS_IN_MSG \<noteq> 0
                 then qdma_reg_write io d (mbox_base + MBOX_FN_CMD) F_MBOX_FN_CMD_RCV else d
         else qdma_mbox_pf_hw_clear_ack hw io d)"

definition qdma_mbox_enable_interrupts :: "'d qdma_hw_access \<Rightarrow> 'd mmio \<Rightarrow> 'd xdev \<Rightarrow> u8 \<Rightarrow> 'd xdev" where
  "qdma_mbox_enable_interrupts hw io d is_vf =
     (let vector = 0; mbox_base = get_mbox_offset hw is_vf;
          d = qdma_reg_write io d (mbox_base + MBOX_ISR_VEC) vector
      in qdma_reg_write io d (mbox_base + MBOX_ISR_EN) 0x1)"

definition qdma_mbox_disable_interrupts :: "'d qdma_hw_access \<Rightarrow> 'd mmio \<Rightarrow> 'd xdev \<Rightarrow> u8 \<Rightarrow> 'd xdev" where
  "qdma_mbox_disable_interrupts hw io d is_vf =
     qdma_reg_write io d (get_mbox_offset hw is_vf + MBOX_ISR_EN) 0x0"

definition qdma_mbox_out_status :: "'d qdma_hw_access \<Rightarrow> 'd mmio \<Rightarrow> 'd xdev \<Rightarrow> u8 \<Rightarrow> u8 \<times> 'd xdev" where
  "qdma_mbox_out_status hw io d is_vf =
     (let (v, d) = qdma_reg_read io d (get_mbox_offset hw is_vf + MBOX_FN_STATUS)
      in (if v AND F_MBOX_FN_STATUS_OUT_MSG \<noteq> 0 then 1 else 0, d))"

section \<open>A mailbox\<close>

text \<open>
  What the registers of a mailbox do, at least: the status and the incoming message can be read,
  the target and the outgoing message can be written, the send command hands the outgoing message to
  the target and the receive command takes the incoming one; what the status is after a command is
  left open.
\<close>

record mbox_view =
  mv_status :: u32
  mv_target :: u32
  mv_out :: "u32 list"
  mv_in :: "u32 list"
  mv_sent :: "(u32 \<times> u32 list) list"
  mv_taken :: "u32 list list"

definition mailbox :: "'d mmio \<Rightarrow> u32 \<Rightarrow> ('d \<Rightarrow> mbox_view) \<Rightarrow> bool" where
  "mailbox io base view \<longleftrightarrow>
     (\<forall>r. fst (readl io r base) = mv_status (view r) \<and> view (snd (readl io r base)) = view r) \<and>
     (\<forall>r. \<forall>i<32. fst (readl io r (base + (0x800 + of_nat i * 4))) = mv_in (view r) ! i \<and>
        view (snd (readl io r (base + (0x800 + of_nat i * 4)))) = view r) \<and>
     (\<forall>r v. view (writel io r (base + 0xC) v) = (view r)\<lparr>mv_target := v\<rparr>) \<and>
     (\<forall>r v. \<forall>i<32. view (writel io r (base + (0xC00 + of_nat i * 4)) v) =
        (view r)\<lparr>mv_out := (mv_out (view r))[i := v]\<rparr>) \<and>
     (\<forall>r v. \<forall>i<8. view (writel io r (base + 0x20 + of_nat i * 4) v) = view r) \<and>
     (\<forall>r. \<exists>s. view (writel io r (base + 4) 1) = (view r)\<lparr>mv_status := s,
        mv_sent := mv_sent (view r) @ [(mv_target (view r), mv_out (view r))]\<rparr>) \<and>
     (\<forall>r. \<exists>s. view (writel io r (base + 4) 2) = (view r)\<lparr>mv_status := s,
        mv_taken := mv_taken (view r) @ [mv_in (view r)]\<rparr>) \<and>
     (\<forall>r. length (mv_out (view r)) = 32 \<and> length (mv_in (view r)) = 32)"

lemma mailbox_read:
  assumes "mailbox io base view"
  shows "fst (qdma_reg_read io d base) = mv_status (view (xregs d))"
    and "view (xregs (snd (qdma_reg_read io d base))) = view (xregs d)"
    and "i < 32 \<Longrightarrow> fst (qdma_reg_read io d (base + (0x800 + of_nat i * 4))) = mv_in (view (xregs d)) ! i"
    and "i < 32 \<Longrightarrow> view (xregs (snd (qdma_reg_read io d (base + (0x800 + of_nat i * 4))))) = view (xregs d)"
  using assms by (simp_all add: mailbox_def qdma_reg_read_def split_beta)

lemma mailbox_write:
  assumes "mailbox io base view"
  shows "view (xregs (qdma_reg_write io d (base + 0xC) v)) = (view (xregs d))\<lparr>mv_target := v\<rparr>"
    and "i < 32 \<Longrightarrow> view (xregs (qdma_reg_write io d (base + (0xC00 + of_nat i * 4)) v)) =
      (view (xregs d))\<lparr>mv_out := (mv_out (view (xregs d)))[i := v]\<rparr>"
    and "i < 8 \<Longrightarrow> view (xregs (qdma_reg_write io d (base + 0x20 + of_nat i * 4) v)) = view (xregs d)"
    and "\<exists>s. view (xregs (qdma_reg_write io d (base + 4) 1)) = (view (xregs d))\<lparr>mv_status := s,
        mv_sent := mv_sent (view (xregs d)) @ [(mv_target (view (xregs d)), mv_out (view (xregs d)))]\<rparr>"
    and "\<exists>s. view (xregs (qdma_reg_write io d (base + 4) 2)) = (view (xregs d))\<lparr>mv_status := s,
        mv_taken := mv_taken (view (xregs d)) @ [mv_in (view (xregs d))]\<rparr>"
  using assms by (simp_all add: mailbox_def qdma_reg_write_def)

lemma mailbox_lengths:
  "mailbox io base view \<Longrightarrow> length (mv_out (view r)) = 32"
  "mailbox io base view \<Longrightarrow> length (mv_in (view r)) = 32"
  by (simp_all add: mailbox_def)

lemma out_words:
  assumes "mailbox io base view" and "k \<le> 32"
  shows "view (xregs (fold (\<lambda>i d. qdma_reg_write io d (base + (0xC00 + of_nat i * 4)) (raw ! i)) [0..<k] d)) =
    (view (xregs d))\<lparr>mv_out := map ((!) raw) [0..<k] @ drop k (mv_out (view (xregs d)))\<rparr>"
  using assms(2)
proof (induction k)
  case (Suc k)
  have l: "length (mv_out (view (xregs d))) = 32" by (rule mailbox_lengths [OF assms(1)])
  have "(map ((!) raw) [0..<k] @ drop k (mv_out (view (xregs d))))[k := raw ! k] =
      map ((!) raw) [0..<Suc k] @ drop (Suc k) (mv_out (view (xregs d)))"
    using Suc.prems l by (intro nth_equalityI) (auto simp: nth_append nth_list_update less_Suc_eq)
  then show ?case using Suc mailbox_write(2) [OF assms(1), of k] by simp
qed simp

lemma in_words:
  fixes io base
  defines "f \<equiv> \<lambda>i (raw, d). let (w, d) = qdma_reg_read io d (base + (0x800 + of_nat i * 4)) in (raw[i := w], d)"
  assumes "mailbox io base view" and "k \<le> 32" and "length raw = 32"
  shows "\<exists>d'. fold f [0..<k] (raw, d) = (take k (mv_in (view (xregs d))) @ drop k raw, d') \<and>
    view (xregs d') = view (xregs d)"
  using assms(3)
proof (induction k)
  case (Suc k)
  then obtain d' where d': "fold f [0..<k] (raw, d) = (take k (mv_in (view (xregs d))) @ drop k raw, d')"
    "view (xregs d') = view (xregs d)" by auto
  have l: "length (mv_in (view (xregs d))) = 32" by (rule mailbox_lengths [OF assms(2)])
  have e: "(take k (mv_in (view (xregs d))) @ drop k raw)[k := mv_in (view (xregs d)) ! k] =
      take (Suc k) (mv_in (view (xregs d))) @ drop (Suc k) raw"
    using Suc.prems l assms(4)
    by (intro nth_equalityI) (auto simp: nth_append nth_list_update less_Suc_eq take_Suc_conv_app_nth)
  have "f k (raw', d') = (raw'[k := mv_in (view (xregs d)) ! k],
      snd (qdma_reg_read io d' (base + (0x800 + of_nat k * 4))))" for raw'
    using d'(2) Suc.prems mailbox_read(3) [OF assms(2), of k d'] by (simp add: f_def split_beta)
  then show ?case
    using d' Suc.prems mailbox_read(4) [OF assms(2), of k d'] by (simp flip: e)
qed simp

lemma small_target:
  assumes "w < (256 :: u16)"
  shows "ucast w AND 0xFFF = (ucast w :: u32)"
proof -
  have "take_bit 8 w = w" using assms by (simp add: take_bit_eq_mod mod_word_less)
  then have "n < 8" if "bit w n" for n using that bit_take_bit_iff [of 8 w n] by simp
  then have "take_bit 12 (ucast w :: u32) = ucast w" by (intro bit_word_eqI) (fastforce simp: bit_simps)
  then show ?thesis by (simp add: take_bit_eq_mask mask_eq_exp_minus_1)
qed

lemma ack_index: "w < (256 :: u16) \<Longrightarrow> unat (w div 32) < 8"
  by (simp add: unat_div_distrib word_less_nat_alt less_mult_imp_div_less)

text \<open>Sending: a busy mailbox is left alone, otherwise exactly one message goes out.\<close>

lemma send_effect:
  assumes box: "mailbox io (get_mbox_offset hw is_vf) view" and raw: "length raw = 32"
    and dst: "is_vf = 0 \<Longrightarrow> raw_dst raw < 256"
  obtains d' where
    "mv_status (view (xregs d)) AND 2 \<noteq> 0" "qdma_mbox_send hw io d is_vf raw = (neg_err QDMA_ERR_MBOX_SEND_BUSY, d')"
    "view (xregs d') = view (xregs d)"
  | d' where
    "mv_status (view (xregs d)) AND 2 = 0" "qdma_mbox_send hw io d is_vf raw = (0, d')"
    "mv_sent (view (xregs d')) = mv_sent (view (xregs d)) @
      [(if is_vf = 0 then ucast (raw_dst raw) else mv_target (view (xregs d)), raw)]"
proof (cases "mv_status (view (xregs d)) AND 2 = 0")
  case False
  then show ?thesis
    using that(1) mailbox_read(1,2) [OF box, of d]
    by (simp add: qdma_mbox_send_def Let_def mbox_reg_defs split_beta)
next
  case True
  define base where "base = get_mbox_offset hw is_vf"
  then have box: "mailbox io base view" and pf: "is_vf = 0 \<Longrightarrow> get_mbox_offset hw 0 = base" using assms(1) by simp_all
  define d1 where "d1 = snd (qdma_reg_read io d base)"
  define d2 where "d2 = (if is_vf = 0 then qdma_reg_write io d1 (base + 0xC) (ucast (raw_dst raw) AND 0xFFF) else d1)"
  define d3 where "d3 = fold (\<lambda>i d. qdma_reg_write io d (base + (0xC00 + of_nat i * 4)) (raw ! i)) [0..<32] d2"
  define d4 where "d4 = (if is_vf = 0 then mbox_pf_hw_clear_func_ack hw io d3 (raw_dst raw) else d3)"
  define d5 where "d5 = qdma_reg_write io d4 (base + 4) 1"
  have send: "qdma_mbox_send hw io d is_vf raw = (0, d5)"
    using True mailbox_read(1) [OF box, of d]
    by (simp add: qdma_mbox_send_def Let_def mbox_reg_defs split_beta d1_def d2_def d3_def d4_def d5_def base_def)
  have words: "map ((!) raw) [0..<32] = raw" using raw by (intro nth_equalityI) simp_all
  have "view (xregs d2) = (view (xregs d))
      \<lparr>mv_target := if is_vf = 0 then ucast (raw_dst raw) else mv_target (view (xregs d))\<rparr>"
    using dst by (simp add: d2_def d1_def mailbox_write(1) [OF box] mailbox_read(2) [OF box] small_target)
  then have "view (xregs d3) = (view (xregs d))\<lparr>mv_target := if is_vf = 0 then ucast (raw_dst raw)
      else mv_target (view (xregs d)), mv_out := raw\<rparr>"
    using out_words [OF box order_refl, of raw d2] mailbox_lengths(1) [OF box, of "xregs d2"] words
    by (simp add: d3_def)
  moreover have "view (xregs d4) = view (xregs d3)"
    using mailbox_write(3) [OF box ack_index, of "raw_dst raw" d3] dst
    by (simp add: d4_def mbox_pf_hw_clear_func_ack_def Let_def mbox_reg_defs pf)
  ultimately show ?thesis
    using that(2) [OF True send] mailbox_write(4) [OF box, of d4]
    by (auto simp: d5_def)
qed

text \<open>Receiving: what comes in is taken, and a physical function gets the true source.\<close>

lemma raw_src_set: "length raw = 32 \<Longrightarrow> raw_src (set_raw_src s raw) = ucast s"
  by (intro bit_word_eqI) (auto simp: raw_src_def set_raw_src_def bit_simps)

lemma set_raw_src_same: "length raw = 32 \<Longrightarrow> ucast (raw_src raw) = s \<Longrightarrow> set_raw_src s raw = raw"
proof -
  assume "length raw = 32" "ucast (raw_src raw) = s"
  then have "take_bit 16 (raw ! 0) OR push_bit 16 (take_bit 16 s) = raw ! 0"
    by (intro bit_word_eqI) (auto simp: raw_src_def bit_simps)
  then show ?thesis by (simp add: set_raw_src_def)
qed

lemma rcv_effect:
  assumes box: "mailbox io (get_mbox_offset hw is_vf) view" and raw: "length raw = 32"
    and st: "mv_status (view (xregs d)) AND 1 \<noteq> 0" and msg: "mv_in (view (xregs d)) \<noteq> replicate 32 0"
  obtains d' where "qdma_mbox_rcv hw io d is_vf raw = (0,
      if is_vf = 0 then set_raw_src (G_MBOX_FN_STATUS_SRC (mv_status (view (xregs d)))) (mv_in (view (xregs d)))
      else mv_in (view (xregs d)), d')"
    "mv_taken (view (xregs d')) = mv_taken (view (xregs d)) @ [mv_in (view (xregs d))]"
proof -
  define base where "base = get_mbox_offset hw is_vf"
  then have box: "mailbox io base view" and pf: "is_vf = 0 \<Longrightarrow> get_mbox_offset hw 0 = base"
    using assms(1) by simp_all
  let ?in = "mv_in (view (xregs d))"
  have l: "length ?in = 32" by (rule mailbox_lengths [OF box])
  define d1 where "d1 = snd (qdma_reg_read io d base)"
  define from_id where "from_id = (if is_vf = 0 then G_MBOX_FN_STATUS_SRC (mv_status (view (xregs d))) else 0)"
  define d2 where "d2 = (if is_vf = 0 then qdma_reg_write io d1 (base + 0xC) from_id else d1)"
  have v2: "mv_in (view (xregs d2)) = ?in" "mv_taken (view (xregs d2)) = mv_taken (view (xregs d))"
    by (simp_all add: d2_def d1_def mailbox_write(1) [OF box] mailbox_read(2) [OF box])
  obtain d3 where d3: "fold (\<lambda>i (raw, d). let (w, d) = qdma_reg_read io d (base + (0x800 + of_nat i * 4))
      in (raw[i := w], d)) [0..<32] (raw, d2) = (?in, d3)" "view (xregs d3) = view (xregs d2)"
    using in_words [OF box order_refl raw, of d2] v2 l raw by auto
  have nz: "\<not> list_all (\<lambda>i. ?in ! i = 0) [0..<32]"
  proof
    assume "list_all (\<lambda>i. ?in ! i = 0) [0..<32]"
    then have "?in = replicate 32 0" using l by (intro nth_equalityI) (simp_all add: list_all_iff)
    then show False using msg by contradiction
  qed
  have "qdma_mbox_rcv hw io d is_vf raw = (0,
      if is_vf = 0 \<and> from_id \<noteq> ucast (raw_src ?in) then set_raw_src from_id ?in else ?in,
      qdma_reg_write io d3 (base + 4) 2)"
  proof -
    have "qdma_reg_read io d base = (mv_status (view (xregs d)), d1)"
      using mailbox_read(1) [OF box, of d] by (simp add: d1_def prod_eq_iff)
    then show ?thesis
      using st nz d3(1)
      by (cases "is_vf = 0")
         (simp_all add: qdma_mbox_rcv_def Let_def mbox_reg_defs from_id_def d2_def pf flip: base_def split del: if_split cong: if_cong)
  qed
  moreover have "(if is_vf = 0 \<and> from_id \<noteq> ucast (raw_src ?in) then set_raw_src from_id ?in else ?in) =
      (if is_vf = 0 then set_raw_src (G_MBOX_FN_STATUS_SRC (mv_status (view (xregs d)))) ?in else ?in)"
    using set_raw_src_same [OF l, of from_id] by (auto simp: from_id_def)
  ultimately show ?thesis
    using that [of "qdma_reg_write io d3 (base + 4) 2"] mailbox_write(5) [OF box, of d3] d3(2) v2 by auto
qed

section \<open>A mailbox that obeys the description\<close>

definition pad32 :: "u32 list \<Rightarrow> u32 list" where
  "pad32 xs = take 32 (xs @ replicate 32 0)"

lemma length_pad32 [simp]: "length (pad32 xs) = 32"
  by (simp add: pad32_def)

lemma pad32_id [simp]: "length xs = 32 \<Longrightarrow> pad32 xs = xs"
  by (simp add: pad32_def)

definition box_view :: "mbox_view \<Rightarrow> mbox_view" where
  "box_view r = r\<lparr>mv_out := pad32 (mv_out r), mv_in := pad32 (mv_in r)\<rparr>"

definition box_write :: "mbox_view \<Rightarrow> u32 \<Rightarrow> u32 \<Rightarrow> mbox_view" where
  "box_write r a v =
     (if a = 0xC then r\<lparr>mv_target := v\<rparr>
      else if 0xC00 \<le> a \<and> a < 0xC80 then r\<lparr>mv_out := (pad32 (mv_out r))[unat ((a - 0xC00) div 4) := v]\<rparr>
      else if a = 4 \<and> v = 1 then r\<lparr>mv_status := 2, mv_sent := mv_sent r @ [(mv_target r, pad32 (mv_out r))]\<rparr>
      else if a = 4 \<and> v = 2 then r\<lparr>mv_status := 0, mv_taken := mv_taken r @ [pad32 (mv_in r)]\<rparr>
      else r)"

definition box_io :: "u32 \<Rightarrow> mbox_view mmio" where
  "box_io base = \<lparr>
     readl = (\<lambda>r a. (if a = base then mv_status r else pad32 (mv_in r) ! unat ((a - base - 0x800) div 4), r)),
     writel = (\<lambda>r a v. box_write r (a - base) v),
     udelay = (\<lambda>r us. r)\<rparr>"

lemma unat_offset:
  fixes i :: nat
  assumes "i < 32" and "unat c \<le> 0xC00"
  shows "unat (c + of_nat i * 4 :: u32) = unat c + i * 4"
proof -
  have u: "unat (of_nat i * 4 :: u32) = i * 4"
    using assms(1) by (simp add: unat_word_ariths unat_of_nat take_bit_nat_eq_self)
  with assms show ?thesis by (simp add: unat_word_ariths)
qed

lemma word_index:
  fixes i :: nat
  assumes "i < 32"
  shows "unat ((of_nat i * 4 :: u32) div 4) = i"
    and "(0x800 + of_nat i * 4 :: u32) \<noteq> 0" "(0xC00 + of_nat i * 4 :: u32) \<noteq> 0xC"
    and "0xC00 \<le> (0xC00 + of_nat i * 4 :: u32)" "(0xC00 + of_nat i * 4 :: u32) < 0xC80"
    and "(0x20 + of_nat i * 4 :: u32) \<noteq> 0xC" "(0x20 + of_nat i * 4 :: u32) \<noteq> 4" "\<not> 0xC00 \<le> (0x20 + of_nat i * 4 :: u32)"
  using assms unat_offset [of i, where c = "0x800"] unat_offset [of i, where c = "0xC00"] unat_offset [of i, where c = "0x20"] unat_offset [of i, where c = 0]
  by (simp_all add: word_unat_eq_iff word_le_nat_alt word_less_nat_alt unat_div_distrib)

lemma box_mailbox: "mailbox (box_io base) base box_view"
proof -
  have "i < 8 \<Longrightarrow> i < (32 :: nat)" for i by simp
  note index = word_index word_index [OF this]
  have "\<exists>s. box_view (box_write r 4 1) = (box_view r)\<lparr>mv_status := s,
      mv_sent := mv_sent (box_view r) @ [(mv_target (box_view r), mv_out (box_view r))]\<rparr>" for r
    by (rule exI [of _ 2], cases r) (simp add: box_view_def box_write_def)
  moreover have "\<exists>s. box_view (box_write r 4 2) = (box_view r)\<lparr>mv_status := s,
      mv_taken := mv_taken (box_view r) @ [mv_in (box_view r)]\<rparr>" for r
    by (rule exI [of _ 0], cases r) (simp add: box_view_def box_write_def)
  ultimately show ?thesis
    by (simp add: mailbox_def box_io_def)
       (simp add: box_view_def box_write_def index add.assoc, use index(2) in blast)
qed

section \<open>Properties\<close>

text \<open>C15. A message through the mailbox: on registers that do what a mailbox does, a message that was sent
  went out exactly once, as the 32 words it was, to the function its header names (a virtual function
  has only its physical function to send to); and the receiver that finds these words and a source in its
  registers takes the message and gets the same words, except that a physical function gets the
  source of the registers in the header, whatever the sender wrote there. (A physical function
  acknowledges destinations below 256 only in the registers meant for it.)\<close>

theorem mailbox_transfer:
  assumes "mailbox io (get_mbox_offset hw vf) view" "mailbox io' (get_mbox_offset hw' vf') view'"
    and "length raw = 32" "length buf = 32" "raw \<noteq> replicate 32 0" "vf = 0 \<Longrightarrow> raw_dst raw < 256"
    and "qdma_mbox_send hw io d vf raw = (0, d1)"
    and "mv_in (view' (xregs d')) = snd (last (mv_sent (view (xregs d1))))"
    and "mv_status (view' (xregs d')) AND F_MBOX_FN_STATUS_IN_MSG \<noteq> 0"
  shows "mv_sent (view (xregs d1)) = mv_sent (view (xregs d)) @
      [(if vf = 0 then ucast (raw_dst raw) else mv_target (view (xregs d)), raw)] \<and>
    (case qdma_mbox_rcv hw' io' d' vf' buf of (rv, msg, d1') \<Rightarrow>
      rv = 0 \<and> mv_taken (view' (xregs d1')) = mv_taken (view' (xregs d')) @ [raw] \<and>
      (if vf' = 0 then msg = set_raw_src (G_MBOX_FN_STATUS_SRC (mv_status (view' (xregs d')))) raw \<and>
         ucast (raw_src msg) = G_MBOX_FN_STATUS_SRC (mv_status (view' (xregs d')))
       else msg = raw))"
proof -
  have src: "ucast (ucast (G_MBOX_FN_STATUS_SRC v) :: u16) = G_MBOX_FN_STATUS_SRC v" for v
  proof -
    have "G_MBOX_FN_STATUS_SRC v = take_bit 12 (drop_bit 4 v)"
      by (simp add: G_MBOX_FN_STATUS_SRC_def take_bit_eq_mask mask_eq_exp_minus_1)
    then show ?thesis by (auto intro!: bit_word_eqI simp: bit_simps)
  qed
  have sent: "mv_sent (view (xregs d1)) = mv_sent (view (xregs d)) @
      [(if vf = 0 then ucast (raw_dst raw) else mv_target (view (xregs d)), raw)]"
    using send_effect [OF assms(1,3,6), of d] assms(7) by force
  have inb: "mv_in (view' (xregs d')) = raw" using assms(8) sent by simp
  obtain d1' where "qdma_mbox_rcv hw' io' d' vf' buf = (0,
      if vf' = 0 then set_raw_src (G_MBOX_FN_STATUS_SRC (mv_status (view' (xregs d')))) raw else raw, d1')"
    "mv_taken (view' (xregs d1')) = mv_taken (view' (xregs d')) @ [raw]"
    using rcv_effect [OF assms(2,4), of d'] assms(5,9) inb by (auto simp: F_MBOX_FN_STATUS_IN_MSG_def)
  then show ?thesis using sent raw_src_set [OF assms(3)] src by simp
qed

text \<open>The sender claims to be function 7; the registers of the receiver say 6.\<close>

definition sample_words :: "u32 list" where
  "sample_words = [0x70004, 2, 0, 0, 4] @ replicate 27 0"

definition sample_box :: "u32 \<Rightarrow> u32 list \<Rightarrow> mbox_view xdev" where
  "sample_box st inb = \<lparr>xregs = \<lparr>mv_status = st, mv_target = 0, mv_out = [], mv_in = inb, mv_sent = [],
     mv_taken = []\<rparr>, hw_prg_lock = False\<rparr>"

theorem mailbox_transfer_witness:
  "\<exists>d1 msg d2.
    qdma_mbox_send (eqdma_hw_access (box_io 0x5000)) (box_io 0x5000) (sample_box 0 []) 1 sample_words = (0, d1) \<and>
    qdma_mbox_rcv (eqdma_hw_access (box_io 0x22400)) (box_io 0x22400) (sample_box 0x61 sample_words) 0
      (replicate 32 0) = (0, msg, d2) \<and>
    ucast (raw_src msg) = (6 :: u32)"
proof -
  let ?hw = "eqdma_hw_access (box_io 0x5000)" and ?hw' = "eqdma_hw_access (box_io 0x22400)"
  have off: "get_mbox_offset ?hw 1 = 0x5000" "get_mbox_offset ?hw' 0 = 0x22400"
    by (simp_all add: get_mbox_offset_def hw_access_defs)
  have box: "mailbox (box_io 0x5000) (get_mbox_offset ?hw 1) box_view"
    "mailbox (box_io 0x22400) (get_mbox_offset ?hw' 0) box_view"
    unfolding off by (rule box_mailbox)+
  have raw: "length sample_words = 32" "sample_words \<noteq> replicate 32 0"
    by (simp_all add: sample_words_def numeral_eq_Suc)
  have free: "mv_status (box_view (xregs (sample_box 0 []))) AND 2 = 0"
    by (simp add: sample_box_def box_view_def)
  obtain d1 where d1: "qdma_mbox_send ?hw (box_io 0x5000) (sample_box 0 []) 1 sample_words = (0, d1)"
    "mv_sent (box_view (xregs d1)) = [(0, sample_words)]"
    using send_effect [OF box(1) raw(1), of "sample_box 0 []"] free
    by (auto simp: sample_box_def box_view_def)
  have "mv_in (box_view (xregs (sample_box 0x61 sample_words))) = snd (last (mv_sent (box_view (xregs d1))))"
    using d1(2) raw(1) by (simp add: sample_box_def box_view_def)
  moreover have "mv_status (box_view (xregs (sample_box 0x61 sample_words))) AND F_MBOX_FN_STATUS_IN_MSG \<noteq> 0"
    "G_MBOX_FN_STATUS_SRC (mv_status (box_view (xregs (sample_box 0x61 sample_words)))) = 6"
    by (simp_all add: sample_box_def box_view_def F_MBOX_FN_STATUS_IN_MSG_def G_MBOX_FN_STATUS_SRC_def)
  ultimately show ?thesis
    using mailbox_transfer [OF box raw(1) _ raw(2) _ d1(1), of "replicate 32 0"] d1(1)
    by (fastforce split: prod.splits)
qed

end
