(* ===== verification/MboxIsolation.thy ===== *)
theory MboxIsolation
  imports MboxHandler
begin

text \<open>
  What a request of a virtual function can change on the device. The lemmas are proved once in
  the locale context_table, over the contract of the access table, and hold for the tables of
  every variant by its interpretations.
\<close>

section \<open>Context locations that stay\<close>

definition keeps :: "('d \<Rightarrow> ctxt_memory) \<Rightarrow> u32 set \<Rightarrow> 'd xdev \<Rightarrow> 'd xdev \<Rightarrow> bool" where
  "keeps mem K d d' \<longleftrightarrow> (\<forall>k\<in>K. mem (xregs d') k = mem (xregs d) k)"

lemma keeps_refl [simp, intro]: "keeps mem K d d"
  by (simp add: keeps_def)

lemma keeps_trans: "keeps mem K d d' \<Longrightarrow> keeps mem K d' d'' \<Longrightarrow> keeps mem K d d''"
  by (simp add: keeps_def)

lemma keeps_touches:
  "touches mem S q d dev' \<Longrightarrow> (\<And>s. s \<in> S \<Longrightarrow> ctxt_key s q \<notin> K) \<Longrightarrow> keeps mem K d (the dev')"
  by (force simp: keeps_def touches_def)

definition device_spec :: "'d mmio \<Rightarrow> ('d \<Rightarrow> ctxt_memory) \<Rightarrow> bool" where
  "device_spec io mem \<longleftrightarrow> (\<exists>win. ctxt_hardware io win mem) \<and> contexts_kept io mem"

lemma run_steps_keeps:
  assumes "\<And>f s. f \<in> set fs \<Longrightarrow> keeps mem K (dev s) (dev (snd (f s)))"
  shows "keeps mem K (dev s) (dev (snd (run_steps fs s)))"
  using assms
proof (induction fs arbitrary: s)
  case (Cons f fs)
  have "keeps mem K (dev s) (dev (snd (f s)))" using Cons.prems by simp
  moreover have "keeps mem K (dev s') (dev (snd (run_steps fs s')))" for s'
    using Cons by simp
  ultimately show ?case by (auto simp: split_beta Let_def intro: keeps_trans)
qed simp

lemma run_steps_keeps_dev:
  "(\<And>f d. f \<in> set fs \<Longrightarrow> keeps mem K d (snd (f d))) \<Longrightarrow> keeps mem K d (snd (run_steps fs d))"
  by (rule run_steps_keeps [where dev = "\<lambda>d. d"])

lemma fold_keeps:
  assumes "\<And>x s. keeps mem K (dev s) (dev (f x s))"
  shows "keeps mem K (dev s) (dev (fold f xs s))"
proof (induction xs arbitrary: s)
  case (Cons x xs)
  then show ?case using keeps_trans [OF assms [of s x]] by simp
qed simp

lemma hw_step_dev: "snd (hw_step f d) = the (snd (snd (f (Some d))))"
  by (simp add: hw_step_def split_beta)

lemma in_changed [simp]: "s \<in> changed a S \<longleftrightarrow> a \<noteq> QDMA_HW_ACCESS_READ \<and> s \<in> S"
  by (simp add: changed_def)

text \<open>The selectors of the contexts of a queue.\<close>

definition queue_selectors :: "ind_ctxt_cmd_sel set" where
  "queue_selectors = {QDMA_CTXT_SEL_SW_C2H, QDMA_CTXT_SEL_SW_H2C, QDMA_CTXT_SEL_HW_C2H,
     QDMA_CTXT_SEL_HW_H2C, QDMA_CTXT_SEL_CR_C2H, QDMA_CTXT_SEL_CR_H2C, QDMA_CTXT_SEL_CMPT,
     QDMA_CTXT_SEL_PFTCH}"

definition queue_free :: "u32 set \<Rightarrow> u16 \<Rightarrow> bool" where
  "queue_free K q \<longleftrightarrow> (\<forall>s\<in>queue_selectors. ctxt_key s q \<notin> K)"

text \<open>A request that resets a completion context only, which the code does not check.\<close>

definition cmpt_only_reset :: "mbox_msg \<Rightarrow> bool" where
  "cmpt_only_reset rcv \<longleftrightarrow> mm_cmpt_ctxt_type rcv = QDMA_MBOX_CMPT_CTXT_ONLY \<and>
     (mbox_op_of (mm_op rcv) = Some MBOX_OP_QCTXT_CLR \<or> mbox_op_of (mm_op rcv) = Some MBOX_OP_QCTXT_INV)"

section \<open>The client of the table\<close>

context context_table
begin

lemma queue_calls_keep:
  assumes "device_spec io mem" and "a = QDMA_HW_ACCESS_READ \<or> queue_free K q"
  shows "keeps mem K d (the (snd (snd (ha_sw_ctx_conf (tab io) (Some d) c2h q cs a))))"
    and "keeps mem K d (the (snd (snd (ha_hw_ctx_conf (tab io) (Some d) c2h q ch a))))"
    and "keeps mem K d (the (snd (snd (ha_credit_ctx_conf (tab io) (Some d) c2h q cc a))))"
    and "keeps mem K d (the (snd (snd (ha_pfetch_ctx_conf (tab io) (Some d) q cp a))))"
    and "keeps mem K d (the (snd (snd (ha_cmpt_ctx_conf (tab io) (Some d) q cm a))))"
  using assms
  by (auto simp: device_spec_def queue_free_def queue_selectors_def
      intro!: keeps_touches [OF sw] keeps_touches [OF hw] keeps_touches [OF credit]
        keeps_touches [OF pfetch] keeps_touches [OF cmpt])

lemma cmpt_keeps:
  assumes "device_spec io mem" and "ctxt_key QDMA_CTXT_SEL_CMPT q \<notin> K"
  shows "keeps mem K d (the (snd (snd (ha_cmpt_ctx_conf (tab io) (Some d) q cm a))))"
  using assms by (auto simp: device_spec_def intro!: keeps_touches [OF cmpt])

lemma fmap_keeps:
  assumes "device_spec io mem" and "a = QDMA_HW_ACCESS_READ \<or> ctxt_key QDMA_CTXT_SEL_FMAP q \<notin> K"
  shows "keeps mem K d (the (snd (snd (ha_fmap_conf (tab io) (Some d) q cf a))))"
  using assms by (auto simp: device_spec_def intro!: keeps_touches [OF fmap])

lemma intr_keeps:
  assumes "device_spec io mem" and "\<And>r. ctxt_key QDMA_CTXT_SEL_INT_COAL r \<notin> K"
  shows "keeps mem K d (the (snd (snd (ha_indirect_intr_ctx_conf (tab io) (Some d) q ci a))))"
  using assms by (auto simp: device_spec_def intro!: keeps_touches [OF intr])

lemma queries_keep:
  assumes "device_spec io mem"
  shows "keeps mem K d (the (snd (snd (ha_global_csr_conf (tab io) (Some d) i n vs t QDMA_HW_ACCESS_READ))))"
    and "keeps mem K d (the (snd (snd (ha_get_device_attributes (tab io) (Some d) att))))"
    and "keeps mem K d (the (snd (snd (snd (ha_read_reg_list (tab io) (Some d) v g m l)))))"
  using assms
  by (auto simp: device_spec_def intro!: keeps_touches [OF csr] keeps_touches [OF attributes]
      keeps_touches [OF reg_list])

lemma index_keeps:
  assumes "device_spec io mem"
    and "keeps mem K d d'"
  shows "keeps mem K d (snd (snd (csr_index_of (tab io) t f e d')))"
  using queries_keep(1) [OF assms(1), of K d' 0 16 _ t] keeps_trans [OF assms(2)]
  by (auto simp: csr_index_of_def split_beta Let_def split: option.split)

lemma compose_keeps:
  assumes "device_spec io mem"
  shows "keeps mem K d (snd (snd (mbox_compose_sw_context (tab io) msg sw0 d)))"
    and "keeps mem K d (snd (snd (mbox_compose_prefetch_context (tab io) msg pf0 d)))"
    and "keeps mem K d (snd (snd (mbox_compose_cmpt_context (tab io) msg cm0 d)))"
  by (simp_all add: mbox_compose_sw_context_def mbox_compose_prefetch_context_def
      mbox_compose_cmpt_context_def get_ring_idx_def get_buf_idx_def get_cntr_idx_def get_tmr_idx_def
      Let_def split_beta index_keeps [OF assms])

lemma reset_keeps:
  assumes spec: "device_spec io mem"
    and q: "qdma_dev_is_queue_in_range rm (uint idx) func (uint q) = QDMA_DEV_Q_IN_RANGE \<Longrightarrow> queue_free K q"
    and cm: "t = QDMA_MBOX_CMPT_CTXT_ONLY \<Longrightarrow> ctxt_key QDMA_CTXT_SEL_CMPT q \<notin> K"
  shows "keeps mem K d (snd (mbox_reset_queue_contexts access (tab io) rm idx func q st c2h t d))"
proof -
  have steps: "keeps mem K d (snd (run_steps
     ([hw_step (\<lambda>dev. ha_sw_ctx_conf (tab io) dev (ucast c2h) q None access),
       hw_step (\<lambda>dev. ha_hw_ctx_conf (tab io) dev (ucast c2h) q None access),
       hw_step (\<lambda>dev. ha_credit_ctx_conf (tab io) dev (ucast c2h) q None access)] @
      (if st \<noteq> 0 \<and> c2h \<noteq> 0 then [hw_step (\<lambda>dev. ha_pfetch_ctx_conf (tab io) dev q None access)] else []) @
      (if cmpt_with_data t then [hw_step (\<lambda>dev. ha_cmpt_ctx_conf (tab io) dev q None access)] else [])) d))"
    if "queue_free K q"
    using queue_calls_keep [OF spec, of access K q] that
    by (intro run_steps_keeps_dev) (auto simp: hw_step_dev split: if_splits)
  show ?thesis
  proof (cases "t = QDMA_MBOX_CMPT_CTXT_ONLY")
    case True
    then have "keeps mem K d (snd (run_steps [hw_step (\<lambda>dev. ha_cmpt_ctx_conf (tab io) dev q None access)] d))"
      using cmpt_keeps [OF spec cm] by (intro run_steps_keeps_dev) (auto simp: hw_step_dev)
    with True show ?thesis by (simp only: mbox_reset_queue_contexts_def if_True simp_thms)
  next
    case t: False
    show ?thesis
    proof (cases "qdma_dev_is_queue_in_range rm (uint idx) func (uint q) = QDMA_DEV_Q_IN_RANGE")
      case True
      with t steps [OF q] show ?thesis
        by (simp only: mbox_reset_queue_contexts_def if_False simp_thms split: sum.split) simp
    qed (use t in \<open>simp add: mbox_reset_queue_contexts_def split: sum.split\<close>)
  qed
qed

lemma write_keeps:
  assumes spec: "device_spec io mem"
    and q: "qdma_dev_is_queue_in_range rm (uint idx) (dc_func_id (mm_descq_conf msg)) (uint (mm_qid_hw msg)) =
        QDMA_DEV_Q_IN_RANGE \<Longrightarrow> queue_free K (mm_qid_hw msg)"
  shows "keeps mem K d (snd (mbox_write_queue_contexts (tab io) rm idx msg d))"
proof (cases "qdma_dev_is_queue_in_range rm (uint idx) (dc_func_id (mm_descq_conf msg)) (uint (mm_qid_hw msg)) =
    QDMA_DEV_Q_IN_RANGE")
  case True
  then have free: "queue_free K (mm_qid_hw msg)" by (rule q)
  have reset: "keeps mem K d0 (snd (mbox_clear_queue_contexts (tab io) rm idx func (mm_qid_hw msg) st c2h t d0))"
    for d0 func st c2h t
    unfolding mbox_clear_queue_contexts_def
    by (rule reset_keeps [OF spec]) (use free in \<open>auto simp: queue_free_def queue_selectors_def\<close>)
  note calls = queue_calls_keep [OF spec disjI2 [OF free]]
  have steps: "keeps mem K d1 (snd (run_steps fs d1))"
    if "\<And>f d0. f \<in> set fs \<Longrightarrow> keeps mem K d0 (snd (f d0))" for fs d1
    using that by (rule run_steps_keeps_dev)
  let ?st = "mm_st msg \<noteq> 0 \<and> mm_c2h msg \<noteq> 0" and ?t = "mm_cmpt_ctxt_type msg" and ?q = "mm_qid_hw msg"
  show ?thesis
  proof (cases "?t = QDMA_MBOX_CMPT_CTXT_ONLY")
    case only: True
    obtain rv cm d1 where c: "mbox_compose_cmpt_context (tab io) msg cm_zeroed d = (rv, cm, d1)"
      by (metis prod_cases3)
    have "keeps mem K d1 (snd (run_steps
        [hw_step (\<lambda>dev. ha_cmpt_ctx_conf (tab io) dev ?q None QDMA_HW_ACCESS_CLEAR),
         hw_step (\<lambda>dev. ha_cmpt_ctx_conf (tab io) dev ?q (Some cm) QDMA_HW_ACCESS_WRITE)] d1))"
      by (rule steps) (auto simp: hw_step_dev calls)
    then show ?thesis
      using compose_keeps(3) [OF spec, of K d msg cm_zeroed] True only
      by (auto simp: mbox_write_queue_contexts_def c Let_def intro: keeps_trans split: sum.split
          simp del: run_steps.simps)
  next
    case False
    obtain rv1 sw d1 where c1: "mbox_compose_sw_context (tab io) msg sw_zeroed d = (rv1, sw, d1)"
      by (metis prod_cases3)
    obtain rv2 pf d2 where c2: "(if ?st then mbox_compose_prefetch_context (tab io) msg pf_zeroed d1
        else (err_code QDMA_SUCCESS, pf_zeroed, d1)) = (rv2, pf, d2)" by (metis prod_cases3)
    obtain rv3 cm d3 where c3: "(if cmpt_with_data ?t then mbox_compose_cmpt_context (tab io) msg cm_zeroed d2
        else (err_code QDMA_SUCCESS, cm_zeroed, d2)) = (rv3, cm, d3)" by (metis prod_cases3)
    have k1: "keeps mem K d d1" using compose_keeps(1) [OF spec, of K d msg sw_zeroed] c1 by simp
    have k2: "keeps mem K d d2"
      using keeps_trans [OF k1 compose_keeps(2) [OF spec, of K d1 msg pf_zeroed]] c2 k1
      by (auto split: if_splits)
    have k3: "keeps mem K d d3"
      using keeps_trans [OF k2 compose_keeps(3) [OF spec, of K d2 msg cm_zeroed]] c3 k2
      by (auto split: if_splits)
    have "keeps mem K d3 (snd (run_steps
      ([mbox_clear_queue_contexts (tab io) rm idx (dc_func_id (mm_descq_conf msg)) ?q (mm_st msg) (mm_c2h msg) ?t,
        hw_step (\<lambda>dev. ha_sw_ctx_conf (tab io) dev (ucast (mm_c2h msg)) ?q (Some sw) QDMA_HW_ACCESS_WRITE)] @
       (if ?st then [hw_step (\<lambda>dev. ha_pfetch_ctx_conf (tab io) dev ?q (Some pf) QDMA_HW_ACCESS_WRITE)] else []) @
       (if cmpt_with_data ?t
        then [hw_step (\<lambda>dev. ha_cmpt_ctx_conf (tab io) dev ?q (Some cm) QDMA_HW_ACCESS_WRITE)] else [])) d3))"
      by (rule steps) (auto simp: hw_step_dev calls reset split: if_splits)
    with keeps_trans [OF k3 this] k1 k2 k3 False True show ?thesis
      by (simp only: mbox_write_queue_contexts_def Let_def c1 c2 c3 split if_False simp_thms split: sum.split)
         simp
  qed
qed (simp add: mbox_write_queue_contexts_def Let_def split: sum.split)

lemma read_keeps:
  assumes spec: "device_spec io mem"
  shows "keeps mem K d (snd (snd (mbox_read_queue_contexts (tab io) func q st c2h t ctxt d)))"
proof -
  note calls = queue_calls_keep [OF spec disjI1 [OF refl]] fmap_keeps [OF spec disjI1 [OF refl]]
  show ?thesis
    unfolding mbox_read_queue_contexts_def
    by (rule run_steps_keeps [where dev = snd and s = "(ctxt, d)", simplified])
       (auto simp: read_step_def split_beta split: if_splits intro!: calls)
qed

lemma write_fmap_keeps:
  assumes "device_spec io mem" and "ctxt_key QDMA_CTXT_SEL_FMAP func \<notin> K" and "keeps mem K d (mb_dev env)"
  shows "keeps mem K d (mb_dev (snd (write_fmap (tab io) func fm env)))"
  using keeps_trans [OF assms(3) fmap_keeps [OF assms(1) disjI2 [OF assms(2)]]]
  by (simp add: write_fmap_def split_beta hw_step_dev Let_def)

lemma ring_step_keeps:
  assumes "device_spec io mem" and "\<And>r. ctxt_key QDMA_CTXT_SEL_INT_COAL r \<notin> K"
    and "keeps mem K d (mb_dev env)"
  shows "keeps mem K d (mb_dev (snd (snd (ring_step (tab io) ring c access env))))"
  using keeps_trans [OF assms(3) intr_keeps [OF assms(1,2)]]
  by (simp add: ring_step_def split_beta Let_def)

lemma csr_array_keeps:
  assumes "device_spec io mem" and "keeps mem K d d'"
  shows "keeps mem K d (snd (snd (read_csr_array (tab io) t d')))"
  using keeps_trans [OF assms(2) queries_keep(1) [OF assms(1)]]
  by (simp add: read_csr_array_def split_beta)

lemma attributes_keeps:
  assumes "device_spec io mem" and "keeps mem K d d'"
  shows "keeps mem K d (the (snd (snd (ha_get_device_attributes (tab io) (Some d') att))))"
  using keeps_trans [OF assms(2) queries_keep(2) [OF assms(1)]] .

lemma function_branches_keep:
  assumes spec: "device_spec io mem" and fm: "ctxt_key QDMA_CTXT_SEL_FMAP (mm_src_func_id rcv) \<notin> K"
  shows "keeps mem K (mb_dev env) (mb_dev (snd (snd (mbox_bye (tab io) idx ret rcv resp env))))"
    and "keeps mem K (mb_dev env) (mb_dev (snd (snd (mbox_hello (tab io) idx rcv resp env))))"
    and "keeps mem K (mb_dev env) (mb_dev (snd (snd (mbox_fmap (tab io) rcv resp env))))"
    and "keeps mem K (mb_dev env) (mb_dev (snd (snd (mbox_qreq (tab io) idx rcv resp env))))"
  by (simp_all add: mbox_bye_def mbox_hello_def mbox_fmap_def mbox_qreq_def Let_def split_beta
      write_fmap_keeps [OF spec fm] attributes_keeps [OF spec] split: sum.split)

lemma query_branches_keep:
  assumes spec: "device_spec io mem"
  shows "keeps mem K (mb_dev env) (mb_dev (snd (snd (mbox_csr (tab io) rcv resp env))))"
    and "keeps mem K (mb_dev env) (mb_dev (snd (snd (mbox_reg_list (tab io) rcv resp env))))"
    and "keeps mem K (mb_dev env) (mb_dev (snd (snd (mbox_qnotify count idx rcv resp env))))"
    and "keeps mem K (mb_dev env) (mb_dev (snd (snd (mbox_qactive_cnt idx rcv resp env))))"
    and "keeps mem K (mb_dev env) (mb_dev (snd (snd (mbox_qctxt_read (tab io) rcv resp env))))"
proof -
  show "keeps mem K (mb_dev env) (mb_dev (snd (snd (mbox_csr (tab io) rcv resp env))))"
    by (simp add: mbox_csr_def Let_def split_beta csr_array_keeps [OF spec] attributes_keeps [OF spec])
qed (simp_all add: mbox_reg_list_def mbox_qnotify_def mbox_qactive_cnt_def mbox_qctxt_read_def Let_def
      split_beta queries_keep [OF spec] read_keeps [OF spec])

lemma intr_branches_keep:
  assumes spec: "device_spec io mem" and ic: "\<And>r. ctxt_key QDMA_CTXT_SEL_INT_COAL r \<notin> K"
  shows "keeps mem K (mb_dev env) (mb_dev (snd (snd (mbox_intr_write (tab io) rcv resp env))))"
    and "keeps mem K (mb_dev env) (mb_dev (snd (snd (mbox_intr_read (tab io) rcv resp env))))"
    and "keeps mem K (mb_dev env) (mb_dev (snd (snd (mbox_intr_reset (tab io) access rcv resp env))))"
proof -
  note ring = ring_step_keeps [OF spec ic]
  note pair = fold_keeps [where dev = "\<lambda>(rv :: int, env). mb_dev env" and s = "(_, env)", simplified split_beta snd_conv]
    and triple = fold_keeps [where dev = "\<lambda>(rv :: int, rings :: qdma_indirect_intr_ctxt list, env). mb_dev env"
      and s = "(_, _, env)", simplified split_beta snd_conv]
  show "keeps mem K (mb_dev env) (mb_dev (snd (snd (mbox_intr_write (tab io) rcv resp env))))"
    by (simp add: mbox_intr_write_def Let_def split_beta pair ring)
  show "keeps mem K (mb_dev env) (mb_dev (snd (snd (mbox_intr_read (tab io) rcv resp env))))"
    by (simp add: mbox_intr_read_def Let_def split_beta triple ring)
  show "keeps mem K (mb_dev env) (mb_dev (snd (snd (mbox_intr_reset (tab io) access rcv resp env))))"
    by (simp add: mbox_intr_reset_def Let_def split_beta pair ring)
qed

text \<open>
  A request leaves a set of context locations alone that has no interrupt context, not the
  function map entry of the sender, no context of a queue in the sender's range and, for a
  request that resets a completion context only, not that completion context.
\<close>

lemma dispatch_keeps:
  assumes spec: "device_spec io mem"
    and fm: "ctxt_key QDMA_CTXT_SEL_FMAP (mm_src_func_id rcv) \<notin> K"
    and ic: "\<And>r. ctxt_key QDMA_CTXT_SEL_INT_COAL r \<notin> K"
    and q: "qdma_dev_is_queue_in_range (mb_rm env) (uint idx) (mm_src_func_id rcv) (uint (mm_qid_hw rcv)) =
        QDMA_DEV_Q_IN_RANGE \<Longrightarrow> queue_free K (mm_qid_hw rcv)"
    and cm: "cmpt_only_reset rcv \<Longrightarrow> ctxt_key QDMA_CTXT_SEL_CMPT (mm_qid_hw rcv) \<notin> K"
  shows "keeps mem K (mb_dev env) (mb_dev (snd (snd (mbox_dispatch (tab io) idx rcv resp env))))"
proof -
  have reset: "keeps mem K (mb_dev env) (mb_dev (snd (snd (mbox_qctxt_reset
      (mbox_reset_queue_contexts access) (tab io) idx rcv resp env))))"
    if "mbox_op_of (mm_op rcv) = Some MBOX_OP_QCTXT_CLR \<or> mbox_op_of (mm_op rcv) = Some MBOX_OP_QCTXT_INV" for access
    using reset_keeps [OF spec q, where d = "mb_dev env"] cm that
    by (simp add: mbox_qctxt_reset_def split_beta cmpt_only_reset_def)
  have wr: "keeps mem K (mb_dev env) (mb_dev (snd (snd (mbox_qctxt_write (tab io) idx rcv resp env))))"
    using write_keeps [OF spec, where d = "mb_dev env" and rm = "mb_rm env" and idx = idx and K = K
        and msg = "rcv\<lparr>mm_descq_conf := (mm_descq_conf rcv)\<lparr>dc_func_id := mm_src_func_id rcv\<rparr>\<rparr>"] q
    by (simp add: mbox_qctxt_write_def split_beta Let_def)
  show ?thesis
    unfolding mbox_dispatch_def
    using reset [of QDMA_HW_ACCESS_CLEAR, folded mbox_clear_queue_contexts_def]
      reset [of QDMA_HW_ACCESS_INVALIDATE, folded mbox_invalidate_queue_contexts_def]
    by (simp add: function_branches_keep [OF spec fm] query_branches_keep [OF spec]
        intr_branches_keep [OF spec ic] wr split: option.split mbox_msg_op.split)
qed

end

section \<open>Frame of the queue resource manager\<close>

text \<open>An operation of the queue resource manager for one function leaves the entries of the others alone.\<close>

lemma find_update_first: "find P xs = Some x \<Longrightarrow> P (f x) \<Longrightarrow> find P (update_first P f xs) = Some (f x)"
  by (induction xs) (auto split: if_splits)

lemma find_update_first_other:
  "(\<And>x. P x \<Longrightarrow> \<not> Q x) \<Longrightarrow> \<not> Q d \<Longrightarrow> find Q (update_first P (\<lambda>_. d) xs) = find Q xs"
  by (induction xs) auto

lemma find_remove_first_other:
  "(\<And>x. P x \<Longrightarrow> \<not> Q x) \<Longrightarrow> find Q (remove_first P xs) = find Q xs"
  by (induction xs) auto

lemma find_append_other: "\<not> Q d \<Longrightarrow> find Q (xs @ [d]) = find Q xs"
  by (induction xs) auto

lemma find_SomeD: "find P xs = Some x \<Longrightarrow> P x"
  by (auto simp: find_Some_iff)

lemma dev_entry_set_master:
  assumes "qdma_get_master_resource_entry s idx = Some m" and "dma_device_index (g m) = dma_device_index m"
    and "find (\<lambda>d. func_id d = f) (dev_list (g m)) = find (\<lambda>d. func_id d = f) (dev_list m)"
  shows "qdma_get_dev_entry (set_master idx g s) idx f = qdma_get_dev_entry s idx f"
proof -
  have "find (\<lambda>m. dma_device_index m = idx) (master_resource_list s) = Some m"
    using assms(1) by (simp add: qdma_get_master_resource_entry_def)
  from find_update_first [OF this, of g] find_SomeD [OF this] assms show ?thesis
    by (simp add: qdma_get_dev_entry_def qdma_get_master_resource_entry_def set_master_def)
qed

lemma request_func_id:
  "func_id (fst (snd (qdma_request_q_resource al d qmax qb fl))) = func_id d"
  by (auto simp: qdma_request_q_resource_def qdma_submit_to_free_list_def take_node_def Let_def split_beta
      split: prod.split option.split)

lemma dev_entry_func: "qdma_get_dev_entry s idx func = Some d \<Longrightarrow> func_id d = func"
  by (auto simp: qdma_get_dev_entry_def dest: find_SomeD split: option.splits)

lemma other_entries_kept:
  assumes "f \<noteq> func"
  shows "qdma_get_dev_entry (fst (snd (qdma_dev_entry_create al s idx func))) idx f = qdma_get_dev_entry s idx f"
    and "qdma_get_dev_entry (fst (qdma_dev_entry_destroy al s idx func)) idx f = qdma_get_dev_entry s idx f"
    and "qdma_get_dev_entry (fst (snd (snd (qdma_dev_update al s idx func qmax qb)))) idx f = qdma_get_dev_entry s idx f"
    and "qdma_get_dev_entry (snd (qdma_dev_increment_active_queue s idx func t)) idx f = qdma_get_dev_entry s idx f"
    and "qdma_get_dev_entry (snd (qdma_dev_decrement_active_queue s idx func t)) idx f = qdma_get_dev_entry s idx f"
proof -
  show "qdma_get_dev_entry (fst (snd (qdma_dev_entry_create al s idx func))) idx f = qdma_get_dev_entry s idx f"
    using assms
    by (auto simp: qdma_dev_entry_create_def Let_def split_beta find_append_other
        intro!: dev_entry_set_master split: option.split)
  show "qdma_get_dev_entry (fst (qdma_dev_entry_destroy al s idx func)) idx f = qdma_get_dev_entry s idx f"
    using assms
    by (auto simp: qdma_dev_entry_destroy_def Let_def split_beta find_remove_first_other
        intro!: dev_entry_set_master split: option.split)
  show "qdma_get_dev_entry (fst (snd (snd (qdma_dev_update al s idx func qmax qb)))) idx f = qdma_get_dev_entry s idx f"
    using assms
    by (auto simp: qdma_dev_update_def set_dev_def Let_def split_beta find_update_first_other request_func_id
        intro!: dev_entry_set_master split: option.split dest: dev_entry_func)
  show "qdma_get_dev_entry (snd (qdma_dev_increment_active_queue s idx func t)) idx f = qdma_get_dev_entry s idx f"
    using assms
    by (auto simp: qdma_dev_increment_active_queue_def set_dev_def Let_def split_beta find_update_first_other
        intro!: dev_entry_set_master split: option.split dest: dev_entry_func)
  show "qdma_get_dev_entry (snd (qdma_dev_decrement_active_queue s idx func t)) idx f = qdma_get_dev_entry s idx f"
    using assms
    by (auto simp: qdma_dev_decrement_active_queue_def set_dev_def Let_def split_beta find_update_first_other
        intro!: dev_entry_set_master split: option.split dest: dev_entry_func)
qed

lemma range_by_entry:
  "qdma_dev_is_queue_in_range s idx f q =
     (case qdma_get_dev_entry s idx f of
        None \<Rightarrow> QDMA_DEV_Q_OUT_OF_RANGE
      | Some d \<Rightarrow>
          if total_q (entry d) \<noteq> 0 \<and> q < wrap32 (qbase (entry d) + total_q (entry d)) \<and> int32 q \<ge> qbase (entry d)
          then QDMA_DEV_Q_IN_RANGE else QDMA_DEV_Q_OUT_OF_RANGE)"
  by (auto simp: qdma_dev_is_queue_in_range_def qdma_get_dev_entry_def Let_def split: option.split)

section \<open>Requests and the queue resource manager\<close>

text \<open>The requests that the analysis of the resource manager covers.\<close>

definition mbox_request_ok :: "mbox_msg \<Rightarrow> bool" where
  "mbox_request_ok rcv \<longleftrightarrow>
     (mbox_op_of (mm_op rcv) = Some MBOX_OP_QREQ \<longrightarrow> request_ok (uint (mm_qmax rcv)) (sint (mm_qbase rcv)))"

lemma write_fmap_env [simp]:
  "mb_rm (snd (write_fmap hw f fm env)) = mb_rm env" "mb_al (snd (write_fmap hw f fm env)) = mb_al env"
  by (simp_all add: write_fmap_def Let_def split_beta)

lemma ring_step_rm [simp]: "mb_rm (snd (snd (ring_step hw r c a env))) = mb_rm env"
  by (simp add: ring_step_def split_beta)

lemma fold_keeps_rm:
  assumes "\<And>x s. rm (f x s) = rm s"
  shows "rm (fold f xs s) = rm s"
  using assms by (induction xs arbitrary: s) auto

lemma quiet_branches_rm [simp]:
  "mb_rm (snd (snd (mbox_fmap hw rcv resp env))) = mb_rm env"
  "mb_rm (snd (snd (mbox_csr hw rcv resp env))) = mb_rm env"
  "mb_rm (snd (snd (mbox_qactive_cnt idx rcv resp env))) = mb_rm env"
  "mb_rm (snd (snd (mbox_intr_write hw rcv resp env))) = mb_rm env"
  "mb_rm (snd (snd (mbox_intr_read hw rcv resp env))) = mb_rm env"
  "mb_rm (snd (snd (mbox_intr_reset hw access rcv resp env))) = mb_rm env"
  "mb_rm (snd (snd (mbox_qctxt_reset reset hw idx rcv resp env))) = mb_rm env"
  "mb_rm (snd (snd (mbox_qctxt_read hw rcv resp env))) = mb_rm env"
  "mb_rm (snd (snd (mbox_qctxt_write hw idx rcv resp env))) = mb_rm env"
  "mb_rm (snd (snd (mbox_reg_list hw rcv resp env))) = mb_rm env"
proof -
  note pair = fold_keeps_rm [where rm = "\<lambda>(rv :: int, env). mb_rm env" and s = "(_, env)", simplified split_beta snd_conv]
    and triple = fold_keeps_rm [where rm = "\<lambda>(rv :: int, rings :: qdma_indirect_intr_ctxt list, env). mb_rm env"
      and s = "(_, _, env)", simplified split_beta snd_conv]
  show "mb_rm (snd (snd (mbox_intr_write hw rcv resp env))) = mb_rm env"
    "mb_rm (snd (snd (mbox_intr_reset hw access rcv resp env))) = mb_rm env"
    by (simp_all add: mbox_intr_write_def mbox_intr_reset_def Let_def split_beta pair)
  show "mb_rm (snd (snd (mbox_intr_read hw rcv resp env))) = mb_rm env"
    by (simp add: mbox_intr_read_def Let_def split_beta triple)
qed (simp_all add: mbox_fmap_def mbox_csr_def mbox_qactive_cnt_def mbox_qctxt_reset_def mbox_qctxt_read_def
      mbox_qctxt_write_def mbox_reg_list_def Let_def split_beta)

text \<open>A branch makes at most one step of the resource manager, for the sender.\<close>

lemma branches_rm:
  "mb_rm (snd (snd (mbox_bye hw idx ret rcv resp env))) =
     fst (qdma_dev_entry_destroy (mb_al env) (mb_rm env) (uint idx) (mm_src_func_id rcv))"
  "mb_rm (snd (snd (mbox_hello hw idx rcv resp env))) =
     (case qdma_dev_qinfo_get (mb_rm env) (uint idx) (mm_src_func_id rcv) of
        Inr _ \<Rightarrow> mb_rm env
      | Inl _ \<Rightarrow> fst (snd (qdma_dev_entry_create (mb_al env) (mb_rm env) (uint idx) (mm_src_func_id rcv))))"
  "mb_rm (snd (snd (mbox_qreq hw idx rcv resp env))) =
     fst (snd (snd (qdma_dev_update (mb_al env) (mb_rm env) (uint idx) (mm_src_func_id rcv)
       (uint (mm_qmax rcv)) (sint (mm_qbase rcv)))))"
  "mb_rm (snd (snd (mbox_qnotify count idx rcv resp env))) =
     (if qdma_dev_is_queue_in_range (mb_rm env) (uint idx) (mm_src_func_id rcv)
           (uint (mm_notify_qid_hw rcv)) = QDMA_DEV_Q_IN_RANGE
      then snd (count (mb_rm env) (uint idx) (mm_src_func_id rcv) (mm_notify_q_type rcv)) else mb_rm env)"
  by (simp_all add: mbox_bye_def mbox_hello_def mbox_qreq_def mbox_qnotify_def Let_def split_beta
      split: sum.split)

lemmas mbox_dispatch_cases = mbox_msg_op.split option.split sum.split

lemma dispatch_rm_step:
  assumes "l \<Longrightarrow> mb_al env = []" and "mbox_request_ok rcv"
  shows "mb_rm (snd (snd (mbox_dispatch hw idx rcv resp env))) = mb_rm env \<or>
    rm_step l (mb_rm env) (mb_rm (snd (snd (mbox_dispatch hw idx rcv resp env))))"
  using assms
  by (auto simp: mbox_dispatch_def branches_rm mbox_request_ok_def split: mbox_dispatch_cases
      intro: rm_step.intros)

lemma dispatch_other_entries:
  assumes "f \<noteq> mm_src_func_id rcv"
  shows "qdma_get_dev_entry (mb_rm (snd (snd (mbox_dispatch hw idx rcv resp env)))) (uint idx) f =
    qdma_get_dev_entry (mb_rm env) (uint idx) f"
  by (simp add: mbox_dispatch_def branches_rm other_entries_kept [OF assms] split: mbox_dispatch_cases)

lemma handler_env:
  "snd (snd (qdma_mbox_pf_rcv_msg_handler hw idx func (Some rcv) resp env)) =
   snd (snd (mbox_dispatch hw idx rcv resp env))"
  by (auto simp: qdma_mbox_pf_rcv_msg_handler_def split: prod.split mbox_exit.split)

end
