(* ===== verification/MboxProps.thy ===== *)
theory MboxProps
  imports MboxIsolation
begin

text \<open>
  The properties of the mailbox handler: what a virtual function's request cannot touch, also
  over a run of requests, the invariant of the queue resource manager, the form of the answers,
  the queue request from end to end, and what the answer to a request for a foreign queue says.
\<close>

section \<open>The tables of the variants\<close>

definition variant_tables :: "'d mmio \<Rightarrow> 'd qdma_hw_access set" where
  "variant_tables io = {soft_hw_access io, eqdma_hw_access io, cpm5_hw_access io}"

lemma handler_keeps:
  assumes "hw \<in> variant_tables io" and "device_spec io mem"
    and "ctxt_key QDMA_CTXT_SEL_FMAP (mm_src_func_id rcv) \<notin> K"
    and "\<And>r. ctxt_key QDMA_CTXT_SEL_INT_COAL r \<notin> K"
    and "qdma_dev_is_queue_in_range (mb_rm env) (uint idx) (mm_src_func_id rcv) (uint (mm_qid_hw rcv)) =
        QDMA_DEV_Q_IN_RANGE \<Longrightarrow> queue_free K (mm_qid_hw rcv)"
    and "cmpt_only_reset rcv \<Longrightarrow> ctxt_key QDMA_CTXT_SEL_CMPT (mm_qid_hw rcv) \<notin> K"
  shows "keeps mem K (mb_dev env)
    (mb_dev (snd (snd (qdma_mbox_pf_rcv_msg_handler hw idx func (Some rcv) resp env))))"
  using assms(1) unfolding variant_tables_def handler_env
  by (elim insertE emptyE)
     (simp_all add: soft_table.dispatch_keeps [OF assms(2-)] eqdma_table.dispatch_keeps [OF assms(2-)]
       cpm5_table.dispatch_keeps [OF assms(2-)])

lemma queue_keys:
  "sel \<in> queue_selectors \<Longrightarrow> ctxt_key QDMA_CTXT_SEL_FMAP f \<noteq> ctxt_key sel q"
  "sel \<in> queue_selectors \<Longrightarrow> ctxt_key QDMA_CTXT_SEL_INT_COAL f \<noteq> ctxt_key sel q"
  by (auto simp: ctxt_key_eq_iff queue_selectors_def)

lemma small_queue:
  fixes q :: u16
  assumes "uint q < 4096"
  shows "take_bit 12 q = q"
  using assms by (intro word_uint_eqI) (simp only: unsigned_take_bit_eq take_bit_int_eq_self_iff, simp)

text \<open>A context of a queue that is not the one the request may work on.\<close>

lemma handler_keeps_queue:
  assumes hw: "hw \<in> variant_tables io" "device_spec io mem" and sel: "sel \<in> queue_selectors"
    and own: "qdma_dev_is_queue_in_range (mb_rm env) (uint idx) (mm_src_func_id rcv) (uint (mm_qid_hw rcv)) =
        QDMA_DEV_Q_IN_RANGE \<Longrightarrow> take_bit 12 (mm_qid_hw rcv) \<noteq> take_bit 12 q"
    and cm: "\<not> (cmpt_only_reset rcv \<and> sel = QDMA_CTXT_SEL_CMPT \<and> take_bit 12 (mm_qid_hw rcv) = take_bit 12 q)"
  shows "mem (xregs (mb_dev (snd (snd (qdma_mbox_pf_rcv_msg_handler hw idx func (Some rcv) resp env)))))
      (ctxt_key sel q) = mem (xregs (mb_dev env)) (ctxt_key sel q)"
  using handler_keeps [OF hw, of rcv "{ctxt_key sel q}" env idx func resp] own cm sel queue_keys
  by (auto simp: keeps_def queue_free_def ctxt_key_eq_iff)

section \<open>A run of requests\<close>

text \<open>The physical function answers one request after the other, each in a cleared buffer.\<close>

fun mbox_run :: "'d qdma_hw_access \<Rightarrow> u8 \<Rightarrow> u16 \<Rightarrow> mbox_msg list \<Rightarrow> 'd mbox_env \<Rightarrow> 'd mbox_env" where
  "mbox_run hw idx func [] env = env"
| "mbox_run hw idx func (rcv # rcvs) env =
     mbox_run hw idx func rcvs (snd (snd (qdma_mbox_pf_rcv_msg_handler hw idx func (Some rcv) mm_zeroed env)))"

text \<open>The ranges of the devices do not change.\<close>

definition masters_below :: "int \<Rightarrow> qdma_rm \<Rightarrow> bool" where
  "masters_below b s \<longleftrightarrow> (\<forall>m\<in>set (master_resource_list s). master_qbase m + master_total_q m \<le> b)"

lemma set_update_first: "y \<in> set (update_first P f xs) \<Longrightarrow> y \<in> set xs \<or> (\<exists>x\<in>set xs. y = f x)"
  by (induction xs) (auto split: if_splits)

lemma masters_below_set_master:
  "masters_below b s \<Longrightarrow> (\<And>m. master_qbase (f m) = master_qbase m \<and> master_total_q (f m) = master_total_q m) \<Longrightarrow>
   masters_below b (set_master idx f s)"
  by (auto simp: masters_below_def set_master_def dest!: set_update_first)

lemma masters_below_ops:
  assumes "masters_below b s"
  shows "masters_below b (fst (snd (qdma_dev_entry_create al s idx func)))"
    and "masters_below b (fst (qdma_dev_entry_destroy al s idx func))"
    and "masters_below b (fst (snd (snd (qdma_dev_update al s idx func qmax qb))))"
    and "masters_below b (snd (qdma_dev_increment_active_queue s idx func t))"
    and "masters_below b (snd (qdma_dev_decrement_active_queue s idx func t))"
  using assms
  by (auto simp: qdma_dev_entry_create_def qdma_dev_entry_destroy_def qdma_dev_update_def
      qdma_dev_increment_active_queue_def qdma_dev_decrement_active_queue_def set_dev_def Let_def split_beta
      intro!: masters_below_set_master split: option.split)

lemma masters_below_handler:
  assumes "masters_below b (mb_rm env)"
  shows "masters_below b (mb_rm (snd (snd (qdma_mbox_pf_rcv_msg_handler hw idx func (Some rcv) resp env))))"
  using assms unfolding handler_env
  by (simp add: mbox_dispatch_def branches_rm masters_below_ops split: mbox_dispatch_cases)

lemma in_range_below:
  fixes q :: u16
  assumes "rm_ok l s" "masters_below b s"
    "qdma_dev_is_queue_in_range s idx f (uint q) = QDMA_DEV_Q_IN_RANGE"
  shows "uint q < b"
proof -
  have "uint q < 2 ^ 32" using uint_lt2p [of q] by simp
  then obtain m where "qdma_get_master_resource_entry s idx = Some m" "in_master m (uint q)"
    using in_range_unique [OF assms(1) _ _ assms(3,3)] by auto
  then show ?thesis
    using assms(2) get_master_split [of s idx m] by (fastforce simp: masters_below_def in_master_def)
qed

lemma handler_rm_ok:
  assumes "rm_ok l (mb_rm env)" "l \<Longrightarrow> mb_al env = []" "mbox_request_ok rcv"
  shows "rm_ok l (mb_rm (snd (snd (qdma_mbox_pf_rcv_msg_handler hw idx func (Some rcv) resp env))))"
  unfolding handler_env
  using dispatch_rm_step [of l env rcv hw idx resp] assms rm_step_ok by metis

lemma handler_range:
  "f \<noteq> mm_src_func_id rcv \<Longrightarrow>
   qdma_dev_is_queue_in_range (mb_rm (snd (snd (qdma_mbox_pf_rcv_msg_handler hw idx func (Some rcv) resp env))))
     (uint idx) f q = qdma_dev_is_queue_in_range (mb_rm env) (uint idx) f q"
  unfolding handler_env by (simp add: range_by_entry dispatch_other_entries)

section \<open>A sample request\<close>

text \<open>Function 1 has the queues 0 to 3 and function 2 the queues 8 to 13; function 1 clears queue 3.\<close>

definition sample_env :: "(ctxt_window \<times> ctxt_memory) mbox_env" where
  "sample_env = \<lparr>mb_dev = sim_dev, mb_rm = sample_two, mb_al = []\<rparr>"

definition clear_three :: mbox_msg where
  "clear_three = queue_request MBOX_OP_QCTXT_CLR 1 3 1 1 QDMA_MBOX_CMPT_CTXT_NONE mm_zeroed"

text \<open>Function 1 clears the completion context of queue 8, which is not its own.\<close>

definition clear_foreign_cmpt :: mbox_msg where
  "clear_foreign_cmpt = queue_request MBOX_OP_QCTXT_CLR 1 8 1 1 QDMA_MBOX_CMPT_CTXT_ONLY mm_zeroed"

lemma sample_env_ok: "rm_reach True (mb_rm sample_env)" "masters_below 4096 (mb_rm sample_env)"
  using sample_reach(4) by (simp_all add: sample_env_def masters_below_def sample_two_eq)

lemma sample_ranges [simp]:
  "qdma_dev_is_queue_in_range (mb_rm sample_env) 0 1 q = QDMA_DEV_Q_IN_RANGE \<longleftrightarrow> q < 4 \<and> 0 \<le> int32 q"
  "qdma_dev_is_queue_in_range (mb_rm sample_env) 0 2 q = QDMA_DEV_Q_IN_RANGE \<longleftrightarrow> q < 14 \<and> 8 \<le> int32 q"
  by (simp_all add: sample_env_def range_by_entry sample_two_eq rm_eval new_dev_def)

section \<open>Properties\<close>

text \<open>
  The exception to isolation: a request that clears a completion context only is obeyed for any queue.
\<close>

lemma cmpt_clear_zeroes:
  assumes "hw \<in> variant_tables io" "ctxt_hardware io win mem"
  shows "mem (xregs (the (snd (snd (ha_cmpt_ctx_conf hw (Some d) q None QDMA_HW_ACCESS_CLEAR)))))
    (ctxt_key QDMA_CTXT_SEL_CMPT q) = replicate 8 0"
  using assms(1) indirect_clear_effect [OF assms(2), of d QDMA_CTXT_SEL_CMPT q]
  by (auto simp: variant_tables_def hw_access_defs soft_context_functions eqdma_context_functions
      cpm5_context_functions indirect_copies context_cmd_def
      keep_ctxt_def ctxt_key_def)

lemma cmpt_only_clear:
  assumes "hw \<in> variant_tables io" "ctxt_hardware io win mem"
    and "cmpt_only_reset rcv" "mbox_op_of (mm_op rcv) = Some MBOX_OP_QCTXT_CLR"
  shows "mem (xregs (mb_dev (snd (snd (qdma_mbox_pf_rcv_msg_handler hw idx func (Some rcv) resp env)))))
    (ctxt_key QDMA_CTXT_SEL_CMPT (mm_qid_hw rcv)) = replicate 8 0"
  using assms(3,4) cmpt_clear_zeroes [OF assms(1,2), of "mb_dev env" "mm_qid_hw rcv"]
  unfolding handler_env
  by (simp add: mbox_dispatch_def mbox_qctxt_reset_def mbox_clear_queue_contexts_def
      mbox_reset_queue_contexts_def cmpt_only_reset_def split_beta Let_def hw_step_dev)

text \<open>C12. Isolation, one request, and where it ends: on a device that follows the register
  specification, with the table of the soft IP, the enhanced soft IP or CPM5, and a sender all of
  whose queues have numbers below 4096. The only software, hardware, credit, prefetch or
  completion context of a queue outside the sender's range that a request can change is the
  completion context that a clear or invalidate request for a completion context only (type
  CMPT_CTXT_ONLY) names, which the handler does before any range check; such a clear
  does zero the context it names, whoever owns the queue. The request changes the function map of no
  function but the sender. (Queues and functions are told apart modulo 4096, as the command
  register does.)\<close>

theorem vf_contexts_isolated:
  assumes "hw \<in> variant_tables io" "ctxt_hardware io win mem" "contexts_kept io mem"
    and "\<And>q :: u16. qdma_dev_is_queue_in_range (mb_rm env) (uint idx) (mm_src_func_id rcv) (uint q) =
        QDMA_DEV_Q_IN_RANGE \<Longrightarrow> uint q < 4096"
    and "sel \<in> queue_selectors" "uint q < 4096"
    and "qdma_dev_is_queue_in_range (mb_rm env) (uint idx) (mm_src_func_id rcv) (uint q) \<noteq> QDMA_DEV_Q_IN_RANGE"
    and "take_bit 12 f \<noteq> take_bit 12 (mm_src_func_id rcv)"
  shows "case qdma_mbox_pf_rcv_msg_handler hw idx func (Some rcv) resp env of (_, _, env') \<Rightarrow>
    (mem (xregs (mb_dev env')) (ctxt_key sel q) \<noteq> mem (xregs (mb_dev env)) (ctxt_key sel q) \<longrightarrow>
       cmpt_only_reset rcv \<and> sel = QDMA_CTXT_SEL_CMPT \<and> take_bit 12 (mm_qid_hw rcv) = q) \<and>
    (cmpt_only_reset rcv \<and> mbox_op_of (mm_op rcv) = Some MBOX_OP_QCTXT_CLR \<longrightarrow>
       mem (xregs (mb_dev env')) (ctxt_key QDMA_CTXT_SEL_CMPT (mm_qid_hw rcv)) = replicate 8 0) \<and>
    mem (xregs (mb_dev env')) (ctxt_key QDMA_CTXT_SEL_FMAP f) =
      mem (xregs (mb_dev env)) (ctxt_key QDMA_CTXT_SEL_FMAP f)"
proof -
  have spec: "device_spec io mem" using assms(2,3) by (auto simp: device_spec_def)
  note q = small_queue [OF assms(6)]
  have "take_bit 12 (mm_qid_hw rcv) \<noteq> take_bit 12 q"
    if "qdma_dev_is_queue_in_range (mb_rm env) (uint idx) (mm_src_func_id rcv) (uint (mm_qid_hw rcv)) =
      QDMA_DEV_Q_IN_RANGE"
    using small_queue [OF assms(4) [OF that]] q that assms(7) by auto
  then have "mem (xregs (mb_dev (snd (snd (qdma_mbox_pf_rcv_msg_handler hw idx func (Some rcv) resp env)))))
      (ctxt_key sel q) = mem (xregs (mb_dev env)) (ctxt_key sel q)"
    if "\<not> (cmpt_only_reset rcv \<and> sel = QDMA_CTXT_SEL_CMPT \<and> take_bit 12 (mm_qid_hw rcv) = q)"
    using handler_keeps_queue [OF assms(1) spec assms(5), of env idx rcv q func resp] that q by auto
  moreover have "keeps mem {ctxt_key QDMA_CTXT_SEL_FMAP f} (mb_dev env)
      (mb_dev (snd (snd (qdma_mbox_pf_rcv_msg_handler hw idx func (Some rcv) resp env))))"
    using assms(8)
    by (intro handler_keeps [OF assms(1) spec])
       (auto simp: ctxt_key_eq_iff queue_free_def queue_selectors_def)
  ultimately show ?thesis
    using cmpt_only_clear [OF assms(1,2), of rcv idx func resp env] by (auto simp: split_beta keeps_def)
qed

theorem vf_contexts_isolated_witness:
  "case qdma_mbox_pf_rcv_msg_handler (eqdma_hw_access sim_io) 0 9 (Some clear_foreign_cmpt) mm_zeroed sample_env of
     (_, _, env') \<Rightarrow>
       snd (xregs (mb_dev env')) (ctxt_key QDMA_CTXT_SEL_SW_C2H 8) =
         snd (xregs (mb_dev sample_env)) (ctxt_key QDMA_CTXT_SEL_SW_C2H 8) \<and>
       snd (xregs (mb_dev env')) (ctxt_key QDMA_CTXT_SEL_CMPT 8) = replicate 8 0 \<and>
       snd (xregs (mb_dev env')) (ctxt_key QDMA_CTXT_SEL_FMAP 2) =
         snd (xregs (mb_dev sample_env)) (ctxt_key QDMA_CTXT_SEL_FMAP 2)"
proof -
  have small: "uint q < 4096" if "qdma_dev_is_queue_in_range (mb_rm sample_env) (uint (0 :: u8))
      (mm_src_func_id clear_foreign_cmpt) (uint q) = QDMA_DEV_Q_IN_RANGE" for q :: u16
    using in_range_below [OF _ sample_env_ok(2) that] rm_reach_ok [OF sample_env_ok(1)] by blast
  have msg: "mm_src_func_id clear_foreign_cmpt = 1" "mm_qid_hw clear_foreign_cmpt = 8"
    "mbox_op_of (mm_op clear_foreign_cmpt) = Some MBOX_OP_QCTXT_CLR" "cmpt_only_reset clear_foreign_cmpt"
    by (simp_all add: clear_foreign_cmpt_def queue_request_def request_def cmpt_only_reset_def mbox_op_of_def mbox_ops_def)
  have hw: "eqdma_hw_access sim_io \<in> variant_tables sim_io" by (simp add: variant_tables_def)
  have "qdma_dev_is_queue_in_range (mb_rm sample_env) (uint (0 :: u8)) (mm_src_func_id clear_foreign_cmpt) (uint (8 :: u16)) \<noteq>
      QDMA_DEV_Q_IN_RANGE"
    by (simp add: sample_ranges msg)
  from vf_contexts_isolated [OF hw sim_hardware sim_contexts_kept small _ _ this, of QDMA_CTXT_SEL_SW_C2H 2 9 mm_zeroed]
  show ?thesis by (simp add: msg queue_selectors_def split_beta)
qed

text \<open>C11. Isolation, over a run of requests of other functions, on the devices and tables of the
  three variants, from a reachable state of a resource manager with queue numbers below 4096, even if
  allocations fail. As long as no queue request asks for numbers that overflow 32 bits, a queue of a
  function keeps its place in the function's range and its software, hardware, credit
  and prefetch contexts, whatever the requests are. It keeps its completion context as well unless
  one of them clears or invalidates a completion context only and names this queue, which the handler
  does not refuse.\<close>

theorem vf_queue_undisturbed:
  assumes "hw \<in> variant_tables io" "ctxt_hardware io win mem" "contexts_kept io mem"
    and "rm_reach l (mb_rm env)" "masters_below 4096 (mb_rm env)"
    and "qdma_dev_is_queue_in_range (mb_rm env) (uint idx) f (uint q) = QDMA_DEV_Q_IN_RANGE"
    and "\<forall>rcv\<in>set rcvs. mm_src_func_id rcv \<noteq> f \<and> mbox_request_ok rcv"
    and "sel \<in> queue_selectors"
    and "sel = QDMA_CTXT_SEL_CMPT \<Longrightarrow> \<forall>rcv\<in>set rcvs. \<not> (cmpt_only_reset rcv \<and> take_bit 12 (mm_qid_hw rcv) = q)"
  shows "qdma_dev_is_queue_in_range (mb_rm (mbox_run hw idx func rcvs env)) (uint idx) f (uint q) =
      QDMA_DEV_Q_IN_RANGE \<and>
    mem (xregs (mb_dev (mbox_run hw idx func rcvs env))) (ctxt_key sel (q :: u16)) =
      mem (xregs (mb_dev env)) (ctxt_key sel q)"
proof -
  have spec: "device_spec io mem" using assms(2,3) by (auto simp: device_spec_def)
  have "rm_ok False (mb_rm env)" using rm_reach_ok [OF assms(4)] by (rule rm_ok_weaken)
  then show ?thesis
    using assms(5-7,9)
  proof (induction rcvs arbitrary: env)
    case (Cons rcv rcvs)
    let ?env = "snd (snd (qdma_mbox_pf_rcv_msg_handler hw idx func (Some rcv) mm_zeroed env))"
    have src: "f \<noteq> mm_src_func_id rcv" "mbox_request_ok rcv" using Cons.prems(4) by auto
    have q32: "uint q < 2 ^ 32" using uint_lt2p [of q] by simp
    have small: "take_bit 12 q = q" by (rule small_queue [OF in_range_below [OF Cons.prems(1-3)]])
    have other: "take_bit 12 (mm_qid_hw rcv) \<noteq> take_bit 12 q"
      if r: "qdma_dev_is_queue_in_range (mb_rm env) (uint idx) (mm_src_func_id rcv) (uint (mm_qid_hw rcv)) =
        QDMA_DEV_Q_IN_RANGE"
    proof -
      have "q \<noteq> mm_qid_hw rcv"
        using in_range_unique [OF Cons.prems(1) _ q32 Cons.prems(3), of "mm_src_func_id rcv"] r src(1) by auto
      then show ?thesis using small_queue [OF in_range_below [OF Cons.prems(1,2) r]] small by auto
    qed
    have "mem (xregs (mb_dev ?env)) (ctxt_key sel q) = mem (xregs (mb_dev env)) (ctxt_key sel q)"
      using handler_keeps_queue [OF assms(1) spec assms(8), of env idx rcv q func mm_zeroed] other Cons.prems(5) small
      by auto
    moreover have "rm_ok False (mb_rm ?env)" by (rule handler_rm_ok [OF Cons.prems(1)]) (simp_all add: src)
    moreover have "masters_below 4096 (mb_rm ?env)" by (rule masters_below_handler [OF Cons.prems(2)])
    moreover have "qdma_dev_is_queue_in_range (mb_rm ?env) (uint idx) f (uint q) = QDMA_DEV_Q_IN_RANGE"
      using Cons.prems(3) by (simp add: handler_range [OF src(1)])
    ultimately show ?case using Cons.IH [of ?env] Cons.prems(4,5) by simp
  qed simp
qed

theorem vf_queue_undisturbed_witness:
  "qdma_dev_is_queue_in_range (mb_rm (mbox_run (soft_hw_access sim_io) 0 9 [clear_three, clear_foreign_cmpt] sample_env))
      (uint (0 :: u8)) 2 (uint (9 :: u16)) = QDMA_DEV_Q_IN_RANGE \<and>
   snd (xregs (mb_dev (mbox_run (soft_hw_access sim_io) 0 9 [clear_three, clear_foreign_cmpt] sample_env)))
      (ctxt_key QDMA_CTXT_SEL_CMPT 9) = snd (xregs (mb_dev sample_env)) (ctxt_key QDMA_CTXT_SEL_CMPT 9)"
  by (rule vf_queue_undisturbed [OF _ sim_hardware sim_contexts_kept sample_env_ok])
     (simp_all add: variant_tables_def queue_selectors_def clear_three_def clear_foreign_cmpt_def queue_request_def
       request_def mbox_request_ok_def cmpt_only_reset_def int32_def mbox_op_of_def mbox_ops_def)

text \<open>C14. One request takes the queue resource manager from a reachable state to a reachable state
  (for the lossless runs if no allocation fails), so its invariant, queue isolation and conservation
  hold however virtual functions drive it. The queue numbers of a queue request must not overflow.\<close>

theorem mbox_request_reachable:
  assumes "rm_reach l (mb_rm env)" "l \<Longrightarrow> mb_al env = []" "mbox_request_ok rcv"
  shows "case qdma_mbox_pf_rcv_msg_handler hw idx func (Some rcv) resp env of (_, _, env') \<Rightarrow>
    rm_reach l (mb_rm env')"
proof -
  have "rm_reach l (mb_rm (snd (snd (qdma_mbox_pf_rcv_msg_handler hw idx func (Some rcv) resp env))))"
    using dispatch_rm_step [OF assms(2,3), where hw = hw and idx = idx and resp = resp] assms(1)
    unfolding handler_env by (metis reach_step)
  then show ?thesis by (simp add: split_beta)
qed

theorem mbox_request_reachable_witness:
  "case qdma_mbox_pf_rcv_msg_handler (eqdma_hw_access sim_io) 0 9 (Some clear_three) mm_zeroed sample_env of
     (_, _, env') \<Rightarrow> rm_reach True (mb_rm env')"
  by (rule mbox_request_reachable [OF sample_env_ok(1)])
     (simp_all add: sample_env_def clear_three_def queue_request_def request_def mbox_request_ok_def
       mbox_op_of_def mbox_ops_def)

text \<open>The bytes of the requests that are answered, and the value the handler then returns.\<close>

definition answered_ops :: "u8 list" where
  "answered_ops = [0, 1, 2, 3, 4, 5, 6, 7, 8, 9, 10, 11, 12, 13, 14, 15, 0x12, 0x14]"

lemma branch_exits:
  "\<exists>rv. fst (mbox_bye hw idx ret rcv resp env) = Exit_func rv ret"
  "\<exists>rv. fst (mbox_hello hw idx rcv resp env) = Exit_func rv QDMA_MBOX_VF_ONLINE"
  "\<exists>rv. fst (mbox_csr hw rcv resp env) = Exit_func rv 0"
  "\<exists>rv. fst (mbox_qreq hw idx rcv resp env) = Exit_func rv 0"
  "\<exists>rv. fst (mbox_qnotify count idx rcv resp env) = Exit_func rv 0"
  "\<exists>rv. fst (mbox_qactive_cnt idx rcv resp env) = Exit_func rv 0"
  "\<exists>rv. fst (mbox_intr_write hw rcv resp env) = Exit_func rv 0"
  "\<exists>rv. fst (mbox_intr_read hw rcv resp env) = Exit_func rv 0"
  "\<exists>rv. fst (mbox_intr_reset hw access rcv resp env) = Exit_func rv 0"
  "\<exists>rv. fst (mbox_qctxt_reset reset hw idx rcv resp env) = Exit_func rv 0"
  "\<exists>rv. fst (mbox_qctxt_read hw rcv resp env) = Exit_func rv 0"
  "\<exists>rv. fst (mbox_qctxt_write hw idx rcv resp env) = Exit_func rv 0"
  "\<exists>rv. fst (mbox_reg_list hw rcv resp env) = Exit_func rv 0"
  by (simp_all add: mbox_bye_def mbox_hello_def mbox_csr_def mbox_qreq_def mbox_qnotify_def
      mbox_qactive_cnt_def mbox_intr_write_def mbox_intr_read_def mbox_intr_reset_def mbox_qctxt_reset_def
      mbox_qctxt_read_def mbox_qctxt_write_def mbox_reg_list_def Let_def split_beta)

lemma fmap_exit:
  "(\<exists>rv. fst (mbox_fmap hw rcv resp env) = Exit_func rv 0) \<or>
   (\<exists>rv<0. fst (mbox_fmap hw rcv resp env) = Return rv) \<and> fst (snd (mbox_fmap hw rcv resp env)) = resp"
  by (simp add: mbox_fmap_def Let_def split_beta)

lemma answer_of_exit:
  assumes "fst (mbox_dispatch hw idx rcv resp env) = Exit_func rv ret"
  obtains resp' where "fst (qdma_mbox_pf_rcv_msg_handler hw idx func (Some rcv) resp env) = ret"
    "fst (snd (qdma_mbox_pf_rcv_msg_handler hw idx func (Some rcv) resp env)) = pf_answer func rcv rv resp'"
  using assms that
  by (cases "mbox_dispatch hw idx rcv resp env") (auto simp: qdma_mbox_pf_rcv_msg_handler_def)

definition handled_value :: "u8 \<Rightarrow> int" where
  "handled_value w = (if w = 0 then -1 else if w = 1 then 1 else if w = 0x14 then 5 else 0)"

lemma unknown_op: "mbox_op_of w = None \<Longrightarrow> w \<notin> set answered_ops \<union> {0x90, 0x91, 0x93}"
  by (auto simp: mbox_op_of_def mbox_ops_def answered_ops_def find_None_iff)

lemma dispatch_exit:
  assumes "mm_op rcv \<in> set answered_ops"
  shows "(\<exists>rv. fst (mbox_dispatch hw idx rcv resp env) = Exit_func rv (handled_value (mm_op rcv))) \<or>
    mm_op rcv = 2 \<and> (\<exists>rv<0. fst (mbox_dispatch hw idx rcv resp env) = Return rv) \<and>
      fst (snd (mbox_dispatch hw idx rcv resp env)) = resp"
proof (cases "mbox_op_of (mm_op rcv)")
  case None
  then show ?thesis using unknown_op assms by blast
next
  case (Some req)
  from mbox_op_of_Some [OF this] Some assms fmap_exit [of hw rcv resp env] show ?thesis
    by (cases req) (simp_all add: mbox_dispatch_def branch_exits [unfolded QDMA_MBOX_VF_ONLINE_def] handled_value_def answered_ops_def
        QDMA_MBOX_VF_OFFLINE_def QDMA_MBOX_VF_RESET_BYE_def QDMA_MBOX_VF_ONLINE_def)
qed

lemma dispatch_unanswered:
  assumes "mm_op rcv \<notin> set answered_ops"
  shows "mbox_dispatch hw idx rcv resp env =
    (Return (if mm_op rcv = 0x90 then 2 else if mm_op rcv = 0x91 then 3 else if mm_op rcv = 0x93 then 4
      else neg_err QDMA_ERR_MBOX_INV_MSG), resp, env)"
proof (cases "mbox_op_of (mm_op rcv)")
  case None
  then show ?thesis using unknown_op [OF None] by (simp add: mbox_dispatch_def)
next
  case (Some req)
  from mbox_op_of_Some [OF this] Some assms show ?thesis
    by (cases req) (simp_all add: mbox_dispatch_def answered_ops_def QDMA_MBOX_VF_RESET_def
        QDMA_MBOX_PF_RESET_DONE_def QDMA_MBOX_PF_BYE_def)
qed

text \<open>C16. The answer to any message: for the bytes of the known requests the response carries the
  operation plus 0x80, which the requester's check recognises, goes back to the sender and names the
  physical function as its source, and the value returned tells the caller what happened; only a
  function map request whose register access fails ends without an answer and with the error. The
  three responses of a virtual function give their own values, any other byte is refused, and both
  leave the response buffer and the state alone. A null message is refused.\<close>

theorem mbox_handler_answers:
  "case qdma_mbox_pf_rcv_msg_handler hw idx func (Some rcv) resp env of (ret, resp', env') \<Rightarrow>
     (if mm_op rcv \<in> set answered_ops
      then (ret = handled_value (mm_op rcv) \<and> qdma_mbox_is_msg_response rcv resp' = 1 \<and>
            mm_dst_func_id resp' = mm_src_func_id rcv \<and> mm_src_func_id resp' = func) \<or>
           (mm_op rcv = mbox_op_code MBOX_OP_FMAP \<and> ret < 0 \<and> resp' = resp)
      else resp' = resp \<and> env' = env \<and>
        ret = (if mm_op rcv = mbox_op_code MBOX_OP_RESET_PREPARE_RESP then 2
          else if mm_op rcv = mbox_op_code MBOX_OP_RESET_DONE_RESP then 3
          else if mm_op rcv = mbox_op_code MBOX_OP_PF_BYE_RESP then 4
          else neg_err QDMA_ERR_MBOX_INV_MSG)) \<and>
     qdma_mbox_pf_rcv_msg_handler hw idx func None resp env = (neg_err QDMA_ERR_INV_PARAM, resp, env)"
proof (cases "mm_op rcv \<in> set answered_ops")
  case False
  then show ?thesis
    by (simp add: qdma_mbox_pf_rcv_msg_handler_def dispatch_unanswered)
next
  case True
  have op: "qdma_mbox_is_msg_response rcv (pf_answer func rcv rv r) = 1" for rv r
    using True
    by (auto simp: qdma_mbox_is_msg_response_def pf_answer_def MBOX_MSG_OP_RSP_OFFSET_def answered_ops_def)
  from dispatch_exit [OF True, of hw idx resp env] op True show ?thesis
    by (cases "mbox_dispatch hw idx rcv resp env")
       (auto simp: qdma_mbox_pf_rcv_msg_handler_def pf_answer_def)
qed

text \<open>The code reports success for what it did not do: a request to write, clear or invalidate the
  contexts of a queue outside the range of a known function (for clear and invalidate, unless it is
  for the completion context only) changes nothing, and the status of the answer is 0.\<close>

theorem foreign_queue_answer:
  assumes "qdma_dev_qinfo_get (mb_rm env) (uint idx) (mm_src_func_id rcv) = Inr r"
    and "qdma_dev_is_queue_in_range (mb_rm env) (uint idx) (mm_src_func_id rcv) (uint (mm_qid_hw rcv)) \<noteq>
      QDMA_DEV_Q_IN_RANGE"
    and "mm_op rcv = mbox_op_code MBOX_OP_QCTXT_WRT \<or>
      mm_op rcv \<in> {mbox_op_code MBOX_OP_QCTXT_CLR, mbox_op_code MBOX_OP_QCTXT_INV} \<and> \<not> cmpt_only_reset rcv"
  shows "case qdma_mbox_pf_rcv_msg_handler hw idx func (Some rcv) resp env of (ret, resp', env') \<Rightarrow>
    ret = 0 \<and> env' = env \<and> qdma_mbox_vf_response_status resp' = err_code QDMA_SUCCESS"
proof -
  have "mbox_op_of (mm_op rcv) = Some MBOX_OP_QCTXT_WRT \<or>
      mbox_op_of (mm_op rcv) \<in> {Some MBOX_OP_QCTXT_CLR, Some MBOX_OP_QCTXT_INV} \<and>
      mm_cmpt_ctxt_type rcv \<noteq> QDMA_MBOX_CMPT_CTXT_ONLY"
    using assms(3) by (auto simp: cmpt_only_reset_def simp del: mbox_op_code.simps)
  then show ?thesis
    using assms(1,2)
    by (auto simp: qdma_mbox_pf_rcv_msg_handler_def mbox_dispatch_def mbox_qctxt_reset_def
        mbox_qctxt_write_def mbox_write_queue_contexts_def mbox_clear_queue_contexts_def
        mbox_invalidate_queue_contexts_def mbox_reset_queue_contexts_def Let_def
        qdma_mbox_vf_response_status_def pf_answer_def)
qed

theorem foreign_queue_answer_witness:
  "case qdma_mbox_pf_rcv_msg_handler (eqdma_hw_access sim_io) 0 7 (Some (clear_three\<lparr>mm_qid_hw := 9\<rparr>)) mm_zeroed
      sample_env of (ret, resp', env') \<Rightarrow>
    ret = 0 \<and> env' = sample_env \<and> qdma_mbox_vf_response_status resp' = err_code QDMA_SUCCESS"
  by (rule foreign_queue_answer [where r = "(0, 4)"])
     (simp_all add: clear_three_def queue_request_def request_def cmpt_only_reset_def,
      simp_all add: sample_env_def sample_two_eq rm_eval new_dev_def qdma_dev_qinfo_get_def)

lemma sint_of_int_u32: "- (2 ^ 31) \<le> k \<Longrightarrow> k < 2 ^ 31 \<Longrightarrow> sint (of_int k :: u32) = k"
  by (simp add: signed_of_int signed_take_bit_int_eq_self)

lemma qinfo_bounds:
  assumes "rm_ok l s" "qdma_dev_qinfo_get s idx f = Inr (b, n)"
  shows "- (2 ^ 31) \<le> b \<and> b < 2 ^ 31"
proof -
  obtain m d where md: "qdma_get_master_resource_entry s idx = Some m" "qdma_get_dev_entry s idx f = Some d"
    "b = qbase (entry d)"
    using assms(2) by (auto simp: qdma_dev_qinfo_get_def split: option.splits)
  then have "d \<in> set (dev_list m)" using get_dev_split by (metis in_set_conv_decomp)
  then have "dev_range_ok (entry d)"
    using master_of_rm_ok [OF assms(1) md(1)] by (simp add: master_ok_def dev_ok_def)
  then show ?thesis using md(3) by (auto simp: dev_range_ok_def range_ok_def)
qed

text \<open>C13. A queue request from end to end, on a reachable state without failing allocations, for a
  function without active queues: what the function composes, the physical function handles and the
  function takes apart again. The answer is recognised; its status is 0 exactly when the number is zero
  or a free range is large enough once the function's own queues are given back, and then the base and
  the number it carries are the function's new range; otherwise the status is
  -QDMA_ERR_MBOX_NUM_QUEUES.\<close>

theorem vf_queue_request:
  assumes "rm_reach l (mb_rm env)" "mb_al env = []"
    and "qdma_get_master_resource_entry (mb_rm env) (uint idx) = Some m"
    and "qdma_get_dev_entry (mb_rm env) (uint idx) f = Some d"
    and "active_h2c_qcnt d = 0" "active_c2h_qcnt d = 0" "active_cmpt_qcnt d = 0"
    and "- (2 ^ 31) \<le> qb" "qb < 2 ^ 31"
  shows "case qdma_mbox_compose_vf_qreq f qmax qb (Some raw) of (st, Some msg) \<Rightarrow>
      st = 0 \<and>
      (case qdma_mbox_pf_rcv_msg_handler hw idx func (Some msg) resp env of (ret, resp', env') \<Rightarrow>
        ret = 0 \<and> qdma_mbox_is_msg_response msg resp' = 1 \<and>
        (case qdma_mbox_vf_qinfo_get resp' of (rv, base, n) \<Rightarrow>
          (rv = 0 \<longleftrightarrow> qmax = 0 \<or> list_ex (\<lambda>e. uint qmax \<le> total_q e)
             (fst (snd (qdma_submit_to_free_list [] d (free_list m))))) \<and>
          (if rv = 0
           then n = qmax \<and> qdma_dev_qinfo_get (mb_rm env') (uint idx) f = Inr (base, uint qmax)
           else rv = neg_err QDMA_ERR_MBOX_NUM_QUEUES)))
    | _ \<Rightarrow> False"
proof -
  note ok = rm_reach_ok [OF assms(1)]
  note qb = sint_of_int_u32 [OF assms(8,9)]
  have "uint qmax < 2 ^ 16" using uint_lt2p [of qmax] by simp
  then have qm: "uint (ucast qmax :: u32) = uint qmax"
    by (simp add: unsigned_ucast_eq take_bit_int_eq_self)
  have qm': "ucast (ucast qmax :: u32) = qmax"
    by (intro bit_word_eqI) (simp add: bit_simps)
  have q0: "uint qmax = 0 \<longleftrightarrow> qmax = 0" by (simp add: unsigned_eq_0_iff)
  have req: "request_ok (uint qmax) qb" using \<open>uint qmax < 2 ^ 16\<close> assms(9) by (simp add: request_ok_def)
  obtain rv base rm al where u: "qdma_dev_update [] (mb_rm env) (uint idx) f (uint qmax) qb = (rv, base, rm, al)"
    by (metis prod_cases4)
  note out = dev_update_outcome [OF ok req assms(3-7), unfolded u, simplified]
  define msg where "msg = (request MBOX_OP_QREQ f mm_zeroed)\<lparr>mm_qbase := of_int qb, mm_qmax := ucast qmax\<rparr>"
  then have fields: "mm_op msg = 4" "mm_src_func_id msg = f" "mm_qbase msg = of_int qb" "mm_qmax msg = ucast qmax"
    by (simp_all add: request_def)
  have c: "qdma_mbox_compose_vf_qreq f qmax qb (Some raw) = (0, Some msg)"
    by (simp add: qdma_mbox_compose_vf_qreq_def compose_msg_def msg_def)
  have h: "qdma_mbox_pf_rcv_msg_handler hw idx func (Some msg) resp env =
      (case mbox_qreq hw idx msg resp env of (Exit_func rv ret, resp, env) \<Rightarrow> (ret, pf_answer func msg rv resp, env)
       | (Return rv, resp, env) \<Rightarrow> (rv, resp, env))"
    by (auto simp: qdma_mbox_pf_rcv_msg_handler_def mbox_dispatch_def msg_def request_def
        simp del: mbox_op_code.simps split: prod.split mbox_exit.split)
  show ?thesis
  proof (cases "rv = 0")
    case True
    have "rm_ok l rm" using dev_update_ok [OF ok req, of "[]" "uint idx" f] u by simp
    then have "sint (of_int base :: u32) = base"
      using qinfo_bounds out True sint_of_int_u32 by auto
    with True out [unfolded q0] u show ?thesis
      by (simp add: c h fields mbox_qreq_def assms(2) qb qm qm' split_beta Let_def pf_answer_def
          qdma_mbox_vf_qinfo_get_def qdma_mbox_is_msg_response_def MBOX_MSG_OP_RSP_OFFSET_def)
  next
    case False
    with out [unfolded q0] u show ?thesis
      by (simp add: c h fields mbox_qreq_def assms(2) qb qm qm' split_beta Let_def pf_answer_def
          qdma_mbox_vf_qinfo_get_def qdma_mbox_is_msg_response_def MBOX_MSG_OP_RSP_OFFSET_def)
  qed
qed

theorem vf_queue_request_witness:
  "case qdma_mbox_compose_vf_qreq 1 2 (-1) (Some mm_zeroed) of (st, Some msg) \<Rightarrow>
      st = 0 \<and>
      (case qdma_mbox_pf_rcv_msg_handler (eqdma_hw_access sim_io) 0 7 (Some msg) mm_zeroed sample_env of
        (ret, resp', env') \<Rightarrow>
        ret = 0 \<and> qdma_mbox_is_msg_response msg resp' = 1 \<and>
        (case qdma_mbox_vf_qinfo_get resp' of (rv, base, n) \<Rightarrow>
          rv = 0 \<and> n = 2 \<and> qdma_dev_qinfo_get (mb_rm env') (uint (0 :: u8)) 1 = Inr (base, 2)))
    | _ \<Rightarrow> False"
proof -
  have m: "qdma_get_master_resource_entry (mb_rm sample_env) (uint (0 :: u8)) =
      Some (hd (master_resource_list sample_two))"
    "qdma_get_dev_entry (mb_rm sample_env) (uint (0 :: u8)) 1 =
      Some (new_dev 1\<lparr>entry := \<lparr>qbase = 0, total_q = 4\<rparr>\<rparr>)"
    by (simp_all add: sample_env_def sample_two_eq rm_eval new_dev_def)
  have "mb_al sample_env = []" by (simp add: sample_env_def)
  note vf_queue_request [OF sample_env_ok(1) this m, where qb = "-1" and qmax = 2 and raw = mm_zeroed
      and hw = "eqdma_hw_access sim_io" and func = 7 and resp = mm_zeroed]
  then show ?thesis
    by (simp add: new_dev_def sample_two_eq qdma_submit_to_free_list_def wrap32_def split_beta
        split: option.splits cong: if_cong)
qed

end
