(* ===== verification/DescqMMStream.thy ===== *)
theory DescqMMStream
  imports DescqMM
begin

text \<open>
  What the descriptors of a memory mapped queue denote: a request is the list of its bytes, each
  the pair of its address in memory and its address in the device, and a descriptor is the list
  of the bytes it moves. The lemmas follow the loops of descq_mm_proc_request from the inside:
  each writes consecutive slots of the ring, and the descriptors written denote exactly the next
  bytes of the request, in order, nothing twice and nothing left out.
\<close>

named_theorems mm_simps "loops over a memory mapped request, unfolded one step"

section \<open>Bytes\<close>

primrec bytes_at :: "u64 \<Rightarrow> nat \<Rightarrow> u64 list" where
  "bytes_at a 0 = []"
| "bytes_at a (Suc n) = a # bytes_at (a + 1) n"

primrec with_ep :: "u64 \<Rightarrow> u64 list \<Rightarrow> (u64 \<times> u64) list" where
  "with_ep a [] = []"
| "with_ep a (x # xs) = (x, a) # with_ep (a + 1) xs"

definition sgl_bytes :: "qdma_sw_sg list \<Rightarrow> u64 list" where
  "sgl_bytes sgl = concat (map (\<lambda>sg. bytes_at (sw_dma_addr sg) (sw_len sg)) sgl)"

definition request_bytes :: "qdma_request \<Rightarrow> (u64 \<times> u64) list" where
  "request_bytes req = with_ep (rq_ep_addr req) (sgl_bytes (rq_sgl req))"

definition desc_len :: "qdma_mm_desc \<Rightarrow> nat" where
  "desc_len d = unat (take_bit 28 (md_flag_len d))"

definition desc_bytes :: "bool \<Rightarrow> qdma_mm_desc \<Rightarrow> (u64 \<times> u64) list" where
  "desc_bytes c2h d =
     (if c2h then with_ep (md_src_addr d) (bytes_at (md_dst_addr d) (desc_len d))
      else with_ep (md_dst_addr d) (bytes_at (md_src_addr d) (desc_len d)))"

lemma length_bytes_at [simp]: "length (bytes_at a n) = n"
  by (induction n arbitrary: a) simp_all

lemma bytes_at_numeral [simp]:
  "bytes_at a (numeral k) = a # bytes_at (a + 1) (pred_numeral k)"
  by (simp add: numeral_eq_Suc)

lemma bytes_at_add: "bytes_at a (m + n) = bytes_at a m @ bytes_at (a + of_nat m) n"
  by (induction m arbitrary: a) (simp_all add: algebra_simps)

lemma bytes_at_split:
  "m \<le> n \<Longrightarrow> bytes_at a n = bytes_at a m @ bytes_at (a + of_nat m) (n - m)"
  using bytes_at_add [of a m "n - m"] by simp

lemma drop_bytes_at: "m \<le> n \<Longrightarrow> drop m (bytes_at a n) = bytes_at (a + of_nat m) (n - m)"
  by (simp add: bytes_at_split [of m n a])

lemma length_with_ep [simp]: "length (with_ep a xs) = length xs"
  by (induction xs arbitrary: a) simp_all

lemma with_ep_append:
  "with_ep a (xs @ ys) = with_ep a xs @ with_ep (a + of_nat (length xs)) ys"
  by (induction xs arbitrary: a) (simp_all add: algebra_simps)

lemma drop_with_ep: "drop n (with_ep a xs) = with_ep (a + of_nat n) (drop n xs)"
proof (induction n arbitrary: a xs)
  case (Suc n)
  then show ?case by (cases xs) (simp_all add: algebra_simps)
qed simp

lemma take_with_ep: "take n (with_ep a xs) = with_ep a (take n xs)"
proof (induction n arbitrary: a xs)
  case (Suc n)
  then show ?case by (cases xs) simp_all
qed simp

lemma sgl_bytes_simps [simp]:
  "sgl_bytes [] = []"
  "sgl_bytes (sg # sgs) = bytes_at (sw_dma_addr sg) (sw_len sg) @ sgl_bytes sgs"
  by (simp_all add: sgl_bytes_def)

lemma length_sgl_bytes: "length (sgl_bytes sgl) = sum_list (map sw_len sgl)"
  by (induction sgl) simp_all

lemma sgl_bytes_drop_Suc:
  "drop (sw_len sg) (sgl_bytes (sg # sgs)) = sgl_bytes sgs"
  by simp

section \<open>Slots of the ring\<close>

definition ring_add :: "nat \<Rightarrow> nat \<Rightarrow> nat \<Rightarrow> nat" where
  "ring_add r p n = (p + n) mod r"

fun ring_write :: "nat \<Rightarrow> nat \<Rightarrow> 'a list \<Rightarrow> 'a list \<Rightarrow> 'a list" where
  "ring_write r p [] ring = ring"
| "ring_write r p (d # ds) ring = ring_write r (ring_add r p 1) ds (ring[p := d])"

definition ring_slots :: "nat \<Rightarrow> nat \<Rightarrow> nat \<Rightarrow> 'a list \<Rightarrow> 'a list" where
  "ring_slots r p n ring = map (\<lambda>k. ring ! ring_add r p k) [0..<n]"

lemma ring_add_0 [simp]: "p < r \<Longrightarrow> ring_add r p 0 = p"
  by (simp add: ring_add_def)

lemma ring_add_add [simp]: "ring_add r (ring_add r p m) n = ring_add r p (m + n)"
  by (simp add: ring_add_def mod_simps add.assoc)

lemma ring_add_less [simp]: "0 < r \<Longrightarrow> ring_add r p n < r"
  by (simp add: ring_add_def)

lemma ring_add_Suc: "p < r \<Longrightarrow> (if Suc p = r then 0 else Suc p) = ring_add r p 1"
  by (simp add: ring_add_def)

lemma ring_add_inj:
  assumes "m < r" "n < r" "ring_add r p m = ring_add r p n"
  shows "m = n"
proof (rule ccontr)
  assume "m \<noteq> n"
  then consider "m < n" | "n < m" by linarith
  then show False
  proof cases
    case 1
    then have "r dvd n - m"
      using assms(3) mod_eq_dvd_iff_nat [of "p + m" "p + n" r] by (simp add: ring_add_def)
    then show False using 1 assms(2) by (auto dest: dvd_imp_le)
  next
    case 2
    then have "r dvd m - n"
      using assms(3) mod_eq_dvd_iff_nat [of "p + n" "p + m" r] by (simp add: ring_add_def)
    then show False using 2 assms(1) by (auto dest: dvd_imp_le)
  qed
qed

lemma length_ring_write [simp]: "length (ring_write r p ds ring) = length ring"
  by (induction ds arbitrary: p ring) simp_all

lemma ring_write_append:
  "p < r \<Longrightarrow> ring_write r p (ds @ es) ring
     = ring_write r (ring_add r p (length ds)) es (ring_write r p ds ring)"
  by (induction ds arbitrary: p ring) (simp_all add: ring_add_def mod_simps)

text \<open>Slots up to a full turn before the ones written keep what they hold.\<close>

lemma ring_write_other:
  assumes "p < r" "length ds \<le> k" "k < r"
  shows "ring_write r p ds ring ! ring_add r p k = ring ! ring_add r p k"
  using assms
proof (induction ds arbitrary: p k ring)
  case (Cons d ds)
  have ne: "ring_add r p k \<noteq> p"
    using ring_add_inj [of k r 0 p] Cons.prems by auto
  have "ring_write r (ring_add r p 1) ds (ring[p := d]) ! ring_add r (ring_add r p 1) (k - 1)
      = ring[p := d] ! ring_add r (ring_add r p 1) (k - 1)"
    by (rule Cons.IH) (use Cons.prems in auto)
  then show ?case using Cons.prems ne by simp
qed simp

lemma ring_slots_Suc:
  "p < r \<Longrightarrow> ring_slots r p (Suc n) ring = ring ! p # ring_slots r (ring_add r p 1) n ring"
  by (simp add: ring_slots_def upt_conv_Cons map_Suc_upt [symmetric] del: upt_Suc)

lemma ring_slots_write:
  assumes "p < r" "length ds \<le> r" "length ring = r"
  shows "ring_slots r p (length ds) (ring_write r p ds ring) = ds"
  using assms
proof (induction ds arbitrary: p ring)
  case (Cons d ds)
  have turn: "ring_add r (ring_add r p 1) (r - 1) = p"
    using Cons.prems by (simp only: ring_add_add) (simp add: ring_add_def)
  have "ring_write r (ring_add r p 1) ds (ring[p := d]) ! p = ring[p := d] ! p"
    using ring_write_other [of "ring_add r p 1" r ds "r - 1" "ring[p := d]"] Cons.prems turn by simp
  moreover have "ring_slots r (ring_add r p 1) (length ds)
      (ring_write r (ring_add r p 1) ds (ring[p := d])) = ds"
    by (rule Cons.IH) (use Cons.prems in auto)
  ultimately show ?case using Cons.prems by (simp add: ring_slots_Suc)
qed (simp add: ring_slots_def)

section \<open>A pass over a request\<close>

text \<open>
  From s to s' n descriptors are written to the next slots of the ring, and they denote the
  memory bytes xs, at least one each, at the next addresses in the device.
\<close>

definition wrote :: "qdma_descq \<Rightarrow> nat \<Rightarrow> u64 list \<Rightarrow> mm_pass \<Rightarrow> mm_pass \<Rightarrow> bool" where
  "wrote q n xs s s' \<longleftrightarrow>
     (\<exists>ds. length ds = n \<and> mp_desc s' = ring_write (dq_rngsz q) (mp_pidx s) ds (mp_desc s) \<and>
        concat (map (desc_bytes (dq_c2h q)) ds) = with_ep (mp_ep_addr s) xs \<and>
        (\<forall>d\<in>set ds. drop_bit 28 (md_flag_len d) = 1)) \<and>
     mp_pidx s' = ring_add (dq_rngsz q) (mp_pidx s) n \<and>
     mp_ep_addr s' = mp_ep_addr s + of_nat (length xs) \<and>
     mp_data_cnt s' = mp_data_cnt s + length xs \<and> n \<le> length xs \<and>
     mp_desc_end s' = (if n = 0 then mp_desc_end s else Some (ring_add (dq_rngsz q) (mp_pidx s) (n - 1)))"

lemma wrote_refl: "mp_pidx s < dq_rngsz q \<Longrightarrow> wrote q 0 [] s s"
  by (simp add: wrote_def)

lemma wrote_pidx: "wrote q n xs s s' \<Longrightarrow> 0 < dq_rngsz q \<Longrightarrow> mp_pidx s' < dq_rngsz q"
  by (simp add: wrote_def)

lemma wrote_sg_offset [simp]:
  "wrote q n xs (s\<lparr>mp_sg_offset := v\<rparr>) s' = wrote q n xs s s'"
  "wrote q n xs s (s'\<lparr>mp_sg_offset := v\<rparr>) = wrote q n xs s s'"
  by (simp_all add: wrote_def)

lemma wrote_trans:
  assumes p: "mp_pidx s < dq_rngsz q" and a: "wrote q m xs s s'" and b: "wrote q n ys s' s''"
  shows "wrote q (m + n) (xs @ ys) s s''"
proof -
  let ?r = "dq_rngsz q"
  obtain ds where ds: "length ds = m" "\<forall>d\<in>set ds. drop_bit 28 (md_flag_len d) = 1" "mp_desc s' = ring_write ?r (mp_pidx s) ds (mp_desc s)"
      "concat (map (desc_bytes (dq_c2h q)) ds) = with_ep (mp_ep_addr s) xs"
    using a by (auto simp: wrote_def)
  obtain es where es: "length es = n" "\<forall>d\<in>set es. drop_bit 28 (md_flag_len d) = 1" "mp_desc s'' = ring_write ?r (mp_pidx s') es (mp_desc s')"
      "concat (map (desc_bytes (dq_c2h q)) es) = with_ep (mp_ep_addr s') ys"
    using b by (auto simp: wrote_def)
  have "mp_desc s'' = ring_write ?r (mp_pidx s) (ds @ es) (mp_desc s)"
    using ds es p a by (simp add: ring_write_append wrote_def)
  moreover have "concat (map (desc_bytes (dq_c2h q)) (ds @ es)) = with_ep (mp_ep_addr s) (xs @ ys)"
    using ds es a by (simp add: with_ep_append wrote_def)
  ultimately show ?thesis
    using ds(1,2) es(1,2) a b unfolding wrote_def by (intro conjI exI [of _ "ds @ es"]) auto
qed

lemma take_bit_desc_flag [simp]:
  "take_bit 28 ((2 :: u32) ^ S_DESC_F_DV) = 0"
  "take_bit 28 ((2 :: u32) ^ S_DESC_F_SOP) = 0"
  "take_bit 28 ((2 :: u32) ^ S_DESC_F_EOP) = 0"
  by (simp_all add: S_DESC_F_DV_def S_DESC_F_SOP_def S_DESC_F_EOP_def take_bit_eq_mod)

lemma unat_take_bit_28 [simp]:
  "len < 2 ^ 28 \<Longrightarrow> unat (take_bit 28 (of_nat len :: u32)) = len"
  by (simp only: unsigned_take_bit_eq) (simp add: unsigned_of_nat take_bit_nat_eq_self)

lemma drop_bit_desc_flag [simp]:
  "drop_bit 28 ((2 :: u32) ^ S_DESC_F_DV) = 1"
  "drop_bit 28 ((2 :: u32) ^ S_DESC_F_SOP) = 2"
  "drop_bit 28 ((2 :: u32) ^ S_DESC_F_EOP) = 4"
  by (simp_all add: S_DESC_F_DV_def S_DESC_F_SOP_def S_DESC_F_EOP_def drop_bit_eq_div)

lemma drop_bit_28_of_nat [simp]:
  assumes "len < 2 ^ 28"
  shows "drop_bit 28 (of_nat len :: u32) = 0"
proof -
  have "(of_nat len :: u32) = take_bit 28 (of_nat len)"
    using assms by (simp only: of_nat_take_bit [symmetric] take_bit_nat_eq_self)
  then have "drop_bit 28 (of_nat len :: u32) = take_bit 0 (drop_bit 28 (of_nat len))"
    by (metis drop_bit_take_bit diff_self_eq_0)
  then show ?thesis by simp
qed

lemma mm_aperture_bounds:
  "dq_aperture_size q = 0 \<Longrightarrow> 0 < mm_aperture q"
  "dq_aperture_size q = 0 \<Longrightarrow> mm_aperture q < 2 ^ 28"
  by (simp_all add: mm_aperture_def SOFT_EQDMA_DESC_BLEN_MAX_def QDMA_DESC_BLEN_MAX_def)

lemma mm_put_desc_wrote:
  assumes "dq_aperture_size q = 0" "mp_pidx s < dq_rngsz q" "mp_data_cnt s + tlen < 2 ^ 32"
    and "mm_put_desc q req tlen a s = (tlen', a', s')" "0 < tlen"
  defines "len \<equiv> min tlen (mm_aperture q)"
  shows "tlen' = tlen - len" "a' = a + of_nat len" "wrote q 1 (bytes_at a len) s s'"
proof -
  have chunk: "mm_chunk q req tlen (mp_ep_addr s) = (len, mp_ep_addr s)"
    using assms(1) by (simp add: mm_chunk_def len_def Let_def)
  show "tlen' = tlen - len" "a' = a + of_nat len"
    using assms(4) by (simp_all add: mm_put_desc_def chunk Let_def)
  define d where "d = (if dq_c2h q
      then \<lparr>md_src_addr = mp_ep_addr s, md_flag_len = of_nat len OR push_bit S_DESC_F_DV 1,
            md_rsvd0 = 0, md_dst_addr = a, md_rsvd1 = 0\<rparr>
      else \<lparr>md_src_addr = a, md_flag_len = of_nat len OR push_bit S_DESC_F_DV 1,
            md_rsvd0 = 0, md_dst_addr = mp_ep_addr s, md_rsvd1 = 0\<rparr>)"
  have "len < 2 ^ 28" using mm_aperture_bounds(2) [OF assms(1)] by (simp add: len_def)
  then have bytes: "desc_bytes (dq_c2h q) d = with_ep (mp_ep_addr s) (bytes_at a len)"
      "drop_bit 28 (md_flag_len d) = 1"
    by (simp_all add: desc_bytes_def desc_len_def d_def)
  have step: "mp_desc s' = (mp_desc s)[mp_pidx s := d]" "mp_ep_addr s' = mp_ep_addr s + of_nat len"
      "mp_desc_end s' = Some (mp_pidx s)"
    using assms(4) by (auto simp: mm_put_desc_def chunk Let_def d_def)
  have "len \<le> tlen" by (simp add: len_def)
  then have "mp_data_cnt s' = mp_data_cnt s + len"
    using assms(3,4) by (auto simp: mm_put_desc_def chunk Let_def u32_wrap_def)
  moreover have "mp_pidx s' = ring_add (dq_rngsz q) (mp_pidx s) 1"
    using assms(4) ring_add_Suc [OF assms(2)] by (auto simp: mm_put_desc_def chunk Let_def)
  moreover have "1 \<le> len" using assms(5) mm_aperture_bounds(1) [OF assms(1)] by (simp add: len_def)
  ultimately show "wrote q 1 (bytes_at a len) s s'"
    using assms(2) bytes step unfolding wrote_def by (intro conjI exI [of _ "[d]"]) auto
qed

text \<open>The inner loop writes a prefix of what is left of the entry, all of it unless the room ends.\<close>

lemma mm_fill_sg_wrote:
  assumes "dq_aperture_size q = 0" "mp_pidx s < dq_rngsz q" "mp_data_cnt s + tlen < 2 ^ 32"
    and "0 < room" "0 < tlen" "mm_fill_sg q req room tlen a s = (room', tlen', s')"
  shows "room' < room \<and> tlen' < tlen \<and> (tlen' = 0 \<or> room' = 0) \<and>
    wrote q (room - room') (bytes_at a (tlen - tlen')) s s'"
  using assms
proof (induction q req room tlen a s arbitrary: room' tlen' s' rule: mm_fill_sg.induct)
  case (2 q req room tlen a s)
  let ?len = "min tlen (mm_aperture q)"
  obtain t b s1 where put: "mm_put_desc q req tlen a s = (t, b, s1)" by (metis prod_cases3)
  note put_facts = mm_put_desc_wrote [OF "2.prems"(1-3) put "2.prems"(5)]
  have w1: "wrote q 1 (bytes_at a ?len) s s1" and t: "t = tlen - ?len" and b: "b = a + of_nat ?len"
    by (rule put_facts)+
  have pos: "0 < ?len" using mm_aperture_bounds(1) [OF "2.prems"(1)] "2.prems"(5) by simp
  show ?case
  proof (cases "room = 0 \<or> t = 0")
    case True
    then have "room' = room" "tlen' = t" "s' = s1"
      using "2.prems"(6) put by (auto split: if_splits)
    then show ?thesis using w1 t pos True "2.prems"(5) by auto
  next
    case False
    have p1: "mp_pidx s1 < dq_rngsz q" using wrote_pidx [OF w1] "2.prems"(2) by simp
    have d1: "mp_data_cnt s1 + t < 2 ^ 32" using w1 t "2.prems"(3) by (simp add: wrote_def)
    have rec: "mm_fill_sg q req room t b s1 = (room', tlen', s')"
      using "2.prems"(6) put False by simp
    have IH: "room' < room \<and> tlen' < t \<and> (tlen' = 0 \<or> room' = 0) \<and>
        wrote q (room - room') (bytes_at b (t - tlen')) s1 s'"
      using "2.IH" [OF put [symmetric] refl refl _ _ "2.prems"(1) p1 d1 _ _ rec] False by auto
    have "tlen - tlen' = ?len + (t - tlen')" using IH t by linarith
    then have "bytes_at a (tlen - tlen') = bytes_at a ?len @ bytes_at b (t - tlen')"
      using bytes_at_add b by metis
    moreover have "Suc room - room' = 1 + (room - room')" using IH by linarith
    ultimately have "wrote q (Suc room - room') (bytes_at a (tlen - tlen')) s s'"
      using wrote_trans [OF "2.prems"(2) w1] IH by metis
    then show ?thesis using IH t pos by linarith
  qed
qed simp

lemma mm_too_long_plain: "dq_aperture_size q = 0 \<Longrightarrow> \<not> mm_too_long q sg"
  by (simp add: mm_too_long_def SOFT_EQDMA_DESC_BLEN_MAX_def)

text \<open>The entries to go, from an offset in the first: a prefix is written, all of it unless the room ends.\<close>

lemma mm_sg_loop_wrote:
  assumes "dq_aperture_size q = 0" "mp_pidx s < dq_rngsz q"
    and "mp_data_cnt s + length (drop (mp_sg_offset s) (sgl_bytes sgs)) < 2 ^ 32"
    and "mp_sg_offset s = 0 \<or> sgs \<noteq> [] \<and> mp_sg_offset s < sw_len (hd sgs)"
    and "\<forall>sg\<in>set sgs. 0 < sw_len sg"
  shows "\<exists>room' i' s' xs rest. mm_sg_loop q req room i sgs s = (Some (room', i'), s') \<and>
      drop (mp_sg_offset s) (sgl_bytes sgs) = xs @ rest \<and> wrote q (room - room') xs s s' \<and>
      room' \<le> room \<and> (rest = [] \<or> room' = 0) \<and>
      (0 < room \<and> sgs \<noteq> [] \<longrightarrow> room' < room)"
  using assms
proof (induction sgs arbitrary: room i s)
  case Nil
  then show ?case by (auto simp: wrote_refl)
next
  case (Cons sg sgs)
  show ?case
  proof (cases "room = 0")
    case True
    then show ?thesis
      by (intro exI [of _ "0::nat"] exI [of _ i] exI [of _ s] exI [of _ "[]"]
          exI [of _ "drop (mp_sg_offset s) (sgl_bytes (sg # sgs))"])
        (simp add: wrote_refl Cons.prems(2))
  next
    case False
    let ?off = "mp_sg_offset s" and ?s0 = "s\<lparr>mp_sg_offset := 0\<rparr>"
    have off: "?off \<le> sw_len sg" "0 < sw_len sg - ?off" using Cons.prems(4,5) by auto
    obtain room1 t1 s1 where fill: "mm_fill_sg q req room (sw_len sg - ?off)
        (sw_dma_addr sg + of_nat ?off) ?s0 = (room1, t1, s1)" by (metis prod_cases3)
    have rest0: "drop ?off (sgl_bytes (sg # sgs))
        = bytes_at (sw_dma_addr sg + of_nat ?off) (sw_len sg - ?off) @ sgl_bytes sgs"
      using off by (simp add: drop_bytes_at)
    have sum: "mp_data_cnt s + (sw_len sg - ?off) + length (sgl_bytes sgs) < 2 ^ 32"
      using Cons.prems(3) unfolding rest0 by simp
    have f: "room1 < room \<and> t1 < sw_len sg - ?off \<and> (t1 = 0 \<or> room1 = 0) \<and>
        wrote q (room - room1) (bytes_at (sw_dma_addr sg + of_nat ?off) (sw_len sg - ?off - t1)) s s1"
      using mm_fill_sg_wrote [OF Cons.prems(1) _ _ _ _ fill] Cons.prems(2) sum False off(2) by simp
    have p1: "mp_pidx s1 < dq_rngsz q" using f Cons.prems(2) wrote_pidx by fastforce
    let ?s1 = "if t1 = 0 then s1\<lparr>mp_sg_offset := 0\<rparr> else s1"
    let ?ys = "bytes_at (sw_dma_addr sg + of_nat ?off) (sw_len sg - ?off - t1)"
    have w: "wrote q (room - room1) ?ys s ?s1" using f by (cases "t1 = 0") auto
    have unf: "mm_sg_loop q req room i (sg # sgs) s = mm_sg_loop q req room1 (Suc i) sgs ?s1"
      using False fill mm_too_long_plain [OF Cons.prems(1), of sg] by (simp add: Let_def)
    show ?thesis
    proof (cases "t1 = 0")
      case True
      have d1: "mp_data_cnt ?s1 + length (drop (mp_sg_offset ?s1) (sgl_bytes sgs)) < 2 ^ 32"
        using w sum True by (simp add: wrote_def)
      have p2: "mp_pidx ?s1 < dq_rngsz q" using p1 by simp
      have o2: "mp_sg_offset ?s1 = 0 \<or> sgs \<noteq> [] \<and> mp_sg_offset ?s1 < sw_len (hd sgs)" using True by simp
      have l2: "\<forall>sg\<in>set sgs. 0 < sw_len sg" using Cons.prems(5) by simp
      from Cons.IH [OF Cons.prems(1) p2 d1 o2 l2, of room1 "Suc i"] obtain room' i' s' xs rest where
        r: "mm_sg_loop q req room1 (Suc i) sgs ?s1 = (Some (room', i'), s')"
          "drop (mp_sg_offset ?s1) (sgl_bytes sgs) = xs @ rest" "wrote q (room1 - room') xs ?s1 s'"
          "room' \<le> room1" "rest = [] \<or> room' = 0"
        by (elim exE conjE)
      have "wrote q (room - room1 + (room1 - room')) (?ys @ xs) s s'"
        using wrote_trans [OF Cons.prems(2) w r(3)] .
      moreover have "room - room1 + (room1 - room') = room - room'" using f r(4) by simp
      moreover have "drop ?off (sgl_bytes (sg # sgs)) = (?ys @ xs) @ rest"
        using rest0 r(2) True by simp
      ultimately show ?thesis using unf r f by (intro exI conjI) auto
    next
      case False
      then have z: "room1 = 0" using f by auto
      have "sw_len sg - ?off - t1 + t1 = sw_len sg - ?off" using f by linarith
      then have "bytes_at (sw_dma_addr sg + of_nat ?off) (sw_len sg - ?off) = ?ys @
          bytes_at (sw_dma_addr sg + of_nat ?off + of_nat (sw_len sg - ?off - t1)) t1"
        using bytes_at_add by metis
      then have "drop ?off (sgl_bytes (sg # sgs)) = ?ys @
          (bytes_at (sw_dma_addr sg + of_nat ?off + of_nat (sw_len sg - ?off - t1)) t1 @ sgl_bytes sgs)"
        unfolding rest0 by simp
      moreover have "mm_sg_loop q req room1 (Suc i) sgs ?s1 = (Some (0, Suc i), s1)"
        using z False by (cases sgs) simp_all
      ultimately show ?thesis using unf w f z False by (intro exI conjI) auto
    qed
  qed
qed

section \<open>Where a pass starts\<close>

lemma find_offset_Some:
  assumes "find_offset offset len i sgs = Some (j, off)" "len \<le> offset"
    and "len + length (sgl_bytes sgs) < 2 ^ 32" "\<forall>sg\<in>set sgs. 0 < sw_len sg"
  shows "i \<le> j \<and> j < i + length sgs \<and> off < sw_len (sgs ! (j - i)) \<and>
    drop off (sgl_bytes (drop (j - i) sgs)) = drop (offset - len) (sgl_bytes sgs)"
  using assms
proof (induction offset len i sgs rule: find_offset.induct)
  case (2 offset len i sg sgs)
  have nowrap: "u32_wrap (len + sw_len sg) = len + sw_len sg"
    using "2.prems"(3) by (simp add: u32_wrap_def)
  consider "len + sw_len sg = offset" | "len + sw_len sg > offset" | "len + sw_len sg < offset" by linarith
  then show ?case
  proof cases
    case 1
    then obtain x xs where "sgs = x # xs" "j = Suc i" "off = 0"
      using "2.prems"(1) nowrap by (cases sgs) auto
    then show ?thesis using 1 "2.prems"(4) by auto
  next
    case 2
    then show ?thesis using "2.prems"(1,2,4) nowrap by (auto simp: Let_def)
  next
    case 3
    have "Suc i \<le> j \<and> j < Suc i + length sgs \<and> off < sw_len (sgs ! (j - Suc i)) \<and>
        drop off (sgl_bytes (drop (j - Suc i) sgs)) = drop (offset - (len + sw_len sg)) (sgl_bytes sgs)"
      using "2.IH" [OF refl] 3 nowrap "2.prems" by simp
    then show ?thesis using 3 by (auto simp: nth_Cons' drop_Cons')
  qed
qed simp

lemma find_offset_exists:
  assumes "len \<le> offset" "offset < len + length (sgl_bytes sgs)"
    and "len + length (sgl_bytes sgs) < 2 ^ 32"
  shows "\<exists>r. find_offset offset len i sgs = Some r"
  using assms
proof (induction offset len i sgs rule: find_offset.induct)
  case (2 offset len i sg sgs)
  have nowrap: "u32_wrap (len + sw_len sg) = len + sw_len sg"
    using "2.prems"(3) by (simp add: u32_wrap_def)
  then show ?case using "2.IH" [OF refl] "2.prems" by (cases sgs) (auto simp: Let_def)
qed simp

end
