(* ===== verification/DescqMMRing.thy ===== *)
theory DescqMMRing
  imports DescqMMStream
begin

text \<open>
  The ring of a memory mapped queue: the invariant that ties the number of free slots to the
  producer and consumer index, the completion of descriptors by the device, one round of the
  loop over the work list and the whole of descq_mm_proc_request.
\<close>

section \<open>Invariants\<close>

text \<open>The slots from a up to b; the formula is the one the code uses for completed descriptors.\<close>

definition ring_dist :: "nat \<Rightarrow> nat \<Rightarrow> nat \<Rightarrow> nat" where
  "ring_dist r a b = (if b < a then r - a + b else b - a)"

definition in_flight :: "qdma_descq \<Rightarrow> nat" where
  "in_flight q = ring_dist (dq_rngsz q) (dq_cidx q) (dq_pidx q)"

text \<open>
  What the device writes to the completion status: indices that only move forward, over the
  descriptors in flight.
\<close>

fun hw_ok :: "nat \<Rightarrow> nat \<Rightarrow> nat \<Rightarrow> nat list \<Rightarrow> bool" where
  "hw_ok r c n [] \<longleftrightarrow> True"
| "hw_ok r c n (h # hs) \<longleftrightarrow> h < r \<and> ring_dist r c h \<le> n \<and> hw_ok r h (n - ring_dist r c h) hs"

definition mm_ring_ok :: "qdma_descq \<Rightarrow> bool" where
  "mm_ring_ok q \<longleftrightarrow>
     dq_pidx q < dq_rngsz q \<and> dq_cidx q < dq_rngsz q \<and> dq_rngsz q < 2 ^ 32 \<and>
     length (dq_desc q) = dq_rngsz q \<and> dq_avail q + in_flight q + 1 = dq_rngsz q \<and>
     hw_ok (dq_rngsz q) (dq_cidx q) (in_flight q) (dq_hw_cidx q)"

definition req_ok :: "qdma_request \<Rightarrow> bool" where
  "req_ok req \<longleftrightarrow> rq_count req = length (sgl_bytes (rq_sgl req)) \<and> rq_count req < 2 ^ 32 \<and>
     (\<forall>sg\<in>set (rq_sgl req). 0 < sw_len sg) \<and> cb_offset req < rq_count req"

definition work_ok :: "qdma_descq \<Rightarrow> bool" where
  "work_ok q \<longleftrightarrow> (\<forall>req\<in>set (dq_work_list q). req_ok req)"

text \<open>
  Accounting: the descriptors in flight and the credit not yet given out are those of the
  requests that wait for completion and of the first request of the work list, the only one of
  it that can have descriptors. The bounds keep the sums of unsigned ints from wrapping.
\<close>

definition desc_sum :: "qdma_request list \<Rightarrow> nat" where
  "desc_sum reqs = sum_list (map cb_desc_nr reqs)"

definition mm_account :: "qdma_descq \<Rightarrow> bool" where
  "mm_account q \<longleftrightarrow>
     desc_sum (dq_pend_list q) + desc_sum (dq_work_list q) = in_flight q + dq_credit q \<and>
     (\<forall>req\<in>set (tl (dq_work_list q)). cb_desc_nr req = 0) \<and>
     (\<forall>req\<in>set (dq_work_list q). cb_desc_nr req \<le> cb_offset req \<and> rq_count req < 2 ^ 31) \<and>
     (\<forall>req\<in>set (dq_pend_list q). 0 < cb_desc_nr req \<and> cb_desc_nr req < 2 ^ 31) \<and>
     dq_credit q < 2 ^ 31 \<and> dq_rngsz q < 2 ^ 31"

text \<open>The bytes of a request, and of the whole work list, that have no descriptor yet.\<close>

definition request_rest :: "qdma_request \<Rightarrow> (u64 \<times> u64) list" where
  "request_rest req = drop (cb_offset req) (request_bytes req)"

definition work_bytes :: "qdma_descq \<Rightarrow> (u64 \<times> u64) list" where
  "work_bytes q = concat (map request_rest (dq_work_list q))"

lemma ring_dist_self [simp]: "ring_dist r a a = 0"
  by (simp add: ring_dist_def)

lemma ring_dist_less: "a < r \<Longrightarrow> b < r \<Longrightarrow> ring_dist r a b < r"
  by (auto simp: ring_dist_def)

lemma ring_dist_sub:
  "a < r \<Longrightarrow> b < r \<Longrightarrow> c < r \<Longrightarrow> ring_dist r a b \<le> ring_dist r a c \<Longrightarrow>
   ring_dist r b c = ring_dist r a c - ring_dist r a b"
  by (auto simp: ring_dist_def split: if_splits)

lemma ring_dist_add:
  assumes "a < r" "b < r" "ring_dist r a b + n < r"
  shows "ring_dist r a (ring_add r b n) = ring_dist r a b + n"
proof (cases "b + n < r")
  case True
  then show ?thesis using assms by (auto simp: ring_dist_def ring_add_def split: if_splits)
next
  case False
  then have "ring_add r b n = b + n - r"
    using assms by (auto simp: ring_add_def ring_dist_def mod_if split: if_splits)
  then show ?thesis using assms False by (auto simp: ring_dist_def split: if_splits)
qed

lemma ring_add_dist: "a < r \<Longrightarrow> b < r \<Longrightarrow> ring_add r a (ring_dist r a b) = b"
  by (auto simp: ring_add_def ring_dist_def mod_if)

text \<open>A slot in flight, seen from the producer index, lies beyond the free slots.\<close>

lemma ring_add_in_flight:
  assumes "c < r" "p < r" "j < ring_dist r c p"
  shows "ring_add r p (r - ring_dist r c p + j) = ring_add r c j"
proof -
  have "ring_dist r c p < r" using assms by (simp add: ring_dist_less)
  then have "ring_dist r c p + (r - ring_dist r c p + j) = r + j" by simp
  then have "ring_add r (ring_add r c (ring_dist r c p)) (r - ring_dist r c p + j) = ring_add r c (r + j)"
    by simp
  moreover have "ring_add r c (r + j) = ring_add r c j"
    unfolding ring_add_def by (metis add.left_commute mod_add_self1)
  ultimately show ?thesis using assms by (simp add: ring_add_dist)
qed

lemma hw_ok_mono: "hw_ok r c m hs \<Longrightarrow> m \<le> n \<Longrightarrow> hw_ok r c n hs"
  by (induction r c m hs arbitrary: n rule: hw_ok.induct) (auto intro: diff_le_mono)

lemma desc_sum_simps [simp]:
  "desc_sum [] = 0" "desc_sum (r # rs) = cb_desc_nr r + desc_sum rs"
  "desc_sum (rs @ ss) = desc_sum rs + desc_sum ss"
  by (simp_all add: desc_sum_def)

lemma desc_sum_zero: "\<forall>req\<in>set reqs. cb_desc_nr req = 0 \<Longrightarrow> desc_sum reqs = 0"
  by (simp add: desc_sum_def)

section \<open>Completion\<close>

text \<open>What completion leaves alone: everything the loop over the work list reads but the free slots.\<close>

definition same_work :: "qdma_descq \<Rightarrow> qdma_descq \<Rightarrow> bool" where
  "same_work q q' \<longleftrightarrow>
     dq_rngsz q' = dq_rngsz q \<and> dq_c2h q' = dq_c2h q \<and> dq_aperture_size q' = dq_aperture_size q \<and>
     dq_eqdma5 q' = dq_eqdma5 q \<and> dq_poll q' = dq_poll q \<and> dq_desc q' = dq_desc q \<and>
     dq_pidx q' = dq_pidx q \<and> dq_work_list q' = dq_work_list q"

definition same_conf :: "qdma_descq \<Rightarrow> qdma_descq \<Rightarrow> bool" where
  "same_conf q q' \<longleftrightarrow>
     dq_rngsz q' = dq_rngsz q \<and> dq_c2h q' = dq_c2h q \<and> dq_aperture_size q' = dq_aperture_size q \<and>
     dq_eqdma5 q' = dq_eqdma5 q \<and> dq_poll q' = dq_poll q"

lemma same_conf_refl [simp]: "same_conf q q"
  by (simp add: same_conf_def)

lemma same_conf_trans: "same_conf a b \<Longrightarrow> same_conf b c \<Longrightarrow> same_conf a c"
  by (simp add: same_conf_def)

lemma same_work_conf: "same_work q q' \<Longrightarrow> same_conf q q'"
  by (simp add: same_conf_def same_work_def)

lemma same_work_refl [simp]: "same_work q q"
  by (simp add: same_work_def)

lemma same_work_trans: "same_work a b \<Longrightarrow> same_work b c \<Longrightarrow> same_work a c"
  by (simp add: same_work_def)

lemma req_status_upd [simp]:
  "req_status (q\<lparr>dq_done := d\<rparr>) = req_status q"
  "req_status (q\<lparr>dq_pend_list_empty := b\<rparr>) = req_status q"
  by (simp_all add: req_status_def fun_eq_iff)

lemma done_fold:
  "\<exists>b. fold (qdma_sgt_req_done e) fin q =
     q\<lparr>dq_done := dq_done q @ map (\<lambda>cb. (cb, req_status q cb e)) fin, dq_pend_list_empty := b\<rparr>"
proof (induction fin arbitrary: q)
  case Nil
  show ?case by (intro exI [of _ "dq_pend_list_empty q"]) simp
next
  case (Cons cb fin)
  obtain b0 where b0: "qdma_sgt_req_done e cb q =
      q\<lparr>dq_done := dq_done q @ [(cb, req_status q cb e)], dq_pend_list_empty := b0\<rparr>"
    by (simp add: qdma_sgt_req_done_def)
  obtain b where "fold (qdma_sgt_req_done e) fin (qdma_sgt_req_done e cb q) =
      (qdma_sgt_req_done e cb q)\<lparr>dq_done := dq_done (qdma_sgt_req_done e cb q) @
         map (\<lambda>x. (x, req_status (qdma_sgt_req_done e cb q) x e)) fin, dq_pend_list_empty := b\<rparr>"
    using Cons.IH by blast
  then show ?case by (intro exI [of _ b]) (simp add: b0)
qed

text \<open>Completion with news from the device, in closed form.\<close>

lemma cmpl_news:
  assumes "dq_pidx q \<noteq> dq_cidx q" "dq_hw_cidx q = h # hs" "h \<noteq> dq_cidx q"
    and "credit_loop (u32_wrap (dq_credit q + ring_dist (dq_rngsz q) (dq_cidx q) h)) (dq_pend_list q)
      = (cr, pend, fin)"
  shows "\<exists>b. descq_mm_n_h2c_cmpl_status q =
    q\<lparr>dq_hw_cidx := hs, dq_cidx := h,
      dq_avail := u32_wrap (dq_avail q + ring_dist (dq_rngsz q) (dq_cidx q) h), dq_credit := cr,
      dq_total_cmpl_descs := dq_total_cmpl_descs q + ring_dist (dq_rngsz q) (dq_cidx q) h,
      dq_pend_list := pend, dq_done := dq_done q @ map (\<lambda>cb. (cb, req_status q cb 0)) fin,
      dq_pend_list_empty := b, dq_doorbell := dq_doorbell q @ [dq_pidx_info q], dq_desc_pend := 0\<rparr>"
proof -
  let ?q = "q\<lparr>dq_hw_cidx := hs, dq_cidx := h,
      dq_avail := u32_wrap (dq_avail q + ring_dist (dq_rngsz q) (dq_cidx q) h),
      dq_credit := u32_wrap (dq_credit q + ring_dist (dq_rngsz q) (dq_cidx q) h),
      dq_total_cmpl_descs := dq_total_cmpl_descs q + ring_dist (dq_rngsz q) (dq_cidx q) h,
      dq_pend_list := pend\<rparr>"
  obtain b where "fold (qdma_sgt_req_done 0) fin ?q =
      ?q\<lparr>dq_done := dq_done ?q @ map (\<lambda>cb. (cb, req_status ?q cb 0)) fin, dq_pend_list_empty := b\<rparr>"
    using done_fold by blast
  then have "descq_mm_n_h2c_cmpl_status q = (ring_doorbell (?q\<lparr>dq_done := dq_done q @
      map (\<lambda>cb. (cb, req_status q cb 0)) fin, dq_pend_list_empty := b, dq_credit := cr\<rparr>))\<lparr>dq_desc_pend := 0\<rparr>"
    using assms by (simp add: descq_mm_n_h2c_cmpl_status_def ring_dist_def [symmetric]
        qdma_pidx_update_def req_status_def Let_def)
  then show ?thesis by (intro exI [of _ b]) (simp add: ring_doorbell_def)
qed

text \<open>The three courses of completion: nothing in flight, nothing new, or news.\<close>

lemma cmpl_cases:
  obtains (idle) "dq_pidx q = dq_cidx q \<or> dq_hw_cidx q = []" "descq_mm_n_h2c_cmpl_status q = q"
  | (old) h hs where "dq_pidx q \<noteq> dq_cidx q" "dq_hw_cidx q = h # hs" "h = dq_cidx q"
      "descq_mm_n_h2c_cmpl_status q = q\<lparr>dq_hw_cidx := hs\<rparr>"
  | (news) h hs where "dq_pidx q \<noteq> dq_cidx q" "dq_hw_cidx q = h # hs" "h \<noteq> dq_cidx q"
proof (cases "dq_hw_cidx q")
  case Nil
  then show ?thesis using idle by (simp add: descq_mm_n_h2c_cmpl_status_def)
next
  case (Cons h hs)
  then show ?thesis using idle old [of h hs] news [of h hs]
    by (cases "dq_pidx q = dq_cidx q"; cases "h = dq_cidx q") (simp_all add: descq_mm_n_h2c_cmpl_status_def)
qed

lemma cmpl_same_work: "same_work q (descq_mm_n_h2c_cmpl_status q)"
proof (cases q rule: cmpl_cases)
  case (news h hs)
  obtain cr pend fin where "credit_loop (u32_wrap (dq_credit q +
      ring_dist (dq_rngsz q) (dq_cidx q) h)) (dq_pend_list q) = (cr, pend, fin)"
    by (metis prod_cases3)
  from cmpl_news [OF news this] show ?thesis by (auto simp: same_work_def)
qed (simp_all add: same_work_def)

lemma cmpl_ring_dist:
  assumes "mm_ring_ok q" "dq_hw_cidx q = h # hs"
  defines "d \<equiv> ring_dist (dq_rngsz q) (dq_cidx q) h"
  shows "h < dq_rngsz q" "d \<le> in_flight q" "hw_ok (dq_rngsz q) h (in_flight q - d) hs"
    "ring_dist (dq_rngsz q) h (dq_pidx q) = in_flight q - d" "u32_wrap (dq_avail q + d) = dq_avail q + d"
  using assms ring_dist_sub [of "dq_cidx q" "dq_rngsz q" h "dq_pidx q"]
  by (auto simp: mm_ring_ok_def in_flight_def u32_wrap_def)

lemma cmpl_ring_ok:
  assumes ok: "mm_ring_ok q"
  shows "mm_ring_ok (descq_mm_n_h2c_cmpl_status q)"
proof (cases q rule: cmpl_cases)
  case idle
  then show ?thesis using ok by simp
next
  case (old h hs)
  then show ?thesis using ok by (auto simp: mm_ring_ok_def in_flight_def)
next
  case (news h hs)
  let ?d = "ring_dist (dq_rngsz q) (dq_cidx q) h"
  obtain cr pend fin where cl: "credit_loop (u32_wrap (dq_credit q + ?d)) (dq_pend_list q) = (cr, pend, fin)"
    by (metis prod_cases3)
  note h = cmpl_ring_dist [OF ok news(2)]
  show ?thesis
    using cmpl_news [OF news cl] h ok by (auto simp: mm_ring_ok_def in_flight_def)
qed

text \<open>
  The loop over the pending requests: it finishes the longest prefix whose descriptors the
  credit covers, in order; the rest of the credit goes to the next one, and is kept if there is none.
\<close>

lemma credit_loop_spec:
  assumes "credit_loop cr cbs = (cr', pend, fin)" "\<forall>cb\<in>set cbs. 0 < cb_desc_nr cb"
  shows "\<exists>k\<le>length cbs. fin = take k cbs \<and> desc_sum fin \<le> cr \<and>
    (k < length cbs \<longrightarrow> cr < desc_sum (take (Suc k) cbs)) \<and>
    desc_sum cbs + cr' = cr + desc_sum pend \<and> (pend = [] \<or> cr' = 0) \<and>
    (\<forall>cb\<in>set pend. 0 < cb_desc_nr cb \<and> (\<exists>cb'\<in>set cbs. cb_desc_nr cb \<le> cb_desc_nr cb'))"
  using assms
proof (induction cr cbs arbitrary: cr' pend fin rule: credit_loop.induct)
  case (2 cr cb cbs)
  consider "cr < cb_desc_nr cb" | "cr = cb_desc_nr cb" | "cb_desc_nr cb < cr" by linarith
  then show ?case
  proof cases
    case 1
    then show ?thesis using "2.prems" by (intro exI [of _ 0]) auto
  next
    case 2
    then show ?thesis using "2.prems" by (intro exI [of _ 1]) (cases cbs; auto)
  next
    case 3
    obtain fin1 where rec: "credit_loop (cr - cb_desc_nr cb) cbs = (cr', pend, fin1)" "fin = cb # fin1"
      using 3 "2.prems"(1) by (auto split: prod.splits)
    obtain k where k: "k \<le> length cbs" "fin1 = take k cbs" "desc_sum fin1 \<le> cr - cb_desc_nr cb"
      "k < length cbs \<longrightarrow> cr - cb_desc_nr cb < desc_sum (take (Suc k) cbs)"
      "desc_sum cbs + cr' = cr - cb_desc_nr cb + desc_sum pend" "pend = [] \<or> cr' = 0"
      "\<forall>cb\<in>set pend. 0 < cb_desc_nr cb \<and> (\<exists>cb'\<in>set cbs. cb_desc_nr cb \<le> cb_desc_nr cb')"
      using "2.IH" [OF _ _ rec(1)] 3 "2.prems"(2) by auto
    then show ?thesis using 3 rec by (intro exI [of _ "Suc k"]) auto
  qed
qed simp

lemma cmpl_account:
  assumes ok: "mm_ring_ok q" and acc: "mm_account q" and work: "work_ok q"
  shows "mm_account (descq_mm_n_h2c_cmpl_status q)"
proof (cases q rule: cmpl_cases)
  case idle
  then show ?thesis using acc by simp
next
  case (old h hs)
  then show ?thesis using acc by (simp add: mm_account_def in_flight_def)
next
  case (news h hs)
  let ?d = "ring_dist (dq_rngsz q) (dq_cidx q) h"
  obtain cr pend fin where cl: "credit_loop (u32_wrap (dq_credit q + ?d)) (dq_pend_list q) = (cr, pend, fin)"
    by (metis prod_cases3)
  have d: "?d \<le> in_flight q" "ring_dist (dq_rngsz q) h (dq_pidx q) = in_flight q - ?d"
    using cmpl_ring_dist [OF ok news(2)] by blast+
  have fl: "in_flight q < dq_rngsz q" using ok by (simp add: mm_ring_ok_def)
  have wrap: "u32_wrap (dq_credit q + ?d) = dq_credit q + ?d"
    using acc d fl by (simp add: mm_account_def u32_wrap_def)
  obtain k where cr: "desc_sum (dq_pend_list q) + cr = dq_credit q + ?d + desc_sum pend" "pend = [] \<or> cr = 0"
      "\<forall>cb\<in>set pend. 0 < cb_desc_nr cb \<and> (\<exists>cb'\<in>set (dq_pend_list q). cb_desc_nr cb \<le> cb_desc_nr cb')"
    using credit_loop_spec [OF cl [unfolded wrap]] acc by (auto simp: mm_account_def)
  have "desc_sum (dq_work_list q) < 2 ^ 31"
    using acc work by (cases "dq_work_list q")
      (auto simp: mm_account_def work_ok_def req_ok_def desc_sum_zero)
  moreover have "desc_sum (dq_work_list q) = in_flight q - ?d + cr" if "pend = []"
    using that cr(1) d acc by (auto simp: mm_account_def)
  ultimately have "cr < 2 ^ 31" using cr(2) by fastforce
  then show ?thesis
    using cmpl_news [OF news cl] acc d cr by (fastforce simp: mm_account_def in_flight_def)
qed

lemma poll_same_work: "same_work q (descq_poll_mm_n_h2c_cmpl_status q)"
  using cmpl_same_work [of "q\<lparr>dq_proc_req_running := True\<rparr>"]
  by (simp add: descq_poll_mm_n_h2c_cmpl_status_def same_work_def)

lemma poll_account:
  "mm_ring_ok q \<Longrightarrow> work_ok q \<Longrightarrow> mm_account q \<Longrightarrow> mm_account (descq_poll_mm_n_h2c_cmpl_status q)"
  using cmpl_account [of "q\<lparr>dq_proc_req_running := True\<rparr>"]
  by (simp add: descq_poll_mm_n_h2c_cmpl_status_def mm_ring_ok_def mm_account_def work_ok_def in_flight_def)

lemma poll_ring_ok: "mm_ring_ok q \<Longrightarrow> mm_ring_ok (descq_poll_mm_n_h2c_cmpl_status q)"
  using cmpl_ring_ok [of "q\<lparr>dq_proc_req_running := True\<rparr>"]
  by (simp add: descq_poll_mm_n_h2c_cmpl_status_def mm_ring_ok_def in_flight_def)

section \<open>Descriptors in the ring\<close>

lemma length_ring_slots [simp]: "length (ring_slots r p n ring) = n"
  by (simp add: ring_slots_def)

lemma ring_slots_nth [simp]: "k < n \<Longrightarrow> ring_slots r p n ring ! k = ring ! ring_add r p k"
  by (simp add: ring_slots_def)

lemma ring_slots_update:
  assumes "k < n" "n \<le> r" "length ring = r"
  shows "ring_slots r p n (ring[ring_add r p k := x]) = (ring_slots r p n ring)[k := x]"
proof (rule nth_equalityI)
  fix j assume "j < length (ring_slots r p n (ring[ring_add r p k := x]))"
  then have j: "j < n" by simp
  have "ring_add r p k = ring_add r p j \<longleftrightarrow> k = j" using ring_add_inj [of k r j p] assms j by auto
  then show "ring_slots r p n (ring[ring_add r p k := x]) ! j = (ring_slots r p n ring)[k := x] ! j"
    using j assms by (cases "k = j") (simp_all add: nth_list_update)
qed simp

text \<open>The flags of the first and the last descriptor leave what they denote alone.\<close>

definition flag_desc :: "nat \<Rightarrow> qdma_mm_desc \<Rightarrow> qdma_mm_desc" where
  "flag_desc flag d = d\<lparr>md_flag_len := md_flag_len d OR push_bit flag 1\<rparr>"

lemma ring_slots_set_flag:
  assumes "k < n" "n \<le> r" "length ring = r"
  shows "ring_slots r p n (set_flag (ring_add r p k) flag ring)
    = (ring_slots r p n ring)[k := flag_desc flag (ring_slots r p n ring ! k)]"
  using ring_slots_update [OF assms] assms by (simp add: set_flag_def flag_desc_def)

lemma desc_bytes_flag [simp]:
  "desc_bytes c (flag_desc S_DESC_F_SOP d) = desc_bytes c d"
  "desc_bytes c (flag_desc S_DESC_F_EOP d) = desc_bytes c d"
  by (simp_all add: desc_bytes_def desc_len_def flag_desc_def)

lemma map_update_same: "f x = f (xs ! k) \<Longrightarrow> map f (xs[k := x]) = map f xs"
  by (simp add: map_update) (metis list_update_beyond list_update_id map_update not_le_imp_less nth_map)

section \<open>One round\<close>

lemma length_request_bytes: "length (request_bytes req) = length (sgl_bytes (rq_sgl req))"
  by (simp add: request_bytes_def)

lemma request_rest_eq:
  "request_rest req = with_ep (rq_ep_addr req + of_nat (cb_offset req))
     (drop (cb_offset req) (sgl_bytes (rq_sgl req)))"
  by (simp add: request_rest_def request_bytes_def drop_with_ep)

lemma mm_pass_exists:
  assumes "req_ok req" "dq_aperture_size q = 0" "dq_pidx q < dq_rngsz q" "0 < room"
  defines "s0 i off \<equiv> \<lparr>mp_desc = dq_desc q, mp_pidx = dq_pidx q, mp_ep_addr = mm_start_addr q req,
      mp_data_cnt = 0, mp_sg_offset = off, mp_desc_end = None\<rparr>"
  shows "\<exists>i off room' i' s xs rest. qdma_sgl_find_offset req = Some (i, off) \<and>
    mm_sg_loop q req room i (drop i (rq_sgl req)) (s0 i off) = (Some (room', i'), s) \<and>
    drop (cb_offset req) (sgl_bytes (rq_sgl req)) = xs @ rest \<and> xs \<noteq> [] \<and> room' < room \<and>
    wrote q (room - room') xs (s0 i off) s \<and> (rest = [] \<or> room' = 0)"
proof -
  obtain i off where fo: "find_offset (cb_offset req) 0 0 (rq_sgl req) = Some (i, off)"
    using find_offset_exists [of 0 "cb_offset req" "rq_sgl req" 0] assms(1) by (auto simp: req_ok_def)
  have pos: "i < length (rq_sgl req)" "off < sw_len (rq_sgl req ! i)"
    "drop off (sgl_bytes (drop i (rq_sgl req))) = drop (cb_offset req) (sgl_bytes (rq_sgl req))"
    using find_offset_Some [OF fo] assms(1) by (auto simp: req_ok_def)
  have p: "mp_pidx (s0 i off) < dq_rngsz q" using assms(3) by (simp add: s0_def)
  have len: "mp_data_cnt (s0 i off) + length (drop (mp_sg_offset (s0 i off)) (sgl_bytes (drop i (rq_sgl req)))) < 2 ^ 32"
    using assms(1) by (auto simp: s0_def pos(3) req_ok_def)
  have offs: "mp_sg_offset (s0 i off) = 0 \<or> drop i (rq_sgl req) \<noteq> [] \<and>
      mp_sg_offset (s0 i off) < sw_len (hd (drop i (rq_sgl req)))"
    using pos by (simp add: s0_def hd_drop_conv_nth)
  have lens: "\<forall>sg\<in>set (drop i (rq_sgl req)). 0 < sw_len sg" and ne: "drop i (rq_sgl req) \<noteq> []"
    using assms(1) pos(1) by (auto simp: req_ok_def dest: in_set_dropD)
  from mm_sg_loop_wrote [OF assms(2) p len offs lens, where room = room and req = req and i = i]
  obtain room' i' s xs rest where
    r: "mm_sg_loop q req room i (drop i (rq_sgl req)) (s0 i off) = (Some (room', i'), s)"
    "drop (mp_sg_offset (s0 i off)) (sgl_bytes (drop i (rq_sgl req))) = xs @ rest"
    "wrote q (room - room') xs (s0 i off) s" "rest = [] \<or> room' = 0"
    "0 < room \<and> drop i (rq_sgl req) \<noteq> [] \<longrightarrow> room' < room"
    by (elim exE conjE)
  have "drop (cb_offset req) (sgl_bytes (rq_sgl req)) = xs @ rest"
    using r(2) pos(3) by (simp add: s0_def)
  moreover have "room' < room" using r(5) ne assms(4) by blast
  moreover have "xs \<noteq> []" using r(3) \<open>room' < room\<close> by (auto simp: wrote_def)
  moreover note r(1,3,4)
  moreover have "qdma_sgl_find_offset req = Some (i, off)"
    using fo assms(1) by (auto simp: qdma_sgl_find_offset_def req_ok_def)
  ultimately show ?thesis by blast
qed

lemma update_request_bytes:
  fixes n so sg
  assumes "dq_work_list q = req # reqs" "req_ok req"
    and "drop (cb_offset req) (sgl_bytes (rq_sgl req)) = xs @ rest" "xs \<noteq> []"
  defines "q' \<equiv> qdma_update_request n (length xs) so sg q"
  shows "work_bytes q = with_ep (rq_ep_addr req + of_nat (cb_offset req)) xs @ work_bytes q'"
    and "work_ok q \<Longrightarrow> work_ok q'"
proof -
  have sum: "length (sgl_bytes (rq_sgl req)) = cb_offset req + length xs + length rest"
    using assms(2) arg_cong [OF assms(3), of length] by (auto simp: req_ok_def)
  have wrap: "u32_wrap (cb_offset req + length xs) = cb_offset req + length xs"
    using sum assms(2) by (simp add: u32_wrap_def req_ok_def)
  have rest: "drop (cb_offset req + length xs) (sgl_bytes (rq_sgl req)) = rest"
    using drop_drop [of "length xs" "cb_offset req" "sgl_bytes (rq_sgl req)"] assms(3)
    by (simp add: add.commute)
  have "request_rest req = with_ep (rq_ep_addr req + of_nat (cb_offset req)) xs @
      with_ep (rq_ep_addr req + of_nat (cb_offset req + length xs)) rest"
    by (simp add: request_rest_eq assms(3) with_ep_append algebra_simps)
  moreover have "rest = [] \<longleftrightarrow> rq_count req \<le> cb_offset req + length xs"
    using sum assms(2) by (simp add: req_ok_def)
  ultimately show "work_bytes q = with_ep (rq_ep_addr req + of_nat (cb_offset req)) xs @ work_bytes q'"
    using assms(1) rest wrap
    by (auto simp: q'_def qdma_update_request_def work_bytes_def request_rest_eq Let_def)
  show "work_ok q \<Longrightarrow> work_ok q'"
    using assms(1) wrap by (auto simp: q'_def qdma_update_request_def work_ok_def req_ok_def Let_def)
qed

text \<open>The descriptors of the round are accounted to the first request, wherever it goes.\<close>

lemma update_request_account:
  fixes so sg
  assumes wl: "dq_work_list q = req # reqs" and ok: "req_ok req" and acc: "mm_account q"
    and n: "0 < n" "n \<le> c" "cb_offset req + c \<le> rq_count req"
  defines "q' \<equiv> qdma_update_request n c so sg q"
  shows "desc_sum (dq_pend_list q') + desc_sum (dq_work_list q') = in_flight q + dq_credit q + n"
    "\<forall>r\<in>set (tl (dq_work_list q')). cb_desc_nr r = 0"
    "\<forall>r\<in>set (dq_work_list q'). cb_desc_nr r \<le> cb_offset r \<and> rq_count r < 2 ^ 31"
    "\<forall>r\<in>set (dq_pend_list q'). 0 < cb_desc_nr r \<and> cb_desc_nr r < 2 ^ 31"
    "dq_credit q' = dq_credit q"
proof -
  have b: "cb_desc_nr req + n \<le> cb_offset req + c" "cb_offset req + c < 2 ^ 31"
    using acc wl n by (auto simp: mm_account_def)
  then have w: "u32_wrap (cb_desc_nr req + n) = cb_desc_nr req + n" "u32_wrap (cb_offset req + c) = cb_offset req + c"
    by (simp_all add: u32_wrap_def)
  show "desc_sum (dq_pend_list q') + desc_sum (dq_work_list q') = in_flight q + dq_credit q + n"
    using acc wl w by (auto simp: q'_def qdma_update_request_def mm_account_def Let_def)
  show "\<forall>r\<in>set (tl (dq_work_list q')). cb_desc_nr r = 0"
    using acc wl by (cases reqs) (auto simp: q'_def qdma_update_request_def mm_account_def Let_def)
  show "\<forall>r\<in>set (dq_work_list q'). cb_desc_nr r \<le> cb_offset r \<and> rq_count r < 2 ^ 31"
    using acc wl w b by (auto simp: q'_def qdma_update_request_def mm_account_def Let_def)
  show "\<forall>r\<in>set (dq_pend_list q'). 0 < cb_desc_nr r \<and> cb_desc_nr r < 2 ^ 31"
    using acc wl w b n by (auto simp: q'_def qdma_update_request_def mm_account_def Let_def)
  show "dq_credit q' = dq_credit q" by (simp add: q'_def qdma_update_request_def Let_def)
qed

lemma update_request_fields [simp]:
  "dq_rngsz (qdma_update_request n c so sg q) = dq_rngsz q"
  "dq_c2h (qdma_update_request n c so sg q) = dq_c2h q"
  "dq_aperture_size (qdma_update_request n c so sg q) = dq_aperture_size q"
  "dq_avail (qdma_update_request n c so sg q) = dq_avail q"
  "dq_cidx (qdma_update_request n c so sg q) = dq_cidx q"
  "dq_hw_cidx (qdma_update_request n c so sg q) = dq_hw_cidx q"
  "dq_poll (qdma_update_request n c so sg q) = dq_poll q"
  "dq_eqdma5 (qdma_update_request n c so sg q) = dq_eqdma5 q"
  by (simp_all add: qdma_update_request_def Let_def)

text \<open>
  What a round with room does: it cuts the next bytes of the work list into at least one
  descriptor, in the next slots of the ring, the first flagged SOP and the last EOP.
\<close>

definition round_posts :: "nat \<Rightarrow> qdma_descq \<Rightarrow> qdma_descq \<Rightarrow> bool" where
  "round_posts n q q' \<longleftrightarrow>
     (let slots = ring_slots (dq_rngsz q) (dq_pidx q) n (dq_desc q')
      in 0 < n \<and> n \<le> dq_avail q \<and> dq_pidx q' = ring_add (dq_rngsz q) (dq_pidx q) n \<and>
         dq_rngsz q' = dq_rngsz q \<and> dq_cidx q' = dq_cidx q \<and> in_flight q' = in_flight q + n \<and>
         work_bytes q = concat (map (desc_bytes (dq_c2h q)) slots) @ work_bytes q' \<and>
         work_bytes q' \<noteq> work_bytes q \<and>
         (\<forall>k<n. drop_bit 28 (md_flag_len (slots ! k)) =
            1 OR (if k = 0 then 2 else 0) OR (if k = n - 1 then 4 else 0)) \<and>
         (\<forall>k. n \<le> k \<longrightarrow> k < dq_rngsz q \<longrightarrow>
            dq_desc q' ! ring_add (dq_rngsz q) (dq_pidx q) k = dq_desc q ! ring_add (dq_rngsz q) (dq_pidx q) k))"

lemma flag_desc_bits:
  "drop_bit 28 (md_flag_len (flag_desc S_DESC_F_SOP d)) = drop_bit 28 (md_flag_len d) OR 2"
  "drop_bit 28 (md_flag_len (flag_desc S_DESC_F_EOP d)) = drop_bit 28 (md_flag_len d) OR 4"
  by (simp_all add: flag_desc_def)

lemma flagged_ring:
  assumes "p < r" "ds \<noteq> []" "length ds \<le> r" "length ring = r"
  defines "n \<equiv> length ds"
  defines "ring' \<equiv> set_flag p S_DESC_F_SOP (set_flag (ring_add r p (n - 1)) S_DESC_F_EOP (ring_write r p ds ring))"
  shows "map (desc_bytes c) (ring_slots r p n ring') = map (desc_bytes c) ds"
    and "k < n \<Longrightarrow> \<forall>d\<in>set ds. drop_bit 28 (md_flag_len d) = 1 \<Longrightarrow>
      drop_bit 28 (md_flag_len (ring_slots r p n ring' ! k)) =
        1 OR (if k = 0 then 2 else 0) OR (if k = n - 1 then 4 else 0)"
    and "n \<le> k \<Longrightarrow> k < r \<Longrightarrow> ring' ! ring_add r p k = ring ! ring_add r p k"
    and "length ring' = r"
proof -
  have n: "0 < n" "n \<le> r" using assms(2,3) by (simp_all add: n_def)
  let ?es = "ds[n - 1 := flag_desc S_DESC_F_EOP (ds ! (n - 1))]"
  have "ring_slots r p n (set_flag (ring_add r p (n - 1)) S_DESC_F_EOP (ring_write r p ds ring)) = ?es"
    using ring_slots_set_flag [of "n - 1" n r "ring_write r p ds ring" p S_DESC_F_EOP] n
      ring_slots_write [OF assms(1,3,4)] assms(4) by (simp add: n_def)
  then have slots: "ring_slots r p n ring' = ?es[0 := flag_desc S_DESC_F_SOP (?es ! 0)]"
    using ring_slots_set_flag [of 0 n r "set_flag (ring_add r p (n - 1)) S_DESC_F_EOP (ring_write r p ds ring)"
        p S_DESC_F_SOP] n assms(1,4) by (simp add: ring'_def set_flag_def)
  show "map (desc_bytes c) (ring_slots r p n ring') = map (desc_bytes c) ds"
    unfolding slots by (simp add: map_update_same)
  show "drop_bit 28 (md_flag_len (ring_slots r p n ring' ! k)) =
        1 OR (if k = 0 then 2 else 0) OR (if k = n - 1 then 4 else 0)"
    if "k < n" "\<forall>d\<in>set ds. drop_bit 28 (md_flag_len d) = 1" for k
    using that n unfolding slots
    by (auto simp: nth_list_update flag_desc_bits n_def[symmetric] or.commute)
  show "ring' ! ring_add r p k = ring ! ring_add r p k" if k: "n \<le> k" "k < r" for k
  proof -
    have "n - 1 < r" "k \<noteq> n - 1" "k \<noteq> 0" "0 < r" using n k by auto
    then have "ring_add r p k \<noteq> p" "ring_add r p k \<noteq> ring_add r p (n - 1)"
      using ring_add_inj [of k r 0 p] ring_add_inj [of k r "n - 1" p] k(2) ring_add_0 [OF assms(1)]
      by metis+
    then show ?thesis
      using ring_write_other [of p r ds k ring] k assms(1) by (simp add: ring'_def set_flag_def n_def)
  qed
  show "length ring' = r" using assms(4) by (simp add: ring'_def set_flag_def)
qed

lemma mm_round_posts:
  assumes ring: "mm_ring_ok q" and work: "work_ok q" and ne: "dq_work_list q \<noteq> []"
    and ap: "dq_aperture_size q = 0"
  defines "p \<equiv> if dq_avail q = 0 then descq_poll_mm_n_h2c_cmpl_status q else q"
  shows "if dq_avail p = 0 then mm_round q = Break p
    else \<exists>n q'. mm_round q = Continue n q' \<and> round_posts n p q' \<and> mm_ring_ok q' \<and> work_ok q' \<and>
      (mm_account p \<longrightarrow> mm_account q') \<and> same_conf q q'"
proof (cases "dq_avail p = 0")
  case True
  then show ?thesis by (simp add: mm_round_def p_def Let_def)
next
  case room: False
  have pok: "mm_ring_ok p" using ring poll_ring_ok by (simp add: p_def)
  have same: "same_work q p" using poll_same_work by (simp add: p_def)
  obtain req reqs where wq: "dq_work_list q = req # reqs" using ne by (cases "dq_work_list q") auto
  have wl: "dq_work_list p = req # reqs" and hd: "hd (dq_work_list q) = req" and app: "dq_aperture_size p = 0" and wok: "work_ok p"
    using wq same ap work by (simp_all add: same_work_def work_ok_def)
  have req: "req_ok req" using wok wl by (simp add: work_ok_def)
  have pidx: "dq_pidx p < dq_rngsz p" using pok by (simp add: mm_ring_ok_def)
  let ?room = "dq_avail p" and ?r = "dq_rngsz p"
  let ?s0 = "\<lambda>off. \<lparr>mp_desc = dq_desc p, mp_pidx = dq_pidx p, mp_ep_addr = mm_start_addr p req,
      mp_data_cnt = 0, mp_sg_offset = off, mp_desc_end = None\<rparr>"
  obtain i off room' i' s xs rest where ps: "qdma_sgl_find_offset req = Some (i, off)"
      "mm_sg_loop p req ?room i (drop i (rq_sgl req)) (?s0 off) = (Some (room', i'), s)"
      "drop (cb_offset req) (sgl_bytes (rq_sgl req)) = xs @ rest" "xs \<noteq> []" "room' < ?room"
      "wrote p (?room - room') xs (?s0 off) s"
    using mm_pass_exists [OF req app pidx, where room = ?room] room by blast
  define n where "n = ?room - room'"
  have n: "0 < n" "n \<le> ?room" using ps(5) by (simp_all add: n_def)
  obtain ds where ds: "length ds = n" "mp_desc s = ring_write ?r (dq_pidx p) ds (dq_desc p)"
      "concat (map (desc_bytes (dq_c2h p)) ds) = with_ep (mm_start_addr p req) xs"
      "\<forall>d\<in>set ds. drop_bit 28 (md_flag_len d) = 1"
    using ps(6) by (auto simp: wrote_def n_def)
  have fin: "mp_desc_end s = Some (ring_add ?r (dq_pidx p) (n - 1))"
      "mp_pidx s = ring_add ?r (dq_pidx p) n" "mp_data_cnt s = length xs"
    using ps(6) n by (simp_all add: wrote_def n_def)
  let ?ring = "set_flag (dq_pidx p) S_DESC_F_SOP (set_flag (ring_add ?r (dq_pidx p) (n - 1)) S_DESC_F_EOP (mp_desc s))"
  define q1 where "q1 = qdma_update_request n (length xs)
      (if i' = length (rq_sgl req) then 0 else mp_sg_offset s)
      (if i' = length (rq_sgl req) then None else Some i') p"
  define q' where "q' = q1\<lparr>dq_desc := ?ring, dq_pidx := mp_pidx s, dq_avail := ?room - n\<rparr>"
  have "mm_round q = Continue n q'"
    using ps(1,2) fin room hd n
    by (simp add: mm_round_def p_def [symmetric] n_def [symmetric] q'_def q1_def Let_def)
  have bytes: "work_bytes p = with_ep (mm_start_addr p req) xs @ work_bytes q1" and ok1: "work_ok q1"
    using update_request_bytes [OF wl req ps(3,4)] wok app by (simp_all add: q1_def mm_start_addr_def)
  have wb: "work_bytes q' = work_bytes q1" and wo: "work_ok q' = work_ok q1"
    by (simp_all add: q'_def work_bytes_def work_ok_def)
  have nr: "ds \<noteq> []" "length ds \<le> ?r" and lr: "length (dq_desc p) = ?r"
    using n ds(1) pok by (auto simp: mm_ring_ok_def)
  note flags = flagged_ring [OF pidx nr lr, folded ds(2), unfolded ds(1)]
  have "work_bytes p = concat (map (desc_bytes (dq_c2h p)) (ring_slots ?r (dq_pidx p) n (dq_desc q'))) @ work_bytes q'"
    using bytes flags(1) ds(3) wb by (simp add: q'_def)
  moreover have "work_bytes q' \<noteq> work_bytes p"
    using bytes wb ps(4) by (metis append_self_conv2 length_0_conv length_with_ep)
  moreover have fl: "in_flight q' = in_flight p + n"
    using ring_dist_add [of "dq_cidx p" ?r "dq_pidx p" n] pok n fin(2)
    by (simp add: q'_def q1_def in_flight_def mm_ring_ok_def)
  ultimately have "round_posts n p q'"
    using n fin(2) flags(2,3) ds(4) by (simp add: round_posts_def q'_def q1_def Let_def del: ring_slots_nth)
  moreover have "mm_ring_ok q'"
    using pok n fin(2) flags(4) fl hw_ok_mono [of ?r "dq_cidx p" "in_flight p" "dq_hw_cidx p" "in_flight q'"]
    by (simp add: mm_ring_ok_def q'_def q1_def)
  moreover have "mm_account q'" if acc: "mm_account p"
  proof -
    have "n \<le> length xs" using ps(6) by (simp add: wrote_def n_def)
    moreover have "cb_offset req + length xs \<le> rq_count req"
      using req arg_cong [OF ps(3), of length] by (auto simp: req_ok_def)
    ultimately show ?thesis
      using update_request_account [OF wl req acc n(1)] acc fl
      by (simp add: mm_account_def q'_def q1_def)
  qed
  moreover have "same_conf q q'"
    using same_work_conf [OF same] by (simp add: same_conf_def q'_def q1_def)
  ultimately show ?thesis using \<open>mm_round q = Continue n q'\<close> wo ok1 room by auto
qed

end
