(* ===== verification/DescqMMKeyhole.thy ===== *)
theory DescqMMKeyhole
  imports DescqMMRing
begin

text \<open>
  The loops of descq_mm_proc_request with or without a keyhole aperture: what they keep of the
  ring and of the accounting when the address in the device cycles through the aperture, and
  where the entry that is too long for an EQDMA 5 keyhole ends them. The bytes the descriptors
  denote are followed in DescqMMStream for queues without an aperture; here only their number is.
\<close>

section \<open>The length of a descriptor\<close>

text \<open>
  The aperture is an unsigned int, and the window of a request, from its address on, does not
  go round the end of the address space; without an aperture this says nothing.
\<close>

definition window_ok :: "qdma_descq \<Rightarrow> qdma_request \<Rightarrow> bool" where
  "window_ok q req \<longleftrightarrow>
     dq_aperture_size q < 2 ^ 32 \<and> unat (rq_ep_addr req) + dq_aperture_size q \<le> 2 ^ 64"

lemma window_ok_plain [simp]: "dq_aperture_size q = 0 \<Longrightarrow> window_ok q req"
  using unsigned_less [of "rq_ep_addr req", where ?'a = nat] by (simp add: window_ok_def)

text \<open>The arithmetic of the last descriptor of a window: it is cut, not stretched.\<close>

lemma window_cut:
  fixes ep m :: u64
  assumes "ep \<le> m" "m < ep + of_nat len" "len < 2 ^ 32"
  shows "0 < u32_wrap (unat (m - ep + 1))" "u32_wrap (unat (m - ep + 1)) \<le> len"
proof -
  have lt: "unat (w :: u64) < 2 ^ 64" for w using unsigned_less [of w, where ?'a = nat] by simp
  have sub: "unat (m - ep) = unat m - unat ep" using assms(1) by (rule unat_sub)
  have le: "unat ep \<le> unat m" using assms(1) by (simp add: word_le_nat_alt)
  have l: "unat (of_nat len :: u64) = len"
    using assms(3) by (simp add: unsigned_of_nat take_bit_nat_eq_self)
  have "unat (ep + of_nat len) = unat ep + len \<or> unat (ep + of_nat len) + 2 ^ 64 = unat ep + len"
    using lt [of ep] assms(3) l by (simp add: unat_word_ariths mod_if) linarith
  moreover have "unat m < unat (ep + of_nat len)" using assms(2) by (simp add: word_less_nat_alt)
  ultimately have d: "unat m - unat ep < len"
    using le lt [of m] assms(3) by auto
  then have "unat (m - ep + 1) = unat m - unat ep + 1"
    using sub assms(3) by (simp add: unat_word_ariths)
  then show "0 < u32_wrap (unat (m - ep + 1))" "u32_wrap (unat (m - ep + 1)) \<le> len"
    using d assms(3) by (simp_all add: u32_wrap_def)
qed

lemma mm_chunk_length:
  assumes "window_ok q req" "0 < tlen" "tlen < 2 ^ 32" "mm_chunk q req tlen ep = (len, ep')"
  shows "0 < len \<and> len \<le> tlen"
proof (cases "dq_aperture_size q = 0")
  case True
  then show ?thesis using assms(2,4) mm_aperture_bounds(1) [OF True]
    by (auto simp: mm_chunk_def Let_def)
next
  case False
  let ?A = "mm_aperture q"
  let ?max = "rq_ep_addr req + of_nat ?A - 1" and ?l = "min tlen ?A"
  let ?e = "if ep > ?max then rq_ep_addr req else ep"
  have A: "?A = dq_aperture_size q" "0 < ?A" using False by (simp_all add: mm_aperture_def)
  have "unat (of_nat (?A - 1) :: u64) = ?A - 1"
    using assms(1) A by (simp only: unsigned_of_nat) (auto simp: window_ok_def take_bit_eq_mod intro: mod_less)
  then have "unat (rq_ep_addr req + of_nat (?A - 1)) = unat (rq_ep_addr req) + (?A - 1)"
    using assms(1) A by (simp only: unat_word_ariths) (auto simp: window_ok_def intro: mod_less)
  moreover have "(of_nat (?A - 1) :: u64) = of_nat ?A - 1" using A(2) by simp
  ultimately have "unat ?max = unat (rq_ep_addr req) + (?A - 1)"
    by (simp only: add_diff_eq [symmetric])
  then have "rq_ep_addr req \<le> ?max" by (simp only: word_le_nat_alt)
  then have e: "?e \<le> ?max" by auto
  have l: "0 < ?l" "?l \<le> tlen" "?l < 2 ^ 32" using assms(2,3) A(2) by auto
  have "len = (if ?e + of_nat ?l > ?max then u32_wrap (unat (?max - ?e + 1)) else ?l)"
    using assms(4) False by (auto simp: mm_chunk_def Let_def)
  then show ?thesis using window_cut [OF e _ l(3)] l by (auto split: if_splits)
qed

section \<open>The loops\<close>

text \<open>From s to s' n descriptors with m bytes in all are written to the next slots of the ring.\<close>

definition cuts :: "qdma_descq \<Rightarrow> nat \<Rightarrow> nat \<Rightarrow> mm_pass \<Rightarrow> mm_pass \<Rightarrow> bool" where
  "cuts q n m s s' \<longleftrightarrow>
     length (mp_desc s') = length (mp_desc s) \<and> mp_pidx s' = ring_add (dq_rngsz q) (mp_pidx s) n \<and>
     mp_data_cnt s' = mp_data_cnt s + m \<and> n \<le> m \<and>
     (mp_desc_end s' = None \<longleftrightarrow> n = 0 \<and> mp_desc_end s = None)"

lemma cuts_refl: "mp_pidx s < dq_rngsz q \<Longrightarrow> cuts q 0 0 s s"
  by (simp add: cuts_def)

lemma cuts_trans: "cuts q n m s s' \<Longrightarrow> cuts q n' m' s' s'' \<Longrightarrow> cuts q (n + n') (m + m') s s''"
  by (auto simp: cuts_def)

lemma cuts_pidx: "cuts q n m s s' \<Longrightarrow> 0 < dq_rngsz q \<Longrightarrow> mp_pidx s' < dq_rngsz q"
  by (simp add: cuts_def)

lemma cuts_sg_offset [simp]:
  "cuts q n m (s\<lparr>mp_sg_offset := v\<rparr>) s' = cuts q n m s s'"
  "cuts q n m s (s'\<lparr>mp_sg_offset := v\<rparr>) = cuts q n m s s'"
  by (simp_all add: cuts_def)

lemma mm_put_desc_cuts:
  assumes "window_ok q req" "mp_pidx s < dq_rngsz q" "mp_data_cnt s + tlen < 2 ^ 32" "0 < tlen"
    and "mm_put_desc q req tlen a s = (tlen', a', s')"
  shows "tlen' < tlen \<and> cuts q 1 (tlen - tlen') s s'"
proof -
  obtain len ep where chunk: "mm_chunk q req tlen (mp_ep_addr s) = (len, ep)" by fastforce
  have len: "0 < len" "len \<le> tlen" using mm_chunk_length [OF assms(1,4) _ chunk] assms(3) by auto
  then show ?thesis
    using assms(2,3,5) ring_add_Suc [OF assms(2)]
    by (auto simp: mm_put_desc_def chunk Let_def cuts_def u32_wrap_def)
qed

lemma mm_fill_sg_cuts:
  assumes "window_ok q req" "mp_pidx s < dq_rngsz q" "mp_data_cnt s + tlen < 2 ^ 32"
    and "0 < room" "0 < tlen" "mm_fill_sg q req room tlen a s = (room', tlen', s')"
  shows "room' < room \<and> tlen' < tlen \<and> (tlen' = 0 \<or> room' = 0) \<and>
    cuts q (room - room') (tlen - tlen') s s'"
  using assms
proof (induction q req room tlen a s arbitrary: room' tlen' s' rule: mm_fill_sg.induct)
  case (2 q req room tlen a s)
  obtain t b s1 where put: "mm_put_desc q req tlen a s = (t, b, s1)" by (metis prod_cases3)
  have t: "t < tlen" and c1: "cuts q 1 (tlen - t) s s1"
    using mm_put_desc_cuts [OF "2.prems"(1-3,5) put] by auto
  show ?case
  proof (cases "room = 0 \<or> t = 0")
    case True
    then have "room' = room" "tlen' = t" "s' = s1" using "2.prems"(6) put by (auto split: if_splits)
    then show ?thesis using c1 t True by auto
  next
    case False
    have p1: "mp_pidx s1 < dq_rngsz q" using cuts_pidx [OF c1] "2.prems"(2) by simp
    have d1: "mp_data_cnt s1 + t < 2 ^ 32" using c1 t "2.prems"(3) by (simp add: cuts_def)
    have rec: "mm_fill_sg q req room t b s1 = (room', tlen', s')" using "2.prems"(6) put False by simp
    have IH: "room' < room \<and> tlen' < t \<and> (tlen' = 0 \<or> room' = 0) \<and> cuts q (room - room') (t - tlen') s1 s'"
      using "2.IH" [OF put [symmetric] refl refl _ _ "2.prems"(1) p1 d1 _ _ rec] False by auto
    have "1 + (room - room') = Suc room - room'" "tlen - t + (t - tlen') = tlen - tlen'" using IH t by auto
    then show ?thesis using cuts_trans [OF c1, of "room - room'" "t - tlen'" s'] IH t by auto
  qed
qed simp

text \<open>The entries to go: cut up to the end of the room, or stopped at an entry that is too long.\<close>

definition sg_loop_ends ::
  "qdma_descq \<Rightarrow> nat \<Rightarrow> qdma_sw_sg list \<Rightarrow> mm_pass \<Rightarrow> (nat \<times> nat) option \<times> mm_pass \<Rightarrow> bool" where
  "sg_loop_ends q room sgs s r \<longleftrightarrow>
     (case r of
        (None, s') \<Rightarrow> (\<exists>sg\<in>set sgs. mm_too_long q sg) \<and> length (mp_desc s') = length (mp_desc s)
      | (Some (room', i'), s') \<Rightarrow> room' \<le> room \<and> (0 < room \<and> sgs \<noteq> [] \<longrightarrow> room' < room) \<and>
          (\<exists>m\<le>length (drop (mp_sg_offset s) (sgl_bytes sgs)). cuts q (room - room') m s s'))"

lemma mm_sg_loop_cuts:
  assumes "window_ok q req" "mp_pidx s < dq_rngsz q"
    and "mp_data_cnt s + length (drop (mp_sg_offset s) (sgl_bytes sgs)) < 2 ^ 32"
    and "mp_sg_offset s = 0 \<or> sgs \<noteq> [] \<and> mp_sg_offset s < sw_len (hd sgs)"
    and "\<forall>sg\<in>set sgs. 0 < sw_len sg"
  shows "sg_loop_ends q room sgs s (mm_sg_loop q req room i sgs s)"
  using assms
proof (induction sgs arbitrary: room i s)
  case Nil
  then show ?case by (auto simp: cuts_refl sg_loop_ends_def)
next
  case (Cons sg sgs)
  show ?case
  proof (cases "room = 0 \<or> mm_too_long q sg")
    case True
    then show ?thesis using Cons.prems(2) cuts_refl by (auto simp: sg_loop_ends_def)
  next
    case False
    let ?off = "mp_sg_offset s" and ?s0 = "s\<lparr>mp_sg_offset := 0\<rparr>"
    have off: "?off \<le> sw_len sg" "0 < sw_len sg - ?off" using Cons.prems(4,5) by auto
    obtain room1 t1 s1 where fill: "mm_fill_sg q req room (sw_len sg - ?off)
        (sw_dma_addr sg + of_nat ?off) ?s0 = (room1, t1, s1)" by (metis prod_cases3)
    have all: "length (drop ?off (sgl_bytes (sg # sgs))) = sw_len sg - ?off + length (sgl_bytes sgs)"
      using off by simp
    have sum: "mp_data_cnt s + (sw_len sg - ?off) + length (sgl_bytes sgs) < 2 ^ 32"
      using Cons.prems(3) unfolding all by simp
    have f: "room1 < room \<and> t1 < sw_len sg - ?off \<and> (t1 = 0 \<or> room1 = 0) \<and>
        cuts q (room - room1) (sw_len sg - ?off - t1) s s1"
      using mm_fill_sg_cuts [OF Cons.prems(1) _ _ _ _ fill] Cons.prems(2) sum False off(2) by simp
    let ?s1 = "if t1 = 0 then s1\<lparr>mp_sg_offset := 0\<rparr> else s1"
    have c: "cuts q (room - room1) (sw_len sg - ?off - t1) s ?s1" using f by (cases "t1 = 0") auto
    have p1: "mp_pidx ?s1 < dq_rngsz q" using cuts_pidx [OF c] Cons.prems(2) by linarith
    have unf: "mm_sg_loop q req room i (sg # sgs) s = mm_sg_loop q req room1 (Suc i) sgs ?s1"
      using False fill by (simp add: Let_def)
    show ?thesis
    proof (cases "t1 = 0")
      case True
      have "mp_data_cnt ?s1 + length (drop (mp_sg_offset ?s1) (sgl_bytes sgs)) < 2 ^ 32"
        using c sum True by (simp add: cuts_def)
      then have IH: "sg_loop_ends q room1 sgs ?s1 (mm_sg_loop q req room1 (Suc i) sgs ?s1)"
        using Cons.IH [OF Cons.prems(1) p1, of room1 "Suc i"] Cons.prems(5) True by simp
      have join: "\<exists>m'\<le>length (drop ?off (sgl_bytes (sg # sgs))). cuts q (room - room') m' s s'"
        if "room' \<le> room1" "m \<le> length (sgl_bytes sgs)" "cuts q (room1 - room') m ?s1 s'" for room' m s'
        using cuts_trans [OF c that(3)] that(1,2) f all
        by (intro exI [of _ "sw_len sg - ?off - t1 + m"]) auto
      show ?thesis
        using IH f join True c unfolding unf sg_loop_ends_def
        by (auto simp: cuts_def [of q "room - room1"] split: prod.splits option.splits)
    next
      case t: False
      then have z: "room1 = 0" using f by auto
      have "mm_sg_loop q req room1 (Suc i) sgs ?s1 = (Some (0, Suc i), s1)"
        using z t by (cases sgs) simp_all
      then show ?thesis using unf f z all c t by (auto simp: sg_loop_ends_def intro!: exI [of _ "sw_len sg - ?off - t1"])
    qed
  qed
qed

section \<open>A round and the loop\<close>

definition mm_ring_inv :: "qdma_descq \<Rightarrow> bool" where
  "mm_ring_inv q \<longleftrightarrow> mm_ring_ok q \<and> work_ok q \<and> mm_account q \<and>
     (\<forall>req\<in>set (dq_work_list q). window_ok q req)"

text \<open>Why the loop gives up: the first request has an entry that an EQDMA 5 keyhole does not take.\<close>

definition mm_rejected :: "qdma_descq \<Rightarrow> bool" where
  "mm_rejected q \<longleftrightarrow> dq_work_list q \<noteq> [] \<and> (\<exists>sg\<in>set (rq_sgl (hd (dq_work_list q))). mm_too_long q sg)"

lemma mm_rejected_plain: "dq_aperture_size q = 0 \<Longrightarrow> \<not> mm_rejected q"
  by (simp add: mm_rejected_def mm_too_long_plain)

lemma window_ok_cong: "dq_aperture_size q' = dq_aperture_size q \<Longrightarrow> window_ok q' = window_ok q"
  by (simp add: window_ok_def fun_eq_iff)

lemma mm_ring_inv_cmpl: "mm_ring_inv q \<Longrightarrow> mm_ring_inv (descq_mm_n_h2c_cmpl_status q)"
  using cmpl_same_work [of q] cmpl_ring_ok [of q] cmpl_account [of q]
  by (simp add: mm_ring_inv_def same_work_def work_ok_def window_ok_def)

lemma mm_ring_inv_poll: "mm_ring_inv q \<Longrightarrow> mm_ring_inv (descq_poll_mm_n_h2c_cmpl_status q)"
  using poll_same_work [of q] poll_ring_ok [of q] poll_account [of q]
  by (simp add: mm_ring_inv_def same_work_def work_ok_def window_ok_def)

lemma mm_ring_inv_irrelevant [simp]:
  "mm_ring_inv (q\<lparr>dq_proc_req_running := b\<rparr>) = mm_ring_inv q"
  "mm_ring_inv (q\<lparr>dq_pend_list_empty := b\<rparr>) = mm_ring_inv q"
  "mm_ring_inv (q\<lparr>dq_pidx_info := n\<rparr>) = mm_ring_inv q"
  "mm_ring_inv (q\<lparr>dq_doorbell := ns\<rparr>) = mm_ring_inv q"
  by (simp_all add: mm_ring_inv_def mm_ring_ok_def work_ok_def mm_account_def in_flight_def window_ok_def)

lemma update_request_work:
  "dq_work_list q = req # reqs \<Longrightarrow> r \<in> set (dq_work_list (qdma_update_request n c so sg q)) \<Longrightarrow>
   r \<in> set reqs \<or> rq_ep_addr r = rq_ep_addr req"
  by (auto simp: qdma_update_request_def Let_def split: if_splits)

text \<open>The queue after a round that cut n descriptors with m bytes.\<close>

lemma mm_ring_inv_posted:
  fixes so sg
  assumes inv: "mm_ring_inv p" and wl: "dq_work_list p = req # reqs"
    and n: "0 < n" "n \<le> dq_avail p" "n \<le> m" "m \<le> length (sgl_bytes (rq_sgl req)) - cb_offset req"
    and len: "length ring = length (dq_desc p)"
  defines "q1 \<equiv> qdma_update_request n m so sg p"
  defines "q' \<equiv> q1\<lparr>dq_desc := ring, dq_pidx := ring_add (dq_rngsz p) (dq_pidx p) n,
    dq_avail := dq_avail p - n\<rparr>"
  shows "mm_ring_inv q'" "length (work_bytes q') < length (work_bytes p)"
proof -
  have pok: "mm_ring_ok p" and wok: "work_ok p" and acc: "mm_account p" and win: "\<forall>r\<in>set (req # reqs). window_ok p r"
    using inv wl by (simp_all add: mm_ring_inv_def)
  have req: "req_ok req" using wok wl by (simp add: work_ok_def)
  let ?bs = "drop (cb_offset req) (sgl_bytes (rq_sgl req))"
  have xs: "?bs = take m ?bs @ drop m ?bs" "length (take m ?bs) = m" "take m ?bs \<noteq> []"
    using n by (simp_all only: append_take_drop_id) auto
  note bytes = update_request_bytes [OF wl req xs(1,3), where n = n and so = so and sg = sg, unfolded xs(2), folded q1_def]
  have "work_bytes q' = work_bytes q1" by (simp add: q'_def work_bytes_def)
  then show "length (work_bytes q') < length (work_bytes p)"
    using arg_cong [OF bytes(1), of length] xs n by simp
  have fl: "in_flight q' = in_flight p + n"
    using ring_dist_add [of "dq_cidx p" "dq_rngsz p" "dq_pidx p" n] pok n
    by (simp add: q'_def q1_def in_flight_def mm_ring_ok_def)
  have "mm_ring_ok q'"
    using pok n fl len hw_ok_mono [of "dq_rngsz p" "dq_cidx p" "in_flight p" "dq_hw_cidx p" "in_flight q'"]
    by (simp add: mm_ring_ok_def q'_def q1_def)
  moreover have "work_ok q'" using bytes(2) wok by (simp add: q'_def work_ok_def)
  moreover have "mm_account q'"
  proof -
    have "cb_offset req + m \<le> rq_count req" using n req by (auto simp: req_ok_def)
    from update_request_account [OF wl req acc n(1,3) this, where so = so and sg = sg, folded q1_def] show ?thesis
      using acc fl by (simp add: mm_account_def q'_def q1_def)
  qed
  moreover have "\<forall>r\<in>set (dq_work_list q'). window_ok q' r"
    using win update_request_work [OF wl] by (fastforce simp: q'_def q1_def window_ok_def)
  ultimately show "mm_ring_inv q'" by (simp add: mm_ring_inv_def)
qed

text \<open>A round leaves with the ring full, goes on with fewer bytes to go, or rejects the request.\<close>

lemma mm_round_course:
  assumes inv: "mm_ring_inv q" and ne: "dq_work_list q \<noteq> []"
  obtains (full) q' where "mm_round q = Break q'" "mm_ring_inv q'" "same_conf q q'" "dq_avail q' = 0"
  | (posts) n q' where "mm_round q = Continue n q'" "mm_ring_inv q'" "same_conf q q'"
      "length (work_bytes q') < length (work_bytes q)"
  | (rejects) q' where "mm_round q = Fail q'" "mm_ring_inv q'" "same_conf q q'" "mm_rejected q'"
proof -
  define p where "p = (if dq_avail q = 0 then descq_poll_mm_n_h2c_cmpl_status q else q)"
  have p: "mm_ring_inv p" "same_work q p" using inv mm_ring_inv_poll poll_same_work by (simp_all add: p_def)
  have conf: "same_conf q p" using p(2) by (rule same_work_conf)
  obtain req reqs where wq: "dq_work_list q = req # reqs" using ne by (cases "dq_work_list q") auto
  have wl: "dq_work_list p = req # reqs" using wq p(2) by (simp add: same_work_def)
  have req: "req_ok req" and win: "window_ok p req" and pidx: "dq_pidx p < dq_rngsz p"
    using p(1) wl by (simp_all add: mm_ring_inv_def work_ok_def mm_ring_ok_def)
  obtain i off where fo: "find_offset (cb_offset req) 0 0 (rq_sgl req) = Some (i, off)"
    using find_offset_exists [of 0 "cb_offset req" "rq_sgl req" 0] req by (auto simp: req_ok_def)
  have pos: "i < length (rq_sgl req)" "off < sw_len (rq_sgl req ! i)"
    "drop off (sgl_bytes (drop i (rq_sgl req))) = drop (cb_offset req) (sgl_bytes (rq_sgl req))"
    using find_offset_Some [OF fo] req by (auto simp: req_ok_def)
  have fs: "qdma_sgl_find_offset req = Some (i, off)" using fo req by (auto simp: qdma_sgl_find_offset_def req_ok_def)
  define s where "s = \<lparr>mp_desc = dq_desc p, mp_pidx = dq_pidx p, mp_ep_addr = mm_start_addr p req,
      mp_data_cnt = 0, mp_sg_offset = off, mp_desc_end = None\<rparr>"
  define r where "r = mm_sg_loop p req (dq_avail p) i (drop i (rq_sgl req)) s"
  have ends: "sg_loop_ends p (dq_avail p) (drop i (rq_sgl req)) s r" unfolding r_def
  proof (rule mm_sg_loop_cuts [OF win])
    show "mp_data_cnt s + length (drop (mp_sg_offset s) (sgl_bytes (drop i (rq_sgl req)))) < 2 ^ 32"
      using req unfolding s_def mm_pass.simps pos(3) by (auto simp: req_ok_def)
    show "mp_sg_offset s = 0 \<or> drop i (rq_sgl req) \<noteq> [] \<and> mp_sg_offset s < sw_len (hd (drop i (rq_sgl req)))"
      using pos by (simp add: s_def hd_drop_conv_nth)
  qed (use pidx req in \<open>auto simp: s_def req_ok_def dest: in_set_dropD\<close>)
  show thesis
  proof (cases "dq_avail p = 0")
    case True
    then show thesis using full [of p] p(1) conf by (simp add: mm_round_def p_def [symmetric] Let_def)
  next
    case room: False
    have unf: "mm_round q = (case r of
        (None, s) \<Rightarrow> Fail (p\<lparr>dq_desc := mp_desc s, dq_proc_req_running := False\<rparr>)
      | (Some (room, i), s) \<Rightarrow>
         let last = (i = length (rq_sgl req))
         in (case mp_desc_end s of None \<Rightarrow> Break (p\<lparr>dq_desc := mp_desc s\<rparr>)
           | Some e \<Rightarrow> Continue (dq_avail p - room)
               ((qdma_update_request (dq_avail p - room) (mp_data_cnt s) (if last then 0 else mp_sg_offset s)
                 (if last then None else Some i) p)
                \<lparr>dq_desc := set_flag (dq_pidx p) S_DESC_F_SOP (set_flag e S_DESC_F_EOP (mp_desc s)),
                  dq_pidx := mp_pidx s, dq_avail := dq_avail p - (dq_avail p - room)\<rparr>)))"
      using room fs wq by (simp add: mm_round_def p_def [symmetric] s_def r_def Let_def split: prod.splits option.splits)
    show thesis
    proof (cases "fst r")
      case None
      then obtain s' where s': "r = (None, s')" by (metis prod.collapse)
      let ?q = "p\<lparr>dq_desc := mp_desc s', dq_proc_req_running := False\<rparr>"
      have "\<exists>sg\<in>set (rq_sgl req). mm_too_long p sg" "length (mp_desc s') = length (dq_desc p)"
        using ends s' by (auto simp: sg_loop_ends_def s_def dest: in_set_dropD)
      then have "mm_rejected ?q" "mm_ring_inv ?q"
        using p(1) wl by (auto simp: mm_rejected_def mm_too_long_def mm_ring_inv_def mm_ring_ok_def work_ok_def
            mm_account_def in_flight_def window_ok_def)
      moreover have "same_conf q ?q" using conf by (simp add: same_conf_def)
      ultimately show thesis using rejects [of ?q] s' unf by simp
    next
      case (Some ri)
      then obtain room' i' s' where s': "r = (Some (room', i'), s')" by (metis prod.collapse)
      obtain m where m: "m \<le> length (sgl_bytes (rq_sgl req)) - cb_offset req"
          "cuts p (dq_avail p - room') m s s'" and lt: "room' < dq_avail p"
        using ends s' room pos(1,3) by (auto simp: sg_loop_ends_def s_def)
      obtain e where e: "mp_desc_end s' = Some e" using m(2) lt by (cases "mp_desc_end s'") (auto simp: cuts_def)
      let ?n = "dq_avail p - room'"
      have n: "0 < ?n" "?n \<le> dq_avail p" "?n \<le> m" using lt m(2) by (auto simp: cuts_def)
      have f: "mp_data_cnt s' = m" "mp_pidx s' = ring_add (dq_rngsz p) (dq_pidx p) ?n"
          "length (set_flag (dq_pidx p) S_DESC_F_SOP (set_flag e S_DESC_F_EOP (mp_desc s'))) = length (dq_desc p)"
        using m(2) by (simp_all add: cuts_def s_def set_flag_def)
      have "length (work_bytes p) = length (work_bytes q)" using p(2) by (simp add: same_work_def work_bytes_def)
      moreover have "same_conf q (qdma_update_request n m so sg p\<lparr>dq_desc := ring, dq_pidx := j, dq_avail := k\<rparr>)"
        for n m so sg ring j k using conf by (simp add: same_conf_def)
      ultimately show thesis
        using mm_ring_inv_posted [OF p(1) wl n m(1) f(3)] posts unf s' e f(1,2) by (simp add: Let_def)
    qed
  qed
qed

lemma mm_work_loop_course:
  assumes "mm_ring_inv q"
  shows "\<exists>ok w' q'. mm_work_loop w q = Some (ok, w', q') \<and> mm_ring_inv q' \<and> same_conf q q' \<and>
    (if ok then dq_work_list q' = [] \<or> dq_avail q' = 0 else mm_rejected q')"
  using assms
proof (induction "length (work_bytes q)" arbitrary: w q rule: less_induct)
  case less
  show ?case
  proof (cases "dq_work_list q = []")
    case True
    then show ?thesis using less.prems by (subst mm_work_loop.simps) auto
  next
    case ne: False
    from less.prems ne show ?thesis
    proof (cases rule: mm_round_course)
      case (posts n q')
      from less.hyps [OF posts(4,2), of "u32_wrap (w + n)"] obtain ok w' q'' where
        "mm_work_loop (u32_wrap (w + n)) q' = Some (ok, w', q'')" "mm_ring_inv q''" "same_conf q' q''"
        "if ok then dq_work_list q'' = [] \<or> dq_avail q'' = 0 else mm_rejected q''" by blast
      then show ?thesis
        using ne posts(1) same_conf_trans [OF posts(3)]
        by (intro exI [of _ ok] exI [of _ w'] exI [of _ q'']) (subst mm_work_loop.simps, simp)
    next
      case (full q')
      then show ?thesis using ne by (subst mm_work_loop.simps) (simp add: exI [of _ True])
    next
      case (rejects q')
      then show ?thesis using ne by (subst mm_work_loop.simps) (simp add: exI [of _ False])
    qed
  qed
qed

lemma mm_rejected_irrelevant [simp]:
  "mm_rejected (q\<lparr>dq_proc_req_running := b\<rparr>) = mm_rejected q"
  by (simp add: mm_rejected_def mm_too_long_def)

lemma mm_proc_request_course:
  assumes "mm_ring_inv q"
  shows "\<exists>rv q'. descq_mm_proc_request q = Some (rv, q') \<and> mm_ring_inv q' \<and> same_conf q q' \<and>
    (rv = 0 \<or> rv = -22 \<and> mm_rejected q')"
proof -
  obtain ok w q1 where q1: "mm_work_loop 0 (descq_poll_mm_n_h2c_cmpl_status q) = Some (ok, w, q1)" "mm_ring_inv q1"
      "\<not> ok \<longrightarrow> mm_rejected q1" "same_conf (descq_poll_mm_n_h2c_cmpl_status q) q1"
    using mm_work_loop_course [OF mm_ring_inv_poll [OF assms], of 0] by auto
  have poll: "same_conf q (descq_poll_mm_n_h2c_cmpl_status q)" "same_conf q (descq_mm_n_h2c_cmpl_status q)" for q
    using same_work_conf poll_same_work cmpl_same_work by blast+
  have conf: "same_conf q q1" using same_conf_trans [OF poll(1) q1(4)] .
  have last: "same_conf q ((descq_poll_mm_n_h2c_cmpl_status (ring_doorbell
      (q1\<lparr>dq_pend_list_empty := False, dq_pidx_info := dq_pidx q1\<rparr>)))\<lparr>dq_proc_req_running := False\<rparr>)"
    using conf poll(1) [of "ring_doorbell (q1\<lparr>dq_pend_list_empty := False, dq_pidx_info := dq_pidx q1\<rparr>)"]
    by (simp add: same_conf_def ring_doorbell_def)
  have stays: "same_conf q (q1\<lparr>dq_proc_req_running := False\<rparr>)" using conf by (simp add: same_conf_def)
  have inv: "mm_ring_inv (descq_poll_mm_n_h2c_cmpl_status (ring_doorbell
      (q1\<lparr>dq_pend_list_empty := False, dq_pidx_info := dq_pidx q1\<rparr>)))"
    using q1(2) by (intro mm_ring_inv_poll) (simp add: ring_doorbell_def)
  show ?thesis
    using assms q1 conf last stays inv poll(2) mm_ring_inv_cmpl
    by (auto simp: descq_mm_proc_request_def Let_def)
qed

end
