(* ===== verification/DescqMMProps.thy ===== *)
theory DescqMMProps
  imports DescqMMKeyhole
begin

text \<open>
  The properties of the memory mapped queues: what a round over the work list writes, that the
  loop ends, what a whole call of descq_mm_proc_request keeps, which requests a completion
  finishes, and the request on which the loop never ends. The loop and the call are followed with
  and without a keyhole aperture; the bytes written are for queues without one (mm_inv).
\<close>

section \<open>The loop over the work list\<close>

definition mm_inv :: "qdma_descq \<Rightarrow> bool" where
  "mm_inv q \<longleftrightarrow> mm_ring_ok q \<and> work_ok q \<and> mm_account q \<and> dq_aperture_size q = 0"

lemma mm_inv_poll: "mm_inv q \<Longrightarrow> mm_inv (descq_poll_mm_n_h2c_cmpl_status q)"
  using poll_same_work [of q] poll_ring_ok [of q] poll_account [of q]
  by (simp add: mm_inv_def same_work_def work_ok_def)

lemma mm_inv_cmpl: "mm_inv q \<Longrightarrow> mm_inv (descq_mm_n_h2c_cmpl_status q)"
  using cmpl_same_work [of q] cmpl_ring_ok [of q] cmpl_account [of q]
  by (simp add: mm_inv_def same_work_def work_ok_def)

text \<open>A round of the loop under the invariant, with the state after the poll for free slots.\<close>

lemma mm_round_inv:
  assumes inv: "mm_inv q" and ne: "dq_work_list q \<noteq> []"
  obtains (full) q' where "mm_round q = Break q'" "mm_inv q'" "dq_avail q = 0" "dq_avail q' = 0" "same_work q q'"
  | (posts) n p q' where "mm_round q = Continue n q'" "mm_inv q'" "same_work q p" "round_posts n p q'"
      "dq_avail q \<noteq> 0 \<longrightarrow> p = q"
proof -
  let ?p = "if dq_avail q = 0 then descq_poll_mm_n_h2c_cmpl_status q else q"
  have p: "mm_inv ?p" "same_work q ?p" using inv mm_inv_poll poll_same_work by auto
  have q: "mm_ring_ok q" "work_ok q" "dq_aperture_size q = 0" using inv by (simp_all add: mm_inv_def)
  note round = mm_round_posts [OF q(1,2) ne q(3)]
  show thesis
  proof (cases "dq_avail ?p = 0")
    case True
    then have "dq_avail q = 0" by (auto split: if_splits)
    then show thesis using True round p full [of ?p] by simp
  next
    case False
    then obtain n q' where r: "mm_round q = Continue n q'" "round_posts n ?p q'" "mm_ring_ok q'"
        "work_ok q'" "mm_account ?p \<longrightarrow> mm_account q'" "same_conf q q'"
      using round by metis
    have "mm_inv q'" using r p(1) q(3) by (simp add: mm_inv_def same_conf_def)
    with r(1,2) p(2) show thesis using posts [of n q' ?p] by simp
  qed
qed

lemma same_work_bytes: "same_work q p \<Longrightarrow> work_bytes p = work_bytes q"
  by (simp add: same_work_def work_bytes_def)

section \<open>A request with a wrong count\<close>

text \<open>
  A first request whose queued bytes are all its list has, and fewer than its count: there is
  room in the ring, but nothing to put there.
\<close>

definition mm_exhausted :: "qdma_descq \<Rightarrow> bool" where
  "mm_exhausted q \<longleftrightarrow> 0 < dq_avail q \<and>
     (case dq_work_list q of [] \<Rightarrow> False
      | req # _ \<Rightarrow> cb_offset req < rq_count req \<and> rq_count req < 2 ^ 32 \<and> cb_desc_nr req < 2 ^ 32 \<and>
          cb_offset req = length (sgl_bytes (rq_sgl req)) \<and> rq_sgl req \<noteq> [] \<and>
          (\<forall>sg\<in>set (rq_sgl req). 0 < sw_len sg))"

lemma find_offset_at_end:
  assumes "offset = len + length (sgl_bytes sgs)" "offset < 2 ^ 32" "\<forall>sg\<in>set sgs. 0 < sw_len sg"
  shows "find_offset offset len i sgs = None"
  using assms
proof (induction offset len i sgs rule: find_offset.induct)
  case (2 offset len i sg sgs)
  have w: "u32_wrap (len + sw_len sg) = len + sw_len sg" using "2.prems" by (simp add: u32_wrap_def)
  show ?case
  proof (cases sgs)
    case Nil
    then show ?thesis using "2.prems" w by simp
  next
    case (Cons x xs)
    then show ?thesis using "2.IH" [OF refl] "2.prems" w by (auto simp: Let_def)
  qed
qed simp

lemma mm_round_exhausted:
  assumes "mm_exhausted q"
  shows "\<exists>q'. mm_round q = Continue 0 q' \<and> mm_exhausted q'"
proof -
  obtain req reqs where wl: "dq_work_list q = req # reqs" and req: "cb_offset req < rq_count req"
      "rq_count req < 2 ^ 32" "cb_desc_nr req < 2 ^ 32" "cb_offset req = length (sgl_bytes (rq_sgl req))"
      "rq_sgl req \<noteq> []" "\<forall>sg\<in>set (rq_sgl req). 0 < sw_len sg"
    using assms by (cases "dq_work_list q") (auto simp: mm_exhausted_def)
  have "qdma_sgl_find_offset req = None"
    using find_offset_at_end [of "cb_offset req" 0 "rq_sgl req"] req by (simp add: qdma_sgl_find_offset_def)
  then have "mm_round q = Continue 0 (qdma_update_request 0 0 0 None q)"
    using assms wl by (simp add: mm_round_def mm_exhausted_def Let_def)
  moreover have "mm_exhausted (qdma_update_request 0 0 0 None q)"
    using assms wl req by (simp add: mm_exhausted_def qdma_update_request_def u32_wrap_def)
  ultimately show ?thesis by blast
qed

lemma mm_work_loop_result:
  assumes "mm_work_loop w q = Some y"
  shows "\<not> mm_exhausted q"
proof (rule mm_work_loop.raw_induct [OF _ assms, where P = "\<lambda>w q y. \<not> mm_exhausted q"])
  fix loop w q y
  assume IH: "\<And>w q y. loop w q = Some y \<Longrightarrow> \<not> mm_exhausted q"
    and step: "(if dq_work_list q = [] then Some (True, w, q)
      else (case mm_round q of Continue n q \<Rightarrow> loop (u32_wrap (w + n)) q
            | Break q \<Rightarrow> Some (True, w, q) | Fail q \<Rightarrow> Some (False, w, q))) = Some y"
  show "\<not> mm_exhausted q"
  proof
    assume ex: "mm_exhausted q"
    then obtain q' where "mm_round q = Continue 0 q'" "mm_exhausted q'"
      using mm_round_exhausted by blast
    moreover have "dq_work_list q \<noteq> []" using ex by (auto simp: mm_exhausted_def)
    ultimately show False using IH step by auto
  qed
qed

section \<open>Properties\<close>

text \<open>A queue of four slots with a request of two entries, and one whose count is too large.\<close>

definition demo_request :: "nat \<Rightarrow> qdma_request" where
  "demo_request count =
     \<lparr>rq_sgl = [\<lparr>sw_len = 2, sw_dma_addr = 100\<rparr>, \<lparr>sw_len = 1, sw_dma_addr = 300\<rparr>], rq_count = count,
      rq_ep_addr = 7000, rq_fp_done = True, cb_desc_nr = 0, cb_offset = 0, cb_sg_offset = 0, cb_sg = None\<rparr>"

definition demo_queue :: "qdma_request list \<Rightarrow> qdma_request list \<Rightarrow> nat \<Rightarrow> nat list \<Rightarrow> qdma_descq" where
  "demo_queue work pend pidx hw =
     \<lparr>dq_rngsz = 4, dq_st = False, dq_c2h = False, dq_pidx_acc = 1, dq_aperture_size = 0,
      dq_eqdma5 = False, dq_poll = False, dq_online = True, dq_c2h_packet = False,
      dq_q_stop_wait = False, dq_proc_req_running = False,
      dq_desc = replicate 4 \<lparr>md_src_addr = 0, md_flag_len = 0, md_rsvd0 = 0, md_dst_addr = 0, md_rsvd1 = 0\<rparr>,
      dq_pidx = pidx, dq_cidx = 0, dq_avail = 3 - pidx, dq_credit = 0, dq_work_list = work,
      dq_work_req_pend = 1, dq_pend_list = pend, dq_pend_list_empty = True, dq_done = [],
      dq_pidx_info = 0, dq_desc_pend = 0, dq_total_cmpl_descs = 0, dq_doorbell = [], dq_hw_cidx = hw\<rparr>"

lemmas demo_defs = demo_queue_def demo_request_def mm_inv_def mm_ring_ok_def work_ok_def req_ok_def
  mm_account_def in_flight_def work_bytes_def request_rest_def request_bytes_def

lemma demo_inv: "mm_inv (demo_queue [demo_request 3] [] 0 [])"
  by (simp add: demo_defs)

text \<open>C17. For a queue without a keyhole aperture, every round of the loop over the work list, under
  the invariant, either finds the ring full and leaves, with nothing changed but what a poll for
  completions changes, or writes at least one descriptor to the next slots of the ring; the descriptors written denote, byte for
  byte and in order, exactly the next bytes of the requests on the work list, each paired with
  its address in the device, and what is left on the work list denotes the rest. The first
  descriptor alone is flagged SOP, the last alone EOP, and all of them valid.
\<close>

theorem mm_round_cuts_next_bytes:
  assumes "mm_inv q" "dq_work_list q \<noteq> []"
  shows "dq_avail q = 0 \<and> (\<exists>q'. mm_round q = Break q' \<and> dq_avail q' = 0 \<and> same_work q q') \<or>
    (\<exists>n q'. mm_round q = Continue n q' \<and> 0 < n \<and>
       dq_pidx q' = (dq_pidx q + n) mod dq_rngsz q \<and>
       (let slots = ring_slots (dq_rngsz q) (dq_pidx q) n (dq_desc q')
        in work_bytes q = concat (map (desc_bytes (dq_c2h q)) slots) @ work_bytes q' \<and>
           (\<forall>k<n. drop_bit 28 (md_flag_len (slots ! k)) =
              1 OR (if k = 0 then 2 else 0) OR (if k = n - 1 then 4 else 0))))"
  using assms
proof (cases rule: mm_round_inv)
  case (full q')
  then show ?thesis by blast
next
  case (posts n p q')
  then show ?thesis
    using same_work_bytes [OF posts(3)]
    by (auto simp: round_posts_def same_work_def ring_add_def Let_def simp del: ring_slots_nth)
qed

theorem mm_round_cuts_next_bytes_witness:
  "\<exists>n q'. mm_round (demo_queue [demo_request 3] [] 0 []) = Continue n q' \<and> 0 < n \<and>
     dq_pidx q' = n mod 4 \<and>
     concat (map (desc_bytes False) (ring_slots 4 0 n (dq_desc q'))) @ work_bytes q' =
       [(100, 7000), (101, 7001), (300, 7002)]"
proof -
  have "work_bytes (demo_queue [demo_request 3] [] 0 []) = [(100, 7000), (101, 7001), (300, 7002)]"
    by (simp add: demo_defs)
  then show ?thesis
    using mm_round_cuts_next_bytes [OF demo_inv] by (auto simp: demo_queue_def Let_def simp del: ring_slots_nth)
qed

definition demo_busy :: qdma_descq where
  "demo_busy = demo_queue [demo_request 3] [(demo_request 3)\<lparr>cb_desc_nr := 1, cb_offset := 3\<rparr>] 1 []"

lemma demo_busy_inv: "mm_inv demo_busy"
  by (simp add: demo_busy_def demo_defs ring_dist_def)

text \<open>C21. For a queue without a keyhole aperture, a round never touches the descriptors
  in flight: the slots from the consumer index that the device may still read keep what they hold.
\<close>

theorem mm_in_flight_slots_kept:
  assumes "mm_inv q" "dq_work_list q \<noteq> []" "mm_round q = Continue n q'" "j < in_flight q' - n"
  shows "dq_desc q' ! ((dq_cidx q' + j) mod dq_rngsz q') = dq_desc q ! ((dq_cidx q' + j) mod dq_rngsz q')"
  using assms(1,2)
proof (cases rule: mm_round_inv)
  case (posts n' p q'')
  then have posts': "mm_inv q'" "same_work q p" "round_posts n p q'" using assms(3) by auto
  define r where "r = dq_rngsz q'"
  have facts: "dq_rngsz p = r" "dq_cidx p = dq_cidx q'" "in_flight q' = in_flight p + n"
      "dq_desc p = dq_desc q"
      "\<And>k. n \<le> k \<Longrightarrow> k < r \<Longrightarrow> dq_desc q' ! ring_add r (dq_pidx p) k = dq_desc p ! ring_add r (dq_pidx p) k"
    using posts'(2,3) by (auto simp: round_posts_def same_work_def r_def Let_def)
  have bounds: "dq_avail q' + in_flight q' + 1 = r" "dq_cidx p < r"
    using posts'(1) facts(2) by (auto simp: mm_inv_def mm_ring_ok_def r_def)
  have pidx: "dq_pidx p < r"
    using assms(1) posts'(2) facts(1) by (simp add: mm_inv_def mm_ring_ok_def same_work_def)
  have j: "j < ring_dist r (dq_cidx q') (dq_pidx p)"
    using assms(4) facts(1-3) by (simp add: in_flight_def)
  let ?k = "r - ring_dist r (dq_cidx q') (dq_pidx p) + j"
  have "n \<le> ?k" "?k < r" using facts(1-3) bounds j by (simp_all add: in_flight_def)
  then have "dq_desc q' ! ring_add r (dq_pidx p) ?k = dq_desc q ! ring_add r (dq_pidx p) ?k"
    using facts(4,5) by simp
  then show ?thesis
    using ring_add_in_flight [OF _ pidx j] bounds(2) facts(2) by (simp add: ring_add_def r_def)
qed (use assms(3) in auto)

theorem mm_in_flight_slots_kept_witness:
  "\<exists>n q'. mm_round demo_busy = Continue n q' \<and> dq_desc q' ! 0 = dq_desc demo_busy ! 0"
proof -
  have q: "dq_work_list demo_busy \<noteq> []" "dq_avail demo_busy \<noteq> 0" "in_flight demo_busy = 1"
      "dq_cidx demo_busy = 0" "dq_rngsz demo_busy = 4"
    by (simp_all add: demo_busy_def demo_queue_def in_flight_def ring_dist_def)
  from demo_busy_inv q(1) show ?thesis
  proof (cases rule: mm_round_inv)
    case (posts n p q')
    then have "in_flight q' = 1 + n" "dq_cidx q' = 0" "dq_rngsz q' = 4"
      using q by (auto simp: round_posts_def Let_def)
    then have "dq_desc q' ! 0 = dq_desc demo_busy ! 0"
      using mm_in_flight_slots_kept [OF demo_busy_inv q(1) posts(1), of 0] by simp
    then show ?thesis using posts(1) by blast
  qed (use q in simp)
qed

text \<open>
  A queue with a keyhole of two bytes, and one whose request an EQDMA 5 keyhole does not take.
\<close>

definition demo_keyhole :: qdma_descq where
  "demo_keyhole = demo_busy\<lparr>dq_aperture_size := 2\<rparr>"

definition demo_reject :: qdma_descq where
  "demo_reject = (demo_queue [(demo_request 65536)\<lparr>rq_sgl := [\<lparr>sw_len = 65536, sw_dma_addr = 100\<rparr>]\<rparr>] [] 0 [])
     \<lparr>dq_aperture_size := 32768, dq_eqdma5 := True\<rparr>"

lemma demo_keyhole_inv: "mm_ring_inv demo_keyhole" "dq_aperture_size demo_keyhole = 2"
  by (simp_all add: demo_keyhole_def demo_busy_def demo_defs mm_ring_inv_def window_ok_def ring_dist_def)

lemma demo_reject_inv: "mm_ring_inv demo_reject"
  by (simp add: demo_reject_def demo_defs mm_ring_inv_def window_ok_def length_sgl_bytes
      del: bytes_at_numeral)



text \<open>C18. A call of descq_mm_proc_request on a queue that satisfies the invariant of the ring
  (mm_ring_inv), with or without a keyhole aperture, returns and keeps the invariant: the free slots
  and those in flight make up the ring, and the descriptors in flight are accounted for by the
  requests that wait for them. The completions the device will report are any that move forward
  over slots in flight, which the invariant asks for and keeps. It returns 0, unless the request left at the head of the work list has an
  entry that is too long for an EQDMA 5 keyhole of 32 KB or more (mm_rejected): then it returns
  -EINVAL. The invariant also asks that the counts of the requests are the sums of their
  entries and below 2 ^ 31, as is the ring size, and that, with an aperture, the window of a request
  does not go round the end of the address space.
\<close>

theorem mm_proc_request_keeps_ring:
  assumes "mm_ring_inv q"
  shows "\<exists>rv q'. descq_mm_proc_request q = Some (rv, q') \<and> mm_ring_inv q' \<and> same_conf q q' \<and>
    (rv = 0 \<or> rv = -22 \<and> mm_rejected q') \<and>
    dq_avail q' + ring_dist (dq_rngsz q') (dq_cidx q') (dq_pidx q') + 1 = dq_rngsz q' \<and>
    desc_sum (dq_pend_list q') + desc_sum (dq_work_list q')
      = ring_dist (dq_rngsz q') (dq_cidx q') (dq_pidx q') + dq_credit q'"
proof -
  obtain rv q' where q': "descq_mm_proc_request q = Some (rv, q')" "mm_ring_inv q'" "same_conf q q'"
      "rv = 0 \<or> rv = -22 \<and> mm_rejected q'"
    using mm_proc_request_course [OF assms] by blast
  have "dq_avail q' + in_flight q' + 1 = dq_rngsz q'"
      "desc_sum (dq_pend_list q') + desc_sum (dq_work_list q') = in_flight q' + dq_credit q'"
    using q'(2) by (simp_all add: mm_ring_inv_def mm_ring_ok_def mm_account_def)
  then show ?thesis using q' by (auto simp: in_flight_def)
qed

lemma demo_reject_fails: "\<exists>q'. descq_mm_proc_request demo_reject = Some (-22, q')"
proof -
  have "dq_work_list demo_reject \<noteq> []" "\<exists>q'. mm_round demo_reject = Fail q'"
    by (simp_all add: demo_reject_def demo_queue_def demo_request_def mm_round_def qdma_sgl_find_offset_def
        u32_wrap_def mm_too_long_def SOFT_EQDMA_DESC_BLEN_MAX_def SOFT_EQDMA_DESC_MAX_LEN_def)
  then have "\<exists>q'. mm_work_loop 0 demo_reject = Some (False, 0, q')"
    by (subst mm_work_loop.simps) auto
  then show ?thesis
    by (auto simp: descq_mm_proc_request_def descq_poll_mm_n_h2c_cmpl_status_def demo_reject_def demo_queue_def)
qed

theorem mm_proc_request_keeps_ring_witness:
  "(\<exists>rv q'. descq_mm_proc_request demo_keyhole = Some (rv, q') \<and>
      dq_avail q' + ring_dist (dq_rngsz q') (dq_cidx q') (dq_pidx q') + 1 = dq_rngsz q') \<and>
   (\<exists>q'. descq_mm_proc_request demo_reject = Some (-22, q') \<and> mm_rejected q' \<and>
      dq_avail q' + ring_dist (dq_rngsz q') (dq_cidx q') (dq_pidx q') + 1 = dq_rngsz q')"
  using mm_proc_request_keeps_ring [OF demo_keyhole_inv(1)] mm_proc_request_keeps_ring [OF demo_reject_inv]
    demo_reject_fails by auto

text \<open>C20. For a queue without a keyhole aperture, when the device reports that it has got to
  index h, the requests at the head of the pending list are finished in order, as many as the
  completed descriptors and the credit cover and no more; the slots completed are free again.
\<close>

theorem mm_completion_in_order:
  assumes "mm_inv q" "dq_pidx q \<noteq> dq_cidx q" "dq_hw_cidx q = h # hs" "h \<noteq> dq_cidx q"
  defines "d \<equiv> ring_dist (dq_rngsz q) (dq_cidx q) h"
  defines "q' \<equiv> descq_mm_n_h2c_cmpl_status q"
  shows "\<exists>k\<le>length (dq_pend_list q).
    dq_done q' = dq_done q @ map (\<lambda>cb. (cb, req_status q cb 0)) (take k (dq_pend_list q)) \<and>
    desc_sum (take k (dq_pend_list q)) \<le> dq_credit q + d \<and>
    (k < length (dq_pend_list q) \<longrightarrow> dq_credit q + d < desc_sum (take (Suc k) (dq_pend_list q))) \<and>
    dq_cidx q' = h \<and> dq_avail q' = dq_avail q + d \<and> in_flight q' = in_flight q - d"
proof -
  have ok: "mm_ring_ok q" and acc: "mm_account q" using assms(1) by (simp_all add: mm_inv_def)
  note h = cmpl_ring_dist [OF ok assms(3), folded d_def]
  have wrap: "u32_wrap (dq_credit q + d) = dq_credit q + d"
    using acc h(2) ok by (auto simp: mm_account_def mm_ring_ok_def u32_wrap_def)
  obtain cr pend fin where cl: "credit_loop (dq_credit q + d) (dq_pend_list q) = (cr, pend, fin)"
    by (metis prod_cases3)
  obtain k where k: "k \<le> length (dq_pend_list q)" "fin = take k (dq_pend_list q)" "desc_sum fin \<le> dq_credit q + d"
      "k < length (dq_pend_list q) \<longrightarrow> dq_credit q + d < desc_sum (take (Suc k) (dq_pend_list q))"
    using credit_loop_spec [OF cl] acc by (auto simp: mm_account_def)
  show ?thesis
    using cmpl_news [OF assms(2-4), folded d_def, unfolded wrap, OF cl] h k
    by (intro exI [of _ k]) (auto simp: q'_def in_flight_def)
qed

theorem mm_completion_in_order_witness:
  "\<exists>k\<le>1. length (dq_done (descq_mm_n_h2c_cmpl_status (demo_busy\<lparr>dq_hw_cidx := [1]\<rparr>))) = k \<and> 0 < k"
proof -
  have inv: "mm_inv (demo_busy\<lparr>dq_hw_cidx := [1]\<rparr>)"
    by (simp add: demo_busy_def demo_defs ring_dist_def)
  show ?thesis
    using mm_completion_in_order [OF inv, of 1 "[]"]
    by (auto simp: demo_busy_def demo_queue_def ring_dist_def le_Suc_eq)
qed

text \<open>C22. A request whose count is larger than the sum of its scatter-gather entries, once all its
  bytes have descriptors, is never taken off the work list: with a slot free, the loop goes round
  for ever with the lock of the queue held, and descq_mm_proc_request does not return.
\<close>

theorem mm_wrong_count_never_returns:
  assumes "mm_exhausted q" "dq_online q" "\<not> dq_q_stop_wait q" "\<not> dq_proc_req_running q" "\<not> dq_poll q"
  shows "descq_mm_proc_request q = None"
proof -
  have "mm_work_loop 0 q = None"
    using mm_work_loop_result assms(1) by (cases "mm_work_loop 0 q") blast+
  then show ?thesis
    using assms by (simp add: descq_mm_proc_request_def descq_poll_mm_n_h2c_cmpl_status_def)
qed

theorem mm_wrong_count_never_returns_witness:
  "descq_mm_proc_request (demo_queue [(demo_request 4)\<lparr>cb_offset := 3, cb_desc_nr := 2\<rparr>] [] 2 []) = None"
  by (rule mm_wrong_count_never_returns) (simp_all add: mm_exhausted_def demo_queue_def demo_request_def)

end
