(* ===== verification/QdmaList.thy ===== *)
theory QdmaList
  imports Prelude "HOL-Library.Monad_Syntax"
begin

text \<open>
  The intrusive doubly linked lists of qdma_list.c and qdma_list.h. A pointer is a natural
  number, zero the null pointer; the memory maps the address of each allocated list head to its
  contents. Every access goes through the memory and gives None when nothing is allocated there,
  so a result Some says that the code touches allocated nodes only.
\<close>

section \<open>Nodes and memory\<close>

type_synonym addr = nat

abbreviation NULL :: addr where "NULL \<equiv> 0"

record qdma_list_head =
  prev_ptr :: addr
  next_ptr :: addr
  priv :: addr

type_synonym memory = "addr \<Rightarrow> qdma_list_head option"

definition prev_of :: "memory \<Rightarrow> addr \<Rightarrow> addr option" where
  "prev_of h a = map_option prev_ptr (h a)"

definition next_of :: "memory \<Rightarrow> addr \<Rightarrow> addr option" where
  "next_of h a = map_option next_ptr (h a)"

definition write_node :: "addr \<Rightarrow> (qdma_list_head \<Rightarrow> qdma_list_head) \<Rightarrow> memory \<Rightarrow> memory option" where
  "write_node a f h = (case h a of None \<Rightarrow> None | Some c \<Rightarrow> Some (h(a \<mapsto> f c)))"

abbreviation set_prev :: "addr \<Rightarrow> addr \<Rightarrow> memory \<Rightarrow> memory option" where
  "set_prev a v \<equiv> write_node a (\<lambda>c. c\<lparr>prev_ptr := v\<rparr>)"

abbreviation set_next :: "addr \<Rightarrow> addr \<Rightarrow> memory \<Rightarrow> memory option" where
  "set_next a v \<equiv> write_node a (\<lambda>c. c\<lparr>next_ptr := v\<rparr>)"

section \<open>Operations\<close>

definition QDMA_LIST_GET_DATA :: "addr \<Rightarrow> memory \<Rightarrow> addr option" where
  "QDMA_LIST_GET_DATA node h = map_option priv (h node)"

definition QDMA_LIST_SET_DATA :: "addr \<Rightarrow> addr \<Rightarrow> memory \<Rightarrow> memory option" where
  "QDMA_LIST_SET_DATA node data h = write_node node (\<lambda>c. c\<lparr>priv := data\<rparr>) h"

definition qdma_list_is_last_entry :: "addr \<Rightarrow> addr \<Rightarrow> memory \<Rightarrow> bool option" where
  "qdma_list_is_last_entry entry head h = map_option (\<lambda>n. n = head) (next_of h entry)"

definition qdma_list_is_empty :: "addr \<Rightarrow> memory \<Rightarrow> bool option" where
  "qdma_list_is_empty head h = map_option (\<lambda>n. n = head) (next_of h head)"

definition qdma_list_init_head :: "addr \<Rightarrow> memory \<Rightarrow> memory option" where
  "qdma_list_init_head head h =
     (if head = NULL then Some h
      else do { h \<leftarrow> set_next head head h; set_prev head head h })"

definition qdma_list_add_tail :: "addr \<Rightarrow> addr \<Rightarrow> memory \<Rightarrow> memory option" where
  "qdma_list_add_tail node head h = do {
     p \<leftarrow> prev_of h head;
     h \<leftarrow> set_next p node h;
     h \<leftarrow> set_next node head h;
     p \<leftarrow> prev_of h head;
     h \<leftarrow> set_prev node p h;
     set_prev head node h }"

definition qdma_list_insert_before :: "addr \<Rightarrow> addr \<Rightarrow> memory \<Rightarrow> memory option" where
  "qdma_list_insert_before new_node node h = do {
     p \<leftarrow> prev_of h node;
     h \<leftarrow> set_next p new_node h;
     p \<leftarrow> prev_of h node;
     h \<leftarrow> set_prev new_node p h;
     h \<leftarrow> set_next new_node node h;
     set_prev node new_node h }"

definition qdma_list_insert_after :: "addr \<Rightarrow> addr \<Rightarrow> memory \<Rightarrow> memory option" where
  "qdma_list_insert_after new_node node h = do {
     h \<leftarrow> set_prev new_node node h;
     n \<leftarrow> next_of h node;
     h \<leftarrow> set_next new_node n h;
     n \<leftarrow> next_of h node;
     h \<leftarrow> set_prev n new_node h;
     set_next node new_node h }"

definition qdma_list_del :: "addr \<Rightarrow> memory \<Rightarrow> memory option" where
  "qdma_list_del node h =
     (if node = NULL then Some h
      else do {
        p \<leftarrow> prev_of h node;
        h \<leftarrow> (if p = NULL then Some h
              else do { n \<leftarrow> next_of h node; set_next p n h });
        n \<leftarrow> next_of h node;
        if n = NULL then Some h
        else do { p \<leftarrow> prev_of h node; set_prev n p h } })"

text \<open>
  The loop macro qdma_list_for_each_safe: the body gets the current node, and the successor is
  read before the body runs. A loop that does not end has no result.
\<close>

partial_function (option) for_each_safe_from ::
  "(addr \<Rightarrow> memory \<Rightarrow> memory option) \<Rightarrow> addr \<Rightarrow> addr \<Rightarrow> addr \<Rightarrow> memory \<Rightarrow> memory option" where
  "for_each_safe_from body pos n head h =
     (if pos = head then Some h
      else do {
        h \<leftarrow> body pos h;
        n' \<leftarrow> next_of h n;
        for_each_safe_from body n n' head h })"

definition qdma_list_for_each_safe ::
  "(addr \<Rightarrow> memory \<Rightarrow> memory option) \<Rightarrow> addr \<Rightarrow> memory \<Rightarrow> memory option" where
  "qdma_list_for_each_safe body head h = do {
     pos \<leftarrow> next_of h head;
     n \<leftarrow> next_of h pos;
     for_each_safe_from body pos n head h }"

section \<open>Abstraction\<close>

text \<open>Consecutive nodes point at each other; a list is such a chain from its head back to it.\<close>

fun linked :: "memory \<Rightarrow> addr list \<Rightarrow> bool" where
  "linked h (a # b # xs) \<longleftrightarrow> next_of h a = Some b \<and> prev_of h b = Some a \<and> linked h (b # xs)"
| "linked h _ \<longleftrightarrow> True"

definition is_list :: "memory \<Rightarrow> addr \<Rightarrow> addr list \<Rightarrow> bool" where
  "is_list h head xs \<longleftrightarrow> distinct (head # xs) \<and> NULL \<notin> set (head # xs) \<and> linked h (head # xs @ [head])"

text \<open>Contents and allocation of nodes, apart from the links.\<close>

definition node_data :: "memory \<Rightarrow> addr \<Rightarrow> addr option" where
  "node_data h a = map_option priv (h a)"

lemma linked_append:
  "linked h (us @ a # vs) \<longleftrightarrow> linked h (us @ [a]) \<and> linked h (a # vs)"
  by (induction us rule: induct_list012) (auto simp: neq_Nil_conv)

lemma linked_frame:
  assumes "linked h as" "\<forall>a\<in>set (butlast as). next_of h' a = next_of h a"
    "\<forall>a\<in>set (tl as). prev_of h' a = prev_of h a"
  shows "linked h' as"
  using assms by (induction h as rule: linked.induct) (auto split: if_splits)

lemma linked_insert:
  assumes l: "linked h (us @ a # b # vs)"
    and d: "distinct (us @ [a])" "distinct (b # vs)" "b \<notin> set (tl (us @ [a]))" "a \<notin> set (butlast (b # vs))"
    and n: "n \<notin> set (us @ a # b # vs)"
    and h: "next_of h' = (next_of h)(a \<mapsto> n, n \<mapsto> b)" "prev_of h' = (prev_of h)(n \<mapsto> a, b \<mapsto> n)"
  shows "linked h' (us @ a # n # b # vs)"
proof -
  have us: "linked h (us @ [a])" and vs: "linked h (b # vs)"
    using l linked_append [of h us a "b # vs"] by simp_all
  have "n \<notin> set (tl (us @ [a]))" using n by (cases us) auto
  then have "linked h' (us @ [a])"
    by (intro linked_frame [OF us]) (use d n in \<open>auto simp: h butlast_append dest: in_set_butlastD\<close>)
  moreover have "linked h' (b # vs)"
    using vs by (rule linked_frame) (use d n in \<open>auto simp: h dest: in_set_butlastD\<close>)
  ultimately show ?thesis
    using n by (subst linked_append) (auto simp: h)
qed

lemma linked_delete:
  assumes l: "linked h (us @ a # n # b # vs)"
    and d: "distinct (us @ [a])" "distinct (b # vs)" "b \<notin> set (tl (us @ [a]))" "a \<notin> set (butlast (b # vs))"
    and h: "next_of h' = (next_of h)(a \<mapsto> b)" "prev_of h' = (prev_of h)(b \<mapsto> a)"
  shows "linked h' (us @ a # b # vs)"
proof -
  have us: "linked h (us @ [a])" and vs: "linked h (b # vs)"
    using l linked_append [of h us a "n # b # vs"] by simp_all
  have "linked h' (us @ [a])"
    using us by (rule linked_frame) (use d in \<open>auto simp: h butlast_append\<close>)
  moreover have "linked h' (b # vs)"
    using vs by (rule linked_frame) (use d in \<open>auto simp: h\<close>)
  ultimately show ?thesis
    by (subst linked_append) (auto simp: h)
qed

text \<open>The node before and the node after a position of a list.\<close>

abbreviation before_at :: "addr \<Rightarrow> addr list \<Rightarrow> addr" where
  "before_at head ys \<equiv> last (head # ys)"

abbreviation after_at :: "addr \<Rightarrow> addr list \<Rightarrow> addr" where
  "after_at head zs \<equiv> hd (zs @ [head])"

lemma cycle_split:
  assumes "distinct (head # ys @ zs)"
  obtains us a b vs where "head # ys = us @ [a]" "zs @ [head] = b # vs"
    "before_at head ys = a" "after_at head zs = b" "distinct (us @ [a])" "distinct (b # vs)"
    "b \<notin> set (tl (us @ [a]))" "a \<notin> set (butlast (b # vs))"
proof -
  obtain us a where us: "head # ys = us @ [a]" by (cases "head # ys" rule: rev_cases) simp
  obtain b vs where vs: "zs @ [head] = b # vs" by (cases "zs @ [head]") simp_all
  have "before_at head ys = a" "after_at head zs = b" by (simp_all only: us vs last_snoc list.sel)
  moreover have "distinct (us @ [a])" "distinct (b # vs)" using assms unfolding us [symmetric] vs [symmetric] by auto
  moreover have "b \<notin> set (tl (us @ [a]))"
    unfolding us [symmetric] using assms vs by (cases zs) auto
  moreover have "a \<in> set (head # ys)" unfolding us by simp
  then have "a \<notin> set (butlast (b # vs))" unfolding vs [symmetric] using assms by auto
  ultimately show ?thesis using that us vs by blast
qed

lemma cycle_join:
  assumes "head # ys = us @ [a]" "zs @ [head] = b # vs"
  shows "head # (ys @ zs) @ [head] = us @ a # b # vs"
    "head # (ys @ n # zs) @ [head] = us @ a # n # b # vs"
proof -
  have "head # (ys @ zs) @ [head] = (head # ys) @ (zs @ [head])" by simp
  then show "head # (ys @ zs) @ [head] = us @ a # b # vs" unfolding assms by simp
  have "head # (ys @ n # zs) @ [head] = (head # ys) @ n # (zs @ [head])" by simp
  then show "head # (ys @ n # zs) @ [head] = us @ a # n # b # vs" unfolding assms by simp
qed

lemma is_list_neighbours:
  assumes "is_list h head (ys @ zs)"
  shows "next_of h (before_at head ys) = Some (after_at head zs)"
    "prev_of h (after_at head zs) = Some (before_at head ys)"
proof -
  have d: "distinct (head # ys @ zs)" using assms by (simp add: is_list_def)
  obtain us a b vs where c: "head # ys = us @ [a]" "zs @ [head] = b # vs"
    "before_at head ys = a" "after_at head zs = b" using cycle_split [OF d] by metis
  have "linked h (us @ a # b # vs)" using assms cycle_join(1) [OF c(1,2)] by (simp add: is_list_def)
  then show "next_of h (before_at head ys) = Some (after_at head zs)"
    "prev_of h (after_at head zs) = Some (before_at head ys)"
    unfolding c(3,4) using linked_append [of h us a "b # vs"] by simp_all
qed

text \<open>Linking a new node between two neighbours, and unlinking one.\<close>

definition links_in :: "memory \<Rightarrow> memory \<Rightarrow> addr \<Rightarrow> addr \<Rightarrow> addr \<Rightarrow> bool" where
  "links_in h h' a n b \<longleftrightarrow>
     next_of h' = (next_of h)(a \<mapsto> n, n \<mapsto> b) \<and> prev_of h' = (prev_of h)(n \<mapsto> a, b \<mapsto> n) \<and>
     node_data h' = node_data h"

definition links_out :: "memory \<Rightarrow> memory \<Rightarrow> addr \<Rightarrow> addr \<Rightarrow> bool" where
  "links_out h h' a b \<longleftrightarrow>
     next_of h' = (next_of h)(a \<mapsto> b) \<and> prev_of h' = (prev_of h)(b \<mapsto> a) \<and>
     node_data h' = node_data h"

lemma is_list_links_in:
  assumes "is_list h head (ys @ zs)" "n \<notin> set (head # ys @ zs)" "n \<noteq> NULL"
    "links_in h h' (before_at head ys) n (after_at head zs)"
  shows "is_list h' head (ys @ n # zs)"
proof -
  have d: "distinct (head # ys @ zs)" using assms by (simp add: is_list_def)
  from cycle_split [OF d] obtain us a b vs where c: "head # ys = us @ [a]" "zs @ [head] = b # vs"
    "before_at head ys = a" "after_at head zs = b" "distinct (us @ [a])" "distinct (b # vs)"
    "b \<notin> set (tl (us @ [a]))" "a \<notin> set (butlast (b # vs))" .
  note j = cycle_join [OF c(1,2)]
  have l: "linked h (us @ a # b # vs)" using assms(1) unfolding is_list_def j by simp
  have "n \<notin> set (us @ a # b # vs)" using assms(2) unfolding j(1) [symmetric] by auto
  from linked_insert [OF l c(5-8) this] have "linked h' (us @ a # n # b # vs)"
    using assms(4) unfolding c(3,4) links_in_def by blast
  then have "linked h' (head # (ys @ n # zs) @ [head])" unfolding j .
  then show ?thesis using assms(1-3) by (auto simp: is_list_def)
qed

lemma is_list_links_out:
  assumes "is_list h head (ys @ n # zs)"
    "links_out h h' (before_at head ys) (after_at head zs)"
  shows "is_list h' head (ys @ zs)"
proof -
  have d: "distinct (head # ys @ zs)" using assms by (simp add: is_list_def)
  from cycle_split [OF d] obtain us a b vs where c: "head # ys = us @ [a]" "zs @ [head] = b # vs"
    "before_at head ys = a" "after_at head zs = b" "distinct (us @ [a])" "distinct (b # vs)"
    "b \<notin> set (tl (us @ [a]))" "a \<notin> set (butlast (b # vs))" .
  note j = cycle_join [OF c(1,2)]
  have l: "linked h (us @ a # n # b # vs)" using assms(1) unfolding is_list_def j by simp
  from linked_delete [OF l c(5-8)] have "linked h' (us @ a # b # vs)"
    using assms(2) unfolding c(3,4) links_out_def by blast
  then have "linked h' (head # (ys @ zs) @ [head])" unfolding j .
  then show ?thesis using assms(1) by (auto simp: is_list_def)
qed

section \<open>The operations on memory\<close>

named_theorems node_simps

lemma views_upd [node_simps]:
  "next_of (h(a \<mapsto> c)) = (next_of h)(a \<mapsto> next_ptr c)"
  "prev_of (h(a \<mapsto> c)) = (prev_of h)(a \<mapsto> prev_ptr c)"
  "node_data (h(a \<mapsto> c)) = (node_data h)(a \<mapsto> priv c)"
  by (auto simp: next_of_def prev_of_def node_data_def)

lemma views_at [node_simps]:
  "h a = Some c \<Longrightarrow> next_of h a = Some (next_ptr c)"
  "h a = Some c \<Longrightarrow> prev_of h a = Some (prev_ptr c)"
  "h a = Some c \<Longrightarrow> node_data h a = Some (priv c)"
  by (simp_all add: next_of_def prev_of_def node_data_def)

lemma prev_of_Some: "prev_of h b = Some a \<longleftrightarrow> (\<exists>c. h b = Some c \<and> prev_ptr c = a)"
  by (auto simp: prev_of_def)

lemma next_of_Some: "next_of h b = Some a \<longleftrightarrow> (\<exists>c. h b = Some c \<and> next_ptr c = a)"
  by (auto simp: next_of_def)

lemma yields_all:
  assumes "case r of None \<Rightarrow> False | Some h' \<Rightarrow> P h' \<and> Q h'" "\<And>h'. P h' \<Longrightarrow> Q h' \<Longrightarrow> R h' \<and> S h'"
  shows "\<exists>h'. r = Some h' \<and> R h' \<and> S h'"
  using assms by (cases r) auto

lemma insert_before_links:
  assumes "prev_of h b = Some a" "h a = Some ca" "h n = Some cn" "n \<noteq> a" "n \<noteq> b"
  shows "case qdma_list_insert_before n b h of None \<Rightarrow> False | Some h' \<Rightarrow> links_in h h' a n b \<and> dom h' = dom h"
proof -
  obtain cb where b: "h b = Some cb" "prev_ptr cb = a" using assms(1) by (auto simp: prev_of_Some)
  show ?thesis
    using assms b
    by (cases "a = b")
       (auto simp: qdma_list_insert_before_def write_node_def links_in_def node_simps fun_eq_iff)
qed

lemma add_tail_links:
  assumes "prev_of h b = Some a" "h a = Some ca" "h n = Some cn" "n \<noteq> a" "n \<noteq> b"
  shows "case qdma_list_add_tail n b h of None \<Rightarrow> False | Some h' \<Rightarrow> links_in h h' a n b \<and> dom h' = dom h"
proof -
  obtain cb where b: "h b = Some cb" "prev_ptr cb = a" using assms(1) by (auto simp: prev_of_Some)
  show ?thesis
    using assms b
    by (cases "a = b")
       (auto simp: qdma_list_add_tail_def write_node_def links_in_def node_simps fun_eq_iff)
qed

lemma insert_after_links:
  assumes "next_of h a = Some b" "h b = Some cb" "h n = Some cn" "n \<noteq> a" "n \<noteq> b"
  shows "case qdma_list_insert_after n a h of None \<Rightarrow> False | Some h' \<Rightarrow> links_in h h' a n b \<and> dom h' = dom h"
proof -
  obtain ca where a: "h a = Some ca" "next_ptr ca = b" using assms(1) by (auto simp: next_of_Some)
  show ?thesis
    using assms a
    by (cases "a = b")
       (auto simp: qdma_list_insert_after_def write_node_def links_in_def node_simps fun_eq_iff)
qed

lemma del_links:
  assumes "prev_of h n = Some a" "next_of h n = Some b" "h a = Some ca" "h b = Some cb"
    "n \<noteq> a" "n \<noteq> b" "a \<noteq> NULL" "b \<noteq> NULL" "n \<noteq> NULL"
  shows "case qdma_list_del n h of None \<Rightarrow> False | Some h' \<Rightarrow> links_out h h' a b \<and> dom h' = dom h"
proof -
  obtain cn where n: "h n = Some cn" "next_ptr cn = b" "prev_ptr cn = a"
    using assms(1,2) by (auto simp: next_of_Some prev_of_Some)
  show ?thesis
    using assms n
    by (cases "a = b")
       (auto simp: qdma_list_del_def write_node_def links_out_def node_simps fun_eq_iff)
qed

lemma linked_allocated: "linked h as \<Longrightarrow> a \<in> set (butlast as) \<Longrightarrow> a \<in> dom h"
  by (induction h as rule: linked.induct) (auto simp: next_of_Some split: if_splits)

lemma is_list_allocated: "is_list h head xs \<Longrightarrow> a \<in> set (head # xs) \<Longrightarrow> a \<in> dom h"
  by (rule linked_allocated [of h "head # xs @ [head]"]) (auto simp: is_list_def butlast_append)

text \<open>What an operation leaves alone: allocation, data, and all other nodes.\<close>

definition only_links :: "addr set \<Rightarrow> memory \<Rightarrow> memory \<Rightarrow> bool" where
  "only_links S h h' \<longleftrightarrow> dom h' = dom h \<and> node_data h' = node_data h \<and>
     (\<forall>a. a \<notin> S \<longrightarrow> next_of h' a = next_of h a \<and> prev_of h' a = prev_of h a)"

lemma is_list_frame:
  assumes "is_list h head xs" "only_links S h h'" "S \<inter> set (head # xs) = {}"
  shows "is_list h' head xs"
proof -
  have "linked h' (head # xs @ [head])"
    by (rule linked_frame [of h]) (use assms in \<open>auto simp: is_list_def only_links_def butlast_append\<close>)
  then show ?thesis using assms(1) by (simp add: is_list_def)
qed

lemma before_at_in: "before_at head ys \<in> set (head # ys)"
  by (rule last_in_set) simp

lemma after_at_in: "after_at head zs \<in> set (head # zs)"
  by (cases zs) simp_all

lemma links_in_only:
  "links_in h h' a n b \<Longrightarrow> dom h' = dom h \<Longrightarrow> {a, n, b} \<subseteq> S \<Longrightarrow> only_links S h h'"
  by (auto simp: links_in_def only_links_def)

lemma links_out_only:
  "links_out h h' a b \<Longrightarrow> dom h' = dom h \<Longrightarrow> {a, b} \<subseteq> S \<Longrightarrow> only_links S h h'"
  by (auto simp: links_out_def only_links_def)

text \<open>
  A new node at any position, by each of the three insertions, and a node taken out: the memory
  afterwards differs by the links between the node and its two neighbours only.
\<close>

lemma insert_effect:
  assumes l: "is_list h head (ys @ zs)" and n: "n \<notin> set (head # ys @ zs)" "n \<noteq> NULL" "n \<in> dom h"
  shows "\<exists>h'. qdma_list_insert_before n (after_at head zs) h = Some h' \<and> is_list h' head (ys @ n # zs) \<and>
      links_in h h' (before_at head ys) n (after_at head zs) \<and> dom h' = dom h"
    "\<exists>h'. qdma_list_insert_after n (before_at head ys) h = Some h' \<and> is_list h' head (ys @ n # zs) \<and>
      links_in h h' (before_at head ys) n (after_at head zs) \<and> dom h' = dom h"
    "zs = [] \<Longrightarrow> \<exists>h'. qdma_list_add_tail n head h = Some h' \<and> is_list h' head (ys @ n # zs) \<and>
      links_in h h' (before_at head ys) n (after_at head zs) \<and> dom h' = dom h"
proof -
  let ?a = "before_at head ys" and ?b = "after_at head zs"
  have in_a: "?a \<in> set (head # ys)" and in_b: "?b \<in> set (head # zs)"
    by (rule before_at_in, rule after_at_in)
  then have ne: "n \<noteq> ?a" "n \<noteq> ?b" using n by auto
  have "?a \<in> dom h" "?b \<in> dom h" using in_a in_b by (auto intro!: is_list_allocated [OF l] simp del: last.simps)
  then obtain ca cb cn where c: "h ?a = Some ca" "h ?b = Some cb" "h n = Some cn" using n(3) by blast
  note nb = is_list_neighbours [OF l]
  have done': "is_list h' head (ys @ n # zs) \<and> links_in h h' ?a n ?b \<and> dom h' = dom h"
    if "links_in h h' ?a n ?b" "dom h' = dom h" for h'
    using is_list_links_in [OF l n(1,2) that(1)] that by blast
  show "\<exists>h'. qdma_list_insert_before n ?b h = Some h' \<and> is_list h' head (ys @ n # zs) \<and>
      links_in h h' ?a n ?b \<and> dom h' = dom h"
    using insert_before_links [OF nb(2) c(1,3) ne] done' by (rule yields_all)
  show "\<exists>h'. qdma_list_insert_after n ?a h = Some h' \<and> is_list h' head (ys @ n # zs) \<and>
      links_in h h' ?a n ?b \<and> dom h' = dom h"
    using insert_after_links [OF nb(1) c(2,3) ne] done' by (rule yields_all)
  show "\<exists>h'. qdma_list_add_tail n head h = Some h' \<and> is_list h' head (ys @ n # zs) \<and>
      links_in h h' ?a n ?b \<and> dom h' = dom h" if "zs = []"
  proof -
    have b: "?b = head" using that by simp
    show ?thesis
      using add_tail_links [OF nb(2) c(1,3) ne, unfolded b] done' [unfolded b] unfolding b by (rule yields_all)
  qed
qed

lemma del_effect:
  assumes l: "is_list h head (ys @ n # zs)"
  shows "\<exists>h'. qdma_list_del n h = Some h' \<and> is_list h' head (ys @ zs) \<and>
    links_out h h' (before_at head ys) (after_at head zs) \<and> dom h' = dom h"
proof -
  let ?a = "before_at head ys" and ?b = "after_at head zs"
  have in_a: "?a \<in> set (head # ys)" and in_b: "?b \<in> set (head # zs)"
    by (rule before_at_in, rule after_at_in)
  have d: "distinct (head # ys @ n # zs)" "NULL \<notin> set (head # ys @ n # zs)"
    using l by (simp_all add: is_list_def)
  then have ne: "n \<noteq> ?a" "n \<noteq> ?b" "?a \<noteq> NULL" "?b \<noteq> NULL" "n \<noteq> NULL"
    using in_a in_b by (auto simp del: last.simps)
  have "?a \<in> dom h" "?b \<in> dom h" using in_a in_b by (auto intro!: is_list_allocated [OF l] simp del: last.simps)
  then obtain ca cb where c: "h ?a = Some ca" "h ?b = Some cb" by blast
  have "before_at head (ys @ [n]) = n" by simp
  then have "prev_of h n = Some ?a" "next_of h n = Some ?b"
    using is_list_neighbours [of h head ys "n # zs"] is_list_neighbours [of h head "ys @ [n]" zs] l
    by (simp_all del: last.simps)
  from del_links [OF this c ne] show ?thesis
    using is_list_links_out [OF l] by (auto split: option.splits)
qed

lemma neighbours_in: "{before_at head ys, after_at head zs} \<subseteq> set (head # ys @ zs)"
  using before_at_in [of head ys] after_at_in [of zs head] by (auto simp del: last.simps)

lemma insert_position:
  assumes l: "is_list h head (ys @ zs)" and n: "n \<notin> set (head # ys @ zs)" "n \<noteq> NULL" "n \<in> dom h"
  shows "\<exists>h'. qdma_list_insert_before n (after_at head zs) h = Some h' \<and>
      is_list h' head (ys @ n # zs) \<and> only_links (set (head # n # ys @ zs)) h h'"
    "zs = [] \<Longrightarrow> \<exists>h'. qdma_list_add_tail n head h = Some h' \<and>
      is_list h' head (ys @ n # zs) \<and> only_links (set (head # n # ys @ zs)) h h'"
proof -
  have sub: "{before_at head ys, n, after_at head zs} \<subseteq> set (head # n # ys @ zs)"
    using neighbours_in [of head ys zs] by (auto simp del: last.simps)
  note only = links_in_only [OF _ _ sub]
  show "\<exists>h'. qdma_list_insert_before n (after_at head zs) h = Some h' \<and>
      is_list h' head (ys @ n # zs) \<and> only_links (set (head # n # ys @ zs)) h h'"
    using insert_effect(1) [OF assms] only by blast
  show "\<exists>h'. qdma_list_add_tail n head h = Some h' \<and>
      is_list h' head (ys @ n # zs) \<and> only_links (set (head # n # ys @ zs)) h h'" if "zs = []"
    using insert_effect(3) [OF assms that] only by blast
qed

lemma del_position:
  assumes "is_list h head (ys @ n # zs)"
  shows "\<exists>h'. qdma_list_del n h = Some h' \<and> is_list h' head (ys @ zs) \<and>
    only_links (set (head # ys @ zs)) h h'"
  using del_effect [OF assms] links_out_only [OF _ _ neighbours_in] by blast

section \<open>The contract of the lists\<close>

text \<open>
  What the users of the lists rely on: lists holds of a memory, a head and the nodes behind it,
  and same of two memories that agree on allocation, on data and outside a set of nodes.
\<close>

locale linked_lists =
  fixes lists :: "'m \<Rightarrow> addr \<Rightarrow> addr list \<Rightarrow> bool"
    and allocated :: "'m \<Rightarrow> addr set"
    and data :: "'m \<Rightarrow> addr \<Rightarrow> addr option"
    and same :: "addr set \<Rightarrow> 'm \<Rightarrow> 'm \<Rightarrow> bool"
    and add_tail :: "addr \<Rightarrow> addr \<Rightarrow> 'm \<Rightarrow> 'm option"
    and insert_before :: "addr \<Rightarrow> addr \<Rightarrow> 'm \<Rightarrow> 'm option"
    and del :: "addr \<Rightarrow> 'm \<Rightarrow> 'm option"
  assumes nodes: "lists h head xs \<Longrightarrow>
      distinct (head # xs) \<and> NULL \<notin> set (head # xs) \<and> set (head # xs) \<subseteq> allocated h"
    and add_tail: "lists h head xs \<Longrightarrow> n \<notin> set (head # xs) \<Longrightarrow> n \<noteq> NULL \<Longrightarrow> n \<in> allocated h \<Longrightarrow>
      \<exists>h'. add_tail n head h = Some h' \<and> lists h' head (xs @ [n]) \<and> same (set (head # n # xs)) h h'"
    and insert_before: "lists h head (ys @ x # zs) \<Longrightarrow> n \<notin> set (head # ys @ x # zs) \<Longrightarrow> n \<noteq> NULL \<Longrightarrow>
      n \<in> allocated h \<Longrightarrow> \<exists>h'. insert_before n x h = Some h' \<and> lists h' head (ys @ n # x # zs) \<and>
        same (set (head # n # ys @ x # zs)) h h'"
    and del: "lists h head (ys @ n # zs) \<Longrightarrow>
      \<exists>h'. del n h = Some h' \<and> lists h' head (ys @ zs) \<and> same (set (head # ys @ zs)) h h'"
    and frame: "lists h head xs \<Longrightarrow> same S h h' \<Longrightarrow> S \<inter> set (head # xs) = {} \<Longrightarrow> lists h' head xs"
    and keeps: "same S h h' \<Longrightarrow> allocated h' = allocated h \<and> data h' = data h"
begin

text \<open>A node moves from one list to the end of another.\<close>

lemma move_between:
  assumes l: "lists h a (ys @ n # zs)" "lists h b ws"
    and d: "set (a # ys @ n # zs) \<inter> set (b # ws) = {}"
  shows "\<exists>h'. Option.bind (del n h) (add_tail n b) = Some h' \<and>
    lists h' a (ys @ zs) \<and> lists h' b (ws @ [n]) \<and> data h' = data h"
proof -
  obtain h1 where h1: "del n h = Some h1" "lists h1 a (ys @ zs)" "same (set (a # ys @ zs)) h h1"
    using del [OF l(1)] by blast
  have b1: "lists h1 b ws" by (rule frame [OF l(2) h1(3)]) (use d in auto)
  have n: "n \<notin> set (b # ws)" "n \<noteq> NULL" "n \<in> allocated h1"
    using d nodes [OF l(1)] keeps [OF h1(3)] by auto
  obtain h2 where h2: "add_tail n b h1 = Some h2" "lists h2 b (ws @ [n])" "same (set (b # n # ws)) h1 h2"
    using add_tail [OF b1 n] by blast
  have "lists h2 a (ys @ zs)"
    by (rule frame [OF h1(2) h2(3)]) (use d nodes [OF l(1)] in auto)
  then show ?thesis using h1(1) h2 keeps [OF h1(3)] keeps [OF h2(3)] by simp
qed

end

interpretation ql: linked_lists is_list dom node_data only_links
  qdma_list_add_tail qdma_list_insert_before qdma_list_del
proof
  fix h head xs assume l: "is_list h head xs"
  show "distinct (head # xs) \<and> NULL \<notin> set (head # xs) \<and> set (head # xs) \<subseteq> dom h"
    using l is_list_allocated [OF l] by (auto simp: is_list_def)
next
  fix h head xs n
  assume "is_list h head xs" "n \<notin> set (head # xs)" "n \<noteq> NULL" "n \<in> dom h"
  then show "\<exists>h'. qdma_list_add_tail n head h = Some h' \<and> is_list h' head (xs @ [n]) \<and>
      only_links (set (head # n # xs)) h h'"
    using insert_position(2) [of h head xs "[]" n] by simp
next
  fix h head ys x zs n
  assume "is_list h head (ys @ x # zs)" "n \<notin> set (head # ys @ x # zs)" "n \<noteq> NULL" "n \<in> dom h"
  then show "\<exists>h'. qdma_list_insert_before n x h = Some h' \<and> is_list h' head (ys @ n # x # zs) \<and>
      only_links (set (head # n # ys @ x # zs)) h h'"
    using insert_position(1) [of h head ys "x # zs" n] by simp
next
  fix h head ys n zs assume "is_list h head (ys @ n # zs)"
  then show "\<exists>h'. qdma_list_del n h = Some h' \<and> is_list h' head (ys @ zs) \<and>
      only_links (set (head # ys @ zs)) h h'"
    using del_position by blast
next
  fix h h' head xs S assume "is_list h head xs" "only_links S h h'" "S \<inter> set (head # xs) = {}"
  then show "is_list h' head xs" by (rule is_list_frame)
next
  fix S h h' assume "only_links S h h'"
  then show "dom h' = dom h \<and> node_data h' = node_data h" by (simp add: only_links_def)
qed

section \<open>Traversal\<close>

lemma is_list_successor:
  "is_list h head (ys @ x # zs) \<Longrightarrow> next_of h x = Some (after_at head zs)"
  using is_list_neighbours(1) [of h head "ys @ [x]" zs] by (simp del: last.simps add: last_ConsR)

lemma for_each_safe_filter:
  assumes "is_list h head (ys @ xs)" "xs \<noteq> [] \<longrightarrow> next_of h (after_at head xs) = Some n"
  shows "\<exists>h'. for_each_safe_from (\<lambda>a h. if P a then qdma_list_del a h else Some h) (after_at head xs) n head h =
      Some h' \<and> is_list h' head (ys @ filter (\<lambda>a. \<not> P a) xs) \<and>
      only_links (set (head # ys @ xs)) h h'"
  using assms
proof (induction xs arbitrary: ys h n)
  case Nil
  then show ?case by (simp add: for_each_safe_from.simps only_links_def)
next
  case (Cons x xs)
  let ?body = "\<lambda>a h. if P a then qdma_list_del a h else Some h"
  have "x \<noteq> head" using Cons(2) by (auto simp: is_list_def)
  moreover have n: "n = after_at head xs" using is_list_successor [OF Cons(2)] Cons(3) by simp
  ultimately have step: "for_each_safe_from ?body (after_at head (x # xs)) n head h =
      do { h \<leftarrow> ?body x h; n' \<leftarrow> next_of h n; for_each_safe_from ?body (after_at head xs) n' head h }"
    by (subst for_each_safe_from.simps) simp
  define ys' where "ys' = (if P x then ys else ys @ [x])"
  obtain h1 where h1: "?body x h = Some h1" "is_list h1 head (ys' @ xs)"
    "only_links (set (head # ys @ x # xs)) h h1"
  proof (cases "P x")
    case True
    obtain h1 where "qdma_list_del x h = Some h1" "is_list h1 head (ys @ xs)"
      "only_links (set (head # ys @ xs)) h h1"
      using del_position [OF Cons(2)] by blast
    with True that [of h1] show ?thesis by (auto simp: ys'_def only_links_def)
  next
    case False
    with Cons(2) that [of h] show ?thesis by (simp add: ys'_def only_links_def)
  qed
  have "n \<in> dom h1"
    using is_list_allocated [OF h1(2)] after_at_in [of xs head] by (auto simp: n)
  then obtain n' where n': "next_of h1 n = Some n'" by (auto simp: next_of_def)
  obtain h2 where h2: "for_each_safe_from ?body (after_at head xs) n' head h1 = Some h2"
    "is_list h2 head (ys' @ filter (\<lambda>a. \<not> P a) xs)" "only_links (set (head # ys' @ xs)) h1 h2"
    using Cons(1) [OF h1(2)] n' n by blast
  have "only_links (set (head # ys @ x # xs)) h h2"
    using h1(3) h2(3) by (auto simp: only_links_def ys'_def split: if_splits)
  with h1 n' h2 show ?case
    unfolding step by (auto simp: ys'_def)
qed

section \<open>Properties\<close>

text \<open>A memory with the list [2, 3] behind head 1, the empty list behind head 5, and a node 4.\<close>

definition sample_memory :: memory where
  "sample_memory =
     [1 \<mapsto> \<lparr>prev_ptr = 3, next_ptr = 2, priv = 0\<rparr>, 2 \<mapsto> \<lparr>prev_ptr = 1, next_ptr = 3, priv = 20\<rparr>,
      3 \<mapsto> \<lparr>prev_ptr = 2, next_ptr = 1, priv = 30\<rparr>, 4 \<mapsto> \<lparr>prev_ptr = 0, next_ptr = 0, priv = 40\<rparr>,
      5 \<mapsto> \<lparr>prev_ptr = 5, next_ptr = 5, priv = 0\<rparr>]"

lemma sample_memory_lists: "is_list sample_memory 1 [2, 3]" "is_list sample_memory 5 []"
  "4 \<in> dom sample_memory"
  by (simp_all add: sample_memory_def is_list_def next_of_def prev_of_def)

text \<open>C7. The list operations on a well-formed list return, that is, they touch allocated nodes only,
  and write nothing but the links between a node and its two neighbours: the contents and the
  allocation of all nodes and every other link in memory are as before. For an allocated node that is
  not in the list, qdma_list_insert_before and qdma_list_insert_after put it at the place they name
  and qdma_list_add_tail at the end; for a node of the list, qdma_list_del takes it out, writing the
  link of each neighbour to the other and leaving the links of the node itself.\<close>

theorem list_operations:
  assumes "is_list h head (ys @ zs)" "n \<notin> set (head # ys @ zs)" "n \<noteq> NULL" "n \<in> dom h"
  shows "(\<exists>h1. qdma_list_insert_before n (after_at head zs) h = Some h1 \<and> is_list h1 head (ys @ n # zs) \<and>
        links_in h h1 (before_at head ys) n (after_at head zs) \<and> dom h1 = dom h) \<and>
     (\<exists>h1. qdma_list_insert_after n (before_at head ys) h = Some h1 \<and> is_list h1 head (ys @ n # zs) \<and>
        links_in h h1 (before_at head ys) n (after_at head zs) \<and> dom h1 = dom h) \<and>
     (\<exists>h1. qdma_list_add_tail n head h = Some h1 \<and> is_list h1 head (ys @ zs @ [n]) \<and>
        links_in h h1 (before_at head (ys @ zs)) n head \<and> dom h1 = dom h) \<and>
     (\<forall>us m vs. ys @ zs = us @ m # vs \<longrightarrow>
        (\<exists>h1. qdma_list_del m h = Some h1 \<and> is_list h1 head (us @ vs) \<and>
          links_out h h1 (before_at head us) (after_at head vs) \<and> dom h1 = dom h))"
proof (intro conjI allI impI)
  show "\<exists>h1. qdma_list_insert_before n (after_at head zs) h = Some h1 \<and> is_list h1 head (ys @ n # zs) \<and>
        links_in h h1 (before_at head ys) n (after_at head zs) \<and> dom h1 = dom h"
    "\<exists>h1. qdma_list_insert_after n (before_at head ys) h = Some h1 \<and> is_list h1 head (ys @ n # zs) \<and>
        links_in h h1 (before_at head ys) n (after_at head zs) \<and> dom h1 = dom h"
    by (rule insert_effect(1,2) [OF assms])+
  show "\<exists>h1. qdma_list_add_tail n head h = Some h1 \<and> is_list h1 head (ys @ zs @ [n]) \<and>
        links_in h h1 (before_at head (ys @ zs)) n head \<and> dom h1 = dom h"
    using insert_effect(3) [of h head "ys @ zs" "[]" n] assms by simp
  fix us m vs assume "ys @ zs = us @ m # vs"
  then show "\<exists>h1. qdma_list_del m h = Some h1 \<and> is_list h1 head (us @ vs) \<and>
      links_out h h1 (before_at head us) (after_at head vs) \<and> dom h1 = dom h"
    using del_effect [of h head us m vs] assms(1) by simp
qed

text \<open>The node 4 put before the node 3, and the node 2 taken out: its own links stay, and only the link
  of the head forward and of the node 3 back are written.\<close>

theorem list_operations_witness:
  "(\<exists>h. qdma_list_insert_before 4 3 sample_memory = Some h \<and> is_list h 1 [2, 4, 3] \<and>
      next_of h 2 = Some 4 \<and> prev_of h 5 = Some 5) \<and>
   (\<exists>h. qdma_list_del 2 sample_memory = Some h \<and> is_list h 1 [3] \<and> next_of h 1 = Some 3 \<and>
      prev_of h 3 = Some 1 \<and> next_of h 2 = Some 3 \<and> next_of h 5 = Some 5)"
proof -
  have l: "is_list sample_memory 1 ([2] @ [3])" using sample_memory_lists by simp
  have n: "4 \<notin> set (1 # [2] @ [3 :: addr])" "4 \<noteq> NULL" by simp_all
  note ops = list_operations [OF l n sample_memory_lists(3)]
  have "\<exists>h. qdma_list_insert_before 4 3 sample_memory = Some h \<and> is_list h 1 [2, 4, 3] \<and>
      links_in sample_memory h 2 4 3"
    using ops by auto
  moreover have "\<exists>h. qdma_list_del 2 sample_memory = Some h \<and> is_list h 1 ([] @ [3]) \<and>
      links_out sample_memory h (before_at 1 []) (after_at 1 [3])"
    using ops [THEN conjunct2, THEN conjunct2, THEN conjunct2, rule_format, of "[]" 2 "[3]"] by auto
  moreover have "next_of sample_memory 2 = Some 3" "next_of sample_memory 5 = Some 5" "prev_of sample_memory 5 = Some 5"
    by (simp_all add: sample_memory_def next_of_def prev_of_def)
  ultimately show ?thesis by (auto simp: links_in_def links_out_def)
qed

text \<open>Deleting a node from one list and adding it to another, with no node in common, leaves both
  lists well formed, the node last in the second, and the data of every node as it was.\<close>

theorem list_move_between:
  assumes "is_list h a (ys @ n # zs)" "is_list h b ws" "set (a # ys @ n # zs) \<inter> set (b # ws) = {}"
  shows "\<exists>h'. Option.bind (qdma_list_del n h) (qdma_list_add_tail n b) = Some h' \<and>
    is_list h' a (ys @ zs) \<and> is_list h' b (ws @ [n]) \<and> node_data h' = node_data h"
  by (rule ql.move_between [OF assms])

theorem list_move_between_witness:
  "\<exists>h. Option.bind (qdma_list_del 2 sample_memory) (qdma_list_add_tail 2 5) = Some h \<and>
     is_list h 1 [3] \<and> is_list h 5 [2]"
proof -
  have "is_list sample_memory 1 ([] @ 2 # [3])" using sample_memory_lists by simp
  from list_move_between [OF this sample_memory_lists(2)] show ?thesis by auto
qed

text \<open>C10. A loop with qdma_list_for_each_safe whose body deletes the nodes that satisfy a condition
  ends, visits every node, and leaves the list of the other nodes in their order.\<close>

theorem for_each_safe_deletes:
  assumes "is_list h head xs"
  shows "\<exists>h'. qdma_list_for_each_safe (\<lambda>a h. if P a then qdma_list_del a h else Some h) head h = Some h' \<and>
    is_list h' head (filter (\<lambda>a. \<not> P a) xs) \<and> node_data h' = node_data h"
proof -
  have pos: "next_of h head = Some (after_at head xs)"
    using is_list_neighbours(1) [of h head "[]" xs] assms by simp
  have "after_at head xs \<in> dom h"
    using is_list_allocated [OF assms] after_at_in [of xs head] by blast
  then obtain n where n: "next_of h (after_at head xs) = Some n" by (auto simp: next_of_def)
  have "is_list h head ([] @ xs)" using assms by simp
  from for_each_safe_filter [OF this, of n P] n
  show ?thesis by (auto simp: qdma_list_for_each_safe_def pos only_links_def simp del: hd_append2)
qed

theorem for_each_safe_deletes_witness:
  "\<exists>h. qdma_list_for_each_safe (\<lambda>a h. if a = 2 then qdma_list_del a h else Some h) 1 sample_memory = Some h \<and>
     is_list h 1 [3]"
  using for_each_safe_deletes [OF sample_memory_lists(1), of "\<lambda>a. a = 2"] by auto

end
