(* ===== verification/FreeListHeap.thy ===== *)
theory FreeListHeap
  imports ResourceInv QdmaList
begin

text \<open>
  qdma_submit_to_free_list on memory: the free list as the linked nodes it is in the code. The
  functions follow the two loops, with every access to a node or to a resource entry checked, and
  implement the function on lists of ResourceMgmt.
  A resource entry and its list node are one object: the pointer to the entry stands for the
  pointer to its node too, and qdma_memfree takes both away. The parameter p is the result of
  the one qdma_calloc that a call may make: null, or the address of an object that is not in use.
\<close>

section \<open>Memory of the resource manager\<close>

record rm_memory =
  nodes :: memory
  ents :: "addr \<Rightarrow> qdma_resource_entry option"

definition qdma_free_entry_create :: "addr \<Rightarrow> int \<Rightarrow> int \<Rightarrow> rm_memory \<Rightarrow> rm_memory" where
  "qdma_free_entry_create p q_base q_total M =
     (if p = NULL then M
      else M\<lparr>nodes := (nodes M)(p \<mapsto> \<lparr>prev_ptr = NULL, next_ptr = NULL, priv = NULL\<rparr>),
             ents := (ents M)(p \<mapsto> \<lparr>qbase = q_base, total_q = q_total\<rparr>)\<rparr>)"

definition qdma_memfree :: "addr \<Rightarrow> rm_memory \<Rightarrow> rm_memory" where
  "qdma_memfree p M = M\<lparr>nodes := (nodes M)(p := None), ents := (ents M)(p := None)\<rparr>"

text \<open>The insertion loop. The boolean says that the function has returned from inside it.\<close>

partial_function (option) submit_insert_from ::
  "addr \<Rightarrow> qdma_dev_entry \<Rightarrow> addr \<Rightarrow> addr \<Rightarrow> addr \<Rightarrow> rm_memory \<Rightarrow>
   (bool \<times> qdma_dev_entry \<times> rm_memory) option" where
  "submit_insert_from p dev head pos tmp M =
     (if pos = head then Some (False, dev, M)
      else do {
        node \<leftarrow> QDMA_LIST_GET_DATA pos (nodes M);
        e \<leftarrow> ents M node;
        stop \<leftarrow> (if qbase e > qbase (entry dev) then Some True
                else qdma_list_is_last_entry pos head (nodes M));
        if stop then
          let M = qdma_free_entry_create p (qbase (entry dev)) (total_q (entry dev)) M in
          if p = NULL then Some (True, dev, M)
          else do {
            h \<leftarrow> QDMA_LIST_SET_DATA p p (nodes M);
            h \<leftarrow> (if qbase e > qbase (entry dev) then qdma_list_insert_before p node h
                  else qdma_list_add_tail p head h);
            Some (False, dev\<lparr>entry := no_queues\<rparr>, M\<lparr>nodes := h\<rparr>) }
        else do {
          t \<leftarrow> next_of (nodes M) tmp;
          submit_insert_from p dev head tmp t M } })"

text \<open>The de-fragmentation loop, with the stretch node.\<close>

partial_function (option) defragment_from ::
  "addr \<Rightarrow> addr \<Rightarrow> addr \<Rightarrow> addr \<Rightarrow> rm_memory \<Rightarrow> rm_memory option" where
  "defragment_from stretch head pos tmp M =
     (if pos = head then Some M
      else do {
        node \<leftarrow> QDMA_LIST_GET_DATA pos (nodes M);
        (s, M) \<leftarrow> (if stretch = NULL then Some (node, M)
          else do {
            se \<leftarrow> ents M stretch;
            e \<leftarrow> ents M node;
            if wrap32 (qbase se + total_q se) = wrap32 (qbase e)
            then do {
              h \<leftarrow> qdma_list_del node (nodes M);
              Some (stretch, qdma_memfree node (M\<lparr>nodes := h,
                ents := (ents M)(stretch \<mapsto> se\<lparr>total_q := wrap32 (total_q se + total_q e)\<rparr>)\<rparr>)) }
            else Some (node, M) });
        t \<leftarrow> next_of (nodes M) tmp;
        defragment_from s head tmp t M })"

definition submit_to_free_list_heap ::
  "addr \<Rightarrow> qdma_dev_entry \<Rightarrow> addr \<Rightarrow> rm_memory \<Rightarrow> (qdma_dev_entry \<times> rm_memory) option" where
  "submit_to_free_list_heap p dev head M =
     (if total_q (entry dev) = 0 then Some (dev, M)
      else do {
        is_empty \<leftarrow> qdma_list_is_empty head (nodes M);
        (returned, dev, M) \<leftarrow> (if is_empty then
            let M = qdma_free_entry_create p (qbase (entry dev)) (total_q (entry dev)) M in
            if p = NULL then Some (True, dev, M)
            else do {
              h \<leftarrow> QDMA_LIST_SET_DATA p p (nodes M);
              h \<leftarrow> qdma_list_add_tail p head h;
              Some (False, dev\<lparr>entry := no_queues\<rparr>, M\<lparr>nodes := h\<rparr>) }
          else do {
            pos \<leftarrow> next_of (nodes M) head;
            tmp \<leftarrow> next_of (nodes M) pos;
            submit_insert_from p dev head pos tmp M });
        if returned then Some (dev, M)
        else do {
          pos \<leftarrow> next_of (nodes M) head;
          tmp \<leftarrow> next_of (nodes M) pos;
          M \<leftarrow> defragment_from NULL head pos tmp M;
          Some (dev, M) } })"

section \<open>Representation\<close>

definition free_list_repr :: "rm_memory \<Rightarrow> addr \<Rightarrow> addr list \<Rightarrow> qdma_resource_entry list \<Rightarrow> bool" where
  "free_list_repr M head xs fl \<longleftrightarrow> is_list (nodes M) head xs \<and>
     (\<forall>x\<in>set xs. node_data (nodes M) x = Some x) \<and> map (ents M) xs = map Some fl"

lemma repr_length: "free_list_repr M head xs fl \<Longrightarrow> length fl = length xs"
  by (auto simp: free_list_repr_def dest: map_eq_imp_length_eq)

lemma repr_at:
  assumes "free_list_repr M head (ys @ x # zs) (fys @ e # fzs)" "length fys = length ys"
  shows "ents M x = Some e" "QDMA_LIST_GET_DATA x (nodes M) = Some x"
    "next_of (nodes M) x = Some (after_at head zs)" "x \<noteq> head" "x \<noteq> NULL"
    "qdma_list_is_last_entry x head (nodes M) = Some (zs = [])"
proof -
  have l: "is_list (nodes M) head (ys @ x # zs)" using assms(1) by (simp add: free_list_repr_def)
  show "ents M x = Some e" "QDMA_LIST_GET_DATA x (nodes M) = Some x"
    using assms by (auto simp: free_list_repr_def QDMA_LIST_GET_DATA_def node_data_def)
  show n: "next_of (nodes M) x = Some (after_at head zs)" by (rule is_list_successor [OF l])
  show "x \<noteq> head" "x \<noteq> NULL" using l by (auto simp: is_list_def)
  have "head \<notin> set zs" using l by (auto simp: is_list_def)
  then have "after_at head zs = head \<longleftrightarrow> zs = []" by (cases zs) auto
  then show "qdma_list_is_last_entry x head (nodes M) = Some (zs = [])"
    by (simp add: qdma_list_is_last_entry_def n)
qed

lemma is_list_cong:
  assumes "is_list h head xs" "\<forall>a\<in>set (head # xs). next_of h' a = next_of h a \<and> prev_of h' a = prev_of h a"
  shows "is_list h' head xs"
proof -
  have "linked h' (head # xs @ [head])"
    by (rule linked_frame [of h]) (use assms in \<open>auto simp: is_list_def butlast_append\<close>)
  then show ?thesis using assms(1) by (simp add: is_list_def)
qed

lemma repr_next_ex:
  assumes "free_list_repr M head (ys @ zs) fl"
  shows "\<exists>t. next_of (nodes M) (after_at head zs) = Some t"
proof -
  have "after_at head zs \<in> set (head # ys @ zs)" by (cases zs) auto
  then have "after_at head zs \<in> dom (nodes M)"
    using assms is_list_allocated unfolding free_list_repr_def by blast
  then show ?thesis by (auto simp: next_of_def)
qed

text \<open>A fresh entry that is linked in between, and an entry that is unlinked and freed.\<close>

lemma fresh_entry:
  fixes b t :: int
  assumes r: "free_list_repr M head (ys @ zs) (fys @ fzs)" and len: "length fys = length ys"
    and p: "p \<notin> dom (nodes M)" "p \<noteq> NULL"
  defines "M1 \<equiv> qdma_free_entry_create p b t M"
  shows "\<exists>h. QDMA_LIST_SET_DATA p p (nodes M1) = Some h \<and>
    (\<exists>h'. qdma_list_insert_before p (after_at head zs) h = Some h' \<and>
      free_list_repr (M1\<lparr>nodes := h'\<rparr>) head (ys @ p # zs) (fys @ \<lparr>qbase = b, total_q = t\<rparr> # fzs)) \<and>
    (zs = [] \<longrightarrow> (\<exists>h'. qdma_list_add_tail p head h = Some h' \<and>
      free_list_repr (M1\<lparr>nodes := h'\<rparr>) head (ys @ [p]) (fys @ [\<lparr>qbase = b, total_q = t\<rparr>])))"
proof -
  have l: "is_list (nodes M) head (ys @ zs)" and dat: "\<forall>x\<in>set (ys @ zs). node_data (nodes M) x = Some x"
    and e: "map (ents M) ys = map Some fys" "map (ents M) zs = map Some fzs"
    using r len unfolding free_list_repr_def by (auto simp: map_eq_append_conv append_eq_append_conv)
  have out: "p \<notin> set (head # ys @ zs)" using is_list_allocated [OF l] p(1) by blast
  define h where "h = (nodes M)(p \<mapsto> \<lparr>prev_ptr = NULL, next_ptr = NULL, priv = p\<rparr>)"
  have s: "QDMA_LIST_SET_DATA p p (nodes M1) = Some h"
    using p by (simp add: QDMA_LIST_SET_DATA_def write_node_def M1_def qdma_free_entry_create_def h_def)
  have lh: "is_list h head (ys @ zs)"
    by (rule is_list_cong [OF l]) (use out in \<open>auto simp: h_def node_simps\<close>)
  have done': "free_list_repr (M1\<lparr>nodes := h'\<rparr>) head (ys @ p # zs) (fys @ \<lparr>qbase = b, total_q = t\<rparr> # fzs)"
    if "is_list h' head (ys @ p # zs)" "only_links S h h'" for h' S
  proof -
    have "node_data h' = (node_data (nodes M))(p \<mapsto> p)"
      using that(2) by (simp add: only_links_def h_def node_simps)
    moreover have "map (ents M1) ys = map (ents M) ys" "map (ents M1) zs = map (ents M) zs"
      "ents M1 p = Some \<lparr>qbase = b, total_q = t\<rparr>"
      using out p by (auto simp: M1_def qdma_free_entry_create_def)
    ultimately show ?thesis
      using that(1) dat e out by (auto simp: free_list_repr_def)
  qed
  have al: "p \<in> dom h" by (simp add: h_def)
  note ins = insert_position [OF lh out p(2) al]
  show ?thesis
  proof (rule exI [of _ h], intro conjI s impI)
    show "\<exists>h'. qdma_list_insert_before p (after_at head zs) h = Some h' \<and>
      free_list_repr (M1\<lparr>nodes := h'\<rparr>) head (ys @ p # zs) (fys @ \<lparr>qbase = b, total_q = t\<rparr> # fzs)"
      using ins(1) done' by blast
    assume z: "zs = []"
    then have "fzs = []" using e(2) by simp
    then show "\<exists>h'. qdma_list_add_tail p head h = Some h' \<and>
      free_list_repr (M1\<lparr>nodes := h'\<rparr>) head (ys @ [p]) (fys @ [\<lparr>qbase = b, total_q = t\<rparr>])"
      using ins(2) [OF z] done' z by auto
  qed
qed

lemma views_free:
  "next_of (h(x := None)) = (next_of h)(x := None)" "prev_of (h(x := None)) = (prev_of h)(x := None)"
  "node_data (h(x := None)) = (node_data h)(x := None)"
  by (auto simp: next_of_def prev_of_def node_data_def)

lemma freed_entry:
  assumes r: "free_list_repr M head (ys @ s # x # zs) (fys @ se # e # fzs)"
    and len: "length fys = length ys"
  shows "\<exists>h. qdma_list_del x (nodes M) = Some h \<and>
    free_list_repr (qdma_memfree x (M\<lparr>nodes := h, ents := (ents M)(s \<mapsto> se')\<rparr>)) head (ys @ s # zs) (fys @ se' # fzs)"
proof -
  have l: "is_list (nodes M) head ((ys @ [s]) @ x # zs)"
    and dat: "\<forall>a\<in>set (ys @ s # x # zs). node_data (nodes M) a = Some a"
    and en: "map (ents M) ys = map Some fys" "map (ents M) zs = map Some fzs"
    using r len unfolding free_list_repr_def by (auto simp: map_eq_append_conv append_eq_append_conv)
  obtain h where h: "qdma_list_del x (nodes M) = Some h" "is_list h head ((ys @ [s]) @ zs)"
    "only_links (set (head # (ys @ [s]) @ zs)) (nodes M) h"
    using del_position [OF l] by blast
  have x: "x \<notin> set (head # (ys @ [s]) @ zs)" and s: "s \<notin> set (ys @ zs)"
    using l by (auto simp: is_list_def)
  have "is_list (h(x := None)) head ((ys @ [s]) @ zs)"
    by (rule is_list_cong [OF h(2)]) (use x in \<open>auto simp: next_of_def prev_of_def\<close>)
  moreover have "\<forall>a\<in>set (ys @ s # zs). node_data (h(x := None)) a = Some a"
    using h(3) dat x by (auto simp: only_links_def views_free)
  moreover have "map ((ents M)(s \<mapsto> se', x := None)) (ys @ s # zs) = map Some (fys @ se' # fzs)"
    using en x s by auto
  ultimately show ?thesis using h(1) by (auto simp: free_list_repr_def qdma_memfree_def)
qed

section \<open>The loops\<close>

lemma entry_eta [simp]: "\<lparr>qbase = qbase e, total_q = total_q e\<rparr> = (e :: qdma_resource_entry)"
  by simp

lemma insert_loop:
  assumes "free_list_repr M head (ys @ xs) (fys @ fxs)" "length fys = length ys" "xs \<noteq> []"
    "next_of (nodes M) (after_at head xs) = Some tmp" "p \<notin> dom (nodes M)" "p \<noteq> NULL"
  shows "\<exists>M' xs'. submit_insert_from p dev head (after_at head xs) tmp M =
      Some (False, dev\<lparr>entry := no_queues\<rparr>, M') \<and>
    free_list_repr M' head xs' (fys @ insert_free (entry dev) fxs)"
  using assms
proof (induction xs arbitrary: ys fys fxs tmp)
  case (Cons x zs)
  obtain e fzs where fxs: "fxs = e # fzs" and lz: "length fzs = length zs"
    using repr_length [OF Cons(2)] Cons(3) by (cases fxs) auto
  note at = repr_at [OF Cons(2) [unfolded fxs] Cons(3)]
  have tmp: "tmp = after_at head zs" using Cons(5) at(3) by simp
  note fr = fresh_entry [OF Cons(2,3,6,7), of "qbase (entry dev)" "total_q (entry dev)"]
  show ?case
  proof (cases "qbase e > qbase (entry dev)")
    case True
    then show ?thesis
      using fr at Cons(7)
      by (subst submit_insert_from.simps) (auto simp: fxs)
  next
    case False
    show ?thesis
    proof (cases "zs = []")
      case True
      have "free_list_repr M head ((ys @ [x]) @ []) ((fys @ [e]) @ [])"
        using Cons(2) True lz by (simp add: fxs)
      from fresh_entry [OF this _ Cons(6,7), of "qbase (entry dev)" "total_q (entry dev)"] Cons(3)
      show ?thesis
        using False True at Cons(7) lz
        by (subst submit_insert_from.simps) (auto simp: fxs)
    next
      case ne: False
      obtain t where t: "next_of (nodes M) (after_at head zs) = Some t"
        using repr_next_ex [of M head "ys @ [x]" zs "fys @ fxs"] Cons(2) by auto
      have "free_list_repr M head ((ys @ [x]) @ zs) ((fys @ [e]) @ fzs)"
        using Cons(2) by (simp add: fxs)
      from Cons(1) [OF this _ ne t Cons(6,7)] Cons(3)
      obtain M' xs' where "submit_insert_from p dev head (after_at head zs) t M =
          Some (False, dev\<lparr>entry := no_queues\<rparr>, M')"
        "free_list_repr M' head xs' ((fys @ [e]) @ insert_free (entry dev) fzs)" by auto
      moreover have "fzs \<noteq> []" using ne lz by auto
      ultimately show ?thesis
        using False ne at t
        by (subst submit_insert_from.simps) (auto simp: fxs tmp)
    qed
  qed
qed simp

lemma insert_loop_no_memory:
  assumes "free_list_repr M head (ys @ xs) (fys @ fxs)" "length fys = length ys" "xs \<noteq> []"
    "next_of (nodes M) (after_at head xs) = Some tmp"
  shows "submit_insert_from NULL dev head (after_at head xs) tmp M = Some (True, dev, M)"
  using assms
proof (induction xs arbitrary: ys fys fxs tmp)
  case (Cons x zs)
  obtain e fzs where fxs: "fxs = e # fzs"
    using repr_length [OF Cons(2)] Cons(3) by (cases fxs) auto
  note at = repr_at [OF Cons(2) [unfolded fxs] Cons(3)]
  have tmp: "tmp = after_at head zs" using Cons(5) at(3) by simp
  obtain t where t: "next_of (nodes M) (after_at head zs) = Some t"
    using repr_next_ex [of M head "ys @ [x]" zs "fys @ fxs"] Cons(2) by auto
  have "free_list_repr M head ((ys @ [x]) @ zs) ((fys @ [e]) @ fzs)"
    using Cons(2) by (simp add: fxs)
  from Cons(1) [OF this _ _ t] Cons(3) show ?case
    using at t
    by (subst submit_insert_from.simps)
       (cases "zs = []"; auto simp: tmp qdma_free_entry_create_def)
qed simp

lemma defragment_loop:
  assumes "free_list_repr M head (ys @ s # xs) (fys @ se # fxs)" "length fys = length ys"
    "xs \<noteq> [] \<longrightarrow> next_of (nodes M) (after_at head xs) = Some tmp"
  shows "\<exists>M' xs'. defragment_from s head (after_at head xs) tmp M = Some M' \<and>
    free_list_repr M' head xs' (fys @ merge_from se fxs)"
  using assms
proof (induction xs arbitrary: ys fys s se fxs M tmp)
  case Nil
  then have "fxs = []" using repr_length [OF Nil(1)] by simp
  with Nil show ?case by (subst defragment_from.simps) auto
next
  case (Cons x zs)
  obtain e fzs where fxs: "fxs = e # fzs"
    using repr_length [OF Cons(2)] Cons(3) by (cases fxs) auto
  note at_s = repr_at [OF Cons(2,3)]
  have r: "free_list_repr M head ((ys @ [s]) @ x # zs) ((fys @ [se]) @ e # fzs)"
    using Cons(2) by (simp add: fxs)
  note at = repr_at [OF r]
  have len: "length (fys @ [se]) = length (ys @ [s])" using Cons(3) by simp
  note at = at [OF len]
  have tmp: "tmp = after_at head zs" using Cons(4) at(3) by simp
  show ?case
  proof (cases "wrap32 (qbase se + total_q se) = wrap32 (qbase e)")
    case True
    let ?se = "se\<lparr>total_q := wrap32 (total_q se + total_q e)\<rparr>"
    obtain h where h: "qdma_list_del x (nodes M) = Some h"
      "free_list_repr (qdma_memfree x (M\<lparr>nodes := h, ents := (ents M)(s \<mapsto> ?se)\<rparr>)) head (ys @ s # zs)
         (fys @ ?se # fzs)"
      using freed_entry [OF Cons(2) [unfolded fxs] Cons(3)] by blast
    let ?M = "qdma_memfree x (M\<lparr>nodes := h, ents := (ents M)(s \<mapsto> ?se)\<rparr>)"
    obtain t where t: "next_of (nodes ?M) (after_at head zs) = Some t"
      using repr_next_ex [of ?M head "ys @ [s]" zs "fys @ ?se # fzs"] h(2) by auto
    from Cons(1) [OF h(2) Cons(3)] t obtain M' xs' where
      "defragment_from s head (after_at head zs) t ?M = Some M'"
      "free_list_repr M' head xs' (fys @ merge_from ?se fzs)" by blast
    then show ?thesis
      using True h(1) at at_s t by (subst defragment_from.simps) (auto simp: fxs tmp)
  next
    case False
    obtain t where t: "next_of (nodes M) (after_at head zs) = Some t"
      using repr_next_ex [of M head "ys @ [s, x]" zs "fys @ se # fxs"] Cons(2) by auto
    from Cons(1) [OF r len] t obtain M' xs' where
      "defragment_from x head (after_at head zs) t M = Some M'"
      "free_list_repr M' head xs' ((fys @ [se]) @ merge_from e fzs)" by blast
    then show ?thesis
      using False at at_s t by (subst defragment_from.simps) (auto simp: fxs tmp)
  qed
qed

lemma first_two:
  assumes "free_list_repr M head xs fl"
  obtains tmp where "next_of (nodes M) head = Some (after_at head xs)"
    "next_of (nodes M) (after_at head xs) = Some tmp"
proof -
  have "is_list (nodes M) head xs" using assms by (simp add: free_list_repr_def)
  then have "next_of (nodes M) head = Some (after_at head xs)"
    using is_list_neighbours(1) [of "nodes M" head "[]" xs] by simp
  then show ?thesis using repr_next_ex [of M head "[]" xs fl] assms that by auto
qed

lemma defragment_list:
  assumes "free_list_repr M head xs fl"
  shows "\<exists>pos tmp M' xs'. next_of (nodes M) head = Some pos \<and> next_of (nodes M) pos = Some tmp \<and>
    defragment_from NULL head pos tmp M = Some M' \<and> free_list_repr M' head xs' (merge_free fl)"
proof -
  obtain tmp where pos: "next_of (nodes M) head = Some (after_at head xs)"
    and tmp: "next_of (nodes M) (after_at head xs) = Some tmp" by (rule first_two [OF assms])
  have "\<exists>M' xs'. defragment_from NULL head (after_at head xs) tmp M = Some M' \<and>
      free_list_repr M' head xs' (merge_free fl)"
  proof (cases xs)
    case Nil
    then show ?thesis
      using assms repr_length [OF assms] by (subst defragment_from.simps) auto
  next
    case (Cons x zs)
    obtain e fzs where fl: "fl = e # fzs" using repr_length [OF assms] Cons by (cases fl) auto
    have r: "free_list_repr M head ([] @ x # zs) ([] @ e # fzs)" using assms Cons fl by simp
    note at = repr_at [OF r, simplified]
    have z: "tmp = after_at head zs" using tmp at(3) Cons by simp
    obtain t where t: "next_of (nodes M) (after_at head zs) = Some t"
      using repr_next_ex [of M head "[x]" zs fl] assms Cons by auto
    obtain M' xs' where
      "defragment_from x head (after_at head zs) t M = Some M'"
      "free_list_repr M' head xs' (merge_from e fzs)" using defragment_loop [OF r, of t] t by force
    then show ?thesis
      using at t by (subst defragment_from.simps) (auto simp: fl Cons z)
  qed
  with pos tmp show ?thesis by auto
qed

lemma repr_empty:
  assumes "free_list_repr M head xs fl"
  shows "qdma_list_is_empty head (nodes M) = Some (fl = [])"
proof -
  have l: "is_list (nodes M) head xs" using assms by (simp add: free_list_repr_def)
  then have "head \<notin> set xs" by (simp add: is_list_def)
  then have "after_at head xs = head \<longleftrightarrow> fl = []" using repr_length [OF assms] by (cases xs) auto
  then show ?thesis
    using is_list_neighbours(1) [of "nodes M" head "[]" xs] l by (simp add: qdma_list_is_empty_def)
qed

section \<open>Properties\<close>

text \<open>C5. qdma_submit_to_free_list on linked nodes implements the function on lists: on a well-formed
  free list, whether the allocation fails (p null) or gives an object that was not in use, it
  returns, so its loops end and no access goes to a freed or unallocated object; the function's
  entry is the one of the list version, and the memory holds exactly its free list.\<close>

theorem submit_to_free_list_refines:
  assumes "free_list_repr M head xs fl" "p \<notin> dom (nodes M)"
  shows "case qdma_submit_to_free_list [p \<noteq> NULL] dev fl of (dev', fl', _) \<Rightarrow>
    \<exists>M' xs'. submit_to_free_list_heap p dev head M = Some (dev', M') \<and> free_list_repr M' head xs' fl'"
proof (cases "total_q (entry dev) = 0")
  case True
  then show ?thesis
    using assms(1) by (auto simp: qdma_submit_to_free_list_def submit_to_free_list_heap_def)
next
  case False
  note empty = repr_empty [OF assms(1)]
  obtain tmp where two: "next_of (nodes M) head = Some (after_at head xs)"
    "next_of (nodes M) (after_at head xs) = Some tmp" by (rule first_two [OF assms(1)])
  have ne: "xs \<noteq> [] \<longleftrightarrow> fl \<noteq> []" using repr_length [OF assms(1)] by auto
  have r: "free_list_repr M head ([] @ xs) ([] @ fl)" using assms(1) by simp
  show ?thesis
  proof (cases "p = NULL")
    case True
    then have "submit_to_free_list_heap p dev head M = Some (dev, M)"
      using False empty two ne insert_loop_no_memory [OF r, of tmp dev]
      by (auto simp: submit_to_free_list_heap_def qdma_free_entry_create_def)
    then show ?thesis using True False assms(1) by (auto simp: qdma_submit_to_free_list_def)
  next
    case p: False
    let ?fl = "if fl = [] then [entry dev] else insert_free (entry dev) fl"
    have "\<exists>M1 xs1. free_list_repr M1 head xs1 ?fl \<and>
      submit_to_free_list_heap p dev head M = do {
        pos \<leftarrow> next_of (nodes M1) head; tmp \<leftarrow> next_of (nodes M1) pos;
        M' \<leftarrow> defragment_from NULL head pos tmp M1; Some (dev\<lparr>entry := no_queues\<rparr>, M') }"
    proof (cases "fl = []")
      case True
      then show ?thesis
        using fresh_entry [of M head "[]" "[]" "[]" "[]" p "qbase (entry dev)" "total_q (entry dev)"]
          r ne assms(2) False p empty
        by (auto simp: submit_to_free_list_heap_def)
    next
      case nonempty: False
      then show ?thesis
        using insert_loop [OF r _ _ two(2) assms(2) p, of dev] ne False p empty two
        by (auto simp: submit_to_free_list_heap_def)
    qed
    then obtain M1 xs1 where "free_list_repr M1 head xs1 ?fl" and step:
      "submit_to_free_list_heap p dev head M = do {
        pos \<leftarrow> next_of (nodes M1) head; tmp \<leftarrow> next_of (nodes M1) pos;
        M' \<leftarrow> defragment_from NULL head pos tmp M1; Some (dev\<lparr>entry := no_queues\<rparr>, M') }"
      by blast
    then obtain pos tmp M' xs' where "next_of (nodes M1) head = Some pos"
      "next_of (nodes M1) pos = Some tmp" "defragment_from NULL head pos tmp M1 = Some M'"
      "free_list_repr M' head xs' (merge_free ?fl)"
      using defragment_list by blast
    then show ?thesis
      using step False p by (auto simp: qdma_submit_to_free_list_def)
  qed
qed

text \<open>A free list with the ranges [0, 4) and [8, 10): head 1, entries 2 and 3.\<close>

definition sample_free_memory :: rm_memory where
  "sample_free_memory =
     \<lparr>nodes = [1 \<mapsto> \<lparr>prev_ptr = 3, next_ptr = 2, priv = 0\<rparr>, 2 \<mapsto> \<lparr>prev_ptr = 1, next_ptr = 3, priv = 2\<rparr>,
        3 \<mapsto> \<lparr>prev_ptr = 2, next_ptr = 1, priv = 3\<rparr>],
      ents = [2 \<mapsto> \<lparr>qbase = 0, total_q = 4\<rparr>, 3 \<mapsto> \<lparr>qbase = 8, total_q = 2\<rparr>]\<rparr>"

theorem submit_to_free_list_refines_witness:
  "\<exists>M' xs'. submit_to_free_list_heap 4 (new_dev 1\<lparr>entry := \<lparr>qbase = 4, total_q = 4\<rparr>\<rparr>) 1 sample_free_memory =
      Some (new_dev 1, M') \<and> free_list_repr M' 1 xs' [\<lparr>qbase = 0, total_q = 10\<rparr>]"
proof -
  have "free_list_repr sample_free_memory 1 [2, 3] [\<lparr>qbase = 0, total_q = 4\<rparr>, \<lparr>qbase = 8, total_q = 2\<rparr>]"
    "4 \<notin> dom (nodes sample_free_memory)"
    by (simp_all add: sample_free_memory_def free_list_repr_def is_list_def next_of_def prev_of_def
        node_data_def)
  from submit_to_free_list_refines [OF this, of "new_dev 1\<lparr>entry := \<lparr>qbase = 4, total_q = 4\<rparr>\<rparr>"]
  show ?thesis
    by (simp add: qdma_submit_to_free_list_def new_dev_def no_queues_def wrap32_def)
qed

end
