(* ===== verification/Spec2Isabelle.thy ===== *)
theory Spec2Isabelle
  imports QueueContextProps C2hStreamProps ErrProps MboxHw MboxProps DescqMMProps ResourceAlloc FreeListHeap
begin

text \<open>
  A verification development for the access library of the QDMA Linux driver,
  SW/linux-kernel/driver/libqdma/qdma_access under src/, and for the parts of the driver library
  above it (libqdma) that set up and run queues. QDMA is a PCIe DMA engine with up to
  2048 queues. The library programs the queue contexts of the engine through a few indirect
  registers (one copy of this code per IP variant) and keeps the books on which PCI function
  owns which queues; virtual functions reach both through a mailbox to their physical
  function.

  PARTS AND THEORIES

  Prelude: C integer types as words, the error codes of qdma_access_errors.h, the rewriting
  collections field_simps, io_simps and rm_simps, and generic lemmas.

  QdmaField: the macros FIELD_SHIFT, FIELD_SET, FIELD_GET, GENMASK and BIT and both variants of
  get_trailing_zeros, of qdma_access_common.h. Lemmas: the lowest set bit, and the laws of
  field set and get that every codec proof uses.

  RegIo: the register lock of qdma_platform.c, hw_monitor_reg with its 32-bit counter and the CSR
  block transfers of qdma_access_common.c. The device is a parameter: a record of the functions
  readl, writel and udelay on a device state of any type.

  QdmaContexts: the context structures as records with the C widths, their zeroed values (memset),
  the command enumerations, and the locale ctxt_codec: an encoder into n words and a decoder
  such that decoding what was encoded gives the stored form of a structure.

  IndirectCtxt: the command word of union qdma_ind_ctxt_cmd and the sequences
  *_indirect_reg_write, _read, _clear and _invalidate of eqdma_soft_access.c and
  qdma_soft_access.c. The variants have textual copies that differ in register addresses only,
  so the sequence is defined once over the addresses and instantiated per variant. Lemmas: the
  lock is released on every path, and on a device that follows the register specification
  (ctxt_hardware) a write stores the words under the selector and queue, a read gets them back,
  a clear zeroes them, and other selectors and queues are not touched. Inside ctxt_codec the
  same is lifted to structures. A concrete device (sim_dev) shows that the specification can be
  met; it is used for witnesses only.

  EqdmaCtxt and SoftCtxt: every context of the enhanced soft IP (eqdma_soft_access.c) and of the
  soft IP (qdma_soft_access.c): encoder *_words, decoder *_fields, stored form, the four register
  functions and the dispatcher *_ctx_conf of the access table. Each codec is an interpretation
  of ctxt_codec. The stored form says what a field loses: bits beyond its register width,
  and the bits that the code drops by mistake. Cpm5Ctxt: the same for CPM5
  (eqdma_cpm5_access.c), whose functions are proved to be those of the enhanced soft IP except
  for the function map. Cpm4Indirect and Cpm4Ctxt: CPM4 (qdma_cpm4_access.c), which has four data
  registers, writes only the words a context has and keeps the interrupt vector of a queue in
  a map of its own; the stored form of a software context carries the vector it was written with.

  ErrProc, ErrTables and ErrProps: hardware errors. The tables *_err_info of the four variants, the
  handlers that dump registers and contexts, and *_hw_error_process, _enable and _get_error_name,
  defined once over what a variant has of its own (err_variant). The locale err_table states
  what processing and enabling rely on (one status register per group, distinct masks, handlers
  that leave the status alone) and is interpreted for each variant. Strings of the log are
  left out; the errors reported are the list of table indices whose names are logged.

  CsrConf: capability reads, the CSR arrays (ring sizes, buffer sizes, timers, counters), the
  writeback interval and the channel control of all four variants. Their shapes are shared; what
  a variant has of its own is the register addresses and the capability it asks for. The locale
  csr_config states what reading after writing gives and is interpreted for each variant.
  RegList: the register tables *_config_regs of the four register dump files, with addresses,
  repetitions and read permissions, and *_read_reg_list, which reads a group of them for a
  virtual function.

  QueueRegs: the registers of a queue that the data path writes (*_queue_pidx_update,
  *_queue_cmpt_cidx_update and _read, *_queue_intr_cidx_update), the search for the user BAR and the
  legacy interrupt. Lemmas: what is read after a write, and that doorbells of different kinds and
  queues are different registers.
  DefaultCsr: *_set_default_global_csr and *_set_perf_opt of the four variants, register by
  register, and *_init_ctxt_memory, with the locale context_clear (a clear that zeroes one
  context) interpreted for three variants; CPM4 is defined but its clear has a law of its own.
  DefaultCsrProps: the default values are those read back through the access table, for the
  arrays that the device has; the others keep their values or are refused.

  AccessTable: struct qdma_hw_access, the table of functions a variant provides, with the members
  that the mailbox protocol calls and the values that qdma_hw_access_init gives them for three
  variants. The locale context_table is the contract of the table (which contexts each function
  can change), interpreted for each variant.
  AccessInit: the rest of qdma_access_common.c: the check of the configuration BAR, version reads,
  qdma_hw_access_init with the table of all members that do not print, function level
  reset, error interrupt, function number, and the map to error codes of qdma_platform.c.
  Lemmas: which variant's functions the table holds, by the numbers of the version register.

  MboxMsg: the messages of qdma_mbox_protocol.c, their composers and parsers and the handler of a
  virtual function. MboxHandler: qdma_mbox_pf_rcv_msg_handler with one definition per branch,
  on a state of device, resource manager and allocation outcomes. MboxIsolation: which contexts
  a request can change, inside context_table, and what it can change in the resource manager.
  MboxProps: isolation of virtual functions for one request and for runs of requests, with the
  one request that breaks it (a reset of a completion context only is not range checked), the
  invariant of the resource manager, the form of answers, queue requests from end to end.
  MboxHw: the mailbox registers, sending and receiving, and the transfer of a message.

  ResourceMgmt: qdma_resource_mgmt.c on lists of entries: lookup, the free list (insertion,
  de-fragmentation, search, splitting), requests with restore, creation and destruction of
  resources and functions, queue range checks and active counts. Integers are int with the
  32-bit wrap-around written out, and each qdma_calloc takes its outcome from a list.
  ResourceRanges: counting the owners of a queue, and how each step changes the count.
  ResourceInv: the invariant rm_ok, a step relation rm_step with the public calls as steps, the
  reachable states rm_reach, and the properties of reachable states.
  ResourceAlloc: what the search grants, outcomes of requests, order of the free list,
  de-fragmentation, and concrete runs where the promise ends.

  QdmaList: the linked lists of qdma_list.c and qdma_list.h on a memory in which every access is
  checked, the abstraction is_list to lists of nodes, and the locale linked_lists with the
  laws that users of the lists rely on, interpreted by the operations of the code.
  FreeListHeap: qdma_submit_to_free_list, the function with the most list surgery, on linked
  nodes with its two loops, and the refinement to the version on lists of ResourceMgmt.

  DescqMM: the memory mapped queues of qdma_descq.c: qdma_sgl_find_offset, the loops of
  descq_mm_proc_request that cut requests into descriptors of the ring, qdma_update_request,
  completion and credits. The loop over the work list need not end, so it is a partial function
  with values in the option type. DescqMMStream: the bytes a request and a descriptor denote,
  and that each loop writes the next bytes, for queues without a keyhole aperture. DescqMMRing: the
  invariants of the ring and of the accounting of descriptors, completion in closed form, one
  round. DescqMMKeyhole: the loops with or without an aperture, by the number of bytes they cut
  (mm_ring_inv), and the entry too long for an EQDMA 5 keyhole that ends them. DescqMMProps: the
  properties.

  QueueConf: the configuration of a queue (libqdma_export.h, qdma_descq.h, xdev.h) and the contexts
  qdma_context.c composes from it, for a physical function and as the request of a virtual one.
  QueueContext: programming, clearing and reading the contexts of a queue through the access
  table, with the locale queue_table (a write stores the encoding under its key, a clear zeroes
  it) interpreted for three variants. QueueContextProps: what a start programs, what a virtual
  function gets instead (indices found again by their values, so the first of equal ones, and six
  fields zero), and how errors are mapped.

  C2hFreeList: the receive buffers of a streaming queue (qdma_st_c2h.c up to
  descq_flq_alloc_resource): pages with their reference counts and DMA mappings, buffers cut from
  them, and the clean-up on every failure. C2hFreeListProps: the accounts of references and
  mappings, and the layout of the buffers in the pages and in the ring.
  C2hStream: the rest of qdma_st_c2h.c, and qdma_request_submit_st_c2h of libqdma_export.c: buffers given back
  or replaced, copying received bytes into requests, completion entries, adaptive moderation,
  processing of completions, peeking and reading. The callbacks of an upper layer are functions in
  a record. Loops over pages that need not end are partial functions. C2hStreamProps: the number of buffers
  of a packet, the bytes a read delivers (memory is put_bytes of the unread bytes into the room of
  the request), the well-formedness st_wf kept by every operation, and where the code falls short.

  HOW THE PARTS MEET

  The codecs rest on QdmaField, the context functions on IndirectCtxt, and that on RegIo. The
  mailbox handler calls the context functions through the access table and the resource
  manager directly; its isolation theorems join the contract of the table with the invariant
  that no queue is in range for two functions. The free list of the resource manager is a list of QdmaList; FreeListHeap connects the two views.
  A call of the resource manager is one step of the model: its update runs under the resource
  mutex. The lookup before it is a section of its own, so calls that overlap on the same resource
  or function are not covered. The register lock is part of the device handle, since its
  release on every path is one of the properties.

  BOUNDS

  Polling: the default interval and time-out give 50001 reads, counted exactly; the counter wraps
  at 2 ^ 32 as in the code. Resources: base and size of a device stay below 2 ^ 31, since base is
  an int; a request must not wrap (request_ok), and ResourceAlloc shows what happens when it
  does. Device indices are assumed not to wrap. The window of a request on a keyhole queue, from
  its address on, must not go round the end of the address space (window_ok). No fuel is used: loops over lists are structural
  recursion, and the loops on memory are partial functions whose termination is part of
  their theorems.

  NOT MODELLED

  The byte layout of the messages, and with it the memory copies of qdma_mbox_protocol.c; the
  streaming transmit queues of qdma_descq.c. In the receive side the waiting for a request and the locks
  are outside the model, and its invariant is proved for queues without callbacks of an upper
  layer whose completion entries report no packet larger than the ring (the code has no check). The functions that print register dumps only build text. The rest of the
  driver is kernel glue (PCI, interrupts, threads, netlink, character and network devices), the
  applications are option parsing and file I/O, and the
  hardware design is not C.
\<close>

end
